(* ===== verification/Prelude.thy ===== *)
theory Prelude
  imports Main "HOL-Library.List_Lexorder" "HOL-Library.Char_ord"
begin

text \<open>
  Generic material shared by the components: the exceptions the Python code raises as values
  (\<open>sb_error\<close>), sequencing of steps that may raise (\<open>bind_err\<close>), chains of guards that each
  return a reason code or nothing (\<open>first_reason\<close>), and keyed tables of rows
  (\<open>tbl_get\<close>, \<open>tbl_set\<close>) with the lemmas the journal and the transition engine
  use as simplification rules.
\<close>

named_theorems journal_simps \<open>reading a table after a write to the same or another table\<close>

section \<open>Exceptions as values\<close>

text \<open>
  One constructor per exception class of \<^verbatim>\<open>domain/exceptions.py\<close>,
  \<^verbatim>\<open>persistence/exceptions.py\<close>, \<^verbatim>\<open>providers/exceptions.py\<close> and the services'
  \<^verbatim>\<open>exceptions.py\<close>, and Python's own; the argument is the \<open>reason_code\<close> (or the message, where the
  class has no reason code). \<open>SimulatedCrash\<close> stands for the crash injections, which derive from
  \<open>BaseException\<close>, and \<open>OtherException\<close> for a class, named by its argument, that only a provider's
  client or a deployment's own code raises. \<open>LoopFuelSpent\<close> is no exception: it is the answer of a
  loop's model when the fuel it was given is used up.
\<close>

datatype sb_error =
    ContractValidationError string
  | PersistenceError string
  | DuplicateKeyError string
  | ConcurrencyConflictError string
  | NotFoundError string
  | AppendOnlyViolationError
  | MalformedRowError string
  | PyValueError string
  | PyAssertionError
  | PyRuntimeError string
  | PyRecursionError
  | PyKeyError
  | UnsupportedEffectError
  | DuplicateEffectRegistrationError
  | StatebackRuntimeError string
  | StatebackRecoveryError string
  | StatebackCompensationError string
  | OtherException string
  | SimulatedCrash string
  | LoopFuelSpent

text \<open>The classes an \<open>except PersistenceError\<close>, \<open>except Exception\<close> clause catches, and \<open>type(e).__name__\<close>.\<close>

definition is_persistence_error :: "sb_error \<Rightarrow> bool" where
  "is_persistence_error e =
     (case e of PersistenceError _ \<Rightarrow> True | DuplicateKeyError _ \<Rightarrow> True | ConcurrencyConflictError _ \<Rightarrow> True
      | NotFoundError _ \<Rightarrow> True | AppendOnlyViolationError \<Rightarrow> True | MalformedRowError _ \<Rightarrow> True
      | _ \<Rightarrow> False)"

definition is_exception :: "sb_error \<Rightarrow> bool" where
  "is_exception e = (case e of SimulatedCrash _ \<Rightarrow> False | LoopFuelSpent \<Rightarrow> False | _ \<Rightarrow> True)"

definition exception_type_name :: "sb_error \<Rightarrow> string" where
  "exception_type_name e =
     (case e of
        ContractValidationError _ \<Rightarrow> ''ContractValidationError''
      | PersistenceError _ \<Rightarrow> ''PersistenceError''
      | DuplicateKeyError _ \<Rightarrow> ''DuplicateKeyError''
      | ConcurrencyConflictError _ \<Rightarrow> ''ConcurrencyConflictError''
      | NotFoundError _ \<Rightarrow> ''NotFoundError''
      | AppendOnlyViolationError \<Rightarrow> ''AppendOnlyViolationError''
      | MalformedRowError _ \<Rightarrow> ''MalformedRowError''
      | PyValueError _ \<Rightarrow> ''ValueError''
      | PyAssertionError \<Rightarrow> ''AssertionError''
      | PyRuntimeError _ \<Rightarrow> ''RuntimeError''
      | PyRecursionError \<Rightarrow> ''RecursionError''
      | PyKeyError \<Rightarrow> ''KeyError''
      | UnsupportedEffectError \<Rightarrow> ''UnsupportedEffectError''
      | DuplicateEffectRegistrationError \<Rightarrow> ''DuplicateEffectRegistrationError''
      | StatebackRuntimeError _ \<Rightarrow> ''StatebackRuntimeError''
      | StatebackRecoveryError _ \<Rightarrow> ''StatebackRecoveryError''
      | StatebackCompensationError _ \<Rightarrow> ''StatebackCompensationError''
      | OtherException name \<Rightarrow> name
      | SimulatedCrash _ \<Rightarrow> ''SimulatedCrash''
      | LoopFuelSpent \<Rightarrow> [])"

type_synonym 'a fallible = "sb_error + 'a"

definition bind_err :: "'a fallible \<Rightarrow> ('a \<Rightarrow> 'b fallible) \<Rightarrow> 'b fallible" where
  "bind_err m f = (case m of Inl e \<Rightarrow> Inl e | Inr x \<Rightarrow> f x)"

lemma bind_err_simps [simp]:
  "bind_err (Inl e) f = Inl e"
  "bind_err (Inr x) f = f x"
  by (simp_all add: bind_err_def)

lemma bind_err_Inr_iff [simp]:
  "bind_err m f = Inr y \<longleftrightarrow> (\<exists>x. m = Inr x \<and> f x = Inr y)"
  by (cases m) auto

lemma bind_err_InrE:
  assumes "bind_err m f = Inr y"
  obtains x where "m = Inr x" and "f x = Inr y"
  using assms by auto

lemma bind_err_cong [fundef_cong]:
  "m = m' \<Longrightarrow> (\<And>x. m' = Inr x \<Longrightarrow> f x = g x) \<Longrightarrow> bind_err m f = bind_err m' g"
  by (cases m') auto

lemma bind_err_assoc: "bind_err (bind_err m f) g = bind_err m (\<lambda>x. bind_err (f x) g)"
  by (cases m) auto

definition guard_err :: "bool \<Rightarrow> sb_error \<Rightarrow> unit fallible" where
  "guard_err ok e = (if ok then Inr () else Inl e)"

lemma guard_err_Inr [simp]: "guard_err ok e = Inr u \<longleftrightarrow> ok"
  by (simp add: guard_err_def)

lemma guard_err_simps [simp]: "guard_err True e = Inr ()" "guard_err False e = Inl e"
  by (simp_all add: guard_err_def)

primrec map_err :: "('a \<Rightarrow> 'b fallible) \<Rightarrow> 'a list \<Rightarrow> 'b list fallible" where
  "map_err f [] = Inr []"
| "map_err f (x # xs) =
     bind_err (f x) (\<lambda>y. bind_err (map_err f xs) (\<lambda>ys. Inr (y # ys)))"

lemma map_err_cong [fundef_cong]:
  "xs = ys \<Longrightarrow> (\<And>x. x \<in> set ys \<Longrightarrow> f x = g x) \<Longrightarrow> map_err f xs = map_err g ys"
  by (induction ys arbitrary: xs) auto

lemma map_err_roundtrip: "(\<And>x. x \<in> set xs \<Longrightarrow> f (g x) = Inr x) \<Longrightarrow> map_err f (map g xs) = Inr xs"
  by (induction xs) auto

lemma map_err_length: "map_err f xs = Inr ys \<Longrightarrow> length ys = length xs"
  by (induction xs arbitrary: ys) auto

lemma map_err_all2: "map_err f xs = Inr ys \<Longrightarrow> list_all2 (\<lambda>x y. f x = Inr y) xs ys"
  by (induction xs arbitrary: ys) auto

section \<open>Reason codes\<close>

text \<open>
  A precondition of the source returns \<open>None\<close> or the reason code of the first failing check. A
  list of \<open>(failed, reason)\<close> pairs in source order is that chain of early returns.
\<close>

primrec first_reason :: "(bool \<times> string) list \<Rightarrow> string option" where
  "first_reason [] = None"
| "first_reason (c # cs) = (if fst c then Some (snd c) else first_reason cs)"

lemma first_reason_None_iff: "first_reason cs = None \<longleftrightarrow> (\<forall>c \<in> set cs. \<not> fst c)"
  by (induction cs) auto

definition or_else :: "string option \<Rightarrow> string option \<Rightarrow> string option" where
  "or_else a b = (case a of None \<Rightarrow> b | Some r \<Rightarrow> Some r)"

lemma or_else_None [simp]: "or_else a b = None \<longleftrightarrow> a = None \<and> b = None"
  by (cases a) (simp_all add: or_else_def)

lemma or_else_simps [simp]: "or_else None b = b" "or_else (Some r) b = Some r"
  by (simp_all add: or_else_def)

section \<open>Keyed tables\<close>

text \<open>
  A table is the list of its rows in insertion order. \<open>tbl_get\<close> is a primary-key lookup;
  \<open>tbl_set\<close> is an \<^verbatim>\<open>UPDATE ... WHERE key = k\<close>.
\<close>

definition tbl_get :: "('r \<Rightarrow> 'k) \<Rightarrow> 'k \<Rightarrow> 'r list \<Rightarrow> 'r option" where
  "tbl_get key k rows = find (\<lambda>r. key r = k) rows"

definition tbl_set :: "('r \<Rightarrow> 'k) \<Rightarrow> 'k \<Rightarrow> ('r \<Rightarrow> 'r) \<Rightarrow> 'r list \<Rightarrow> 'r list" where
  "tbl_set key k f rows = map (\<lambda>r. if key r = k then f r else r) rows"

definition tbl_keys :: "('r \<Rightarrow> 'k) \<Rightarrow> 'r list \<Rightarrow> 'k list" where
  "tbl_keys key rows = map key rows"

lemma tbl_get_Nil [simp]: "tbl_get key k [] = None"
  by (simp add: tbl_get_def)

lemma tbl_get_Cons [simp]:
  "tbl_get key k (r # rows) = (if key r = k then Some r else tbl_get key k rows)"
  by (simp add: tbl_get_def)

lemma tbl_get_Some_key: "tbl_get key k rows = Some r \<Longrightarrow> key r = k"
  by (induction rows) (auto split: if_splits)

lemma tbl_get_Some_mem: "tbl_get key k rows = Some r \<Longrightarrow> r \<in> set rows"
  by (induction rows) (auto split: if_splits)

lemma tbl_get_None_iff: "tbl_get key k rows = None \<longleftrightarrow> k \<notin> set (tbl_keys key rows)"
  by (induction rows) (auto simp: tbl_keys_def)

lemma tbl_get_append:
  "tbl_get key k (rows @ more) =
     (case tbl_get key k rows of None \<Rightarrow> tbl_get key k more | Some r \<Rightarrow> Some r)"
  by (induction rows) auto

lemma tbl_get_snoc:
  "tbl_get key k (rows @ [r]) =
     (case tbl_get key k rows of None \<Rightarrow> (if key r = k then Some r else None) | Some x \<Rightarrow> Some x)"
  by (simp add: tbl_get_append split: option.split)

lemma tbl_get_set_same:
  "(\<And>r. key r = k \<Longrightarrow> key (f r) = k) \<Longrightarrow>
   tbl_get key k (tbl_set key k f rows) = map_option f (tbl_get key k rows)"
  by (induction rows) (auto simp: tbl_set_def)

lemma tbl_get_set_other:
  assumes "\<And>r. key r = k \<Longrightarrow> key (f r) = k" and "k' \<noteq> k"
  shows "tbl_get key k' (tbl_set key k f rows) = tbl_get key k' rows"
  using assms by (induction rows) (auto simp: tbl_set_def)

lemma tbl_keys_set:
  "(\<And>r. key r = k \<Longrightarrow> key (f r) = k) \<Longrightarrow> tbl_keys key (tbl_set key k f rows) = tbl_keys key rows"
  by (induction rows) (auto simp: tbl_set_def tbl_keys_def)

lemma tbl_keys_append [simp]: "tbl_keys key (rows @ more) = tbl_keys key rows @ tbl_keys key more"
  by (simp add: tbl_keys_def)

lemma tbl_keys_Nil [simp]: "tbl_keys key [] = []"
  by (simp add: tbl_keys_def)

lemma tbl_keys_Cons [simp]: "tbl_keys key (r # rows) = key r # tbl_keys key rows"
  by (simp add: tbl_keys_def)

lemma tbl_get_mem:
  "distinct (tbl_keys key rows) \<Longrightarrow> r \<in> set rows \<Longrightarrow> tbl_get key (key r) rows = Some r"
  by (induction rows) (auto simp: tbl_keys_def)

lemma set_tbl_setD: "x \<in> set (tbl_set key k f rows) \<Longrightarrow> x \<in> set rows \<or> (\<exists>r \<in> set rows. key r = k \<and> x = f r)"
  by (auto simp: tbl_set_def split: if_splits)

lemma length_tbl_set [simp]: "length (tbl_set key k f rows) = length rows"
  by (simp add: tbl_set_def)

lemma filter_tbl_set:
  assumes "\<And>r. r \<in> set rows \<Longrightarrow> key r = k \<Longrightarrow> \<not> P r \<and> \<not> P (f r)"
  shows "filter P (tbl_set key k f rows) = filter P rows"
  using assms by (induction rows) (auto simp: tbl_set_def)

section \<open>Lists\<close>

definition last_opt :: "'a list \<Rightarrow> 'a option" where
  "last_opt xs = (if xs = [] then None else Some (last xs))"

lemma last_opt_simps [simp]: "last_opt [] = None" "last_opt (xs @ [x]) = Some x"
  by (simp_all add: last_opt_def)

lemma last_opt_None_iff [simp]: "last_opt xs = None \<longleftrightarrow> xs = []"
  by (simp add: last_opt_def)

lemma last_opt_mem: "last_opt xs = Some x \<Longrightarrow> x \<in> set xs"
  by (auto simp: last_opt_def split: if_splits)

lemma insort_key_snoc:
  "f x \<le> f a \<Longrightarrow> insort_key f x (ys @ [a]) = insort_key f x ys @ [a]"
  by (induction ys) auto

lemma sort_key_snoc_max:
  "\<forall>x \<in> set xs. f x \<le> f a \<Longrightarrow> sort_key f (xs @ [a]) = sort_key f xs @ [a]"
  by (induction xs) (simp_all add: insort_key_snoc)

lemma list_all2_map_eq:
  "list_all2 P xs ys \<Longrightarrow> (\<And>x y. P x y \<Longrightarrow> f x = g y) \<Longrightarrow> map f xs = map g ys"
  by (induction rule: list_all2_induct) auto

lemma list_all2_all: "list_all2 P xs ys \<Longrightarrow> (\<And>x y. P x y \<Longrightarrow> Q y) \<Longrightarrow> list_all Q ys"
  by (induction rule: list_all2_induct) auto

lemma map_fst_enumerate_upt: "map (\<lambda>x. f (fst x)) (List.enumerate 0 xs) = map f [0..<length xs]"
  by (rule nth_equalityI) (simp_all add: nth_enumerate_eq)

lemma map_snd_enumerate_list: "map (\<lambda>x. f (snd x)) (List.enumerate 0 xs) = map f xs"
  by (rule nth_equalityI) (simp_all add: nth_enumerate_eq)

end
