(* ===== verification/Enums.thy ===== *)
theory Enums
  imports Prelude
begin

text \<open>
  The canonical v1 enumerations of \<^verbatim>\<open>domain/enums.py\<close>: one datatype per \<open>StrEnum\<close> (its members
  carry a two-letter prefix, since Python scopes them by class), the wire string of every
  member (\<open>..._value\<close>) and the member list. The locale \<open>str_enum\<close> states what
  the wire layer relies on, that a \<open>StrEnum\<close> lists every member and gives no two the same
  string, and proves once that parsing is the inverse of printing; every enumeration
  interprets it.
\<close>

section \<open>The StrEnum interface\<close>

text \<open>\<open>enum_cls(raw)\<close>: the member whose value is the string, or a failure (\<open>ValueError\<close>).\<close>

definition enum_of :: "'e list \<Rightarrow> ('e \<Rightarrow> string) \<Rightarrow> string \<Rightarrow> 'e option" where
  "enum_of members to_value s = find (\<lambda>e. to_value e = s) members"

locale str_enum =
  fixes members :: "'e list" and to_value :: "'e \<Rightarrow> string"
  assumes all_members: "e \<in> set members"
    and distinct_values: "distinct (map to_value members)"
begin

lemma value_inject: "to_value a = to_value b \<longleftrightarrow> a = b"
proof -
  have "inj_on to_value (set members)"
    using distinct_values by (simp add: distinct_map)
  then show ?thesis
    using all_members [of a] all_members [of b] by (meson inj_on_contraD)
qed

lemma enum_of_value: "enum_of members to_value (to_value e) = Some e"
proof (cases "find (\<lambda>x. to_value x = to_value e) members")
  case None
  then show ?thesis using all_members [of e] by (auto simp: find_None_iff)
next
  case (Some x)
  then have "to_value x = to_value e" unfolding find_Some_iff by blast
  then have "x = e" by (rule value_inject [THEN iffD1])
  with Some show ?thesis unfolding enum_of_def by simp
qed

lemma enum_of_Some_iff: "enum_of members to_value s = Some e \<longleftrightarrow> s = to_value e"
proof
  assume "enum_of members to_value s = Some e"
  then show "s = to_value e" unfolding enum_of_def find_Some_iff by blast
next
  assume "s = to_value e"
  then show "enum_of members to_value s = Some e" by (simp add: enum_of_value)
qed

lemma enum_of_None_iff: "enum_of members to_value s = None \<longleftrightarrow> s \<notin> range to_value"
  using all_members by (auto simp: enum_of_def find_None_iff)

end

section \<open>The enumerations\<close>

datatype operation_state =
    OS_PENDING_POLICY | OS_AWAITING_APPROVAL | OS_READY | OS_EXECUTING | OS_VERIFYING
  | OS_UNKNOWN | OS_SUCCEEDED | OS_FAILED | OS_DENIED | OS_CANCELLED | OS_COMPENSATING
  | OS_COMPENSATION_UNKNOWN | OS_COMPENSATED | OS_COMPENSATION_FAILED | OS_MANUAL_INTERVENTION

fun operation_state_value :: "operation_state \<Rightarrow> string" where
  "operation_state_value OS_PENDING_POLICY = ''PENDING_POLICY''"
| "operation_state_value OS_AWAITING_APPROVAL = ''AWAITING_APPROVAL''"
| "operation_state_value OS_READY = ''READY''"
| "operation_state_value OS_EXECUTING = ''EXECUTING''"
| "operation_state_value OS_VERIFYING = ''VERIFYING''"
| "operation_state_value OS_UNKNOWN = ''UNKNOWN''"
| "operation_state_value OS_SUCCEEDED = ''SUCCEEDED''"
| "operation_state_value OS_FAILED = ''FAILED''"
| "operation_state_value OS_DENIED = ''DENIED''"
| "operation_state_value OS_CANCELLED = ''CANCELLED''"
| "operation_state_value OS_COMPENSATING = ''COMPENSATING''"
| "operation_state_value OS_COMPENSATION_UNKNOWN = ''COMPENSATION_UNKNOWN''"
| "operation_state_value OS_COMPENSATED = ''COMPENSATED''"
| "operation_state_value OS_COMPENSATION_FAILED = ''COMPENSATION_FAILED''"
| "operation_state_value OS_MANUAL_INTERVENTION = ''MANUAL_INTERVENTION''"

definition operation_state_members :: "operation_state list" where
  "operation_state_members = [OS_PENDING_POLICY, OS_AWAITING_APPROVAL, OS_READY, OS_EXECUTING,
     OS_VERIFYING, OS_UNKNOWN, OS_SUCCEEDED, OS_FAILED, OS_DENIED, OS_CANCELLED,
     OS_COMPENSATING, OS_COMPENSATION_UNKNOWN, OS_COMPENSATED, OS_COMPENSATION_FAILED,
     OS_MANUAL_INTERVENTION]"

interpretation os_enum: str_enum operation_state_members operation_state_value
proof unfold_locales
  show "e \<in> set operation_state_members" for e by (cases e) (simp_all add: operation_state_members_def)
  show "distinct (map operation_state_value operation_state_members)" by code_simp
qed

datatype effect_outcome =
    EO_APPLIED | EO_NOT_APPLIED | EO_UNKNOWN

fun effect_outcome_value :: "effect_outcome \<Rightarrow> string" where
  "effect_outcome_value EO_APPLIED = ''APPLIED''"
| "effect_outcome_value EO_NOT_APPLIED = ''NOT_APPLIED''"
| "effect_outcome_value EO_UNKNOWN = ''UNKNOWN''"

definition effect_outcome_members :: "effect_outcome list" where
  "effect_outcome_members = [EO_APPLIED, EO_NOT_APPLIED, EO_UNKNOWN]"

interpretation eo_enum: str_enum effect_outcome_members effect_outcome_value
proof unfold_locales
  show "e \<in> set effect_outcome_members" for e by (cases e) (simp_all add: effect_outcome_members_def)
  show "distinct (map effect_outcome_value effect_outcome_members)" by code_simp
qed

datatype attempt_state =
    AS_STARTED | AS_COMPLETED

fun attempt_state_value :: "attempt_state \<Rightarrow> string" where
  "attempt_state_value AS_STARTED = ''STARTED''"
| "attempt_state_value AS_COMPLETED = ''COMPLETED''"

definition attempt_state_members :: "attempt_state list" where
  "attempt_state_members = [AS_STARTED, AS_COMPLETED]"

interpretation as_enum: str_enum attempt_state_members attempt_state_value
proof unfold_locales
  show "e \<in> set attempt_state_members" for e by (cases e) (simp_all add: attempt_state_members_def)
  show "distinct (map attempt_state_value attempt_state_members)" by code_simp
qed

datatype risk_level =
    RL_LOW | RL_MODERATE | RL_HIGH | RL_CRITICAL

fun risk_level_value :: "risk_level \<Rightarrow> string" where
  "risk_level_value RL_LOW = ''LOW''"
| "risk_level_value RL_MODERATE = ''MODERATE''"
| "risk_level_value RL_HIGH = ''HIGH''"
| "risk_level_value RL_CRITICAL = ''CRITICAL''"

definition risk_level_members :: "risk_level list" where
  "risk_level_members = [RL_LOW, RL_MODERATE, RL_HIGH, RL_CRITICAL]"

interpretation rl_enum: str_enum risk_level_members risk_level_value
proof unfold_locales
  show "e \<in> set risk_level_members" for e by (cases e) (simp_all add: risk_level_members_def)
  show "distinct (map risk_level_value risk_level_members)" by code_simp
qed

datatype principal_type =
    PT_AGENT | PT_HUMAN | PT_SERVICE | PT_OPERATOR

fun principal_type_value :: "principal_type \<Rightarrow> string" where
  "principal_type_value PT_AGENT = ''AGENT''"
| "principal_type_value PT_HUMAN = ''HUMAN''"
| "principal_type_value PT_SERVICE = ''SERVICE''"
| "principal_type_value PT_OPERATOR = ''OPERATOR''"

definition principal_type_members :: "principal_type list" where
  "principal_type_members = [PT_AGENT, PT_HUMAN, PT_SERVICE, PT_OPERATOR]"

interpretation pt_enum: str_enum principal_type_members principal_type_value
proof unfold_locales
  show "e \<in> set principal_type_members" for e by (cases e) (simp_all add: principal_type_members_def)
  show "distinct (map principal_type_value principal_type_members)" by code_simp
qed

datatype arguments_mode =
    AM_INLINE | AM_REFERENCE

fun arguments_mode_value :: "arguments_mode \<Rightarrow> string" where
  "arguments_mode_value AM_INLINE = ''INLINE''"
| "arguments_mode_value AM_REFERENCE = ''REFERENCE''"

definition arguments_mode_members :: "arguments_mode list" where
  "arguments_mode_members = [AM_INLINE, AM_REFERENCE]"

interpretation am_enum: str_enum arguments_mode_members arguments_mode_value
proof unfold_locales
  show "e \<in> set arguments_mode_members" for e by (cases e) (simp_all add: arguments_mode_members_def)
  show "distinct (map arguments_mode_value arguments_mode_members)" by code_simp
qed

datatype mutability =
    MU_READ_ONLY | MU_MUTATING

fun mutability_value :: "mutability \<Rightarrow> string" where
  "mutability_value MU_READ_ONLY = ''READ_ONLY''"
| "mutability_value MU_MUTATING = ''MUTATING''"

definition mutability_members :: "mutability list" where
  "mutability_members = [MU_READ_ONLY, MU_MUTATING]"

interpretation mu_enum: str_enum mutability_members mutability_value
proof unfold_locales
  show "e \<in> set mutability_members" for e by (cases e) (simp_all add: mutability_members_def)
  show "distinct (map mutability_value mutability_members)" by code_simp
qed

datatype idempotency_mode =
    IM_NONE | IM_NATURAL | IM_PROVIDER_KEY

fun idempotency_mode_value :: "idempotency_mode \<Rightarrow> string" where
  "idempotency_mode_value IM_NONE = ''NONE''"
| "idempotency_mode_value IM_NATURAL = ''NATURAL''"
| "idempotency_mode_value IM_PROVIDER_KEY = ''PROVIDER_KEY''"

definition idempotency_mode_members :: "idempotency_mode list" where
  "idempotency_mode_members = [IM_NONE, IM_NATURAL, IM_PROVIDER_KEY]"

interpretation im_enum: str_enum idempotency_mode_members idempotency_mode_value
proof unfold_locales
  show "e \<in> set idempotency_mode_members" for e by (cases e) (simp_all add: idempotency_mode_members_def)
  show "distinct (map idempotency_mode_value idempotency_mode_members)" by code_simp
qed

datatype verification_mode =
    VM_NONE | VM_READ_BACK | VM_OPERATION_LOOKUP | VM_CUSTOM

fun verification_mode_value :: "verification_mode \<Rightarrow> string" where
  "verification_mode_value VM_NONE = ''NONE''"
| "verification_mode_value VM_READ_BACK = ''READ_BACK''"
| "verification_mode_value VM_OPERATION_LOOKUP = ''OPERATION_LOOKUP''"
| "verification_mode_value VM_CUSTOM = ''CUSTOM''"

definition verification_mode_members :: "verification_mode list" where
  "verification_mode_members = [VM_NONE, VM_READ_BACK, VM_OPERATION_LOOKUP, VM_CUSTOM]"

interpretation vm_enum: str_enum verification_mode_members verification_mode_value
proof unfold_locales
  show "e \<in> set verification_mode_members" for e by (cases e) (simp_all add: verification_mode_members_def)
  show "distinct (map verification_mode_value verification_mode_members)" by code_simp
qed

datatype compensation_kind =
    CK_NONE | CK_EXACT | CK_APPROXIMATE | CK_MITIGATING

fun compensation_kind_value :: "compensation_kind \<Rightarrow> string" where
  "compensation_kind_value CK_NONE = ''NONE''"
| "compensation_kind_value CK_EXACT = ''EXACT''"
| "compensation_kind_value CK_APPROXIMATE = ''APPROXIMATE''"
| "compensation_kind_value CK_MITIGATING = ''MITIGATING''"

definition compensation_kind_members :: "compensation_kind list" where
  "compensation_kind_members = [CK_NONE, CK_EXACT, CK_APPROXIMATE, CK_MITIGATING]"

interpretation ck_enum: str_enum compensation_kind_members compensation_kind_value
proof unfold_locales
  show "e \<in> set compensation_kind_members" for e by (cases e) (simp_all add: compensation_kind_members_def)
  show "distinct (map compensation_kind_value compensation_kind_members)" by code_simp
qed

datatype evidence_source =
    ES_EXECUTION_RESPONSE | ES_OPERATION_LOOKUP | ES_READ_BACK | ES_CUSTOM

fun evidence_source_value :: "evidence_source \<Rightarrow> string" where
  "evidence_source_value ES_EXECUTION_RESPONSE = ''EXECUTION_RESPONSE''"
| "evidence_source_value ES_OPERATION_LOOKUP = ''OPERATION_LOOKUP''"
| "evidence_source_value ES_READ_BACK = ''READ_BACK''"
| "evidence_source_value ES_CUSTOM = ''CUSTOM''"

definition evidence_source_members :: "evidence_source list" where
  "evidence_source_members = [ES_EXECUTION_RESPONSE, ES_OPERATION_LOOKUP, ES_READ_BACK,
     ES_CUSTOM]"

interpretation es_enum: str_enum evidence_source_members evidence_source_value
proof unfold_locales
  show "e \<in> set evidence_source_members" for e by (cases e) (simp_all add: evidence_source_members_def)
  show "distinct (map evidence_source_value evidence_source_members)" by code_simp
qed

datatype policy_verdict =
    PV_ALLOW | PV_DENY | PV_REQUIRE_APPROVAL

fun policy_verdict_value :: "policy_verdict \<Rightarrow> string" where
  "policy_verdict_value PV_ALLOW = ''ALLOW''"
| "policy_verdict_value PV_DENY = ''DENY''"
| "policy_verdict_value PV_REQUIRE_APPROVAL = ''REQUIRE_APPROVAL''"

definition policy_verdict_members :: "policy_verdict list" where
  "policy_verdict_members = [PV_ALLOW, PV_DENY, PV_REQUIRE_APPROVAL]"

interpretation pv_enum: str_enum policy_verdict_members policy_verdict_value
proof unfold_locales
  show "e \<in> set policy_verdict_members" for e by (cases e) (simp_all add: policy_verdict_members_def)
  show "distinct (map policy_verdict_value policy_verdict_members)" by code_simp
qed

datatype approval_state =
    AP_PENDING | AP_APPROVED | AP_REJECTED | AP_EXPIRED | AP_CANCELLED

fun approval_state_value :: "approval_state \<Rightarrow> string" where
  "approval_state_value AP_PENDING = ''PENDING''"
| "approval_state_value AP_APPROVED = ''APPROVED''"
| "approval_state_value AP_REJECTED = ''REJECTED''"
| "approval_state_value AP_EXPIRED = ''EXPIRED''"
| "approval_state_value AP_CANCELLED = ''CANCELLED''"

definition approval_state_members :: "approval_state list" where
  "approval_state_members = [AP_PENDING, AP_APPROVED, AP_REJECTED, AP_EXPIRED, AP_CANCELLED]"

interpretation ap_enum: str_enum approval_state_members approval_state_value
proof unfold_locales
  show "e \<in> set approval_state_members" for e by (cases e) (simp_all add: approval_state_members_def)
  show "distinct (map approval_state_value approval_state_members)" by code_simp
qed

datatype compensation_state =
    CS_PENDING | CS_EXECUTING | CS_VERIFYING | CS_UNKNOWN | CS_SUCCEEDED | CS_FAILED

fun compensation_state_value :: "compensation_state \<Rightarrow> string" where
  "compensation_state_value CS_PENDING = ''PENDING''"
| "compensation_state_value CS_EXECUTING = ''EXECUTING''"
| "compensation_state_value CS_VERIFYING = ''VERIFYING''"
| "compensation_state_value CS_UNKNOWN = ''UNKNOWN''"
| "compensation_state_value CS_SUCCEEDED = ''SUCCEEDED''"
| "compensation_state_value CS_FAILED = ''FAILED''"

definition compensation_state_members :: "compensation_state list" where
  "compensation_state_members = [CS_PENDING, CS_EXECUTING, CS_VERIFYING, CS_UNKNOWN,
     CS_SUCCEEDED, CS_FAILED]"

interpretation cs_enum: str_enum compensation_state_members compensation_state_value
proof unfold_locales
  show "e \<in> set compensation_state_members" for e by (cases e) (simp_all add: compensation_state_members_def)
  show "distinct (map compensation_state_value compensation_state_members)" by code_simp
qed

datatype verification_state =
    VS_PENDING | VS_IN_PROGRESS | VS_COMPLETED

fun verification_state_value :: "verification_state \<Rightarrow> string" where
  "verification_state_value VS_PENDING = ''PENDING''"
| "verification_state_value VS_IN_PROGRESS = ''IN_PROGRESS''"
| "verification_state_value VS_COMPLETED = ''COMPLETED''"

definition verification_state_members :: "verification_state list" where
  "verification_state_members = [VS_PENDING, VS_IN_PROGRESS, VS_COMPLETED]"

interpretation vs_enum: str_enum verification_state_members verification_state_value
proof unfold_locales
  show "e \<in> set verification_state_members" for e by (cases e) (simp_all add: verification_state_members_def)
  show "distinct (map verification_state_value verification_state_members)" by code_simp
qed

datatype outbox_state =
    OB_PENDING | OB_PUBLISHED

fun outbox_state_value :: "outbox_state \<Rightarrow> string" where
  "outbox_state_value OB_PENDING = ''PENDING''"
| "outbox_state_value OB_PUBLISHED = ''PUBLISHED''"

definition outbox_state_members :: "outbox_state list" where
  "outbox_state_members = [OB_PENDING, OB_PUBLISHED]"

interpretation ob_enum: str_enum outbox_state_members outbox_state_value
proof unfold_locales
  show "e \<in> set outbox_state_members" for e by (cases e) (simp_all add: outbox_state_members_def)
  show "distinct (map outbox_state_value outbox_state_members)" by code_simp
qed

datatype work_command =
    WC_EXECUTE | WC_VERIFY | WC_COMPENSATE

fun work_command_value :: "work_command \<Rightarrow> string" where
  "work_command_value WC_EXECUTE = ''EXECUTE''"
| "work_command_value WC_VERIFY = ''VERIFY''"
| "work_command_value WC_COMPENSATE = ''COMPENSATE''"

definition work_command_members :: "work_command list" where
  "work_command_members = [WC_EXECUTE, WC_VERIFY, WC_COMPENSATE]"

interpretation wc_enum: str_enum work_command_members work_command_value
proof unfold_locales
  show "e \<in> set work_command_members" for e by (cases e) (simp_all add: work_command_members_def)
  show "distinct (map work_command_value work_command_members)" by code_simp
qed

datatype error_kind =
    EK_VALIDATION | EK_POLICY | EK_AUTHENTICATION | EK_AUTHORIZATION | EK_PROVIDER_REJECTED
  | EK_RATE_LIMITED | EK_TRANSIENT_TRANSPORT | EK_PROVIDER_UNAVAILABLE
  | EK_MALFORMED_PROVIDER_RESPONSE | EK_PROVIDER_INCONSISTENT | EK_PERSISTENCE | EK_MESSAGING
  | EK_CONCURRENCY_CONFLICT | EK_UNSUPPORTED_CAPABILITY | EK_UNSUPPORTED_CONTRACT_VERSION
  | EK_SECURITY | EK_INTERNAL

fun error_kind_value :: "error_kind \<Rightarrow> string" where
  "error_kind_value EK_VALIDATION = ''VALIDATION''"
| "error_kind_value EK_POLICY = ''POLICY''"
| "error_kind_value EK_AUTHENTICATION = ''AUTHENTICATION''"
| "error_kind_value EK_AUTHORIZATION = ''AUTHORIZATION''"
| "error_kind_value EK_PROVIDER_REJECTED = ''PROVIDER_REJECTED''"
| "error_kind_value EK_RATE_LIMITED = ''RATE_LIMITED''"
| "error_kind_value EK_TRANSIENT_TRANSPORT = ''TRANSIENT_TRANSPORT''"
| "error_kind_value EK_PROVIDER_UNAVAILABLE = ''PROVIDER_UNAVAILABLE''"
| "error_kind_value EK_MALFORMED_PROVIDER_RESPONSE = ''MALFORMED_PROVIDER_RESPONSE''"
| "error_kind_value EK_PROVIDER_INCONSISTENT = ''PROVIDER_INCONSISTENT''"
| "error_kind_value EK_PERSISTENCE = ''PERSISTENCE''"
| "error_kind_value EK_MESSAGING = ''MESSAGING''"
| "error_kind_value EK_CONCURRENCY_CONFLICT = ''CONCURRENCY_CONFLICT''"
| "error_kind_value EK_UNSUPPORTED_CAPABILITY = ''UNSUPPORTED_CAPABILITY''"
| "error_kind_value EK_UNSUPPORTED_CONTRACT_VERSION = ''UNSUPPORTED_CONTRACT_VERSION''"
| "error_kind_value EK_SECURITY = ''SECURITY''"
| "error_kind_value EK_INTERNAL = ''INTERNAL''"

definition error_kind_members :: "error_kind list" where
  "error_kind_members = [EK_VALIDATION, EK_POLICY, EK_AUTHENTICATION, EK_AUTHORIZATION,
     EK_PROVIDER_REJECTED, EK_RATE_LIMITED, EK_TRANSIENT_TRANSPORT, EK_PROVIDER_UNAVAILABLE,
     EK_MALFORMED_PROVIDER_RESPONSE, EK_PROVIDER_INCONSISTENT, EK_PERSISTENCE, EK_MESSAGING,
     EK_CONCURRENCY_CONFLICT, EK_UNSUPPORTED_CAPABILITY, EK_UNSUPPORTED_CONTRACT_VERSION,
     EK_SECURITY, EK_INTERNAL]"

interpretation ek_enum: str_enum error_kind_members error_kind_value
proof unfold_locales
  show "e \<in> set error_kind_members" for e by (cases e) (simp_all add: error_kind_members_def)
  show "distinct (map error_kind_value error_kind_members)" by code_simp
qed

datatype verification_target =
    VT_ORIGINAL_EFFECT | VT_COMPENSATION

fun verification_target_value :: "verification_target \<Rightarrow> string" where
  "verification_target_value VT_ORIGINAL_EFFECT = ''ORIGINAL_EFFECT''"
| "verification_target_value VT_COMPENSATION = ''COMPENSATION''"

definition verification_target_members :: "verification_target list" where
  "verification_target_members = [VT_ORIGINAL_EFFECT, VT_COMPENSATION]"

interpretation vt_enum: str_enum verification_target_members verification_target_value
proof unfold_locales
  show "e \<in> set verification_target_members" for e by (cases e) (simp_all add: verification_target_members_def)
  show "distinct (map verification_target_value verification_target_members)" by code_simp
qed

datatype reconciliation_action =
    RA_MARK_SUCCEEDED | RA_MARK_FAILED | RA_MAKE_READY_FOR_SAFE_RETRY | RA_REMAIN_UNKNOWN
  | RA_REQUIRE_MANUAL_INTERVENTION

fun reconciliation_action_value :: "reconciliation_action \<Rightarrow> string" where
  "reconciliation_action_value RA_MARK_SUCCEEDED = ''MARK_SUCCEEDED''"
| "reconciliation_action_value RA_MARK_FAILED = ''MARK_FAILED''"
| "reconciliation_action_value RA_MAKE_READY_FOR_SAFE_RETRY = ''MAKE_READY_FOR_SAFE_RETRY''"
| "reconciliation_action_value RA_REMAIN_UNKNOWN = ''REMAIN_UNKNOWN''"
| "reconciliation_action_value RA_REQUIRE_MANUAL_INTERVENTION = ''REQUIRE_MANUAL_INTERVENTION''"

definition reconciliation_action_members :: "reconciliation_action list" where
  "reconciliation_action_members = [RA_MARK_SUCCEEDED, RA_MARK_FAILED,
     RA_MAKE_READY_FOR_SAFE_RETRY, RA_REMAIN_UNKNOWN, RA_REQUIRE_MANUAL_INTERVENTION]"

interpretation ra_enum: str_enum reconciliation_action_members reconciliation_action_value
proof unfold_locales
  show "e \<in> set reconciliation_action_members" for e by (cases e) (simp_all add: reconciliation_action_members_def)
  show "distinct (map reconciliation_action_value reconciliation_action_members)" by code_simp
qed

datatype audit_event_type =
    AE_OPERATION_CREATED | AE_POLICY_EVALUATED | AE_APPROVAL_REQUESTED | AE_APPROVAL_DECIDED
  | AE_OPERATION_TRANSITIONED | AE_EXECUTION_ATTEMPT_STARTED | AE_EXECUTION_EVIDENCE_RECORDED
  | AE_VERIFICATION_STARTED | AE_VERIFICATION_COMPLETED | AE_RECONCILIATION_DECIDED
  | AE_COMPENSATION_REQUESTED | AE_COMPENSATION_ATTEMPTED | AE_COMPENSATION_RESULT
  | AE_OPERATOR_ACTION | AE_OUTBOX_DIAGNOSTIC | AE_MANUAL_INTERVENTION_REASON
  | AE_SECURITY_CONTROL_DECISION

fun audit_event_type_value :: "audit_event_type \<Rightarrow> string" where
  "audit_event_type_value AE_OPERATION_CREATED = ''operation.created.v1''"
| "audit_event_type_value AE_POLICY_EVALUATED = ''policy.evaluated.v1''"
| "audit_event_type_value AE_APPROVAL_REQUESTED = ''approval.requested.v1''"
| "audit_event_type_value AE_APPROVAL_DECIDED = ''approval.decided.v1''"
| "audit_event_type_value AE_OPERATION_TRANSITIONED = ''operation.transitioned.v1''"
| "audit_event_type_value AE_EXECUTION_ATTEMPT_STARTED = ''execution.attempt_started.v1''"
| "audit_event_type_value AE_EXECUTION_EVIDENCE_RECORDED = ''execution.evidence_recorded.v1''"
| "audit_event_type_value AE_VERIFICATION_STARTED = ''verification.started.v1''"
| "audit_event_type_value AE_VERIFICATION_COMPLETED = ''verification.completed.v1''"
| "audit_event_type_value AE_RECONCILIATION_DECIDED = ''reconciliation.decided.v1''"
| "audit_event_type_value AE_COMPENSATION_REQUESTED = ''compensation.requested.v1''"
| "audit_event_type_value AE_COMPENSATION_ATTEMPTED = ''compensation.attempted.v1''"
| "audit_event_type_value AE_COMPENSATION_RESULT = ''compensation.result.v1''"
| "audit_event_type_value AE_OPERATOR_ACTION = ''operator.action.v1''"
| "audit_event_type_value AE_OUTBOX_DIAGNOSTIC = ''outbox.diagnostic.v1''"
| "audit_event_type_value AE_MANUAL_INTERVENTION_REASON = ''manual_intervention.reason.v1''"
| "audit_event_type_value AE_SECURITY_CONTROL_DECISION = ''security.control_decision.v1''"

definition audit_event_type_members :: "audit_event_type list" where
  "audit_event_type_members = [AE_OPERATION_CREATED, AE_POLICY_EVALUATED,
     AE_APPROVAL_REQUESTED, AE_APPROVAL_DECIDED, AE_OPERATION_TRANSITIONED,
     AE_EXECUTION_ATTEMPT_STARTED, AE_EXECUTION_EVIDENCE_RECORDED, AE_VERIFICATION_STARTED,
     AE_VERIFICATION_COMPLETED, AE_RECONCILIATION_DECIDED, AE_COMPENSATION_REQUESTED,
     AE_COMPENSATION_ATTEMPTED, AE_COMPENSATION_RESULT, AE_OPERATOR_ACTION,
     AE_OUTBOX_DIAGNOSTIC, AE_MANUAL_INTERVENTION_REASON, AE_SECURITY_CONTROL_DECISION]"

interpretation ae_enum: str_enum audit_event_type_members audit_event_type_value
proof unfold_locales
  show "e \<in> set audit_event_type_members" for e by (cases e) (simp_all add: audit_event_type_members_def)
  show "distinct (map audit_event_type_value audit_event_type_members)" by code_simp
qed

datatype transition_verdict =
    TV_LEGAL | TV_ILLEGAL

fun transition_verdict_value :: "transition_verdict \<Rightarrow> string" where
  "transition_verdict_value TV_LEGAL = ''LEGAL''"
| "transition_verdict_value TV_ILLEGAL = ''ILLEGAL''"

definition transition_verdict_members :: "transition_verdict list" where
  "transition_verdict_members = [TV_LEGAL, TV_ILLEGAL]"

interpretation tv_enum: str_enum transition_verdict_members transition_verdict_value
proof unfold_locales
  show "e \<in> set transition_verdict_members" for e by (cases e) (simp_all add: transition_verdict_members_def)
  show "distinct (map transition_verdict_value transition_verdict_members)" by code_simp
qed

datatype retry_safety_verdict =
    RV_SAFE | RV_UNSAFE | RV_NEEDS_CAPABILITY_PROOF

fun retry_safety_verdict_value :: "retry_safety_verdict \<Rightarrow> string" where
  "retry_safety_verdict_value RV_SAFE = ''SAFE''"
| "retry_safety_verdict_value RV_UNSAFE = ''UNSAFE''"
| "retry_safety_verdict_value RV_NEEDS_CAPABILITY_PROOF = ''NEEDS_CAPABILITY_PROOF''"

definition retry_safety_verdict_members :: "retry_safety_verdict list" where
  "retry_safety_verdict_members = [RV_SAFE, RV_UNSAFE, RV_NEEDS_CAPABILITY_PROOF]"

interpretation rv_enum: str_enum retry_safety_verdict_members retry_safety_verdict_value
proof unfold_locales
  show "e \<in> set retry_safety_verdict_members" for e by (cases e) (simp_all add: retry_safety_verdict_members_def)
  show "distinct (map retry_safety_verdict_value retry_safety_verdict_members)" by code_simp
qed

datatype retry_safety_basis =
    RB_EXECUTION_NOT_APPLIED | RB_VERIFIED_NOT_APPLIED | RB_NATURAL_IDEMPOTENCY
  | RB_PROVIDER_NATIVE_IDEMPOTENCY | RB_PROVIDER_SPECIFIC_CONTRACT

fun retry_safety_basis_value :: "retry_safety_basis \<Rightarrow> string" where
  "retry_safety_basis_value RB_EXECUTION_NOT_APPLIED = ''EXECUTION_NOT_APPLIED''"
| "retry_safety_basis_value RB_VERIFIED_NOT_APPLIED = ''VERIFIED_NOT_APPLIED''"
| "retry_safety_basis_value RB_NATURAL_IDEMPOTENCY = ''NATURAL_IDEMPOTENCY''"
| "retry_safety_basis_value RB_PROVIDER_NATIVE_IDEMPOTENCY = ''PROVIDER_NATIVE_IDEMPOTENCY''"
| "retry_safety_basis_value RB_PROVIDER_SPECIFIC_CONTRACT = ''PROVIDER_SPECIFIC_CONTRACT''"

definition retry_safety_basis_members :: "retry_safety_basis list" where
  "retry_safety_basis_members = [RB_EXECUTION_NOT_APPLIED, RB_VERIFIED_NOT_APPLIED,
     RB_NATURAL_IDEMPOTENCY, RB_PROVIDER_NATIVE_IDEMPOTENCY, RB_PROVIDER_SPECIFIC_CONTRACT]"

interpretation rb_enum: str_enum retry_safety_basis_members retry_safety_basis_value
proof unfold_locales
  show "e \<in> set retry_safety_basis_members" for e by (cases e) (simp_all add: retry_safety_basis_members_def)
  show "distinct (map retry_safety_basis_value retry_safety_basis_members)" by code_simp
qed

datatype crash_interpretation =
    CI_NO_PROVIDER_ATTEMPT | CI_POTENTIALLY_UNKNOWN | CI_USE_DURABLE_EVIDENCE

fun crash_interpretation_value :: "crash_interpretation \<Rightarrow> string" where
  "crash_interpretation_value CI_NO_PROVIDER_ATTEMPT = ''NO_PROVIDER_ATTEMPT''"
| "crash_interpretation_value CI_POTENTIALLY_UNKNOWN = ''POTENTIALLY_UNKNOWN''"
| "crash_interpretation_value CI_USE_DURABLE_EVIDENCE = ''USE_DURABLE_EVIDENCE''"

definition crash_interpretation_members :: "crash_interpretation list" where
  "crash_interpretation_members = [CI_NO_PROVIDER_ATTEMPT, CI_POTENTIALLY_UNKNOWN,
     CI_USE_DURABLE_EVIDENCE]"

interpretation ci_enum: str_enum crash_interpretation_members crash_interpretation_value
proof unfold_locales
  show "e \<in> set crash_interpretation_members" for e by (cases e) (simp_all add: crash_interpretation_members_def)
  show "distinct (map crash_interpretation_value crash_interpretation_members)" by code_simp
qed

datatype approval_binding_verdict =
    AB_VALID | AB_INVALID

fun approval_binding_verdict_value :: "approval_binding_verdict \<Rightarrow> string" where
  "approval_binding_verdict_value AB_VALID = ''VALID''"
| "approval_binding_verdict_value AB_INVALID = ''INVALID''"

definition approval_binding_verdict_members :: "approval_binding_verdict list" where
  "approval_binding_verdict_members = [AB_VALID, AB_INVALID]"

interpretation ab_enum: str_enum approval_binding_verdict_members approval_binding_verdict_value
proof unfold_locales
  show "e \<in> set approval_binding_verdict_members" for e by (cases e) (simp_all add: approval_binding_verdict_members_def)
  show "distinct (map approval_binding_verdict_value approval_binding_verdict_members)" by code_simp
qed

section \<open>Terminal states and initial values\<close>

definition FORWARD_TERMINAL_STATES :: "operation_state list" where
  "FORWARD_TERMINAL_STATES = [OS_SUCCEEDED, OS_FAILED, OS_DENIED, OS_CANCELLED, OS_COMPENSATED,
     OS_COMPENSATION_FAILED, OS_MANUAL_INTERVENTION]"

definition ABSOLUTE_TERMINAL_STATES :: "operation_state list" where
  "ABSOLUTE_TERMINAL_STATES = [OS_DENIED, OS_CANCELLED, OS_COMPENSATED]"

definition CONTRACT_VERSION :: string where
  "CONTRACT_VERSION = ''v1''"

definition INITIAL_OPERATION_VERSION :: int where
  "INITIAL_OPERATION_VERSION = 1"

definition INITIAL_COMPENSATION_VERSION :: int where
  "INITIAL_COMPENSATION_VERSION = 1"

definition INITIAL_AUDIT_SEQUENCE :: int where
  "INITIAL_AUDIT_SEQUENCE = 1"

end
