(* ===== verification/Json_Values.thy ===== *)
theory Json_Values
  imports Prelude
begin

text \<open>
  Canonical JSON values (\<^verbatim>\<open>domain/jsonutil.py\<close>) and the refusal of secret-shaped payloads
  (\<^verbatim>\<open>domain/secrets.py\<close>). \<open>pyobj\<close> is the plain Python object a payload is built from or
  decoded to, with the cases \<open>json_from_plain\<close> distinguishes; \<open>json\<close> is the validated value.
  A \<open>string\<close> is a list of 8-bit characters: code points above 255 are outside the model,
  and the forbidden fragments are ASCII. Messages of exceptions are left out, their reason codes
  are kept.
\<close>

section \<open>Plain objects and JSON values\<close>

datatype pyobj =
    PyNone
  | PyBool bool
  | PyInt int
  | PyFloat
  | PyStr string
  | PyList "pyobj list"
  | PyDict "(pyobj \<times> pyobj) list"
  | PyOther

datatype json =
    JNull
  | JBool bool
  | JInt int
  | JStr string
  | JArray "json list"
  | JObject "(string \<times> json) list"

text \<open>\<open>JsonObject.__post_init__\<close>: keys non-empty, unique and in code-point order.\<close>

definition make_json_object :: "(string \<times> json) list \<Rightarrow> json fallible" where
  "make_json_object items =
     (let keys = map fst items in
      if [] \<in> set keys then Inl (ContractValidationError ''empty_string'')
      else if \<not> distinct keys then Inl (ContractValidationError ''duplicate_key'')
      else if sort_key fst items \<noteq> items then Inl (ContractValidationError ''unsorted_keys'')
      else Inr (JObject items))"

fun json_from_plain :: "pyobj \<Rightarrow> json fallible" where
  "json_from_plain PyNone = Inr JNull"
| "json_from_plain (PyBool b) = Inr (JBool b)"
| "json_from_plain (PyInt i) = Inr (JInt i)"
| "json_from_plain (PyStr s) = Inr (JStr s)"
| "json_from_plain PyFloat = Inl (ContractValidationError ''non_canonical_number'')"
| "json_from_plain (PyList xs) =
     bind_err (map_err json_from_plain xs) (\<lambda>ys. Inr (JArray ys))"
| "json_from_plain (PyDict kvs) =
     bind_err
       (map_err (\<lambda>kv. case fst kv of
            PyStr k \<Rightarrow> bind_err (json_from_plain (snd kv)) (\<lambda>j. Inr (k, j))
          | _ \<Rightarrow> Inl (ContractValidationError ''invalid_type'')) kvs)
       (\<lambda>pairs. make_json_object (sort_key fst pairs))"
| "json_from_plain PyOther = Inl (ContractValidationError ''invalid_type'')"

fun json_to_plain :: "json \<Rightarrow> pyobj" where
  "json_to_plain JNull = PyNone"
| "json_to_plain (JBool b) = PyBool b"
| "json_to_plain (JInt i) = PyInt i"
| "json_to_plain (JStr s) = PyStr s"
| "json_to_plain (JArray xs) = PyList (map json_to_plain xs)"
| "json_to_plain (JObject items) =
     PyDict (map (\<lambda>kv. (PyStr (fst kv), json_to_plain (snd kv))) items)"

definition parse_json_value :: "pyobj \<Rightarrow> json fallible" where
  "parse_json_value raw = json_from_plain raw"

definition parse_optional_json_value :: "pyobj \<Rightarrow> json option fallible" where
  "parse_optional_json_value raw =
     (if raw = PyNone then Inr None else bind_err (parse_json_value raw) (\<lambda>j. Inr (Some j)))"

text \<open>Every object inside the value satisfies what \<open>JsonObject\<close> checks on construction.\<close>

fun json_wf :: "json \<Rightarrow> bool" where
  "json_wf (JArray xs) = list_all json_wf xs"
| "json_wf (JObject items) =
     ([] \<notin> set (map fst items) \<and> distinct (map fst items) \<and> sort_key fst items = items \<and>
      list_all (\<lambda>kv. json_wf (snd kv)) items)"
| "json_wf _ = True"

lemma make_json_object_Inr:
  "make_json_object items = Inr j \<longleftrightarrow>
     j = JObject items \<and> [] \<notin> set (map fst items) \<and> distinct (map fst items) \<and>
     sort_key fst items = items"
  by (auto simp: make_json_object_def Let_def)

lemma insort_key_le_hd: "\<forall>y \<in> set ys. f x \<le> f y \<Longrightarrow> insort_key f x ys = x # ys"
  by (cases ys) auto

lemma sort_key_id: "sorted (map f xs) \<Longrightarrow> sort_key f xs = xs"
  by (induction xs) (auto simp: insort_key_le_hd)

lemma sort_key_idem: "sort_key f (sort_key f xs) = sort_key f xs"
  by (rule sort_key_id) simp

lemma json_from_plain_to_plain: "json_wf j \<Longrightarrow> json_from_plain (json_to_plain j) = Inr j"
proof (induction j)
  case (JArray xs)
  then have "map_err json_from_plain (map json_to_plain xs) = Inr xs"
    by (intro map_err_roundtrip) (simp add: list_all_iff)
  then show ?case by simp
next
  case (JObject items)
  let ?conv = "\<lambda>kv. case fst kv of
      PyStr k \<Rightarrow> bind_err (json_from_plain (snd kv)) (\<lambda>j. Inr (k, j))
    | _ \<Rightarrow> Inl (ContractValidationError ''invalid_type'')"
  have "map_err ?conv (map (\<lambda>kv. (PyStr (fst kv), json_to_plain (snd kv))) items) = Inr items"
    using JObject by (intro map_err_roundtrip) (fastforce simp: list_all_iff)
  moreover from JObject.prems have "make_json_object (sort_key fst items) = Inr (JObject items)"
    by (simp add: make_json_object_Inr)
  ultimately show ?case by simp
qed simp_all

lemma map_err_all:
  "map_err f xs = Inr ys \<Longrightarrow> (\<And>x y. x \<in> set xs \<Longrightarrow> f x = Inr y \<Longrightarrow> P y) \<Longrightarrow> list_all P ys"
proof (induction xs arbitrary: ys)
  case (Cons a xs)
  then obtain y zs where a: "f a = Inr y" and zs: "map_err f xs = Inr zs" and ys: "ys = y # zs"
    by auto
  have "list_all P zs" by (rule Cons.IH [OF zs]) (auto intro: Cons.prems(2))
  moreover have "P y" by (rule Cons.prems(2) [of a]) (simp_all add: a)
  ultimately show ?case by (simp add: ys)
qed simp

lemma json_from_plain_wf: "json_from_plain p = Inr j \<Longrightarrow> json_wf j"
proof (induction p arbitrary: j rule: json_from_plain.induct)
  case (6 xs)
  then obtain ys where ys: "map_err json_from_plain xs = Inr ys" and j: "j = JArray ys" by auto
  have "list_all json_wf ys" by (rule map_err_all [OF ys]) (rule "6.IH")
  then show ?case by (simp add: j)
next
  case (7 kvs)
  let ?conv = "\<lambda>kv. case fst kv of
      PyStr k \<Rightarrow> bind_err (json_from_plain (snd kv)) (\<lambda>j. Inr (k, j))
    | _ \<Rightarrow> Inl (ContractValidationError ''invalid_type'')"
  from "7.prems" obtain pairs where pairs: "map_err ?conv kvs = Inr pairs"
    and obj: "make_json_object (sort_key fst pairs) = Inr j" by auto
  have "list_all (\<lambda>kv. json_wf (snd kv)) pairs"
    by (rule map_err_all [OF pairs]) (auto split: pyobj.splits intro: "7.IH")
  with obj show ?case by (auto simp: make_json_object_Inr list_all_iff)
qed auto

section \<open>Secret-shaped keys and values\<close>

definition lower_char :: "char \<Rightarrow> char" where
  "lower_char c =
     (if 65 \<le> (of_char c :: nat) \<and> (of_char c :: nat) \<le> 90 then char_of ((of_char c :: nat) + 32) else c)"

definition str_lower :: "string \<Rightarrow> string" where
  "str_lower s = map lower_char s"

definition is_space_char :: "char \<Rightarrow> bool" where
  "is_space_char c =
     (let n = (of_char c :: nat) in
      9 \<le> n \<and> n \<le> 13 \<or> 28 \<le> n \<and> n \<le> 32 \<or> n = 133 \<or> n = 160)"

definition str_strip :: "string \<Rightarrow> string" where
  "str_strip s = rev (dropWhile is_space_char (rev (dropWhile is_space_char s)))"

definition str_startswith :: "string \<Rightarrow> string \<Rightarrow> bool" where
  "str_startswith s p = (take (length p) s = p)"

text \<open>Python's \<open>fragment in s\<close>.\<close>

fun str_contains :: "string \<Rightarrow> string \<Rightarrow> bool" where
  "str_contains frag [] = (frag = [])"
| "str_contains frag (c # cs) = (str_startswith (c # cs) frag \<or> str_contains frag cs)"

lemma str_contains_iff: "str_contains frag s \<longleftrightarrow> (\<exists>pre post. s = pre @ frag @ post)"
proof (induction s)
  case Nil
  then show ?case by simp
next
  case (Cons c cs)
  have "(\<exists>pre post. c # cs = pre @ frag @ post) \<longleftrightarrow>
        (\<exists>post. c # cs = frag @ post) \<or> (\<exists>pre post. cs = pre @ frag @ post)"
    by (metis append_Cons append_Nil neq_Nil_conv list.inject)
  moreover have "str_startswith (c # cs) frag \<longleftrightarrow> (\<exists>post. c # cs = frag @ post)"
    unfolding str_startswith_def by (metis append_eq_conv_conj append_take_drop_id)
  ultimately show ?case using Cons by simp
qed

definition FORBIDDEN_KEY_FRAGMENTS :: "string list" where
  "FORBIDDEN_KEY_FRAGMENTS =
     [''password'', ''secret'', ''token'', ''private_key'', ''access_key'', ''api_key'',
      ''authorization'', ''credential'', ''cookie'']"

definition normalize_key :: "string \<Rightarrow> string" where
  "normalize_key key = map (\<lambda>c. if c = CHR ''-'' then CHR ''_'' else c) (str_lower key)"

definition key_is_forbidden :: "string \<Rightarrow> bool" where
  "key_is_forbidden key =
     list_ex (\<lambda>fragment. str_contains fragment (normalize_key key)) FORBIDDEN_KEY_FRAGMENTS"

definition value_is_forbidden :: "string \<Rightarrow> bool" where
  "value_is_forbidden value =
     (let lower = str_lower (str_strip value) in
      str_startswith lower ''bearer '' \<or> str_contains ''-----begin '' lower)"

text \<open>
  \<open>reject_secrets_in_json\<close> walks the value and raises \<open>secret_field\<close> at the first offence; every
  raise carries the same reason code, so the order of the walk does not show in the result.
\<close>

fun json_has_secret :: "json \<Rightarrow> bool" where
  "json_has_secret (JArray items) = list_ex json_has_secret items"
| "json_has_secret (JObject items) =
     list_ex (\<lambda>kv. key_is_forbidden (fst kv) \<or>
                   (case snd kv of JStr s \<Rightarrow> value_is_forbidden s | _ \<Rightarrow> False) \<or>
                   json_has_secret (snd kv)) items"
| "json_has_secret (JStr s) = value_is_forbidden s"
| "json_has_secret _ = False"

definition reject_secrets_in_json :: "json \<Rightarrow> unit fallible" where
  "reject_secrets_in_json v =
     guard_err (\<not> json_has_secret v) (ContractValidationError ''secret_field'')"

definition reject_secrets_in_str_map :: "(string \<times> string) list \<Rightarrow> unit fallible" where
  "reject_secrets_in_str_map items =
     guard_err (\<not> list_ex (\<lambda>kv. key_is_forbidden (fst kv) \<or> value_is_forbidden (snd kv)) items)
       (ContractValidationError ''secret_field'')"

text \<open>The keys and the string leaves at any depth, for the specification of the walk.\<close>

fun json_keys :: "json \<Rightarrow> string list" where
  "json_keys (JArray items) = concat (map json_keys items)"
| "json_keys (JObject items) = map fst items @ concat (map (\<lambda>kv. json_keys (snd kv)) items)"
| "json_keys _ = []"

fun json_strings :: "json \<Rightarrow> string list" where
  "json_strings (JArray items) = concat (map json_strings items)"
| "json_strings (JObject items) = concat (map (\<lambda>kv. json_strings (snd kv)) items)"
| "json_strings (JStr s) = [s]"
| "json_strings _ = []"

lemma json_has_secret_iff:
  "json_has_secret v \<longleftrightarrow>
     (\<exists>k \<in> set (json_keys v). key_is_forbidden k) \<or> (\<exists>s \<in> set (json_strings v). value_is_forbidden s)"
proof (induction v)
  case (JArray xs)
  then show ?case by (auto simp: list_ex_iff)
next
  case (JObject items)
  have split: "json_has_secret (snd kv) \<longleftrightarrow>
      (\<exists>k \<in> set (json_keys (snd kv)). key_is_forbidden k) \<or>
      (\<exists>s \<in> set (json_strings (snd kv)). value_is_forbidden s)" if "kv \<in> set items" for kv
    using JObject that by (cases kv) auto
  have drop: "(case snd kv of JStr s \<Rightarrow> value_is_forbidden s | _ \<Rightarrow> False) \<or> json_has_secret (snd kv)
      \<longleftrightarrow> json_has_secret (snd kv)" for kv :: "string \<times> json"
    by (cases "snd kv") auto
  show ?case
    by (simp only: json_has_secret.simps list_ex_iff drop) (auto simp: split)
qed auto

end
