(* ===== verification/Domain_Records.thy ===== *)
theory Domain_Records
  imports Enums Json_Values
begin

text \<open>
  The durable records of \<^verbatim>\<open>src/stateback/domain\<close>, one HOL record per frozen dataclass with the
  dataclass's fields in order, and one \<open>validate_...\<close> per \<open>__post_init__\<close>, with the checks in
  source order. \<open>dataclasses.replace\<close> and every constructor call run the validation again, so
  the components that build records go through the \<open>make_...\<close> functions. A \<open>UtcTimestamp\<close> is
  the instant in microseconds (the class admits timezone-aware datetimes with offset zero
  only, and compares instants). Tuples and lists of Python are HOL lists.
\<close>

section \<open>Identifiers and timestamps\<close>

datatype opaque_id = OpaqueId (oid_value: string)

definition is_lower_hex :: "char \<Rightarrow> bool" where
  "is_lower_hex c =
     (let n = (of_char c :: nat) in 48 \<le> n \<and> n \<le> 57 \<or> 97 \<le> n \<and> n \<le> 102)"

text \<open>The regular expression \<^verbatim>\<open>^[0-9a-f]{8}-[0-9a-f]{4}-[0-9a-f]{4}-[0-9a-f]{4}-[0-9a-f]{12}$\<close>.\<close>

definition opaque_id_re :: "string \<Rightarrow> bool" where
  "opaque_id_re s =
     (length s = 36 \<and>
      list_all (\<lambda>ic. if fst ic \<in> {8, 13, 18, 23} then snd ic = CHR ''-'' else is_lower_hex (snd ic))
        (zip [0..<36] s))"

definition make_opaque_id :: "string \<Rightarrow> opaque_id fallible" where
  "make_opaque_id s =
     (if opaque_id_re s then Inr (OpaqueId s)
      else Inl (ContractValidationError ''invalid_opaque_id''))"

instantiation opaque_id :: linorder
begin

definition less_eq_opaque_id :: "opaque_id \<Rightarrow> opaque_id \<Rightarrow> bool" where
  "less_eq_opaque_id a b \<longleftrightarrow> oid_value a \<le> oid_value b"

definition less_opaque_id :: "opaque_id \<Rightarrow> opaque_id \<Rightarrow> bool" where
  "less_opaque_id a b \<longleftrightarrow> oid_value a < oid_value b"

instance
  by standard (auto simp: less_eq_opaque_id_def less_opaque_id_def intro: opaque_id.expand)

end

text \<open>A Python datetime: the local reading in microseconds and the UTC offset, if it has one.\<close>

record py_datetime =
  dt_local :: int
  dt_offset :: "int option"

datatype utc_timestamp = UtcTimestamp (ts_value: int)

definition make_utc_timestamp :: "py_datetime \<Rightarrow> utc_timestamp fallible" where
  "make_utc_timestamp d =
     (case dt_offset d of
        None \<Rightarrow> Inl (ContractValidationError ''naive_timestamp'')
      | Some off \<Rightarrow>
          if off \<noteq> 0 then Inl (ContractValidationError ''non_utc_timestamp'')
          else Inr (UtcTimestamp (dt_local d)))"

instantiation utc_timestamp :: linorder
begin

definition less_eq_utc_timestamp :: "utc_timestamp \<Rightarrow> utc_timestamp \<Rightarrow> bool" where
  "less_eq_utc_timestamp a b \<longleftrightarrow> ts_value a \<le> ts_value b"

definition less_utc_timestamp :: "utc_timestamp \<Rightarrow> utc_timestamp \<Rightarrow> bool" where
  "less_utc_timestamp a b \<longleftrightarrow> ts_value a < ts_value b"

instance
  by standard (auto simp: less_eq_utc_timestamp_def less_utc_timestamp_def intro: utc_timestamp.expand)

end

lemma ts_le_refl [simp]: "(t :: utc_timestamp) < t \<longleftrightarrow> False"
  by (simp add: less_utc_timestamp_def)

section \<open>References, evidence and errors\<close>

record effect_ref =
  ef_provider :: string
  ef_action :: string
  ef_version :: string

record principal_ref =
  pr_type :: principal_type
  pr_id :: string
  pr_display_name :: "string option"

definition validate_principal_ref :: "principal_ref \<Rightarrow> unit fallible" where
  "validate_principal_ref p =
     guard_err (str_strip (pr_id p) = pr_id p) (ContractValidationError ''invalid_principal_id'')"

record provider_evidence =
  ev_source :: evidence_source
  ev_provider :: string
  ev_observed_at :: utc_timestamp
  ev_provider_status :: "string option"
  ev_provider_request_id :: "string option"
  ev_external_operation_id :: "string option"
  ev_external_resource_ids :: "string list"
  ev_evidence_fields :: json
  ev_raw_reference :: "string option"

definition validate_provider_evidence :: "provider_evidence \<Rightarrow> unit fallible" where
  "validate_provider_evidence e = reject_secrets_in_json (ev_evidence_fields e)"

record normalized_error =
  er_contract_version :: string
  er_kind :: error_kind
  er_code :: string
  er_message :: string
  er_retryable_infrastructure :: bool
  er_provider_http_status :: "int option"
  er_provider_error_code :: "string option"
  er_retry_after_seconds :: "int option"
  er_details :: json

definition validate_normalized_error :: "normalized_error \<Rightarrow> unit fallible" where
  "validate_normalized_error e =
     bind_err (guard_err (er_contract_version e = CONTRACT_VERSION)
                 (ContractValidationError ''unsupported_contract_version'')) (\<lambda>_.
     bind_err (guard_err (case er_provider_http_status e of None \<Rightarrow> True
                          | Some n \<Rightarrow> 100 \<le> n \<and> n \<le> 599)
                 (ContractValidationError ''invalid_range'')) (\<lambda>_.
     reject_secrets_in_json (er_details e)))"

section \<open>Intent and operation\<close>

record intent_envelope =
  in_effect :: effect_ref
  in_arguments_mode :: arguments_mode
  in_arguments :: "json option"
  in_arguments_ref :: "string option"
  in_canonical_arguments_hash :: string
  in_intent_digest :: string
  in_requester :: principal_ref
  in_requested_at :: utc_timestamp
  in_metadata :: "(string \<times> string) list"

definition operation_idempotency_identity :: "opaque_id \<Rightarrow> string" where
  "operation_idempotency_identity i = ''sb:'' @ CONTRACT_VERSION @ '':op:'' @ oid_value i"

definition compensation_idempotency_identity :: "opaque_id \<Rightarrow> string" where
  "compensation_idempotency_identity i = ''sb:'' @ CONTRACT_VERSION @ '':comp:'' @ oid_value i"

record operation =
  op_contract_version :: string
  op_id :: opaque_id
  op_state :: operation_state
  op_version :: int
  op_intent :: intent_envelope
  op_risk_level :: risk_level
  op_idempotency_identity :: string
  op_current_policy_decision_id :: "opaque_id option"
  op_current_approval_id :: "opaque_id option"
  op_latest_attempt_id :: "opaque_id option"
  op_latest_verification_id :: "opaque_id option"
  op_compensation_id :: "opaque_id option"
  op_created_at :: utc_timestamp
  op_updated_at :: utc_timestamp

definition validate_operation :: "operation \<Rightarrow> unit fallible" where
  "validate_operation o' =
     bind_err (guard_err (op_contract_version o' = CONTRACT_VERSION)
                 (ContractValidationError ''unsupported_contract_version'')) (\<lambda>_.
     bind_err (guard_err (INITIAL_OPERATION_VERSION \<le> op_version o')
                 (ContractValidationError ''invalid_range'')) (\<lambda>_.
     bind_err (guard_err (op_idempotency_identity o' = operation_idempotency_identity (op_id o'))
                 (ContractValidationError ''idempotency_mismatch'')) (\<lambda>_.
     guard_err (\<not> op_updated_at o' < op_created_at o')
       (ContractValidationError ''invalid_timestamp''))))"

definition make_operation :: "operation \<Rightarrow> operation fallible" where
  "make_operation o' = bind_err (validate_operation o') (\<lambda>_. Inr o')"

text \<open>\<open>next_version\<close>: integers below 1 are refused.\<close>

definition next_version :: "int \<Rightarrow> int fallible" where
  "next_version current =
     (if current < 1 then Inl (ContractValidationError ''invalid_range'') else Inr (current + 1))"

lemma next_version_Inr: "next_version v = Inr w \<longleftrightarrow> 1 \<le> v \<and> w = v + 1"
  by (auto simp: next_version_def)

lemma operation_identity_inject:
  "operation_idempotency_identity a = operation_idempotency_identity b \<longleftrightarrow> a = b"
  by (cases a; cases b) (simp add: operation_idempotency_identity_def)

lemma compensation_identity_inject:
  "compensation_idempotency_identity a = compensation_idempotency_identity b \<longleftrightarrow> a = b"
  by (cases a; cases b) (simp add: compensation_idempotency_identity_def)

lemma identities_disjoint:
  "operation_idempotency_identity a \<noteq> compensation_idempotency_identity b"
  by (simp add: operation_idempotency_identity_def compensation_idempotency_identity_def)

section \<open>Execution attempts\<close>

record execution_attempt =
  att_contract_version :: string
  att_id :: opaque_id
  att_operation_id :: opaque_id
  att_number :: int
  att_state :: attempt_state
  att_started_at :: utc_timestamp
  att_completed_at :: "utc_timestamp option"
  att_provider_idempotency_key :: "string option"
  att_external_operation_id :: "string option"
  att_external_resource_ids :: "string list"
  att_outcome :: "effect_outcome option"
  att_evidence :: "provider_evidence option"
  att_error :: "normalized_error option"
  att_correlation_id :: "string option"

definition validate_execution_attempt :: "execution_attempt \<Rightarrow> unit fallible" where
  "validate_execution_attempt a =
     bind_err (guard_err (att_contract_version a = CONTRACT_VERSION)
                 (ContractValidationError ''unsupported_contract_version'')) (\<lambda>_.
     bind_err (guard_err (1 \<le> att_number a) (ContractValidationError ''invalid_range'')) (\<lambda>_.
     (case att_state a of
        AS_STARTED \<Rightarrow>
          guard_err (att_completed_at a = None \<and> att_outcome a = None)
            (ContractValidationError ''illegal_combination'')
      | AS_COMPLETED \<Rightarrow>
          (case att_completed_at a of
             None \<Rightarrow> Inl (ContractValidationError ''illegal_combination'')
           | Some done \<Rightarrow>
               if att_outcome a = None then Inl (ContractValidationError ''illegal_combination'')
               else guard_err (\<not> done < att_started_at a)
                      (ContractValidationError ''invalid_timestamp'')))))"

section \<open>Policy decisions and approvals\<close>

record policy_obligations =
  ob_require_verification :: bool
  ob_max_automatic_execution_attempts :: "int option"
  ob_max_automatic_recovery_attempts :: "int option"
  ob_automatic_compensation_allowed :: bool
  ob_operator_reason_required :: bool
  ob_approval_expires_at :: "utc_timestamp option"

record policy_decision =
  pd_contract_version :: string
  pd_id :: opaque_id
  pd_operation_id :: opaque_id
  pd_operation_version :: int
  pd_intent_digest :: string
  pd_verdict :: policy_verdict
  pd_reason_codes :: "string list"
  pd_explanation :: "string option"
  pd_obligations :: policy_obligations
  pd_policy_revision :: string
  pd_evaluated_at :: utc_timestamp

definition validate_policy_decision :: "policy_decision \<Rightarrow> unit fallible" where
  "validate_policy_decision d =
     bind_err (guard_err (pd_contract_version d = CONTRACT_VERSION)
                 (ContractValidationError ''unsupported_contract_version'')) (\<lambda>_.
     guard_err (1 \<le> pd_operation_version d) (ContractValidationError ''invalid_range''))"

record approval =
  ap_contract_version :: string
  ap_id :: opaque_id
  ap_operation_id :: opaque_id
  ap_operation_version :: int
  ap_intent_digest :: string
  ap_policy_decision_id :: opaque_id
  ap_state :: approval_state
  ap_requested_at :: utc_timestamp
  ap_expires_at :: "utc_timestamp option"
  ap_decided_at :: "utc_timestamp option"
  ap_decided_by :: "principal_ref option"
  ap_reason :: "string option"

definition validate_approval :: "approval \<Rightarrow> unit fallible" where
  "validate_approval a =
     bind_err (guard_err (ap_contract_version a = CONTRACT_VERSION)
                 (ContractValidationError ''unsupported_contract_version'')) (\<lambda>_.
     bind_err (guard_err (1 \<le> ap_operation_version a)
                 (ContractValidationError ''invalid_range'')) (\<lambda>_.
     if ap_state a = AP_PENDING
     then guard_err (ap_decided_at a = None \<and> ap_decided_by a = None)
            (ContractValidationError ''illegal_combination'')
     else guard_err (ap_decided_at a \<noteq> None) (ContractValidationError ''illegal_combination'')))"

section \<open>Verification and reconciliation\<close>

record verification_request =
  vq_contract_version :: string
  vq_id :: opaque_id
  vq_operation_id :: opaque_id
  vq_operation_version :: int
  vq_target :: verification_target
  vq_target_attempt_id :: "opaque_id option"
  vq_effect :: effect_ref
  vq_external_operation_id :: "string option"
  vq_external_resource_ids :: "string list"
  vq_idempotency_identity :: string
  vq_provider_evidence_refs :: "opaque_id list"
  vq_requested_at :: utc_timestamp

definition validate_verification_request :: "verification_request \<Rightarrow> unit fallible" where
  "validate_verification_request q =
     bind_err (guard_err (vq_contract_version q = CONTRACT_VERSION)
                 (ContractValidationError ''unsupported_contract_version'')) (\<lambda>_.
     guard_err (1 \<le> vq_operation_version q) (ContractValidationError ''invalid_range''))"

record verification_result =
  vs_contract_version :: string
  vs_id :: opaque_id
  vs_outcome :: effect_outcome
  vs_evidence :: provider_evidence
  vs_error :: "normalized_error option"
  vs_completed_at :: utc_timestamp

definition validate_verification_result :: "verification_result \<Rightarrow> unit fallible" where
  "validate_verification_result r =
     guard_err (vs_contract_version r = CONTRACT_VERSION)
       (ContractValidationError ''unsupported_contract_version'')"

record reconciliation_decision =
  rd_action :: reconciliation_action
  rd_reason_code :: string

record stored_reconciliation_decision =
  sr_id :: opaque_id
  sr_operation_id :: opaque_id
  sr_operation_version :: int
  sr_verification_id :: "opaque_id option"
  sr_decision :: reconciliation_decision
  sr_created_at :: utc_timestamp

section \<open>Compensations\<close>

record compensation =
  cm_contract_version :: string
  cm_id :: opaque_id
  cm_original_operation_id :: opaque_id
  cm_kind :: compensation_kind
  cm_state :: compensation_state
  cm_version :: int
  cm_intent_digest :: string
  cm_arguments_mode :: arguments_mode
  cm_arguments :: "json option"
  cm_arguments_ref :: "string option"
  cm_idempotency_identity :: string
  cm_requested_by :: principal_ref
  cm_policy_decision_id :: "opaque_id option"
  cm_created_at :: utc_timestamp
  cm_updated_at :: utc_timestamp

definition validate_compensation :: "compensation \<Rightarrow> unit fallible" where
  "validate_compensation c =
     bind_err (guard_err (cm_contract_version c = CONTRACT_VERSION)
                 (ContractValidationError ''unsupported_contract_version'')) (\<lambda>_.
     bind_err (guard_err (cm_kind c \<noteq> CK_NONE)
                 (ContractValidationError ''illegal_combination'')) (\<lambda>_.
     bind_err (guard_err (INITIAL_COMPENSATION_VERSION \<le> cm_version c)
                 (ContractValidationError ''invalid_range'')) (\<lambda>_.
     bind_err
       (if cm_arguments_mode c = AM_INLINE
        then (case cm_arguments c of
                None \<Rightarrow> Inl (ContractValidationError ''illegal_combination'')
              | Some args \<Rightarrow>
                  if cm_arguments_ref c \<noteq> None
                  then Inl (ContractValidationError ''illegal_combination'')
                  else reject_secrets_in_json args)
        else guard_err (cm_arguments c = None \<and> cm_arguments_ref c \<noteq> None)
               (ContractValidationError ''illegal_combination'')) (\<lambda>_.
     bind_err (guard_err (cm_idempotency_identity c = compensation_idempotency_identity (cm_id c))
                 (ContractValidationError ''idempotency_mismatch'')) (\<lambda>_.
     guard_err (\<not> cm_updated_at c < cm_created_at c)
       (ContractValidationError ''invalid_timestamp''))))))"

definition make_compensation :: "compensation \<Rightarrow> compensation fallible" where
  "make_compensation c = bind_err (validate_compensation c) (\<lambda>_. Inr c)"

record compensation_attempt =
  ca_contract_version :: string
  ca_id :: opaque_id
  ca_compensation_id :: opaque_id
  ca_number :: int
  ca_state :: attempt_state
  ca_started_at :: utc_timestamp
  ca_completed_at :: "utc_timestamp option"
  ca_provider_idempotency_key :: "string option"
  ca_external_operation_id :: "string option"
  ca_outcome :: "effect_outcome option"
  ca_evidence :: "provider_evidence option"
  ca_error :: "normalized_error option"

definition validate_compensation_attempt :: "compensation_attempt \<Rightarrow> unit fallible" where
  "validate_compensation_attempt a =
     bind_err (guard_err (ca_contract_version a = CONTRACT_VERSION)
                 (ContractValidationError ''unsupported_contract_version'')) (\<lambda>_.
     bind_err (guard_err (1 \<le> ca_number a) (ContractValidationError ''invalid_range'')) (\<lambda>_.
     (case ca_state a of
        AS_STARTED \<Rightarrow>
          guard_err (ca_completed_at a = None \<and> ca_outcome a = None)
            (ContractValidationError ''illegal_combination'')
      | AS_COMPLETED \<Rightarrow>
          guard_err (ca_completed_at a \<noteq> None \<and> ca_outcome a \<noteq> None)
            (ContractValidationError ''illegal_combination''))))"

definition PARENT_FOR_COMPENSATION_STATE :: "compensation_state \<Rightarrow> operation_state" where
  "PARENT_FOR_COMPENSATION_STATE s =
     (case s of
        CS_PENDING \<Rightarrow> OS_COMPENSATING
      | CS_EXECUTING \<Rightarrow> OS_COMPENSATING
      | CS_VERIFYING \<Rightarrow> OS_COMPENSATING
      | CS_UNKNOWN \<Rightarrow> OS_COMPENSATION_UNKNOWN
      | CS_SUCCEEDED \<Rightarrow> OS_COMPENSATED
      | CS_FAILED \<Rightarrow> OS_COMPENSATION_FAILED)"

section \<open>Audit events, outbox events and work messages\<close>

record audit_event =
  au_contract_version :: string
  au_id :: opaque_id
  au_operation_id :: opaque_id
  au_sequence :: int
  au_event_type :: audit_event_type
  au_from_state :: "operation_state option"
  au_to_state :: "operation_state option"
  au_operation_version :: int
  au_actor :: "principal_ref option"
  au_reason_code :: string
  au_data :: json
  au_correlation_id :: "string option"
  au_created_at :: utc_timestamp

definition validate_audit_event :: "audit_event \<Rightarrow> unit fallible" where
  "validate_audit_event e =
     bind_err (guard_err (au_contract_version e = CONTRACT_VERSION)
                 (ContractValidationError ''unsupported_contract_version'')) (\<lambda>_.
     bind_err (guard_err (1 \<le> au_sequence e) (ContractValidationError ''invalid_range'')) (\<lambda>_.
     bind_err (guard_err (1 \<le> au_operation_version e)
                 (ContractValidationError ''invalid_range'')) (\<lambda>_.
     bind_err (reject_secrets_in_json (au_data e)) (\<lambda>_.
     if au_event_type e = AE_OPERATION_TRANSITIONED
     then guard_err (au_from_state e \<noteq> None \<and> au_to_state e \<noteq> None)
            (ContractValidationError ''illegal_combination'')
     else Inr ()))))"

definition make_audit_event :: "audit_event \<Rightarrow> audit_event fallible" where
  "make_audit_event e = bind_err (validate_audit_event e) (\<lambda>_. Inr e)"

record outbox_event =
  ox_contract_version :: string
  ox_id :: opaque_id
  ox_state :: outbox_state
  ox_aggregate_type :: string
  ox_aggregate_id :: opaque_id
  ox_operation_version :: int
  ox_command :: work_command
  ox_created_at :: utc_timestamp
  ox_published_at :: "utc_timestamp option"
  ox_correlation_id :: "string option"

definition AGGREGATE_TYPE_OPERATION :: string where
  "AGGREGATE_TYPE_OPERATION = ''operation''"

definition validate_outbox_event :: "outbox_event \<Rightarrow> unit fallible" where
  "validate_outbox_event e =
     bind_err (guard_err (ox_contract_version e = CONTRACT_VERSION)
                 (ContractValidationError ''unsupported_contract_version'')) (\<lambda>_.
     bind_err (guard_err (ox_aggregate_type e = AGGREGATE_TYPE_OPERATION)
                 (ContractValidationError ''illegal_combination'')) (\<lambda>_.
     bind_err (guard_err (1 \<le> ox_operation_version e)
                 (ContractValidationError ''invalid_range'')) (\<lambda>_.
     bind_err (guard_err (\<not> (ox_state e = OB_PENDING \<and> ox_published_at e \<noteq> None))
                 (ContractValidationError ''illegal_combination'')) (\<lambda>_.
     guard_err (\<not> (ox_state e = OB_PUBLISHED \<and> ox_published_at e = None))
       (ContractValidationError ''illegal_combination'')))))"

definition make_outbox_event :: "outbox_event \<Rightarrow> outbox_event fallible" where
  "make_outbox_event e = bind_err (validate_outbox_event e) (\<lambda>_. Inr e)"

record work_message =
  wm_contract_version :: string
  wm_message_id :: opaque_id
  wm_outbox_event_id :: opaque_id
  wm_operation_id :: opaque_id
  wm_expected_operation_version :: int
  wm_command :: work_command
  wm_correlation_id :: "string option"
  wm_created_at :: utc_timestamp

definition validate_work_message :: "work_message \<Rightarrow> unit fallible" where
  "validate_work_message m =
     bind_err (guard_err (wm_contract_version m = CONTRACT_VERSION)
                 (ContractValidationError ''unsupported_contract_version'')) (\<lambda>_.
     guard_err (1 \<le> wm_expected_operation_version m) (ContractValidationError ''invalid_range''))"

lemma make_operation_Inr:
  "make_operation o' = Inr p \<longleftrightarrow> p = o' \<and> validate_operation o' = Inr ()"
  by (auto simp: make_operation_def)

lemma make_compensation_Inr:
  "make_compensation c = Inr d \<longleftrightarrow> d = c \<and> validate_compensation c = Inr ()"
  by (auto simp: make_compensation_def)

lemma make_audit_event_Inr:
  "make_audit_event e = Inr f \<longleftrightarrow> f = e \<and> validate_audit_event e = Inr ()"
  by (auto simp: make_audit_event_def)

lemma make_outbox_event_Inr:
  "make_outbox_event e = Inr f \<longleftrightarrow> f = e \<and> validate_outbox_event e = Inr ()"
  by (auto simp: make_outbox_event_def)

lemmas make_record_Inr =
  make_operation_Inr make_compensation_Inr make_audit_event_Inr make_outbox_event_Inr

end
