(* ===== verification/State_Tables.thy ===== *)
theory State_Tables
  imports Domain_Records
begin

text \<open>
  The legal transition tables of \<^verbatim>\<open>domain/transitions.py\<close> and the functions that look a pair up in
  them. The locale \<open>listed_machine\<close> is the contract every table offers its clients (a pair is
  judged \<open>LEGAL\<close> exactly when it is listed) and derives the run-level facts from it: every
  state on a legal run is reached over listed edges, and a state without outgoing edges is
  final. All four tables (operation, compensation, approval, outbox) interpret it.
\<close>

section \<open>The tables\<close>

definition LEGAL_OPERATION_TRANSITIONS :: "(operation_state option \<times> operation_state) list" where
  "LEGAL_OPERATION_TRANSITIONS =
    [(None, OS_PENDING_POLICY),
     (Some OS_PENDING_POLICY, OS_READY),
     (Some OS_PENDING_POLICY, OS_AWAITING_APPROVAL),
     (Some OS_PENDING_POLICY, OS_DENIED),
     (Some OS_PENDING_POLICY, OS_CANCELLED),
     (Some OS_AWAITING_APPROVAL, OS_READY),
     (Some OS_AWAITING_APPROVAL, OS_DENIED),
     (Some OS_AWAITING_APPROVAL, OS_CANCELLED),
     (Some OS_READY, OS_EXECUTING),
     (Some OS_READY, OS_CANCELLED),
     (Some OS_READY, OS_MANUAL_INTERVENTION),
     (Some OS_EXECUTING, OS_SUCCEEDED),
     (Some OS_EXECUTING, OS_VERIFYING),
     (Some OS_EXECUTING, OS_READY),
     (Some OS_EXECUTING, OS_FAILED),
     (Some OS_EXECUTING, OS_UNKNOWN),
     (Some OS_EXECUTING, OS_MANUAL_INTERVENTION),
     (Some OS_VERIFYING, OS_SUCCEEDED),
     (Some OS_VERIFYING, OS_READY),
     (Some OS_VERIFYING, OS_FAILED),
     (Some OS_VERIFYING, OS_UNKNOWN),
     (Some OS_VERIFYING, OS_MANUAL_INTERVENTION),
     (Some OS_UNKNOWN, OS_VERIFYING),
     (Some OS_UNKNOWN, OS_READY),
     (Some OS_UNKNOWN, OS_SUCCEEDED),
     (Some OS_UNKNOWN, OS_FAILED),
     (Some OS_UNKNOWN, OS_MANUAL_INTERVENTION),
     (Some OS_SUCCEEDED, OS_COMPENSATING),
     (Some OS_FAILED, OS_COMPENSATING),
     (Some OS_MANUAL_INTERVENTION, OS_VERIFYING),
     (Some OS_MANUAL_INTERVENTION, OS_COMPENSATING),
     (Some OS_MANUAL_INTERVENTION, OS_READY),
     (Some OS_COMPENSATING, OS_COMPENSATED),
     (Some OS_COMPENSATING, OS_COMPENSATION_UNKNOWN),
     (Some OS_COMPENSATING, OS_COMPENSATION_FAILED),
     (Some OS_COMPENSATING, OS_MANUAL_INTERVENTION),
     (Some OS_COMPENSATION_UNKNOWN, OS_COMPENSATING),
     (Some OS_COMPENSATION_UNKNOWN, OS_COMPENSATED),
     (Some OS_COMPENSATION_UNKNOWN, OS_COMPENSATION_FAILED),
     (Some OS_COMPENSATION_UNKNOWN, OS_MANUAL_INTERVENTION),
     (Some OS_COMPENSATION_FAILED, OS_COMPENSATING),
     (Some OS_COMPENSATION_FAILED, OS_MANUAL_INTERVENTION)]"

definition LEGAL_COMPENSATION_TRANSITIONS :: "(compensation_state \<times> compensation_state) list" where
  "LEGAL_COMPENSATION_TRANSITIONS =
    [(CS_PENDING, CS_EXECUTING),
     (CS_EXECUTING, CS_SUCCEEDED),
     (CS_EXECUTING, CS_VERIFYING),
     (CS_EXECUTING, CS_UNKNOWN),
     (CS_EXECUTING, CS_FAILED),
     (CS_VERIFYING, CS_SUCCEEDED),
     (CS_VERIFYING, CS_EXECUTING),
     (CS_VERIFYING, CS_UNKNOWN),
     (CS_VERIFYING, CS_FAILED),
     (CS_UNKNOWN, CS_VERIFYING),
     (CS_UNKNOWN, CS_EXECUTING),
     (CS_UNKNOWN, CS_SUCCEEDED),
     (CS_UNKNOWN, CS_FAILED),
     (CS_FAILED, CS_EXECUTING)]"

definition LEGAL_APPROVAL_TRANSITIONS :: "(approval_state \<times> approval_state) list" where
  "LEGAL_APPROVAL_TRANSITIONS =
    [(AP_PENDING, AP_APPROVED),
     (AP_PENDING, AP_REJECTED),
     (AP_PENDING, AP_EXPIRED),
     (AP_PENDING, AP_CANCELLED)]"

definition LEGAL_OUTBOX_TRANSITIONS :: "(outbox_state \<times> outbox_state) list" where
  "LEGAL_OUTBOX_TRANSITIONS = [(OB_PENDING, OB_PUBLISHED)]"

record transition_decision =
  td_verdict :: transition_verdict
  td_from_state :: "string option"
  td_to_state :: string
  td_reason_code :: string

definition td_is_legal :: "transition_decision \<Rightarrow> bool" where
  "td_is_legal d = (td_verdict d = TV_LEGAL)"

section \<open>Looking a pair up\<close>

definition evaluate_operation_transition ::
  "operation_state option \<Rightarrow> operation_state \<Rightarrow> transition_decision" where
  "evaluate_operation_transition from_state to_state =
     (if (from_state, to_state) \<in> set LEGAL_OPERATION_TRANSITIONS
      then \<lparr>td_verdict = TV_LEGAL, td_from_state = map_option operation_state_value from_state,
            td_to_state = operation_state_value to_state,
            td_reason_code = ''listed_in_state_machines''\<rparr>
      else \<lparr>td_verdict = TV_ILLEGAL, td_from_state = map_option operation_state_value from_state,
            td_to_state = operation_state_value to_state,
            td_reason_code = ''unlisted_operation_transition''\<rparr>)"

definition evaluate_compensation_transition ::
  "compensation_state \<Rightarrow> compensation_state \<Rightarrow> transition_decision" where
  "evaluate_compensation_transition from_state to_state =
     (if (from_state, to_state) \<in> set LEGAL_COMPENSATION_TRANSITIONS
      then \<lparr>td_verdict = TV_LEGAL, td_from_state = Some (compensation_state_value from_state),
            td_to_state = compensation_state_value to_state,
            td_reason_code = ''listed_in_state_machines''\<rparr>
      else \<lparr>td_verdict = TV_ILLEGAL, td_from_state = Some (compensation_state_value from_state),
            td_to_state = compensation_state_value to_state,
            td_reason_code = ''unlisted_compensation_transition''\<rparr>)"

definition evaluate_approval_transition ::
  "approval_state \<Rightarrow> approval_state \<Rightarrow> transition_decision" where
  "evaluate_approval_transition from_state to_state =
     (if (from_state, to_state) \<in> set LEGAL_APPROVAL_TRANSITIONS
      then \<lparr>td_verdict = TV_LEGAL, td_from_state = Some (approval_state_value from_state),
            td_to_state = approval_state_value to_state,
            td_reason_code = ''listed_in_state_machines''\<rparr>
      else \<lparr>td_verdict = TV_ILLEGAL, td_from_state = Some (approval_state_value from_state),
            td_to_state = approval_state_value to_state,
            td_reason_code = ''unlisted_approval_transition''\<rparr>)"

definition evaluate_outbox_transition ::
  "outbox_state \<Rightarrow> outbox_state \<Rightarrow> transition_decision" where
  "evaluate_outbox_transition from_state to_state =
     (if (from_state, to_state) \<in> set LEGAL_OUTBOX_TRANSITIONS
      then \<lparr>td_verdict = TV_LEGAL, td_from_state = Some (outbox_state_value from_state),
            td_to_state = outbox_state_value to_state,
            td_reason_code = ''listed_in_state_machines''\<rparr>
      else \<lparr>td_verdict = TV_ILLEGAL, td_from_state = Some (outbox_state_value from_state),
            td_to_state = outbox_state_value to_state,
            td_reason_code = ''unlisted_outbox_transition''\<rparr>)"

definition compensation_parent_is_consistent ::
  "compensation_state \<Rightarrow> operation_state \<Rightarrow> transition_decision" where
  "compensation_parent_is_consistent compensation_state parent_state =
     (if parent_state = PARENT_FOR_COMPENSATION_STATE compensation_state
      then \<lparr>td_verdict = TV_LEGAL,
            td_from_state = Some (compensation_state_value compensation_state),
            td_to_state = operation_state_value parent_state,
            td_reason_code = ''compensation_parent_consistent''\<rparr>
      else \<lparr>td_verdict = TV_ILLEGAL,
            td_from_state = Some (compensation_state_value compensation_state),
            td_to_state = operation_state_value parent_state,
            td_reason_code = ''compensation_parent_inconsistent''\<rparr>)"

lemma parent_consistent_iff [simp]:
  "td_is_legal (compensation_parent_is_consistent c p) \<longleftrightarrow> p = PARENT_FOR_COMPENSATION_STATE c"
  by (simp add: td_is_legal_def compensation_parent_is_consistent_def)

section \<open>The contract of a table\<close>

text \<open>
  A run of a table from \<open>s\<close>: the states visited after \<open>s\<close>, each step judged legal. The
  machine's judgement is the function the engine calls; its table is what the judgement means.
\<close>

fun legal_run :: "('s \<Rightarrow> 's \<Rightarrow> transition_decision) \<Rightarrow> 's \<Rightarrow> 's list \<Rightarrow> bool" where
  "legal_run judge s [] = True"
| "legal_run judge s (t # ts) = (td_is_legal (judge s t) \<and> legal_run judge t ts)"

locale listed_machine =
  fixes judge :: "'s \<Rightarrow> 's \<Rightarrow> transition_decision" and table :: "('s \<times> 's) list"
  assumes judge_iff: "td_is_legal (judge s t) \<longleftrightarrow> (s, t) \<in> set table"
begin

lemma run_reaches: "legal_run judge s ts \<Longrightarrow> t \<in> set (s # ts) \<Longrightarrow> (s, t) \<in> (set table)\<^sup>*"
proof (induction ts arbitrary: s)
  case Nil
  then show ?case by simp
next
  case (Cons u us)
  then have step: "(s, u) \<in> set table" and run: "legal_run judge u us" by (simp_all add: judge_iff)
  show ?case
  proof (cases "t = s")
    case False
    with Cons.prems have "t \<in> set (u # us)" by auto
    with run have "(u, t) \<in> (set table)\<^sup>*" by (rule Cons.IH)
    with step show ?thesis by (rule converse_rtrancl_into_rtrancl)
  qed simp
qed

lemma final_run: "s \<notin> fst ` set table \<Longrightarrow> legal_run judge s ts \<Longrightarrow> ts = []"
  by (cases ts) (force simp: judge_iff)+

lemma closed_run:
  assumes "legal_run judge s ts" and "s \<in> A" and "\<And>u v. (u, v) \<in> set table \<Longrightarrow> u \<in> A \<Longrightarrow> v \<in> A"
  shows "set ts \<subseteq> A"
  using assms(1,2)
proof (induction ts arbitrary: s)
  case (Cons u us)
  then have "u \<in> A" and "legal_run judge u us" using assms(3) [of s u] by (simp_all add: judge_iff)
  with Cons.IH [of u] show ?case by simp
qed simp

end

definition operation_edges :: "(operation_state \<times> operation_state) list" where
  "operation_edges =
     map (\<lambda>p. (the (fst p), snd p)) (filter (\<lambda>p. fst p \<noteq> None) LEGAL_OPERATION_TRANSITIONS)"

lemma operation_edges_iff:
  "(s, t) \<in> set operation_edges \<longleftrightarrow> (Some s, t) \<in> set LEGAL_OPERATION_TRANSITIONS"
  by (force simp: operation_edges_def)

interpretation opm: listed_machine "\<lambda>s. evaluate_operation_transition (Some s)" operation_edges
  by unfold_locales
    (simp add: evaluate_operation_transition_def td_is_legal_def operation_edges_iff)

interpretation cmm: listed_machine evaluate_compensation_transition LEGAL_COMPENSATION_TRANSITIONS
  by unfold_locales (simp add: evaluate_compensation_transition_def td_is_legal_def)

interpretation apm: listed_machine evaluate_approval_transition LEGAL_APPROVAL_TRANSITIONS
  by unfold_locales (simp add: evaluate_approval_transition_def td_is_legal_def)

interpretation obm: listed_machine evaluate_outbox_transition LEGAL_OUTBOX_TRANSITIONS
  by unfold_locales (simp add: evaluate_outbox_transition_def td_is_legal_def)

lemma operation_legal_iff:
  "td_verdict (evaluate_operation_transition s t) = TV_LEGAL \<longleftrightarrow>
     (s, t) \<in> set LEGAL_OPERATION_TRANSITIONS"
  by (simp add: evaluate_operation_transition_def)

section \<open>What the operation table says\<close>

text \<open>The absolutely terminal states have no outgoing edge, and no other state is final.\<close>

lemma operation_final_states:
  "s \<notin> fst ` set operation_edges \<longleftrightarrow> s \<in> set ABSOLUTE_TERMINAL_STATES"
  by (cases s) (simp_all add: operation_edges_def LEGAL_OPERATION_TRANSITIONS_def
      ABSOLUTE_TERMINAL_STATES_def)

lemma operation_terminal_no_edge:
  "s \<in> set ABSOLUTE_TERMINAL_STATES \<Longrightarrow> (Some s, t) \<notin> set LEGAL_OPERATION_TRANSITIONS"
  by (cases s) (simp_all add: LEGAL_OPERATION_TRANSITIONS_def ABSOLUTE_TERMINAL_STATES_def)

text \<open>
  An operation whose state is DENIED, CANCELLED or COMPENSATED can make no further legal
  transition: the only legal run from such a state is the empty one, and these three states
  are the only ones with that property.
\<close>

lemma absolute_terminal_runs:
  "{ts. legal_run (\<lambda>u. evaluate_operation_transition (Some u)) s ts} = {[]} \<longleftrightarrow>
   s \<in> set ABSOLUTE_TERMINAL_STATES"
proof
  assume *: "{ts. legal_run (\<lambda>u. evaluate_operation_transition (Some u)) s ts} = {[]}"
  show "s \<in> set ABSOLUTE_TERMINAL_STATES"
  proof (rule ccontr)
    assume "s \<notin> set ABSOLUTE_TERMINAL_STATES"
    then obtain t where "(s, t) \<in> set operation_edges"
      using operation_final_states [of s] by force
    then have "legal_run (\<lambda>u. evaluate_operation_transition (Some u)) s [t]"
      by (simp add: opm.judge_iff)
    with * show False by blast
  qed
next
  assume "s \<in> set ABSOLUTE_TERMINAL_STATES"
  then show "{ts. legal_run (\<lambda>u. evaluate_operation_transition (Some u)) s ts} = {[]}"
    using opm.final_run operation_final_states by auto
qed

end
