(* ===== verification/Safety_Decisions.thy ===== *)
theory Safety_Decisions
  imports Domain_Records
begin

text \<open>
  The pure decision functions of the domain: may an effect be retried
  (\<^verbatim>\<open>domain/retry_safety.py\<close>), what does a crash leave behind (\<^verbatim>\<open>domain/crash.py\<close>), is an approval
  bound to the current intent (\<^verbatim>\<open>domain/approval_binding.py\<close>), has the provider's replay window
  passed (\<^verbatim>\<open>providers/retry.py\<close>); with the capability records of \<^verbatim>\<open>domain/capability.py\<close> they read.
\<close>

section \<open>Capability records\<close>

record provider_key_semantics =
  ks_scope :: string
  ks_replay_window :: "string option"
  ks_same_key_same_request_required :: bool
  ks_conflicting_request_behavior :: string
  ks_response_replay_behavior :: string

record effect_descriptor =
  ed_contract_version :: string
  ed_effect :: effect_ref
  ed_mutability :: mutability
  ed_risk_level :: risk_level
  ed_idempotency_mode :: idempotency_mode
  ed_verification_mode :: verification_mode
  ed_compensation_kind :: compensation_kind
  ed_supports_external_operation_id :: bool
  ed_immediate_response_can_prove_applied :: bool
  ed_immediate_response_can_prove_not_applied :: bool
  ed_provider_key_semantics :: "provider_key_semantics option"
  ed_documentation :: string

definition validate_effect_descriptor :: "effect_descriptor \<Rightarrow> unit fallible" where
  "validate_effect_descriptor d =
     bind_err (guard_err (ed_contract_version d = CONTRACT_VERSION)
                 (ContractValidationError ''unsupported_contract_version'')) (\<lambda>_.
     bind_err (guard_err (if ed_idempotency_mode d = IM_PROVIDER_KEY
                          then ed_provider_key_semantics d \<noteq> None
                          else ed_provider_key_semantics d = None)
                 (ContractValidationError ''illegal_combination'')) (\<lambda>_.
     guard_err (\<not> (ed_mutability d = MU_READ_ONLY \<and> ed_compensation_kind d \<noteq> CK_NONE))
       (ContractValidationError ''illegal_combination'')))"

section \<open>Retry safety\<close>

record retry_safety_decision =
  rs_verdict :: retry_safety_verdict
  rs_basis :: "retry_safety_basis option"
  rs_reason_code :: string

definition INSUFFICIENT :: "string list" where
  "INSUFFICIENT =
     [''timeout_only'', ''worker_died'', ''no_external_id'', ''elapsed_time'',
      ''logs_show_no_success'', ''model_belief'', ''retryable_infrastructure_flag'']"

definition evaluate_effect_retry_safety ::
  "effect_outcome option \<Rightarrow> effect_outcome option \<Rightarrow> idempotency_mode \<Rightarrow> string option \<Rightarrow>
   provider_key_semantics option \<Rightarrow> bool \<Rightarrow> bool \<Rightarrow> retry_safety_decision" where
  "evaluate_effect_retry_safety execution_outcome verification_outcome idempotency_mode
     insufficient_signal provider_key_semantics replay_window_elapsed natural_declaration_tested =
   (case insufficient_signal of
      Some signal \<Rightarrow>
        if signal \<notin> set INSUFFICIENT
        then \<lparr>rs_verdict = RV_UNSAFE, rs_basis = None, rs_reason_code = ''unknown_insufficient_signal''\<rparr>
        else \<lparr>rs_verdict = RV_UNSAFE, rs_basis = None, rs_reason_code = signal\<rparr>
    | None \<Rightarrow>
        if execution_outcome = Some EO_APPLIED
        then \<lparr>rs_verdict = RV_UNSAFE, rs_basis = None, rs_reason_code = ''already_applied''\<rparr>
        else if verification_outcome = Some EO_APPLIED
        then \<lparr>rs_verdict = RV_UNSAFE, rs_basis = None, rs_reason_code = ''verification_applied''\<rparr>
        else if verification_outcome = Some EO_NOT_APPLIED
        then \<lparr>rs_verdict = RV_SAFE, rs_basis = Some RB_VERIFIED_NOT_APPLIED,
              rs_reason_code = ''verification_not_applied''\<rparr>
        else if execution_outcome = Some EO_NOT_APPLIED
        then \<lparr>rs_verdict = RV_SAFE, rs_basis = Some RB_EXECUTION_NOT_APPLIED,
              rs_reason_code = ''execution_not_applied''\<rparr>
        else if \<not> (execution_outcome = None \<or> execution_outcome = Some EO_UNKNOWN)
        then \<lparr>rs_verdict = RV_UNSAFE, rs_basis = None, rs_reason_code = ''unhandled_outcome''\<rparr>
        else if idempotency_mode = IM_NONE
        then \<lparr>rs_verdict = RV_UNSAFE, rs_basis = None, rs_reason_code = ''unknown_without_idempotency''\<rparr>
        else if idempotency_mode = IM_NATURAL
        then (if \<not> natural_declaration_tested
              then \<lparr>rs_verdict = RV_NEEDS_CAPABILITY_PROOF, rs_basis = Some RB_NATURAL_IDEMPOTENCY,
                    rs_reason_code = ''natural_idempotency_requires_tested_declaration''\<rparr>
              else \<lparr>rs_verdict = RV_SAFE, rs_basis = Some RB_NATURAL_IDEMPOTENCY,
                    rs_reason_code = ''natural_idempotency_tested_declaration''\<rparr>)
        else if provider_key_semantics = None
        then \<lparr>rs_verdict = RV_NEEDS_CAPABILITY_PROOF, rs_basis = Some RB_PROVIDER_NATIVE_IDEMPOTENCY,
              rs_reason_code = ''provider_key_requires_adapter_semantics''\<rparr>
        else if replay_window_elapsed
        then \<lparr>rs_verdict = RV_UNSAFE, rs_basis = None,
              rs_reason_code = ''provider_key_replay_window_elapsed''\<rparr>
        else \<lparr>rs_verdict = RV_SAFE, rs_basis = Some RB_PROVIDER_NATIVE_IDEMPOTENCY,
              rs_reason_code = ''provider_key_within_replay_window''\<rparr>)"

text \<open>
  The safety basis of STATE_MACHINES.md section 14, stated over the inputs: a retry has a
  basis when no evidence says the effect was applied and either some evidence says it was not,
  or the effect's declared idempotency makes replay of an unresolved attempt harmless.
\<close>

definition retry_basis ::
  "effect_outcome option \<Rightarrow> effect_outcome option \<Rightarrow> idempotency_mode \<Rightarrow>
   provider_key_semantics option \<Rightarrow> bool \<Rightarrow> bool \<Rightarrow> bool" where
  "retry_basis exe ver mode sem elapsed tested \<longleftrightarrow>
     Some EO_APPLIED \<notin> {exe, ver} \<and>
     (Some EO_NOT_APPLIED \<in> {exe, ver} \<or>
      mode = IM_NATURAL \<and> tested \<or> mode = IM_PROVIDER_KEY \<and> sem \<noteq> None \<and> \<not> elapsed)"

text \<open>The verdict is SAFE exactly when no insufficient signal is offered and a basis exists.\<close>

lemma retry_safe_basis:
  "rs_verdict (evaluate_effect_retry_safety exe ver mode sig sem elapsed tested) = RV_SAFE \<longleftrightarrow>
     sig = None \<and> retry_basis exe ver mode sem elapsed tested"
proof (cases exe)
  case None
  then show ?thesis
    by (cases ver; cases mode; cases "the ver")
      (auto simp: evaluate_effect_retry_safety_def retry_basis_def split: option.split)
next
  case (Some e)
  then show ?thesis
    by (cases e; cases ver; cases mode; cases "the ver")
      (auto simp: evaluate_effect_retry_safety_def retry_basis_def split: option.split)
qed

text \<open>A SAFE verdict always names its basis, and only a SAFE or unproven verdict has one.\<close>

lemma retry_basis_named:
  "rs_basis (evaluate_effect_retry_safety exe ver mode sig sem elapsed tested) = None \<longleftrightarrow>
   rs_verdict (evaluate_effect_retry_safety exe ver mode sig sem elapsed tested) = RV_UNSAFE"
  by (simp add: evaluate_effect_retry_safety_def split: option.split)

section \<open>Replay windows\<close>

definition is_digit_char :: "char \<Rightarrow> bool" where
  "is_digit_char c = (let n = (of_char c :: nat) in 48 \<le> n \<and> n \<le> 57)"

definition digits_value :: "string \<Rightarrow> int" where
  "digits_value s = foldl (\<lambda>acc c. 10 * acc + (of_char c - 48)) 0 s"

definition parse_replay_window_seconds :: "string option \<Rightarrow> int option" where
  "parse_replay_window_seconds raw =
     (case raw of
        None \<Rightarrow> None
      | Some s \<Rightarrow>
          if s \<noteq> [] \<and> list_all is_digit_char s \<and> hd s \<noteq> CHR ''0'' then Some (digits_value s) else None)"

definition replay_window_has_elapsed ::
  "provider_key_semantics \<Rightarrow> utc_timestamp \<Rightarrow> utc_timestamp \<Rightarrow> bool" where
  "replay_window_has_elapsed semantics started_at now =
     (if ks_replay_window semantics = None then False
      else (case parse_replay_window_seconds (ks_replay_window semantics) of
              None \<Rightarrow> True
            | Some seconds \<Rightarrow> seconds * 1000000 \<le> ts_value now - ts_value started_at))"

section \<open>Crash interpretation\<close>

record crash_decision =
  cd_interpretation :: crash_interpretation
  cd_reason_code :: string

definition interpret_execution_crash ::
  "operation_state \<Rightarrow> attempt_state option \<Rightarrow> crash_decision" where
  "interpret_execution_crash operation_state attempt_state =
     (if operation_state = OS_READY
      then \<lparr>cd_interpretation = CI_NO_PROVIDER_ATTEMPT, cd_reason_code = ''ready_has_no_claimed_attempt''\<rparr>
      else if operation_state = OS_EXECUTING \<and> attempt_state = Some AS_STARTED
      then \<lparr>cd_interpretation = CI_POTENTIALLY_UNKNOWN,
            cd_reason_code = ''executing_started_may_have_crossed_provider''\<rparr>
      else if operation_state = OS_EXECUTING \<and> attempt_state = Some AS_COMPLETED
      then \<lparr>cd_interpretation = CI_USE_DURABLE_EVIDENCE, cd_reason_code = ''attempt_result_already_durable''\<rparr>
      else if attempt_state = Some AS_COMPLETED
      then \<lparr>cd_interpretation = CI_USE_DURABLE_EVIDENCE, cd_reason_code = ''completed_attempt_has_outcome''\<rparr>
      else if operation_state = OS_EXECUTING \<and> attempt_state = None
      then \<lparr>cd_interpretation = CI_POTENTIALLY_UNKNOWN,
            cd_reason_code = ''executing_without_attempt_is_inconsistent_treat_unknown''\<rparr>
      else \<lparr>cd_interpretation = CI_USE_DURABLE_EVIDENCE, cd_reason_code = ''reload_canonical_state''\<rparr>)"

text \<open>An operation that crashed while EXECUTING is read conservatively unless its result is durable.\<close>

lemma executing_crash_conservative:
  "cd_interpretation (interpret_execution_crash OS_EXECUTING a) =
     (if a = Some AS_COMPLETED then CI_USE_DURABLE_EVIDENCE else CI_POTENTIALLY_UNKNOWN)"
  by (cases a; cases "the a") (simp_all add: interpret_execution_crash_def)

section \<open>Approval binding\<close>

record approval_binding_decision =
  bd_verdict :: approval_binding_verdict
  bd_reason_code :: string

definition binding_invalid :: "string \<Rightarrow> approval_binding_decision" where
  "binding_invalid r = \<lparr>bd_verdict = AB_INVALID, bd_reason_code = r\<rparr>"

definition evaluate_approval_binding ::
  "approval \<Rightarrow> operation \<Rightarrow> utc_timestamp \<Rightarrow> approval_binding_decision" where
  "evaluate_approval_binding approval operation now =
     (if ap_operation_id approval \<noteq> op_id operation
      then binding_invalid ''operation_id_mismatch''
      else if ap_intent_digest approval \<noteq> in_intent_digest (op_intent operation)
      then binding_invalid ''intent_digest_mismatch''
      else if ap_operation_version approval \<noteq> op_version operation
      then binding_invalid ''operation_version_mismatch''
      else if op_current_policy_decision_id operation = None
      then binding_invalid ''missing_current_policy_decision''
      else if Some (ap_policy_decision_id approval) \<noteq> op_current_policy_decision_id operation
      then binding_invalid ''policy_decision_mismatch''
      else if ap_state approval \<noteq> AP_APPROVED
      then binding_invalid ''approval_not_approved''
      else if op_state operation \<noteq> OS_AWAITING_APPROVAL
      then binding_invalid ''operation_not_awaiting_approval''
      else if (case ap_expires_at approval of None \<Rightarrow> False | Some e \<Rightarrow> e \<le> now)
      then binding_invalid ''approval_expired''
      else \<lparr>bd_verdict = AB_VALID, bd_reason_code = ''bound_to_current_intent''\<rparr>)"

text \<open>What STATE_MACHINES.md section 9 asks of a usable approval.\<close>

definition approval_bound :: "approval \<Rightarrow> operation \<Rightarrow> utc_timestamp \<Rightarrow> bool" where
  "approval_bound a o' now \<longleftrightarrow>
     ap_operation_id a = op_id o' \<and>
     ap_intent_digest a = in_intent_digest (op_intent o') \<and>
     ap_operation_version a = op_version o' \<and>
     op_current_policy_decision_id o' = Some (ap_policy_decision_id a) \<and>
     ap_state a = AP_APPROVED \<and>
     op_state o' = OS_AWAITING_APPROVAL \<and>
     (\<forall>e \<in> set_option (ap_expires_at a). now < e)"

lemma approval_binding_valid_iff:
  "bd_verdict (evaluate_approval_binding a o' now) = AB_VALID \<longleftrightarrow> approval_bound a o' now"
  by (auto simp: evaluate_approval_binding_def binding_invalid_def approval_bound_def not_le
      split: option.splits)

end
