(* ===== verification/Journal.thy ===== *)
theory Journal
  imports Domain_Records "HOL-Library.Product_Lexorder"
begin

text \<open>
  The durable journal: the ten PostgreSQL tables of \<^verbatim>\<open>persistence/models.py\<close> as lists of rows, one
  function per repository method of \<^verbatim>\<open>persistence/repositories.py\<close>, and the unit of work of
  \<^verbatim>\<open>persistence/uow.py\<close>. A write is \<open>journal \<Rightarrow> journal fallible\<close>: \<open>Inl\<close> is the exception
  \<open>map_db_error\<close> produces for the violated constraint, and the transaction then rolls back. Rows
  hold the domain record itself (the wire columns are a bijective image of it), so the CHECK
  constraints repeat what the record's \<open>validate\<close> function has established; where no validation
  backs a CHECK it is tested here. When an insert violates several constraints PostgreSQL may
  report any of them: the model reports the primary key, then the unique constraints, then
  the foreign keys. The pointers of an operation are deferred foreign keys, tested at
  commit.
\<close>

section \<open>Tables\<close>

type_synonym verification_row = "verification_request \<times> verification_result option"

record journal =
  j_operations :: "operation list"
  j_attempts :: "execution_attempt list"
  j_policy_decisions :: "policy_decision list"
  j_approvals :: "approval list"
  j_verifications :: "verification_row list"
  j_compensations :: "compensation list"
  j_compensation_attempts :: "compensation_attempt list"
  j_audit_events :: "audit_event list"
  j_outbox_events :: "outbox_event list"
  j_reconciliations :: "stored_reconciliation_decision list"

definition empty_journal :: journal where
  "empty_journal =
     \<lparr>j_operations = [], j_attempts = [], j_policy_decisions = [], j_approvals = [],
      j_verifications = [], j_compensations = [], j_compensation_attempts = [],
      j_audit_events = [], j_outbox_events = [], j_reconciliations = []\<rparr>"

abbreviation vf_id :: "verification_row \<Rightarrow> opaque_id" where
  "vf_id row \<equiv> vq_id (fst row)"

definition unique_err :: "bool \<Rightarrow> string \<Rightarrow> unit fallible" where
  "unique_err fresh reason = guard_err fresh (DuplicateKeyError reason)"

definition fk_err :: "bool \<Rightarrow> unit fallible" where
  "fk_err present = guard_err present (PersistenceError ''fk_violation'')"

lemma constraint_Inr [simp]:
  "unique_err ok r = Inr u \<longleftrightarrow> ok"
  "fk_err ok = Inr u \<longleftrightarrow> ok"
  by (simp_all add: unique_err_def fk_err_def)

section \<open>Operations\<close>

definition op_get :: "opaque_id \<Rightarrow> journal \<Rightarrow> operation option" where
  "op_get i j = tbl_get op_id i (j_operations j)"

definition op_get_by_idempotency_identity :: "string \<Rightarrow> journal \<Rightarrow> operation option" where
  "op_get_by_idempotency_identity s j = find (\<lambda>o'. op_idempotency_identity o' = s) (j_operations j)"

definition op_exists :: "opaque_id \<Rightarrow> journal \<Rightarrow> bool" where
  "op_exists i j \<longleftrightarrow> i \<in> set (tbl_keys op_id (j_operations j))"

definition op_list_by_state :: "operation_state \<Rightarrow> journal \<Rightarrow> operation list" where
  "op_list_by_state s j =
     sort_key (\<lambda>o'. (op_created_at o', op_id o')) (filter (\<lambda>o'. op_state o' = s) (j_operations j))"

definition op_insert :: "operation \<Rightarrow> journal \<Rightarrow> journal fallible" where
  "op_insert o' j =
     bind_err (guard_err (op_version o' = 1) (PersistenceError ''check_violation'')) (\<lambda>_.
     bind_err (unique_err (\<not> op_exists (op_id o') j) ''duplicate_operation_id'') (\<lambda>_.
     bind_err (unique_err (op_idempotency_identity o' \<notin> op_idempotency_identity ` set (j_operations j))
                 ''duplicate_idempotency_identity'') (\<lambda>_.
     Inr (j\<lparr>j_operations := j_operations j @ [o']\<rparr>))))"

definition op_update_cas :: "int \<Rightarrow> operation \<Rightarrow> journal \<Rightarrow> journal fallible" where
  "op_update_cas expected_version o' j =
     (if op_version o' \<noteq> expected_version + 1
      then Inl (ConcurrencyConflictError ''concurrency_conflict'')
      else case op_get (op_id o') j of
        None \<Rightarrow> Inl (ConcurrencyConflictError ''concurrency_conflict'')
      | Some row \<Rightarrow>
          if op_version row \<noteq> expected_version
          then Inl (ConcurrencyConflictError ''concurrency_conflict'')
          else bind_err
            (unique_err (list_all (\<lambda>x. op_id x \<noteq> op_id o' \<longrightarrow>
                 op_idempotency_identity x \<noteq> op_idempotency_identity o') (j_operations j))
               ''duplicate_idempotency_identity'')
            (\<lambda>_. Inr (j\<lparr>j_operations := tbl_set op_id (op_id o') (\<lambda>_. o') (j_operations j)\<rparr>)))"

section \<open>Execution attempts\<close>

definition at_get :: "opaque_id \<Rightarrow> journal \<Rightarrow> execution_attempt option" where
  "at_get i j = tbl_get att_id i (j_attempts j)"

definition at_list_for_operation :: "opaque_id \<Rightarrow> journal \<Rightarrow> execution_attempt list" where
  "at_list_for_operation i j =
     sort_key att_number (filter (\<lambda>a. att_operation_id a = i) (j_attempts j))"

definition at_insert :: "execution_attempt \<Rightarrow> journal \<Rightarrow> journal fallible" where
  "at_insert a j =
     bind_err (unique_err (att_id a \<notin> set (tbl_keys att_id (j_attempts j))) ''duplicate_attempt_id'') (\<lambda>_.
     bind_err (unique_err (list_all (\<lambda>x. \<not> (att_operation_id x = att_operation_id a \<and>
                 att_number x = att_number a)) (j_attempts j)) ''duplicate_attempt_number'') (\<lambda>_.
     bind_err (fk_err (op_exists (att_operation_id a) j)) (\<lambda>_.
     Inr (j\<lparr>j_attempts := j_attempts j @ [a]\<rparr>))))"

text \<open>\<open>complete\<close> writes the result columns of a row that is still STARTED.\<close>

definition at_write_result :: "execution_attempt \<Rightarrow> execution_attempt \<Rightarrow> execution_attempt" where
  "at_write_result a row =
     row\<lparr>att_state := att_state a, att_completed_at := att_completed_at a,
         att_provider_idempotency_key := att_provider_idempotency_key a,
         att_external_operation_id := att_external_operation_id a,
         att_external_resource_ids := att_external_resource_ids a,
         att_outcome := att_outcome a, att_evidence := att_evidence a, att_error := att_error a,
         att_correlation_id := att_correlation_id a\<rparr>"

definition at_complete :: "execution_attempt \<Rightarrow> journal \<Rightarrow> journal fallible" where
  "at_complete a j =
     (if att_state a \<noteq> AS_COMPLETED then Inl (PersistenceError ''attempt_not_started'')
      else case at_get (att_id a) j of
        None \<Rightarrow> Inl (PersistenceError ''attempt_not_started'')
      | Some row \<Rightarrow>
          if att_state row \<noteq> AS_STARTED then Inl (PersistenceError ''attempt_not_started'')
          else Inr (j\<lparr>j_attempts := tbl_set att_id (att_id a) (at_write_result a) (j_attempts j)\<rparr>))"

section \<open>Policy decisions and approvals\<close>

definition po_get :: "opaque_id \<Rightarrow> journal \<Rightarrow> policy_decision option" where
  "po_get i j = tbl_get pd_id i (j_policy_decisions j)"

definition po_insert :: "policy_decision \<Rightarrow> journal \<Rightarrow> journal fallible" where
  "po_insert d j =
     bind_err (unique_err (pd_id d \<notin> set (tbl_keys pd_id (j_policy_decisions j)))
                 ''duplicate_policy_decision_id'') (\<lambda>_.
     bind_err (fk_err (op_exists (pd_operation_id d) j)) (\<lambda>_.
     Inr (j\<lparr>j_policy_decisions := j_policy_decisions j @ [d]\<rparr>)))"

definition ap_get :: "opaque_id \<Rightarrow> journal \<Rightarrow> approval option" where
  "ap_get i j = tbl_get ap_id i (j_approvals j)"

definition ap_fks :: "approval \<Rightarrow> journal \<Rightarrow> bool" where
  "ap_fks a j \<longleftrightarrow> op_exists (ap_operation_id a) j \<and>
     ap_policy_decision_id a \<in> set (tbl_keys pd_id (j_policy_decisions j))"

definition ap_insert :: "approval \<Rightarrow> journal \<Rightarrow> journal fallible" where
  "ap_insert a j =
     bind_err (unique_err (ap_id a \<notin> set (tbl_keys ap_id (j_approvals j))) ''duplicate_approval_id'') (\<lambda>_.
     bind_err (fk_err (ap_fks a j)) (\<lambda>_.
     Inr (j\<lparr>j_approvals := j_approvals j @ [a]\<rparr>)))"

definition ap_update_cas_state :: "approval \<Rightarrow> approval_state \<Rightarrow> journal \<Rightarrow> journal fallible" where
  "ap_update_cas_state a expected_state j =
     (case ap_get (ap_id a) j of
        None \<Rightarrow> Inl (ConcurrencyConflictError ''concurrency_conflict'')
      | Some row \<Rightarrow>
          if ap_state row \<noteq> expected_state
          then Inl (ConcurrencyConflictError ''concurrency_conflict'')
          else bind_err (fk_err (ap_fks a j)) (\<lambda>_.
            Inr (j\<lparr>j_approvals := tbl_set ap_id (ap_id a) (\<lambda>_. a) (j_approvals j)\<rparr>)))"

section \<open>Verifications\<close>

definition vf_get :: "opaque_id \<Rightarrow> journal \<Rightarrow> verification_row option" where
  "vf_get i j = tbl_get vf_id i (j_verifications j)"

definition vf_list_for_operation :: "opaque_id \<Rightarrow> journal \<Rightarrow> verification_row list" where
  "vf_list_for_operation i j =
     sort_key (\<lambda>row. (vq_requested_at (fst row), vf_id row))
       (filter (\<lambda>row. vq_operation_id (fst row) = i) (j_verifications j))"

definition vf_insert_request :: "verification_request \<Rightarrow> journal \<Rightarrow> journal fallible" where
  "vf_insert_request q j =
     bind_err (unique_err (vq_id q \<notin> set (tbl_keys vf_id (j_verifications j)))
                 ''duplicate_verification_id'') (\<lambda>_.
     bind_err (fk_err (op_exists (vq_operation_id q) j)) (\<lambda>_.
     Inr (j\<lparr>j_verifications := j_verifications j @ [(q, None)]\<rparr>)))"

definition vf_complete :: "verification_result \<Rightarrow> journal \<Rightarrow> journal fallible" where
  "vf_complete r j =
     (case vf_get (vs_id r) j of
        None \<Rightarrow> Inl (PersistenceError ''not_found'')
      | Some row \<Rightarrow>
          if snd row \<noteq> None then Inl (PersistenceError ''check_violation'')
          else Inr (j\<lparr>j_verifications :=
            tbl_set vf_id (vs_id r) (\<lambda>row. (fst row, Some r)) (j_verifications j)\<rparr>))"

section \<open>Compensations and their attempts\<close>

definition cp_get :: "opaque_id \<Rightarrow> journal \<Rightarrow> compensation option" where
  "cp_get i j = tbl_get cm_id i (j_compensations j)"

definition cp_fks :: "compensation \<Rightarrow> journal \<Rightarrow> bool" where
  "cp_fks c j \<longleftrightarrow> op_exists (cm_original_operation_id c) j \<and>
     (case cm_policy_decision_id c of None \<Rightarrow> True
      | Some p \<Rightarrow> p \<in> set (tbl_keys pd_id (j_policy_decisions j)))"

definition cp_insert :: "compensation \<Rightarrow> journal \<Rightarrow> journal fallible" where
  "cp_insert c j =
     bind_err (unique_err (cm_id c \<notin> set (tbl_keys cm_id (j_compensations j)))
                 ''duplicate_compensation_id'') (\<lambda>_.
     bind_err (unique_err (cm_idempotency_identity c \<notin> cm_idempotency_identity ` set (j_compensations j))
                 ''duplicate_compensation_idempotency'') (\<lambda>_.
     bind_err (fk_err (cp_fks c j)) (\<lambda>_.
     Inr (j\<lparr>j_compensations := j_compensations j @ [c]\<rparr>))))"

definition cp_update_cas :: "int \<Rightarrow> compensation \<Rightarrow> journal \<Rightarrow> journal fallible" where
  "cp_update_cas expected_version c j =
     (if cm_version c \<noteq> expected_version + 1
      then Inl (ConcurrencyConflictError ''concurrency_conflict'')
      else case cp_get (cm_id c) j of
        None \<Rightarrow> Inl (ConcurrencyConflictError ''concurrency_conflict'')
      | Some row \<Rightarrow>
          if cm_version row \<noteq> expected_version
          then Inl (ConcurrencyConflictError ''concurrency_conflict'')
          else bind_err
            (unique_err (list_all (\<lambda>x. cm_id x \<noteq> cm_id c \<longrightarrow>
                 cm_idempotency_identity x \<noteq> cm_idempotency_identity c) (j_compensations j))
               ''duplicate_compensation_idempotency'') (\<lambda>_.
          bind_err (fk_err (cp_fks c j)) (\<lambda>_.
            Inr (j\<lparr>j_compensations := tbl_set cm_id (cm_id c) (\<lambda>_. c) (j_compensations j)\<rparr>))))"

definition ca_get :: "opaque_id \<Rightarrow> journal \<Rightarrow> compensation_attempt option" where
  "ca_get i j = tbl_get ca_id i (j_compensation_attempts j)"

definition ca_list_for_compensation :: "opaque_id \<Rightarrow> journal \<Rightarrow> compensation_attempt list" where
  "ca_list_for_compensation i j =
     sort_key ca_number (filter (\<lambda>a. ca_compensation_id a = i) (j_compensation_attempts j))"

definition ca_insert :: "compensation_attempt \<Rightarrow> journal \<Rightarrow> journal fallible" where
  "ca_insert a j =
     bind_err (unique_err (ca_id a \<notin> set (tbl_keys ca_id (j_compensation_attempts j)))
                 ''duplicate_compensation_attempt_id'') (\<lambda>_.
     bind_err (unique_err (list_all (\<lambda>x. \<not> (ca_compensation_id x = ca_compensation_id a \<and>
                 ca_number x = ca_number a)) (j_compensation_attempts j))
                 ''duplicate_compensation_attempt_number'') (\<lambda>_.
     bind_err (fk_err (ca_compensation_id a \<in> set (tbl_keys cm_id (j_compensations j)))) (\<lambda>_.
     Inr (j\<lparr>j_compensation_attempts := j_compensation_attempts j @ [a]\<rparr>))))"

definition ca_write_result :: "compensation_attempt \<Rightarrow> compensation_attempt \<Rightarrow> compensation_attempt" where
  "ca_write_result a row =
     row\<lparr>ca_state := ca_state a, ca_completed_at := ca_completed_at a,
         ca_provider_idempotency_key := ca_provider_idempotency_key a,
         ca_external_operation_id := ca_external_operation_id a, ca_outcome := ca_outcome a,
         ca_evidence := ca_evidence a, ca_error := ca_error a\<rparr>"

definition ca_complete :: "compensation_attempt \<Rightarrow> journal \<Rightarrow> journal fallible" where
  "ca_complete a j =
     (if ca_state a \<noteq> AS_COMPLETED then Inl (PersistenceError ''attempt_not_started'')
      else case ca_get (ca_id a) j of
        None \<Rightarrow> Inl (PersistenceError ''attempt_not_started'')
      | Some row \<Rightarrow>
          if ca_state row \<noteq> AS_STARTED then Inl (PersistenceError ''attempt_not_started'')
          else Inr (j\<lparr>j_compensation_attempts :=
            tbl_set ca_id (ca_id a) (ca_write_result a) (j_compensation_attempts j)\<rparr>))"

section \<open>Audit events\<close>

definition au_list_for_operation :: "opaque_id \<Rightarrow> journal \<Rightarrow> audit_event list" where
  "au_list_for_operation i j =
     sort_key au_sequence (filter (\<lambda>e. au_operation_id e = i) (j_audit_events j))"

definition au_append :: "audit_event \<Rightarrow> journal \<Rightarrow> journal fallible" where
  "au_append e j =
     bind_err (unique_err (au_id e \<notin> set (tbl_keys au_id (j_audit_events j))) ''duplicate_audit_event_id'') (\<lambda>_.
     bind_err (unique_err (list_all (\<lambda>x. \<not> (au_operation_id x = au_operation_id e \<and>
                 au_sequence x = au_sequence e)) (j_audit_events j)) ''duplicate_audit_sequence'') (\<lambda>_.
     bind_err (fk_err (op_exists (au_operation_id e) j)) (\<lambda>_.
     Inr (j\<lparr>j_audit_events := j_audit_events j @ [e]\<rparr>))))"

definition au_next_sequence :: "opaque_id \<Rightarrow> journal \<Rightarrow> int" where
  "au_next_sequence i j =
     (let sequences = map au_sequence (filter (\<lambda>e. au_operation_id e = i) (j_audit_events j))
      in if sequences = [] then 1 else foldr max sequences (hd sequences) + 1)"

text \<open>\<^verbatim>\<open>data["command"].astext == command.value\<close>: only a JSON string has a work command as its text.\<close>

definition json_command_is :: "json \<Rightarrow> work_command \<Rightarrow> bool" where
  "json_command_is d c =
     (case d of JObject items \<Rightarrow> map_of items ''command'' = Some (JStr (work_command_value c)) | _ \<Rightarrow> False)"

definition au_count_reason_for_command ::
  "opaque_id \<Rightarrow> string \<Rightarrow> work_command \<Rightarrow> int \<Rightarrow> journal \<Rightarrow> nat" where
  "au_count_reason_for_command i reason_code command operation_version j =
     length (filter (\<lambda>e. au_operation_id e = i \<and> au_reason_code e = reason_code \<and>
       json_command_is (au_data e) command \<and> au_operation_version e = operation_version)
       (j_audit_events j))"

definition au_page_for_operation ::
  "opaque_id \<Rightarrow> int \<Rightarrow> nat \<Rightarrow> journal \<Rightarrow> audit_event list \<times> bool" where
  "au_page_for_operation i after_sequence limit j =
     (let rows = take (limit + 1) (filter (\<lambda>e. after_sequence < au_sequence e)
                   (au_list_for_operation i j))
      in (take limit rows, limit < length rows))"

section \<open>Outbox events\<close>

definition ox_get :: "opaque_id \<Rightarrow> journal \<Rightarrow> outbox_event option" where
  "ox_get i j = tbl_get ox_id i (j_outbox_events j)"

definition ox_insert :: "outbox_event \<Rightarrow> journal \<Rightarrow> journal fallible" where
  "ox_insert e j =
     bind_err (unique_err (ox_id e \<notin> set (tbl_keys ox_id (j_outbox_events j)))
                 ''duplicate_outbox_event_id'') (\<lambda>_.
     bind_err (fk_err (op_exists (ox_aggregate_id e) j)) (\<lambda>_.
     Inr (j\<lparr>j_outbox_events := j_outbox_events j @ [e]\<rparr>)))"

text \<open>Rows another transaction holds locked are skipped (\<open>FOR UPDATE SKIP LOCKED\<close>).\<close>

definition ox_list_pending_for_claim ::
  "(opaque_id \<Rightarrow> bool) \<Rightarrow> int \<Rightarrow> journal \<Rightarrow> outbox_event list fallible" where
  "ox_list_pending_for_claim locked limit j =
     (if limit < 1 then Inl (PersistenceError ''check_violation'')
      else Inr (take (nat limit) (sort_key (\<lambda>e. (ox_created_at e, ox_id e))
             (filter (\<lambda>e. ox_state e = OB_PENDING \<and> \<not> locked (ox_id e)) (j_outbox_events j)))))"

definition ox_newer :: "outbox_event \<Rightarrow> outbox_event \<Rightarrow> bool" where
  "ox_newer n e \<longleftrightarrow> ox_aggregate_id n = ox_aggregate_id e \<and>
     (ox_created_at e < ox_created_at n \<or>
      ox_created_at n = ox_created_at e \<and> ox_id e < ox_id n)"

text \<open>The \<open>applicable\<close> clause of \<open>list_stranded_candidate_ids\<close>.\<close>

definition stranded_states :: "work_command \<Rightarrow> operation_state list" where
  "stranded_states c =
     (case c of
        WC_EXECUTE \<Rightarrow> [OS_READY, OS_EXECUTING]
      | WC_VERIFY \<Rightarrow> [OS_EXECUTING, OS_UNKNOWN, OS_VERIFYING, OS_COMPENSATING, OS_COMPENSATION_UNKNOWN]
      | WC_COMPENSATE \<Rightarrow>
          [OS_COMPENSATING, OS_COMPENSATION_UNKNOWN, OS_COMPENSATION_FAILED, OS_COMPENSATED])"

definition ox_stranded :: "utc_timestamp \<Rightarrow> journal \<Rightarrow> outbox_event \<Rightarrow> bool" where
  "ox_stranded cutoff j e \<longleftrightarrow>
     ox_state e = OB_PUBLISHED \<and>
     (case ox_published_at e of None \<Rightarrow> False | Some p \<Rightarrow> p \<le> cutoff) \<and>
     \<not> list_ex (\<lambda>n. ox_newer n e) (j_outbox_events j) \<and>
     (case op_get (ox_aggregate_id e) j of None \<Rightarrow> False
      | Some o' \<Rightarrow> op_state o' \<in> set (stranded_states (ox_command e)))"

definition ox_list_stranded_candidate_ids ::
  "utc_timestamp \<Rightarrow> int \<Rightarrow> journal \<Rightarrow> opaque_id list fallible" where
  "ox_list_stranded_candidate_ids cutoff limit j =
     (if limit < 1 then Inl (PersistenceError ''check_violation'')
      else Inr (take (nat limit) (map ox_id (sort_key (\<lambda>e. (the (ox_published_at e), ox_id e))
             (filter (ox_stranded cutoff j) (j_outbox_events j))))))"

definition ox_latest_for_operation :: "opaque_id \<Rightarrow> journal \<Rightarrow> outbox_event option" where
  "ox_latest_for_operation i j =
     last_opt (sort_key (\<lambda>e. (ox_created_at e, ox_id e))
       (filter (\<lambda>e. ox_aggregate_id e = i) (j_outbox_events j)))"

definition ox_mark_published :: "opaque_id \<Rightarrow> utc_timestamp \<Rightarrow> journal \<Rightarrow> journal fallible" where
  "ox_mark_published i published_at j =
     (case ox_get i j of
        None \<Rightarrow> Inl (NotFoundError ''not_found'')
      | Some row \<Rightarrow>
          if ox_state row = OB_PUBLISHED then Inr j
          else Inr (j\<lparr>j_outbox_events :=
            tbl_set ox_id i (\<lambda>row. row\<lparr>ox_state := OB_PUBLISHED, ox_published_at := Some published_at\<rparr>)
              (j_outbox_events j)\<rparr>))"

section \<open>Reconciliation decisions\<close>

definition rc_insert :: "stored_reconciliation_decision \<Rightarrow> journal \<Rightarrow> journal fallible" where
  "rc_insert s j =
     bind_err (guard_err (1 \<le> sr_operation_version s) (PersistenceError ''check_violation'')) (\<lambda>_.
     bind_err (unique_err (sr_id s \<notin> set (tbl_keys sr_id (j_reconciliations j)))
                 ''duplicate_reconciliation_decision_id'') (\<lambda>_.
     bind_err (fk_err (op_exists (sr_operation_id s) j \<and>
        (case sr_verification_id s of None \<Rightarrow> True
         | Some v \<Rightarrow> v \<in> set (tbl_keys vf_id (j_verifications j))))) (\<lambda>_.
     Inr (j\<lparr>j_reconciliations := j_reconciliations j @ [s]\<rparr>))))"

section \<open>The unit of work\<close>

definition points_to :: "opaque_id option \<Rightarrow> opaque_id list \<Rightarrow> bool" where
  "points_to p keys = (case p of None \<Rightarrow> True | Some i \<Rightarrow> i \<in> set keys)"

definition op_pointers_ok :: "journal \<Rightarrow> operation \<Rightarrow> bool" where
  "op_pointers_ok j o' \<longleftrightarrow>
     points_to (op_current_policy_decision_id o') (tbl_keys pd_id (j_policy_decisions j)) \<and>
     points_to (op_current_approval_id o') (tbl_keys ap_id (j_approvals j)) \<and>
     points_to (op_latest_attempt_id o') (tbl_keys att_id (j_attempts j)) \<and>
     points_to (op_latest_verification_id o') (tbl_keys vf_id (j_verifications j)) \<and>
     points_to (op_compensation_id o') (tbl_keys cm_id (j_compensations j))"

definition uow_commit :: "journal \<Rightarrow> journal fallible" where
  "uow_commit j = bind_err (fk_err (list_all (op_pointers_ok j) (j_operations j))) (\<lambda>_. Inr j)"

text \<open>
  \<open>unit_of_work\<close>: run the body, commit, and on any exception roll back: the second component is
  the durable journal afterwards.
\<close>

definition unit_of_work :: "(journal \<Rightarrow> ('a \<times> journal) fallible) \<Rightarrow> journal \<Rightarrow> 'a fallible \<times> journal" where
  "unit_of_work body j =
     (case bind_err (body j) (\<lambda>r. bind_err (uow_commit (snd r)) (\<lambda>j'. Inr (fst r, j'))) of
        Inl e \<Rightarrow> (Inl e, j)
      | Inr r \<Rightarrow> (Inr (fst r), snd r))"

section \<open>What a successful write is\<close>

text \<open>
  Every write, read backwards: when it returns, its constraints held and exactly one table
  changed. These equivalences are the simplification rules the engine's proofs run on.
\<close>

lemma op_insert_Inr [journal_simps]:
  "op_insert o' j = Inr j' \<longleftrightarrow>
     op_version o' = 1 \<and> \<not> op_exists (op_id o') j \<and>
     op_idempotency_identity o' \<notin> op_idempotency_identity ` set (j_operations j) \<and>
     j' = j\<lparr>j_operations := j_operations j @ [o']\<rparr>"
  by (auto simp: op_insert_def)

lemma op_update_cas_Inr [journal_simps]:
  "op_update_cas v o' j = Inr j' \<longleftrightarrow>
     op_version o' = v + 1 \<and> (\<exists>row. op_get (op_id o') j = Some row \<and> op_version row = v) \<and>
     list_all (\<lambda>x. op_id x \<noteq> op_id o' \<longrightarrow> op_idempotency_identity x \<noteq> op_idempotency_identity o')
       (j_operations j) \<and>
     j' = j\<lparr>j_operations := tbl_set op_id (op_id o') (\<lambda>_. o') (j_operations j)\<rparr>"
  by (auto simp: op_update_cas_def split: option.splits)

lemma at_insert_Inr [journal_simps]:
  "at_insert a j = Inr j' \<longleftrightarrow>
     att_id a \<notin> set (tbl_keys att_id (j_attempts j)) \<and>
     list_all (\<lambda>x. \<not> (att_operation_id x = att_operation_id a \<and> att_number x = att_number a))
       (j_attempts j) \<and>
     op_exists (att_operation_id a) j \<and> j' = j\<lparr>j_attempts := j_attempts j @ [a]\<rparr>"
  by (auto simp: at_insert_def)

lemma at_complete_Inr [journal_simps]:
  "at_complete a j = Inr j' \<longleftrightarrow>
     att_state a = AS_COMPLETED \<and>
     (\<exists>row. at_get (att_id a) j = Some row \<and> att_state row = AS_STARTED) \<and>
     j' = j\<lparr>j_attempts := tbl_set att_id (att_id a) (at_write_result a) (j_attempts j)\<rparr>"
  by (auto simp: at_complete_def split: option.splits)

lemma po_insert_Inr [journal_simps]:
  "po_insert d j = Inr j' \<longleftrightarrow>
     pd_id d \<notin> set (tbl_keys pd_id (j_policy_decisions j)) \<and> op_exists (pd_operation_id d) j \<and>
     j' = j\<lparr>j_policy_decisions := j_policy_decisions j @ [d]\<rparr>"
  by (auto simp: po_insert_def)

lemma ap_insert_Inr [journal_simps]:
  "ap_insert a j = Inr j' \<longleftrightarrow>
     ap_id a \<notin> set (tbl_keys ap_id (j_approvals j)) \<and> ap_fks a j \<and>
     j' = j\<lparr>j_approvals := j_approvals j @ [a]\<rparr>"
  by (auto simp: ap_insert_def)

lemma ap_update_cas_state_Inr [journal_simps]:
  "ap_update_cas_state a s j = Inr j' \<longleftrightarrow>
     (\<exists>row. ap_get (ap_id a) j = Some row \<and> ap_state row = s) \<and> ap_fks a j \<and>
     j' = j\<lparr>j_approvals := tbl_set ap_id (ap_id a) (\<lambda>_. a) (j_approvals j)\<rparr>"
  by (auto simp: ap_update_cas_state_def split: option.splits)

lemma vf_insert_request_Inr [journal_simps]:
  "vf_insert_request q j = Inr j' \<longleftrightarrow>
     vq_id q \<notin> set (tbl_keys vf_id (j_verifications j)) \<and> op_exists (vq_operation_id q) j \<and>
     j' = j\<lparr>j_verifications := j_verifications j @ [(q, None)]\<rparr>"
  by (auto simp: vf_insert_request_def)

lemma vf_complete_Inr [journal_simps]:
  "vf_complete r j = Inr j' \<longleftrightarrow>
     (\<exists>row. vf_get (vs_id r) j = Some row \<and> snd row = None) \<and>
     j' = j\<lparr>j_verifications := tbl_set vf_id (vs_id r) (\<lambda>row. (fst row, Some r)) (j_verifications j)\<rparr>"
  by (auto simp: vf_complete_def split: option.splits)

lemma cp_insert_Inr [journal_simps]:
  "cp_insert c j = Inr j' \<longleftrightarrow>
     cm_id c \<notin> set (tbl_keys cm_id (j_compensations j)) \<and>
     cm_idempotency_identity c \<notin> cm_idempotency_identity ` set (j_compensations j) \<and> cp_fks c j \<and>
     j' = j\<lparr>j_compensations := j_compensations j @ [c]\<rparr>"
  by (auto simp: cp_insert_def)

lemma cp_update_cas_Inr [journal_simps]:
  "cp_update_cas v c j = Inr j' \<longleftrightarrow>
     cm_version c = v + 1 \<and> (\<exists>row. cp_get (cm_id c) j = Some row \<and> cm_version row = v) \<and>
     list_all (\<lambda>x. cm_id x \<noteq> cm_id c \<longrightarrow> cm_idempotency_identity x \<noteq> cm_idempotency_identity c)
       (j_compensations j) \<and> cp_fks c j \<and>
     j' = j\<lparr>j_compensations := tbl_set cm_id (cm_id c) (\<lambda>_. c) (j_compensations j)\<rparr>"
  by (auto simp: cp_update_cas_def split: option.splits)

lemma ca_insert_Inr [journal_simps]:
  "ca_insert a j = Inr j' \<longleftrightarrow>
     ca_id a \<notin> set (tbl_keys ca_id (j_compensation_attempts j)) \<and>
     list_all (\<lambda>x. \<not> (ca_compensation_id x = ca_compensation_id a \<and> ca_number x = ca_number a))
       (j_compensation_attempts j) \<and>
     ca_compensation_id a \<in> set (tbl_keys cm_id (j_compensations j)) \<and>
     j' = j\<lparr>j_compensation_attempts := j_compensation_attempts j @ [a]\<rparr>"
  by (auto simp: ca_insert_def)

lemma ca_complete_Inr [journal_simps]:
  "ca_complete a j = Inr j' \<longleftrightarrow>
     ca_state a = AS_COMPLETED \<and>
     (\<exists>row. ca_get (ca_id a) j = Some row \<and> ca_state row = AS_STARTED) \<and>
     j' = j\<lparr>j_compensation_attempts :=
       tbl_set ca_id (ca_id a) (ca_write_result a) (j_compensation_attempts j)\<rparr>"
  by (auto simp: ca_complete_def split: option.splits)

lemma au_append_Inr [journal_simps]:
  "au_append e j = Inr j' \<longleftrightarrow>
     au_id e \<notin> set (tbl_keys au_id (j_audit_events j)) \<and>
     list_all (\<lambda>x. \<not> (au_operation_id x = au_operation_id e \<and> au_sequence x = au_sequence e))
       (j_audit_events j) \<and>
     op_exists (au_operation_id e) j \<and> j' = j\<lparr>j_audit_events := j_audit_events j @ [e]\<rparr>"
  by (auto simp: au_append_def)

lemma ox_insert_Inr [journal_simps]:
  "ox_insert e j = Inr j' \<longleftrightarrow>
     ox_id e \<notin> set (tbl_keys ox_id (j_outbox_events j)) \<and> op_exists (ox_aggregate_id e) j \<and>
     j' = j\<lparr>j_outbox_events := j_outbox_events j @ [e]\<rparr>"
  by (auto simp: ox_insert_def)

lemma rc_insert_Inr [journal_simps]:
  "rc_insert s j = Inr j' \<longleftrightarrow>
     1 \<le> sr_operation_version s \<and> sr_id s \<notin> set (tbl_keys sr_id (j_reconciliations j)) \<and>
     op_exists (sr_operation_id s) j \<and>
     (case sr_verification_id s of None \<Rightarrow> True
      | Some v \<Rightarrow> v \<in> set (tbl_keys vf_id (j_verifications j))) \<and>
     j' = j\<lparr>j_reconciliations := j_reconciliations j @ [s]\<rparr>"
  by (auto simp: rc_insert_def)

section \<open>Contracts of the tables\<close>

text \<open>
  \<open>versioned_store\<close> is optimistic concurrency as the engine relies on it: a
  compare-and-swap succeeds only on a present row of the expected version, raises the version by
  one, and leaves the other rows alone. What follows from it is what INV-012 asks: of two writers
  holding the same version at most one succeeds, and versions never go back.
\<close>

locale versioned_store =
  fixes load :: "'k \<Rightarrow> 's \<Rightarrow> 'r option"
    and cas :: "int \<Rightarrow> 'r \<Rightarrow> 's \<Rightarrow> 's fallible"
    and key :: "'r \<Rightarrow> 'k"
    and version :: "'r \<Rightarrow> int"
  assumes cas_expects: "cas v r s = Inr s' \<Longrightarrow> \<exists>old. load (key r) s = Some old \<and> version old = v"
    and cas_version: "cas v r s = Inr s' \<Longrightarrow> version r = v + 1"
    and load_cas: "cas v r s = Inr s' \<Longrightarrow> load k s' = (if k = key r then Some r else load k s)"
begin

lemma stale_cas_fails:
  assumes "load (key r) s = Some old" and "version old \<noteq> v"
  shows "cas v r s \<noteq> Inr s'"
  using cas_expects [of v r s s'] assms by auto

lemma cas_race:
  assumes "cas v r s = Inr s'" and "key r2 = key r"
  shows "cas v r2 s' \<noteq> Inr s''"
proof (rule stale_cas_fails)
  show "load (key r2) s' = Some r" using load_cas [OF assms(1), of "key r"] assms(2) by simp
  show "version r \<noteq> v" using cas_version [OF assms(1)] by simp
qed

lemma cas_step_version:
  assumes "cas v r s = Inr s'" and "load k s = Some a"
  obtains b where "load k s' = Some b"
    and "version b = version a + (if k = key r then 1 else 0)"
  using cas_expects [OF assms(1)] cas_version [OF assms(1)] load_cas [OF assms(1), of k] assms(2)
  by (cases "k = key r") auto

text \<open>A sequence of successful writes: the version of a row counts the writes to it.\<close>

primrec cas_run :: "(int \<times> 'r) list \<Rightarrow> 's \<Rightarrow> 's fallible" where
  "cas_run [] s = Inr s"
| "cas_run (w # ws) s = bind_err (cas (fst w) (snd w) s) (cas_run ws)"

lemma cas_run_version:
  assumes "cas_run ws s = Inr s'" and "load k s = Some a"
  shows "\<exists>b. load k s' = Some b \<and>
    version b = version a + int (length (filter (\<lambda>w. key (snd w) = k) ws))"
  using assms
proof (induction ws arbitrary: s a)
  case (Cons w ws)
  then obtain t where t: "cas (fst w) (snd w) s = Inr t" and run: "cas_run ws t = Inr s'" by auto
  obtain b where b: "load k t = Some b"
    and vb: "version b = version a + (if k = key (snd w) then 1 else 0)"
    using cas_step_version [OF t Cons.prems(2)] by blast
  from Cons.IH [OF run b] obtain c where "load k s' = Some c"
    and "version c = version b + int (length (filter (\<lambda>w. key (snd w) = k) ws))" by blast
  with vb show ?case by auto
qed simp

end

text \<open>
  \<open>fresh_table\<close> is the contract of the insert-only side: an insert needs a fresh key, is then
  read back, and disturbs no other row, so what was stored stays stored.
\<close>

locale fresh_table =
  fixes load :: "'k \<Rightarrow> 's \<Rightarrow> 'r option"
    and add :: "'a \<Rightarrow> 's \<Rightarrow> 's fallible"
    and key :: "'a \<Rightarrow> 'k"
    and row :: "'a \<Rightarrow> 'r"
  assumes add_fresh: "add a s = Inr s' \<Longrightarrow> load (key a) s = None"
    and load_add: "add a s = Inr s' \<Longrightarrow> load k s' = (if k = key a then Some (row a) else load k s)"
begin

lemma add_keeps: "add a s = Inr s' \<Longrightarrow> load k s = Some r \<Longrightarrow> load k s' = Some r"
  using add_fresh [of a s s'] load_add [of a s s' k] by auto

lemma add_twice: "add a s = Inr s' \<Longrightarrow> key b = key a \<Longrightarrow> add b s' \<noteq> Inr s''"
  using add_fresh [of b s' s''] load_add [of a s s' "key a"] by auto

primrec add_all :: "'a list \<Rightarrow> 's \<Rightarrow> 's fallible" where
  "add_all [] s = Inr s"
| "add_all (a # as) s = bind_err (add a s) (add_all as)"

lemma add_all_keeps: "add_all as s = Inr s' \<Longrightarrow> load k s = Some r \<Longrightarrow> load k s' = Some r"
  by (induction as arbitrary: s) (auto dest: add_keeps)

lemma add_all_stored: "add_all as s = Inr s' \<Longrightarrow> a \<in> set as \<Longrightarrow> load (key a) s' = Some (row a)"
proof (induction as arbitrary: s)
  case (Cons b as)
  then obtain t where t: "add b s = Inr t" and run: "add_all as t = Inr s'" by auto
  show ?case
  proof (cases "a \<in> set as")
    case False
    with Cons.prems have "a = b" by simp
    with t have "load (key a) t = Some (row a)" by (simp add: load_add)
    with run show ?thesis by (rule add_all_keeps)
  qed (rule Cons.IH [OF run])
qed simp

end


text \<open>
  \<open>sequenced_log\<close> is the audit log: entries are appended at the end, and the next sequence
  number of an owner is one past its largest. An owner's log is \<open>contiguous\<close> when its
  sequence numbers are 1, 2, ... in insertion order; appending with the next number keeps that.
\<close>

locale sequenced_log =
  fixes entries :: "'s \<Rightarrow> 'e list"
    and owner :: "'e \<Rightarrow> 'k"
    and seq :: "'e \<Rightarrow> int"
    and next_seq :: "'k \<Rightarrow> 's \<Rightarrow> int"
    and append :: "'e \<Rightarrow> 's \<Rightarrow> 's fallible"
  assumes entries_append: "append e s = Inr s' \<Longrightarrow> entries s' = entries s @ [e]"
    and next_seq_contiguous:
      "map seq (filter (\<lambda>e. owner e = k) (entries s)) = map int [1..<Suc n] \<Longrightarrow>
       next_seq k s = int n + 1"
begin

definition contiguous :: "'k \<Rightarrow> 's \<Rightarrow> bool" where
  "contiguous k s \<longleftrightarrow>
     (\<exists>n. map seq (filter (\<lambda>e. owner e = k) (entries s)) = map int [1..<Suc n])"

primrec append_all :: "'e list \<Rightarrow> 's \<Rightarrow> 's fallible" where
  "append_all [] s = Inr s"
| "append_all (e # es) s = bind_err (append e s) (append_all es)"

lemma entries_append_all: "append_all es s = Inr s' \<Longrightarrow> entries s' = entries s @ es"
  by (induction es arbitrary: s) (auto dest: entries_append)

text \<open>Numbered from the next sequence number on, a batch keeps every owner's log contiguous.\<close>

lemma extend_contiguous:
  assumes ext: "entries s' = entries s @ es" and "contiguous k s"
    and "list_all (\<lambda>e. owner e = i) es"
    and "map seq es = map (\<lambda>n. next_seq i s + int n) [0..<length es]"
  shows "contiguous k s'"
proof (cases "k = i")
  case True
  from assms(2) obtain n where n: "map seq (filter (\<lambda>e. owner e = k) (entries s)) = map int [1..<Suc n]"
    unfolding contiguous_def by blast
  then have "next_seq i s = int n + 1" using next_seq_contiguous True by blast
  then have "map seq es = map (\<lambda>x. 1 + (int x + int n)) [0..<length es]"
    using assms(4) by (simp add: algebra_simps)
  also have "\<dots> = map int [Suc n..<Suc n + length es]"
    by (rule nth_equalityI) (simp_all del: upt_Suc)
  finally have "map seq es = map int [Suc n..<Suc n + length es]" .
  moreover have "filter (\<lambda>e. owner e = k) es = es"
    using assms(3) True by (induction es) auto
  ultimately have "map seq (filter (\<lambda>e. owner e = k) (entries s')) =
      map int ([1..<Suc n] @ [Suc n..<Suc n + length es])"
    using n ext by simp
  also have "[1..<Suc n] @ [Suc n..<Suc n + length es] = [1..<Suc (n + length es)]"
    by (metis add_Suc le_add1 plus_1_eq_Suc upt_add_eq_append)
  finally show ?thesis unfolding contiguous_def by blast
next
  case False
  then have "filter (\<lambda>e. owner e = k) es = []" using assms(3) by (induction es) auto
  with assms(2) ext show ?thesis unfolding contiguous_def by simp
qed

lemma append_all_contiguous:
  assumes "append_all es s = Inr s'" and "contiguous k s" and "list_all (\<lambda>e. owner e = i) es"
    and "map seq es = map (\<lambda>n. next_seq i s + int n) [0..<length es]"
  shows "contiguous k s'"
  by (rule extend_contiguous [OF entries_append_all [OF assms(1)] assms(2-4)])

end

section \<open>The tables satisfy their contracts\<close>

lemma foldr_max_upt: "foldr max (map int [1..<Suc n]) (b::int) = (if n = 0 then b else max (int n) b)"
  by (induction n arbitrary: b) (auto simp: max_def)

lemma au_next_sequence_upt:
  assumes "map au_sequence (filter (\<lambda>e. au_operation_id e = i) (j_audit_events j)) = map int [1..<Suc n]"
  shows "au_next_sequence i j = int n + 1"
proof (cases n)
  case 0
  with assms show ?thesis by (simp add: au_next_sequence_def)
next
  case (Suc m)
  then have "hd (map int [1..<Suc n]) = 1" by (simp add: upt_conv_Cons del: upt_Suc)
  moreover have "foldr max (map int [1..<Suc n]) 1 = int n"
    using foldr_max_upt [of n 1] Suc by simp
  moreover have "map int [1..<Suc n] \<noteq> []" using Suc by simp
  ultimately show ?thesis unfolding au_next_sequence_def assms Let_def by simp
qed

interpretation opst: versioned_store op_get op_update_cas op_id op_version
  by unfold_locales
    (auto simp: journal_simps op_get_def tbl_get_set_same tbl_get_set_other split: if_splits)

interpretation cpst: versioned_store cp_get cp_update_cas cm_id cm_version
  by unfold_locales
    (auto simp: journal_simps cp_get_def tbl_get_set_same tbl_get_set_other split: if_splits)

lemmas fresh_row = tbl_get_snoc tbl_get_None_iff [symmetric]

interpretation optb: fresh_table op_get op_insert op_id "\<lambda>o'. o'"
  by unfold_locales (auto simp: journal_simps op_get_def op_exists_def fresh_row split: option.splits)

interpretation attb: fresh_table at_get at_insert att_id "\<lambda>a. a"
  by unfold_locales (auto simp: journal_simps at_get_def fresh_row split: option.splits)

interpretation potb: fresh_table po_get po_insert pd_id "\<lambda>d. d"
  by unfold_locales (auto simp: journal_simps po_get_def fresh_row split: option.splits)

interpretation aptb: fresh_table ap_get ap_insert ap_id "\<lambda>a. a"
  by unfold_locales (auto simp: journal_simps ap_get_def fresh_row split: option.splits)

interpretation vftb: fresh_table vf_get vf_insert_request vq_id "\<lambda>q. (q, None)"
  by unfold_locales (auto simp: journal_simps vf_get_def fresh_row split: option.splits)

interpretation cptb: fresh_table cp_get cp_insert cm_id "\<lambda>c. c"
  by unfold_locales (auto simp: journal_simps cp_get_def fresh_row split: option.splits)

interpretation catb: fresh_table ca_get ca_insert ca_id "\<lambda>a. a"
  by unfold_locales (auto simp: journal_simps ca_get_def fresh_row split: option.splits)

interpretation oxtb: fresh_table ox_get ox_insert ox_id "\<lambda>e. e"
  by unfold_locales (auto simp: journal_simps ox_get_def fresh_row split: option.splits)

interpretation aulog: sequenced_log j_audit_events au_operation_id au_sequence au_next_sequence au_append
  by unfold_locales (auto simp: journal_simps au_next_sequence_upt)

section \<open>Transactions\<close>

lemma uow_commit_Inr [journal_simps]:
  "uow_commit j = Inr j' \<longleftrightarrow> list_all (op_pointers_ok j) (j_operations j) \<and> j' = j"
  by (auto simp: uow_commit_def)

lemma unit_of_work_Inl: "fst (unit_of_work body j) = Inl e \<Longrightarrow> snd (unit_of_work body j) = j"
  by (auto simp: unit_of_work_def split: sum.splits)

lemma unit_of_work_Inr:
  "unit_of_work body j = (Inr x, j') \<longleftrightarrow>
     body j = Inr (x, j') \<and> list_all (op_pointers_ok j') (j_operations j')"
  by (cases "body j") (auto simp: unit_of_work_def uow_commit_def guard_err_def fk_err_def)

text \<open>Publishing an event twice is publishing it once: the first timestamp stays.\<close>

lemma ox_mark_published_state:
  "ox_mark_published i t j = Inr j' \<Longrightarrow> \<exists>row. ox_get i j' = Some row \<and> ox_state row = OB_PUBLISHED"
  by (auto simp: ox_mark_published_def ox_get_def tbl_get_set_same
      split: option.splits if_splits)

lemma ox_mark_published_again:
  "ox_mark_published i t j = Inr j' \<Longrightarrow> ox_mark_published i t' j' = Inr j'"
  using ox_mark_published_state [of i t j j'] by (auto simp: ox_mark_published_def [of i t' j'])

end
