(* ===== verification/Transition_Commands.thy ===== *)
theory Transition_Commands
  imports State_Tables Safety_Decisions Journal
begin

text \<open>
  The command language of the transition engine (\<^verbatim>\<open>transitions/kinds.py\<close>,
  \<^verbatim>\<open>transitions/commands.py\<close>, \<^verbatim>\<open>transitions/results.py\<close>) and the builders it writes
  records with (\<^verbatim>\<open>transitions/mutate.py\<close>, \<^verbatim>\<open>transitions/audit.py\<close>,
  \<^verbatim>\<open>transitions/outbox.py\<close>). An operation command is the header every
  \<open>_OperationCommand\<close> shares plus a body: one constructor per dataclass, its arguments the
  dataclass's own fields in declaration order (an \<open>opaque_id\<close> is the caller-supplied id of an
  audit or outbox event). Where the source asks \<open>isinstance(command, (...))\<close> and reads a
  field, the model has a function from bodies to that field, \<open>None\<close> outside the group.
\<close>

named_theorems body_simps \<open>the fields of a command body\<close>

section \<open>Kinds\<close>

datatype (plugins only: code size) transition_kind =
    TK_CREATE_OPERATION
  | TK_POLICY_ALLOW
  | TK_POLICY_REQUIRE_APPROVAL
  | TK_POLICY_DENY
  | TK_CANCEL_PENDING_POLICY
  | TK_APPROVAL_GRANT
  | TK_APPROVAL_REJECT
  | TK_CANCEL_AWAITING_APPROVAL
  | TK_CLAIM_EXECUTION
  | TK_CANCEL_READY
  | TK_READY_MESSAGING_RECOVERY_EXHAUSTED
  | TK_EXECUTION_APPLIED
  | TK_EXECUTION_REQUIRE_VERIFICATION
  | TK_EXECUTION_NOT_APPLIED_RETRY
  | TK_EXECUTION_NOT_APPLIED_FAIL
  | TK_EXECUTION_UNKNOWN
  | TK_EXECUTION_MESSAGING_RECOVERY_EXHAUSTED
  | TK_VERIFICATION_APPLIED
  | TK_VERIFICATION_NOT_APPLIED_RETRY
  | TK_VERIFICATION_NOT_APPLIED_FAIL
  | TK_VERIFICATION_INCONCLUSIVE
  | TK_VERIFICATION_ESCALATE
  | TK_UNKNOWN_START_VERIFICATION
  | TK_UNKNOWN_SAFE_RETRY
  | TK_UNKNOWN_RECONCILE_APPLIED
  | TK_UNKNOWN_RECONCILE_NOT_APPLIED
  | TK_UNKNOWN_ESCALATE
  | TK_SUCCEEDED_START_COMPENSATION
  | TK_FAILED_START_COMPENSATION
  | TK_MANUAL_START_VERIFICATION
  | TK_MANUAL_START_COMPENSATION
  | TK_MANUAL_SAFE_RETRY
  | TK_COMPENSATION_APPLIED
  | TK_COMPENSATION_OUTCOME_UNKNOWN
  | TK_COMPENSATION_OUTCOME_FAILED
  | TK_COMPENSATION_ESCALATE
  | TK_COMPENSATION_UNKNOWN_RETRY
  | TK_COMPENSATION_UNKNOWN_APPLIED
  | TK_COMPENSATION_UNKNOWN_FAILED
  | TK_COMPENSATION_UNKNOWN_ESCALATE
  | TK_COMPENSATION_FAILED_RETRY
  | TK_COMPENSATION_FAILED_ESCALATE

primrec transition_kind_value :: "transition_kind \<Rightarrow> string" where
    "transition_kind_value TK_CREATE_OPERATION = ''CREATE_OPERATION''"
  | "transition_kind_value TK_POLICY_ALLOW = ''POLICY_ALLOW''"
  | "transition_kind_value TK_POLICY_REQUIRE_APPROVAL = ''POLICY_REQUIRE_APPROVAL''"
  | "transition_kind_value TK_POLICY_DENY = ''POLICY_DENY''"
  | "transition_kind_value TK_CANCEL_PENDING_POLICY = ''CANCEL_PENDING_POLICY''"
  | "transition_kind_value TK_APPROVAL_GRANT = ''APPROVAL_GRANT''"
  | "transition_kind_value TK_APPROVAL_REJECT = ''APPROVAL_REJECT''"
  | "transition_kind_value TK_CANCEL_AWAITING_APPROVAL = ''CANCEL_AWAITING_APPROVAL''"
  | "transition_kind_value TK_CLAIM_EXECUTION = ''CLAIM_EXECUTION''"
  | "transition_kind_value TK_CANCEL_READY = ''CANCEL_READY''"
  | "transition_kind_value TK_READY_MESSAGING_RECOVERY_EXHAUSTED = ''READY_MESSAGING_RECOVERY_EXHAUSTED''"
  | "transition_kind_value TK_EXECUTION_APPLIED = ''EXECUTION_APPLIED''"
  | "transition_kind_value TK_EXECUTION_REQUIRE_VERIFICATION = ''EXECUTION_REQUIRE_VERIFICATION''"
  | "transition_kind_value TK_EXECUTION_NOT_APPLIED_RETRY = ''EXECUTION_NOT_APPLIED_RETRY''"
  | "transition_kind_value TK_EXECUTION_NOT_APPLIED_FAIL = ''EXECUTION_NOT_APPLIED_FAIL''"
  | "transition_kind_value TK_EXECUTION_UNKNOWN = ''EXECUTION_UNKNOWN''"
  | "transition_kind_value TK_EXECUTION_MESSAGING_RECOVERY_EXHAUSTED = ''EXECUTION_MESSAGING_RECOVERY_EXHAUSTED''"
  | "transition_kind_value TK_VERIFICATION_APPLIED = ''VERIFICATION_APPLIED''"
  | "transition_kind_value TK_VERIFICATION_NOT_APPLIED_RETRY = ''VERIFICATION_NOT_APPLIED_RETRY''"
  | "transition_kind_value TK_VERIFICATION_NOT_APPLIED_FAIL = ''VERIFICATION_NOT_APPLIED_FAIL''"
  | "transition_kind_value TK_VERIFICATION_INCONCLUSIVE = ''VERIFICATION_INCONCLUSIVE''"
  | "transition_kind_value TK_VERIFICATION_ESCALATE = ''VERIFICATION_ESCALATE''"
  | "transition_kind_value TK_UNKNOWN_START_VERIFICATION = ''UNKNOWN_START_VERIFICATION''"
  | "transition_kind_value TK_UNKNOWN_SAFE_RETRY = ''UNKNOWN_SAFE_RETRY''"
  | "transition_kind_value TK_UNKNOWN_RECONCILE_APPLIED = ''UNKNOWN_RECONCILE_APPLIED''"
  | "transition_kind_value TK_UNKNOWN_RECONCILE_NOT_APPLIED = ''UNKNOWN_RECONCILE_NOT_APPLIED''"
  | "transition_kind_value TK_UNKNOWN_ESCALATE = ''UNKNOWN_ESCALATE''"
  | "transition_kind_value TK_SUCCEEDED_START_COMPENSATION = ''SUCCEEDED_START_COMPENSATION''"
  | "transition_kind_value TK_FAILED_START_COMPENSATION = ''FAILED_START_COMPENSATION''"
  | "transition_kind_value TK_MANUAL_START_VERIFICATION = ''MANUAL_START_VERIFICATION''"
  | "transition_kind_value TK_MANUAL_START_COMPENSATION = ''MANUAL_START_COMPENSATION''"
  | "transition_kind_value TK_MANUAL_SAFE_RETRY = ''MANUAL_SAFE_RETRY''"
  | "transition_kind_value TK_COMPENSATION_APPLIED = ''COMPENSATION_APPLIED''"
  | "transition_kind_value TK_COMPENSATION_OUTCOME_UNKNOWN = ''COMPENSATION_OUTCOME_UNKNOWN''"
  | "transition_kind_value TK_COMPENSATION_OUTCOME_FAILED = ''COMPENSATION_OUTCOME_FAILED''"
  | "transition_kind_value TK_COMPENSATION_ESCALATE = ''COMPENSATION_ESCALATE''"
  | "transition_kind_value TK_COMPENSATION_UNKNOWN_RETRY = ''COMPENSATION_UNKNOWN_RETRY''"
  | "transition_kind_value TK_COMPENSATION_UNKNOWN_APPLIED = ''COMPENSATION_UNKNOWN_APPLIED''"
  | "transition_kind_value TK_COMPENSATION_UNKNOWN_FAILED = ''COMPENSATION_UNKNOWN_FAILED''"
  | "transition_kind_value TK_COMPENSATION_UNKNOWN_ESCALATE = ''COMPENSATION_UNKNOWN_ESCALATE''"
  | "transition_kind_value TK_COMPENSATION_FAILED_RETRY = ''COMPENSATION_FAILED_RETRY''"
  | "transition_kind_value TK_COMPENSATION_FAILED_ESCALATE = ''COMPENSATION_FAILED_ESCALATE''"

definition transition_kind_members :: "transition_kind list" where
  "transition_kind_members =
    [TK_CREATE_OPERATION,
     TK_POLICY_ALLOW,
     TK_POLICY_REQUIRE_APPROVAL,
     TK_POLICY_DENY,
     TK_CANCEL_PENDING_POLICY,
     TK_APPROVAL_GRANT,
     TK_APPROVAL_REJECT,
     TK_CANCEL_AWAITING_APPROVAL,
     TK_CLAIM_EXECUTION,
     TK_CANCEL_READY,
     TK_READY_MESSAGING_RECOVERY_EXHAUSTED,
     TK_EXECUTION_APPLIED,
     TK_EXECUTION_REQUIRE_VERIFICATION,
     TK_EXECUTION_NOT_APPLIED_RETRY,
     TK_EXECUTION_NOT_APPLIED_FAIL,
     TK_EXECUTION_UNKNOWN,
     TK_EXECUTION_MESSAGING_RECOVERY_EXHAUSTED,
     TK_VERIFICATION_APPLIED,
     TK_VERIFICATION_NOT_APPLIED_RETRY,
     TK_VERIFICATION_NOT_APPLIED_FAIL,
     TK_VERIFICATION_INCONCLUSIVE,
     TK_VERIFICATION_ESCALATE,
     TK_UNKNOWN_START_VERIFICATION,
     TK_UNKNOWN_SAFE_RETRY,
     TK_UNKNOWN_RECONCILE_APPLIED,
     TK_UNKNOWN_RECONCILE_NOT_APPLIED,
     TK_UNKNOWN_ESCALATE,
     TK_SUCCEEDED_START_COMPENSATION,
     TK_FAILED_START_COMPENSATION,
     TK_MANUAL_START_VERIFICATION,
     TK_MANUAL_START_COMPENSATION,
     TK_MANUAL_SAFE_RETRY,
     TK_COMPENSATION_APPLIED,
     TK_COMPENSATION_OUTCOME_UNKNOWN,
     TK_COMPENSATION_OUTCOME_FAILED,
     TK_COMPENSATION_ESCALATE,
     TK_COMPENSATION_UNKNOWN_RETRY,
     TK_COMPENSATION_UNKNOWN_APPLIED,
     TK_COMPENSATION_UNKNOWN_FAILED,
     TK_COMPENSATION_UNKNOWN_ESCALATE,
     TK_COMPENSATION_FAILED_RETRY,
     TK_COMPENSATION_FAILED_ESCALATE]"

datatype compensation_progress_kind =
    PK_CLAIM_COMPENSATION_EXECUTION
  | PK_START_COMPENSATION_VERIFICATION
  | PK_CLAIM_COMPENSATION_RETRY_ATTEMPT
  | PK_RETRY_COMPENSATION_AFTER_VERIFICATION

primrec compensation_progress_kind_value :: "compensation_progress_kind \<Rightarrow> string" where
    "compensation_progress_kind_value PK_CLAIM_COMPENSATION_EXECUTION = ''CLAIM_COMPENSATION_EXECUTION''"
  | "compensation_progress_kind_value PK_START_COMPENSATION_VERIFICATION = ''START_COMPENSATION_VERIFICATION''"
  | "compensation_progress_kind_value PK_CLAIM_COMPENSATION_RETRY_ATTEMPT = ''CLAIM_COMPENSATION_RETRY_ATTEMPT''"
  | "compensation_progress_kind_value PK_RETRY_COMPENSATION_AFTER_VERIFICATION = ''RETRY_COMPENSATION_AFTER_VERIFICATION''"

definition compensation_progress_kind_members :: "compensation_progress_kind list" where
  "compensation_progress_kind_members =
    [PK_CLAIM_COMPENSATION_EXECUTION,
     PK_START_COMPENSATION_VERIFICATION,
     PK_CLAIM_COMPENSATION_RETRY_ATTEMPT,
     PK_RETRY_COMPENSATION_AFTER_VERIFICATION]"

primrec KIND_TO_EDGE :: "transition_kind \<Rightarrow> operation_state option \<times> operation_state" where
    "KIND_TO_EDGE TK_CREATE_OPERATION = (None, OS_PENDING_POLICY)"
  | "KIND_TO_EDGE TK_POLICY_ALLOW = (Some OS_PENDING_POLICY, OS_READY)"
  | "KIND_TO_EDGE TK_POLICY_REQUIRE_APPROVAL = (Some OS_PENDING_POLICY, OS_AWAITING_APPROVAL)"
  | "KIND_TO_EDGE TK_POLICY_DENY = (Some OS_PENDING_POLICY, OS_DENIED)"
  | "KIND_TO_EDGE TK_CANCEL_PENDING_POLICY = (Some OS_PENDING_POLICY, OS_CANCELLED)"
  | "KIND_TO_EDGE TK_APPROVAL_GRANT = (Some OS_AWAITING_APPROVAL, OS_READY)"
  | "KIND_TO_EDGE TK_APPROVAL_REJECT = (Some OS_AWAITING_APPROVAL, OS_DENIED)"
  | "KIND_TO_EDGE TK_CANCEL_AWAITING_APPROVAL = (Some OS_AWAITING_APPROVAL, OS_CANCELLED)"
  | "KIND_TO_EDGE TK_CLAIM_EXECUTION = (Some OS_READY, OS_EXECUTING)"
  | "KIND_TO_EDGE TK_CANCEL_READY = (Some OS_READY, OS_CANCELLED)"
  | "KIND_TO_EDGE TK_READY_MESSAGING_RECOVERY_EXHAUSTED = (Some OS_READY, OS_MANUAL_INTERVENTION)"
  | "KIND_TO_EDGE TK_EXECUTION_APPLIED = (Some OS_EXECUTING, OS_SUCCEEDED)"
  | "KIND_TO_EDGE TK_EXECUTION_REQUIRE_VERIFICATION = (Some OS_EXECUTING, OS_VERIFYING)"
  | "KIND_TO_EDGE TK_EXECUTION_NOT_APPLIED_RETRY = (Some OS_EXECUTING, OS_READY)"
  | "KIND_TO_EDGE TK_EXECUTION_NOT_APPLIED_FAIL = (Some OS_EXECUTING, OS_FAILED)"
  | "KIND_TO_EDGE TK_EXECUTION_UNKNOWN = (Some OS_EXECUTING, OS_UNKNOWN)"
  | "KIND_TO_EDGE TK_EXECUTION_MESSAGING_RECOVERY_EXHAUSTED = (Some OS_EXECUTING, OS_MANUAL_INTERVENTION)"
  | "KIND_TO_EDGE TK_VERIFICATION_APPLIED = (Some OS_VERIFYING, OS_SUCCEEDED)"
  | "KIND_TO_EDGE TK_VERIFICATION_NOT_APPLIED_RETRY = (Some OS_VERIFYING, OS_READY)"
  | "KIND_TO_EDGE TK_VERIFICATION_NOT_APPLIED_FAIL = (Some OS_VERIFYING, OS_FAILED)"
  | "KIND_TO_EDGE TK_VERIFICATION_INCONCLUSIVE = (Some OS_VERIFYING, OS_UNKNOWN)"
  | "KIND_TO_EDGE TK_VERIFICATION_ESCALATE = (Some OS_VERIFYING, OS_MANUAL_INTERVENTION)"
  | "KIND_TO_EDGE TK_UNKNOWN_START_VERIFICATION = (Some OS_UNKNOWN, OS_VERIFYING)"
  | "KIND_TO_EDGE TK_UNKNOWN_SAFE_RETRY = (Some OS_UNKNOWN, OS_READY)"
  | "KIND_TO_EDGE TK_UNKNOWN_RECONCILE_APPLIED = (Some OS_UNKNOWN, OS_SUCCEEDED)"
  | "KIND_TO_EDGE TK_UNKNOWN_RECONCILE_NOT_APPLIED = (Some OS_UNKNOWN, OS_FAILED)"
  | "KIND_TO_EDGE TK_UNKNOWN_ESCALATE = (Some OS_UNKNOWN, OS_MANUAL_INTERVENTION)"
  | "KIND_TO_EDGE TK_SUCCEEDED_START_COMPENSATION = (Some OS_SUCCEEDED, OS_COMPENSATING)"
  | "KIND_TO_EDGE TK_FAILED_START_COMPENSATION = (Some OS_FAILED, OS_COMPENSATING)"
  | "KIND_TO_EDGE TK_MANUAL_START_VERIFICATION = (Some OS_MANUAL_INTERVENTION, OS_VERIFYING)"
  | "KIND_TO_EDGE TK_MANUAL_START_COMPENSATION = (Some OS_MANUAL_INTERVENTION, OS_COMPENSATING)"
  | "KIND_TO_EDGE TK_MANUAL_SAFE_RETRY = (Some OS_MANUAL_INTERVENTION, OS_READY)"
  | "KIND_TO_EDGE TK_COMPENSATION_APPLIED = (Some OS_COMPENSATING, OS_COMPENSATED)"
  | "KIND_TO_EDGE TK_COMPENSATION_OUTCOME_UNKNOWN = (Some OS_COMPENSATING, OS_COMPENSATION_UNKNOWN)"
  | "KIND_TO_EDGE TK_COMPENSATION_OUTCOME_FAILED = (Some OS_COMPENSATING, OS_COMPENSATION_FAILED)"
  | "KIND_TO_EDGE TK_COMPENSATION_ESCALATE = (Some OS_COMPENSATING, OS_MANUAL_INTERVENTION)"
  | "KIND_TO_EDGE TK_COMPENSATION_UNKNOWN_RETRY = (Some OS_COMPENSATION_UNKNOWN, OS_COMPENSATING)"
  | "KIND_TO_EDGE TK_COMPENSATION_UNKNOWN_APPLIED = (Some OS_COMPENSATION_UNKNOWN, OS_COMPENSATED)"
  | "KIND_TO_EDGE TK_COMPENSATION_UNKNOWN_FAILED = (Some OS_COMPENSATION_UNKNOWN, OS_COMPENSATION_FAILED)"
  | "KIND_TO_EDGE TK_COMPENSATION_UNKNOWN_ESCALATE = (Some OS_COMPENSATION_UNKNOWN, OS_MANUAL_INTERVENTION)"
  | "KIND_TO_EDGE TK_COMPENSATION_FAILED_RETRY = (Some OS_COMPENSATION_FAILED, OS_COMPENSATING)"
  | "KIND_TO_EDGE TK_COMPENSATION_FAILED_ESCALATE = (Some OS_COMPENSATION_FAILED, OS_MANUAL_INTERVENTION)"

section \<open>Command bodies\<close>

datatype (plugins only: code size) op_body =
    PolicyAllow policy_decision opaque_id opaque_id
  | PolicyRequireApproval policy_decision approval opaque_id opaque_id
  | PolicyDeny policy_decision opaque_id
  | CancelPendingPolicy
  | ApprovalGrant approval opaque_id opaque_id
  | ApprovalReject approval opaque_id
  | CancelAwaitingApproval approval
  | ClaimExecution execution_attempt opaque_id
  | CancelReady
  | ReadyMessagingRecoveryExhausted
  | ExecutionApplied execution_attempt opaque_id
  | ExecutionRequireVerification execution_attempt verification_request opaque_id opaque_id opaque_id
  | ExecutionNotAppliedRetry execution_attempt idempotency_mode opaque_id opaque_id "string option"
  | ExecutionNotAppliedFail execution_attempt opaque_id
  | ExecutionUnknown "execution_attempt option" opaque_id opaque_id
  | ExecutionMessagingRecoveryExhausted
  | VerificationApplied verification_result opaque_id
  | VerificationNotAppliedRetry verification_result idempotency_mode opaque_id opaque_id "string option"
  | VerificationNotAppliedFail verification_result opaque_id
  | VerificationInconclusive verification_result opaque_id
  | VerificationEscalate "verification_result option" opaque_id
  | UnknownStartVerification verification_request opaque_id opaque_id
  | UnknownSafeRetry idempotency_mode "effect_outcome option" "effect_outcome option" opaque_id "string option"
  | UnknownReconcileApplied stored_reconciliation_decision opaque_id
  | UnknownReconcileNotApplied stored_reconciliation_decision opaque_id
  | UnknownEscalate opaque_id
  | SucceededStartCompensation compensation opaque_id opaque_id
  | FailedStartCompensation compensation opaque_id opaque_id
  | ManualStartVerification verification_request opaque_id opaque_id opaque_id
  | ManualStartCompensation compensation opaque_id opaque_id opaque_id
  | ManualSafeRetry idempotency_mode "effect_outcome option" "effect_outcome option" opaque_id opaque_id "string option"
  | CompensationApplied compensation_attempt opaque_id "verification_result option"
  | CompensationOutcomeUnknown "compensation_attempt option" opaque_id opaque_id "verification_result option"
  | CompensationOutcomeFailed compensation_attempt opaque_id "verification_result option"
  | CompensationEscalate opaque_id "verification_result option"
  | CompensationUnknownRetry opaque_id
  | CompensationUnknownApplied compensation_attempt "verification_result option"
  | CompensationUnknownFailed compensation_attempt "verification_result option"
  | CompensationUnknownEscalate opaque_id "verification_result option"
  | CompensationFailedRetry opaque_id
  | CompensationFailedEscalate opaque_id

primrec body_kind :: "op_body \<Rightarrow> transition_kind" where
    "body_kind (PolicyAllow _ _ _) = TK_POLICY_ALLOW"
  | "body_kind (PolicyRequireApproval _ _ _ _) = TK_POLICY_REQUIRE_APPROVAL"
  | "body_kind (PolicyDeny _ _) = TK_POLICY_DENY"
  | "body_kind CancelPendingPolicy = TK_CANCEL_PENDING_POLICY"
  | "body_kind (ApprovalGrant _ _ _) = TK_APPROVAL_GRANT"
  | "body_kind (ApprovalReject _ _) = TK_APPROVAL_REJECT"
  | "body_kind (CancelAwaitingApproval _) = TK_CANCEL_AWAITING_APPROVAL"
  | "body_kind (ClaimExecution _ _) = TK_CLAIM_EXECUTION"
  | "body_kind CancelReady = TK_CANCEL_READY"
  | "body_kind ReadyMessagingRecoveryExhausted = TK_READY_MESSAGING_RECOVERY_EXHAUSTED"
  | "body_kind (ExecutionApplied _ _) = TK_EXECUTION_APPLIED"
  | "body_kind (ExecutionRequireVerification _ _ _ _ _) = TK_EXECUTION_REQUIRE_VERIFICATION"
  | "body_kind (ExecutionNotAppliedRetry _ _ _ _ _) = TK_EXECUTION_NOT_APPLIED_RETRY"
  | "body_kind (ExecutionNotAppliedFail _ _) = TK_EXECUTION_NOT_APPLIED_FAIL"
  | "body_kind (ExecutionUnknown _ _ _) = TK_EXECUTION_UNKNOWN"
  | "body_kind ExecutionMessagingRecoveryExhausted = TK_EXECUTION_MESSAGING_RECOVERY_EXHAUSTED"
  | "body_kind (VerificationApplied _ _) = TK_VERIFICATION_APPLIED"
  | "body_kind (VerificationNotAppliedRetry _ _ _ _ _) = TK_VERIFICATION_NOT_APPLIED_RETRY"
  | "body_kind (VerificationNotAppliedFail _ _) = TK_VERIFICATION_NOT_APPLIED_FAIL"
  | "body_kind (VerificationInconclusive _ _) = TK_VERIFICATION_INCONCLUSIVE"
  | "body_kind (VerificationEscalate _ _) = TK_VERIFICATION_ESCALATE"
  | "body_kind (UnknownStartVerification _ _ _) = TK_UNKNOWN_START_VERIFICATION"
  | "body_kind (UnknownSafeRetry _ _ _ _ _) = TK_UNKNOWN_SAFE_RETRY"
  | "body_kind (UnknownReconcileApplied _ _) = TK_UNKNOWN_RECONCILE_APPLIED"
  | "body_kind (UnknownReconcileNotApplied _ _) = TK_UNKNOWN_RECONCILE_NOT_APPLIED"
  | "body_kind (UnknownEscalate _) = TK_UNKNOWN_ESCALATE"
  | "body_kind (SucceededStartCompensation _ _ _) = TK_SUCCEEDED_START_COMPENSATION"
  | "body_kind (FailedStartCompensation _ _ _) = TK_FAILED_START_COMPENSATION"
  | "body_kind (ManualStartVerification _ _ _ _) = TK_MANUAL_START_VERIFICATION"
  | "body_kind (ManualStartCompensation _ _ _ _) = TK_MANUAL_START_COMPENSATION"
  | "body_kind (ManualSafeRetry _ _ _ _ _ _) = TK_MANUAL_SAFE_RETRY"
  | "body_kind (CompensationApplied _ _ _) = TK_COMPENSATION_APPLIED"
  | "body_kind (CompensationOutcomeUnknown _ _ _ _) = TK_COMPENSATION_OUTCOME_UNKNOWN"
  | "body_kind (CompensationOutcomeFailed _ _ _) = TK_COMPENSATION_OUTCOME_FAILED"
  | "body_kind (CompensationEscalate _ _) = TK_COMPENSATION_ESCALATE"
  | "body_kind (CompensationUnknownRetry _) = TK_COMPENSATION_UNKNOWN_RETRY"
  | "body_kind (CompensationUnknownApplied _ _) = TK_COMPENSATION_UNKNOWN_APPLIED"
  | "body_kind (CompensationUnknownFailed _ _) = TK_COMPENSATION_UNKNOWN_FAILED"
  | "body_kind (CompensationUnknownEscalate _ _) = TK_COMPENSATION_UNKNOWN_ESCALATE"
  | "body_kind (CompensationFailedRetry _) = TK_COMPENSATION_FAILED_RETRY"
  | "body_kind (CompensationFailedEscalate _) = TK_COMPENSATION_FAILED_ESCALATE"

section \<open>Fields of a body\<close>

definition policy_decision_of :: "op_body \<Rightarrow> policy_decision option" where [body_simps]:
  "policy_decision_of b =
     (case b of PolicyAllow d _ _ \<Rightarrow> Some d | PolicyRequireApproval d _ _ _ \<Rightarrow> Some d
      | PolicyDeny d _ \<Rightarrow> Some d | _ \<Rightarrow> None)"

definition requested_approval_of :: "op_body \<Rightarrow> approval option" where [body_simps]:
  "requested_approval_of b = (case b of PolicyRequireApproval _ a _ _ \<Rightarrow> Some a | _ \<Rightarrow> None)"

definition decided_approval_of :: "op_body \<Rightarrow> approval option" where [body_simps]:
  "decided_approval_of b =
     (case b of ApprovalGrant a _ _ \<Rightarrow> Some a | ApprovalReject a _ \<Rightarrow> Some a
      | CancelAwaitingApproval a \<Rightarrow> Some a | _ \<Rightarrow> None)"

text \<open>\<open>getattr(command, "approval", None)\<close>\<close>

definition cmd_approval :: "op_body \<Rightarrow> approval option" where [body_simps]:
  "cmd_approval b =
     (case requested_approval_of b of Some a \<Rightarrow> Some a | None \<Rightarrow> decided_approval_of b)"

definition claimed_attempt_of :: "op_body \<Rightarrow> execution_attempt option" where [body_simps]:
  "claimed_attempt_of b = (case b of ClaimExecution a _ \<Rightarrow> Some a | _ \<Rightarrow> None)"

text \<open>\<open>getattr(command, "completed_attempt", None)\<close> over the five execution results\<close>

definition completed_attempt_of :: "op_body \<Rightarrow> execution_attempt option" where [body_simps]:
  "completed_attempt_of b =
     (case b of ExecutionApplied a _ \<Rightarrow> Some a | ExecutionRequireVerification a _ _ _ _ \<Rightarrow> Some a
      | ExecutionNotAppliedRetry a _ _ _ _ \<Rightarrow> Some a | ExecutionNotAppliedFail a _ \<Rightarrow> Some a
      | ExecutionUnknown a _ _ \<Rightarrow> a | _ \<Rightarrow> None)"

definition evidence_audit_event_id_of :: "op_body \<Rightarrow> opaque_id option" where [body_simps]:
  "evidence_audit_event_id_of b =
     (case b of ExecutionApplied _ i \<Rightarrow> Some i | ExecutionRequireVerification _ _ i _ _ \<Rightarrow> Some i
      | ExecutionNotAppliedRetry _ _ i _ _ \<Rightarrow> Some i | ExecutionNotAppliedFail _ i \<Rightarrow> Some i
      | ExecutionUnknown _ i _ \<Rightarrow> Some i | _ \<Rightarrow> None)"

definition verification_request_of :: "op_body \<Rightarrow> verification_request option" where [body_simps]:
  "verification_request_of b =
     (case b of ExecutionRequireVerification _ q _ _ _ \<Rightarrow> Some q
      | UnknownStartVerification q _ _ \<Rightarrow> Some q | ManualStartVerification q _ _ _ \<Rightarrow> Some q
      | _ \<Rightarrow> None)"

text \<open>The results of an original-effect verification (\<open>VerificationEscalate\<close> may carry none).\<close>

definition verification_result_of :: "op_body \<Rightarrow> verification_result option" where [body_simps]:
  "verification_result_of b =
     (case b of VerificationApplied r _ \<Rightarrow> Some r | VerificationNotAppliedRetry r _ _ _ _ \<Rightarrow> Some r
      | VerificationNotAppliedFail r _ \<Rightarrow> Some r | VerificationInconclusive r _ \<Rightarrow> Some r
      | VerificationEscalate r _ \<Rightarrow> r | _ \<Rightarrow> None)"

definition reconciliation_of :: "op_body \<Rightarrow> stored_reconciliation_decision option" where [body_simps]:
  "reconciliation_of b =
     (case b of UnknownReconcileApplied s _ \<Rightarrow> Some s | UnknownReconcileNotApplied s _ \<Rightarrow> Some s
      | _ \<Rightarrow> None)"

definition started_compensation_of :: "op_body \<Rightarrow> compensation option" where [body_simps]:
  "started_compensation_of b =
     (case b of SucceededStartCompensation c _ _ \<Rightarrow> Some c | FailedStartCompensation c _ _ \<Rightarrow> Some c
      | ManualStartCompensation c _ _ _ \<Rightarrow> Some c | _ \<Rightarrow> None)"

definition completed_compensation_attempt_of :: "op_body \<Rightarrow> compensation_attempt option"
  where [body_simps]:
  "completed_compensation_attempt_of b =
     (case b of CompensationApplied a _ _ \<Rightarrow> Some a | CompensationOutcomeUnknown a _ _ _ \<Rightarrow> a
      | CompensationOutcomeFailed a _ _ \<Rightarrow> Some a | CompensationUnknownApplied a _ \<Rightarrow> Some a
      | CompensationUnknownFailed a _ \<Rightarrow> Some a | _ \<Rightarrow> None)"

text \<open>
  \<open>command.verification_result\<close> over the seven kinds that may carry the result of a
  compensation verification.
\<close>

definition compensation_verification_of :: "op_body \<Rightarrow> verification_result option"
  where [body_simps]:
  "compensation_verification_of b =
     (case b of CompensationApplied _ _ r \<Rightarrow> r | CompensationOutcomeUnknown _ _ _ r \<Rightarrow> r
      | CompensationOutcomeFailed _ _ r \<Rightarrow> r | CompensationUnknownApplied _ r \<Rightarrow> r
      | CompensationUnknownFailed _ r \<Rightarrow> r | CompensationEscalate _ r \<Rightarrow> r
      | CompensationUnknownEscalate _ r \<Rightarrow> r | _ \<Rightarrow> None)"

text \<open>\<open>getattr(command, "outbox_event_id", None)\<close>\<close>

definition outbox_event_id_of :: "op_body \<Rightarrow> opaque_id option" where [body_simps]:
  "outbox_event_id_of b =
     (case b of PolicyAllow _ _ i \<Rightarrow> Some i | ApprovalGrant _ _ i \<Rightarrow> Some i
      | ExecutionRequireVerification _ _ _ _ i \<Rightarrow> Some i | ExecutionNotAppliedRetry _ _ _ i _ \<Rightarrow> Some i
      | ExecutionUnknown _ _ i \<Rightarrow> Some i | VerificationNotAppliedRetry _ _ _ i _ \<Rightarrow> Some i
      | UnknownStartVerification _ _ i \<Rightarrow> Some i | UnknownSafeRetry _ _ _ i _ \<Rightarrow> Some i
      | SucceededStartCompensation _ _ i \<Rightarrow> Some i | FailedStartCompensation _ _ i \<Rightarrow> Some i
      | ManualStartVerification _ _ _ i \<Rightarrow> Some i | ManualStartCompensation _ _ _ i \<Rightarrow> Some i
      | ManualSafeRetry _ _ _ _ i _ \<Rightarrow> Some i | CompensationOutcomeUnknown _ _ i _ \<Rightarrow> Some i
      | CompensationUnknownRetry i \<Rightarrow> Some i | CompensationFailedRetry i \<Rightarrow> Some i | _ \<Rightarrow> None)"

text \<open>\<open>getattr(command, "manual_audit_event_id", None)\<close>\<close>

definition manual_audit_event_id_of :: "op_body \<Rightarrow> opaque_id option" where [body_simps]:
  "manual_audit_event_id_of b =
     (case b of VerificationEscalate _ i \<Rightarrow> Some i | UnknownEscalate i \<Rightarrow> Some i
      | CompensationEscalate i _ \<Rightarrow> Some i | CompensationUnknownEscalate i _ \<Rightarrow> Some i
      | CompensationFailedEscalate i \<Rightarrow> Some i | _ \<Rightarrow> None)"

section \<open>Commands\<close>

record op_command =
  oc_kind :: transition_kind
  oc_operation_id :: opaque_id
  oc_expected_version :: int
  oc_occurred_at :: utc_timestamp
  oc_actor :: "principal_ref option"
  oc_correlation_id :: "string option"
  oc_reason_code :: string
  oc_transition_audit_event_id :: opaque_id
  oc_body :: op_body

record create_command =
  cc_kind :: transition_kind
  cc_operation :: operation
  cc_occurred_at :: utc_timestamp
  cc_actor :: "principal_ref option"
  cc_correlation_id :: "string option"
  cc_reason_code :: string
  cc_created_audit_event_id :: opaque_id

text \<open>The fields the four compensation-progress commands share.\<close>

record progress_header =
  pc_kind :: compensation_progress_kind
  pc_operation_id :: opaque_id
  pc_expected_operation_version :: int
  pc_compensation_id :: opaque_id
  pc_expected_compensation_version :: int
  pc_occurred_at :: utc_timestamp
  pc_actor :: "principal_ref option"
  pc_correlation_id :: "string option"
  pc_reason_code :: string

record claim_compensation_execution = progress_header +
  ce_attempt :: compensation_attempt
  ce_attempt_audit_event_id :: opaque_id

record start_compensation_verification = progress_header +
  sv_completed_compensation_attempt :: "compensation_attempt option"
  sv_verification_request :: verification_request
  sv_attempt_audit_event_id :: "opaque_id option"
  sv_verification_audit_event_id :: opaque_id
  sv_outbox_event_id :: opaque_id

record claim_compensation_retry_attempt = progress_header +
  cr_attempt :: compensation_attempt
  cr_attempt_audit_event_id :: opaque_id

record retry_compensation_after_verification = progress_header +
  rv_verification_result :: verification_result
  rv_attempt :: compensation_attempt
  rv_idempotency_mode :: idempotency_mode
  rv_attempt_audit_event_id :: opaque_id
  rv_verification_audit_event_id :: opaque_id
  rv_outbox_event_id :: opaque_id

datatype transition_command =
    CreateOperation create_command
  | OperationCommand op_command
  | ClaimCompensationExecution claim_compensation_execution
  | StartCompensationVerification start_compensation_verification
  | ClaimCompensationRetryAttempt claim_compensation_retry_attempt
  | RetryCompensationAfterVerification retry_compensation_after_verification

datatype any_kind = OpKind transition_kind | ProgressKind compensation_progress_kind

text \<open>\<open>command.kind\<close> and \<open>COMMAND_TYPE_TO_KIND\<close> of the command's type.\<close>

primrec command_kind :: "transition_command \<Rightarrow> any_kind" where
    "command_kind (CreateOperation c) = OpKind (cc_kind c)"
  | "command_kind (OperationCommand c) = OpKind (oc_kind c)"
  | "command_kind (ClaimCompensationExecution c) = ProgressKind (pc_kind c)"
  | "command_kind (StartCompensationVerification c) = ProgressKind (pc_kind c)"
  | "command_kind (ClaimCompensationRetryAttempt c) = ProgressKind (pc_kind c)"
  | "command_kind (RetryCompensationAfterVerification c) = ProgressKind (pc_kind c)"

primrec COMMAND_TYPE_TO_KIND :: "transition_command \<Rightarrow> any_kind" where
    "COMMAND_TYPE_TO_KIND (CreateOperation c) = OpKind TK_CREATE_OPERATION"
  | "COMMAND_TYPE_TO_KIND (OperationCommand c) = OpKind (body_kind (oc_body c))"
  | "COMMAND_TYPE_TO_KIND (ClaimCompensationExecution c) =
       ProgressKind PK_CLAIM_COMPENSATION_EXECUTION"
  | "COMMAND_TYPE_TO_KIND (StartCompensationVerification c) =
       ProgressKind PK_START_COMPENSATION_VERIFICATION"
  | "COMMAND_TYPE_TO_KIND (ClaimCompensationRetryAttempt c) =
       ProgressKind PK_CLAIM_COMPENSATION_RETRY_ATTEMPT"
  | "COMMAND_TYPE_TO_KIND (RetryCompensationAfterVerification c) =
       ProgressKind PK_RETRY_COMPENSATION_AFTER_VERIFICATION"

primrec any_kind_value :: "any_kind \<Rightarrow> string" where
    "any_kind_value (OpKind k) = transition_kind_value k"
  | "any_kind_value (ProgressKind k) = compensation_progress_kind_value k"

section \<open>Results\<close>

datatype transition_outcome = TO_APPLIED | TO_ALREADY_APPLIED | TO_REJECTED

record transition_result =
  tr_outcome :: transition_outcome
  tr_reason_code :: string
  tr_kind :: any_kind
  tr_operation :: "operation option"
  tr_compensation :: "compensation option"
  tr_audit_events :: "audit_event list"
  tr_outbox_event :: "outbox_event option"
  tr_from_state :: "operation_state option"
  tr_to_state :: "operation_state option"
  tr_operation_version :: "int option"

section \<open>Mutation helpers\<close>

text \<open>
  \<open>dataclasses.replace\<close> runs the validation of the record again. A pointer argument is
  \<open>None\<close> for \<open>UNCHANGED\<close> (no caller clears a pointer).
\<close>

definition or_unchanged :: "opaque_id option \<Rightarrow> opaque_id option \<Rightarrow> opaque_id option" where
  "or_unchanged given current = (case given of None \<Rightarrow> current | Some i \<Rightarrow> Some i)"

definition replace_operation ::
  "operation \<Rightarrow> operation_state \<Rightarrow> int \<Rightarrow> utc_timestamp \<Rightarrow> opaque_id option \<Rightarrow> opaque_id option \<Rightarrow>
   opaque_id option \<Rightarrow> opaque_id option \<Rightarrow> opaque_id option \<Rightarrow> operation fallible" where
  "replace_operation operation state version updated_at policy_id approval_id attempt_id
     verification_id compensation_pointer =
     make_operation
       (operation\<lparr>op_state := state, op_version := version, op_updated_at := updated_at,
          op_current_policy_decision_id := or_unchanged policy_id (op_current_policy_decision_id operation),
          op_current_approval_id := or_unchanged approval_id (op_current_approval_id operation),
          op_latest_attempt_id := or_unchanged attempt_id (op_latest_attempt_id operation),
          op_latest_verification_id :=
            or_unchanged verification_id (op_latest_verification_id operation),
          op_compensation_id := or_unchanged compensation_pointer (op_compensation_id operation)\<rparr>)"

definition replace_compensation ::
  "compensation \<Rightarrow> compensation_state \<Rightarrow> int \<Rightarrow> utc_timestamp \<Rightarrow> compensation fallible" where
  "replace_compensation compensation state version updated_at =
     make_compensation
       (compensation\<lparr>cm_state := state, cm_version := version, cm_updated_at := updated_at\<rparr>)"

section \<open>Audit and outbox events\<close>

definition ALLOWED_AUDIT_DATA_KEYS :: "string list" where
  "ALLOWED_AUDIT_DATA_KEYS =
     [''kind'', ''policy_decision_id'', ''approval_id'', ''attempt_id'', ''verification_id'',
      ''compensation_id'', ''compensation_attempt_id'', ''reconciliation_decision_id'',
      ''effect_outcome'', ''retry_safety_reason'', ''crash_interpretation'']"

text \<open>\<open>_audit_data\<close>: keyword pairs, \<open>None\<close> dropped; a value is the string inside an enum or an id.\<close>

definition audit_data :: "(string \<times> string option) list \<Rightarrow> json fallible" where
  "audit_data pairs =
     json_from_plain (PyDict
       (map (\<lambda>kv. (PyStr (fst kv), PyStr (the (snd kv))))
         (filter (\<lambda>kv. snd kv \<noteq> None \<and> fst kv \<in> set ALLOWED_AUDIT_DATA_KEYS) pairs)))"

definition build_audit_event ::
  "opaque_id \<Rightarrow> opaque_id \<Rightarrow> int \<Rightarrow> audit_event_type \<Rightarrow> operation_state option \<Rightarrow>
   operation_state option \<Rightarrow> int \<Rightarrow> principal_ref option \<Rightarrow> string \<Rightarrow> json \<Rightarrow> string option \<Rightarrow>
   utc_timestamp \<Rightarrow> audit_event fallible" where
  "build_audit_event audit_event_id operation_id sequence event_type from_state to_state
     operation_version actor reason_code data correlation_id created_at =
     make_audit_event
       \<lparr>au_contract_version = CONTRACT_VERSION, au_id = audit_event_id,
        au_operation_id = operation_id, au_sequence = sequence, au_event_type = event_type,
        au_from_state = from_state, au_to_state = to_state,
        au_operation_version = operation_version, au_actor = actor,
        au_reason_code = reason_code, au_data = data, au_correlation_id = correlation_id,
        au_created_at = created_at\<rparr>"

definition OUTBOX_COMMAND_FOR_PROGRESS_KIND :: "compensation_progress_kind \<Rightarrow> work_command option" where
  "OUTBOX_COMMAND_FOR_PROGRESS_KIND k =
     (case k of PK_START_COMPENSATION_VERIFICATION \<Rightarrow> Some WC_VERIFY
      | PK_RETRY_COMPENSATION_AFTER_VERIFICATION \<Rightarrow> Some WC_COMPENSATE | _ \<Rightarrow> None)"

definition OUTBOX_COMMAND_FOR_KIND :: "transition_kind \<Rightarrow> work_command option" where
  "OUTBOX_COMMAND_FOR_KIND k =
     (case k of
        TK_POLICY_ALLOW \<Rightarrow> Some WC_EXECUTE
      | TK_APPROVAL_GRANT \<Rightarrow> Some WC_EXECUTE
      | TK_EXECUTION_REQUIRE_VERIFICATION \<Rightarrow> Some WC_VERIFY
      | TK_EXECUTION_NOT_APPLIED_RETRY \<Rightarrow> Some WC_EXECUTE
      | TK_EXECUTION_UNKNOWN \<Rightarrow> Some WC_VERIFY
      | TK_VERIFICATION_NOT_APPLIED_RETRY \<Rightarrow> Some WC_EXECUTE
      | TK_UNKNOWN_START_VERIFICATION \<Rightarrow> Some WC_VERIFY
      | TK_UNKNOWN_SAFE_RETRY \<Rightarrow> Some WC_EXECUTE
      | TK_SUCCEEDED_START_COMPENSATION \<Rightarrow> Some WC_COMPENSATE
      | TK_FAILED_START_COMPENSATION \<Rightarrow> Some WC_COMPENSATE
      | TK_MANUAL_START_VERIFICATION \<Rightarrow> Some WC_VERIFY
      | TK_MANUAL_START_COMPENSATION \<Rightarrow> Some WC_COMPENSATE
      | TK_MANUAL_SAFE_RETRY \<Rightarrow> Some WC_EXECUTE
      | TK_COMPENSATION_OUTCOME_UNKNOWN \<Rightarrow> Some WC_COMPENSATE
      | TK_COMPENSATION_UNKNOWN_RETRY \<Rightarrow> Some WC_COMPENSATE
      | TK_COMPENSATION_FAILED_RETRY \<Rightarrow> Some WC_COMPENSATE
      | _ \<Rightarrow> None)"

definition build_outbox_event ::
  "opaque_id \<Rightarrow> opaque_id \<Rightarrow> int \<Rightarrow> work_command \<Rightarrow> utc_timestamp \<Rightarrow> string option \<Rightarrow>
   outbox_event fallible" where
  "build_outbox_event event_id operation_id operation_version command created_at correlation_id =
     make_outbox_event
       \<lparr>ox_contract_version = CONTRACT_VERSION, ox_id = event_id, ox_state = OB_PENDING,
        ox_aggregate_type = AGGREGATE_TYPE_OPERATION, ox_aggregate_id = operation_id,
        ox_operation_version = operation_version, ox_command = command,
        ox_created_at = created_at, ox_published_at = None,
        ox_correlation_id = correlation_id\<rparr>"

section \<open>Kinds and edges\<close>

lemma kind_edges_listed: "KIND_TO_EDGE k \<in> set LEGAL_OPERATION_TRANSITIONS"
  by (cases k) (simp_all add: LEGAL_OPERATION_TRANSITIONS_def)

lemma transition_kind_members_all: "set transition_kind_members = UNIV"
proof -
  have "k \<in> set transition_kind_members" for k by (cases k) (simp_all add: transition_kind_members_def)
  then show ?thesis by blast
qed

lemma kind_edges_enumerated:
  "map KIND_TO_EDGE transition_kind_members = LEGAL_OPERATION_TRANSITIONS"
  by (simp add: transition_kind_members_def LEGAL_OPERATION_TRANSITIONS_def)

lemma legal_operation_transitions_distinct: "distinct LEGAL_OPERATION_TRANSITIONS"
  by (simp add: LEGAL_OPERATION_TRANSITIONS_def)

text \<open>A kind carries an outbox event id exactly when it is mapped to a work command.\<close>

lemma outbox_id_iff_mapped:
  "outbox_event_id_of b \<noteq> None \<longleftrightarrow> OUTBOX_COMMAND_FOR_KIND (body_kind b) \<noteq> None"
  by (cases b) (simp_all add: body_simps OUTBOX_COMMAND_FOR_KIND_def)

end
