(* ===== verification/Transition_Preconditions.thy ===== *)
theory Transition_Preconditions
  imports Transition_Commands
begin

text \<open>
  \<^verbatim>\<open>transitions/preconditions.py\<close>: the checks a command must pass against the records already
  loaded for it. A check returns \<open>None\<close> or the reason code of the first failing test; a chain
  of early returns is a \<open>first_reason\<close> list in source order. The lemmas read a passed check
  back as the facts the engine's properties rest on.
\<close>

definition ACTOR_REQUIRED_KINDS :: "transition_kind list" where
  "ACTOR_REQUIRED_KINDS =
     [TK_CANCEL_PENDING_POLICY, TK_CANCEL_AWAITING_APPROVAL, TK_CANCEL_READY,
      TK_VERIFICATION_ESCALATE, TK_UNKNOWN_ESCALATE, TK_SUCCEEDED_START_COMPENSATION,
      TK_FAILED_START_COMPENSATION, TK_MANUAL_START_VERIFICATION, TK_MANUAL_START_COMPENSATION,
      TK_MANUAL_SAFE_RETRY, TK_COMPENSATION_ESCALATE, TK_COMPENSATION_UNKNOWN_ESCALATE,
      TK_COMPENSATION_FAILED_RETRY, TK_COMPENSATION_FAILED_ESCALATE, TK_APPROVAL_GRANT,
      TK_APPROVAL_REJECT]"

definition ESCALATE_KINDS :: "transition_kind list" where
  "ESCALATE_KINDS =
     [TK_COMPENSATION_ESCALATE, TK_COMPENSATION_UNKNOWN_ESCALATE, TK_COMPENSATION_FAILED_ESCALATE]"

definition COMPENSATION_TARGET_STATE :: "transition_kind \<Rightarrow> compensation_state option" where
  "COMPENSATION_TARGET_STATE k =
     (case k of
        TK_COMPENSATION_APPLIED \<Rightarrow> Some CS_SUCCEEDED
      | TK_COMPENSATION_OUTCOME_UNKNOWN \<Rightarrow> Some CS_UNKNOWN
      | TK_COMPENSATION_OUTCOME_FAILED \<Rightarrow> Some CS_FAILED
      | TK_COMPENSATION_UNKNOWN_RETRY \<Rightarrow> Some CS_EXECUTING
      | TK_COMPENSATION_UNKNOWN_APPLIED \<Rightarrow> Some CS_SUCCEEDED
      | TK_COMPENSATION_UNKNOWN_FAILED \<Rightarrow> Some CS_FAILED
      | TK_COMPENSATION_FAILED_RETRY \<Rightarrow> Some CS_EXECUTING
      | _ \<Rightarrow> None)"

record related_records =
  rr_existing_approval :: "approval option"
  rr_attempts :: "execution_attempt list"
  rr_loaded_attempt :: "execution_attempt option"
  rr_existing_verification_result :: "verification_result option"
  rr_compensation :: "compensation option"
  rr_compensation_attempts :: "compensation_attempt list"
  rr_loaded_compensation_attempt :: "compensation_attempt option"
  rr_existing_compensation_verification :: "verification_row option"

section \<open>The helper checks\<close>

definition map_retry_safety_reason ::
  "effect_outcome option \<Rightarrow> effect_outcome option \<Rightarrow> idempotency_mode \<Rightarrow> string option \<Rightarrow> string option" where
  "map_retry_safety_reason execution_outcome verification_outcome idempotency_mode insufficient_signal =
     (let decision = evaluate_effect_retry_safety execution_outcome verification_outcome
                       idempotency_mode insufficient_signal None False False
      in if rs_verdict decision = RV_SAFE then None
         else if rs_verdict decision = RV_NEEDS_CAPABILITY_PROOF
         then Some ''retry_needs_capability_proof''
         else Some (rs_reason_code decision))"

definition check_actor ::
  "transition_kind \<Rightarrow> principal_ref option \<Rightarrow> approval option \<Rightarrow> utc_timestamp \<Rightarrow> string option" where
  "check_actor kind actor approval occurred_at =
     (let required =
        (if kind = TK_CANCEL_AWAITING_APPROVAL \<and>
            (case approval of None \<Rightarrow> False
             | Some a \<Rightarrow> ap_state a = AP_EXPIRED \<and>
                 (case ap_expires_at a of None \<Rightarrow> False | Some e \<Rightarrow> e \<le> occurred_at))
         then False else kind \<in> set ACTOR_REQUIRED_KINDS)
      in if required \<and> actor = None then Some ''actor_required'' else None)"

definition check_policy :: "policy_decision \<Rightarrow> operation \<Rightarrow> policy_verdict \<Rightarrow> string option" where
  "check_policy decision operation expected =
     first_reason
       [(pd_operation_id decision \<noteq> op_id operation, ''policy_operation_mismatch''),
        (pd_intent_digest decision \<noteq> in_intent_digest (op_intent operation), ''policy_digest_mismatch''),
        (pd_operation_version decision \<noteq> op_version operation, ''policy_version_mismatch''),
        (pd_verdict decision \<noteq> expected, ''policy_verdict_mismatch'')]"

definition check_outbox_id :: "transition_kind \<Rightarrow> op_body \<Rightarrow> string option" where
  "check_outbox_id kind body =
     (let mapped = OUTBOX_COMMAND_FOR_KIND kind \<noteq> None; has_id = outbox_event_id_of body \<noteq> None
      in first_reason
           [(mapped \<and> \<not> has_id, ''outbox_id_required''), (\<not> mapped \<and> has_id, ''outbox_id_forbidden'')])"

definition outcome_mismatch :: "effect_outcome option \<Rightarrow> effect_outcome option \<Rightarrow> bool" where
  "outcome_mismatch expected actual \<longleftrightarrow> expected \<noteq> None \<and> actual \<noteq> expected"

definition check_execution_attempt_complete ::
  "operation \<Rightarrow> execution_attempt option \<Rightarrow> execution_attempt option \<Rightarrow> effect_outcome option \<Rightarrow>
   bool \<Rightarrow> string option" where
  "check_execution_attempt_complete operation completed loaded_attempt expected_outcome
     allow_unknown_crash =
     (if op_latest_attempt_id operation = None then Some ''attempt_missing''
      else case loaded_attempt of None \<Rightarrow> Some ''attempt_missing''
      | Some loaded \<Rightarrow>
        if att_operation_id loaded \<noteq> op_id operation then Some ''attempt_operation_mismatch''
        else case completed of
          None \<Rightarrow>
            first_reason
              [(\<not> allow_unknown_crash, ''attempt_missing''),
               (att_state loaded \<noteq> AS_STARTED, ''attempt_not_started''),
               (cd_interpretation (interpret_execution_crash OS_EXECUTING (Some AS_STARTED))
                  \<noteq> CI_POTENTIALLY_UNKNOWN, ''attempt_not_started'')]
        | Some done \<Rightarrow>
            or_else
              (first_reason
                 [(att_id done \<noteq> att_id loaded, ''evidence_conflict''),
                  (att_operation_id done \<noteq> op_id operation, ''attempt_operation_mismatch''),
                  (att_number done \<noteq> att_number loaded, ''attempt_number_mismatch'')])
              (if att_state loaded = AS_COMPLETED
               then first_reason
                 [(att_outcome done \<noteq> att_outcome loaded, ''evidence_conflict''),
                  (outcome_mismatch expected_outcome (att_outcome loaded), ''attempt_outcome_mismatch'')]
               else first_reason
                 [(att_state loaded \<noteq> AS_STARTED, ''attempt_not_started''),
                  (att_state done \<noteq> AS_COMPLETED, ''attempt_not_completed''),
                  (att_started_at done \<noteq> att_started_at loaded, ''evidence_conflict''),
                  (outcome_mismatch expected_outcome (att_outcome done),
                     ''attempt_outcome_mismatch'')]))"

definition check_verification_complete ::
  "operation \<Rightarrow> verification_result \<Rightarrow> verification_result option \<Rightarrow> effect_outcome option \<Rightarrow>
   string option" where
  "check_verification_complete operation result existing expected_outcome =
     first_reason
       [(op_latest_verification_id operation = None, ''verification_missing''),
        (Some (vs_id result) \<noteq> op_latest_verification_id operation, ''verification_missing''),
        (outcome_mismatch expected_outcome (Some (vs_outcome result)), ''verification_outcome_mismatch''),
        ((case existing of None \<Rightarrow> False | Some e \<Rightarrow> vs_outcome e \<noteq> vs_outcome result),
           ''evidence_conflict'')]"

definition check_verification_request ::
  "verification_request \<Rightarrow> operation \<Rightarrow> int \<Rightarrow> verification_target \<Rightarrow> string option" where
  "check_verification_request request operation expected_version expected_target =
     first_reason
       [(vq_operation_id request \<noteq> op_id operation, ''attempt_operation_mismatch''),
        (vq_target request \<noteq> expected_target, ''verification_outcome_mismatch''),
        (vq_operation_version request \<noteq> expected_version, ''stale_version'')]"

definition check_compensation_start :: "compensation \<Rightarrow> operation \<Rightarrow> string option" where
  "check_compensation_start compensation operation =
     first_reason
       [(cm_original_operation_id compensation \<noteq> op_id operation, ''compensation_parent_inconsistent''),
        (cm_state compensation \<noteq> CS_PENDING, ''compensation_state_mismatch''),
        (cm_kind compensation = CK_NONE, ''compensation_kind_none''),
        (\<not> td_is_legal (compensation_parent_is_consistent CS_PENDING OS_COMPENSATING),
           ''compensation_parent_inconsistent'')]"

text \<open>
  \<open>_check_compensation_outcome\<close> in its three parts: the stored compensation belongs to the
  operation; a verification result offered as evidence answers the pending request for the
  latest attempt; the attempt offered as evidence is the latest one with the expected outcome.
\<close>

definition check_compensation_verification ::
  "operation \<Rightarrow> compensation_attempt option \<Rightarrow> verification_result option \<Rightarrow>
   effect_outcome option \<Rightarrow> verification_row option \<Rightarrow> string option" where
  "check_compensation_verification operation loaded_attempt verification_result
     expected_verification_outcome existing_verification =
     (case verification_result of None \<Rightarrow> None
      | Some result \<Rightarrow>
          if outcome_mismatch expected_verification_outcome (Some (vs_outcome result))
          then Some ''verification_outcome_mismatch''
          else case existing_verification of None \<Rightarrow> Some ''verification_missing''
          | Some row \<Rightarrow>
              or_else
                (first_reason
                   [(vq_id (fst row) \<noteq> vs_id result, ''verification_missing''),
                    (vq_target (fst row) \<noteq> VT_COMPENSATION, ''verification_outcome_mismatch''),
                    (vq_operation_id (fst row) \<noteq> op_id operation, ''attempt_operation_mismatch''),
                    (vq_operation_version (fst row) \<noteq> op_version operation, ''stale_version'')])
                (case loaded_attempt of None \<Rightarrow> Some ''attempt_missing''
                 | Some loaded \<Rightarrow>
                     first_reason
                       [(vq_target_attempt_id (fst row) \<noteq> Some (ca_id loaded), ''attempt_missing''),
                        (snd row \<noteq> None \<and> snd row \<noteq> Some result, ''evidence_conflict'')]))"

definition check_compensation_target :: "transition_kind \<Rightarrow> compensation \<Rightarrow> string option" where
  "check_compensation_target kind compensation =
     (if kind \<in> set ESCALATE_KINDS then None
      else case COMPENSATION_TARGET_STATE kind of None \<Rightarrow> None
      | Some target_comp \<Rightarrow>
          first_reason
            [(\<not> td_is_legal (compensation_parent_is_consistent target_comp (snd (KIND_TO_EDGE kind))),
                ''compensation_parent_inconsistent''),
             (\<not> td_is_legal (evaluate_compensation_transition (cm_state compensation) target_comp) \<and>
                cm_state compensation \<noteq> target_comp, ''compensation_state_mismatch'')])"

definition check_compensation_attempt ::
  "compensation \<Rightarrow> compensation_attempt option \<Rightarrow> compensation_attempt option \<Rightarrow>
   effect_outcome option \<Rightarrow> bool \<Rightarrow> verification_result option \<Rightarrow> string option" where
  "check_compensation_attempt compensation completed loaded_attempt expected_attempt_outcome
     allow_missing_attempt verification_result =
     (case completed of
        None \<Rightarrow> if allow_missing_attempt then None else Some ''attempt_missing''
      | Some done \<Rightarrow>
          (case loaded_attempt of None \<Rightarrow> Some ''attempt_missing''
           | Some loaded \<Rightarrow>
               or_else
                 (first_reason
                    [(ca_compensation_id done \<noteq> cm_id compensation, ''evidence_conflict''),
                     (ca_id done \<noteq> ca_id loaded, ''evidence_conflict'')])
                 (if ca_state loaded = AS_COMPLETED
                  then first_reason
                    [(ca_outcome done \<noteq> ca_outcome loaded, ''evidence_conflict''),
                     (outcome_mismatch expected_attempt_outcome (ca_outcome loaded) \<and>
                        \<not> (ca_outcome loaded = Some EO_UNKNOWN \<and>
                           (case verification_result of None \<Rightarrow> False
                            | Some r \<Rightarrow> Some (vs_outcome r) = expected_attempt_outcome)),
                        ''attempt_outcome_mismatch'')]
                  else first_reason
                    [(ca_state loaded \<noteq> AS_STARTED, ''attempt_not_started''),
                     (ca_state done \<noteq> AS_COMPLETED, ''attempt_not_completed''),
                     (outcome_mismatch expected_attempt_outcome (ca_outcome done),
                        ''attempt_outcome_mismatch'')])))"

definition check_compensation_outcome ::
  "transition_kind \<Rightarrow> operation \<Rightarrow> compensation option \<Rightarrow> compensation_attempt option \<Rightarrow>
   compensation_attempt option \<Rightarrow> effect_outcome option \<Rightarrow> bool \<Rightarrow> verification_result option \<Rightarrow>
   effect_outcome option \<Rightarrow> verification_row option \<Rightarrow> string option" where
  "check_compensation_outcome kind operation compensation_opt completed loaded_attempt
     expected_attempt_outcome allow_missing_attempt verification_result
     expected_verification_outcome existing_verification =
     (if op_compensation_id operation = None then Some ''compensation_missing''
      else case compensation_opt of None \<Rightarrow> Some ''compensation_missing''
      | Some compensation \<Rightarrow>
          or_else
            (first_reason
               [(Some (cm_id compensation) \<noteq> op_compensation_id operation,
                   ''compensation_parent_inconsistent''),
                (cm_original_operation_id compensation \<noteq> op_id operation,
                   ''compensation_parent_inconsistent''),
                (\<not> td_is_legal (compensation_parent_is_consistent (cm_state compensation)
                      (op_state operation)), ''compensation_parent_inconsistent'')])
          (or_else
            (check_compensation_verification operation loaded_attempt verification_result
               expected_verification_outcome existing_verification)
          (or_else
            (check_compensation_target kind compensation)
            (check_compensation_attempt compensation completed loaded_attempt
               expected_attempt_outcome allow_missing_attempt verification_result))))"

section \<open>Preconditions of an operation command\<close>

definition check_require_approval ::
  "policy_decision \<Rightarrow> approval \<Rightarrow> operation \<Rightarrow> string option fallible" where
  "check_require_approval decision approval operation =
     (case or_else
        (check_policy decision operation PV_REQUIRE_APPROVAL)
        (first_reason
           [(ap_state approval \<noteq> AP_PENDING, ''approval_state_mismatch''),
            (ap_operation_id approval \<noteq> op_id operation, ''operation_id_mismatch''),
            (ap_intent_digest approval \<noteq> in_intent_digest (op_intent operation),
               ''intent_digest_mismatch''),
            (ap_policy_decision_id approval \<noteq> pd_id decision, ''policy_decision_mismatch'')]) of
        Some r \<Rightarrow> Inr (Some r)
      | None \<Rightarrow>
          bind_err (next_version (op_version operation)) (\<lambda>v.
          Inr (if ap_operation_version approval \<noteq> v then Some ''operation_version_mismatch'' else None)))"

definition check_approval_grant ::
  "approval \<Rightarrow> principal_ref option \<Rightarrow> approval option \<Rightarrow> operation \<Rightarrow> utc_timestamp \<Rightarrow> string option" where
  "check_approval_grant approval actor existing operation occurred_at =
     (case existing of None \<Rightarrow> Some ''approval_missing''
      | Some stored \<Rightarrow>
          if ap_state stored \<noteq> AP_PENDING then Some ''approval_state_mismatch''
          else if ap_decided_by approval \<noteq> actor then Some ''actor_required''
          else let binding = evaluate_approval_binding approval operation occurred_at
            in if bd_verdict binding \<noteq> AB_VALID then Some (bd_reason_code binding) else None)"

text \<open>\<open>reject\<close> tells \<open>ApprovalReject\<close> from \<open>CancelAwaitingApproval\<close>.\<close>

definition check_approval_refusal ::
  "bool \<Rightarrow> approval \<Rightarrow> principal_ref option \<Rightarrow> approval option \<Rightarrow> operation \<Rightarrow> string option" where
  "check_approval_refusal reject approval actor existing operation =
     (case existing of None \<Rightarrow> Some ''approval_missing''
      | Some stored \<Rightarrow>
          first_reason
            [(ap_state stored \<noteq> AP_PENDING, ''approval_state_mismatch''),
             (reject \<and> ap_state approval \<noteq> AP_REJECTED, ''approval_state_mismatch''),
             (reject \<and> ap_decided_by approval \<noteq> actor, ''actor_required''),
             (\<not> reject \<and> ap_state approval \<notin> {AP_EXPIRED, AP_CANCELLED}, ''approval_state_mismatch''),
             (ap_decided_at approval = None, ''approval_state_mismatch''),
             (ap_intent_digest approval \<noteq> in_intent_digest (op_intent operation),
                ''intent_digest_mismatch'')])"

text \<open>One provider key for every attempt of an operation (or of a compensation).\<close>

definition key_mismatch :: "string option \<Rightarrow> string option list \<Rightarrow> bool" where
  "key_mismatch key earlier \<longleftrightarrow>
     key \<noteq> None \<and> list_ex (\<lambda>k. k \<noteq> None \<and> k \<noteq> key) earlier"

definition check_claim_execution ::
  "execution_attempt \<Rightarrow> operation \<Rightarrow> execution_attempt list \<Rightarrow> string option" where
  "check_claim_execution attempt operation attempts =
     first_reason
       [(op_current_policy_decision_id operation = None, ''policy_missing''),
        (att_operation_id attempt \<noteq> op_id operation, ''attempt_operation_mismatch''),
        (att_state attempt \<noteq> AS_STARTED, ''attempt_not_started''),
        (att_outcome attempt \<noteq> None, ''attempt_outcome_mismatch''),
        (att_number attempt \<noteq> int (length attempts) + 1, ''attempt_number_mismatch''),
        (key_mismatch (att_provider_idempotency_key attempt)
           (map att_provider_idempotency_key attempts), ''idempotency_key_mismatch'')]"

definition check_reconciliation ::
  "stored_reconciliation_decision \<Rightarrow> operation \<Rightarrow> int \<Rightarrow> reconciliation_action \<Rightarrow> string option" where
  "check_reconciliation stored operation expected_version action =
     first_reason
       [(sr_operation_id stored \<noteq> op_id operation, ''attempt_operation_mismatch''),
        (sr_operation_version stored \<noteq> expected_version, ''stale_version''),
        (rd_action (sr_decision stored) \<noteq> action, ''reconciliation_action_mismatch'')]"

definition check_body :: "op_command \<Rightarrow> operation \<Rightarrow> related_records \<Rightarrow> string option fallible" where
  "check_body command operation related =
     (case oc_body command of
        PolicyAllow d _ _ \<Rightarrow> Inr (check_policy d operation PV_ALLOW)
      | PolicyDeny d _ \<Rightarrow> Inr (check_policy d operation PV_DENY)
      | PolicyRequireApproval d a _ _ \<Rightarrow> check_require_approval d a operation
      | ApprovalGrant a _ _ \<Rightarrow>
          Inr (check_approval_grant a (oc_actor command) (rr_existing_approval related) operation
                 (oc_occurred_at command))
      | ApprovalReject a _ \<Rightarrow>
          Inr (check_approval_refusal True a (oc_actor command) (rr_existing_approval related) operation)
      | CancelAwaitingApproval a \<Rightarrow>
          Inr (check_approval_refusal False a (oc_actor command) (rr_existing_approval related) operation)
      | ClaimExecution a _ \<Rightarrow> Inr (check_claim_execution a operation (rr_attempts related))
      | ExecutionApplied a _ \<Rightarrow>
          Inr (check_execution_attempt_complete operation (Some a) (rr_loaded_attempt related)
                 (Some EO_APPLIED) False)
      | ExecutionNotAppliedFail a _ \<Rightarrow>
          Inr (check_execution_attempt_complete operation (Some a) (rr_loaded_attempt related)
                 (Some EO_NOT_APPLIED) False)
      | ExecutionNotAppliedRetry a mode _ _ signal \<Rightarrow>
          Inr (or_else
            (check_execution_attempt_complete operation (Some a) (rr_loaded_attempt related)
               (Some EO_NOT_APPLIED) False)
            (map_retry_safety_reason (Some EO_NOT_APPLIED) None mode signal))
      | ExecutionRequireVerification a q _ _ _ \<Rightarrow>
          Inr (or_else
            (check_execution_attempt_complete operation (Some a) (rr_loaded_attempt related) None False)
            (check_verification_request q operation (oc_expected_version command) VT_ORIGINAL_EFFECT))
      | ExecutionUnknown a _ _ \<Rightarrow>
          Inr (check_execution_attempt_complete operation a (rr_loaded_attempt related)
                 (Some EO_UNKNOWN) True)
      | VerificationApplied r _ \<Rightarrow>
          Inr (check_verification_complete operation r (rr_existing_verification_result related)
                 (Some EO_APPLIED))
      | VerificationNotAppliedFail r _ \<Rightarrow>
          Inr (check_verification_complete operation r (rr_existing_verification_result related)
                 (Some EO_NOT_APPLIED))
      | VerificationInconclusive r _ \<Rightarrow>
          Inr (check_verification_complete operation r (rr_existing_verification_result related)
                 (Some EO_UNKNOWN))
      | VerificationNotAppliedRetry r mode _ _ signal \<Rightarrow>
          Inr (or_else
            (check_verification_complete operation r (rr_existing_verification_result related)
               (Some EO_NOT_APPLIED))
            (map_retry_safety_reason None (Some EO_NOT_APPLIED) mode signal))
      | VerificationEscalate r _ \<Rightarrow>
          Inr (case r of None \<Rightarrow> None
               | Some result \<Rightarrow> check_verification_complete operation result
                   (rr_existing_verification_result related) None)
      | UnknownStartVerification q _ _ \<Rightarrow>
          Inr (check_verification_request q operation (oc_expected_version command) VT_ORIGINAL_EFFECT)
      | ManualStartVerification q _ _ _ \<Rightarrow>
          Inr (check_verification_request q operation (oc_expected_version command) VT_ORIGINAL_EFFECT)
      | UnknownSafeRetry mode exe ver _ signal \<Rightarrow> Inr (map_retry_safety_reason exe ver mode signal)
      | ManualSafeRetry mode exe ver _ _ signal \<Rightarrow> Inr (map_retry_safety_reason exe ver mode signal)
      | UnknownReconcileApplied s _ \<Rightarrow>
          Inr (check_reconciliation s operation (oc_expected_version command) RA_MARK_SUCCEEDED)
      | UnknownReconcileNotApplied s _ \<Rightarrow>
          Inr (check_reconciliation s operation (oc_expected_version command) RA_MARK_FAILED)
      | SucceededStartCompensation c _ _ \<Rightarrow> Inr (check_compensation_start c operation)
      | FailedStartCompensation c _ _ \<Rightarrow> Inr (check_compensation_start c operation)
      | ManualStartCompensation c _ _ _ \<Rightarrow> Inr (check_compensation_start c operation)
      | CompensationApplied a _ r \<Rightarrow>
          Inr (check_compensation_outcome (oc_kind command) operation (rr_compensation related) (Some a)
                 (rr_loaded_compensation_attempt related) (Some EO_APPLIED) False r (Some EO_APPLIED)
                 (rr_existing_compensation_verification related))
      | CompensationOutcomeFailed a _ r \<Rightarrow>
          Inr (check_compensation_outcome (oc_kind command) operation (rr_compensation related) (Some a)
                 (rr_loaded_compensation_attempt related) (Some EO_NOT_APPLIED) False r
                 (Some EO_NOT_APPLIED) (rr_existing_compensation_verification related))
      | CompensationOutcomeUnknown a _ _ r \<Rightarrow>
          Inr (check_compensation_outcome (oc_kind command) operation (rr_compensation related) a
                 (rr_loaded_compensation_attempt related)
                 (if a \<noteq> None then Some EO_UNKNOWN else None) True r (Some EO_UNKNOWN)
                 (rr_existing_compensation_verification related))
      | CompensationUnknownApplied a r \<Rightarrow>
          Inr (check_compensation_outcome (oc_kind command) operation (rr_compensation related) (Some a)
                 (rr_loaded_compensation_attempt related) (Some EO_APPLIED) False r (Some EO_APPLIED)
                 (rr_existing_compensation_verification related))
      | CompensationUnknownFailed a r \<Rightarrow>
          Inr (check_compensation_outcome (oc_kind command) operation (rr_compensation related) (Some a)
                 (rr_loaded_compensation_attempt related) (Some EO_NOT_APPLIED) False r
                 (Some EO_NOT_APPLIED) (rr_existing_compensation_verification related))
      | CompensationUnknownRetry _ \<Rightarrow>
          Inr (check_compensation_outcome (oc_kind command) operation (rr_compensation related) None
                 None None True None None None)
      | CompensationFailedRetry _ \<Rightarrow>
          Inr (check_compensation_outcome (oc_kind command) operation (rr_compensation related) None
                 None None True None None None)
      | CompensationEscalate _ r \<Rightarrow>
          Inr (check_compensation_outcome (oc_kind command) operation (rr_compensation related) None
                 (rr_loaded_compensation_attempt related) None True r None
                 (rr_existing_compensation_verification related))
      | CompensationUnknownEscalate _ r \<Rightarrow>
          Inr (check_compensation_outcome (oc_kind command) operation (rr_compensation related) None
                 (rr_loaded_compensation_attempt related) None True r None
                 (rr_existing_compensation_verification related))
      | CompensationFailedEscalate _ \<Rightarrow>
          Inr (check_compensation_outcome (oc_kind command) operation (rr_compensation related) None
                 (rr_loaded_compensation_attempt related) None True None None
                 (rr_existing_compensation_verification related))
      | _ \<Rightarrow> Inr None)"

definition evaluate_preconditions ::
  "op_command \<Rightarrow> operation \<Rightarrow> related_records \<Rightarrow> string option fallible" where
  "evaluate_preconditions command operation related =
     (case or_else
        (check_actor (oc_kind command) (oc_actor command) (cmd_approval (oc_body command))
           (oc_occurred_at command))
        (check_outbox_id (oc_kind command) (oc_body command)) of
        Some r \<Rightarrow> Inr (Some r)
      | None \<Rightarrow> check_body command operation related)"

section \<open>Preconditions of the compensation-progress commands\<close>

text \<open>What the four checks begin with: kind, parent state, ownership, compensation state.\<close>

definition check_progress_source ::
  "('a progress_header_scheme) \<Rightarrow> compensation_progress_kind \<Rightarrow> operation \<Rightarrow> compensation \<Rightarrow>
   compensation_state \<Rightarrow> string option" where
  "check_progress_source command kind operation compensation required_state =
     first_reason
       [(pc_kind command \<noteq> kind, ''unlisted_operation_transition''),
        (op_state operation \<noteq> OS_COMPENSATING, ''source_state_mismatch''),
        (cm_original_operation_id compensation \<noteq> op_id operation, ''compensation_parent_inconsistent''),
        (cm_state compensation \<noteq> required_state, ''compensation_state_mismatch'')]"

definition check_new_compensation_attempt ::
  "compensation_attempt \<Rightarrow> compensation \<Rightarrow> compensation_attempt list \<Rightarrow> string option" where
  "check_new_compensation_attempt attempt compensation existing_attempts =
     first_reason
       [(ca_compensation_id attempt \<noteq> cm_id compensation, ''compensation_parent_inconsistent''),
        (ca_state attempt \<noteq> AS_STARTED, ''attempt_not_started''),
        (ca_number attempt \<noteq> int (length existing_attempts) + 1, ''attempt_number_mismatch'')]"

definition check_compensation_key ::
  "compensation_attempt \<Rightarrow> compensation_attempt list \<Rightarrow> string option" where
  "check_compensation_key attempt existing_attempts =
     first_reason
       [(key_mismatch (ca_provider_idempotency_key attempt)
           (map ca_provider_idempotency_key existing_attempts), ''idempotency_key_mismatch'')]"

definition evaluate_claim_compensation_preconditions ::
  "claim_compensation_execution \<Rightarrow> operation \<Rightarrow> compensation \<Rightarrow> compensation_attempt list \<Rightarrow>
   string option" where
  "evaluate_claim_compensation_preconditions command operation compensation existing_attempts =
     or_else
       (check_progress_source command PK_CLAIM_COMPENSATION_EXECUTION operation compensation CS_PENDING)
     (or_else
       (first_reason
          [(\<not> td_is_legal (evaluate_compensation_transition CS_PENDING CS_EXECUTING),
              ''unlisted_operation_transition''),
           (\<not> td_is_legal (compensation_parent_is_consistent CS_EXECUTING OS_COMPENSATING),
              ''compensation_parent_inconsistent'')])
       (check_new_compensation_attempt (ce_attempt command) compensation existing_attempts))"

definition evaluate_start_compensation_verification_preconditions ::
  "start_compensation_verification \<Rightarrow> operation \<Rightarrow> compensation \<Rightarrow> compensation_attempt option \<Rightarrow>
   string option" where
  "evaluate_start_compensation_verification_preconditions command operation compensation loaded_attempt =
     or_else
       (check_progress_source command PK_START_COMPENSATION_VERIFICATION operation compensation
          CS_EXECUTING)
     (or_else
       (first_reason
          [(\<not> td_is_legal (evaluate_compensation_transition CS_EXECUTING CS_VERIFYING),
              ''unlisted_operation_transition''),
           (\<not> td_is_legal (compensation_parent_is_consistent CS_VERIFYING OS_COMPENSATING),
              ''compensation_parent_inconsistent'')])
     (or_else
       (check_verification_request (sv_verification_request command) operation
          (pc_expected_operation_version command) VT_COMPENSATION)
       (case loaded_attempt of
          None \<Rightarrow> Some ''attempt_missing''
        | Some loaded \<Rightarrow>
            (case sv_completed_compensation_attempt command of
               None \<Rightarrow> if ca_state loaded \<notin> {AS_COMPLETED, AS_STARTED}
                       then Some ''attempt_not_started'' else None
             | Some done \<Rightarrow>
                 or_else
                   (first_reason
                      [(ca_compensation_id done \<noteq> cm_id compensation, ''evidence_conflict''),
                       (ca_id done \<noteq> ca_id loaded, ''evidence_conflict'')])
                   (if ca_state loaded = AS_COMPLETED
                    then first_reason
                      [(ca_outcome done \<noteq> ca_outcome loaded, ''evidence_conflict''),
                       (ca_outcome loaded \<noteq> Some EO_APPLIED, ''attempt_outcome_mismatch'')]
                    else first_reason
                      [(ca_state loaded \<noteq> AS_STARTED, ''attempt_not_started''),
                       (ca_state done \<noteq> AS_COMPLETED, ''attempt_not_completed''),
                       (ca_outcome done \<noteq> Some EO_APPLIED, ''attempt_outcome_mismatch'')])))))"

definition evaluate_claim_compensation_retry_attempt_preconditions ::
  "claim_compensation_retry_attempt \<Rightarrow> operation \<Rightarrow> compensation \<Rightarrow> compensation_attempt list \<Rightarrow>
   string option" where
  "evaluate_claim_compensation_retry_attempt_preconditions command operation compensation
     existing_attempts =
     or_else
       (check_progress_source command PK_CLAIM_COMPENSATION_RETRY_ATTEMPT operation compensation
          CS_EXECUTING)
     (or_else
       (first_reason
          [(\<not> td_is_legal (compensation_parent_is_consistent CS_EXECUTING OS_COMPENSATING),
              ''compensation_parent_inconsistent'')])
     (or_else
       (case last_opt existing_attempts of
          None \<Rightarrow> Some ''attempt_missing''
        | Some latest \<Rightarrow> if ca_state latest \<noteq> AS_COMPLETED then Some ''attempt_not_completed'' else None)
     (or_else
       (check_new_compensation_attempt (cr_attempt command) compensation existing_attempts)
       (check_compensation_key (cr_attempt command) existing_attempts))))"

definition evaluate_retry_compensation_after_verification_preconditions ::
  "retry_compensation_after_verification \<Rightarrow> operation \<Rightarrow> compensation \<Rightarrow>
   compensation_attempt list \<Rightarrow> verification_row option \<Rightarrow> string option" where
  "evaluate_retry_compensation_after_verification_preconditions command operation compensation
     existing_attempts existing_verification =
     or_else
       (check_progress_source command PK_RETRY_COMPENSATION_AFTER_VERIFICATION operation compensation
          CS_VERIFYING)
     (or_else
       (first_reason
          [(\<not> td_is_legal (evaluate_compensation_transition CS_VERIFYING CS_EXECUTING),
              ''unlisted_operation_transition''),
           (\<not> td_is_legal (compensation_parent_is_consistent CS_EXECUTING OS_COMPENSATING),
              ''compensation_parent_inconsistent''),
           (vs_outcome (rv_verification_result command) \<noteq> EO_NOT_APPLIED,
              ''verification_outcome_mismatch'')])
     (or_else
       (case existing_verification of
          None \<Rightarrow> Some ''verification_missing''
        | Some row \<Rightarrow>
            first_reason
              [(vq_id (fst row) \<noteq> vs_id (rv_verification_result command), ''verification_missing''),
               (vq_target (fst row) \<noteq> VT_COMPENSATION, ''verification_outcome_mismatch''),
               (vq_operation_id (fst row) \<noteq> op_id operation, ''attempt_operation_mismatch''),
               (vq_operation_version (fst row) \<noteq> op_version operation, ''stale_version''),
               (existing_attempts = [], ''attempt_missing''),
               (vq_target_attempt_id (fst row) \<noteq> map_option ca_id (last_opt existing_attempts),
                  ''attempt_missing''),
               (snd row \<noteq> None \<and> snd row \<noteq> Some (rv_verification_result command),
                  ''evidence_conflict'')])
     (or_else
       (check_new_compensation_attempt (rv_attempt command) compensation existing_attempts)
     (or_else
       (check_compensation_key (rv_attempt command) existing_attempts)
       (map_retry_safety_reason None (Some EO_NOT_APPLIED) (rv_idempotency_mode command) None)))))"

section \<open>Passed checks, read back\<close>

text \<open>
  A retry command passes exactly on conclusive evidence that the effect was not applied: the
  engine offers the domain function no proof of a capability, so idempotency never suffices.
\<close>

lemma map_retry_safety_reason_None:
  "map_retry_safety_reason exe ver mode sig = None \<longleftrightarrow>
     sig = None \<and> Some EO_APPLIED \<notin> {exe, ver} \<and> Some EO_NOT_APPLIED \<in> {exe, ver}"
proof -
  have "map_retry_safety_reason exe ver mode sig = None \<longleftrightarrow>
      rs_verdict (evaluate_effect_retry_safety exe ver mode sig None False False) = RV_SAFE"
    by (simp add: map_retry_safety_reason_def Let_def)
  also have "\<dots> \<longleftrightarrow> sig = None \<and> Some EO_APPLIED \<notin> {exe, ver} \<and> Some EO_NOT_APPLIED \<in> {exe, ver}"
    by (cases sig; cases exe; cases ver; cases "the exe"; cases "the ver"; cases mode)
      (simp_all add: evaluate_effect_retry_safety_def)
  finally show ?thesis .
qed

lemma check_actor_None:
  "check_actor k actor a t = None \<Longrightarrow> k \<in> set ACTOR_REQUIRED_KINDS \<Longrightarrow>
   k \<noteq> TK_CANCEL_AWAITING_APPROVAL \<Longrightarrow> actor \<noteq> None"
  by (auto simp: check_actor_def Let_def split: if_splits)

lemma check_policy_None:
  "check_policy d o' v = None \<longleftrightarrow>
     pd_operation_id d = op_id o' \<and> pd_intent_digest d = in_intent_digest (op_intent o') \<and>
     pd_operation_version d = op_version o' \<and> pd_verdict d = v"
  by (auto simp: check_policy_def)

lemma check_outbox_id_None: "check_outbox_id (body_kind b) b = None"
  using outbox_id_iff_mapped [of b] by (auto simp: check_outbox_id_def Let_def)

lemma check_execution_attempt_complete_None:
  assumes "check_execution_attempt_complete o' (Some done) loaded (Some e) crash = None"
  obtains a where "loaded = Some a" and "att_id done = att_id a" and "att_operation_id a = op_id o'"
    and "att_outcome (if att_state a = AS_COMPLETED then a else done) = Some e"
    and "att_outcome done = Some e"
    and "att_state a = AS_STARTED \<Longrightarrow> att_state done = AS_COMPLETED"
  using assms
  by (cases loaded)
    (auto simp: check_execution_attempt_complete_def outcome_mismatch_def split: if_splits)

lemma check_claim_execution_None:
  "check_claim_execution a o' as = None \<longleftrightarrow>
     op_current_policy_decision_id o' \<noteq> None \<and> att_operation_id a = op_id o' \<and>
     att_state a = AS_STARTED \<and> att_outcome a = None \<and> att_number a = int (length as) + 1 \<and>
     \<not> key_mismatch (att_provider_idempotency_key a) (map att_provider_idempotency_key as)"
  by (auto simp: check_claim_execution_def)

lemma check_compensation_start_None:
  "check_compensation_start c o' = None \<longleftrightarrow>
     cm_original_operation_id c = op_id o' \<and> cm_state c = CS_PENDING \<and> cm_kind c \<noteq> CK_NONE"
  by (auto simp: check_compensation_start_def PARENT_FOR_COMPENSATION_STATE_def)

text \<open>
  What a passed outcome check says of the stored compensation: it is the operation's own, its
  state agrees with the parent, and the kind's target state is reached over a listed edge (or
  already held) and agrees with the target state of the parent.
\<close>

lemma check_compensation_outcome_None:
  assumes "check_compensation_outcome k o' copt done la eo miss r er ev = None"
  obtains c where "copt = Some c" and "op_compensation_id o' = Some (cm_id c)"
    and "cm_original_operation_id c = op_id o'"
    and "op_state o' = PARENT_FOR_COMPENSATION_STATE (cm_state c)"
    and "check_compensation_target k c = None"
    and "check_compensation_attempt c done la eo miss r = None"
    and "check_compensation_verification o' la r er ev = None"
  using assms by (cases copt) (auto simp: check_compensation_outcome_def split: if_splits)

lemma check_compensation_target_None:
  "check_compensation_target k c = None \<Longrightarrow> k \<notin> set ESCALATE_KINDS \<Longrightarrow>
   COMPENSATION_TARGET_STATE k = Some t \<Longrightarrow>
   snd (KIND_TO_EDGE k) = PARENT_FOR_COMPENSATION_STATE t \<and>
   ((cm_state c, t) \<in> set LEGAL_COMPENSATION_TRANSITIONS \<or> cm_state c = t)"
  by (auto simp: check_compensation_target_def cmm.judge_iff split: if_splits)

lemma check_compensation_attempt_None:
  assumes "check_compensation_attempt c (Some done) la (Some e) miss r = None"
  obtains a where "la = Some a" and "ca_id done = ca_id a" and "ca_compensation_id done = cm_id c"
    and "ca_outcome done = Some e \<or>
         ca_outcome done = Some EO_UNKNOWN \<and> (\<exists>x. r = Some x \<and> vs_outcome x = e)"
  using assms
  by (cases la)
    (auto simp: check_compensation_attempt_def outcome_mismatch_def split: if_splits option.splits)

end
