(* ===== verification/Transition_Engine.thy ===== *)
theory Transition_Engine
  imports Transition_Preconditions
begin

text \<open>
  \<^verbatim>\<open>TransitionService\<close> of \<^verbatim>\<open>transitions/service.py\<close>, the only path that mutates a lifecycle. A
  handler is \<open>journal \<Rightarrow> (transition_result \<times> journal) fallible\<close>: it reads the journal of the
  unit of work, writes to it, and returns the result; \<open>Inl\<close> is an exception, after which the
  unit of work rolls back. The \<open>isinstance\<close> blocks of \<open>_write_related\<close> are the steps
  \<open>write_*\<close>, run in source order, and \<open>_append_audits\<close> first plans the events it adds.
\<close>

section \<open>Results that change nothing\<close>

definition rejected ::
  "any_kind \<Rightarrow> string \<Rightarrow> operation option \<Rightarrow> operation_state option \<Rightarrow> operation_state option \<Rightarrow>
   int option \<Rightarrow> compensation option \<Rightarrow> transition_result" where
  "rejected kind reason_code operation from_state to_state operation_version compensation =
     \<lparr>tr_outcome = TO_REJECTED, tr_reason_code = reason_code, tr_kind = kind,
      tr_operation = operation, tr_compensation = compensation, tr_audit_events = [],
      tr_outbox_event = None, tr_from_state = from_state, tr_to_state = to_state,
      tr_operation_version = operation_version\<rparr>"

definition already ::
  "any_kind \<Rightarrow> operation \<Rightarrow> operation_state option \<Rightarrow> operation_state option \<Rightarrow> int \<Rightarrow>
   compensation option \<Rightarrow> transition_result" where
  "already kind operation from_state to_state operation_version compensation =
     \<lparr>tr_outcome = TO_ALREADY_APPLIED, tr_reason_code = ''already_applied'', tr_kind = kind,
      tr_operation = Some operation, tr_compensation = compensation, tr_audit_events = [],
      tr_outbox_event = None, tr_from_state = from_state, tr_to_state = to_state,
      tr_operation_version = Some operation_version\<rparr>"

definition applied ::
  "any_kind \<Rightarrow> operation \<Rightarrow> compensation option \<Rightarrow> audit_event list \<Rightarrow> outbox_event option \<Rightarrow>
   operation_state option \<Rightarrow> operation_state \<Rightarrow> transition_result" where
  "applied kind operation compensation audits outbox from_state to_state =
     \<lparr>tr_outcome = TO_APPLIED, tr_reason_code = ''applied'', tr_kind = kind,
      tr_operation = Some operation, tr_compensation = compensation, tr_audit_events = audits,
      tr_outbox_event = outbox, tr_from_state = from_state, tr_to_state = Some to_state,
      tr_operation_version = Some (op_version operation)\<rparr>"

section \<open>Creating an operation\<close>

text \<open>The decision \<open>_apply_create\<close> takes before it writes: \<open>None\<close> lets the insert go ahead.\<close>

definition create_conflict :: "create_command \<Rightarrow> journal \<Rightarrow> transition_result option" where
  "create_conflict command j =
     (let operation = cc_operation command; kind = OpKind (cc_kind command);
          target = Some OS_PENDING_POLICY in
      case op_get (op_id operation) j of
        Some existing \<Rightarrow>
          if op_state existing = OS_PENDING_POLICY \<and> op_version existing = INITIAL_OPERATION_VERSION \<and>
             in_intent_digest (op_intent existing) = in_intent_digest (op_intent operation)
          then Some (already kind existing None target (op_version existing) None)
          else if in_intent_digest (op_intent existing) \<noteq> in_intent_digest (op_intent operation)
          then Some (rejected kind ''intent_conflict'' (Some existing) (Some (op_state existing)) target
                       (Some (op_version existing)) None)
          else Some (rejected kind ''operation_id_reused'' (Some existing) (Some (op_state existing))
                       target (Some (op_version existing)) None)
      | None \<Rightarrow>
          (case op_get_by_idempotency_identity (op_idempotency_identity operation) j of
             Some other \<Rightarrow>
               if op_id other \<noteq> op_id operation
               then Some (rejected kind ''intent_conflict'' (Some other) (Some (op_state other)) target
                            (Some (op_version other)) None)
               else None
           | None \<Rightarrow> None))"

definition apply_create :: "create_command \<Rightarrow> journal \<Rightarrow> (transition_result \<times> journal) fallible" where
  "apply_create command j =
     (let operation = cc_operation command; kind = OpKind (cc_kind command);
          target = Some OS_PENDING_POLICY in
      if op_state operation \<noteq> OS_PENDING_POLICY
      then Inr (rejected kind ''create_requires_pending_policy'' None None target None None, j)
      else if op_version operation \<noteq> INITIAL_OPERATION_VERSION
      then Inr (rejected kind ''create_requires_version_1'' None None target
                  (Some (op_version operation)) None, j)
      else if op_created_at operation \<noteq> cc_occurred_at command \<or>
              op_updated_at operation \<noteq> cc_occurred_at command
      then Inl (PyValueError ''create timestamps must equal occurred_at'')
      else if td_verdict (evaluate_operation_transition None OS_PENDING_POLICY) \<noteq> TV_LEGAL
      then Inr (rejected kind ''unlisted_operation_transition'' None None target None None, j)
      else case create_conflict command j of
        Some r \<Rightarrow> Inr (r, j)
      | None \<Rightarrow>
          bind_err (op_insert operation j) (\<lambda>j1.
          bind_err (audit_data [(''kind'', Some (transition_kind_value (cc_kind command)))]) (\<lambda>data.
          bind_err (build_audit_event (cc_created_audit_event_id command) (op_id operation)
                      INITIAL_AUDIT_SEQUENCE AE_OPERATION_CREATED None target
                      INITIAL_OPERATION_VERSION (cc_actor command) (cc_reason_code command) data
                      (cc_correlation_id command) (cc_occurred_at command)) (\<lambda>created.
          bind_err (au_append created j1) (\<lambda>j2.
          Inr (applied kind operation None [created] None None OS_PENDING_POLICY, j2))))))"

section \<open>Loading the records a command needs\<close>

definition load_related :: "op_command \<Rightarrow> operation \<Rightarrow> journal \<Rightarrow> related_records" where
  "load_related command operation j =
     (let compensation =
            (case op_compensation_id operation of None \<Rightarrow> None | Some i \<Rightarrow> cp_get i j);
          compensation_attempts =
            (case compensation of None \<Rightarrow> []
             | Some c \<Rightarrow> ca_list_for_compensation (cm_id c) j) in
      \<lparr>rr_existing_approval =
         (case cmd_approval (oc_body command) of None \<Rightarrow> None | Some a \<Rightarrow> ap_get (ap_id a) j),
       rr_attempts = at_list_for_operation (op_id operation) j,
       rr_loaded_attempt =
         (case op_latest_attempt_id operation of None \<Rightarrow> None | Some i \<Rightarrow> at_get i j),
       rr_existing_verification_result =
         (case op_latest_verification_id operation of None \<Rightarrow> None
          | Some i \<Rightarrow> (case vf_get i j of None \<Rightarrow> None | Some row \<Rightarrow> snd row)),
       rr_compensation = compensation,
       rr_compensation_attempts = compensation_attempts,
       rr_loaded_compensation_attempt = last_opt compensation_attempts,
       rr_existing_compensation_verification =
         (case compensation_verification_of (oc_body command) of None \<Rightarrow> None
          | Some r \<Rightarrow> vf_get (vs_id r) j)\<rparr>)"

section \<open>Writing them\<close>

definition write_policy :: "op_body \<Rightarrow> journal \<Rightarrow> journal fallible" where
  "write_policy b j = (case policy_decision_of b of None \<Rightarrow> Inr j | Some d \<Rightarrow> po_insert d j)"

definition write_requested_approval :: "op_body \<Rightarrow> journal \<Rightarrow> journal fallible" where
  "write_requested_approval b j =
     (case requested_approval_of b of None \<Rightarrow> Inr j | Some a \<Rightarrow> ap_insert a j)"

definition write_decided_approval :: "op_body \<Rightarrow> journal \<Rightarrow> journal fallible" where
  "write_decided_approval b j =
     (case decided_approval_of b of None \<Rightarrow> Inr j | Some a \<Rightarrow> ap_update_cas_state a AP_PENDING j)"

definition write_claimed_attempt :: "op_body \<Rightarrow> journal \<Rightarrow> journal fallible" where
  "write_claimed_attempt b j =
     (case claimed_attempt_of b of None \<Rightarrow> Inr j | Some a \<Rightarrow> at_insert a j)"

definition write_completed_attempt :: "op_body \<Rightarrow> related_records \<Rightarrow> journal \<Rightarrow> journal fallible" where
  "write_completed_attempt b related j =
     (case completed_attempt_of b of None \<Rightarrow> Inr j
      | Some completed \<Rightarrow>
          (case rr_loaded_attempt related of None \<Rightarrow> Inr j
           | Some loaded \<Rightarrow> if att_state loaded = AS_STARTED then at_complete completed j else Inr j))"

definition write_verification_request :: "op_body \<Rightarrow> journal \<Rightarrow> journal fallible" where
  "write_verification_request b j =
     (case verification_request_of b of None \<Rightarrow> Inr j | Some q \<Rightarrow> vf_insert_request q j)"

definition write_verification_result :: "op_body \<Rightarrow> related_records \<Rightarrow> journal \<Rightarrow> journal fallible" where
  "write_verification_result b related j =
     (case verification_result_of b of None \<Rightarrow> Inr j
      | Some r \<Rightarrow> if rr_existing_verification_result related = None then vf_complete r j else Inr j)"

definition write_reconciliation :: "op_body \<Rightarrow> journal \<Rightarrow> journal fallible" where
  "write_reconciliation b j = (case reconciliation_of b of None \<Rightarrow> Inr j | Some s \<Rightarrow> rc_insert s j)"

definition write_started_compensation :: "op_body \<Rightarrow> journal \<Rightarrow> journal fallible" where
  "write_started_compensation b j =
     (case started_compensation_of b of None \<Rightarrow> Inr j | Some c \<Rightarrow> cp_insert c j)"

definition write_compensation_attempt :: "op_body \<Rightarrow> related_records \<Rightarrow> journal \<Rightarrow> journal fallible" where
  "write_compensation_attempt b related j =
     (case completed_compensation_attempt_of b of None \<Rightarrow> Inr j
      | Some completed \<Rightarrow>
          (case rr_loaded_compensation_attempt related of None \<Rightarrow> Inr j
           | Some loaded \<Rightarrow> if ca_state loaded = AS_STARTED then ca_complete completed j else Inr j))"

definition write_compensation_verification ::
  "op_body \<Rightarrow> related_records \<Rightarrow> journal \<Rightarrow> journal fallible" where
  "write_compensation_verification b related j =
     (case compensation_verification_of b of None \<Rightarrow> Inr j
      | Some r \<Rightarrow>
          (case rr_existing_compensation_verification related of None \<Rightarrow> Inr j
           | Some row \<Rightarrow> if snd row = None then vf_complete r j else Inr j))"

definition write_compensation_state ::
  "op_command \<Rightarrow> compensation option \<Rightarrow> journal \<Rightarrow> (compensation option \<times> journal) fallible" where
  "write_compensation_state command compensation j =
     (case (COMPENSATION_TARGET_STATE (oc_kind command), compensation) of
        (Some new_state, Some c) \<Rightarrow>
          bind_err (next_version (cm_version c)) (\<lambda>v.
          bind_err (replace_compensation c new_state v (oc_occurred_at command)) (\<lambda>c'.
          bind_err (cp_update_cas (cm_version c) c' j) (\<lambda>j'. Inr (Some c', j'))))
      | _ \<Rightarrow> Inr (compensation, j))"

definition write_related ::
  "op_command \<Rightarrow> related_records \<Rightarrow> journal \<Rightarrow> (compensation option \<times> journal) fallible" where
  "write_related command related j =
     (let b = oc_body command in
      bind_err (write_policy b j) (\<lambda>j.
      bind_err (write_requested_approval b j) (\<lambda>j.
      bind_err (write_decided_approval b j) (\<lambda>j.
      bind_err (write_claimed_attempt b j) (\<lambda>j.
      bind_err (write_completed_attempt b related j) (\<lambda>j.
      bind_err (write_verification_request b j) (\<lambda>j.
      bind_err (write_verification_result b related j) (\<lambda>j.
      bind_err (write_reconciliation b j) (\<lambda>j.
      bind_err (write_started_compensation b j) (\<lambda>j.
      bind_err (write_compensation_attempt b related j) (\<lambda>j.
      bind_err (write_compensation_verification b related j) (\<lambda>j.
      write_compensation_state command
        (case started_compensation_of b of None \<Rightarrow> rr_compensation related | Some c \<Rightarrow> Some c)
        j))))))))))))"

definition replace_for_kind ::
  "op_command \<Rightarrow> operation \<Rightarrow> operation_state \<Rightarrow> int \<Rightarrow> operation fallible" where
  "replace_for_kind command loaded target new_version =
     (let b = oc_body command in
      replace_operation loaded target new_version (oc_occurred_at command)
        (map_option pd_id (policy_decision_of b))
        (map_option ap_id (cmd_approval b))
        (map_option att_id (claimed_attempt_of b))
        (map_option vq_id (verification_request_of b))
        (map_option cm_id (started_compensation_of b)))"

section \<open>Audit trail and outbox\<close>

text \<open>
  The events \<open>_append_audits\<close> adds for a command, in the order its blocks add them: the
  details of the command's type, then a manual-intervention reason, then the transition itself.
  An entry is the event's id, its type and the pairs of its data.
\<close>

type_synonym audit_entry = "opaque_id \<times> audit_event_type \<times> (string \<times> string option) list"

definition kind_pair :: "op_command \<Rightarrow> string \<times> string option" where
  "kind_pair command = (''kind'', Some (transition_kind_value (oc_kind command)))"

definition policy_entry :: "op_command \<Rightarrow> policy_decision \<Rightarrow> opaque_id \<Rightarrow> audit_entry" where
  "policy_entry command d i =
     (i, AE_POLICY_EVALUATED,
      [kind_pair command, (''policy_decision_id'', Some (oid_value (pd_id d)))])"

definition approval_entry :: "op_command \<Rightarrow> approval \<Rightarrow> opaque_id \<Rightarrow> audit_entry" where
  "approval_entry command a i =
     (i, AE_APPROVAL_DECIDED, [kind_pair command, (''approval_id'', Some (oid_value (ap_id a)))])"

definition evidence_entry :: "op_command \<Rightarrow> execution_attempt \<Rightarrow> opaque_id \<Rightarrow> audit_entry" where
  "evidence_entry command a i =
     (i, AE_EXECUTION_EVIDENCE_RECORDED,
      [kind_pair command, (''attempt_id'', Some (oid_value (att_id a))),
       (''effect_outcome'', map_option effect_outcome_value (att_outcome a))])"

definition crash_entry :: "op_command \<Rightarrow> related_records \<Rightarrow> opaque_id \<Rightarrow> audit_entry" where
  "crash_entry command related i =
     (i, AE_EXECUTION_EVIDENCE_RECORDED,
      [kind_pair command,
       (''attempt_id'', map_option (\<lambda>a. oid_value (att_id a)) (rr_loaded_attempt related)),
       (''crash_interpretation'', Some (crash_interpretation_value
          (cd_interpretation (interpret_execution_crash OS_EXECUTING (Some AS_STARTED)))))])"

definition verification_started_entry ::
  "op_command \<Rightarrow> verification_request \<Rightarrow> opaque_id \<Rightarrow> audit_entry" where
  "verification_started_entry command q i =
     (i, AE_VERIFICATION_STARTED,
      [kind_pair command, (''verification_id'', Some (oid_value (vq_id q)))])"

definition verification_completed_entry ::
  "op_command \<Rightarrow> verification_result \<Rightarrow> opaque_id \<Rightarrow> audit_entry" where
  "verification_completed_entry command r i =
     (i, AE_VERIFICATION_COMPLETED,
      [kind_pair command, (''verification_id'', Some (oid_value (vs_id r))),
       (''effect_outcome'', Some (effect_outcome_value (vs_outcome r)))])"

definition reconciliation_entry ::
  "op_command \<Rightarrow> stored_reconciliation_decision \<Rightarrow> opaque_id \<Rightarrow> audit_entry" where
  "reconciliation_entry command s i =
     (i, AE_RECONCILIATION_DECIDED,
      [kind_pair command, (''reconciliation_decision_id'', Some (oid_value (sr_id s)))])"

definition compensation_requested_entry ::
  "op_command \<Rightarrow> compensation \<Rightarrow> opaque_id \<Rightarrow> audit_entry" where
  "compensation_requested_entry command c i =
     (i, AE_COMPENSATION_REQUESTED,
      [kind_pair command, (''compensation_id'', Some (oid_value (cm_id c)))])"

definition compensation_result_entry ::
  "op_command \<Rightarrow> operation \<Rightarrow> compensation_attempt option \<Rightarrow> opaque_id \<Rightarrow> audit_entry" where
  "compensation_result_entry command loaded attempt i =
     (i, AE_COMPENSATION_RESULT,
      [kind_pair command, (''compensation_id'', map_option oid_value (op_compensation_id loaded)),
       (''compensation_attempt_id'', map_option (\<lambda>a. oid_value (ca_id a)) attempt),
       (''effect_outcome'',
          (case attempt of None \<Rightarrow> None | Some a \<Rightarrow> map_option effect_outcome_value (ca_outcome a)))])"

definition operator_entry :: "op_command \<Rightarrow> opaque_id \<Rightarrow> audit_entry" where
  "operator_entry command i = (i, AE_OPERATOR_ACTION, [kind_pair command])"

definition detail_entries ::
  "op_command \<Rightarrow> operation \<Rightarrow> related_records \<Rightarrow> audit_entry list" where
  "detail_entries command loaded related =
     (case oc_body command of
        PolicyAllow d i _ \<Rightarrow> [policy_entry command d i]
      | PolicyDeny d i \<Rightarrow> [policy_entry command d i]
      | PolicyRequireApproval d a i ai \<Rightarrow>
          [policy_entry command d i,
           (ai, AE_APPROVAL_REQUESTED,
            [kind_pair command, (''approval_id'', Some (oid_value (ap_id a))),
             (''policy_decision_id'', Some (oid_value (pd_id d)))])]
      | ApprovalGrant a i _ \<Rightarrow> [approval_entry command a i]
      | ApprovalReject a i \<Rightarrow> [approval_entry command a i]
      | ClaimExecution a i \<Rightarrow>
          [(i, AE_EXECUTION_ATTEMPT_STARTED,
            [kind_pair command, (''attempt_id'', Some (oid_value (att_id a)))])]
      | ExecutionApplied a i \<Rightarrow> [evidence_entry command a i]
      | ExecutionNotAppliedRetry a _ i _ _ \<Rightarrow> [evidence_entry command a i]
      | ExecutionNotAppliedFail a i \<Rightarrow> [evidence_entry command a i]
      | ExecutionUnknown None i _ \<Rightarrow> [crash_entry command related i]
      | ExecutionUnknown (Some a) i _ \<Rightarrow> [evidence_entry command a i]
      | ExecutionRequireVerification a q i vi _ \<Rightarrow>
          [evidence_entry command a i, verification_started_entry command q vi]
      | VerificationApplied r i \<Rightarrow> [verification_completed_entry command r i]
      | VerificationNotAppliedRetry r _ i _ _ \<Rightarrow> [verification_completed_entry command r i]
      | VerificationNotAppliedFail r i \<Rightarrow> [verification_completed_entry command r i]
      | VerificationInconclusive r i \<Rightarrow> [verification_completed_entry command r i]
      | UnknownStartVerification q i _ \<Rightarrow> [verification_started_entry command q i]
      | UnknownReconcileApplied s i \<Rightarrow> [reconciliation_entry command s i]
      | UnknownReconcileNotApplied s i \<Rightarrow> [reconciliation_entry command s i]
      | SucceededStartCompensation c i _ \<Rightarrow> [compensation_requested_entry command c i]
      | FailedStartCompensation c i _ \<Rightarrow> [compensation_requested_entry command c i]
      | CompensationApplied a i _ \<Rightarrow> [compensation_result_entry command loaded (Some a) i]
      | CompensationOutcomeUnknown a i _ _ \<Rightarrow> [compensation_result_entry command loaded a i]
      | CompensationOutcomeFailed a i _ \<Rightarrow> [compensation_result_entry command loaded (Some a) i]
      | ManualStartVerification q oi i _ \<Rightarrow>
          [operator_entry command oi, verification_started_entry command q i]
      | ManualStartCompensation c oi i _ \<Rightarrow>
          [operator_entry command oi, compensation_requested_entry command c i]
      | ManualSafeRetry _ _ _ oi _ _ \<Rightarrow> [operator_entry command oi]
      | _ \<Rightarrow> [])"

definition transition_entry :: "op_command \<Rightarrow> audit_entry" where
  "transition_entry command =
     (oc_transition_audit_event_id command, AE_OPERATION_TRANSITIONED,
      (case oc_body command of
         CancelAwaitingApproval a \<Rightarrow> [kind_pair command, (''approval_id'', Some (oid_value (ap_id a)))]
       | _ \<Rightarrow> [kind_pair command]))"

definition audit_plan :: "op_command \<Rightarrow> operation \<Rightarrow> related_records \<Rightarrow> audit_entry list" where
  "audit_plan command loaded related =
     detail_entries command loaded related @
     (case manual_audit_event_id_of (oc_body command) of None \<Rightarrow> []
      | Some i \<Rightarrow> [(i, AE_MANUAL_INTERVENTION_REASON, [kind_pair command])]) @
     [transition_entry command]"

definition plan_event :: "op_command \<Rightarrow> opaque_id \<Rightarrow> int \<Rightarrow> int \<Rightarrow> nat \<times> audit_entry \<Rightarrow> audit_event fallible" where
  "plan_event command operation_id version sequence entry =
     (case entry of (n, i, event_type, pairs) \<Rightarrow>
        bind_err (audit_data pairs) (\<lambda>data.
        build_audit_event i operation_id (sequence + int n) event_type
          (fst (KIND_TO_EDGE (oc_kind command))) (Some (snd (KIND_TO_EDGE (oc_kind command)))) version
          (oc_actor command) (oc_reason_code command) data (oc_correlation_id command)
          (oc_occurred_at command)))"

primrec append_events :: "audit_event list \<Rightarrow> journal \<Rightarrow> journal fallible" where
  "append_events [] j = Inr j"
| "append_events (e # es) j = bind_err (au_append e j) (append_events es)"

definition append_audits ::
  "op_command \<Rightarrow> operation \<Rightarrow> operation \<Rightarrow> related_records \<Rightarrow> journal \<Rightarrow>
   (audit_event list \<times> journal) fallible" where
  "append_audits command loaded new_operation related j =
     (let sequence = au_next_sequence (op_id loaded) j in
      bind_err (map_err (plan_event command (op_id loaded) (op_version new_operation) sequence)
                  (List.enumerate 0 (audit_plan command loaded related))) (\<lambda>events.
      bind_err (append_events events j) (\<lambda>j'. Inr (events, j'))))"

definition insert_outbox ::
  "op_command \<Rightarrow> operation \<Rightarrow> journal \<Rightarrow> (outbox_event option \<times> journal) fallible" where
  "insert_outbox command new_operation j =
     (case (OUTBOX_COMMAND_FOR_KIND (oc_kind command), outbox_event_id_of (oc_body command)) of
        (Some mapped, Some event_id) \<Rightarrow>
          bind_err (build_outbox_event event_id (op_id new_operation) (op_version new_operation) mapped
                      (oc_occurred_at command) (oc_correlation_id command)) (\<lambda>event.
          bind_err (ox_insert event j) (\<lambda>j'. Inr (Some event, j')))
      | _ \<Rightarrow> Inr (None, j))"

section \<open>Applying an operation command\<close>

text \<open>The writes of \<open>_apply_operation\<close>, once every check has passed.\<close>

definition perform_operation ::
  "op_command \<Rightarrow> operation \<Rightarrow> related_records \<Rightarrow> journal \<Rightarrow> (transition_result \<times> journal) fallible" where
  "perform_operation command loaded related j =
     (let kind = oc_kind command; source = fst (KIND_TO_EDGE kind); target = snd (KIND_TO_EDGE kind) in
      bind_err (next_version (op_version loaded)) (\<lambda>new_version.
      bind_err (write_related command related j) (\<lambda>written.
      bind_err (replace_for_kind command loaded target new_version) (\<lambda>new_operation.
      bind_err (op_update_cas (oc_expected_version command) new_operation (snd written)) (\<lambda>j2.
      bind_err (append_audits command loaded new_operation related j2) (\<lambda>audited.
      bind_err (insert_outbox command new_operation (snd audited)) (\<lambda>sent.
      Inr (applied (OpKind kind) new_operation (fst written) (fst audited) (fst sent) source target,
           snd sent))))))))"

definition apply_operation :: "op_command \<Rightarrow> journal \<Rightarrow> (transition_result \<times> journal) fallible" where
  "apply_operation command j =
     (let kind = oc_kind command; source = fst (KIND_TO_EDGE kind); target = snd (KIND_TO_EDGE kind) in
      case op_get (oc_operation_id command) j of
        None \<Rightarrow> Inl (NotFoundError ''not_found'')
      | Some loaded \<Rightarrow>
          (let reject = (\<lambda>reason compensation.
                 Inr (rejected (OpKind kind) reason (Some loaded) (Some (op_state loaded)) (Some target)
                        (Some (op_version loaded)) compensation, j)) in
           if op_version loaded = oc_expected_version command + 1
           then (if op_state loaded = target
                 then Inr (already (OpKind kind) loaded source (Some target) (op_version loaded) None, j)
                 else reject ''idempotent_mismatch'' None)
           else if op_version loaded \<noteq> oc_expected_version command
           then Inl (ConcurrencyConflictError ''concurrency_conflict'')
           else if Some (op_state loaded) \<noteq> source then reject ''source_state_mismatch'' None
           else if op_state loaded \<in> set ABSOLUTE_TERMINAL_STATES then reject ''absolute_terminal'' None
           else if td_verdict (evaluate_operation_transition (Some (op_state loaded)) target) \<noteq> TV_LEGAL
           then reject ''unlisted_operation_transition'' None
           else
             let related = load_related command loaded j in
             bind_err (evaluate_preconditions command loaded related) (\<lambda>reason.
             case reason of
               Some r \<Rightarrow> reject r (rr_compensation related)
             | None \<Rightarrow>
                 perform_operation command loaded related j)))"

section \<open>Compensation progress\<close>

text \<open>
  The four handlers open the same way: the operation is loaded, its version and state are
  checked, the named compensation is loaded and must belong to it. \<open>with_compensation\<close> is that
  prefix and \<open>progress_reject\<close> the rejection they share from there on.
\<close>

definition progress_reject ::
  "('a progress_header_scheme) \<Rightarrow> operation \<Rightarrow> compensation option \<Rightarrow> string \<Rightarrow> transition_result" where
  "progress_reject command loaded compensation reason =
     rejected (ProgressKind (pc_kind command)) reason (Some loaded) (Some (op_state loaded))
       (Some (op_state loaded)) (Some (op_version loaded)) compensation"

definition progress_already ::
  "('a progress_header_scheme) \<Rightarrow> operation \<Rightarrow> compensation \<Rightarrow> transition_result" where
  "progress_already command loaded compensation =
     already (ProgressKind (pc_kind command)) loaded (Some (op_state loaded)) (Some (op_state loaded))
       (op_version loaded) (Some compensation)"

definition with_compensation ::
  "('a progress_header_scheme) \<Rightarrow> journal \<Rightarrow>
   (operation \<Rightarrow> compensation \<Rightarrow> (transition_result \<times> journal) fallible) \<Rightarrow>
   (transition_result \<times> journal) fallible" where
  "with_compensation command j continue =
     (case op_get (pc_operation_id command) j of
        None \<Rightarrow> Inl (NotFoundError ''not_found'')
      | Some loaded \<Rightarrow>
          if op_version loaded \<noteq> pc_expected_operation_version command
          then Inl (ConcurrencyConflictError ''concurrency_conflict'')
          else if op_state loaded \<noteq> OS_COMPENSATING
          then Inr (rejected (ProgressKind (pc_kind command)) ''source_state_mismatch'' (Some loaded)
                      (Some (op_state loaded)) (Some OS_COMPENSATING) (Some (op_version loaded)) None, j)
          else case cp_get (pc_compensation_id command) j of
            None \<Rightarrow> Inr (progress_reject command loaded None ''compensation_missing'', j)
          | Some compensation \<Rightarrow>
              if cm_original_operation_id compensation \<noteq> op_id loaded
              then Inr (progress_reject command loaded (Some compensation)
                          ''compensation_parent_inconsistent'', j)
              else continue loaded compensation)"

definition advance_compensation ::
  "('a progress_header_scheme) \<Rightarrow> compensation \<Rightarrow> compensation_state \<Rightarrow> journal \<Rightarrow>
   (compensation \<times> journal) fallible" where
  "advance_compensation command compensation new_state j =
     bind_err (next_version (cm_version compensation)) (\<lambda>v.
     bind_err (replace_compensation compensation new_state v (pc_occurred_at command)) (\<lambda>c.
     bind_err (cp_update_cas (pc_expected_compensation_version command) c j) (\<lambda>j'. Inr (c, j'))))"

definition progress_event ::
  "('a progress_header_scheme) \<Rightarrow> operation \<Rightarrow> int \<Rightarrow> opaque_id \<Rightarrow> audit_event_type \<Rightarrow>
   (string \<times> string option) list \<Rightarrow> audit_event fallible" where
  "progress_event command loaded sequence i event_type pairs =
     bind_err (audit_data ((''kind'', Some (compensation_progress_kind_value (pc_kind command))) # pairs))
     (\<lambda>data.
       build_audit_event i (op_id loaded) sequence event_type (Some OS_COMPENSATING)
         (Some OS_COMPENSATING) (op_version loaded) (pc_actor command) (pc_reason_code command) data
         (pc_correlation_id command) (pc_occurred_at command))"

definition progress_outbox ::
  "('a progress_header_scheme) \<Rightarrow> operation \<Rightarrow> opaque_id \<Rightarrow> work_command \<Rightarrow> journal \<Rightarrow>
   (outbox_event \<times> journal) fallible" where
  "progress_outbox command loaded event_id work j =
     bind_err (build_outbox_event event_id (op_id loaded) (op_version loaded) work
                 (pc_occurred_at command) (pc_correlation_id command)) (\<lambda>event.
     bind_err (ox_insert event j) (\<lambda>j'. Inr (event, j')))"

definition progress_applied ::
  "('a progress_header_scheme) \<Rightarrow> operation \<Rightarrow> compensation \<Rightarrow> audit_event list \<Rightarrow>
   outbox_event option \<Rightarrow> transition_result" where
  "progress_applied command loaded compensation audits outbox =
     applied (ProgressKind (pc_kind command)) loaded (Some compensation) audits outbox
       (Some OS_COMPENSATING) OS_COMPENSATING"

definition attempted_pairs :: "compensation \<Rightarrow> compensation_attempt \<Rightarrow> (string \<times> string option) list" where
  "attempted_pairs c a =
     [(''compensation_id'', Some (oid_value (cm_id c))),
      (''compensation_attempt_id'', Some (oid_value (ca_id a)))]"

definition apply_claim_compensation ::
  "claim_compensation_execution \<Rightarrow> journal \<Rightarrow> (transition_result \<times> journal) fallible" where
  "apply_claim_compensation command j =
     with_compensation command j (\<lambda>loaded compensation.
       if cm_state compensation = CS_EXECUTING \<and>
          cm_version compensation = pc_expected_compensation_version command + 1
       then Inr (progress_already command loaded compensation, j)
       else if cm_version compensation \<noteq> pc_expected_compensation_version command
       then Inl (ConcurrencyConflictError ''concurrency_conflict'')
       else case evaluate_claim_compensation_preconditions command loaded compensation
                   (ca_list_for_compensation (cm_id compensation) j) of
         Some r \<Rightarrow> Inr (progress_reject command loaded (Some compensation) r, j)
       | None \<Rightarrow>
           bind_err (ca_insert (ce_attempt command) j) (\<lambda>j1.
           bind_err (advance_compensation command compensation CS_EXECUTING j1) (\<lambda>advanced.
           bind_err (progress_event command loaded (au_next_sequence (op_id loaded) (snd advanced))
                       (ce_attempt_audit_event_id command) AE_COMPENSATION_ATTEMPTED
                       (attempted_pairs compensation (ce_attempt command))) (\<lambda>attempted.
           bind_err (au_append attempted (snd advanced)) (\<lambda>j3.
           Inr (progress_applied command loaded (fst advanced) [attempted] None, j3))))))"

definition apply_start_compensation_verification ::
  "start_compensation_verification \<Rightarrow> journal \<Rightarrow> (transition_result \<times> journal) fallible" where
  "apply_start_compensation_verification command j =
     with_compensation command j (\<lambda>loaded compensation.
       if cm_version compensation = pc_expected_compensation_version command + 1
       then (if cm_state compensation = CS_VERIFYING
             then Inr (progress_already command loaded compensation, j)
             else Inr (progress_reject command loaded (Some compensation) ''idempotent_mismatch'', j))
       else if cm_version compensation \<noteq> pc_expected_compensation_version command
       then Inl (ConcurrencyConflictError ''concurrency_conflict'')
       else
         let loaded_attempt = last_opt (ca_list_for_compensation (cm_id compensation) j);
             completed = sv_completed_compensation_attempt command;
             q = sv_verification_request command in
         case evaluate_start_compensation_verification_preconditions command loaded compensation
                loaded_attempt of
           Some r \<Rightarrow> Inr (progress_reject command loaded (Some compensation) r, j)
         | None \<Rightarrow>
             bind_err
               (case (completed, loaded_attempt) of
                  (Some done, Some a) \<Rightarrow> if ca_state a = AS_STARTED then ca_complete done j else Inr j
                | _ \<Rightarrow> Inr j) (\<lambda>j1.
             bind_err (vf_insert_request q j1) (\<lambda>j2.
             bind_err (advance_compensation command compensation CS_VERIFYING j2) (\<lambda>advanced.
             bind_err
               (let sequence = au_next_sequence (op_id loaded) (snd advanced) in
                case completed of
                  Some done \<Rightarrow>
                    (case sv_attempt_audit_event_id command of
                       None \<Rightarrow> Inl (PyValueError ''attempt_audit_event_id is required when completing an attempt'')
                     | Some i \<Rightarrow>
                         progress_event command loaded sequence i AE_COMPENSATION_RESULT
                           (attempted_pairs compensation done @
                            [(''effect_outcome'', map_option effect_outcome_value (ca_outcome done))]))
                | None \<Rightarrow>
                    progress_event command loaded sequence (sv_verification_audit_event_id command)
                      AE_COMPENSATION_ATTEMPTED
                      [(''compensation_id'', Some (oid_value (cm_id compensation))),
                       (''verification_id'', Some (oid_value (vq_id q)))]) (\<lambda>event.
             bind_err (au_append event (snd advanced)) (\<lambda>j4.
             bind_err (progress_outbox command loaded (sv_outbox_event_id command) WC_VERIFY j4) (\<lambda>sent.
             Inr (progress_applied command loaded (fst advanced) [event] (Some (fst sent)),
                  snd sent))))))))"

definition apply_claim_compensation_retry_attempt ::
  "claim_compensation_retry_attempt \<Rightarrow> journal \<Rightarrow> (transition_result \<times> journal) fallible" where
  "apply_claim_compensation_retry_attempt command j =
     with_compensation command j (\<lambda>loaded compensation.
       let attempts = ca_list_for_compensation (cm_id compensation) j in
       if cm_version compensation = pc_expected_compensation_version command + 1
       then (case last_opt attempts of
               Some latest \<Rightarrow>
                 if ca_state latest = AS_STARTED \<and> ca_id latest = ca_id (cr_attempt command)
                 then Inr (progress_already command loaded compensation, j)
                 else Inr (progress_reject command loaded (Some compensation) ''idempotent_mismatch'', j)
             | None \<Rightarrow> Inr (progress_reject command loaded (Some compensation) ''idempotent_mismatch'', j))
       else if cm_version compensation \<noteq> pc_expected_compensation_version command
       then Inl (ConcurrencyConflictError ''concurrency_conflict'')
       else case evaluate_claim_compensation_retry_attempt_preconditions command loaded compensation
                   attempts of
         Some r \<Rightarrow> Inr (progress_reject command loaded (Some compensation) r, j)
       | None \<Rightarrow>
           bind_err (ca_insert (cr_attempt command) j) (\<lambda>j1.
           bind_err (advance_compensation command compensation CS_EXECUTING j1) (\<lambda>advanced.
           bind_err (progress_event command loaded (au_next_sequence (op_id loaded) (snd advanced))
                       (cr_attempt_audit_event_id command) AE_COMPENSATION_ATTEMPTED
                       (attempted_pairs compensation (cr_attempt command))) (\<lambda>attempted.
           bind_err (au_append attempted (snd advanced)) (\<lambda>j3.
           Inr (progress_applied command loaded (fst advanced) [attempted] None, j3))))))"

definition apply_retry_compensation_after_verification ::
  "retry_compensation_after_verification \<Rightarrow> journal \<Rightarrow> (transition_result \<times> journal) fallible" where
  "apply_retry_compensation_after_verification command j =
     with_compensation command j (\<lambda>loaded compensation.
       let attempts = ca_list_for_compensation (cm_id compensation) j;
           r = rv_verification_result command in
       if cm_version compensation = pc_expected_compensation_version command + 1
       then (case last_opt attempts of
               Some latest \<Rightarrow>
                 if ca_state latest = AS_STARTED \<and> ca_id latest = ca_id (rv_attempt command)
                 then Inr (progress_already command loaded compensation, j)
                 else Inr (progress_reject command loaded (Some compensation) ''idempotent_mismatch'', j)
             | None \<Rightarrow> Inr (progress_reject command loaded (Some compensation) ''idempotent_mismatch'', j))
       else if cm_version compensation \<noteq> pc_expected_compensation_version command
       then Inl (ConcurrencyConflictError ''concurrency_conflict'')
       else
         let existing = vf_get (vs_id r) j in
         case evaluate_retry_compensation_after_verification_preconditions command loaded compensation
                attempts existing of
           Some reason \<Rightarrow> Inr (progress_reject command loaded (Some compensation) reason, j)
         | None \<Rightarrow>
             bind_err
               (case existing of Some row \<Rightarrow> if snd row = None then vf_complete r j else Inr j
                | None \<Rightarrow> Inr j) (\<lambda>j1.
             bind_err (ca_insert (rv_attempt command) j1) (\<lambda>j2.
             bind_err (advance_compensation command compensation CS_EXECUTING j2) (\<lambda>advanced.
             bind_err (Inr (au_next_sequence (op_id loaded) (snd advanced))) (\<lambda>sequence.
             bind_err (progress_event command loaded sequence (rv_verification_audit_event_id command)
                         AE_VERIFICATION_COMPLETED
                         [(''verification_id'', Some (oid_value (vs_id r))),
                          (''effect_outcome'', Some (effect_outcome_value (vs_outcome r)))])
               (\<lambda>verification_event.
             bind_err (progress_event command loaded (sequence + 1) (rv_attempt_audit_event_id command)
                         AE_COMPENSATION_ATTEMPTED (attempted_pairs compensation (rv_attempt command)))
               (\<lambda>attempted.
             bind_err (append_events [verification_event, attempted] (snd advanced)) (\<lambda>j5.
             bind_err (progress_outbox command loaded (rv_outbox_event_id command) WC_COMPENSATE j5)
               (\<lambda>sent.
             Inr (progress_applied command loaded (fst advanced) [verification_event, attempted]
                    (Some (fst sent)), snd sent))))))))))"

section \<open>The entry points\<close>

definition apply_command :: "transition_command \<Rightarrow> journal \<Rightarrow> (transition_result \<times> journal) fallible" where
  "apply_command command j =
     (if command_kind command \<noteq> COMMAND_TYPE_TO_KIND command
      then Inl (PyValueError ''command kind does not match command type'')
      else case command of
        CreateOperation c \<Rightarrow> apply_create c j
      | ClaimCompensationExecution c \<Rightarrow> apply_claim_compensation c j
      | StartCompensationVerification c \<Rightarrow> apply_start_compensation_verification c j
      | ClaimCompensationRetryAttempt c \<Rightarrow> apply_claim_compensation_retry_attempt c j
      | RetryCompensationAfterVerification c \<Rightarrow> apply_retry_compensation_after_verification c j
      | OperationCommand c \<Rightarrow> apply_operation c j)"

definition messaging_recovery_kind :: "operation_state \<Rightarrow> transition_kind option" where
  "messaging_recovery_kind s =
     (case s of
        OS_READY \<Rightarrow> Some TK_READY_MESSAGING_RECOVERY_EXHAUSTED
      | OS_EXECUTING \<Rightarrow> Some TK_EXECUTION_MESSAGING_RECOVERY_EXHAUSTED
      | OS_VERIFYING \<Rightarrow> Some TK_VERIFICATION_ESCALATE
      | OS_UNKNOWN \<Rightarrow> Some TK_UNKNOWN_ESCALATE
      | OS_COMPENSATING \<Rightarrow> Some TK_COMPENSATION_ESCALATE
      | OS_COMPENSATION_UNKNOWN \<Rightarrow> Some TK_COMPENSATION_UNKNOWN_ESCALATE
      | OS_COMPENSATION_FAILED \<Rightarrow> Some TK_COMPENSATION_FAILED_ESCALATE
      | _ \<Rightarrow> None)"

record escalation =
  es_operation_id :: opaque_id
  es_expected_version :: int
  es_occurred_at :: utc_timestamp
  es_actor :: principal_ref
  es_correlation_id :: "string option"
  es_reason_code :: string
  es_transition_audit_event_id :: opaque_id
  es_command :: work_command
  es_max_recoveries :: int

definition escalate_messaging_recovery ::
  "escalation \<Rightarrow> journal \<Rightarrow> (transition_result \<times> journal) fallible" where
  "escalate_messaging_recovery e j =
     (case op_get (es_operation_id e) j of
        None \<Rightarrow> Inl (NotFoundError ''not_found'')
      | Some loaded \<Rightarrow>
          (let target = OS_MANUAL_INTERVENTION;
               reject = (\<lambda>kind reason.
                 Inr (rejected (OpKind kind) reason (Some loaded) (Some (op_state loaded)) (Some target)
                        (Some (op_version loaded)) None, j)) in
           if op_version loaded \<noteq> es_expected_version e
           then Inl (ConcurrencyConflictError ''concurrency_conflict'')
           else case messaging_recovery_kind (op_state loaded) of
             None \<Rightarrow> reject TK_READY_MESSAGING_RECOVERY_EXHAUSTED ''unsupported_messaging_recovery_state''
           | Some recovery_kind \<Rightarrow>
               if td_verdict (evaluate_operation_transition (Some (op_state loaded)) target) \<noteq> TV_LEGAL
               then reject recovery_kind ''unlisted_operation_transition''
               else
                 bind_err (next_version (op_version loaded)) (\<lambda>v.
                 bind_err (replace_operation loaded target v (es_occurred_at e) None None None None None)
                   (\<lambda>new_operation.
                 bind_err (op_update_cas (es_expected_version e) new_operation j) (\<lambda>j1.
                 bind_err (json_from_plain (PyDict
                     [(PyStr ''command'', PyStr (work_command_value (es_command e))),
                      (PyStr ''max_recoveries'', PyInt (es_max_recoveries e)),
                      (PyStr ''operator_intervention_required'', PyBool True)])) (\<lambda>data.
                 bind_err (build_audit_event (es_transition_audit_event_id e) (op_id loaded)
                     (au_next_sequence (op_id loaded) j1) AE_OPERATION_TRANSITIONED
                     (Some (op_state loaded)) (Some target) (op_version new_operation)
                     (Some (es_actor e)) (es_reason_code e) data (es_correlation_id e)
                     (es_occurred_at e)) (\<lambda>event.
                 bind_err (au_append event j1) (\<lambda>j2.
                 Inr (applied (OpKind recovery_kind) new_operation None [event] None
                        (Some (op_state loaded)) target, j2)))))))))"

end
