(* ===== verification/Engine_Facts.thy ===== *)
theory Engine_Facts
  imports Transition_Engine
begin

text \<open>
  What the steps of the transition engine read and write. \<open>same_core\<close> is the frame of
  \<open>_write_related\<close>: the operations, the audit log and the outbox are left for the later steps.
  \<open>apply_operation_appliedE\<close> takes a successful command apart into its steps; the frame lemmas
  and the lemmas on the audit plan then say what became of each table.
\<close>

section \<open>The frame of the related writes\<close>

definition same_core :: "journal \<Rightarrow> journal \<Rightarrow> bool" where
  "same_core j j' \<longleftrightarrow>
     j_operations j' = j_operations j \<and> j_audit_events j' = j_audit_events j \<and>
     j_outbox_events j' = j_outbox_events j"

definition same_compensations :: "journal \<Rightarrow> journal \<Rightarrow> bool" where
  "same_compensations j j' \<longleftrightarrow> j_compensations j' = j_compensations j"

lemma same_refl [simp]: "same_core j j" "same_compensations j j"
  by (simp_all add: same_core_def same_compensations_def)

lemma same_core_trans: "same_core a b \<Longrightarrow> same_core b c \<Longrightarrow> same_core a c"
  by (simp add: same_core_def)

lemma same_compensations_trans:
  "same_compensations a b \<Longrightarrow> same_compensations b c \<Longrightarrow> same_compensations a c"
  by (simp add: same_compensations_def)

lemma same_core_op_get: "same_core j j' \<Longrightarrow> op_get i j' = op_get i j"
  by (simp add: same_core_def op_get_def)

lemma same_compensations_cp_get: "same_compensations j j' \<Longrightarrow> cp_get i j' = cp_get i j"
  by (simp add: same_compensations_def cp_get_def)

lemmas write_step_defs =
  write_policy_def write_requested_approval_def write_decided_approval_def write_claimed_attempt_def
  write_completed_attempt_def write_verification_request_def write_verification_result_def
  write_reconciliation_def write_compensation_attempt_def write_compensation_verification_def

lemma write_frame:
  "write_policy b j = Inr j' \<Longrightarrow> same_core j j' \<and> same_compensations j j'"
  "write_requested_approval b j = Inr j' \<Longrightarrow> same_core j j' \<and> same_compensations j j'"
  "write_decided_approval b j = Inr j' \<Longrightarrow> same_core j j' \<and> same_compensations j j'"
  "write_claimed_attempt b j = Inr j' \<Longrightarrow> same_core j j' \<and> same_compensations j j'"
  "write_completed_attempt b r j = Inr j' \<Longrightarrow> same_core j j' \<and> same_compensations j j'"
  "write_verification_request b j = Inr j' \<Longrightarrow> same_core j j' \<and> same_compensations j j'"
  "write_verification_result b r j = Inr j' \<Longrightarrow> same_core j j' \<and> same_compensations j j'"
  "write_reconciliation b j = Inr j' \<Longrightarrow> same_core j j' \<and> same_compensations j j'"
  "write_compensation_attempt b r j = Inr j' \<Longrightarrow> same_core j j' \<and> same_compensations j j'"
  "write_compensation_verification b r j = Inr j' \<Longrightarrow> same_core j j' \<and> same_compensations j j'"
  by (auto simp: write_step_defs journal_simps same_core_def same_compensations_def
      split: option.splits if_splits)

lemma write_started_compensation_core: "write_started_compensation b j = Inr j' \<Longrightarrow> same_core j j'"
  by (auto simp: write_started_compensation_def journal_simps same_core_def split: option.splits)

lemma write_compensation_state_core:
  "write_compensation_state c m j = Inr (m', j') \<Longrightarrow> same_core j j'"
  by (auto simp: write_compensation_state_def journal_simps same_core_def split: option.splits)

text \<open>
  The related writes as four stages: two frames around the two steps that write the
  compensations (one is started; the state of the current one moves).
\<close>

lemma write_related_stages:
  assumes "write_related command related j = Inr (m, j')"
  obtains ja jb jc where "same_core j ja" and "same_compensations j ja"
    and "write_started_compensation (oc_body command) ja = Inr jb"
    and "same_core jb jc" and "same_compensations jb jc"
    and "write_compensation_state command
          (case started_compensation_of (oc_body command) of None \<Rightarrow> rr_compensation related
           | Some c \<Rightarrow> Some c) jc = Inr (m, j')"
proof -
  let ?b = "oc_body command"
  from assms obtain j1 j2 j3 j4 j5 j6 j7 ja jb j8 jc where w:
      "write_policy ?b j = Inr j1" "write_requested_approval ?b j1 = Inr j2"
      "write_decided_approval ?b j2 = Inr j3" "write_claimed_attempt ?b j3 = Inr j4"
      "write_completed_attempt ?b related j4 = Inr j5" "write_verification_request ?b j5 = Inr j6"
      "write_verification_result ?b related j6 = Inr j7" "write_reconciliation ?b j7 = Inr ja"
    and started: "write_started_compensation ?b ja = Inr jb"
    and v: "write_compensation_attempt ?b related jb = Inr j8"
      "write_compensation_verification ?b related j8 = Inr jc"
    and moved: "write_compensation_state command
          (case started_compensation_of ?b of None \<Rightarrow> rr_compensation related | Some c \<Rightarrow> Some c) jc =
        Inr (m, j')"
    unfolding write_related_def Let_def by auto
  have "same_core j ja \<and> same_compensations j ja"
    using w by (auto dest!: write_frame simp: same_core_def same_compensations_def)
  moreover have "same_core jb jc \<and> same_compensations jb jc"
    using v by (auto dest!: write_frame simp: same_core_def same_compensations_def)
  ultimately show thesis using that started moved by blast
qed

lemma write_related_core:
  assumes "write_related command related j = Inr (m, j')"
  shows "same_core j j'"
  using assms
  by (rule write_related_stages)
    (blast intro: same_core_trans write_started_compensation_core write_compensation_state_core)

section \<open>The audit plan\<close>

lemma append_events_log: "append_events es = aulog.append_all es"
proof (induction es)
  case (Cons e es)
  show ?case by (rule ext) (simp add: Cons.IH)
qed (rule ext, simp)

lemma append_events_Inr:
  "append_events es j = Inr j' \<Longrightarrow> j' = j\<lparr>j_audit_events := j_audit_events j @ es\<rparr>"
proof (induction es arbitrary: j)
  case (Cons e es)
  then obtain k where "au_append e j = Inr k" and run: "append_events es k = Inr j'" by auto
  moreover have "j' = k\<lparr>j_audit_events := j_audit_events k @ es\<rparr>" by (rule Cons.IH [OF run])
  ultimately show ?case by (simp add: au_append_Inr)
qed simp

lemma plan_event_Inr:
  assumes "plan_event command i v s entry = Inr e"
  shows "au_id e = fst (snd entry)" and "au_operation_id e = i" and "au_sequence e = s + int (fst entry)"
    and "au_event_type e = fst (snd (snd entry))"
    and "au_from_state e = fst (KIND_TO_EDGE (oc_kind command))"
    and "au_to_state e = Some (snd (KIND_TO_EDGE (oc_kind command)))"
    and "au_operation_version e = v" and "au_actor e = oc_actor command"
    and "au_created_at e = oc_occurred_at command" and "validate_audit_event e = Inr ()"
  using assms by (auto simp: plan_event_def build_audit_event_def make_audit_event_Inr split: prod.splits)

text \<open>What a successful \<open>_append_audits\<close> leaves: the planned events, numbered and in order.\<close>

lemma append_audits_events:
  assumes "append_audits command loaded new related j = Inr (es, j')"
  shows "j' = j\<lparr>j_audit_events := j_audit_events j @ es\<rparr>"
    and "append_events es j = Inr j'"
    and "list_all2 (\<lambda>entry e. plan_event command (op_id loaded) (op_version new)
           (au_next_sequence (op_id loaded) j) entry = Inr e)
           (List.enumerate 0 (audit_plan command loaded related)) es"
  using assms
  by (auto simp: append_audits_def Let_def map_err_all2 dest: append_events_Inr)

lemma append_audits_numbered:
  assumes "append_audits command loaded new related j = Inr (es, j')"
  shows "list_all (\<lambda>e. au_operation_id e = op_id loaded \<and> validate_audit_event e = Inr ()) es"
    and "map au_sequence es =
      map (\<lambda>n. au_next_sequence (op_id loaded) j + int n) [0..<length es]"
    and "map au_event_type es = map (\<lambda>x. fst (snd x)) (audit_plan command loaded related)"
proof -
  note planned = append_audits_events(3) [OF assms]
  show "list_all (\<lambda>e. au_operation_id e = op_id loaded \<and> validate_audit_event e = Inr ()) es"
    by (rule list_all2_all [OF planned]) (simp add: plan_event_Inr(2,10))
  have len: "length es = length (audit_plan command loaded related)"
    using list_all2_lengthD [OF planned] by simp
  show "map au_sequence es = map (\<lambda>n. au_next_sequence (op_id loaded) j + int n) [0..<length es]"
    using list_all2_map_eq [OF planned, of "\<lambda>x. au_next_sequence (op_id loaded) j + int (fst x)" au_sequence]
    by (simp add: plan_event_Inr(3) len
        map_fst_enumerate_upt [of "\<lambda>n. au_next_sequence (op_id loaded) j + int n"])
  show "map au_event_type es = map (\<lambda>x. fst (snd x)) (audit_plan command loaded related)"
    using list_all2_map_eq [OF planned, of "\<lambda>x. fst (snd (snd x))" au_event_type]
    by (simp add: plan_event_Inr(4) map_snd_enumerate_list [of "\<lambda>x. fst (snd x)"])
qed

text \<open>Only the last planned event is the transition.\<close>

lemma detail_entries_types:
  "AE_OPERATION_TRANSITIONED \<notin> (\<lambda>x. fst (snd x)) ` set (detail_entries command loaded related)"
proof (cases "oc_body command")
  case (ExecutionUnknown a i k)
  then show ?thesis by (cases a) (simp_all add: detail_entries_def crash_entry_def evidence_entry_def)
qed (simp_all add: detail_entries_def policy_entry_def approval_entry_def evidence_entry_def
    verification_started_entry_def verification_completed_entry_def reconciliation_entry_def
    compensation_requested_entry_def compensation_result_entry_def operator_entry_def)

lemma audit_plan_types:
  "\<exists>pre. map (\<lambda>x. fst (snd x)) (audit_plan command loaded related) = pre @ [AE_OPERATION_TRANSITIONED] \<and>
     AE_OPERATION_TRANSITIONED \<notin> set pre"
  using detail_entries_types [of command loaded related]
  by (auto simp: audit_plan_def transition_entry_def split: option.splits)

section \<open>A successful operation command\<close>

lemma insert_outbox_Inr:
  "insert_outbox command new j = Inr (out, j') \<Longrightarrow>
     j' = j\<lparr>j_outbox_events := j_outbox_events j @ (case out of None \<Rightarrow> [] | Some e \<Rightarrow> [e])\<rparr>"
  by (auto simp: insert_outbox_def journal_simps split: option.splits)

lemma replace_for_kind_Inr:
  assumes "replace_for_kind command loaded target v = Inr new"
  shows "op_id new = op_id loaded" and "op_state new = target" and "op_version new = v"
    and "op_intent new = op_intent loaded" and "op_risk_level new = op_risk_level loaded"
    and "op_created_at new = op_created_at loaded" and "op_updated_at new = oc_occurred_at command"
    and "op_idempotency_identity new = op_idempotency_identity loaded"
    and "op_compensation_id new =
      or_unchanged (map_option cm_id (started_compensation_of (oc_body command))) (op_compensation_id loaded)"
    and "op_latest_attempt_id new =
      or_unchanged (map_option att_id (claimed_attempt_of (oc_body command))) (op_latest_attempt_id loaded)"
    and "op_latest_verification_id new =
      or_unchanged (map_option vq_id (verification_request_of (oc_body command)))
        (op_latest_verification_id loaded)"
    and "op_current_policy_decision_id new =
      or_unchanged (map_option pd_id (policy_decision_of (oc_body command)))
        (op_current_policy_decision_id loaded)"
    and "op_current_approval_id new =
      or_unchanged (map_option ap_id (cmd_approval (oc_body command))) (op_current_approval_id loaded)"
  using assms by (auto simp: replace_for_kind_def replace_operation_def make_operation_Inr Let_def)

text \<open>A command either changes nothing or went through every step.\<close>

lemma perform_operation_Inr:
  "perform_operation command loaded related j = Inr (r, j') \<longleftrightarrow>
     (\<exists>m ja new jb es jc out.
        1 \<le> op_version loaded \<and>
        write_related command related j = Inr (m, ja) \<and>
        replace_for_kind command loaded (snd (KIND_TO_EDGE (oc_kind command))) (op_version loaded + 1) =
          Inr new \<and>
        op_update_cas (oc_expected_version command) new ja = Inr jb \<and>
        append_audits command loaded new related jb = Inr (es, jc) \<and>
        insert_outbox command new jc = Inr (out, j') \<and>
        r = applied (OpKind (oc_kind command)) new m es out (fst (KIND_TO_EDGE (oc_kind command)))
              (snd (KIND_TO_EDGE (oc_kind command))))"
  by (auto simp: perform_operation_def Let_def next_version_Inr)

lemma perform_operation_applied:
  "perform_operation command loaded related j = Inr (r, j') \<Longrightarrow> tr_outcome r = TO_APPLIED"
  by (auto simp: perform_operation_Inr applied_def)

lemma refused_outcomes [simp]:
  "tr_outcome (rejected k s o' f t v c) = TO_REJECTED"
  "tr_outcome (already k p f t n c) = TO_ALREADY_APPLIED"
  "tr_outcome (applied k p c es x f u) = TO_APPLIED"
  "tr_audit_events (rejected k s o' f t v c) = []" "tr_audit_events (already k p f t n c) = []"
  "tr_outbox_event (rejected k s o' f t v c) = None" "tr_outbox_event (already k p f t n c) = None"
  by (simp_all add: rejected_def already_def applied_def)

lemma applied_fields [simp]:
  "tr_operation (applied k p c es x f u) = Some p"
  "tr_compensation (applied k p c es x f u) = c"
  "tr_audit_events (applied k p c es x f u) = es"
  "tr_outbox_event (applied k p c es x f u) = x"
  "tr_from_state (applied k p c es x f u) = f"
  "tr_to_state (applied k p c es x f u) = Some u"
  "tr_operation_version (applied k p c es x f u) = Some (op_version p)"
  by (simp_all add: applied_def)

definition changes_nothing :: "journal \<Rightarrow> transition_result \<Rightarrow> journal \<Rightarrow> bool" where
  "changes_nothing j r j' \<longleftrightarrow>
     j' = j \<and> tr_outcome r \<noteq> TO_APPLIED \<and> tr_audit_events r = [] \<and> tr_outbox_event r = None"

lemma apply_operation_Inr:
  assumes "apply_operation command j = Inr (r, j')"
  obtains
    (refused) "changes_nothing j r j'"
  | (performed) loaded where "op_get (oc_operation_id command) j = Some loaded"
      and "op_version loaded = oc_expected_version command"
      and "fst (KIND_TO_EDGE (oc_kind command)) = Some (op_state loaded)"
      and "evaluate_preconditions command loaded (load_related command loaded j) = Inr None"
      and "perform_operation command loaded (load_related command loaded j) j = Inr (r, j')"
  using assms unfolding apply_operation_def changes_nothing_def Let_def
  apply (auto split: option.split_asm if_split_asm)
  subgoal for loaded reason by (cases reason) auto
  done

section \<open>A successful compensation-progress command\<close>

lemma with_compensation_Inr:
  assumes "with_compensation command j continue = Inr (r, j')"
  obtains
    (refused) "changes_nothing j r j'"
  | (performed) loaded c where "op_get (pc_operation_id command) j = Some loaded"
      and "op_version loaded = pc_expected_operation_version command"
      and "op_state loaded = OS_COMPENSATING"
      and "cp_get (pc_compensation_id command) j = Some c"
      and "cm_original_operation_id c = op_id loaded"
      and "continue loaded c = Inr (r, j')"
  using assms unfolding with_compensation_def progress_reject_def changes_nothing_def
  by (auto split: option.split_asm if_split_asm)

text \<open>
  What the four progress commands do to the journal: the operation is COMPENSATING and stays as
  it is, its compensation moves to a state that still belongs to a COMPENSATING parent with its
  version raised by one, and the audit log grows by a batch of the operation's own events,
  none of them a transition.
\<close>

definition progress_audit :: "operation \<Rightarrow> audit_event \<Rightarrow> bool" where
  "progress_audit loaded e \<longleftrightarrow>
     au_operation_id e = op_id loaded \<and> au_event_type e \<noteq> AE_OPERATION_TRANSITIONED \<and>
     validate_audit_event e = Inr ()"

definition progress_effect ::
  "journal \<Rightarrow> operation \<Rightarrow> compensation \<Rightarrow> compensation \<Rightarrow> audit_event list \<Rightarrow> journal \<Rightarrow> bool" where
  "progress_effect j loaded c c' es j' \<longleftrightarrow>
     op_get (op_id loaded) j = Some loaded \<and> op_state loaded = OS_COMPENSATING \<and>
     cp_get (cm_id c) j = Some c \<and> cm_original_operation_id c = op_id loaded \<and>
     c' = c\<lparr>cm_state := cm_state c', cm_version := cm_version c + 1, cm_updated_at := cm_updated_at c'\<rparr> \<and>
     PARENT_FOR_COMPENSATION_STATE (cm_state c) = OS_COMPENSATING \<and>
     PARENT_FOR_COMPENSATION_STATE (cm_state c') = OS_COMPENSATING \<and>
     j_operations j' = j_operations j \<and>
     (\<forall>i. cp_get i j' = (if i = cm_id c then Some c' else cp_get i j)) \<and>
     j_audit_events j' = j_audit_events j @ es \<and>
     list_all (progress_audit loaded) es \<and>
     map au_sequence es = map (\<lambda>n. au_next_sequence (op_id loaded) j + int n) [0..<length es]"

lemma op_get_key: "op_get i j = Some o' \<Longrightarrow> op_id o' = i"
  unfolding op_get_def by (rule tbl_get_Some_key)

lemma cp_get_key: "cp_get i j = Some c \<Longrightarrow> cm_id c = i"
  unfolding cp_get_def by (rule tbl_get_Some_key)

lemma advance_compensation_Inr:
  assumes "advance_compensation command c s j = Inr (c', j')"
  shows "c' = c\<lparr>cm_state := s, cm_version := cm_version c + 1, cm_updated_at := cm_updated_at c'\<rparr>"
    and "cp_get i j' = (if i = cm_id c then Some c' else cp_get i j)"
    and "j_operations j' = j_operations j" and "j_audit_events j' = j_audit_events j"
    and "j_outbox_events j' = j_outbox_events j"
  using assms cpst.load_cas [of "pc_expected_compensation_version command" c' j j' i]
  by (auto simp: advance_compensation_def replace_compensation_def make_compensation_Inr
      next_version_Inr cp_update_cas_Inr)

lemma progress_event_Inr:
  assumes "progress_event command loaded n i t ps = Inr e"
  shows "au_operation_id e = op_id loaded" and "au_sequence e = n" and "au_event_type e = t"
    and "au_id e = i" and "au_operation_version e = op_version loaded"
    and "validate_audit_event e = Inr ()"
  using assms by (auto simp: progress_event_def build_audit_event_def make_audit_event_Inr)

lemma au_next_sequence_cong:
  "j_audit_events j' = j_audit_events j \<Longrightarrow> au_next_sequence i j' = au_next_sequence i j"
  by (simp add: au_next_sequence_def)

lemma check_progress_source_None:
  "check_progress_source command k o' c s = None \<longleftrightarrow>
     pc_kind command = k \<and> op_state o' = OS_COMPENSATING \<and> cm_original_operation_id c = op_id o' \<and>
     cm_state c = s"
  by (auto simp: check_progress_source_def)

lemma ca_insert_frame:
  assumes "ca_insert a j = Inr j'"
  shows "same_core j j'" and "same_compensations j j'"
  using assms by (auto simp: journal_simps same_core_def same_compensations_def)

lemma ca_complete_frame:
  assumes "ca_complete a j = Inr j'"
  shows "same_core j j'" and "same_compensations j j'"
  using assms by (auto simp: journal_simps same_core_def same_compensations_def)

text \<open>The tail every progress handler ends with, given the writes \<open>j1\<close> before it.\<close>

lemma progress_tail:
  assumes "op_get i j = Some loaded" "op_state loaded = OS_COMPENSATING" "cp_get k j = Some c"
    and "cm_original_operation_id c = op_id loaded"
    and "same_core j j1" "same_compensations j j1"
    and adv: "advance_compensation command c s j1 = Inr (c', j2)"
    and "PARENT_FOR_COMPENSATION_STATE (cm_state c) = OS_COMPENSATING"
    and "PARENT_FOR_COMPENSATION_STATE s = OS_COMPENSATING"
    and app: "append_events es j2 = Inr j3"
    and "list_all (progress_audit loaded) es"
    and seq: "map au_sequence es = map (\<lambda>n. au_next_sequence (op_id loaded) j2 + int n) [0..<length es]"
    and "j_operations j' = j_operations j3" "j_audit_events j' = j_audit_events j3"
      "same_compensations j3 j'"
  shows "progress_effect j loaded c c' es j'"
proof -
  have j3: "j3 = j2\<lparr>j_audit_events := j_audit_events j2 @ es\<rparr>" by (rule append_events_Inr [OF app])
  have c': "c' = c\<lparr>cm_state := s, cm_version := cm_version c + 1, cm_updated_at := cm_updated_at c'\<rparr>"
    by (rule advance_compensation_Inr(1) [OF adv])
  have cs: "cm_state c' = s" by (subst c') simp
  have load: "cp_get i j' = (if i = cm_id c then Some c' else cp_get i j)" for i
    using assms(6,15) advance_compensation_Inr(2) [OF adv, of i]
    by (simp add: j3 same_compensations_def cp_get_def)
  have "au_next_sequence (op_id loaded) j2 = au_next_sequence (op_id loaded) j"
    using assms(5) advance_compensation_Inr(4) [OF adv]
    by (intro au_next_sequence_cong) (simp add: same_core_def)
  with seq have "map au_sequence es = map (\<lambda>n. au_next_sequence (op_id loaded) j + int n) [0..<length es]"
    by simp
  then show ?thesis
    unfolding progress_effect_def
    using assms c' cs load op_get_key [OF assms(1)] cp_get_key [OF assms(3)]
      advance_compensation_Inr(3,4) [OF adv] j3
    by (auto simp: same_core_def)
qed

lemma progress_results [simp]:
  "tr_outcome (progress_already x l c) = TO_ALREADY_APPLIED"
  "tr_outcome (progress_reject x l d s) = TO_REJECTED"
  "tr_outcome (progress_applied x l c es ox) = TO_APPLIED"
  "tr_audit_events (progress_already x l c) = []" "tr_audit_events (progress_reject x l d s) = []"
  "tr_outbox_event (progress_already x l c) = None" "tr_outbox_event (progress_reject x l d s) = None"
  by (simp_all add: progress_already_def progress_reject_def progress_applied_def)

text \<open>A progress command that is applied, from the caller's side.\<close>

definition progress_step ::
  "('a progress_header_scheme) \<Rightarrow> journal \<Rightarrow> transition_result \<Rightarrow> journal \<Rightarrow> bool" where
  "progress_step command j r j' \<longleftrightarrow>
     (\<exists>loaded c c' es out.
        op_get (pc_operation_id command) j = Some loaded \<and>
        op_version loaded = pc_expected_operation_version command \<and>
        cp_get (pc_compensation_id command) j = Some c \<and>
        cm_version c = pc_expected_compensation_version command \<and>
        progress_effect j loaded c c' es j' \<and>
        j_outbox_events j' = j_outbox_events j @ (case out of None \<Rightarrow> [] | Some e \<Rightarrow> [e]) \<and>
        r = progress_applied command loaded c' es out)"

lemma progress_outbox_Inr:
  assumes "progress_outbox command loaded i w j = Inr (e, j')"
  shows "j' = j\<lparr>j_outbox_events := j_outbox_events j @ [e]\<rparr>" and "ox_id e = i"
    and "ox_aggregate_id e = op_id loaded" and "ox_operation_version e = op_version loaded"
    and "ox_command e = w" and "ox_state e = OB_PENDING"
  using assms
  by (auto simp: progress_outbox_def build_outbox_event_def make_outbox_event_Inr ox_insert_Inr)

lemma progress_stepI:
  assumes "op_get (pc_operation_id command) j = Some loaded"
    and "op_version loaded = pc_expected_operation_version command"
    and "op_state loaded = OS_COMPENSATING"
    and "cp_get (pc_compensation_id command) j = Some c"
    and "cm_original_operation_id c = op_id loaded"
    and "cm_version c = pc_expected_compensation_version command"
    and pre: "same_core j j1" "same_compensations j j1"
    and adv: "advance_compensation command c s j1 = Inr (c', j2)"
    and "PARENT_FOR_COMPENSATION_STATE (cm_state c) = OS_COMPENSATING"
    and "PARENT_FOR_COMPENSATION_STATE s = OS_COMPENSATING"
    and app: "append_events es j2 = Inr jc"
    and "list_all (progress_audit loaded) es"
    and "map au_sequence es = map (\<lambda>n. au_next_sequence (op_id loaded) j2 + int n) [0..<length es]"
    and j': "j' = jc\<lparr>j_outbox_events := j_outbox_events jc @ (case out of None \<Rightarrow> [] | Some e \<Rightarrow> [e])\<rparr>"
    and "r = progress_applied command loaded c' es out"
  shows "progress_step command j r j'"
proof -
  have "progress_effect j loaded c c' es j'"
    by (rule progress_tail [OF assms(1,3,4,5) pre adv assms(10,11) app assms(13,14)])
      (simp_all add: j' same_compensations_def)
  moreover have "j_outbox_events j' = j_outbox_events j @ (case out of None \<Rightarrow> [] | Some e \<Rightarrow> [e])"
    using pre advance_compensation_Inr(5) [OF adv] append_events_Inr [OF app]
    by (simp add: j' same_core_def)
  ultimately show ?thesis
    unfolding progress_step_def using assms(1,2,4,6,16) by blast
qed

lemma parent_compensating [simp]:
  "PARENT_FOR_COMPENSATION_STATE CS_PENDING = OS_COMPENSATING"
  "PARENT_FOR_COMPENSATION_STATE CS_EXECUTING = OS_COMPENSATING"
  "PARENT_FOR_COMPENSATION_STATE CS_VERIFYING = OS_COMPENSATING"
  by (simp_all add: PARENT_FOR_COMPENSATION_STATE_def)

lemma apply_claim_compensation_Inr:
  assumes "apply_claim_compensation command j = Inr (r, j')"
  shows "changes_nothing j r j' \<or> progress_step command j r j'"
  using assms unfolding apply_claim_compensation_def
proof (cases rule: with_compensation_Inr)
  case (performed loaded c)
  show ?thesis
  proof (cases "tr_outcome r = TO_APPLIED")
    case True
    with performed(6) obtain j1 c' j2 e where
        pre: "evaluate_claim_compensation_preconditions command loaded c
                (ca_list_for_compensation (cm_id c) j) = None"
      and ver: "cm_version c = pc_expected_compensation_version command"
      and j1: "ca_insert (ce_attempt command) j = Inr j1"
      and j2: "advance_compensation command c CS_EXECUTING j1 = Inr (c', j2)"
      and e: "progress_event command loaded (au_next_sequence (op_id loaded) j2)
                (ce_attempt_audit_event_id command) AE_COMPENSATION_ATTEMPTED
                (attempted_pairs c (ce_attempt command)) = Inr e"
      and "au_append e j2 = Inr j'" and "r = progress_applied command loaded c' [e] None"
      by (auto split: if_split_asm option.split_asm)
    moreover from pre have "cm_state c = CS_PENDING"
      by (simp add: evaluate_claim_compensation_preconditions_def check_progress_source_None)
    ultimately have "progress_step command j r j'"
      by (intro progress_stepI [where es = "[e]" and out = None and jc = j', OF performed(1,2,3,4,5) ver
            ca_insert_frame [OF j1] j2]) (simp_all add: progress_event_Inr [OF e] progress_audit_def)
    then show ?thesis ..
  next
    case False
    with performed(6) show ?thesis
      by (auto simp: changes_nothing_def split: if_split_asm option.split_asm)
  qed
qed simp

lemma apply_claim_compensation_retry_attempt_Inr:
  assumes "apply_claim_compensation_retry_attempt command j = Inr (r, j')"
  shows "changes_nothing j r j' \<or> progress_step command j r j'"
  using assms unfolding apply_claim_compensation_retry_attempt_def
proof (cases rule: with_compensation_Inr)
  case (performed loaded c)
  show ?thesis
  proof (cases "tr_outcome r = TO_APPLIED")
    case True
    with performed(6) obtain j1 c' j2 e where
        pre: "evaluate_claim_compensation_retry_attempt_preconditions command loaded c
                (ca_list_for_compensation (cm_id c) j) = None"
      and ver: "cm_version c = pc_expected_compensation_version command"
      and j1: "ca_insert (cr_attempt command) j = Inr j1"
      and j2: "advance_compensation command c CS_EXECUTING j1 = Inr (c', j2)"
      and e: "progress_event command loaded (au_next_sequence (op_id loaded) j2)
                (cr_attempt_audit_event_id command) AE_COMPENSATION_ATTEMPTED
                (attempted_pairs c (cr_attempt command)) = Inr e"
      and "au_append e j2 = Inr j'" and "r = progress_applied command loaded c' [e] None"
      by (auto simp: Let_def split: if_split_asm option.split_asm)
    moreover from pre have "cm_state c = CS_EXECUTING"
      by (simp add: evaluate_claim_compensation_retry_attempt_preconditions_def
          check_progress_source_None)
    ultimately have "progress_step command j r j'"
      by (intro progress_stepI [where es = "[e]" and out = None and jc = j', OF performed(1,2,3,4,5) ver
            ca_insert_frame [OF j1] j2]) (simp_all add: progress_event_Inr [OF e] progress_audit_def)
    then show ?thesis ..
  next
    case False
    with performed(6) show ?thesis
      by (auto simp: changes_nothing_def Let_def split: if_split_asm option.split_asm)
  qed
qed simp

lemma apply_start_compensation_verification_Inr:
  assumes "apply_start_compensation_verification command j = Inr (r, j')"
  shows "changes_nothing j r j' \<or> progress_step command j r j'"
  using assms unfolding apply_start_compensation_verification_def
proof (cases rule: with_compensation_Inr)
  case (performed loaded c)
  let ?la = "last_opt (ca_list_for_compensation (cm_id c) j)"
  let ?done = "sv_completed_compensation_attempt command"
  let ?ev = "\<lambda>n. case ?done of
      Some done \<Rightarrow>
        (case sv_attempt_audit_event_id command of
           None \<Rightarrow> Inl (PyValueError ''attempt_audit_event_id is required when completing an attempt'')
         | Some i \<Rightarrow> progress_event command loaded n i AE_COMPENSATION_RESULT
             (attempted_pairs c done @
              [(''effect_outcome'', map_option effect_outcome_value (ca_outcome done))]))
    | None \<Rightarrow> progress_event command loaded n (sv_verification_audit_event_id command)
        AE_COMPENSATION_ATTEMPTED
        [(''compensation_id'', Some (oid_value (cm_id c))),
         (''verification_id'', Some (oid_value (vq_id (sv_verification_request command))))]"
  show ?thesis
  proof (cases "tr_outcome r = TO_APPLIED")
    case True
    with performed(6) obtain j1 j2 c' j3 e j4 x where
        pre: "evaluate_start_compensation_verification_preconditions command loaded c ?la = None"
      and ver: "cm_version c = pc_expected_compensation_version command"
      and j1: "(case (?done, ?la) of
                  (Some done, Some a) \<Rightarrow> if ca_state a = AS_STARTED then ca_complete done j else Inr j
                | _ \<Rightarrow> Inr j) = Inr j1"
      and j2: "vf_insert_request (sv_verification_request command) j1 = Inr j2"
      and adv: "advance_compensation command c CS_VERIFYING j2 = Inr (c', j3)"
      and e: "?ev (au_next_sequence (op_id loaded) j3) = Inr e"
      and app: "au_append e j3 = Inr j4"
      and out: "progress_outbox command loaded (sv_outbox_event_id command) WC_VERIFY j4 = Inr (x, j')"
      and r: "r = progress_applied command loaded c' [e] (Some x)"
      unfolding Let_def by (auto split: if_split_asm option.split_asm)
    from pre have "cm_state c = CS_EXECUTING"
      by (simp add: evaluate_start_compensation_verification_preconditions_def
          check_progress_source_None)
    moreover have "same_core j j1 \<and> same_compensations j j1"
      using j1 ca_complete_frame by (auto split: option.split_asm if_split_asm)
    then have "same_core j j2" "same_compensations j j2"
      using j2 by (auto simp: vf_insert_request_Inr same_core_def same_compensations_def)
    moreover have "au_operation_id e = op_id loaded" "au_sequence e = au_next_sequence (op_id loaded) j3"
        "progress_audit loaded e"
      unfolding progress_audit_def using e by (auto dest: progress_event_Inr split: option.split_asm)
    ultimately have "progress_step command j r j'"
      by (intro progress_stepI [where es = "[e]" and out = "Some x", OF performed(1,2,3,4,5) ver _ _ adv])
        (simp_all add: app r progress_outbox_Inr(1) [OF out])
    then show ?thesis ..
  next
    case False
    with performed(6) show ?thesis
      by (auto simp: changes_nothing_def Let_def split: if_split_asm option.split_asm)
  qed
qed simp

lemma apply_retry_compensation_after_verification_Inr:
  assumes "apply_retry_compensation_after_verification command j = Inr (r, j')"
  shows "changes_nothing j r j' \<or> progress_step command j r j'"
  using assms unfolding apply_retry_compensation_after_verification_def
proof (cases rule: with_compensation_Inr)
  case (performed loaded c)
  let ?r = "rv_verification_result command"
  let ?ex = "vf_get (vs_id ?r) j"
  show ?thesis
  proof (cases "tr_outcome r = TO_APPLIED")
    case True
    with performed(6) obtain j1 j2 c' j3 e f j4 x where
        pre: "evaluate_retry_compensation_after_verification_preconditions command loaded c
                (ca_list_for_compensation (cm_id c) j) ?ex = None"
      and ver: "cm_version c = pc_expected_compensation_version command"
      and j1: "(case ?ex of Some row \<Rightarrow> if snd row = None then vf_complete ?r j else Inr j
                | None \<Rightarrow> Inr j) = Inr j1"
      and j2: "ca_insert (rv_attempt command) j1 = Inr j2"
      and adv: "advance_compensation command c CS_EXECUTING j2 = Inr (c', j3)"
      and e: "progress_event command loaded (au_next_sequence (op_id loaded) j3)
                (rv_verification_audit_event_id command) AE_VERIFICATION_COMPLETED
                [(''verification_id'', Some (oid_value (vs_id ?r))),
                 (''effect_outcome'', Some (effect_outcome_value (vs_outcome ?r)))] = Inr e"
      and f: "progress_event command loaded (au_next_sequence (op_id loaded) j3 + 1)
                (rv_attempt_audit_event_id command) AE_COMPENSATION_ATTEMPTED
                (attempted_pairs c (rv_attempt command)) = Inr f"
      and app: "append_events [e, f] j3 = Inr j4"
      and out: "progress_outbox command loaded (rv_outbox_event_id command) WC_COMPENSATE j4 = Inr (x, j')"
      and r: "r = progress_applied command loaded c' [e, f] (Some x)"
      unfolding Let_def by (auto split: if_split_asm option.split_asm)
    from pre have "cm_state c = CS_VERIFYING"
      by (simp add: evaluate_retry_compensation_after_verification_preconditions_def
          check_progress_source_None)
    moreover have "same_core j j1 \<and> same_compensations j j1"
      using j1 by (auto simp: vf_complete_Inr same_core_def same_compensations_def
          split: option.split_asm if_split_asm)
    then have "same_core j j2" "same_compensations j j2"
      using ca_insert_frame [OF j2] by (blast intro: same_core_trans same_compensations_trans)+
    ultimately have "progress_step command j r j'"
      by (intro progress_stepI [where es = "[e, f]" and out = "Some x", OF performed(1,2,3,4,5) ver _ _ adv
            _ _ app]) (simp_all add: r progress_event_Inr [OF e] progress_event_Inr [OF f] progress_audit_def
            progress_outbox_Inr(1) [OF out])
    then show ?thesis ..
  next
    case False
    with performed(6) show ?thesis
      by (auto simp: changes_nothing_def Let_def split: if_split_asm option.split_asm)
  qed
qed simp

section \<open>The lifecycle transition\<close>

text \<open>
  What an applied lifecycle command, whatever its kind, does to the operations and the audit
  log: one stored operation moves over a listed edge with its version raised by one and its
  intent, risk level, identity and creation time untouched; the log grows by a numbered batch of
  that operation's events of which exactly the last is the transition, carrying the edge taken
  and the new version.
\<close>

definition same_identity :: "operation \<Rightarrow> operation \<Rightarrow> bool" where
  "same_identity a b \<longleftrightarrow>
     op_id b = op_id a \<and> op_intent b = op_intent a \<and> op_risk_level b = op_risk_level a \<and>
     op_idempotency_identity b = op_idempotency_identity a \<and> op_created_at b = op_created_at a \<and>
     op_contract_version b = op_contract_version a"

definition is_transition_of :: "operation \<Rightarrow> operation \<Rightarrow> audit_event \<Rightarrow> bool" where
  "is_transition_of a b e \<longleftrightarrow>
     au_event_type e = AE_OPERATION_TRANSITIONED \<and> au_operation_id e = op_id a \<and>
     au_from_state e = Some (op_state a) \<and> au_to_state e = Some (op_state b) \<and>
     au_operation_version e = op_version b"

definition transition_effect ::
  "journal \<Rightarrow> operation \<Rightarrow> operation \<Rightarrow> audit_event list \<Rightarrow> journal \<Rightarrow> bool" where
  "transition_effect j a b es j' \<longleftrightarrow>
     op_get (op_id a) j = Some a \<and> (op_state a, op_state b) \<in> set operation_edges \<and>
     same_identity a b \<and> op_version b = op_version a + 1 \<and> 1 \<le> op_version a \<and>
     j_operations j' = tbl_set op_id (op_id a) (\<lambda>_. b) (j_operations j) \<and>
     j_audit_events j' = j_audit_events j @ es \<and>
     list_all (\<lambda>e. au_operation_id e = op_id a \<and> validate_audit_event e = Inr ()) es \<and>
     map au_sequence es = map (\<lambda>n. au_next_sequence (op_id a) j + int n) [0..<length es] \<and>
     (\<exists>pre e. es = pre @ [e] \<and> is_transition_of a b e \<and>
        list_all (\<lambda>x. au_event_type x \<noteq> AE_OPERATION_TRANSITIONED) pre)"

lemma transition_effect_get:
  assumes "transition_effect j a b es j'"
  shows "op_get i j' = (if i = op_id a then Some b else op_get i j)"
proof -
  from assms have "op_id b = op_id a" and "op_get (op_id a) j = Some a"
    and "j_operations j' = tbl_set op_id (op_id a) (\<lambda>_. b) (j_operations j)"
    by (auto simp: transition_effect_def same_identity_def)
  then show ?thesis by (auto simp: op_get_def tbl_get_set_same tbl_get_set_other)
qed

lemma kind_edge_listed:
  "fst (KIND_TO_EDGE k) = Some s \<Longrightarrow> (s, snd (KIND_TO_EDGE k)) \<in> set operation_edges"
  unfolding operation_edges_iff by (metis kind_edges_listed prod.collapse)

lemma append_audits_transition:
  assumes aud: "append_audits command a b related j = Inr (es, j')"
    and source: "fst (KIND_TO_EDGE (oc_kind command)) = Some (op_state a)"
    and target: "op_state b = snd (KIND_TO_EDGE (oc_kind command))"
  obtains pre e where "es = pre @ [e]" and "is_transition_of a b e"
    and "list_all (\<lambda>x. au_event_type x \<noteq> AE_OPERATION_TRANSITIONED) pre"
proof -
  obtain ts where "map au_event_type es = ts @ [AE_OPERATION_TRANSITIONED]"
    and new: "AE_OPERATION_TRANSITIONED \<notin> set ts"
    using audit_plan_types [of command a related] append_audits_numbered(3) [OF aud] by auto
  then obtain pre e where es: "es = pre @ [e]" and ts: "map au_event_type pre = ts"
    and t: "au_event_type e = AE_OPERATION_TRANSITIONED" by (auto simp: map_eq_append_conv)
  have "list_all (\<lambda>x. au_from_state x = Some (op_state a) \<and> au_to_state x = Some (op_state b) \<and>
      au_operation_version x = op_version b) es"
    by (rule list_all2_all [OF append_audits_events(3) [OF aud]])
      (simp add: plan_event_Inr source target)
  with es t append_audits_numbered(1) [OF aud] have "is_transition_of a b e"
    by (simp add: is_transition_of_def)
  moreover have "list_all (\<lambda>x. au_event_type x \<noteq> AE_OPERATION_TRANSITIONED) pre"
    using ts new unfolding list_all_iff by (metis image_eqI set_map)
  ultimately show thesis using that es by blast
qed

lemma perform_operation_effect:
  assumes load: "op_get (oc_operation_id command) j = Some a"
    and source: "fst (KIND_TO_EDGE (oc_kind command)) = Some (op_state a)"
    and perform: "perform_operation command a related j = Inr (r, j')"
  obtains b es where "transition_effect j a b es j'"
    and "r = applied (OpKind (oc_kind command)) b (tr_compensation r) es (tr_outbox_event r)
               (Some (op_state a)) (snd (KIND_TO_EDGE (oc_kind command)))"
    and "op_state b = snd (KIND_TO_EDGE (oc_kind command))"
    and "op_version a = oc_expected_version command"
    and "j_outbox_events j' = j_outbox_events j @ (case tr_outbox_event r of None \<Rightarrow> [] | Some e \<Rightarrow> [e])"
proof -
  from perform obtain m ja b jb es jc out where v: "1 \<le> op_version a"
    and w: "write_related command related j = Inr (m, ja)"
    and rep: "replace_for_kind command a (snd (KIND_TO_EDGE (oc_kind command))) (op_version a + 1) = Inr b"
    and cas: "op_update_cas (oc_expected_version command) b ja = Inr jb"
    and aud: "append_audits command a b related jb = Inr (es, jc)"
    and ox: "insert_outbox command b jc = Inr (out, j')"
    and r: "r = applied (OpKind (oc_kind command)) b m es out (fst (KIND_TO_EDGE (oc_kind command)))
              (snd (KIND_TO_EDGE (oc_kind command)))"
    unfolding perform_operation_Inr by blast
  note core = write_related_core [OF w] and b = replace_for_kind_Inr [OF rep]
  have id: "op_id a = oc_operation_id command" by (rule op_get_key [OF load])
  have jb: "jb = ja\<lparr>j_operations := tbl_set op_id (op_id b) (\<lambda>_. b) (j_operations ja)\<rparr>"
    and exp: "op_version b = oc_expected_version command + 1"
    using cas by (simp_all add: op_update_cas_Inr)
  have contract: "op_contract_version b = op_contract_version a"
    using rep by (auto simp: replace_for_kind_def replace_operation_def make_operation_Inr Let_def)
  have nxt: "au_next_sequence (op_id a) jb = au_next_sequence (op_id a) j"
    using core by (intro au_next_sequence_cong) (simp add: jb same_core_def)
  note ev = append_audits_events(1) [OF aud] append_audits_numbered(1,2) [OF aud, unfolded nxt]
  obtain pre e where es: "es = pre @ [e]" and e: "is_transition_of a b e"
    and pre: "list_all (\<lambda>x. au_event_type x \<noteq> AE_OPERATION_TRANSITIONED) pre"
    using append_audits_transition [OF aud source b(2)] by blast
  have "transition_effect j a b es j'"
    unfolding transition_effect_def
    using load id kind_edge_listed [OF source] b contract v ev es e pre core insert_outbox_Inr [OF ox] jb
    by (auto simp: same_identity_def same_core_def)
  then show thesis
  proof (rule that)
    show "r = applied (OpKind (oc_kind command)) b (tr_compensation r) es (tr_outbox_event r)
               (Some (op_state a)) (snd (KIND_TO_EDGE (oc_kind command)))"
      by (simp add: r source)
    show "op_state b = snd (KIND_TO_EDGE (oc_kind command))" by (rule b(2))
    show "op_version a = oc_expected_version command" using exp b(3) by simp
    show "j_outbox_events j' = j_outbox_events j @ (case tr_outbox_event r of None \<Rightarrow> [] | Some e \<Rightarrow> [e])"
      using core insert_outbox_Inr [OF ox] ev(1) jb by (simp add: r same_core_def)
  qed
qed

text \<open>\<open>escalate_messaging_recovery\<close> is the same transition with its own kind table.\<close>

lemma escalation_effect:
  assumes "escalate_messaging_recovery e j = Inr (r, j')"
  shows "changes_nothing j r j' \<or>
    (\<exists>a b ev k. op_get (es_operation_id e) j = Some a \<and> op_version a = es_expected_version e \<and>
       messaging_recovery_kind (op_state a) = Some k \<and> transition_effect j a b [ev] j' \<and>
       op_state b = OS_MANUAL_INTERVENTION \<and>
       op_compensation_id b = op_compensation_id a \<and>
       j_compensations j' = j_compensations j \<and> j_outbox_events j' = j_outbox_events j \<and>
       r = applied (OpKind k) b None [ev] None (Some (op_state a)) OS_MANUAL_INTERVENTION)"
proof (cases "tr_outcome r = TO_APPLIED")
  case True
  with assms obtain a k b j1 data ev where load: "op_get (es_operation_id e) j = Some a"
    and ver: "op_version a = es_expected_version e" and k: "messaging_recovery_kind (op_state a) = Some k"
    and legal: "td_verdict (evaluate_operation_transition (Some (op_state a)) OS_MANUAL_INTERVENTION) =
      TV_LEGAL"
    and v: "1 \<le> op_version a"
    and rep: "replace_operation a OS_MANUAL_INTERVENTION (op_version a + 1) (es_occurred_at e)
      None None None None None = Inr b"
    and cas: "op_update_cas (es_expected_version e) b j = Inr j1"
    and ev: "build_audit_event (es_transition_audit_event_id e) (op_id a) (au_next_sequence (op_id a) j1)
       AE_OPERATION_TRANSITIONED (Some (op_state a)) (Some OS_MANUAL_INTERVENTION) (op_version b)
       (Some (es_actor e)) (es_reason_code e) data (es_correlation_id e) (es_occurred_at e) = Inr ev"
    and app: "au_append ev j1 = Inr j'"
    and r: "r = applied (OpKind k) b None [ev] None (Some (op_state a)) OS_MANUAL_INTERVENTION"
    unfolding escalate_messaging_recovery_def Let_def
    by (auto simp: next_version_Inr split: option.split_asm if_split_asm)
  have j1: "j1 = j\<lparr>j_operations := tbl_set op_id (op_id b) (\<lambda>_. b) (j_operations j)\<rparr>"
    using cas by (simp add: op_update_cas_Inr)
  then have nxt: "au_next_sequence (op_id a) j1 = au_next_sequence (op_id a) j"
    by (intro au_next_sequence_cong) simp
  have b: "same_identity a b" "op_state b = OS_MANUAL_INTERVENTION" "op_version b = op_version a + 1"
      "op_compensation_id b = op_compensation_id a"
    using rep by (auto simp: replace_operation_def make_operation_Inr same_identity_def or_unchanged_def)
  have fields: "is_transition_of a b ev" "au_sequence ev = au_next_sequence (op_id a) j"
      "validate_audit_event ev = Inr ()"
    using ev b(2) nxt by (auto simp: build_audit_event_def make_audit_event_Inr is_transition_of_def)
  have "transition_effect j a b [ev] j'"
    unfolding transition_effect_def
    using load op_get_key [OF load] legal b v app fields
    by (auto simp: operation_legal_iff operation_edges_iff au_append_Inr j1 is_transition_of_def
        same_identity_def)
  then show ?thesis using load ver k b r app by (auto simp: au_append_Inr j1)
next
  case False
  with assms show ?thesis
    unfolding escalate_messaging_recovery_def Let_def changes_nothing_def
    by (auto split: option.split_asm if_split_asm)
qed

text \<open>Creating an operation: one row, one event, sequence number 1.\<close>

lemma create_effect:
  assumes "apply_create command j = Inr (r, j')"
  shows "changes_nothing j r j' \<or>
    (\<exists>e. op_state (cc_operation command) = OS_PENDING_POLICY \<and> op_version (cc_operation command) = 1 \<and>
       op_insert (cc_operation command) j = Inr (j'\<lparr>j_audit_events := j_audit_events j\<rparr>) \<and>
       j' = j\<lparr>j_operations := j_operations j @ [cc_operation command],
              j_audit_events := j_audit_events j @ [e]\<rparr> \<and>
       au_operation_id e = op_id (cc_operation command) \<and> au_sequence e = 1 \<and>
       au_event_type e = AE_OPERATION_CREATED \<and> au_to_state e = Some OS_PENDING_POLICY \<and>
       au_operation_version e = 1 \<and> validate_audit_event e = Inr () \<and>
       r = applied (OpKind (cc_kind command)) (cc_operation command) None [e] None None OS_PENDING_POLICY)"
proof (cases "tr_outcome r = TO_APPLIED")
  case True
  with assms obtain j1 data e where o': "op_state (cc_operation command) = OS_PENDING_POLICY"
      "op_version (cc_operation command) = 1"
    and j1: "op_insert (cc_operation command) j = Inr j1"
    and e: "build_audit_event (cc_created_audit_event_id command) (op_id (cc_operation command))
       INITIAL_AUDIT_SEQUENCE AE_OPERATION_CREATED None (Some OS_PENDING_POLICY)
       INITIAL_OPERATION_VERSION (cc_actor command) (cc_reason_code command) data
       (cc_correlation_id command) (cc_occurred_at command) = Inr e"
    and app: "au_append e j1 = Inr j'"
    and r: "r = applied (OpKind (cc_kind command)) (cc_operation command) None [e] None None
              OS_PENDING_POLICY"
    unfolding apply_create_def create_conflict_def Let_def
    by (auto simp: INITIAL_OPERATION_VERSION_def split: option.split_asm if_split_asm)
  moreover have "au_operation_id e = op_id (cc_operation command)" "au_sequence e = 1"
      "au_event_type e = AE_OPERATION_CREATED" "au_to_state e = Some OS_PENDING_POLICY"
      "au_operation_version e = 1" "validate_audit_event e = Inr ()"
    using e by (auto simp: build_audit_event_def make_audit_event_Inr INITIAL_AUDIT_SEQUENCE_def
        INITIAL_OPERATION_VERSION_def)
  ultimately show ?thesis by (auto simp: au_append_Inr op_insert_Inr)
next
  case False
  with assms show ?thesis
    unfolding apply_create_def create_conflict_def Let_def changes_nothing_def
    by (auto split: option.split_asm if_split_asm)
qed

end
