(* ===== verification/Engine_Compensation.thy ===== *)
theory Engine_Compensation
  imports Engine_Facts
begin

text \<open>
  How a lifecycle transition treats the compensation it concerns: it starts one
  (\<open>compensation_started\<close>), moves the operation's own one (\<open>compensation_moved\<close>), or leaves every
  compensation alone and the operation outside the compensation states
  (\<open>compensation_kept\<close>). \<open>perform_operation_compensation\<close> shows these are the only cases.
\<close>

section \<open>Compensations under a lifecycle transition\<close>

definition COMPENSATION_STATES :: "operation_state list" where
  "COMPENSATION_STATES =
     [OS_COMPENSATING, OS_COMPENSATION_UNKNOWN, OS_COMPENSATED, OS_COMPENSATION_FAILED]"

definition compensation_started :: "journal \<Rightarrow> operation \<Rightarrow> operation \<Rightarrow> journal \<Rightarrow> bool" where
  "compensation_started j a b j' \<longleftrightarrow>
     op_state b = OS_COMPENSATING \<and>
     (\<exists>c. cm_state c = CS_PENDING \<and> cm_original_operation_id c = op_id a \<and>
        op_compensation_id b = Some (cm_id c) \<and> cp_get (cm_id c) j = None \<and>
        (\<forall>k. cp_get k j' = (if k = cm_id c then Some c else cp_get k j)))"

definition compensation_moved :: "journal \<Rightarrow> operation \<Rightarrow> operation \<Rightarrow> journal \<Rightarrow> bool" where
  "compensation_moved j a b j' \<longleftrightarrow>
     op_compensation_id b = op_compensation_id a \<and>
     (\<exists>c c'. op_compensation_id a = Some (cm_id c) \<and> cp_get (cm_id c) j = Some c \<and>
        cm_original_operation_id c = op_id a \<and>
        op_state a = PARENT_FOR_COMPENSATION_STATE (cm_state c) \<and>
        c' = c\<lparr>cm_state := cm_state c', cm_version := cm_version c + 1, cm_updated_at := cm_updated_at c'\<rparr> \<and>
        op_state b = PARENT_FOR_COMPENSATION_STATE (cm_state c') \<and>
        ((cm_state c, cm_state c') \<in> set LEGAL_COMPENSATION_TRANSITIONS \<or> cm_state c' = cm_state c) \<and>
        (\<forall>k. cp_get k j' = (if k = cm_id c then Some c' else cp_get k j)))"

definition compensation_kept :: "journal \<Rightarrow> operation \<Rightarrow> operation \<Rightarrow> journal \<Rightarrow> bool" where
  "compensation_kept j a b j' \<longleftrightarrow>
     op_compensation_id b = op_compensation_id a \<and> op_state b \<notin> set COMPENSATION_STATES \<and>
     (\<forall>k. cp_get k j' = cp_get k j)"

lemma evaluate_preconditions_None:
  "evaluate_preconditions command o' related = Inr None \<longleftrightarrow>
     check_actor (oc_kind command) (oc_actor command) (cmd_approval (oc_body command))
       (oc_occurred_at command) = None \<and>
     check_outbox_id (oc_kind command) (oc_body command) = None \<and>
     check_body command o' related = Inr None"
  by (auto simp: evaluate_preconditions_def split: option.split_asm option.split)

lemma started_compensation_facts:
  assumes "started_compensation_of (oc_body command) = Some c"
    and "oc_kind command = body_kind (oc_body command)" and "check_body command o' related = Inr None"
  shows "cm_state c = CS_PENDING" and "cm_original_operation_id c = op_id o'"
    and "snd (KIND_TO_EDGE (oc_kind command)) = OS_COMPENSATING"
    and "COMPENSATION_TARGET_STATE (oc_kind command) = None"
  using assms
  by (cases "oc_body command";
      simp add: started_compensation_of_def check_body_def check_compensation_start_None
        COMPENSATION_TARGET_STATE_def)+

lemma moved_compensation_facts:
  assumes "COMPENSATION_TARGET_STATE (oc_kind command) = Some t"
    and "oc_kind command = body_kind (oc_body command)" and "check_body command o' related = Inr None"
  obtains c where "rr_compensation related = Some c" and "op_compensation_id o' = Some (cm_id c)"
    and "cm_original_operation_id c = op_id o'"
    and "op_state o' = PARENT_FOR_COMPENSATION_STATE (cm_state c)"
    and "check_compensation_target (oc_kind command) c = None"
    and "oc_kind command \<notin> set ESCALATE_KINDS"
    and "started_compensation_of (oc_body command) = None"
  using assms
  by (cases "oc_body command";
      simp add: COMPENSATION_TARGET_STATE_def check_body_def started_compensation_of_def
        ESCALATE_KINDS_def; elim check_compensation_outcome_None; simp)

lemma other_kinds_facts:
  assumes "COMPENSATION_TARGET_STATE (body_kind b) = None" and "started_compensation_of b = None"
  shows "snd (KIND_TO_EDGE (body_kind b)) \<notin> set COMPENSATION_STATES"
  using assms
  by (cases b) (simp_all add: COMPENSATION_TARGET_STATE_def started_compensation_of_def
      COMPENSATION_STATES_def)

lemma perform_operation_writes:
  assumes "perform_operation command a related j = Inr (r, j')"
  obtains m ja where "write_related command related j = Inr (m, ja)" and "same_compensations ja j'"
    and "tr_compensation r = m"
  using assms
  by (auto simp: perform_operation_Inr op_update_cas_Inr same_compensations_def
      dest!: append_audits_events(1) insert_outbox_Inr)

lemma write_compensation_state_Inr:
  assumes "write_compensation_state command (Some c) j = Inr (m, j')"
    and "COMPENSATION_TARGET_STATE (oc_kind command) = Some t"
  obtains c' where "m = Some c'"
    and "c' = c\<lparr>cm_state := t, cm_version := cm_version c + 1, cm_updated_at := cm_updated_at c'\<rparr>"
    and "\<And>k. cp_get k j' = (if k = cm_id c then Some c' else cp_get k j)"
proof -
  from assms obtain c' where m: "m = Some c'" and rep: "replace_compensation c t (cm_version c + 1)
      (oc_occurred_at command) = Inr c'" and cas: "cp_update_cas (cm_version c) c' j = Inr j'"
    by (auto simp: write_compensation_state_def next_version_Inr)
  have c': "c' = c\<lparr>cm_state := t, cm_version := cm_version c + 1, cm_updated_at := cm_updated_at c'\<rparr>"
    using rep by (auto simp: replace_compensation_def make_compensation_Inr)
  then have "cm_id c' = cm_id c" by (metis compensation.select_convs(2) compensation.surjective
      compensation.update_convs(5,6,15))
  then show thesis using that [OF m c'] cpst.load_cas [OF cas] by simp
qed

lemma perform_operation_compensation:
  assumes kind: "oc_kind command = body_kind (oc_body command)"
    and pre: "evaluate_preconditions command a (load_related command a j) = Inr None"
    and perform: "perform_operation command a (load_related command a j) j = Inr (r, j')"
    and b: "op_state b = snd (KIND_TO_EDGE (oc_kind command))"
      "op_compensation_id b =
        or_unchanged (map_option cm_id (started_compensation_of (oc_body command))) (op_compensation_id a)"
  shows "compensation_started j a b j' \<or> compensation_moved j a b j' \<or> compensation_kept j a b j'"
proof -
  let ?rel = "load_related command a j"
  from perform obtain m j1 where w: "write_related command ?rel j = Inr (m, j1)"
    and last: "same_compensations j1 j'" by (rule perform_operation_writes)
  from w obtain ja jb jc where ja: "same_compensations j ja"
    and st: "write_started_compensation (oc_body command) ja = Inr jb" and jc: "same_compensations jb jc"
    and mv: "write_compensation_state command
          (case started_compensation_of (oc_body command) of None \<Rightarrow> rr_compensation ?rel | Some c \<Rightarrow> Some c)
          jc = Inr (m, j1)" by (rule write_related_stages)
  from pre have body: "check_body command a ?rel = Inr None" by (simp add: evaluate_preconditions_None)
  note get = same_compensations_cp_get [OF ja] same_compensations_cp_get [OF jc]
    same_compensations_cp_get [OF last]
  show ?thesis
  proof (cases "started_compensation_of (oc_body command)")
    case (Some c)
    note facts = started_compensation_facts [OF Some kind body]
    from st Some have ins: "cp_insert c ja = Inr jb" by (simp add: write_started_compensation_def)
    from mv facts(4) have "j1 = jc" by (simp add: write_compensation_state_def)
    with ins get cptb.load_add [OF ins] cptb.add_fresh [OF ins] facts b Some
    have "compensation_started j a b j'" by (auto simp: compensation_started_def or_unchanged_def)
    then show ?thesis by blast
  next
    case None
    with st have jb: "jb = ja" by (simp add: write_started_compensation_def)
    show ?thesis
    proof (cases "COMPENSATION_TARGET_STATE (oc_kind command)")
      case None': None
      with mv have "j1 = jc" by (simp add: write_compensation_state_def)
      with other_kinds_facts [of "oc_body command"] None None' kind b get jb
      have "compensation_kept j a b j'" by (simp add: compensation_kept_def or_unchanged_def)
      then show ?thesis by blast
    next
      case (Some t)
      from moved_compensation_facts [OF Some kind body] obtain c where
          rel: "rr_compensation ?rel = Some c" and id: "op_compensation_id a = Some (cm_id c)"
        and c: "cm_original_operation_id c = op_id a"
          "op_state a = PARENT_FOR_COMPENSATION_STATE (cm_state c)"
        and chk: "check_compensation_target (oc_kind command) c = None"
        and k: "oc_kind command \<notin> set ESCALATE_KINDS" by metis
      note target = check_compensation_target_None [OF chk k Some]
      from mv rel None have "write_compensation_state command (Some c) jc = Inr (m, j1)" by simp
      then obtain c' where
          c': "c' = c\<lparr>cm_state := t, cm_version := cm_version c + 1, cm_updated_at := cm_updated_at c'\<rparr>"
        and load: "\<And>k. cp_get k j1 = (if k = cm_id c then Some c' else cp_get k jc)"
        using write_compensation_state_Inr [OF _ Some] by metis
      have "cm_state c' = t" by (subst c') simp
      moreover have "cp_get (cm_id c) j = Some c" using rel id by (simp add: load_related_def Let_def)
      ultimately have "compensation_moved j a b j'"
        unfolding compensation_moved_def
        using id c target b None get load jb c' by (auto simp: or_unchanged_def)
      then show ?thesis by blast
    qed
  qed
qed

end
