(* ===== verification/Outbox_Relay.thy ===== *)
theory Outbox_Relay
  imports Engine_Facts
begin

text \<open>
  The transactional-outbox relay (\<^verbatim>\<open>messaging/relay.py\<close>) and the two evidence writers outside the
  engine (\<^verbatim>\<open>runtime/attempt.py\<close>, \<^verbatim>\<open>recovery/persist.py\<close>). The broker is a parameter \<open>publish\<close>
  that accepts a message or raises; \<open>clock\<close> gives the successive readings of the injected clock;
  \<open>uuid5\<close> is the name-based id of the standard library (a hash of the name it is given) and
  \<open>message_ids\<close> the injected factory of message ids. \<open>locked\<close> marks rows other transactions hold.
\<close>

section \<open>Publishing\<close>

definition message_for :: "outbox_event \<Rightarrow> opaque_id \<Rightarrow> work_message fallible" where
  "message_for event message_id =
     (let m = \<lparr>wm_contract_version = CONTRACT_VERSION, wm_message_id = message_id,
               wm_outbox_event_id = ox_id event, wm_operation_id = ox_aggregate_id event,
               wm_expected_operation_version = ox_operation_version event,
               wm_command = ox_command event, wm_correlation_id = ox_correlation_id event,
               wm_created_at = ox_created_at event\<rparr>
      in bind_err (validate_work_message m) (\<lambda>_. Inr m))"

definition publish_one ::
  "(opaque_id \<Rightarrow> bool) \<Rightarrow> (opaque_id \<Rightarrow> opaque_id) \<Rightarrow> (work_message \<Rightarrow> unit fallible) \<Rightarrow>
   utc_timestamp \<Rightarrow> journal \<Rightarrow> (bool \<times> journal) fallible" where
  "publish_one locked message_ids publish now j =
     bind_err (ox_list_pending_for_claim locked 1 j) (\<lambda>pending.
     case pending of
       [] \<Rightarrow> Inr (False, j)
     | event # _ \<Rightarrow>
         bind_err (message_for event (message_ids (ox_id event))) (\<lambda>message.
         bind_err (publish message) (\<lambda>_.
         bind_err (ox_mark_published (ox_id event) now j) (\<lambda>j'. Inr (True, j')))))"

text \<open>
  \<open>publish_pending\<close>: at most \<open>limit\<close> rounds, each its own unit of work, ending early when nothing
  is pending. An exception ends the loop; the rounds already committed stay.
\<close>

primrec publish_rounds ::
  "(opaque_id \<Rightarrow> bool) \<Rightarrow> (opaque_id \<Rightarrow> opaque_id) \<Rightarrow> (work_message \<Rightarrow> unit fallible) \<Rightarrow>
   (nat \<Rightarrow> utc_timestamp) \<Rightarrow> nat \<Rightarrow> nat \<Rightarrow> journal \<Rightarrow> nat fallible \<times> journal" where
  "publish_rounds locked message_ids publish clock 0 published j = (Inr published, j)"
| "publish_rounds locked message_ids publish clock (Suc n) published j =
     (case unit_of_work (publish_one locked message_ids publish (clock published)) j of
        (Inl e, j') \<Rightarrow> (Inl e, j')
      | (Inr True, j') \<Rightarrow> publish_rounds locked message_ids publish clock n (Suc published) j'
      | (Inr False, j') \<Rightarrow> (Inr published, j'))"

definition publish_pending ::
  "(opaque_id \<Rightarrow> bool) \<Rightarrow> (opaque_id \<Rightarrow> opaque_id) \<Rightarrow> (work_message \<Rightarrow> unit fallible) \<Rightarrow>
   (nat \<Rightarrow> utc_timestamp) \<Rightarrow> int \<Rightarrow> journal \<Rightarrow> nat fallible \<times> journal" where
  "publish_pending locked message_ids publish clock limit j =
     (if limit < 1 then (Inl (PyValueError ''limit must be >= 1''), j)
      else publish_rounds locked message_ids publish clock (nat limit) 0 j)"

section \<open>Recovering stranded work\<close>

definition RECOVERY_REPUBLISHED_REASON :: string where
  "RECOVERY_REPUBLISHED_REASON = ''messaging.recovery_republished''"

definition RECOVERY_EXHAUSTED_REASON :: string where
  "RECOVERY_EXHAUSTED_REASON = ''messaging.recovery_exhausted''"

definition RELAY_RECOVERY_ACTOR :: principal_ref where
  "RELAY_RECOVERY_ACTOR =
     \<lparr>pr_type = PT_SERVICE, pr_id = ''stateback.outbox_recovery'',
      pr_display_name = Some ''StatebackOutboxRecovery''\<rparr>"

definition COMMAND_STATES :: "work_command \<Rightarrow> operation_state list" where
  "COMMAND_STATES c =
     (case c of
        WC_EXECUTE \<Rightarrow> [OS_READY, OS_EXECUTING]
      | WC_VERIFY \<Rightarrow> [OS_EXECUTING, OS_UNKNOWN, OS_VERIFYING, OS_COMPENSATING, OS_COMPENSATION_UNKNOWN]
      | WC_COMPENSATE \<Rightarrow> [OS_COMPENSATING, OS_COMPENSATION_UNKNOWN, OS_COMPENSATION_FAILED])"

definition recovery_id :: "(string \<Rightarrow> string) \<Rightarrow> opaque_id \<Rightarrow> string \<Rightarrow> opaque_id fallible" where
  "recovery_id uuid5 source_event_id purpose =
     make_opaque_id
       (uuid5 (''stateback:outbox-recovery:'' @ oid_value source_event_id @ '':'' @ purpose))"

text \<open>The test a candidate must still pass once its operation is locked.\<close>

definition still_stranded ::
  "utc_timestamp \<Rightarrow> outbox_event \<Rightarrow> operation \<Rightarrow> outbox_event option \<Rightarrow> bool" where
  "still_stranded cutoff source operation latest \<longleftrightarrow>
     (case latest of None \<Rightarrow> False | Some l \<Rightarrow> ox_id l = ox_id source) \<and>
     ox_state source = OB_PUBLISHED \<and>
     (case ox_published_at source of None \<Rightarrow> False | Some p \<Rightarrow> p \<le> cutoff) \<and>
     op_state operation \<in> set (COMMAND_STATES (ox_command source))"

definition republish ::
  "(string \<Rightarrow> string) \<Rightarrow> utc_timestamp \<Rightarrow> outbox_event \<Rightarrow> operation \<Rightarrow> journal \<Rightarrow> journal fallible" where
  "republish uuid5 now source operation j =
     bind_err (recovery_id uuid5 (ox_id source) ''outbox'') (\<lambda>replay_id.
     bind_err (recovery_id uuid5 (ox_id source) ''audit'') (\<lambda>audit_id.
     bind_err (build_outbox_event replay_id (op_id operation) (op_version operation) (ox_command source)
                 now (ox_correlation_id source)) (\<lambda>event.
     bind_err (ox_insert event j) (\<lambda>j1.
     bind_err (json_from_plain (PyDict
         [(PyStr ''source_outbox_event_id'', PyStr (oid_value (ox_id source))),
          (PyStr ''recovery_outbox_event_id'', PyStr (oid_value replay_id)),
          (PyStr ''command'', PyStr (work_command_value (ox_command source)))])) (\<lambda>data.
     bind_err (build_audit_event audit_id (op_id operation) (au_next_sequence (op_id operation) j1)
         AE_OUTBOX_DIAGNOSTIC None None (op_version operation) (Some RELAY_RECOVERY_ACTOR)
         RECOVERY_REPUBLISHED_REASON data (ox_correlation_id source) now) (\<lambda>diagnostic.
     au_append diagnostic j1))))))"

definition exhaust ::
  "(string \<Rightarrow> string) \<Rightarrow> utc_timestamp \<Rightarrow> int \<Rightarrow> outbox_event \<Rightarrow> operation \<Rightarrow> journal \<Rightarrow> journal fallible" where
  "exhaust uuid5 now max_recoveries source operation j =
     bind_err (recovery_id uuid5 (ox_id source) ''exhausted'') (\<lambda>audit_id.
     bind_err (escalate_messaging_recovery
         \<lparr>es_operation_id = op_id operation, es_expected_version = op_version operation,
          es_occurred_at = now, es_actor = RELAY_RECOVERY_ACTOR,
          es_correlation_id = ox_correlation_id source, es_reason_code = RECOVERY_EXHAUSTED_REASON,
          es_transition_audit_event_id = audit_id, es_command = ox_command source,
          es_max_recoveries = max_recoveries\<rparr> j) (\<lambda>r.
     if tr_outcome (fst r) \<noteq> TO_APPLIED
     then Inl (PyRuntimeError ''messaging recovery escalation rejected'')
     else Inr (snd r)))"

text \<open>The body of the loop for one candidate: was it republished, and the journal after.\<close>

definition recover_candidate ::
  "(string \<Rightarrow> string) \<Rightarrow> utc_timestamp \<Rightarrow> utc_timestamp \<Rightarrow> int \<Rightarrow> opaque_id \<Rightarrow> journal \<Rightarrow>
   (bool \<times> journal) fallible" where
  "recover_candidate uuid5 now cutoff max_recoveries candidate_id j =
     (case ox_get candidate_id j of
        None \<Rightarrow> Inr (False, j)
      | Some source \<Rightarrow>
          (case op_get (ox_aggregate_id source) j of
             None \<Rightarrow> Inr (False, j)
           | Some operation \<Rightarrow>
               if \<not> still_stranded cutoff source operation (ox_latest_for_operation (op_id operation) j)
               then Inr (False, j)
               else if max_recoveries \<le> int (au_count_reason_for_command (op_id operation)
                         RECOVERY_REPUBLISHED_REASON (ox_command source) (op_version operation) j)
               then (if au_count_reason_for_command (op_id operation) RECOVERY_EXHAUSTED_REASON
                          (ox_command source) (op_version operation) j = 0
                     then bind_err (exhaust uuid5 now max_recoveries source operation j)
                            (\<lambda>j'. Inr (False, j'))
                     else Inr (False, j))
               else bind_err (republish uuid5 now source operation j) (\<lambda>j'. Inr (True, j'))))"

fun recover_candidates ::
  "(string \<Rightarrow> string) \<Rightarrow> utc_timestamp \<Rightarrow> utc_timestamp \<Rightarrow> int \<Rightarrow> nat \<Rightarrow> opaque_id list \<Rightarrow> journal \<Rightarrow>
   nat fallible \<times> journal" where
  "recover_candidates uuid5 now cutoff max_recoveries recovered [] j = (Inr recovered, j)"
| "recover_candidates uuid5 now cutoff max_recoveries recovered (c # cs) j =
     (case unit_of_work (recover_candidate uuid5 now cutoff max_recoveries c) j of
        (Inl e, j') \<Rightarrow> (Inl e, j')
      | (Inr done, j') \<Rightarrow>
          recover_candidates uuid5 now cutoff max_recoveries
            (if done then Suc recovered else recovered) cs j')"

definition recover_stranded ::
  "(string \<Rightarrow> string) \<Rightarrow> utc_timestamp \<Rightarrow> int \<Rightarrow> int \<Rightarrow> int \<Rightarrow> journal \<Rightarrow> nat fallible \<times> journal" where
  "recover_stranded uuid5 now limit after_seconds max_recoveries j =
     (if limit < 1 then (Inl (PyValueError ''limit must be >= 1''), j)
      else if after_seconds < 1 then (Inl (PyValueError ''after_seconds must be >= 1''), j)
      else if max_recoveries < 1 then (Inl (PyValueError ''max_recoveries must be >= 1''), j)
      else
        let cutoff = UtcTimestamp (ts_value now - after_seconds * 1000000) in
        case ox_list_stranded_candidate_ids cutoff limit j of
          Inl e \<Rightarrow> (Inl e, j)
        | Inr candidate_ids \<Rightarrow> recover_candidates uuid5 now cutoff max_recoveries 0 candidate_ids j)"

section \<open>Evidence writers\<close>

definition persist_attempt_evidence :: "execution_attempt \<Rightarrow> journal \<Rightarrow> (unit \<times> journal) fallible" where
  "persist_attempt_evidence completed j = bind_err (at_complete completed j) (\<lambda>j'. Inr ((), j'))"

text \<open>
  \<open>persist_verification_result\<close>: idempotent on the outcome. A journal changes only between units
  of work here, so the source's branch that reads the row again after losing a race to another
  transaction is not reached.
\<close>

definition persist_verification_result ::
  "verification_result \<Rightarrow> journal \<Rightarrow> (unit \<times> journal) fallible" where
  "persist_verification_result result j =
     (case vf_get (vs_id result) j of
        None \<Rightarrow> Inl (PersistenceError ''not_found'')
      | Some row \<Rightarrow>
          (case snd row of
             Some existing \<Rightarrow>
               if vs_outcome existing = vs_outcome result then Inr ((), j)
               else Inl (PersistenceError ''check_violation'')
           | None \<Rightarrow> bind_err (vf_complete result j) (\<lambda>j'. Inr ((), j'))))"

end
