(* ===== verification/System_Steps.thy ===== *)
theory System_Steps
  imports Engine_Compensation Outbox_Relay
begin

text \<open>
  The system as a step relation over journals: every function of the code base that writes the
  journal is one of its rules (the transition engine through its two entry points, the relay's
  publication and recovery, the two evidence writers). \<open>reachable\<close> journals are those a sequence
  of such steps produces from the empty one, in any interleaving; a rolled-back unit of work is
  no step. The invariants hold in every reachable journal, and so in every committed one.
\<close>

section \<open>Steps and reachable journals\<close>

inductive system_step :: "journal \<Rightarrow> journal \<Rightarrow> bool" where
  command: "apply_command command j = Inr (r, j') \<Longrightarrow> system_step j j'"
| escalate: "escalate_messaging_recovery e j = Inr (r, j') \<Longrightarrow> system_step j j'"
| publish: "publish_one locked message_ids publisher now j = Inr (b, j') \<Longrightarrow> system_step j j'"
| recover: "recover_candidate uuid5 now cutoff max_recoveries c j = Inr (b, j') \<Longrightarrow> system_step j j'"
| attempt_evidence: "persist_attempt_evidence a j = Inr (u, j') \<Longrightarrow> system_step j j'"
| verification_evidence: "persist_verification_result v j = Inr (u, j') \<Longrightarrow> system_step j j'"

inductive reachable :: "journal \<Rightarrow> bool" where
  empty: "reachable empty_journal"
| step: "reachable j \<Longrightarrow> system_step j j' \<Longrightarrow> reachable j'"


section \<open>What a step does\<close>

text \<open>No operation changes, and the audit log gains only a numbered batch of one operation's events.\<close>
definition quiet :: "journal \<Rightarrow> journal \<Rightarrow> bool" where
  "quiet j j' \<longleftrightarrow>
     j_operations j' = j_operations j \<and>
     (\<exists>i es. j_audit_events j' = j_audit_events j @ es \<and> (es = [] \<or> op_exists i j) \<and>
        list_all (\<lambda>e. au_operation_id e = i \<and> au_event_type e \<noteq> AE_OPERATION_TRANSITIONED \<and>
          validate_audit_event e = Inr ()) es \<and>
        map au_sequence es = map (\<lambda>n. au_next_sequence i j + int n) [0..<length es])"

text \<open>Any compensation change happens below a COMPENSATING operation and keeps it consistent.\<close>

definition compensation_progressed :: "journal \<Rightarrow> journal \<Rightarrow> bool" where
  "compensation_progressed j j' \<longleftrightarrow>
     (\<forall>k. cp_get k j' = cp_get k j) \<or>
     (\<exists>c c'. cp_get (cm_id c) j = Some c \<and>
        c' = c\<lparr>cm_state := cm_state c', cm_version := cm_version c + 1, cm_updated_at := cm_updated_at c'\<rparr> \<and>
        PARENT_FOR_COMPENSATION_STATE (cm_state c) = OS_COMPENSATING \<and>
        PARENT_FOR_COMPENSATION_STATE (cm_state c') = OS_COMPENSATING \<and>
        (\<forall>k. cp_get k j' = (if k = cm_id c then Some c' else cp_get k j)))"

definition created :: "journal \<Rightarrow> operation \<Rightarrow> journal \<Rightarrow> bool" where
  "created j o' j' \<longleftrightarrow>
     op_state o' = OS_PENDING_POLICY \<and> op_version o' = 1 \<and> op_get (op_id o') j = None \<and>
     (\<forall>i. op_get i j' = (if i = op_id o' then Some o' else op_get i j)) \<and>
     (\<forall>k. cp_get k j' = cp_get k j) \<and>
     (\<exists>e. j_audit_events j' = j_audit_events j @ [e] \<and> au_operation_id e = op_id o' \<and>
        au_sequence e = 1 \<and> au_event_type e = AE_OPERATION_CREATED \<and>
        validate_audit_event e = Inr ())"

definition transitioned :: "journal \<Rightarrow> operation \<Rightarrow> operation \<Rightarrow> journal \<Rightarrow> bool" where
  "transitioned j a b j' \<longleftrightarrow>
     (\<exists>es. transition_effect j a b es j') \<and>
     (compensation_started j a b j' \<or> compensation_moved j a b j' \<or> compensation_kept j a b j')"

lemma op_exists_get: "op_exists i j \<longleftrightarrow> op_get i j \<noteq> None"
  by (simp add: op_exists_def op_get_def tbl_get_None_iff)

lemma quiet_refl: "quiet j j"
  unfolding quiet_def by (intro conjI exI [of _ "[]"]) simp_all

lemma quiet_same:
  "j_operations j' = j_operations j \<Longrightarrow> j_audit_events j' = j_audit_events j \<Longrightarrow> quiet j j'"
  unfolding quiet_def by (intro conjI exI [of _ "[]"]) simp_all

lemma progress_step_effect:
  assumes "progress_step command j r j'"
  shows "quiet j j'" and "compensation_progressed j j'"
proof -
  from assms obtain loaded c c' es where eff: "progress_effect j loaded c c' es j'"
    by (auto simp: progress_step_def)
  show "quiet j j'"
    unfolding quiet_def using eff
    by (intro conjI exI [of _ "op_id loaded"] exI [of _ es]) (auto simp: progress_effect_def progress_audit_def op_exists_get list_all_iff)
  show "compensation_progressed j j'"
    unfolding compensation_progressed_def using eff unfolding progress_effect_def by blast
qed

lemma created_effect:
  assumes "apply_create command j = Inr (r, j')" and "\<not> changes_nothing j r j'"
  shows "created j (cc_operation command) j'"
proof -
  from assms create_effect [OF assms(1)] obtain e where
      o': "op_state (cc_operation command) = OS_PENDING_POLICY" "op_version (cc_operation command) = 1"
    and ins: "op_insert (cc_operation command) j = Inr (j'\<lparr>j_audit_events := j_audit_events j\<rparr>)"
    and j': "j' = j\<lparr>j_operations := j_operations j @ [cc_operation command],
              j_audit_events := j_audit_events j @ [e]\<rparr>"
    and e: "au_operation_id e = op_id (cc_operation command)" "au_sequence e = 1"
      "au_event_type e = AE_OPERATION_CREATED" "validate_audit_event e = Inr ()" by blast
  have "op_get i (j'\<lparr>j_audit_events := j_audit_events j\<rparr>) = op_get i j'" for i by (simp add: op_get_def)
  then have "op_get i j' = (if i = op_id (cc_operation command) then Some (cc_operation command) else op_get i j)"
    for i using optb.load_add [OF ins, of i] by simp
  moreover have "cp_get k j' = cp_get k j" for k by (simp add: j' cp_get_def)
  ultimately show ?thesis using o' e optb.add_fresh [OF ins] by (simp add: created_def j')
qed

lemma operation_effect:
  assumes "apply_operation command j = Inr (r, j')" and "oc_kind command = body_kind (oc_body command)"
    and "\<not> changes_nothing j r j'"
  shows "\<exists>a b. transitioned j a b j'"
  using assms(1)
proof (cases rule: apply_operation_Inr)
  case (performed a)
  from performed obtain b es where eff: "transition_effect j a b es j'"
    and b: "op_state b = snd (KIND_TO_EDGE (oc_kind command))"
    and r: "tr_operation r = Some b"
    using perform_operation_effect [OF performed(1,3,5)] by (metis applied_fields(1))
  from performed(5) r have "op_compensation_id b =
      or_unchanged (map_option cm_id (started_compensation_of (oc_body command))) (op_compensation_id a)"
    by (auto simp: perform_operation_Inr dest!: replace_for_kind_Inr(9))
  from perform_operation_compensation [OF assms(2) performed(4,5) b this] eff
  show ?thesis unfolding transitioned_def by blast
qed (use assms in simp)

lemma escalate_transitioned:
  assumes "escalate_messaging_recovery e j = Inr (r, j')" and "\<not> changes_nothing j r j'"
  shows "\<exists>a b. transitioned j a b j'"
proof -
  from assms escalation_effect [OF assms(1)] obtain a b ev where
      eff: "transition_effect j a b [ev] j'" and b: "op_state b = OS_MANUAL_INTERVENTION"
      "op_compensation_id b = op_compensation_id a" and c: "j_compensations j' = j_compensations j" by blast
  have "compensation_kept j a b j'"
    using b c by (simp add: compensation_kept_def COMPENSATION_STATES_def cp_get_def)
  with eff show ?thesis unfolding transitioned_def by blast
qed

lemma republish_effect:
  assumes "republish uuid5 now source o' j = Inr j'" and "op_get (op_id o') j = Some o'"
  shows "quiet j j'" and "j_compensations j' = j_compensations j"
proof -
  from assms(1) obtain x ev d data where
      ev: "build_audit_event d (op_id o')
        (au_next_sequence (op_id o') (j\<lparr>j_outbox_events := j_outbox_events j @ [x]\<rparr>))
        AE_OUTBOX_DIAGNOSTIC None None (op_version o') (Some RELAY_RECOVERY_ACTOR)
        RECOVERY_REPUBLISHED_REASON data (ox_correlation_id source) now = Inr ev"
    and app: "au_append ev (j\<lparr>j_outbox_events := j_outbox_events j @ [x]\<rparr>) = Inr j'"
    unfolding republish_def by (simp add: ox_insert_Inr del: json_from_plain.simps) blast
  have "au_operation_id ev = op_id o'" "au_event_type ev = AE_OUTBOX_DIAGNOSTIC"
      "au_sequence ev = au_next_sequence (op_id o') j" "validate_audit_event ev = Inr ()"
    using ev by (auto simp: build_audit_event_def make_audit_event_Inr intro: au_next_sequence_cong)
  with app assms(2) show "quiet j j'"
    unfolding quiet_def
    by (intro conjI exI [of _ "op_id o'"] exI [of _ "[ev]"]) (auto simp: au_append_Inr op_exists_get)
  from app show "j_compensations j' = j_compensations j" by (auto simp: au_append_Inr)
qed

lemma recover_candidate_effect:
  assumes "recover_candidate uuid5 now cutoff m c j = Inr (b, j')"
  shows "quiet j j' \<and> j_compensations j' = j_compensations j \<or> (\<exists>a b. transitioned j a b j')"
proof -
  from assms consider "j' = j"
    | source o' i where "op_get i j = Some o'" "republish uuid5 now source o' j = Inr j'"
    | source o' where "exhaust uuid5 now m source o' j = Inr j'"
    by (auto simp: recover_candidate_def split: option.split_asm if_split_asm)
  then show ?thesis
  proof cases
    case 1
    then show ?thesis by (simp add: quiet_refl)
  next
    case 2
    then show ?thesis using republish_effect op_get_key by metis
  next
    case 3
    then obtain e r where esc: "escalate_messaging_recovery e j = Inr (r, j')"
      and "tr_outcome r = TO_APPLIED"
      by (auto simp: exhaust_def split: if_split_asm)
    then have "\<not> changes_nothing j r j'" by (simp add: changes_nothing_def)
    with esc show ?thesis using escalate_transitioned by blast
  qed
qed

lemma apply_command_effect:
  assumes "apply_command command j = Inr (r, j')"
  shows "changes_nothing j r j' \<or> quiet j j' \<and> compensation_progressed j j' \<or>
    (\<exists>o'. created j o' j') \<or> (\<exists>a b. transitioned j a b j')"
proof (cases command)
  case (CreateOperation c)
  with assms created_effect [of c j r j'] show ?thesis
    by (auto simp: apply_command_def split: if_split_asm)
next
  case (OperationCommand c)
  with assms operation_effect [of c j r j'] show ?thesis
    by (auto simp: apply_command_def split: if_split_asm)
next
  case (ClaimCompensationExecution c)
  with assms have "apply_claim_compensation c j = Inr (r, j')"
    by (auto simp: apply_command_def split: if_split_asm)
  from apply_claim_compensation_Inr [OF this] progress_step_effect [of c j r j'] show ?thesis by blast
next
  case (StartCompensationVerification c)
  with assms have "apply_start_compensation_verification c j = Inr (r, j')"
    by (auto simp: apply_command_def split: if_split_asm)
  from apply_start_compensation_verification_Inr [OF this] progress_step_effect [of c j r j']
  show ?thesis by blast
next
  case (ClaimCompensationRetryAttempt c)
  with assms have "apply_claim_compensation_retry_attempt c j = Inr (r, j')"
    by (auto simp: apply_command_def split: if_split_asm)
  from apply_claim_compensation_retry_attempt_Inr [OF this] progress_step_effect [of c j r j']
  show ?thesis by blast
next
  case (RetryCompensationAfterVerification c)
  with assms have "apply_retry_compensation_after_verification c j = Inr (r, j')"
    by (auto simp: apply_command_def split: if_split_asm)
  from apply_retry_compensation_after_verification_Inr [OF this] progress_step_effect [of c j r j']
  show ?thesis by blast
qed

lemma same_compensations_progressed: "j_compensations j' = j_compensations j \<Longrightarrow> compensation_progressed j j'"
  by (simp add: compensation_progressed_def cp_get_def)

lemma ox_mark_published_frame:
  "ox_mark_published i t j = Inr j' \<Longrightarrow>
     j_operations j' = j_operations j \<and> j_audit_events j' = j_audit_events j \<and>
     j_compensations j' = j_compensations j"
  by (auto simp: ox_mark_published_def split: option.split_asm if_split_asm)

lemma publish_one_effect:
  assumes "publish_one locked message_ids publisher now j = Inr (b, j')"
  shows "quiet j j' \<and> j_compensations j' = j_compensations j"
proof -
  from assms obtain pending where "ox_list_pending_for_claim locked 1 j = Inr pending"
    and "(case pending of [] \<Rightarrow> Inr (False, j)
      | event # _ \<Rightarrow>
         bind_err (message_for event (message_ids (ox_id event))) (\<lambda>message.
         bind_err (publisher message) (\<lambda>_.
         bind_err (ox_mark_published (ox_id event) now j) (\<lambda>j'. Inr (True, j'))))) = Inr (b, j')"
    by (auto simp: publish_one_def)
  then show ?thesis
    by (cases pending) (auto simp: quiet_refl dest: ox_mark_published_frame intro: quiet_same)
qed

lemma evidence_effect:
  "persist_attempt_evidence a j = Inr (u, j') \<Longrightarrow> quiet j j' \<and> j_compensations j' = j_compensations j"
  "persist_verification_result v j = Inr (u, j') \<Longrightarrow> quiet j j' \<and> j_compensations j' = j_compensations j"
  by (auto simp: persist_attempt_evidence_def persist_verification_result_def at_complete_Inr
      vf_complete_Inr quiet_refl intro!: quiet_same split: option.split_asm if_split_asm)

text \<open>Every step is quiet, creates one operation, or takes one operation over a listed edge.\<close>

lemma system_step_cases:
  assumes "system_step j j'"
  obtains (quiet) "quiet j j'" and "compensation_progressed j j'"
  | (created) o' where "created j o' j'"
  | (transitioned) a b where "transitioned j a b j'"
  using assms
proof cases
  case (command command r)
  have "changes_nothing j r j' \<Longrightarrow> quiet j j' \<and> compensation_progressed j j'"
    by (simp add: changes_nothing_def quiet_refl same_compensations_progressed)
  with apply_command_effect [OF command] that show thesis by blast
next
  case (escalate e r)
  have "changes_nothing j r j' \<Longrightarrow> quiet j j' \<and> compensation_progressed j j'"
    by (simp add: changes_nothing_def quiet_refl same_compensations_progressed)
  with escalate_transitioned [OF escalate] that show thesis by blast
next
  case publish
  with publish_one_effect [OF publish] that(1) same_compensations_progressed show thesis by blast
next
  case recover
  with recover_candidate_effect [OF recover] that(1,3) same_compensations_progressed show thesis by blast
next
  case attempt_evidence
  with evidence_effect(1) [OF attempt_evidence] that(1) same_compensations_progressed show thesis by blast
next
  case verification_evidence
  with evidence_effect(2) [OF verification_evidence] that(1) same_compensations_progressed
  show thesis by blast
qed

end
