(* ===== verification/System_Invariants.thy ===== *)
theory System_Invariants
  imports System_Steps
begin

text \<open>
  Invariants of the reachable journals, by rule induction over the system steps. Each is proved
  from \<open>system_step_cases\<close>: a quiet step, the creation of an operation, or one lifecycle
  transition.
\<close>

section \<open>The audit log is complete and gap free\<close>

definition audit_owned :: "journal \<Rightarrow> bool" where
  "audit_owned j \<longleftrightarrow> list_all (\<lambda>e. op_exists (au_operation_id e) j) (j_audit_events j)"

lemma created_exists: "created j o' j' \<Longrightarrow> op_exists i j' \<longleftrightarrow> i = op_id o' \<or> op_exists i j"
  by (auto simp: created_def op_exists_get)

lemma transitioned_exists: "transitioned j a b j' \<Longrightarrow> op_exists i j' \<longleftrightarrow> op_exists i j"
proof -
  assume "transitioned j a b j'"
  then obtain es where eff: "transition_effect j a b es j'" by (auto simp: transitioned_def)
  then have "op_get (op_id a) j = Some a" by (simp add: transition_effect_def)
  then show ?thesis by (simp add: op_exists_get transition_effect_get [OF eff])
qed

lemma quiet_get: "quiet j j' \<Longrightarrow> op_get i j' = op_get i j"
  by (simp add: quiet_def op_get_def)

lemma quiet_exists: "quiet j j' \<Longrightarrow> op_exists i j' \<longleftrightarrow> op_exists i j"
  by (simp add: op_exists_get quiet_get)

lemma audit_owned_step:
  assumes "system_step j j'" and own: "audit_owned j"
  shows "audit_owned j'"
  using assms(1)
proof (cases rule: system_step_cases)
  case quiet
  then show ?thesis
    using own unfolding audit_owned_def quiet_exists [OF quiet(1)] by (auto simp: quiet_def list_all_iff)
next
  case (created o')
  then show ?thesis
    using own unfolding audit_owned_def created_exists [OF created] by (auto simp: created_def list_all_iff)
next
  case (transitioned a b)
  then obtain es where log: "j_audit_events j' = j_audit_events j @ es"
    and es: "list_all (\<lambda>e. au_operation_id e = op_id a \<and> validate_audit_event e = Inr ()) es"
    and "op_get (op_id a) j = Some a"
    by (auto simp: transitioned_def transition_effect_def)
  then show ?thesis
    using own unfolding audit_owned_def transitioned_exists [OF transitioned] log
    by (auto simp: list_all_iff op_exists_get)
qed

lemma audit_owned_fresh:
  assumes "audit_owned j" and "op_get i j = None"
  shows "filter (\<lambda>e. au_operation_id e = i) (j_audit_events j) = []"
  using assms by (auto simp: audit_owned_def list_all_iff op_exists_get filter_empty_conv)

lemma contiguous_step:
  assumes "system_step j j'" and own: "audit_owned j" and "aulog.contiguous k j"
  shows "aulog.contiguous k j'"
  using assms(1)
proof (cases rule: system_step_cases)
  case quiet
  then obtain i es where log: "j_audit_events j' = j_audit_events j @ es"
    and es: "list_all (\<lambda>e. au_operation_id e = i \<and> au_event_type e \<noteq> AE_OPERATION_TRANSITIONED \<and>
      validate_audit_event e = Inr ()) es"
    and seq: "map au_sequence es = map (\<lambda>n. au_next_sequence i j + int n) [0..<length es]"
    unfolding quiet_def by blast
  have "list_all (\<lambda>e. au_operation_id e = i) es" using es by (simp add: list_all_iff)
  then show ?thesis by (rule aulog.extend_contiguous [OF log assms(3) _ seq])
next
  case (created o')
  then obtain e where log: "j_audit_events j' = j_audit_events j @ [e]"
    and e: "au_operation_id e = op_id o'" "au_sequence e = 1" and new: "op_get (op_id o') j = None"
    by (auto simp: created_def)
  have "au_next_sequence (op_id o') j = 1"
    using audit_owned_fresh [OF own new] by (simp add: au_next_sequence_def)
  with e have "map au_sequence [e] = map (\<lambda>n. au_next_sequence (op_id o') j + int n) [0..<length [e]]"
    by simp
  then show ?thesis by (rule aulog.extend_contiguous [OF log assms(3), rotated]) (simp add: e)
next
  case (transitioned a b)
  then obtain es where log: "j_audit_events j' = j_audit_events j @ es"
    and es: "list_all (\<lambda>e. au_operation_id e = op_id a \<and> validate_audit_event e = Inr ()) es"
    and seq: "map au_sequence es = map (\<lambda>n. au_next_sequence (op_id a) j + int n) [0..<length es]"
    unfolding transitioned_def transition_effect_def by blast
  have "list_all (\<lambda>e. au_operation_id e = op_id a) es" using es by (simp add: list_all_iff)
  then show ?thesis by (rule aulog.extend_contiguous [OF log assms(3) _ seq])
qed

lemma reachable_audit: "reachable j \<Longrightarrow> audit_owned j \<and> aulog.contiguous k j"
proof (induction rule: reachable.induct)
  case empty
  have "map au_sequence (filter (\<lambda>e. au_operation_id e = k) (j_audit_events empty_journal)) =
      map int [1..<Suc 0]" by (simp add: empty_journal_def)
  then show ?case unfolding aulog.contiguous_def by (auto simp: audit_owned_def empty_journal_def)
next
  case (step j j')
  then show ?case using audit_owned_step contiguous_step by blast
qed

lemma audit_valid_step:
  assumes "system_step j j'"
    and "list_all (\<lambda>e. validate_audit_event e = Inr ()) (j_audit_events j)"
  shows "list_all (\<lambda>e. validate_audit_event e = Inr ()) (j_audit_events j')"
  using assms(1)
proof (cases rule: system_step_cases)
  case quiet
  with assms(2) show ?thesis by (auto simp: quiet_def list_all_iff)
next
  case (created o')
  with assms(2) show ?thesis by (auto simp: created_def)
next
  case (transitioned a b)
  then obtain es where "j_audit_events j' = j_audit_events j @ es"
    and "list_all (\<lambda>e. au_operation_id e = op_id a \<and> validate_audit_event e = Inr ()) es"
    unfolding transitioned_def transition_effect_def by blast
  with assms(2) show ?thesis by (auto simp: list_all_iff)
qed

text \<open>
  C37. The audit log never stores a secret-shaped payload: in every reachable journal, the data of
  every audit event is free of keys and values that \<open>domain/secrets.py\<close> recognises as secrets,
  and its sequence and version are at least 1.
\<close>

theorem audit_log_has_no_secrets:
  assumes "reachable j" and "e \<in> set (j_audit_events j)"
  shows "\<not> (\<exists>k \<in> set (json_keys (au_data e)). key_is_forbidden k) \<and>
    \<not> (\<exists>v \<in> set (json_strings (au_data e)). value_is_forbidden v) \<and>
    1 \<le> au_sequence e \<and> 1 \<le> au_operation_version e"
proof -
  have "list_all (\<lambda>e. validate_audit_event e = Inr ()) (j_audit_events j)"
    using assms(1)
  proof (induction rule: reachable.induct)
    case empty
    show ?case by (simp add: empty_journal_def)
  next
    case (step j j')
    then show ?case using audit_valid_step by blast
  qed
  with assms(2) have "validate_audit_event e = Inr ()" by (simp add: list_all_iff)
  then show ?thesis using json_has_secret_iff [of "au_data e"]
    by (auto simp: validate_audit_event_def reject_secrets_in_json_def)
qed

text \<open>
  The audit log of every operation is gap free: in every reachable journal the sequence
  numbers of an operation's events, in the order they were appended, are 1, 2, 3 and so on,
  whatever commands, recoveries and publications were interleaved.
\<close>

lemma audit_log_gap_free:
  assumes "reachable j"
  shows "map au_sequence (filter (\<lambda>e. au_operation_id e = i) (j_audit_events j)) =
    map int [1..<Suc (length (filter (\<lambda>e. au_operation_id e = i) (j_audit_events j)))]"
proof -
  from reachable_audit [OF assms] obtain n where
      n: "map au_sequence (filter (\<lambda>e. au_operation_id e = i) (j_audit_events j)) = map int [1..<Suc n]"
    unfolding aulog.contiguous_def by blast
  then have "length (filter (\<lambda>e. au_operation_id e = i) (j_audit_events j)) = n"
    by (metis diff_Suc_1 length_map length_upt)
  with n show ?thesis by simp
qed

section \<open>The audit log determines the operation\<close>

text \<open>
  \<open>replay\<close> runs the transition events of a log from a state and version: every event must leave
  the current state over a legal edge and carry the next version.
\<close>

fun replay :: "operation_state \<times> int \<Rightarrow> audit_event list \<Rightarrow> (operation_state \<times> int) option" where
  "replay sv [] = Some sv"
| "replay sv (e # es) =
     (case au_to_state e of
        None \<Rightarrow> None
      | Some t \<Rightarrow>
          if au_from_state e = Some (fst sv) \<and> au_operation_version e = snd sv + 1 \<and>
             td_is_legal (evaluate_operation_transition (Some (fst sv)) t)
          then replay (t, snd sv + 1) es else None)"

definition lifecycle_events :: "opaque_id \<Rightarrow> journal \<Rightarrow> audit_event list" where
  "lifecycle_events i j =
     filter (\<lambda>e. au_operation_id e = i \<and> au_event_type e = AE_OPERATION_TRANSITIONED) (j_audit_events j)"

lemma replay_append: "replay sv (es @ fs) = Option.bind (replay sv es) (\<lambda>sv'. replay sv' fs)"
  by (induction es arbitrary: sv) (auto split: option.split)

lemma replay_transition:
  assumes "is_transition_of a b e" and "(op_state a, op_state b) \<in> set operation_edges"
    and "op_version b = op_version a + 1"
  shows "replay (op_state a, op_version a) [e] = Some (op_state b, op_version b)"
  using assms by (simp add: is_transition_of_def opm.judge_iff)

lemma quiet_lifecycle: "quiet j j' \<Longrightarrow> lifecycle_events i j' = lifecycle_events i j"
  by (auto simp: quiet_def lifecycle_events_def list_all_iff filter_empty_conv)

lemma created_lifecycle: "created j o' j' \<Longrightarrow> lifecycle_events i j' = lifecycle_events i j"
  by (auto simp: created_def lifecycle_events_def)

lemma transitioned_lifecycle:
  assumes "transitioned j a b j'"
  obtains e where "is_transition_of a b e"
    and "\<And>i. lifecycle_events i j' = lifecycle_events i j @ (if i = op_id a then [e] else [])"
proof -
  from assms obtain es pre e where log: "j_audit_events j' = j_audit_events j @ es"
    and es: "es = pre @ [e]" and e: "is_transition_of a b e"
    and pre: "list_all (\<lambda>x. au_event_type x \<noteq> AE_OPERATION_TRANSITIONED) pre"
    by (auto simp: transitioned_def transition_effect_def)
  have "filter (\<lambda>x. au_operation_id x = i \<and> au_event_type x = AE_OPERATION_TRANSITIONED) pre = []" for i
    using pre by (auto simp: list_all_iff filter_empty_conv)
  then have "lifecycle_events i j' = lifecycle_events i j @ (if i = op_id a then [e] else [])" for i
    using e by (auto simp: lifecycle_events_def log es is_transition_of_def)
  with e show thesis using that by blast
qed

definition replays :: "journal \<Rightarrow> bool" where
  "replays j \<longleftrightarrow> (\<forall>i o'. op_get i j = Some o' \<longrightarrow>
     replay (OS_PENDING_POLICY, 1) (lifecycle_events i j) = Some (op_state o', op_version o'))"

lemma replays_step:
  assumes "system_step j j'" and own: "audit_owned j" and "replays j"
  shows "replays j'"
  using assms(1)
proof (cases rule: system_step_cases)
  case quiet
  with assms(3) show ?thesis by (simp add: replays_def quiet_get quiet_lifecycle)
next
  case (created o')
  have "lifecycle_events (op_id o') j = []"
    using audit_owned_fresh [OF own, of "op_id o'"] created
    by (auto simp: created_def lifecycle_events_def filter_empty_conv)
  with created assms(3) show ?thesis
    unfolding replays_def created_lifecycle [OF created] by (auto simp: created_def)
next
  case (transitioned a b)
  then obtain e where e: "is_transition_of a b e"
    and log: "\<And>i. lifecycle_events i j' = lifecycle_events i j @ (if i = op_id a then [e] else [])"
    using transitioned_lifecycle by blast
  from transitioned obtain es where eff: "transition_effect j a b es j'" by (auto simp: transitioned_def)
  then have "op_get (op_id a) j = Some a" and "(op_state a, op_state b) \<in> set operation_edges"
    and "op_version b = op_version a + 1" by (simp_all add: transition_effect_def)
  with e have "replay (OS_PENDING_POLICY, 1) (lifecycle_events (op_id a) j') = Some (op_state b, op_version b)"
    using assms(3) unfolding replays_def log by (simp add: replay_append replay_transition del: replay.simps)
  with assms(3) show ?thesis
    unfolding replays_def transition_effect_get [OF eff] by (auto simp: log)
qed

lemma reachable_replays: "reachable j \<Longrightarrow> replays j"
proof (induction rule: reachable.induct)
  case empty
  show ?case by (simp add: replays_def empty_journal_def op_get_def)
next
  case (step j j')
  then show ?case using replays_step reachable_audit by blast
qed

text \<open>
  C1. The audit log is a complete record of the lifecycle: in every reachable journal, replaying
  the OPERATION_TRANSITIONED events of an operation from PENDING_POLICY at version 1, each over
  a legal edge and each raising the version by one, ends exactly in the operation's stored state
  and version.
\<close>

theorem audit_log_replays:
  assumes "reachable j" and "op_get i j = Some o'"
  shows "replay (OS_PENDING_POLICY, 1) (lifecycle_events i j) = Some (op_state o', op_version o')"
  using reachable_replays [OF assms(1)] assms(2) by (simp add: replays_def)

section \<open>An operation and its compensation agree\<close>

definition compensation_agrees :: "journal \<Rightarrow> operation \<Rightarrow> bool" where
  "compensation_agrees j o' \<longleftrightarrow>
     (op_state o' \<in> set COMPENSATION_STATES \<longrightarrow>
      (\<exists>c. op_compensation_id o' = Some (cm_id c) \<and> cp_get (cm_id c) j = Some c \<and>
         cm_original_operation_id c = op_id o' \<and>
         op_state o' = PARENT_FOR_COMPENSATION_STATE (cm_state c)))"

definition compensations_agree :: "journal \<Rightarrow> bool" where
  "compensations_agree j \<longleftrightarrow> (\<forall>i o'. op_get i j = Some o' \<longrightarrow> compensation_agrees j o')"

lemma agrees_other:
  assumes "compensation_agrees j o'"
    and "\<And>k c. cp_get k j = Some c \<Longrightarrow> cm_original_operation_id c = op_id o' \<Longrightarrow>
      op_compensation_id o' = Some k \<Longrightarrow> cp_get k j' = Some c"
  shows "compensation_agrees j' o'"
  using assms unfolding compensation_agrees_def by blast

lemma compensations_agree_step:
  assumes "system_step j j'" and inv: "compensations_agree j"
  shows "compensations_agree j'"
  using assms(1)
proof (cases rule: system_step_cases)
  case quiet
  have "compensation_agrees j' o'" if "op_get i j = Some o'" for i o'
  proof -
    have "compensation_agrees j o'" using inv that by (simp add: compensations_agree_def)
    from quiet(2) consider "\<forall>k. cp_get k j' = cp_get k j"
      | c c' where "cp_get (cm_id c) j = Some c" "cm_id c' = cm_id c"
        "cm_original_operation_id c' = cm_original_operation_id c"
        "PARENT_FOR_COMPENSATION_STATE (cm_state c) = PARENT_FOR_COMPENSATION_STATE (cm_state c')"
        "\<forall>k. cp_get k j' = (if k = cm_id c then Some c' else cp_get k j)"
      unfolding compensation_progressed_def
      by (metis compensation.select_convs(2,3) compensation.surjective compensation.update_convs(5,6,15))
    then show ?thesis
    proof cases
      case 1
      with \<open>compensation_agrees j o'\<close> show ?thesis by (simp add: compensation_agrees_def)
    next
      case 2
      with \<open>compensation_agrees j o'\<close> show ?thesis
        unfolding compensation_agrees_def by (metis option.inject)
    qed
  qed
  then show ?thesis using quiet by (simp add: compensations_agree_def quiet_get)
next
  case (created o')
  have "compensation_agrees j' o'" using created
    by (simp add: created_def compensation_agrees_def COMPENSATION_STATES_def)
  moreover have "compensation_agrees j' p" if "op_get i j = Some p" for i p
    using inv that created by (simp add: compensations_agree_def compensation_agrees_def created_def)
  ultimately show ?thesis using created by (auto simp: compensations_agree_def created_def)
next
  case (transitioned a b)
  then obtain es where eff: "transition_effect j a b es j'" by (auto simp: transitioned_def)
  then have id: "op_id b = op_id a" by (simp add: transition_effect_def same_identity_def)
  have b: "compensation_agrees j' b"
    using transitioned id unfolding transitioned_def compensation_started_def compensation_moved_def
      compensation_kept_def compensation_agrees_def
    by (auto simp: COMPENSATION_STATES_def) (metis (no_types, lifting) compensation.select_convs(2,3)
      compensation.surjective compensation.update_convs(5,6,15))+
  have "compensation_agrees j' p" if p: "op_get i j = Some p" and ne: "i \<noteq> op_id a" for i p
  proof (rule agrees_other)
    show "compensation_agrees j p" using inv p by (simp add: compensations_agree_def)
    fix k c assume "cp_get k j = Some c" and "cm_original_operation_id c = op_id p"
    then show "cp_get k j' = Some c"
      using transitioned ne op_get_key [OF p] unfolding transitioned_def compensation_started_def
        compensation_moved_def compensation_kept_def by (metis option.distinct(1) option.inject)
  qed
  with b show ?thesis unfolding compensations_agree_def transition_effect_get [OF eff] by auto
qed

lemma reachable_compensations_agree: "reachable j \<Longrightarrow> compensations_agree j"
proof (induction rule: reachable.induct)
  case empty
  show ?case by (simp add: compensations_agree_def empty_journal_def op_get_def)
next
  case (step j j')
  then show ?case using compensations_agree_step by blast
qed

text \<open>
  C8. An operation and its compensation never disagree: in every reachable journal, an operation
  that is COMPENSATING, COMPENSATION_UNKNOWN, COMPENSATED or COMPENSATION_FAILED points to a stored
  compensation of its own whose state is one of those the parent state stands for (PENDING,
  EXECUTING or VERIFYING; UNKNOWN; SUCCEEDED; FAILED).
\<close>

theorem compensation_state_agrees:
  assumes "reachable j" and "op_get i j = Some o'" and "op_state o' \<in> set COMPENSATION_STATES"
  shows "\<exists>c. op_compensation_id o' = Some (cm_id c) \<and> cp_get (cm_id c) j = Some c \<and>
    cm_original_operation_id c = i \<and>
    td_is_legal (compensation_parent_is_consistent (cm_state c) (op_state o'))"
  using reachable_compensations_agree [OF assms(1)] assms(2,3) op_get_key [OF assms(2)]
  by (auto simp: compensations_agree_def compensation_agrees_def)

section \<open>Versions only grow, intents never change\<close>

lemma system_step_operation:
  assumes "system_step j j'" and "op_get i j = Some a"
  shows "\<exists>b. op_get i j' = Some b \<and> same_identity a b \<and>
    (b = a \<or> op_version b = op_version a + 1 \<and> (op_state a, op_state b) \<in> set operation_edges)"
  using assms(1)
proof (cases rule: system_step_cases)
  case quiet
  with assms(2) show ?thesis by (simp add: quiet_get same_identity_def)
next
  case (created o')
  with assms(2) show ?thesis by (auto simp: created_def same_identity_def)
next
  case (transitioned c b)
  then obtain es where eff: "transition_effect j c b es j'" by (auto simp: transitioned_def)
  show ?thesis
  proof (cases "i = op_id c")
    case True
    with eff assms(2) have "c = a" by (simp add: transition_effect_def)
    with True eff show ?thesis
      unfolding transition_effect_get [OF eff] by (auto simp: transition_effect_def)
  next
    case False
    with assms(2) show ?thesis unfolding transition_effect_get [OF eff] by (simp add: same_identity_def)
  qed
qed

text \<open>\<open>later j j'\<close>: some sequence of system steps leads from \<open>j\<close> to \<open>j'\<close>.\<close>

inductive later :: "journal \<Rightarrow> journal \<Rightarrow> bool" where
  refl: "later j j"
| step: "later j k \<Longrightarrow> system_step k l \<Longrightarrow> later j l"

lemma reachable_later: "later j k \<Longrightarrow> reachable j \<Longrightarrow> reachable k"
  by (induction rule: later.induct) (auto intro: reachable.step)

lemma same_identity_trans: "same_identity a b \<Longrightarrow> same_identity b c \<Longrightarrow> same_identity a c"
  by (simp add: same_identity_def)

lemma later_operation:
  assumes "later j k" and "op_get i j = Some a"
  shows "\<exists>b. op_get i k = Some b \<and> same_identity a b \<and> op_version a \<le> op_version b \<and>
    (op_version b = op_version a \<longrightarrow> b = a) \<and> (op_state a, op_state b) \<in> (set operation_edges)\<^sup>*"
  using assms
proof (induction rule: later.induct)
  case (refl j)
  then show ?case by (simp add: same_identity_def)
next
  case (step j k l)
  then obtain b where "op_get i k = Some b" and b: "same_identity a b" "op_version a \<le> op_version b"
      "op_version b = op_version a \<longrightarrow> b = a" "(op_state a, op_state b) \<in> (set operation_edges)\<^sup>*" by blast
  from system_step_operation [OF step(2) this(1)] obtain c where "op_get i l = Some c"
    and c: "same_identity b c" "c = b \<or> op_version c = op_version b + 1 \<and>
      (op_state b, op_state c) \<in> set operation_edges" by blast
  with b show ?case using same_identity_trans [OF b(1) c(1)] by (auto intro: rtrancl_into_rtrancl)
qed

text \<open>
  Operations are never lost and never rewritten: along any sequence of system steps a stored
  operation stays stored with the same intent, risk level, idempotency identity and creation
  time; its version never decreases, an unchanged version means an unchanged row, and its state
  only moves along listed transitions.
\<close>

lemma operation_row_history:
  assumes "later j k" and "op_get i j = Some a"
  shows "\<exists>b. op_get i k = Some b \<and> same_identity a b \<and> op_version a \<le> op_version b \<and>
    (op_version b = op_version a \<longrightarrow> b = a) \<and> (op_state a, op_state b) \<in> (set operation_edges)\<^sup>*"
  by (rule later_operation [OF assms])

text \<open>
  Absolutely terminal operations are frozen: once an operation is DENIED, CANCELLED or
  COMPENSATED, no sequence of commands, recoveries, escalations or evidence writes changes its
  row any more.
\<close>

lemma terminal_operations_frozen:
  assumes "later j k" and "op_get i j = Some a" and "op_state a \<in> set ABSOLUTE_TERMINAL_STATES"
  shows "op_get i k = Some a"
  using assms
proof (induction rule: later.induct)
  case (step j k l)
  then have "op_get i k = Some a" by blast
  from system_step_operation [OF step(2) this] obtain b where "op_get i l = Some b"
    and "b = a \<or> (op_state a, op_state b) \<in> set operation_edges" by blast
  then show ?case using step.prems(2) operation_terminal_no_edge by (auto simp: operation_edges_iff)
qed

end
