(* ===== verification/Engine_Properties.thy ===== *)
theory Engine_Properties
  imports System_Invariants
begin

text \<open>
  What the transition engine promises its callers, command by command: the kinds are exactly the
  listed edges; a refusal changes nothing; a stale or repeated command is harmless; an
  applied command does what its kind says, with the evidence its kind requires, the audit
  event of the edge and the work message its kind is mapped to.
\<close>

section \<open>Kinds\<close>

text \<open>
  The 42 transition kinds are in bijection with the listed operation transitions: every kind
  takes a listed edge, every listed edge has exactly one kind.
\<close>

lemma kinds_are_the_edges:
  "bij_betw KIND_TO_EDGE UNIV (set LEGAL_OPERATION_TRANSITIONS)"
proof -
  have "distinct (map KIND_TO_EDGE transition_kind_members)"
    unfolding kind_edges_enumerated by (rule legal_operation_transitions_distinct)
  then have "inj_on KIND_TO_EDGE (set transition_kind_members)" by (simp add: distinct_map)
  moreover have "KIND_TO_EDGE ` set transition_kind_members = set LEGAL_OPERATION_TRANSITIONS"
    by (metis kind_edges_enumerated set_map)
  ultimately show ?thesis by (simp add: bij_betw_def transition_kind_members_all)
qed

section \<open>Refusals\<close>

lemma apply_command_refused:
  assumes "apply_command command j = Inr (r, j')" and "tr_outcome r \<noteq> TO_APPLIED"
  shows "changes_nothing j r j'"
proof (cases command)
  case (CreateOperation c)
  with assms create_effect [of c j r j'] show ?thesis
    by (auto simp: apply_command_def split: if_split_asm)
next
  case (OperationCommand c)
  with assms have "apply_operation c j = Inr (r, j')"
    by (auto simp: apply_command_def split: if_split_asm)
  then show ?thesis
    by (cases rule: apply_operation_Inr) (use assms perform_operation_applied in blast)+
next
  case (ClaimCompensationExecution c)
  with assms apply_claim_compensation_Inr [of c j r j'] show ?thesis
    by (auto simp: apply_command_def progress_step_def split: if_split_asm)
next
  case (StartCompensationVerification c)
  with assms apply_start_compensation_verification_Inr [of c j r j'] show ?thesis
    by (auto simp: apply_command_def progress_step_def split: if_split_asm)
next
  case (ClaimCompensationRetryAttempt c)
  with assms apply_claim_compensation_retry_attempt_Inr [of c j r j'] show ?thesis
    by (auto simp: apply_command_def progress_step_def split: if_split_asm)
next
  case (RetryCompensationAfterVerification c)
  with assms apply_retry_compensation_after_verification_Inr [of c j r j'] show ?thesis
    by (auto simp: apply_command_def progress_step_def split: if_split_asm)
qed

text \<open>
  C36. A refused command leaves no trace: when \<open>apply\<close> returns REJECTED or ALREADY_APPLIED for any of
  the 46 command types, the journal is exactly the one it started from and the result carries
  no audit and no outbox event.
\<close>

theorem refused_command_changes_nothing:
  assumes "apply_command command j = Inr (r, j')" and "tr_outcome r \<noteq> TO_APPLIED"
  shows "j' = j \<and> tr_audit_events r = [] \<and> tr_outbox_event r = None"
  using apply_command_refused [OF assms] by (simp add: changes_nothing_def)

section \<open>Lifecycle commands\<close>

lemma apply_operation_applied:
  assumes "apply_operation command j = Inr (r, j')" and "tr_outcome r = TO_APPLIED"
  obtains a b es where "op_get (oc_operation_id command) j = Some a"
    and "op_version a = oc_expected_version command"
    and "KIND_TO_EDGE (oc_kind command) = (Some (op_state a), op_state b)"
    and "evaluate_preconditions command a (load_related command a j) = Inr None"
    and "perform_operation command a (load_related command a j) j = Inr (r, j')"
    and "transition_effect j a b es j'"
    and "tr_operation r = Some b" and "tr_audit_events r = es"
  using assms(1)
proof (cases rule: apply_operation_Inr)
  case refused
  with assms(2) show ?thesis by (simp add: changes_nothing_def)
next
  case (performed a)
  from performed obtain b es where eff: "transition_effect j a b es j'"
    and b: "op_state b = snd (KIND_TO_EDGE (oc_kind command))"
    and r: "tr_operation r = Some b" "tr_audit_events r = es"
    using perform_operation_effect [OF performed(1,3,5)] by (metis applied_fields(1,3))
  have "KIND_TO_EDGE (oc_kind command) = (Some (op_state a), op_state b)"
    using performed(3) b by (cases "KIND_TO_EDGE (oc_kind command)") simp
  with performed eff r that show thesis by blast
qed

text \<open>
  An applied lifecycle command moves exactly its own operation, from the version it expected to
  the next, over the edge of its kind: intent, risk level and identity are unchanged, every
  other operation is untouched, and the last audit event written is the OPERATION_TRANSITIONED
  event of that edge with the new version.
\<close>

lemma applied_command_takes_its_edge:
  assumes "apply_operation command j = Inr (r, j')" and "tr_outcome r = TO_APPLIED"
  shows "\<exists>a b. op_get (oc_operation_id command) j = Some a \<and> tr_operation r = Some b \<and>
    op_version a = oc_expected_version command \<and> op_version b = oc_expected_version command + 1 \<and>
    KIND_TO_EDGE (oc_kind command) = (Some (op_state a), op_state b) \<and> same_identity a b \<and>
    (\<forall>i. op_get i j' = (if i = oc_operation_id command then Some b else op_get i j)) \<and>
    (\<exists>pre e. tr_audit_events r = pre @ [e] \<and> is_transition_of a b e \<and>
       j_audit_events j' = j_audit_events j @ tr_audit_events r)"
proof -
  from assms obtain a b es where a: "op_get (oc_operation_id command) j = Some a"
      "op_version a = oc_expected_version command"
      "KIND_TO_EDGE (oc_kind command) = (Some (op_state a), op_state b)"
    and eff: "transition_effect j a b es j'" and r: "tr_operation r = Some b" "tr_audit_events r = es"
    by (rule apply_operation_applied)
  have "op_get i j' = (if i = oc_operation_id command then Some b else op_get i j)" for i
    using transition_effect_get [OF eff, of i] op_get_key [OF a(1)] by simp
  with a r eff show ?thesis unfolding transition_effect_def by fastforce
qed

text \<open>
  Optimistic concurrency: a lifecycle command whose expected version is neither the stored
  version nor the one just before it is refused with a concurrency conflict, whatever its
  kind and contents.
\<close>

lemma stale_command_conflicts:
  assumes "op_get (oc_operation_id command) j = Some a"
    and "op_version a \<noteq> oc_expected_version command"
    and "op_version a \<noteq> oc_expected_version command + 1"
  shows "apply_operation command j = Inl (ConcurrencyConflictError ''concurrency_conflict'')"
  using assms by (simp add: apply_operation_def Let_def)

text \<open>
  Redelivery is idempotent: a lifecycle command that was applied, delivered again, is answered
  ALREADY_APPLIED with the operation it produced, and changes nothing.
\<close>

lemma redelivery_is_idempotent:
  assumes "apply_operation command j = Inr (r, j')" and "tr_outcome r = TO_APPLIED"
  shows "\<exists>r'. apply_operation command j' = Inr (r', j') \<and> tr_outcome r' = TO_ALREADY_APPLIED \<and>
    tr_operation r' = tr_operation r \<and> tr_operation_version r' = Some (oc_expected_version command + 1)"
proof -
  from assms obtain a b es where a: "op_get (oc_operation_id command) j = Some a"
      "op_version a = oc_expected_version command"
      "KIND_TO_EDGE (oc_kind command) = (Some (op_state a), op_state b)"
    and eff: "transition_effect j a b es j'" and r: "tr_operation r = Some b"
    by (rule apply_operation_applied)
  have "op_get (oc_operation_id command) j' = Some b"
    using transition_effect_get [OF eff] op_get_key [OF a(1)] by simp
  moreover have "op_version b = oc_expected_version command + 1"
    using eff a(2) by (simp add: transition_effect_def)
  ultimately show ?thesis using a(3) r by (simp add: apply_operation_def Let_def already_def)
qed

text \<open>
  C7. At most one winner: of two lifecycle commands for the same operation that expect the same
  version, the second is never applied once the first was, no matter how many other steps
  the system takes in between.
\<close>

theorem no_two_winners:
  assumes "apply_operation first j = Inr (r, j1)" and "tr_outcome r = TO_APPLIED"
    and "later j1 j2"
    and "oc_operation_id second = oc_operation_id first"
    and "oc_expected_version second = oc_expected_version first"
    and "apply_operation second j2 = Inr (r2, j3)"
  shows "tr_outcome r2 \<noteq> TO_APPLIED"
proof
  assume "tr_outcome r2 = TO_APPLIED"
  with assms(6) obtain c where c: "op_get (oc_operation_id second) j2 = Some c"
    "op_version c = oc_expected_version second" by (rule apply_operation_applied)
  from assms(1,2) obtain a b es where a: "op_get (oc_operation_id first) j = Some a"
      "op_version a = oc_expected_version first" and eff: "transition_effect j a b es j1"
    by (rule apply_operation_applied)
  have "op_get (oc_operation_id first) j1 = Some b"
    using transition_effect_get [OF eff] op_get_key [OF a(1)] by simp
  from later_operation [OF assms(3) this] c(1) assms(4) have "op_version b \<le> op_version c" by auto
  with eff a(2) c(2) assms(5) show False by (simp add: transition_effect_def)
qed

end
