(* ===== verification/Evidence.thy ===== *)
theory Evidence
  imports Engine_Properties
begin

text \<open>
  The evidence behind a transition. For each kind that claims something about the outside world
  (the effect succeeded, a retry is safe, an approval was given, an attempt was claimed), the
  theorem states which durable record the applied command leaves that backs the claim.
\<close>

section \<open>The tables below the operation\<close>

text \<open>After the related writes, only the operation, its audit events and its outbox event follow.\<close>

lemma perform_operation_tail:
  assumes "perform_operation command a related j = Inr (r, j')"
  obtains m j1 where "write_related command related j = Inr (m, j1)"
    and "j' = j1\<lparr>j_operations := j_operations j', j_audit_events := j_audit_events j',
                 j_outbox_events := j_outbox_events j'\<rparr>"
proof -
  from assms obtain m j1 new jb es jc out where w: "write_related command related j = Inr (m, j1)"
    and cas: "op_update_cas (oc_expected_version command) new j1 = Inr jb"
    and aud: "append_audits command a new related jb = Inr (es, jc)"
    and ox: "insert_outbox command new jc = Inr (out, j')"
    unfolding perform_operation_Inr by blast
  have "j' = j1\<lparr>j_operations := j_operations j', j_audit_events := j_audit_events j',
                 j_outbox_events := j_outbox_events j'\<rparr>"
    using cas append_audits_events(1) [OF aud] insert_outbox_Inr [OF ox]
    by (simp add: op_update_cas_Inr)
  with w that show thesis by blast
qed

lemma tail_gets:
  assumes "j' = j1\<lparr>j_operations := p, j_audit_events := q, j_outbox_events := s\<rparr>"
  shows "at_get i j' = at_get i j1" "vf_get i j' = vf_get i j1" "ap_get i j' = ap_get i j1"
    "po_get i j' = po_get i j1" "cp_get i j' = cp_get i j1" "ca_get i j' = ca_get i j1"
    "j_reconciliations j' = j_reconciliations j1"
  by (simp_all add: assms at_get_def vf_get_def ap_get_def po_get_def cp_get_def ca_get_def)

text \<open>What the three in-place writes make readable.\<close>

lemma at_complete_get:
  assumes "at_complete a j = Inr j'"
  shows "\<exists>row. at_get (att_id a) j = Some row \<and> at_get (att_id a) j' = Some (at_write_result a row)"
  using assms
  by (auto simp: at_complete_Inr at_get_def tbl_get_set_same at_write_result_def)

lemma vf_complete_get:
  assumes "vf_complete r j = Inr j'"
  shows "\<exists>q. vf_get (vs_id r) j = Some (q, None) \<and> vf_get (vs_id r) j' = Some (q, Some r)"
  using assms by (auto simp: vf_complete_Inr vf_get_def tbl_get_set_same)

lemma ap_update_cas_state_get:
  assumes "ap_update_cas_state a s j = Inr j'"
  shows "\<exists>row. ap_get (ap_id a) j = Some row \<and> ap_state row = s \<and> ap_get (ap_id a) j' = Some a"
  using assms by (auto simp: ap_update_cas_state_Inr ap_get_def tbl_get_set_same)

lemma at_get_key: "at_get i j = Some a \<Longrightarrow> att_id a = i"
  unfolding at_get_def by (rule tbl_get_Some_key)

text \<open>
  An applied lifecycle command, taken apart: it moved \<open>a\<close> to \<open>b\<close>, its checks passed on the records
  loaded for it, and between the two stands the journal \<open>j1\<close> its related writes left.
\<close>

definition lifecycle_taken ::
  "op_command \<Rightarrow> journal \<Rightarrow> transition_result \<Rightarrow> journal \<Rightarrow> operation \<Rightarrow> operation \<Rightarrow>
   compensation option \<Rightarrow> journal \<Rightarrow> bool" where
  "lifecycle_taken command j r j' a b m j1 \<longleftrightarrow>
     op_get (oc_operation_id command) j = Some a \<and> op_version a = oc_expected_version command \<and>
     oc_kind command = body_kind (oc_body command) \<and>
     KIND_TO_EDGE (body_kind (oc_body command)) = (Some (op_state a), op_state b) \<and>
     check_actor (oc_kind command) (oc_actor command) (cmd_approval (oc_body command))
       (oc_occurred_at command) = None \<and>
     check_body command a (load_related command a j) = Inr None \<and>
     write_related command (load_related command a j) j = Inr (m, j1) \<and>
     j' = j1\<lparr>j_operations := j_operations j', j_audit_events := j_audit_events j',
             j_outbox_events := j_outbox_events j'\<rparr> \<and>
     op_get (oc_operation_id command) j' = Some b \<and>
     replace_for_kind command a (op_state b) (op_version a + 1) = Inr b \<and>
     tr_to_state r = Some (op_state b) \<and> tr_from_state r = Some (op_state a)"

lemma lifecycle_takenD:
  assumes "lifecycle_taken command j r j' a b m j1"
  shows "op_get (oc_operation_id command) j = Some a" "op_version a = oc_expected_version command"
    "oc_kind command = body_kind (oc_body command)"
    "KIND_TO_EDGE (body_kind (oc_body command)) = (Some (op_state a), op_state b)"
    "check_actor (oc_kind command) (oc_actor command) (cmd_approval (oc_body command))
       (oc_occurred_at command) = None"
    "check_body command a (load_related command a j) = Inr None"
    "write_related command (load_related command a j) j = Inr (m, j1)"
    "j' = j1\<lparr>j_operations := j_operations j', j_audit_events := j_audit_events j',
             j_outbox_events := j_outbox_events j'\<rparr>"
    "op_get (oc_operation_id command) j' = Some b"
    "replace_for_kind command a (op_state b) (op_version a + 1) = Inr b"
    "tr_to_state r = Some (op_state b)" "tr_from_state r = Some (op_state a)"
  using assms unfolding lifecycle_taken_def by blast+

lemma lifecycle_applied:
  assumes "apply_command (OperationCommand command) j = Inr (r, j')" and "tr_outcome r = TO_APPLIED"
  obtains a b m j1 where "lifecycle_taken command j r j' a b m j1"
proof -
  from assms(1) have app: "apply_operation command j = Inr (r, j')"
    and kind: "oc_kind command = body_kind (oc_body command)"
    by (auto simp: apply_command_def split: if_split_asm)
  from app assms(2) obtain a b es where a: "op_get (oc_operation_id command) j = Some a"
      "op_version a = oc_expected_version command"
    and edge: "KIND_TO_EDGE (oc_kind command) = (Some (op_state a), op_state b)"
    and pre: "evaluate_preconditions command a (load_related command a j) = Inr None"
    and perf: "perform_operation command a (load_related command a j) j = Inr (r, j')"
    and eff: "transition_effect j a b es j'" and r: "tr_operation r = Some b" "tr_audit_events r = es"
    by (rule apply_operation_applied)
  from perf obtain m j1 where w: "write_related command (load_related command a j) j = Inr (m, j1)"
    and tail: "j' = j1\<lparr>j_operations := j_operations j', j_audit_events := j_audit_events j',
                 j_outbox_events := j_outbox_events j'\<rparr>" by (rule perform_operation_tail)
  have "replace_for_kind command a (op_state b) (op_version a + 1) = Inr b"
    "tr_to_state r = Some (op_state b)" "tr_from_state r = Some (op_state a)"
    using perf r(1) edge by (auto simp: perform_operation_Inr)
  moreover have "op_get (oc_operation_id command) j' = Some b"
    using transition_effect_get [OF eff] op_get_key [OF a(1)] by simp
  ultimately show thesis
    using that a kind edge pre w tail unfolding evaluate_preconditions_None lifecycle_taken_def kind by blast
qed

text \<open>For a known body, \<open>_write_related\<close> reduces to the writes of its own kind.\<close>

lemmas write_reduce_simps =
  write_related_def write_step_defs write_started_compensation_def write_compensation_state_def
  body_simps COMPENSATION_TARGET_STATE_def

section \<open>Success\<close>

text \<open>The durable evidence that the effect of operation \<open>a\<close> was applied.\<close>

definition applied_evidence :: "operation \<Rightarrow> journal \<Rightarrow> bool" where
  "applied_evidence a j \<longleftrightarrow>
     (\<exists>i row. op_latest_attempt_id a = Some i \<and> at_get i j = Some row \<and>
        att_operation_id row = op_id a \<and> att_outcome row = Some EO_APPLIED) \<or>
     (\<exists>i q v. op_latest_verification_id a = Some i \<and> vf_get i j = Some (q, Some v) \<and>
        vs_outcome v = EO_APPLIED) \<or>
     (\<exists>s. s \<in> set (j_reconciliations j) \<and> sr_operation_id s = op_id a \<and>
        sr_operation_version s = op_version a \<and> rd_action (sr_decision s) = RA_MARK_SUCCEEDED)"

lemma completed_attempt_durable:
  assumes chk: "check_execution_attempt_complete a (Some d) (rr_loaded_attempt (load_related command a j))
      (Some e) False = None"
    and b: "completed_attempt_of (oc_body command) = Some d"
    and w: "write_completed_attempt (oc_body command) (load_related command a j) j = Inr j1"
  shows "\<exists>i row. op_latest_attempt_id a = Some i \<and> at_get i j1 = Some row \<and>
    att_operation_id row = op_id a \<and> att_outcome row = Some e"
proof -
  from chk obtain la where la: "rr_loaded_attempt (load_related command a j) = Some la"
    and id: "att_id d = att_id la" "att_operation_id la = op_id a"
    and out: "att_outcome (if att_state la = AS_COMPLETED then la else d) = Some e"
    by (rule check_execution_attempt_complete_None) blast
  from la obtain i where i: "op_latest_attempt_id a = Some i" and get: "at_get i j = Some la"
    by (auto simp: load_related_def Let_def split: option.split_asm)
  show ?thesis
  proof (cases "att_state la = AS_STARTED")
    case True
    with w b la have "at_complete d j = Inr j1" by (simp add: write_completed_attempt_def)
    from at_complete_get [OF this] id(1) get at_get_key [OF get]
    have "at_get i j1 = Some (at_write_result d la)" by auto
    with i id(2) out True show ?thesis by (simp add: at_write_result_def)
  next
    case False
    with w b la have "j1 = j" by (simp add: write_completed_attempt_def)
    moreover have "att_state la = AS_COMPLETED" using False by (cases "att_state la") simp_all
    ultimately show ?thesis using i get id(2) out by simp
  qed
qed

lemma verification_result_durable:
  assumes chk: "check_verification_complete a v
      (rr_existing_verification_result (load_related command a j)) (Some e) = None"
    and b: "verification_result_of (oc_body command) = Some v"
    and w: "write_verification_result (oc_body command) (load_related command a j) j = Inr j1"
  shows "\<exists>i q u. op_latest_verification_id a = Some i \<and> vf_get i j1 = Some (q, Some u) \<and> vs_outcome u = e"
proof -
  from chk have i: "op_latest_verification_id a = Some (vs_id v)" and out: "vs_outcome v = e"
    and ex: "\<And>u. rr_existing_verification_result (load_related command a j) = Some u \<Longrightarrow> vs_outcome u = e"
    by (auto simp: check_verification_complete_def outcome_mismatch_def split: if_split_asm)
  show ?thesis
  proof (cases "rr_existing_verification_result (load_related command a j)")
    case None
    with w b have "vf_complete v j = Inr j1" by (simp add: write_verification_result_def)
    from vf_complete_get [OF this] i out show ?thesis by auto
  next
    case (Some u)
    with w b have "j1 = j" by (simp add: write_verification_result_def)
    moreover obtain row where "vf_get (vs_id v) j = Some row" and "snd row = Some u"
      using Some i by (auto simp: load_related_def Let_def split: option.split_asm)
    ultimately show ?thesis using i ex [OF Some] by (metis prod.collapse)
  qed
qed

text \<open>
  C2. No operation succeeds without evidence: when an applied command takes an operation to
  SUCCEEDED, the journal afterwards holds, for that operation, its latest attempt with outcome
  APPLIED, or its latest verification with outcome APPLIED, or a reconciliation decision
  MARK_SUCCEEDED taken at the version the command started from.
\<close>

theorem success_has_evidence:
  assumes "apply_command (OperationCommand command) j = Inr (r, j')" and "tr_outcome r = TO_APPLIED"
    and "tr_to_state r = Some OS_SUCCEEDED"
  shows "\<exists>a. op_get (oc_operation_id command) j = Some a \<and> applied_evidence a j'"
proof -
  obtain a b m j1 where taken: "lifecycle_taken command j r j' a b m j1"
    by (rule lifecycle_applied [OF assms(1,2)])
  note a = lifecycle_takenD(1,2) [OF taken] and kind = lifecycle_takenD(3) [OF taken]
    and edge = lifecycle_takenD(4) [OF taken] and actor = lifecycle_takenD(5) [OF taken]
    and body = lifecycle_takenD(6) [OF taken] and w = lifecycle_takenD(7) [OF taken]
    and tail = lifecycle_takenD(8) [OF taken] and new = lifecycle_takenD(9,10) [OF taken]
    and r = lifecycle_takenD(11,12) [OF taken]
  have target: "snd (KIND_TO_EDGE (body_kind (oc_body command))) = OS_SUCCEEDED"
    using edge r(1) assms(3) by simp
  note gets = tail_gets [OF tail]
  have "applied_evidence a j1"
  proof (cases "oc_body command")
    case (ExecutionApplied d i)
    with w have "write_completed_attempt (oc_body command) (load_related command a j) j = Inr j1"
      by (auto simp: write_reduce_simps kind)
    with body ExecutionApplied show ?thesis
      using completed_attempt_durable [of a d command j EO_APPLIED j1]
      by (auto simp: check_body_def completed_attempt_of_def applied_evidence_def)
  next
    case (VerificationApplied v i)
    with w have "write_verification_result (oc_body command) (load_related command a j) j = Inr j1"
      by (auto simp: write_reduce_simps kind)
    with body VerificationApplied show ?thesis
      using verification_result_durable [of a v command j EO_APPLIED j1]
      by (auto simp: check_body_def verification_result_of_def applied_evidence_def)
  next
    case (UnknownReconcileApplied s i)
    with w have "rc_insert s j = Inr j1"
      by (auto simp: write_reduce_simps kind)
    with body UnknownReconcileApplied a(2) show ?thesis
      by (auto simp: check_body_def check_reconciliation_def rc_insert_Inr applied_evidence_def
          split: if_split_asm)
  qed (use target in simp_all)
  then have "applied_evidence a j'" by (simp add: applied_evidence_def gets)
  with a(1) show ?thesis by blast
qed

section \<open>Retries\<close>

text \<open>
  What backs taking operation \<open>a\<close> back to READY: the latest attempt or verification with outcome
  NOT_APPLIED; from UNKNOWN or MANUAL_INTERVENTION, the outcomes the command itself reports.
\<close>

definition not_applied_evidence :: "op_command \<Rightarrow> operation \<Rightarrow> journal \<Rightarrow> bool" where
  "not_applied_evidence command a j \<longleftrightarrow>
     (case op_state a of
        OS_EXECUTING \<Rightarrow>
          (\<exists>i row. op_latest_attempt_id a = Some i \<and> at_get i j = Some row \<and>
             att_operation_id row = op_id a \<and> att_outcome row = Some EO_NOT_APPLIED)
      | OS_VERIFYING \<Rightarrow>
          (\<exists>i q v. op_latest_verification_id a = Some i \<and> vf_get i j = Some (q, Some v) \<and>
             vs_outcome v = EO_NOT_APPLIED)
      | OS_UNKNOWN \<Rightarrow>
          (\<exists>mode exe ver x. oc_body command = UnknownSafeRetry mode exe ver x None \<and>
             Some EO_APPLIED \<notin> {exe, ver} \<and> Some EO_NOT_APPLIED \<in> {exe, ver})
      | OS_MANUAL_INTERVENTION \<Rightarrow>
          oc_actor command \<noteq> None \<and>
          (\<exists>mode exe ver i x. oc_body command = ManualSafeRetry mode exe ver i x None \<and>
             Some EO_APPLIED \<notin> {exe, ver} \<and> Some EO_NOT_APPLIED \<in> {exe, ver})
      | _ \<Rightarrow> False)"

text \<open>
  C3. No retry without evidence: when an applied command takes an operation that may already have
  reached the provider (EXECUTING, VERIFYING, UNKNOWN or MANUAL_INTERVENTION) back to READY, the
  journal holds a NOT_APPLIED outcome for its latest attempt or verification, or the command
  reports a NOT_APPLIED outcome and no APPLIED one, offers no insufficient signal, and, out of
  MANUAL_INTERVENTION, names an actor. An idempotency declaration alone never suffices.
\<close>

theorem retry_has_evidence:
  assumes "apply_command (OperationCommand command) j = Inr (r, j')" and "tr_outcome r = TO_APPLIED"
    and "tr_to_state r = Some OS_READY"
    and "tr_from_state r \<notin> {Some OS_PENDING_POLICY, Some OS_AWAITING_APPROVAL}"
  shows "\<exists>a. op_get (oc_operation_id command) j = Some a \<and> not_applied_evidence command a j'"
proof -
  obtain a b m j1 where taken: "lifecycle_taken command j r j' a b m j1"
    by (rule lifecycle_applied [OF assms(1,2)])
  note a = lifecycle_takenD(1,2) [OF taken] and kind = lifecycle_takenD(3) [OF taken]
    and edge = lifecycle_takenD(4) [OF taken] and actor = lifecycle_takenD(5) [OF taken]
    and body = lifecycle_takenD(6) [OF taken] and w = lifecycle_takenD(7) [OF taken]
    and tail = lifecycle_takenD(8) [OF taken] and new = lifecycle_takenD(9,10) [OF taken]
    and r = lifecycle_takenD(11,12) [OF taken]
  have st: "op_state b = OS_READY" "op_state a \<noteq> OS_PENDING_POLICY" "op_state a \<noteq> OS_AWAITING_APPROVAL"
    using r assms(3,4) by auto
  have "not_applied_evidence command a j1"
  proof (cases "oc_body command")
    case (ExecutionNotAppliedRetry d x y z u)
    with w have "write_completed_attempt (oc_body command) (load_related command a j) j = Inr j1"
      by (auto simp: write_reduce_simps kind)
    with body ExecutionNotAppliedRetry edge show ?thesis
      using completed_attempt_durable [of a d command j EO_NOT_APPLIED j1]
      by (auto simp: check_body_def completed_attempt_of_def not_applied_evidence_def)
  next
    case (VerificationNotAppliedRetry v x y z u)
    with w have "write_verification_result (oc_body command) (load_related command a j) j = Inr j1"
      by (auto simp: write_reduce_simps kind)
    with body VerificationNotAppliedRetry edge show ?thesis
      using verification_result_durable [of a v command j EO_NOT_APPLIED j1]
      by (auto simp: check_body_def verification_result_of_def not_applied_evidence_def)
  next
    case (UnknownSafeRetry mode exe ver x sig)
    with body edge show ?thesis
      by (auto simp: check_body_def map_retry_safety_reason_None not_applied_evidence_def)
  next
    case (ManualSafeRetry mode exe ver i x sig)
    have "oc_actor command \<noteq> None"
      using check_actor_None [OF actor] ManualSafeRetry by (simp add: kind ACTOR_REQUIRED_KINDS_def)
    with ManualSafeRetry body edge show ?thesis
      by (auto simp: check_body_def map_retry_safety_reason_None not_applied_evidence_def)
  qed (use edge st in auto)
  then have "not_applied_evidence command a j'"
    by (cases "op_state a") (simp_all add: not_applied_evidence_def tail_gets [OF tail])
  with a(1) show ?thesis by blast
qed

section \<open>Claiming an execution\<close>

lemma claim_execution_stores:
  assumes "apply_command (OperationCommand command) j = Inr (r, j')" and "tr_outcome r = TO_APPLIED"
    and "oc_body command = ClaimExecution attempt i"
  obtains b where "op_get (oc_operation_id command) j' = Some b" and "op_state b = OS_EXECUTING"
    and "op_latest_attempt_id b = Some (att_id attempt)" and "op_current_policy_decision_id b \<noteq> None"
    and "at_get (att_id attempt) j = None" and "at_get (att_id attempt) j' = Some attempt"
    and "att_operation_id attempt = op_id b" and "att_state attempt = AS_STARTED"
    and "att_outcome attempt = None"
    and "att_number attempt = int (length (at_list_for_operation (op_id b) j)) + 1"
    and "\<not> key_mismatch (att_provider_idempotency_key attempt)
          (map att_provider_idempotency_key (at_list_for_operation (op_id b) j))"
proof -
  obtain a b m j1 where taken: "lifecycle_taken command j r j' a b m j1"
    by (rule lifecycle_applied [OF assms(1,2)])
  note a = lifecycle_takenD(1,2) [OF taken] and kind = lifecycle_takenD(3) [OF taken]
    and edge = lifecycle_takenD(4) [OF taken] and actor = lifecycle_takenD(5) [OF taken]
    and body = lifecycle_takenD(6) [OF taken] and w = lifecycle_takenD(7) [OF taken]
    and tail = lifecycle_takenD(8) [OF taken] and new = lifecycle_takenD(9,10) [OF taken]
    and r = lifecycle_takenD(11,12) [OF taken]
  from w have ins: "at_insert attempt j = Inr j1"
    by (auto simp: write_reduce_simps kind assms(3))
  from body have chk: "check_claim_execution attempt a (at_list_for_operation (op_id a) j) = None"
    by (simp add: check_body_def assms(3) load_related_def Let_def)
  have "op_current_policy_decision_id b = op_current_policy_decision_id a"
    using replace_for_kind_Inr(12) [OF new(2)] by (simp add: assms(3) policy_decision_of_def or_unchanged_def)
  moreover have "op_latest_attempt_id b = Some (att_id attempt)"
    using replace_for_kind_Inr(10) [OF new(2)] by (simp add: assms(3) claimed_attempt_of_def or_unchanged_def)
  moreover have "at_get (att_id attempt) j' = Some attempt"
    using attb.load_add [OF ins] by (simp add: tail_gets [OF tail])
  ultimately show thesis
    using that [OF new(1)] edge attb.add_fresh [OF ins] chk replace_for_kind_Inr(1) [OF new(2)]
    by (auto simp: check_claim_execution_None assms(3))
qed


text \<open>
  An attempt is durable before the provider is called: an applied ClaimExecution stores the
  claimed attempt as a new STARTED row without outcome, numbered one past the attempts the
  operation had, and leaves the operation EXECUTING, pointing to it, under a policy decision. If
  it carries a provider idempotency key, every stored attempt of the operation with a key has
  the same one.
\<close>

lemma claimed_attempt_is_durable:
  assumes "apply_command (OperationCommand command) j = Inr (r, j')" and "tr_outcome r = TO_APPLIED"
    and "oc_body command = ClaimExecution attempt i"
  shows "\<exists>b. op_get (oc_operation_id command) j' = Some b \<and> op_state b = OS_EXECUTING \<and>
    op_latest_attempt_id b = Some (att_id attempt) \<and> op_current_policy_decision_id b \<noteq> None \<and>
    at_get (att_id attempt) j = None \<and> at_get (att_id attempt) j' = Some attempt \<and>
    att_operation_id attempt = op_id b \<and> att_state attempt = AS_STARTED \<and> att_outcome attempt = None \<and>
    att_number attempt = int (length (at_list_for_operation (op_id b) j)) + 1 \<and>
    (\<forall>x \<in> set (at_list_for_operation (op_id b) j).
       att_provider_idempotency_key attempt \<noteq> None \<and> att_provider_idempotency_key x \<noteq> None \<longrightarrow>
       att_provider_idempotency_key x = att_provider_idempotency_key attempt)"
  by (rule claim_execution_stores [OF assms]) (auto simp: key_mismatch_def list_ex_iff)

section \<open>Policy and approval\<close>

definition verdict_target :: "policy_verdict \<Rightarrow> operation_state" where
  "verdict_target v =
     (case v of PV_ALLOW \<Rightarrow> OS_READY | PV_DENY \<Rightarrow> OS_DENIED | PV_REQUIRE_APPROVAL \<Rightarrow> OS_AWAITING_APPROVAL)"

lemma policy_decision_stored:
  assumes "apply_command (OperationCommand command) j = Inr (r, j')" and "tr_outcome r = TO_APPLIED"
    and d: "policy_decision_of (oc_body command) = Some d"
  shows "\<exists>a b. op_get (oc_operation_id command) j = Some a \<and> op_get (oc_operation_id command) j' = Some b \<and>
    op_current_policy_decision_id b = Some (pd_id d) \<and>
    po_get (pd_id d) j = None \<and> po_get (pd_id d) j' = Some d \<and>
    pd_operation_id d = op_id a \<and> pd_intent_digest d = in_intent_digest (op_intent a) \<and>
    pd_operation_version d = op_version a \<and> op_state b = verdict_target (pd_verdict d)"
proof -
  obtain a b m j1 where taken: "lifecycle_taken command j r j' a b m j1"
    by (rule lifecycle_applied [OF assms(1,2)])
  note a = lifecycle_takenD(1,2) [OF taken] and kind = lifecycle_takenD(3) [OF taken]
    and edge = lifecycle_takenD(4) [OF taken] and actor = lifecycle_takenD(5) [OF taken]
    and body = lifecycle_takenD(6) [OF taken] and w = lifecycle_takenD(7) [OF taken]
    and tail = lifecycle_takenD(8) [OF taken] and new = lifecycle_takenD(9,10) [OF taken]
    and r = lifecycle_takenD(11,12) [OF taken]
  obtain jp where ins: "po_insert d j = Inr jp"
    and same: "j_policy_decisions j1 = j_policy_decisions jp"
    and chk: "check_policy d a (pd_verdict d) = None" and st: "op_state b = verdict_target (pd_verdict d)"
  proof (cases "oc_body command")
    case (PolicyAllow d' x y)
    with w body edge d show thesis
      by (intro that [of j1]) (auto simp: write_reduce_simps kind check_body_def check_policy_None
          verdict_target_def policy_decision_of_def)
  next
    case (PolicyDeny d' x)
    with w body edge d show thesis
      by (intro that [of j1]) (auto simp: write_reduce_simps kind check_body_def check_policy_None
          verdict_target_def policy_decision_of_def)
  next
    case (PolicyRequireApproval d' p x y)
    with w d obtain jp where "po_insert d j = Inr jp" and "ap_insert p jp = Inr j1"
      by (auto simp: write_reduce_simps kind policy_decision_of_def)
    with PolicyRequireApproval body edge d show thesis
      by (intro that [of jp]) (auto simp: check_body_def check_require_approval_def check_policy_None
          verdict_target_def policy_decision_of_def ap_insert_Inr split: option.split_asm)
  qed (use d in \<open>auto simp: policy_decision_of_def\<close>)
  have "po_get (pd_id d) j1 = po_get (pd_id d) jp" by (simp add: po_get_def same)
  then have "po_get (pd_id d) j' = Some d"
    using potb.load_add [OF ins] by (simp add: tail_gets [OF tail])
  then show ?thesis
    using a(1) new(1) d st potb.add_fresh [OF ins] chk replace_for_kind_Inr(12) [OF new(2)]
    by (auto simp: check_policy_None or_unchanged_def)
qed

lemma policy_decision_recorded:
  assumes "apply_command (OperationCommand command) j = Inr (r, j')" and "tr_outcome r = TO_APPLIED"
    and "tr_from_state r = Some OS_PENDING_POLICY" and "tr_to_state r \<noteq> Some OS_CANCELLED"
  shows "\<exists>a b d. op_get (oc_operation_id command) j = Some a \<and> op_get (oc_operation_id command) j' = Some b \<and>
    op_current_policy_decision_id b = Some (pd_id d) \<and>
    po_get (pd_id d) j = None \<and> po_get (pd_id d) j' = Some d \<and>
    pd_operation_id d = op_id a \<and> pd_intent_digest d = in_intent_digest (op_intent a) \<and>
    pd_operation_version d = op_version a \<and> op_state b = verdict_target (pd_verdict d)"
proof -
  obtain a b m j1 where taken: "lifecycle_taken command j r j' a b m j1"
    by (rule lifecycle_applied [OF assms(1,2)])
  have "policy_decision_of (oc_body command) \<noteq> None"
    using lifecycle_takenD(4,11,12) [OF taken] assms(3,4)
    by (cases "oc_body command") (auto simp: policy_decision_of_def lifecycle_takenD(3) [OF taken])
  then obtain d where "policy_decision_of (oc_body command) = Some d" by blast
  from policy_decision_stored [OF assms(1,2) this] show ?thesis by blast
qed

text \<open>
  Only a policy decision moves an operation past PENDING_POLICY (other than to CANCELLED): the
  applied command stores a decision for exactly this operation, intent digest and version, the
  operation points to it, and the state reached is the one its verdict names.
\<close>

lemma policy_gate:
  assumes "apply_command (OperationCommand command) j = Inr (r, j')" and "tr_outcome r = TO_APPLIED"
    and "tr_from_state r = Some OS_PENDING_POLICY" and "tr_to_state r \<noteq> Some OS_CANCELLED"
  shows "\<exists>a b d. op_get (oc_operation_id command) j = Some a \<and> op_get (oc_operation_id command) j' = Some b \<and>
    op_current_policy_decision_id b = Some (pd_id d) \<and>
    po_get (pd_id d) j = None \<and> po_get (pd_id d) j' = Some d \<and>
    pd_operation_id d = op_id a \<and> pd_intent_digest d = in_intent_digest (op_intent a) \<and>
    pd_operation_version d = op_version a \<and> op_state b = verdict_target (pd_verdict d)"
  by (rule policy_decision_recorded [OF assms])

lemma approval_recorded:
  assumes "apply_command (OperationCommand command) j = Inr (r, j')" and "tr_outcome r = TO_APPLIED"
    and "tr_from_state r = Some OS_AWAITING_APPROVAL" and "tr_to_state r = Some OS_READY"
  shows "\<exists>a b p stored. op_get (oc_operation_id command) j = Some a \<and>
    op_get (oc_operation_id command) j' = Some b \<and> op_current_approval_id b = Some (ap_id p) \<and>
    approval_bound p a (oc_occurred_at command) \<and>
    ap_get (ap_id p) j = Some stored \<and> ap_state stored = AP_PENDING \<and> ap_get (ap_id p) j' = Some p \<and>
    ap_decided_by p = oc_actor command \<and> oc_actor command \<noteq> None"
proof -
  obtain a b m j1 where taken: "lifecycle_taken command j r j' a b m j1"
    by (rule lifecycle_applied [OF assms(1,2)])
  note a = lifecycle_takenD(1,2) [OF taken] and kind = lifecycle_takenD(3) [OF taken]
    and edge = lifecycle_takenD(4) [OF taken] and actor = lifecycle_takenD(5) [OF taken]
    and body = lifecycle_takenD(6) [OF taken] and w = lifecycle_takenD(7) [OF taken]
    and tail = lifecycle_takenD(8) [OF taken] and new = lifecycle_takenD(9,10) [OF taken]
    and r = lifecycle_takenD(11,12) [OF taken]
  obtain p x y where grant: "oc_body command = ApprovalGrant p x y"
    using edge r assms(3,4) by (cases "oc_body command") auto
  from w have upd: "ap_update_cas_state p AP_PENDING j = Inr j1"
    by (auto simp: write_reduce_simps kind grant)
  from ap_update_cas_state_get [OF this] obtain stored where st: "ap_get (ap_id p) j = Some stored"
      "ap_state stored = AP_PENDING" and now: "ap_get (ap_id p) j1 = Some p" by blast
  have "oc_actor command \<noteq> None"
    using check_actor_None [OF actor] grant by (simp add: kind ACTOR_REQUIRED_KINDS_def)
  moreover have "check_approval_grant p (oc_actor command) (Some stored) a (oc_occurred_at command) = None"
    using body st(1) by (simp add: grant check_body_def load_related_def Let_def cmd_approval_def
        requested_approval_of_def decided_approval_of_def)
  then have "approval_bound p a (oc_occurred_at command)" "ap_decided_by p = oc_actor command"
    by (auto simp: check_approval_grant_def Let_def approval_binding_valid_iff [symmetric] split: if_split_asm)
  moreover have "op_current_approval_id b = Some (ap_id p)"
    using replace_for_kind_Inr(13) [OF new(2)]
    by (simp add: grant cmd_approval_def requested_approval_of_def decided_approval_of_def or_unchanged_def)
  ultimately show ?thesis using a(1) new(1) st now by (auto simp: tail_gets [OF tail])
qed

text \<open>
  Only a bound approval releases an operation that awaits approval: the applied command is an
  ApprovalGrant whose approval is APPROVED, bound to this operation's intent, version and
  policy decision and unexpired at the time of the command; it was stored PENDING before, is
  stored as decided now and pointed to by the operation, and the deciding principal is the actor
  of the command.
\<close>

lemma approval_gate:
  assumes "apply_command (OperationCommand command) j = Inr (r, j')" and "tr_outcome r = TO_APPLIED"
    and "tr_from_state r = Some OS_AWAITING_APPROVAL" and "tr_to_state r = Some OS_READY"
  shows "\<exists>a b p stored. op_get (oc_operation_id command) j = Some a \<and>
    op_get (oc_operation_id command) j' = Some b \<and> op_current_approval_id b = Some (ap_id p) \<and>
    approval_bound p a (oc_occurred_at command) \<and>
    ap_get (ap_id p) j = Some stored \<and> ap_state stored = AP_PENDING \<and> ap_get (ap_id p) j' = Some p \<and>
    ap_decided_by p = oc_actor command \<and> oc_actor command \<noteq> None"
  by (rule approval_recorded [OF assms])

end
