(* ===== verification/Worked_Example.thy ===== *)
theory Worked_Example
  imports Evidence
begin

text \<open>
  A worked example: the life of one operation, command by command, from its creation through
  execution and compensation. Each step is computed by the model (\<open>engine_eval\<close> collects the
  defining equations that take part), so the journals below are what the engine produces.
  They are the concrete inputs at which the theorems' hypotheses are met.
\<close>

section \<open>Identifiers\<close>

definition fx_id :: "char \<Rightarrow> opaque_id" where
  "fx_id c = OpaqueId (c # ''0000000-0000-4000-8000-000000000000'')"

lemma fx_id_eq [simp]: "fx_id a = fx_id b \<longleftrightarrow> a = b"
  by (simp add: fx_id_def)

lemma lower_of_unchanged: "\<forall>c \<in> set s. lower_char c = c \<Longrightarrow> str_lower s = s"
  by (simp add: str_lower_def map_idI)

lemma fx_id_not_secret [simp]:
  "c \<in> set ''0123456789abcdef'' \<Longrightarrow> value_is_forbidden (oid_value (fx_id c)) \<longleftrightarrow> False"
  by (auto simp: fx_id_def value_is_forbidden_def str_lower_def lower_char_def str_strip_def
      is_space_char_def str_startswith_def)

lemma fx_literals_not_secret [simp]:
  "value_is_forbidden ''CREATE_OPERATION'' \<longleftrightarrow> False" "value_is_forbidden ''POLICY_ALLOW'' \<longleftrightarrow> False"
  "value_is_forbidden ''CLAIM_EXECUTION'' \<longleftrightarrow> False" "value_is_forbidden ''EXECUTION_APPLIED'' \<longleftrightarrow> False"
  "value_is_forbidden ''APPLIED'' \<longleftrightarrow> False"
  "value_is_forbidden ''SUCCEEDED_START_COMPENSATION'' \<longleftrightarrow> False"
  "value_is_forbidden ''CLAIM_COMPENSATION_EXECUTION'' \<longleftrightarrow> False"
  "value_is_forbidden ''COMPENSATION_APPLIED'' \<longleftrightarrow> False"
  "value_is_forbidden ''EXECUTION_NOT_APPLIED_RETRY'' \<longleftrightarrow> False"
  "value_is_forbidden ''NOT_APPLIED'' \<longleftrightarrow> False"
  "value_is_forbidden ''POLICY_REQUIRE_APPROVAL'' \<longleftrightarrow> False"
  "value_is_forbidden ''APPROVAL_GRANT'' \<longleftrightarrow> False"
  by code_simp+

definition fx_now :: utc_timestamp where
  "fx_now = UtcTimestamp 1000"

definition fx_actor :: principal_ref where
  "fx_actor = \<lparr>pr_type = PT_HUMAN, pr_id = ''alice'', pr_display_name = None\<rparr>"

section \<open>Creating the operation\<close>

definition fx_op :: operation where
  "fx_op = \<lparr>op_contract_version = CONTRACT_VERSION, op_id = fx_id CHR ''1'',
     op_state = OS_PENDING_POLICY, op_version = 1,
     op_intent = \<lparr>in_effect = \<lparr>ef_provider = ''github'', ef_action = ''create_issue'', ef_version = ''v1''\<rparr>,
        in_arguments_mode = AM_INLINE, in_arguments = Some (JObject []), in_arguments_ref = None,
        in_canonical_arguments_hash = ''sha256:00'', in_intent_digest = ''sha256:01'',
        in_requester = fx_actor, in_requested_at = fx_now, in_metadata = []\<rparr>,
     op_risk_level = RL_LOW,
     op_idempotency_identity = operation_idempotency_identity (fx_id CHR ''1''),
     op_current_policy_decision_id = None, op_current_approval_id = None,
     op_latest_attempt_id = None, op_latest_verification_id = None, op_compensation_id = None,
     op_created_at = fx_now, op_updated_at = fx_now\<rparr>"

definition fx_create :: create_command where
  "fx_create = \<lparr>cc_kind = TK_CREATE_OPERATION, cc_operation = fx_op,
     cc_occurred_at = fx_now, cc_actor = Some fx_actor, cc_correlation_id = None,
     cc_reason_code = ''test'', cc_created_audit_event_id = fx_id CHR ''2''\<rparr>"

text \<open>The audit event number \<open>n\<close> of the example operation.\<close>

definition fx_event ::
  "char \<Rightarrow> int \<Rightarrow> audit_event_type \<Rightarrow> operation_state option \<Rightarrow> operation_state \<Rightarrow> int \<Rightarrow>
   (string \<times> json) list \<Rightarrow> audit_event" where
  "fx_event c n t s u v data =
     \<lparr>au_contract_version = CONTRACT_VERSION, au_id = fx_id c, au_operation_id = fx_id CHR ''1'',
      au_sequence = n, au_event_type = t, au_from_state = s, au_to_state = Some u,
      au_operation_version = v, au_actor = Some fx_actor, au_reason_code = ''test'',
      au_data = JObject data, au_correlation_id = None, au_created_at = fx_now\<rparr>"

definition fx_command :: "transition_kind \<Rightarrow> int \<Rightarrow> char \<Rightarrow> op_body \<Rightarrow> op_command" where
  "fx_command kind version audit body =
     \<lparr>oc_kind = kind, oc_operation_id = fx_id CHR ''1'', oc_expected_version = version,
      oc_occurred_at = fx_now, oc_actor = Some fx_actor, oc_correlation_id = None,
      oc_reason_code = ''test'', oc_transition_audit_event_id = fx_id audit, oc_body = body\<rparr>"

text \<open>The command is applied, takes the journal to \<open>j'\<close> and the operation from \<open>s\<close> to \<open>t\<close>.\<close>

definition fx_step ::
  "transition_command \<Rightarrow> journal \<Rightarrow> journal \<Rightarrow> operation_state option \<Rightarrow> operation_state \<Rightarrow> bool" where
  "fx_step c j j' s t \<longleftrightarrow>
     (\<exists>r. apply_command c j = Inr (r, j') \<and> tr_outcome r = TO_APPLIED \<and>
        tr_from_state r = s \<and> tr_to_state r = Some t)"

definition fx_j1 :: journal where
  "fx_j1 = empty_journal\<lparr>j_operations := [fx_op],
     j_audit_events := [fx_event CHR ''2'' 1 AE_OPERATION_CREATED None OS_PENDING_POLICY 1
        [(''kind'', JStr ''CREATE_OPERATION'')]]\<rparr>"

definition fx_decision :: policy_decision where
  "fx_decision = \<lparr>pd_contract_version = CONTRACT_VERSION, pd_id = fx_id CHR ''a'', pd_operation_id = fx_id CHR ''1'',
     pd_operation_version = 1, pd_intent_digest = ''sha256:01'', pd_verdict = PV_ALLOW,
     pd_reason_codes = [''ok''], pd_explanation = None,
     pd_obligations = \<lparr>ob_require_verification = False, ob_max_automatic_execution_attempts = None,
       ob_max_automatic_recovery_attempts = None, ob_automatic_compensation_allowed = False,
       ob_operator_reason_required = False, ob_approval_expires_at = None\<rparr>,
     pd_policy_revision = ''r1'', pd_evaluated_at = fx_now\<rparr>"

definition fx_allow :: op_command where
  "fx_allow = fx_command TK_POLICY_ALLOW 1 CHR ''3'' (PolicyAllow fx_decision (fx_id CHR ''4'') (fx_id CHR ''5''))"

definition fx_j2 :: journal where
  "fx_j2 = fx_j1\<lparr>
     j_operations := [fx_op\<lparr>op_state := OS_READY, op_version := 2,
        op_current_policy_decision_id := Some (fx_id CHR ''a'')\<rparr>],
     j_policy_decisions := [fx_decision],
     j_audit_events := j_audit_events fx_j1 @
       [fx_event CHR ''4'' 2 AE_POLICY_EVALUATED (Some OS_PENDING_POLICY) OS_READY 2
          [(''kind'', JStr ''POLICY_ALLOW''), (''policy_decision_id'', JStr (oid_value (fx_id CHR ''a'')))],
        fx_event CHR ''3'' 3 AE_OPERATION_TRANSITIONED (Some OS_PENDING_POLICY) OS_READY 2
          [(''kind'', JStr ''POLICY_ALLOW'')]],
     j_outbox_events :=
       [\<lparr>ox_contract_version = CONTRACT_VERSION, ox_id = fx_id CHR ''5'', ox_state = OB_PENDING,
         ox_aggregate_type = ''operation'', ox_aggregate_id = fx_id CHR ''1'',
         ox_operation_version = 2, ox_command = WC_EXECUTE, ox_created_at = fx_now,
         ox_published_at = None, ox_correlation_id = None\<rparr>]\<rparr>"

lemmas engine_eval =
  apply_command_def apply_create_def create_conflict_def apply_operation_def perform_operation_def
  Let_def fx_command_def fx_event_def CONTRACT_VERSION_def
  op_get_def op_exists_def op_get_by_idempotency_identity_def op_insert_def op_update_cas_def
  unique_err_def fk_err_def au_append_def au_next_sequence_def
  evaluate_operation_transition_def LEGAL_OPERATION_TRANSITIONS_def ABSOLUTE_TERMINAL_STATES_def
  INITIAL_OPERATION_VERSION_def INITIAL_AUDIT_SEQUENCE_def
  audit_data_def ALLOWED_AUDIT_DATA_KEYS_def make_json_object_def build_audit_event_def
  make_audit_event_def validate_audit_event_def reject_secrets_in_json_def key_is_forbidden_def
  FORBIDDEN_KEY_FRAGMENTS_def normalize_key_def str_lower_def lower_char_def str_startswith_def
  applied_def empty_journal_def fx_step_def
  load_related_def evaluate_preconditions_def check_actor_def check_outbox_id_def outcome_mismatch_def
  OUTBOX_COMMAND_FOR_KIND_def ACTOR_REQUIRED_KINDS_def COMPENSATION_TARGET_STATE_def ESCALATE_KINDS_def
  body_simps check_body_def check_policy_def next_version_def write_related_def write_step_defs
  write_started_compensation_def write_compensation_state_def replace_for_kind_def
  replace_operation_def make_operation_def validate_operation_def or_unchanged_def
  append_audits_def audit_plan_def detail_entries_def transition_entry_def kind_pair_def
  policy_entry_def plan_event_def insert_outbox_def build_outbox_event_def make_outbox_event_def
  validate_outbox_event_def AGGREGATE_TYPE_OPERATION_def ox_insert_def po_insert_def
  tbl_set_def at_list_for_operation_def td_is_legal_def cp_fks_def ap_fks_def
  INITIAL_COMPENSATION_VERSION_def last_opt_def ca_write_result_def

lemma fx_created: "fx_step (CreateOperation fx_create) empty_journal fx_j1 None OS_PENDING_POLICY"
  by (simp add: engine_eval fx_create_def fx_op_def fx_j1_def)

lemma fx_allowed: "fx_step (OperationCommand fx_allow) fx_j1 fx_j2 (Some OS_PENDING_POLICY) OS_READY"
  by (simp add: engine_eval fx_allow_def fx_decision_def fx_op_def fx_j1_def fx_j2_def)

definition fx_attempt :: execution_attempt where
  "fx_attempt = \<lparr>att_contract_version = CONTRACT_VERSION, att_id = fx_id CHR ''b'',
     att_operation_id = fx_id CHR ''1'', att_number = 1, att_state = AS_STARTED, att_started_at = fx_now,
     att_completed_at = None, att_provider_idempotency_key = None, att_external_operation_id = None,
     att_external_resource_ids = [], att_outcome = None, att_evidence = None, att_error = None,
     att_correlation_id = None\<rparr>"

definition fx_claim :: op_command where
  "fx_claim = fx_command TK_CLAIM_EXECUTION 2 CHR ''6'' (ClaimExecution fx_attempt (fx_id CHR ''7''))"

definition fx_j3 :: journal where
  "fx_j3 = fx_j2\<lparr>
     j_operations := [fx_op\<lparr>op_state := OS_EXECUTING, op_version := 3,
        op_current_policy_decision_id := Some (fx_id CHR ''a''),
        op_latest_attempt_id := Some (fx_id CHR ''b'')\<rparr>],
     j_attempts := [fx_attempt],
     j_audit_events := j_audit_events fx_j2 @
       [fx_event CHR ''7'' 4 AE_EXECUTION_ATTEMPT_STARTED (Some OS_READY) OS_EXECUTING 3
          [(''attempt_id'', JStr (oid_value (fx_id CHR ''b''))), (''kind'', JStr ''CLAIM_EXECUTION'')],
        fx_event CHR ''6'' 5 AE_OPERATION_TRANSITIONED (Some OS_READY) OS_EXECUTING 3
          [(''kind'', JStr ''CLAIM_EXECUTION'')]]\<rparr>"

definition fx_completed :: execution_attempt where
  "fx_completed = fx_attempt\<lparr>att_state := AS_COMPLETED, att_completed_at := Some fx_now,
     att_outcome := Some EO_APPLIED\<rparr>"

definition fx_applied :: op_command where
  "fx_applied = fx_command TK_EXECUTION_APPLIED 3 CHR ''8'' (ExecutionApplied fx_completed (fx_id CHR ''9''))"

definition fx_j4 :: journal where
  "fx_j4 = fx_j3\<lparr>
     j_operations := [fx_op\<lparr>op_state := OS_SUCCEEDED, op_version := 4,
        op_current_policy_decision_id := Some (fx_id CHR ''a''),
        op_latest_attempt_id := Some (fx_id CHR ''b'')\<rparr>],
     j_attempts := [fx_completed],
     j_audit_events := j_audit_events fx_j3 @
       [fx_event CHR ''9'' 6 AE_EXECUTION_EVIDENCE_RECORDED (Some OS_EXECUTING) OS_SUCCEEDED 4
          [(''attempt_id'', JStr (oid_value (fx_id CHR ''b''))), (''effect_outcome'', JStr ''APPLIED''),
           (''kind'', JStr ''EXECUTION_APPLIED'')],
        fx_event CHR ''8'' 7 AE_OPERATION_TRANSITIONED (Some OS_EXECUTING) OS_SUCCEEDED 4
          [(''kind'', JStr ''EXECUTION_APPLIED'')]]\<rparr>"

lemma fx_claimed: "fx_step (OperationCommand fx_claim) fx_j2 fx_j3 (Some OS_READY) OS_EXECUTING"
  by (simp add: engine_eval check_claim_execution_def key_mismatch_def at_insert_def
      fx_claim_def fx_attempt_def fx_decision_def fx_op_def fx_j1_def fx_j2_def fx_j3_def)

lemma fx_succeeded: "fx_step (OperationCommand fx_applied) fx_j3 fx_j4 (Some OS_EXECUTING) OS_SUCCEEDED"
  by (simp add: engine_eval check_execution_attempt_complete_def at_get_def at_complete_def
      at_write_result_def evidence_entry_def
      fx_applied_def fx_completed_def fx_attempt_def fx_decision_def fx_op_def fx_j1_def fx_j2_def
      fx_j3_def fx_j4_def)

section \<open>Compensation\<close>

definition fx_compensation :: compensation where
  "fx_compensation = \<lparr>cm_contract_version = CONTRACT_VERSION, cm_id = fx_id CHR ''c'',
     cm_original_operation_id = fx_id CHR ''1'', cm_kind = CK_EXACT, cm_state = CS_PENDING,
     cm_version = 1, cm_intent_digest = ''sha256:02'', cm_arguments_mode = AM_INLINE,
     cm_arguments = Some (JObject []), cm_arguments_ref = None,
     cm_idempotency_identity = compensation_idempotency_identity (fx_id CHR ''c''),
     cm_requested_by = fx_actor, cm_policy_decision_id = None,
     cm_created_at = fx_now, cm_updated_at = fx_now\<rparr>"

definition fx_start :: op_command where
  "fx_start = fx_command TK_SUCCEEDED_START_COMPENSATION 4 CHR ''a''
     (SucceededStartCompensation fx_compensation (fx_id CHR ''b'') (fx_id CHR ''6''))"

definition fx_op5 :: "operation_state \<Rightarrow> int \<Rightarrow> operation" where
  "fx_op5 s v = fx_op\<lparr>op_state := s, op_version := v,
     op_current_policy_decision_id := Some (fx_id CHR ''a''),
     op_latest_attempt_id := Some (fx_id CHR ''b''), op_compensation_id := Some (fx_id CHR ''c'')\<rparr>"

definition fx_j5 :: journal where
  "fx_j5 = fx_j4\<lparr>
     j_operations := [fx_op5 OS_COMPENSATING 5],
     j_compensations := [fx_compensation],
     j_audit_events := j_audit_events fx_j4 @
       [fx_event CHR ''b'' 8 AE_COMPENSATION_REQUESTED (Some OS_SUCCEEDED) OS_COMPENSATING 5
          [(''compensation_id'', JStr (oid_value (fx_id CHR ''c''))),
           (''kind'', JStr ''SUCCEEDED_START_COMPENSATION'')],
        fx_event CHR ''a'' 9 AE_OPERATION_TRANSITIONED (Some OS_SUCCEEDED) OS_COMPENSATING 5
          [(''kind'', JStr ''SUCCEEDED_START_COMPENSATION'')]],
     j_outbox_events := j_outbox_events fx_j4 @
       [\<lparr>ox_contract_version = CONTRACT_VERSION, ox_id = fx_id CHR ''6'', ox_state = OB_PENDING,
         ox_aggregate_type = ''operation'', ox_aggregate_id = fx_id CHR ''1'',
         ox_operation_version = 5, ox_command = WC_COMPENSATE, ox_created_at = fx_now,
         ox_published_at = None, ox_correlation_id = None\<rparr>]\<rparr>"

lemma fx_compensating:
  "fx_step (OperationCommand fx_start) fx_j4 fx_j5 (Some OS_SUCCEEDED) OS_COMPENSATING"
  by (simp add: engine_eval check_compensation_start_def compensation_requested_entry_def cp_insert_def
      cp_get_def at_get_def compensation_parent_is_consistent_def PARENT_FOR_COMPENSATION_STATE_def
      fx_start_def fx_compensation_def fx_completed_def fx_attempt_def fx_decision_def fx_op_def fx_op5_def
      fx_j1_def fx_j2_def fx_j3_def fx_j4_def fx_j5_def)

definition fx_undo :: compensation_attempt where
  "fx_undo = \<lparr>ca_contract_version = CONTRACT_VERSION, ca_id = fx_id CHR ''d'',
     ca_compensation_id = fx_id CHR ''c'', ca_number = 1, ca_state = AS_STARTED,
     ca_started_at = fx_now, ca_completed_at = None, ca_provider_idempotency_key = None,
     ca_external_operation_id = None, ca_outcome = None, ca_evidence = None, ca_error = None\<rparr>"

definition fx_undo_claim :: claim_compensation_execution where
  "fx_undo_claim = \<lparr>pc_kind = PK_CLAIM_COMPENSATION_EXECUTION, pc_operation_id = fx_id CHR ''1'',
     pc_expected_operation_version = 5, pc_compensation_id = fx_id CHR ''c'',
     pc_expected_compensation_version = 1, pc_occurred_at = fx_now, pc_actor = Some fx_actor,
     pc_correlation_id = None, pc_reason_code = ''test'', ce_attempt = fx_undo,
     ce_attempt_audit_event_id = fx_id CHR ''c''\<rparr>"

definition fx_j6 :: journal where
  "fx_j6 = fx_j5\<lparr>
     j_compensations := [fx_compensation\<lparr>cm_state := CS_EXECUTING, cm_version := 2\<rparr>],
     j_compensation_attempts := [fx_undo],
     j_audit_events := j_audit_events fx_j5 @
       [fx_event CHR ''c'' 10 AE_COMPENSATION_ATTEMPTED (Some OS_COMPENSATING) OS_COMPENSATING 5
          [(''compensation_attempt_id'', JStr (oid_value (fx_id CHR ''d''))),
           (''compensation_id'', JStr (oid_value (fx_id CHR ''c''))),
           (''kind'', JStr ''CLAIM_COMPENSATION_EXECUTION'')]]\<rparr>"

lemma fx_undo_claimed:
  "fx_step (ClaimCompensationExecution fx_undo_claim) fx_j5 fx_j6 (Some OS_COMPENSATING) OS_COMPENSATING"
  by (simp add: engine_eval apply_claim_compensation_def with_compensation_def cp_get_def
      ca_list_for_compensation_def evaluate_claim_compensation_preconditions_def check_progress_source_def
      evaluate_compensation_transition_def LEGAL_COMPENSATION_TRANSITIONS_def
      check_new_compensation_attempt_def compensation_parent_is_consistent_def
      PARENT_FOR_COMPENSATION_STATE_def ca_insert_def advance_compensation_def replace_compensation_def
      make_compensation_def validate_compensation_def cp_update_cas_def progress_event_def
      attempted_pairs_def progress_applied_def
      fx_undo_claim_def fx_undo_def fx_compensation_def fx_completed_def fx_attempt_def fx_decision_def
      fx_op_def fx_op5_def fx_j1_def fx_j2_def fx_j3_def fx_j4_def fx_j5_def fx_j6_def)

definition fx_undone :: compensation_attempt where
  "fx_undone = fx_undo\<lparr>ca_state := AS_COMPLETED, ca_completed_at := Some fx_now,
     ca_outcome := Some EO_APPLIED\<rparr>"

definition fx_finish :: op_command where
  "fx_finish = fx_command TK_COMPENSATION_APPLIED 5 CHR ''d''
     (CompensationApplied fx_undone (fx_id CHR ''e'') None)"

definition fx_j7 :: journal where
  "fx_j7 = fx_j6\<lparr>
     j_operations := [fx_op5 OS_COMPENSATED 6],
     j_compensations := [fx_compensation\<lparr>cm_state := CS_SUCCEEDED, cm_version := 3\<rparr>],
     j_compensation_attempts := [fx_undone],
     j_audit_events := j_audit_events fx_j6 @
       [fx_event CHR ''e'' 11 AE_COMPENSATION_RESULT (Some OS_COMPENSATING) OS_COMPENSATED 6
          [(''compensation_attempt_id'', JStr (oid_value (fx_id CHR ''d''))),
           (''compensation_id'', JStr (oid_value (fx_id CHR ''c''))),
           (''effect_outcome'', JStr ''APPLIED''), (''kind'', JStr ''COMPENSATION_APPLIED'')],
        fx_event CHR ''d'' 12 AE_OPERATION_TRANSITIONED (Some OS_COMPENSATING) OS_COMPENSATED 6
          [(''kind'', JStr ''COMPENSATION_APPLIED'')]]\<rparr>"

lemma fx_compensated:
  "fx_step (OperationCommand fx_finish) fx_j6 fx_j7 (Some OS_COMPENSATING) OS_COMPENSATED"
  by (simp add: engine_eval compensation_result_entry_def cp_get_def at_get_def ca_get_def ca_list_for_compensation_def
      check_compensation_outcome_def check_compensation_verification_def check_compensation_target_def
      check_compensation_attempt_def compensation_parent_is_consistent_def PARENT_FOR_COMPENSATION_STATE_def
      evaluate_compensation_transition_def LEGAL_COMPENSATION_TRANSITIONS_def
      replace_compensation_def make_compensation_def validate_compensation_def cp_update_cas_def
      ca_complete_def
      fx_finish_def fx_undone_def fx_undo_def fx_compensation_def fx_completed_def fx_attempt_def
      fx_decision_def fx_op_def fx_op5_def
      fx_j1_def fx_j2_def fx_j3_def fx_j4_def fx_j5_def fx_j6_def fx_j7_def)

section \<open>Other branches\<close>

text \<open>From the claimed execution: the effect was not applied, the operation is READY again.\<close>

definition fx_not_applied :: execution_attempt where
  "fx_not_applied = fx_attempt\<lparr>att_state := AS_COMPLETED, att_completed_at := Some fx_now,
     att_outcome := Some EO_NOT_APPLIED\<rparr>"

definition fx_retry :: op_command where
  "fx_retry = fx_command TK_EXECUTION_NOT_APPLIED_RETRY 3 CHR ''8''
     (ExecutionNotAppliedRetry fx_not_applied IM_NONE (fx_id CHR ''9'') (fx_id CHR ''6'') None)"

definition fx_j4r :: journal where
  "fx_j4r = fx_j3\<lparr>
     j_operations := [fx_op\<lparr>op_state := OS_READY, op_version := 4,
        op_current_policy_decision_id := Some (fx_id CHR ''a''),
        op_latest_attempt_id := Some (fx_id CHR ''b'')\<rparr>],
     j_attempts := [fx_not_applied],
     j_audit_events := j_audit_events fx_j3 @
       [fx_event CHR ''9'' 6 AE_EXECUTION_EVIDENCE_RECORDED (Some OS_EXECUTING) OS_READY 4
          [(''attempt_id'', JStr (oid_value (fx_id CHR ''b''))), (''effect_outcome'', JStr ''NOT_APPLIED''),
           (''kind'', JStr ''EXECUTION_NOT_APPLIED_RETRY'')],
        fx_event CHR ''8'' 7 AE_OPERATION_TRANSITIONED (Some OS_EXECUTING) OS_READY 4
          [(''kind'', JStr ''EXECUTION_NOT_APPLIED_RETRY'')]],
     j_outbox_events := j_outbox_events fx_j3 @
       [\<lparr>ox_contract_version = CONTRACT_VERSION, ox_id = fx_id CHR ''6'', ox_state = OB_PENDING,
         ox_aggregate_type = ''operation'', ox_aggregate_id = fx_id CHR ''1'',
         ox_operation_version = 4, ox_command = WC_EXECUTE, ox_created_at = fx_now,
         ox_published_at = None, ox_correlation_id = None\<rparr>]\<rparr>"

lemma fx_retried:
  "fx_step (OperationCommand fx_retry) fx_j3 fx_j4r (Some OS_EXECUTING) OS_READY"
  by (simp add: engine_eval check_execution_attempt_complete_def at_get_def at_complete_def
      at_write_result_def evidence_entry_def map_retry_safety_reason_def evaluate_effect_retry_safety_def
      fx_retry_def fx_not_applied_def fx_attempt_def fx_decision_def fx_op_def fx_j1_def fx_j2_def
      fx_j3_def fx_j4r_def)

text \<open>From PENDING_POLICY: the policy asks for an approval, and alice grants it.\<close>

definition fx_ask :: policy_decision where
  "fx_ask = fx_decision\<lparr>pd_verdict := PV_REQUIRE_APPROVAL\<rparr>"

definition fx_approval :: approval where
  "fx_approval = \<lparr>ap_contract_version = CONTRACT_VERSION, ap_id = fx_id CHR ''f'',
     ap_operation_id = fx_id CHR ''1'', ap_operation_version = 2, ap_intent_digest = ''sha256:01'',
     ap_policy_decision_id = fx_id CHR ''a'', ap_state = AP_PENDING, ap_requested_at = fx_now,
     ap_expires_at = None, ap_decided_at = None, ap_decided_by = None, ap_reason = None\<rparr>"

definition fx_require :: op_command where
  "fx_require = fx_command TK_POLICY_REQUIRE_APPROVAL 1 CHR ''3''
     (PolicyRequireApproval fx_ask fx_approval (fx_id CHR ''4'') (fx_id CHR ''5''))"

definition fx_j2a :: journal where
  "fx_j2a = fx_j1\<lparr>
     j_operations := [fx_op\<lparr>op_state := OS_AWAITING_APPROVAL, op_version := 2,
        op_current_policy_decision_id := Some (fx_id CHR ''a''),
        op_current_approval_id := Some (fx_id CHR ''f'')\<rparr>],
     j_policy_decisions := [fx_ask], j_approvals := [fx_approval],
     j_audit_events := j_audit_events fx_j1 @
       [fx_event CHR ''4'' 2 AE_POLICY_EVALUATED (Some OS_PENDING_POLICY) OS_AWAITING_APPROVAL 2
          [(''kind'', JStr ''POLICY_REQUIRE_APPROVAL''),
           (''policy_decision_id'', JStr (oid_value (fx_id CHR ''a'')))],
        fx_event CHR ''5'' 3 AE_APPROVAL_REQUESTED (Some OS_PENDING_POLICY) OS_AWAITING_APPROVAL 2
          [(''approval_id'', JStr (oid_value (fx_id CHR ''f''))),
           (''kind'', JStr ''POLICY_REQUIRE_APPROVAL''),
           (''policy_decision_id'', JStr (oid_value (fx_id CHR ''a'')))],
        fx_event CHR ''3'' 4 AE_OPERATION_TRANSITIONED (Some OS_PENDING_POLICY) OS_AWAITING_APPROVAL 2
          [(''kind'', JStr ''POLICY_REQUIRE_APPROVAL'')]]\<rparr>"

lemma fx_required:
  "fx_step (OperationCommand fx_require) fx_j1 fx_j2a (Some OS_PENDING_POLICY) OS_AWAITING_APPROVAL"
  by (simp add: engine_eval check_require_approval_def ap_insert_def ap_get_def po_get_def
      fx_require_def fx_ask_def fx_approval_def fx_decision_def fx_op_def fx_j1_def fx_j2a_def)

definition fx_granted :: approval where
  "fx_granted = fx_approval\<lparr>ap_state := AP_APPROVED, ap_decided_at := Some fx_now,
     ap_decided_by := Some fx_actor\<rparr>"

definition fx_grant :: op_command where
  "fx_grant = fx_command TK_APPROVAL_GRANT 2 CHR ''6''
     (ApprovalGrant fx_granted (fx_id CHR ''7'') (fx_id CHR ''8''))"

definition fx_j3a :: journal where
  "fx_j3a = fx_j2a\<lparr>
     j_operations := [fx_op\<lparr>op_state := OS_READY, op_version := 3,
        op_current_policy_decision_id := Some (fx_id CHR ''a''),
        op_current_approval_id := Some (fx_id CHR ''f'')\<rparr>],
     j_approvals := [fx_granted],
     j_audit_events := j_audit_events fx_j2a @
       [fx_event CHR ''7'' 5 AE_APPROVAL_DECIDED (Some OS_AWAITING_APPROVAL) OS_READY 3
          [(''approval_id'', JStr (oid_value (fx_id CHR ''f''))), (''kind'', JStr ''APPROVAL_GRANT'')],
        fx_event CHR ''6'' 6 AE_OPERATION_TRANSITIONED (Some OS_AWAITING_APPROVAL) OS_READY 3
          [(''kind'', JStr ''APPROVAL_GRANT'')]],
     j_outbox_events :=
       [\<lparr>ox_contract_version = CONTRACT_VERSION, ox_id = fx_id CHR ''8'', ox_state = OB_PENDING,
         ox_aggregate_type = ''operation'', ox_aggregate_id = fx_id CHR ''1'',
         ox_operation_version = 3, ox_command = WC_EXECUTE, ox_created_at = fx_now,
         ox_published_at = None, ox_correlation_id = None\<rparr>]\<rparr>"

lemma fx_approved:
  "fx_step (OperationCommand fx_grant) fx_j2a fx_j3a (Some OS_AWAITING_APPROVAL) OS_READY"
  by (simp add: engine_eval check_approval_grant_def evaluate_approval_binding_def
      ap_update_cas_state_def ap_get_def po_get_def approval_entry_def
      fx_grant_def fx_granted_def fx_ask_def fx_approval_def fx_decision_def fx_op_def
      fx_j1_def fx_j2a_def fx_j3a_def)

section \<open>The example is a reachable history\<close>

lemma fx_step_system: "fx_step c j j' s t \<Longrightarrow> system_step j j'"
  unfolding fx_step_def by (blast intro: system_step.command)

lemma fx_reachable:
  "reachable fx_j1" "reachable fx_j2" "reachable fx_j3" "reachable fx_j4" "reachable fx_j5"
  "reachable fx_j6" "reachable fx_j7" "reachable fx_j4r" "reachable fx_j2a" "reachable fx_j3a"
proof -
  show 1: "reachable fx_j1" using fx_step_system [OF fx_created] reachable.intros by blast
  show 2: "reachable fx_j2" using fx_step_system [OF fx_allowed] 1 reachable.intros by blast
  show 3: "reachable fx_j3" using fx_step_system [OF fx_claimed] 2 reachable.intros by blast
  show 4: "reachable fx_j4" using fx_step_system [OF fx_succeeded] 3 reachable.intros by blast
  show 5: "reachable fx_j5" using fx_step_system [OF fx_compensating] 4 reachable.intros by blast
  show 6: "reachable fx_j6" using fx_step_system [OF fx_undo_claimed] 5 reachable.intros by blast
  show 7: "reachable fx_j7" using fx_step_system [OF fx_compensated] 6 reachable.intros by blast
  show "reachable fx_j4r" using fx_step_system [OF fx_retried] 3 reachable.intros by blast
  show 8: "reachable fx_j2a" using fx_step_system [OF fx_required] 1 reachable.intros by blast
  show "reachable fx_j3a" using fx_step_system [OF fx_approved] 8 reachable.intros by blast
qed

section \<open>From the example's steps to the theorems' assumptions\<close>

lemma fx_stepE:
  assumes "fx_step c j j' s t"
  obtains r where "apply_command c j = Inr (r, j')" and "tr_outcome r = TO_APPLIED"
    and "tr_from_state r = s" and "tr_to_state r = Some t"
  using assms unfolding fx_step_def by blast

lemma fx_operationE:
  assumes "fx_step (OperationCommand c) j j' s t"
  obtains r where "apply_operation c j = Inr (r, j')" and "tr_outcome r = TO_APPLIED"
  using assms unfolding fx_step_def by (auto simp: apply_command_def split: if_split_asm)

end
