(* ===== verification/Theorems_At_Work.thy ===== *)
theory Theorems_At_Work
  imports Worked_Example
begin

text \<open>
  The theorems at the worked example: every theorem that assumes something about a journal or a
  command is applied to the journals and commands of \<open>Worked_Example\<close>, where its
  assumptions hold.
\<close>

section \<open>The example's history\<close>

lemma fx_later:
  "later fx_j1 fx_j4" "later fx_j3 fx_j3" "later fx_j7 fx_j7"
proof -
  note steps = fx_step_system [OF fx_allowed] fx_step_system [OF fx_claimed] fx_step_system [OF fx_succeeded]
  show "later fx_j1 fx_j4" using later.refl later.step steps by meson
qed (rule later.refl)+

text \<open>A command that comes too late: it expects version 2, when the operation was READY.\<close>

definition fx_cancel :: op_command where
  "fx_cancel = fx_command TK_CANCEL_READY 2 CHR ''f'' CancelReady"

lemma fx_operations:
  "op_get (fx_id CHR ''1'') fx_j1 = Some fx_op"
  "op_get (fx_id CHR ''1'') fx_j3 = Some (fx_op\<lparr>op_state := OS_EXECUTING, op_version := 3,
        op_current_policy_decision_id := Some (fx_id CHR ''a''),
        op_latest_attempt_id := Some (fx_id CHR ''b'')\<rparr>)"
  "op_get (fx_id CHR ''1'') fx_j4 = Some (fx_op\<lparr>op_state := OS_SUCCEEDED, op_version := 4,
        op_current_policy_decision_id := Some (fx_id CHR ''a''),
        op_latest_attempt_id := Some (fx_id CHR ''b'')\<rparr>)"
  "op_get (fx_id CHR ''1'') fx_j6 = Some (fx_op5 OS_COMPENSATING 5)"
  "op_get (fx_id CHR ''1'') fx_j7 = Some (fx_op5 OS_COMPENSATED 6)"
  "op_get (fx_id CHR ''1'') fx_j2 = Some (fx_op\<lparr>op_state := OS_READY, op_version := 2,
        op_current_policy_decision_id := Some (fx_id CHR ''a'')\<rparr>)"
  by (simp_all add: op_get_def fx_op_def fx_op5_def fx_j1_def fx_j2_def fx_j3_def fx_j4_def fx_j5_def
      fx_j6_def fx_j7_def)

lemma fx_cancel_refused:
  "\<exists>r. apply_command (OperationCommand fx_cancel) fx_j3 = Inr (r, fx_j3) \<and>
     apply_operation fx_cancel fx_j3 = Inr (r, fx_j3) \<and> tr_outcome r = TO_REJECTED"
  by (simp add: apply_command_def apply_operation_def fx_cancel_def fx_command_def Let_def
      fx_operations rejected_def)

section \<open>System invariants\<close>

theorem audit_log_has_no_secrets_witness:
  "fx_event CHR ''2'' 1 AE_OPERATION_CREATED None OS_PENDING_POLICY 1 [(''kind'', JStr ''CREATE_OPERATION'')]
     \<in> set (j_audit_events fx_j1) \<and> \<not> value_is_forbidden ''CREATE_OPERATION''"
proof -
  let ?e = "fx_event CHR ''2'' 1 AE_OPERATION_CREATED None OS_PENDING_POLICY 1
              [(''kind'', JStr ''CREATE_OPERATION'')]"
  have e: "?e \<in> set (j_audit_events fx_j1)" by (simp add: fx_j1_def)
  from audit_log_has_no_secrets [OF fx_reachable(1) this] e show ?thesis by (simp add: fx_event_def)
qed

theorem audit_log_replays_witness:
  "replay (OS_PENDING_POLICY, 1) (lifecycle_events (fx_id CHR ''1'') fx_j4) = Some (OS_SUCCEEDED, 4)"
  using audit_log_replays [OF fx_reachable(4) fx_operations(3)] by simp

theorem compensation_state_agrees_witness:
  "\<exists>c. cp_get (cm_id c) fx_j6 = Some c \<and> cm_original_operation_id c = fx_id CHR ''1'' \<and>
     td_is_legal (compensation_parent_is_consistent (cm_state c) OS_COMPENSATING)"
  using compensation_state_agrees [OF fx_reachable(6) fx_operations(4)]
  by (auto simp: fx_op5_def COMPENSATION_STATES_def)

section \<open>The transition engine\<close>

theorem refused_command_changes_nothing_witness:
  "\<exists>r. apply_command (OperationCommand fx_cancel) fx_j3 = Inr (r, fx_j3) \<and>
     tr_audit_events r = [] \<and> tr_outbox_event r = None"
proof -
  from fx_cancel_refused obtain r where
    r: "apply_command (OperationCommand fx_cancel) fx_j3 = Inr (r, fx_j3)" "tr_outcome r \<noteq> TO_APPLIED" by auto
  from refused_command_changes_nothing [OF this] r show ?thesis by blast
qed

theorem stale_command_conflicts_witness:
  "apply_operation fx_cancel fx_j4 = Inl (ConcurrencyConflictError ''concurrency_conflict'')"
  using stale_command_conflicts [of fx_cancel fx_j4] by (simp add: fx_cancel_def fx_command_def fx_operations)

theorem no_two_winners_witness:
  "\<exists>r. apply_operation fx_cancel fx_j3 = Inr (r, fx_j3) \<and> tr_outcome r \<noteq> TO_APPLIED"
proof -
  obtain r where r: "apply_operation fx_claim fx_j2 = Inr (r, fx_j3)" "tr_outcome r = TO_APPLIED"
    by (rule fx_operationE [OF fx_claimed])
  from fx_cancel_refused obtain r2 where r2: "apply_operation fx_cancel fx_j3 = Inr (r2, fx_j3)" by blast
  from no_two_winners [OF r fx_later(2) _ _ r2] r2 show ?thesis
    by (auto simp: fx_cancel_def fx_claim_def fx_command_def)
qed

section \<open>Evidence and gates\<close>

theorem success_has_evidence_witness:
  "\<exists>a. op_get (fx_id CHR ''1'') fx_j3 = Some a \<and> applied_evidence a fx_j4"
proof -
  obtain r where "apply_command (OperationCommand fx_applied) fx_j3 = Inr (r, fx_j4)"
    "tr_outcome r = TO_APPLIED" "tr_to_state r = Some OS_SUCCEEDED"
    by (rule fx_stepE [OF fx_succeeded])
  from success_has_evidence [OF this] show ?thesis by (simp add: fx_applied_def fx_command_def)
qed

theorem retry_has_evidence_witness:
  "\<exists>a. op_get (fx_id CHR ''1'') fx_j3 = Some a \<and> not_applied_evidence fx_retry a fx_j4r"
proof -
  obtain r where r: "apply_command (OperationCommand fx_retry) fx_j3 = Inr (r, fx_j4r)"
    "tr_outcome r = TO_APPLIED" "tr_to_state r = Some OS_READY" "tr_from_state r = Some OS_EXECUTING"
    by (rule fx_stepE [OF fx_retried])
  from retry_has_evidence [OF r(1-3)] r(4) show ?thesis by (simp add: fx_retry_def fx_command_def)
qed

end
