(* ===== verification/Write_Footprint.thy ===== *)
theory Write_Footprint
  imports System_Invariants
begin

text \<open>
  The journal changes only through the repositories: every step of the system is a sequence of
  repository writes, and what it writes to the audit log and the outbox was validated before. \<open>wrote\<close> is one such write; \<open>leaves\<close> reads a piece of monadic code as the
  writes on the path to its result, with one rule per construct, so that each handler is covered
  by running through its text. What every repository write preserves, every step preserves.
\<close>

section \<open>Repository writes\<close>

inductive wrote :: "journal \<Rightarrow> journal \<Rightarrow> bool" where
  op_insert: "op_insert o' j = Inr j' \<Longrightarrow> wrote j j'"
| op_update: "op_update_cas v o' j = Inr j' \<Longrightarrow> wrote j j'"
| at_insert: "at_insert a j = Inr j' \<Longrightarrow> wrote j j'"
| at_complete: "at_complete a j = Inr j' \<Longrightarrow> wrote j j'"
| po_insert: "po_insert d j = Inr j' \<Longrightarrow> wrote j j'"
| ap_insert: "ap_insert p j = Inr j' \<Longrightarrow> wrote j j'"
| ap_update: "ap_update_cas_state p AP_PENDING j = Inr j' \<Longrightarrow> wrote j j'"
| vf_insert: "vf_insert_request q j = Inr j' \<Longrightarrow> wrote j j'"
| vf_complete: "vf_complete r j = Inr j' \<Longrightarrow> wrote j j'"
| cp_insert: "cp_insert c j = Inr j' \<Longrightarrow> wrote j j'"
| cp_update: "cp_update_cas v c j = Inr j' \<Longrightarrow> wrote j j'"
| ca_insert: "ca_insert x j = Inr j' \<Longrightarrow> wrote j j'"
| ca_complete: "ca_complete x j = Inr j' \<Longrightarrow> wrote j j'"
| au_append: "validate_audit_event e = Inr () \<Longrightarrow> au_append e j = Inr j' \<Longrightarrow> wrote j j'"
| ox_insert: "validate_outbox_event m = Inr () \<Longrightarrow> ox_insert m j = Inr j' \<Longrightarrow> wrote j j'"
| ox_publish: "ox_mark_published i t j = Inr j' \<Longrightarrow> wrote j j'"
| rc_insert: "rc_insert s j = Inr j' \<Longrightarrow> wrote j j'"

section \<open>Code as the writes on its path\<close>

text \<open>Whatever \<open>x\<close> returns, the journal \<open>p\<close> finds in it is reached from \<open>j\<close> by repository writes.\<close>

definition leaves :: "('r \<Rightarrow> journal) \<Rightarrow> journal \<Rightarrow> 'r fallible \<Rightarrow> bool" where
  "leaves p j x \<longleftrightarrow> (\<forall>r. x = Inr r \<longrightarrow> wrote\<^sup>*\<^sup>* j (p r))"

lemma leavesD: "leaves p j x \<Longrightarrow> x = Inr r \<Longrightarrow> wrote\<^sup>*\<^sup>* j (p r)"
  by (simp add: leaves_def)

lemma leaves_Inl: "leaves p j (Inl e)"
  by (simp add: leaves_def)

lemma leaves_Inr: "wrote\<^sup>*\<^sup>* j (p r) \<Longrightarrow> leaves p j (Inr r)"
  by (simp add: leaves_def)

lemma leaves_if: "(c \<Longrightarrow> leaves p j x) \<Longrightarrow> (\<not> c \<Longrightarrow> leaves p j y) \<Longrightarrow> leaves p j (if c then x else y)"
  by simp

lemma leaves_option:
  "leaves p j x \<Longrightarrow> (\<And>a. leaves p j (f a)) \<Longrightarrow> leaves p j (case v of None \<Rightarrow> x | Some a \<Rightarrow> f a)"
  by (cases v) simp_all

lemma leaves_bind:
  "leaves p j x \<Longrightarrow> (\<And>a. wrote\<^sup>*\<^sup>* j (p a) \<Longrightarrow> leaves q j (f a)) \<Longrightarrow> leaves q j (bind_err x f)"
  by (auto simp: leaves_def)

lemma leaves_bind_value: "(\<And>a. x = Inr a \<Longrightarrow> leaves q j (f a)) \<Longrightarrow> leaves q j (bind_err x f)"
  by (auto simp: leaves_def)

lemma leaves_write: "(\<And>j'. x = Inr j' \<Longrightarrow> wrote j0 j') \<Longrightarrow> wrote\<^sup>*\<^sup>* j j0 \<Longrightarrow> leaves (\<lambda>j. j) j x"
  by (auto simp: leaves_def intro: rtranclp.rtrancl_into_rtrancl)

lemma leaves_writes:
  assumes "wrote\<^sup>*\<^sup>* j j0"
  shows "leaves (\<lambda>j. j) j (op_insert o' j0)"
    and "leaves (\<lambda>j. j) j (op_update_cas v o' j0)"
    and "leaves (\<lambda>j. j) j (at_insert a j0)"
    and "leaves (\<lambda>j. j) j (at_complete a j0)"
    and "leaves (\<lambda>j. j) j (po_insert d j0)"
    and "leaves (\<lambda>j. j) j (ap_insert p j0)"
    and "leaves (\<lambda>j. j) j (ap_update_cas_state p AP_PENDING j0)"
    and "leaves (\<lambda>j. j) j (vf_insert_request q j0)"
    and "leaves (\<lambda>j. j) j (vf_complete r j0)"
    and "leaves (\<lambda>j. j) j (cp_insert c j0)"
    and "leaves (\<lambda>j. j) j (cp_update_cas v c j0)"
    and "leaves (\<lambda>j. j) j (ca_insert x j0)"
    and "leaves (\<lambda>j. j) j (ca_complete x j0)"
    and "leaves (\<lambda>j. j) j (ox_mark_published i t j0)"
    and "leaves (\<lambda>j. j) j (rc_insert s j0)"
  by (rule leaves_write [OF _ assms], erule wrote.intros)+

lemma leaves_au_append:
  "build_audit_event i k n t s u v w x y z q = Inr e \<Longrightarrow> wrote\<^sup>*\<^sup>* j j0 \<Longrightarrow> leaves (\<lambda>j. j) j (au_append e j0)"
  by (rule leaves_write, rule wrote.au_append) (auto simp: build_audit_event_def make_audit_event_Inr)

lemma leaves_progress_append:
  "progress_event command l n i t ps = Inr e \<Longrightarrow> wrote\<^sup>*\<^sup>* j j0 \<Longrightarrow> leaves (\<lambda>j. j) j (au_append e j0)"
  unfolding progress_event_def by (auto intro: leaves_au_append)

lemma leaves_ox_insert:
  "build_outbox_event i k v w t x = Inr m \<Longrightarrow> wrote\<^sup>*\<^sup>* j j0 \<Longrightarrow> leaves (\<lambda>j. j) j (ox_insert m j0)"
  by (rule leaves_write, rule wrote.ox_insert) (auto simp: build_outbox_event_def make_outbox_event_Inr)

lemmas leaves_rules = leaves_Inl leaves_Inr leaves_if leaves_option

lemma leaves_append_events:
  "list_all (\<lambda>e. validate_audit_event e = Inr ()) es \<Longrightarrow> wrote\<^sup>*\<^sup>* j j0 \<Longrightarrow>
     leaves (\<lambda>j. j) j (append_events es j0)"
proof (induction es arbitrary: j0)
  case (Cons e es)
  then have "leaves (\<lambda>j. j) j (au_append e j0)" by (auto intro: leaves_write wrote.au_append)
  with Cons show ?case by (auto intro!: leaves_bind)
qed (simp add: leaves_def)

section \<open>The handlers\<close>

lemma leaves_write_steps:
  assumes "wrote\<^sup>*\<^sup>* j j0"
  shows "leaves (\<lambda>j. j) j (write_policy b j0)"
    and "leaves (\<lambda>j. j) j (write_requested_approval b j0)"
    and "leaves (\<lambda>j. j) j (write_decided_approval b j0)"
    and "leaves (\<lambda>j. j) j (write_claimed_attempt b j0)"
    and "leaves (\<lambda>j. j) j (write_completed_attempt b r j0)"
    and "leaves (\<lambda>j. j) j (write_verification_request b j0)"
    and "leaves (\<lambda>j. j) j (write_verification_result b r j0)"
    and "leaves (\<lambda>j. j) j (write_reconciliation b j0)"
    and "leaves (\<lambda>j. j) j (write_started_compensation b j0)"
    and "leaves (\<lambda>j. j) j (write_compensation_attempt b r j0)"
    and "leaves (\<lambda>j. j) j (write_compensation_verification b r j0)"
  unfolding write_step_defs write_started_compensation_def
  by (intro leaves_rules leaves_writes assms)+


lemma leaves_write_compensation_state:
  "wrote\<^sup>*\<^sup>* j j0 \<Longrightarrow> leaves snd j (write_compensation_state command c j0)"
  unfolding write_compensation_state_def
  by (auto intro!: leaves_Inr leaves_bind_value [of "next_version v" for v]
      leaves_bind_value [of "replace_compensation c s v t" for c s v t]
      leaves_bind [OF leaves_writes(11)] split: option.split)

lemma leaves_write_related:
  "wrote\<^sup>*\<^sup>* j j0 \<Longrightarrow> leaves snd j (write_related command related j0)"
  unfolding write_related_def Let_def
  by (intro leaves_bind [of "\<lambda>j. j"] leaves_write_steps leaves_write_compensation_state)

lemma leaves_append_audits:
  assumes "wrote\<^sup>*\<^sup>* j j0"
  shows "leaves snd j (append_audits command loaded new related j0)"
  unfolding leaves_def
proof (intro allI impI)
  fix r assume "append_audits command loaded new related j0 = Inr r"
  then obtain es j' where r: "r = (es, j')" and app: "append_audits command loaded new related j0 = Inr (es, j')"
    by (cases r) simp
  from append_audits_numbered(1) [OF app] have "list_all (\<lambda>e. validate_audit_event e = Inr ()) es"
    by (simp add: list_all_iff)
  from leavesD [OF leaves_append_events [OF this assms] append_audits_events(2) [OF app]]
  show "wrote\<^sup>*\<^sup>* j (snd r)" by (simp add: r)
qed

lemma leaves_insert_outbox:
  "wrote\<^sup>*\<^sup>* j j0 \<Longrightarrow> leaves snd j (insert_outbox command new j0)"
  unfolding insert_outbox_def
  by (auto intro!: leaves_Inr leaves_bind_value [of "build_outbox_event i k v w t x" for i k v w t x]
      leaves_bind [OF leaves_ox_insert] split: option.split)

lemma leaves_perform_operation: "leaves snd j (perform_operation command loaded related j)"
  unfolding perform_operation_def Let_def
  by (intro leaves_bind_value leaves_bind [OF leaves_write_related] leaves_bind [OF leaves_writes(2)]
      leaves_bind [OF leaves_append_audits] leaves_bind [OF leaves_insert_outbox] leaves_Inr)
    simp_all


lemma leaves_apply_operation:
  assumes "apply_operation command j = Inr (r, j')"
  shows "wrote\<^sup>*\<^sup>* j j'"
  using assms
proof (cases rule: apply_operation_Inr)
  case (performed loaded)
  then show ?thesis using leavesD [OF leaves_perform_operation] by fastforce
qed (simp add: changes_nothing_def)

lemma leaves_with_compensation:
  assumes "with_compensation command j continue = Inr (r, j')"
    and "\<And>loaded c. leaves snd j (continue loaded c)"
  shows "wrote\<^sup>*\<^sup>* j j'"
  using assms(1)
proof (cases rule: with_compensation_Inr)
  case (performed loaded c)
  then show ?thesis using leavesD [OF assms(2)] by fastforce
qed (simp add: changes_nothing_def)

lemma leaves_advance:
  "wrote\<^sup>*\<^sup>* j j0 \<Longrightarrow> leaves snd j (advance_compensation command c s j0)"
  unfolding advance_compensation_def
  by (auto intro!: leaves_Inr leaves_bind_value [of "next_version v" for v]
      leaves_bind_value [of "replace_compensation c s v t" for c s v t]
      leaves_bind [OF leaves_writes(11)])

lemma leaves_progress_outbox:
  "wrote\<^sup>*\<^sup>* j j0 \<Longrightarrow> leaves snd j (progress_outbox command loaded i w j0)"
  unfolding progress_outbox_def
  by (auto intro!: leaves_Inr leaves_bind_value [of "build_outbox_event i k v w t x" for i k v w t x]
      leaves_bind [OF leaves_ox_insert])

lemmas leaves_progress_event =
  leaves_bind_value [of "progress_event command l n i t ps" for command l n i t ps]

lemma leaves_progress_handlers:
  "apply_claim_compensation ce j = Inr (r, j') \<Longrightarrow> wrote\<^sup>*\<^sup>* j j'"
  "apply_claim_compensation_retry_attempt cr j = Inr (r, j') \<Longrightarrow> wrote\<^sup>*\<^sup>* j j'"
  unfolding apply_claim_compensation_def apply_claim_compensation_retry_attempt_def Let_def
  by (erule leaves_with_compensation;
      intro leaves_if leaves_option leaves_Inl leaves_bind [OF leaves_writes(12)] leaves_bind [OF leaves_advance]
        leaves_progress_event leaves_bind [OF leaves_progress_append] leaves_Inr; (assumption | simp))+


lemma leaves_start_compensation_verification:
  assumes "apply_start_compensation_verification command j = Inr (r, j')"
  shows "wrote\<^sup>*\<^sup>* j j'"
proof -
  have step: "leaves (\<lambda>j. j) j (case (x, y) of
      (Some done, Some a) \<Rightarrow> if ca_state a = AS_STARTED then ca_complete done j else Inr j
    | _ \<Rightarrow> Inr j)" for x y
    by (auto intro!: leaves_Inr leaves_writes(13) split: option.split)
  have event: "validate_audit_event e = Inr ()" if "(case x of
        Some done \<Rightarrow> (case y of None \<Rightarrow> Inl err | Some i \<Rightarrow> progress_event command l n i t (ps done))
      | None \<Rightarrow> progress_event command l n k u qs) = Inr e" for x y l n t ps k u qs e err
    using that progress_event_Inr by (auto split: option.split_asm)
  have append: "leaves (\<lambda>j. j) j (au_append e j0)" if "(case x of
        Some done \<Rightarrow> (case y of None \<Rightarrow> Inl err | Some i \<Rightarrow> progress_event command l n i t (ps done))
      | None \<Rightarrow> progress_event command l n k u qs) = Inr e" and "wrote\<^sup>*\<^sup>* j j0"
    for x y l n t ps k u qs e err j0
    by (rule leaves_write [OF wrote.au_append [OF event [OF that(1)]] that(2)])
  show ?thesis
    by (rule leaves_with_compensation [OF assms [unfolded apply_start_compensation_verification_def Let_def]])
      (intro leaves_if leaves_option leaves_Inl leaves_bind [OF step] leaves_bind [OF leaves_writes(8)]
        leaves_bind [OF leaves_advance] leaves_bind [OF leaves_progress_outbox]
        leaves_bind [OF append] leaves_Inr leaves_bind_value; (assumption | simp))
qed

lemma leaves_retry_compensation_after_verification:
  assumes "apply_retry_compensation_after_verification command j = Inr (r, j')"
  shows "wrote\<^sup>*\<^sup>* j j'"
proof -
  have step: "leaves (\<lambda>j. j) j (case x of
      Some row \<Rightarrow> if snd row = None then vf_complete v j else Inr j | None \<Rightarrow> Inr j)" for x v
    by (auto intro!: leaves_Inr leaves_writes(9) split: option.split)
  show ?thesis
    by (rule leaves_with_compensation
        [OF assms [unfolded apply_retry_compensation_after_verification_def Let_def]])
      (intro leaves_if leaves_option leaves_Inl leaves_bind [OF step] leaves_bind [OF leaves_writes(12)]
        leaves_bind [OF leaves_advance] leaves_bind [OF leaves_progress_outbox]
        leaves_bind [OF leaves_append_events] leaves_Inr leaves_bind_value; (assumption | simp add: progress_event_Inr))
qed

lemma leaves_create:
  assumes "apply_create command j = Inr (r, j')"
  shows "wrote\<^sup>*\<^sup>* j j'"
proof -
  have "leaves snd j (apply_create command j)"
    unfolding apply_create_def Let_def
    by (intro leaves_if leaves_option leaves_Inl leaves_bind [OF leaves_writes(1)]
        leaves_bind [OF leaves_au_append] leaves_Inr leaves_bind_value; (assumption | simp))
  from leavesD [OF this assms] show ?thesis by simp
qed

lemma leaves_escalate:
  assumes "escalate_messaging_recovery e j = Inr (r, j')"
  shows "wrote\<^sup>*\<^sup>* j j'"
proof -
  have "leaves snd j (escalate_messaging_recovery e j)"
    unfolding escalate_messaging_recovery_def Let_def
    by (intro leaves_if leaves_option leaves_Inl leaves_bind [OF leaves_writes(2)]
        leaves_bind [OF leaves_au_append] leaves_Inr leaves_bind_value; (assumption | simp))
  from leavesD [OF this assms] show ?thesis by simp
qed

lemma leaves_recover_candidate:
  assumes "recover_candidate uuid5 now cutoff m c j = Inr (b, j')"
  shows "wrote\<^sup>*\<^sup>* j j'"
proof -
  have republish: "leaves (\<lambda>j. j) j (republish uuid5 now source o' j)" for source o'
    unfolding republish_def
    by (intro leaves_bind [OF leaves_ox_insert] leaves_au_append leaves_bind_value; (assumption | simp))
  have exhaust: "leaves (\<lambda>j. j) j (exhaust uuid5 now m source o' j)" for source o'
    unfolding exhaust_def leaves_def by (auto simp: leaves_escalate split: if_split_asm)
  have "leaves snd j (recover_candidate uuid5 now cutoff m c j)"
    unfolding recover_candidate_def
    by (intro leaves_if leaves_option leaves_bind [OF republish] leaves_bind [OF exhaust] leaves_Inr; simp)
  from leavesD [OF this assms] show ?thesis by simp
qed

lemma leaves_publish_one:
  assumes "publish_one locked message_ids publish now j = Inr (b, j')"
  shows "wrote\<^sup>*\<^sup>* j j'"
proof -
  have "leaves snd j (publish_one locked message_ids publish now j)"
    unfolding publish_one_def
    by (intro leaves_bind_value; rename_tac es; case_tac es;
        simp; intro leaves_Inr leaves_bind_value leaves_bind [OF leaves_writes(14)]; simp)
  from leavesD [OF this assms] show ?thesis by simp
qed

text \<open>Every step of the system is a sequence of repository writes, and so is every history.\<close>

lemma system_step_writes:
  assumes "system_step j j'"
  shows "wrote\<^sup>*\<^sup>* j j'"
  using assms
proof cases
  case (command command r)
  then show ?thesis
    by (cases command)
      (auto simp: apply_command_def dest: leaves_create leaves_apply_operation leaves_progress_handlers
        leaves_start_compensation_verification leaves_retry_compensation_after_verification
        split: if_split_asm)
next
  case attempt_evidence
  then show ?thesis by (auto simp: persist_attempt_evidence_def intro: wrote.at_complete)
next
  case verification_evidence
  then show ?thesis
    by (auto simp: persist_verification_result_def intro: wrote.vf_complete split: option.split_asm if_split_asm)
qed (auto dest: leaves_escalate leaves_publish_one leaves_recover_candidate)

lemma later_writes: "later j k \<Longrightarrow> wrote\<^sup>*\<^sup>* j k"
  by (induction rule: later.induct) (auto intro: rtranclp_trans dest: system_step_writes)

end
