(* ===== verification/Durable_History.thy ===== *)
theory Durable_History
  imports Write_Footprint
begin

text \<open>
  What the journal never forgets. \<open>evolving_table\<close> is the contract of a table whose rows stay and
  only move forward; the tables satisfy it for every repository write, and so along every
  history: completed attempts, verification results, policy decisions, decided approvals and
  published messages are frozen, and the audit log only grows.
\<close>

section \<open>Rows that only move forward\<close>

locale evolving_table =
  fixes load :: "'k \<Rightarrow> 's \<Rightarrow> 'r option"
    and evolves :: "'r \<Rightarrow> 'r \<Rightarrow> bool"
    and changes :: "'s \<Rightarrow> 's \<Rightarrow> bool"
  assumes evolves_refl: "evolves r r"
    and evolves_trans: "evolves a b \<Longrightarrow> evolves b c \<Longrightarrow> evolves a c"
    and write_evolves: "changes s s' \<Longrightarrow> load k s = Some r \<Longrightarrow> \<exists>r'. load k s' = Some r' \<and> evolves r r'"
begin

lemma run_evolves:
  assumes "changes\<^sup>*\<^sup>* s s'" and "load k s = Some r"
  shows "\<exists>r'. load k s' = Some r' \<and> evolves r r'"
  using assms
proof (induction rule: rtranclp_induct)
  case (step t u)
  then obtain r' where "load k t = Some r'" "evolves r r'" by blast
  moreover from write_evolves [OF step(2) this(1)] obtain r'' where "load k u = Some r''" "evolves r' r''"
    by blast
  ultimately show ?case using evolves_trans by blast
qed (use evolves_refl in blast)

lemma run_present: "changes\<^sup>*\<^sup>* s s' \<Longrightarrow> load k s \<noteq> None \<Longrightarrow> load k s' \<noteq> None"
  using run_evolves by blast

end

text \<open>How the rows of each table evolve.\<close>

definition attempt_evolves :: "execution_attempt \<Rightarrow> execution_attempt \<Rightarrow> bool" where
  "attempt_evolves a b \<longleftrightarrow>
     att_id b = att_id a \<and> att_operation_id b = att_operation_id a \<and> att_number b = att_number a \<and>
     att_started_at b = att_started_at a \<and> (att_state a = AS_COMPLETED \<longrightarrow> b = a)"

definition verification_evolves :: "verification_row \<Rightarrow> verification_row \<Rightarrow> bool" where
  "verification_evolves a b \<longleftrightarrow> fst b = fst a \<and> (snd a \<noteq> None \<longrightarrow> b = a)"

definition approval_evolves :: "approval \<Rightarrow> approval \<Rightarrow> bool" where
  "approval_evolves a b \<longleftrightarrow> ap_id b = ap_id a \<and> (ap_state a \<noteq> AP_PENDING \<longrightarrow> b = a)"

definition undo_evolves :: "compensation_attempt \<Rightarrow> compensation_attempt \<Rightarrow> bool" where
  "undo_evolves a b \<longleftrightarrow>
     ca_id b = ca_id a \<and> ca_compensation_id b = ca_compensation_id a \<and> ca_number b = ca_number a \<and>
     ca_started_at b = ca_started_at a \<and> (ca_state a = AS_COMPLETED \<longrightarrow> b = a)"

definition event_evolves :: "outbox_event \<Rightarrow> outbox_event \<Rightarrow> bool" where
  "event_evolves a b \<longleftrightarrow>
     ox_id b = ox_id a \<and> ox_aggregate_id b = ox_aggregate_id a \<and> ox_aggregate_type b = ox_aggregate_type a \<and>
     ox_operation_version b = ox_operation_version a \<and> ox_command b = ox_command a \<and>
     ox_created_at b = ox_created_at a \<and> ox_correlation_id b = ox_correlation_id a \<and>
     (ox_state a = OB_PUBLISHED \<longrightarrow> b = a)"

lemma tbl_get_grows: "tbl_get f i xs = Some r \<Longrightarrow> tbl_get f i (xs @ ys) = Some r"
  by (simp add: tbl_get_append)

lemma tbl_get_set_any:
  "(\<And>x. f x = k \<Longrightarrow> f (g x) = k) \<Longrightarrow> tbl_get f i xs = Some r \<Longrightarrow>
     tbl_get f i (tbl_set f k g xs) = Some (if i = k then g r else r)"
  by (auto simp: tbl_get_set_same tbl_get_set_other)

text \<open>A successful write, read as an equation, and lookups in the changed table.\<close>

lemma ox_mark_published_Inr [journal_simps]:
  "ox_mark_published i t j = Inr j' \<longleftrightarrow>
     (\<exists>row. ox_get i j = Some row \<and>
        j' = (if ox_state row = OB_PUBLISHED then j
              else j\<lparr>j_outbox_events :=
                tbl_set ox_id i (\<lambda>row. row\<lparr>ox_state := OB_PUBLISHED, ox_published_at := Some t\<rparr>)
                  (j_outbox_events j)\<rparr>))"
  by (auto simp: ox_mark_published_def split: option.split)

lemma write_result_keeps [simp]:
  "att_id (at_write_result a row) = att_id row" "att_operation_id (at_write_result a row) = att_operation_id row"
  "att_number (at_write_result a row) = att_number row" "att_started_at (at_write_result a row) = att_started_at row"
  "att_state (at_write_result a row) = att_state a"
  "ca_id (ca_write_result x y) = ca_id y" "ca_compensation_id (ca_write_result x y) = ca_compensation_id y"
  "ca_number (ca_write_result x y) = ca_number y" "ca_started_at (ca_write_result x y) = ca_started_at y"
  "ca_state (ca_write_result x y) = ca_state x"
  by (simp_all add: at_write_result_def ca_write_result_def)

interpretation poev: evolving_table po_get "\<lambda>a b. b = a" wrote
  by unfold_locales (auto elim!: wrote.cases simp: journal_simps po_get_def tbl_get_grows)

interpretation atev: evolving_table at_get attempt_evolves wrote
  by unfold_locales (auto elim!: wrote.cases
      simp: journal_simps at_get_def tbl_get_grows tbl_get_set_any attempt_evolves_def)

interpretation vfev: evolving_table vf_get verification_evolves wrote
  by unfold_locales (auto elim!: wrote.cases
      simp: journal_simps vf_get_def tbl_get_grows tbl_get_set_any verification_evolves_def)

interpretation apev: evolving_table ap_get approval_evolves wrote
  by unfold_locales (auto elim!: wrote.cases
      simp: journal_simps ap_get_def tbl_get_grows tbl_get_set_any approval_evolves_def,
      metis tbl_get_Some_key)

interpretation caev: evolving_table ca_get undo_evolves wrote
  by unfold_locales (auto elim!: wrote.cases
      simp: journal_simps ca_get_def tbl_get_grows tbl_get_set_any undo_evolves_def)

interpretation oxev: evolving_table ox_get event_evolves wrote
  by unfold_locales (auto elim!: wrote.cases
      simp: journal_simps ox_get_def tbl_get_grows tbl_get_set_any event_evolves_def)

section \<open>Logs that only grow\<close>

lemma wrote_logs:
  assumes "wrote j j'"
  shows "\<exists>es ss. j_audit_events j' = j_audit_events j @ es \<and> j_reconciliations j' = j_reconciliations j @ ss"
  using assms by cases (auto simp: journal_simps)

lemma writes_logs:
  assumes "wrote\<^sup>*\<^sup>* j j'"
  shows "\<exists>es ss. j_audit_events j' = j_audit_events j @ es \<and> j_reconciliations j' = j_reconciliations j @ ss"
  using assms
proof (induction rule: rtranclp_induct)
  case (step k l)
  from step.IH wrote_logs [OF step(2)] show ?case by (metis append_assoc)
qed simp

text \<open>
  The audit log is append-only: along any history of system steps the log of the earlier
  journal is a prefix of the log of the later one, event for event.
\<close>

lemma audit_log_append_only:
  assumes "later j k"
  shows "\<exists>es. j_audit_events k = j_audit_events j @ es"
  using writes_logs [OF later_writes [OF assms]] by blast

text \<open>
  C6. Evidence is never rewritten: whatever happens later, a completed execution attempt, a
  recorded verification result, a policy decision, a decided approval, a completed compensation
  attempt and a reconciliation decision are still stored, unchanged.
\<close>

theorem evidence_is_never_rewritten:
  assumes "later j k"
  shows "(at_get i j = Some a \<and> att_state a = AS_COMPLETED \<longrightarrow> at_get i k = Some a) \<and>
    (vf_get i j = Some (q, Some v) \<longrightarrow> vf_get i k = Some (q, Some v)) \<and>
    (po_get i j = Some d \<longrightarrow> po_get i k = Some d) \<and>
    (ap_get i j = Some p \<and> ap_state p \<noteq> AP_PENDING \<longrightarrow> ap_get i k = Some p) \<and>
    (ca_get i j = Some x \<and> ca_state x = AS_COMPLETED \<longrightarrow> ca_get i k = Some x) \<and>
    set (j_reconciliations j) \<subseteq> set (j_reconciliations k)"
proof -
  note w = later_writes [OF assms]
  show ?thesis
    using atev.run_evolves [OF w, of i a] vfev.run_evolves [OF w, of i "(q, Some v)"]
      poev.run_evolves [OF w, of i d] apev.run_evolves [OF w, of i p] caev.run_evolves [OF w, of i x]
      writes_logs [OF w]
    by (auto simp: attempt_evolves_def verification_evolves_def approval_evolves_def undo_evolves_def)
qed

text \<open>
  Work that was enqueued stays enqueued: an outbox event is never deleted, its operation,
  version and command never change, and once PUBLISHED it never becomes pending again.
\<close>

lemma outbox_events_are_kept:
  assumes "later j k" and "ox_get i j = Some e"
  shows "\<exists>e'. ox_get i k = Some e' \<and> ox_aggregate_id e' = ox_aggregate_id e \<and>
    ox_operation_version e' = ox_operation_version e \<and> ox_command e' = ox_command e \<and>
    (ox_state e = OB_PUBLISHED \<longrightarrow> e' = e)"
  using oxev.run_evolves [OF later_writes [OF assms(1)] assms(2)] by (auto simp: event_evolves_def)

end
