(* ===== verification/Relay_Properties.thy ===== *)
theory Relay_Properties
  imports Durable_History
begin

text \<open>
  What the relay promises (\<^verbatim>\<open>messaging/relay.py\<close>): a message is marked published only after the
  broker took it, oldest first; a round of publishing empties the queue up to its limit; the
  recovery of stranded work is bounded by \<open>max_recoveries\<close> and ends with an operator. And what it
  does not: published compensation work of a COMPENSATED operation is found again in every round.
\<close>

section \<open>The outbox table\<close>

definition outbox_ok :: "journal \<Rightarrow> bool" where
  "outbox_ok j \<longleftrightarrow> distinct (tbl_keys ox_id (j_outbox_events j)) \<and>
     list_all (\<lambda>e. validate_outbox_event e = Inr ()) (j_outbox_events j)"

lemma validate_published:
  "validate_outbox_event e = Inr () \<Longrightarrow>
     validate_outbox_event (e\<lparr>ox_state := OB_PUBLISHED, ox_published_at := Some t\<rparr>) = Inr ()"
  by (auto simp: validate_outbox_event_def)

lemma list_all_tbl_set:
  "list_all P rows \<Longrightarrow> (\<And>r. P r \<Longrightarrow> P (f r)) \<Longrightarrow> list_all P (tbl_set key k f rows)"
  by (auto simp: list_all_iff dest!: set_tbl_setD)

lemma wrote_outbox_ok: "wrote j j' \<Longrightarrow> outbox_ok j \<Longrightarrow> outbox_ok j'"
  by (auto elim!: wrote.cases simp: journal_simps outbox_ok_def tbl_keys_set list_all_tbl_set
      validate_published)

lemma reachable_writes: "reachable j \<Longrightarrow> wrote\<^sup>*\<^sup>* empty_journal j"
  by (induction rule: reachable.induct) (auto intro: rtranclp_trans dest: system_step_writes)

lemma reachable_outbox_ok:
  assumes "reachable j"
  shows "outbox_ok j"
  using reachable_writes [OF assms]
proof (induction rule: rtranclp_induct)
  case base
  show ?case by (simp add: outbox_ok_def empty_journal_def)
qed (rule wrote_outbox_ok)

section \<open>Publishing\<close>

definition claimable :: "(opaque_id \<Rightarrow> bool) \<Rightarrow> journal \<Rightarrow> outbox_event list" where
  "claimable locked j = filter (\<lambda>e. ox_state e = OB_PENDING \<and> \<not> locked (ox_id e)) (j_outbox_events j)"

abbreviation publish_key :: "outbox_event \<Rightarrow> utc_timestamp \<times> opaque_id" where
  "publish_key e \<equiv> (ox_created_at e, ox_id e)"

lemma list_pending_one:
  "ox_list_pending_for_claim locked 1 j = Inr (take 1 (sort_key publish_key (claimable locked j)))"
  by (simp add: ox_list_pending_for_claim_def claimable_def)

lemma sort_key_head:
  assumes "sort_key f xs = e # es"
  shows "e \<in> set xs" and "\<And>x. x \<in> set xs \<Longrightarrow> f e \<le> f x"
proof -
  have set: "set (sort_key f xs) = set xs" by simp
  then show "e \<in> set xs" using assms by (metis list.set_intros(1))
  fix x assume "x \<in> set xs"
  then have "x = e \<or> x \<in> set es" using set assms by (metis set_ConsD)
  moreover have "sorted (map f (e # es))" using assms sorted_sort_key [of f xs] by simp
  ultimately show "f e \<le> f x" by auto
qed

text \<open>
  Published means delivered: when a round marks an event PUBLISHED, the broker had accepted
  the message built from it (its operation, version and command), the event was the oldest
  pending one no other worker held, and nothing else in the journal changed; a round without
  effect means that nothing was pending.
\<close>

lemma published_after_delivery:
  assumes "publish_one locked message_ids publish now j = Inr (sent, j')"
  shows "if sent
    then \<exists>e m. e \<in> set (claimable locked j) \<and> (\<forall>x \<in> set (claimable locked j). publish_key e \<le> publish_key x) \<and>
      message_for e (message_ids (ox_id e)) = Inr m \<and> publish m = Inr () \<and>
      ox_mark_published (ox_id e) now j = Inr j' \<and> j_operations j' = j_operations j
    else j' = j \<and> claimable locked j = []"
proof (cases "sort_key publish_key (claimable locked j)")
  case Nil
  then have "claimable locked j = []" by (metis length_0_conv length_sort)
  with assms show ?thesis by (simp add: publish_one_def list_pending_one)
next
  case (Cons e es)
  with assms obtain m where "sent" and "message_for e (message_ids (ox_id e)) = Inr m"
    and "publish m = Inr ()" and mark: "ox_mark_published (ox_id e) now j = Inr j'"
    by (auto simp: publish_one_def list_pending_one)
  then show ?thesis using sort_key_head [OF Cons] ox_mark_published_frame [OF mark] by auto
qed

section \<open>A publishing run\<close>

lemma claimable_mark:
  assumes "outbox_ok j" and "e \<in> set (claimable locked j)" and "ox_mark_published (ox_id e) now j = Inr j'"
  shows "Suc (length (claimable locked j')) = length (claimable locked j)"
proof -
  have e: "e \<in> set (j_outbox_events j)" "ox_state e = OB_PENDING" "\<not> locked (ox_id e)"
    using assms(2) by (auto simp: claimable_def)
  obtain xs ys where split: "j_outbox_events j = xs @ e # ys" using e(1) by (meson split_list)
  have "distinct (tbl_keys ox_id (xs @ e # ys))" using assms(1) split by (simp add: outbox_ok_def)
  then have fresh: "\<forall>x \<in> set xs \<union> set ys. ox_id x \<noteq> ox_id e"
    by (auto simp: tbl_keys_def) (metis image_eqI)+
  have "ox_get (ox_id e) j = Some e"
    using tbl_get_mem [of ox_id "j_outbox_events j" e] assms(1) e(1) by (simp add: ox_get_def outbox_ok_def)
  with assms(3) e(2) have j': "j_outbox_events j' = tbl_set ox_id (ox_id e)
      (\<lambda>row. row\<lparr>ox_state := OB_PUBLISHED, ox_published_at := Some now\<rparr>) (xs @ e # ys)"
    by (auto simp: ox_mark_published_Inr split)
  have "j_outbox_events j' =
      xs @ e\<lparr>ox_state := OB_PUBLISHED, ox_published_at := Some now\<rparr> # ys"
    using fresh unfolding j' by (auto simp: tbl_set_def intro!: map_idI)
  then show ?thesis using e(2,3) by (simp add: claimable_def split)
qed

lemma publish_one_sends:
  assumes "outbox_ok j" and "\<And>m. publish m = Inr ()" and "claimable locked j \<noteq> []"
  obtains j' where "publish_one locked message_ids publish now j = Inr (True, j')"
    and "Suc (length (claimable locked j')) = length (claimable locked j)" and "outbox_ok j'"
    and "j' = j\<lparr>j_outbox_events := j_outbox_events j'\<rparr>"
proof -
  obtain e es where s: "sort_key publish_key (claimable locked j) = e # es"
    using assms(3) by (metis length_0_conv length_sort list.exhaust)
  note e = sort_key_head(1) [OF s]
  then have mem: "e \<in> set (j_outbox_events j)" and pend: "ox_state e = OB_PENDING" by (auto simp: claimable_def)
  have "ox_get (ox_id e) j = Some e"
    using tbl_get_mem [of ox_id "j_outbox_events j" e] assms(1) mem by (simp add: ox_get_def outbox_ok_def)
  then obtain j' where mark: "ox_mark_published (ox_id e) now j = Inr j'"
    by (simp add: ox_mark_published_def pend)
  have "1 \<le> ox_operation_version e" using assms(1) mem by (auto simp: outbox_ok_def list_all_iff validate_outbox_event_def)
  then obtain m where "message_for e (message_ids (ox_id e)) = Inr m"
    by (auto simp: message_for_def validate_work_message_def Let_def guard_err_def)
  then have "publish_one locked message_ids publish now j = Inr (True, j')"
    using mark assms(2) by (simp add: publish_one_def list_pending_one s)
  moreover have "outbox_ok j'" by (rule wrote_outbox_ok [OF wrote.ox_publish [OF mark] assms(1)])
  moreover have "j' = j\<lparr>j_outbox_events := j_outbox_events j'\<rparr>" using mark by (auto simp: ox_mark_published_Inr)
  ultimately show thesis using that claimable_mark [OF assms(1) e mark] by blast
qed

lemma publish_rounds_drain:
  assumes "outbox_ok j" and "\<And>m. publish m = Inr ()" and "list_all (op_pointers_ok j) (j_operations j)"
    and "publish_rounds locked message_ids publish clock n published j = (res, j')"
  shows "res = Inr (published + min n (length (claimable locked j))) \<and>
    length (claimable locked j') = length (claimable locked j) - n"
  using assms(1,3,4)
proof (induction n arbitrary: published j)
  case (Suc n)
  show ?case
  proof (cases "claimable locked j = []")
    case True
    then have "sort_key publish_key (claimable locked j) = []" by simp
    then have "publish_one locked message_ids publish (clock published) j = Inr (False, j)"
      by (simp add: publish_one_def list_pending_one True)
    with Suc.prems True show ?thesis by (auto simp: unit_of_work_def uow_commit_def fk_err_def guard_err_def)
  next
    case False
    obtain k where k: "publish_one locked message_ids publish (clock published) j = Inr (True, k)"
      "Suc (length (claimable locked k)) = length (claimable locked j)" "outbox_ok k"
      "k = j\<lparr>j_outbox_events := j_outbox_events k\<rparr>"
      by (rule publish_one_sends [where now = "clock published" and message_ids = message_ids, OF Suc.prems(1) assms(2) False])
    have ops: "list_all (op_pointers_ok k) (j_operations k)"
      by (subst k(4), subst (2) k(4)) (use Suc.prems(2) in \<open>simp add: op_pointers_ok_def list_all_iff\<close>)
    then have "unit_of_work (publish_one locked message_ids publish (clock published)) j = (Inr True, k)"
      using k(1) by (simp add: unit_of_work_Inr)
    with Suc.prems(3) have "publish_rounds locked message_ids publish clock n (Suc published) k = (res, j')"
      by simp
    from Suc.IH [OF k(3) ops this] k(2) show ?thesis by auto
  qed
qed simp

text \<open>
  C34. Publishing empties the queue: when the broker accepts every message, a run of
  \<open>publish_pending\<close> on a reachable, committed journal publishes as many of the pending events
  as its limit allows, and all of them when the limit is large enough.
\<close>

theorem publish_pending_drains:
  assumes "reachable j" and "list_all (op_pointers_ok j) (j_operations j)"
    and "\<And>m. publish m = Inr ()" and "1 \<le> limit"
    and "publish_pending locked message_ids publish clock limit j = (res, j')"
  shows "res = Inr (min (nat limit) (length (claimable locked j))) \<and>
    length (claimable locked j') = length (claimable locked j) - nat limit"
proof -
  have "publish_rounds locked message_ids publish clock (nat limit) 0 j = (res, j')"
    using assms(4,5) by (simp add: publish_pending_def)
  from publish_rounds_drain [OF reachable_outbox_ok [OF assms(1)] assms(3,2) this] show ?thesis by simp
qed

section \<open>Recovering stranded work\<close>

text \<open>How often the relay has republished a work command of an operation at its current version.\<close>

abbreviation republished :: "outbox_event \<Rightarrow> operation \<Rightarrow> journal \<Rightarrow> nat" where
  "republished source o' j \<equiv> au_count_reason_for_command (op_id o') RECOVERY_REPUBLISHED_REASON
     (ox_command source) (op_version o') j"

lemma diagnostic_command:
  assumes "json_from_plain (PyDict
         [(PyStr ''source_outbox_event_id'', PyStr x), (PyStr ''recovery_outbox_event_id'', PyStr y),
          (PyStr ''command'', PyStr (work_command_value c))]) = Inr data"
  shows "json_command_is data c"
  using assms by (auto simp: make_json_object_def json_command_is_def)

lemma republish_counts:
  assumes "republish uuid5 now source o' j = Inr j'"
  shows "republished source o' j' = Suc (republished source o' j)" and "j_operations j' = j_operations j"
    and "\<exists>e. j_outbox_events j' = j_outbox_events j @ [e] \<and> ox_state e = OB_PENDING \<and>
      ox_aggregate_id e = op_id o' \<and> ox_operation_version e = op_version o' \<and> ox_command e = ox_command source"
proof -
  from assms obtain i k e data ev where
      e: "build_outbox_event i (op_id o') (op_version o') (ox_command source) now (ox_correlation_id source) = Inr e"
    and ins: "ox_insert e j = Inr (j\<lparr>j_outbox_events := j_outbox_events j @ [e]\<rparr>)"
    and data: "json_from_plain (PyDict
         [(PyStr ''source_outbox_event_id'', PyStr (oid_value (ox_id source))),
          (PyStr ''recovery_outbox_event_id'', PyStr (oid_value i)),
          (PyStr ''command'', PyStr (work_command_value (ox_command source)))]) = Inr data"
    and ev: "build_audit_event k (op_id o')
        (au_next_sequence (op_id o') (j\<lparr>j_outbox_events := j_outbox_events j @ [e]\<rparr>))
        AE_OUTBOX_DIAGNOSTIC None None (op_version o') (Some RELAY_RECOVERY_ACTOR)
        RECOVERY_REPUBLISHED_REASON data (ox_correlation_id source) now = Inr ev"
    and app: "au_append ev (j\<lparr>j_outbox_events := j_outbox_events j @ [e]\<rparr>) = Inr j'"
    unfolding republish_def by (auto simp: ox_insert_Inr simp del: json_from_plain.simps)
  have "au_operation_id ev = op_id o'" "au_reason_code ev = RECOVERY_REPUBLISHED_REASON" "au_data ev = data"
      "au_operation_version ev = op_version o'"
    using ev by (auto simp: build_audit_event_def make_audit_event_Inr)
  with app diagnostic_command [OF data] show "republished source o' j' = Suc (republished source o' j)"
    by (auto simp: au_append_Inr au_count_reason_for_command_def)
  show "j_operations j' = j_operations j" using app by (auto simp: au_append_Inr)
  from e app show "\<exists>e. j_outbox_events j' = j_outbox_events j @ [e] \<and> ox_state e = OB_PENDING \<and>
      ox_aggregate_id e = op_id o' \<and> ox_operation_version e = op_version o' \<and> ox_command e = ox_command source"
    by (auto simp: au_append_Inr build_outbox_event_def make_outbox_event_Inr)
qed

text \<open>
  Work that still waits: its event is the latest of its operation, was published by the cutoff, and the operation
  is in a state the command is for.
\<close>

definition waiting_work :: "utc_timestamp \<Rightarrow> opaque_id \<Rightarrow> journal \<Rightarrow> (outbox_event \<times> operation) option" where
  "waiting_work cutoff c j =
     Option.bind (ox_get c j) (\<lambda>source. Option.bind (op_get (ox_aggregate_id source) j) (\<lambda>o'.
       if map_option ox_id (ox_latest_for_operation (op_id o') j) = Some (ox_id source) \<and>
          ox_state source = OB_PUBLISHED \<and> pred_option (\<lambda>p. p \<le> cutoff) (ox_published_at source) \<and>
          ox_published_at source \<noteq> None \<and> op_state o' \<in> set (COMMAND_STATES (ox_command source))
       then Some (source, o') else None))"

abbreviation exhausted :: "outbox_event \<Rightarrow> operation \<Rightarrow> journal \<Rightarrow> nat" where
  "exhausted source o' j \<equiv> au_count_reason_for_command (op_id o') RECOVERY_EXHAUSTED_REASON
     (ox_command source) (op_version o') j"

lemma recover_candidate_waiting:
  "recover_candidate uuid5 now cutoff m c j =
     (case waiting_work cutoff c j of
        None \<Rightarrow> Inr (False, j)
      | Some (source, o') \<Rightarrow>
          if m \<le> int (republished source o' j)
          then (if exhausted source o' j = 0
                then bind_err (exhaust uuid5 now m source o' j) (\<lambda>j'. Inr (False, j')) else Inr (False, j))
          else bind_err (republish uuid5 now source o' j) (\<lambda>j'. Inr (True, j')))"
  by (auto simp: recover_candidate_def waiting_work_def still_stranded_def split: option.splits)

lemma waiting_work_stored:
  assumes "waiting_work cutoff c j = Some (source, o')"
  shows "op_get (op_id o') j = Some o'"
  using assms op_get_key by (fastforce simp: waiting_work_def bind_eq_Some_conv split: if_split_asm)

lemma exhaust_escalates:
  assumes "exhaust uuid5 now m source o' j = Inr j'" and "op_get (op_id o') j = Some o'"
  shows "\<exists>b. op_get (op_id o') j' = Some b \<and> op_state b = OS_MANUAL_INTERVENTION \<and>
    op_version b = op_version o' + 1 \<and> j_outbox_events j' = j_outbox_events j"
proof -
  from assms(1) obtain k r where esc: "escalate_messaging_recovery
       \<lparr>es_operation_id = op_id o', es_expected_version = op_version o',
        es_occurred_at = now, es_actor = RELAY_RECOVERY_ACTOR,
        es_correlation_id = ox_correlation_id source, es_reason_code = RECOVERY_EXHAUSTED_REASON,
        es_transition_audit_event_id = k, es_command = ox_command source, es_max_recoveries = m\<rparr> j = Inr (r, j')"
    and "tr_outcome r = TO_APPLIED"
    by (auto simp: exhaust_def split: if_split_asm)
  with escalation_effect [OF esc] assms(2) obtain b es where eff: "transition_effect j o' b es j'"
    and b: "op_state b = OS_MANUAL_INTERVENTION" "j_outbox_events j' = j_outbox_events j"
    by (auto simp: changes_nothing_def)
  from eff have "op_version b = op_version o' + 1" by (simp add: transition_effect_def)
  with transition_effect_get [OF eff] b show ?thesis by auto
qed

text \<open>
  C35. Recovery is bounded and ends with a person: a candidate whose work no longer waits is left alone; one that
  was republished fewer than \<open>max_recoveries\<close> times at this version is republished once more, with exactly one
  pending event and one counted diagnostic added and no operation changed, so that the count never exceeds
  \<open>max_recoveries\<close>; and one at the bound is never republished again: unless its exhaustion is on record already, its
  operation is moved to MANUAL_INTERVENTION, at the next version and without new work.
\<close>

theorem recovery_is_bounded:
  assumes "recover_candidate uuid5 now cutoff max_recoveries c j = Inr (done, j')"
  shows "case waiting_work cutoff c j of
      None \<Rightarrow> \<not> done \<and> j' = j
    | Some (source, o') \<Rightarrow>
        if int (republished source o' j) < max_recoveries
        then done \<and> republished source o' j' = Suc (republished source o' j) \<and>
          int (republished source o' j') \<le> max_recoveries \<and> j_operations j' = j_operations j \<and>
          (\<exists>e. j_outbox_events j' = j_outbox_events j @ [e] \<and> ox_state e = OB_PENDING \<and>
             ox_aggregate_id e = op_id o' \<and> ox_operation_version e = op_version o' \<and>
             ox_command e = ox_command source)
        else \<not> done \<and> j_outbox_events j' = j_outbox_events j \<and>
          (if exhausted source o' j = 0
           then \<exists>b. op_get (op_id o') j' = Some b \<and> op_state b = OS_MANUAL_INTERVENTION \<and>
             op_version b = op_version o' + 1
           else j' = j)"
proof (cases "waiting_work cutoff c j")
  case None
  then show ?thesis using assms by (simp add: recover_candidate_waiting)
next
  case (Some work)
  obtain source o' where work: "work = (source, o')" by (cases work)
  note waiting = Some [unfolded work]
  show ?thesis
  proof (cases "int (republished source o' j) < max_recoveries")
    case True
    then have "done" "republish uuid5 now source o' j = Inr j'"
      using assms by (auto simp: recover_candidate_waiting waiting)
    with True republish_counts [OF this(2)] show ?thesis by (simp add: waiting)
  next
    case False
    have "\<not> done \<and> (if exhausted source o' j = 0 then exhaust uuid5 now max_recoveries source o' j = Inr j' else j' = j)"
      using assms False by (auto simp: recover_candidate_waiting waiting split: if_split_asm)
    with False exhaust_escalates [OF _ waiting_work_stored [OF waiting]] show ?thesis
      by (fastforce simp: waiting split: if_split_asm)
  qed
qed

section \<open>Compensated operations starve the recovery\<close>

text \<open>
  \<^verbatim>\<open>list_stranded_candidate_ids\<close> admits a published COMPENSATE event of a COMPENSATED operation,
  \<^verbatim>\<open>_COMMAND_STATES\<close> does not: such a candidate is looked at in every run, skipped, and found again.
\<close>

definition spent :: "journal \<Rightarrow> opaque_id \<Rightarrow> bool" where
  "spent j i \<longleftrightarrow> (\<exists>source o'. ox_get i j = Some source \<and> op_get (ox_aggregate_id source) j = Some o' \<and>
     op_state o' = OS_COMPENSATED)"

lemma spent_skipped: "spent j i \<Longrightarrow> recover_candidate uuid5 now cutoff m i j = Inr (False, j)"
  by (auto simp: spent_def recover_candidate_def still_stranded_def COMMAND_STATES_def
      split: work_command.split)

lemma spent_candidate:
  assumes "ox_get (ox_id e) j = Some e" and "ox_command e = WC_COMPENSATE"
    and "op_get (ox_aggregate_id e) j = Some o'" and "op_state o' = OS_COMPENSATED"
    and "ox_state e = OB_PUBLISHED" and "ox_published_at e = Some p" and "p \<le> cutoff"
    and "\<not> list_ex (\<lambda>n. ox_newer n e) (j_outbox_events j)"
  shows "ox_stranded cutoff j e"
  using assms by (simp add: ox_stranded_def stranded_states_def)

lemma spent_candidates_skipped:
  assumes "list_all (op_pointers_ok j) (j_operations j)" and "\<forall>i \<in> set ids. spent j i"
  shows "recover_candidates uuid5 now cutoff m n ids j = (Inr n, j)"
  using assms(2)
proof (induction ids)
  case (Cons i ids)
  then have "unit_of_work (recover_candidate uuid5 now cutoff m i) j = (Inr False, j)"
    using assms(1) spent_skipped by (simp add: unit_of_work_Inr)
  with Cons show ?case by simp
qed simp

text \<open>
  Compensated operations starve the recovery: when the oldest candidates, as many as the limit,
  belong to COMPENSATED operations, a run of \<open>recover_stranded\<close> recovers nothing and leaves the
  journal as it was, so the next run starts from the same candidates and newer stranded
  work is never reached.
\<close>

lemma compensated_operations_starve_recovery:
  assumes "list_all (op_pointers_ok j) (j_operations j)"
    and "1 \<le> limit" and "1 \<le> after_seconds" and "1 \<le> max_recoveries"
    and "ox_list_stranded_candidate_ids (UtcTimestamp (ts_value now - after_seconds * 1000000)) limit j = Inr ids"
    and "\<forall>i \<in> set ids. spent j i"
  shows "recover_stranded uuid5 now limit after_seconds max_recoveries j = (Inr 0, j)"
  using assms spent_candidates_skipped by (simp add: recover_stranded_def Let_def)

end
