(* ===== verification/Operation_Backing.thy ===== *)
theory Operation_Backing
  imports Durable_History Evidence
begin

text \<open>
  What stands behind the state of an operation: the attempt of an EXECUTING operation, the policy
  decision and approval of one that may execute, and the work message of one that waits for a
  worker. Each is an invariant of all reachable journals: established by the command that enters
  the state, and kept because stored rows only move forward.
\<close>

section \<open>The anatomy of a step\<close>

text \<open>
  Seen from the operations, a step leaves them alone, creates one in PENDING_POLICY, applies a
  lifecycle command, or escalates one to MANUAL_INTERVENTION with all its pointers kept.
\<close>

definition escalated :: "journal \<Rightarrow> operation \<Rightarrow> operation \<Rightarrow> journal \<Rightarrow> bool" where
  "escalated j a b j' \<longleftrightarrow>
     op_get (op_id a) j = Some a \<and> messaging_recovery_kind (op_state a) \<noteq> None \<and>
     op_state b = OS_MANUAL_INTERVENTION \<and> op_id b = op_id a \<and> op_intent b = op_intent a \<and>
     op_current_policy_decision_id b = op_current_policy_decision_id a \<and>
     op_current_approval_id b = op_current_approval_id a \<and>
     op_latest_attempt_id b = op_latest_attempt_id a \<and>
     op_latest_verification_id b = op_latest_verification_id a \<and>
     op_compensation_id b = op_compensation_id a \<and>
     (\<forall>i. op_get i j' = (if i = op_id a then Some b else op_get i j))"

lemma escalation_escalated:
  assumes "escalate_messaging_recovery e j = Inr (r, j')"
  shows "j' = j \<or> (\<exists>a b. escalated j a b j')"
proof (cases "tr_outcome r = TO_APPLIED")
  case True
  with assms obtain a k b j1 ev where load: "op_get (es_operation_id e) j = Some a"
    and k: "messaging_recovery_kind (op_state a) = Some k"
    and rep: "replace_operation a OS_MANUAL_INTERVENTION (op_version a + 1) (es_occurred_at e)
      None None None None None = Inr b"
    and cas: "op_update_cas (es_expected_version e) b j = Inr j1" and app: "au_append ev j1 = Inr j'"
    unfolding escalate_messaging_recovery_def Let_def
    by (auto simp: next_version_Inr split: option.split_asm if_split_asm)
  have b: "op_state b = OS_MANUAL_INTERVENTION" "op_id b = op_id a" "op_intent b = op_intent a"
      "op_current_policy_decision_id b = op_current_policy_decision_id a"
      "op_current_approval_id b = op_current_approval_id a" "op_latest_attempt_id b = op_latest_attempt_id a"
      "op_latest_verification_id b = op_latest_verification_id a" "op_compensation_id b = op_compensation_id a"
    using rep by (simp_all add: replace_operation_def make_operation_Inr or_unchanged_def)
  have get: "op_get i j' = (if i = op_id a then Some b else op_get i j)" for i
  proof -
    have "op_get i j' = op_get i j1" using app by (simp add: au_append_Inr op_get_def)
    then show ?thesis using opst.load_cas [OF cas, of i] b(2) by simp
  qed
  have "op_get (op_id a) j = Some a" "messaging_recovery_kind (op_state a) \<noteq> None"
    using load op_get_key [OF load] k by simp_all
  then have "escalated j a b j'" unfolding escalated_def by (intro conjI allI get b)
  then show ?thesis by blast
next
  case False
  with assms escalation_effect [OF assms] show ?thesis by (auto simp: changes_nothing_def)
qed

lemma system_step_anatomy:
  assumes "system_step j j'"
  obtains (still) "j_operations j' = j_operations j"
  | (created) o' where "op_state o' = OS_PENDING_POLICY" and "op_get (op_id o') j = None"
      and "\<And>i. op_get i j' = (if i = op_id o' then Some o' else op_get i j)"
  | (lifecycle) command r where "apply_command (OperationCommand command) j = Inr (r, j')"
      and "tr_outcome r = TO_APPLIED"
  | (escalated) a b where "escalated j a b j'"
  using assms
proof cases
  case (command c r)
  show thesis
  proof (cases "\<exists>oc. c = OperationCommand oc")
    case True
    with command show thesis using that(1,3) apply_command_refused [OF command]
      by (auto simp: changes_nothing_def)
  next
    case False
    have "changes_nothing j r j' \<or> quiet j j' \<or> (\<exists>o'. created j o' j')"
    proof (cases c)
      case (CreateOperation x)
      with command created_effect [of x j r j'] show ?thesis by (auto simp: apply_command_def split: if_split_asm)
    qed (use command False apply_claim_compensation_Inr apply_start_compensation_verification_Inr
        apply_claim_compensation_retry_attempt_Inr apply_retry_compensation_after_verification_Inr
        progress_step_effect(1) in \<open>fastforce simp: apply_command_def split: if_split_asm\<close>)+
    then show thesis using that(1,2) by (auto simp: changes_nothing_def quiet_def created_def)
  qed
next
  case (escalate e r)
  with escalation_escalated that(1,4) show thesis by metis
next
  case (publish locked message_ids publisher now b)
  with publish_one_effect that(1) show thesis by (auto simp: quiet_def)
next
  case (recover uuid5 now cutoff m c b)
  then consider "j' = j" | source o' i where "op_get i j = Some o'" "republish uuid5 now source o' j = Inr j'"
    | source o' where "exhaust uuid5 now m source o' j = Inr j'"
    by (auto simp: recover_candidate_def split: option.split_asm if_split_asm)
  then show thesis
  proof cases
    case 2
    then show thesis using republish_effect(1) op_get_key that(1) by (metis quiet_def)
  next
    case 3
    then obtain e r where "escalate_messaging_recovery e j = Inr (r, j')"
      by (auto simp: exhaust_def split: if_split_asm)
    with escalation_escalated that(1,4) show thesis by metis
  qed (use that(1) in simp)
next
  case attempt_evidence
  with evidence_effect(1) that(1) show thesis by (auto simp: quiet_def)
next
  case verification_evidence
  with evidence_effect(2) that(1) show thesis by (auto simp: quiet_def)
qed

section \<open>What a state is backed by\<close>

text \<open>
  \<open>backed_state\<close> is the contract of a backing \<open>P j o'\<close>: new operations need none, later writes keep
  it, an applied lifecycle command and an escalation establish it for the operation they move.
  Then every operation of every reachable journal is backed.
\<close>

locale backed_state =
  fixes backed :: "journal \<Rightarrow> operation \<Rightarrow> bool"
  assumes new: "op_state o' = OS_PENDING_POLICY \<Longrightarrow> backed j o'"
    and keep: "wrote\<^sup>*\<^sup>* j j' \<Longrightarrow> backed j o' \<Longrightarrow> backed j' o'"
    and lifecycle: "apply_command (OperationCommand command) j = Inr (r, j') \<Longrightarrow> tr_outcome r = TO_APPLIED \<Longrightarrow>
      op_get (oc_operation_id command) j = Some a \<Longrightarrow> op_get (oc_operation_id command) j' = Some b \<Longrightarrow>
      wrote\<^sup>*\<^sup>* j j' \<Longrightarrow> backed j a \<Longrightarrow> backed j' b"
    and escalation: "escalated j a b j' \<Longrightarrow> wrote\<^sup>*\<^sup>* j j' \<Longrightarrow> backed j a \<Longrightarrow> backed j' b"
begin

lemma step_backed:
  assumes "system_step j j'" and "\<forall>i o'. op_get i j = Some o' \<longrightarrow> backed j o'"
  shows "\<forall>i o'. op_get i j' = Some o' \<longrightarrow> backed j' o'"
proof -
  note w = system_step_writes [OF assms(1)] and life = lifecycle and esc = escalation
  have old: "op_get i j = Some o' \<Longrightarrow> backed j' o'" for i o'
    using assms(2) keep [OF w] by blast
  from assms(1) show ?thesis
  proof (cases rule: system_step_anatomy)
    case still
    then show ?thesis using old by (simp add: op_get_def)
  next
    case (created o')
    then show ?thesis using old new by auto
  next
    case (lifecycle command r)
    then have "apply_operation command j = Inr (r, j')" by (auto simp: apply_command_def split: if_split_asm)
    from this lifecycle(2) obtain a b es where a: "op_get (oc_operation_id command) j = Some a"
      and eff: "transition_effect j a b es j'" by (rule apply_operation_applied)
    note get = transition_effect_get [OF eff] and id = op_get_key [OF a]
    then have "op_get (oc_operation_id command) j' = Some b" by simp
    from life [OF lifecycle a this w] a assms(2) have "backed j' b" by blast
    then show ?thesis using old get id by auto
  next
    case (escalated a b)
    then have "backed j' b" using esc [OF escalated w] assms(2) by (auto simp: escalated_def)
    then show ?thesis using old escalated by (auto simp: escalated_def)
  qed
qed

lemma reachable_backed:
  assumes "reachable j" and "op_get i j = Some o'"
  shows "backed j o'"
proof -
  have "\<forall>i o'. op_get i j = Some o' \<longrightarrow> backed j o'"
    using assms(1)
  proof (induction rule: reachable.induct)
    case empty
    show ?case by (simp add: empty_journal_def op_get_def)
  qed (use step_backed in blast)
  with assms(2) show ?thesis by blast
qed

end

section \<open>An executing operation has a durable attempt\<close>

definition attempt_backing :: "journal \<Rightarrow> operation \<Rightarrow> bool" where
  "attempt_backing j o' \<longleftrightarrow>
     (op_state o' = OS_EXECUTING \<longrightarrow>
      (\<exists>a. op_latest_attempt_id o' = Some (att_id a) \<and> at_get (att_id a) j = Some a \<and>
         att_operation_id a = op_id o'))"

lemma attempt_row_kept:
  assumes "wrote\<^sup>*\<^sup>* j j'" and "at_get (att_id a) j = Some a"
  shows "\<exists>a'. att_id a' = att_id a \<and> at_get (att_id a') j' = Some a' \<and> att_operation_id a' = att_operation_id a"
  using atev.run_evolves [OF assms] by (auto simp: attempt_evolves_def)

interpretation exat: backed_state attempt_backing
proof
  fix j j' o' assume "wrote\<^sup>*\<^sup>* j j'" "attempt_backing j o'"
  then show "attempt_backing j' o'" unfolding attempt_backing_def by (metis attempt_row_kept)
next
  fix command j r j' a b
  assume app: "apply_command (OperationCommand command) j = Inr (r, j')" "tr_outcome r = TO_APPLIED"
    and b: "op_get (oc_operation_id command) j' = Some b"
  show "attempt_backing j' b"
    unfolding attempt_backing_def
  proof
    assume st: "op_state b = OS_EXECUTING"
    obtain a' b' m j1 where "lifecycle_taken command j r j' a' b' m j1" by (rule lifecycle_applied [OF app])
    with b st obtain x i where "oc_body command = ClaimExecution x i"
      by (cases "oc_body command") (auto simp: lifecycle_taken_def)
    with b show "\<exists>a. op_latest_attempt_id b = Some (att_id a) \<and> at_get (att_id a) j' = Some a \<and>
        att_operation_id a = op_id b" by (auto elim!: claim_execution_stores [OF app])
  qed
qed (auto simp: attempt_backing_def escalated_def)

text \<open>
  An attempt backs every execution: in every reachable journal an EXECUTING operation points to
  a stored attempt of its own, so that a crash at any moment leaves a record of the call that
  may have been made.
\<close>

lemma executing_has_durable_attempt:
  assumes "reachable j" and "op_get i j = Some o'" and "op_state o' = OS_EXECUTING"
  shows "\<exists>a. op_latest_attempt_id o' = Some (att_id a) \<and> at_get (att_id a) j = Some a \<and> att_operation_id a = i"
  using exat.reachable_backed [OF assms(1,2)] assms(3) op_get_key [OF assms(2)]
  by (auto simp: attempt_backing_def)

section \<open>No execution without authorization\<close>

definition approved :: "journal \<Rightarrow> operation \<Rightarrow> policy_decision \<Rightarrow> bool" where
  "approved j o' d \<longleftrightarrow>
     (\<exists>p. op_current_approval_id o' = Some (ap_id p) \<and> ap_get (ap_id p) j = Some p \<and>
        ap_state p = AP_APPROVED \<and> ap_operation_id p = op_id o' \<and>
        ap_intent_digest p = in_intent_digest (op_intent o') \<and> ap_policy_decision_id p = pd_id d)"

definition decided :: "journal \<Rightarrow> operation \<Rightarrow> policy_decision \<Rightarrow> bool" where
  "decided j o' d \<longleftrightarrow>
     op_current_policy_decision_id o' = Some (pd_id d) \<and> po_get (pd_id d) j = Some d \<and>
     pd_operation_id d = op_id o' \<and> pd_intent_digest d = in_intent_digest (op_intent o')"

definition authorization :: "journal \<Rightarrow> operation \<Rightarrow> bool" where
  "authorization j o' \<longleftrightarrow>
     (op_state o' \<notin> {OS_PENDING_POLICY, OS_CANCELLED} \<longrightarrow>
      (\<exists>d. decided j o' d \<and>
         (pd_verdict d = PV_DENY \<and> op_state o' = OS_DENIED \<or>
          pd_verdict d = PV_ALLOW \<and> op_state o' \<notin> {OS_AWAITING_APPROVAL, OS_DENIED} \<or>
          pd_verdict d = PV_REQUIRE_APPROVAL \<and>
            (op_state o' \<in> {OS_AWAITING_APPROVAL, OS_DENIED} \<or> approved j o' d))))"

lemma decided_kept: "wrote\<^sup>*\<^sup>* j j' \<Longrightarrow> decided j o' d \<Longrightarrow> decided j' o' d"
  using poev.run_evolves unfolding decided_def by blast

lemma approved_kept: "wrote\<^sup>*\<^sup>* j j' \<Longrightarrow> approved j o' d \<Longrightarrow> approved j' o' d"
  unfolding approved_def approval_evolves_def [abs_def]
  by (metis apev.run_evolves approval_evolves_def approval_state.distinct(1))

text \<open>Which commands move the two pointers.\<close>

lemma policy_pointer_kept:
  assumes "lifecycle_taken command j r j' a b m j1" and "op_state a \<noteq> OS_PENDING_POLICY"
  shows "op_current_policy_decision_id b = op_current_policy_decision_id a"
proof -
  have "policy_decision_of (oc_body command) = None"
    using lifecycle_takenD(4) [OF assms(1)] assms(2) by (cases "oc_body command") (auto simp: body_simps)
  then show ?thesis
    using replace_for_kind_Inr(12) [OF lifecycle_takenD(10) [OF assms(1)]] by (simp add: or_unchanged_def)
qed

lemma approval_pointer_kept:
  assumes "lifecycle_taken command j r j' a b m j1"
    and "op_state a \<noteq> OS_PENDING_POLICY" and "op_state a \<noteq> OS_AWAITING_APPROVAL"
  shows "op_current_approval_id b = op_current_approval_id a"
proof -
  have "cmd_approval (oc_body command) = None"
    using lifecycle_takenD(4) [OF assms(1)] assms(2,3) by (cases "oc_body command") (auto simp: body_simps)
  then show ?thesis
    using replace_for_kind_Inr(13) [OF lifecycle_takenD(10) [OF assms(1)]] by (simp add: or_unchanged_def)
qed

lemma lifecycle_identity:
  assumes "lifecycle_taken command j r j' a b m j1"
  shows "op_id b = op_id a" and "op_intent b = op_intent a"
    and "(op_state a, op_state b) \<in> set operation_edges"
  using replace_for_kind_Inr(1,4) [OF lifecycle_takenD(10) [OF assms]]
    kind_edge_listed [of "body_kind (oc_body command)" "op_state a"] lifecycle_takenD(4) [OF assms] by simp_all

lemma authorization_lifecycle:
  assumes app: "apply_command (OperationCommand command) j = Inr (r, j')" "tr_outcome r = TO_APPLIED"
    and load: "op_get (oc_operation_id command) j = Some a" "op_get (oc_operation_id command) j' = Some b"
    and w: "wrote\<^sup>*\<^sup>* j j'" and before: "authorization j a"
  shows "authorization j' b"
proof (cases "op_state b = OS_CANCELLED")
  case False
  obtain a' b' m j1 where t': "lifecycle_taken command j r j' a' b' m j1" by (rule lifecycle_applied [OF app])
  have "a' = a" "b' = b" using lifecycle_takenD(1,9) [OF t'] load by simp_all
  with t' have t: "lifecycle_taken command j r j' a b m j1" by simp
  note id = lifecycle_identity [OF t] and rr = lifecycle_takenD(11,12) [OF t]
  show ?thesis
  proof (cases "op_state a = OS_PENDING_POLICY")
    case True
    with rr False have "tr_from_state r = Some OS_PENDING_POLICY" "tr_to_state r \<noteq> Some OS_CANCELLED" by auto
    from policy_decision_recorded [OF app this] load id obtain d where
      "decided j' b d" and "op_state b = verdict_target (pd_verdict d)" by (auto simp: decided_def)
    then show ?thesis
      unfolding authorization_def verdict_target_def by (cases "pd_verdict d") auto
  next
    case pending: False
    from id(3) have "op_state a \<noteq> OS_CANCELLED" "op_state a \<noteq> OS_DENIED" "op_state b \<noteq> OS_PENDING_POLICY"
      by (auto simp: operation_edges_iff LEGAL_OPERATION_TRANSITIONS_def)
    with pending before obtain d where d: "decided j a d" and verdict:
        "pd_verdict d = PV_ALLOW \<and> op_state a \<noteq> OS_AWAITING_APPROVAL \<or>
         pd_verdict d = PV_REQUIRE_APPROVAL \<and> (op_state a = OS_AWAITING_APPROVAL \<or> approved j a d)"
      by (auto simp: authorization_def)
    then have d': "decided j' b d"
      using decided_kept [OF w] policy_pointer_kept [OF t pending] id by (simp add: decided_def)
    have "pd_verdict d = PV_ALLOW \<and> op_state b \<notin> {OS_AWAITING_APPROVAL, OS_DENIED} \<or>
        pd_verdict d = PV_REQUIRE_APPROVAL \<and> (op_state b = OS_DENIED \<or> approved j' b d)"
    proof (cases "op_state a = OS_AWAITING_APPROVAL")
      case True
      with verdict have v: "pd_verdict d = PV_REQUIRE_APPROVAL" by auto
      from id(3) True False have "op_state b \<in> {OS_READY, OS_DENIED}" by (auto simp: operation_edges_iff LEGAL_OPERATION_TRANSITIONS_def)
      moreover have "approved j' b d" if "op_state b = OS_READY"
        using approval_recorded [OF app] rr True that load id d
        by (auto simp: approved_def decided_def approval_bound_def)
      ultimately show ?thesis using v by auto
    next
      case waiting: False
      with id(3) pending have "op_state b \<notin> {OS_AWAITING_APPROVAL, OS_DENIED}"
        by (auto simp: operation_edges_iff LEGAL_OPERATION_TRANSITIONS_def)
      moreover have "approved j a d \<Longrightarrow> approved j' b d"
        using approved_kept [OF w] approval_pointer_kept [OF t pending waiting] id by (simp add: approved_def)
      ultimately show ?thesis using verdict waiting by auto
    qed
    with d' show ?thesis unfolding authorization_def by auto
  qed
qed (simp add: authorization_def)

interpretation auth: backed_state authorization
proof
  fix j j' o' assume "wrote\<^sup>*\<^sup>* j j'" "authorization j o'"
  then show "authorization j' o'"
    unfolding authorization_def using decided_kept approved_kept by blast
next
  fix j a b j' assume e: "escalated j a b j'" and w: "wrote\<^sup>*\<^sup>* j j'" and "authorization j a"
  moreover from e have "op_state a \<notin> {OS_PENDING_POLICY, OS_CANCELLED, OS_AWAITING_APPROVAL, OS_DENIED}"
    by (auto simp: escalated_def messaging_recovery_kind_def)
  ultimately obtain d where d: "decided j a d" and "pd_verdict d = PV_ALLOW \<or>
      pd_verdict d = PV_REQUIRE_APPROVAL \<and> approved j a d"
    by (auto simp: authorization_def)
  moreover have "decided j' b d" using decided_kept [OF w d] e by (simp add: decided_def escalated_def)
  moreover have "approved j a d \<Longrightarrow> approved j' b d"
    using approved_kept [OF w] e by (simp add: approved_def escalated_def)
  ultimately show "authorization j' b"
    using e unfolding authorization_def escalated_def by auto
qed (use authorization_lifecycle in \<open>auto simp: authorization_def\<close>)

text \<open>
  C4. No execution without authorization: in every reachable journal, an operation that is past its
  gates (any state but PENDING_POLICY, AWAITING_APPROVAL, DENIED and CANCELLED) points to a stored
  policy decision for itself and its intent digest that allows it, or that requires an approval;
  and then its approval is stored APPROVED, for itself, this digest and this decision.
\<close>

theorem no_execution_without_authorization:
  assumes "reachable j" and "op_get i j = Some o'"
    and "op_state o' \<notin> {OS_PENDING_POLICY, OS_AWAITING_APPROVAL, OS_DENIED, OS_CANCELLED}"
  shows "\<exists>d. op_current_policy_decision_id o' = Some (pd_id d) \<and> po_get (pd_id d) j = Some d \<and>
    pd_operation_id d = i \<and> pd_intent_digest d = in_intent_digest (op_intent o') \<and>
    (pd_verdict d = PV_ALLOW \<or>
     pd_verdict d = PV_REQUIRE_APPROVAL \<and>
     (\<exists>p. op_current_approval_id o' = Some (ap_id p) \<and> ap_get (ap_id p) j = Some p \<and>
        ap_state p = AP_APPROVED \<and> ap_operation_id p = i \<and>
        ap_intent_digest p = in_intent_digest (op_intent o') \<and> ap_policy_decision_id p = pd_id d))"
  using auth.reachable_backed [OF assms(1,2)] assms(3) op_get_key [OF assms(2)]
  by (fastforce simp: authorization_def decided_def approved_def)

section \<open>No work without a message\<close>

text \<open>The outbox event an applied lifecycle command leaves, if its kind is mapped to a work command.\<close>

lemma lifecycle_outbox:
  assumes "apply_command (OperationCommand command) j = Inr (r, j')" and "tr_outcome r = TO_APPLIED"
    and "OUTBOX_COMMAND_FOR_KIND (oc_kind command) = Some w"
  obtains e where "tr_outbox_event r = Some e" and "j_outbox_events j' = j_outbox_events j @ [e]"
    and "ox_get (ox_id e) j = None" and "ox_get (ox_id e) j' = Some e" and "ox_state e = OB_PENDING"
    and "ox_aggregate_id e = oc_operation_id command"
    and "ox_operation_version e = oc_expected_version command + 1" and "ox_command e = w"
proof -
  from assms(1) have app: "apply_operation command j = Inr (r, j')"
    and kind: "oc_kind command = body_kind (oc_body command)"
    by (auto simp: apply_command_def split: if_split_asm)
  from app assms(2) obtain a where a: "op_get (oc_operation_id command) j = Some a"
      "op_version a = oc_expected_version command"
    and perf: "perform_operation command a (load_related command a j) j = Inr (r, j')"
    by (rule apply_operation_applied)
  obtain i where i: "outbox_event_id_of (oc_body command) = Some i"
    using assms(3) kind outbox_id_iff_mapped [of "oc_body command"] by auto
  from perf obtain m ja new jb es jc out where w: "write_related command (load_related command a j) j = Inr (m, ja)"
    and rep: "replace_for_kind command a (snd (KIND_TO_EDGE (oc_kind command))) (op_version a + 1) = Inr new"
    and cas: "op_update_cas (oc_expected_version command) new ja = Inr jb"
    and aud: "append_audits command a new (load_related command a j) jb = Inr (es, jc)"
    and ox: "insert_outbox command new jc = Inr (out, j')"
    and r: "tr_outbox_event r = out"
    unfolding perform_operation_Inr by force
  from ox obtain e where out: "out = Some e" and ins: "ox_insert e jc = Inr j'"
    and e: "build_outbox_event i (op_id new) (op_version new) w (oc_occurred_at command)
      (oc_correlation_id command) = Inr e"
    by (auto simp: insert_outbox_def assms(3) i)
  have same: "j_outbox_events jc = j_outbox_events j"
    using write_related_core [OF w] cas append_audits_events(1) [OF aud]
    by (simp add: same_core_def op_update_cas_Inr)
  then have "ox_get (ox_id e) j = None" "ox_get (ox_id e) j' = Some e" "j_outbox_events j' = j_outbox_events j @ [e]"
    using oxtb.add_fresh [OF ins] oxtb.load_add [OF ins, of "ox_id e"] ins
    by (simp_all add: ox_get_def ox_insert_Inr)
  moreover have "ox_state e = OB_PENDING" "ox_aggregate_id e = oc_operation_id command"
      "ox_operation_version e = oc_expected_version command + 1" "ox_command e = w"
    using e replace_for_kind_Inr(1,3) [OF rep] a op_get_key [OF a(1)]
    by (auto simp: build_outbox_event_def make_outbox_event_Inr)
  ultimately show thesis using that r out by blast
qed

text \<open>
  The state change and the work it needs are one write: an applied lifecycle command whose kind is
  mapped to a work command appends exactly one new PENDING outbox event, for its operation, the
  new version and that command; any other kind leaves the outbox alone.
\<close>

lemma work_is_enqueued_with_the_transition:
  assumes "apply_command (OperationCommand command) j = Inr (r, j')" and "tr_outcome r = TO_APPLIED"
  shows "case OUTBOX_COMMAND_FOR_KIND (oc_kind command) of
      None \<Rightarrow> j_outbox_events j' = j_outbox_events j
    | Some w \<Rightarrow> \<exists>e. j_outbox_events j' = j_outbox_events j @ [e] \<and> ox_get (ox_id e) j = None \<and>
        ox_state e = OB_PENDING \<and> ox_aggregate_id e = oc_operation_id command \<and>
        ox_operation_version e = oc_expected_version command + 1 \<and> ox_command e = w"
proof (cases "OUTBOX_COMMAND_FOR_KIND (oc_kind command)")
  case None
  from assms have app: "apply_operation command j = Inr (r, j')"
    by (auto simp: apply_command_def split: if_split_asm)
  from app assms(2) obtain a where "perform_operation command a (load_related command a j) j = Inr (r, j')"
    by (rule apply_operation_applied)
  then obtain m ja new jb es jc out where w: "write_related command (load_related command a j) j = Inr (m, ja)"
    and cas: "op_update_cas (oc_expected_version command) new ja = Inr jb"
    and aud: "append_audits command a new (load_related command a j) jb = Inr (es, jc)"
    and ox: "insert_outbox command new jc = Inr (out, j')"
    unfolding perform_operation_Inr by blast
  have "j_outbox_events j' = j_outbox_events j"
    using write_related_core [OF w] cas append_audits_events(1) [OF aud] ox None
    by (auto simp: same_core_def op_update_cas_Inr insert_outbox_def)
  with None show ?thesis by simp
next
  case (Some w)
  then show ?thesis by (auto elim!: lifecycle_outbox [OF assms])
qed

text \<open>The states that wait for a worker, and for which command.\<close>

definition awaited_work :: "operation_state \<Rightarrow> work_command option" where
  "awaited_work s =
     (case s of
        OS_READY \<Rightarrow> Some WC_EXECUTE
      | OS_VERIFYING \<Rightarrow> Some WC_VERIFY
      | OS_COMPENSATING \<Rightarrow> Some WC_COMPENSATE
      | OS_COMPENSATION_UNKNOWN \<Rightarrow> Some WC_COMPENSATE
      | _ \<Rightarrow> None)"

definition enqueued :: "journal \<Rightarrow> operation \<Rightarrow> bool" where
  "enqueued j o' \<longleftrightarrow>
     (\<forall>w. awaited_work (op_state o') = Some w \<longrightarrow>
       (\<exists>e. ox_get (ox_id e) j = Some e \<and> ox_aggregate_id e = op_id o' \<and>
          ox_operation_version e = op_version o' \<and> ox_command e = w))"

lemma enqueued_kept: "wrote\<^sup>*\<^sup>* j j' \<Longrightarrow> enqueued j o' \<Longrightarrow> enqueued j' o'"
  unfolding enqueued_def
proof (intro allI impI)
  fix w assume w: "wrote\<^sup>*\<^sup>* j j'" and "awaited_work (op_state o') = Some w"
    and "\<forall>w. awaited_work (op_state o') = Some w \<longrightarrow>
       (\<exists>e. ox_get (ox_id e) j = Some e \<and> ox_aggregate_id e = op_id o' \<and>
          ox_operation_version e = op_version o' \<and> ox_command e = w)"
  then obtain e where e: "ox_get (ox_id e) j = Some e" "ox_aggregate_id e = op_id o'"
    "ox_operation_version e = op_version o'" "ox_command e = w" by blast
  from oxev.run_evolves [OF w e(1)] e(2-4)
  show "\<exists>e. ox_get (ox_id e) j' = Some e \<and> ox_aggregate_id e = op_id o' \<and>
      ox_operation_version e = op_version o' \<and> ox_command e = w"
    unfolding event_evolves_def by metis
qed

interpretation wrkq: backed_state enqueued
proof
  fix command j r j' a b
  assume app: "apply_command (OperationCommand command) j = Inr (r, j')" "tr_outcome r = TO_APPLIED"
    and b: "op_get (oc_operation_id command) j' = Some b"
  obtain a' b' m j1 where t: "lifecycle_taken command j r j' a' b' m j1" by (rule lifecycle_applied [OF app])
  have b': "b' = b" using lifecycle_takenD(9) [OF t] b by simp
  note kind = lifecycle_takenD(3,4) [OF t, unfolded b']
  show "enqueued j' b"
    unfolding enqueued_def
  proof (intro allI impI)
    fix w assume "awaited_work (op_state b) = Some w"
    then have "OUTBOX_COMMAND_FOR_KIND (oc_kind command) = Some w"
      using kind by (cases "oc_body command") (auto simp: awaited_work_def OUTBOX_COMMAND_FOR_KIND_def)
    from lifecycle_outbox [OF app this] obtain e where "ox_get (ox_id e) j' = Some e"
      "ox_aggregate_id e = oc_operation_id command" "ox_operation_version e = oc_expected_version command + 1"
      "ox_command e = w" by blast
    moreover have "op_id b = oc_operation_id command" "op_version b = oc_expected_version command + 1"
      using op_get_key [OF b] replace_for_kind_Inr(3) [OF lifecycle_takenD(10) [OF t]] lifecycle_takenD(2) [OF t] b'
      by simp_all
    ultimately show "\<exists>e. ox_get (ox_id e) j' = Some e \<and> ox_aggregate_id e = op_id b \<and>
        ox_operation_version e = op_version b \<and> ox_command e = w" by auto
  qed
next
  fix j a b j' assume "escalated j a b j'"
  then show "enqueued j' b" by (simp add: enqueued_def awaited_work_def escalated_def)
qed (simp_all add: enqueued_kept, simp add: enqueued_def awaited_work_def)

text \<open>
  C5. Work is never lost: in every reachable journal, an operation that is READY, VERIFYING,
  COMPENSATING or COMPENSATION_UNKNOWN has an outbox event for its current version with the work
  command its state waits for, so that a relay can always find it.
\<close>

theorem work_is_never_lost:
  assumes "reachable j" and "op_get i j = Some o'" and "awaited_work (op_state o') = Some w"
  shows "\<exists>e \<in> set (j_outbox_events j). ox_aggregate_id e = i \<and> ox_operation_version e = op_version o' \<and>
    ox_command e = w"
  using wrkq.reachable_backed [OF assms(1,2)] assms(3) op_get_key [OF assms(2)] tbl_get_Some_mem
  unfolding enqueued_def ox_get_def by metis

end
