(* ===== verification/Relay_At_Work.thy ===== *)
theory Relay_At_Work
  imports Theorems_At_Work Relay_Properties Operation_Backing
begin

text \<open>
  The durable history, the backing of operations and the relay at the worked example: the
  theorems of \<open>Durable_History\<close>, \<open>Operation_Backing\<close> and \<open>Relay_Properties\<close> applied to its
  journals, with a broker that accepts every message.
\<close>

section \<open>The journals of the example\<close>

lemma fx_history: "later fx_j3 fx_j4" "later fx_j4 fx_j5"
  using later.step [OF later.refl] fx_step_system [OF fx_succeeded] fx_step_system [OF fx_compensating]
  by blast+

lemma fx_rows:
  "op_get (fx_id CHR ''1'') fx_j2 = Some (fx_op\<lparr>op_state := OS_READY, op_version := 2,
        op_current_policy_decision_id := Some (fx_id CHR ''a'')\<rparr>)"
  "op_get (fx_id CHR ''1'') fx_j3 = Some (fx_op\<lparr>op_state := OS_EXECUTING, op_version := 3,
        op_current_policy_decision_id := Some (fx_id CHR ''a''),
        op_latest_attempt_id := Some (fx_id CHR ''b'')\<rparr>)"
  "op_get (fx_id CHR ''1'') fx_j3a = Some (fx_op\<lparr>op_state := OS_READY, op_version := 3,
        op_current_policy_decision_id := Some (fx_id CHR ''a''),
        op_current_approval_id := Some (fx_id CHR ''f'')\<rparr>)"
  "at_get (fx_id CHR ''b'') fx_j4 = Some fx_completed"
  by (simp_all add: op_get_def at_get_def fx_op_def fx_completed_def fx_attempt_def
      fx_j1_def fx_j2_def fx_j3_def fx_j4_def fx_j2a_def fx_j3a_def)

abbreviation fx_outbox_event :: "char \<Rightarrow> int \<Rightarrow> work_command \<Rightarrow> outbox_event" where
  "fx_outbox_event c v w \<equiv>
     \<lparr>ox_contract_version = CONTRACT_VERSION, ox_id = fx_id c, ox_state = OB_PENDING,
      ox_aggregate_type = ''operation'', ox_aggregate_id = fx_id CHR ''1'', ox_operation_version = v,
      ox_command = w, ox_created_at = fx_now, ox_published_at = None, ox_correlation_id = None\<rparr>"

lemma fx_outbox_rows:
  "ox_get (fx_id CHR ''5'') fx_j4 = Some (fx_outbox_event CHR ''5'' 2 WC_EXECUTE)"
  "j_outbox_events fx_j2 = [fx_outbox_event CHR ''5'' 2 WC_EXECUTE]"
  "j_outbox_events fx_j7 =
     [fx_outbox_event CHR ''5'' 2 WC_EXECUTE, fx_outbox_event CHR ''6'' 5 WC_COMPENSATE]"
  by (simp_all add: ox_get_def fx_j2_def fx_j3_def fx_j4_def fx_j5_def fx_j6_def fx_j7_def)

section \<open>The durable history\<close>

theorem evidence_is_never_rewritten_witness:
  "at_get (fx_id CHR ''b'') fx_j5 = Some fx_completed"
  using evidence_is_never_rewritten [OF fx_history(2)] fx_rows(4) by (simp add: fx_completed_def)

section \<open>What backs an operation\<close>

theorem no_execution_without_authorization_witness:
  "\<exists>d. po_get (pd_id d) fx_j3a = Some d \<and> (pd_verdict d = PV_ALLOW \<or>
     (\<exists>p. ap_get (ap_id p) fx_j3a = Some p \<and> ap_state p = AP_APPROVED))"
  using no_execution_without_authorization [OF fx_reachable(10) fx_rows(3)] by auto

theorem work_is_never_lost_witness:
  "\<exists>e \<in> set (j_outbox_events fx_j2). ox_aggregate_id e = fx_id CHR ''1'' \<and> ox_command e = WC_EXECUTE"
  using work_is_never_lost [OF fx_reachable(2) fx_rows(1)] by (auto simp: awaited_work_def)

section \<open>The relay\<close>

lemma fx_orders:
  "UtcTimestamp a \<le> UtcTimestamp b \<longleftrightarrow> a \<le> b" "fx_id CHR ''6'' < fx_id CHR ''5'' \<longleftrightarrow> False"
  "fx_id CHR ''5'' < fx_id CHR ''6'' \<longleftrightarrow> True" "value_is_forbidden ''EXECUTE'' \<longleftrightarrow> False"
  "UtcTimestamp a < UtcTimestamp b \<longleftrightarrow> a < b"
  by (simp add: less_eq_utc_timestamp_def, code_simp, code_simp, code_simp, simp add: less_utc_timestamp_def)

lemma fx_pointers_ok: "list_all (op_pointers_ok fx_j2) (j_operations fx_j2)"
  by (simp add: op_pointers_ok_def points_to_def fx_j2_def fx_j1_def fx_op_def fx_decision_def empty_journal_def)

definition fx_published :: "outbox_event \<Rightarrow> outbox_event" where
  "fx_published e = e\<lparr>ox_state := OB_PUBLISHED, ox_published_at := Some fx_now\<rparr>"

abbreviation (input) fx_publish_one :: "journal \<Rightarrow> (bool \<times> journal) fallible" where
  "fx_publish_one \<equiv> publish_one (\<lambda>_. False) (\<lambda>i. i) (\<lambda>_. Inr ()) fx_now"

lemma fx_published_one:
  "fx_publish_one fx_j2 = Inr (True, fx_j2\<lparr>j_outbox_events := map fx_published (j_outbox_events fx_j2)\<rparr>)"
  by (simp add: publish_one_def list_pending_one claimable_def fx_outbox_rows message_for_def
      validate_work_message_def ox_mark_published_def ox_get_def Let_def fx_published_def tbl_set_def)

theorem publish_pending_drains_witness:
  "fst (publish_pending (\<lambda>_. False) (\<lambda>i. i) (\<lambda>_. Inr ()) (\<lambda>_. fx_now) 5 fx_j2) = Inr 1"
proof -
  let ?run = "publish_pending (\<lambda>_. False) (\<lambda>i. i) (\<lambda>_. Inr ()) (\<lambda>_. fx_now) 5 fx_j2"
  obtain res j' where run: "?run = (res, j')" by fastforce
  have "length (claimable (\<lambda>_. False) fx_j2) = 1" by (simp add: claimable_def fx_outbox_rows)
  with publish_pending_drains [OF fx_reachable(2) fx_pointers_ok HOL.refl _ run] run show ?thesis by simp
qed

text \<open>The published EXECUTE event of the READY operation, stranded, and its recovery.\<close>

definition fx_j2p :: journal where
  "fx_j2p = fx_j2\<lparr>j_outbox_events := map fx_published (j_outbox_events fx_j2)\<rparr>"

definition fx_uuid5 :: "string \<Rightarrow> string" where
  "fx_uuid5 _ = oid_value (fx_id CHR ''e'')"

lemma fx_recovery_id: "recovery_id fx_uuid5 i p = Inr (fx_id CHR ''e'')"
proof -
  have "make_opaque_id (oid_value (fx_id CHR ''e'')) = Inr (fx_id CHR ''e'')" by code_simp
  then show ?thesis by (simp add: recovery_id_def fx_uuid5_def)
qed

lemma fx_recovered:
  "\<exists>j'. recover_candidate fx_uuid5 (UtcTimestamp 3000) (UtcTimestamp 2000) 1 (fx_id CHR ''5'') fx_j2p = Inr (True, j')"
  by (simp add: recover_candidate_def still_stranded_def ox_latest_for_operation_def last_opt_def
      COMMAND_STATES_def au_count_reason_for_command_def republish_def fx_recovery_id ox_get_def
      fx_j2p_def fx_j2_def fx_j1_def fx_op_def fx_decision_def fx_published_def fx_now_def
      engine_eval RECOVERY_REPUBLISHED_REASON_def fx_orders)

lemma fx_given_up:
  "\<exists>j'. recover_candidate fx_uuid5 (UtcTimestamp 3000) (UtcTimestamp 2000) 0 (fx_id CHR ''5'') fx_j2p = Inr (False, j')"
  by (simp add: recover_candidate_def still_stranded_def ox_latest_for_operation_def last_opt_def
      COMMAND_STATES_def au_count_reason_for_command_def exhaust_def escalate_messaging_recovery_def
      messaging_recovery_kind_def fx_recovery_id ox_get_def
      fx_j2p_def fx_j2_def fx_j1_def fx_op_def fx_decision_def fx_published_def fx_now_def
      engine_eval RECOVERY_REPUBLISHED_REASON_def RECOVERY_EXHAUSTED_REASON_def fx_orders)

lemma fx_waiting:
  "\<exists>source o'. waiting_work (UtcTimestamp 2000) (fx_id CHR ''5'') fx_j2p = Some (source, o') \<and>
     ox_command source = WC_EXECUTE \<and> republished source o' fx_j2p = 0 \<and> exhausted source o' fx_j2p = 0"
  by (simp add: waiting_work_def ox_latest_for_operation_def last_opt_def COMMAND_STATES_def
      au_count_reason_for_command_def ox_get_def fx_j2p_def fx_j2_def fx_j1_def fx_op_def fx_decision_def
      fx_published_def fx_now_def engine_eval RECOVERY_REPUBLISHED_REASON_def RECOVERY_EXHAUSTED_REASON_def fx_orders)

theorem recovery_is_bounded_witness:
  "(\<exists>j' e. recover_candidate fx_uuid5 (UtcTimestamp 3000) (UtcTimestamp 2000) 1 (fx_id CHR ''5'') fx_j2p = Inr (True, j') \<and>
      j_outbox_events j' = j_outbox_events fx_j2p @ [e] \<and> ox_command e = WC_EXECUTE) \<and>
   (\<exists>j' i b. recover_candidate fx_uuid5 (UtcTimestamp 3000) (UtcTimestamp 2000) 0 (fx_id CHR ''5'') fx_j2p = Inr (False, j') \<and>
      op_get i j' = Some b \<and> op_state b = OS_MANUAL_INTERVENTION)"
proof -
  obtain source o' where w: "waiting_work (UtcTimestamp 2000) (fx_id CHR ''5'') fx_j2p = Some (source, o')"
    "ox_command source = WC_EXECUTE" "republished source o' fx_j2p = 0" "exhausted source o' fx_j2p = 0"
    using fx_waiting by blast
  obtain j' where again: "recover_candidate fx_uuid5 (UtcTimestamp 3000) (UtcTimestamp 2000) 1 (fx_id CHR ''5'') fx_j2p = Inr (True, j')"
    using fx_recovered by blast
  obtain k where up: "recover_candidate fx_uuid5 (UtcTimestamp 3000) (UtcTimestamp 2000) 0 (fx_id CHR ''5'') fx_j2p = Inr (False, k)"
    using fx_given_up by blast
  from recovery_is_bounded [OF again] recovery_is_bounded [OF up] w again up show ?thesis by auto
qed

text \<open>The compensated operation with both its events published: the COMPENSATE event is spent.\<close>

definition fx_j7p :: journal where
  "fx_j7p = fx_j7\<lparr>j_outbox_events := map fx_published (j_outbox_events fx_j7)\<rparr>"

lemma fx_j7p_events:
  "j_outbox_events fx_j7p =
     [fx_published (fx_outbox_event CHR ''5'' 2 WC_EXECUTE), fx_published (fx_outbox_event CHR ''6'' 5 WC_COMPENSATE)]"
  by (simp add: fx_j7p_def fx_outbox_rows)

lemma fx_j7p_operation: "op_get (fx_id CHR ''1'') fx_j7p = Some (fx_op5 OS_COMPENSATED 6)"
  using fx_operations(5) by (simp add: op_get_def fx_j7p_def)

lemma fx_stranded:
  "ox_list_stranded_candidate_ids (UtcTimestamp 2000) 1 fx_j7p = Inr [fx_id CHR ''6'']"
  by (simp add: ox_list_stranded_candidate_ids_def ox_stranded_def ox_newer_def stranded_states_def
      fx_j7p_events fx_j7p_operation fx_published_def fx_now_def fx_op5_def fx_orders)

end
