(* ===== verification/Provider_Boundary.thy ===== *)
theory Provider_Boundary
  imports Safety_Decisions
begin

text \<open>
  The boundary to the providers: what the services hand to an adapter and get back
  (\<^verbatim>\<open>domain/capability.py\<close>), the adapter interface (\<^verbatim>\<open>providers/protocol.py\<close>), the registry
  that dispatches by effect (\<^verbatim>\<open>providers/registry.py\<close>) and the normalisation of exceptions an
  adapter did not classify (\<^verbatim>\<open>providers/normalize.py\<close>). An adapter is a parameter: a record of
  functions whose three effectful ones also see every provider call made so far, so that any
  provider state can stand behind them; each returns or raises.
\<close>

section \<open>Requests and evidence\<close>

record provider_execution_context =
  px_operation_id :: opaque_id
  px_attempt_id :: opaque_id
  px_idempotency_identity :: string
  px_provider_idempotency_key :: "string option"
  px_correlation_id :: "string option"
  px_deadline :: "utc_timestamp option"

record provider_execution_request =
  pq_effect :: effect_ref
  pq_arguments :: json

record execution_evidence =
  xe_outcome :: effect_outcome
  xe_evidence :: "provider_evidence option"
  xe_error :: "normalized_error option"
  xe_external_operation_id :: "string option"
  xe_external_resource_ids :: "string list"

record verification_evidence =
  ve_outcome :: effect_outcome
  ve_evidence :: provider_evidence
  ve_error :: "normalized_error option"

record compensation_request =
  cq_original_operation_id :: opaque_id
  cq_compensation_id :: opaque_id
  cq_compensation_attempt_id :: opaque_id
  cq_original_evidence :: "provider_evidence list"
  cq_compensation_arguments :: json
  cq_idempotency_identity :: string
  cq_provider_idempotency_key :: "string option"

record compensation_evidence =
  ce_outcome :: effect_outcome
  ce_evidence :: "provider_evidence option"
  ce_error :: "normalized_error option"
  ce_external_operation_id :: "string option"

record validation_result =
  vl_accepted :: bool
  vl_error :: "normalized_error option"

definition VALIDATION_ERROR_KINDS :: "error_kind list" where
  "VALIDATION_ERROR_KINDS = [EK_VALIDATION, EK_UNSUPPORTED_CAPABILITY, EK_AUTHENTICATION]"

definition validate_validation_result :: "validation_result \<Rightarrow> unit fallible" where
  "validate_validation_result v =
     bind_err (guard_err (\<not> (vl_accepted v \<and> vl_error v \<noteq> None))
                 (ContractValidationError ''illegal_combination'')) (\<lambda>_.
     bind_err (guard_err (\<not> (\<not> vl_accepted v \<and> vl_error v = None))
                 (ContractValidationError ''illegal_combination'')) (\<lambda>_.
     guard_err (case vl_error v of None \<Rightarrow> True | Some e \<Rightarrow> er_kind e \<in> set VALIDATION_ERROR_KINDS)
       (ContractValidationError ''illegal_combination'')))"

section \<open>Adapters\<close>

text \<open>A call that reached a provider: it may have changed the outside world, except for \<open>VerifyCall\<close>.\<close>

datatype provider_call =
    ExecuteCall provider_execution_context provider_execution_request
  | VerifyCall provider_execution_context verification_request
  | CompensateCall provider_execution_context compensation_request

record provider_adapter =
  pa_supported_effects :: "effect_ref list"
  pa_descriptor :: "effect_ref \<Rightarrow> effect_descriptor fallible"
  pa_validate_execution :: "provider_execution_request \<Rightarrow> validation_result fallible"
  pa_verification_resource_ids :: "provider_execution_request \<Rightarrow> string list fallible"
  pa_execute :: "provider_call list \<Rightarrow> provider_execution_context \<Rightarrow> provider_execution_request \<Rightarrow>
    execution_evidence fallible"
  pa_verify :: "provider_call list \<Rightarrow> provider_execution_context \<Rightarrow> verification_request \<Rightarrow>
    verification_evidence fallible"
  pa_compensate :: "provider_call list \<Rightarrow> provider_execution_context \<Rightarrow> compensation_request \<Rightarrow>
    compensation_evidence fallible"

section \<open>The registry\<close>

record capability_registry =
  cr_order :: "effect_ref list"
  cr_adapters :: "effect_ref \<Rightarrow> provider_adapter option"

definition empty_registry :: capability_registry where
  "empty_registry = \<lparr>cr_order = [], cr_adapters = (\<lambda>_. None)\<rparr>"

text \<open>\<open>register\<close>: every effect is checked before the first one is stored.\<close>

definition check_registration ::
  "provider_adapter \<Rightarrow> capability_registry \<Rightarrow> effect_ref \<Rightarrow> effect_ref fallible" where
  "check_registration adapter registry effect =
     bind_err (guard_err (cr_adapters registry effect = None) DuplicateEffectRegistrationError) (\<lambda>_.
     bind_err (pa_descriptor adapter effect) (\<lambda>desc.
     bind_err (guard_err (ed_effect desc = effect) (ContractValidationError ''illegal_combination'')) (\<lambda>_.
     Inr effect)))"

definition registry_register ::
  "provider_adapter \<Rightarrow> capability_registry \<Rightarrow> capability_registry fallible" where
  "registry_register adapter registry =
     bind_err (guard_err (pa_supported_effects adapter \<noteq> []) (ContractValidationError ''empty_string'')) (\<lambda>_.
     bind_err (map_err (check_registration adapter registry) (pa_supported_effects adapter)) (\<lambda>pending.
     Inr (registry\<lparr>cr_adapters := (\<lambda>e. if e \<in> set pending then Some adapter else cr_adapters registry e),
                   cr_order := cr_order registry @ pending\<rparr>)))"

definition adapter_for :: "capability_registry \<Rightarrow> effect_ref \<Rightarrow> provider_adapter fallible" where
  "adapter_for registry effect =
     (case cr_adapters registry effect of None \<Rightarrow> Inl UnsupportedEffectError | Some a \<Rightarrow> Inr a)"

definition descriptor_for :: "capability_registry \<Rightarrow> effect_ref \<Rightarrow> effect_descriptor fallible" where
  "descriptor_for registry effect = bind_err (adapter_for registry effect) (\<lambda>a. pa_descriptor a effect)"

definition registry_retry_safety ::
  "capability_registry \<Rightarrow> effect_ref \<Rightarrow> effect_outcome option \<Rightarrow> effect_outcome option \<Rightarrow>
   utc_timestamp \<Rightarrow> utc_timestamp option \<Rightarrow> string option \<Rightarrow> retry_safety_decision fallible" where
  "registry_retry_safety registry effect execution_outcome verification_outcome now first_attempt_at
     insufficient_signal =
   bind_err (descriptor_for registry effect) (\<lambda>desc.
   Inr (if insufficient_signal \<noteq> None
     then evaluate_effect_retry_safety execution_outcome verification_outcome
            (ed_idempotency_mode desc) insufficient_signal None False False
     else (case ed_idempotency_mode desc of
       IM_PROVIDER_KEY \<Rightarrow>
         (case first_attempt_at of
            None \<Rightarrow> \<lparr>rs_verdict = RV_UNSAFE, rs_basis = None,
                     rs_reason_code = ''provider_key_replay_window_unknown_start''\<rparr>
          | Some started \<Rightarrow>
              (case ed_provider_key_semantics desc of
                 None \<Rightarrow> evaluate_effect_retry_safety execution_outcome verification_outcome
                           IM_PROVIDER_KEY None None False False
               | Some semantics \<Rightarrow> evaluate_effect_retry_safety execution_outcome verification_outcome
                           IM_PROVIDER_KEY None (Some semantics)
                           (replay_window_has_elapsed semantics started now) False))
     | IM_NATURAL \<Rightarrow> evaluate_effect_retry_safety execution_outcome verification_outcome
                       IM_NATURAL None None False True
     | IM_NONE \<Rightarrow> evaluate_effect_retry_safety execution_outcome verification_outcome
                       IM_NONE None None False False)))"

section \<open>Unclassified exceptions\<close>

definition evidence_for_unclassified_exception ::
  "sb_error \<Rightarrow> utc_timestamp \<Rightarrow> string \<Rightarrow>
   (effect_outcome \<times> normalized_error \<times> provider_evidence) fallible" where
  "evidence_for_unclassified_exception exc observed_at provider =
     bind_err (json_from_plain (PyDict [(PyStr ''exception_type'', PyStr (exception_type_name exc))])) (\<lambda>details.
     bind_err (json_from_plain (PyDict [])) (\<lambda>fields.
     let error = \<lparr>er_contract_version = CONTRACT_VERSION, er_kind = EK_INTERNAL,
           er_code = ''ref.internal.unclassified'', er_message = ''unclassified adapter exception'',
           er_retryable_infrastructure = False, er_provider_http_status = None,
           er_provider_error_code = None, er_retry_after_seconds = None, er_details = details\<rparr>;
         evidence = \<lparr>ev_source = ES_EXECUTION_RESPONSE, ev_provider = provider,
           ev_observed_at = observed_at, ev_provider_status = None, ev_provider_request_id = None,
           ev_external_operation_id = None, ev_external_resource_ids = [],
           ev_evidence_fields = fields, ev_raw_reference = None\<rparr>
     in bind_err (validate_normalized_error error) (\<lambda>_.
        bind_err (validate_provider_evidence evidence) (\<lambda>_. Inr (EO_UNKNOWN, error, evidence)))))"

lemma unclassified_is_unknown:
  "evidence_for_unclassified_exception exc t p = Inr (outcome, error, ev) \<Longrightarrow>
     outcome = EO_UNKNOWN \<and> er_kind error = EK_INTERNAL \<and> \<not> er_retryable_infrastructure error"
  by (auto simp: evidence_for_unclassified_exception_def Let_def simp del: json_from_plain.simps)

section \<open>What the registry promises\<close>

lemma checked_registration:
  assumes "map_err (check_registration adapter registry) es = Inr pending"
  shows "pending = es" and "effect \<in> set es \<Longrightarrow> cr_adapters registry effect = None"
  using assms by (induction es arbitrary: pending) (auto simp: check_registration_def)

lemma register_lookup:
  assumes "registry_register adapter registry = Inr registry'"
  shows "adapter_for registry' effect =
    (if effect \<in> set (pa_supported_effects adapter) then Inr adapter else adapter_for registry effect)"
  using assms checked_registration(1) by (fastforce simp: registry_register_def adapter_for_def)

text \<open>
  Registering an adapter never takes an effect over: what was registered is still dispatched to
  the adapter it was registered with.
\<close>

lemma register_keeps:
  assumes "registry_register adapter registry = Inr registry'" and "adapter_for registry effect = Inr a"
  shows "adapter_for registry' effect = Inr a"
  using assms(2) checked_registration(2)
    [of adapter registry "pa_supported_effects adapter" "pa_supported_effects adapter" effect]
    assms(1) checked_registration(1)
  by (fastforce simp: register_lookup [OF assms(1)] registry_register_def adapter_for_def split: option.splits)

text \<open>
  C33. The registry judges a retry SAFE exactly on a canonical basis: no insufficient signal is
  offered, neither the execution nor the verification outcome is APPLIED, and either one of
  them is NOT_APPLIED, or the registered effect is naturally idempotent, or it declares provider
  key semantics, the first attempt's start is known and the replay window has not elapsed
  since then (a declared key without semantics is never enough).
\<close>

theorem registry_retry_safe_iff:
  assumes "descriptor_for registry effect = Inr desc"
  shows "(\<exists>d. registry_retry_safety registry effect exe ver now first sig = Inr d \<and> rs_verdict d = RV_SAFE) \<longleftrightarrow>
    sig = None \<and> Some EO_APPLIED \<notin> {exe, ver} \<and>
    (case ed_idempotency_mode desc of
       IM_PROVIDER_KEY \<Rightarrow> (\<exists>t. first = Some t \<and>
         (Some EO_NOT_APPLIED \<in> {exe, ver} \<or>
          (\<exists>sem. ed_provider_key_semantics desc = Some sem \<and> \<not> replay_window_has_elapsed sem t now)))
     | IM_NATURAL \<Rightarrow> True
     | IM_NONE \<Rightarrow> Some EO_NOT_APPLIED \<in> {exe, ver})"
  using assms
  by (cases "ed_idempotency_mode desc"; cases first; cases "ed_provider_key_semantics desc")
    (auto simp: registry_retry_safety_def retry_safe_basis retry_basis_def)

end
