(* ===== verification/Service_World.thy ===== *)
theory Service_World
  imports System_Invariants Provider_Boundary
begin

text \<open>
  The world a service runs in. The services of \<^verbatim>\<open>runtime/\<close>, \<^verbatim>\<open>recovery/\<close>, \<^verbatim>\<open>compensation/\<close> and
  \<^verbatim>\<open>approval/\<close> interleave units of work on the journal with provider calls and clock readings, and
  other processes commit in between. A service is a function on a world: the journal, the calls
  this run has made (each with the journal as it stood then), and how often the clock was read
  and a unit of work opened. The surroundings give the clock and what the others committed
  before each unit of work: any history of system steps.
\<close>

named_theorems service_rules \<open>a service conforms to the system\<close>

section \<open>Worlds and services\<close>

record world =
  wd_journal :: journal
  wd_calls :: "(provider_call \<times> journal) list"
  wd_clock :: nat
  wd_turn :: nat

record surroundings =
  su_others :: "nat \<Rightarrow> journal \<Rightarrow> journal"
  su_clock :: "nat \<Rightarrow> utc_timestamp"

type_synonym 'a service = "world \<Rightarrow> 'a fallible \<times> world"

definition return_service :: "'a \<Rightarrow> 'a service" where
  "return_service x w = (Inr x, w)"

definition raise_service :: "sb_error \<Rightarrow> 'a service" where
  "raise_service e w = (Inl e, w)"

definition lift_service :: "'a fallible \<Rightarrow> 'a service" where
  "lift_service r w = (r, w)"

definition bind_service :: "'a service \<Rightarrow> ('a \<Rightarrow> 'b service) \<Rightarrow> 'b service" where
  "bind_service m f w = (case m w of (Inl e, w') \<Rightarrow> (Inl e, w') | (Inr x, w') \<Rightarrow> f x w')"

text \<open>
  \<open>try: m except ...: return h\<close> followed by \<open>rest\<close>: \<open>handler e\<close> is the clause that catches \<open>e\<close>, if one
  does; its answer is the answer of the whole, and what it raises is not caught again.
\<close>

definition try_else :: "'a service \<Rightarrow> (sb_error \<Rightarrow> 'b service option) \<Rightarrow> ('a \<Rightarrow> 'b service) \<Rightarrow> 'b service" where
  "try_else m handler rest w =
     (case m w of
        (Inl e, w') \<Rightarrow> (case handler e of None \<Rightarrow> (Inl e, w') | Some h \<Rightarrow> h w')
      | (Inr x, w') \<Rightarrow> rest x w')"

text \<open>The classes an \<open>except\<close> clause names; subclasses of \<open>PersistenceError\<close> are listed before it in the code.\<close>

definition is_contract_error :: "sb_error \<Rightarrow> bool" where
  "is_contract_error e = (case e of ContractValidationError _ \<Rightarrow> True | _ \<Rightarrow> False)"

definition is_concurrency_conflict :: "sb_error \<Rightarrow> bool" where
  "is_concurrency_conflict e = (case e of ConcurrencyConflictError _ \<Rightarrow> True | _ \<Rightarrow> False)"

definition is_duplicate_key :: "sb_error \<Rightarrow> bool" where
  "is_duplicate_key e = (case e of DuplicateKeyError _ \<Rightarrow> True | _ \<Rightarrow> False)"

definition is_not_found :: "sb_error \<Rightarrow> bool" where
  "is_not_found e = (case e of NotFoundError _ \<Rightarrow> True | _ \<Rightarrow> False)"

text \<open>\<open>exc.reason_code\<close> of a \<open>PersistenceError\<close>.\<close>

definition persistence_reason :: "sb_error \<Rightarrow> string" where
  "persistence_reason e =
     (case e of PersistenceError r \<Rightarrow> r | DuplicateKeyError r \<Rightarrow> r
      | ConcurrencyConflictError _ \<Rightarrow> ''concurrency_conflict'' | NotFoundError _ \<Rightarrow> ''not_found''
      | AppendOnlyViolationError \<Rightarrow> ''append_only_violation''
      | MalformedRowError _ \<Rightarrow> ''malformed_row'' | _ \<Rightarrow> [])"

definition clock_now :: "surroundings \<Rightarrow> utc_timestamp service" where
  "clock_now S w = (Inr (su_clock S (wd_clock w)), w\<lparr>wd_clock := Suc (wd_clock w)\<rparr>)"

text \<open>\<open>with unit_of_work(factory) as uow\<close>: the others' commits first, then the body, committed or rolled back.\<close>

definition in_uow :: "surroundings \<Rightarrow> (journal \<Rightarrow> ('a \<times> journal) fallible) \<Rightarrow> 'a service" where
  "in_uow S body w =
     (case unit_of_work body (su_others S (wd_turn w) (wd_journal w)) of
        (r, j) \<Rightarrow> (r, w\<lparr>wd_journal := j, wd_turn := Suc (wd_turn w)\<rparr>))"

definition read_uow :: "surroundings \<Rightarrow> (journal \<Rightarrow> 'a) \<Rightarrow> 'a service" where
  "read_uow S f = in_uow S (\<lambda>j. Inr (f j, j))"

definition call_provider :: "provider_call \<Rightarrow> (provider_call list \<Rightarrow> 'a fallible) \<Rightarrow> 'a service" where
  "call_provider c answer w =
     (answer (map fst (wd_calls w)), w\<lparr>wd_calls := wd_calls w @ [(c, wd_journal w)]\<rparr>)"

definition call_execute ::
  "provider_adapter \<Rightarrow> provider_execution_context \<Rightarrow> provider_execution_request \<Rightarrow> execution_evidence service" where
  "call_execute adapter context request =
     call_provider (ExecuteCall context request) (\<lambda>calls. pa_execute adapter calls context request)"

definition call_verify ::
  "provider_adapter \<Rightarrow> provider_execution_context \<Rightarrow> verification_request \<Rightarrow> verification_evidence service" where
  "call_verify adapter context request =
     call_provider (VerifyCall context request) (\<lambda>calls. pa_verify adapter calls context request)"

definition call_compensate ::
  "provider_adapter \<Rightarrow> provider_execution_context \<Rightarrow> compensation_request \<Rightarrow> compensation_evidence service" where
  "call_compensate adapter context request =
     call_provider (CompensateCall context request) (\<lambda>calls. pa_compensate adapter calls context request)"

text \<open>\<open>maybe_crash\<close>: the injected crash points of the services, told apart by type and value.\<close>

definition maybe_crash :: "'p option \<Rightarrow> 'p \<Rightarrow> string \<Rightarrow> unit service" where
  "maybe_crash crash_after point name =
     (if crash_after = Some point then raise_service (SimulatedCrash name) else return_service ())"

section \<open>Reading a run\<close>

lemma bind_service_Inr:
  "bind_service m f w = (Inr y, w') \<longleftrightarrow> (\<exists>x v. m w = (Inr x, v) \<and> f x v = (Inr y, w'))"
  by (auto simp: bind_service_def split: prod.split sum.split)

lemma bind_service_eq:
  "m w = (Inr x, v) \<Longrightarrow> bind_service m f w = f x v"
  "m w = (Inl e, v) \<Longrightarrow> bind_service m f w = (Inl e, v)"
  by (simp_all add: bind_service_def)

lemma run_simps:
  "return_service x w = (Inr x, w)" "raise_service e w = (Inl e, w)" "lift_service r w = (r, w)"
  "clock_now S w = (Inr (su_clock S (wd_clock w)), w\<lparr>wd_clock := Suc (wd_clock w)\<rparr>)"
  by (simp_all add: return_service_def raise_service_def lift_service_def clock_now_def)

lemma try_else_Inr:
  "try_else m handler rest w = (Inr y, w') \<longleftrightarrow>
     (\<exists>x v. m w = (Inr x, v) \<and> rest x v = (Inr y, w')) \<or>
     (\<exists>e h v. m w = (Inl e, v) \<and> handler e = Some h \<and> h v = (Inr y, w'))"
  by (auto simp: try_else_def split: prod.split sum.split option.split)

lemma service_simps [simp]:
  "bind_service (return_service x) f = f x" "bind_service (raise_service e) f = raise_service e"
  "bind_service (lift_service (Inr x)) f = f x" "bind_service (lift_service (Inl e)) f = raise_service e"
  by (simp_all add: return_service_def raise_service_def lift_service_def bind_service_def fun_eq_iff)

lemma bind_service_assoc: "bind_service (bind_service m f) g = bind_service m (\<lambda>x. bind_service (f x) g)"
  by (auto simp: bind_service_def fun_eq_iff split: prod.split sum.split)

section \<open>Services and the system\<close>

definition others_follow :: "surroundings \<Rightarrow> bool" where
  "others_follow S \<longleftrightarrow> (\<forall>n j. later j (su_others S n j))"

text \<open>
  \<open>conforms S P n m\<close>: whatever the others do, \<open>m\<close> changes the journal by system steps only, makes at
  most \<open>n\<close> provider calls, and each satisfies \<open>P\<close> (of the call and the journal it was made at, which the
  journal it leaves is later than).
\<close>

definition conforms_at ::
  "surroundings \<Rightarrow> (provider_call \<Rightarrow> journal \<Rightarrow> bool) \<Rightarrow> nat \<Rightarrow> 'a service \<Rightarrow> world \<Rightarrow> bool" where
  "conforms_at S P n m w \<longleftrightarrow> (others_follow S \<longrightarrow>
     later (wd_journal w) (wd_journal (snd (m w))) \<and>
     (\<exists>cs. wd_calls (snd (m w)) = wd_calls w @ cs \<and> length cs \<le> n \<and>
        (\<forall>(c, j) \<in> set cs. P c j \<and> later j (wd_journal (snd (m w))))))"

definition conforms :: "surroundings \<Rightarrow> (provider_call \<Rightarrow> journal \<Rightarrow> bool) \<Rightarrow> nat \<Rightarrow> 'a service \<Rightarrow> bool" where
  "conforms S P n m \<longleftrightarrow> (\<forall>w. conforms_at S P n m w)"

lemma later_trans: "later k l \<Longrightarrow> later j k \<Longrightarrow> later j l"
  by (induction rule: later.induct) (auto intro: later.step)

text \<open>The body of a unit of work is a system body when the journal it commits is later than the one it read.\<close>

definition system_body :: "(journal \<Rightarrow> ('a \<times> journal) fallible) \<Rightarrow> bool" where
  "system_body body \<longleftrightarrow> (\<forall>j x j'. body j = Inr (x, j') \<longrightarrow> later j j')"

lemma system_bodyI: "(\<And>j x j'. body j = Inr (x, j') \<Longrightarrow> later j j') \<Longrightarrow> system_body body"
  by (simp add: system_body_def)

lemma later_one: "system_step j j' \<Longrightarrow> later j j'"
  by (rule later.step [OF later.refl])

lemma system_bodies [service_rules]:
  "system_body (\<lambda>j. Inr (f j, j))" "system_body (apply_command c)"
  "system_body (persist_attempt_evidence a)" "system_body (persist_verification_result v)"
  by (rule system_bodyI; use later.refl in \<open>auto intro!: later_one intro: system_step.intros\<close>)+

lemma conforms_at: "conforms S P n m \<Longrightarrow> conforms_at S P n m w"
  by (simp add: conforms_def)

lemma conforms_basic [service_rules]:
  "conforms S P n (return_service x)" "conforms S P n (raise_service e)" "conforms S P n (lift_service r)"
  "conforms S P n (clock_now S')"
  by (simp_all add: conforms_def conforms_at_def later.refl run_simps)

lemma conforms_at_sequence:
  assumes "conforms_at S P n m w" and "m w = (r, v)" and "conforms_at S P k m' v" and "m'' w = m' v"
  shows "conforms_at S P (n + k) m'' w"
  unfolding conforms_at_def
proof
  assume S: "others_follow S"
  with assms(1,2) obtain cs where v: "later (wd_journal w) (wd_journal v)"
    "wd_calls v = wd_calls w @ cs" "length cs \<le> n" "\<forall>(c, j) \<in> set cs. P c j \<and> later j (wd_journal v)"
    by (auto simp: conforms_at_def)
  from assms(3) S obtain ds where ds: "later (wd_journal v) (wd_journal (snd (m' v)))"
    "wd_calls (snd (m' v)) = wd_calls v @ ds" "length ds \<le> k"
    "\<forall>(c, j) \<in> set ds. P c j \<and> later j (wd_journal (snd (m' v)))"
    by (auto simp: conforms_at_def)
  have "\<forall>(c, j) \<in> set (cs @ ds). P c j \<and> later j (wd_journal (snd (m'' w)))"
    using v(4) ds(1,4) assms(4) by (auto intro: later_trans)
  with v(1-3) ds(1-3) assms(4) show "later (wd_journal w) (wd_journal (snd (m'' w))) \<and>
      (\<exists>cs. wd_calls (snd (m'' w)) = wd_calls w @ cs \<and> length cs \<le> n + k \<and>
         (\<forall>(c, j) \<in> set cs. P c j \<and> later j (wd_journal (snd (m'' w)))))"
    by (auto intro: later_trans intro!: exI [of _ "cs @ ds"])
qed

lemma conforms_at_stop:
  assumes "conforms_at S P n m w" and "m w = (r, v)" and "snd (m'' w) = v"
  shows "conforms_at S P (n + k) m'' w"
  using assms by (fastforce simp: conforms_at_def)

lemma conforms_at_bind:
  assumes "conforms_at S P n m w" and "\<And>x v. m w = (Inr x, v) \<Longrightarrow> conforms_at S P k (f x) v"
  shows "conforms_at S P (n + k) (bind_service m f) w"
proof (cases "m w")
  case (Pair r v)
  show ?thesis
  proof (cases r)
    case (Inl e)
    show ?thesis by (rule conforms_at_stop [OF assms(1) Pair]) (simp add: bind_service_def Pair Inl)
  next
    case (Inr x)
    with Pair assms(2) have "conforms_at S P k (f x) v" by simp
    from conforms_at_sequence [OF assms(1) Pair this, of "bind_service m f"] show ?thesis
      by (simp add: bind_service_def Pair Inr)
  qed
qed

lemma conforms_at_try:
  assumes "conforms_at S P n m w" and "\<And>x v. m w = (Inr x, v) \<Longrightarrow> conforms_at S P k (rest x) v"
    and "\<And>e h v. m w = (Inl e, v) \<Longrightarrow> handler e = Some h \<Longrightarrow> conforms_at S P k h v"
  shows "conforms_at S P (n + k) (try_else m handler rest) w"
proof (cases "m w")
  case (Pair r v)
  show ?thesis
  proof (cases r)
    case (Inl e)
    show ?thesis
    proof (cases "handler e")
      case None
      show ?thesis by (rule conforms_at_stop [OF assms(1) Pair]) (simp add: try_else_def Pair Inl None)
    next
      case (Some h)
      with Pair Inl assms(3) have "conforms_at S P k h v" by simp
      from conforms_at_sequence [OF assms(1) Pair this, of "try_else m handler rest"] show ?thesis
        by (simp add: try_else_def Pair Inl Some)
    qed
  next
    case (Inr x)
    with Pair assms(2) have "conforms_at S P k (rest x) v" by simp
    from conforms_at_sequence [OF assms(1) Pair this, of "try_else m handler rest"] show ?thesis
      by (simp add: try_else_def Pair Inr)
  qed
qed

text \<open>An \<open>except\<close> clause conforms when the clause that catches does.\<close>

definition catches :: "surroundings \<Rightarrow> (provider_call \<Rightarrow> journal \<Rightarrow> bool) \<Rightarrow> nat \<Rightarrow> 'a service option \<Rightarrow> bool" where
  "catches S P n h \<longleftrightarrow> (\<forall>m. h = Some m \<longrightarrow> conforms S P n m)"

lemma catches_rules [service_rules]:
  "catches S P n None" "conforms S P n m \<Longrightarrow> catches S P n (Some m)"
  "catches S P n h \<Longrightarrow> catches S P n h' \<Longrightarrow> catches S P n (if b then h else h')"
  by (simp_all add: catches_def)

lemma conforms_add:
  "conforms S P n m \<Longrightarrow> (\<And>x. conforms S P k (f x)) \<Longrightarrow> conforms S P (n + k) (bind_service m f)"
  "conforms S P n m \<Longrightarrow> (\<And>x. conforms S P k (f x)) \<Longrightarrow> (\<And>e. catches S P k (handler e)) \<Longrightarrow>
     conforms S P (n + k) (try_else m handler f)"
  by (auto simp: conforms_def catches_def intro: conforms_at_bind conforms_at_try)

lemma conforms_bind [service_rules]:
  "conforms S P 0 m \<Longrightarrow> (\<And>x. conforms S P n (f x)) \<Longrightarrow> conforms S P n (bind_service m f)"
  using conforms_add(1) [of S P 0 m n f] by simp

lemma conforms_try [service_rules]:
  "conforms S P 0 m \<Longrightarrow> (\<And>x. conforms S P n (f x)) \<Longrightarrow> (\<And>e. catches S P n (handler e)) \<Longrightarrow>
     conforms S P n (try_else m handler f)"
  using conforms_add(2) [of S P 0 m n f handler] by simp

text \<open>The calling step comes first, what follows calls nobody.\<close>

lemma conforms_call_first:
  "conforms S P n m \<Longrightarrow> (\<And>x. conforms S P 0 (f x)) \<Longrightarrow> conforms S P n (bind_service m f)"
  "conforms S P n m \<Longrightarrow> (\<And>x. conforms S P 0 (f x)) \<Longrightarrow> (\<And>e. catches S P 0 (handler e)) \<Longrightarrow>
     conforms S P n (try_else m handler f)"
  using conforms_add(1) [of S P n m 0 f] conforms_add(2) [of S P n m 0 f handler] by simp_all

lemma conforms_mono:
  "conforms S P n m \<Longrightarrow> n \<le> k \<Longrightarrow> (\<And>c j. P c j \<Longrightarrow> Q c j) \<Longrightarrow> conforms S Q k m"
  by (fastforce simp: conforms_def conforms_at_def)

lemma conforms_uow [service_rules]:
  assumes "system_body body"
  shows "conforms S P n (in_uow S body)"
  unfolding conforms_def conforms_at_def
proof (intro allI impI)
  fix w :: world assume "others_follow S"
  then have o': "later (wd_journal w) (su_others S (wd_turn w) (wd_journal w))" by (simp add: others_follow_def)
  obtain r j where u: "unit_of_work body (su_others S (wd_turn w) (wd_journal w)) = (r, j)" by fastforce
  have "later (su_others S (wd_turn w) (wd_journal w)) j"
  proof (cases r)
    case (Inl e)
    with u unit_of_work_Inl [of body _ e] show ?thesis by (metis fst_conv snd_conv later.refl)
  next
    case (Inr x)
    with u assms show ?thesis by (auto simp: unit_of_work_Inr system_body_def)
  qed
  then show "later (wd_journal w) (wd_journal (snd (in_uow S body w))) \<and>
    (\<exists>cs. wd_calls (snd (in_uow S body w)) = wd_calls w @ cs \<and> length cs \<le> n \<and>
       (\<forall>(c, j) \<in> set cs. P c j \<and> later j (wd_journal (snd (in_uow S body w)))))"
    using u o' by (auto simp: in_uow_def intro: later_trans)
qed

lemma conforms_read [service_rules]: "conforms S P n (read_uow S f)"
  unfolding read_uow_def by (intro service_rules)

lemma conforms_crash [service_rules]: "conforms S P n (maybe_crash a p name)"
  by (simp add: maybe_crash_def service_rules)

lemma conforms_at_call: "P c (wd_journal w) \<Longrightarrow> conforms_at S P 1 (call_provider c answer) w"
  by (simp add: conforms_at_def call_provider_def later.refl)

lemma conforms_call: "(\<And>j. P c j) \<Longrightarrow> conforms S P 1 (call_provider c answer)"
  unfolding conforms_def by (intro allI conforms_at_call)

lemma conforms_if [service_rules]:
  "(b \<Longrightarrow> conforms S P n m) \<Longrightarrow> (\<not> b \<Longrightarrow> conforms S P n m') \<Longrightarrow> conforms S P n (if b then m else m')"
  by simp

lemma conforms_option [service_rules]:
  "conforms S P n m \<Longrightarrow> (\<And>x. conforms S P n (f x)) \<Longrightarrow> conforms S P n (case o' of None \<Rightarrow> m | Some x \<Rightarrow> f x)"
  by (simp split: option.split)

lemma conforms_sum [service_rules]:
  "(\<And>x. conforms S P n (f x)) \<Longrightarrow> (\<And>x. conforms S P n (g x)) \<Longrightarrow> conforms S P n (case s of Inl x \<Rightarrow> f x | Inr x \<Rightarrow> g x)"
  by (simp split: sum.split)

lemma conforms_let [service_rules]: "(\<And>x. conforms S P n (f x)) \<Longrightarrow> conforms S P n (let x = e in f x)"
  by simp

lemma conforms_prod [service_rules]: "(\<And>x y. conforms S P n (f x y)) \<Longrightarrow> conforms S P n (case p of (x, y) \<Rightarrow> f x y)"
  by (simp split: prod.split)

lemma conforms_atD:
  assumes "conforms_at S P n m w" and "others_follow S" and "m w = (r, w')"
  obtains cs where "later (wd_journal w) (wd_journal w')" and "wd_calls w' = wd_calls w @ cs"
    and "length cs \<le> n" and "\<forall>(c, j) \<in> set cs. P c j"
  using assms by (fastforce simp: conforms_at_def)

lemma conforms_at_calls_kept:
  assumes "conforms_at S P n m w" and "others_follow S" and "m w = (r, w')"
  obtains cs where "wd_calls w' = wd_calls w @ cs" and "length cs \<le> n"
    and "\<forall>(c, j) \<in> set cs. P c j \<and> later j (wd_journal w')"
  using assms by (auto simp: conforms_at_def)

lemmas conformsD = conforms_atD [OF conforms_at]

lemma conforms_atI: "(others_follow S \<Longrightarrow> conforms_at S P n m w) \<Longrightarrow> conforms_at S P n m w"
  by (simp add: conforms_at_def)

lemma in_uow_Inr:
  assumes "in_uow S body w = (Inr x, v)"
  shows "body (su_others S (wd_turn w) (wd_journal w)) = Inr (x, wd_journal v)"
  using assms by (auto simp: in_uow_def unit_of_work_Inr split: prod.split_asm)

lemma conforms_lift:
  assumes "\<And>x. r = Inr x \<Longrightarrow> conforms_at S P n (f x) w"
  shows "conforms_at S P n (bind_service (lift_service r) f) w"
  using assms conforms_at [OF conforms_basic(2)] by (cases r) auto

lemma conforms_clock:
  assumes "\<And>x. conforms_at S P n (f x) (w\<lparr>wd_clock := Suc (wd_clock w)\<rparr>)"
  shows "conforms_at S P n (bind_service (clock_now S) f) w"
  using assms by (simp add: conforms_at_def bind_service_def run_simps)

lemma conforms_uow_else:
  assumes body: "system_body body" and j0: "later j0 (wd_journal w)"
    and rest: "\<And>x v k. others_follow S \<Longrightarrow> later (wd_journal w) k \<Longrightarrow> body k = Inr (x, wd_journal v) \<Longrightarrow>
      later j0 k \<Longrightarrow> later k (wd_journal v) \<Longrightarrow> conforms_at S P n (rest x) v"
    and handler: "\<And>e h v. later j0 (wd_journal v) \<Longrightarrow> handler e = Some h \<Longrightarrow> conforms_at S P n h v"
  shows "conforms_at S P n (try_else (in_uow S body) handler rest) w"
proof (rule conforms_atI)
  assume S: "others_follow S"
  have "conforms_at S P (0 + n) (try_else (in_uow S body) handler rest) w"
  proof (rule conforms_at_try [OF conforms_at [OF conforms_uow [OF body]]])
    fix x v assume v: "in_uow S body w = (Inr x, v)"
    let ?k = "su_others S (wd_turn w) (wd_journal w)"
    have k: "later (wd_journal w) ?k" using S by (simp add: others_follow_def)
    from in_uow_Inr [OF v] body have "later ?k (wd_journal v)" by (simp add: system_body_def)
    with rest [OF S k in_uow_Inr [OF v] later_trans [OF k j0]] show "conforms_at S P n (rest x) v" by simp
  next
    fix e h v assume v: "in_uow S body w = (Inl e, v)" and h: "handler e = Some h"
    from conforms_atD [OF conforms_at [OF conforms_uow [OF body]] S v] have "later (wd_journal w) (wd_journal v)" .
    with j0 h handler show "conforms_at S P n h v" by (blast intro: later_trans)
  qed
  then show "conforms_at S P n (try_else (in_uow S body) handler rest) w" by simp
qed

end
