(* ===== verification/Worked_Adapter.thy ===== *)
theory Worked_Adapter
  imports Worked_Example Service_World
begin

text \<open>
  What the services of the worked example run against: an adapter that answers every call, a clock that
  stands still, nobody else at work.
\<close>

section \<open>An adapter and its registry\<close>

abbreviation fx_effect :: effect_ref where
  "fx_effect \<equiv> \<lparr>ef_provider = ''github'', ef_action = ''create_issue'', ef_version = ''v1''\<rparr>"

definition fx_descriptor :: effect_descriptor where
  "fx_descriptor = \<lparr>ed_contract_version = CONTRACT_VERSION, ed_effect = fx_effect,
     ed_mutability = MU_MUTATING, ed_risk_level = RL_LOW, ed_idempotency_mode = IM_NATURAL,
     ed_verification_mode = VM_READ_BACK, ed_compensation_kind = CK_EXACT,
     ed_supports_external_operation_id = False, ed_immediate_response_can_prove_applied = True,
     ed_immediate_response_can_prove_not_applied = True, ed_provider_key_semantics = None,
     ed_documentation = ''example''\<rparr>"

definition fx_evidence :: provider_evidence where
  "fx_evidence = \<lparr>ev_source = ES_EXECUTION_RESPONSE, ev_provider = ''github'', ev_observed_at = fx_now,
     ev_provider_status = None, ev_provider_request_id = None, ev_external_operation_id = None,
     ev_external_resource_ids = [], ev_evidence_fields = JObject [], ev_raw_reference = None\<rparr>"

definition fx_adapter :: provider_adapter where
  "fx_adapter = \<lparr>pa_supported_effects = [fx_effect], pa_descriptor = (\<lambda>_. Inr fx_descriptor),
     pa_validate_execution = (\<lambda>_. Inr \<lparr>vl_accepted = True, vl_error = None\<rparr>),
     pa_verification_resource_ids = (\<lambda>_. Inr []),
     pa_execute = (\<lambda>_ _ _. Inr \<lparr>xe_outcome = EO_APPLIED, xe_evidence = Some fx_evidence, xe_error = None,
       xe_external_operation_id = None, xe_external_resource_ids = []\<rparr>),
     pa_verify = (\<lambda>_ _ _. Inr \<lparr>ve_outcome = EO_APPLIED, ve_evidence = fx_evidence, ve_error = None\<rparr>),
     pa_compensate = (\<lambda>_ _ _. Inr \<lparr>ce_outcome = EO_APPLIED, ce_evidence = Some fx_evidence, ce_error = None,
       ce_external_operation_id = None\<rparr>)\<rparr>"

definition fx_registry :: capability_registry where
  "fx_registry = \<lparr>cr_order = [fx_effect], cr_adapters = (\<lambda>e. if e = fx_effect then Some fx_adapter else None)\<rparr>"

definition fx_surroundings :: surroundings where
  "fx_surroundings = \<lparr>su_others = (\<lambda>_ j. j), su_clock = (\<lambda>_. fx_now)\<rparr>"

definition fx_world :: "journal \<Rightarrow> world" where
  "fx_world j = \<lparr>wd_journal = j, wd_calls = [], wd_clock = 0, wd_turn = 0\<rparr>"

lemma fx_others: "others_follow fx_surroundings"
  by (simp add: others_follow_def fx_surroundings_def later.refl)

end
