(* ===== verification/Policy_Engine.thy ===== *)
theory Policy_Engine
  imports Provider_Boundary
begin

text \<open>
  Deployment policy (\<^verbatim>\<open>policy/\<close>): ordered rules with a fail-closed default, the allow-all engine and
  the scripted engine. An engine is a function from the inputs to an evaluation or an
  exception; a \<open>frozenset\<close> is a list read by membership.
\<close>

section \<open>Inputs and evaluations\<close>

record policy_inputs =
  pi_operation_id :: opaque_id
  pi_operation_version :: int
  pi_intent_digest :: string
  pi_requester :: principal_ref
  pi_effect :: effect_ref
  pi_risk_level :: risk_level
  pi_mutability :: mutability
  pi_idempotency_mode :: idempotency_mode
  pi_verification_mode :: verification_mode
  pi_compensation_kind :: compensation_kind
  pi_metadata :: "(string \<times> string) list"
  pi_deployment_environment :: string

record policy_evaluation =
  pe_verdict :: policy_verdict
  pe_reason_codes :: "string list"
  pe_explanation :: "string option"
  pe_obligations :: policy_obligations
  pe_policy_revision :: string

definition validate_policy_evaluation :: "policy_evaluation \<Rightarrow> unit fallible" where
  "validate_policy_evaluation e =
     bind_err (guard_err (pe_reason_codes e \<noteq> [] \<and> [] \<notin> set (pe_reason_codes e))
                 (ContractValidationError ''empty_string'')) (\<lambda>_.
     bind_err (guard_err (pe_policy_revision e \<noteq> []) (ContractValidationError ''empty_string'')) (\<lambda>_.
     (case pe_explanation e of
        None \<Rightarrow> Inr ()
      | Some explanation \<Rightarrow> reject_secrets_in_str_map [(''explanation'', explanation)])))"

definition make_policy_evaluation :: "policy_evaluation \<Rightarrow> policy_evaluation fallible" where
  "make_policy_evaluation e = bind_err (validate_policy_evaluation e) (\<lambda>_. Inr e)"

type_synonym policy_engine = "policy_inputs \<Rightarrow> policy_evaluation fallible"

definition PHASE5_POLICY_REVISION :: string where
  "PHASE5_POLICY_REVISION = ''stateback.phase5.allow-all.v1''"

definition PHASE5_DEFAULT_OBLIGATIONS :: policy_obligations where
  "PHASE5_DEFAULT_OBLIGATIONS =
     \<lparr>ob_require_verification = False, ob_max_automatic_execution_attempts = Some 1,
      ob_max_automatic_recovery_attempts = None, ob_automatic_compensation_allowed = False,
      ob_operator_reason_required = False, ob_approval_expires_at = None\<rparr>"

section \<open>Rules\<close>

record policy_rule =
  pl_rule_id :: string
  pl_verdict :: policy_verdict
  pl_obligations :: policy_obligations
  pl_explanation :: "string option"
  pl_providers :: "string list"
  pl_actions :: "string list"
  pl_versions :: "string list"
  pl_risk_levels :: "risk_level list"
  pl_requester_types :: "principal_type list"
  pl_deployment_environments :: "string list"

definition validate_policy_rule :: "policy_rule \<Rightarrow> unit fallible" where
  "validate_policy_rule r =
     guard_err (pl_rule_id r \<noteq> [] \<and> str_strip (pl_rule_id r) = pl_rule_id r)
       (ContractValidationError ''invalid_policy_rule'')"

definition rule_matches :: "policy_rule \<Rightarrow> policy_inputs \<Rightarrow> bool" where
  "rule_matches r i \<longleftrightarrow>
     (pl_providers r = [] \<or> ef_provider (pi_effect i) \<in> set (pl_providers r)) \<and>
     (pl_actions r = [] \<or> ef_action (pi_effect i) \<in> set (pl_actions r)) \<and>
     (pl_versions r = [] \<or> ef_version (pi_effect i) \<in> set (pl_versions r)) \<and>
     (pl_risk_levels r = [] \<or> pi_risk_level i \<in> set (pl_risk_levels r)) \<and>
     (pl_requester_types r = [] \<or> pr_type (pi_requester i) \<in> set (pl_requester_types r)) \<and>
     (pl_deployment_environments r = [] \<or>
      pi_deployment_environment i \<in> set (pl_deployment_environments r))"

record rule_policy_engine =
  rp_revision :: string
  rp_rules :: "policy_rule list"
  rp_default_obligations :: policy_obligations

definition make_rule_policy_engine ::
  "string \<Rightarrow> policy_rule list \<Rightarrow> policy_obligations \<Rightarrow> rule_policy_engine fallible" where
  "make_rule_policy_engine policy_revision rules default_obligations =
     bind_err (guard_err (policy_revision \<noteq> [] \<and> str_strip policy_revision = policy_revision)
                 (ContractValidationError ''invalid_policy_revision'')) (\<lambda>_.
     bind_err (guard_err (distinct (map pl_rule_id rules))
                 (ContractValidationError ''duplicate_policy_rule'')) (\<lambda>_.
     Inr \<lparr>rp_revision = policy_revision, rp_rules = rules, rp_default_obligations = default_obligations\<rparr>))"

text \<open>\<open>evaluate\<close>: the loop over the rules, and the denial after it.\<close>

fun evaluate_rules ::
  "policy_rule list \<Rightarrow> string \<Rightarrow> policy_obligations \<Rightarrow> policy_inputs \<Rightarrow> policy_evaluation fallible" where
  "evaluate_rules [] revision default_obligations inputs =
     make_policy_evaluation
       \<lparr>pe_verdict = PV_DENY, pe_reason_codes = [''policy.default_deny''],
        pe_explanation = Some ''No configured policy rule authorized this operation'',
        pe_obligations = default_obligations, pe_policy_revision = revision\<rparr>"
| "evaluate_rules (rule # rules) revision default_obligations inputs =
     (if rule_matches rule inputs
      then make_policy_evaluation
        \<lparr>pe_verdict = pl_verdict rule, pe_reason_codes = [''policy.rule.'' @ pl_rule_id rule],
         pe_explanation = pl_explanation rule, pe_obligations = pl_obligations rule,
         pe_policy_revision = revision\<rparr>
      else evaluate_rules rules revision default_obligations inputs)"

definition rule_policy_evaluate :: "rule_policy_engine \<Rightarrow> policy_engine" where
  "rule_policy_evaluate engine inputs =
     evaluate_rules (rp_rules engine) (rp_revision engine) (rp_default_obligations engine) inputs"

section \<open>Engines without rules\<close>

definition allow_all_evaluate :: policy_engine where
  "allow_all_evaluate inputs =
     make_policy_evaluation
       \<lparr>pe_verdict = PV_ALLOW, pe_reason_codes = [''phase5.allow_all''],
        pe_explanation = Some ''Phase 5 allow-all engine; not a production authorization policy'',
        pe_obligations = PHASE5_DEFAULT_OBLIGATIONS, pe_policy_revision = PHASE5_POLICY_REVISION\<rparr>"

text \<open>The scripted engine: its queue is its state, and the default engine answers when it is empty.\<close>

definition scripted_enqueue :: "policy_evaluation \<Rightarrow> policy_evaluation list \<Rightarrow> policy_evaluation list" where
  "scripted_enqueue evaluation queue = queue @ [evaluation]"

definition scripted_evaluate ::
  "policy_engine \<Rightarrow> policy_inputs \<Rightarrow> policy_evaluation list \<Rightarrow>
   policy_evaluation fallible \<times> policy_evaluation list" where
  "scripted_evaluate default_engine inputs queue =
     (case queue of [] \<Rightarrow> (default_engine inputs, []) | e # es \<Rightarrow> (Inr e, es))"

section \<open>First match, and denial by default\<close>

lemma make_policy_evaluation_Inr:
  "make_policy_evaluation e = Inr f \<longleftrightarrow> f = e \<and> validate_policy_evaluation e = Inr ()"
  by (auto simp: make_policy_evaluation_def)

lemma evaluate_rules_first:
  assumes "evaluate_rules rules revision obligations inputs = Inr e"
  shows "case find (\<lambda>r. rule_matches r inputs) rules of
      None \<Rightarrow> pe_verdict e = PV_DENY \<and> pe_obligations e = obligations
    | Some r \<Rightarrow> pe_verdict e = pl_verdict r \<and> pe_obligations e = pl_obligations r \<and>
        pe_reason_codes e = [''policy.rule.'' @ pl_rule_id r]"
  using assms
proof (induction rules)
  case Nil
  then have "e = \<lparr>pe_verdict = PV_DENY, pe_reason_codes = [''policy.default_deny''],
      pe_explanation = Some ''No configured policy rule authorized this operation'',
      pe_obligations = obligations, pe_policy_revision = revision\<rparr>" by (simp add: make_policy_evaluation_Inr)
  then show ?case by simp
next
  case (Cons rule rules)
  show ?case
  proof (cases "rule_matches rule inputs")
    case True
    with Cons.prems have "e = \<lparr>pe_verdict = pl_verdict rule, pe_reason_codes = [''policy.rule.'' @ pl_rule_id rule],
        pe_explanation = pl_explanation rule, pe_obligations = pl_obligations rule, pe_policy_revision = revision\<rparr>"
      by (simp add: make_policy_evaluation_Inr)
    with True show ?thesis by simp
  next
    case False
    with Cons show ?thesis by simp
  qed
qed

text \<open>
  Policy fails closed and the first match decides: whatever a rule engine answers, its
  verdict and obligations are those of the first configured rule that matches the inputs, and
  when none does the answer is DENY with the default obligations; an ALLOW is always the
  verdict of a configured rule that matches.
\<close>

lemma rule_engine_first_match:
  assumes "make_rule_policy_engine revision rules obligations = Inr engine"
    and "rule_policy_evaluate engine inputs = Inr e"
  shows "pe_policy_revision e = revision \<and>
    (pe_verdict e, pe_obligations e) =
      (case find (\<lambda>r. rule_matches r inputs) rules of
         None \<Rightarrow> (PV_DENY, obligations) | Some r \<Rightarrow> (pl_verdict r, pl_obligations r)) \<and>
    (pe_verdict e = PV_ALLOW \<longrightarrow> (\<exists>r \<in> set rules. rule_matches r inputs \<and> pl_verdict r = PV_ALLOW))"
proof -
  from assms have e: "evaluate_rules rules revision obligations inputs = Inr e"
    by (auto simp: make_rule_policy_engine_def rule_policy_evaluate_def)
  have "pe_policy_revision e = revision"
    using e by (induction rules) (simp_all add: make_policy_evaluation_Inr split: if_split_asm)
  note first = this evaluate_rules_first [OF e]
  show ?thesis
  proof (cases "find (\<lambda>r. rule_matches r inputs) rules")
    case None
    with first show ?thesis by simp
  next
    case (Some r)
    then have "r \<in> set rules" "rule_matches r inputs" by (auto simp: find_Some_iff)
    with first Some show ?thesis by auto
  qed
qed

end
