(* ===== verification/Intent_Digest.thy ===== *)
theory Intent_Digest
  imports Safety_Decisions
begin

text \<open>
  Canonical JSON and the digests over it (\<^verbatim>\<open>domain/canonical.py\<close>, the digests and the
  construction checks of \<^verbatim>\<open>domain/intent.py\<close>). \<open>canonical_json\<close> is the text \<open>json.dumps\<close> makes with
  sorted keys, compact separators and \<open>ensure_ascii=False\<close>; SHA-256 is a parameter \<open>sha256\<close> from
  the text to its hex digest. The text determines the value, so equal digests mean equal
  intents or a SHA-256 collision.
\<close>

section \<open>Canonical JSON text\<close>

definition hex_digit :: "nat \<Rightarrow> char" where
  "hex_digit n = char_of (if n < 10 then 48 + n else 87 + n)"

definition json_escape :: "char \<Rightarrow> string" where
  "json_escape c =
     (if c = CHR 0x22 then [CHR 0x5C, CHR 0x22]
      else if c = CHR 0x5C then [CHR 0x5C, CHR 0x5C]
      else if c = CHR 0x0A then [CHR 0x5C, CHR ''n'']
      else if c = CHR 0x0D then [CHR 0x5C, CHR ''r'']
      else if c = CHR 0x09 then [CHR 0x5C, CHR ''t'']
      else if c = CHR 0x0C then [CHR 0x5C, CHR ''f'']
      else if c = CHR 0x08 then [CHR 0x5C, CHR ''b'']
      else if (of_char c :: nat) < 32
      then [CHR 0x5C, CHR ''u'', CHR ''0'', CHR ''0'', hex_digit (of_char c div 16), hex_digit (of_char c mod 16)]
      else [c])"

definition json_quote :: "string \<Rightarrow> string" where
  "json_quote s = CHR 0x22 # concat (map json_escape s) @ [CHR 0x22]"

fun nat_text :: "nat \<Rightarrow> string" where
  "nat_text n = (if n < 10 then [char_of (48 + n)] else nat_text (n div 10) @ [char_of (48 + n mod 10)])"

declare nat_text.simps [simp del]

definition int_text :: "int \<Rightarrow> string" where
  "int_text i = (if i < 0 then CHR ''-'' # nat_text (nat (- i)) else nat_text (nat i))"

fun comma_join :: "string list \<Rightarrow> string" where
  "comma_join [] = []"
| "comma_join [x] = x"
| "comma_join (x # y # zs) = x @ CHR '','' # comma_join (y # zs)"

fun canonical_json :: "json \<Rightarrow> string" where
  "canonical_json JNull = ''null''"
| "canonical_json (JBool b) = (if b then ''true'' else ''false'')"
| "canonical_json (JInt i) = int_text i"
| "canonical_json (JStr s) = json_quote s"
| "canonical_json (JArray xs) = CHR ''['' # comma_join (map canonical_json xs) @ '']''"
| "canonical_json (JObject items) =
     CHR ''{'' # comma_join (map (\<lambda>kv. json_quote (fst kv) @ CHR '':'' # canonical_json (snd kv))
       (sort_key fst items)) @ ''}''"

definition sha256_hex :: "(string \<Rightarrow> string) \<Rightarrow> json \<Rightarrow> string" where
  "sha256_hex sha256 value = sha256 (canonical_json value)"

section \<open>The text determines the value\<close>

subsection \<open>Strings\<close>

definition hex_value :: "char \<Rightarrow> nat" where
  "hex_value c = (if of_char c < (58::nat) then of_char c - 48 else of_char c - 87)"

lemma hex_value_digit: "n < 16 \<Longrightarrow> hex_value (hex_digit n) = n"
  by (auto simp: hex_value_def hex_digit_def)

definition unescape :: "string \<Rightarrow> (char \<times> string) option" where
  "unescape s =
     (case s of
        [] \<Rightarrow> None
      | x # xs \<Rightarrow>
          if x \<noteq> CHR 0x5C then Some (x, xs)
          else (case xs of
             [] \<Rightarrow> None
           | y # ys \<Rightarrow>
               Some (if y = CHR ''n'' then (CHR 0x0A, ys)
                 else if y = CHR ''r'' then (CHR 0x0D, ys)
                 else if y = CHR ''t'' then (CHR 0x09, ys)
                 else if y = CHR ''f'' then (CHR 0x0C, ys)
                 else if y = CHR ''b'' then (CHR 0x08, ys)
                 else if y = CHR ''u''
                 then (char_of (16 * hex_value (ys ! 2) + hex_value (ys ! 3)), drop 4 ys)
                 else (y, ys))))"

lemma unescape_escape: "unescape (json_escape c @ r) = Some (c, r)"
proof (cases "(of_char c :: nat) < 32 \<and> c \<notin> {CHR 0x0A, CHR 0x0D, CHR 0x09, CHR 0x0C, CHR 0x08}")
  case True
  have "\<not> (of_char (CHR 0x22) :: nat) < 32" "\<not> (of_char (CHR 0x5C) :: nat) < 32" by simp_all
  with True have "c \<noteq> CHR 0x22" "c \<noteq> CHR 0x5C" by blast+
  with True have e: "json_escape c = [CHR 0x5C, CHR ''u'', CHR ''0'', CHR ''0'', hex_digit (of_char c div 16),
      hex_digit (of_char c mod 16)]"
    by (simp add: json_escape_def)
  have "(of_char c :: nat) div 16 < 16" "(of_char c :: nat) mod 16 < 16" using True by linarith+
  then have "unescape (json_escape c @ r) =
      Some (char_of (16 * ((of_char c :: nat) div 16) + of_char c mod 16), r)"
    unfolding e by (simp add: unescape_def hex_value_digit)
  then show ?thesis by (simp only: mult_div_mod_eq char_of_char)
next
  case False
  then consider "c \<in> {CHR 0x0A, CHR 0x0D, CHR 0x09, CHR 0x0C, CHR 0x08}" | "32 \<le> (of_char c :: nat)"
    by linarith
  then show ?thesis
  proof cases
    case 1
    then show ?thesis by (elim insertE emptyE) (simp_all add: json_escape_def unescape_def)
  next
    case 2
    show ?thesis
    proof (cases "c = CHR 0x22 \<or> c = CHR 0x5C")
      case True
      then show ?thesis by (elim disjE) (simp_all add: json_escape_def unescape_def)
    next
      case False
      have "c \<noteq> CHR 0x0A" "c \<noteq> CHR 0x0D" "c \<noteq> CHR 0x09" "c \<noteq> CHR 0x0C" "c \<noteq> CHR 0x08"
        using 2 by auto
      with 2 False have "json_escape c = [c]" by (simp add: json_escape_def)
      with False show ?thesis by (simp add: unescape_def)
    qed
  qed
qed

lemma json_escape_inject: "json_escape c @ r = json_escape d @ s \<Longrightarrow> c = d \<and> r = s"
  using unescape_escape [of c r] unescape_escape [of d s] by (metis option.inject prod.inject)

lemma json_escape_hd: "json_escape c @ r \<noteq> CHR 0x22 # s"
proof
  assume eq: "json_escape c @ r = CHR 0x22 # s"
  then have "Some (c, r) = Some (CHR 0x22, s)" using unescape_escape [of c r] by (simp add: unescape_def)
  with eq show False by (simp add: json_escape_def)
qed

lemma escaped_inject:
  "concat (map json_escape s) @ CHR 0x22 # r = concat (map json_escape t) @ CHR 0x22 # r' \<Longrightarrow>
     s = t \<and> r = r'"
proof (induction s arbitrary: t)
  case Nil
  show ?case
  proof (cases t)
    case (Cons d u)
    then show ?thesis using Nil json_escape_hd [of d "concat (map json_escape u) @ CHR 0x22 # r'" r]
      by (auto dest: sym)
  qed (use Nil in simp)
next
  case (Cons c s)
  show ?case
  proof (cases t)
    case Nil
    with Cons.prems json_escape_hd [of c] show ?thesis by auto
  next
    case (Cons d u)
    with Cons.prems have "json_escape c @ (concat (map json_escape s) @ CHR 0x22 # r) =
        json_escape d @ (concat (map json_escape u) @ CHR 0x22 # r')" by simp
    from json_escape_inject [OF this] Cons.IH Cons show ?thesis by auto
  qed
qed

lemma json_quote_inject: "json_quote s @ r = json_quote t @ r' \<Longrightarrow> s = t \<and> r = r'"
  by (rule escaped_inject) (simp add: json_quote_def)

subsection \<open>Integers\<close>

lemma digits_value_snoc: "digits_value (s @ [c]) = 10 * digits_value s + (of_char c - 48)"
  by (simp add: digits_value_def)

lemma nat_text_value: "digits_value (nat_text n) = int n \<and> nat_text n \<noteq> [] \<and> list_all is_digit_char (nat_text n)"
proof (induction n rule: nat_text.induct)
  case (1 n)
  have c: "(of_char (char_of (48 + m)) :: nat) = 48 + m" if "m < 10" for m :: nat
    using that by simp
  then have d: "is_digit_char (char_of (48 + m))" "(of_char (char_of (48 + m)) :: int) = 48 + int m"
    if "m < 10" for m :: nat
    using that c [OF that] of_nat_of_char [of "char_of (48 + m)", where 'a = int]
    by (simp_all only: is_digit_char_def Let_def) simp_all
  show ?case
  proof (cases "n < 10")
    case True
    then show ?thesis using d [of n] by (simp add: nat_text.simps digits_value_def)
  next
    case False
    with 1 d [of "n mod 10"] show ?thesis
      by (simp add: nat_text.simps [of n] digits_value_snoc) (simp add: zmod_int zdiv_int)
  qed
qed

abbreviation json_end :: "string \<Rightarrow> bool" where
  "json_end r \<equiv> r = [] \<or> hd r \<in> {CHR '','', CHR '']'', CHR ''}''}"

lemma nat_text_inject:
  assumes "nat_text m @ r = nat_text n @ s" and "json_end r" and "json_end s"
  shows "m = n \<and> r = s"
proof -
  have "takeWhile is_digit_char (nat_text k @ t) = nat_text k" if "json_end t" for k t
  proof -
    have "takeWhile is_digit_char t = []" using that by (cases t) (auto simp: is_digit_char_def)
    with nat_text_value [of k] show ?thesis by (simp add: list_all_iff)
  qed
  with assms have eq: "nat_text m = nat_text n" by metis
  with nat_text_value [of m] nat_text_value [of n] have "m = n" by (metis of_nat_eq_iff)
  with assms(1) show ?thesis by simp
qed

lemma int_text_inject:
  assumes "int_text i @ r = int_text k @ s" and "json_end r" and "json_end s"
  shows "i = k \<and> r = s"
proof -
  have minus: "nat_text m @ t \<noteq> CHR ''-'' # u" for m t u
    using nat_text_value [of m] by (cases "nat_text m") (auto simp: is_digit_char_def)
  show ?thesis
  proof (cases "i < 0"; cases "k < 0")
    assume "i < 0" "k < 0"
    with assms have "nat_text (nat (- i)) @ r = nat_text (nat (- k)) @ s" by (simp add: int_text_def)
    from nat_text_inject [OF this assms(2,3)] show ?thesis using \<open>i < 0\<close> \<open>k < 0\<close> by auto
  next
    assume "\<not> i < 0" "\<not> k < 0"
    with assms have "nat_text (nat i) @ r = nat_text (nat k) @ s" by (simp add: int_text_def)
    from nat_text_inject [OF this assms(2,3)] show ?thesis using \<open>\<not> i < 0\<close> \<open>\<not> k < 0\<close> by auto
  qed (use assms(1) minus minus [symmetric] in \<open>simp_all add: int_text_def\<close>)
qed

subsection \<open>Lists\<close>

lemma comma_join_Cons:
  "comma_join (x # xs) @ c # r = x @ (if xs = [] then c # r else CHR '','' # comma_join xs @ c # r)"
  by (cases xs) auto

lemma comma_join_inject:
  assumes "\<And>x y r s. x \<in> set xs \<Longrightarrow> y \<in> set ys \<Longrightarrow> f x @ r = f y @ s \<Longrightarrow> json_end r \<Longrightarrow> json_end s \<Longrightarrow>
      x = y \<and> r = s"
    and "\<And>x r s. f x @ r \<noteq> c # s" and "c \<in> {CHR '']'', CHR ''}''}"
    and "comma_join (map f xs) @ c # r = comma_join (map f ys) @ c # s"
  shows "xs = ys \<and> r = s"
  using assms(1,4)
proof (induction xs arbitrary: ys)
  case Nil
  then show ?case
  proof (cases ys)
    case (Cons y zs)
    then show ?thesis
      using Nil.prems(2) assms(2) [of y _ r] by (simp add: comma_join_Cons del: comma_join.simps(2,3)) metis
  qed simp
next
  case (Cons x xs)
  show ?case
  proof (cases ys)
    case Nil
    then show ?thesis
      using Cons.prems(2) assms(2) [of x _ s] by (simp add: comma_join_Cons del: comma_join.simps(2,3))
  next
    case (Cons y zs)
    define t u where "t = (if xs = [] then c # r else CHR '','' # comma_join (map f xs) @ c # r)"
      and "u = (if zs = [] then c # s else CHR '','' # comma_join (map f zs) @ c # s)"
    have "f x @ t = f y @ u"
      using Cons.prems(2) Cons by (simp add: comma_join_Cons t_def u_def del: comma_join.simps(2,3))
    moreover have "json_end t" "json_end u" using assms(3) by (auto simp: t_def u_def)
    ultimately have xy: "x = y" and tu: "t = u" using Cons.prems(1) Cons by auto
    from tu assms(3) consider "xs = []" "zs = []" "r = s" | "comma_join (map f xs) @ c # r = comma_join (map f zs) @ c # s"
      by (auto simp: t_def u_def split: if_split_asm)
    then show ?thesis
    proof cases
      case 2
      have "xs = zs \<and> r = s" by (rule Cons.IH) (use Cons.prems(1) Cons 2 in auto)
      then show ?thesis using xy Cons by simp
    qed (use xy Cons in simp)
  qed
qed

subsection \<open>Values\<close>

fun json_tag :: "json \<Rightarrow> nat" where
  "json_tag JNull = 0" | "json_tag (JBool b) = 1" | "json_tag (JInt i) = 2"
| "json_tag (JStr s) = 3" | "json_tag (JArray xs) = 4" | "json_tag (JObject items) = 5"

definition char_tag :: "char \<Rightarrow> nat" where
  "char_tag c =
     (if c = CHR ''n'' then 0 else if c = CHR ''t'' \<or> c = CHR ''f'' then 1
      else if c = CHR 0x22 then 3 else if c = CHR ''['' then 4 else if c = CHR ''{'' then 5
      else if c = CHR ''-'' \<or> is_digit_char c then 2 else 6)"

lemma int_text_hd: "\<exists>c cs. int_text i = c # cs \<and> (c = CHR ''-'' \<or> is_digit_char c)"
  using nat_text_value [of "nat i"] by (cases "nat_text (nat i)") (auto simp: int_text_def)

lemma char_tag_digit: "c = CHR ''-'' \<or> is_digit_char c \<Longrightarrow> char_tag c = 2"
proof (erule disjE)
  assume d: "is_digit_char c"
  have "\<not> is_digit_char (CHR ''n'')" "\<not> is_digit_char (CHR ''t'')" "\<not> is_digit_char (CHR ''f'')"
    "\<not> is_digit_char (CHR 0x22)" "\<not> is_digit_char (CHR ''['')" "\<not> is_digit_char (CHR ''{'')"
    by (simp_all add: is_digit_char_def)
  with d have "c \<noteq> CHR ''n''" "c \<noteq> CHR ''t''" "c \<noteq> CHR ''f''" "c \<noteq> CHR 0x22" "c \<noteq> CHR ''[''" "c \<noteq> CHR ''{''"
    by blast+
  with d show ?thesis by (simp add: char_tag_def)
qed (simp add: char_tag_def)

lemma canonical_json_hd: "\<exists>c cs. canonical_json j = c # cs \<and> char_tag c = json_tag j"
proof (cases j)
  case (JInt i)
  then show ?thesis using int_text_hd [of i] char_tag_digit by auto
qed (simp_all add: char_tag_def json_quote_def)

lemma canonical_json_tag: "canonical_json j @ r = canonical_json k @ s \<Longrightarrow> json_tag j = json_tag k"
  using canonical_json_hd [of j] canonical_json_hd [of k] by auto

lemma canonical_json_not_end: "c \<in> {CHR '']'', CHR ''}''} \<Longrightarrow> canonical_json j @ r \<noteq> c # s"
proof
  assume c: "c \<in> {CHR '']'', CHR ''}''}" and eq: "canonical_json j @ r = c # s"
  have "char_tag (CHR '']'') = 6" "char_tag (CHR ''}'') = 6" by (simp_all add: char_tag_def is_digit_char_def)
  with c have "char_tag c = 6" by blast
  moreover have "json_tag j < 6" by (cases j) simp_all
  ultimately show False using canonical_json_hd [of j] eq by auto
qed

lemma canonical_json_inject:
  "canonical_json j @ r = canonical_json k @ s \<Longrightarrow> json_wf j \<Longrightarrow> json_wf k \<Longrightarrow> json_end r \<Longrightarrow> json_end s \<Longrightarrow>
     j = k \<and> r = s"
proof (induction j arbitrary: k r s)
  case JNull
  then show ?case using canonical_json_tag [OF JNull.prems(1)] by (cases k) auto
next
  case (JBool b)
  then show ?case using canonical_json_tag [OF JBool.prems(1)] by (cases k) (auto split: if_split_asm)
next
  case (JInt i)
  then show ?case
    using canonical_json_tag [OF JInt.prems(1)] int_text_inject [of i r _ s] by (cases k) auto
next
  case (JStr t)
  then show ?case
    using canonical_json_tag [OF JStr.prems(1)] json_quote_inject [of t r _ s] by (cases k) auto
next
  case (JArray xs)
  then obtain ys where k: "k = JArray ys" using canonical_json_tag [OF JArray.prems(1)] by (cases k) auto
  have eq: "comma_join (map canonical_json xs) @ CHR '']'' # r = comma_join (map canonical_json ys) @ CHR '']'' # s"
    using JArray.prems(1) k by simp
  have "xs = ys \<and> r = s"
  proof (rule comma_join_inject [OF _ _ _ eq])
    fix x y r s
    assume "x \<in> set xs" "y \<in> set ys" "canonical_json x @ r = canonical_json y @ s" "json_end r" "json_end s"
    moreover from this(1,2) have "json_wf x" "json_wf y" using JArray.prems(2,3) k by (auto simp: list_all_iff)
    ultimately show "x = y \<and> r = s" by (rule_tac JArray.IH) assumption+
  next
    fix x r s
    show "canonical_json x @ r \<noteq> CHR '']'' # s" by (rule canonical_json_not_end) simp
  qed simp
  then show ?case using k by simp
next
  case (JObject items)
  then obtain ys where k: "k = JObject ys" using canonical_json_tag [OF JObject.prems(1)] by (cases k) auto
  let ?f = "\<lambda>kv. json_quote (fst kv) @ CHR '':'' # canonical_json (snd kv)"
  have eq: "comma_join (map ?f items) @ CHR ''}'' # r = comma_join (map ?f ys) @ CHR ''}'' # s"
    using JObject.prems(1-3) k by simp
  have "items = ys \<and> r = s"
  proof (rule comma_join_inject [OF _ _ _ eq])
    fix x y r s
    assume x: "x \<in> set items" and y: "y \<in> set ys" and eq: "?f x @ r = ?f y @ s" and e: "json_end r" "json_end s"
    from eq json_quote_inject [of "fst x" "CHR '':'' # canonical_json (snd x) @ r" "fst y" "CHR '':'' # canonical_json (snd y) @ s"]
    have fst: "fst x = fst y" and snd: "canonical_json (snd x) @ r = canonical_json (snd y) @ s" by auto
    have "snd x = snd y \<and> r = s"
      by (rule JObject.IH [of x "snd x"]) (use x y snd e JObject.prems(2,3) k in \<open>auto simp: list_all_iff snds.simps\<close>)
    with fst show "x = y \<and> r = s" by (simp add: prod_eq_iff)
  next
    fix x and r s :: string
    show "?f x @ r \<noteq> CHR ''}'' # s" by (simp add: json_quote_def)
  qed simp
  then show ?case using k by simp
qed

section \<open>Intent digests\<close>

definition json_of_optional :: "string option \<Rightarrow> json" where
  "json_of_optional s = (case s of None \<Rightarrow> JNull | Some t \<Rightarrow> JStr t)"

definition compute_canonical_arguments_hash ::
  "(string \<Rightarrow> string) \<Rightarrow> arguments_mode \<Rightarrow> json option \<Rightarrow> string option \<Rightarrow> string fallible" where
  "compute_canonical_arguments_hash sha256 arguments_mode arguments arguments_ref =
     bind_err (make_json_object
       [(''arguments'', case arguments of None \<Rightarrow> JNull | Some a \<Rightarrow> a),
        (''arguments_mode'', JStr (arguments_mode_value arguments_mode)),
        (''arguments_ref'', json_of_optional arguments_ref)]) (\<lambda>material.
     Inr (sha256_hex sha256 material))"

definition compute_intent_digest ::
  "(string \<Rightarrow> string) \<Rightarrow> effect_ref \<Rightarrow> arguments_mode \<Rightarrow> string option \<Rightarrow> string \<Rightarrow> principal_ref \<Rightarrow>
   (string \<times> string) list \<Rightarrow> string fallible" where
  "compute_intent_digest sha256 effect arguments_mode arguments_ref canonical_arguments_hash requester metadata =
     bind_err (make_json_object (map (\<lambda>kv. (fst kv, JStr (snd kv))) (sort_key fst metadata))) (\<lambda>metadata_obj.
     bind_err (json_from_plain (PyDict
       [(PyStr ''arguments_mode'', PyStr (arguments_mode_value arguments_mode)),
        (PyStr ''arguments_ref'', json_to_plain (json_of_optional arguments_ref)),
        (PyStr ''canonical_arguments_hash'', PyStr canonical_arguments_hash),
        (PyStr ''effect'', PyDict
          [(PyStr ''provider'', PyStr (ef_provider effect)), (PyStr ''action'', PyStr (ef_action effect)),
           (PyStr ''version'', PyStr (ef_version effect))]),
        (PyStr ''metadata'', json_to_plain metadata_obj),
        (PyStr ''requester'', PyDict
          [(PyStr ''id'', PyStr (pr_id requester)),
           (PyStr ''type'', PyStr (principal_type_value (pr_type requester)))])])) (\<lambda>material.
     Inr (sha256_hex sha256 material)))"

definition SHA256_RE :: "string \<Rightarrow> bool" where
  "SHA256_RE s \<longleftrightarrow> length s = 64 \<and> list_all is_lower_hex s"

definition validate_intent_envelope :: "(string \<Rightarrow> string) \<Rightarrow> intent_envelope \<Rightarrow> unit fallible" where
  "validate_intent_envelope sha256 i =
     bind_err
       (if in_arguments_mode i = AM_INLINE
        then (case in_arguments i of
                None \<Rightarrow> Inl (ContractValidationError ''illegal_combination'')
              | Some arguments \<Rightarrow>
                  bind_err (guard_err (in_arguments_ref i = None)
                    (ContractValidationError ''illegal_combination'')) (\<lambda>_.
                  reject_secrets_in_json arguments))
        else bind_err (guard_err (in_arguments i = None)
               (ContractValidationError ''illegal_combination'')) (\<lambda>_.
             guard_err (in_arguments_ref i \<noteq> None) (ContractValidationError ''illegal_combination''))) (\<lambda>_.
     bind_err (reject_secrets_in_str_map (in_metadata i)) (\<lambda>_.
     bind_err (guard_err (SHA256_RE (in_canonical_arguments_hash i))
       (ContractValidationError ''invalid_hash'')) (\<lambda>_.
     bind_err (guard_err (SHA256_RE (in_intent_digest i))
       (ContractValidationError ''invalid_hash'')) (\<lambda>_.
     bind_err (compute_canonical_arguments_hash sha256 (in_arguments_mode i) (in_arguments i)
       (in_arguments_ref i)) (\<lambda>expected_args.
     bind_err (guard_err (expected_args = in_canonical_arguments_hash i)
       (ContractValidationError ''hash_mismatch'')) (\<lambda>_.
     bind_err (compute_intent_digest sha256 (in_effect i) (in_arguments_mode i) (in_arguments_ref i)
       (in_canonical_arguments_hash i) (in_requester i) (in_metadata i)) (\<lambda>expected_digest.
     guard_err (expected_digest = in_intent_digest i)
       (ContractValidationError ''hash_mismatch''))))))))"

definition intent_from_parts ::
  "(string \<Rightarrow> string) \<Rightarrow> effect_ref \<Rightarrow> arguments_mode \<Rightarrow> json option \<Rightarrow> string option \<Rightarrow> principal_ref \<Rightarrow>
   utc_timestamp \<Rightarrow> (string \<times> string) list \<Rightarrow> intent_envelope fallible" where
  "intent_from_parts sha256 effect arguments_mode arguments arguments_ref requester requested_at metadata =
     bind_err (compute_canonical_arguments_hash sha256 arguments_mode arguments arguments_ref) (\<lambda>args_hash.
     bind_err (compute_intent_digest sha256 effect arguments_mode arguments_ref args_hash requester metadata) (\<lambda>digest.
     let i = \<lparr>in_effect = effect, in_arguments_mode = arguments_mode, in_arguments = arguments,
              in_arguments_ref = arguments_ref, in_canonical_arguments_hash = args_hash,
              in_intent_digest = digest, in_requester = requester, in_requested_at = requested_at,
              in_metadata = metadata\<rparr>
     in bind_err (validate_intent_envelope sha256 i) (\<lambda>_. Inr i)))"

section \<open>What the digest binds\<close>

text \<open>Two canonical texts are the same only if the values are.\<close>

lemma canonical_text_inject:
  "canonical_json j = canonical_json k \<Longrightarrow> json_wf j \<Longrightarrow> json_wf k \<Longrightarrow> j = k"
  using canonical_json_inject [of j "[]" k "[]"] by auto

definition arguments_material :: "arguments_mode \<Rightarrow> json option \<Rightarrow> string option \<Rightarrow> json" where
  "arguments_material m a r = JObject [(''arguments'', case a of None \<Rightarrow> JNull | Some x \<Rightarrow> x),
     (''arguments_mode'', JStr (arguments_mode_value m)), (''arguments_ref'', json_of_optional r)]"

lemma arguments_material_wf: "pred_option json_wf a \<Longrightarrow> json_wf (arguments_material m a r)"
  by (auto simp: arguments_material_def json_of_optional_def split: option.splits)

lemma compute_arguments_hash_material:
  "compute_canonical_arguments_hash sha256 m a r = Inr h \<Longrightarrow> h = sha256 (canonical_json (arguments_material m a r))"
  by (auto simp: compute_canonical_arguments_hash_def make_json_object_Inr arguments_material_def sha256_hex_def)

lemma metadata_object:
  "make_json_object (map (\<lambda>kv. (fst kv, JStr (snd kv))) md) = Inr j \<Longrightarrow>
     j = JObject (map (\<lambda>kv. (fst kv, JStr (snd kv))) md) \<and> json_wf j"
  by (auto simp: make_json_object_Inr list_all_iff)

definition intent_material ::
  "effect_ref \<Rightarrow> arguments_mode \<Rightarrow> string option \<Rightarrow> string \<Rightarrow> principal_ref \<Rightarrow> json \<Rightarrow> json" where
  "intent_material e m r h q md = JObject
     [(''arguments_mode'', JStr (arguments_mode_value m)), (''arguments_ref'', json_of_optional r),
      (''canonical_arguments_hash'', JStr h),
      (''effect'', JObject [(''action'', JStr (ef_action e)), (''provider'', JStr (ef_provider e)),
         (''version'', JStr (ef_version e))]),
      (''metadata'', md),
      (''requester'', JObject [(''id'', JStr (pr_id q)), (''type'', JStr (principal_type_value (pr_type q)))])]"

lemma intent_material_wf: "json_wf md \<Longrightarrow> json_wf (intent_material e m r h q md)"
  by (cases r) (simp_all add: intent_material_def json_of_optional_def)

lemma json_of_plain_optional: "json_from_plain (json_to_plain (json_of_optional r)) = Inr (json_of_optional r)"
  by (cases r) (simp_all add: json_of_optional_def)

lemma intent_material_plain:
  assumes "json_wf md"
  shows "json_from_plain (PyDict
       [(PyStr ''arguments_mode'', PyStr (arguments_mode_value m)),
        (PyStr ''arguments_ref'', json_to_plain (json_of_optional r)),
        (PyStr ''canonical_arguments_hash'', PyStr h),
        (PyStr ''effect'', PyDict
          [(PyStr ''provider'', PyStr (ef_provider e)), (PyStr ''action'', PyStr (ef_action e)),
           (PyStr ''version'', PyStr (ef_version e))]),
        (PyStr ''metadata'', json_to_plain md),
        (PyStr ''requester'', PyDict
          [(PyStr ''id'', PyStr (pr_id q)), (PyStr ''type'', PyStr (principal_type_value (pr_type q)))])]) =
     Inr (intent_material e m r h q md)"
  by (simp add: json_from_plain_to_plain [OF assms] json_of_plain_optional make_json_object_def intent_material_def)

lemma compute_intent_digest_material:
  assumes "compute_intent_digest sha256 e m r h q md = Inr d"
  shows "d = sha256_hex sha256 (intent_material e m r h q (JObject (map (\<lambda>kv. (fst kv, JStr (snd kv))) (sort_key fst md))))"
    and "json_wf (JObject (map (\<lambda>kv. (fst kv, JStr (snd kv))) (sort_key fst md)))"
proof -
  from assms obtain j where j: "make_json_object (map (\<lambda>kv. (fst kv, JStr (snd kv))) (sort_key fst md)) = Inr j"
    by (auto simp: compute_intent_digest_def simp del: json_from_plain.simps)
  note md = metadata_object [OF j]
  have "d = sha256_hex sha256 (intent_material e m r h q j)"
    using assms by (simp add: compute_intent_digest_def j intent_material_plain [OF conjunct2 [OF md]]
        del: json_from_plain.simps json_to_plain.simps json_wf.simps)
  then show "d = sha256_hex sha256 (intent_material e m r h q
      (JObject (map (\<lambda>kv. (fst kv, JStr (snd kv))) (sort_key fst md))))" using md by simp
  show "json_wf (JObject (map (\<lambda>kv. (fst kv, JStr (snd kv))) (sort_key fst md)))" using md by blast
qed

lemma json_of_optional_inject: "json_of_optional r = json_of_optional r' \<longleftrightarrow> r = r'"
  by (cases r; cases r') (simp_all add: json_of_optional_def)

lemma intent_material_inject:
  assumes "intent_material e m r h q (JObject (map (\<lambda>kv. (fst kv, JStr (snd kv))) xs)) =
    intent_material e' m' r' h' q' (JObject (map (\<lambda>kv. (fst kv, JStr (snd kv))) ys))"
  shows "e = e' \<and> m = m' \<and> r = r' \<and> h = h' \<and> pr_id q = pr_id q' \<and> pr_type q = pr_type q' \<and> xs = ys"
proof -
  have "inj (\<lambda>kv :: string \<times> string. (fst kv, JStr (snd kv)))" by (auto simp: inj_def prod_eq_iff)
  then have "map (\<lambda>kv :: string \<times> string. (fst kv, JStr (snd kv))) xs = map (\<lambda>kv. (fst kv, JStr (snd kv))) ys \<longleftrightarrow> xs = ys"
    by (rule inj_map_eq_map)
  with assms show ?thesis
    by (simp add: intent_material_def json_of_optional_inject am_enum.value_inject pt_enum.value_inject)
qed

text \<open>The two texts an envelope's hashes are taken of, written out.\<close>

definition arguments_text :: "intent_envelope \<Rightarrow> string" where
  "arguments_text i = canonical_json (arguments_material (in_arguments_mode i) (in_arguments i) (in_arguments_ref i))"

definition intent_text :: "intent_envelope \<Rightarrow> string" where
  "intent_text i = canonical_json (intent_material (in_effect i) (in_arguments_mode i) (in_arguments_ref i)
     (in_canonical_arguments_hash i) (in_requester i)
     (JObject (map (\<lambda>kv. (fst kv, JStr (snd kv))) (sort_key fst (in_metadata i)))))"

lemma from_parts_texts:
  assumes "intent_from_parts sha256 e m a r q t md = Inr i"
  shows "in_canonical_arguments_hash i = sha256 (arguments_text i)" and "in_intent_digest i = sha256 (intent_text i)"
    and "json_wf (JObject (map (\<lambda>kv. (fst kv, JStr (snd kv))) (sort_key fst md)))"
    and "m = AM_INLINE \<longleftrightarrow> a \<noteq> None"
    and "in_effect i = e" "in_arguments_mode i = m" "in_arguments i = a" "in_arguments_ref i = r"
      "in_requester i = q" "in_metadata i = md"
proof -
  from assms obtain h d where h: "compute_canonical_arguments_hash sha256 m a r = Inr h"
    and d: "compute_intent_digest sha256 e m r h q md = Inr d"
    and i: "i = \<lparr>in_effect = e, in_arguments_mode = m, in_arguments = a, in_arguments_ref = r,
        in_canonical_arguments_hash = h, in_intent_digest = d, in_requester = q, in_requested_at = t, in_metadata = md\<rparr>"
    and v: "validate_intent_envelope sha256 i = Inr ()"
    by (auto simp: intent_from_parts_def Let_def)
  show "in_canonical_arguments_hash i = sha256 (arguments_text i)"
    using compute_arguments_hash_material [OF h] by (simp add: i arguments_text_def)
  show "in_intent_digest i = sha256 (intent_text i)" and
      "json_wf (JObject (map (\<lambda>kv. (fst kv, JStr (snd kv))) (sort_key fst md)))"
    using compute_intent_digest_material [OF d] by (simp_all add: i intent_text_def sha256_hex_def)
  show "m = AM_INLINE \<longleftrightarrow> a \<noteq> None"
    using v by (cases m) (auto simp: i validate_intent_envelope_def split: option.splits)
  show "in_effect i = e" "in_arguments_mode i = m" "in_arguments i = a" "in_arguments_ref i = r"
    "in_requester i = q" "in_metadata i = md" by (simp_all add: i)
qed

text \<open>
  C32. The intent digest binds the intent: two envelopes built by \<open>from_parts\<close> with the same digest have the same
  effect, argument mode, arguments, arguments reference, requester (type and id) and metadata up to order, unless
  SHA-256 collides on the very texts the hashes of these two envelopes are taken of: the canonical JSON of the two
  intents, or of their two sets of arguments. The time of the request and the requester's display name are not bound.
\<close>

theorem intent_digest_binds:
  assumes "intent_from_parts sha256 e m a r q t md = Inr i" and "intent_from_parts sha256 e' m' a' r' q' t' md' = Inr i'"
    and "in_intent_digest i = in_intent_digest i'" and "pred_option json_wf a" and "pred_option json_wf a'"
  shows "intent_text i \<noteq> intent_text i' \<and> sha256 (intent_text i) = sha256 (intent_text i') \<or>
    arguments_text i \<noteq> arguments_text i' \<and> sha256 (arguments_text i) = sha256 (arguments_text i') \<or>
    e = e' \<and> m = m' \<and> a = a' \<and> r = r' \<and> pr_type q = pr_type q' \<and> pr_id q = pr_id q' \<and>
    sort_key fst md = sort_key fst md'"
proof (cases "intent_text i = intent_text i'")
  case False
  then show ?thesis using assms(3) from_parts_texts(2) [OF assms(1)] from_parts_texts(2) [OF assms(2)] by simp
next
  case True
  note parts = from_parts_texts [OF assms(1)] from_parts_texts [OF assms(2)]
  have same: "e = e' \<and> m = m' \<and> r = r' \<and> in_canonical_arguments_hash i = in_canonical_arguments_hash i' \<and>
      pr_id q = pr_id q' \<and> pr_type q = pr_type q' \<and> sort_key fst md = sort_key fst md'"
    by (rule intent_material_inject, rule canonical_text_inject)
      (use True in \<open>simp add: intent_text_def parts(5-10) parts(15-20)\<close>,
       rule intent_material_wf, rule parts(3), rule intent_material_wf, rule parts(13))
  have "a = a'" if "arguments_text i = arguments_text i'"
  proof -
    have "arguments_material m a r = arguments_material m' a' r'"
      by (rule canonical_text_inject) (use that assms(4,5) arguments_material_wf in
        \<open>simp_all add: arguments_text_def parts(5-10) parts(15-20)\<close>)
    with same parts(4,14) show ?thesis by (auto simp: arguments_material_def split: option.splits)
  qed
  with same parts(1,11) show ?thesis by metis
qed

end
