(* ===== verification/Runtime_Execute.thy ===== *)
theory Runtime_Execute
  imports Service_World
begin

text \<open>
  The execution half of the runtime: the choice of the EXECUTION_* kind (\<^verbatim>\<open>runtime/outcome.py\<close>), attempts
  (\<^verbatim>\<open>runtime/attempt.py\<close>), claiming and executing (\<^verbatim>\<open>runtime/execute.py\<close>) and startup recovery
  (\<^verbatim>\<open>runtime/recover.py\<close>). Clock readings a unit of work takes are taken as it opens.
  \<open>_dispatch\<close> and \<open>_claim_and_execute\<close> call each other: their fuel is Python's recursion limit, and
  running out of it is the \<open>RecursionError\<close> Python raises.
\<close>

section \<open>Commands and results\<close>

record execute_ids =
  xi_attempt_id :: opaque_id
  xi_claim_transition_audit_event_id :: opaque_id
  xi_attempt_audit_event_id :: opaque_id
  xi_evidence_audit_event_id :: opaque_id
  xi_execution_transition_audit_event_id :: opaque_id
  xi_execution_outbox_event_id :: opaque_id
  xi_verification_id :: opaque_id
  xi_verification_audit_event_id :: opaque_id

record recover_ids =
  ri_evidence_audit_event_id :: opaque_id
  ri_execution_transition_audit_event_id :: opaque_id
  ri_execution_outbox_event_id :: opaque_id
  ri_verification_id :: opaque_id
  ri_verification_audit_event_id :: opaque_id

text \<open>\<open>ExecuteIds | RecoverIds\<close> read through the fields they share.\<close>

definition recover_part :: "execute_ids \<Rightarrow> recover_ids" where
  "recover_part ids =
     \<lparr>ri_evidence_audit_event_id = xi_evidence_audit_event_id ids,
      ri_execution_transition_audit_event_id = xi_execution_transition_audit_event_id ids,
      ri_execution_outbox_event_id = xi_execution_outbox_event_id ids,
      ri_verification_id = xi_verification_id ids,
      ri_verification_audit_event_id = xi_verification_audit_event_id ids\<rparr>"

record execute_command =
  xc_operation_id :: opaque_id
  xc_expected_version :: int
  xc_ids :: execute_ids
  xc_actor :: "principal_ref option"
  xc_correlation_id :: "string option"

record recover_command =
  rc_operation_id :: opaque_id
  rc_expected_version :: int
  rc_ids :: recover_ids
  rc_actor :: "principal_ref option"
  rc_correlation_id :: "string option"

datatype runtime_disposition = RT_ACCEPTED | RT_REJECTED | RT_IN_FLIGHT | RT_INFRASTRUCTURE_FAILURE

record runtime_result =
  rt_disposition :: runtime_disposition
  rt_reason_code :: string
  rt_operation :: "operation option"
  rt_transition :: "transition_result option"
  rt_evidence :: "execution_evidence option"
  rt_validation_error :: "normalized_error option"

definition make_result ::
  "runtime_disposition \<Rightarrow> string \<Rightarrow> operation option \<Rightarrow> transition_result option \<Rightarrow>
   execution_evidence option \<Rightarrow> normalized_error option \<Rightarrow> runtime_result" where
  "make_result disposition reason_code operation transition evidence validation_error =
     \<lparr>rt_disposition = disposition, rt_reason_code = reason_code, rt_operation = operation,
      rt_transition = transition, rt_evidence = evidence, rt_validation_error = validation_error\<rparr>"

datatype runtime_crash_point =
    AFTER_INTENT_COMMIT | AFTER_POLICY_COMMIT | AFTER_CLAIM_COMMIT
  | AFTER_EXECUTE_BEFORE_EVIDENCE | AFTER_EVIDENCE_COMMIT

primrec runtime_crash_point_value :: "runtime_crash_point \<Rightarrow> string" where
  "runtime_crash_point_value AFTER_INTENT_COMMIT = ''after_intent_commit''"
| "runtime_crash_point_value AFTER_POLICY_COMMIT = ''after_policy_commit''"
| "runtime_crash_point_value AFTER_CLAIM_COMMIT = ''after_claim_commit''"
| "runtime_crash_point_value AFTER_EXECUTE_BEFORE_EVIDENCE = ''after_execute_before_evidence''"
| "runtime_crash_point_value AFTER_EVIDENCE_COMMIT = ''after_evidence_commit''"

definition runtime_crash :: "runtime_crash_point option \<Rightarrow> runtime_crash_point \<Rightarrow> unit service" where
  "runtime_crash crash_after point = maybe_crash crash_after point (runtime_crash_point_value point)"

section \<open>The kind an outcome asks for\<close>

record execution_kind_decision =
  kd_kind :: transition_kind
  kd_reason_code :: string

definition max_automatic_attempts :: "policy_obligations \<Rightarrow> int" where
  "max_automatic_attempts obligations =
     (case ob_max_automatic_execution_attempts obligations of
        None \<Rightarrow> 1 | Some v \<Rightarrow> if v < 1 then 1 else v)"

definition decide_execution_kind ::
  "effect_outcome \<Rightarrow> effect_descriptor \<Rightarrow> policy_obligations \<Rightarrow> int \<Rightarrow> retry_safety_verdict \<Rightarrow>
   execution_kind_decision" where
  "decide_execution_kind outcome descriptor obligations attempt_number retry_verdict =
     (if outcome = EO_UNKNOWN
      then \<lparr>kd_kind = TK_EXECUTION_UNKNOWN, kd_reason_code = ''execution_unknown''\<rparr>
      else if outcome = EO_APPLIED
      then (if ob_require_verification obligations \<or> \<not> ed_immediate_response_can_prove_applied descriptor
            then \<lparr>kd_kind = TK_EXECUTION_REQUIRE_VERIFICATION,
                  kd_reason_code = ''execution_require_verification''\<rparr>
            else \<lparr>kd_kind = TK_EXECUTION_APPLIED, kd_reason_code = ''execution_applied''\<rparr>)
      else if retry_verdict = RV_SAFE \<and> attempt_number < max_automatic_attempts obligations
      then \<lparr>kd_kind = TK_EXECUTION_NOT_APPLIED_RETRY, kd_reason_code = ''execution_not_applied_retry''\<rparr>
      else \<lparr>kd_kind = TK_EXECUTION_NOT_APPLIED_FAIL, kd_reason_code = ''execution_not_applied_fail''\<rparr>)"

section \<open>Attempts\<close>

text \<open>A Python string is true when it is not empty: an empty stored key is passed over.\<close>

definition provider_key_for ::
  "operation \<Rightarrow> effect_descriptor \<Rightarrow> execution_attempt list \<Rightarrow> string option" where
  "provider_key_for operation descriptor prior_attempts =
     (case find (\<lambda>a. att_provider_idempotency_key a \<notin> {None, Some []}) prior_attempts of
        Some a \<Rightarrow> att_provider_idempotency_key a
      | None \<Rightarrow>
          if ed_idempotency_mode descriptor = IM_PROVIDER_KEY
          then Some (op_idempotency_identity operation) else None)"

definition build_started_attempt ::
  "operation \<Rightarrow> opaque_id \<Rightarrow> int \<Rightarrow> utc_timestamp \<Rightarrow> string option \<Rightarrow> string list \<Rightarrow> string option \<Rightarrow>
   execution_attempt fallible" where
  "build_started_attempt operation attempt_id attempt_number started_at provider_idempotency_key
     external_resource_ids correlation_id =
   (let a = \<lparr>att_contract_version = CONTRACT_VERSION, att_id = attempt_id,
        att_operation_id = op_id operation, att_number = attempt_number, att_state = AS_STARTED,
        att_started_at = started_at, att_completed_at = None,
        att_provider_idempotency_key = provider_idempotency_key, att_external_operation_id = None,
        att_external_resource_ids = external_resource_ids, att_outcome = None, att_evidence = None,
        att_error = None, att_correlation_id = correlation_id\<rparr>
    in bind_err (validate_execution_attempt a) (\<lambda>_. Inr a))"

text \<open>\<open>tuple(dict.fromkeys(xs))\<close>: the first occurrences, in order.\<close>

definition dict_fromkeys :: "'a list \<Rightarrow> 'a list" where
  "dict_fromkeys xs = rev (remdups (rev xs))"

definition build_completed_attempt ::
  "execution_attempt \<Rightarrow> execution_evidence \<Rightarrow> utc_timestamp \<Rightarrow> execution_attempt fallible" where
  "build_completed_attempt started evidence completed_at =
   (let a = started\<lparr>att_state := AS_COMPLETED, att_completed_at := Some completed_at,
        att_outcome := Some (xe_outcome evidence), att_evidence := xe_evidence evidence,
        att_error := xe_error evidence, att_external_operation_id := xe_external_operation_id evidence,
        att_external_resource_ids :=
          dict_fromkeys (att_external_resource_ids started @ xe_external_resource_ids evidence)\<rparr>
    in bind_err (validate_execution_attempt a) (\<lambda>_. Inr a))"

section \<open>Loading\<close>

definition load_operation :: "surroundings \<Rightarrow> opaque_id \<Rightarrow> operation service" where
  "load_operation S operation_id =
     in_uow S (\<lambda>j. case op_get operation_id j of
       None \<Rightarrow> Inl (NotFoundError ''not_found'') | Some o' \<Rightarrow> Inr (o', j))"

definition latest_attempt :: "surroundings \<Rightarrow> operation \<Rightarrow> execution_attempt option service" where
  "latest_attempt S operation =
     (case op_latest_attempt_id operation of
        None \<Rightarrow> return_service None | Some i \<Rightarrow> read_uow S (at_get i))"

definition evidence_from_attempt :: "execution_attempt \<Rightarrow> execution_evidence fallible" where
  "evidence_from_attempt completed =
     (case att_outcome completed of
        None \<Rightarrow> Inl (StatebackRuntimeError ''illegal_combination'')
      | Some outcome \<Rightarrow>
          Inr \<lparr>xe_outcome = outcome, xe_evidence = att_evidence completed, xe_error = att_error completed,
               xe_external_operation_id = att_external_operation_id completed,
               xe_external_resource_ids = att_external_resource_ids completed\<rparr>)"

section \<open>Applying the evidence\<close>

definition execution_body ::
  "transition_kind \<Rightarrow> operation \<Rightarrow> execution_attempt \<Rightarrow> effect_descriptor \<Rightarrow> utc_timestamp \<Rightarrow> recover_ids \<Rightarrow>
   op_body fallible" where
  "execution_body kind operation completed descriptor occurred_at ids =
     (if kind = TK_EXECUTION_APPLIED
      then Inr (ExecutionApplied completed (ri_evidence_audit_event_id ids))
      else if kind = TK_EXECUTION_UNKNOWN
      then Inr (ExecutionUnknown (Some completed) (ri_evidence_audit_event_id ids)
                 (ri_execution_outbox_event_id ids))
      else if kind = TK_EXECUTION_NOT_APPLIED_RETRY
      then Inr (ExecutionNotAppliedRetry completed (ed_idempotency_mode descriptor)
                 (ri_evidence_audit_event_id ids) (ri_execution_outbox_event_id ids) None)
      else if kind = TK_EXECUTION_NOT_APPLIED_FAIL
      then Inr (ExecutionNotAppliedFail completed (ri_evidence_audit_event_id ids))
      else if kind = TK_EXECUTION_REQUIRE_VERIFICATION
      then (let request = \<lparr>vq_contract_version = CONTRACT_VERSION, vq_id = ri_verification_id ids,
               vq_operation_id = op_id operation, vq_operation_version = op_version operation,
               vq_target = VT_ORIGINAL_EFFECT, vq_target_attempt_id = Some (att_id completed),
               vq_effect = in_effect (op_intent operation),
               vq_external_operation_id = att_external_operation_id completed,
               vq_external_resource_ids = att_external_resource_ids completed,
               vq_idempotency_identity = op_idempotency_identity operation,
               vq_provider_evidence_refs = [], vq_requested_at = occurred_at\<rparr>
            in bind_err (validate_verification_request request) (\<lambda>_.
               Inr (ExecutionRequireVerification completed request (ri_evidence_audit_event_id ids)
                     (ri_verification_audit_event_id ids) (ri_execution_outbox_event_id ids))))
      else Inl (StatebackRuntimeError ''illegal_combination''))"

definition execution_command ::
  "transition_kind \<Rightarrow> string \<Rightarrow> operation \<Rightarrow> execution_attempt \<Rightarrow> effect_descriptor \<Rightarrow> principal_ref option \<Rightarrow>
   string option \<Rightarrow> utc_timestamp \<Rightarrow> recover_ids \<Rightarrow> op_command fallible" where
  "execution_command kind reason_code operation completed descriptor actor correlation_id occurred_at ids =
     bind_err (execution_body kind operation completed descriptor occurred_at ids) (\<lambda>body.
     Inr \<lparr>oc_kind = kind, oc_operation_id = op_id operation, oc_expected_version = op_version operation,
          oc_occurred_at = occurred_at, oc_actor = actor, oc_correlation_id = correlation_id,
          oc_reason_code = reason_code,
          oc_transition_audit_event_id = ri_execution_transition_audit_event_id ids, oc_body = body\<rparr>)"

text \<open>The body of the unit of work: \<open>None\<close> when the policy decision is missing.\<close>

definition apply_kind_uow ::
  "capability_registry \<Rightarrow> effect_descriptor \<Rightarrow> operation \<Rightarrow> execution_attempt \<Rightarrow> principal_ref option \<Rightarrow>
   string option \<Rightarrow> recover_ids \<Rightarrow> opaque_id \<Rightarrow> utc_timestamp \<Rightarrow> utc_timestamp \<Rightarrow> journal \<Rightarrow>
   (transition_result option \<times> journal) fallible" where
  "apply_kind_uow registry descriptor operation completed actor correlation_id ids policy_id now
     occurred_at j =
   (case po_get policy_id j of
      None \<Rightarrow> Inr (None, j)
    | Some policy \<Rightarrow>
        (case att_outcome completed of
           None \<Rightarrow> Inl (StatebackRuntimeError ''illegal_combination'')
         | Some outcome \<Rightarrow>
             let prior = at_list_for_operation (op_id operation) j;
                 first_started_at = (case prior of [] \<Rightarrow> att_started_at completed | a # _ \<Rightarrow> att_started_at a)
             in bind_err (registry_retry_safety registry (in_effect (op_intent operation)) (Some outcome) None
                  now (Some first_started_at) None) (\<lambda>retry.
                let decision = decide_execution_kind outcome descriptor (pd_obligations policy)
                      (att_number completed) (rs_verdict retry)
                in bind_err (execution_command (kd_kind decision) (kd_reason_code decision) operation
                     completed descriptor actor correlation_id occurred_at ids) (\<lambda>cmd.
                   bind_err (apply_command (OperationCommand cmd) j) (\<lambda>r.
                   Inr (Some (fst r), snd r))))))"

definition accepted_or_rejected ::
  "transition_result \<Rightarrow> execution_evidence option \<Rightarrow> runtime_result" where
  "accepted_or_rejected result evidence =
     (if tr_outcome result = TO_REJECTED
      then make_result RT_REJECTED (tr_reason_code result) (tr_operation result) (Some result) evidence None
      else make_result RT_ACCEPTED ''accepted'' (tr_operation result) (Some result) evidence None)"

definition apply_execution_kind ::
  "surroundings \<Rightarrow> capability_registry \<Rightarrow> operation \<Rightarrow> execution_attempt \<Rightarrow> principal_ref option \<Rightarrow>
   string option \<Rightarrow> recover_ids \<Rightarrow> execution_evidence \<Rightarrow> runtime_result service" where
  "apply_execution_kind S registry operation completed actor correlation_id ids evidence =
   (case op_current_policy_decision_id operation of
      None \<Rightarrow> return_service (make_result RT_REJECTED ''policy_missing'' (Some operation) None None None)
    | Some policy_id \<Rightarrow>
        bind_service (lift_service (descriptor_for registry (in_effect (op_intent operation)))) (\<lambda>descriptor.
        bind_service (clock_now S) (\<lambda>now.
        bind_service (clock_now S) (\<lambda>occurred_at.
        bind_service (in_uow S (apply_kind_uow registry descriptor operation completed actor
          correlation_id ids policy_id now occurred_at)) (\<lambda>applied.
        case applied of
          None \<Rightarrow> return_service (make_result RT_REJECTED ''policy_missing'' (Some operation) None None None)
        | Some result \<Rightarrow> return_service (accepted_or_rejected result (Some evidence)))))))"

section \<open>Claim and execute\<close>

datatype claim_outcome =
    ClaimRejected runtime_result
  | ClaimReplay
  | Claimed "operation option" execution_attempt "string option"

definition claim_uow ::
  "effect_descriptor \<Rightarrow> execute_command \<Rightarrow> string list \<Rightarrow> operation \<Rightarrow> utc_timestamp \<Rightarrow> journal \<Rightarrow>
   (claim_outcome \<times> journal) fallible" where
  "claim_uow descriptor command verification_resource_ids operation started_at j =
   (let prior = at_list_for_operation (op_id operation) j;
        key = provider_key_for operation descriptor prior;
        ids = xc_ids command
    in bind_err (build_started_attempt operation (xi_attempt_id ids) (int (length prior) + 1) started_at key
         verification_resource_ids (xc_correlation_id command)) (\<lambda>started.
       bind_err (apply_command (OperationCommand
         \<lparr>oc_kind = TK_CLAIM_EXECUTION, oc_operation_id = op_id operation,
          oc_expected_version = xc_expected_version command, oc_occurred_at = att_started_at started,
          oc_actor = xc_actor command, oc_correlation_id = xc_correlation_id command,
          oc_reason_code = ''execution_claimed'',
          oc_transition_audit_event_id = xi_claim_transition_audit_event_id ids,
          oc_body = ClaimExecution started (xi_attempt_audit_event_id ids)\<rparr>) j) (\<lambda>r.
       Inr (if tr_outcome (fst r) = TO_REJECTED
            then ClaimRejected (make_result RT_REJECTED (tr_reason_code (fst r)) (tr_operation (fst r))
                   (Some (fst r)) None None)
            else if tr_outcome (fst r) = TO_ALREADY_APPLIED then ClaimReplay
            else Claimed (tr_operation (fst r)) started key, snd r))))"

text \<open>\<open>adapter.execute\<close> under its \<open>try\<close>: an exception the adapter did not classify is UNKNOWN evidence.\<close>

definition classified_execute ::
  "surroundings \<Rightarrow> provider_adapter \<Rightarrow> provider_execution_context \<Rightarrow> provider_execution_request \<Rightarrow> string \<Rightarrow>
   execution_evidence service" where
  "classified_execute S adapter context request provider =
     try_else (call_execute adapter context request)
       (\<lambda>exc. if exc = UnsupportedEffectError \<or> is_contract_error exc \<or> \<not> is_exception exc then None
        else Some (bind_service (clock_now S) (\<lambda>observed_at.
          bind_service (lift_service (evidence_for_unclassified_exception exc observed_at provider))
            (\<lambda>(outcome, error, ev).
          return_service \<lparr>xe_outcome = outcome, xe_evidence = Some ev, xe_error = Some error,
            xe_external_operation_id = None, xe_external_resource_ids = []\<rparr>))))
       return_service"

text \<open>From the committed claim on: the provider call, its evidence, the transition.\<close>

definition execute_claimed ::
  "surroundings \<Rightarrow> capability_registry \<Rightarrow> runtime_crash_point option \<Rightarrow> execute_command \<Rightarrow> provider_adapter \<Rightarrow>
   provider_execution_request \<Rightarrow> operation \<Rightarrow> execution_attempt \<Rightarrow> string option \<Rightarrow> runtime_result service" where
  "execute_claimed S registry crash_after command adapter request claimed started key =
   bind_service (runtime_crash crash_after AFTER_CLAIM_COMMIT) (\<lambda>_.
   let context = \<lparr>px_operation_id = op_id claimed, px_attempt_id = att_id started,
         px_idempotency_identity = op_idempotency_identity claimed, px_provider_idempotency_key = key,
         px_correlation_id = xc_correlation_id command, px_deadline = None\<rparr>
   in bind_service (classified_execute S adapter context request
        (ef_provider (in_effect (op_intent claimed)))) (\<lambda>evidence.
      bind_service (runtime_crash crash_after AFTER_EXECUTE_BEFORE_EVIDENCE) (\<lambda>_.
      bind_service (clock_now S) (\<lambda>completed_at.
      bind_service (lift_service (build_completed_attempt started evidence completed_at)) (\<lambda>completed.
      try_else (in_uow S (persist_attempt_evidence completed))
        (\<lambda>e. if is_persistence_error e
             then Some (bind_service (load_operation S (xc_operation_id command)) (\<lambda>failed.
               return_service (make_result RT_INFRASTRUCTURE_FAILURE ''persist_failed_after_execute''
                 (Some failed) None (Some evidence) None)))
             else None)
        (\<lambda>_.
      bind_service (runtime_crash crash_after AFTER_EVIDENCE_COMMIT) (\<lambda>_.
      apply_execution_kind S registry claimed completed (xc_actor command)
        (xc_correlation_id command) (recover_part (xc_ids command)) evidence)))))))"

text \<open>\<open>again\<close> is the call back to \<open>_dispatch\<close>, on the operation as it is then.\<close>

definition claim_and_execute ::
  "surroundings \<Rightarrow> capability_registry \<Rightarrow> runtime_crash_point option \<Rightarrow> execute_command \<Rightarrow>
   (operation \<Rightarrow> runtime_result service) \<Rightarrow> operation \<Rightarrow> runtime_result service" where
  "claim_and_execute S registry crash_after command again operation =
   bind_service (lift_service (descriptor_for registry (in_effect (op_intent operation)))) (\<lambda>descriptor.
   case in_arguments (op_intent operation) of
     None \<Rightarrow> raise_service (StatebackRuntimeError ''illegal_combination'')
   | Some arguments \<Rightarrow>
       let request = \<lparr>pq_effect = in_effect (op_intent operation), pq_arguments = arguments\<rparr>
       in bind_service (lift_service (adapter_for registry (in_effect (op_intent operation)))) (\<lambda>adapter.
          bind_service (lift_service (pa_verification_resource_ids adapter request)) (\<lambda>resource_ids.
          bind_service (clock_now S) (\<lambda>started_at.
          try_else (in_uow S (claim_uow descriptor command resource_ids operation started_at))
            (\<lambda>e. if is_concurrency_conflict e
                 then Some (bind_service (load_operation S (xc_operation_id command)) again)
                 else if is_persistence_error e
                 then Some (bind_service (load_operation S (xc_operation_id command)) (\<lambda>failed.
                        return_service (make_result RT_INFRASTRUCTURE_FAILURE
                          ''persist_failed_before_execute'' (Some failed) None None None)))
                 else None)
            (\<lambda>outcome.
          case outcome of
            ClaimRejected result \<Rightarrow> return_service result
          | ClaimReplay \<Rightarrow> bind_service (load_operation S (xc_operation_id command)) again
          | Claimed None started key \<Rightarrow> raise_service (StatebackRuntimeError ''illegal_combination'')
          | Claimed (Some claimed) started key \<Rightarrow>
              execute_claimed S registry crash_after command adapter request claimed started key)))))"

definition UNSUPPORTED_EXECUTE_STATES :: "operation_state list" where
  "UNSUPPORTED_EXECUTE_STATES =
     [OS_FAILED, OS_DENIED, OS_CANCELLED, OS_UNKNOWN, OS_VERIFYING, OS_COMPENSATING,
      OS_COMPENSATION_UNKNOWN, OS_COMPENSATED, OS_COMPENSATION_FAILED, OS_MANUAL_INTERVENTION]"

text \<open>\<open>_dispatch\<close> for an operation that is not READY.\<close>

definition dispatch_started ::
  "surroundings \<Rightarrow> capability_registry \<Rightarrow> execute_command \<Rightarrow> operation \<Rightarrow> runtime_result service" where
  "dispatch_started S registry command operation =
   (let answer = (\<lambda>d r. return_service (make_result d r (Some operation) None None None))
    in if op_state operation = OS_EXECUTING
       then bind_service (latest_attempt S operation) (\<lambda>attempt.
         case attempt of
           None \<Rightarrow> answer RT_REJECTED ''unsupported_state''
         | Some a \<Rightarrow>
             if att_state a = AS_STARTED then answer RT_IN_FLIGHT ''in_flight''
             else bind_service (lift_service (evidence_from_attempt a)) (\<lambda>evidence.
               apply_execution_kind S registry operation a (xc_actor command)
                 (xc_correlation_id command) (recover_part (xc_ids command)) evidence))
       else if op_state operation \<in> {OS_PENDING_POLICY, OS_AWAITING_APPROVAL}
       then answer RT_REJECTED ''not_ready''
       else if op_state operation = OS_SUCCEEDED then answer RT_ACCEPTED ''already_applied''
       else if op_state operation \<in> set UNSUPPORTED_EXECUTE_STATES
       then answer RT_REJECTED ''unsupported_state''
       else answer RT_REJECTED ''unsupported_state'')"

fun dispatch_execute ::
  "surroundings \<Rightarrow> capability_registry \<Rightarrow> runtime_crash_point option \<Rightarrow> execute_command \<Rightarrow> nat \<Rightarrow> operation \<Rightarrow>
   runtime_result service" where
  "dispatch_execute S registry crash_after command 0 operation = raise_service PyRecursionError"
| "dispatch_execute S registry crash_after command (Suc depth) operation =
     (if op_state operation = OS_READY
      then claim_and_execute S registry crash_after command
             (dispatch_execute S registry crash_after command depth) operation
      else dispatch_started S registry command operation)"

definition execute_operation ::
  "surroundings \<Rightarrow> capability_registry \<Rightarrow> runtime_crash_point option \<Rightarrow> nat \<Rightarrow> execute_command \<Rightarrow>
   runtime_result service" where
  "execute_operation S registry crash_after depth command =
     bind_service (load_operation S (xc_operation_id command))
       (dispatch_execute S registry crash_after command depth)"

section \<open>Startup recovery\<close>

definition RUNTIME_RECOVERY_ACTOR :: principal_ref where
  "RUNTIME_RECOVERY_ACTOR =
     \<lparr>pr_type = PT_SERVICE, pr_id = ''stateback.runtime'', pr_display_name = Some ''SynchronousRuntime''\<rparr>"

definition RECOVER_ALREADY :: "operation_state list" where
  "RECOVER_ALREADY =
     [OS_SUCCEEDED, OS_FAILED, OS_DENIED, OS_CANCELLED, OS_UNKNOWN, OS_VERIFYING, OS_AWAITING_APPROVAL,
      OS_COMPENSATING, OS_COMPENSATION_UNKNOWN, OS_COMPENSATED, OS_COMPENSATION_FAILED,
      OS_MANUAL_INTERVENTION]"

definition unknown_without_completing ::
  "surroundings \<Rightarrow> recover_command \<Rightarrow> operation \<Rightarrow> principal_ref \<Rightarrow> runtime_result service" where
  "unknown_without_completing S command operation actor =
   (if cd_interpretation (interpret_execution_crash OS_EXECUTING (Some AS_STARTED)) \<noteq> CI_POTENTIALLY_UNKNOWN
    then raise_service (StatebackRuntimeError ''illegal_combination'')
    else
      let ids = rc_ids command
      in bind_service (clock_now S) (\<lambda>occurred_at.
         bind_service (in_uow S (apply_command (OperationCommand
           \<lparr>oc_kind = TK_EXECUTION_UNKNOWN, oc_operation_id = op_id operation,
            oc_expected_version = op_version operation, oc_occurred_at = occurred_at,
            oc_actor = Some actor, oc_correlation_id = rc_correlation_id command,
            oc_reason_code = ''execution_unknown'',
            oc_transition_audit_event_id = ri_execution_transition_audit_event_id ids,
            oc_body = ExecutionUnknown None (ri_evidence_audit_event_id ids)
              (ri_execution_outbox_event_id ids)\<rparr>))) (\<lambda>result.
         return_service (accepted_or_rejected result None))))"

definition recover_operation ::
  "surroundings \<Rightarrow> capability_registry \<Rightarrow> recover_command \<Rightarrow> runtime_result service" where
  "recover_operation S registry command =
   bind_service (load_operation S (rc_operation_id command)) (\<lambda>operation.
   let actor = (case rc_actor command of None \<Rightarrow> RUNTIME_RECOVERY_ACTOR | Some a \<Rightarrow> a);
       answer = (\<lambda>d r. return_service (make_result d r (Some operation) None None None))
   in if op_state operation = OS_PENDING_POLICY then answer RT_REJECTED ''not_ready''
      else if op_state operation = OS_READY then answer RT_ACCEPTED ''accepted''
      else if op_state operation = OS_EXECUTING
      then bind_service (latest_attempt S operation) (\<lambda>attempt.
        case attempt of
          None \<Rightarrow> answer RT_REJECTED ''unsupported_state''
        | Some a \<Rightarrow>
            if att_state a = AS_STARTED then unknown_without_completing S command operation actor
            else bind_service (lift_service (evidence_from_attempt a)) (\<lambda>evidence.
              apply_execution_kind S registry operation a (Some actor) (rc_correlation_id command)
                (rc_ids command) evidence))
      else if op_state operation \<in> set RECOVER_ALREADY then answer RT_ACCEPTED ''already_applied''
      else answer RT_REJECTED ''unsupported_state'')"

end
