(* ===== verification/Runtime_Submit.thy ===== *)
theory Runtime_Submit
  imports Runtime_Execute Policy_Engine Intent_Digest
begin

text \<open>
  The submission half of the runtime (\<^verbatim>\<open>runtime/submit.py\<close>) and the facade's \<open>run\<close>
  (\<^verbatim>\<open>runtime/service.py\<close>): validate, commit the intent, evaluate policy, commit its verdict. The
  hash function is a parameter, as are the adapters. Python's \<open>None\<close> is both \<open>null\<close> as an argument
  value and an absent argument: \<open>inline_arguments\<close> reads it as the code does.
\<close>

section \<open>Commands\<close>

record submit_ids =
  si_operation_id :: opaque_id
  si_created_audit_event_id :: opaque_id
  si_policy_decision_id :: opaque_id
  si_policy_audit_event_id :: opaque_id
  si_policy_transition_audit_event_id :: opaque_id
  si_allow_outbox_event_id :: opaque_id
  si_approval_id :: opaque_id
  si_approval_audit_event_id :: opaque_id

record submit_command =
  sc_effect :: effect_ref
  sc_arguments :: json
  sc_requester :: principal_ref
  sc_metadata :: "(string \<times> string) list"
  sc_ids :: submit_ids
  sc_correlation_id :: "string option"
  sc_deployment_environment :: string

definition inline_arguments :: "json \<Rightarrow> json option" where
  "inline_arguments v = (case v of JNull \<Rightarrow> None | _ \<Rightarrow> Some v)"

section \<open>Policy\<close>

definition policy_inputs_for :: "operation \<Rightarrow> effect_descriptor \<Rightarrow> string \<Rightarrow> policy_inputs" where
  "policy_inputs_for operation descriptor deployment_environment =
     \<lparr>pi_operation_id = op_id operation, pi_operation_version = op_version operation,
      pi_intent_digest = in_intent_digest (op_intent operation),
      pi_requester = in_requester (op_intent operation), pi_effect = in_effect (op_intent operation),
      pi_risk_level = ed_risk_level descriptor, pi_mutability = ed_mutability descriptor,
      pi_idempotency_mode = ed_idempotency_mode descriptor,
      pi_verification_mode = ed_verification_mode descriptor,
      pi_compensation_kind = ed_compensation_kind descriptor,
      pi_metadata = in_metadata (op_intent operation),
      pi_deployment_environment = deployment_environment\<rparr>"

definition policy_decision_for ::
  "submit_ids \<Rightarrow> operation \<Rightarrow> policy_evaluation \<Rightarrow> utc_timestamp \<Rightarrow> policy_decision" where
  "policy_decision_for ids operation evaluation now =
     \<lparr>pd_contract_version = CONTRACT_VERSION, pd_id = si_policy_decision_id ids,
      pd_operation_id = op_id operation, pd_operation_version = op_version operation,
      pd_intent_digest = in_intent_digest (op_intent operation), pd_verdict = pe_verdict evaluation,
      pd_reason_codes = pe_reason_codes evaluation, pd_explanation = pe_explanation evaluation,
      pd_obligations = pe_obligations evaluation, pd_policy_revision = pe_policy_revision evaluation,
      pd_evaluated_at = now\<rparr>"

text \<open>The command of the verdict: its kind, its reason code and its body.\<close>

definition policy_verdict_body ::
  "submit_ids \<Rightarrow> operation \<Rightarrow> policy_evaluation \<Rightarrow> policy_decision \<Rightarrow> utc_timestamp \<Rightarrow>
   (transition_kind \<times> string \<times> op_body) fallible" where
  "policy_verdict_body ids operation evaluation decision now =
   (case pe_verdict evaluation of
      PV_ALLOW \<Rightarrow> Inr (TK_POLICY_ALLOW, ''policy_allow'',
        PolicyAllow decision (si_policy_audit_event_id ids) (si_allow_outbox_event_id ids))
    | PV_DENY \<Rightarrow> Inr (TK_POLICY_DENY, ''policy_deny'', PolicyDeny decision (si_policy_audit_event_id ids))
    | PV_REQUIRE_APPROVAL \<Rightarrow>
        bind_err (next_version (op_version operation)) (\<lambda>version.
        let approval = \<lparr>ap_contract_version = CONTRACT_VERSION, ap_id = si_approval_id ids,
              ap_operation_id = op_id operation, ap_operation_version = version,
              ap_intent_digest = in_intent_digest (op_intent operation),
              ap_policy_decision_id = pd_id decision, ap_state = AP_PENDING, ap_requested_at = now,
              ap_expires_at = ob_approval_expires_at (pe_obligations evaluation),
              ap_decided_at = None, ap_decided_by = None, ap_reason = None\<rparr>
        in bind_err (validate_approval approval) (\<lambda>_.
           Inr (TK_POLICY_REQUIRE_APPROVAL, ''policy_require_approval'',
             PolicyRequireApproval decision approval (si_policy_audit_event_id ids)
               (si_approval_audit_event_id ids)))))"

definition policy_command ::
  "submit_command \<Rightarrow> operation \<Rightarrow> policy_evaluation \<Rightarrow> utc_timestamp \<Rightarrow> op_command fallible" where
  "policy_command command operation evaluation now =
   (let ids = sc_ids command; decision = policy_decision_for ids operation evaluation now
    in bind_err (validate_policy_decision decision) (\<lambda>_.
       bind_err (policy_verdict_body ids operation evaluation decision now) (\<lambda>(kind, reason_code, body).
       Inr \<lparr>oc_kind = kind, oc_operation_id = op_id operation, oc_expected_version = op_version operation,
            oc_occurred_at = now, oc_actor = Some (sc_requester command),
            oc_correlation_id = sc_correlation_id command, oc_reason_code = reason_code,
            oc_transition_audit_event_id = si_policy_transition_audit_event_id ids, oc_body = body\<rparr>)))"

definition persist_policy ::
  "surroundings \<Rightarrow> runtime_crash_point option \<Rightarrow> submit_command \<Rightarrow> operation \<Rightarrow> policy_evaluation \<Rightarrow>
   runtime_result service" where
  "persist_policy S crash_after command operation evaluation =
   bind_service (clock_now S) (\<lambda>now.
   bind_service (lift_service (policy_command command operation evaluation now)) (\<lambda>cmd.
   bind_service (in_uow S (apply_command (OperationCommand cmd))) (\<lambda>result.
   if tr_outcome result = TO_REJECTED
   then return_service (make_result RT_REJECTED (tr_reason_code result) (tr_operation result)
          (Some result) None None)
   else bind_service (runtime_crash crash_after AFTER_POLICY_COMMIT) (\<lambda>_.
        return_service (make_result RT_ACCEPTED ''accepted'' (tr_operation result) (Some result)
          None None)))))"

definition apply_policy ::
  "surroundings \<Rightarrow> capability_registry \<Rightarrow> policy_engine \<Rightarrow> runtime_crash_point option \<Rightarrow> submit_command \<Rightarrow>
   operation \<Rightarrow> runtime_result service" where
  "apply_policy S registry policy crash_after command operation =
   (if op_state operation \<noteq> OS_PENDING_POLICY
    then return_service (make_result RT_ACCEPTED ''already_applied'' (Some operation) None None None)
    else
      bind_service (lift_service (descriptor_for registry (in_effect (op_intent operation)))) (\<lambda>descriptor.
      try_else (lift_service (policy (policy_inputs_for operation descriptor (sc_deployment_environment command))))
        (\<lambda>e. if is_exception e
             then Some (return_service (make_result RT_INFRASTRUCTURE_FAILURE ''policy_engine_failed''
               (Some operation) None None None))
             else None)
        (persist_policy S crash_after command operation)))"

section \<open>Submitting\<close>

definition new_operation :: "submit_command \<Rightarrow> effect_descriptor \<Rightarrow> intent_envelope \<Rightarrow> operation" where
  "new_operation command descriptor intent =
     \<lparr>op_contract_version = CONTRACT_VERSION, op_id = si_operation_id (sc_ids command),
      op_state = OS_PENDING_POLICY, op_version = INITIAL_OPERATION_VERSION, op_intent = intent,
      op_risk_level = ed_risk_level descriptor,
      op_idempotency_identity = operation_idempotency_identity (si_operation_id (sc_ids command)),
      op_current_policy_decision_id = None, op_current_approval_id = None,
      op_latest_attempt_id = None, op_latest_verification_id = None, op_compensation_id = None,
      op_created_at = in_requested_at intent, op_updated_at = in_requested_at intent\<rparr>"

definition submission :: "submit_command \<Rightarrow> operation \<Rightarrow> create_command" where
  "submission command operation =
     \<lparr>cc_kind = TK_CREATE_OPERATION, cc_operation = operation,
      cc_occurred_at = in_requested_at (op_intent operation), cc_actor = Some (sc_requester command),
      cc_correlation_id = sc_correlation_id command, cc_reason_code = ''operation_submitted'',
      cc_created_audit_event_id = si_created_audit_event_id (sc_ids command)\<rparr>"

text \<open>What the create result says: an answer, or the operation to go on with.\<close>

definition loaded_operation :: "intent_envelope \<Rightarrow> transition_result \<Rightarrow> runtime_result + operation" where
  "loaded_operation intent result =
   (let digest = in_intent_digest intent;
        refuse = (\<lambda>reason operation. Inl (make_result RT_REJECTED reason operation (Some result) None None))
    in if tr_outcome result = TO_REJECTED
       then (case tr_operation result of
               Some reused \<Rightarrow>
                 if tr_reason_code result = ''operation_id_reused'' \<and>
                    in_intent_digest (op_intent reused) = digest
                 then Inr reused else refuse (tr_reason_code result) (tr_operation result)
             | None \<Rightarrow> refuse (tr_reason_code result) None)
       else case tr_operation result of
              None \<Rightarrow> refuse ''transition_rejected'' None
            | Some existing \<Rightarrow>
                if tr_outcome result = TO_ALREADY_APPLIED \<and>
                   in_intent_digest (op_intent existing) \<noteq> digest
                then refuse ''intent_conflict'' (Some existing)
                else Inr existing)"

definition proceed ::
  "surroundings \<Rightarrow> capability_registry \<Rightarrow> policy_engine \<Rightarrow> runtime_crash_point option \<Rightarrow> submit_command \<Rightarrow>
   intent_envelope \<Rightarrow> transition_result \<Rightarrow> runtime_result service" where
  "proceed S registry policy crash_after command intent result =
   (case loaded_operation intent result of
      Inl answer \<Rightarrow> return_service answer
    | Inr loaded \<Rightarrow>
        bind_service (runtime_crash crash_after AFTER_INTENT_COMMIT) (\<lambda>_.
        apply_policy S registry policy crash_after command loaded))"

text \<open>The \<open>except DuplicateKeyError\<close> clause: somebody else inserted first.\<close>

definition resolve_duplicate ::
  "surroundings \<Rightarrow> capability_registry \<Rightarrow> policy_engine \<Rightarrow> runtime_crash_point option \<Rightarrow> submit_command \<Rightarrow>
   operation \<Rightarrow> sb_error \<Rightarrow> runtime_result service" where
  "resolve_duplicate S registry policy crash_after command operation e =
   bind_service (read_uow S (\<lambda>j. case op_get (op_id operation) j of
       Some existing \<Rightarrow> Some existing
     | None \<Rightarrow> op_get_by_idempotency_identity (op_idempotency_identity operation) j)) (\<lambda>found.
   case found of
     None \<Rightarrow> raise_service e
   | Some existing \<Rightarrow>
       if in_intent_digest (op_intent existing) \<noteq> in_intent_digest (op_intent operation)
       then return_service (make_result RT_REJECTED ''intent_conflict'' (Some existing) None None None)
       else proceed S registry policy crash_after command (op_intent operation)
              (already (OpKind TK_CREATE_OPERATION) existing None (Some OS_PENDING_POLICY)
                (op_version existing) None))"

definition create_and_decide ::
  "surroundings \<Rightarrow> capability_registry \<Rightarrow> policy_engine \<Rightarrow> runtime_crash_point option \<Rightarrow> submit_command \<Rightarrow>
   operation \<Rightarrow> runtime_result service" where
  "create_and_decide S registry policy crash_after command operation =
     try_else (in_uow S (apply_command (CreateOperation (submission command operation))))
       (\<lambda>e. if is_duplicate_key e
            then Some (resolve_duplicate S registry policy crash_after command operation e) else None)
       (proceed S registry policy crash_after command (op_intent operation))"

definition submit_operation ::
  "(string \<Rightarrow> string) \<Rightarrow> surroundings \<Rightarrow> capability_registry \<Rightarrow> policy_engine \<Rightarrow>
   runtime_crash_point option \<Rightarrow> submit_command \<Rightarrow> runtime_result service" where
  "submit_operation sha256 S registry policy crash_after command =
   (let refuse = (\<lambda>reason. return_service (make_result RT_REJECTED reason None None None None))
    in try_else (lift_service (descriptor_for registry (sc_effect command)))
         (\<lambda>e. if e = UnsupportedEffectError then Some (refuse ''unregistered_effect'') else None)
         (\<lambda>descriptor.
       if ed_mutability descriptor = MU_READ_ONLY then refuse ''read_only_effect_not_consequential''
       else bind_service (clock_now S) (\<lambda>now.
         try_else (lift_service (intent_from_parts sha256 (sc_effect command) AM_INLINE
             (inline_arguments (sc_arguments command)) None (sc_requester command) now
             (sc_metadata command)))
           (\<lambda>e. case e of ContractValidationError reason \<Rightarrow> Some (refuse reason) | _ \<Rightarrow> None)
           (\<lambda>intent.
         let request = \<lparr>pq_effect = sc_effect command, pq_arguments = sc_arguments command\<rparr>
         in bind_service (lift_service (adapter_for registry (sc_effect command))) (\<lambda>adapter.
            bind_service (lift_service (pa_validate_execution adapter request)) (\<lambda>validation.
            if \<not> vl_accepted validation
            then return_service (make_result RT_REJECTED ''validation_rejected'' None None None
                   (vl_error validation))
            else
              bind_service (lift_service (make_operation (new_operation command descriptor intent)))
                (create_and_decide S registry policy crash_after command)))))))"

section \<open>The facade\<close>

definition run_operation ::
  "(string \<Rightarrow> string) \<Rightarrow> surroundings \<Rightarrow> capability_registry \<Rightarrow> policy_engine \<Rightarrow>
   runtime_crash_point option \<Rightarrow> nat \<Rightarrow> submit_command \<Rightarrow> execute_ids \<Rightarrow> runtime_result service" where
  "run_operation sha256 S registry policy crash_after depth submit ids =
   bind_service (submit_operation sha256 S registry policy crash_after submit) (\<lambda>submitted.
   if rt_disposition submitted \<noteq> RT_ACCEPTED then return_service submitted
   else case rt_operation submitted of
     None \<Rightarrow> raise_service PyAssertionError
   | Some operation \<Rightarrow>
       if op_state operation \<noteq> OS_READY then return_service submitted
       else execute_operation S registry crash_after depth
              \<lparr>xc_operation_id = op_id operation, xc_expected_version = op_version operation,
               xc_ids = ids, xc_actor = Some (sc_requester submit),
               xc_correlation_id = sc_correlation_id submit\<rparr>)"

end
