(* ===== verification/Runtime_Properties.thy ===== *)
theory Runtime_Properties
  imports Runtime_Execute Evidence Durable_History
begin

text \<open>
  What the runtime promises under interference: it changes the journal by system steps only, a
  provider is called at most once per run and only behind a committed STARTED attempt, a
  redelivered execution never calls again, and what a crash leaves behind is resolved without a call.
\<close>

section \<open>Units of work of the runtime\<close>

lemma applied_operation:
  assumes "apply_command (OperationCommand c) j = Inr (r, j')" and "tr_outcome r = TO_APPLIED"
  shows "tr_operation r = op_get (oc_operation_id c) j'"
proof -
  from assms(1) have app: "apply_operation c j = Inr (r, j')" by (auto simp: apply_command_def split: if_split_asm)
  from app assms(2) obtain a b es where "op_get (oc_operation_id c) j = Some a" "transition_effect j a b es j'"
    "tr_operation r = Some b" by (rule apply_operation_applied)
  then show ?thesis using transition_effect_get op_get_key by metis
qed

lemma applied_target:
  assumes "apply_command (OperationCommand c) j = Inr (r, j')" and "tr_outcome r = TO_APPLIED"
  shows "\<exists>b. op_get (oc_operation_id c) j' = Some b \<and> op_state b = snd (KIND_TO_EDGE (oc_kind c)) \<and>
    tr_operation r = Some b"
proof -
  from assms(1) have "apply_operation c j = Inr (r, j')" by (auto simp: apply_command_def split: if_split_asm)
  then obtain a b :: operation where "KIND_TO_EDGE (oc_kind c) = (Some (op_state a), op_state b)" "tr_operation r = Some b"
    using assms(2) by (rule apply_operation_applied)
  with applied_operation [OF assms] show ?thesis by (intro exI [of _ b]) simp
qed

lemma engine_body:
  assumes "\<And>j x j'. body j = Inr (x, j') \<Longrightarrow> j' = j \<or> (\<exists>c r. apply_command c j = Inr (r, j'))"
  shows "system_body body"
  using assms by (intro system_bodyI) (metis later.refl later_one system_step.command)

lemma runtime_bodies [service_rules]:
  "system_body (claim_uow d c ids o' t)" "system_body (apply_kind_uow reg d o' a actor corr rids p n t)"
  by (rule engine_body; auto simp: claim_uow_def apply_kind_uow_def Let_def split: option.split_asm)+

lemma load_operation_conforms [service_rules]: "conforms S P n (load_operation S i)"
  unfolding load_operation_def by (intro service_rules engine_body) (auto split: option.split_asm)

lemma runtime_quiet [service_rules]:
  "conforms S P n (latest_attempt S o')" "conforms S P n (runtime_crash point p)"
  "conforms S P n (apply_execution_kind S reg o' a actor corr rids ev)"
  "conforms S P n (unknown_without_completing S rc o' pr)"
  unfolding latest_attempt_def runtime_crash_def apply_execution_kind_def unknown_without_completing_def Let_def
  by (intro service_rules)+

lemma dispatch_started_conforms [service_rules]: "conforms S P n (dispatch_started S reg c o')"
  unfolding dispatch_started_def Let_def by (intro service_rules)

lemma recover_conforms [service_rules]: "conforms S P n (recover_operation S reg c)"
  unfolding recover_operation_def Let_def by (intro service_rules)

section \<open>Calls behind a committed attempt\<close>

text \<open>
  A call of attempt \<open>i\<close> that is written ahead: when it was made, the journal held the STARTED attempt
  with its key, and the operation, EXECUTING, pointed to it and asked for exactly this request.
\<close>

definition write_ahead :: "opaque_id \<Rightarrow> provider_call \<Rightarrow> journal \<Rightarrow> bool" where
  "write_ahead i call j \<longleftrightarrow>
     (case call of
        ExecuteCall x q \<Rightarrow> px_attempt_id x = i \<and>
          (\<exists>a o'. at_get i j = Some a \<and> att_state a = AS_STARTED \<and> att_operation_id a = px_operation_id x \<and>
             att_provider_idempotency_key a = px_provider_idempotency_key x \<and>
             op_get (px_operation_id x) j = Some o' \<and> op_state o' = OS_EXECUTING \<and>
             op_latest_attempt_id o' = Some i \<and> op_idempotency_identity o' = px_idempotency_identity x \<and>
             in_effect (op_intent o') = pq_effect q \<and> in_arguments (op_intent o') = Some (pq_arguments q))
      | _ \<Rightarrow> False)"

text \<open>The same, by a run that started at journal \<open>j0\<close>, where the attempt did not exist yet.\<close>

definition fresh_call :: "journal \<Rightarrow> opaque_id \<Rightarrow> provider_call \<Rightarrow> journal \<Rightarrow> bool" where
  "fresh_call j0 i call j \<longleftrightarrow> write_ahead i call j \<and> at_get i j0 = None"

lemma attempt_stays: "later j k \<Longrightarrow> at_get i j \<noteq> None \<Longrightarrow> at_get i k \<noteq> None"
  using atev.run_evolves [OF later_writes] by blast

lemma classified_execute_call:
  assumes "P (ExecuteCall x q) (wd_journal w)"
  shows "conforms_at S P 1 (classified_execute S a x q p) w"
proof -
  have "conforms_at S P (1 + 0) (classified_execute S a x q p) w"
    unfolding classified_execute_def call_execute_def
  proof (rule conforms_at_try [OF conforms_at_call [of P, OF assms]])
    fix e h v
    have "catches S P 0 (if e = UnsupportedEffectError \<or> is_contract_error e \<or> \<not> is_exception e then None
        else Some (bind_service (clock_now S) (\<lambda>observed_at.
          bind_service (lift_service (evidence_for_unclassified_exception e observed_at p))
            (\<lambda>(outcome, error, ev).
          return_service \<lparr>xe_outcome = outcome, xe_evidence = Some ev, xe_error = Some error,
            xe_external_operation_id = None, xe_external_resource_ids = []\<rparr>))))"
      by (intro service_rules)
    then show "(if e = UnsupportedEffectError \<or> is_contract_error e \<or> \<not> is_exception e then None
        else Some (bind_service (clock_now S) (\<lambda>observed_at.
          bind_service (lift_service (evidence_for_unclassified_exception e observed_at p))
            (\<lambda>(outcome, error, ev).
          return_service \<lparr>xe_outcome = outcome, xe_evidence = Some ev, xe_error = Some error,
            xe_external_operation_id = None, xe_external_resource_ids = []\<rparr>)))) = Some h \<Longrightarrow>
      conforms_at S P 0 h v" by (simp add: catches_def conforms_at)
  qed (intro conforms_at service_rules)
  then show ?thesis by simp
qed

lemma execute_claimed_call:
  assumes "P (ExecuteCall \<lparr>px_operation_id = op_id claimed, px_attempt_id = att_id started,
      px_idempotency_identity = op_idempotency_identity claimed, px_provider_idempotency_key = key,
      px_correlation_id = xc_correlation_id c, px_deadline = None\<rparr> q) (wd_journal w)"
  shows "conforms_at S P 1 (execute_claimed S reg crash c a q claimed started key) w"
proof (cases "crash = Some AFTER_CLAIM_COMMIT")
  case True
  then have "execute_claimed S reg crash c a q claimed started key =
      raise_service (SimulatedCrash (runtime_crash_point_value AFTER_CLAIM_COMMIT))"
    by (simp add: execute_claimed_def runtime_crash_def maybe_crash_def)
  then show ?thesis by (simp add: conforms_at service_rules)
next
  case False
  then have no_crash: "runtime_crash crash AFTER_CLAIM_COMMIT = return_service ()"
    by (simp add: runtime_crash_def maybe_crash_def)
  have "conforms_at S P (1 + 0) (execute_claimed S reg crash c a q claimed started key) w"
    unfolding execute_claimed_def Let_def no_crash service_simps
    by (rule conforms_at_bind [OF classified_execute_call [of P, OF assms]]) (intro conforms_at service_rules)
  then show ?thesis by simp
qed

lemma claim_uow_claimed:
  assumes "claim_uow d c ids operation t j = Inr (Claimed (Some claimed) started key, j')"
  obtains o' where "op_get (op_id operation) j' = Some o'" and "claimed = o'" and "op_state o' = OS_EXECUTING"
    and "op_latest_attempt_id o' = Some (xi_attempt_id (xc_ids c))" and "at_get (xi_attempt_id (xc_ids c)) j = None"
    and "at_get (xi_attempt_id (xc_ids c)) j' = Some started" and "att_state started = AS_STARTED"
    and "att_id started = xi_attempt_id (xc_ids c)" and "att_operation_id started = op_id operation"
    and "att_provider_idempotency_key started = key" and "system_step j j'"
proof -
  from assms obtain r where r: "apply_command (OperationCommand
         \<lparr>oc_kind = TK_CLAIM_EXECUTION, oc_operation_id = op_id operation,
          oc_expected_version = xc_expected_version c, oc_occurred_at = att_started_at started,
          oc_actor = xc_actor c, oc_correlation_id = xc_correlation_id c,
          oc_reason_code = ''execution_claimed'',
          oc_transition_audit_event_id = xi_claim_transition_audit_event_id (xc_ids c),
          oc_body = ClaimExecution started (xi_attempt_audit_event_id (xc_ids c))\<rparr>) j = Inr (r, j')"
    and out: "tr_outcome r = TO_APPLIED" and op: "tr_operation r = Some claimed"
    and st: "build_started_attempt operation (xi_attempt_id (xc_ids c))
       (int (length (at_list_for_operation (op_id operation) j)) + 1) t key ids (xc_correlation_id c) = Inr started"
    by (auto simp: claim_uow_def Let_def split: if_split_asm) (metis transition_outcome.exhaust)
  have started: "att_id started = xi_attempt_id (xc_ids c)" "att_operation_id started = op_id operation"
    "att_provider_idempotency_key started = key"
    using st by (auto simp: build_started_attempt_def Let_def)
  obtain b where b: "op_get (op_id operation) j' = Some b" "op_state b = OS_EXECUTING"
      "op_latest_attempt_id b = Some (att_id started)" "at_get (att_id started) j = None"
      "at_get (att_id started) j' = Some started" "att_state started = AS_STARTED"
    by (rule claim_execution_stores [OF r out]) auto
  from applied_operation [OF r out] op b(1) have "claimed = b" by simp
  with that [OF b(1)] b started r show thesis by (auto intro: system_step.command)
qed

lemma load_operation_run:
  assumes "load_operation S i w = (Inr o', v)" and "others_follow S"
  shows "later (wd_journal w) (wd_journal v)" and "op_get (op_id o') (wd_journal v) = Some o'"
    and "op_id o' = i" and "wd_calls v = wd_calls w"
proof -
  from assms(1) have v: "op_get i (wd_journal v) = Some o'" "wd_journal v = su_others S (wd_turn w) (wd_journal w)"
    "wd_calls v = wd_calls w"
    by (auto simp: load_operation_def in_uow_def unit_of_work_Inr split: option.split_asm prod.split_asm)
  with assms(2) op_get_key [OF v(1)] show "later (wd_journal w) (wd_journal v)" "op_get (op_id o') (wd_journal v) = Some o'"
    "op_id o' = i" "wd_calls v = wd_calls w" by (simp_all add: others_follow_def)
qed

lemma load_then:
  assumes "later j0 (wd_journal w)"
    and again: "\<And>v o'. later j0 (wd_journal v) \<Longrightarrow> op_get (op_id o') (wd_journal v) = Some o' \<Longrightarrow>
      conforms_at S P n (again o') v"
  shows "conforms_at S P n (bind_service (load_operation S i) again) w"
proof (rule conforms_atI)
  assume S: "others_follow S"
  have "conforms_at S P (0 + n) (bind_service (load_operation S i) again) w"
  proof (rule conforms_at_bind [OF conforms_at [OF load_operation_conforms]])
    fix o' v assume "load_operation S i w = (Inr o', v)"
    from load_operation_run [OF this S] assms(1) show "conforms_at S P n (again o') v"
      by (intro again) (auto intro: later_trans)
  qed
  then show "conforms_at S P n (bind_service (load_operation S i) again) w" by simp
qed

lemma claim_and_execute_conforms:
  assumes j0: "later j0 (wd_journal w)" and read: "op_get (op_id operation) (wd_journal w) = Some operation"
    and again: "\<And>v o'. later j0 (wd_journal v) \<Longrightarrow> op_get (op_id o') (wd_journal v) = Some o' \<Longrightarrow>
      conforms_at S (fresh_call j0 (xi_attempt_id (xc_ids c))) 1 (again o') v"
  shows "conforms_at S (fresh_call j0 (xi_attempt_id (xc_ids c))) 1 (claim_and_execute S reg crash c again operation) w"
proof -
  let ?P = "fresh_call j0 (xi_attempt_id (xc_ids c))"
  note load = load_then [of j0, OF _ again]
  note quiet = conforms_at [OF conforms_basic(1)] conforms_at [OF conforms_basic(2)]
  show ?thesis
    unfolding claim_and_execute_def
  proof (rule conforms_lift, goal_cases)
    case (1 d)
    show ?case
    proof (cases "in_arguments (op_intent operation)")
      case None
      then show ?thesis by (simp add: quiet)
    next
      case (Some arguments)
      let ?q = "\<lparr>pq_effect = in_effect (op_intent operation), pq_arguments = arguments\<rparr>"
      show ?thesis unfolding Some option.case Let_def
      proof (rule conforms_lift, rule conforms_lift, rule conforms_clock, rule conforms_uow_else [of _ j0], goal_cases)
        case 1 show ?case by (rule runtime_bodies)
      next
        case 2 show ?case using j0 by simp
      next
        case (3 adapter ids t x v k)
        then have k: "later (wd_journal w) k" and v: "later k (wd_journal v)" "later j0 (wd_journal v)"
          by (auto intro: later_trans)
        show ?case
        proof (cases x)
          case (Claimed claimed started key)
          show ?thesis
          proof (cases claimed)
            case (Some b)
            obtain b' where b: "op_get (op_id operation) (wd_journal v) = Some b'" "b = b'" "op_state b' = OS_EXECUTING"
                "op_latest_attempt_id b' = Some (xi_attempt_id (xc_ids c))" "at_get (xi_attempt_id (xc_ids c)) k = None"
                "at_get (xi_attempt_id (xc_ids c)) (wd_journal v) = Some started" "att_state started = AS_STARTED"
                "att_id started = xi_attempt_id (xc_ids c)" "att_operation_id started = op_id operation"
                "att_provider_idempotency_key started = key"
              by (rule claim_uow_claimed [OF 3(5) [unfolded Claimed Some]])
            have fresh: "at_get (xi_attempt_id (xc_ids c)) j0 = None"
              using attempt_stays [OF 3(6)] b(5) by blast
            from later_operation [OF later_trans [OF v(1) k] read] b(1)
            have same: "in_effect (op_intent b') = in_effect (op_intent operation)"
              "in_arguments (op_intent b') = in_arguments (op_intent operation)" "op_id b' = op_id operation"
              using op_get_key [OF b(1)] by (auto simp: same_identity_def)
            show ?thesis
              using same b \<open>in_arguments (op_intent operation) = Some arguments\<close> fresh unfolding Claimed Some
              by (auto simp: fresh_call_def write_ahead_def simp del: One_nat_def intro!: execute_claimed_call)
          qed (simp add: Claimed quiet)
        qed (use load [OF v(2)] in \<open>simp_all add: quiet\<close>)
      next
        case (4 adapter ids t e h v)
        then show ?case using load [OF 4(3)] load_then [of j0 v S ?P 1, OF 4(3) quiet(1)]
          by (auto split: if_split_asm)
      qed
    qed
  qed
qed

lemma dispatch_conforms:
  "later j0 (wd_journal w) \<Longrightarrow> op_get (op_id o') (wd_journal w) = Some o' \<Longrightarrow>
     conforms_at S (fresh_call j0 (xi_attempt_id (xc_ids c))) 1 (dispatch_execute S reg crash c depth o') w"
proof (induction depth arbitrary: w o')
  case 0
  then show ?case by (simp add: conforms_at conforms_basic)
next
  case (Suc depth)
  show ?case
  proof (cases "op_state o' = OS_READY")
    case True
    then show ?thesis using Suc by (simp add: claim_and_execute_conforms del: One_nat_def)
  qed (simp add: conforms_at dispatch_started_conforms)
qed

lemma execute_conforms:
  "conforms_at S (fresh_call (wd_journal w) (xi_attempt_id (xc_ids c))) 1 (execute_operation S reg crash depth c) w"
  unfolding execute_operation_def by (rule load_then [OF later.refl]) (rule dispatch_conforms)

text \<open>
  C9. At most one provider call, and that one write-ahead: whatever other processes commit in
  between, one run of \<open>execute\<close> changes the journal by system steps only, calls at most the
  provider's \<open>execute\<close> once, and when it does the journal already holds the STARTED attempt of this
  command, which did not exist when the run began, with the key the call carries, and the
  EXECUTING operation that points to it and asks for exactly this effect and these arguments.
\<close>

theorem provider_call_is_write_ahead:
  assumes "others_follow S" and "execute_operation S registry crash_after depth command w = (r, w')"
  shows "later (wd_journal w) (wd_journal w') \<and>
    (\<exists>cs. wd_calls w' = wd_calls w @ cs \<and> length cs \<le> 1 \<and>
       (\<forall>(call, j) \<in> set cs. write_ahead (xi_attempt_id (xc_ids command)) call j \<and>
          at_get (xi_attempt_id (xc_ids command)) (wd_journal w) = None))"
proof -
  obtain cs where "later (wd_journal w) (wd_journal w')" "wd_calls w' = wd_calls w @ cs" "length cs \<le> 1"
    "\<forall>(call, j) \<in> set cs. fresh_call (wd_journal w) (xi_attempt_id (xc_ids command)) call j"
    by (rule conforms_atD [OF execute_conforms assms])
  then show ?thesis by (auto simp: fresh_call_def split_def)
qed

text \<open>
  A redelivered execution never calls again: once the attempt id of an execute command is
  stored, no run of \<open>execute\<close> with that command makes a provider call, at whatever state the
  operation is and whatever the others do.
\<close>

lemma redelivered_execution_never_calls:
  assumes "others_follow S" and "at_get (xi_attempt_id (xc_ids command)) (wd_journal w) \<noteq> None"
    and "execute_operation S registry crash_after depth command w = (r, w')"
  shows "wd_calls w' = wd_calls w"
proof -
  obtain cs where "wd_calls w' = wd_calls w @ cs"
    "\<forall>(call, j) \<in> set cs. fresh_call (wd_journal w) (xi_attempt_id (xc_ids command)) call j"
    by (rule conforms_atD [OF execute_conforms assms(1,3)])
  with assms(2) show ?thesis by (cases cs) (auto simp: fresh_call_def)
qed

section \<open>A stale version\<close>

lemma claim_uow_stale:
  assumes "op_get (op_id o') j = Some o'" and "op_version o' \<notin> {xc_expected_version c, xc_expected_version c + 1}"
  shows "claim_uow d c ids o' t j = Inl (ConcurrencyConflictError ''concurrency_conflict'')"
  using assms by (simp add: claim_uow_def Let_def build_started_attempt_def validate_execution_attempt_def
      apply_command_def apply_operation_def guard_err_def)

lemma load_alone:
  assumes "\<And>n j. su_others S n j = j" and "op_get i (wd_journal w) = Some o'"
    and "list_all (op_pointers_ok (wd_journal w)) (j_operations (wd_journal w))"
  shows "load_operation S i w = (Inr o', w\<lparr>wd_turn := Suc (wd_turn w)\<rparr>)"
proof -
  have "unit_of_work (\<lambda>j. case op_get i j of None \<Rightarrow> Inl (NotFoundError ''not_found'') | Some o' \<Rightarrow> Inr (o', j))
      (wd_journal w) = (Inr o', wd_journal w)"
    using assms(2,3) by (simp add: unit_of_work_Inr)
  then show ?thesis by (simp add: load_operation_def in_uow_def assms(1))
qed

lemma dispatch_stale:
  assumes alone: "\<And>n j. su_others S n j = j" and ready: "op_state o' = OS_READY"
    and stale: "op_version o' \<notin> {xc_expected_version c, xc_expected_version c + 1}"
    and prepared: "descriptor_for reg (in_effect (op_intent o')) = Inr d" "in_arguments (op_intent o') = Some args"
      "adapter_for reg (in_effect (op_intent o')) = Inr a"
      "pa_verification_resource_ids a \<lparr>pq_effect = in_effect (op_intent o'), pq_arguments = args\<rparr> = Inr ids"
  shows "op_get (xc_operation_id c) (wd_journal w) = Some o' \<Longrightarrow>
    list_all (op_pointers_ok (wd_journal w)) (j_operations (wd_journal w)) \<Longrightarrow>
    \<exists>w'. dispatch_execute S reg crash c depth o' w = (Inl PyRecursionError, w') \<and>
      wd_journal w' = wd_journal w \<and> wd_calls w' = wd_calls w"
proof (induction depth arbitrary: w)
  case 0
  then show ?case by (simp add: run_simps)
next
  case (Suc depth)
  let ?v = "w\<lparr>wd_clock := Suc (wd_clock w), wd_turn := Suc (wd_turn w)\<rparr>"
  have id: "op_id o' = xc_operation_id c" using op_get_key Suc.prems(1) by blast
  have "claim_uow d c ids o' t (wd_journal w) = Inl (ConcurrencyConflictError ''concurrency_conflict'')" for t
    using Suc.prems(1) stale by (intro claim_uow_stale) (simp_all add: id)
  then have "in_uow S (claim_uow d c ids o' t) (w\<lparr>wd_clock := Suc (wd_clock w)\<rparr>) =
      (Inl (ConcurrencyConflictError ''concurrency_conflict''), ?v)" for t
    by (simp add: in_uow_def alone unit_of_work_def)
  then have "dispatch_execute S reg crash c (Suc depth) o' w =
      dispatch_execute S reg crash c depth o' (?v\<lparr>wd_turn := Suc (wd_turn ?v)\<rparr>)"
    using load_alone [OF alone, of "xc_operation_id c" ?v o'] Suc.prems
    by (simp add: ready claim_and_execute_def prepared bind_service_def run_simps try_else_def
        is_concurrency_conflict_def)
  with Suc.IH [of "?v\<lparr>wd_turn := Suc (wd_turn ?v)\<rparr>"] Suc.prems show ?case by simp
qed

text \<open>
  C25. An execute command whose version is neither the stored one nor one behind it never returns: on a READY
  operation with inline arguments and a registered effect, with nobody else at work, \<open>_dispatch\<close> and
  \<open>_claim_and_execute\<close> call each other without end. At whatever depth Python stops them, \<open>execute\<close>
  raises \<open>RecursionError\<close>, the journal and the provider untouched. (When the stored version is exactly one later
  than the expected one, the engine rejects the command and the call returns REJECTED.)
\<close>

theorem stale_execute_recurses_without_end:
  assumes "\<And>n j. su_others S n j = j" and "op_get (xc_operation_id command) (wd_journal w) = Some operation"
    and "list_all (op_pointers_ok (wd_journal w)) (j_operations (wd_journal w))"
    and "op_state operation = OS_READY"
    and "op_version operation \<notin> {xc_expected_version command, xc_expected_version command + 1}"
    and "descriptor_for registry (in_effect (op_intent operation)) = Inr d"
    and "in_arguments (op_intent operation) = Some arguments"
    and "adapter_for registry (in_effect (op_intent operation)) = Inr adapter"
    and "pa_verification_resource_ids adapter
      \<lparr>pq_effect = in_effect (op_intent operation), pq_arguments = arguments\<rparr> = Inr ids"
  shows "\<exists>w'. execute_operation S registry crash_after depth command w = (Inl PyRecursionError, w') \<and>
    wd_journal w' = wd_journal w \<and> wd_calls w' = wd_calls w"
proof -
  have "execute_operation S registry crash_after depth command w =
      dispatch_execute S registry crash_after command depth operation (w\<lparr>wd_turn := Suc (wd_turn w)\<rparr>)"
    using load_alone [OF assms(1-3)] by (simp add: execute_operation_def bind_service_def)
  with dispatch_stale [OF assms(1,4-9), of "w\<lparr>wd_turn := Suc (wd_turn w)\<rparr>"] assms(2,3) show ?thesis by simp
qed

section \<open>Startup recovery\<close>

lemma make_result_simps [simp]:
  "rt_disposition (make_result d rc o' t ev v) = d" "rt_reason_code (make_result d rc o' t ev v) = rc"
  "rt_operation (make_result d rc o' t ev v) = o'" "rt_transition (make_result d rc o' t ev v) = t"
  "rt_evidence (make_result d rc o' t ev v) = ev"
  by (simp_all add: make_result_def)

lemma accepted_simps [simp]:
  "rt_operation (accepted_or_rejected t ev) = tr_operation t" "rt_transition (accepted_or_rejected t ev) = Some t"
  "rt_evidence (accepted_or_rejected t ev) = ev"
  by (simp_all add: accepted_or_rejected_def)

lemma apply_kind_evidence:
  assumes "apply_execution_kind S registry operation a actor correlation_id ids ev w = (Inr r, w')"
  shows "rt_transition r = None \<or> rt_evidence r = Some ev"
proof (cases "op_current_policy_decision_id operation")
  case None
  with assms show ?thesis unfolding apply_execution_kind_def by (simp add: run_simps) (metis make_result_simps(4))
next
  case (Some p)
  with assms obtain x v where "(case x of
      None \<Rightarrow> return_service (make_result RT_REJECTED ''policy_missing'' (Some operation) None None None)
    | Some result \<Rightarrow> return_service (accepted_or_rejected result (Some ev))) v = (Inr r, w')"
    unfolding apply_execution_kind_def by (simp only: option.case bind_service_Inr) blast
  then show ?thesis by (cases x) (simp_all add: run_simps, metis make_result_simps(4), metis accepted_simps(3))
qed

lemma unknown_committed:
  assumes "unknown_without_completing S command operation actor w = (Inr r, w')"
    and "rt_transition r = Some t" and "tr_outcome t = TO_APPLIED"
  shows "\<exists>b. op_get (op_id operation) (wd_journal w') = Some b \<and> op_state b = OS_UNKNOWN \<and> rt_operation r = Some b"
proof -
  let ?c = "\<lambda>at. \<lparr>oc_kind = TK_EXECUTION_UNKNOWN, oc_operation_id = op_id operation,
      oc_expected_version = op_version operation, oc_occurred_at = at,
      oc_actor = Some actor, oc_correlation_id = rc_correlation_id command,
      oc_reason_code = ''execution_unknown'',
      oc_transition_audit_event_id = ri_execution_transition_audit_event_id (rc_ids command),
      oc_body = ExecutionUnknown None (ri_evidence_audit_event_id (rc_ids command))
        (ri_execution_outbox_event_id (rc_ids command))\<rparr>"
  from assms(1) obtain at v result where uow: "in_uow S (apply_command (OperationCommand (?c at))) v = (Inr result, w')"
    and r: "r = accepted_or_rejected result None"
    unfolding unknown_without_completing_def Let_def
    by (simp add: bind_service_Inr run_simps split: if_split_asm) blast
  from r assms(2) have t: "result = t" "rt_operation r = tr_operation t"
    by simp_all
  have "apply_command (OperationCommand (?c at)) (su_others S (wd_turn v) (wd_journal v)) = Inr (t, wd_journal w')"
    using in_uow_Inr [OF uow] t(1) by simp
  from applied_target [OF this assms(3)] show ?thesis unfolding t by simp
qed

lemma recover_started:
  assumes "recover_operation S registry command w = (Inr r, w')" and "rt_evidence r = None"
    and "rt_transition r = Some t" and "tr_outcome t = TO_APPLIED"
  shows "\<exists>b. op_get (rc_operation_id command) (wd_journal w') = Some b \<and> op_state b = OS_UNKNOWN \<and> rt_operation r = Some b"
proof -
  let ?actor = "case rc_actor command of None \<Rightarrow> RUNTIME_RECOVERY_ACTOR | Some a \<Rightarrow> a"
  from assms(1) obtain o' v where load: "load_operation S (rc_operation_id command) w = (Inr o', v)"
    and rest: "(let answer = (\<lambda>d r. return_service (make_result d r (Some o') None None None)) in
      if op_state o' = OS_PENDING_POLICY then answer RT_REJECTED ''not_ready''
      else if op_state o' = OS_READY then answer RT_ACCEPTED ''accepted''
      else if op_state o' = OS_EXECUTING
      then bind_service (latest_attempt S o') (\<lambda>attempt.
        case attempt of
          None \<Rightarrow> answer RT_REJECTED ''unsupported_state''
        | Some a \<Rightarrow>
            if att_state a = AS_STARTED then unknown_without_completing S command o' ?actor
            else bind_service (lift_service (evidence_from_attempt a)) (\<lambda>evidence.
              apply_execution_kind S registry o' a (Some ?actor) (rc_correlation_id command)
                (rc_ids command) evidence))
      else if op_state o' \<in> set RECOVER_ALREADY then answer RT_ACCEPTED ''already_applied''
      else answer RT_REJECTED ''unsupported_state'') v = (Inr r, w')"
    unfolding recover_operation_def bind_service_Inr Let_def by blast
  have id: "op_id o' = rc_operation_id command" using load op_get_key
    by (auto simp: load_operation_def dest!: in_uow_Inr split: option.split_asm)
  have no_answer: "return_service (make_result d rc op None None None) x \<noteq> (Inr r, y)" for d rc op x y
    using assms(3) by (auto simp: run_simps make_result_def)
  have executing: "op_state o' = OS_EXECUTING" using rest no_answer by (auto simp: Let_def split: if_split_asm)
  then obtain attempt x where branch: "(case attempt of
          None \<Rightarrow> return_service (make_result RT_REJECTED ''unsupported_state'' (Some o') None None None)
        | Some a \<Rightarrow>
            if att_state a = AS_STARTED then unknown_without_completing S command o' ?actor
            else bind_service (lift_service (evidence_from_attempt a)) (\<lambda>evidence.
              apply_execution_kind S registry o' a (Some ?actor) (rc_correlation_id command)
                (rc_ids command) evidence)) x = (Inr r, w')"
    using rest by (simp add: Let_def bind_service_Inr) blast
  then obtain a where a: "attempt = Some a" using no_answer by (cases attempt) auto
  have "unknown_without_completing S command o' ?actor x = (Inr r, w')"
  proof (cases "att_state a = AS_STARTED")
    case False
    with branch a obtain ev y where "apply_execution_kind S registry o' a (Some ?actor) (rc_correlation_id command)
        (rc_ids command) ev y = (Inr r, w')"
      by (simp add: bind_service_Inr) blast
    from apply_kind_evidence [OF this] assms(2,3) show ?thesis by simp
  qed (use branch a in simp)
  from unknown_committed [OF this assms(3,4)] id show ?thesis by simp
qed

text \<open>
  What a crash after the claim leaves behind: the operation EXECUTING, its latest attempt STARTED. Nobody knows
  whether the provider acted.
\<close>

definition left_behind :: "opaque_id \<Rightarrow> operation \<Rightarrow> execution_attempt \<Rightarrow> journal \<Rightarrow> bool" where
  "left_behind i o' a j \<longleftrightarrow> op_get i j = Some o' \<and> op_state o' = OS_EXECUTING \<and>
     op_latest_attempt_id o' = Some (att_id a) \<and> at_get (att_id a) j = Some a \<and> att_operation_id a = i \<and>
     att_state a = AS_STARTED"

text \<open>
  What the database asks of the command: ids no row has, a clock not behind the operation, an attempt id that is
  no secret, in a journal the system wrote.
\<close>

definition ids_are_new :: "recover_ids \<Rightarrow> journal \<Rightarrow> bool" where
  "ids_are_new ids j \<longleftrightarrow>
     ri_evidence_audit_event_id ids \<noteq> ri_execution_transition_audit_event_id ids \<and>
     {ri_evidence_audit_event_id ids, ri_execution_transition_audit_event_id ids} \<inter>
       set (tbl_keys au_id (j_audit_events j)) = {} \<and>
     ri_execution_outbox_event_id ids \<notin> set (tbl_keys ox_id (j_outbox_events j))"

definition can_mark_unknown :: "recover_ids \<Rightarrow> utc_timestamp \<Rightarrow> operation \<Rightarrow> execution_attempt \<Rightarrow> journal \<Rightarrow> bool" where
  "can_mark_unknown ids at o' a j \<longleftrightarrow>
     reachable j \<and> list_all (\<lambda>x. validate_operation x = Inr ()) (j_operations j) \<and> ids_are_new ids j \<and>
     \<not> at < op_created_at o' \<and> \<not> value_is_forbidden (oid_value (att_id a))"

definition unknown_command ::
  "utc_timestamp \<Rightarrow> principal_ref \<Rightarrow> string option \<Rightarrow> recover_ids \<Rightarrow> operation \<Rightarrow> op_command" where
  "unknown_command at actor correlation ids o' =
     \<lparr>oc_kind = TK_EXECUTION_UNKNOWN, oc_operation_id = op_id o', oc_expected_version = op_version o',
      oc_occurred_at = at, oc_actor = Some actor, oc_correlation_id = correlation,
      oc_reason_code = ''execution_unknown'',
      oc_transition_audit_event_id = ri_execution_transition_audit_event_id ids,
      oc_body = ExecutionUnknown None (ri_evidence_audit_event_id ids) (ri_execution_outbox_event_id ids)\<rparr>"

lemma unknown_performs:
  assumes "left_behind (op_id o') o' a j"
  shows "apply_command (OperationCommand (unknown_command at actor correlation ids o')) j =
    perform_operation (unknown_command at actor correlation ids o') o'
      (load_related (unknown_command at actor correlation ids o') o' j) j"
proof -
  have legal: "td_verdict (evaluate_operation_transition (Some OS_EXECUTING) OS_UNKNOWN) = TV_LEGAL"
    "OS_EXECUTING \<notin> set ABSOLUTE_TERMINAL_STATES" by code_simp+
  have crash: "cd_interpretation (interpret_execution_crash OS_EXECUTING (Some AS_STARTED)) = CI_POTENTIALLY_UNKNOWN"
    by code_simp
  have loaded: "rr_loaded_attempt (load_related c o' j) = Some a" for c
    using assms by (simp add: load_related_def left_behind_def Let_def)
  have "evaluate_preconditions (unknown_command at actor correlation ids o') o'
      (load_related (unknown_command at actor correlation ids o') o' j) = Inr None"
    using assms loaded crash
    by (simp add: evaluate_preconditions_def check_actor_def check_outbox_id_def check_body_def
        check_execution_attempt_complete_def unknown_command_def left_behind_def OUTBOX_COMMAND_FOR_KIND_def
        outbox_event_id_of_def Let_def)
  with assms legal show ?thesis
    by (simp add: apply_command_def apply_operation_def left_behind_def Let_def) (simp add: unknown_command_def)
qed


abbreviation become_unknown :: "operation \<Rightarrow> utc_timestamp \<Rightarrow> operation" where
  "become_unknown o' at \<equiv> o'\<lparr>op_state := OS_UNKNOWN, op_version := op_version o' + 1, op_updated_at := at\<rparr>"

lemma unknown_writes:
  "write_related (unknown_command at actor correlation ids o') related j = Inr (rr_compensation related, j)"
  by (simp add: write_related_def unknown_command_def write_policy_def write_requested_approval_def
      write_decided_approval_def write_claimed_attempt_def write_completed_attempt_def write_verification_request_def
      write_verification_result_def write_reconciliation_def write_started_compensation_def
      write_compensation_attempt_def write_compensation_verification_def write_compensation_state_def
      body_simps COMPENSATION_TARGET_STATE_def Let_def)

lemma unknown_replaces:
  "replace_for_kind (unknown_command at actor correlation ids o') o' OS_UNKNOWN (op_version o' + 1) =
     make_operation (become_unknown o' at)"
  by (simp add: replace_for_kind_def unknown_command_def replace_operation_def or_unchanged_def body_simps Let_def)

text \<open>What the applied command leaves: one row, two audit events and one piece of VERIFY work; the attempt stays STARTED.\<close>

definition marked_unknown :: "operation \<Rightarrow> journal \<Rightarrow> operation \<Rightarrow> journal \<Rightarrow> bool" where
  "marked_unknown o' j b j' \<longleftrightarrow>
     op_get (op_id o') j' = Some b \<and> op_state b = OS_UNKNOWN \<and> op_version b = op_version o' + 1 \<and>
     j_attempts j' = j_attempts j \<and>
     (\<exists>e. j_outbox_events j' = j_outbox_events j @ [e] \<and> ox_state e = OB_PENDING \<and> ox_command e = WC_VERIFY \<and>
        ox_aggregate_id e = op_id o' \<and> ox_operation_version e = op_version b)"

lemma unknown_performed:
  assumes left: "left_behind (op_id o') o' a j"
    and run: "perform_operation (unknown_command at actor correlation ids o') o' related j = Inr (r, j')"
  shows "tr_outcome r = TO_APPLIED \<and> tr_operation r = Some (become_unknown o' at) \<and>
      marked_unknown o' j (become_unknown o' at) j'"
    and "list_all (op_pointers_ok j) (j_operations j) \<Longrightarrow> list_all (op_pointers_ok j') (j_operations j')"
proof -
  let ?c = "unknown_command at actor correlation ids o'" and ?b = "become_unknown o' at"
  have kind: "KIND_TO_EDGE (oc_kind ?c) = (Some OS_EXECUTING, OS_UNKNOWN)"
    by (simp add: unknown_command_def)
  from run obtain jb es jc out
    where cas: "op_update_cas (op_version o') ?b j = Inr jb"
      and aud: "append_audits ?c o' ?b related jb = Inr (es, jc)"
      and ox: "insert_outbox ?c ?b jc = Inr (out, j')"
      and r: "r = applied (OpKind (oc_kind ?c)) ?b (rr_compensation related) es out (Some OS_EXECUTING) OS_UNKNOWN"
    unfolding perform_operation_Inr kind unknown_writes unknown_replaces
    by (auto simp: kind unknown_replaces make_operation_Inr) (simp add: unknown_command_def)
  note jc = append_audits_events(1) [OF aud]
  have jb: "jb = j\<lparr>j_operations := tbl_set op_id (op_id o') (\<lambda>_. ?b) (j_operations j)\<rparr>"
    using cas by (simp add: op_update_cas_Inr)
  obtain e where e: "j' = jc\<lparr>j_outbox_events := j_outbox_events jc @ [e]\<rparr>"
    "ox_command e = WC_VERIFY" "ox_aggregate_id e = op_id o'" "ox_operation_version e = op_version o' + 1"
    "ox_state e = OB_PENDING"
    using ox by (auto simp: insert_outbox_def unknown_command_def OUTBOX_COMMAND_FOR_KIND_def body_simps
        build_outbox_event_def make_outbox_event_def ox_insert_Inr)
  have stored: "tbl_get op_id (op_id o') (j_operations j) = Some o'"
    using left by (simp add: left_behind_def op_get_def)
  then have "op_get (op_id o') j' = Some ?b"
    by (simp add: e jc jb op_get_def tbl_get_set_same)
  then show "tr_outcome r = TO_APPLIED \<and> tr_operation r = Some ?b \<and> marked_unknown o' j ?b j'"
    using e by (simp add: r jc jb applied_def marked_unknown_def)
  assume "list_all (op_pointers_ok j) (j_operations j)"
  then show "list_all (op_pointers_ok j') (j_operations j')"
    using tbl_get_Some_mem [OF stored] by (auto simp: e jc jb list_all_iff op_pointers_ok_def tbl_set_def)
qed

lemma next_sequence:
  assumes "reachable j"
  shows "1 \<le> au_next_sequence i j"
    and "e \<in> set (j_audit_events j) \<Longrightarrow> au_operation_id e = i \<Longrightarrow> au_sequence e < au_next_sequence i j"
proof -
  obtain n where n: "map au_sequence (filter (\<lambda>e. au_operation_id e = i) (j_audit_events j)) = map int [1..<Suc n]"
    using reachable_audit [OF assms, of i] unfolding aulog.contiguous_def by blast
  from au_next_sequence_upt [OF this] show "1 \<le> au_next_sequence i j" by simp
  assume "e \<in> set (j_audit_events j)" "au_operation_id e = i"
  then have "au_sequence e \<in> set (map int [1..<Suc n])" unfolding n [symmetric] by simp
  then show "au_sequence e < au_next_sequence i j" unfolding au_next_sequence_upt [OF n] by auto
qed

text \<open>The two audit events of the transition: the crash and the move. Neither holds a secret.\<close>

lemma crash_data_clean:
  assumes "\<not> value_is_forbidden value"
  shows "\<exists>d. audit_data [kind_pair (unknown_command at actor correlation ids o'), (''attempt_id'', Some value),
      (''crash_interpretation'', Some (crash_interpretation_value
        (cd_interpretation (interpret_execution_crash OS_EXECUTING (Some AS_STARTED)))))] = Inr d \<and>
    reject_secrets_in_json d = Inr ()"
    and "\<exists>d. audit_data [kind_pair (unknown_command at actor correlation ids o')] = Inr d \<and>
    reject_secrets_in_json d = Inr ()"
proof -
  have fixed: "\<not> value_is_forbidden ''EXECUTION_UNKNOWN''" "\<not> key_is_forbidden ''kind''" "\<not> key_is_forbidden ''attempt_id''"
    "\<not> key_is_forbidden ''crash_interpretation''"
    "\<not> value_is_forbidden (crash_interpretation_value
        (cd_interpretation (interpret_execution_crash OS_EXECUTING (Some AS_STARTED))))"
    by code_simp+
  with assms show "\<exists>d. audit_data [kind_pair (unknown_command at actor correlation ids o'), (''attempt_id'', Some value),
      (''crash_interpretation'', Some (crash_interpretation_value
        (cd_interpretation (interpret_execution_crash OS_EXECUTING (Some AS_STARTED)))))] = Inr d \<and>
    reject_secrets_in_json d = Inr ()"
    by (simp add: audit_data_def kind_pair_def unknown_command_def ALLOWED_AUDIT_DATA_KEYS_def reject_secrets_in_json_def
        make_json_object_def)
  from fixed show "\<exists>d. audit_data [kind_pair (unknown_command at actor correlation ids o')] = Inr d \<and>
    reject_secrets_in_json d = Inr ()"
    by (simp add: audit_data_def kind_pair_def unknown_command_def ALLOWED_AUDIT_DATA_KEYS_def reject_secrets_in_json_def
        make_json_object_def)
qed

lemma unknown_audited:
  assumes reach: "reachable j" and left: "left_behind (op_id o') o' a j" and new: "ids_are_new ids j"
    and clean: "\<not> value_is_forbidden (oid_value (att_id a))" and "1 \<le> op_version o'"
    and audit: "j_audit_events k = j_audit_events j" and row: "op_exists (op_id o') k"
    and loaded: "rr_loaded_attempt related = Some a"
  shows "\<exists>es k'. append_audits (unknown_command at actor correlation ids o') o' (become_unknown o' at) related k =
    Inr (es, k')"
proof -
  let ?c = "unknown_command at actor correlation ids o'" and ?n = "au_next_sequence (op_id o') k"
  let ?event = "\<lambda>i n t d. \<lparr>au_contract_version = CONTRACT_VERSION, au_id = i, au_operation_id = op_id o',
      au_sequence = ?n + n, au_event_type = t, au_from_state = Some OS_EXECUTING, au_to_state = Some OS_UNKNOWN,
      au_operation_version = op_version o' + 1, au_actor = Some actor, au_reason_code = ''execution_unknown'',
      au_data = d, au_correlation_id = correlation, au_created_at = at\<rparr>"
  obtain d1 d2 where data: "audit_data [kind_pair ?c, (''attempt_id'', Some (oid_value (att_id a))),
      (''crash_interpretation'', Some (crash_interpretation_value
        (cd_interpretation (interpret_execution_crash OS_EXECUTING (Some AS_STARTED)))))] = Inr d1"
    "reject_secrets_in_json d1 = Inr ()" "audit_data [kind_pair ?c] = Inr d2" "reject_secrets_in_json d2 = Inr ()"
    using crash_data_clean [OF clean] by meson
  have n: "?n = au_next_sequence (op_id o') j" using audit by (intro au_next_sequence_cong) simp
  have "1 \<le> ?n" and fresh: "\<And>e. e \<in> set (j_audit_events k) \<Longrightarrow> au_operation_id e = op_id o' \<Longrightarrow> au_sequence e < ?n"
    unfolding n audit using next_sequence [OF reach] by blast+
  then have unused: "au_sequence e \<noteq> ?n" "au_sequence e \<noteq> ?n + 1"
    if "e \<in> set (j_audit_events j)" "au_operation_id e = op_id o'" for e
    using that unfolding audit by force+
  let ?i1 = "ri_evidence_audit_event_id ids" and ?i2 = "ri_execution_transition_audit_event_id ids"
  let ?e1 = "?event ?i1 0 AE_EXECUTION_EVIDENCE_RECORDED d1" and ?e2 = "?event ?i2 1 AE_OPERATION_TRANSITIONED d2"
  have "audit_plan ?c o' related = [crash_entry ?c related ?i1, transition_entry ?c]"
    by (simp add: audit_plan_def detail_entries_def unknown_command_def body_simps)
  moreover have "plan_event ?c (op_id o') (op_version (become_unknown o' at)) ?n (0, crash_entry ?c related ?i1) = Inr ?e1"
    using data \<open>1 \<le> ?n\<close> assms(5) loaded
    by (simp add: plan_event_def crash_entry_def build_audit_event_def make_audit_event_def validate_audit_event_def)
      (simp add: unknown_command_def)
  moreover have "plan_event ?c (op_id o') (op_version (become_unknown o' at)) ?n (1, transition_entry ?c) = Inr ?e2"
    using data \<open>1 \<le> ?n\<close> assms(5)
    by (simp add: plan_event_def transition_entry_def build_audit_event_def make_audit_event_def validate_audit_event_def)
      (simp add: unknown_command_def)
  moreover have "\<exists>k'. append_events [?e1, ?e2] k = Inr k'"
    using new row unused audit
    by (auto simp: au_append_def ids_are_new_def tbl_keys_def list_all_iff op_exists_def)
  ultimately show ?thesis by (auto simp: append_audits_def Let_def)
qed

lemma unknown_succeeds:
  assumes left: "left_behind (op_id o') o' a j" and can: "can_mark_unknown ids at o' a j"
  shows "\<exists>r j'. perform_operation (unknown_command at actor correlation ids o') o'
    (load_related (unknown_command at actor correlation ids o') o' j) j = Inr (r, j')"
proof -
  let ?c = "unknown_command at actor correlation ids o'" and ?b = "become_unknown o' at"
  let ?related = "load_related ?c o' j"
  have reach: "reachable j" and valid: "list_all (\<lambda>x. validate_operation x = Inr ()) (j_operations j)"
    and new: "ids_are_new ids j" and clock: "\<not> at < op_created_at o'"
    and clean: "\<not> value_is_forbidden (oid_value (att_id a))"
    using can by (simp_all add: can_mark_unknown_def)
  let ?jb = "j\<lparr>j_operations := tbl_set op_id (op_id o') (\<lambda>_. ?b) (j_operations j)\<rparr>"
  have stored: "op_get (op_id o') j = Some o'" and loaded: "rr_loaded_attempt ?related = Some a"
    using left by (simp_all add: left_behind_def load_related_def Let_def)
  have "o' \<in> set (j_operations j)" using stored tbl_get_Some_mem unfolding op_get_def by fast
  with valid have "validate_operation o' = Inr ()" by (simp add: list_all_iff)
  then have b: "make_operation ?b = Inr ?b" "1 \<le> op_version o'"
    using clock by (auto simp: make_operation_def validate_operation_def INITIAL_OPERATION_VERSION_def)
  have "op_idempotency_identity x = operation_idempotency_identity (op_id x)" if "x \<in> set (j_operations j)" for x
    using that valid by (auto simp: list_all_iff validate_operation_def)
  with stored have "op_idempotency_identity x \<noteq> op_idempotency_identity o'"
    if "x \<in> set (j_operations j)" "op_id x \<noteq> op_id o'" for x
    using that tbl_get_Some_mem operation_identity_inject unfolding op_get_def by metis
  then have cas: "op_update_cas (op_version o') ?b j = Inr ?jb"
    using stored by (auto simp: op_update_cas_Inr list_all_iff)
  have row: "op_exists (op_id o') ?jb"
  proof -
    have "tbl_get op_id (op_id o') (j_operations ?jb) = Some ?b" using stored by (simp add: op_get_def tbl_get_set_same)
    then show ?thesis unfolding op_exists_def using tbl_get_None_iff by force
  qed
  then obtain es jc where aud: "append_audits ?c o' ?b ?related ?jb = Inr (es, jc)"
    using unknown_audited [where at = at and actor = actor and correlation = correlation,
        OF reach left new clean b(2) _ row loaded] by auto
  have "\<exists>out j'. insert_outbox ?c ?b jc = Inr (out, j')"
    using new b(2) row append_audits_events(1) [OF aud]
    by (auto simp: insert_outbox_def unknown_command_def OUTBOX_COMMAND_FOR_KIND_def body_simps
        build_outbox_event_def make_outbox_event_def validate_outbox_event_def ox_insert_def ids_are_new_def op_exists_def)
  then obtain out j' where "insert_outbox ?c ?b jc = Inr (out, j')" by blast
  moreover have "fst (KIND_TO_EDGE (oc_kind ?c)) = Some OS_EXECUTING" "snd (KIND_TO_EDGE (oc_kind ?c)) = OS_UNKNOWN"
    "oc_expected_version ?c = op_version o'"
    by (simp_all add: unknown_command_def)
  ultimately have "perform_operation ?c o' ?related j =
      Inr (applied (OpKind (oc_kind ?c)) ?b (rr_compensation ?related) es out (Some OS_EXECUTING) OS_UNKNOWN, j')"
    unfolding perform_operation_Inr unknown_writes using cas aud b unknown_replaces by fastforce
  then show ?thesis by blast
qed

lemma unknown_alone:
  assumes alone: "\<And>n j. su_others S n j = j" and left: "left_behind (op_id o') o' a (wd_journal w)"
    and run: "unknown_without_completing S command o' actor w = (r, w')"
  defines "c \<equiv> unknown_command (su_clock S (wd_clock w)) actor (rc_correlation_id command) (rc_ids command) o'"
  shows "case r of
      Inl e \<Rightarrow> wd_journal w' = wd_journal w
    | Inr result \<Rightarrow> \<exists>b. rt_disposition result = RT_ACCEPTED \<and> rt_evidence result = None \<and> rt_operation result = Some b \<and>
        marked_unknown o' (wd_journal w) b (wd_journal w')"
    and "list_all (op_pointers_ok (wd_journal w)) (j_operations (wd_journal w)) \<Longrightarrow>
      \<exists>x. perform_operation c o' (load_related c o' (wd_journal w)) (wd_journal w) = Inr x \<Longrightarrow> \<exists>result. r = Inr result"
proof -
  let ?j = "wd_journal w"
  have crash: "cd_interpretation (interpret_execution_crash OS_EXECUTING (Some AS_STARTED)) = CI_POTENTIALLY_UNKNOWN"
    by code_simp
  have body: "apply_command (OperationCommand c) ?j = perform_operation c o' (load_related c o' ?j) ?j"
    unfolding c_def by (rule unknown_performs [OF left])
  obtain x j' where uow: "unit_of_work (apply_command (OperationCommand c)) ?j = (x, j')"
    by (cases "unit_of_work (apply_command (OperationCommand c)) ?j")
  from run uow have r: "r = (case x of Inl e \<Rightarrow> Inl e | Inr t \<Rightarrow> Inr (accepted_or_rejected t None))" and j': "wd_journal w' = j'"
    unfolding c_def
    by (auto simp: unknown_without_completing_def crash Let_def bind_service_def clock_now_def in_uow_def alone
        return_service_def unknown_command_def split: sum.splits)
  show "case r of
      Inl e \<Rightarrow> wd_journal w' = wd_journal w
    | Inr result \<Rightarrow> \<exists>b. rt_disposition result = RT_ACCEPTED \<and> rt_evidence result = None \<and> rt_operation result = Some b \<and>
        marked_unknown o' (wd_journal w) b (wd_journal w')"
  proof (cases x)
    case (Inl e)
    then show ?thesis using uow unit_of_work_Inl [of "apply_command (OperationCommand c)" ?j e] by (simp add: r j')
  next
    case (Inr t)
    with uow body have "perform_operation c o' (load_related c o' ?j) ?j = Inr (t, j')"
      by (simp add: unit_of_work_Inr)
    from unknown_performed(1) [OF left this [unfolded c_def]]
    show ?thesis by (simp add: r j' Inr accepted_or_rejected_def make_result_def)
  qed
  assume ok: "list_all (op_pointers_ok ?j) (j_operations ?j)"
    and "\<exists>x. perform_operation c o' (load_related c o' ?j) ?j = Inr x"
  then obtain t k where p: "perform_operation c o' (load_related c o' ?j) ?j = Inr (t, k)" by auto
  then have "unit_of_work (apply_command (OperationCommand c)) ?j = (Inr t, k)"
    using unknown_performed(2) [OF left p [unfolded c_def] ok] by (simp add: unit_of_work_Inr body)
  with uow have "x = Inr t" by simp
  then show "\<exists>result. r = Inr result" by (simp add: r)
qed

lemma recover_left_behind:
  assumes alone: "\<And>n j. su_others S n j = j"
    and ok: "list_all (op_pointers_ok (wd_journal w)) (j_operations (wd_journal w))"
    and left: "left_behind (rc_operation_id command) o' a (wd_journal w)"
    and run: "recover_operation S registry command w = (r, w')"
  shows "\<exists>actor v. wd_journal v = wd_journal w \<and> wd_clock v = wd_clock w \<and>
    unknown_without_completing S command o' actor v = (r, w')"
proof -
  let ?actor = "case rc_actor command of None \<Rightarrow> RUNTIME_RECOVERY_ACTOR | Some a \<Rightarrow> a"
  let ?v = "w\<lparr>wd_turn := Suc (wd_turn w)\<rparr>"
  have "op_get (rc_operation_id command) (wd_journal w) = Some o'" using left by (simp add: left_behind_def)
  note load = load_alone [OF alone this ok]
  have "read_uow S (at_get (att_id a)) ?v = (Inr (Some a), ?v\<lparr>wd_turn := Suc (wd_turn ?v)\<rparr>)"
  proof -
    have "unit_of_work (\<lambda>j. Inr (at_get (att_id a) j, j)) (wd_journal w) = (Inr (Some a), wd_journal w)"
      using left ok by (simp add: unit_of_work_Inr left_behind_def)
    then show ?thesis by (simp add: read_uow_def in_uow_def alone)
  qed
  then have "recover_operation S registry command w =
      unknown_without_completing S command o' ?actor (?v\<lparr>wd_turn := Suc (wd_turn ?v)\<rparr>)"
    using left by (simp add: recover_operation_def bind_service_def load Let_def latest_attempt_def left_behind_def)
  with run show ?thesis by (intro exI [of _ ?actor] exI [of _ "?v\<lparr>wd_turn := Suc (wd_turn ?v)\<rparr>"]) simp
qed

text \<open>
  C20. What a crash during execution leaves behind is resolved without the provider: startup recovery makes no
  provider call, whatever the others do, and changes the journal by system steps only; when it answers with an
  applied transition but no evidence, the stored operation is UNKNOWN, never READY again. With nobody else at work,
  an operation left EXECUTING with a STARTED attempt is either marked UNKNOWN (one version later, accepted, without
  evidence, the attempt still STARTED, exactly one VERIFY event added to the outbox) or the call raises and the
  journal is as it was; and it is marked when the ids of the command are new, the clock is not behind the
  operation and the attempt's id passes for no secret.
\<close>

theorem startup_recovery_never_calls:
  assumes "others_follow S" and "recover_operation S registry command w = (r, w')"
  shows "later (wd_journal w) (wd_journal w') \<and> wd_calls w' = wd_calls w \<and>
    (\<forall>result t. r = Inr result \<and> rt_evidence result = None \<and> rt_transition result = Some t \<and>
       tr_outcome t = TO_APPLIED \<longrightarrow>
       (\<exists>b. op_get (rc_operation_id command) (wd_journal w') = Some b \<and> op_state b = OS_UNKNOWN \<and>
          rt_operation result = Some b)) \<and>
    (\<forall>o' a. (\<forall>n j. su_others S n j = j) \<and>
       list_all (op_pointers_ok (wd_journal w)) (j_operations (wd_journal w)) \<and>
       left_behind (rc_operation_id command) o' a (wd_journal w) \<longrightarrow>
       (case r of
          Inl e \<Rightarrow> wd_journal w' = wd_journal w
        | Inr result \<Rightarrow> \<exists>b. rt_disposition result = RT_ACCEPTED \<and> rt_evidence result = None \<and>
            rt_operation result = Some b \<and> marked_unknown o' (wd_journal w) b (wd_journal w')) \<and>
       (can_mark_unknown (rc_ids command) (su_clock S (wd_clock w)) o' a (wd_journal w) \<longrightarrow> (\<exists>result. r = Inr result)))"
proof -
  obtain cs where "later (wd_journal w) (wd_journal w')" "wd_calls w' = wd_calls w @ cs"
    "\<forall>(call, j) \<in> set cs. False"
    by (rule conforms_atD [OF conforms_at [OF recover_conforms [of S "\<lambda>_ _. False" 0]] assms])
  moreover from this have "cs = []" by (cases cs) auto
  moreover have "(case r of
          Inl e \<Rightarrow> wd_journal w' = wd_journal w
        | Inr result \<Rightarrow> \<exists>b. rt_disposition result = RT_ACCEPTED \<and> rt_evidence result = None \<and>
            rt_operation result = Some b \<and> marked_unknown o' (wd_journal w) b (wd_journal w')) \<and>
       (can_mark_unknown (rc_ids command) (su_clock S (wd_clock w)) o' a (wd_journal w) \<longrightarrow> (\<exists>result. r = Inr result))"
    if alone: "\<forall>n j. su_others S n j = j"
      and ok: "list_all (op_pointers_ok (wd_journal w)) (j_operations (wd_journal w))"
      and left: "left_behind (rc_operation_id command) o' a (wd_journal w)" for o' a
  proof -
    have left': "left_behind (op_id o') o' a (wd_journal w)"
      using left op_get_key by (auto simp: left_behind_def)
    obtain actor v where v: "wd_journal v = wd_journal w" "wd_clock v = wd_clock w"
      and run: "unknown_without_completing S command o' actor v = (r, w')"
      using recover_left_behind [OF _ ok left assms(2)] alone by blast
    from unknown_alone [OF _ _ run, unfolded v, of a] alone left' ok unknown_succeeds [OF left'] v
    show ?thesis by fastforce
  qed
  ultimately show ?thesis using assms(2) recover_started by fastforce
qed

end
