(* ===== verification/Submit_Properties.thy ===== *)
theory Submit_Properties
  imports Runtime_Submit Runtime_Properties
begin

text \<open>
  What a submission promises: it calls no provider, changes the journal by system steps, and an
  operation leaves PENDING_POLICY for the state the policy engine's verdict names, with the
  decision stored.
\<close>

section \<open>Submissions and the system\<close>

lemma submission_conforms [service_rules]:
  "conforms S P n (persist_policy S crash c o' ev)" "conforms S P n (apply_policy S reg policy crash c o')"
  "conforms S P n (proceed S reg policy crash c i t)"
  "conforms S P n (resolve_duplicate S reg policy crash c o' e)"
  "conforms S P n (create_and_decide S reg policy crash c o')"
proof -
  show persist: "conforms S P n (persist_policy S crash c o' ev)" for o' ev
    unfolding persist_policy_def by (intro service_rules)
  show app: "conforms S P n (apply_policy S reg policy crash c o')" for o'
    unfolding apply_policy_def by (intro service_rules persist)
  show proceed: "conforms S P n (proceed S reg policy crash c i t)" for i t
    unfolding proceed_def by (intro service_rules app)
  show dup: "conforms S P n (resolve_duplicate S reg policy crash c o' e)" for o' e
    unfolding resolve_duplicate_def by (intro service_rules proceed)
  show "conforms S P n (create_and_decide S reg policy crash c o')"
    unfolding create_and_decide_def by (intro service_rules proceed dup)
qed

lemma submit_conforms [service_rules]: "conforms S P n (submit_operation sha256 S reg policy crash c)"
  unfolding submit_operation_def Let_def
  by (intro service_rules) (auto simp: catches_def conforms_basic split: sb_error.split)

section \<open>The verdict\<close>

lemma policy_command_decision:
  assumes "policy_command c o' ev now = Inr cmd"
  shows "policy_decision_of (oc_body cmd) = Some (policy_decision_for (sc_ids c) o' ev now)"
    and "oc_operation_id cmd = op_id o'"
  using assms by (auto simp: policy_command_def policy_verdict_body_def Let_def policy_decision_of_def
      split: policy_verdict.split_asm)

definition decided ::
  "policy_engine \<Rightarrow> submit_command \<Rightarrow> runtime_result \<Rightarrow> journal \<Rightarrow> bool" where
  "decided policy c r j \<longleftrightarrow>
     (\<exists>a b descriptor ev now. op_get (op_id a) j = Some b \<and> rt_operation r = Some b \<and>
        policy (policy_inputs_for a descriptor (sc_deployment_environment c)) = Inr ev \<and>
        in_intent_digest (op_intent b) = in_intent_digest (op_intent a) \<and>
        op_state b = verdict_target (pe_verdict ev) \<and>
        op_current_policy_decision_id b = Some (si_policy_decision_id (sc_ids c)) \<and>
        po_get (si_policy_decision_id (sc_ids c)) j = Some (policy_decision_for (sc_ids c) a ev now))"

lemma runtime_crash_Inr: "runtime_crash a p w = (Inr x, w') \<longleftrightarrow> a \<noteq> Some p \<and> w' = w"
  by (auto simp: runtime_crash_def maybe_crash_def run_simps)

lemma persist_policy_decided:
  assumes run: "persist_policy S crash c a ev w = (Inr r, w')"
    and policy: "policy (policy_inputs_for a descriptor (sc_deployment_environment c)) = Inr ev"
    and t: "rt_transition r = Some t" "tr_outcome t = TO_APPLIED"
  shows "decided policy c r (wd_journal w')"
proof -
  from run t obtain now cmd v where cmd: "policy_command c a ev now = Inr cmd"
    and uow: "in_uow S (apply_command (OperationCommand cmd)) v = (Inr t, w')" and r: "rt_operation r = tr_operation t"
    unfolding persist_policy_def
    by (auto simp: bind_service_Inr run_simps runtime_crash_Inr split: if_split_asm)
  note app = in_uow_Inr [OF uow] and d = policy_command_decision [OF cmd]
  obtain a' b where a': "op_get (op_id a) (su_others S (wd_turn v) (wd_journal v)) = Some a'"
    and b: "op_get (op_id a) (wd_journal w') = Some b" "in_intent_digest (op_intent a') = in_intent_digest (op_intent a)"
      "op_state b = verdict_target (pe_verdict ev)"
      "op_current_policy_decision_id b = Some (si_policy_decision_id (sc_ids c))"
      "po_get (si_policy_decision_id (sc_ids c)) (wd_journal w') = Some (policy_decision_for (sc_ids c) a ev now)"
    using policy_decision_stored [OF app t(2) d(1)] d(2) by (auto simp: policy_decision_for_def)
  have "same_identity a' b"
    using later_operation [OF later_one [OF system_step.command [OF app]] a'] b(1) by auto
  with b policy r applied_operation [OF app t(2)] d(2) show ?thesis
    unfolding decided_def by (intro exI [of _ a] exI [of _ b] exI [of _ descriptor] exI [of _ ev] exI [of _ now])
      (simp add: same_identity_def)
qed

lemma apply_policy_decided:
  assumes "apply_policy S reg policy crash c a w = (Inr r, w')"
    and "rt_transition r = Some t" and "tr_outcome t = TO_APPLIED"
  shows "decided policy c r (wd_journal w')"
proof -
  from assms(1,2) obtain d ev v where "policy (policy_inputs_for a d (sc_deployment_environment c)) = Inr ev"
    and "persist_policy S crash c a ev v = (Inr r, w')"
    unfolding apply_policy_def
    by (auto simp: bind_service_Inr try_else_Inr run_simps split: if_split_asm)
  from persist_policy_decided [where policy = policy, OF this(2,1) assms(2,3)] show ?thesis .
qed

lemma loaded_refusal: "loaded_operation i result = Inl answer \<Longrightarrow> rt_transition answer = Some result \<and>
    (tr_outcome result = TO_APPLIED \<longrightarrow> tr_operation result = None)"
  by (auto simp: loaded_operation_def Let_def split: if_split_asm option.split_asm)

lemma proceed_decided:
  assumes "proceed S reg policy crash c i result w = (Inr r, w')"
    and "tr_outcome result = TO_APPLIED \<Longrightarrow> tr_operation result \<noteq> None"
    and t: "rt_transition r = Some t" "tr_outcome t = TO_APPLIED"
  shows "decided policy c r (wd_journal w')"
proof (cases "loaded_operation i result")
  case (Inl answer)
  with assms loaded_refusal [OF Inl] show ?thesis by (auto simp: proceed_def run_simps)
next
  case (Inr a)
  with assms(1) obtain v where "apply_policy S reg policy crash c a v = (Inr r, w')"
    by (auto simp: proceed_def bind_service_Inr)
  then show ?thesis using t by (rule apply_policy_decided)
qed

lemma created_operation_given:
  assumes "apply_command (CreateOperation c) j = Inr (r, j')" and "tr_outcome r = TO_APPLIED"
  shows "tr_operation r \<noteq> None"
  using assms
  by (auto simp: apply_command_def apply_create_def create_conflict_def rejected_def already_def applied_def Let_def
      split: if_split_asm option.split_asm)

lemma contract_clause:
  "(case e of ContractValidationError reason \<Rightarrow> Some (f reason) | _ \<Rightarrow> None) = Some h \<longleftrightarrow>
     (\<exists>reason. e = ContractValidationError reason \<and> h = f reason)"
  by (cases e) auto

text \<open>
  C13. A submission is decided by policy and calls nobody: whatever the others do, \<open>submit\<close> makes no
  provider call and changes the journal by system steps only; and when it answers with an
  applied transition, the stored operation is in the state of the verdict the policy engine gave
  for its intent (READY only on ALLOW), and points to the stored decision that says so.
\<close>

theorem submission_is_gated:
  assumes "others_follow S" and "submit_operation sha256 S registry policy crash_after command w = (r, w')"
  shows "later (wd_journal w) (wd_journal w') \<and> wd_calls w' = wd_calls w \<and>
    (\<forall>result t. r = Inr result \<and> rt_transition result = Some t \<and> tr_outcome t = TO_APPLIED \<longrightarrow>
       decided policy command result (wd_journal w'))"
proof -
  obtain cs where quiet: "later (wd_journal w) (wd_journal w')" "wd_calls w' = wd_calls w @ cs"
    "\<forall>(call, j) \<in> set cs. False"
    by (rule conforms_atD [OF conforms_at [OF submit_conforms [of S "\<lambda>_ _. False" 0]] assms])
  then have "cs = []" by (cases cs) auto
  have "decided policy command result (wd_journal w')"
    if "r = Inr result" and t: "rt_transition result = Some t" "tr_outcome t = TO_APPLIED" for result t
  proof -
    from assms(2) that obtain o' v where "create_and_decide S registry policy crash_after command o' v = (Inr result, w')"
      unfolding submit_operation_def Let_def
      by (auto simp: bind_service_Inr try_else_Inr run_simps contract_clause make_result_def split: if_split_asm)
    then obtain x transition where "proceed S registry policy crash_after command (op_intent o') transition x = (Inr result, w')"
      and "tr_outcome transition = TO_APPLIED \<Longrightarrow> tr_operation transition \<noteq> None"
      using t created_operation_given
      by (fastforce simp: create_and_decide_def resolve_duplicate_def bind_service_Inr try_else_Inr run_simps already_def
          split: if_split_asm option.split_asm dest!: in_uow_Inr)
    then show ?thesis using t by (rule proceed_decided)
  qed
  with quiet \<open>cs = []\<close> show ?thesis by auto
qed

end
