(* ===== verification/Reconciliation.thy ===== *)
theory Reconciliation
  imports Runtime_Execute
begin

text \<open>
  The pure half of recovery: budgets (\<^verbatim>\<open>recovery/budget.py\<close>, \<^verbatim>\<open>request.py\<close>), the reconciliation decision
  (\<^verbatim>\<open>recovery/reconcile.py\<close>) and the transition it maps to (\<^verbatim>\<open>recovery/kinds.py\<close>), with the laws that
  make it safe: contradictory evidence is never resolved automatically, a retry needs proof that
  the effect was not applied, and inconclusive verifications end after the recovery budget.
\<close>

section \<open>Budgets and requests\<close>

definition PHASE6_DEFAULT_RECOVERY_ATTEMPTS :: int where
  "PHASE6_DEFAULT_RECOVERY_ATTEMPTS = 3"

definition max_automatic_recovery_attempts :: "policy_obligations \<Rightarrow> int" where
  "max_automatic_recovery_attempts obligations =
     (case ob_max_automatic_recovery_attempts obligations of
        None \<Rightarrow> PHASE6_DEFAULT_RECOVERY_ATTEMPTS
      | Some v \<Rightarrow> if v < 1 then PHASE6_DEFAULT_RECOVERY_ATTEMPTS else v)"

definition completed_original_verification_count :: "verification_row list \<Rightarrow> int" where
  "completed_original_verification_count rows =
     int (length (filter (\<lambda>row. vq_target (fst row) = VT_ORIGINAL_EFFECT \<and> snd row \<noteq> None) rows))"

definition build_original_verification_request ::
  "operation \<Rightarrow> execution_attempt option \<Rightarrow> opaque_id \<Rightarrow> utc_timestamp \<Rightarrow> verification_request fallible" where
  "build_original_verification_request operation attempt verification_id requested_at =
   (let q = \<lparr>vq_contract_version = CONTRACT_VERSION, vq_id = verification_id,
          vq_operation_id = op_id operation, vq_operation_version = op_version operation,
          vq_target = VT_ORIGINAL_EFFECT, vq_target_attempt_id = map_option att_id attempt,
          vq_effect = in_effect (op_intent operation),
          vq_external_operation_id = Option.bind attempt att_external_operation_id,
          vq_external_resource_ids = (case attempt of None \<Rightarrow> [] | Some a \<Rightarrow> att_external_resource_ids a),
          vq_idempotency_identity = op_idempotency_identity operation,
          vq_provider_evidence_refs = [], vq_requested_at = requested_at\<rparr>
    in bind_err (validate_verification_request q) (\<lambda>_. Inr q))"

section \<open>The decision\<close>

record reconciliation_input =
  rn_operation :: operation
  rn_attempts :: "execution_attempt list"
  rn_verification_result :: verification_result
  rn_provider_descriptor :: effect_descriptor
  rn_policy_obligations :: policy_obligations

text \<open>The latest attempt's outcome (UNKNOWN while it is not completed) and number.\<close>

definition latest_execution :: "execution_attempt list \<Rightarrow> effect_outcome option \<times> int" where
  "latest_execution attempts =
     (if attempts = [] then (None, 0)
      else let latest = last attempts
           in (if att_state latest = AS_COMPLETED then att_outcome latest else Some EO_UNKNOWN,
               att_number latest))"

definition inconclusive_reason :: "string \<Rightarrow> error_kind option \<Rightarrow> string" where
  "inconclusive_reason code kind =
     (if code = ''ref.verify.transport'' then ''verification_transport''
      else if code = ''ref.verify.visibility_window'' then ''verification_visibility_window''
      else if code = ''ref.verify.malformed'' then ''verification_malformed''
      else if code = ''ref.verify.inconclusive'' then ''verification_inconclusive''
      else if kind = Some EK_MALFORMED_PROVIDER_RESPONSE then ''verification_malformed''
      else if kind = Some EK_TRANSIENT_TRANSPORT then ''verification_transport''
      else ''verification_inconclusive'')"

definition reconcile :: "reconciliation_input \<Rightarrow> int \<Rightarrow> reconciliation_decision" where
  "reconcile input completed_original_count =
   (let v = rn_verification_result input;
        desc = rn_provider_descriptor input;
        obs = rn_policy_obligations input;
        (latest_outcome, attempt_number) = latest_execution (rn_attempts input);
        cap_exec = max_automatic_attempts obs;
        cap_rec = max_automatic_recovery_attempts obs;
        code = (case vs_error v of None \<Rightarrow> '''' | Some e \<Rightarrow> er_code e);
        kind = map_option er_kind (vs_error v)
    in if vs_outcome v = EO_APPLIED
       then (if latest_outcome = Some EO_NOT_APPLIED
             then \<lparr>rd_action = RA_REQUIRE_MANUAL_INTERVENTION,
                   rd_reason_code = ''contradictory_execution_and_verification''\<rparr>
             else \<lparr>rd_action = RA_MARK_SUCCEEDED, rd_reason_code = ''verification_applied''\<rparr>)
       else if vs_outcome v = EO_NOT_APPLIED
       then (if latest_outcome = Some EO_APPLIED
             then \<lparr>rd_action = RA_REQUIRE_MANUAL_INTERVENTION,
                   rd_reason_code = ''contradictory_execution_and_verification''\<rparr>
             else
               let safety = evaluate_effect_retry_safety None (Some EO_NOT_APPLIED)
                     (ed_idempotency_mode desc) None (ed_provider_key_semantics desc) False
                     (ed_idempotency_mode desc = IM_NATURAL)
               in if rs_verdict safety = RV_SAFE \<and> attempt_number < cap_exec
                  then \<lparr>rd_action = RA_MAKE_READY_FOR_SAFE_RETRY,
                        rd_reason_code = ''verification_not_applied_retry''\<rparr>
                  else \<lparr>rd_action = RA_MARK_FAILED, rd_reason_code = ''verification_not_applied_fail''\<rparr>)
       else if kind = Some EK_UNSUPPORTED_CAPABILITY
       then \<lparr>rd_action = RA_REQUIRE_MANUAL_INTERVENTION, rd_reason_code = ''verification_unsupported''\<rparr>
       else if code = ''ref.verify.inconsistent''
       then \<lparr>rd_action = RA_REQUIRE_MANUAL_INTERVENTION, rd_reason_code = ''verification_inconsistent''\<rparr>
       else if completed_original_count \<ge> cap_rec
       then \<lparr>rd_action = RA_REQUIRE_MANUAL_INTERVENTION, rd_reason_code = ''recovery_budget_exhausted''\<rparr>
       else \<lparr>rd_action = RA_REMAIN_UNKNOWN, rd_reason_code = inconclusive_reason code kind\<rparr>)"

section \<open>From the decision to the transition\<close>

record recovery_kind_decision =
  rk_kind :: transition_kind
  rk_reason_code :: string

primrec VERIFYING_ACTIONS :: "reconciliation_action \<Rightarrow> transition_kind" where
  "VERIFYING_ACTIONS RA_MARK_SUCCEEDED = TK_VERIFICATION_APPLIED"
| "VERIFYING_ACTIONS RA_MARK_FAILED = TK_VERIFICATION_NOT_APPLIED_FAIL"
| "VERIFYING_ACTIONS RA_MAKE_READY_FOR_SAFE_RETRY = TK_VERIFICATION_NOT_APPLIED_RETRY"
| "VERIFYING_ACTIONS RA_REMAIN_UNKNOWN = TK_VERIFICATION_INCONCLUSIVE"
| "VERIFYING_ACTIONS RA_REQUIRE_MANUAL_INTERVENTION = TK_VERIFICATION_ESCALATE"

primrec UNKNOWN_ACTIONS :: "reconciliation_action \<Rightarrow> transition_kind option" where
  "UNKNOWN_ACTIONS RA_MARK_SUCCEEDED = Some TK_UNKNOWN_RECONCILE_APPLIED"
| "UNKNOWN_ACTIONS RA_MARK_FAILED = Some TK_UNKNOWN_RECONCILE_NOT_APPLIED"
| "UNKNOWN_ACTIONS RA_MAKE_READY_FOR_SAFE_RETRY = Some TK_UNKNOWN_SAFE_RETRY"
| "UNKNOWN_ACTIONS RA_REMAIN_UNKNOWN = None"
| "UNKNOWN_ACTIONS RA_REQUIRE_MANUAL_INTERVENTION = Some TK_UNKNOWN_ESCALATE"

definition decision_to_kind ::
  "operation_state \<Rightarrow> reconciliation_decision \<Rightarrow> recovery_kind_decision fallible" where
  "decision_to_kind state decision =
     (if state = OS_VERIFYING
      then Inr \<lparr>rk_kind = VERIFYING_ACTIONS (rd_action decision), rk_reason_code = rd_reason_code decision\<rparr>
      else if state = OS_UNKNOWN
      then (case UNKNOWN_ACTIONS (rd_action decision) of
              None \<Rightarrow> Inl (StatebackRecoveryError ''remain_unknown_noop'')
            | Some kind \<Rightarrow> Inr \<lparr>rk_kind = kind, rk_reason_code = rd_reason_code decision\<rparr>)
      else Inl (StatebackRecoveryError ''unsupported_state''))"

section \<open>What the decision promises\<close>

text \<open>What each action rests on, written down without the order of the code's tests.\<close>

definition justified ::
  "reconciliation_input \<Rightarrow> int \<Rightarrow> reconciliation_action \<Rightarrow> bool" where
  "justified input count action =
   (let v = vs_outcome (rn_verification_result input);
        executed = fst (latest_execution (rn_attempts input));
        number = snd (latest_execution (rn_attempts input));
        budget = max_automatic_attempts (rn_policy_obligations input);
        tries = max_automatic_recovery_attempts (rn_policy_obligations input);
        contradiction = (v \<noteq> EO_UNKNOWN \<and> executed \<in> {Some EO_APPLIED, Some EO_NOT_APPLIED} \<and> executed \<noteq> Some v)
    in case action of
         RA_MARK_SUCCEEDED \<Rightarrow> v = EO_APPLIED \<and> \<not> contradiction
       | RA_MAKE_READY_FOR_SAFE_RETRY \<Rightarrow> v = EO_NOT_APPLIED \<and> \<not> contradiction \<and> number < budget
       | RA_MARK_FAILED \<Rightarrow> v = EO_NOT_APPLIED \<and> \<not> contradiction \<and> number \<ge> budget
       | RA_REMAIN_UNKNOWN \<Rightarrow> v = EO_UNKNOWN \<and> count < tries \<and>
           (case vs_error (rn_verification_result input) of None \<Rightarrow> True
            | Some e \<Rightarrow> er_kind e \<noteq> EK_UNSUPPORTED_CAPABILITY \<and> er_code e \<noteq> ''ref.verify.inconsistent'')
       | RA_REQUIRE_MANUAL_INTERVENTION \<Rightarrow> contradiction \<or> v = EO_UNKNOWN \<and>
           (count \<ge> tries \<or> (case vs_error (rn_verification_result input) of None \<Rightarrow> False
            | Some e \<Rightarrow> er_kind e = EK_UNSUPPORTED_CAPABILITY \<or> er_code e = ''ref.verify.inconsistent'')))"

lemma not_applied_is_safe: "rs_verdict (evaluate_effect_retry_safety None (Some EO_NOT_APPLIED) m None s e t) = RV_SAFE"
  by (simp add: evaluate_effect_retry_safety_def)

lemma rd_action_if [simp]: "rd_action (if b then x else y) = (if b then rd_action x else rd_action y)"
  by simp

lemma reconcile_action:
  "rd_action (reconcile input count) =
   (let v = vs_outcome (rn_verification_result input);
        executed = fst (latest_execution (rn_attempts input));
        error = vs_error (rn_verification_result input)
    in if v = EO_APPLIED
       then if executed = Some EO_NOT_APPLIED then RA_REQUIRE_MANUAL_INTERVENTION else RA_MARK_SUCCEEDED
       else if v = EO_NOT_APPLIED
       then if executed = Some EO_APPLIED then RA_REQUIRE_MANUAL_INTERVENTION
            else if snd (latest_execution (rn_attempts input)) < max_automatic_attempts (rn_policy_obligations input)
            then RA_MAKE_READY_FOR_SAFE_RETRY else RA_MARK_FAILED
       else if map_option er_kind error = Some EK_UNSUPPORTED_CAPABILITY \<or>
         (case error of None \<Rightarrow> '''' | Some e \<Rightarrow> er_code e) = ''ref.verify.inconsistent'' \<or>
         count \<ge> max_automatic_recovery_attempts (rn_policy_obligations input)
       then RA_REQUIRE_MANUAL_INTERVENTION else RA_REMAIN_UNKNOWN)"
  by (cases "vs_outcome (rn_verification_result input)") (auto simp: reconcile_def Let_def split_def not_applied_is_safe)

text \<open>
  C26. Reconciliation decides by the evidence alone: whatever the input, the decision is the one
  action that evidence justifies. Success needs a verification that saw the effect, a retry one
  that saw it missing and an attempt left in the execution budget, evidence that contradicts
  itself always goes to a human, and an operation stays UNKNOWN only while the recovery budget
  lasts.
\<close>

theorem reconcile_is_justified:
  "justified input count action \<longleftrightarrow> rd_action (reconcile input count) = action"
proof (cases "vs_outcome (rn_verification_result input)")
  case EO_APPLIED
  then show ?thesis by (cases action) (auto simp: justified_def reconcile_action Let_def)
next
  case EO_NOT_APPLIED
  then show ?thesis by (cases action) (auto simp: justified_def reconcile_action Let_def)
next
  case EO_UNKNOWN
  then show ?thesis
    by (cases action; cases "vs_error (rn_verification_result input)") (auto simp: justified_def reconcile_action Let_def)
qed

end
