(* ===== verification/Recovery_Service.thy ===== *)
theory Recovery_Service
  imports Reconciliation
begin

text \<open>
  The effectful half of recovery: the verification cycle and the treatment of UNKNOWN and leftover
  EXECUTING operations (\<^verbatim>\<open>recovery/recover.py\<close>), verification evidence (\<^verbatim>\<open>recovery/evidence.py\<close>), the
  operator's verification (\<^verbatim>\<open>recovery/operator.py\<close>) and the scan (\<^verbatim>\<open>recovery/scan.py\<close>).
\<close>

section \<open>Commands and results\<close>

record recovery_ids =
  vi_verification_id :: opaque_id
  vi_verification_start_audit_event_id :: opaque_id
  vi_verification_complete_audit_event_id :: opaque_id
  vi_start_transition_audit_event_id :: opaque_id
  vi_start_outbox_event_id :: opaque_id
  vi_complete_transition_audit_event_id :: opaque_id
  vi_retry_outbox_event_id :: opaque_id
  vi_manual_audit_event_id :: opaque_id
  vi_reconciliation_decision_id :: opaque_id
  vi_reconciliation_audit_event_id :: opaque_id
  vi_execution_recover :: recover_ids

definition RECOVERY_ACTOR :: principal_ref where
  "RECOVERY_ACTOR =
     \<lparr>pr_type = PT_SERVICE, pr_id = ''stateback.recovery'', pr_display_name = Some ''RecoveryService''\<rparr>"

record recovery_command =
  vc_operation_id :: opaque_id
  vc_expected_version :: int
  vc_ids :: recovery_ids
  vc_actor :: "principal_ref option"
  vc_correlation_id :: "string option"

record scan_command =
  sn_ids_for :: "opaque_id \<Rightarrow> recovery_ids"
  sn_actor :: "principal_ref option"
  sn_correlation_id :: "string option"

record operator_verification_command =
  ov_operation_id :: opaque_id
  ov_expected_version :: int
  ov_ids :: recovery_ids
  ov_actor :: principal_ref
  ov_reason_code :: string
  ov_correlation_id :: "string option"

datatype recovery_crash_point = AFTER_START_COMMIT | AFTER_VERIFY_BEFORE_RESULT | AFTER_RESULT_COMMIT

primrec recovery_crash_point_value :: "recovery_crash_point \<Rightarrow> string" where
  "recovery_crash_point_value AFTER_START_COMMIT = ''after_start_commit''"
| "recovery_crash_point_value AFTER_VERIFY_BEFORE_RESULT = ''after_verify_before_result''"
| "recovery_crash_point_value AFTER_RESULT_COMMIT = ''after_result_commit''"

definition recovery_crash :: "recovery_crash_point option \<Rightarrow> recovery_crash_point \<Rightarrow> unit service" where
  "recovery_crash crash_after point = maybe_crash crash_after point (recovery_crash_point_value point)"

datatype recovery_disposition = RC_ACCEPTED | RC_REJECTED | RC_INFRASTRUCTURE_FAILURE

record recovery_result =
  ry_disposition :: recovery_disposition
  ry_reason_code :: string
  ry_operation :: "operation option"
  ry_transition :: "transition_result option"
  ry_verification_evidence :: "verification_evidence option"
  ry_decision :: "reconciliation_decision option"

definition make_recovery_result ::
  "recovery_disposition \<Rightarrow> string \<Rightarrow> operation option \<Rightarrow> transition_result option \<Rightarrow>
   verification_evidence option \<Rightarrow> reconciliation_decision option \<Rightarrow> recovery_result" where
  "make_recovery_result disposition reason_code operation transition evidence decision =
     \<lparr>ry_disposition = disposition, ry_reason_code = reason_code, ry_operation = operation,
      ry_transition = transition, ry_verification_evidence = evidence, ry_decision = decision\<rparr>"

abbreviation recovery_answer ::
  "recovery_disposition \<Rightarrow> string \<Rightarrow> operation option \<Rightarrow> recovery_result service" where
  "recovery_answer disposition reason operation \<equiv>
     return_service (make_recovery_result disposition reason operation None None None)"

section \<open>Evidence\<close>

definition result_from_evidence ::
  "opaque_id \<Rightarrow> verification_evidence \<Rightarrow> utc_timestamp \<Rightarrow> verification_result fallible" where
  "result_from_evidence verification_id evidence completed_at =
   (let r = \<lparr>vs_contract_version = CONTRACT_VERSION, vs_id = verification_id,
          vs_outcome = ve_outcome evidence, vs_evidence = ve_evidence evidence,
          vs_error = ve_error evidence, vs_completed_at = completed_at\<rparr>
    in bind_err (validate_verification_result r) (\<lambda>_. Inr r))"

definition evidence_of :: "verification_result \<Rightarrow> verification_evidence" where
  "evidence_of r =
     \<lparr>ve_outcome = vs_outcome r, ve_evidence = vs_evidence r, ve_error = vs_error r\<rparr>"

definition context_for_verify ::
  "operation \<Rightarrow> execution_attempt option \<Rightarrow> string option \<Rightarrow> provider_execution_context fallible" where
  "context_for_verify operation attempt correlation_id =
     (case (case attempt of Some a \<Rightarrow> Some (att_id a) | None \<Rightarrow> op_latest_attempt_id operation) of
        None \<Rightarrow> Inl PyAssertionError
      | Some attempt_id \<Rightarrow>
          Inr \<lparr>px_operation_id = op_id operation, px_attempt_id = attempt_id,
               px_idempotency_identity = op_idempotency_identity operation,
               px_provider_idempotency_key = Option.bind attempt att_provider_idempotency_key,
               px_correlation_id = correlation_id, px_deadline = None\<rparr>)"

text \<open>
  The clause around every verification and compensation call: unsupported effects and contract
  violations go on, any other \<open>Exception\<close> becomes UNKNOWN evidence, made by \<open>wrap\<close>.
\<close>

definition unclassified ::
  "surroundings \<Rightarrow> string \<Rightarrow> (effect_outcome \<Rightarrow> normalized_error \<Rightarrow> provider_evidence \<Rightarrow> 'a) \<Rightarrow> sb_error \<Rightarrow>
   'a service option" where
  "unclassified S provider wrap exc =
     (if exc = UnsupportedEffectError \<or> is_contract_error exc \<or> \<not> is_exception exc then None
      else Some (bind_service (clock_now S) (\<lambda>observed_at.
        bind_service (lift_service (evidence_for_unclassified_exception exc observed_at provider))
          (\<lambda>(outcome, error, ev). return_service (wrap outcome error ev)))))"

definition classified_verify ::
  "surroundings \<Rightarrow> provider_adapter \<Rightarrow> provider_execution_context \<Rightarrow> verification_request \<Rightarrow> string \<Rightarrow>
   verification_evidence service" where
  "classified_verify S adapter context request provider =
     try_else (call_verify adapter context request)
       (unclassified S provider (\<lambda>outcome error ev.
          \<lparr>ve_outcome = outcome, ve_evidence = ev, ve_error = Some error\<rparr>))
       return_service"

text \<open>\<open>replace\<close> validates the copy again; an equal effect leaves the request as it is.\<close>

definition request_with_registered_effect ::
  "capability_registry \<Rightarrow> verification_request \<Rightarrow> verification_request fallible" where
  "request_with_registered_effect registry request =
   bind_err (descriptor_for registry (vq_effect request)) (\<lambda>descriptor.
   if ed_effect descriptor = vq_effect request then Inr request
   else let q = request\<lparr>vq_effect := ed_effect descriptor\<rparr>
        in bind_err (validate_verification_request q) (\<lambda>_. Inr q))"

section \<open>Applying a transition\<close>

definition apply_transition ::
  "surroundings \<Rightarrow> op_command \<Rightarrow> (recovery_result + transition_result) service" where
  "apply_transition S command =
   (let answer = (\<lambda>d r. Some (return_service (Inl (make_recovery_result d r None None None None))))
    in try_else (in_uow S (apply_command (OperationCommand command)))
         (\<lambda>e. if is_not_found e then answer RC_REJECTED ''not_found''
              else if is_concurrency_conflict e then answer RC_INFRASTRUCTURE_FAILURE ''stale_version''
              else if is_persistence_error e then answer RC_INFRASTRUCTURE_FAILURE ''persist_failed''
              else None)
         (\<lambda>r. return_service (Inr r)))"

definition recovery_from_transition ::
  "transition_result \<Rightarrow> verification_evidence option \<Rightarrow> reconciliation_decision option \<Rightarrow> recovery_result" where
  "recovery_from_transition t evidence decision =
     (if tr_outcome t = TO_REJECTED
      then make_recovery_result RC_REJECTED (tr_reason_code t) (tr_operation t) (Some t) evidence decision
      else if tr_outcome t = TO_ALREADY_APPLIED
      then make_recovery_result RC_ACCEPTED ''already_applied'' (tr_operation t) (Some t) evidence decision
      else make_recovery_result RC_ACCEPTED ''accepted'' (tr_operation t) (Some t) evidence decision)"

definition from_apply ::
  "recovery_result + transition_result \<Rightarrow> operation \<Rightarrow> recovery_result" where
  "from_apply result operation =
     (case result of
        Inl r \<Rightarrow>
          if ry_operation r = None
          then make_recovery_result (ry_disposition r) (ry_reason_code r) (Some operation) None None None
          else r
      | Inr t \<Rightarrow> recovery_from_transition t None None)"

definition from_runtime_result :: "runtime_result \<Rightarrow> recovery_result" where
  "from_runtime_result r =
     (if rt_disposition r = RT_IN_FLIGHT
      then make_recovery_result RC_REJECTED ''in_flight_not_scanner_safe'' (rt_operation r)
             (rt_transition r) None None
      else make_recovery_result
             (if rt_disposition r = RT_ACCEPTED then RC_ACCEPTED
              else if rt_disposition r = RT_REJECTED then RC_REJECTED
              else RC_INFRASTRUCTURE_FAILURE)
             (rt_reason_code r) (rt_operation r) (rt_transition r) None None)"

section \<open>VERIFYING\<close>

definition verification_body ::
  "transition_kind \<Rightarrow> recovery_ids \<Rightarrow> verification_result \<Rightarrow> effect_descriptor \<Rightarrow> op_body" where
  "verification_body kind ids r descriptor =
     (if kind = TK_VERIFICATION_APPLIED
      then VerificationApplied r (vi_verification_complete_audit_event_id ids)
      else if kind = TK_VERIFICATION_NOT_APPLIED_FAIL
      then VerificationNotAppliedFail r (vi_verification_complete_audit_event_id ids)
      else if kind = TK_VERIFICATION_NOT_APPLIED_RETRY
      then VerificationNotAppliedRetry r (ed_idempotency_mode descriptor)
             (vi_verification_complete_audit_event_id ids) (vi_retry_outbox_event_id ids) None
      else if kind = TK_VERIFICATION_INCONCLUSIVE
      then VerificationInconclusive r (vi_verification_complete_audit_event_id ids)
      else VerificationEscalate (Some r) (vi_manual_audit_event_id ids))"

definition load_policy :: "surroundings \<Rightarrow> operation \<Rightarrow> policy_decision option service" where
  "load_policy S operation =
     (case op_current_policy_decision_id operation of
        None \<Rightarrow> return_service None | Some i \<Rightarrow> read_uow S (po_get i))"

definition apply_verification_kind ::
  "surroundings \<Rightarrow> capability_registry \<Rightarrow> recovery_command \<Rightarrow> principal_ref \<Rightarrow> operation \<Rightarrow>
   verification_result \<Rightarrow> recovery_result service" where
  "apply_verification_kind S registry command actor operation existing_result =
   bind_service (read_uow S (at_list_for_operation (op_id operation))) (\<lambda>attempts.
   bind_service (load_policy S operation) (\<lambda>policy.
   case policy of
     None \<Rightarrow> recovery_answer RC_REJECTED ''policy_missing'' (Some operation)
   | Some p \<Rightarrow>
       bind_service (lift_service (descriptor_for registry (in_effect (op_intent operation)))) (\<lambda>descriptor.
       bind_service (read_uow S (vf_list_for_operation (op_id operation))) (\<lambda>rows.
       let decision = reconcile
             \<lparr>rn_operation = operation, rn_attempts = attempts, rn_verification_result = existing_result,
              rn_provider_descriptor = descriptor, rn_policy_obligations = pd_obligations p\<rparr>
             (completed_original_verification_count rows)
       in bind_service (lift_service (decision_to_kind OS_VERIFYING decision)) (\<lambda>mapped.
          bind_service (clock_now S) (\<lambda>occurred_at.
          bind_service (apply_transition S
            \<lparr>oc_kind = rk_kind mapped, oc_operation_id = op_id operation,
             oc_expected_version = op_version operation, oc_occurred_at = occurred_at,
             oc_actor = Some actor, oc_correlation_id = vc_correlation_id command,
             oc_reason_code = rd_reason_code decision,
             oc_transition_audit_event_id = vi_complete_transition_audit_event_id (vc_ids command),
             oc_body = verification_body (rk_kind mapped) (vc_ids command) existing_result descriptor\<rparr>) (\<lambda>result.
          return_service (case result of
              Inl r \<Rightarrow> r
            | Inr t \<Rightarrow> recovery_from_transition t (Some (evidence_of existing_result)) (Some decision)))))))))"

definition attempt_for_request ::
  "surroundings \<Rightarrow> operation \<Rightarrow> verification_request \<Rightarrow> execution_attempt option service" where
  "attempt_for_request S operation request =
   bind_service (case vq_target_attempt_id request of
       None \<Rightarrow> return_service None | Some i \<Rightarrow> read_uow S (at_get i)) (\<lambda>loaded.
   case loaded of
     Some a \<Rightarrow> return_service (Some a)
   | None \<Rightarrow> latest_attempt S operation)"

text \<open>
  The provider's \<open>verify\<close> and the commit of its result, when the request has none yet: an answer
  that ends the cycle, or the result.
\<close>

definition commit_result ::
  "surroundings \<Rightarrow> recovery_crash_point option \<Rightarrow> operation \<Rightarrow> verification_request \<Rightarrow>
   verification_evidence \<Rightarrow> (recovery_result + verification_result) service" where
  "commit_result S crash_after operation request evidence =
   bind_service (recovery_crash crash_after AFTER_VERIFY_BEFORE_RESULT) (\<lambda>_.
   bind_service (clock_now S) (\<lambda>completed_at.
   bind_service (lift_service (result_from_evidence (vq_id request) evidence completed_at)) (\<lambda>result.
   try_else (in_uow S (persist_verification_result result))
     (\<lambda>e. if \<not> is_persistence_error e then None
          else Some (return_service (Inl (
            if persistence_reason e = ''not_found''
            then make_recovery_result RC_REJECTED ''verification_missing'' (Some operation) None None None
            else make_recovery_result RC_INFRASTRUCTURE_FAILURE ''persist_failed_after_verify''
                   (Some operation) None None None))))
     (\<lambda>_. bind_service (recovery_crash crash_after AFTER_RESULT_COMMIT) (\<lambda>_.
          return_service (Inr result))))))"

definition obtain_result ::
  "surroundings \<Rightarrow> capability_registry \<Rightarrow> recovery_crash_point option \<Rightarrow> recovery_command \<Rightarrow> operation \<Rightarrow>
   verification_request \<Rightarrow> (recovery_result + verification_result) service" where
  "obtain_result S registry crash_after command operation request =
   bind_service (attempt_for_request S operation request) (\<lambda>attempt.
   bind_service (lift_service (adapter_for registry (in_effect (op_intent operation)))) (\<lambda>adapter.
   bind_service (lift_service (context_for_verify operation attempt (vc_correlation_id command))) (\<lambda>context.
   bind_service (lift_service (request_with_registered_effect registry request)) (\<lambda>verify_request.
   bind_service (classified_verify S adapter context verify_request
     (ef_provider (in_effect (op_intent operation))))
     (commit_result S crash_after operation request)))))"

definition run_verifying_cycle ::
  "surroundings \<Rightarrow> capability_registry \<Rightarrow> recovery_crash_point option \<Rightarrow> recovery_command \<Rightarrow> principal_ref \<Rightarrow>
   operation \<Rightarrow> recovery_result service" where
  "run_verifying_cycle S registry crash_after command actor operation =
   (let refuse = (\<lambda>reason. recovery_answer RC_REJECTED reason (Some operation))
    in if op_state operation \<noteq> OS_VERIFYING then refuse ''source_state_mismatch''
       else case op_latest_verification_id operation of
         None \<Rightarrow> refuse ''verification_missing''
       | Some i \<Rightarrow>
           bind_service (read_uow S (vf_get i)) (\<lambda>loaded.
           case loaded of
             None \<Rightarrow> refuse ''verification_missing''
           | Some (request, existing) \<Rightarrow>
               if vq_target request \<noteq> VT_ORIGINAL_EFFECT then refuse ''verification_outcome_mismatch''
               else bind_service (case existing of
                   Some r \<Rightarrow> return_service (Inr r)
                 | None \<Rightarrow> obtain_result S registry crash_after command operation request) (\<lambda>obtained.
                 case obtained of
                   Inl answer \<Rightarrow> return_service answer
                 | Inr result \<Rightarrow> apply_verification_kind S registry command actor operation result)))"

section \<open>UNKNOWN and EXECUTING\<close>

definition recover_executing ::
  "surroundings \<Rightarrow> capability_registry \<Rightarrow> recovery_command \<Rightarrow> principal_ref \<Rightarrow> recovery_result service" where
  "recover_executing S registry command actor =
   bind_service (recover_operation S registry
     \<lparr>rc_operation_id = vc_operation_id command, rc_expected_version = vc_expected_version command,
      rc_ids = vi_execution_recover (vc_ids command), rc_actor = Some actor,
      rc_correlation_id = vc_correlation_id command\<rparr>) (\<lambda>r.
   return_service (from_runtime_result r))"

definition unknown_without_verify ::
  "surroundings \<Rightarrow> capability_registry \<Rightarrow> recovery_command \<Rightarrow> principal_ref \<Rightarrow> operation \<Rightarrow> effect_descriptor \<Rightarrow>
   execution_attempt list \<Rightarrow> policy_decision \<Rightarrow> recovery_result service" where
  "unknown_without_verify S registry command actor operation descriptor attempts policy =
   (let latest = last attempts;
        exec_outcome = (if att_state latest = AS_COMPLETED then att_outcome latest else Some EO_UNKNOWN);
        ids = vc_ids command;
        header = (\<lambda>kind reason occurred_at body.
          \<lparr>oc_kind = kind, oc_operation_id = op_id operation, oc_expected_version = op_version operation,
           oc_occurred_at = occurred_at, oc_actor = Some actor,
           oc_correlation_id = vc_correlation_id command, oc_reason_code = reason,
           oc_transition_audit_event_id = vi_complete_transition_audit_event_id ids, oc_body = body\<rparr>)
    in bind_service (clock_now S) (\<lambda>now.
       bind_service (lift_service (registry_retry_safety registry (in_effect (op_intent operation))
         exec_outcome None now (Some (att_started_at (hd attempts))) None)) (\<lambda>retry.
       bind_service (clock_now S) (\<lambda>occurred_at.
       bind_service (apply_transition S
         (if rs_verdict retry = RV_SAFE \<and> att_number latest < max_automatic_attempts (pd_obligations policy)
          then header TK_UNKNOWN_SAFE_RETRY (rs_reason_code retry) occurred_at
                 (UnknownSafeRetry (ed_idempotency_mode descriptor) exec_outcome None
                   (vi_retry_outbox_event_id ids) None)
          else header TK_UNKNOWN_ESCALATE
                 (if rs_verdict retry = RV_SAFE then ''execution_attempt_budget_exhausted''
                  else ''unknown_without_verification'') occurred_at
                 (UnknownEscalate (vi_manual_audit_event_id ids)))) (\<lambda>result.
       return_service (from_apply result operation))))))"

text \<open>The cycle that follows a start of verification that did not fail.\<close>

definition cycle_after_start ::
  "surroundings \<Rightarrow> capability_registry \<Rightarrow> recovery_crash_point option \<Rightarrow> recovery_command \<Rightarrow> principal_ref \<Rightarrow>
   bool \<Rightarrow> operation option \<Rightarrow> recovery_result service" where
  "cycle_after_start S registry crash_after command actor replayed operation =
   (if replayed
    then bind_service (load_operation S (vc_operation_id command))
           (run_verifying_cycle S registry crash_after command actor)
    else case operation of
      None \<Rightarrow> raise_service PyAssertionError
    | Some started \<Rightarrow>
        bind_service (recovery_crash crash_after AFTER_START_COMMIT) (\<lambda>_.
        run_verifying_cycle S registry crash_after command actor started))"

definition unknown_start_verification ::
  "surroundings \<Rightarrow> capability_registry \<Rightarrow> recovery_crash_point option \<Rightarrow> recovery_command \<Rightarrow> principal_ref \<Rightarrow>
   operation \<Rightarrow> execution_attempt list \<Rightarrow> recovery_result service" where
  "unknown_start_verification S registry crash_after command actor operation attempts =
   (let ids = vc_ids command; latest = (if attempts = [] then None else Some (last attempts))
    in bind_service (clock_now S) (\<lambda>requested_at.
       bind_service (lift_service (build_original_verification_request operation latest
         (vi_verification_id ids) requested_at)) (\<lambda>request.
       bind_service (clock_now S) (\<lambda>occurred_at.
       bind_service (apply_transition S
         \<lparr>oc_kind = TK_UNKNOWN_START_VERIFICATION, oc_operation_id = op_id operation,
          oc_expected_version = op_version operation, oc_occurred_at = occurred_at,
          oc_actor = Some actor, oc_correlation_id = vc_correlation_id command,
          oc_reason_code = ''unknown_start_verification'',
          oc_transition_audit_event_id = vi_start_transition_audit_event_id ids,
          oc_body = UnknownStartVerification request (vi_verification_start_audit_event_id ids)
            (vi_start_outbox_event_id ids)\<rparr>) (\<lambda>result.
       let mapped = from_apply result operation
       in if ry_disposition mapped \<noteq> RC_ACCEPTED then return_service mapped
          else cycle_after_start S registry crash_after command actor
                 (ry_reason_code mapped = ''already_applied'') (ry_operation mapped))))))"

definition VERIFY_SUPPORTED :: "verification_mode list" where
  "VERIFY_SUPPORTED = [VM_READ_BACK, VM_OPERATION_LOOKUP, VM_CUSTOM]"

definition recover_unknown ::
  "surroundings \<Rightarrow> capability_registry \<Rightarrow> recovery_crash_point option \<Rightarrow> recovery_command \<Rightarrow> principal_ref \<Rightarrow>
   operation \<Rightarrow> recovery_result service" where
  "recover_unknown S registry crash_after command actor operation =
   (let refuse = (\<lambda>reason. recovery_answer RC_REJECTED reason (Some operation))
    in bind_service (lift_service (descriptor_for registry (in_effect (op_intent operation)))) (\<lambda>descriptor.
       bind_service (read_uow S (at_list_for_operation (op_id operation))) (\<lambda>attempts.
       if attempts = [] then refuse ''attempt_missing''
       else bind_service (latest_attempt S operation) (\<lambda>latest_row.
         if op_latest_attempt_id operation \<noteq> None \<and> latest_row = None then refuse ''attempt_missing''
         else bind_service (load_policy S operation) (\<lambda>policy.
           case policy of
             None \<Rightarrow> refuse ''policy_missing''
           | Some p \<Rightarrow>
               if ed_verification_mode descriptor = VM_NONE
               then unknown_without_verify S registry command actor operation descriptor attempts p
               else if ed_verification_mode descriptor \<notin> set VERIFY_SUPPORTED
               then refuse ''unsupported_state''
               else unknown_start_verification S registry crash_after command actor operation attempts)))))"

definition ALREADY_APPLIED_STATES :: "operation_state list" where
  "ALREADY_APPLIED_STATES =
     [OS_MANUAL_INTERVENTION, OS_SUCCEEDED, OS_FAILED, OS_DENIED, OS_CANCELLED, OS_READY,
      OS_PENDING_POLICY, OS_AWAITING_APPROVAL, OS_COMPENSATING, OS_COMPENSATION_UNKNOWN,
      OS_COMPENSATED, OS_COMPENSATION_FAILED]"

definition not_found_clause :: "'a service \<Rightarrow> sb_error \<Rightarrow> 'a service option" where
  "not_found_clause answer e = (if is_not_found e then Some answer else None)"

definition recover_unknown_operation ::
  "surroundings \<Rightarrow> capability_registry \<Rightarrow> recovery_crash_point option \<Rightarrow> recovery_command \<Rightarrow>
   recovery_result service" where
  "recover_unknown_operation S registry crash_after command =
   (let actor = (case vc_actor command of Some a \<Rightarrow> a | None \<Rightarrow> RECOVERY_ACTOR)
    in try_else (load_operation S (vc_operation_id command))
         (not_found_clause (recovery_answer RC_REJECTED ''not_found'' None)) (\<lambda>operation.
       if op_state operation \<in> set ALREADY_APPLIED_STATES
       then recovery_answer RC_ACCEPTED ''already_applied'' (Some operation)
       else if op_state operation = OS_EXECUTING then recover_executing S registry command actor
       else if op_state operation = OS_VERIFYING
       then run_verifying_cycle S registry crash_after command actor operation
       else if op_state operation = OS_UNKNOWN
       then recover_unknown S registry crash_after command actor operation
       else recovery_answer RC_REJECTED ''unsupported_state'' (Some operation)))"

section \<open>The operator's verification\<close>

definition operator_reason_refused :: "string \<Rightarrow> bool" where
  "operator_reason_refused reason_code \<longleftrightarrow>
     reason_code = [] \<or> length reason_code > 200 \<or> key_is_forbidden reason_code \<or>
     value_is_forbidden reason_code"

definition as_recovery_command :: "operator_verification_command \<Rightarrow> recovery_command" where
  "as_recovery_command c =
     \<lparr>vc_operation_id = ov_operation_id c, vc_expected_version = ov_expected_version c,
      vc_ids = ov_ids c, vc_actor = Some (ov_actor c), vc_correlation_id = ov_correlation_id c\<rparr>"

definition start_operator_verification ::
  "surroundings \<Rightarrow> capability_registry \<Rightarrow> recovery_crash_point option \<Rightarrow> operator_verification_command \<Rightarrow>
   recovery_result service" where
  "start_operator_verification S registry crash_after command =
   (if operator_reason_refused (ov_reason_code command)
    then recovery_answer RC_REJECTED ''invalid_reason_code'' None
    else try_else (load_operation S (ov_operation_id command))
      (not_found_clause (recovery_answer RC_REJECTED ''not_found'' None)) (\<lambda>operation.
    if op_state operation \<noteq> OS_MANUAL_INTERVENTION
    then recovery_answer RC_REJECTED ''source_state_mismatch'' (Some operation)
    else
      bind_service (lift_service (descriptor_for registry (in_effect (op_intent operation)))) (\<lambda>descriptor.
      if ed_verification_mode descriptor = VM_NONE
      then recovery_answer RC_REJECTED ''verification_unsupported'' (Some operation)
      else
        let ids = ov_ids command
        in bind_service (read_uow S (at_list_for_operation (op_id operation))) (\<lambda>attempts.
           bind_service (clock_now S) (\<lambda>requested_at.
           bind_service (lift_service (build_original_verification_request operation
             (if attempts = [] then None else Some (last attempts)) (vi_verification_id ids) requested_at)) (\<lambda>request.
           bind_service (clock_now S) (\<lambda>occurred_at.
           bind_service (apply_transition S
             \<lparr>oc_kind = TK_MANUAL_START_VERIFICATION, oc_operation_id = op_id operation,
              oc_expected_version = op_version operation, oc_occurred_at = occurred_at,
              oc_actor = Some (ov_actor command), oc_correlation_id = ov_correlation_id command,
              oc_reason_code = ov_reason_code command,
              oc_transition_audit_event_id = vi_start_transition_audit_event_id ids,
              oc_body = ManualStartVerification request (vi_manual_audit_event_id ids)
                (vi_verification_start_audit_event_id ids) (vi_start_outbox_event_id ids)\<rparr>) (\<lambda>result.
           case result of
             Inl r \<Rightarrow> return_service
               (if ry_reason_code r = ''not_found'' then r else r\<lparr>ry_operation := Some operation\<rparr>)
           | Inr t \<Rightarrow>
               if tr_outcome t = TO_REJECTED
               then return_service (recovery_from_transition t None None)
               else cycle_after_start S registry crash_after (as_recovery_command command)
                      (ov_actor command) (tr_outcome t = TO_ALREADY_APPLIED) (tr_operation t)))))))))"

section \<open>The scan\<close>

text \<open>One group: the operations listed in a unit of work, each recovered in its own ones.\<close>

fun scan_each :: "('a \<Rightarrow> 'b service) \<Rightarrow> 'a list \<Rightarrow> 'b list service" where
  "scan_each f [] = return_service []"
| "scan_each f (x # xs) =
     bind_service (f x) (\<lambda>r. bind_service (scan_each f xs) (\<lambda>rs. return_service (r # rs)))"

definition scan_group ::
  "surroundings \<Rightarrow> capability_registry \<Rightarrow> recovery_crash_point option \<Rightarrow> scan_command \<Rightarrow> operation_state \<Rightarrow>
   recovery_result list service" where
  "scan_group S registry crash_after command state =
   (let actor = (case sn_actor command of Some a \<Rightarrow> a | None \<Rightarrow> RECOVERY_ACTOR)
    in bind_service (read_uow S (op_list_by_state state)) (scan_each (\<lambda>operation.
       recover_unknown_operation S registry crash_after
         \<lparr>vc_operation_id = op_id operation, vc_expected_version = op_version operation,
          vc_ids = sn_ids_for command (op_id operation), vc_actor = Some actor,
          vc_correlation_id = sn_correlation_id command\<rparr>)))"

definition scan_recoverable ::
  "surroundings \<Rightarrow> capability_registry \<Rightarrow> recovery_crash_point option \<Rightarrow> scan_command \<Rightarrow>
   recovery_result list service" where
  "scan_recoverable S registry crash_after command =
   bind_service (scan_group S registry crash_after command OS_EXECUTING) (\<lambda>executing.
   bind_service (scan_group S registry crash_after command OS_VERIFYING) (\<lambda>verifying.
   bind_service (scan_group S registry crash_after command OS_UNKNOWN) (\<lambda>unknown.
   return_service (executing @ verifying @ unknown))))"

end
