(* ===== verification/Compensation_Core.thy ===== *)
theory Compensation_Core
  imports Recovery_Service Intent_Digest
begin

text \<open>
  The pure half of compensation (\<^verbatim>\<open>compensation/\<close>): commands, ids and results, who may start one
  (\<^verbatim>\<open>eligibility.py\<close>), the records and requests it builds (\<^verbatim>\<open>arguments.py\<close>, \<^verbatim>\<open>intent.py\<close>,
  \<^verbatim>\<open>request.py\<close>, \<^verbatim>\<open>evidence.py\<close>), and the decisions (\<^verbatim>\<open>outcome.py\<close>, \<^verbatim>\<open>reconcile.py\<close>, \<^verbatim>\<open>kinds.py\<close>).
\<close>

section \<open>Commands, ids and results\<close>

record compensation_retry_ids =
  ty_parent_retry_transition_audit_event_id :: opaque_id
  ty_parent_retry_outbox_event_id :: opaque_id
  ty_attempt_id :: opaque_id
  ty_attempt_audit_event_id :: opaque_id
  ty_attempt_outbox_event_id :: opaque_id
  ty_resume_verification_id :: opaque_id
  ty_resume_verification_start_audit_event_id :: opaque_id
  ty_resume_verification_complete_audit_event_id :: opaque_id
  ty_resume_verification_outbox_event_id :: opaque_id
  ty_resume_complete_transition_audit_event_id :: opaque_id
  ty_resume_complete_outbox_event_id :: opaque_id
  ty_evidence_audit_event_id :: opaque_id
  ty_complete_transition_audit_event_id :: opaque_id
  ty_complete_outbox_event_id :: opaque_id
  ty_verification_id :: opaque_id
  ty_verification_start_audit_event_id :: opaque_id
  ty_verification_complete_audit_event_id :: opaque_id
  ty_verification_outbox_event_id :: opaque_id

record compensation_ids =
  ti_compensation_id :: opaque_id
  ti_compensation_attempt_id :: opaque_id
  ti_start_transition_audit_event_id :: opaque_id
  ti_compensation_requested_audit_event_id :: opaque_id
  ti_start_outbox_event_id :: opaque_id
  ti_claim_attempt_audit_event_id :: opaque_id
  ti_evidence_audit_event_id :: opaque_id
  ti_complete_transition_audit_event_id :: opaque_id
  ti_complete_outbox_event_id :: opaque_id
  ti_verification_id :: opaque_id
  ti_verification_start_audit_event_id :: opaque_id
  ti_verification_complete_audit_event_id :: opaque_id
  ti_verification_outbox_event_id :: opaque_id
  ti_manual_audit_event_id :: opaque_id
  ti_operator_audit_event_id :: opaque_id
  ti_retry_ids_for :: "opaque_id \<Rightarrow> int \<Rightarrow> compensation_retry_ids fallible"

definition COMPENSATION_ACTOR :: principal_ref where
  "COMPENSATION_ACTOR =
     \<lparr>pr_type = PT_SERVICE, pr_id = ''stateback.compensation'',
      pr_display_name = Some ''CompensationService''\<rparr>"

record compensation_command =
  tc_operation_id :: opaque_id
  tc_expected_version :: int
  tc_ids :: compensation_ids
  tc_actor :: "principal_ref option"
  tc_correlation_id :: "string option"

record start_compensation_command = compensation_command +
  tc_automatic :: bool

record scan_compensation_command =
  ts_ids_for :: "opaque_id \<Rightarrow> compensation_ids"
  ts_actor :: "principal_ref option"
  ts_correlation_id :: "string option"
  ts_limit :: "int option"

definition validate_scan_compensation_command :: "scan_compensation_command \<Rightarrow> unit fallible" where
  "validate_scan_compensation_command c =
     guard_err (case ts_limit c of None \<Rightarrow> True | Some n \<Rightarrow> 1 \<le> n)
       (PyValueError ''limit must be >= 1 when set'')"

record operator_compensation_command = compensation_command +
  tc_reason_code :: string

datatype compensation_crash_point =
    CC_AFTER_START_COMMIT | CC_AFTER_CLAIM_COMMIT | CC_AFTER_COMPENSATE_BEFORE_EVIDENCE
  | CC_AFTER_EVIDENCE_COMMIT | CC_AFTER_VERIFY_START_COMMIT | CC_AFTER_VERIFY_BEFORE_RESULT
  | CC_AFTER_VERIFY_RESULT_COMMIT

primrec compensation_crash_point_value :: "compensation_crash_point \<Rightarrow> string" where
  "compensation_crash_point_value CC_AFTER_START_COMMIT = ''after_start_commit''"
| "compensation_crash_point_value CC_AFTER_CLAIM_COMMIT = ''after_claim_commit''"
| "compensation_crash_point_value CC_AFTER_COMPENSATE_BEFORE_EVIDENCE = ''after_compensate_before_evidence''"
| "compensation_crash_point_value CC_AFTER_EVIDENCE_COMMIT = ''after_evidence_commit''"
| "compensation_crash_point_value CC_AFTER_VERIFY_START_COMMIT = ''after_verify_start_commit''"
| "compensation_crash_point_value CC_AFTER_VERIFY_BEFORE_RESULT = ''after_verify_before_result''"
| "compensation_crash_point_value CC_AFTER_VERIFY_RESULT_COMMIT = ''after_verify_result_commit''"

definition compensation_crash :: "compensation_crash_point option \<Rightarrow> compensation_crash_point \<Rightarrow> unit service" where
  "compensation_crash crash_after point =
     maybe_crash crash_after point (compensation_crash_point_value point)"

datatype compensation_disposition =
    CD_ACCEPTED | CD_REJECTED | CD_IN_FLIGHT | CD_INFRASTRUCTURE_FAILURE | CD_NOT_ELIGIBLE

record compensation_result =
  cz_disposition :: compensation_disposition
  cz_reason_code :: string
  cz_operation :: "operation option"
  cz_compensation :: "compensation option"
  cz_transition :: "transition_result option"
  cz_evidence :: "compensation_evidence option"
  cz_verification_evidence :: "verification_evidence option"

definition make_compensation_result ::
  "compensation_disposition \<Rightarrow> string \<Rightarrow> operation option \<Rightarrow> compensation option \<Rightarrow>
   transition_result option \<Rightarrow> compensation_evidence option \<Rightarrow> verification_evidence option \<Rightarrow>
   compensation_result" where
  "make_compensation_result disposition reason_code operation compensation transition evidence verification =
     \<lparr>cz_disposition = disposition, cz_reason_code = reason_code, cz_operation = operation,
      cz_compensation = compensation, cz_transition = transition, cz_evidence = evidence,
      cz_verification_evidence = verification\<rparr>"

section \<open>Eligibility\<close>

record eligibility_decision =
  el_allowed :: bool
  el_start_kind :: "transition_kind option"
  el_reason_code :: string

definition FAILED_WITHOUT_ARTIFACT_ERROR_KINDS :: "error_kind list" where
  "FAILED_WITHOUT_ARTIFACT_ERROR_KINDS = [EK_VALIDATION, EK_UNSUPPORTED_CAPABILITY]"

definition has_external_artifact :: "execution_attempt option \<Rightarrow> bool" where
  "has_external_artifact attempt =
     (case attempt of
        None \<Rightarrow> False
      | Some a \<Rightarrow>
          att_external_operation_id a \<notin> {None, Some []} \<or>
          (case att_evidence a of
             None \<Rightarrow> False
           | Some evidence \<Rightarrow>
               ev_external_operation_id evidence \<notin> {None, Some []} \<or>
               ev_external_resource_ids evidence \<noteq> []))"

definition evaluate_start_eligibility ::
  "operation \<Rightarrow> effect_descriptor \<Rightarrow> policy_obligations \<Rightarrow> execution_attempt option \<Rightarrow> bool \<Rightarrow> bool \<Rightarrow>
   eligibility_decision" where
  "evaluate_start_eligibility operation descriptor obligations latest_original_attempt automatic operator =
   (let refuse = (\<lambda>reason. \<lparr>el_allowed = False, el_start_kind = None, el_reason_code = reason\<rparr>);
        allow = (\<lambda>kind. \<lparr>el_allowed = True, el_start_kind = Some kind, el_reason_code = ''accepted''\<rparr>)
    in if ed_compensation_kind descriptor = CK_NONE then refuse ''compensation_kind_none''
       else if op_state operation = OS_SUCCEEDED \<and> automatic \<and>
               \<not> ob_automatic_compensation_allowed obligations
       then refuse ''automatic_compensation_forbidden''
       else if op_state operation = OS_FAILED \<and> automatic \<and>
               \<not> ob_automatic_compensation_allowed obligations
       then refuse ''automatic_compensation_forbidden''
       else if op_state operation = OS_SUCCEEDED then allow TK_SUCCEEDED_START_COMPENSATION
       else if op_state operation = OS_FAILED
       then (if \<not> has_external_artifact latest_original_attempt then refuse ''failed_without_artifact''
             else if (case latest_original_attempt of
                        None \<Rightarrow> False
                      | Some a \<Rightarrow> att_state a = AS_COMPLETED \<and> att_outcome a = Some EO_NOT_APPLIED \<and>
                          (case att_error a of None \<Rightarrow> False
                           | Some e \<Rightarrow> er_kind e \<in> set FAILED_WITHOUT_ARTIFACT_ERROR_KINDS))
             then refuse ''failed_without_artifact''
             else allow TK_FAILED_START_COMPENSATION)
       else if op_state operation = OS_MANUAL_INTERVENTION
       then (if operator then allow TK_MANUAL_START_COMPENSATION else refuse ''actor_required'')
       else refuse ''source_state_mismatch'')"

section \<open>Records and requests\<close>

text \<open>\<open>None\<close> as the value of the inline arguments is Python's \<open>null\<close>.\<close>

definition build_compensation_arguments :: "operation \<Rightarrow> json option" where
  "build_compensation_arguments operation =
     (if in_arguments_mode (op_intent operation) = AM_REFERENCE
      then Some (JObject [(''arguments_ref'', json_of_optional (in_arguments_ref (op_intent operation)))])
      else in_arguments (op_intent operation))"

definition provider_compensation_key :: "effect_descriptor \<Rightarrow> opaque_id \<Rightarrow> string option" where
  "provider_compensation_key descriptor compensation_id =
     (if ed_idempotency_mode descriptor = IM_PROVIDER_KEY
      then Some (''sb:v1:comp-key:'' @ oid_value compensation_id) else None)"

definition compute_compensation_intent_digest ::
  "(string \<Rightarrow> string) \<Rightarrow> opaque_id \<Rightarrow> compensation_kind \<Rightarrow> arguments_mode \<Rightarrow> json option \<Rightarrow> string option \<Rightarrow>
   string fallible" where
  "compute_compensation_intent_digest sha256 original_operation_id kind arguments_mode arguments arguments_ref =
     bind_err (json_from_plain (PyDict
       [(PyStr ''contract_version'', PyStr CONTRACT_VERSION),
        (PyStr ''original_operation_id'', PyStr (oid_value original_operation_id)),
        (PyStr ''kind'', PyStr (compensation_kind_value kind)),
        (PyStr ''arguments_mode'', PyStr (arguments_mode_value arguments_mode)),
        (PyStr ''arguments'', json_to_plain (case arguments of None \<Rightarrow> JNull | Some a \<Rightarrow> a)),
        (PyStr ''arguments_ref'', json_to_plain (json_of_optional arguments_ref))])) (\<lambda>material.
     Inr (sha256_hex sha256 material))"

definition build_compensation_record ::
  "(string \<Rightarrow> string) \<Rightarrow> operation \<Rightarrow> effect_descriptor \<Rightarrow> compensation_ids \<Rightarrow> principal_ref \<Rightarrow> utc_timestamp \<Rightarrow>
   opaque_id option \<Rightarrow> compensation fallible" where
  "build_compensation_record sha256 operation descriptor ids actor now policy_decision_id =
   (let is_reference = (in_arguments_mode (op_intent operation) = AM_REFERENCE);
        mode = (if is_reference then AM_REFERENCE else AM_INLINE);
        arguments = (if is_reference then None else build_compensation_arguments operation);
        arguments_ref = (if is_reference then in_arguments_ref (op_intent operation) else None)
    in bind_err (compute_compensation_intent_digest sha256 (op_id operation)
         (ed_compensation_kind descriptor) mode arguments arguments_ref) (\<lambda>digest.
       make_compensation
         \<lparr>cm_contract_version = CONTRACT_VERSION, cm_id = ti_compensation_id ids,
          cm_original_operation_id = op_id operation, cm_kind = ed_compensation_kind descriptor,
          cm_state = CS_PENDING, cm_version = INITIAL_COMPENSATION_VERSION, cm_intent_digest = digest,
          cm_arguments_mode = mode, cm_arguments = arguments, cm_arguments_ref = arguments_ref,
          cm_idempotency_identity = compensation_idempotency_identity (ti_compensation_id ids),
          cm_requested_by = actor, cm_policy_decision_id = policy_decision_id,
          cm_created_at = now, cm_updated_at = now\<rparr>))"

definition build_started_compensation_attempt ::
  "opaque_id \<Rightarrow> opaque_id \<Rightarrow> int \<Rightarrow> effect_descriptor \<Rightarrow> utc_timestamp \<Rightarrow> compensation_attempt fallible" where
  "build_started_compensation_attempt compensation_id attempt_id attempt_number descriptor now =
   (let a = \<lparr>ca_contract_version = CONTRACT_VERSION, ca_id = attempt_id,
          ca_compensation_id = compensation_id, ca_number = attempt_number, ca_state = AS_STARTED,
          ca_started_at = now, ca_completed_at = None,
          ca_provider_idempotency_key = provider_compensation_key descriptor compensation_id,
          ca_external_operation_id = None, ca_outcome = None, ca_evidence = None, ca_error = None\<rparr>
    in bind_err (validate_compensation_attempt a) (\<lambda>_. Inr a))"

definition build_compensation_provider_request ::
  "operation \<Rightarrow> compensation \<Rightarrow> compensation_attempt \<Rightarrow> execution_attempt list \<Rightarrow> compensation_request" where
  "build_compensation_provider_request operation compensation attempt original_attempts =
     \<lparr>cq_original_operation_id = op_id operation, cq_compensation_id = cm_id compensation,
      cq_compensation_attempt_id = ca_id attempt,
      cq_original_evidence = List.map_filter att_evidence original_attempts,
      cq_compensation_arguments =
        (if cm_arguments_mode compensation = AM_INLINE
         then (case cm_arguments compensation of None \<Rightarrow> JNull | Some a \<Rightarrow> a)
         else JObject [(''arguments_ref'', json_of_optional (cm_arguments_ref compensation))]),
      cq_idempotency_identity = cm_idempotency_identity compensation,
      cq_provider_idempotency_key = ca_provider_idempotency_key attempt\<rparr>"

definition build_compensate_context ::
  "operation \<Rightarrow> compensation_attempt \<Rightarrow> compensation \<Rightarrow> string option \<Rightarrow> provider_execution_context" where
  "build_compensate_context operation attempt compensation correlation_id =
     \<lparr>px_operation_id = op_id operation, px_attempt_id = ca_id attempt,
      px_idempotency_identity = cm_idempotency_identity compensation,
      px_provider_idempotency_key = ca_provider_idempotency_key attempt,
      px_correlation_id = correlation_id, px_deadline = None\<rparr>"

definition build_compensation_verify_context ::
  "operation \<Rightarrow> compensation \<Rightarrow> verification_request \<Rightarrow> string option \<Rightarrow>
   provider_execution_context fallible" where
  "build_compensation_verify_context operation compensation request correlation_id =
     (case vq_target_attempt_id request of
        None \<Rightarrow> Inl PyAssertionError
      | Some attempt_id \<Rightarrow>
          Inr \<lparr>px_operation_id = op_id operation, px_attempt_id = attempt_id,
               px_idempotency_identity = cm_idempotency_identity compensation,
               px_provider_idempotency_key = None, px_correlation_id = correlation_id,
               px_deadline = None\<rparr>)"

definition build_compensation_verification_request ::
  "operation \<Rightarrow> compensation \<Rightarrow> compensation_attempt \<Rightarrow> opaque_id \<Rightarrow> utc_timestamp \<Rightarrow>
   verification_request fallible" where
  "build_compensation_verification_request operation compensation attempt verification_id requested_at =
   (let q = \<lparr>vq_contract_version = CONTRACT_VERSION, vq_id = verification_id,
          vq_operation_id = op_id operation, vq_operation_version = op_version operation,
          vq_target = VT_COMPENSATION, vq_target_attempt_id = Some (ca_id attempt),
          vq_effect = in_effect (op_intent operation),
          vq_external_operation_id = ca_external_operation_id attempt,
          vq_external_resource_ids =
            (case ca_evidence attempt of None \<Rightarrow> [] | Some e \<Rightarrow> ev_external_resource_ids e),
          vq_idempotency_identity = cm_idempotency_identity compensation,
          vq_provider_evidence_refs = [], vq_requested_at = requested_at\<rparr>
    in bind_err (validate_verification_request q) (\<lambda>_. Inr q))"

section \<open>Completing an attempt\<close>

definition complete_attempt_from_evidence ::
  "compensation_attempt \<Rightarrow> compensation_evidence \<Rightarrow> utc_timestamp \<Rightarrow> compensation_attempt fallible" where
  "complete_attempt_from_evidence started evidence completed_at =
   (let a = started\<lparr>ca_state := AS_COMPLETED, ca_completed_at := Some completed_at,
          ca_external_operation_id := ce_external_operation_id evidence,
          ca_outcome := Some (ce_outcome evidence), ca_evidence := ce_evidence evidence,
          ca_error := ce_error evidence\<rparr>
    in bind_err (validate_compensation_attempt a) (\<lambda>_. Inr a))"

definition complete_attempt_from_verification ::
  "compensation_attempt \<Rightarrow> verification_result \<Rightarrow> effect_outcome \<Rightarrow> utc_timestamp \<Rightarrow>
   compensation_attempt fallible" where
  "complete_attempt_from_verification started result outcome completed_at =
   (let a = started\<lparr>ca_state := AS_COMPLETED, ca_completed_at := Some completed_at,
          ca_outcome := Some outcome, ca_evidence := Some (vs_evidence result),
          ca_error := vs_error result\<rparr>
    in bind_err (validate_compensation_attempt a) (\<lambda>_. Inr a))"

section \<open>Decisions\<close>

record compensate_kind_decision =
  kc_kind :: any_kind
  kc_reason_code :: string

definition decide_compensate_kind ::
  "effect_outcome \<Rightarrow> effect_descriptor \<Rightarrow> policy_obligations \<Rightarrow> compensate_kind_decision" where
  "decide_compensate_kind outcome descriptor obligations =
     (if outcome = EO_UNKNOWN
      then \<lparr>kc_kind = OpKind TK_COMPENSATION_OUTCOME_UNKNOWN, kc_reason_code = ''compensation_unknown''\<rparr>
      else if outcome = EO_APPLIED
      then (if ob_require_verification obligations \<or> \<not> ed_immediate_response_can_prove_applied descriptor
            then \<lparr>kc_kind = ProgressKind PK_START_COMPENSATION_VERIFICATION,
                  kc_reason_code = ''compensation_require_verification''\<rparr>
            else \<lparr>kc_kind = OpKind TK_COMPENSATION_APPLIED, kc_reason_code = ''compensation_applied''\<rparr>)
      else \<lparr>kc_kind = OpKind TK_COMPENSATION_OUTCOME_FAILED,
            kc_reason_code = ''compensation_not_applied_fail''\<rparr>)"

definition completed_compensation_verification_count :: "verification_row list \<Rightarrow> int" where
  "completed_compensation_verification_count rows =
     int (length (filter (\<lambda>row. vq_target (fst row) = VT_COMPENSATION \<and> snd row \<noteq> None) rows))"

definition latest_compensation :: "compensation_attempt option \<Rightarrow> effect_outcome option \<times> int" where
  "latest_compensation latest =
     (case latest of
        None \<Rightarrow> (None, 0)
      | Some a \<Rightarrow> (if ca_state a = AS_COMPLETED then ca_outcome a else Some EO_UNKNOWN, ca_number a))"

definition reconcile_compensation ::
  "verification_result \<Rightarrow> compensation_attempt option \<Rightarrow> effect_descriptor \<Rightarrow> policy_obligations \<Rightarrow> int \<Rightarrow>
   reconciliation_decision" where
  "reconcile_compensation v latest desc obs completed_count =
   (let (latest_outcome, attempt_number) = latest_compensation latest;
        cap_exec = max_automatic_attempts obs;
        cap_rec = max_automatic_recovery_attempts obs;
        code = (case vs_error v of None \<Rightarrow> '''' | Some e \<Rightarrow> er_code e);
        kind = map_option er_kind (vs_error v)
    in if vs_outcome v = EO_APPLIED
       then (if latest_outcome = Some EO_NOT_APPLIED
             then \<lparr>rd_action = RA_REQUIRE_MANUAL_INTERVENTION,
                   rd_reason_code = ''contradictory_execution_and_verification''\<rparr>
             else \<lparr>rd_action = RA_MARK_SUCCEEDED, rd_reason_code = ''verification_applied''\<rparr>)
       else if vs_outcome v = EO_NOT_APPLIED
       then (if latest_outcome = Some EO_APPLIED
             then \<lparr>rd_action = RA_REQUIRE_MANUAL_INTERVENTION,
                   rd_reason_code = ''contradictory_execution_and_verification''\<rparr>
             else
               let safety = evaluate_effect_retry_safety None (Some EO_NOT_APPLIED)
                     (ed_idempotency_mode desc) None (ed_provider_key_semantics desc) False
                     (ed_idempotency_mode desc = IM_NATURAL)
               in if rs_verdict safety = RV_SAFE \<and> attempt_number < cap_exec
                  then \<lparr>rd_action = RA_MAKE_READY_FOR_SAFE_RETRY,
                        rd_reason_code = ''verification_not_applied_retry''\<rparr>
                  else \<lparr>rd_action = RA_MARK_FAILED, rd_reason_code = ''verification_not_applied_fail''\<rparr>)
       else if kind = Some EK_UNSUPPORTED_CAPABILITY
       then \<lparr>rd_action = RA_REQUIRE_MANUAL_INTERVENTION, rd_reason_code = ''verification_unsupported''\<rparr>
       else if code = ''ref.verify.inconsistent''
       then \<lparr>rd_action = RA_REQUIRE_MANUAL_INTERVENTION, rd_reason_code = ''verification_inconsistent''\<rparr>
       else if completed_count \<ge> cap_rec
       then \<lparr>rd_action = RA_REQUIRE_MANUAL_INTERVENTION, rd_reason_code = ''recovery_budget_exhausted''\<rparr>
       else \<lparr>rd_action = RA_REMAIN_UNKNOWN, rd_reason_code = inconclusive_reason code kind\<rparr>)"

primrec COMPENSATING_VERIFYING :: "reconciliation_action \<Rightarrow> any_kind" where
  "COMPENSATING_VERIFYING RA_MARK_SUCCEEDED = OpKind TK_COMPENSATION_APPLIED"
| "COMPENSATING_VERIFYING RA_MARK_FAILED = OpKind TK_COMPENSATION_OUTCOME_FAILED"
| "COMPENSATING_VERIFYING RA_MAKE_READY_FOR_SAFE_RETRY =
     ProgressKind PK_RETRY_COMPENSATION_AFTER_VERIFICATION"
| "COMPENSATING_VERIFYING RA_REMAIN_UNKNOWN = OpKind TK_COMPENSATION_OUTCOME_UNKNOWN"
| "COMPENSATING_VERIFYING RA_REQUIRE_MANUAL_INTERVENTION = OpKind TK_COMPENSATION_ESCALATE"

primrec COMPENSATION_UNKNOWN_ACTIONS :: "reconciliation_action \<Rightarrow> any_kind option" where
  "COMPENSATION_UNKNOWN_ACTIONS RA_MARK_SUCCEEDED = Some (OpKind TK_COMPENSATION_UNKNOWN_APPLIED)"
| "COMPENSATION_UNKNOWN_ACTIONS RA_MARK_FAILED = Some (OpKind TK_COMPENSATION_UNKNOWN_FAILED)"
| "COMPENSATION_UNKNOWN_ACTIONS RA_MAKE_READY_FOR_SAFE_RETRY = Some (OpKind TK_COMPENSATION_UNKNOWN_RETRY)"
| "COMPENSATION_UNKNOWN_ACTIONS RA_REMAIN_UNKNOWN = None"
| "COMPENSATION_UNKNOWN_ACTIONS RA_REQUIRE_MANUAL_INTERVENTION =
     Some (OpKind TK_COMPENSATION_UNKNOWN_ESCALATE)"

definition compensation_decision_to_kind ::
  "operation_state \<Rightarrow> compensation_state \<Rightarrow> reconciliation_decision \<Rightarrow> compensate_kind_decision fallible" where
  "compensation_decision_to_kind parent_state compensation_state decision =
     (if parent_state = OS_COMPENSATING \<and> compensation_state = CS_VERIFYING
      then Inr \<lparr>kc_kind = COMPENSATING_VERIFYING (rd_action decision),
                kc_reason_code = rd_reason_code decision\<rparr>
      else if parent_state = OS_COMPENSATION_UNKNOWN \<and> compensation_state = CS_UNKNOWN
      then (case COMPENSATION_UNKNOWN_ACTIONS (rd_action decision) of
              None \<Rightarrow> Inl (StatebackCompensationError ''remain_unknown_noop'')
            | Some kind \<Rightarrow> Inr \<lparr>kc_kind = kind, kc_reason_code = rd_reason_code decision\<rparr>)
      else Inl (StatebackCompensationError ''unsupported_state''))"

section \<open>One reconciliation, twice\<close>

text \<open>
  \<open>reconcile\<close> and \<open>reconcile_compensation\<close> are two copies of the same rules: on the same evidence they
  decide alike.
\<close>

lemma reconciliations_agree:
  assumes "latest_compensation latest = latest_execution (rn_attempts input)"
  shows "reconcile_compensation (rn_verification_result input) latest (rn_provider_descriptor input)
    (rn_policy_obligations input) count = reconcile input count"
  using assms by (simp add: reconcile_compensation_def reconcile_def Let_def)

text \<open>
  Who may undo an effect: a compensation starts automatically only if the policy's obligations
  allow it, on request only from SUCCEEDED, or from FAILED when the last attempt left something
  behind at the provider, and from MANUAL_INTERVENTION only at an operator's hand; never for an
  effect that declares no compensation, and from no other state.
\<close>

lemma compensation_start_is_eligible:
  "el_allowed (evaluate_start_eligibility operation descriptor obligations latest automatic operator) \<longleftrightarrow>
     ed_compensation_kind descriptor \<noteq> CK_NONE \<and>
     (op_state operation = OS_MANUAL_INTERVENTION \<and> operator \<or>
      (automatic \<longrightarrow> ob_automatic_compensation_allowed obligations) \<and>
      (op_state operation = OS_SUCCEEDED \<or>
       op_state operation = OS_FAILED \<and> has_external_artifact latest \<and>
       \<not> (\<exists>a e. latest = Some a \<and> att_state a = AS_COMPLETED \<and> att_outcome a = Some EO_NOT_APPLIED \<and>
            att_error a = Some e \<and> er_kind e \<in> set FAILED_WITHOUT_ARTIFACT_ERROR_KINDS)))"
proof -
  have "(case latest of None \<Rightarrow> False
      | Some a \<Rightarrow> att_state a = AS_COMPLETED \<and> att_outcome a = Some EO_NOT_APPLIED \<and>
          (case att_error a of None \<Rightarrow> False | Some e \<Rightarrow> er_kind e \<in> set FAILED_WITHOUT_ARTIFACT_ERROR_KINDS)) \<longleftrightarrow>
    (\<exists>a e. latest = Some a \<and> att_state a = AS_COMPLETED \<and> att_outcome a = Some EO_NOT_APPLIED \<and>
       att_error a = Some e \<and> er_kind e \<in> set FAILED_WITHOUT_ARTIFACT_ERROR_KINDS)"
    by (auto split: option.split)
  then show ?thesis by (auto simp: evaluate_start_eligibility_def Let_def)
qed

end
