(* ===== verification/Compensation_Cycle.thy ===== *)
theory Compensation_Cycle
  imports Compensation_Core
begin

text \<open>
  Starting a compensation (\<^verbatim>\<open>compensation/start.py\<close>) and the compensate/verify loop of
  \<^verbatim>\<open>compensation/execute.py\<close> (\<open>_run_cycle\<close> with its two steps, provider calls, outcome commands and
  automatic retry). The loop's fuel counts its rounds. The loop never passes a request to
  \<open>_verify_step\<close>, so the pending one is looked up each time. Clock readings a unit of work takes
  are taken as it opens.
\<close>

section \<open>Shared answers\<close>

abbreviation compensation_answer ::
  "compensation_disposition \<Rightarrow> string \<Rightarrow> operation option \<Rightarrow> compensation option \<Rightarrow> compensation_result" where
  "compensation_answer disposition reason operation compensation \<equiv>
     make_compensation_result disposition reason operation compensation None None None"

definition compensation_rejected ::
  "transition_result \<Rightarrow> compensation_evidence option \<Rightarrow> verification_evidence option \<Rightarrow> compensation_result" where
  "compensation_rejected t evidence verification =
     make_compensation_result CD_REJECTED (tr_reason_code t) (tr_operation t) (tr_compensation t)
       (Some t) evidence verification"

definition compensation_accepted ::
  "string \<Rightarrow> transition_result \<Rightarrow> compensation_evidence option \<Rightarrow> verification_evidence option \<Rightarrow>
   compensation_result" where
  "compensation_accepted reason t evidence verification =
     make_compensation_result CD_ACCEPTED reason (tr_operation t) (tr_compensation t) (Some t)
       evidence verification"

text \<open>
  A unit of work under \<open>except ConcurrencyConflictError: return conflict\<close> and
  \<open>except PersistenceError: failed_op = load_operation(...); return failure(failed_op)\<close>.
\<close>

definition commit_else ::
  "surroundings \<Rightarrow> (journal \<Rightarrow> ('a \<times> journal) fallible) \<Rightarrow> opaque_id \<Rightarrow> compensation_result \<Rightarrow>
   (operation \<Rightarrow> compensation_result) \<Rightarrow> (compensation_result \<Rightarrow> 'b) \<Rightarrow> ('a \<Rightarrow> 'b service) \<Rightarrow> 'b service" where
  "commit_else S body operation_id conflict failure wrap rest =
     try_else (in_uow S body)
       (\<lambda>e. if is_concurrency_conflict e then Some (return_service (wrap conflict))
            else if is_persistence_error e
            then Some (bind_service (load_operation S operation_id) (\<lambda>failed.
                   return_service (wrap (failure failed))))
            else None)
       rest"

definition load_compensation :: "surroundings \<Rightarrow> opaque_id \<Rightarrow> compensation option service" where
  "load_compensation S i = read_uow S (cp_get i)"

definition list_compensation_attempts :: "surroundings \<Rightarrow> opaque_id \<Rightarrow> compensation_attempt list service" where
  "list_compensation_attempts S i = read_uow S (ca_list_for_compensation i)"

definition list_verifications :: "surroundings \<Rightarrow> opaque_id \<Rightarrow> verification_row list service" where
  "list_verifications S i = read_uow S (vf_list_for_operation i)"

definition find_pending_compensation_verification ::
  "surroundings \<Rightarrow> opaque_id \<Rightarrow> verification_row option service" where
  "find_pending_compensation_verification S operation_id =
   bind_service (list_verifications S operation_id) (\<lambda>rows.
   return_service (last_opt (filter (\<lambda>row. vq_target (fst row) = VT_COMPENSATION \<and> snd row = None) rows)))"

section \<open>Starting\<close>

definition start_body ::
  "transition_kind \<Rightarrow> compensation \<Rightarrow> compensation_ids \<Rightarrow> op_body fallible" where
  "start_body kind compensation ids =
   (let audit = ti_compensation_requested_audit_event_id ids; outbox = ti_start_outbox_event_id ids
    in if kind = TK_SUCCEEDED_START_COMPENSATION
       then Inr (SucceededStartCompensation compensation audit outbox)
       else if kind = TK_FAILED_START_COMPENSATION
       then Inr (FailedStartCompensation compensation audit outbox)
       else if kind = TK_MANUAL_START_COMPENSATION
       then Inr (ManualStartCompensation compensation (ti_operator_audit_event_id ids) audit outbox)
       else Inl PyAssertionError)"

text \<open>The unit of work: an answer without writing anything, or the transition.\<close>

definition start_uow ::
  "(string \<Rightarrow> string) \<Rightarrow> capability_registry \<Rightarrow> ('a start_compensation_command_scheme) \<Rightarrow> principal_ref \<Rightarrow>
   bool \<Rightarrow> string \<Rightarrow> utc_timestamp \<Rightarrow> utc_timestamp \<Rightarrow> journal \<Rightarrow>
   ((compensation_result + transition_result) \<times> journal) fallible" where
  "start_uow sha256 registry command actor operator reason_code now occurred_at j =
   (case op_get (tc_operation_id command) j of
      None \<Rightarrow> Inl (NotFoundError ''not_found'')
    | Some op \<Rightarrow>
        let answer = (\<lambda>d r c. Inr (Inl (compensation_answer d r (Some op) c), j))
        in if op_version op \<noteq> tc_expected_version command
           then Inl (ConcurrencyConflictError ''concurrency_conflict'')
           else case op_compensation_id op of
             Some i \<Rightarrow> answer CD_ACCEPTED ''already_applied'' (cp_get i j)
           | None \<Rightarrow>
               (case descriptor_for registry (in_effect (op_intent op)) of
                  Inl e \<Rightarrow>
                    if e = UnsupportedEffectError then answer CD_REJECTED ''unregistered_effect'' None
                    else Inl e
                | Inr descriptor \<Rightarrow>
                    (case Option.bind (op_current_policy_decision_id op) (\<lambda>i. po_get i j) of
                       None \<Rightarrow> answer CD_REJECTED ''policy_missing'' None
                     | Some policy \<Rightarrow>
                         let eligibility = evaluate_start_eligibility op descriptor (pd_obligations policy)
                               (last_opt (at_list_for_operation (op_id op) j)) (tc_automatic command) operator
                         in if \<not> el_allowed eligibility
                            then answer CD_NOT_ELIGIBLE (el_reason_code eligibility) None
                            else
                              bind_err (build_compensation_record sha256 op descriptor (tc_ids command)
                                actor now (op_current_policy_decision_id op)) (\<lambda>compensation.
                              case el_start_kind eligibility of
                                None \<Rightarrow> Inl PyAssertionError
                              | Some kind \<Rightarrow>
                                  bind_err (start_body kind compensation (tc_ids command)) (\<lambda>body.
                                  bind_err (apply_command (OperationCommand
                                    \<lparr>oc_kind = kind, oc_operation_id = op_id op,
                                     oc_expected_version = op_version op, oc_occurred_at = occurred_at,
                                     oc_actor = Some actor, oc_correlation_id = tc_correlation_id command,
                                     oc_reason_code = reason_code,
                                     oc_transition_audit_event_id =
                                       ti_start_transition_audit_event_id (tc_ids command),
                                     oc_body = body\<rparr>) j) (\<lambda>r.
                                  Inr (Inr (fst r), snd r)))))))"

definition start_compensation ::
  "(string \<Rightarrow> string) \<Rightarrow> surroundings \<Rightarrow> capability_registry \<Rightarrow> compensation_crash_point option \<Rightarrow>
   start_compensation_command \<Rightarrow> bool \<Rightarrow> string \<Rightarrow> compensation_result service" where
  "start_compensation sha256 S registry crash_after command operator reason_code =
   (let actor = (case tc_actor command of Some a \<Rightarrow> a | None \<Rightarrow> COMPENSATION_ACTOR)
    in bind_service (clock_now S) (\<lambda>now. bind_service (clock_now S) (\<lambda>occurred_at.
       try_else (in_uow S (start_uow sha256 registry command actor operator reason_code now occurred_at))
         (\<lambda>e. if is_concurrency_conflict e
              then Some (return_service (compensation_answer CD_REJECTED ''concurrency_conflict'' None None))
              else None)
         (\<lambda>outcome.
       case outcome of
         Inl answer \<Rightarrow> return_service answer
       | Inr t \<Rightarrow>
           if tr_outcome t = TO_REJECTED then return_service (compensation_rejected t None None)
           else if tr_outcome t = TO_ALREADY_APPLIED
           then return_service (compensation_accepted ''already_applied'' t None None)
           else bind_service (compensation_crash crash_after CC_AFTER_START_COMMIT) (\<lambda>_.
                return_service (compensation_accepted ''accepted'' t None None))))))"

section \<open>Provider calls\<close>

definition compensation_error_evidence ::
  "effect_outcome \<Rightarrow> error_kind \<Rightarrow> string \<Rightarrow> string \<Rightarrow> bool \<Rightarrow> pyobj \<Rightarrow> compensation_evidence fallible" where
  "compensation_error_evidence outcome kind code message retryable details =
     bind_err (json_from_plain details) (\<lambda>d.
     let error = \<lparr>er_contract_version = CONTRACT_VERSION, er_kind = kind, er_code = code,
           er_message = message, er_retryable_infrastructure = retryable, er_provider_http_status = None,
           er_provider_error_code = None, er_retry_after_seconds = None, er_details = d\<rparr>
     in bind_err (validate_normalized_error error) (\<lambda>_.
        Inr \<lparr>ce_outcome = outcome, ce_evidence = None, ce_error = Some error,
             ce_external_operation_id = None\<rparr>))"

definition classified_compensate ::
  "surroundings \<Rightarrow> capability_registry \<Rightarrow> operation \<Rightarrow> provider_execution_context \<Rightarrow> compensation_request \<Rightarrow>
   compensation_evidence service" where
  "classified_compensate S registry operation context request =
     try_else (bind_service (lift_service (adapter_for registry (in_effect (op_intent operation)))) (\<lambda>adapter.
         call_compensate adapter context request))
       (\<lambda>exc.
          if exc = UnsupportedEffectError
          then Some (lift_service (compensation_error_evidence EO_NOT_APPLIED EK_UNSUPPORTED_CAPABILITY
                 ''ref.compensation.unsupported'' ''effect does not support compensation'' False (PyDict [])))
          else if is_contract_error exc \<or> \<not> is_exception exc then None
          else Some (lift_service (compensation_error_evidence EO_UNKNOWN EK_TRANSIENT_TRANSPORT
                 ''compensation.adapter_exception'' ''unclassified compensation adapter exception'' True
                 (PyDict [(PyStr ''exception_type'', PyStr (exception_type_name exc))]))))
       return_service"

definition classified_compensation_verify ::
  "surroundings \<Rightarrow> capability_registry \<Rightarrow> operation \<Rightarrow> provider_execution_context \<Rightarrow> verification_request \<Rightarrow>
   verification_evidence service" where
  "classified_compensation_verify S registry operation context request =
     try_else (bind_service (lift_service (adapter_for registry (in_effect (op_intent operation)))) (\<lambda>adapter.
         call_verify adapter context request))
       (unclassified S (ef_provider (in_effect (op_intent operation))) (\<lambda>outcome error ev.
          \<lparr>ve_outcome = outcome, ve_evidence = ev, ve_error = Some error\<rparr>))
       return_service"

section \<open>Commands of an outcome\<close>

record outcome_write_ids =
  wi_transition_audit_event_id :: opaque_id
  wi_compensation_result_audit_event_id :: opaque_id
  wi_complete_outbox_event_id :: opaque_id
  wi_verification_id :: opaque_id
  wi_verification_start_audit_event_id :: opaque_id
  wi_verification_outbox_event_id :: opaque_id

definition outcome_ids ::
  "compensation_ids \<Rightarrow> opaque_id \<Rightarrow> int \<Rightarrow> bool \<Rightarrow> outcome_write_ids fallible" where
  "outcome_ids ids compensation_id attempt_number is_retry =
     (if is_retry
      then bind_err (ti_retry_ids_for ids compensation_id attempt_number) (\<lambda>r.
        Inr \<lparr>wi_transition_audit_event_id = ty_complete_transition_audit_event_id r,
             wi_compensation_result_audit_event_id = ty_evidence_audit_event_id r,
             wi_complete_outbox_event_id = ty_complete_outbox_event_id r,
             wi_verification_id = ty_verification_id r,
             wi_verification_start_audit_event_id = ty_verification_start_audit_event_id r,
             wi_verification_outbox_event_id = ty_verification_outbox_event_id r\<rparr>)
      else Inr \<lparr>wi_transition_audit_event_id = ti_complete_transition_audit_event_id ids,
             wi_compensation_result_audit_event_id = ti_evidence_audit_event_id ids,
             wi_complete_outbox_event_id = ti_complete_outbox_event_id ids,
             wi_verification_id = ti_verification_id ids,
             wi_verification_start_audit_event_id = ti_verification_start_audit_event_id ids,
             wi_verification_outbox_event_id = ti_verification_outbox_event_id ids\<rparr>)"

definition lifecycle_command ::
  "transition_kind \<Rightarrow> operation \<Rightarrow> utc_timestamp \<Rightarrow> principal_ref option \<Rightarrow> string option \<Rightarrow> string \<Rightarrow> opaque_id \<Rightarrow>
   op_body \<Rightarrow> op_command" where
  "lifecycle_command kind op occurred_at actor correlation_id reason_code transition_audit_event_id body =
     \<lparr>oc_kind = kind, oc_operation_id = op_id op, oc_expected_version = op_version op,
      oc_occurred_at = occurred_at, oc_actor = actor, oc_correlation_id = correlation_id,
      oc_reason_code = reason_code, oc_transition_audit_event_id = transition_audit_event_id,
      oc_body = body\<rparr>"

definition build_compensate_outcome_command ::
  "any_kind \<Rightarrow> string \<Rightarrow> operation \<Rightarrow> compensation \<Rightarrow> compensation_attempt \<Rightarrow> principal_ref \<Rightarrow> string option \<Rightarrow>
   utc_timestamp \<Rightarrow> compensation_ids \<Rightarrow> utc_timestamp \<Rightarrow> bool \<Rightarrow> transition_command fallible" where
  "build_compensate_outcome_command kind reason_code op compensation completed actor correlation_id
     occurred_at ids requested_at is_retry =
   bind_err (outcome_ids ids (cm_id compensation) (ca_number completed) is_retry) (\<lambda>w.
   let audit = wi_compensation_result_audit_event_id w;
       lifecycle = (\<lambda>k body. Inr (OperationCommand (lifecycle_command k op occurred_at (Some actor)
         correlation_id reason_code (wi_transition_audit_event_id w) body)))
   in if kind = OpKind TK_COMPENSATION_APPLIED
      then lifecycle TK_COMPENSATION_APPLIED (CompensationApplied completed audit None)
      else if kind = OpKind TK_COMPENSATION_OUTCOME_UNKNOWN
      then lifecycle TK_COMPENSATION_OUTCOME_UNKNOWN
             (CompensationOutcomeUnknown (Some completed) audit (wi_complete_outbox_event_id w) None)
      else if kind = OpKind TK_COMPENSATION_OUTCOME_FAILED
      then lifecycle TK_COMPENSATION_OUTCOME_FAILED (CompensationOutcomeFailed completed audit None)
      else if kind = ProgressKind PK_START_COMPENSATION_VERIFICATION
      then bind_err (build_compensation_verification_request op compensation completed
             (wi_verification_id w) requested_at) (\<lambda>request.
           Inr (StartCompensationVerification
             \<lparr>pc_kind = PK_START_COMPENSATION_VERIFICATION, pc_operation_id = op_id op,
              pc_expected_operation_version = op_version op, pc_compensation_id = cm_id compensation,
              pc_expected_compensation_version = cm_version compensation, pc_occurred_at = occurred_at,
              pc_actor = Some actor, pc_correlation_id = correlation_id, pc_reason_code = reason_code,
              sv_completed_compensation_attempt = Some completed, sv_verification_request = request,
              sv_attempt_audit_event_id = Some audit,
              sv_verification_audit_event_id = wi_verification_start_audit_event_id w,
              sv_outbox_event_id = wi_verification_outbox_event_id w\<rparr>))
      else Inl PyAssertionError)"

text \<open>\<open>_verification_write_ids\<close>: transition, verification and outbox id of the write.\<close>

definition verification_write_ids ::
  "compensation_ids \<Rightarrow> opaque_id \<Rightarrow> int \<Rightarrow> opaque_id \<Rightarrow> (opaque_id \<times> opaque_id \<times> opaque_id) fallible" where
  "verification_write_ids ids compensation_id attempt_number verification_id =
   (let initial = (ti_complete_transition_audit_event_id ids,
          ti_verification_complete_audit_event_id ids, ti_complete_outbox_event_id ids);
        resumed = bind_err (ti_retry_ids_for ids compensation_id (attempt_number + 1)) (\<lambda>r.
          Inr (if verification_id = ty_resume_verification_id r
               then (ty_resume_complete_transition_audit_event_id r,
                     ty_resume_verification_complete_audit_event_id r,
                     ty_resume_complete_outbox_event_id r)
               else initial))
    in if verification_id = ti_verification_id ids then Inr initial
       else if attempt_number \<ge> 2
       then bind_err (ti_retry_ids_for ids compensation_id attempt_number) (\<lambda>r.
            if verification_id = ty_verification_id r
            then Inr (ty_complete_transition_audit_event_id r,
                      ty_verification_complete_audit_event_id r, ty_complete_outbox_event_id r)
            else resumed)
       else resumed)"

definition verify_outcome_command ::
  "any_kind \<Rightarrow> string \<Rightarrow> operation \<Rightarrow> compensation \<Rightarrow> verification_result \<Rightarrow> compensation_attempt option \<Rightarrow>
   compensation_attempt option \<Rightarrow> principal_ref \<Rightarrow> string option \<Rightarrow> utc_timestamp \<Rightarrow> compensation_ids \<Rightarrow>
   idempotency_mode \<Rightarrow> int \<Rightarrow> transition_command fallible" where
  "verify_outcome_command kind reason_code op compensation result completed next_attempt actor
     correlation_id occurred_at ids idempotency_mode current_attempt_number =
   bind_err (verification_write_ids ids (cm_id compensation) current_attempt_number (vs_id result))
     (\<lambda>(transition, verification, outbox).
   let lifecycle = (\<lambda>k who body. Inr (OperationCommand (lifecycle_command k op occurred_at (Some who)
         correlation_id reason_code transition body)))
   in if kind = OpKind TK_COMPENSATION_APPLIED
      then (case completed of
              None \<Rightarrow> Inl PyAssertionError
            | Some a \<Rightarrow> lifecycle TK_COMPENSATION_APPLIED actor
                (CompensationApplied a verification (Some result)))
      else if kind = OpKind TK_COMPENSATION_OUTCOME_FAILED
      then (case completed of
              None \<Rightarrow> Inl PyAssertionError
            | Some a \<Rightarrow> lifecycle TK_COMPENSATION_OUTCOME_FAILED actor
                (CompensationOutcomeFailed a verification (Some result)))
      else if kind = OpKind TK_COMPENSATION_OUTCOME_UNKNOWN
      then lifecycle TK_COMPENSATION_OUTCOME_UNKNOWN actor
             (CompensationOutcomeUnknown None verification outbox (Some result))
      else if kind = OpKind TK_COMPENSATION_ESCALATE
      then lifecycle TK_COMPENSATION_ESCALATE COMPENSATION_ACTOR
             (CompensationEscalate (ti_manual_audit_event_id ids) (Some result))
      else if kind = ProgressKind PK_RETRY_COMPENSATION_AFTER_VERIFICATION
      then (case next_attempt of
              None \<Rightarrow> Inl PyAssertionError
            | Some a \<Rightarrow>
                bind_err (ti_retry_ids_for ids (cm_id compensation) (ca_number a)) (\<lambda>r.
                Inr (RetryCompensationAfterVerification
                  \<lparr>pc_kind = PK_RETRY_COMPENSATION_AFTER_VERIFICATION, pc_operation_id = op_id op,
                   pc_expected_operation_version = op_version op, pc_compensation_id = cm_id compensation,
                   pc_expected_compensation_version = cm_version compensation,
                   pc_occurred_at = occurred_at, pc_actor = Some actor,
                   pc_correlation_id = correlation_id, pc_reason_code = reason_code,
                   rv_verification_result = result, rv_attempt = a,
                   rv_idempotency_mode = idempotency_mode,
                   rv_attempt_audit_event_id = ty_attempt_audit_event_id r,
                   rv_verification_audit_event_id = verification,
                   rv_outbox_event_id = ty_attempt_outbox_event_id r\<rparr>)))
      else Inl PyAssertionError)"

section \<open>The loop\<close>

datatype cycle_step =
    Finished compensation_result
  | ThenCompensate operation compensation compensation_attempt
  | ThenVerify operation compensation

text \<open>
  A retry of a failed or unknown compensation and the claim of its attempt, in one unit of work: the
  second command is applied only when the first one was.
\<close>

definition retry_then ::
  "op_command \<Rightarrow> (operation \<Rightarrow> compensation \<Rightarrow> transition_command fallible) \<Rightarrow> journal \<Rightarrow>
   (transition_result \<times> journal) fallible" where
  "retry_then retry next_command j =
   bind_err (apply_command (OperationCommand retry) j) (\<lambda>r.
   if tr_outcome (fst r) \<noteq> TO_APPLIED then Inr r
   else case (tr_operation (fst r), tr_compensation (fst r)) of
     (Some op, Some compensation) \<Rightarrow>
       bind_err (next_command op compensation) (\<lambda>command. apply_command command (snd r))
   | _ \<Rightarrow> Inl PyAssertionError)"

definition claim_retry_command ::
  "compensation_attempt \<Rightarrow> utc_timestamp \<Rightarrow> principal_ref option \<Rightarrow> string option \<Rightarrow> string \<Rightarrow> opaque_id \<Rightarrow>
   operation \<Rightarrow> compensation \<Rightarrow> transition_command fallible" where
  "claim_retry_command attempt occurred_at actor correlation_id reason_code audit op compensation =
     Inr (ClaimCompensationRetryAttempt
       \<lparr>pc_kind = PK_CLAIM_COMPENSATION_RETRY_ATTEMPT, pc_operation_id = op_id op,
        pc_expected_operation_version = op_version op, pc_compensation_id = cm_id compensation,
        pc_expected_compensation_version = cm_version compensation, pc_occurred_at = occurred_at,
        pc_actor = actor, pc_correlation_id = correlation_id, pc_reason_code = reason_code,
        cr_attempt = attempt, cr_attempt_audit_event_id = audit\<rparr>)"

text \<open>The result of the retried claim: what both callers assert of it.\<close>

definition claimed_retry ::
  "transition_result \<Rightarrow> compensation_attempt \<Rightarrow> cycle_step fallible" where
  "claimed_retry t attempt =
     (if tr_outcome t = TO_REJECTED then Inr (Finished (compensation_rejected t None None))
      else case (tr_operation t, tr_compensation t) of
        (Some op, Some compensation) \<Rightarrow> Inr (ThenCompensate op compensation attempt)
      | _ \<Rightarrow> Inl PyAssertionError)"

text \<open>\<open>_maybe_claim_retry\<close>: \<open>None\<close> when the attempt is not retried.\<close>

definition maybe_claim_retry ::
  "surroundings \<Rightarrow> capability_registry \<Rightarrow> operation \<Rightarrow> compensation \<Rightarrow> compensation_attempt \<Rightarrow> string option \<Rightarrow>
   compensation_ids \<Rightarrow> effect_descriptor \<Rightarrow> cycle_step option service" where
  "maybe_claim_retry S registry op compensation completed correlation_id ids descriptor =
   bind_service (list_compensation_attempts S (cm_id compensation)) (\<lambda>attempts.
   bind_service (load_policy S op) (\<lambda>policy.
   case policy of
     None \<Rightarrow> return_service None
   | Some p \<Rightarrow>
       bind_service (clock_now S) (\<lambda>now.
       bind_service (lift_service (registry_retry_safety registry (in_effect (op_intent op))
         (Some EO_NOT_APPLIED) None now
         (Some (case attempts of [] \<Rightarrow> ca_started_at completed | a # _ \<Rightarrow> ca_started_at a)) None)) (\<lambda>retry.
       if rs_verdict retry \<noteq> RV_SAFE \<or> ca_number completed \<ge> max_automatic_attempts (pd_obligations p)
       then return_service None
       else
         let next_number = ca_number completed + 1
         in bind_service (lift_service (ti_retry_ids_for ids (cm_id compensation) next_number)) (\<lambda>r.
            bind_service (clock_now S) (\<lambda>started_at.
            bind_service (lift_service (build_started_compensation_attempt (cm_id compensation)
              (ty_attempt_id r) next_number descriptor started_at)) (\<lambda>next_attempt.
            bind_service (clock_now S) (\<lambda>retried_at. bind_service (clock_now S) (\<lambda>claimed_at.
            commit_else S
              (retry_then (lifecycle_command TK_COMPENSATION_FAILED_RETRY op retried_at
                   (Some COMPENSATION_ACTOR) correlation_id (rs_reason_code retry)
                   (ty_parent_retry_transition_audit_event_id r)
                   (CompensationFailedRetry (ty_parent_retry_outbox_event_id r)))
                 (claim_retry_command next_attempt claimed_at (Some COMPENSATION_ACTOR) correlation_id
                   ''compensation_retry_claimed'' (ty_attempt_audit_event_id r)))
              (op_id op)
              (compensation_answer CD_REJECTED ''concurrency_conflict'' (Some op) (Some compensation))
              (\<lambda>failed. compensation_answer CD_INFRASTRUCTURE_FAILURE ''persist_failed_before_compensate''
                 (Some failed) None)
              (\<lambda>answer. Some (Finished answer))
              (\<lambda>t. bind_service (lift_service (claimed_retry t next_attempt)) (\<lambda>step.
                 return_service (Some step))))))))))))"

text \<open>What follows a committed outcome of \<open>compensate\<close>.\<close>

definition after_compensate ::
  "surroundings \<Rightarrow> capability_registry \<Rightarrow> compensation_crash_point option \<Rightarrow> string option \<Rightarrow>
   compensation_ids \<Rightarrow> effect_descriptor \<Rightarrow> any_kind \<Rightarrow> compensation_attempt \<Rightarrow> compensation_evidence \<Rightarrow>
   transition_result \<Rightarrow> cycle_step service" where
  "after_compensate S registry crash_after correlation_id ids descriptor kind completed evidence t =
   (if tr_outcome t = TO_REJECTED
    then return_service (Finished (compensation_rejected t (Some evidence) None))
    else bind_service (compensation_crash crash_after CC_AFTER_EVIDENCE_COMMIT) (\<lambda>_.
      case (tr_operation t, tr_compensation t) of
        (Some op, Some compensation) \<Rightarrow>
          if kind = ProgressKind PK_START_COMPENSATION_VERIFICATION
          then bind_service (compensation_crash crash_after CC_AFTER_VERIFY_START_COMMIT) (\<lambda>_.
               return_service (ThenVerify op compensation))
          else if kind = OpKind TK_COMPENSATION_OUTCOME_FAILED
          then bind_service (maybe_claim_retry S registry op compensation completed correlation_id ids
                 descriptor) (\<lambda>retry.
               return_service (case retry of
                   None \<Rightarrow> Finished (compensation_accepted ''accepted'' t (Some evidence) None)
                 | Some step \<Rightarrow> step))
          else return_service (Finished (compensation_accepted ''accepted'' t (Some evidence) None))
      | _ \<Rightarrow> raise_service PyAssertionError))"

definition compensate_step ::
  "surroundings \<Rightarrow> capability_registry \<Rightarrow> compensation_crash_point option \<Rightarrow> principal_ref \<Rightarrow>
   string option \<Rightarrow> compensation_ids \<Rightarrow> effect_descriptor \<Rightarrow> operation \<Rightarrow> compensation \<Rightarrow>
   compensation_attempt \<Rightarrow> cycle_step service" where
  "compensate_step S registry crash_after actor correlation_id ids descriptor op compensation attempt =
   bind_service (read_uow S (at_list_for_operation (op_id op))) (\<lambda>original_attempts.
   let request = build_compensation_provider_request op compensation attempt original_attempts;
       context = build_compensate_context op attempt compensation correlation_id
   in bind_service (classified_compensate S registry op context request) (\<lambda>evidence.
      bind_service (compensation_crash crash_after CC_AFTER_COMPENSATE_BEFORE_EVIDENCE) (\<lambda>_.
      bind_service (clock_now S) (\<lambda>completed_at.
      bind_service (lift_service (complete_attempt_from_evidence attempt evidence completed_at)) (\<lambda>completed.
      bind_service (load_policy S op) (\<lambda>policy.
      case policy of
        None \<Rightarrow> return_service (Finished (compensation_answer CD_REJECTED ''policy_missing'' (Some op)
          (Some compensation)))
      | Some p \<Rightarrow>
          let decision = decide_compensate_kind (ce_outcome evidence) descriptor (pd_obligations p)
          in bind_service (clock_now S) (\<lambda>occurred_at. bind_service (clock_now S) (\<lambda>requested_at.
             bind_service (lift_service (build_compensate_outcome_command (kc_kind decision)
               (kc_reason_code decision) op compensation completed actor correlation_id occurred_at ids
               requested_at (ca_number attempt > 1))) (\<lambda>cmd.
             commit_else S (apply_command cmd) (op_id op)
               (make_compensation_result CD_REJECTED ''concurrency_conflict'' (Some op) (Some compensation)
                 None (Some evidence) None)
               (\<lambda>failed. make_compensation_result CD_INFRASTRUCTURE_FAILURE
                  ''persist_failed_after_compensate'' (Some failed) None None (Some evidence) None)
               Finished
               (after_compensate S registry crash_after correlation_id ids descriptor (kc_kind decision)
                 completed evidence))))))))))"

text \<open>The verification a verify step decides on, with the evidence it just obtained, if it did.\<close>

definition obtain_compensation_result ::
  "surroundings \<Rightarrow> capability_registry \<Rightarrow> compensation_crash_point option \<Rightarrow> string option \<Rightarrow> operation \<Rightarrow>
   compensation \<Rightarrow> verification_result option \<Rightarrow>
   (compensation_result + verification_result \<times> verification_evidence option) service" where
  "obtain_compensation_result S registry crash_after correlation_id op compensation existing =
   (case existing of
      Some r \<Rightarrow> return_service (Inr (r, None))
    | None \<Rightarrow>
        bind_service (find_pending_compensation_verification S (op_id op)) (\<lambda>pending.
        case pending of
          None \<Rightarrow> return_service (Inl (compensation_answer CD_REJECTED ''verification_missing'' (Some op)
            (Some compensation)))
        | Some row \<Rightarrow>
            let request = fst row
            in bind_service (lift_service (build_compensation_verify_context op compensation request
                 correlation_id)) (\<lambda>context.
               bind_service (classified_compensation_verify S registry op context request) (\<lambda>evidence.
               bind_service (compensation_crash crash_after CC_AFTER_VERIFY_BEFORE_RESULT) (\<lambda>_.
               bind_service (clock_now S) (\<lambda>completed_at.
               bind_service (lift_service (result_from_evidence (vq_id request) evidence completed_at)) (\<lambda>result.
               return_service (Inr (result, Some evidence)))))))))"

text \<open>What the command of the decision needs: the completed attempt, or the next one, or an answer.\<close>

definition prepare_verify_outcome ::
  "surroundings \<Rightarrow> operation \<Rightarrow> compensation \<Rightarrow> compensation_ids \<Rightarrow> effect_descriptor \<Rightarrow> any_kind \<Rightarrow>
   verification_result \<Rightarrow> verification_evidence option \<Rightarrow> compensation_attempt option \<Rightarrow>
   (compensation_result + compensation_attempt option \<times> compensation_attempt option) service" where
  "prepare_verify_outcome S op compensation ids descriptor kind result evidence latest =
   (if kind \<in> {OpKind TK_COMPENSATION_APPLIED, OpKind TK_COMPENSATION_OUTCOME_FAILED}
    then (case latest of
        None \<Rightarrow> return_service (Inl (make_compensation_result CD_REJECTED ''attempt_missing'' (Some op)
          (Some compensation) None None evidence))
      | Some a \<Rightarrow>
          if ca_state a = AS_COMPLETED then return_service (Inr (Some a, None))
          else bind_service (clock_now S) (\<lambda>completed_at.
               bind_service (lift_service (complete_attempt_from_verification a result
                 (if kind = OpKind TK_COMPENSATION_APPLIED then EO_APPLIED else EO_NOT_APPLIED)
                 completed_at)) (\<lambda>completed.
               return_service (Inr (Some completed, None)))))
    else if kind = ProgressKind PK_RETRY_COMPENSATION_AFTER_VERIFICATION
    then bind_service (list_compensation_attempts S (cm_id compensation)) (\<lambda>existing.
         let next_number = int (length existing) + 1
         in bind_service (lift_service (ti_retry_ids_for ids (cm_id compensation) next_number)) (\<lambda>r.
            bind_service (clock_now S) (\<lambda>started_at.
            bind_service (lift_service (build_started_compensation_attempt (cm_id compensation)
              (ty_attempt_id r) next_number descriptor started_at)) (\<lambda>next_attempt.
            return_service (Inr (None, Some next_attempt))))))
    else return_service (Inr (None, None)))"

definition after_verify ::
  "compensation_crash_point option \<Rightarrow> any_kind \<Rightarrow> compensation_attempt option \<Rightarrow>
   verification_evidence option \<Rightarrow> transition_result \<Rightarrow> cycle_step service" where
  "after_verify crash_after kind next_attempt evidence t =
   (if tr_outcome t = TO_REJECTED then return_service (Finished (compensation_rejected t None evidence))
    else bind_service (compensation_crash crash_after CC_AFTER_VERIFY_RESULT_COMMIT) (\<lambda>_.
      case (tr_operation t, tr_compensation t) of
        (Some op, Some compensation) \<Rightarrow>
          if kind = ProgressKind PK_RETRY_COMPENSATION_AFTER_VERIFICATION
          then (case next_attempt of
                  None \<Rightarrow> raise_service PyAssertionError
                | Some a \<Rightarrow> return_service (ThenCompensate op compensation a))
          else return_service (Finished (compensation_accepted ''accepted'' t None evidence))
      | _ \<Rightarrow> raise_service PyAssertionError))"

text \<open>The decision on the result, and its commit.\<close>

definition settle_verification ::
  "surroundings \<Rightarrow> compensation_crash_point option \<Rightarrow> principal_ref \<Rightarrow> string option \<Rightarrow> compensation_ids \<Rightarrow>
   effect_descriptor \<Rightarrow> operation \<Rightarrow> compensation \<Rightarrow> verification_result \<Rightarrow> verification_evidence option \<Rightarrow>
   cycle_step service" where
  "settle_verification S crash_after actor correlation_id ids descriptor op compensation result evidence =
   bind_service (list_compensation_attempts S (cm_id compensation)) (\<lambda>attempts.
   bind_service (load_policy S op) (\<lambda>policy.
   case policy of
     None \<Rightarrow> return_service (Finished (make_compensation_result CD_REJECTED ''policy_missing'' (Some op)
       (Some compensation) None None evidence))
   | Some p \<Rightarrow>
       bind_service (list_verifications S (op_id op)) (\<lambda>rows.
       let latest = last_opt attempts;
           current = find (\<lambda>row. vq_id (fst row) = vs_id result \<and> vq_target (fst row) = VT_COMPENSATION) rows;
           count = completed_compensation_verification_count rows +
             (case current of Some (_, None) \<Rightarrow> 1 | _ \<Rightarrow> 0);
           decision = reconcile_compensation result latest descriptor (pd_obligations p) count
       in bind_service (lift_service (compensation_decision_to_kind (op_state op) (cm_state compensation)
            decision)) (\<lambda>mapped.
          bind_service (prepare_verify_outcome S op compensation ids descriptor (kc_kind mapped) result
            evidence latest) (\<lambda>prepared.
          case prepared of
            Inl answer \<Rightarrow> return_service (Finished answer)
          | Inr (completed, next_attempt) \<Rightarrow>
              bind_service (clock_now S) (\<lambda>occurred_at.
              bind_service (lift_service (verify_outcome_command (kc_kind mapped) (kc_reason_code mapped)
                op compensation result completed next_attempt actor correlation_id occurred_at ids
                (ed_idempotency_mode descriptor)
                (case latest of Some a \<Rightarrow> ca_number a | None \<Rightarrow> 1))) (\<lambda>cmd.
              commit_else S (apply_command cmd) (op_id op)
                (make_compensation_result CD_REJECTED ''concurrency_conflict'' (Some op)
                  (Some compensation) None None evidence)
                (\<lambda>failed. make_compensation_result CD_INFRASTRUCTURE_FAILURE
                   ''persist_failed_after_verify'' (Some failed) None None None evidence)
                Finished
                (after_verify crash_after (kc_kind mapped) next_attempt evidence))))))))"

definition verify_step ::
  "surroundings \<Rightarrow> capability_registry \<Rightarrow> compensation_crash_point option \<Rightarrow> principal_ref \<Rightarrow>
   string option \<Rightarrow> compensation_ids \<Rightarrow> effect_descriptor \<Rightarrow> operation \<Rightarrow> compensation \<Rightarrow>
   verification_result option \<Rightarrow> cycle_step service" where
  "verify_step S registry crash_after actor correlation_id ids descriptor op compensation existing =
   bind_service (obtain_compensation_result S registry crash_after correlation_id op compensation existing)
     (\<lambda>obtained.
   case obtained of
     Inl answer \<Rightarrow> return_service (Finished answer)
   | Inr (result, evidence) \<Rightarrow>
       settle_verification S crash_after actor correlation_id ids descriptor op compensation result evidence)"

text \<open>The \<open>while True\<close>: each round is one step, told which one by the last.\<close>

fun cycle_rounds ::
  "surroundings \<Rightarrow> capability_registry \<Rightarrow> compensation_crash_point option \<Rightarrow> principal_ref \<Rightarrow>
   string option \<Rightarrow> compensation_ids \<Rightarrow> effect_descriptor \<Rightarrow> nat \<Rightarrow> verification_result option \<Rightarrow>
   cycle_step \<Rightarrow> compensation_result service" where
  "cycle_rounds S registry crash_after actor correlation_id ids descriptor fuel existing (Finished r) =
     return_service r"
| "cycle_rounds S registry crash_after actor correlation_id ids descriptor 0 existing step =
     raise_service LoopFuelSpent"
| "cycle_rounds S registry crash_after actor correlation_id ids descriptor (Suc fuel) existing
       (ThenCompensate op compensation attempt) =
     bind_service (compensate_step S registry crash_after actor correlation_id ids descriptor op
       compensation attempt)
       (cycle_rounds S registry crash_after actor correlation_id ids descriptor fuel existing)"
| "cycle_rounds S registry crash_after actor correlation_id ids descriptor (Suc fuel) existing
       (ThenVerify op compensation) =
     bind_service (verify_step S registry crash_after actor correlation_id ids descriptor op compensation
       existing)
       (cycle_rounds S registry crash_after actor correlation_id ids descriptor fuel None)"

definition run_cycle ::
  "surroundings \<Rightarrow> capability_registry \<Rightarrow> compensation_crash_point option \<Rightarrow> nat \<Rightarrow> principal_ref \<Rightarrow>
   string option \<Rightarrow> compensation_ids \<Rightarrow> effect_descriptor option \<Rightarrow> verification_result option \<Rightarrow>
   operation \<Rightarrow> cycle_step \<Rightarrow> compensation_result service" where
  "run_cycle S registry crash_after fuel actor correlation_id ids descriptor existing op first =
   (case first of
      Finished r \<Rightarrow> return_service r
    | _ \<Rightarrow>
        bind_service (case descriptor of
            Some d \<Rightarrow> return_service d
          | None \<Rightarrow> lift_service (descriptor_for registry (in_effect (op_intent op)))) (\<lambda>d.
        cycle_rounds S registry crash_after actor correlation_id ids d fuel existing first))"

end
