(* ===== verification/Compensation_Service.thy ===== *)
theory Compensation_Service
  imports Compensation_Cycle
begin

text \<open>
  Executing and recovering a compensation (the rest of \<^verbatim>\<open>compensation/execute.py\<close> and
  \<^verbatim>\<open>compensation/recover.py\<close>), the operator's actions (\<^verbatim>\<open>compensation/operator.py\<close>) and the scan
  (\<^verbatim>\<open>compensation/scan.py\<close>). \<open>execute_compensation\<close>, \<open>dispatch_execute\<close> and \<open>recover_compensation\<close> call
  each other: each step is a definition over the functions it calls, tied together at the end with
  Python's recursion depth as fuel. \<open>fuel\<close> counts the rounds of the compensate/verify loop.
\<close>

type_synonym compensation_service = "compensation_result service"

section \<open>Claiming the first attempt\<close>

definition claim_and_compensate ::
  "surroundings \<Rightarrow> capability_registry \<Rightarrow> compensation_crash_point option \<Rightarrow> nat \<Rightarrow>
   (operation \<Rightarrow> compensation_service) \<Rightarrow> ('a compensation_command_scheme) \<Rightarrow> operation \<Rightarrow> compensation \<Rightarrow>
   compensation_service" where
  "claim_and_compensate S registry crash_after fuel again command op compensation =
   (let actor = (case tc_actor command of Some a \<Rightarrow> a | None \<Rightarrow> COMPENSATION_ACTOR);
        ids = tc_ids command
    in try_else (lift_service (descriptor_for registry (in_effect (op_intent op))))
         (\<lambda>e. if e = UnsupportedEffectError
              then Some (return_service (compensation_answer CD_REJECTED ''unregistered_effect'' (Some op)
                (Some compensation)))
              else None)
         (\<lambda>descriptor.
       bind_service (list_compensation_attempts S (cm_id compensation)) (\<lambda>existing.
       bind_service (clock_now S) (\<lambda>started_at.
       bind_service (lift_service (build_started_compensation_attempt (cm_id compensation)
         (ti_compensation_attempt_id ids) (int (length existing) + 1) descriptor started_at)) (\<lambda>started.
       bind_service (clock_now S) (\<lambda>occurred_at.
       commit_else S (apply_command (ClaimCompensationExecution
           \<lparr>pc_kind = PK_CLAIM_COMPENSATION_EXECUTION, pc_operation_id = op_id op,
            pc_expected_operation_version = op_version op, pc_compensation_id = cm_id compensation,
            pc_expected_compensation_version = cm_version compensation, pc_occurred_at = occurred_at,
            pc_actor = Some actor, pc_correlation_id = tc_correlation_id command,
            pc_reason_code = ''compensation_claimed'', ce_attempt = started,
            ce_attempt_audit_event_id = ti_claim_attempt_audit_event_id ids\<rparr>))
         (op_id op)
         (compensation_answer CD_REJECTED ''concurrency_conflict'' (Some op) (Some compensation))
         (\<lambda>failed. compensation_answer CD_INFRASTRUCTURE_FAILURE ''persist_failed_before_compensate''
            (Some failed) None)
         (\<lambda>r. r)
         (\<lambda>t.
         if tr_outcome t = TO_REJECTED then return_service (compensation_rejected t None None)
         else if tr_outcome t = TO_ALREADY_APPLIED
         then bind_service (load_operation S (op_id op)) again
         else case (tr_operation t, tr_compensation t) of
           (Some claimed, Some claimed_compensation) \<Rightarrow>
             bind_service (compensation_crash crash_after CC_AFTER_CLAIM_COMMIT) (\<lambda>_.
             run_cycle S registry crash_after fuel actor (tc_correlation_id command) ids
               (Some descriptor) None claimed (ThenCompensate claimed claimed_compensation started))
         | _ \<Rightarrow> raise_service PyAssertionError)))))))"

section \<open>Executing\<close>

definition recovering :: "('a compensation_command_scheme) \<Rightarrow> operation \<Rightarrow> principal_ref option \<Rightarrow> compensation_command" where
  "recovering command op actor =
     \<lparr>tc_operation_id = op_id op, tc_expected_version = op_version op, tc_ids = tc_ids command,
      tc_actor = actor, tc_correlation_id = tc_correlation_id command\<rparr>"

definition dispatch_step ::
  "surroundings \<Rightarrow> capability_registry \<Rightarrow> compensation_crash_point option \<Rightarrow> nat \<Rightarrow>
   (compensation_command \<Rightarrow> compensation_service) \<Rightarrow> (operation \<Rightarrow> compensation_service) \<Rightarrow>
   compensation_command \<Rightarrow> operation \<Rightarrow> compensation_service" where
  "dispatch_step S registry crash_after fuel recover again command op =
   (let answer = (\<lambda>d r c. return_service (compensation_answer d r (Some op) c));
        delegate = recover (recovering command op (tc_actor command))
    in if op_state op = OS_COMPENSATED then answer CD_ACCEPTED ''already_applied'' None
       else if op_state op \<notin> {OS_COMPENSATING, OS_COMPENSATION_UNKNOWN, OS_COMPENSATION_FAILED}
       then answer CD_REJECTED ''source_state_mismatch'' None
       else case op_compensation_id op of
         None \<Rightarrow> answer CD_REJECTED ''compensation_missing'' None
       | Some i \<Rightarrow>
           bind_service (load_compensation S i) (\<lambda>loaded.
           case loaded of
             None \<Rightarrow> answer CD_REJECTED ''compensation_missing'' None
           | Some compensation \<Rightarrow>
               if op_state op \<in> {OS_COMPENSATION_UNKNOWN, OS_COMPENSATION_FAILED} then delegate
               else if cm_state compensation = CS_PENDING
               then claim_and_compensate S registry crash_after fuel again command op compensation
               else if cm_state compensation = CS_EXECUTING
               then bind_service (list_compensation_attempts S (cm_id compensation)) (\<lambda>attempts.
                    case last_opt attempts of
                      Some a \<Rightarrow>
                        if ca_state a = AS_STARTED then answer CD_IN_FLIGHT ''in_flight'' (Some compensation)
                        else delegate
                    | None \<Rightarrow> delegate)
               else if cm_state compensation = CS_VERIFYING then delegate
               else answer CD_REJECTED ''unsupported_state'' (Some compensation)))"

definition execute_step ::
  "surroundings \<Rightarrow> (compensation_command \<Rightarrow> operation \<Rightarrow> compensation_service) \<Rightarrow> compensation_command \<Rightarrow>
   compensation_service" where
  "execute_step S dispatch command =
   bind_service (load_operation S (tc_operation_id command)) (\<lambda>op.
   if op_state op \<notin> {OS_COMPENSATED, OS_COMPENSATION_FAILED} \<and> op_version op \<noteq> tc_expected_version command
   then return_service (compensation_answer CD_REJECTED ''concurrency_conflict'' (Some op) None)
   else dispatch command op)"

section \<open>Recovering\<close>

text \<open>The answer of a committed transition that starts nothing else.\<close>

definition settled :: "transition_result \<Rightarrow> compensation_result" where
  "settled t = (if tr_outcome t = TO_REJECTED then compensation_rejected t None None
                else compensation_accepted ''accepted'' t None None)"

abbreviation persist_failed :: "operation \<Rightarrow> compensation_result" where
  "persist_failed failed \<equiv> compensation_answer CD_INFRASTRUCTURE_FAILURE ''persist_failed'' (Some failed) None"

definition leftover_started_to_unknown ::
  "surroundings \<Rightarrow> compensation_command \<Rightarrow> operation \<Rightarrow> compensation \<Rightarrow> principal_ref \<Rightarrow> compensation_service" where
  "leftover_started_to_unknown S command op compensation actor =
   (let ids = tc_ids command
    in bind_service (clock_now S) (\<lambda>occurred_at.
       commit_else S (apply_command (OperationCommand (lifecycle_command TK_COMPENSATION_OUTCOME_UNKNOWN op
           occurred_at (Some actor) (tc_correlation_id command) ''compensation_leftover_unknown''
           (ti_complete_transition_audit_event_id ids)
           (CompensationOutcomeUnknown None (ti_evidence_audit_event_id ids)
             (ti_complete_outbox_event_id ids) None))))
         (op_id op)
         (compensation_answer CD_REJECTED ''concurrency_conflict'' (Some op) (Some compensation))
         persist_failed (\<lambda>r. r) (\<lambda>t. return_service (settled t))))"

definition replay_completed_mapper ::
  "surroundings \<Rightarrow> capability_registry \<Rightarrow> compensation_crash_point option \<Rightarrow> nat \<Rightarrow> compensation_command \<Rightarrow>
   operation \<Rightarrow> compensation \<Rightarrow> compensation_attempt \<Rightarrow> principal_ref \<Rightarrow> compensation_service" where
  "replay_completed_mapper S registry crash_after fuel command op compensation latest actor =
   bind_service (lift_service (descriptor_for registry (in_effect (op_intent op)))) (\<lambda>descriptor.
   bind_service (load_policy S op) (\<lambda>policy.
   case policy of
     None \<Rightarrow> return_service (compensation_answer CD_REJECTED ''policy_missing'' (Some op) (Some compensation))
   | Some p \<Rightarrow>
       (case ca_outcome latest of
          None \<Rightarrow> raise_service PyAssertionError
        | Some outcome \<Rightarrow>
            let decision = decide_compensate_kind outcome descriptor (pd_obligations p)
            in bind_service (clock_now S) (\<lambda>occurred_at. bind_service (clock_now S) (\<lambda>requested_at.
               bind_service (lift_service (build_compensate_outcome_command (kc_kind decision)
                 (kc_reason_code decision) op compensation latest actor (tc_correlation_id command)
                 occurred_at (tc_ids command) requested_at (ca_number latest > 1))) (\<lambda>cmd.
               commit_else S (apply_command cmd) (op_id op)
                 (compensation_answer CD_REJECTED ''concurrency_conflict'' (Some op) (Some compensation))
                 persist_failed (\<lambda>r. r)
                 (\<lambda>t.
                 if tr_outcome t = TO_REJECTED then return_service (compensation_rejected t None None)
                 else case (tr_operation t, tr_compensation t) of
                   (Some op', Some compensation') \<Rightarrow>
                     if kc_kind decision = ProgressKind PK_START_COMPENSATION_VERIFICATION
                     then bind_service (compensation_crash crash_after CC_AFTER_VERIFY_START_COMMIT) (\<lambda>_.
                          run_cycle S registry crash_after fuel actor (tc_correlation_id command)
                            (tc_ids command) None None op' (ThenVerify op' compensation'))
                     else return_service (compensation_accepted ''accepted'' t None None)
                 | _ \<Rightarrow> raise_service PyAssertionError)))))))"

definition recover_compensating ::
  "surroundings \<Rightarrow> capability_registry \<Rightarrow> compensation_crash_point option \<Rightarrow> nat \<Rightarrow>
   (compensation_command \<Rightarrow> compensation_service) \<Rightarrow> compensation_command \<Rightarrow> operation \<Rightarrow> compensation \<Rightarrow>
   principal_ref \<Rightarrow> compensation_service" where
  "recover_compensating S registry crash_after fuel execute command op compensation actor =
   (let answer = (\<lambda>r. return_service (compensation_answer CD_REJECTED r (Some op) (Some compensation)));
        verify = (\<lambda>existing. run_cycle S registry crash_after fuel actor (tc_correlation_id command)
          (tc_ids command) None existing op (ThenVerify op compensation))
    in if cm_state compensation = CS_PENDING then execute (recovering command op (Some actor))
       else if cm_state compensation = CS_EXECUTING
       then bind_service (list_compensation_attempts S (cm_id compensation)) (\<lambda>attempts.
            case last_opt attempts of
              None \<Rightarrow> answer ''attempt_missing''
            | Some latest \<Rightarrow>
                if ca_state latest = AS_STARTED
                then leftover_started_to_unknown S command op compensation actor
                else replay_completed_mapper S registry crash_after fuel command op compensation latest actor)
       else if cm_state compensation = CS_VERIFYING
       then bind_service (find_pending_compensation_verification S (op_id op)) (\<lambda>pending.
            if pending \<noteq> None then verify None
            else bind_service (list_verifications S (op_id op)) (\<lambda>rows.
              case last_opt (filter (\<lambda>row. vq_target (fst row) = VT_COMPENSATION \<and> snd row \<noteq> None) rows) of
                None \<Rightarrow> answer ''verification_missing''
              | Some row \<Rightarrow> verify (snd row)))
       else answer ''unsupported_state'')"

text \<open>What \<open>_unknown_without_verify\<close> and \<open>_unknown_start_verification\<close> do with a replayed retry.\<close>

definition recover_again ::
  "surroundings \<Rightarrow> (compensation_command \<Rightarrow> compensation_service) \<Rightarrow> compensation_command \<Rightarrow> operation \<Rightarrow>
   principal_ref \<Rightarrow> compensation_service" where
  "recover_again S recover command op actor =
     bind_service (load_operation S (op_id op)) (\<lambda>fresh. recover (recovering command fresh (Some actor)))"

definition retry_unknown_compensation ::
  "surroundings \<Rightarrow> capability_registry \<Rightarrow> compensation_crash_point option \<Rightarrow> nat \<Rightarrow>
   (compensation_command \<Rightarrow> compensation_service) \<Rightarrow> compensation_command \<Rightarrow> operation \<Rightarrow> compensation \<Rightarrow>
   int \<Rightarrow> principal_ref \<Rightarrow> effect_descriptor \<Rightarrow> string \<Rightarrow> compensation_service" where
  "retry_unknown_compensation S registry crash_after fuel recover command op compensation next_number actor
     descriptor reason_code =
   bind_service (lift_service (ti_retry_ids_for (tc_ids command) (cm_id compensation) next_number)) (\<lambda>r.
   bind_service (clock_now S) (\<lambda>started_at.
   bind_service (lift_service (build_started_compensation_attempt (cm_id compensation) (ty_attempt_id r)
     next_number descriptor started_at)) (\<lambda>next_attempt.
   bind_service (clock_now S) (\<lambda>retried_at. bind_service (clock_now S) (\<lambda>claimed_at.
   commit_else S
     (retry_then (lifecycle_command TK_COMPENSATION_UNKNOWN_RETRY op retried_at (Some COMPENSATION_ACTOR)
          (tc_correlation_id command) reason_code (ty_parent_retry_transition_audit_event_id r)
          (CompensationUnknownRetry (ty_parent_retry_outbox_event_id r)))
        (claim_retry_command next_attempt claimed_at (Some COMPENSATION_ACTOR) (tc_correlation_id command)
          ''compensation_retry_claimed'' (ty_attempt_audit_event_id r)))
     (op_id op)
     (compensation_answer CD_REJECTED ''concurrency_conflict'' (Some op) (Some compensation))
     (\<lambda>failed. compensation_answer CD_INFRASTRUCTURE_FAILURE ''persist_failed_before_compensate''
        (Some failed) None)
     (\<lambda>r. r)
     (\<lambda>t.
     if tr_outcome t = TO_ALREADY_APPLIED then recover_again S recover command op actor
     else bind_service (lift_service (claimed_retry t next_attempt)) (\<lambda>step.
       run_cycle S registry crash_after fuel COMPENSATION_ACTOR (tc_correlation_id command)
         (tc_ids command) None None op step)))))))"

definition unknown_compensation_without_verify ::
  "surroundings \<Rightarrow> capability_registry \<Rightarrow> compensation_crash_point option \<Rightarrow> nat \<Rightarrow>
   (compensation_command \<Rightarrow> compensation_service) \<Rightarrow> compensation_command \<Rightarrow> operation \<Rightarrow> compensation \<Rightarrow>
   compensation_attempt \<Rightarrow> principal_ref \<Rightarrow> effect_descriptor \<Rightarrow> policy_decision \<Rightarrow> compensation_service" where
  "unknown_compensation_without_verify S registry crash_after fuel recover command op compensation latest
     actor descriptor policy =
   bind_service (list_compensation_attempts S (cm_id compensation)) (\<lambda>attempts.
   bind_service (clock_now S) (\<lambda>now.
   bind_service (lift_service (registry_retry_safety registry (in_effect (op_intent op))
     (if ca_state latest = AS_COMPLETED then ca_outcome latest else Some EO_UNKNOWN) None now
     (Some (ca_started_at (hd attempts))) None)) (\<lambda>retry.
   if rs_verdict retry = RV_SAFE \<and> ca_number latest < max_automatic_attempts (pd_obligations policy)
   then retry_unknown_compensation S registry crash_after fuel recover command op compensation
          (ca_number latest + 1) actor descriptor (rs_reason_code retry)
   else
     let ids = tc_ids command
     in bind_service (clock_now S) (\<lambda>occurred_at.
        commit_else S (apply_command (OperationCommand (lifecycle_command TK_COMPENSATION_UNKNOWN_ESCALATE op
            occurred_at (Some COMPENSATION_ACTOR) (tc_correlation_id command)
            (if rs_verdict retry = RV_SAFE then ''compensation_attempt_budget_exhausted''
             else ''unknown_without_verification'')
            (ti_complete_transition_audit_event_id ids)
            (CompensationUnknownEscalate (ti_manual_audit_event_id ids) None))))
          (op_id op)
          (compensation_answer CD_REJECTED ''concurrency_conflict'' (Some op) (Some compensation))
          persist_failed (\<lambda>r. r) (\<lambda>t. return_service (settled t))))))"

definition unknown_compensation_start_verification ::
  "surroundings \<Rightarrow> capability_registry \<Rightarrow> compensation_crash_point option \<Rightarrow> nat \<Rightarrow>
   (compensation_command \<Rightarrow> compensation_service) \<Rightarrow> compensation_command \<Rightarrow> operation \<Rightarrow> compensation \<Rightarrow>
   compensation_attempt \<Rightarrow> principal_ref \<Rightarrow> compensation_service" where
  "unknown_compensation_start_verification S registry crash_after fuel recover command op compensation latest
     actor =
   bind_service (lift_service (ti_retry_ids_for (tc_ids command) (cm_id compensation)
     (ca_number latest + 1))) (\<lambda>r.
   bind_service (clock_now S) (\<lambda>retried_at. bind_service (clock_now S) (\<lambda>requested_at.
   bind_service (clock_now S) (\<lambda>started_at.
   commit_else S
     (retry_then (lifecycle_command TK_COMPENSATION_UNKNOWN_RETRY op retried_at (Some actor)
          (tc_correlation_id command) ''unknown_verification_supported''
          (ty_parent_retry_transition_audit_event_id r)
          (CompensationUnknownRetry (ty_parent_retry_outbox_event_id r)))
        (\<lambda>op' compensation'.
           bind_err (build_compensation_verification_request op' compensation' latest
             (ty_resume_verification_id r) requested_at) (\<lambda>request.
           Inr (StartCompensationVerification
             \<lparr>pc_kind = PK_START_COMPENSATION_VERIFICATION, pc_operation_id = op_id op',
              pc_expected_operation_version = op_version op', pc_compensation_id = cm_id compensation',
              pc_expected_compensation_version = cm_version compensation', pc_occurred_at = started_at,
              pc_actor = Some actor, pc_correlation_id = tc_correlation_id command,
              pc_reason_code = ''unknown_verification_supported'',
              sv_completed_compensation_attempt = None, sv_verification_request = request,
              sv_attempt_audit_event_id = None,
              sv_verification_audit_event_id = ty_resume_verification_start_audit_event_id r,
              sv_outbox_event_id = ty_resume_verification_outbox_event_id r\<rparr>))))
     (op_id op)
     (compensation_answer CD_REJECTED ''concurrency_conflict'' (Some op) (Some compensation))
     persist_failed (\<lambda>r. r)
     (\<lambda>t.
     if tr_outcome t = TO_REJECTED then return_service (compensation_rejected t None None)
     else if tr_outcome t = TO_ALREADY_APPLIED then recover_again S recover command op actor
     else case (tr_operation t, tr_compensation t) of
       (Some op', Some compensation') \<Rightarrow>
         bind_service (compensation_crash crash_after CC_AFTER_VERIFY_START_COMMIT) (\<lambda>_.
         run_cycle S registry crash_after fuel actor (tc_correlation_id command) (tc_ids command) None None
           op' (ThenVerify op' compensation'))
     | _ \<Rightarrow> raise_service PyAssertionError)))))"

definition recover_unknown_compensation ::
  "surroundings \<Rightarrow> capability_registry \<Rightarrow> compensation_crash_point option \<Rightarrow> nat \<Rightarrow>
   (compensation_command \<Rightarrow> compensation_service) \<Rightarrow> compensation_command \<Rightarrow> operation \<Rightarrow> compensation \<Rightarrow>
   principal_ref \<Rightarrow> compensation_service" where
  "recover_unknown_compensation S registry crash_after fuel recover command op compensation actor =
   (let answer = (\<lambda>r. return_service (compensation_answer CD_REJECTED r (Some op) (Some compensation)))
    in bind_service (lift_service (descriptor_for registry (in_effect (op_intent op)))) (\<lambda>descriptor.
       bind_service (list_compensation_attempts S (cm_id compensation)) (\<lambda>attempts.
       case last_opt attempts of
         None \<Rightarrow> answer ''attempt_missing''
       | Some latest \<Rightarrow>
           bind_service (load_policy S op) (\<lambda>policy.
           case policy of
             None \<Rightarrow> answer ''policy_missing''
           | Some p \<Rightarrow>
               if ed_verification_mode descriptor = VM_NONE
               then unknown_compensation_without_verify S registry crash_after fuel recover command op
                      compensation latest actor descriptor p
               else unknown_compensation_start_verification S registry crash_after fuel recover command op
                      compensation latest actor))))"

definition recover_step ::
  "surroundings \<Rightarrow> capability_registry \<Rightarrow> compensation_crash_point option \<Rightarrow> nat \<Rightarrow>
   (compensation_command \<Rightarrow> compensation_service) \<Rightarrow> (compensation_command \<Rightarrow> compensation_service) \<Rightarrow>
   compensation_command \<Rightarrow> compensation_service" where
  "recover_step S registry crash_after fuel execute recover command =
   bind_service (load_operation S (tc_operation_id command)) (\<lambda>op.
   let actor = (case tc_actor command of Some a \<Rightarrow> a | None \<Rightarrow> COMPENSATION_ACTOR);
       answer = (\<lambda>d r c. return_service (compensation_answer d r (Some op) c))
   in if op_state op = OS_COMPENSATED then answer CD_ACCEPTED ''already_applied'' None
      else case op_compensation_id op of
        None \<Rightarrow> answer CD_REJECTED ''compensation_missing'' None
      | Some i \<Rightarrow>
          bind_service (load_compensation S i) (\<lambda>loaded.
          case loaded of
            None \<Rightarrow> answer CD_REJECTED ''compensation_missing'' None
          | Some compensation \<Rightarrow>
              if op_state op = OS_COMPENSATION_FAILED
              then answer CD_ACCEPTED ''already_applied'' (Some compensation)
              else if op_version op \<noteq> tc_expected_version command
              then answer CD_REJECTED ''concurrency_conflict'' (Some compensation)
              else if op_state op = OS_COMPENSATING
              then recover_compensating S registry crash_after fuel execute command op compensation actor
              else if op_state op = OS_COMPENSATION_UNKNOWN
              then recover_unknown_compensation S registry crash_after fuel recover command op compensation actor
              else answer CD_REJECTED ''source_state_mismatch'' (Some compensation)))"

section \<open>The recursion\<close>

fun execute_compensation ::
    "surroundings \<Rightarrow> capability_registry \<Rightarrow> compensation_crash_point option \<Rightarrow> nat \<Rightarrow> nat \<Rightarrow>
     compensation_command \<Rightarrow> compensation_service"
  and dispatch_compensation ::
    "surroundings \<Rightarrow> capability_registry \<Rightarrow> compensation_crash_point option \<Rightarrow> nat \<Rightarrow> nat \<Rightarrow>
     compensation_command \<Rightarrow> operation \<Rightarrow> compensation_service"
  and recover_compensation ::
    "surroundings \<Rightarrow> capability_registry \<Rightarrow> compensation_crash_point option \<Rightarrow> nat \<Rightarrow> nat \<Rightarrow>
     compensation_command \<Rightarrow> compensation_service" where
  "execute_compensation S registry crash_after fuel 0 command = raise_service PyRecursionError"
| "execute_compensation S registry crash_after fuel (Suc depth) command =
     execute_step S (dispatch_compensation S registry crash_after fuel depth) command"
| "dispatch_compensation S registry crash_after fuel 0 command op = raise_service PyRecursionError"
| "dispatch_compensation S registry crash_after fuel (Suc depth) command op =
     dispatch_step S registry crash_after fuel (recover_compensation S registry crash_after fuel depth)
       (dispatch_compensation S registry crash_after fuel depth command) command op"
| "recover_compensation S registry crash_after fuel 0 command = raise_service PyRecursionError"
| "recover_compensation S registry crash_after fuel (Suc depth) command =
     recover_step S registry crash_after fuel (execute_compensation S registry crash_after fuel depth)
       (recover_compensation S registry crash_after fuel depth) command"

section \<open>The operator's actions\<close>

definition operator_refused :: "operator_compensation_command \<Rightarrow> compensation_result option" where
  "operator_refused command =
     (if tc_actor command = None then Some (compensation_answer CD_REJECTED ''actor_required'' None None)
      else if key_is_forbidden (tc_reason_code command) \<or> value_is_forbidden (tc_reason_code command)
      then Some (compensation_answer CD_REJECTED ''secret_field'' None None)
      else None)"

definition start_operator_compensation ::
  "(string \<Rightarrow> string) \<Rightarrow> surroundings \<Rightarrow> capability_registry \<Rightarrow> compensation_crash_point option \<Rightarrow>
   operator_compensation_command \<Rightarrow> compensation_service" where
  "start_operator_compensation sha256 S registry crash_after command =
   (case operator_refused command of
      Some answer \<Rightarrow> return_service answer
    | None \<Rightarrow>
        start_compensation sha256 S registry crash_after
          \<lparr>tc_operation_id = tc_operation_id command, tc_expected_version = tc_expected_version command,
           tc_ids = tc_ids command, tc_actor = tc_actor command,
           tc_correlation_id = tc_correlation_id command, tc_automatic = False\<rparr>
          True (tc_reason_code command))"

definition retry_failed_compensation ::
  "surroundings \<Rightarrow> capability_registry \<Rightarrow> compensation_crash_point option \<Rightarrow> nat \<Rightarrow>
   operator_compensation_command \<Rightarrow> compensation_service" where
  "retry_failed_compensation S registry crash_after fuel command =
   (case operator_refused command of
      Some answer \<Rightarrow> return_service answer
    | None \<Rightarrow>
        bind_service (load_operation S (tc_operation_id command)) (\<lambda>op.
        let answer = (\<lambda>r. return_service (compensation_answer CD_REJECTED r (Some op) None));
            ids = tc_ids command; actor = (case tc_actor command of Some a \<Rightarrow> a | None \<Rightarrow> COMPENSATION_ACTOR)
        in if op_version op \<noteq> tc_expected_version command then answer ''concurrency_conflict''
           else if op_state op \<noteq> OS_COMPENSATION_FAILED then answer ''source_state_mismatch''
           else case op_compensation_id op of
             None \<Rightarrow> answer ''compensation_missing''
           | Some i \<Rightarrow>
               bind_service (load_compensation S i) (\<lambda>loaded.
               case loaded of
                 None \<Rightarrow> answer ''compensation_missing''
               | Some compensation \<Rightarrow>
                   bind_service (lift_service (descriptor_for registry (in_effect (op_intent op)))) (\<lambda>descriptor.
                   bind_service (list_compensation_attempts S (cm_id compensation)) (\<lambda>attempts.
                   let next_number = int (length attempts) + 1
                   in bind_service (lift_service (ti_retry_ids_for ids (cm_id compensation) next_number)) (\<lambda>r.
                      bind_service (clock_now S) (\<lambda>started_at.
                      bind_service (lift_service (build_started_compensation_attempt (cm_id compensation)
                        (ty_attempt_id r) next_number descriptor started_at)) (\<lambda>next_attempt.
                      bind_service (clock_now S) (\<lambda>retried_at. bind_service (clock_now S) (\<lambda>claimed_at.
                      commit_else S
                        (retry_then (lifecycle_command TK_COMPENSATION_FAILED_RETRY op retried_at
                             (tc_actor command) (tc_correlation_id command) (tc_reason_code command)
                             (ty_parent_retry_transition_audit_event_id r)
                             (CompensationFailedRetry (ty_parent_retry_outbox_event_id r)))
                           (claim_retry_command next_attempt claimed_at (tc_actor command)
                             (tc_correlation_id command) (tc_reason_code command)
                             (ty_attempt_audit_event_id r)))
                        (op_id op)
                        (compensation_answer CD_REJECTED ''concurrency_conflict'' (Some op) (Some compensation))
                        (\<lambda>failed. compensation_answer CD_INFRASTRUCTURE_FAILURE
                           ''persist_failed_before_compensate'' (Some failed) None)
                        (\<lambda>r. r)
                        (\<lambda>t. bind_service (lift_service (claimed_retry t next_attempt)) (\<lambda>step.
                           run_cycle S registry crash_after fuel actor (tc_correlation_id command) ids None
                             None op step))))))))))))"

definition escalation_body ::
  "operation_state \<Rightarrow> opaque_id \<Rightarrow> (transition_kind \<times> op_body) option" where
  "escalation_body state manual =
     (if state = OS_COMPENSATING then Some (TK_COMPENSATION_ESCALATE, CompensationEscalate manual None)
      else if state = OS_COMPENSATION_UNKNOWN
      then Some (TK_COMPENSATION_UNKNOWN_ESCALATE, CompensationUnknownEscalate manual None)
      else if state = OS_COMPENSATION_FAILED
      then Some (TK_COMPENSATION_FAILED_ESCALATE, CompensationFailedEscalate manual)
      else None)"

definition escalate_compensation ::
  "surroundings \<Rightarrow> operator_compensation_command \<Rightarrow> compensation_service" where
  "escalate_compensation S command =
   (case operator_refused command of
      Some answer \<Rightarrow> return_service answer
    | None \<Rightarrow>
        bind_service (load_operation S (tc_operation_id command)) (\<lambda>op.
        let answer = (\<lambda>r. return_service (compensation_answer CD_REJECTED r (Some op) None));
            ids = tc_ids command
        in if op_version op \<noteq> tc_expected_version command then answer ''concurrency_conflict''
           else case escalation_body (op_state op) (ti_manual_audit_event_id ids) of
             None \<Rightarrow> answer ''source_state_mismatch''
           | Some (kind, body) \<Rightarrow>
               bind_service (clock_now S) (\<lambda>occurred_at.
               commit_else S (apply_command (OperationCommand (lifecycle_command kind op occurred_at
                   (tc_actor command) (tc_correlation_id command) (tc_reason_code command)
                   (ti_complete_transition_audit_event_id ids) body)))
                 (op_id op)
                 (compensation_answer CD_REJECTED ''concurrency_conflict'' (Some op) None)
                 persist_failed (\<lambda>r. r)
                 (\<lambda>t. return_service (if tr_outcome t = TO_REJECTED then compensation_rejected t None None
                    else compensation_accepted
                      (if tr_outcome t = TO_ALREADY_APPLIED then ''already_applied'' else ''accepted'')
                      t None None)))))"

section \<open>The scan\<close>

definition SCAN_STATES :: "operation_state list" where
  "SCAN_STATES = [OS_COMPENSATING, OS_COMPENSATION_UNKNOWN]"

definition limited :: "int option \<Rightarrow> 'a list \<Rightarrow> 'a list" where
  "limited limit xs = (case limit of None \<Rightarrow> xs | Some n \<Rightarrow> take (nat n) xs)"

definition scan_compensations ::
  "surroundings \<Rightarrow> capability_registry \<Rightarrow> compensation_crash_point option \<Rightarrow> nat \<Rightarrow> nat \<Rightarrow>
   scan_compensation_command \<Rightarrow> compensation_result list service" where
  "scan_compensations S registry crash_after fuel depth command =
   (let actor = (case ts_actor command of Some a \<Rightarrow> a | None \<Rightarrow> COMPENSATION_ACTOR)
    in bind_service (scan_each (\<lambda>state.
         bind_service (read_uow S (op_list_by_state state)) (\<lambda>operations.
         scan_each (\<lambda>op. recover_compensation S registry crash_after fuel depth
             \<lparr>tc_operation_id = op_id op, tc_expected_version = op_version op,
              tc_ids = ts_ids_for command (op_id op), tc_actor = Some actor,
              tc_correlation_id = ts_correlation_id command\<rparr>)
           (limited (ts_limit command) operations))) SCAN_STATES) (\<lambda>groups.
       return_service (concat groups)))"

end
