(* ===== verification/Recovery_Properties.thy ===== *)
theory Recovery_Properties
  imports Recovery_Service Runtime_Properties
begin

text \<open>
  What recovery promises under interference: it never executes and never compensates, it verifies
  at most once per operation, only a request the journal already holds, and what it writes are
  system steps.
\<close>

section \<open>Steps that call nobody\<close>

lemma conforms_then:
  assumes "conforms S P 0 m"
    and "\<And>x v. others_follow S \<Longrightarrow> m w = (Inr x, v) \<Longrightarrow> later (wd_journal w) (wd_journal v) \<Longrightarrow>
      conforms_at S P n (f x) v"
  shows "conforms_at S P n (bind_service m f) w"
proof (rule conforms_atI)
  assume S: "others_follow S"
  have "conforms_at S P (0 + n) (bind_service m f) w"
  proof (rule conforms_at_bind [OF conforms_at [OF assms(1)]])
    fix x v assume v: "m w = (Inr x, v)"
    obtain cs where "later (wd_journal w) (wd_journal v)" by (rule conformsD [OF assms(1) S v])
    with S v show "conforms_at S P n (f x) v" by (rule assms(2))
  qed
  then show "conforms_at S P n (bind_service m f) w" by simp
qed

lemma conforms_read_then:
  assumes "\<And>v. later (wd_journal w) (wd_journal v) \<Longrightarrow> conforms_at S P n (g (f (wd_journal v))) v"
  shows "conforms_at S P n (bind_service (read_uow S f) g) w"
proof (rule conforms_then [OF conforms_read])
  fix x v assume "read_uow S f w = (Inr x, v)" and "later (wd_journal w) (wd_journal v)"
  moreover from this(1) have "x = f (wd_journal v)" unfolding read_uow_def by (auto dest: in_uow_Inr)
  ultimately show "conforms_at S P n (g x) v" using assms by simp
qed

lemma clause_catches [service_rules]:
  "conforms S P n answer \<Longrightarrow> catches S P n (not_found_clause answer e)"
  "(\<And>a b c. conforms S P n (return_service (wrap a b c))) \<Longrightarrow> catches S P n (unclassified S p wrap e)"
  by (auto simp: not_found_clause_def unclassified_def split_def intro!: service_rules)

lemma recovery_quiet [service_rules]:
  "conforms S P n (recovery_crash a p)" "conforms S P n (apply_transition S c)"
  "conforms S P n (load_policy S o')" "conforms S P n (attempt_for_request S o' q)"
  "conforms S P n (commit_result S a o' q ev)"
  unfolding commit_result_def recovery_crash_def apply_transition_def load_policy_def attempt_for_request_def Let_def
  by (intro service_rules)+

lemma apply_verification_conforms [service_rules]:
  "conforms S P n (apply_verification_kind S reg c actor o' r)"
  unfolding apply_verification_kind_def Let_def by (intro service_rules)

lemma without_verify_conforms [service_rules]:
  "conforms S P n (unknown_without_verify S reg c actor o' d xs p)" "conforms S P n (recover_executing S reg c actor)"
  unfolding unknown_without_verify_def recover_executing_def Let_def by (intro service_rules)+

section \<open>Calls behind a stored request\<close>

text \<open>
  A verification written ahead: the journal holds the request as it was sent (but for the registered
  form of its effect), for the original effect.
\<close>

definition verify_ahead :: "provider_call \<Rightarrow> journal \<Rightarrow> bool" where
  "verify_ahead call j \<longleftrightarrow>
     (case call of
        VerifyCall x q \<Rightarrow> vq_target q = VT_ORIGINAL_EFFECT \<and>
          (\<exists>row. vf_get (vq_id q) j = Some row \<and> q = (fst row)\<lparr>vq_effect := vq_effect q\<rparr>)
      | _ \<Rightarrow> False)"

lemma classified_verify_call:
  assumes "P (VerifyCall x q) (wd_journal w)"
  shows "conforms_at S P 1 (classified_verify S a x q p) w"
proof -
  have "conforms_at S P (1 + 0) (classified_verify S a x q p) w"
    unfolding classified_verify_def call_verify_def
  proof (rule conforms_at_try [OF conforms_at_call [of P, OF assms]])
    fix e h v assume "unclassified S p (\<lambda>outcome error ev.
          \<lparr>ve_outcome = outcome, ve_evidence = ev, ve_error = Some error\<rparr>) e = Some h"
    moreover have "catches S P 0 (unclassified S p (\<lambda>outcome error ev.
          \<lparr>ve_outcome = outcome, ve_evidence = ev, ve_error = Some error\<rparr>) e)" by (intro service_rules)
    ultimately show "conforms_at S P 0 h v" by (simp add: catches_def conforms_at)
  qed (intro conforms_at service_rules)
  then show ?thesis by simp
qed

lemma registered_request:
  "request_with_registered_effect reg q = Inr q' \<Longrightarrow> q' = q\<lparr>vq_effect := vq_effect q'\<rparr>"
  by (auto simp: request_with_registered_effect_def Let_def bind_err_def split: sum.split_asm if_split_asm)

lemma obtain_result_conforms:
  assumes stored: "vf_get i (wd_journal w) = Some (q, r)" and original: "vq_target q = VT_ORIGINAL_EFFECT"
  shows "conforms_at S verify_ahead 1 (obtain_result S reg crash c o' q) w"
  unfolding obtain_result_def
proof (rule conforms_then [OF recovery_quiet(4)], rule conforms_lift, rule conforms_lift, rule conforms_lift, goal_cases)
  case (1 attempt v adapter ctx vq)
  from vfev.run_evolves [OF later_writes [OF 1(3)] stored] obtain row where "vf_get i (wd_journal v) = Some row"
    and "fst row = q" by (auto simp: verification_evolves_def)
  moreover from this(1) have "i = vq_id q" using \<open>fst row = q\<close>
    by (auto simp: vf_get_def dest: tbl_get_Some_key)
  moreover have "vq = q\<lparr>vq_effect := vq_effect vq\<rparr>" using 1(6) by (rule registered_request)
  ultimately have "verify_ahead (VerifyCall ctx vq) (wd_journal v)"
    using original unfolding verify_ahead_def provider_call.case
    by (metis verification_request.select_convs(2,5) verification_request.update_convs(7) verification_request.surjective)
  from classified_verify_call [of verify_ahead, OF this]
  have "conforms_at S verify_ahead (1 + 0) (bind_service (classified_verify S adapter ctx vq
     (ef_provider (in_effect (op_intent o')))) (commit_result S crash o' q)) v"
    by (rule conforms_at_bind) (intro conforms_at service_rules)
  then show ?case by simp
qed

lemma verifying_cycle_conforms: "conforms S verify_ahead 1 (run_verifying_cycle S reg crash c actor o')"
proof -
  note quiet = conforms_at [OF conforms_basic(1)]
  have "conforms_at S verify_ahead 1 (run_verifying_cycle S reg crash c actor o') w" for w
  proof (cases "op_state o' = OS_VERIFYING \<and> op_latest_verification_id o' \<noteq> None")
    case True
    then obtain i where i: "op_latest_verification_id o' = Some i" and st: "op_state o' = OS_VERIFYING" by auto
    have finish: "conforms S verify_ahead 0 (case x of Inl answer \<Rightarrow> return_service answer
        | Inr result \<Rightarrow> apply_verification_kind S reg c actor o' result)" for x
      by (intro service_rules)
    show ?thesis
      unfolding run_verifying_cycle_def Let_def i option.case if_not_P [OF not_not [THEN iffD2, OF st]]
    proof (rule conforms_read_then, goal_cases)
      case (1 v)
      show ?case
      proof (cases "vf_get i (wd_journal v)")
        case (Some row)
        obtain q r where row: "row = (q, r)" by (cases row)
        have "conforms_at S verify_ahead 1 (case r of Some r \<Rightarrow> return_service (Inr r)
            | None \<Rightarrow> obtain_result S reg crash c o' q) v" if "vq_target q = VT_ORIGINAL_EFFECT"
          using obtain_result_conforms [OF Some [unfolded row] that] by (cases r) (simp_all add: quiet)
        then have "conforms_at S verify_ahead (1 + 0) (bind_service (case r of Some r \<Rightarrow> return_service (Inr r)
            | None \<Rightarrow> obtain_result S reg crash c o' q) (\<lambda>obtained.
               case obtained of
                 Inl answer \<Rightarrow> return_service answer
               | Inr result \<Rightarrow> apply_verification_kind S reg c actor o' result)) v"
          if "vq_target q = VT_ORIGINAL_EFFECT"
          using that conforms_at [OF finish] by (intro conforms_at_bind) auto
        then show ?thesis by (simp add: Some row quiet)
      qed (simp add: quiet)
    qed
  qed (auto simp: run_verifying_cycle_def Let_def quiet)
  then show ?thesis by (simp add: conforms_def)
qed

lemma recover_unknown_conforms:
  "conforms S verify_ahead 1 (cycle_after_start S reg crash c actor b x)"
  "conforms S verify_ahead 1 (recover_unknown_operation S reg crash c)"
  "conforms S verify_ahead 1 (start_operator_verification S reg crash oc)"
proof -
  note cycle = verifying_cycle_conforms
  show after: "conforms S verify_ahead 1 (cycle_after_start S reg crash c actor b x)" for c actor b x
    unfolding cycle_after_start_def by (intro service_rules cycle)
  have unknown: "conforms S verify_ahead 1 (recover_unknown S reg crash c actor o')" for c actor o'
    unfolding recover_unknown_def unknown_start_verification_def Let_def by (intro service_rules cycle after)
  show "conforms S verify_ahead 1 (recover_unknown_operation S reg crash c)"
    unfolding recover_unknown_operation_def Let_def by (intro service_rules cycle unknown)
  show "conforms S verify_ahead 1 (start_operator_verification S reg crash oc)"
    unfolding start_operator_verification_def Let_def by (intro service_rules cycle after)
qed

text \<open>
  C12. Recovery observes, it never acts: whatever the others do, recovering an operation changes the
  journal by system steps only and makes at most one provider call, which is a verification of
  the original effect whose request the journal already holds; it never executes and never
  compensates. The same holds for the verification an operator starts.
\<close>

theorem recovery_only_verifies:
  assumes "others_follow S"
    and "recover_unknown_operation S registry crash_after command w = (r, w') \<or>
      start_operator_verification S registry crash_after operator_command w = (r, w')"
  shows "later (wd_journal w) (wd_journal w') \<and>
    (\<exists>cs. wd_calls w' = wd_calls w @ cs \<and> length cs \<le> 1 \<and> (\<forall>(call, j) \<in> set cs. verify_ahead call j))"
  using assms(2)
proof
  assume "recover_unknown_operation S registry crash_after command w = (r, w')"
  from conformsD [OF recover_unknown_conforms(2) assms(1) this] show ?thesis by metis
next
  assume "start_operator_verification S registry crash_after operator_command w = (r, w')"
  from conformsD [OF recover_unknown_conforms(3) assms(1) this] show ?thesis by metis
qed

end
