(* ===== verification/Compensation_Properties.thy ===== *)
theory Compensation_Properties
  imports Compensation_Service Recovery_Properties
begin

text \<open>
  What the compensation service promises under interference: it never executes, every
  compensation call is made for an attempt the journal already holds, every verification for a
  request it already holds, and what it writes are system steps. And where it does not make
  progress: a compensation attempt left behind STARTED that cannot be verified.
\<close>

section \<open>Stored attempts\<close>

definition undo_stored :: "opaque_id \<Rightarrow> opaque_id \<Rightarrow> journal \<Rightarrow> bool" where
  "undo_stored attempt_id compensation_id j \<longleftrightarrow>
     (\<exists>a \<in> set (j_compensation_attempts j). ca_id a = attempt_id \<and> ca_compensation_id a = compensation_id)"

lemma undo_stored_wrote:
  assumes "wrote j j'" and "undo_stored i c j"
  shows "undo_stored i c j'"
  using assms
proof cases
  case (ca_complete a)
  then have "map (\<lambda>x. (ca_id x, ca_compensation_id x)) (j_compensation_attempts j') =
      map (\<lambda>x. (ca_id x, ca_compensation_id x)) (j_compensation_attempts j)"
    by (auto simp: journal_simps tbl_set_def)
  then have "(i, c) \<in> (\<lambda>x. (ca_id x, ca_compensation_id x)) ` set (j_compensation_attempts j')"
    using assms(2) by (metis (no_types, lifting) image_eqI list.set_map undo_stored_def)
  then show ?thesis by (auto simp: undo_stored_def)
qed (use assms(2) in \<open>auto simp: undo_stored_def journal_simps\<close>)

lemma undo_stays: "later j k \<Longrightarrow> undo_stored i c j \<Longrightarrow> undo_stored i c k"
proof -
  have "wrote\<^sup>*\<^sup>* j k \<Longrightarrow> undo_stored i c j \<Longrightarrow> undo_stored i c k"
    by (induction rule: rtranclp_induct) (auto intro: undo_stored_wrote)
  then show "later j k \<Longrightarrow> undo_stored i c j \<Longrightarrow> undo_stored i c k" using later_writes by blast
qed

lemma undo_inserted: "ca_insert a j = Inr j' \<Longrightarrow> undo_stored (ca_id a) (ca_compensation_id a) j'"
  by (auto simp: ca_insert_Inr undo_stored_def)

lemma advance_keeps:
  assumes "advance_compensation command c s j = Inr (c', j')"
  shows "cm_id c' = cm_id c" and "j_compensation_attempts j' = j_compensation_attempts j"
  using assms
  by (auto simp: advance_compensation_def replace_compensation_def make_compensation_Inr
      next_version_Inr cp_update_cas_Inr)

lemma advanced_undo:
  assumes "ca_insert a j = Inr j1" and "advance_compensation command c s j1 = Inr (c', j2)"
    and "ca_compensation_id a = cm_id c" and "j_compensation_attempts j' = j_compensation_attempts j2"
  shows "undo_stored (ca_id a) (cm_id c') j'"
  using undo_inserted [OF assms(1)] advance_keeps [OF assms(2)] assms(3,4) by (simp add: undo_stored_def)

lemma latest_undo:
  assumes "last_opt (ca_list_for_compensation c j) = Some a"
  shows "undo_stored (ca_id a) c j"
proof -
  have "a \<in> set (ca_list_for_compensation c j)" using assms by (auto simp: last_opt_def split: if_split_asm list.split_asm)
  then show ?thesis by (auto simp: ca_list_for_compensation_def undo_stored_def)
qed

lemma new_attempt_parent: "check_new_compensation_attempt a c xs = None \<Longrightarrow> ca_compensation_id a = cm_id c"
  by (simp add: check_new_compensation_attempt_def split: if_split_asm)

lemma with_compensation_passed:
  assumes "with_compensation command j continue = Inr (r, j')" and "tr_outcome r \<noteq> TO_REJECTED"
  obtains (performed) loaded c where "cp_get (pc_compensation_id command) j = Some c" and "continue loaded c = Inr (r, j')"
  using assms unfolding with_compensation_def progress_reject_def
  by (auto split: option.split_asm if_split_asm)

text \<open>A claim that was not refused leaves its attempt in the journal, for the compensation it returns.\<close>

lemma claim_stores_undo:
  assumes "apply_claim_compensation command j = Inr (t, j')" and "tr_outcome t = TO_APPLIED"
    and "tr_compensation t = Some c"
  shows "undo_stored (ca_id (ce_attempt command)) (cm_id c) j'"
proof -
  from assms(2) have "tr_outcome t \<noteq> TO_REJECTED" by simp
  with assms(1) show ?thesis unfolding apply_claim_compensation_def
proof (cases rule: with_compensation_passed)
  case (performed loaded c0)
  with assms(2) obtain j1 c1 j2 e where
      pre: "evaluate_claim_compensation_preconditions command loaded c0 (ca_list_for_compensation (cm_id c0) j) = None"
    and j1: "ca_insert (ce_attempt command) j = Inr j1"
    and j2: "advance_compensation command c0 CS_EXECUTING j1 = Inr (c1, j2)"
    and "au_append e j2 = Inr j'" and "t = progress_applied command loaded c1 [e] None"
    by (auto split: if_split_asm option.split_asm)
  moreover from pre have "ca_compensation_id (ce_attempt command) = cm_id c0"
    unfolding evaluate_claim_compensation_preconditions_def or_else_None by (auto dest: new_attempt_parent)
  ultimately show ?thesis using advanced_undo [OF j1 j2, of j'] assms(3)
    by (simp add: au_append_Inr progress_applied_def applied_def)
qed
qed

lemma retry_claim_stores_undo:
  assumes "apply_claim_compensation_retry_attempt command j = Inr (t, j')" and "tr_outcome t \<noteq> TO_REJECTED"
    and "tr_compensation t = Some c"
  shows "undo_stored (ca_id (cr_attempt command)) (cm_id c) j'"
  using assms(1,2) unfolding apply_claim_compensation_retry_attempt_def
proof (cases rule: with_compensation_passed)
  case (performed loaded c0)
  let ?xs = "ca_list_for_compensation (cm_id c0) j"
  show ?thesis
  proof (cases "tr_outcome t = TO_APPLIED")
    case True
    with performed(2) obtain j1 c1 j2 e where
        pre: "evaluate_claim_compensation_retry_attempt_preconditions command loaded c0 ?xs = None"
      and j1: "ca_insert (cr_attempt command) j = Inr j1"
      and j2: "advance_compensation command c0 CS_EXECUTING j1 = Inr (c1, j2)"
      and "au_append e j2 = Inr j'" and "t = progress_applied command loaded c1 [e] None"
      by (auto simp: Let_def split: if_split_asm option.split_asm)
    moreover from pre have "ca_compensation_id (cr_attempt command) = cm_id c0"
      unfolding evaluate_claim_compensation_retry_attempt_preconditions_def or_else_None
      by (auto dest: new_attempt_parent)
    ultimately show ?thesis using advanced_undo [OF j1 j2, of j'] assms(3)
      by (simp add: au_append_Inr progress_applied_def applied_def)
  next
    case False
    with performed(2) assms(2,3) show ?thesis
      by (cases "last_opt ?xs") (auto simp: Let_def progress_already_def already_def dest: latest_undo
          split: if_split_asm option.split_asm)
  qed
qed

lemma retry_verified_stores_undo:
  assumes "apply_retry_compensation_after_verification command j = Inr (t, j')" and "tr_outcome t \<noteq> TO_REJECTED"
    and "tr_compensation t = Some c"
  shows "undo_stored (ca_id (rv_attempt command)) (cm_id c) j'"
  using assms(1,2) unfolding apply_retry_compensation_after_verification_def
proof (cases rule: with_compensation_passed)
  case (performed loaded c0)
  let ?xs = "ca_list_for_compensation (cm_id c0) j"
  show ?thesis
  proof (cases "tr_outcome t = TO_APPLIED")
    case True
    with performed(2) obtain j1 j2 c1 j3 e f j4 x where
        pre: "evaluate_retry_compensation_after_verification_preconditions command loaded c0 ?xs
          (vf_get (vs_id (rv_verification_result command)) j) = None"
      and j2: "ca_insert (rv_attempt command) j1 = Inr j2"
      and j3: "advance_compensation command c0 CS_EXECUTING j2 = Inr (c1, j3)"
      and e: "progress_event command loaded (au_next_sequence (op_id loaded) j3)
                (rv_verification_audit_event_id command) AE_VERIFICATION_COMPLETED
                [(''verification_id'', Some (oid_value (vs_id (rv_verification_result command)))),
                 (''effect_outcome'', Some (effect_outcome_value (vs_outcome (rv_verification_result command))))]
              = Inr e"
      and f: "progress_event command loaded (au_next_sequence (op_id loaded) j3 + 1)
                (rv_attempt_audit_event_id command) AE_COMPENSATION_ATTEMPTED
                (attempted_pairs c0 (rv_attempt command)) = Inr f"
      and app: "append_events [e, f] j3 = Inr j4"
      and out: "progress_outbox command loaded (rv_outbox_event_id command) WC_COMPENSATE j4 = Inr (x, j')"
      and "t = progress_applied command loaded c1 [e, f] (Some x)"
      unfolding Let_def by (auto split: if_split_asm option.split_asm)
    moreover from pre have "ca_compensation_id (rv_attempt command) = cm_id c0"
      unfolding evaluate_retry_compensation_after_verification_preconditions_def or_else_None
      by (auto dest: new_attempt_parent)
    ultimately show ?thesis using advanced_undo [OF j2 j3, of j'] assms(3) append_events_Inr [OF app]
        progress_outbox_Inr(1) [OF out]
      by (simp add: progress_applied_def applied_def)
  next
    case False
    with performed(2) assms(2,3) show ?thesis
      by (cases "last_opt ?xs") (auto simp: Let_def progress_already_def already_def dest: latest_undo
          split: if_split_asm option.split_asm)
  qed
qed

section \<open>Stored requests\<close>

definition request_stored :: "verification_request \<Rightarrow> journal \<Rightarrow> bool" where
  "request_stored q j \<longleftrightarrow> (\<exists>row \<in> set (j_verifications j). fst row = q)"

lemma request_stays: "later j k \<Longrightarrow> request_stored q j \<Longrightarrow> request_stored q k"
proof -
  have step: "request_stored q b" if "wrote a b" "request_stored q a" for a b
    using that(1)
  proof cases
    case (vf_complete r)
    then have "map fst (j_verifications b) = map fst (j_verifications a)"
      by (auto simp: journal_simps tbl_set_def)
    with that(2) show ?thesis unfolding request_stored_def by (metis image_iff list.set_map)
  qed (use that(2) in \<open>auto simp: request_stored_def journal_simps\<close>)
  have "wrote\<^sup>*\<^sup>* j k \<Longrightarrow> request_stored q j \<Longrightarrow> request_stored q k"
    by (induction rule: rtranclp_induct) (auto intro: step)
  then show "later j k \<Longrightarrow> request_stored q j \<Longrightarrow> request_stored q k" using later_writes by blast
qed

section \<open>Calls of the compensation service\<close>

text \<open>
  A compensation call is written ahead when the journal holds the attempt it is made for, as one of
  its compensation; a verification when the journal holds the very request, for the compensation.
\<close>

definition undo_ahead :: "provider_call \<Rightarrow> journal \<Rightarrow> bool" where
  "undo_ahead call j \<longleftrightarrow>
     (case call of
        ExecuteCall x q \<Rightarrow> False
      | VerifyCall x q \<Rightarrow> vq_target q = VT_COMPENSATION \<and> request_stored q j
      | CompensateCall x q \<Rightarrow> px_attempt_id x = cq_compensation_attempt_id q \<and>
          undo_stored (cq_compensation_attempt_id q) (cq_compensation_id q) j)"

lemma retry_then_body [service_rules]: "system_body (retry_then retry next_command)"
proof (rule system_bodyI)
  fix j t j' assume run: "retry_then retry next_command j = Inr (t, j')"
  then obtain t1 j1 where first: "apply_command (OperationCommand retry) j = Inr (t1, j1)"
    by (auto simp: retry_then_def split_def)
  then have j1: "later j j1" by (intro later_one system_step.intros)
  show "later j j'"
  proof (cases "j' = j1")
    case False
    with run first obtain command t2 where "apply_command command j1 = Inr (t2, j')"
      by (auto simp: retry_then_def split: if_split_asm option.split_asm)
    then have "later j1 j'" by (intro later_one system_step.intros)
    with j1 show ?thesis by (rule later_trans [rotated])
  qed (simp add: j1)
qed

lemma commit_else_conforms [service_rules]:
  "system_body body \<Longrightarrow> (\<And>x. conforms S P n (rest x)) \<Longrightarrow> conforms S P n (commit_else S body i a f wrap rest)"
  unfolding commit_else_def by (intro service_rules)

lemma compensation_quiet [service_rules]:
  "conforms S P n (compensation_crash a p)" "conforms S P n (load_compensation S i)"
  "conforms S P n (list_compensation_attempts S i)" "conforms S P n (list_verifications S i)"
  "conforms S P n (find_pending_compensation_verification S i)"
  unfolding compensation_crash_def load_compensation_def list_compensation_attempts_def list_verifications_def
    find_pending_compensation_verification_def by (intro service_rules)+

lemma claim_retry_conforms [service_rules]:
  "conforms S P n (maybe_claim_retry S reg op c a co ids d)"
  "conforms S P n (after_compensate S reg crash co ids d k a ev t)"
proof -
  show claim: "conforms S P n (maybe_claim_retry S reg op c a co ids d)" for op c n
    unfolding maybe_claim_retry_def Let_def by (intro service_rules)
  show "conforms S P n (after_compensate S reg crash co ids d k a ev t)"
    unfolding after_compensate_def by (intro service_rules claim)
qed

lemma settle_conforms [service_rules]:
  "conforms S P n (prepare_verify_outcome S op c ids d k r ev l)" "conforms S P n (after_verify crash k a ev t)"
  "conforms S P n (settle_verification S crash actor co ids d op c r ev)"
proof -
  show prep: "conforms S P n (prepare_verify_outcome S op c ids d k r ev l)" for k l n
    unfolding prepare_verify_outcome_def Let_def by (intro service_rules)
  show after: "conforms S P n (after_verify crash k a ev t)" for k a t n
    unfolding after_verify_def by (intro service_rules)
  show "conforms S P n (settle_verification S crash actor co ids d op c r ev)"
    unfolding settle_verification_def Let_def by (intro service_rules prep after)
qed

section \<open>The steps of the loop\<close>

definition step_ready :: "cycle_step \<Rightarrow> journal \<Rightarrow> bool" where
  "step_ready step j \<longleftrightarrow>
     (case step of ThenCompensate op c a \<Rightarrow> undo_stored (ca_id a) (cm_id c) j | _ \<Rightarrow> True)"

lemma step_ready_simps [simp]:
  "step_ready (Finished r) j" "step_ready (ThenVerify op c) j"
  "step_ready (ThenCompensate op c a) j \<longleftrightarrow> undo_stored (ca_id a) (cm_id c) j"
  by (simp_all add: step_ready_def)

lemma step_stays: "later j k \<Longrightarrow> step_ready step j \<Longrightarrow> step_ready step k"
  by (cases step) (auto intro: undo_stays)

lemma commit_else_Inr:
  assumes "commit_else S body i a f wrap rest w = (Inr y, w')"
  obtains (committed) x v where "body (su_others S (wd_turn w) (wd_journal w)) = Inr (x, wd_journal v)"
      and "rest x v = (Inr y, w')"
    | (caught) r where "y = wrap r"
  using assms unfolding commit_else_def
  by (auto simp: try_else_Inr bind_service_Inr run_simps dest!: in_uow_Inr split: if_split_asm)

lemma already_lifecycle:
  assumes "apply_command (OperationCommand c) j = Inr (t, j')" and "tr_outcome t = TO_ALREADY_APPLIED"
  shows "tr_compensation t = None \<and> j' = j"
proof -
  from assms(1) have run: "apply_operation c j = Inr (t, j')" by (simp add: apply_command_def split: if_split_asm)
  then show ?thesis
  proof (cases rule: apply_operation_Inr)
    case refused
    from run assms(2) show ?thesis unfolding apply_operation_def Let_def
      by (auto simp: already_def split: option.split_asm if_split_asm dest: perform_operation_applied)
  next
    case (performed loaded)
    from perform_operation_applied [OF performed(5)] assms(2) show ?thesis by simp
  qed
qed

lemma claimed_retry_ready:
  assumes "retry_then retry (claim_retry_command a t actor co rc audit) j = Inr (r, j')"
    and "claimed_retry r a = Inr step"
  shows "step_ready step j'"
proof (cases "tr_outcome r = TO_REJECTED")
  case False
  with assms(2) obtain op c where r: "tr_operation r = Some op" "tr_compensation r = Some c"
    and step: "step = ThenCompensate op c a"
    by (auto simp: claimed_retry_def split: option.split_asm)
  from assms(1) obtain t1 j1 where first: "apply_command (OperationCommand retry) j = Inr (t1, j1)"
    by (auto simp: retry_then_def split_def)
  have "tr_outcome t1 = TO_APPLIED"
  proof (rule ccontr)
    assume "tr_outcome t1 \<noteq> TO_APPLIED"
    with assms(1) first have "r = t1" by (simp add: retry_then_def)
    with already_lifecycle [OF first] False r \<open>tr_outcome t1 \<noteq> TO_APPLIED\<close> show False
      by (cases "tr_outcome t1") simp_all
  qed
  with assms(1) first obtain command where "apply_claim_compensation_retry_attempt command j1 = Inr (r, j')"
    and "cr_attempt command = a"
    by (auto simp: retry_then_def claim_retry_command_def apply_command_def split: option.split_asm)
  from retry_claim_stores_undo [OF this(1) False r(2)] this(2) step show ?thesis by simp
qed (use assms(2) in \<open>auto simp: claimed_retry_def\<close>)

lemma maybe_claim_ready:
  assumes "maybe_claim_retry S reg op c a co ids d w = (Inr (Some step), v)"
  shows "step_ready step (wd_journal v)"
  using assms unfolding maybe_claim_retry_def Let_def
  by (auto simp: bind_service_Inr run_simps split: option.split_asm if_split_asm elim!: commit_else_Inr
      dest: claimed_retry_ready)

lemma after_compensate_ready:
  assumes "after_compensate S reg crash co ids d k a ev t w = (Inr step, v)"
  shows "step_ready step (wd_journal v)"
  using assms maybe_claim_ready unfolding after_compensate_def
  by (fastforce simp: bind_service_Inr run_simps split: option.split_asm if_split_asm)

lemma provider_clauses:
  "catches S P n (if exc = UnsupportedEffectError then Some (lift_service a)
     else if is_contract_error exc \<or> \<not> is_exception exc then None else Some (lift_service b))"
  by (intro service_rules)

lemma classified_compensate_call:
  assumes "P (CompensateCall x q) (wd_journal w)"
  shows "conforms_at S P 1 (classified_compensate S reg o' x q) w"
proof -
  have "conforms_at S P 1 (bind_service (lift_service (adapter_for reg (in_effect (op_intent o')))) (\<lambda>a.
      call_compensate a x q)) w"
    unfolding call_compensate_def by (rule conforms_lift) (rule conforms_at_call [of P, OF assms])
  then have "conforms_at S P (1 + 0) (classified_compensate S reg o' x q) w"
    unfolding classified_compensate_def
    by (rule conforms_at_try)
      (auto intro!: conforms_at service_rules simp: is_contract_error_def split: if_split_asm sb_error.split_asm)
  then show ?thesis by simp
qed

lemma classified_verification_call:
  assumes "P (VerifyCall x q) (wd_journal w)"
  shows "conforms_at S P 1 (classified_compensation_verify S reg o' x q) w"
proof -
  let ?h = "unclassified S (ef_provider (in_effect (op_intent o'))) (\<lambda>outcome error ev.
          \<lparr>ve_outcome = outcome, ve_evidence = ev, ve_error = Some error\<rparr>)"
  have h: "catches S P 0 (?h e)" for e by (intro service_rules)
  have "conforms_at S P 1 (bind_service (lift_service (adapter_for reg (in_effect (op_intent o')))) (\<lambda>a.
      call_verify a x q)) w"
    unfolding call_verify_def by (rule conforms_lift) (rule conforms_at_call [of P, OF assms])
  then have "conforms_at S P (1 + 0) (classified_compensation_verify S reg o' x q) w"
    unfolding classified_compensation_verify_def
    by (rule conforms_at_try) (use h in \<open>auto simp: catches_def intro!: conforms_at service_rules\<close>)
  then show ?thesis by simp
qed

lemma call_then:
  assumes "conforms_at S P 1 m w" and "\<And>x. conforms S P 0 (f x)"
  shows "conforms_at S P 1 (bind_service m f) w"
proof -
  have "conforms_at S P (1 + 0) (bind_service m f) w"
    by (rule conforms_at_bind [OF assms(1)]) (rule conforms_at [OF assms(2)])
  then show ?thesis by simp
qed

lemma compensate_step_conforms:
  assumes "undo_stored (ca_id a) (cm_id c) (wd_journal w)"
  shows "conforms_at S undo_ahead 1 (compensate_step S reg crash actor co ids d op c a) w"
  unfolding compensate_step_def Let_def
proof (rule conforms_read_then, goal_cases)
  case (1 v)
  let ?m = "classified_compensate S reg op (build_compensate_context op a c co)
    (build_compensation_provider_request op c a (at_list_for_operation (op_id op) (wd_journal v)))"
  from undo_stays [OF 1 assms] have "conforms_at S undo_ahead 1 ?m v"
    by (intro classified_compensate_call) (simp add: undo_ahead_def build_compensate_context_def
        build_compensation_provider_request_def)
  then show ?case by (rule call_then) (intro service_rules)
qed

lemma compensate_step_ready:
  assumes "compensate_step S reg crash actor co ids d op c a w = (Inr step, v)"
  shows "step_ready step (wd_journal v)"
  using assms after_compensate_ready unfolding compensate_step_def Let_def
  by (fastforce simp: bind_service_Inr run_simps split: option.split_asm elim!: commit_else_Inr)

lemma obtain_compensation_result_conforms:
  "conforms_at S undo_ahead 1 (obtain_compensation_result S reg crash co op c existing) w"
proof (cases existing)
  case None
  show ?thesis
    unfolding obtain_compensation_result_def None option.case find_pending_compensation_verification_def
      list_verifications_def bind_service_assoc service_simps
  proof (rule conforms_read_then, goal_cases)
    case (1 v)
    let ?rows = "filter (\<lambda>row. vq_target (fst row) = VT_COMPENSATION \<and> snd row = None)
        (vf_list_for_operation (op_id op) (wd_journal v))"
    show ?case
    proof (cases "last_opt ?rows")
      case (Some row)
      then have row: "vq_target (fst row) = VT_COMPENSATION" "request_stored (fst row) (wd_journal v)"
        using last_opt_mem [OF Some] by (auto simp: vf_list_for_operation_def request_stored_def)
      show ?thesis
        unfolding Some option.case Let_def
        by (rule conforms_lift, rule call_then, rule classified_verification_call)
          (auto simp: undo_ahead_def row intro!: service_rules)
    qed (simp add: conforms_at service_rules)
  qed
qed (simp add: obtain_compensation_result_def conforms_at service_rules)

lemma verify_step_conforms:
  "conforms_at S undo_ahead 1 (verify_step S reg crash actor co ids d op c existing) w"
  unfolding verify_step_def by (rule call_then [OF obtain_compensation_result_conforms]) (intro service_rules)

lemma after_verify_ready:
  assumes "after_verify crash k next_attempt ev t w = (Inr step, v)"
    and "verify_outcome_command k reason op c result completed next_attempt actor co at ids m n = Inr cmd"
    and "apply_command cmd j = Inr (t, wd_journal w)"
  shows "step_ready step (wd_journal v)"
proof (cases "\<exists>op' c' a. step = ThenCompensate op' c' a")
  case True
  then obtain op' c' a where step: "step = ThenCompensate op' c' a" by blast
  with assms(1) have t: "tr_outcome t \<noteq> TO_REJECTED" "tr_compensation t = Some c'"
    and k: "k = ProgressKind PK_RETRY_COMPENSATION_AFTER_VERIFICATION" "next_attempt = Some a"
    and v: "wd_journal v = wd_journal w"
    unfolding after_verify_def
    by (auto simp: bind_service_Inr run_simps compensation_crash_def maybe_crash_def
        split: if_split_asm option.split_asm)
  from assms(2) k obtain command where "cmd = RetryCompensationAfterVerification command" "rv_attempt command = a"
    unfolding verify_outcome_command_def by (auto simp: Let_def split: prod.split_asm)
  with assms(3) have "apply_retry_compensation_after_verification command j = Inr (t, wd_journal w)"
    by (simp add: apply_command_def split: if_split_asm)
  from retry_verified_stores_undo [OF this t] \<open>rv_attempt command = a\<close> step v show ?thesis by simp
qed (cases step; simp)

lemma settle_ready:
  assumes "settle_verification S crash actor co ids d op c result ev w = (Inr step, v)"
  shows "step_ready step (wd_journal v)"
proof (cases "\<exists>r. step = Finished r")
  case False
  from assms False obtain k reason completed next_attempt at m n cmd u where
      cmd: "verify_outcome_command k reason op c result completed next_attempt actor co at ids m n = Inr cmd"
    and run: "commit_else S (apply_command cmd) (op_id op)
                (make_compensation_result CD_REJECTED ''concurrency_conflict'' (Some op)
                  (Some c) None None ev)
                (\<lambda>failed. make_compensation_result CD_INFRASTRUCTURE_FAILURE
                   ''persist_failed_after_verify'' (Some failed) None None None ev)
                Finished (after_verify crash k next_attempt ev) u = (Inr step, v)"
    unfolding settle_verification_def Let_def
    apply (simp only: bind_service_Inr)
    apply (elim exE conjE)
    subgoal for attempts v1 policy v2
      apply (cases policy)
       apply (clarsimp simp: run_simps)
      apply (simp only: option.case bind_service_Inr)
      apply (elim exE conjE)
      subgoal for p rows v3 mapped v4 prepared v5
        apply (cases prepared)
         apply (clarsimp simp: run_simps)
        apply (clarsimp simp: bind_service_Inr run_simps)
        done
      done
    done
  from run show ?thesis
  proof (cases rule: commit_else_Inr)
    case (committed t x)
    from after_verify_ready [OF committed(2) cmd committed(1)] show ?thesis .
  qed simp
qed auto

lemma verify_step_ready:
  assumes "verify_step S reg crash actor co ids d op c existing w = (Inr step, v)"
  shows "step_ready step (wd_journal v)"
proof -
  from assms obtain x u where "(case x of Inl answer \<Rightarrow> return_service (Finished answer)
      | Inr (result, evidence) \<Rightarrow>
          settle_verification S crash actor co ids d op c result evidence) u = (Inr step, v)"
    unfolding verify_step_def bind_service_Inr by blast
  then show ?thesis by (cases x) (auto simp: run_simps intro: settle_ready)
qed

lemma cycle_rounds_conforms:
  "step_ready step (wd_journal w) \<Longrightarrow>
     conforms_at S undo_ahead fuel (cycle_rounds S reg crash actor co ids d fuel existing step) w"
proof (induction fuel arbitrary: existing step w)
  case 0
  show ?case by (cases step) (simp_all add: conforms_at service_rules)
next
  case (Suc fuel)
  show ?case
  proof (cases step)
    case (ThenCompensate op c a)
    with Suc.prems have "undo_stored (ca_id a) (cm_id c) (wd_journal w)" by simp
    from conforms_at_bind [OF compensate_step_conforms [OF this] Suc.IH, OF compensate_step_ready]
    show ?thesis by (simp add: ThenCompensate)
  next
    case (ThenVerify op c)
    from conforms_at_bind [OF verify_step_conforms Suc.IH, OF verify_step_ready]
    show ?thesis by (simp add: ThenVerify)
  qed (simp add: conforms_at service_rules)
qed

lemma run_cycle_conforms:
  assumes "step_ready step (wd_journal w)"
  shows "conforms_at S undo_ahead fuel (run_cycle S reg crash fuel actor co ids od existing op step) w"
proof (cases "\<exists>r. step = Finished r")
  case False
  have "conforms_at S undo_ahead (0 + fuel) (bind_service (case od of
            Some d \<Rightarrow> return_service d
          | None \<Rightarrow> lift_service (descriptor_for reg (in_effect (op_intent op)))) (\<lambda>d.
        cycle_rounds S reg crash actor co ids d fuel existing step)) w"
    by (rule conforms_at_bind) (auto intro!: conforms_at service_rules cycle_rounds_conforms simp: run_simps assms split: option.split_asm)
  with False show ?thesis by (cases step) (simp_all add: run_cycle_def)
qed (auto simp: run_cycle_def conforms_at service_rules)

lemma verifying_cycle [service_rules]:
  "conforms S undo_ahead fuel (run_cycle S reg crash fuel actor co ids od existing op (ThenVerify op' c))"
  by (simp add: conforms_def run_cycle_conforms)

section \<open>The service\<close>

lemma commit_conforms:
  assumes body: "system_body body"
    and rest: "\<And>k x v. body k = Inr (x, wd_journal v) \<Longrightarrow> conforms_at S P n (rest x) v"
  shows "conforms S P n (commit_else S body i a f wrap rest)"
  unfolding conforms_def commit_else_def
proof (intro allI conforms_uow_else [OF body later.refl])
  fix e h and v :: world
  assume "(if is_concurrency_conflict e then Some (return_service (wrap a))
      else if is_persistence_error e
      then Some (bind_service (load_operation S i) (\<lambda>failed. return_service (wrap (f failed)))) else None) = Some h"
  moreover have "catches S P n (if is_concurrency_conflict e then Some (return_service (wrap a))
      else if is_persistence_error e
      then Some (bind_service (load_operation S i) (\<lambda>failed. return_service (wrap (f failed)))) else None)"
    by (intro service_rules)
  ultimately show "conforms_at S P n h v" by (simp add: catches_def conforms_at)
qed (rule rest)

lemma crash_then:
  "conforms_at S P n m v \<Longrightarrow> conforms_at S P n (bind_service (compensation_crash a p) (\<lambda>_. m)) v"
  by (simp add: compensation_crash_def maybe_crash_def conforms_at service_rules)

lemma claim_and_compensate_conforms:
  assumes "\<And>op. conforms S undo_ahead fuel (again op)"
  shows "conforms S undo_ahead fuel (claim_and_compensate S reg crash fuel again command op c)"
proof -
  have claimed: "undo_stored (ca_id (ce_attempt cmd)) (cm_id c') k'"
    if "apply_command (ClaimCompensationExecution cmd) k = Inr (t, k')" "tr_compensation t = Some c'"
      "tr_outcome t \<noteq> TO_REJECTED" "tr_outcome t \<noteq> TO_ALREADY_APPLIED" for cmd k k' t c'
    using claim_stores_undo [of cmd k t k' c'] that
    by (cases "tr_outcome t") (simp_all add: apply_command_def split: if_split_asm)
  note commit_else_conforms [service_rules del]
  show ?thesis
    unfolding claim_and_compensate_def Let_def
    by (intro service_rules commit_conforms)
      (auto intro!: conforms_at [OF conforms_basic(1)] conforms_at [OF conforms_basic(2)] crash_then
        run_cycle_conforms conforms_at [OF conforms_bind [OF load_operation_conforms assms]]
        split: option.split dest: claimed)
qed

lemma recover_again_conforms:
  "(\<And>command. conforms S P n (recover command)) \<Longrightarrow> conforms S P n (recover_again S recover command op actor)"
  unfolding recover_again_def by (intro service_rules)

lemma replay_conforms [service_rules]:
  "conforms S P n (leftover_started_to_unknown S command op c actor)"
  "conforms S undo_ahead fuel (replay_completed_mapper S reg crash fuel command op c a actor)"
  unfolding leftover_started_to_unknown_def replay_completed_mapper_def Let_def by (intro service_rules)+

lemma recover_compensating_conforms:
  assumes "\<And>command. conforms S undo_ahead fuel (execute command)"
  shows "conforms S undo_ahead fuel (recover_compensating S reg crash fuel execute command op c actor)"
  unfolding recover_compensating_def Let_def by (intro service_rules assms)

lemma retry_unknown_conforms:
  assumes "\<And>command. conforms S undo_ahead fuel (recover command)"
  shows "conforms S undo_ahead fuel
    (retry_unknown_compensation S reg crash fuel recover command op c n actor d reason)"
proof -
  note commit_else_conforms [service_rules del]
  show ?thesis
    unfolding retry_unknown_compensation_def
    by (intro service_rules commit_conforms)
      (auto intro!: conforms_at [OF recover_again_conforms [OF assms]] conforms_lift run_cycle_conforms
        intro: claimed_retry_ready)
qed

lemma recover_unknown_compensation_conforms:
  assumes "\<And>command. conforms S undo_ahead fuel (recover command)"
  shows "conforms S undo_ahead fuel (recover_unknown_compensation S reg crash fuel recover command op c actor)"
  unfolding recover_unknown_compensation_def unknown_compensation_without_verify_def
    unknown_compensation_start_verification_def Let_def
  by (intro service_rules retry_unknown_conforms recover_again_conforms assms)

lemma compensation_conforms:
  "conforms S undo_ahead fuel (execute_compensation S reg crash fuel depth command)"
  "conforms S undo_ahead fuel (dispatch_compensation S reg crash fuel depth command op)"
  "conforms S undo_ahead fuel (recover_compensation S reg crash fuel depth command)"
proof (induction depth arbitrary: command op)
  case (Suc depth)
  {
    case 1
    show ?case unfolding execute_compensation.simps execute_step_def by (intro service_rules Suc)
  next
    case 2
    show ?case
      unfolding dispatch_compensation.simps dispatch_step_def Let_def
      by (intro service_rules Suc claim_and_compensate_conforms)
  next
    case 3
    show ?case
      unfolding recover_compensation.simps recover_step_def Let_def
      by (intro service_rules recover_compensating_conforms recover_unknown_compensation_conforms Suc)
  }
qed (simp_all add: service_rules)

lemma retry_failed_conforms: "conforms S undo_ahead fuel (retry_failed_compensation S reg crash fuel command)"
proof -
  note commit_else_conforms [service_rules del]
  show ?thesis
    unfolding retry_failed_compensation_def Let_def
    by (intro service_rules commit_conforms)
      (auto intro!: conforms_lift run_cycle_conforms intro: claimed_retry_ready)
qed

lemma start_uow_body [service_rules]: "system_body (start_uow sha256 reg command actor operator reason now at)"
proof -
  have run: "later j j'" if "apply_command c j = Inr (t, j')" for c j t j'
    using system_bodies(2) [of c] that by (simp add: system_body_def)
  show ?thesis
    by (rule system_bodyI) (auto simp: start_uow_def Let_def later.refl split: option.split_asm sum.split_asm
        if_split_asm intro: run)
qed

lemma start_conforms:
  "conforms S P 0 (start_compensation sha256 S reg crash command' operator reason)"
  "conforms S P 0 (start_operator_compensation sha256 S reg crash command)"
  "conforms S P 0 (escalate_compensation S command)"
proof -
  show start: "conforms S P 0 (start_compensation sha256 S reg crash command' operator reason)"
    for command' operator reason
    unfolding start_compensation_def Let_def by (intro service_rules)
  show "conforms S P 0 (start_operator_compensation sha256 S reg crash command)"
    unfolding start_operator_compensation_def by (intro service_rules start)
  show "conforms S P 0 (escalate_compensation S command)"
    unfolding escalate_compensation_def Let_def by (intro service_rules)
qed

text \<open>
  C11. No undo without a trace: whatever the others do, executing, recovering or retrying a compensation
  changes the journal by system steps only; it never calls the provider's \<open>execute\<close>, every \<open>compensate\<close>
  call carries the id of a compensation attempt the journal already holds for that very
  compensation, every \<open>verify\<close> call the very request the journal already holds, and no run makes
  more calls than it has rounds of its loop.
\<close>

theorem undo_is_written_ahead:
  assumes "others_follow S"
    and "execute_compensation S registry crash_after fuel depth command w = (r, w') \<or>
      recover_compensation S registry crash_after fuel depth command w = (r, w') \<or>
      retry_failed_compensation S registry crash_after fuel operator_command w = (r, w')"
  shows "later (wd_journal w) (wd_journal w') \<and>
    (\<exists>cs. wd_calls w' = wd_calls w @ cs \<and> length cs \<le> fuel \<and> (\<forall>(call, j) \<in> set cs. undo_ahead call j))"
proof -
  note conforms = compensation_conforms(1,3) [THEN conformsD, OF assms(1)]
    retry_failed_conforms [THEN conformsD, OF assms(1)]
  from assms(2) show ?thesis by (elim disjE) (metis conforms)+
qed

end
