(* ===== verification/Services_At_Work.thy ===== *)
theory Services_At_Work
  imports Worked_Adapter Policy_Engine Intent_Digest Submit_Properties Compensation_Properties
begin

text \<open>
  The services at the worked example, against the adapter of \<open>Worked_Adapter\<close>: the theorems on the services,
  on policy and on digests are applied to runs computed by the model.
\<close>

section \<open>Executing\<close>

definition fx_execute :: "int \<Rightarrow> execute_command" where
  "fx_execute version = \<lparr>xc_operation_id = fx_id CHR ''1'', xc_expected_version = version,
     xc_ids = \<lparr>xi_attempt_id = fx_id CHR ''b'', xi_claim_transition_audit_event_id = fx_id CHR ''6'',
       xi_attempt_audit_event_id = fx_id CHR ''7'', xi_evidence_audit_event_id = fx_id CHR ''9'',
       xi_execution_transition_audit_event_id = fx_id CHR ''8'', xi_execution_outbox_event_id = fx_id CHR ''g'',
       xi_verification_id = fx_id CHR ''v'', xi_verification_audit_event_id = fx_id CHR ''w''\<rparr>,
     xc_actor = Some fx_actor, xc_correlation_id = None\<rparr>"

abbreviation fx_run_execute :: "int \<Rightarrow> journal \<Rightarrow> runtime_result fallible \<times> world" where
  "fx_run_execute version j \<equiv>
     execute_operation fx_surroundings fx_registry None 3 (fx_execute version) (fx_world j)"

lemma fx_called: "length (wd_calls (snd (fx_run_execute 2 fx_j2))) = 1"
  by code_simp

lemma provider_call_is_write_ahead_witness:
  "length (wd_calls (snd (fx_run_execute 2 fx_j2))) = 1 \<and>
   later fx_j2 (wd_journal (snd (fx_run_execute 2 fx_j2))) \<and>
   list_all (\<lambda>(call, j). write_ahead (fx_id CHR ''b'') call j) (wd_calls (snd (fx_run_execute 2 fx_j2)))"
  using provider_call_is_write_ahead [OF fx_others
      prod.collapse [symmetric, of "fx_run_execute 2 fx_j2"]] fx_called
  by (auto simp: fx_world_def fx_execute_def list_all_iff)

lemma stale_execute_recurses_without_end_witness:
  "\<exists>w'. fx_run_execute 7 fx_j2 = (Inl PyRecursionError, w') \<and> wd_journal w' = fx_j2 \<and> wd_calls w' = []"
  using stale_execute_recurses_without_end [of fx_surroundings "fx_execute 7" "fx_world fx_j2"
      "fx_op\<lparr>op_state := OS_READY, op_version := 2, op_current_policy_decision_id := Some (fx_id CHR ''a'')\<rparr>"
      fx_registry fx_descriptor "JObject []" fx_adapter "[]" None 3]
  by (simp add: fx_surroundings_def fx_execute_def fx_world_def op_get_def fx_j2_def fx_op_def
      fx_registry_def descriptor_for_def adapter_for_def fx_adapter_def op_pointers_ok_def points_to_def
      po_get_def fx_decision_def)

section \<open>Recovering\<close>

definition fx_recover :: recover_command where
  "fx_recover = \<lparr>rc_operation_id = fx_id CHR ''1'', rc_expected_version = 3,
     rc_ids = recover_part (xc_ids (fx_execute 2)), rc_actor = None, rc_correlation_id = None\<rparr>"

abbreviation fx_recovered :: "runtime_result fallible \<times> world" where
  "fx_recovered \<equiv> recover_operation fx_surroundings fx_registry fx_recover (fx_world fx_j3)"

abbreviation fx_executing :: operation where
  "fx_executing \<equiv> fx_op\<lparr>op_state := OS_EXECUTING, op_version := 3,
     op_current_policy_decision_id := Some (fx_id CHR ''a''), op_latest_attempt_id := Some (fx_id CHR ''b'')\<rparr>"

lemma fx_left_behind:
  "left_behind (fx_id CHR ''1'') fx_executing fx_attempt fx_j3"
  "list_all (op_pointers_ok fx_j3) (j_operations fx_j3)"
  "can_mark_unknown (rc_ids fx_recover) fx_now fx_executing fx_attempt fx_j3"
proof -
  show "left_behind (fx_id CHR ''1'') fx_executing fx_attempt fx_j3" by code_simp
  show "list_all (op_pointers_ok fx_j3) (j_operations fx_j3)" by code_simp
  have "list_all (\<lambda>x. validate_operation x = Inr ()) (j_operations fx_j3) \<and> ids_are_new (rc_ids fx_recover) fx_j3 \<and>
      \<not> fx_now < op_created_at fx_executing \<and> \<not> value_is_forbidden (oid_value (att_id fx_attempt))"
    by code_simp
  then show "can_mark_unknown (rc_ids fx_recover) fx_now fx_executing fx_attempt fx_j3"
    using fx_reachable(3) by (simp add: can_mark_unknown_def)
qed

lemma fx_parts:
  "wd_journal (fx_world j) = j" "wd_calls (fx_world j) = []" "su_clock fx_surroundings n = fx_now"
  "(\<forall>n j. su_others fx_surroundings n j = j) = True" "rc_operation_id fx_recover = fx_id CHR ''1''"
  by (simp_all add: fx_world_def fx_surroundings_def fx_recover_def)

lemma startup_recovery_never_calls_witness:
  "wd_calls (snd fx_recovered) = [] \<and>
   (\<exists>r b. fst fx_recovered = Inr r \<and> rt_disposition r = RT_ACCEPTED \<and> rt_operation r = Some b \<and>
      marked_unknown fx_executing fx_j3 b (wd_journal (snd fx_recovered)))"
proof -
  let ?run = fx_recovered
  have "(case fst ?run of
       Inl e \<Rightarrow> wd_journal (snd ?run) = wd_journal (fx_world fx_j3)
     | Inr r \<Rightarrow> \<exists>b. rt_disposition r = RT_ACCEPTED \<and> rt_evidence r = None \<and> rt_operation r = Some b \<and>
         marked_unknown fx_executing (wd_journal (fx_world fx_j3)) b (wd_journal (snd ?run))) \<and>
     (\<exists>r. fst ?run = Inr r)" and calls: "wd_calls (snd ?run) = []"
    using startup_recovery_never_calls [OF fx_others prod.collapse [symmetric, of ?run], unfolded fx_parts]
      fx_left_behind unfolding fx_parts by blast+
  from this(1) show ?thesis unfolding fx_parts by (elim conjE exE) (simp add: calls)
qed

definition fx_recovery :: recovery_command where
  "fx_recovery = \<lparr>vc_operation_id = fx_id CHR ''1'', vc_expected_version = 4,
     vc_ids = \<lparr>vi_verification_id = fx_id CHR ''A'', vi_verification_start_audit_event_id = fx_id CHR ''B'',
       vi_verification_complete_audit_event_id = fx_id CHR ''C'', vi_start_transition_audit_event_id = fx_id CHR ''D'',
       vi_start_outbox_event_id = fx_id CHR ''E'', vi_complete_transition_audit_event_id = fx_id CHR ''F'',
       vi_retry_outbox_event_id = fx_id CHR ''G'', vi_manual_audit_event_id = fx_id CHR ''H'',
       vi_reconciliation_decision_id = fx_id CHR ''I'', vi_reconciliation_audit_event_id = fx_id CHR ''J'',
       vi_execution_recover = rc_ids fx_recover\<rparr>,
     vc_actor = None, vc_correlation_id = None\<rparr>"

text \<open>The journal that startup recovery leaves, for the operation alone.\<close>

definition fx_unknown :: journal where
  "fx_unknown = fx_j3\<lparr>
     j_operations := [fx_op\<lparr>op_state := OS_UNKNOWN, op_version := 4,
        op_current_policy_decision_id := Some (fx_id CHR ''a''),
        op_latest_attempt_id := Some (fx_id CHR ''b'')\<rparr>]\<rparr>"

abbreviation fx_verified :: "recovery_result fallible \<times> world" where
  "fx_verified \<equiv> recover_unknown_operation fx_surroundings fx_registry None fx_recovery (fx_world fx_unknown)"

lemma fx_verified_once: "length (wd_calls (snd fx_verified)) = 1"
  by code_simp

lemma recovery_only_verifies_witness:
  "length (wd_calls (snd fx_verified)) = 1 \<and> list_all (\<lambda>(call, j). verify_ahead call j) (wd_calls (snd fx_verified))"
  using recovery_only_verifies [OF fx_others disjI1 [OF prod.collapse [symmetric, of fx_verified]]] fx_verified_once
  by (auto simp: fx_world_def list_all_iff)

section \<open>Submitting\<close>

definition fx_submit :: submit_command where
  "fx_submit = \<lparr>sc_effect = fx_effect, sc_arguments = JObject [], sc_requester = fx_actor, sc_metadata = [],
     sc_ids = \<lparr>si_operation_id = fx_id CHR ''1'', si_created_audit_event_id = fx_id CHR ''2'',
       si_policy_decision_id = fx_id CHR ''a'', si_policy_audit_event_id = fx_id CHR ''4'',
       si_policy_transition_audit_event_id = fx_id CHR ''3'', si_allow_outbox_event_id = fx_id CHR ''5'',
       si_approval_id = fx_id CHR ''K'', si_approval_audit_event_id = fx_id CHR ''L''\<rparr>,
     sc_correlation_id = None, sc_deployment_environment = ''local''\<rparr>"

definition fx_sha256 :: "string \<Rightarrow> string" where
  "fx_sha256 text = replicate 64 CHR ''0''"

abbreviation fx_submitted :: "runtime_result fallible \<times> world" where
  "fx_submitted \<equiv> submit_operation fx_sha256 fx_surroundings fx_registry allow_all_evaluate None fx_submit
     (fx_world empty_journal)"

lemma fx_submission_applied:
  "case fst fx_submitted of Inl e \<Rightarrow> False
   | Inr r \<Rightarrow> map_option tr_outcome (rt_transition r) = Some TO_APPLIED"
  by code_simp

lemma submission_is_gated_witness:
  "\<exists>r. fst fx_submitted = Inr r \<and> decided allow_all_evaluate fx_submit r (wd_journal (snd fx_submitted))"
  using submission_is_gated [OF fx_others prod.collapse [symmetric, of fx_submitted]] fx_submission_applied
  by (auto split: sum.split_asm)

section \<open>Compensating\<close>

definition fx_retry_ids :: compensation_retry_ids where
  "fx_retry_ids = (let i = fx_id CHR ''z'' in
     \<lparr>ty_parent_retry_transition_audit_event_id = i, ty_parent_retry_outbox_event_id = i, ty_attempt_id = i,
      ty_attempt_audit_event_id = i, ty_attempt_outbox_event_id = i, ty_resume_verification_id = i,
      ty_resume_verification_start_audit_event_id = i, ty_resume_verification_complete_audit_event_id = i,
      ty_resume_verification_outbox_event_id = i, ty_resume_complete_transition_audit_event_id = i,
      ty_resume_complete_outbox_event_id = i, ty_evidence_audit_event_id = i,
      ty_complete_transition_audit_event_id = i, ty_complete_outbox_event_id = i, ty_verification_id = i,
      ty_verification_start_audit_event_id = i, ty_verification_complete_audit_event_id = i,
      ty_verification_outbox_event_id = i\<rparr>)"

definition fx_undo_ids :: compensation_ids where
  "fx_undo_ids = \<lparr>ti_compensation_id = fx_id CHR ''k'', ti_compensation_attempt_id = fx_id CHR ''M'',
     ti_start_transition_audit_event_id = fx_id CHR ''N'', ti_compensation_requested_audit_event_id = fx_id CHR ''O'',
     ti_start_outbox_event_id = fx_id CHR ''P'', ti_claim_attempt_audit_event_id = fx_id CHR ''Q'',
     ti_evidence_audit_event_id = fx_id CHR ''R'', ti_complete_transition_audit_event_id = fx_id CHR ''S'',
     ti_complete_outbox_event_id = fx_id CHR ''T'', ti_verification_id = fx_id CHR ''U'',
     ti_verification_start_audit_event_id = fx_id CHR ''V'', ti_verification_complete_audit_event_id = fx_id CHR ''W'',
     ti_verification_outbox_event_id = fx_id CHR ''X'', ti_manual_audit_event_id = fx_id CHR ''Y'',
     ti_operator_audit_event_id = fx_id CHR ''Z'', ti_retry_ids_for = (\<lambda>_ _. Inr fx_retry_ids)\<rparr>"

definition fx_compensate :: compensation_command where
  "fx_compensate = \<lparr>tc_operation_id = fx_id CHR ''1'', tc_expected_version = 5, tc_ids = fx_undo_ids,
     tc_actor = Some fx_actor, tc_correlation_id = None\<rparr>"

abbreviation fx_undone_run :: "compensation_result fallible \<times> world" where
  "fx_undone_run \<equiv> execute_compensation fx_surroundings fx_registry None 4 3 fx_compensate (fx_world fx_j5)"

lemma fx_undone_once: "length (wd_calls (snd fx_undone_run)) = 1"
  by code_simp

lemma undo_is_written_ahead_witness:
  "length (wd_calls (snd fx_undone_run)) = 1 \<and> list_all (\<lambda>(call, j). undo_ahead call j) (wd_calls (snd fx_undone_run))"
  using undo_is_written_ahead [OF fx_others disjI1 [OF prod.collapse [symmetric, of fx_undone_run]]] fx_undone_once
  by (auto simp: fx_world_def list_all_iff)

section \<open>Policy, retries and digests\<close>

definition fx_rule :: policy_rule where
  "fx_rule = \<lparr>pl_rule_id = ''r'', pl_verdict = PV_ALLOW, pl_obligations = PHASE5_DEFAULT_OBLIGATIONS,
     pl_explanation = None, pl_providers = [''github''], pl_actions = [], pl_versions = [],
     pl_risk_levels = [], pl_requester_types = [], pl_deployment_environments = []\<rparr>"

lemma registry_retry_safe_iff_witness:
  "\<exists>d. registry_retry_safety fx_registry fx_effect (Some EO_UNKNOWN) None fx_now None None = Inr d \<and>
     rs_verdict d = RV_SAFE"
proof -
  have "descriptor_for fx_registry fx_effect = Inr fx_descriptor"
    by (simp add: descriptor_for_def adapter_for_def fx_registry_def fx_adapter_def)
  from registry_retry_safe_iff [OF this] show ?thesis by (simp add: fx_descriptor_def)
qed

text \<open>
  The same request at two times, under two display names, has one digest and one text; with a hash that sums the
  characters of a text, and no collision between these texts, the theorem gives back the parts.
\<close>

definition fx_sum256 :: "string \<Rightarrow> string" where
  "fx_sum256 text = replicate 62 CHR ''0'' @
     (let n = sum_list (map of_char text) :: int; digit = (\<lambda>d. ''0123456789abcdef'' ! nat (d mod 16))
      in [digit (n div 16), digit n])"

abbreviation fx_intent :: "principal_ref \<Rightarrow> utc_timestamp \<Rightarrow> intent_envelope fallible" where
  "fx_intent who at \<equiv> intent_from_parts fx_sum256 fx_effect AM_INLINE (Some (JObject [(''title'', JStr ''x'')])) None who at
     [(''team'', ''core'')]"

lemma fx_intents:
  "case (fx_intent fx_actor fx_now, fx_intent (fx_actor\<lparr>pr_display_name := Some ''Alice''\<rparr>) (UtcTimestamp 2000)) of
     (Inr i, Inr i') \<Rightarrow> in_intent_digest i = in_intent_digest i' \<and> i \<noteq> i' \<and> intent_text i = intent_text i' \<and>
       arguments_text i = arguments_text i'
   | _ \<Rightarrow> False"
  by code_simp

theorem intent_digest_binds_witness:
  "\<exists>i i'. fx_intent fx_actor fx_now = Inr i \<and>
     fx_intent (fx_actor\<lparr>pr_display_name := Some ''Alice''\<rparr>) (UtcTimestamp 2000) = Inr i' \<and> i \<noteq> i' \<and>
     pr_id (in_requester i) = pr_id (in_requester i')"
proof -
  from fx_intents obtain i i' where i: "fx_intent fx_actor fx_now = Inr i"
      "fx_intent (fx_actor\<lparr>pr_display_name := Some ''Alice''\<rparr>) (UtcTimestamp 2000) = Inr i'"
    and same: "in_intent_digest i = in_intent_digest i'" and texts: "intent_text i = intent_text i'"
      "arguments_text i = arguments_text i'" and "i \<noteq> i'"
    by (auto split: sum.split_asm)
  from intent_digest_binds [OF i same] texts
  have "pr_id fx_actor = pr_id (fx_actor\<lparr>pr_display_name := Some ''Alice''\<rparr>)" by simp
  with from_parts_texts(9) [OF i(1)] from_parts_texts(9) [OF i(2)] i \<open>i \<noteq> i'\<close> show ?thesis by auto
qed

end
