(* ===== verification/Wire_Format.thy ===== *)
theory Wire_Format
  imports Domain_Records "HOL-Library.AList"
begin

text \<open>
  The strict parsers of \<^verbatim>\<open>domain/wire.py\<close> and the wire form of the leaves: opaque ids, timestamps,
  strings, integers, enumerations (\<^verbatim>\<open>domain/ids.py\<close>, \<^verbatim>\<open>domain/time.py\<close>). A decoded JSON payload is a
  \<open>pyobj\<close>. The locale \<open>wire_format\<close> is what a printed form and its parser owe each other: the parser
  takes back what was printed of a conforming value, and whatever it accepts conforms. Its lemmas
  (the printed form determines the value; a value prints and parses back exactly when it conforms;
  the same for optional values and lists) serve every record of \<open>Wire_Records\<close>.
\<close>

named_theorems wire_back \<open>a conforming value parses back from its wire form\<close>
named_theorems wire_sound \<open>what a parser accepts conforms\<close>

section \<open>Objects and their keys\<close>

text \<open>\<open>require_mapping\<close>: a dict, every key a string.\<close>

definition string_key :: "pyobj \<times> pyobj \<Rightarrow> (string \<times> pyobj) fallible" where
  "string_key kv =
     (case fst kv of PyStr k \<Rightarrow> Inr (k, snd kv) | _ \<Rightarrow> Inl (ContractValidationError ''invalid_type''))"

definition require_mapping :: "pyobj \<Rightarrow> (string \<times> pyobj) list fallible" where
  "require_mapping raw =
     (case raw of PyDict kvs \<Rightarrow> map_err string_key kvs
      | _ \<Rightarrow> Inl (ContractValidationError ''invalid_type''))"

definition reject_unknown_keys :: "(string \<times> pyobj) list \<Rightarrow> string list \<Rightarrow> unit fallible" where
  "reject_unknown_keys data allowed =
     guard_err (list_all (\<lambda>kv. fst kv \<in> set allowed) data) (ContractValidationError ''unknown_field'')"

definition require_key :: "(string \<times> pyobj) list \<Rightarrow> string \<Rightarrow> pyobj fallible" where
  "require_key data key =
     (case map_of data key of None \<Rightarrow> Inl (ContractValidationError ''missing_field'') | Some v \<Rightarrow> Inr v)"

definition optional_key :: "(string \<times> pyobj) list \<Rightarrow> string \<Rightarrow> pyobj" where
  "optional_key data key = (case map_of data key of None \<Rightarrow> PyNone | Some v \<Rightarrow> v)"

text \<open>A dict literal with string keys, and a required member handed to its parser.\<close>

definition wire_dict :: "(string \<times> pyobj) list \<Rightarrow> pyobj" where
  "wire_dict kvs = PyDict (map (\<lambda>kv. (PyStr (fst kv), snd kv)) kvs)"

definition require_field ::
  "(string \<times> pyobj) list \<Rightarrow> string \<Rightarrow> (pyobj \<Rightarrow> 'a fallible) \<Rightarrow> 'a fallible" where
  "require_field data key parse = bind_err (require_key data key) parse"

definition optional_field ::
  "(string \<times> pyobj) list \<Rightarrow> string \<Rightarrow> (pyobj \<Rightarrow> 'a fallible) \<Rightarrow> 'a fallible" where
  "optional_field data key parse = parse (optional_key data key)"

lemma require_mapping_dict [simp]: "require_mapping (wire_dict kvs) = Inr kvs"
  by (simp add: require_mapping_def wire_dict_def map_err_roundtrip string_key_def)

lemma reject_known: "map fst data = allowed \<Longrightarrow> reject_unknown_keys data allowed = Inr ()"
  by (force simp: reject_unknown_keys_def list_all_iff)

lemma require_field_Cons [simp]:
  "require_field ((k, v) # data) key parse = (if k = key then parse v else require_field data key parse)"
  by (simp add: require_field_def require_key_def)

lemma optional_field_Cons [simp]:
  "optional_field ((k, v) # data) key parse = (if k = key then parse v else optional_field data key parse)"
  by (simp add: optional_field_def optional_key_def)

section \<open>Leaves\<close>

definition parse_str :: "pyobj \<Rightarrow> string fallible" where
  "parse_str raw =
     (case raw of
        PyStr s \<Rightarrow> if s = [] then Inl (ContractValidationError ''empty_string'') else Inr s
      | _ \<Rightarrow> Inl (ContractValidationError ''invalid_type''))"

text \<open>\<open>isinstance(raw, list)\<close>, where a from_wire walks the items itself.\<close>

definition require_list :: "pyobj \<Rightarrow> pyobj list fallible" where
  "require_list raw =
     (case raw of PyList items \<Rightarrow> Inr items | _ \<Rightarrow> Inl (ContractValidationError ''invalid_type''))"

text \<open>\<open>None if raw is None else parse(raw)\<close>, and \<open>None if x is None else x.to_wire()\<close>.\<close>

definition parse_optional :: "(pyobj \<Rightarrow> 'a fallible) \<Rightarrow> pyobj \<Rightarrow> 'a option fallible" where
  "parse_optional parse raw =
     (if raw = PyNone then Inr None else bind_err (parse raw) (\<lambda>x. Inr (Some x)))"

definition optional_to_wire :: "('a \<Rightarrow> pyobj) \<Rightarrow> 'a option \<Rightarrow> pyobj" where
  "optional_to_wire to_wire x = (case x of None \<Rightarrow> PyNone | Some y \<Rightarrow> to_wire y)"

definition parse_optional_str :: "pyobj \<Rightarrow> string option fallible" where
  "parse_optional_str = parse_optional parse_str"

definition parse_bool :: "pyobj \<Rightarrow> bool fallible" where
  "parse_bool raw = (case raw of PyBool b \<Rightarrow> Inr b | _ \<Rightarrow> Inl (ContractValidationError ''invalid_type''))"

definition parse_optional_bool :: "pyobj \<Rightarrow> bool option fallible" where
  "parse_optional_bool = parse_optional parse_bool"

definition parse_int :: "int option \<Rightarrow> pyobj \<Rightarrow> int fallible" where
  "parse_int minimum raw =
     (case raw of
        PyInt i \<Rightarrow>
          bind_err (guard_err (case minimum of None \<Rightarrow> True | Some m \<Rightarrow> m \<le> i)
                      (ContractValidationError ''invalid_range'')) (\<lambda>_. Inr i)
      | _ \<Rightarrow> Inl (ContractValidationError ''invalid_type''))"


definition parse_optional_int :: "int option \<Rightarrow> pyobj \<Rightarrow> int option fallible" where
  "parse_optional_int minimum = parse_optional (parse_int minimum)"

definition parse_str_list :: "pyobj \<Rightarrow> string list fallible" where
  "parse_str_list raw =
     (case raw of PyList items \<Rightarrow> map_err parse_str items
      | _ \<Rightarrow> Inl (ContractValidationError ''invalid_type''))"

text \<open>\<open>dict(pairs)\<close>: a repeated key keeps its first place and takes the last value.\<close>

definition dict_of_pairs :: "('k \<times> 'v) list \<Rightarrow> ('k \<times> 'v) list" where
  "dict_of_pairs pairs = fold (\<lambda>kv. AList.update (fst kv) (snd kv)) pairs []"

definition str_map_to_wire :: "(string \<times> string) list \<Rightarrow> pyobj" where
  "str_map_to_wire items = wire_dict (map (\<lambda>kv. (fst kv, PyStr (snd kv))) (dict_of_pairs items))"

definition str_map_item :: "pyobj \<times> pyobj \<Rightarrow> (string \<times> string) fallible" where
  "str_map_item kv =
     (case fst kv of
        PyStr k \<Rightarrow>
          if k = [] then Inl (ContractValidationError ''invalid_type'')
          else bind_err (parse_str (snd kv)) (\<lambda>v. Inr (k, v))
      | _ \<Rightarrow> Inl (ContractValidationError ''invalid_type''))"

definition parse_str_map :: "pyobj \<Rightarrow> (string \<times> string) list fallible" where
  "parse_str_map raw =
     (case raw of
        PyDict kvs \<Rightarrow>
          bind_err (map_err str_map_item kvs) (\<lambda>items.
          bind_err (guard_err (distinct (map fst (sort_key fst items)))
                      (ContractValidationError ''duplicate_key'')) (\<lambda>_.
          Inr (sort_key fst items)))
      | _ \<Rightarrow> Inl (ContractValidationError ''invalid_type''))"

definition parse_enum :: "'e list \<Rightarrow> ('e \<Rightarrow> string) \<Rightarrow> pyobj \<Rightarrow> 'e fallible" where
  "parse_enum members to_value raw =
     (case raw of
        PyStr s \<Rightarrow> (case enum_of members to_value s of
            None \<Rightarrow> Inl (ContractValidationError ''unknown_enum'') | Some e \<Rightarrow> Inr e)
      | _ \<Rightarrow> Inl (ContractValidationError ''invalid_type''))"

definition parse_optional_enum :: "'e list \<Rightarrow> ('e \<Rightarrow> string) \<Rightarrow> pyobj \<Rightarrow> 'e option fallible" where
  "parse_optional_enum members to_value = parse_optional (parse_enum members to_value)"

definition parse_contract_version :: "pyobj \<Rightarrow> string fallible" where
  "parse_contract_version raw =
     bind_err (parse_str raw) (\<lambda>value.
     bind_err (guard_err (value = CONTRACT_VERSION)
                 (ContractValidationError ''unsupported_contract_version'')) (\<lambda>_.
     Inr value))"

section \<open>What a wire form and its parser owe each other\<close>

definition accepts_only :: "(pyobj \<Rightarrow> 'a fallible) \<Rightarrow> ('a \<Rightarrow> bool) \<Rightarrow> bool" where
  "accepts_only parse P \<longleftrightarrow> (\<forall>raw x. parse raw = Inr x \<longrightarrow> P x)"

locale wire_format =
  fixes to_wire :: "'a \<Rightarrow> pyobj" and from_wire :: "pyobj \<Rightarrow> 'a fallible" and conforms :: "'a \<Rightarrow> bool"
  assumes parses_back: "conforms x \<Longrightarrow> from_wire (to_wire x) = Inr x"
    and sound: "from_wire raw = Inr x \<Longrightarrow> conforms x"
    and not_none: "conforms x \<Longrightarrow> to_wire x \<noteq> PyNone"
begin

lemma back_iff: "from_wire (to_wire x) = Inr x \<longleftrightarrow> conforms x"
  by (auto intro: parses_back sound)

lemma accepts_conforming: "accepts_only from_wire conforms"
  by (simp add: accepts_only_def sound)

lemma reparse: "from_wire raw = Inr x \<Longrightarrow> from_wire (to_wire x) = Inr x"
  by (rule parses_back) (rule sound)

lemma to_wire_inject: "conforms x \<Longrightarrow> conforms y \<Longrightarrow> to_wire x = to_wire y \<longleftrightarrow> x = y"
  by (metis parses_back sum.inject(2))

lemma optional_back:
  "pred_option conforms x \<Longrightarrow> parse_optional from_wire (optional_to_wire to_wire x) = Inr x"
  by (cases x) (simp_all add: parse_optional_def optional_to_wire_def parses_back not_none)

lemma optional_sound: "parse_optional from_wire raw = Inr (Some x) \<Longrightarrow> conforms x"
  by (auto simp: parse_optional_def sound split: if_splits)

lemma items_back: "list_all conforms xs \<Longrightarrow> map_err from_wire (map to_wire xs) = Inr xs"
  by (rule map_err_roundtrip) (simp add: list_all_iff parses_back)

lemma items_sound: "map_err from_wire raws = Inr xs \<Longrightarrow> list_all conforms xs"
  by (rule map_err_all) (auto intro: sound)

end


section \<open>The leaves conform\<close>

text \<open>The printed form of an enumeration's member, and what each parser lets through.\<close>

context str_enum
begin

lemma parse_enum_iff: "parse_enum members to_value raw = Inr e \<longleftrightarrow> raw = PyStr (to_value e)"
  by (auto simp: parse_enum_def enum_of_Some_iff enum_of_value value_inject split: pyobj.splits option.splits)

lemma parse_enum_value: "parse_enum members to_value (PyStr (to_value e)) = Inr e"
  by (simp add: parse_enum_iff)

lemma parse_optional_enum_value:
  "parse_optional_enum members to_value (optional_to_wire (\<lambda>e. PyStr (to_value e)) x) = Inr x"
  by (cases x) (simp_all add: parse_optional_enum_def parse_optional_def optional_to_wire_def parse_enum_value)

end

lemma parse_str_iff: "parse_str raw = Inr s \<longleftrightarrow> raw = PyStr s \<and> s \<noteq> []"
  by (auto simp: parse_str_def split: pyobj.splits if_splits)

lemma parse_bool_iff: "parse_bool raw = Inr b \<longleftrightarrow> raw = PyBool b"
  by (auto simp: parse_bool_def split: pyobj.splits)

lemma parse_int_iff:
  "parse_int minimum raw = Inr i \<longleftrightarrow> raw = PyInt i \<and> (\<forall>m. minimum = Some m \<longrightarrow> m \<le> i)"
  by (auto simp: parse_int_def split: pyobj.splits option.splits)

lemma parse_str_list_iff:
  "parse_str_list raw = Inr xs \<longleftrightarrow> raw = PyList (map PyStr xs) \<and> [] \<notin> set xs"
proof
  assume "parse_str_list raw = Inr xs"
  then obtain items where raw: "raw = PyList items" and items: "map_err parse_str items = Inr xs"
    by (auto simp: parse_str_list_def split: pyobj.splits)
  from map_err_all2 [OF items] show "raw = PyList (map PyStr xs) \<and> [] \<notin> set xs"
    unfolding raw by (induction rule: list_all2_induct) (auto simp: parse_str_iff)
next
  assume "raw = PyList (map PyStr xs) \<and> [] \<notin> set xs"
  then show "parse_str_list raw = Inr xs"
    by (auto simp: parse_str_list_def parse_str_iff intro!: map_err_roundtrip)
qed

lemma parse_contract_version_iff: "parse_contract_version raw = Inr s \<longleftrightarrow> raw = PyStr CONTRACT_VERSION \<and> s = CONTRACT_VERSION"
  by (auto simp: parse_contract_version_def parse_str_iff CONTRACT_VERSION_def)

lemma dict_of_distinct_pairs: "distinct (map fst pairs) \<Longrightarrow> dict_of_pairs pairs = pairs"
proof (induction pairs rule: rev_induct)
  case (snoc kv pairs)
  have "AList.update k v al = al @ [(k, v)]" if "k \<notin> set (map fst al)" for k v and al :: "('a \<times> 'b) list"
    using that by (induction al) auto
  with snoc show ?case by (simp add: dict_of_pairs_def)
qed (simp add: dict_of_pairs_def)

text \<open>A string map that comes back as it was: sorted, distinct, no empty key or value.\<close>

definition str_map_conforms :: "(string \<times> string) list \<Rightarrow> bool" where
  "str_map_conforms items \<longleftrightarrow>
     distinct (map fst items) \<and> sort_key fst items = items \<and> list_all (\<lambda>kv. fst kv \<noteq> [] \<and> snd kv \<noteq> []) items"

lemma str_map_back: "str_map_conforms items \<Longrightarrow> parse_str_map (str_map_to_wire items) = Inr items"
proof -
  assume items: "str_map_conforms items"
  then have "map_err str_map_item (map (\<lambda>kv. (PyStr (fst kv), PyStr (snd kv))) items) = Inr items"
    by (intro map_err_roundtrip)
      (auto simp: str_map_conforms_def list_all_iff str_map_item_def parse_str_iff)
  with items show ?thesis
    by (simp add: str_map_conforms_def str_map_to_wire_def parse_str_map_def wire_dict_def
        dict_of_distinct_pairs o_def)
qed

lemma str_map_sound: "parse_str_map raw = Inr items \<Longrightarrow> str_map_conforms items"
proof -
  assume "parse_str_map raw = Inr items"
  then obtain kvs pairs where pairs: "map_err str_map_item kvs = Inr pairs"
    and items: "items = sort_key fst pairs" "distinct (map fst items)"
    by (auto simp: parse_str_map_def split: pyobj.splits)
  have "list_all (\<lambda>kv. fst kv \<noteq> [] \<and> snd kv \<noteq> []) pairs"
    by (rule map_err_all [OF pairs])
      (auto simp: str_map_item_def parse_str_iff split: pyobj.splits if_splits)
  with items show ?thesis by (simp add: str_map_conforms_def sort_key_idem list_all_iff)
qed

section \<open>Identifiers\<close>

definition opaque_id_to_wire :: "opaque_id \<Rightarrow> pyobj" where
  "opaque_id_to_wire i = PyStr (oid_value i)"

definition opaque_id_from_wire :: "pyobj \<Rightarrow> opaque_id fallible" where
  "opaque_id_from_wire raw =
     (case raw of PyStr s \<Rightarrow> make_opaque_id s | _ \<Rightarrow> Inl (ContractValidationError ''invalid_type''))"

definition parse_optional_opaque_id :: "pyobj \<Rightarrow> opaque_id option fallible" where
  "parse_optional_opaque_id = parse_optional opaque_id_from_wire"

definition opaque_id_conforms :: "opaque_id \<Rightarrow> bool" where
  "opaque_id_conforms i = opaque_id_re (oid_value i)"

interpretation id_wire: wire_format opaque_id_to_wire opaque_id_from_wire opaque_id_conforms
proof unfold_locales
  fix i raw
  show "opaque_id_conforms i \<Longrightarrow> opaque_id_from_wire (opaque_id_to_wire i) = Inr i"
    by (simp add: opaque_id_to_wire_def opaque_id_from_wire_def opaque_id_conforms_def make_opaque_id_def)
  show "opaque_id_from_wire raw = Inr i \<Longrightarrow> opaque_id_conforms i"
    by (auto simp: opaque_id_from_wire_def opaque_id_conforms_def make_opaque_id_def
        split: pyobj.splits if_splits)
  show "opaque_id_to_wire i \<noteq> PyNone" by (simp add: opaque_id_to_wire_def)
qed


text \<open>The two collections: what parses back, and what a member that was parsed satisfies.\<close>

lemma require_sound: "accepts_only parse P \<Longrightarrow> require_field data key parse = Inr x \<Longrightarrow> P x"
  by (auto simp: require_field_def accepts_only_def)

lemma optional_field_sound: "accepts_only parse P \<Longrightarrow> optional_field data key parse = Inr x \<Longrightarrow> P x"
  by (auto simp: optional_field_def accepts_only_def)

lemma accepts_only_optional: "accepts_only parse P \<Longrightarrow> accepts_only (parse_optional parse) (pred_option P)"
  by (auto simp: accepts_only_def parse_optional_def option.pred_set split: if_splits)

lemmas optional_sound = optional_field_sound [OF accepts_only_optional]

lemma parse_str_back [wire_back]: "s \<noteq> [] \<Longrightarrow> parse_str (PyStr s) = Inr s"
  by (simp add: parse_str_iff)

lemma parse_optional_str_back [wire_back]:
  "x \<noteq> Some [] \<Longrightarrow> parse_optional_str (optional_to_wire PyStr x) = Inr x"
  by (cases x) (simp_all add: parse_optional_str_def parse_optional_def optional_to_wire_def parse_str_iff)

lemma parse_bool_back [wire_back]: "parse_bool (PyBool b) = Inr b"
  by (simp add: parse_bool_iff)

lemma parse_int_back [wire_back]: "m \<le> i \<Longrightarrow> parse_int (Some m) (PyInt i) = Inr i"
  by (simp add: parse_int_iff)

lemma parse_optional_int_back [wire_back]:
  "pred_option (\<lambda>i. m \<le> i) x \<Longrightarrow> parse_optional_int (Some m) (optional_to_wire PyInt x) = Inr x"
  by (cases x) (simp_all add: parse_optional_int_def parse_optional_def optional_to_wire_def parse_int_iff)

lemma parse_str_list_back [wire_back]: "[] \<notin> set xs \<Longrightarrow> parse_str_list (PyList (map PyStr xs)) = Inr xs"
  by (simp add: parse_str_list_iff)

lemma parse_version_back [wire_back]: "parse_contract_version (PyStr CONTRACT_VERSION) = Inr CONTRACT_VERSION"
  by (simp add: parse_contract_version_iff)

lemma parse_json_back [wire_back]: "json_wf j \<Longrightarrow> parse_json_value (json_to_plain j) = Inr j"
  by (simp add: parse_json_value_def json_from_plain_to_plain)

lemma json_to_plain_None: "json_to_plain j = PyNone \<longleftrightarrow> j = JNull"
  by (cases j) simp_all

lemma parse_optional_json_back [wire_back]:
  "pred_option (\<lambda>j. json_wf j \<and> j \<noteq> JNull) x \<Longrightarrow>
   parse_optional_json_value (optional_to_wire json_to_plain x) = Inr x"
  by (cases x)
    (simp_all add: parse_optional_json_value_def optional_to_wire_def json_to_plain_None parse_json_back)

lemma parse_optional_json_sound:
  "accepts_only parse_optional_json_value (pred_option (\<lambda>j. json_wf j \<and> j \<noteq> JNull))"
proof -
  have "raw = PyNone" if "json_from_plain raw = Inr JNull" for raw
    using that by (cases raw) (auto simp: make_json_object_Inr)
  then show ?thesis
    by (auto simp: accepts_only_def parse_optional_json_value_def parse_json_value_def
        dest: json_from_plain_wf split: if_splits)
qed

lemma parse_optional_str_sound: "accepts_only parse_optional_str (\<lambda>x. x \<noteq> Some [])"
  by (auto simp: accepts_only_def parse_optional_str_def parse_optional_def parse_str_iff split: if_splits)

lemma leaf_sounds:
  "accepts_only parse_str (\<lambda>s. s \<noteq> [])" "accepts_only (parse_int (Some m)) (\<lambda>i. m \<le> i)"
  "accepts_only parse_str_list (\<lambda>xs. [] \<notin> set xs)" "accepts_only parse_json_value json_wf"
  "accepts_only parse_str_map str_map_conforms"
  by (simp_all add: accepts_only_def parse_str_iff parse_int_iff parse_str_list_iff parse_json_value_def
      json_from_plain_wf str_map_sound)

lemmas leaf_sound [wire_sound] =
  leaf_sounds [THEN require_sound] id_wire.accepts_conforming [THEN require_sound]
  parse_optional_str_sound [THEN optional_field_sound] parse_optional_json_sound [THEN optional_field_sound]
  leaf_sounds(2) [THEN optional_sound, folded parse_optional_int_def]
  id_wire.accepts_conforming [THEN optional_sound, folded parse_optional_opaque_id_def]

lemmas leaf_back [wire_back] =
  id_wire.parses_back id_wire.optional_back [folded parse_optional_opaque_id_def] str_map_back

lemmas enum_back [wire_back] =
  os_enum.parse_enum_value eo_enum.parse_enum_value as_enum.parse_enum_value
  rl_enum.parse_enum_value pt_enum.parse_enum_value am_enum.parse_enum_value
  mu_enum.parse_enum_value im_enum.parse_enum_value vm_enum.parse_enum_value
  ck_enum.parse_enum_value es_enum.parse_enum_value pv_enum.parse_enum_value
  ap_enum.parse_enum_value cs_enum.parse_enum_value ob_enum.parse_enum_value
  wc_enum.parse_enum_value ek_enum.parse_enum_value vt_enum.parse_enum_value
  ra_enum.parse_enum_value ae_enum.parse_enum_value os_enum.parse_optional_enum_value
  eo_enum.parse_optional_enum_value

end
