(* ===== verification/Wire_Time.thy ===== *)
theory Wire_Time
  imports Wire_Format Safety_Decisions
begin

text \<open>
  The text of a timestamp (\<^verbatim>\<open>domain/time.py\<close>): \<open>YYYY-MM-DDTHH:MM:SS.ffffffZ\<close>. An instant is counted in
  microseconds from 0001-01-01T00:00:00Z, the first instant a Python \<open>datetime\<close> has; the calendar
  functions are those of Python's \<open>datetime\<close> module. \<open>strftime\<close> pads the year to four digits, as
  Python documents it.
\<close>

section \<open>The calendar\<close>

definition is_leap :: "int \<Rightarrow> bool" where
  "is_leap y \<longleftrightarrow> y mod 4 = 0 \<and> (y mod 100 \<noteq> 0 \<or> y mod 400 = 0)"

definition days_before_year :: "int \<Rightarrow> int" where
  "days_before_year year = (let y = year - 1 in y * 365 + y div 4 - y div 100 + y div 400)"

definition DAYS_IN_MONTH :: "int list" where
  "DAYS_IN_MONTH = [31, 28, 31, 30, 31, 30, 31, 31, 30, 31, 30, 31]"

definition days_in_month :: "bool \<Rightarrow> int \<Rightarrow> int" where
  "days_in_month leap month = (if month = 2 \<and> leap then 29 else DAYS_IN_MONTH ! nat (month - 1))"

definition days_before_month :: "bool \<Rightarrow> int \<Rightarrow> int" where
  "days_before_month leap month =
     sum_list (take (nat (month - 1)) DAYS_IN_MONTH) + (if 2 < month \<and> leap then 1 else 0)"

definition ymd2ord :: "int \<Rightarrow> int \<Rightarrow> int \<Rightarrow> int" where
  "ymd2ord year month day = days_before_year year + days_before_month (is_leap year) month + day"

text \<open>Month and day of the month of a day of the year, counted from 0.\<close>

definition month_of_day :: "bool \<Rightarrow> int \<Rightarrow> int \<times> int" where
  "month_of_day leap n =
     (let month = (n + 50) div 32;
          preceding = days_before_month leap month in
      if n < preceding then (month - 1, n - days_before_month leap (month - 1) + 1)
      else (month, n - preceding + 1))"

definition ord2ymd :: "int \<Rightarrow> int \<times> int \<times> int" where
  "ord2ymd ordinal =
     (let n = ordinal - 1;
          n400 = n div 146097; n' = n mod 146097;
          n100 = n' div 36524; n'' = n' mod 36524;
          n4 = n'' div 1461; n''' = n'' mod 1461;
          n1 = n''' div 365; day = n''' mod 365;
          year = n400 * 400 + 1 + n100 * 100 + n4 * 4 + n1 in
      if n1 = 4 \<or> n100 = 4 then (year - 1, 12, 31)
      else (year, month_of_day (n1 = 3 \<and> (n4 \<noteq> 24 \<or> n100 = 3)) day))"

definition valid_date :: "int \<Rightarrow> int \<Rightarrow> int \<Rightarrow> bool" where
  "valid_date year month day \<longleftrightarrow>
     1 \<le> year \<and> year \<le> 9999 \<and> 1 \<le> month \<and> month \<le> 12 \<and>
     1 \<le> day \<and> day \<le> days_in_month (is_leap year) month"

definition MAXORDINAL :: int where
  "MAXORDINAL = 3652059"

definition month_day_ok :: "bool \<Rightarrow> int \<Rightarrow> bool" where
  "month_day_ok leap n =
     (let (month, day) = month_of_day leap n in
      1 \<le> month \<and> month \<le> 12 \<and> 1 \<le> day \<and> day \<le> days_in_month leap month \<and>
      days_before_month leap month + day = n + 1)"

lemma month_table: "list_all (month_day_ok False) [0..364]" "list_all (month_day_ok True) [0..365]"
  by code_simp+

lemma month_day_ok: "0 \<le> n \<Longrightarrow> n < (if leap then 366 else 365) \<Longrightarrow> month_day_ok leap n"
  using month_table [unfolded list_all_iff set_upto, THEN bspec, of n] by (cases leap) auto

lemma month_of_day:
  assumes "0 \<le> n" and "n < (if leap then 366 else 365)" and "month_of_day leap n = (month, day)"
  shows "1 \<le> month" "month \<le> 12" "1 \<le> day" "day \<le> days_in_month leap month"
    "days_before_month leap month + day = n + 1"
  using month_day_ok [OF assms(1,2)] assms(3) by (simp_all add: month_day_ok_def)

lemma div_mod_part:
  fixes x :: int
  assumes "x = k * q + r" and "0 \<le> r" and "r < k"
  shows "x div k = q" and "x mod k = r"
  using assms by (simp_all add: ac_simps)

lemma year_parts:
  fixes a b c d :: int
  assumes "0 \<le> b" "b \<le> 3" "0 \<le> c" "c \<le> 24" "0 \<le> d" "d \<le> 3"
  defines "year \<equiv> a * 400 + 1 + b * 100 + c * 4 + d"
  shows "days_before_year year = 146097 * a + 36524 * b + 1461 * c + 365 * d"
    and "is_leap year \<longleftrightarrow> d = 3 \<and> (c \<noteq> 24 \<or> b = 3)"
proof -
  have "(year - 1) div 4 = 100 * a + 25 * b + c"
    by (rule div_mod_part [of _ _ _ d]) (use assms(1-6) in \<open>simp_all add: year_def\<close>)
  moreover have "(year - 1) div 100 = 4 * a + b"
    by (rule div_mod_part [of _ _ _ "4 * c + d"]) (use assms(1-6) in \<open>simp_all add: year_def\<close>)
  moreover have "(year - 1) div 400 = a"
    by (rule div_mod_part [of _ _ _ "100 * b + 4 * c + d"]) (use assms(1-6) in \<open>simp_all add: year_def\<close>)
  ultimately show "days_before_year year = 146097 * a + 36524 * b + 1461 * c + 365 * d"
    unfolding days_before_year_def Let_def by (simp add: year_def)
  have "year mod 4 = (if d = 3 then 0 else d + 1)"
    by (rule div_mod_part [of _ _ "100 * a + 25 * b + c + (if d = 3 then 1 else 0)"])
      (use assms(1-6) in \<open>simp_all add: year_def split: if_splits\<close>)
  moreover have "year mod 100 = (if c = 24 \<and> d = 3 then 0 else 4 * c + d + 1)"
    by (rule div_mod_part [of _ _ "4 * a + b + (if c = 24 \<and> d = 3 then 1 else 0)"])
      (use assms(1-6) in \<open>auto simp: year_def split: if_splits\<close>)
  moreover have "year mod 400 = (if b = 3 \<and> c = 24 \<and> d = 3 then 0 else 100 * b + 4 * c + d + 1)"
    by (rule div_mod_part [of _ _ "a + (if b = 3 \<and> c = 24 \<and> d = 3 then 1 else 0)"])
      (use assms(1-6) in \<open>auto simp: year_def split: if_splits\<close>)
  ultimately show "is_leap year \<longleftrightarrow> d = 3 \<and> (c \<noteq> 24 \<or> b = 3)"
    using assms(1-6) by (auto simp: is_leap_def)
qed

lemma ord2ymd_year:
  assumes n: "1 \<le> n" "n \<le> MAXORDINAL" and ymd: "ord2ymd n = (year, month, day)"
  shows "valid_date year month day" and "ymd2ord year month day = n"
proof -
  define a b c d e where parts: "a = (n - 1) div 146097" "b = (n - 1) mod 146097 div 36524"
    "c = (n - 1) mod 146097 mod 36524 div 1461" "d = (n - 1) mod 146097 mod 36524 mod 1461 div 365"
    "e = (n - 1) mod 146097 mod 36524 mod 1461 mod 365"
  note dm = div_mult_mod_eq [of "n - 1" 146097] div_mult_mod_eq [of "(n - 1) mod 146097" 36524]
    div_mult_mod_eq [of "(n - 1) mod 146097 mod 36524" 1461]
    div_mult_mod_eq [of "(n - 1) mod 146097 mod 36524 mod 1461" 365]
  have sum: "n - 1 = 146097 * a + 36524 * b + 1461 * c + 365 * d + e"
    using dm unfolding parts by linarith
  have "0 \<le> (n - 1) mod 146097" "(n - 1) mod 146097 < 146097" by simp_all
  note m1 = this
  have m2: "0 \<le> (n - 1) mod 146097 mod 36524" "(n - 1) mod 146097 mod 36524 < 36524" by simp_all
  have m3: "0 \<le> (n - 1) mod 146097 mod 36524 mod 1461" "(n - 1) mod 146097 mod 36524 mod 1461 < 1461" by simp_all
  have e: "0 \<le> e" "e < 365" by (simp_all add: parts)
  have bound: "36524 * b + 1461 * c + 365 * d + e < 146097" "1461 * c + 365 * d + e < 36524" "365 * d + e < 1461"
    using dm m1 m2 m3 unfolding parts by linarith+
  have nonneg: "0 \<le> a" "0 \<le> b" "0 \<le> c" "0 \<le> d"
    using n m1 m2 m3 by (simp_all add: parts pos_imp_zdiv_nonneg_iff)
  have range: "a \<le> 24" "b \<le> 4" "c \<le> 24" "d \<le> 4"
    using bound nonneg e n sum unfolding MAXORDINAL_def by linarith+
  let ?year = "a * 400 + 1 + b * 100 + c * 4 + d"
  have o: "ord2ymd n = (if d = 4 \<or> b = 4 then (?year - 1, 12, 31)
      else (?year, month_of_day (d = 3 \<and> (c \<noteq> 24 \<or> b = 3)) e))"
    by (simp add: ord2ymd_def Let_def parts)
  have maxyear: "?year \<le> 9999" if "\<not> (d = 4 \<or> b = 4)"
    using that range nonneg sum n e unfolding MAXORDINAL_def by linarith
  show "valid_date year month day" "ymd2ord year month day = n"
  proof (atomize (full), cases "d = 4 \<or> b = 4")
    case True
    then have last: "e = 0" "c \<noteq> 24 \<or> b = 4" "b = 4 \<longrightarrow> c = 0 \<and> d = 0" "d = 4 \<longrightarrow> b \<le> 3"
      using bound nonneg e range by auto
    have ym: "year = ?year - 1" "month = 12" "day = 31" using ymd True unfolding o by auto
    define b' c' where prev: "b' = (if b = 4 then 3 else b)" "c' = (if b = 4 then 24 else c)"
    have y: "year = a * 400 + 1 + b' * 100 + c' * 4 + 3"
      using True last unfolding ym(1) prev by auto
    have r: "0 \<le> b'" "b' \<le> 3" "0 \<le> c'" "c' \<le> 24" "c' \<noteq> 24 \<or> b' = 3"
      using nonneg range last True unfolding prev by auto
    have leap: "is_leap year" "days_before_year year = 146097 * a + 36524 * b' + 1461 * c' + 365 * 3"
      using year_parts [OF r(1-4), of 3 a] r(5) unfolding y by simp_all
    have "days_before_month True 12 = 335" "days_in_month True 12 = 31" by code_simp+
    moreover have "146097 * a + 36524 * b' + 1461 * c' + 365 * 3 + 335 + 31 = n"
      using True last sum unfolding prev by auto
    moreover have "1 \<le> year" "year \<le> 9999"
      using nonneg r True last n sum unfolding y prev MAXORDINAL_def by (auto split: if_splits)
    ultimately show "valid_date year month day \<and> ymd2ord year month day = n"
      by (simp add: valid_date_def ymd2ord_def ym(2,3) leap)
  next
    case False
    then have b3: "b \<le> 3" "d \<le> 3" using range by auto
    let ?leap = "d = 3 \<and> (c \<noteq> 24 \<or> b = 3)"
    have ym: "year = ?year" "month_of_day ?leap e = (month, day)"
      using ymd False unfolding o by auto
    have e': "e < (if ?leap then 366 else 365)" using e by simp
    show "valid_date year month day \<and> ymd2ord year month day = n"
      using month_of_day [OF e(1) e' ym(2)] year_parts [OF nonneg(2) b3(1) nonneg(3) range(3) nonneg(4) b3(2), of a]
        maxyear [OF False] nonneg sum
      by (simp add: valid_date_def ymd2ord_def ym(1))
  qed
qed


lemma year_decompose:
  fixes year :: int
  obtains a b c d where "year = a * 400 + 1 + b * 100 + c * 4 + d"
    "0 \<le> b" "b \<le> 3" "0 \<le> c" "c \<le> 24" "0 \<le> d" "d \<le> 3"
proof
  let ?r = "(year - 1) mod 400"
  let ?a = "(year - 1) div 400" and ?b = "?r div 100" and ?c = "?r mod 100 div 4" and ?d = "?r mod 100 mod 4"
  note dm = div_mult_mod_eq [of "year - 1" 400] div_mult_mod_eq [of ?r 100] div_mult_mod_eq [of "?r mod 100" 4]
  show "year = ?a * 400 + 1 + ?b * 100 + ?c * 4 + ?d" using dm by linarith
  have m: "0 \<le> ?r" "?r < 400" "0 \<le> ?r mod 100" "?r mod 100 < 100" "0 \<le> ?d" "?d < 4" by simp_all
  show "0 \<le> ?b" "0 \<le> ?c" "0 \<le> ?d" by simp_all
  show "?b \<le> 3" "?c \<le> 24" "?d \<le> 3" using m dm by linarith+
qed

lemma days_before_year_bounds:
  assumes "1 \<le> year" "year \<le> 10000"
  shows "0 \<le> days_before_year year" "days_before_year year \<le> MAXORDINAL"
proof -
  obtain a b c d where year: "year = a * 400 + 1 + b * 100 + c * 4 + d"
    and r: "0 \<le> b" "b \<le> 3" "0 \<le> c" "c \<le> 24" "0 \<le> d" "d \<le> 3"
    by (rule year_decompose)
  note y = year_parts(1) [OF r, of a, folded year]
  have "0 \<le> a" "a \<le> 24" using r assms unfolding year by linarith+
  then show "0 \<le> days_before_year year" "days_before_year year \<le> MAXORDINAL"
    using r assms(2) [unfolded year] unfolding y MAXORDINAL_def by linarith+
qed

lemma days_before_year_Suc:
  "days_before_year (year + 1) = days_before_year year + (if is_leap year then 366 else 365)"
proof -
  obtain a b c d where year: "year = a * 400 + 1 + b * 100 + c * 4 + d"
    and r: "0 \<le> b" "b \<le> 3" "0 \<le> c" "c \<le> 24" "0 \<le> d" "d \<le> 3"
    by (rule year_decompose)
  note y = year_parts [OF r, of a, folded year]
  consider "d < 3" | "d = 3" "c < 24" | "d = 3" "c = 24" "b < 3" | "d = 3" "c = 24" "b = 3" using r by linarith
  then show ?thesis
  proof cases
    case 1
    have eq: "year + 1 = a * 400 + 1 + b * 100 + c * 4 + (d + 1)" using 1 by (simp add: year)
    show ?thesis unfolding eq y by (subst year_parts(1)) (use r 1 in simp_all)
  next
    case 2
    have eq: "year + 1 = a * 400 + 1 + b * 100 + (c + 1) * 4 + 0" using 2 by (simp add: year)
    show ?thesis unfolding eq y by (subst year_parts(1)) (use r 2 in simp_all)
  next
    case 3
    have eq: "year + 1 = a * 400 + 1 + (b + 1) * 100 + 0 * 4 + 0" using 3 by (simp add: year)
    show ?thesis unfolding eq y by (subst year_parts(1)) (use r 3 in simp_all)
  next
    case 4
    have eq: "year + 1 = (a + 1) * 400 + 1 + 0 * 100 + 0 * 4 + 0" using 4 by (simp add: year)
    show ?thesis unfolding eq y by (subst year_parts(1)) (use r 4 in simp_all)
  qed
qed

lemma month_end:
  "list_all (\<lambda>leap. list_all (\<lambda>m. 0 \<le> days_before_month leap m \<and>
     days_before_month leap m + days_in_month leap m \<le> (if leap then 366 else 365)) [1..12]) [False, True]"
  by code_simp

lemma valid_date_ordinal:
  assumes "valid_date year month day"
  shows "1 \<le> ymd2ord year month day" "ymd2ord year month day \<le> MAXORDINAL"
proof -
  have v: "1 \<le> year" "year \<le> 9999" "month \<in> {1..12}" "1 \<le> day" "day \<le> days_in_month (is_leap year) month"
    using assms by (auto simp: valid_date_def)
  have "list_all (\<lambda>m. 0 \<le> days_before_month leap m \<and>
     days_before_month leap m + days_in_month leap m \<le> (if leap then 366 else 365)) [1..12]" for leap
    using month_end by (cases leap) simp_all
  from this [unfolded list_all_iff set_upto, THEN bspec, OF v(3)]
  have m: "0 \<le> days_before_month (is_leap year) month"
    "days_before_month (is_leap year) month + days_in_month (is_leap year) month \<le> (if is_leap year then 366 else 365)"
    by auto
  show "1 \<le> ymd2ord year month day"
    using v m days_before_year_bounds [of year] by (simp add: ymd2ord_def)
  show "ymd2ord year month day \<le> MAXORDINAL"
    using v m days_before_year_bounds(2) [of "year + 1"] unfolding days_before_year_Suc ymd2ord_def by simp
qed


section \<open>The text\<close>

fun fixed_digits :: "nat \<Rightarrow> int \<Rightarrow> string" where
  "fixed_digits 0 n = []"
| "fixed_digits (Suc k) n = fixed_digits k (n div 10) @ [char_of (nat (48 + n mod 10))]"

definition MICROS_PER_DAY :: int where
  "MICROS_PER_DAY = 86400000000"

definition timestamp_to_wire :: "utc_timestamp \<Rightarrow> pyobj" where
  "timestamp_to_wire t =
     (let (year, month, day) = ord2ymd (ts_value t div MICROS_PER_DAY + 1);
          micros = ts_value t mod MICROS_PER_DAY;
          seconds = micros div 1000000 in
      PyStr (fixed_digits 4 year @ ''-'' @ fixed_digits 2 month @ ''-'' @ fixed_digits 2 day @ ''T'' @
             fixed_digits 2 (seconds div 3600) @ '':'' @ fixed_digits 2 (seconds div 60 mod 60) @ '':'' @
             fixed_digits 2 (seconds mod 60) @ ''.'' @ fixed_digits 6 (micros mod 1000000) @ ''Z''))"

text \<open>The regular expression \<^verbatim>\<open>^(\d{4}-\d{2}-\d{2}T\d{2}:\d{2}:\d{2})\.(\d{6})Z$\<close>, and the fields at its places.\<close>

definition WIRE_RE :: "string \<Rightarrow> bool" where
  "WIRE_RE s \<longleftrightarrow>
     list_all2 (\<lambda>p c. if p = CHR ''0'' then is_digit_char c else c = p) ''0000-00-00T00:00:00.000000Z'' s"

definition field_at :: "string \<Rightarrow> nat \<Rightarrow> nat \<Rightarrow> int" where
  "field_at s i n = digits_value (take n (drop i s))"

definition timestamp_from_wire :: "pyobj \<Rightarrow> utc_timestamp fallible" where
  "timestamp_from_wire raw =
     (case raw of
        PyStr s \<Rightarrow>
          bind_err (guard_err (WIRE_RE s) (ContractValidationError ''invalid_timestamp'')) (\<lambda>_.
          let year = field_at s 0 4; month = field_at s 5 2; day = field_at s 8 2;
              hour = field_at s 11 2; minute = field_at s 14 2; second = field_at s 17 2;
              micros = field_at s 20 6 in
          bind_err (guard_err (valid_date year month day \<and> hour < 24 \<and> minute < 60 \<and> second < 60)
                      (ContractValidationError ''invalid_timestamp'')) (\<lambda>_.
          make_utc_timestamp
            \<lparr>dt_local = (ymd2ord year month day - 1) * MICROS_PER_DAY +
                ((hour * 60 + minute) * 60 + second) * 1000000 + micros,
             dt_offset = Some 0\<rparr>))
      | _ \<Rightarrow> Inl (ContractValidationError ''invalid_type''))"

definition timestamp_conforms :: "utc_timestamp \<Rightarrow> bool" where
  "timestamp_conforms t \<longleftrightarrow> 0 \<le> ts_value t \<and> ts_value t < MAXORDINAL * MICROS_PER_DAY"

lemma digit_char:
  fixes n :: int
  shows "is_digit_char (char_of (nat (48 + n mod 10)))"
    and "(of_char (char_of (nat (48 + n mod 10))) :: int) = 48 + n mod 10"
proof -
  have m: "0 \<le> n mod 10" "n mod 10 < 10" by simp_all
  then have "nat (48 + n mod 10) < 256" by linarith
  then have c: "(of_char (char_of (nat (48 + n mod 10))) :: nat) = nat (48 + n mod 10)" by simp
  then show "is_digit_char (char_of (nat (48 + n mod 10)))"
    using m unfolding is_digit_char_def Let_def c by linarith
  show "(of_char (char_of (nat (48 + n mod 10))) :: int) = 48 + n mod 10"
    using m c of_nat_of_char [of "char_of (nat (48 + n mod 10))", where 'a = int] by simp
qed

lemma fixed_digits: "0 \<le> n \<Longrightarrow> n < 10 ^ k \<Longrightarrow>
  digits_value (fixed_digits k n) = n \<and> length (fixed_digits k n) = k \<and> list_all is_digit_char (fixed_digits k n)"
proof (induction k arbitrary: n)
  case 0
  then show ?case by (simp add: digits_value_def)
next
  case (Suc k)
  have "0 \<le> n div 10" "n div 10 < 10 ^ k" using Suc.prems by simp_all
  from Suc.IH [OF this] show ?case
    by (simp add: digits_value_def digit_char)
qed


lemma field_at_field:
  assumes "length pre = i" and "length d = n"
  shows "field_at (pre @ d @ post) i n = digits_value d"
  using assms by (simp add: field_at_def)

lemma two_digits: "0 \<le> n \<Longrightarrow> n < 100 \<Longrightarrow> digits_value (fixed_digits 2 n) = (n::int)"
  using fixed_digits [of n 2] by simp

lemma timestamp_text:
  fixes year month day hour minute second micros :: int
  assumes "0 \<le> year" "year < 10000" "0 \<le> month" "month < 100" "0 \<le> day" "day < 100" "0 \<le> hour" "hour < 100"
    "0 \<le> minute" "minute < 100" "0 \<le> second" "second < 100" "0 \<le> micros" "micros < 1000000"
  defines "s \<equiv> fixed_digits 4 year @ ''-'' @ fixed_digits 2 month @ ''-'' @ fixed_digits 2 day @ ''T'' @
             fixed_digits 2 hour @ '':'' @ fixed_digits 2 minute @ '':'' @
             fixed_digits 2 second @ ''.'' @ fixed_digits 6 micros @ ''Z''"
  shows "WIRE_RE s" and "field_at s 0 4 = year" "field_at s 5 2 = month" "field_at s 8 2 = day"
    "field_at s 11 2 = hour" "field_at s 14 2 = minute" "field_at s 17 2 = second" "field_at s 20 6 = micros"
proof -
  have f: "digits_value (fixed_digits 4 year) = year" "length (fixed_digits 4 year) = 4"
    "digits_value (fixed_digits 6 micros) = micros" "length (fixed_digits 6 micros) = 6"
    "length (fixed_digits 2 n) = 2" for n
    using fixed_digits [of year 4] fixed_digits [of micros 6] assms(1,2,13,14)
    by (simp_all add: numeral_2_eq_2)
  note two = two_digits [OF assms(3,4)] two_digits [OF assms(5,6)] two_digits [OF assms(7,8)]
    two_digits [OF assms(9,10)] two_digits [OF assms(11,12)]
  show "field_at s 0 4 = year" "field_at s 5 2 = month" "field_at s 8 2 = day" "field_at s 11 2 = hour"
    "field_at s 14 2 = minute" "field_at s 17 2 = second" "field_at s 20 6 = micros"
    unfolding field_at_def s_def by (simp_all add: f two)
  show "WIRE_RE s"
    unfolding WIRE_RE_def s_def by (simp add: numeral_eq_Suc digit_char(1))
qed


lemma digits_value_nonneg: "list_all is_digit_char s \<Longrightarrow> 0 \<le> digits_value s"
proof (induction s rule: rev_induct)
  case (snoc c s)
  then have "48 \<le> (of_char c :: nat)" by (simp add: is_digit_char_def Let_def)
  then have "48 \<le> (of_char c :: int)" using of_nat_of_char [of c, where 'a = int] by linarith
  with snoc show ?case by (simp add: digits_value_def)
qed (simp add: digits_value_def)

lemma digits_value_bound: "list_all is_digit_char s \<Longrightarrow> digits_value s < 10 ^ length s"
proof (induction s rule: rev_induct)
  case (snoc c s)
  then have "(of_char c :: nat) \<le> 57" by (simp add: is_digit_char_def Let_def)
  then have "(of_char c :: int) \<le> 57" using of_nat_of_char [of c, where 'a = int] by linarith
  with snoc show ?case by (simp add: digits_value_def)
qed (simp add: digits_value_def)

lemma WIRE_RE_fields:
  assumes "WIRE_RE s"
  shows "0 \<le> field_at s 11 2" "0 \<le> field_at s 14 2" "0 \<le> field_at s 17 2" "0 \<le> field_at s 20 6"
    "field_at s 20 6 < 1000000"
proof -
  let ?P = "\<lambda>p c. if p = CHR ''0'' then is_digit_char c else c = p"
  have part: "list_all2 ?P (take n (drop i ''0000-00-00T00:00:00.000000Z'')) (take n (drop i s))" for i n
    using assms unfolding WIRE_RE_def by (intro list_all2_takeI list_all2_dropI)
  have digits: "list_all is_digit_char (take n (drop i s)) \<and> length (take n (drop i s)) = k"
    if "take n (drop i ''0000-00-00T00:00:00.000000Z'') = replicate k (CHR ''0'')" for i n k
  proof -
    have "list_all is_digit_char xs \<and> length xs = k" if "list_all2 ?P (replicate k (CHR ''0'')) xs" for xs
      using that by (induction k arbitrary: xs) (auto simp: list_all2_Cons1)
    from this [OF part [of n i, unfolded that]] show ?thesis .
  qed
  note d = digits [of 2 11 2] digits [of 2 14 2] digits [of 2 17 2] digits [of 6 20 6]
  show "0 \<le> field_at s 11 2" "0 \<le> field_at s 14 2" "0 \<le> field_at s 17 2" "0 \<le> field_at s 20 6"
    "field_at s 20 6 < 1000000"
    using d digits_value_bound [of "take 6 (drop 20 s)"]
    by (auto simp: field_at_def numeral_eq_Suc intro!: digits_value_nonneg)
qed

lemma instant_range:
  fixes d h m s u :: int
  assumes "1 \<le> d" "d \<le> 3652059" "0 \<le> h" "h < 24" "0 \<le> m" "m < 60" "0 \<le> s" "s < 60" "0 \<le> u" "u < 1000000"
  shows "0 \<le> (d - 1) * 86400000000 + ((h * 60 + m) * 60 + s) * 1000000 + u \<and>
    (d - 1) * 86400000000 + ((h * 60 + m) * 60 + s) * 1000000 + u < 3652059 * 86400000000"
proof -
  define x y where "x = h * 60 + m" and "y = x * 60 + s"
  have x: "0 \<le> x" "x \<le> 1439" using assms(3-6) unfolding x_def by linarith+
  have y: "0 \<le> y" "y \<le> 86399" using x assms(7,8) unfolding y_def by linarith+
  define z where "z = d - 1"
  have z: "0 \<le> z" "z \<le> 3652058" using assms(1,2) unfolding z_def by linarith+
  have "0 \<le> z * 86400000000 + y * 1000000 + u" "z * 86400000000 + y * 1000000 + u < 3652059 * 86400000000"
    using y z assms(9,10) by simp_all
  then show ?thesis unfolding x_def y_def z_def by simp
qed

interpretation ts_wire: wire_format timestamp_to_wire timestamp_from_wire timestamp_conforms
proof unfold_locales
  fix t raw
  show "timestamp_to_wire t \<noteq> PyNone" by (simp add: timestamp_to_wire_def Let_def split: prod.split)
  show "timestamp_from_wire (timestamp_to_wire t) = Inr t" if "timestamp_conforms t"
  proof -
    let ?day = "ts_value t div MICROS_PER_DAY" and ?us = "ts_value t mod MICROS_PER_DAY"
    obtain year month day where ymd: "ord2ymd (?day + 1) = (year, month, day)" by (metis prod_cases3)
    have "0 \<le> ?day" "?day < MAXORDINAL"
      using that by (auto simp: timestamp_conforms_def MICROS_PER_DAY_def MAXORDINAL_def)
    then have d: "valid_date year month day" "ymd2ord year month day = ?day + 1"
      using ord2ymd_year [OF _ _ ymd] by simp_all
    have day: "day < 100"
    proof -
      have "list_all (\<lambda>leap. list_all (\<lambda>m. days_in_month leap m < 100) [1..12]) [False, True]" by code_simp
      then have "days_in_month leap m < 100" if "m \<in> {1..12}" for leap m
        using that by (cases leap) (simp_all add: list_all_iff)
      from this [of month "is_leap year"] d(1) show ?thesis by (simp add: valid_date_def)
    qed
    have us: "0 \<le> ?us" "?us < 86400000000" by (simp_all add: MICROS_PER_DAY_def)
    let ?s = "?us div 1000000"
    have r: "0 \<le> ?s div 3600" "?s div 3600 < 24" "0 \<le> ?s div 60 mod 60" "?s div 60 mod 60 < 60"
      "0 \<le> ?s mod 60" "?s mod 60 < 60" "0 \<le> ?us mod 1000000" "?us mod 1000000 < 1000000"
      using us by simp_all
    have sum: "((?s div 3600 * 60 + ?s div 60 mod 60) * 60 + ?s mod 60) * 1000000 + ?us mod 1000000 = ?us"
    proof -
      have "?s div 3600 = ?s div 60 div 60" by (simp add: zdiv_zmult2_eq [symmetric])
      then show ?thesis by (simp add: algebra_simps)
    qed
    have month: "0 \<le> year" "year < 10000" "0 \<le> month" "month < 100" "0 \<le> day"
      using d(1) by (auto simp: valid_date_def)
    note printed = timestamp_text [OF month(1-5) day r(1) _ r(3) _ r(5) _ r(7,8)]
    have fields: "WIRE_RE s \<and> field_at s 0 4 = year \<and> field_at s 5 2 = month \<and> field_at s 8 2 = day \<and>
        field_at s 11 2 = ?s div 3600 \<and> field_at s 14 2 = ?s div 60 mod 60 \<and> field_at s 17 2 = ?s mod 60 \<and>
        field_at s 20 6 = ?us mod 1000000" if "timestamp_to_wire t = PyStr s" for s
    proof -
      have "s = fixed_digits 4 year @ ''-'' @ fixed_digits 2 month @ ''-'' @ fixed_digits 2 day @ ''T'' @
             fixed_digits 2 (?s div 3600) @ '':'' @ fixed_digits 2 (?s div 60 mod 60) @ '':'' @
             fixed_digits 2 (?s mod 60) @ ''.'' @ fixed_digits 6 (?us mod 1000000) @ ''Z''"
        using that by (simp add: timestamp_to_wire_def Let_def ymd)
      then show ?thesis using r by (simp only:) (intro conjI printed; linarith)
    qed
    obtain s where s: "timestamp_to_wire t = PyStr s"
      by (simp add: timestamp_to_wire_def Let_def ymd)
    have "(ymd2ord year month day - 1) * MICROS_PER_DAY +
        ((?s div 3600 * 60 + ?s div 60 mod 60) * 60 + ?s mod 60) * 1000000 + ?us mod 1000000 = ts_value t"
      using sum div_mult_mod_eq [of "ts_value t" MICROS_PER_DAY] unfolding d(2) add_diff_cancel_right' by linarith
    moreover note fields [OF s] d(1) r(2,4,6)
    ultimately show ?thesis
      unfolding s timestamp_from_wire_def pyobj.case Let_def
      by (simp only: make_utc_timestamp_def guard_err_simps bind_err_simps simp_thms py_datetime.simps option.case
          if_False if_True utc_timestamp.collapse)
  qed
  show "timestamp_conforms t" if from_wire: "timestamp_from_wire raw = Inr t"
  proof -
    obtain s where re: "WIRE_RE s" and date: "valid_date (field_at s 0 4) (field_at s 5 2) (field_at s 8 2)"
      and time: "field_at s 11 2 < 24" "field_at s 14 2 < 60" "field_at s 17 2 < 60"
      and t: "ts_value t = (ymd2ord (field_at s 0 4) (field_at s 5 2) (field_at s 8 2) - 1) * MICROS_PER_DAY +
        ((field_at s 11 2 * 60 + field_at s 14 2) * 60 + field_at s 17 2) * 1000000 + field_at s 20 6"
      using from_wire
      by (auto simp: timestamp_from_wire_def Let_def make_utc_timestamp_def split: pyobj.splits)
    show ?thesis
      using valid_date_ordinal [OF date] WIRE_RE_fields [OF re] time
      unfolding timestamp_conforms_def t MICROS_PER_DAY_def MAXORDINAL_def by (intro instant_range)
  qed
qed

end
