(* ===== verification/Wire_Records.thy ===== *)
theory Wire_Records
  imports Wire_Time Intent_Digest
begin

text \<open>
  \<open>to_wire\<close> and \<open>from_wire\<close> of the durable records (\<^verbatim>\<open>domain/refs.py\<close>, \<open>evidence\<close>, \<open>errors\<close>, \<open>intent\<close>,
  \<open>operation\<close>, \<open>attempt\<close>, \<open>policy\<close>, \<open>verification\<close>, \<open>compensation\<close>, \<open>audit\<close>, \<open>messaging\<close>,
  \<open>reconciliation\<close>). For each record \<open>R\<close>: the key set, \<open>R_to_wire\<close>, \<open>R_from_wire\<close> with its checks in
  evaluation order, ending in the constructor and so in \<open>__post_init__\<close>, and \<open>R_conforms\<close>: what
  \<open>__post_init__\<close> checks and what only the parsers check (no empty string, ids and timestamps in
  range, canonical JSON, a sorted string map). The interpretation of \<open>wire_format\<close> shows that a record
  comes back from its wire form exactly when it conforms, and that every parsed record conforms.
\<close>

lemmas timestamp_wire_back [wire_back] = ts_wire.parses_back ts_wire.optional_back
lemmas timestamp_wire_sound [wire_sound] = 
  ts_wire.accepts_conforming [THEN require_sound] ts_wire.accepts_conforming [THEN optional_sound]

definition parse_opaque_id_list :: "pyobj \<Rightarrow> opaque_id list fallible" where
  "parse_opaque_id_list raw =
     (case raw of PyList items \<Rightarrow> map_err opaque_id_from_wire items
      | _ \<Rightarrow> Inl (ContractValidationError ''invalid_type''))"

lemma opaque_id_list_back [wire_back]:
  "list_all opaque_id_conforms xs \<Longrightarrow> parse_opaque_id_list (PyList (map opaque_id_to_wire xs)) = Inr xs"
  by (simp add: parse_opaque_id_list_def id_wire.items_back)

lemma opaque_id_list_sound: "accepts_only parse_opaque_id_list (list_all opaque_id_conforms)"
  by (auto simp: accepts_only_def parse_opaque_id_list_def id_wire.items_sound split: pyobj.splits)

lemmas opaque_id_list_require [wire_sound] = opaque_id_list_sound [THEN require_sound]

section \<open>References, evidence, errors\<close>

definition EFFECT_REF_FIELDS :: "string list" where
  "EFFECT_REF_FIELDS =
     [''provider'', ''action'', ''version'']"

definition effect_ref_to_wire :: "effect_ref \<Rightarrow> pyobj" where
  "effect_ref_to_wire x = wire_dict
     [(''provider'', PyStr (ef_provider x)),
      (''action'', PyStr (ef_action x)),
      (''version'', PyStr (ef_version x))]"

definition effect_ref_from_wire :: "pyobj \<Rightarrow> effect_ref fallible" where
  "effect_ref_from_wire raw =
     bind_err (require_mapping raw) (\<lambda>data.
     bind_err (reject_unknown_keys data EFFECT_REF_FIELDS) (\<lambda>_.
     bind_err (require_field data ''provider'' parse_str) (\<lambda>provider.
     bind_err (require_field data ''action'' parse_str) (\<lambda>actn.
     bind_err (require_field data ''version'' parse_str) (\<lambda>version.
     Inr \<lparr>ef_provider = provider, ef_action = actn, ef_version = version\<rparr>)))))"

definition effect_ref_conforms :: "effect_ref \<Rightarrow> bool" where
  "effect_ref_conforms x \<longleftrightarrow>
     ef_provider x \<noteq> [] \<and>
     ef_action x \<noteq> [] \<and>
     ef_version x \<noteq> []"

interpretation effect_ref_wire: wire_format effect_ref_to_wire effect_ref_from_wire effect_ref_conforms
proof unfold_locales
  fix x raw
  show "effect_ref_conforms x \<Longrightarrow> effect_ref_from_wire (effect_ref_to_wire x) = Inr x"
    by (cases x) (simp add: effect_ref_to_wire_def effect_ref_from_wire_def EFFECT_REF_FIELDS_def effect_ref_conforms_def reject_known wire_back)
  show "effect_ref_from_wire raw = Inr x \<Longrightarrow> effect_ref_conforms x"
    by (auto simp: effect_ref_from_wire_def effect_ref_conforms_def dest!: wire_sound)
  show "effect_ref_to_wire x \<noteq> PyNone" by (simp add: effect_ref_to_wire_def wire_dict_def)
qed

lemmas effect_ref_wire_back [wire_back] = effect_ref_wire.parses_back effect_ref_wire.optional_back
lemmas effect_ref_wire_sound [wire_sound] = effect_ref_wire.accepts_conforming [THEN require_sound]
    effect_ref_wire.accepts_conforming [THEN optional_sound]

definition PRINCIPAL_REF_FIELDS :: "string list" where
  "PRINCIPAL_REF_FIELDS =
     [''type'', ''id'', ''display_name'']"

definition principal_ref_to_wire :: "principal_ref \<Rightarrow> pyobj" where
  "principal_ref_to_wire x = wire_dict
     [(''type'', PyStr (principal_type_value (pr_type x))),
      (''id'', PyStr (pr_id x)),
      (''display_name'', optional_to_wire PyStr (pr_display_name x))]"

definition make_principal_ref :: "principal_ref \<Rightarrow> principal_ref fallible" where
  "make_principal_ref x = bind_err (validate_principal_ref x) (\<lambda>_. Inr x)"

definition principal_ref_from_wire :: "pyobj \<Rightarrow> principal_ref fallible" where
  "principal_ref_from_wire raw =
     bind_err (require_mapping raw) (\<lambda>data.
     bind_err (reject_unknown_keys data PRINCIPAL_REF_FIELDS) (\<lambda>_.
     bind_err (require_field data ''type'' (parse_enum principal_type_members principal_type_value)) (\<lambda>typ.
     bind_err (require_field data ''id'' parse_str) (\<lambda>id.
     bind_err (optional_field data ''display_name'' parse_optional_str) (\<lambda>display_name.
     make_principal_ref
       \<lparr>pr_type = typ, pr_id = id, pr_display_name = display_name\<rparr>)))))"

definition principal_ref_conforms :: "principal_ref \<Rightarrow> bool" where
  "principal_ref_conforms x \<longleftrightarrow>
     validate_principal_ref x = Inr () \<and>
     pr_id x \<noteq> [] \<and>
     pr_display_name x \<noteq> Some []"

interpretation principal_ref_wire: wire_format principal_ref_to_wire principal_ref_from_wire principal_ref_conforms
proof unfold_locales
  fix x raw
  show "principal_ref_conforms x \<Longrightarrow> principal_ref_from_wire (principal_ref_to_wire x) = Inr x"
    by (cases x) (simp add: principal_ref_to_wire_def principal_ref_from_wire_def PRINCIPAL_REF_FIELDS_def principal_ref_conforms_def make_principal_ref_def reject_known wire_back)
  show "principal_ref_from_wire raw = Inr x \<Longrightarrow> principal_ref_conforms x"
    by (auto simp: principal_ref_from_wire_def principal_ref_conforms_def make_principal_ref_def dest!: wire_sound)
  show "principal_ref_to_wire x \<noteq> PyNone" by (simp add: principal_ref_to_wire_def wire_dict_def)
qed

lemmas principal_ref_wire_back [wire_back] = principal_ref_wire.parses_back principal_ref_wire.optional_back
lemmas principal_ref_wire_sound [wire_sound] = principal_ref_wire.accepts_conforming [THEN require_sound]
    principal_ref_wire.accepts_conforming [THEN optional_sound]

definition PROVIDER_EVIDENCE_FIELDS :: "string list" where
  "PROVIDER_EVIDENCE_FIELDS =
     [''source'', ''provider'', ''observed_at'', ''provider_status'', ''provider_request_id'',
      ''external_operation_id'', ''external_resource_ids'', ''evidence_fields'',
      ''raw_reference'']"

definition provider_evidence_to_wire :: "provider_evidence \<Rightarrow> pyobj" where
  "provider_evidence_to_wire x = wire_dict
     [(''source'', PyStr (evidence_source_value (ev_source x))),
      (''provider'', PyStr (ev_provider x)),
      (''observed_at'', timestamp_to_wire (ev_observed_at x)),
      (''provider_status'', optional_to_wire PyStr (ev_provider_status x)),
      (''provider_request_id'', optional_to_wire PyStr (ev_provider_request_id x)),
      (''external_operation_id'', optional_to_wire PyStr (ev_external_operation_id x)),
      (''external_resource_ids'', PyList (map PyStr (ev_external_resource_ids x))),
      (''evidence_fields'', json_to_plain (ev_evidence_fields x)),
      (''raw_reference'', optional_to_wire PyStr (ev_raw_reference x))]"

definition make_provider_evidence :: "provider_evidence \<Rightarrow> provider_evidence fallible" where
  "make_provider_evidence x = bind_err (validate_provider_evidence x) (\<lambda>_. Inr x)"

definition provider_evidence_from_wire :: "pyobj \<Rightarrow> provider_evidence fallible" where
  "provider_evidence_from_wire raw =
     bind_err (require_mapping raw) (\<lambda>data.
     bind_err (reject_unknown_keys data PROVIDER_EVIDENCE_FIELDS) (\<lambda>_.
     bind_err (require_field data ''source'' (parse_enum evidence_source_members evidence_source_value)) (\<lambda>source.
     bind_err (require_field data ''provider'' parse_str) (\<lambda>provider.
     bind_err (require_field data ''observed_at'' timestamp_from_wire) (\<lambda>observed_at.
     bind_err (optional_field data ''provider_status'' parse_optional_str) (\<lambda>provider_status.
     bind_err (optional_field data ''provider_request_id'' parse_optional_str) (\<lambda>provider_request_id.
     bind_err (optional_field data ''external_operation_id'' parse_optional_str) (\<lambda>external_operation_id.
     bind_err (require_field data ''external_resource_ids'' parse_str_list) (\<lambda>external_resource_ids.
     bind_err (require_field data ''evidence_fields'' parse_json_value) (\<lambda>evidence_fields.
     bind_err (optional_field data ''raw_reference'' parse_optional_str) (\<lambda>raw_reference.
     make_provider_evidence
       \<lparr>ev_source = source, ev_provider = provider, ev_observed_at = observed_at,
        ev_provider_status = provider_status,
        ev_provider_request_id = provider_request_id,
        ev_external_operation_id = external_operation_id,
        ev_external_resource_ids = external_resource_ids,
        ev_evidence_fields = evidence_fields, ev_raw_reference = raw_reference\<rparr>)))))))))))"

definition provider_evidence_conforms :: "provider_evidence \<Rightarrow> bool" where
  "provider_evidence_conforms x \<longleftrightarrow>
     validate_provider_evidence x = Inr () \<and>
     ev_provider x \<noteq> [] \<and>
     timestamp_conforms (ev_observed_at x) \<and>
     ev_provider_status x \<noteq> Some [] \<and>
     ev_provider_request_id x \<noteq> Some [] \<and>
     ev_external_operation_id x \<noteq> Some [] \<and>
     [] \<notin> set (ev_external_resource_ids x) \<and>
     json_wf (ev_evidence_fields x) \<and>
     ev_raw_reference x \<noteq> Some []"

interpretation provider_evidence_wire: wire_format provider_evidence_to_wire provider_evidence_from_wire provider_evidence_conforms
proof unfold_locales
  fix x raw
  show "provider_evidence_conforms x \<Longrightarrow> provider_evidence_from_wire (provider_evidence_to_wire x) = Inr x"
    by (cases x) (simp add: provider_evidence_to_wire_def provider_evidence_from_wire_def PROVIDER_EVIDENCE_FIELDS_def provider_evidence_conforms_def make_provider_evidence_def reject_known wire_back)
  show "provider_evidence_from_wire raw = Inr x \<Longrightarrow> provider_evidence_conforms x"
    by (auto simp: provider_evidence_from_wire_def provider_evidence_conforms_def make_provider_evidence_def dest!: wire_sound)
  show "provider_evidence_to_wire x \<noteq> PyNone" by (simp add: provider_evidence_to_wire_def wire_dict_def)
qed

lemmas provider_evidence_wire_back [wire_back] = provider_evidence_wire.parses_back provider_evidence_wire.optional_back
lemmas provider_evidence_wire_sound [wire_sound] = provider_evidence_wire.accepts_conforming [THEN require_sound]
    provider_evidence_wire.accepts_conforming [THEN optional_sound]

definition NORMALIZED_ERROR_FIELDS :: "string list" where
  "NORMALIZED_ERROR_FIELDS =
     [''contract_version'', ''kind'', ''code'', ''message'', ''retryable_infrastructure'',
      ''provider_http_status'', ''provider_error_code'', ''retry_after_seconds'', ''details'']"

definition normalized_error_to_wire :: "normalized_error \<Rightarrow> pyobj" where
  "normalized_error_to_wire x = wire_dict
     [(''contract_version'', PyStr (er_contract_version x)),
      (''kind'', PyStr (error_kind_value (er_kind x))),
      (''code'', PyStr (er_code x)),
      (''message'', PyStr (er_message x)),
      (''retryable_infrastructure'', PyBool (er_retryable_infrastructure x)),
      (''provider_http_status'', optional_to_wire PyInt (er_provider_http_status x)),
      (''provider_error_code'', optional_to_wire PyStr (er_provider_error_code x)),
      (''retry_after_seconds'', optional_to_wire PyInt (er_retry_after_seconds x)),
      (''details'', json_to_plain (er_details x))]"

definition make_normalized_error :: "normalized_error \<Rightarrow> normalized_error fallible" where
  "make_normalized_error x = bind_err (validate_normalized_error x) (\<lambda>_. Inr x)"

definition normalized_error_from_wire :: "pyobj \<Rightarrow> normalized_error fallible" where
  "normalized_error_from_wire raw =
     bind_err (require_mapping raw) (\<lambda>data.
     bind_err (reject_unknown_keys data NORMALIZED_ERROR_FIELDS) (\<lambda>_.
     bind_err (require_field data ''contract_version'' parse_contract_version) (\<lambda>_.
     bind_err (require_field data ''kind'' (parse_enum error_kind_members error_kind_value)) (\<lambda>kind.
     bind_err (require_field data ''code'' parse_str) (\<lambda>code.
     bind_err (require_field data ''message'' parse_str) (\<lambda>message.
     bind_err (require_field data ''retryable_infrastructure'' parse_bool) (\<lambda>retryable_infrastructure.
     bind_err (optional_field data ''provider_http_status'' (parse_optional_int (Some 100))) (\<lambda>provider_http_status.
     bind_err (optional_field data ''provider_error_code'' parse_optional_str) (\<lambda>provider_error_code.
     bind_err (optional_field data ''retry_after_seconds'' (parse_optional_int (Some 0))) (\<lambda>retry_after_seconds.
     bind_err (require_field data ''details'' parse_json_value) (\<lambda>details.
     make_normalized_error
       \<lparr>er_contract_version = CONTRACT_VERSION, er_kind = kind, er_code = code,
        er_message = message, er_retryable_infrastructure = retryable_infrastructure,
        er_provider_http_status = provider_http_status,
        er_provider_error_code = provider_error_code,
        er_retry_after_seconds = retry_after_seconds, er_details = details\<rparr>)))))))))))"

definition normalized_error_conforms :: "normalized_error \<Rightarrow> bool" where
  "normalized_error_conforms x \<longleftrightarrow>
     validate_normalized_error x = Inr () \<and>
     er_code x \<noteq> [] \<and>
     er_message x \<noteq> [] \<and>
     pred_option (\<lambda>i. 100 \<le> i) (er_provider_http_status x) \<and>
     er_provider_error_code x \<noteq> Some [] \<and>
     pred_option (\<lambda>i. 0 \<le> i) (er_retry_after_seconds x) \<and>
     json_wf (er_details x)"

interpretation normalized_error_wire: wire_format normalized_error_to_wire normalized_error_from_wire normalized_error_conforms
proof unfold_locales
  fix x raw
  show "normalized_error_conforms x \<Longrightarrow> normalized_error_from_wire (normalized_error_to_wire x) = Inr x"
    by (cases x) (simp add: normalized_error_to_wire_def normalized_error_from_wire_def NORMALIZED_ERROR_FIELDS_def normalized_error_conforms_def make_normalized_error_def validate_normalized_error_def reject_known wire_back)
  show "normalized_error_from_wire raw = Inr x \<Longrightarrow> normalized_error_conforms x"
    by (auto simp: normalized_error_from_wire_def normalized_error_conforms_def make_normalized_error_def dest!: wire_sound)
  show "normalized_error_to_wire x \<noteq> PyNone" by (simp add: normalized_error_to_wire_def wire_dict_def)
qed

lemmas normalized_error_wire_back [wire_back] = normalized_error_wire.parses_back normalized_error_wire.optional_back
lemmas normalized_error_wire_sound [wire_sound] = normalized_error_wire.accepts_conforming [THEN require_sound]
    normalized_error_wire.accepts_conforming [THEN optional_sound]

section \<open>Intent and operation\<close>

definition INTENT_ENVELOPE_FIELDS :: "string list" where
  "INTENT_ENVELOPE_FIELDS =
     [''effect'', ''arguments_mode'', ''arguments'', ''arguments_ref'',
      ''canonical_arguments_hash'', ''intent_digest'', ''requester'', ''requested_at'',
      ''metadata'']"

definition intent_envelope_to_wire :: "intent_envelope \<Rightarrow> pyobj" where
  "intent_envelope_to_wire x = wire_dict
     [(''effect'', effect_ref_to_wire (in_effect x)),
      (''arguments_mode'', PyStr (arguments_mode_value (in_arguments_mode x))),
      (''arguments'', optional_to_wire json_to_plain (in_arguments x)),
      (''arguments_ref'', optional_to_wire PyStr (in_arguments_ref x)),
      (''canonical_arguments_hash'', PyStr (in_canonical_arguments_hash x)),
      (''intent_digest'', PyStr (in_intent_digest x)),
      (''requester'', principal_ref_to_wire (in_requester x)),
      (''requested_at'', timestamp_to_wire (in_requested_at x)),
      (''metadata'', str_map_to_wire (in_metadata x))]"

definition make_intent_envelope :: "(string \<Rightarrow> string) \<Rightarrow> intent_envelope \<Rightarrow> intent_envelope fallible" where
  "make_intent_envelope sha256 x = bind_err (validate_intent_envelope sha256 x) (\<lambda>_. Inr x)"

definition intent_envelope_from_wire :: "(string \<Rightarrow> string) \<Rightarrow> pyobj \<Rightarrow> intent_envelope fallible" where
  "intent_envelope_from_wire sha256 raw =
     bind_err (require_mapping raw) (\<lambda>data.
     bind_err (reject_unknown_keys data INTENT_ENVELOPE_FIELDS) (\<lambda>_.
     bind_err (require_field data ''effect'' effect_ref_from_wire) (\<lambda>effect.
     bind_err (require_field data ''arguments_mode'' (parse_enum arguments_mode_members arguments_mode_value)) (\<lambda>arguments_mode.
     bind_err (optional_field data ''arguments'' parse_optional_json_value) (\<lambda>arguments.
     bind_err (optional_field data ''arguments_ref'' parse_optional_str) (\<lambda>arguments_ref.
     bind_err (require_field data ''canonical_arguments_hash'' parse_str) (\<lambda>canonical_arguments_hash.
     bind_err (require_field data ''intent_digest'' parse_str) (\<lambda>intent_digest.
     bind_err (require_field data ''requester'' principal_ref_from_wire) (\<lambda>requester.
     bind_err (require_field data ''requested_at'' timestamp_from_wire) (\<lambda>requested_at.
     bind_err (require_field data ''metadata'' parse_str_map) (\<lambda>metadata.
     make_intent_envelope sha256
       \<lparr>in_effect = effect, in_arguments_mode = arguments_mode, in_arguments = arguments,
        in_arguments_ref = arguments_ref,
        in_canonical_arguments_hash = canonical_arguments_hash,
        in_intent_digest = intent_digest, in_requester = requester,
        in_requested_at = requested_at, in_metadata = metadata\<rparr>)))))))))))"

definition intent_envelope_conforms :: "(string \<Rightarrow> string) \<Rightarrow> intent_envelope \<Rightarrow> bool" where
  "intent_envelope_conforms sha256 x \<longleftrightarrow>
     validate_intent_envelope sha256 x = Inr () \<and>
     effect_ref_conforms (in_effect x) \<and>
     pred_option (\<lambda>j. json_wf j \<and> j \<noteq> JNull) (in_arguments x) \<and>
     in_arguments_ref x \<noteq> Some [] \<and>
     in_canonical_arguments_hash x \<noteq> [] \<and>
     in_intent_digest x \<noteq> [] \<and>
     principal_ref_conforms (in_requester x) \<and>
     timestamp_conforms (in_requested_at x) \<and>
     str_map_conforms (in_metadata x)"

interpretation intent_envelope_wire: wire_format intent_envelope_to_wire "intent_envelope_from_wire sha256" "intent_envelope_conforms sha256" for sha256
proof unfold_locales
  fix x raw
  show "intent_envelope_conforms sha256 x \<Longrightarrow> intent_envelope_from_wire sha256 (intent_envelope_to_wire x) = Inr x"
    by (cases x) (simp add: intent_envelope_to_wire_def intent_envelope_from_wire_def INTENT_ENVELOPE_FIELDS_def intent_envelope_conforms_def make_intent_envelope_def reject_known wire_back)
  show "intent_envelope_from_wire sha256 raw = Inr x \<Longrightarrow> intent_envelope_conforms sha256 x"
    by (auto simp: intent_envelope_from_wire_def intent_envelope_conforms_def make_intent_envelope_def dest!: wire_sound)
  show "intent_envelope_to_wire x \<noteq> PyNone" by (simp add: intent_envelope_to_wire_def wire_dict_def)
qed

lemmas intent_envelope_wire_back [wire_back] = intent_envelope_wire.parses_back intent_envelope_wire.optional_back
lemmas intent_envelope_wire_sound [wire_sound] = intent_envelope_wire.accepts_conforming [THEN require_sound]
    intent_envelope_wire.accepts_conforming [THEN optional_sound]

definition OPERATION_FIELDS :: "string list" where
  "OPERATION_FIELDS =
     [''contract_version'', ''operation_id'', ''state'', ''version'', ''intent'', ''risk_level'',
      ''idempotency_identity'', ''current_policy_decision_id'', ''current_approval_id'',
      ''latest_attempt_id'', ''latest_verification_id'', ''compensation_id'', ''created_at'',
      ''updated_at'']"

definition operation_to_wire :: "operation \<Rightarrow> pyobj" where
  "operation_to_wire x = wire_dict
     [(''contract_version'', PyStr (op_contract_version x)),
      (''operation_id'', opaque_id_to_wire (op_id x)),
      (''state'', PyStr (operation_state_value (op_state x))),
      (''version'', PyInt (op_version x)),
      (''intent'', intent_envelope_to_wire (op_intent x)),
      (''risk_level'', PyStr (risk_level_value (op_risk_level x))),
      (''idempotency_identity'', PyStr (op_idempotency_identity x)),
      (''current_policy_decision_id'', optional_to_wire opaque_id_to_wire (op_current_policy_decision_id x)),
      (''current_approval_id'', optional_to_wire opaque_id_to_wire (op_current_approval_id x)),
      (''latest_attempt_id'', optional_to_wire opaque_id_to_wire (op_latest_attempt_id x)),
      (''latest_verification_id'', optional_to_wire opaque_id_to_wire (op_latest_verification_id x)),
      (''compensation_id'', optional_to_wire opaque_id_to_wire (op_compensation_id x)),
      (''created_at'', timestamp_to_wire (op_created_at x)),
      (''updated_at'', timestamp_to_wire (op_updated_at x))]"

definition operation_from_wire :: "(string \<Rightarrow> string) \<Rightarrow> pyobj \<Rightarrow> operation fallible" where
  "operation_from_wire sha256 raw =
     bind_err (require_mapping raw) (\<lambda>data.
     bind_err (reject_unknown_keys data OPERATION_FIELDS) (\<lambda>_.
     bind_err (require_field data ''contract_version'' parse_contract_version) (\<lambda>_.
     bind_err (require_field data ''operation_id'' opaque_id_from_wire) (\<lambda>id.
     bind_err (require_field data ''state'' (parse_enum operation_state_members operation_state_value)) (\<lambda>state.
     bind_err (require_field data ''version'' (parse_int (Some 1))) (\<lambda>version.
     bind_err (require_field data ''intent'' (intent_envelope_from_wire sha256)) (\<lambda>intent.
     bind_err (require_field data ''risk_level'' (parse_enum risk_level_members risk_level_value)) (\<lambda>risk_level.
     bind_err (require_field data ''idempotency_identity'' parse_str) (\<lambda>idempotency_identity.
     bind_err (optional_field data ''current_policy_decision_id'' parse_optional_opaque_id) (\<lambda>current_policy_decision_id.
     bind_err (optional_field data ''current_approval_id'' parse_optional_opaque_id) (\<lambda>current_approval_id.
     bind_err (optional_field data ''latest_attempt_id'' parse_optional_opaque_id) (\<lambda>latest_attempt_id.
     bind_err (optional_field data ''latest_verification_id'' parse_optional_opaque_id) (\<lambda>latest_verification_id.
     bind_err (optional_field data ''compensation_id'' parse_optional_opaque_id) (\<lambda>compensation_id.
     bind_err (require_field data ''created_at'' timestamp_from_wire) (\<lambda>created_at.
     bind_err (require_field data ''updated_at'' timestamp_from_wire) (\<lambda>updated_at.
     make_operation
       \<lparr>op_contract_version = CONTRACT_VERSION, op_id = id, op_state = state,
        op_version = version, op_intent = intent, op_risk_level = risk_level,
        op_idempotency_identity = idempotency_identity,
        op_current_policy_decision_id = current_policy_decision_id,
        op_current_approval_id = current_approval_id,
        op_latest_attempt_id = latest_attempt_id,
        op_latest_verification_id = latest_verification_id,
        op_compensation_id = compensation_id, op_created_at = created_at,
        op_updated_at = updated_at\<rparr>))))))))))))))))"

definition operation_conforms :: "(string \<Rightarrow> string) \<Rightarrow> operation \<Rightarrow> bool" where
  "operation_conforms sha256 x \<longleftrightarrow>
     validate_operation x = Inr () \<and>
     opaque_id_conforms (op_id x) \<and>
     1 \<le> op_version x \<and>
     intent_envelope_conforms sha256 (op_intent x) \<and>
     op_idempotency_identity x \<noteq> [] \<and>
     pred_option opaque_id_conforms (op_current_policy_decision_id x) \<and>
     pred_option opaque_id_conforms (op_current_approval_id x) \<and>
     pred_option opaque_id_conforms (op_latest_attempt_id x) \<and>
     pred_option opaque_id_conforms (op_latest_verification_id x) \<and>
     pred_option opaque_id_conforms (op_compensation_id x) \<and>
     timestamp_conforms (op_created_at x) \<and>
     timestamp_conforms (op_updated_at x)"

interpretation operation_wire: wire_format operation_to_wire "operation_from_wire sha256" "operation_conforms sha256" for sha256
proof unfold_locales
  fix x raw
  show "operation_conforms sha256 x \<Longrightarrow> operation_from_wire sha256 (operation_to_wire x) = Inr x"
    by (cases x) (simp add: operation_to_wire_def operation_from_wire_def OPERATION_FIELDS_def operation_conforms_def make_operation_def validate_operation_def reject_known wire_back)
  show "operation_from_wire sha256 raw = Inr x \<Longrightarrow> operation_conforms sha256 x"
    by (auto simp: operation_from_wire_def operation_conforms_def make_operation_def dest!: wire_sound)
  show "operation_to_wire x \<noteq> PyNone" by (simp add: operation_to_wire_def wire_dict_def)
qed

lemmas operation_wire_back [wire_back] = operation_wire.parses_back operation_wire.optional_back
lemmas operation_wire_sound [wire_sound] = operation_wire.accepts_conforming [THEN require_sound]
    operation_wire.accepts_conforming [THEN optional_sound]

section \<open>Attempts\<close>

definition EXECUTION_ATTEMPT_FIELDS :: "string list" where
  "EXECUTION_ATTEMPT_FIELDS =
     [''contract_version'', ''attempt_id'', ''operation_id'', ''attempt_number'', ''state'',
      ''started_at'', ''completed_at'', ''provider_idempotency_key'',
      ''external_operation_id'', ''external_resource_ids'', ''outcome'', ''evidence'',
      ''error'', ''correlation_id'']"

definition execution_attempt_to_wire :: "execution_attempt \<Rightarrow> pyobj" where
  "execution_attempt_to_wire x = wire_dict
     [(''contract_version'', PyStr (att_contract_version x)),
      (''attempt_id'', opaque_id_to_wire (att_id x)),
      (''operation_id'', opaque_id_to_wire (att_operation_id x)),
      (''attempt_number'', PyInt (att_number x)),
      (''state'', PyStr (attempt_state_value (att_state x))),
      (''started_at'', timestamp_to_wire (att_started_at x)),
      (''completed_at'', optional_to_wire timestamp_to_wire (att_completed_at x)),
      (''provider_idempotency_key'', optional_to_wire PyStr (att_provider_idempotency_key x)),
      (''external_operation_id'', optional_to_wire PyStr (att_external_operation_id x)),
      (''external_resource_ids'', PyList (map PyStr (att_external_resource_ids x))),
      (''outcome'', optional_to_wire (\<lambda>e. PyStr (effect_outcome_value e)) (att_outcome x)),
      (''evidence'', optional_to_wire provider_evidence_to_wire (att_evidence x)),
      (''error'', optional_to_wire normalized_error_to_wire (att_error x)),
      (''correlation_id'', optional_to_wire PyStr (att_correlation_id x))]"

definition make_execution_attempt :: "execution_attempt \<Rightarrow> execution_attempt fallible" where
  "make_execution_attempt x = bind_err (validate_execution_attempt x) (\<lambda>_. Inr x)"

definition execution_attempt_from_wire :: "pyobj \<Rightarrow> execution_attempt fallible" where
  "execution_attempt_from_wire raw =
     bind_err (require_mapping raw) (\<lambda>data.
     bind_err (reject_unknown_keys data EXECUTION_ATTEMPT_FIELDS) (\<lambda>_.
     bind_err (require_field data ''contract_version'' parse_contract_version) (\<lambda>_.
     bind_err (require_field data ''attempt_id'' opaque_id_from_wire) (\<lambda>id.
     bind_err (require_field data ''operation_id'' opaque_id_from_wire) (\<lambda>operation_id.
     bind_err (require_field data ''attempt_number'' (parse_int (Some 1))) (\<lambda>number.
     bind_err (require_field data ''state'' (parse_enum attempt_state_members attempt_state_value)) (\<lambda>state.
     bind_err (require_field data ''started_at'' timestamp_from_wire) (\<lambda>started_at.
     bind_err (optional_field data ''completed_at'' (parse_optional timestamp_from_wire)) (\<lambda>completed_at.
     bind_err (optional_field data ''provider_idempotency_key'' parse_optional_str) (\<lambda>provider_idempotency_key.
     bind_err (optional_field data ''external_operation_id'' parse_optional_str) (\<lambda>external_operation_id.
     bind_err (require_field data ''external_resource_ids'' parse_str_list) (\<lambda>external_resource_ids.
     bind_err (optional_field data ''outcome'' (parse_optional_enum effect_outcome_members effect_outcome_value)) (\<lambda>outcome.
     bind_err (optional_field data ''evidence'' (parse_optional provider_evidence_from_wire)) (\<lambda>evidence.
     bind_err (optional_field data ''error'' (parse_optional normalized_error_from_wire)) (\<lambda>err.
     bind_err (optional_field data ''correlation_id'' parse_optional_str) (\<lambda>correlation_id.
     make_execution_attempt
       \<lparr>att_contract_version = CONTRACT_VERSION, att_id = id, att_operation_id = operation_id,
        att_number = number, att_state = state, att_started_at = started_at,
        att_completed_at = completed_at,
        att_provider_idempotency_key = provider_idempotency_key,
        att_external_operation_id = external_operation_id,
        att_external_resource_ids = external_resource_ids, att_outcome = outcome,
        att_evidence = evidence, att_error = err, att_correlation_id = correlation_id\<rparr>))))))))))))))))"

definition execution_attempt_conforms :: "execution_attempt \<Rightarrow> bool" where
  "execution_attempt_conforms x \<longleftrightarrow>
     validate_execution_attempt x = Inr () \<and>
     opaque_id_conforms (att_id x) \<and>
     opaque_id_conforms (att_operation_id x) \<and>
     1 \<le> att_number x \<and>
     timestamp_conforms (att_started_at x) \<and>
     pred_option timestamp_conforms (att_completed_at x) \<and>
     att_provider_idempotency_key x \<noteq> Some [] \<and>
     att_external_operation_id x \<noteq> Some [] \<and>
     [] \<notin> set (att_external_resource_ids x) \<and>
     pred_option provider_evidence_conforms (att_evidence x) \<and>
     pred_option normalized_error_conforms (att_error x) \<and>
     att_correlation_id x \<noteq> Some []"

interpretation execution_attempt_wire: wire_format execution_attempt_to_wire execution_attempt_from_wire execution_attempt_conforms
proof unfold_locales
  fix x raw
  show "execution_attempt_conforms x \<Longrightarrow> execution_attempt_from_wire (execution_attempt_to_wire x) = Inr x"
    by (cases x) (simp add: execution_attempt_to_wire_def execution_attempt_from_wire_def EXECUTION_ATTEMPT_FIELDS_def execution_attempt_conforms_def make_execution_attempt_def validate_execution_attempt_def reject_known wire_back)
  show "execution_attempt_from_wire raw = Inr x \<Longrightarrow> execution_attempt_conforms x"
    by (auto simp: execution_attempt_from_wire_def execution_attempt_conforms_def make_execution_attempt_def dest!: wire_sound)
  show "execution_attempt_to_wire x \<noteq> PyNone" by (simp add: execution_attempt_to_wire_def wire_dict_def)
qed

lemmas execution_attempt_wire_back [wire_back] = execution_attempt_wire.parses_back execution_attempt_wire.optional_back
lemmas execution_attempt_wire_sound [wire_sound] = execution_attempt_wire.accepts_conforming [THEN require_sound]
    execution_attempt_wire.accepts_conforming [THEN optional_sound]

section \<open>Policy decisions and approvals\<close>

definition POLICY_OBLIGATIONS_FIELDS :: "string list" where
  "POLICY_OBLIGATIONS_FIELDS =
     [''require_verification'', ''max_automatic_execution_attempts'',
      ''max_automatic_recovery_attempts'', ''automatic_compensation_allowed'',
      ''operator_reason_required'', ''approval_expires_at'']"

definition policy_obligations_to_wire :: "policy_obligations \<Rightarrow> pyobj" where
  "policy_obligations_to_wire x = wire_dict
     [(''require_verification'', PyBool (ob_require_verification x)),
      (''max_automatic_execution_attempts'', optional_to_wire PyInt (ob_max_automatic_execution_attempts x)),
      (''max_automatic_recovery_attempts'', optional_to_wire PyInt (ob_max_automatic_recovery_attempts x)),
      (''automatic_compensation_allowed'', PyBool (ob_automatic_compensation_allowed x)),
      (''operator_reason_required'', PyBool (ob_operator_reason_required x)),
      (''approval_expires_at'', optional_to_wire timestamp_to_wire (ob_approval_expires_at x))]"

definition policy_obligations_from_wire :: "pyobj \<Rightarrow> policy_obligations fallible" where
  "policy_obligations_from_wire raw =
     bind_err (require_mapping raw) (\<lambda>data.
     bind_err (reject_unknown_keys data POLICY_OBLIGATIONS_FIELDS) (\<lambda>_.
     bind_err (require_field data ''require_verification'' parse_bool) (\<lambda>require_verification.
     bind_err (optional_field data ''max_automatic_execution_attempts'' (parse_optional_int (Some 0))) (\<lambda>max_automatic_execution_attempts.
     bind_err (optional_field data ''max_automatic_recovery_attempts'' (parse_optional_int (Some 0))) (\<lambda>max_automatic_recovery_attempts.
     bind_err (require_field data ''automatic_compensation_allowed'' parse_bool) (\<lambda>automatic_compensation_allowed.
     bind_err (require_field data ''operator_reason_required'' parse_bool) (\<lambda>operator_reason_required.
     bind_err (optional_field data ''approval_expires_at'' (parse_optional timestamp_from_wire)) (\<lambda>approval_expires_at.
     Inr \<lparr>ob_require_verification = require_verification,
        ob_max_automatic_execution_attempts = max_automatic_execution_attempts,
        ob_max_automatic_recovery_attempts = max_automatic_recovery_attempts,
        ob_automatic_compensation_allowed = automatic_compensation_allowed,
        ob_operator_reason_required = operator_reason_required,
        ob_approval_expires_at = approval_expires_at\<rparr>))))))))"

definition policy_obligations_conforms :: "policy_obligations \<Rightarrow> bool" where
  "policy_obligations_conforms x \<longleftrightarrow>
     pred_option (\<lambda>i. 0 \<le> i) (ob_max_automatic_execution_attempts x) \<and>
     pred_option (\<lambda>i. 0 \<le> i) (ob_max_automatic_recovery_attempts x) \<and>
     pred_option timestamp_conforms (ob_approval_expires_at x)"

interpretation policy_obligations_wire: wire_format policy_obligations_to_wire policy_obligations_from_wire policy_obligations_conforms
proof unfold_locales
  fix x raw
  show "policy_obligations_conforms x \<Longrightarrow> policy_obligations_from_wire (policy_obligations_to_wire x) = Inr x"
    by (cases x) (simp add: policy_obligations_to_wire_def policy_obligations_from_wire_def POLICY_OBLIGATIONS_FIELDS_def policy_obligations_conforms_def reject_known wire_back)
  show "policy_obligations_from_wire raw = Inr x \<Longrightarrow> policy_obligations_conforms x"
    by (auto simp: policy_obligations_from_wire_def policy_obligations_conforms_def dest!: wire_sound)
  show "policy_obligations_to_wire x \<noteq> PyNone" by (simp add: policy_obligations_to_wire_def wire_dict_def)
qed

lemmas policy_obligations_wire_back [wire_back] = policy_obligations_wire.parses_back policy_obligations_wire.optional_back
lemmas policy_obligations_wire_sound [wire_sound] = policy_obligations_wire.accepts_conforming [THEN require_sound]
    policy_obligations_wire.accepts_conforming [THEN optional_sound]

definition POLICY_DECISION_FIELDS :: "string list" where
  "POLICY_DECISION_FIELDS =
     [''contract_version'', ''policy_decision_id'', ''operation_id'', ''operation_version'',
      ''intent_digest'', ''verdict'', ''reason_codes'', ''explanation'', ''obligations'',
      ''policy_revision'', ''evaluated_at'']"

definition policy_decision_to_wire :: "policy_decision \<Rightarrow> pyobj" where
  "policy_decision_to_wire x = wire_dict
     [(''contract_version'', PyStr (pd_contract_version x)),
      (''policy_decision_id'', opaque_id_to_wire (pd_id x)),
      (''operation_id'', opaque_id_to_wire (pd_operation_id x)),
      (''operation_version'', PyInt (pd_operation_version x)),
      (''intent_digest'', PyStr (pd_intent_digest x)),
      (''verdict'', PyStr (policy_verdict_value (pd_verdict x))),
      (''reason_codes'', PyList (map PyStr (pd_reason_codes x))),
      (''explanation'', optional_to_wire PyStr (pd_explanation x)),
      (''obligations'', policy_obligations_to_wire (pd_obligations x)),
      (''policy_revision'', PyStr (pd_policy_revision x)),
      (''evaluated_at'', timestamp_to_wire (pd_evaluated_at x))]"

definition make_policy_decision :: "policy_decision \<Rightarrow> policy_decision fallible" where
  "make_policy_decision x = bind_err (validate_policy_decision x) (\<lambda>_. Inr x)"

definition policy_decision_from_wire :: "pyobj \<Rightarrow> policy_decision fallible" where
  "policy_decision_from_wire raw =
     bind_err (require_mapping raw) (\<lambda>data.
     bind_err (reject_unknown_keys data POLICY_DECISION_FIELDS) (\<lambda>_.
     bind_err (require_field data ''contract_version'' parse_contract_version) (\<lambda>_.
     bind_err (require_field data ''policy_decision_id'' opaque_id_from_wire) (\<lambda>id.
     bind_err (require_field data ''operation_id'' opaque_id_from_wire) (\<lambda>operation_id.
     bind_err (require_field data ''operation_version'' (parse_int (Some 1))) (\<lambda>operation_version.
     bind_err (require_field data ''intent_digest'' parse_str) (\<lambda>intent_digest.
     bind_err (require_field data ''verdict'' (parse_enum policy_verdict_members policy_verdict_value)) (\<lambda>verdict.
     bind_err (require_field data ''reason_codes'' parse_str_list) (\<lambda>reason_codes.
     bind_err (optional_field data ''explanation'' parse_optional_str) (\<lambda>explanation.
     bind_err (require_field data ''obligations'' policy_obligations_from_wire) (\<lambda>obligations.
     bind_err (require_field data ''policy_revision'' parse_str) (\<lambda>policy_revision.
     bind_err (require_field data ''evaluated_at'' timestamp_from_wire) (\<lambda>evaluated_at.
     make_policy_decision
       \<lparr>pd_contract_version = CONTRACT_VERSION, pd_id = id, pd_operation_id = operation_id,
        pd_operation_version = operation_version, pd_intent_digest = intent_digest,
        pd_verdict = verdict, pd_reason_codes = reason_codes,
        pd_explanation = explanation, pd_obligations = obligations,
        pd_policy_revision = policy_revision, pd_evaluated_at = evaluated_at\<rparr>)))))))))))))"

definition policy_decision_conforms :: "policy_decision \<Rightarrow> bool" where
  "policy_decision_conforms x \<longleftrightarrow>
     validate_policy_decision x = Inr () \<and>
     opaque_id_conforms (pd_id x) \<and>
     opaque_id_conforms (pd_operation_id x) \<and>
     1 \<le> pd_operation_version x \<and>
     pd_intent_digest x \<noteq> [] \<and>
     [] \<notin> set (pd_reason_codes x) \<and>
     pd_explanation x \<noteq> Some [] \<and>
     policy_obligations_conforms (pd_obligations x) \<and>
     pd_policy_revision x \<noteq> [] \<and>
     timestamp_conforms (pd_evaluated_at x)"

interpretation policy_decision_wire: wire_format policy_decision_to_wire policy_decision_from_wire policy_decision_conforms
proof unfold_locales
  fix x raw
  show "policy_decision_conforms x \<Longrightarrow> policy_decision_from_wire (policy_decision_to_wire x) = Inr x"
    by (cases x) (simp add: policy_decision_to_wire_def policy_decision_from_wire_def POLICY_DECISION_FIELDS_def policy_decision_conforms_def make_policy_decision_def validate_policy_decision_def reject_known wire_back)
  show "policy_decision_from_wire raw = Inr x \<Longrightarrow> policy_decision_conforms x"
    by (auto simp: policy_decision_from_wire_def policy_decision_conforms_def make_policy_decision_def dest!: wire_sound)
  show "policy_decision_to_wire x \<noteq> PyNone" by (simp add: policy_decision_to_wire_def wire_dict_def)
qed

lemmas policy_decision_wire_back [wire_back] = policy_decision_wire.parses_back policy_decision_wire.optional_back
lemmas policy_decision_wire_sound [wire_sound] = policy_decision_wire.accepts_conforming [THEN require_sound]
    policy_decision_wire.accepts_conforming [THEN optional_sound]

definition APPROVAL_FIELDS :: "string list" where
  "APPROVAL_FIELDS =
     [''contract_version'', ''approval_id'', ''operation_id'', ''operation_version'',
      ''intent_digest'', ''policy_decision_id'', ''state'', ''requested_at'', ''expires_at'',
      ''decided_at'', ''decided_by'', ''reason'']"

definition approval_to_wire :: "approval \<Rightarrow> pyobj" where
  "approval_to_wire x = wire_dict
     [(''contract_version'', PyStr (ap_contract_version x)),
      (''approval_id'', opaque_id_to_wire (ap_id x)),
      (''operation_id'', opaque_id_to_wire (ap_operation_id x)),
      (''operation_version'', PyInt (ap_operation_version x)),
      (''intent_digest'', PyStr (ap_intent_digest x)),
      (''policy_decision_id'', opaque_id_to_wire (ap_policy_decision_id x)),
      (''state'', PyStr (approval_state_value (ap_state x))),
      (''requested_at'', timestamp_to_wire (ap_requested_at x)),
      (''expires_at'', optional_to_wire timestamp_to_wire (ap_expires_at x)),
      (''decided_at'', optional_to_wire timestamp_to_wire (ap_decided_at x)),
      (''decided_by'', optional_to_wire principal_ref_to_wire (ap_decided_by x)),
      (''reason'', optional_to_wire PyStr (ap_reason x))]"

definition make_approval :: "approval \<Rightarrow> approval fallible" where
  "make_approval x = bind_err (validate_approval x) (\<lambda>_. Inr x)"

definition approval_from_wire :: "pyobj \<Rightarrow> approval fallible" where
  "approval_from_wire raw =
     bind_err (require_mapping raw) (\<lambda>data.
     bind_err (reject_unknown_keys data APPROVAL_FIELDS) (\<lambda>_.
     bind_err (require_field data ''contract_version'' parse_contract_version) (\<lambda>_.
     bind_err (require_field data ''approval_id'' opaque_id_from_wire) (\<lambda>id.
     bind_err (require_field data ''operation_id'' opaque_id_from_wire) (\<lambda>operation_id.
     bind_err (require_field data ''operation_version'' (parse_int (Some 1))) (\<lambda>operation_version.
     bind_err (require_field data ''intent_digest'' parse_str) (\<lambda>intent_digest.
     bind_err (require_field data ''policy_decision_id'' opaque_id_from_wire) (\<lambda>policy_decision_id.
     bind_err (require_field data ''state'' (parse_enum approval_state_members approval_state_value)) (\<lambda>state.
     bind_err (require_field data ''requested_at'' timestamp_from_wire) (\<lambda>requested_at.
     bind_err (optional_field data ''expires_at'' (parse_optional timestamp_from_wire)) (\<lambda>expires_at.
     bind_err (optional_field data ''decided_at'' (parse_optional timestamp_from_wire)) (\<lambda>decided_at.
     bind_err (optional_field data ''decided_by'' (parse_optional principal_ref_from_wire)) (\<lambda>decided_by.
     bind_err (optional_field data ''reason'' parse_optional_str) (\<lambda>reason.
     make_approval
       \<lparr>ap_contract_version = CONTRACT_VERSION, ap_id = id, ap_operation_id = operation_id,
        ap_operation_version = operation_version, ap_intent_digest = intent_digest,
        ap_policy_decision_id = policy_decision_id, ap_state = state,
        ap_requested_at = requested_at, ap_expires_at = expires_at,
        ap_decided_at = decided_at, ap_decided_by = decided_by, ap_reason = reason\<rparr>))))))))))))))"

definition approval_conforms :: "approval \<Rightarrow> bool" where
  "approval_conforms x \<longleftrightarrow>
     validate_approval x = Inr () \<and>
     opaque_id_conforms (ap_id x) \<and>
     opaque_id_conforms (ap_operation_id x) \<and>
     1 \<le> ap_operation_version x \<and>
     ap_intent_digest x \<noteq> [] \<and>
     opaque_id_conforms (ap_policy_decision_id x) \<and>
     timestamp_conforms (ap_requested_at x) \<and>
     pred_option timestamp_conforms (ap_expires_at x) \<and>
     pred_option timestamp_conforms (ap_decided_at x) \<and>
     pred_option principal_ref_conforms (ap_decided_by x) \<and>
     ap_reason x \<noteq> Some []"

interpretation approval_wire: wire_format approval_to_wire approval_from_wire approval_conforms
proof unfold_locales
  fix x raw
  show "approval_conforms x \<Longrightarrow> approval_from_wire (approval_to_wire x) = Inr x"
    by (cases x) (simp add: approval_to_wire_def approval_from_wire_def APPROVAL_FIELDS_def approval_conforms_def make_approval_def validate_approval_def reject_known wire_back)
  show "approval_from_wire raw = Inr x \<Longrightarrow> approval_conforms x"
    by (auto simp: approval_from_wire_def approval_conforms_def make_approval_def dest!: wire_sound)
  show "approval_to_wire x \<noteq> PyNone" by (simp add: approval_to_wire_def wire_dict_def)
qed

lemmas approval_wire_back [wire_back] = approval_wire.parses_back approval_wire.optional_back
lemmas approval_wire_sound [wire_sound] = approval_wire.accepts_conforming [THEN require_sound]
    approval_wire.accepts_conforming [THEN optional_sound]

section \<open>Verification and reconciliation\<close>

definition VERIFICATION_REQUEST_FIELDS :: "string list" where
  "VERIFICATION_REQUEST_FIELDS =
     [''contract_version'', ''verification_id'', ''operation_id'', ''operation_version'',
      ''target'', ''target_attempt_id'', ''effect'', ''external_operation_id'',
      ''external_resource_ids'', ''idempotency_identity'', ''provider_evidence_refs'',
      ''requested_at'']"

definition verification_request_to_wire :: "verification_request \<Rightarrow> pyobj" where
  "verification_request_to_wire x = wire_dict
     [(''contract_version'', PyStr (vq_contract_version x)),
      (''verification_id'', opaque_id_to_wire (vq_id x)),
      (''operation_id'', opaque_id_to_wire (vq_operation_id x)),
      (''operation_version'', PyInt (vq_operation_version x)),
      (''target'', PyStr (verification_target_value (vq_target x))),
      (''target_attempt_id'', optional_to_wire opaque_id_to_wire (vq_target_attempt_id x)),
      (''effect'', effect_ref_to_wire (vq_effect x)),
      (''external_operation_id'', optional_to_wire PyStr (vq_external_operation_id x)),
      (''external_resource_ids'', PyList (map PyStr (vq_external_resource_ids x))),
      (''idempotency_identity'', PyStr (vq_idempotency_identity x)),
      (''provider_evidence_refs'', PyList (map opaque_id_to_wire (vq_provider_evidence_refs x))),
      (''requested_at'', timestamp_to_wire (vq_requested_at x))]"

definition make_verification_request :: "verification_request \<Rightarrow> verification_request fallible" where
  "make_verification_request x = bind_err (validate_verification_request x) (\<lambda>_. Inr x)"

definition verification_request_from_wire :: "pyobj \<Rightarrow> verification_request fallible" where
  "verification_request_from_wire raw =
     bind_err (require_mapping raw) (\<lambda>data.
     bind_err (reject_unknown_keys data VERIFICATION_REQUEST_FIELDS) (\<lambda>_.
     bind_err (require_field data ''contract_version'' parse_contract_version) (\<lambda>_.
     bind_err (require_field data ''verification_id'' opaque_id_from_wire) (\<lambda>id.
     bind_err (require_field data ''operation_id'' opaque_id_from_wire) (\<lambda>operation_id.
     bind_err (require_field data ''operation_version'' (parse_int (Some 1))) (\<lambda>operation_version.
     bind_err (require_field data ''target'' (parse_enum verification_target_members verification_target_value)) (\<lambda>target.
     bind_err (optional_field data ''target_attempt_id'' parse_optional_opaque_id) (\<lambda>target_attempt_id.
     bind_err (require_field data ''effect'' effect_ref_from_wire) (\<lambda>effect.
     bind_err (optional_field data ''external_operation_id'' parse_optional_str) (\<lambda>external_operation_id.
     bind_err (require_field data ''external_resource_ids'' parse_str_list) (\<lambda>external_resource_ids.
     bind_err (require_field data ''idempotency_identity'' parse_str) (\<lambda>idempotency_identity.
     bind_err (require_field data ''provider_evidence_refs'' parse_opaque_id_list) (\<lambda>provider_evidence_refs.
     bind_err (require_field data ''requested_at'' timestamp_from_wire) (\<lambda>requested_at.
     make_verification_request
       \<lparr>vq_contract_version = CONTRACT_VERSION, vq_id = id, vq_operation_id = operation_id,
        vq_operation_version = operation_version, vq_target = target,
        vq_target_attempt_id = target_attempt_id, vq_effect = effect,
        vq_external_operation_id = external_operation_id,
        vq_external_resource_ids = external_resource_ids,
        vq_idempotency_identity = idempotency_identity,
        vq_provider_evidence_refs = provider_evidence_refs,
        vq_requested_at = requested_at\<rparr>))))))))))))))"

definition verification_request_conforms :: "verification_request \<Rightarrow> bool" where
  "verification_request_conforms x \<longleftrightarrow>
     validate_verification_request x = Inr () \<and>
     opaque_id_conforms (vq_id x) \<and>
     opaque_id_conforms (vq_operation_id x) \<and>
     1 \<le> vq_operation_version x \<and>
     pred_option opaque_id_conforms (vq_target_attempt_id x) \<and>
     effect_ref_conforms (vq_effect x) \<and>
     vq_external_operation_id x \<noteq> Some [] \<and>
     [] \<notin> set (vq_external_resource_ids x) \<and>
     vq_idempotency_identity x \<noteq> [] \<and>
     list_all opaque_id_conforms (vq_provider_evidence_refs x) \<and>
     timestamp_conforms (vq_requested_at x)"

interpretation verification_request_wire: wire_format verification_request_to_wire verification_request_from_wire verification_request_conforms
proof unfold_locales
  fix x raw
  show "verification_request_conforms x \<Longrightarrow> verification_request_from_wire (verification_request_to_wire x) = Inr x"
    by (cases x) (simp add: verification_request_to_wire_def verification_request_from_wire_def VERIFICATION_REQUEST_FIELDS_def verification_request_conforms_def make_verification_request_def validate_verification_request_def reject_known wire_back)
  show "verification_request_from_wire raw = Inr x \<Longrightarrow> verification_request_conforms x"
    by (auto simp: verification_request_from_wire_def verification_request_conforms_def make_verification_request_def dest!: wire_sound)
  show "verification_request_to_wire x \<noteq> PyNone" by (simp add: verification_request_to_wire_def wire_dict_def)
qed

lemmas verification_request_wire_back [wire_back] = verification_request_wire.parses_back verification_request_wire.optional_back
lemmas verification_request_wire_sound [wire_sound] = verification_request_wire.accepts_conforming [THEN require_sound]
    verification_request_wire.accepts_conforming [THEN optional_sound]

definition VERIFICATION_RESULT_FIELDS :: "string list" where
  "VERIFICATION_RESULT_FIELDS =
     [''contract_version'', ''verification_id'', ''outcome'', ''evidence'', ''error'',
      ''completed_at'']"

definition verification_result_to_wire :: "verification_result \<Rightarrow> pyobj" where
  "verification_result_to_wire x = wire_dict
     [(''contract_version'', PyStr (vs_contract_version x)),
      (''verification_id'', opaque_id_to_wire (vs_id x)),
      (''outcome'', PyStr (effect_outcome_value (vs_outcome x))),
      (''evidence'', provider_evidence_to_wire (vs_evidence x)),
      (''error'', optional_to_wire normalized_error_to_wire (vs_error x)),
      (''completed_at'', timestamp_to_wire (vs_completed_at x))]"

definition make_verification_result :: "verification_result \<Rightarrow> verification_result fallible" where
  "make_verification_result x = bind_err (validate_verification_result x) (\<lambda>_. Inr x)"

definition verification_result_from_wire :: "pyobj \<Rightarrow> verification_result fallible" where
  "verification_result_from_wire raw =
     bind_err (require_mapping raw) (\<lambda>data.
     bind_err (reject_unknown_keys data VERIFICATION_RESULT_FIELDS) (\<lambda>_.
     bind_err (require_field data ''contract_version'' parse_contract_version) (\<lambda>_.
     bind_err (require_field data ''verification_id'' opaque_id_from_wire) (\<lambda>id.
     bind_err (require_field data ''outcome'' (parse_enum effect_outcome_members effect_outcome_value)) (\<lambda>outcome.
     bind_err (require_field data ''evidence'' provider_evidence_from_wire) (\<lambda>evidence.
     bind_err (optional_field data ''error'' (parse_optional normalized_error_from_wire)) (\<lambda>err.
     bind_err (require_field data ''completed_at'' timestamp_from_wire) (\<lambda>completed_at.
     make_verification_result
       \<lparr>vs_contract_version = CONTRACT_VERSION, vs_id = id, vs_outcome = outcome,
        vs_evidence = evidence, vs_error = err, vs_completed_at = completed_at\<rparr>))))))))"

definition verification_result_conforms :: "verification_result \<Rightarrow> bool" where
  "verification_result_conforms x \<longleftrightarrow>
     validate_verification_result x = Inr () \<and>
     opaque_id_conforms (vs_id x) \<and>
     provider_evidence_conforms (vs_evidence x) \<and>
     pred_option normalized_error_conforms (vs_error x) \<and>
     timestamp_conforms (vs_completed_at x)"

interpretation verification_result_wire: wire_format verification_result_to_wire verification_result_from_wire verification_result_conforms
proof unfold_locales
  fix x raw
  show "verification_result_conforms x \<Longrightarrow> verification_result_from_wire (verification_result_to_wire x) = Inr x"
    by (cases x) (simp add: verification_result_to_wire_def verification_result_from_wire_def VERIFICATION_RESULT_FIELDS_def verification_result_conforms_def make_verification_result_def validate_verification_result_def reject_known wire_back)
  show "verification_result_from_wire raw = Inr x \<Longrightarrow> verification_result_conforms x"
    by (auto simp: verification_result_from_wire_def verification_result_conforms_def make_verification_result_def dest!: wire_sound)
  show "verification_result_to_wire x \<noteq> PyNone" by (simp add: verification_result_to_wire_def wire_dict_def)
qed

lemmas verification_result_wire_back [wire_back] = verification_result_wire.parses_back verification_result_wire.optional_back
lemmas verification_result_wire_sound [wire_sound] = verification_result_wire.accepts_conforming [THEN require_sound]
    verification_result_wire.accepts_conforming [THEN optional_sound]

definition RECONCILIATION_DECISION_FIELDS :: "string list" where
  "RECONCILIATION_DECISION_FIELDS =
     [''action'', ''reason_code'']"

definition reconciliation_decision_to_wire :: "reconciliation_decision \<Rightarrow> pyobj" where
  "reconciliation_decision_to_wire x = wire_dict
     [(''action'', PyStr (reconciliation_action_value (rd_action x))),
      (''reason_code'', PyStr (rd_reason_code x))]"

definition reconciliation_decision_from_wire :: "pyobj \<Rightarrow> reconciliation_decision fallible" where
  "reconciliation_decision_from_wire raw =
     bind_err (require_mapping raw) (\<lambda>data.
     bind_err (reject_unknown_keys data RECONCILIATION_DECISION_FIELDS) (\<lambda>_.
     bind_err (require_field data ''action'' (parse_enum reconciliation_action_members reconciliation_action_value)) (\<lambda>actn.
     bind_err (require_field data ''reason_code'' parse_str) (\<lambda>reason_code.
     Inr \<lparr>rd_action = actn, rd_reason_code = reason_code\<rparr>))))"

definition reconciliation_decision_conforms :: "reconciliation_decision \<Rightarrow> bool" where
  "reconciliation_decision_conforms x \<longleftrightarrow>
     rd_reason_code x \<noteq> []"

interpretation reconciliation_decision_wire: wire_format reconciliation_decision_to_wire reconciliation_decision_from_wire reconciliation_decision_conforms
proof unfold_locales
  fix x raw
  show "reconciliation_decision_conforms x \<Longrightarrow> reconciliation_decision_from_wire (reconciliation_decision_to_wire x) = Inr x"
    by (cases x) (simp add: reconciliation_decision_to_wire_def reconciliation_decision_from_wire_def RECONCILIATION_DECISION_FIELDS_def reconciliation_decision_conforms_def reject_known wire_back)
  show "reconciliation_decision_from_wire raw = Inr x \<Longrightarrow> reconciliation_decision_conforms x"
    by (auto simp: reconciliation_decision_from_wire_def reconciliation_decision_conforms_def dest!: wire_sound)
  show "reconciliation_decision_to_wire x \<noteq> PyNone" by (simp add: reconciliation_decision_to_wire_def wire_dict_def)
qed

lemmas reconciliation_decision_wire_back [wire_back] = reconciliation_decision_wire.parses_back reconciliation_decision_wire.optional_back
lemmas reconciliation_decision_wire_sound [wire_sound] = reconciliation_decision_wire.accepts_conforming [THEN require_sound]
    reconciliation_decision_wire.accepts_conforming [THEN optional_sound]

section \<open>Compensations\<close>

definition COMPENSATION_FIELDS :: "string list" where
  "COMPENSATION_FIELDS =
     [''contract_version'', ''compensation_id'', ''original_operation_id'', ''kind'', ''state'',
      ''version'', ''intent_digest'', ''arguments_mode'', ''arguments'', ''arguments_ref'',
      ''idempotency_identity'', ''requested_by'', ''policy_decision_id'', ''created_at'',
      ''updated_at'']"

definition compensation_to_wire :: "compensation \<Rightarrow> pyobj" where
  "compensation_to_wire x = wire_dict
     [(''contract_version'', PyStr (cm_contract_version x)),
      (''compensation_id'', opaque_id_to_wire (cm_id x)),
      (''original_operation_id'', opaque_id_to_wire (cm_original_operation_id x)),
      (''kind'', PyStr (compensation_kind_value (cm_kind x))),
      (''state'', PyStr (compensation_state_value (cm_state x))),
      (''version'', PyInt (cm_version x)),
      (''intent_digest'', PyStr (cm_intent_digest x)),
      (''arguments_mode'', PyStr (arguments_mode_value (cm_arguments_mode x))),
      (''arguments'', optional_to_wire json_to_plain (cm_arguments x)),
      (''arguments_ref'', optional_to_wire PyStr (cm_arguments_ref x)),
      (''idempotency_identity'', PyStr (cm_idempotency_identity x)),
      (''requested_by'', principal_ref_to_wire (cm_requested_by x)),
      (''policy_decision_id'', optional_to_wire opaque_id_to_wire (cm_policy_decision_id x)),
      (''created_at'', timestamp_to_wire (cm_created_at x)),
      (''updated_at'', timestamp_to_wire (cm_updated_at x))]"

definition compensation_from_wire :: "pyobj \<Rightarrow> compensation fallible" where
  "compensation_from_wire raw =
     bind_err (require_mapping raw) (\<lambda>data.
     bind_err (reject_unknown_keys data COMPENSATION_FIELDS) (\<lambda>_.
     bind_err (require_field data ''contract_version'' parse_contract_version) (\<lambda>_.
     bind_err (require_field data ''compensation_id'' opaque_id_from_wire) (\<lambda>id.
     bind_err (require_field data ''original_operation_id'' opaque_id_from_wire) (\<lambda>original_operation_id.
     bind_err (require_field data ''kind'' (parse_enum compensation_kind_members compensation_kind_value)) (\<lambda>kind.
     bind_err (require_field data ''state'' (parse_enum compensation_state_members compensation_state_value)) (\<lambda>state.
     bind_err (require_field data ''version'' (parse_int (Some 1))) (\<lambda>version.
     bind_err (require_field data ''intent_digest'' parse_str) (\<lambda>intent_digest.
     bind_err (require_field data ''arguments_mode'' (parse_enum arguments_mode_members arguments_mode_value)) (\<lambda>arguments_mode.
     bind_err (optional_field data ''arguments'' parse_optional_json_value) (\<lambda>arguments.
     bind_err (optional_field data ''arguments_ref'' parse_optional_str) (\<lambda>arguments_ref.
     bind_err (require_field data ''idempotency_identity'' parse_str) (\<lambda>idempotency_identity.
     bind_err (require_field data ''requested_by'' principal_ref_from_wire) (\<lambda>requested_by.
     bind_err (optional_field data ''policy_decision_id'' parse_optional_opaque_id) (\<lambda>policy_decision_id.
     bind_err (require_field data ''created_at'' timestamp_from_wire) (\<lambda>created_at.
     bind_err (require_field data ''updated_at'' timestamp_from_wire) (\<lambda>updated_at.
     make_compensation
       \<lparr>cm_contract_version = CONTRACT_VERSION, cm_id = id,
        cm_original_operation_id = original_operation_id, cm_kind = kind,
        cm_state = state, cm_version = version, cm_intent_digest = intent_digest,
        cm_arguments_mode = arguments_mode, cm_arguments = arguments,
        cm_arguments_ref = arguments_ref,
        cm_idempotency_identity = idempotency_identity, cm_requested_by = requested_by,
        cm_policy_decision_id = policy_decision_id, cm_created_at = created_at,
        cm_updated_at = updated_at\<rparr>)))))))))))))))))"

definition compensation_conforms :: "compensation \<Rightarrow> bool" where
  "compensation_conforms x \<longleftrightarrow>
     validate_compensation x = Inr () \<and>
     opaque_id_conforms (cm_id x) \<and>
     opaque_id_conforms (cm_original_operation_id x) \<and>
     1 \<le> cm_version x \<and>
     cm_intent_digest x \<noteq> [] \<and>
     pred_option (\<lambda>j. json_wf j \<and> j \<noteq> JNull) (cm_arguments x) \<and>
     cm_arguments_ref x \<noteq> Some [] \<and>
     cm_idempotency_identity x \<noteq> [] \<and>
     principal_ref_conforms (cm_requested_by x) \<and>
     pred_option opaque_id_conforms (cm_policy_decision_id x) \<and>
     timestamp_conforms (cm_created_at x) \<and>
     timestamp_conforms (cm_updated_at x)"

interpretation compensation_wire: wire_format compensation_to_wire compensation_from_wire compensation_conforms
proof unfold_locales
  fix x raw
  show "compensation_conforms x \<Longrightarrow> compensation_from_wire (compensation_to_wire x) = Inr x"
    by (cases x) (simp add: compensation_to_wire_def compensation_from_wire_def COMPENSATION_FIELDS_def compensation_conforms_def make_compensation_def validate_compensation_def reject_known wire_back)
  show "compensation_from_wire raw = Inr x \<Longrightarrow> compensation_conforms x"
    by (auto simp: compensation_from_wire_def compensation_conforms_def make_compensation_def dest!: wire_sound)
  show "compensation_to_wire x \<noteq> PyNone" by (simp add: compensation_to_wire_def wire_dict_def)
qed

lemmas compensation_wire_back [wire_back] = compensation_wire.parses_back compensation_wire.optional_back
lemmas compensation_wire_sound [wire_sound] = compensation_wire.accepts_conforming [THEN require_sound]
    compensation_wire.accepts_conforming [THEN optional_sound]

definition COMPENSATION_ATTEMPT_FIELDS :: "string list" where
  "COMPENSATION_ATTEMPT_FIELDS =
     [''contract_version'', ''compensation_attempt_id'', ''compensation_id'', ''attempt_number'',
      ''state'', ''started_at'', ''completed_at'', ''provider_idempotency_key'',
      ''external_operation_id'', ''outcome'', ''evidence'', ''error'']"

definition compensation_attempt_to_wire :: "compensation_attempt \<Rightarrow> pyobj" where
  "compensation_attempt_to_wire x = wire_dict
     [(''contract_version'', PyStr (ca_contract_version x)),
      (''compensation_attempt_id'', opaque_id_to_wire (ca_id x)),
      (''compensation_id'', opaque_id_to_wire (ca_compensation_id x)),
      (''attempt_number'', PyInt (ca_number x)),
      (''state'', PyStr (attempt_state_value (ca_state x))),
      (''started_at'', timestamp_to_wire (ca_started_at x)),
      (''completed_at'', optional_to_wire timestamp_to_wire (ca_completed_at x)),
      (''provider_idempotency_key'', optional_to_wire PyStr (ca_provider_idempotency_key x)),
      (''external_operation_id'', optional_to_wire PyStr (ca_external_operation_id x)),
      (''outcome'', optional_to_wire (\<lambda>e. PyStr (effect_outcome_value e)) (ca_outcome x)),
      (''evidence'', optional_to_wire provider_evidence_to_wire (ca_evidence x)),
      (''error'', optional_to_wire normalized_error_to_wire (ca_error x))]"

definition make_compensation_attempt :: "compensation_attempt \<Rightarrow> compensation_attempt fallible" where
  "make_compensation_attempt x = bind_err (validate_compensation_attempt x) (\<lambda>_. Inr x)"

definition compensation_attempt_from_wire :: "pyobj \<Rightarrow> compensation_attempt fallible" where
  "compensation_attempt_from_wire raw =
     bind_err (require_mapping raw) (\<lambda>data.
     bind_err (reject_unknown_keys data COMPENSATION_ATTEMPT_FIELDS) (\<lambda>_.
     bind_err (require_field data ''contract_version'' parse_contract_version) (\<lambda>_.
     bind_err (require_field data ''compensation_attempt_id'' opaque_id_from_wire) (\<lambda>id.
     bind_err (require_field data ''compensation_id'' opaque_id_from_wire) (\<lambda>compensation_id.
     bind_err (require_field data ''attempt_number'' (parse_int (Some 1))) (\<lambda>number.
     bind_err (require_field data ''state'' (parse_enum attempt_state_members attempt_state_value)) (\<lambda>state.
     bind_err (require_field data ''started_at'' timestamp_from_wire) (\<lambda>started_at.
     bind_err (optional_field data ''completed_at'' (parse_optional timestamp_from_wire)) (\<lambda>completed_at.
     bind_err (optional_field data ''provider_idempotency_key'' parse_optional_str) (\<lambda>provider_idempotency_key.
     bind_err (optional_field data ''external_operation_id'' parse_optional_str) (\<lambda>external_operation_id.
     bind_err (optional_field data ''outcome'' (parse_optional_enum effect_outcome_members effect_outcome_value)) (\<lambda>outcome.
     bind_err (optional_field data ''evidence'' (parse_optional provider_evidence_from_wire)) (\<lambda>evidence.
     bind_err (optional_field data ''error'' (parse_optional normalized_error_from_wire)) (\<lambda>err.
     make_compensation_attempt
       \<lparr>ca_contract_version = CONTRACT_VERSION, ca_id = id,
        ca_compensation_id = compensation_id, ca_number = number, ca_state = state,
        ca_started_at = started_at, ca_completed_at = completed_at,
        ca_provider_idempotency_key = provider_idempotency_key,
        ca_external_operation_id = external_operation_id, ca_outcome = outcome,
        ca_evidence = evidence, ca_error = err\<rparr>))))))))))))))"

definition compensation_attempt_conforms :: "compensation_attempt \<Rightarrow> bool" where
  "compensation_attempt_conforms x \<longleftrightarrow>
     validate_compensation_attempt x = Inr () \<and>
     opaque_id_conforms (ca_id x) \<and>
     opaque_id_conforms (ca_compensation_id x) \<and>
     1 \<le> ca_number x \<and>
     timestamp_conforms (ca_started_at x) \<and>
     pred_option timestamp_conforms (ca_completed_at x) \<and>
     ca_provider_idempotency_key x \<noteq> Some [] \<and>
     ca_external_operation_id x \<noteq> Some [] \<and>
     pred_option provider_evidence_conforms (ca_evidence x) \<and>
     pred_option normalized_error_conforms (ca_error x)"

interpretation compensation_attempt_wire: wire_format compensation_attempt_to_wire compensation_attempt_from_wire compensation_attempt_conforms
proof unfold_locales
  fix x raw
  show "compensation_attempt_conforms x \<Longrightarrow> compensation_attempt_from_wire (compensation_attempt_to_wire x) = Inr x"
    by (cases x) (simp add: compensation_attempt_to_wire_def compensation_attempt_from_wire_def COMPENSATION_ATTEMPT_FIELDS_def compensation_attempt_conforms_def make_compensation_attempt_def validate_compensation_attempt_def reject_known wire_back)
  show "compensation_attempt_from_wire raw = Inr x \<Longrightarrow> compensation_attempt_conforms x"
    by (auto simp: compensation_attempt_from_wire_def compensation_attempt_conforms_def make_compensation_attempt_def dest!: wire_sound)
  show "compensation_attempt_to_wire x \<noteq> PyNone" by (simp add: compensation_attempt_to_wire_def wire_dict_def)
qed

lemmas compensation_attempt_wire_back [wire_back] = compensation_attempt_wire.parses_back compensation_attempt_wire.optional_back
lemmas compensation_attempt_wire_sound [wire_sound] = compensation_attempt_wire.accepts_conforming [THEN require_sound]
    compensation_attempt_wire.accepts_conforming [THEN optional_sound]

section \<open>Audit events, outbox events, work messages\<close>

definition AUDIT_EVENT_FIELDS :: "string list" where
  "AUDIT_EVENT_FIELDS =
     [''contract_version'', ''audit_event_id'', ''operation_id'', ''sequence'', ''event_type'',
      ''from_state'', ''to_state'', ''operation_version'', ''actor'', ''reason_code'',
      ''data'', ''correlation_id'', ''created_at'']"

definition audit_event_to_wire :: "audit_event \<Rightarrow> pyobj" where
  "audit_event_to_wire x = wire_dict
     [(''contract_version'', PyStr (au_contract_version x)),
      (''audit_event_id'', opaque_id_to_wire (au_id x)),
      (''operation_id'', opaque_id_to_wire (au_operation_id x)),
      (''sequence'', PyInt (au_sequence x)),
      (''event_type'', PyStr (audit_event_type_value (au_event_type x))),
      (''from_state'', optional_to_wire (\<lambda>e. PyStr (operation_state_value e)) (au_from_state x)),
      (''to_state'', optional_to_wire (\<lambda>e. PyStr (operation_state_value e)) (au_to_state x)),
      (''operation_version'', PyInt (au_operation_version x)),
      (''actor'', optional_to_wire principal_ref_to_wire (au_actor x)),
      (''reason_code'', PyStr (au_reason_code x)),
      (''data'', json_to_plain (au_data x)),
      (''correlation_id'', optional_to_wire PyStr (au_correlation_id x)),
      (''created_at'', timestamp_to_wire (au_created_at x))]"

definition audit_event_from_wire :: "pyobj \<Rightarrow> audit_event fallible" where
  "audit_event_from_wire raw =
     bind_err (require_mapping raw) (\<lambda>data.
     bind_err (reject_unknown_keys data AUDIT_EVENT_FIELDS) (\<lambda>_.
     bind_err (require_field data ''contract_version'' parse_contract_version) (\<lambda>_.
     bind_err (require_field data ''audit_event_id'' opaque_id_from_wire) (\<lambda>id.
     bind_err (require_field data ''operation_id'' opaque_id_from_wire) (\<lambda>operation_id.
     bind_err (require_field data ''sequence'' (parse_int (Some 1))) (\<lambda>sequence.
     bind_err (require_field data ''event_type'' (parse_enum audit_event_type_members audit_event_type_value)) (\<lambda>event_type.
     bind_err (optional_field data ''from_state'' (parse_optional_enum operation_state_members operation_state_value)) (\<lambda>from_state.
     bind_err (optional_field data ''to_state'' (parse_optional_enum operation_state_members operation_state_value)) (\<lambda>to_state.
     bind_err (require_field data ''operation_version'' (parse_int (Some 1))) (\<lambda>operation_version.
     bind_err (optional_field data ''actor'' (parse_optional principal_ref_from_wire)) (\<lambda>actor.
     bind_err (require_field data ''reason_code'' parse_str) (\<lambda>reason_code.
     bind_err (require_field data ''data'' parse_json_value) (\<lambda>dat.
     bind_err (optional_field data ''correlation_id'' parse_optional_str) (\<lambda>correlation_id.
     bind_err (require_field data ''created_at'' timestamp_from_wire) (\<lambda>created_at.
     make_audit_event
       \<lparr>au_contract_version = CONTRACT_VERSION, au_id = id, au_operation_id = operation_id,
        au_sequence = sequence, au_event_type = event_type, au_from_state = from_state,
        au_to_state = to_state, au_operation_version = operation_version,
        au_actor = actor, au_reason_code = reason_code, au_data = dat,
        au_correlation_id = correlation_id, au_created_at = created_at\<rparr>)))))))))))))))"

definition audit_event_conforms :: "audit_event \<Rightarrow> bool" where
  "audit_event_conforms x \<longleftrightarrow>
     validate_audit_event x = Inr () \<and>
     opaque_id_conforms (au_id x) \<and>
     opaque_id_conforms (au_operation_id x) \<and>
     1 \<le> au_sequence x \<and>
     1 \<le> au_operation_version x \<and>
     pred_option principal_ref_conforms (au_actor x) \<and>
     au_reason_code x \<noteq> [] \<and>
     json_wf (au_data x) \<and>
     au_correlation_id x \<noteq> Some [] \<and>
     timestamp_conforms (au_created_at x)"

interpretation audit_event_wire: wire_format audit_event_to_wire audit_event_from_wire audit_event_conforms
proof unfold_locales
  fix x raw
  show "audit_event_conforms x \<Longrightarrow> audit_event_from_wire (audit_event_to_wire x) = Inr x"
    by (cases x) (simp add: audit_event_to_wire_def audit_event_from_wire_def AUDIT_EVENT_FIELDS_def audit_event_conforms_def make_audit_event_def validate_audit_event_def reject_known wire_back)
  show "audit_event_from_wire raw = Inr x \<Longrightarrow> audit_event_conforms x"
    by (auto simp: audit_event_from_wire_def audit_event_conforms_def make_audit_event_def dest!: wire_sound)
  show "audit_event_to_wire x \<noteq> PyNone" by (simp add: audit_event_to_wire_def wire_dict_def)
qed

lemmas audit_event_wire_back [wire_back] = audit_event_wire.parses_back audit_event_wire.optional_back
lemmas audit_event_wire_sound [wire_sound] = audit_event_wire.accepts_conforming [THEN require_sound]
    audit_event_wire.accepts_conforming [THEN optional_sound]

definition OUTBOX_EVENT_FIELDS :: "string list" where
  "OUTBOX_EVENT_FIELDS =
     [''contract_version'', ''event_id'', ''state'', ''aggregate_type'', ''aggregate_id'',
      ''operation_version'', ''command'', ''created_at'', ''published_at'', ''correlation_id'']"

definition outbox_event_to_wire :: "outbox_event \<Rightarrow> pyobj" where
  "outbox_event_to_wire x = wire_dict
     [(''contract_version'', PyStr (ox_contract_version x)),
      (''event_id'', opaque_id_to_wire (ox_id x)),
      (''state'', PyStr (outbox_state_value (ox_state x))),
      (''aggregate_type'', PyStr (ox_aggregate_type x)),
      (''aggregate_id'', opaque_id_to_wire (ox_aggregate_id x)),
      (''operation_version'', PyInt (ox_operation_version x)),
      (''command'', PyStr (work_command_value (ox_command x))),
      (''created_at'', timestamp_to_wire (ox_created_at x)),
      (''published_at'', optional_to_wire timestamp_to_wire (ox_published_at x)),
      (''correlation_id'', optional_to_wire PyStr (ox_correlation_id x))]"

definition outbox_event_from_wire :: "pyobj \<Rightarrow> outbox_event fallible" where
  "outbox_event_from_wire raw =
     bind_err (require_mapping raw) (\<lambda>data.
     bind_err (reject_unknown_keys data OUTBOX_EVENT_FIELDS) (\<lambda>_.
     bind_err (require_field data ''contract_version'' parse_contract_version) (\<lambda>_.
     bind_err (require_field data ''event_id'' opaque_id_from_wire) (\<lambda>id.
     bind_err (require_field data ''state'' (parse_enum outbox_state_members outbox_state_value)) (\<lambda>state.
     bind_err (require_field data ''aggregate_type'' parse_str) (\<lambda>aggregate_type.
     bind_err (require_field data ''aggregate_id'' opaque_id_from_wire) (\<lambda>aggregate_id.
     bind_err (require_field data ''operation_version'' (parse_int (Some 1))) (\<lambda>operation_version.
     bind_err (require_field data ''command'' (parse_enum work_command_members work_command_value)) (\<lambda>command.
     bind_err (require_field data ''created_at'' timestamp_from_wire) (\<lambda>created_at.
     bind_err (optional_field data ''published_at'' (parse_optional timestamp_from_wire)) (\<lambda>published_at.
     bind_err (optional_field data ''correlation_id'' parse_optional_str) (\<lambda>correlation_id.
     make_outbox_event
       \<lparr>ox_contract_version = CONTRACT_VERSION, ox_id = id, ox_state = state,
        ox_aggregate_type = aggregate_type, ox_aggregate_id = aggregate_id,
        ox_operation_version = operation_version, ox_command = command,
        ox_created_at = created_at, ox_published_at = published_at,
        ox_correlation_id = correlation_id\<rparr>))))))))))))"

definition outbox_event_conforms :: "outbox_event \<Rightarrow> bool" where
  "outbox_event_conforms x \<longleftrightarrow>
     validate_outbox_event x = Inr () \<and>
     opaque_id_conforms (ox_id x) \<and>
     ox_aggregate_type x \<noteq> [] \<and>
     opaque_id_conforms (ox_aggregate_id x) \<and>
     1 \<le> ox_operation_version x \<and>
     timestamp_conforms (ox_created_at x) \<and>
     pred_option timestamp_conforms (ox_published_at x) \<and>
     ox_correlation_id x \<noteq> Some []"

interpretation outbox_event_wire: wire_format outbox_event_to_wire outbox_event_from_wire outbox_event_conforms
proof unfold_locales
  fix x raw
  show "outbox_event_conforms x \<Longrightarrow> outbox_event_from_wire (outbox_event_to_wire x) = Inr x"
    by (cases x) (simp add: outbox_event_to_wire_def outbox_event_from_wire_def OUTBOX_EVENT_FIELDS_def outbox_event_conforms_def make_outbox_event_def validate_outbox_event_def reject_known wire_back)
  show "outbox_event_from_wire raw = Inr x \<Longrightarrow> outbox_event_conforms x"
    by (auto simp: outbox_event_from_wire_def outbox_event_conforms_def make_outbox_event_def dest!: wire_sound)
  show "outbox_event_to_wire x \<noteq> PyNone" by (simp add: outbox_event_to_wire_def wire_dict_def)
qed

lemmas outbox_event_wire_back [wire_back] = outbox_event_wire.parses_back outbox_event_wire.optional_back
lemmas outbox_event_wire_sound [wire_sound] = outbox_event_wire.accepts_conforming [THEN require_sound]
    outbox_event_wire.accepts_conforming [THEN optional_sound]

definition WORK_MESSAGE_FIELDS :: "string list" where
  "WORK_MESSAGE_FIELDS =
     [''contract_version'', ''message_id'', ''outbox_event_id'', ''operation_id'',
      ''expected_operation_version'', ''command'', ''correlation_id'', ''created_at'']"

definition work_message_to_wire :: "work_message \<Rightarrow> pyobj" where
  "work_message_to_wire x = wire_dict
     [(''contract_version'', PyStr (wm_contract_version x)),
      (''message_id'', opaque_id_to_wire (wm_message_id x)),
      (''outbox_event_id'', opaque_id_to_wire (wm_outbox_event_id x)),
      (''operation_id'', opaque_id_to_wire (wm_operation_id x)),
      (''expected_operation_version'', PyInt (wm_expected_operation_version x)),
      (''command'', PyStr (work_command_value (wm_command x))),
      (''correlation_id'', optional_to_wire PyStr (wm_correlation_id x)),
      (''created_at'', timestamp_to_wire (wm_created_at x))]"

definition make_work_message :: "work_message \<Rightarrow> work_message fallible" where
  "make_work_message x = bind_err (validate_work_message x) (\<lambda>_. Inr x)"

definition work_message_from_wire :: "pyobj \<Rightarrow> work_message fallible" where
  "work_message_from_wire raw =
     bind_err (require_mapping raw) (\<lambda>data.
     bind_err (reject_unknown_keys data WORK_MESSAGE_FIELDS) (\<lambda>_.
     bind_err (require_field data ''contract_version'' parse_contract_version) (\<lambda>_.
     bind_err (require_field data ''message_id'' opaque_id_from_wire) (\<lambda>message_id.
     bind_err (require_field data ''outbox_event_id'' opaque_id_from_wire) (\<lambda>outbox_event_id.
     bind_err (require_field data ''operation_id'' opaque_id_from_wire) (\<lambda>operation_id.
     bind_err (require_field data ''expected_operation_version'' (parse_int (Some 1))) (\<lambda>expected_operation_version.
     bind_err (require_field data ''command'' (parse_enum work_command_members work_command_value)) (\<lambda>command.
     bind_err (optional_field data ''correlation_id'' parse_optional_str) (\<lambda>correlation_id.
     bind_err (require_field data ''created_at'' timestamp_from_wire) (\<lambda>created_at.
     make_work_message
       \<lparr>wm_contract_version = CONTRACT_VERSION, wm_message_id = message_id,
        wm_outbox_event_id = outbox_event_id, wm_operation_id = operation_id,
        wm_expected_operation_version = expected_operation_version,
        wm_command = command, wm_correlation_id = correlation_id,
        wm_created_at = created_at\<rparr>))))))))))"

definition work_message_conforms :: "work_message \<Rightarrow> bool" where
  "work_message_conforms x \<longleftrightarrow>
     validate_work_message x = Inr () \<and>
     opaque_id_conforms (wm_message_id x) \<and>
     opaque_id_conforms (wm_outbox_event_id x) \<and>
     opaque_id_conforms (wm_operation_id x) \<and>
     1 \<le> wm_expected_operation_version x \<and>
     wm_correlation_id x \<noteq> Some [] \<and>
     timestamp_conforms (wm_created_at x)"

interpretation work_message_wire: wire_format work_message_to_wire work_message_from_wire work_message_conforms
proof unfold_locales
  fix x raw
  show "work_message_conforms x \<Longrightarrow> work_message_from_wire (work_message_to_wire x) = Inr x"
    by (cases x) (simp add: work_message_to_wire_def work_message_from_wire_def WORK_MESSAGE_FIELDS_def work_message_conforms_def make_work_message_def validate_work_message_def reject_known wire_back)
  show "work_message_from_wire raw = Inr x \<Longrightarrow> work_message_conforms x"
    by (auto simp: work_message_from_wire_def work_message_conforms_def make_work_message_def dest!: wire_sound)
  show "work_message_to_wire x \<noteq> PyNone" by (simp add: work_message_to_wire_def wire_dict_def)
qed

lemmas work_message_wire_back [wire_back] = work_message_wire.parses_back work_message_wire.optional_back
lemmas work_message_wire_sound [wire_sound] = work_message_wire.accepts_conforming [THEN require_sound]
    work_message_wire.accepts_conforming [THEN optional_sound]

end
