(* ===== verification/Row_Mapping.thy ===== *)
theory Row_Mapping
  imports Wire_Records
begin

text \<open>
  The database rows (\<^verbatim>\<open>persistence/models.py\<close>: columns and CHECK constraints) and the mapping between
  them and the domain records (\<^verbatim>\<open>persistence/mapping.py\<close>, \<^verbatim>\<open>persistence/types.py\<close>). A JSONB column
  holds the payload (\<open>pyobj\<close>), \<open>PyNone\<close> being SQL NULL. The theories of the journal keep the records
  themselves in their tables; the round trips here are what makes that sound: a conforming record
  is read back from its row as it was written, and its row passes every CHECK of its table. The
  \<open>MalformedRowError\<close> of a row that does not parse carries the reason code of its cause, where the
  code has the message. Foreign keys and unique constraints are in \<open>Journal\<close>.
\<close>

section \<open>Columns\<close>

text \<open>
  \<open>uuid.UUID(text)\<close>: the 128-bit number of the hex digits (an \<open>OpaqueId\<close> has 32 of them, so the call
  does not raise), and \<open>str(uuid)\<close>: 32 lower-case hex digits in the groups 8-4-4-4-12.
\<close>

datatype uuid = UUID (uuid_int: int)

definition hex_number :: "string \<Rightarrow> int" where
  "hex_number s = foldl (\<lambda>n c. 16 * n + int (hex_value c)) 0 s"

fun hex_text :: "nat \<Rightarrow> int \<Rightarrow> string" where
  "hex_text 0 n = []"
| "hex_text (Suc k) n = hex_text k (n div 16) @ [hex_digit (nat (n mod 16))]"

definition opaque_to_uuid :: "opaque_id \<Rightarrow> uuid" where
  "opaque_to_uuid i = UUID (hex_number (filter (\<lambda>c. c \<noteq> CHR ''-'') (oid_value i)))"

definition uuid_text :: "uuid \<Rightarrow> string" where
  "uuid_text u =
     (let h = hex_text 32 (uuid_int u) in
      take 8 h @ ''-'' @ take 4 (drop 8 h) @ ''-'' @ take 4 (drop 12 h) @ ''-'' @ take 4 (drop 16 h) @ ''-'' @ drop 20 h)"

definition uuid_to_opaque :: "uuid \<Rightarrow> opaque_id fallible" where
  "uuid_to_opaque u = make_opaque_id (uuid_text u)"

definition utc_from_db :: "py_datetime \<Rightarrow> utc_timestamp fallible" where
  "utc_from_db d =
     (case dt_offset d of
        None \<Rightarrow> Inl (MalformedRowError ''naive_timestamp'')
      | Some off \<Rightarrow> make_utc_timestamp \<lparr>dt_local = dt_local d - off, dt_offset = Some 0\<rparr>)"

definition timestamp_datetime :: "utc_timestamp \<Rightarrow> py_datetime" where
  "timestamp_datetime t = \<lparr>dt_local = ts_value t, dt_offset = Some 0\<rparr>"

definition domain_from_wire :: "(pyobj \<Rightarrow> 'a fallible) \<Rightarrow> pyobj \<Rightarrow> 'a fallible" where
  "domain_from_wire parser raw =
     (case parser raw of
        Inr x \<Rightarrow> Inr x
      | Inl e \<Rightarrow> (case e of ContractValidationError reason \<Rightarrow> Inl (MalformedRowError reason) | _ \<Rightarrow> Inl e))"

definition opt_uuid :: "opaque_id option \<Rightarrow> uuid option" where
  "opt_uuid i = map_option opaque_to_uuid i"

definition uuid_wire :: "uuid \<Rightarrow> pyobj fallible" where
  "uuid_wire u = bind_err (uuid_to_opaque u) (\<lambda>i. Inr (opaque_id_to_wire i))"

definition opt_opaque :: "uuid option \<Rightarrow> pyobj fallible" where
  "opt_opaque u = (case u of None \<Rightarrow> Inr PyNone | Some v \<Rightarrow> uuid_wire v)"

definition ts_wire_text :: "py_datetime \<Rightarrow> pyobj fallible" where
  "ts_wire_text d = bind_err (utc_from_db d) (\<lambda>t. Inr (timestamp_to_wire t))"

definition opt_ts_wire :: "py_datetime option \<Rightarrow> pyobj fallible" where
  "opt_ts_wire d = (case d of None \<Rightarrow> Inr PyNone | Some v \<Rightarrow> ts_wire_text v)"

subsection \<open>Columns come back\<close>

lemma hex_text_number:
  "list_all is_lower_hex s \<Longrightarrow> hex_text (length s) (hex_number s) = s"
proof (induction s rule: rev_induct)
  case (snoc c s)
  have c: "is_lower_hex c" using snoc.prems by simp
  have v: "hex_value c < 16 \<and> hex_digit (hex_value c) = c"
  proof -
    consider "48 \<le> (of_char c :: nat)" "(of_char c :: nat) \<le> 57" | "97 \<le> (of_char c :: nat)" "(of_char c :: nat) \<le> 102"
      using c by (auto simp: is_lower_hex_def Let_def)
    then show ?thesis
    proof cases
      case 1
      then have "48 + hex_value c = of_char c" "hex_value c < 10" by (simp_all add: hex_value_def)
      then show ?thesis by (simp add: hex_digit_def)
    next
      case 2
      then have "87 + hex_value c = of_char c" "\<not> hex_value c < 10" "hex_value c < 16"
        by (simp_all add: hex_value_def)
      then show ?thesis by (simp add: hex_digit_def)
    qed
  qed
  have "hex_number (s @ [c]) = 16 * hex_number s + int (hex_value c)" by (simp add: hex_number_def)
  moreover have "(16 * hex_number s + int (hex_value c)) div 16 = hex_number s"
    "(16 * hex_number s + int (hex_value c)) mod 16 = int (hex_value c)"
    using v by simp_all
  ultimately show ?case using snoc v by simp
qed (simp add: hex_number_def)

lemma lower_hex_no_hyphen: "list_all is_lower_hex s \<Longrightarrow> filter (\<lambda>c. c \<noteq> CHR ''-'') s = s"
  by (induction s) (auto simp: is_lower_hex_def Let_def)

lemma opaque_id_groups:
  assumes "opaque_id_re s"
  obtains a b c d e where "s = a @ ''-'' @ b @ ''-'' @ c @ ''-'' @ d @ ''-'' @ e"
    "length a = 8" "length b = 4" "length c = 4" "length d = 4" "length e = 12"
    "list_all is_lower_hex (a @ b @ c @ d @ e)"
proof -
  have len: "length s = 36" using assms by (simp add: opaque_id_re_def)
  have at: "if i \<in> {8, 13, 18, 23} then s ! i = CHR ''-'' else is_lower_hex (s ! i)" if "i < 36" for i
    using assms that len by (auto simp: opaque_id_re_def list_all_length)
  have hex: "list_all is_lower_hex (take n (drop i s))" if "i + n \<le> 36" "\<forall>k < n. i + k \<notin> {8, 13, 18, 23}" for i n
    using that len at by (auto simp: list_all_length)
  have cut: "drop i s = take n (drop i s) @ CHR ''-'' # drop (i + n + 1) s" if "i + n \<in> {8, 13, 18, 23}" for i n
    using id_take_nth_drop [of n "drop i s"] at [of "i + n"] that len by (auto simp: add.commute)
  show thesis
  proof (rule that)
    show "s = take 8 s @ ''-'' @ take 4 (drop 9 s) @ ''-'' @ take 4 (drop 14 s) @ ''-'' @ take 4 (drop 19 s) @ ''-'' @ drop 24 s"
      using cut [of 0 8] cut [of 9 4] cut [of 14 4] cut [of 19 4] by simp
    have "list_all is_lower_hex (drop 24 s)"
      using hex [of 24 12] len by simp
    then show "list_all is_lower_hex (take 8 s @ take 4 (drop 9 s) @ take 4 (drop 14 s) @ take 4 (drop 19 s) @ drop 24 s)"
      using hex [of 0 8] hex [of 9 4] hex [of 14 4] hex [of 19 4] by simp
  qed (simp_all add: len)
qed

lemma uuid_back: "opaque_id_conforms i \<Longrightarrow> uuid_to_opaque (opaque_to_uuid i) = Inr i"
proof -
  assume i: "opaque_id_conforms i"
  then obtain a b c d e where s: "oid_value i = a @ ''-'' @ b @ ''-'' @ c @ ''-'' @ d @ ''-'' @ e"
    and len: "length a = 8" "length b = 4" "length c = 4" "length d = 4" "length e = 12"
    and hex: "list_all is_lower_hex (a @ b @ c @ d @ e)"
    unfolding opaque_id_conforms_def by (rule opaque_id_groups)
  have "filter (\<lambda>c. c \<noteq> CHR ''-'') (oid_value i) = a @ b @ c @ d @ e"
    using hex by (simp add: s lower_hex_no_hyphen)
  then have "hex_text 32 (uuid_int (opaque_to_uuid i)) = a @ b @ c @ d @ e"
    using hex_text_number [OF hex] len by (simp add: opaque_to_uuid_def)
  then have "uuid_text (opaque_to_uuid i) = oid_value i"
    by (simp add: uuid_text_def s len)
  then show ?thesis
    using i by (simp add: uuid_to_opaque_def make_opaque_id_def opaque_id_conforms_def)
qed

lemma uuid_wire_back: "opaque_id_conforms i \<Longrightarrow> uuid_wire (opaque_to_uuid i) = Inr (opaque_id_to_wire i)"
  by (simp add: uuid_wire_def uuid_back)

lemma opt_opaque_back:
  "pred_option opaque_id_conforms i \<Longrightarrow> opt_opaque (opt_uuid i) = Inr (optional_to_wire opaque_id_to_wire i)"
  by (cases i) (simp_all add: opt_opaque_def opt_uuid_def optional_to_wire_def uuid_wire_back)

lemma ts_wire_back: "ts_wire_text (timestamp_datetime t) = Inr (timestamp_to_wire t)"
  by (simp add: ts_wire_text_def utc_from_db_def timestamp_datetime_def make_utc_timestamp_def)

lemma opt_ts_back:
  "opt_ts_wire (map_option timestamp_datetime t) = Inr (optional_to_wire timestamp_to_wire t)"
  by (cases t) (simp_all add: opt_ts_wire_def optional_to_wire_def ts_wire_back)

lemma optional_to_wire_map: "optional_to_wire f (map_option g x) = optional_to_wire (\<lambda>y. f (g y)) x"
  by (cases x) (simp_all add: optional_to_wire_def)

lemmas row_back = uuid_wire_back opt_opaque_back ts_wire_back opt_ts_back optional_to_wire_map

section \<open>OperationRow\<close>

record OperationRow =
  opr_contract_version :: string
  opr_operation_id :: uuid
  opr_state :: string
  opr_version :: int
  opr_intent :: pyobj
  opr_intent_digest :: string
  opr_risk_level :: string
  opr_idempotency_identity :: string
  opr_current_policy_decision_id :: "uuid option"
  opr_current_approval_id :: "uuid option"
  opr_latest_attempt_id :: "uuid option"
  opr_latest_verification_id :: "uuid option"
  opr_compensation_id :: "uuid option"
  opr_created_at :: py_datetime
  opr_updated_at :: py_datetime

definition operation_to_row :: "operation \<Rightarrow> OperationRow" where
  "operation_to_row x =
     \<lparr>opr_contract_version = op_contract_version x,
      opr_operation_id = opaque_to_uuid (op_id x),
      opr_state = operation_state_value (op_state x),
      opr_version = op_version x,
      opr_intent = intent_envelope_to_wire (op_intent x),
      opr_intent_digest = in_intent_digest (op_intent x),
      opr_risk_level = risk_level_value (op_risk_level x),
      opr_idempotency_identity = op_idempotency_identity x,
      opr_current_policy_decision_id = opt_uuid (op_current_policy_decision_id x),
      opr_current_approval_id = opt_uuid (op_current_approval_id x),
      opr_latest_attempt_id = opt_uuid (op_latest_attempt_id x),
      opr_latest_verification_id = opt_uuid (op_latest_verification_id x),
      opr_compensation_id = opt_uuid (op_compensation_id x),
      opr_created_at = timestamp_datetime (op_created_at x),
      opr_updated_at = timestamp_datetime (op_updated_at x)\<rparr>"

definition operation_from_row :: "(string \<Rightarrow> string) \<Rightarrow> OperationRow \<Rightarrow> operation fallible" where
  "operation_from_row sha256 row =
     bind_err (uuid_wire (opr_operation_id row)) (\<lambda>operation_id_wire.
     bind_err (opt_opaque (opr_current_policy_decision_id row)) (\<lambda>current_policy_decision_id_wire.
     bind_err (opt_opaque (opr_current_approval_id row)) (\<lambda>current_approval_id_wire.
     bind_err (opt_opaque (opr_latest_attempt_id row)) (\<lambda>latest_attempt_id_wire.
     bind_err (opt_opaque (opr_latest_verification_id row)) (\<lambda>latest_verification_id_wire.
     bind_err (opt_opaque (opr_compensation_id row)) (\<lambda>compensation_id_wire.
     bind_err (ts_wire_text (opr_created_at row)) (\<lambda>created_at_wire.
     bind_err (ts_wire_text (opr_updated_at row)) (\<lambda>updated_at_wire.
     domain_from_wire (operation_from_wire sha256) (wire_dict
       [(''contract_version'', PyStr (opr_contract_version row)),
        (''operation_id'', operation_id_wire),
        (''state'', PyStr (opr_state row)),
        (''version'', PyInt (opr_version row)),
        (''intent'', opr_intent row),
        (''risk_level'', PyStr (opr_risk_level row)),
        (''idempotency_identity'', PyStr (opr_idempotency_identity row)),
        (''current_policy_decision_id'', current_policy_decision_id_wire),
        (''current_approval_id'', current_approval_id_wire),
        (''latest_attempt_id'', latest_attempt_id_wire),
        (''latest_verification_id'', latest_verification_id_wire),
        (''compensation_id'', compensation_id_wire),
        (''created_at'', created_at_wire),
        (''updated_at'', updated_at_wire)])))))))))"

lemma operation_row_back: "operation_conforms sha256 x \<Longrightarrow> operation_from_row sha256 (operation_to_row x) = Inr x"
proof -
  assume x: "operation_conforms sha256 x"
  then have "operation_from_row sha256 (operation_to_row x) = domain_from_wire (operation_from_wire sha256) (operation_to_wire x)"
    by (simp add: operation_from_row_def operation_to_row_def operation_to_wire_def operation_conforms_def row_back)
  then show ?thesis by (simp add: domain_from_wire_def operation_wire.parses_back [OF x])
qed

section \<open>ExecutionAttemptRow\<close>

record ExecutionAttemptRow =
  atr_contract_version :: string
  atr_attempt_id :: uuid
  atr_operation_id :: uuid
  atr_attempt_number :: int
  atr_state :: string
  atr_started_at :: py_datetime
  atr_completed_at :: "py_datetime option"
  atr_provider_idempotency_key :: "string option"
  atr_external_operation_id :: "string option"
  atr_external_resource_ids :: "pyobj list"
  atr_outcome :: "string option"
  atr_evidence :: pyobj
  atr_error :: pyobj
  atr_correlation_id :: "string option"

definition attempt_to_row :: "execution_attempt \<Rightarrow> ExecutionAttemptRow" where
  "attempt_to_row x =
     \<lparr>atr_contract_version = att_contract_version x,
      atr_attempt_id = opaque_to_uuid (att_id x),
      atr_operation_id = opaque_to_uuid (att_operation_id x),
      atr_attempt_number = att_number x,
      atr_state = attempt_state_value (att_state x),
      atr_started_at = timestamp_datetime (att_started_at x),
      atr_completed_at = map_option timestamp_datetime (att_completed_at x),
      atr_provider_idempotency_key = att_provider_idempotency_key x,
      atr_external_operation_id = att_external_operation_id x,
      atr_external_resource_ids = map PyStr (att_external_resource_ids x),
      atr_outcome = map_option effect_outcome_value (att_outcome x),
      atr_evidence = optional_to_wire provider_evidence_to_wire (att_evidence x),
      atr_error = optional_to_wire normalized_error_to_wire (att_error x),
      atr_correlation_id = att_correlation_id x\<rparr>"

definition attempt_from_row :: "ExecutionAttemptRow \<Rightarrow> execution_attempt fallible" where
  "attempt_from_row row =
     bind_err (uuid_wire (atr_attempt_id row)) (\<lambda>attempt_id_wire.
     bind_err (uuid_wire (atr_operation_id row)) (\<lambda>operation_id_wire.
     bind_err (ts_wire_text (atr_started_at row)) (\<lambda>started_at_wire.
     bind_err (opt_ts_wire (atr_completed_at row)) (\<lambda>completed_at_wire.
     domain_from_wire execution_attempt_from_wire (wire_dict
       [(''contract_version'', PyStr (atr_contract_version row)),
        (''attempt_id'', attempt_id_wire),
        (''operation_id'', operation_id_wire),
        (''attempt_number'', PyInt (atr_attempt_number row)),
        (''state'', PyStr (atr_state row)),
        (''started_at'', started_at_wire),
        (''completed_at'', completed_at_wire),
        (''provider_idempotency_key'', optional_to_wire PyStr (atr_provider_idempotency_key row)),
        (''external_operation_id'', optional_to_wire PyStr (atr_external_operation_id row)),
        (''external_resource_ids'', PyList (atr_external_resource_ids row)),
        (''outcome'', optional_to_wire PyStr (atr_outcome row)),
        (''evidence'', atr_evidence row),
        (''error'', atr_error row),
        (''correlation_id'', optional_to_wire PyStr (atr_correlation_id row))])))))"

lemma attempt_row_back: "execution_attempt_conforms x \<Longrightarrow> attempt_from_row (attempt_to_row x) = Inr x"
proof -
  assume x: "execution_attempt_conforms x"
  then have "attempt_from_row (attempt_to_row x) = domain_from_wire execution_attempt_from_wire (execution_attempt_to_wire x)"
    by (simp add: attempt_from_row_def attempt_to_row_def execution_attempt_to_wire_def execution_attempt_conforms_def row_back)
  then show ?thesis by (simp add: domain_from_wire_def execution_attempt_wire.parses_back [OF x])
qed

section \<open>PolicyDecisionRow\<close>

record PolicyDecisionRow =
  pdr_contract_version :: string
  pdr_policy_decision_id :: uuid
  pdr_operation_id :: uuid
  pdr_operation_version :: int
  pdr_intent_digest :: string
  pdr_verdict :: string
  pdr_reason_codes :: "pyobj list"
  pdr_explanation :: "string option"
  pdr_require_verification :: bool
  pdr_max_automatic_execution_attempts :: "int option"
  pdr_max_automatic_recovery_attempts :: "int option"
  pdr_automatic_compensation_allowed :: bool
  pdr_operator_reason_required :: bool
  pdr_approval_expires_at :: "py_datetime option"
  pdr_policy_revision :: string
  pdr_evaluated_at :: py_datetime

definition policy_to_row :: "policy_decision \<Rightarrow> PolicyDecisionRow" where
  "policy_to_row x =
     \<lparr>pdr_contract_version = pd_contract_version x,
      pdr_policy_decision_id = opaque_to_uuid (pd_id x),
      pdr_operation_id = opaque_to_uuid (pd_operation_id x),
      pdr_operation_version = pd_operation_version x,
      pdr_intent_digest = pd_intent_digest x,
      pdr_verdict = policy_verdict_value (pd_verdict x),
      pdr_reason_codes = map PyStr (pd_reason_codes x),
      pdr_explanation = pd_explanation x,
      pdr_require_verification = ob_require_verification (pd_obligations x),
      pdr_max_automatic_execution_attempts = ob_max_automatic_execution_attempts (pd_obligations x),
      pdr_max_automatic_recovery_attempts = ob_max_automatic_recovery_attempts (pd_obligations x),
      pdr_automatic_compensation_allowed = ob_automatic_compensation_allowed (pd_obligations x),
      pdr_operator_reason_required = ob_operator_reason_required (pd_obligations x),
      pdr_approval_expires_at = map_option timestamp_datetime (ob_approval_expires_at (pd_obligations x)),
      pdr_policy_revision = pd_policy_revision x,
      pdr_evaluated_at = timestamp_datetime (pd_evaluated_at x)\<rparr>"

definition policy_from_row :: "PolicyDecisionRow \<Rightarrow> policy_decision fallible" where
  "policy_from_row row =
     bind_err (uuid_wire (pdr_policy_decision_id row)) (\<lambda>policy_decision_id_wire.
     bind_err (uuid_wire (pdr_operation_id row)) (\<lambda>operation_id_wire.
     bind_err (opt_ts_wire (pdr_approval_expires_at row)) (\<lambda>approval_expires_at_wire.
     bind_err (ts_wire_text (pdr_evaluated_at row)) (\<lambda>evaluated_at_wire.
     domain_from_wire policy_decision_from_wire (wire_dict
       [(''contract_version'', PyStr (pdr_contract_version row)),
        (''policy_decision_id'', policy_decision_id_wire),
        (''operation_id'', operation_id_wire),
        (''operation_version'', PyInt (pdr_operation_version row)),
        (''intent_digest'', PyStr (pdr_intent_digest row)),
        (''verdict'', PyStr (pdr_verdict row)),
        (''reason_codes'', PyList (pdr_reason_codes row)),
        (''explanation'', optional_to_wire PyStr (pdr_explanation row)),
        (''obligations'', wire_dict
          [(''require_verification'', PyBool (pdr_require_verification row)),
           (''max_automatic_execution_attempts'', optional_to_wire PyInt (pdr_max_automatic_execution_attempts row)),
           (''max_automatic_recovery_attempts'', optional_to_wire PyInt (pdr_max_automatic_recovery_attempts row)),
           (''automatic_compensation_allowed'', PyBool (pdr_automatic_compensation_allowed row)),
           (''operator_reason_required'', PyBool (pdr_operator_reason_required row)),
           (''approval_expires_at'', approval_expires_at_wire)]),
        (''policy_revision'', PyStr (pdr_policy_revision row)),
        (''evaluated_at'', evaluated_at_wire)])))))"

lemma policy_row_back: "policy_decision_conforms x \<Longrightarrow> policy_from_row (policy_to_row x) = Inr x"
proof -
  assume x: "policy_decision_conforms x"
  then have "policy_from_row (policy_to_row x) = domain_from_wire policy_decision_from_wire (policy_decision_to_wire x)"
    by (simp add: policy_from_row_def policy_to_row_def policy_decision_to_wire_def policy_obligations_to_wire_def
        policy_decision_conforms_def row_back)
  then show ?thesis by (simp add: domain_from_wire_def policy_decision_wire.parses_back [OF x])
qed

section \<open>ApprovalRow\<close>

record ApprovalRow =
  apr_contract_version :: string
  apr_approval_id :: uuid
  apr_operation_id :: uuid
  apr_operation_version :: int
  apr_intent_digest :: string
  apr_policy_decision_id :: uuid
  apr_state :: string
  apr_requested_at :: py_datetime
  apr_expires_at :: "py_datetime option"
  apr_decided_at :: "py_datetime option"
  apr_decided_by :: pyobj
  apr_reason :: "string option"

definition approval_to_row :: "approval \<Rightarrow> ApprovalRow" where
  "approval_to_row x =
     \<lparr>apr_contract_version = ap_contract_version x,
      apr_approval_id = opaque_to_uuid (ap_id x),
      apr_operation_id = opaque_to_uuid (ap_operation_id x),
      apr_operation_version = ap_operation_version x,
      apr_intent_digest = ap_intent_digest x,
      apr_policy_decision_id = opaque_to_uuid (ap_policy_decision_id x),
      apr_state = approval_state_value (ap_state x),
      apr_requested_at = timestamp_datetime (ap_requested_at x),
      apr_expires_at = map_option timestamp_datetime (ap_expires_at x),
      apr_decided_at = map_option timestamp_datetime (ap_decided_at x),
      apr_decided_by = optional_to_wire principal_ref_to_wire (ap_decided_by x),
      apr_reason = ap_reason x\<rparr>"

definition approval_from_row :: "ApprovalRow \<Rightarrow> approval fallible" where
  "approval_from_row row =
     bind_err (uuid_wire (apr_approval_id row)) (\<lambda>approval_id_wire.
     bind_err (uuid_wire (apr_operation_id row)) (\<lambda>operation_id_wire.
     bind_err (uuid_wire (apr_policy_decision_id row)) (\<lambda>policy_decision_id_wire.
     bind_err (ts_wire_text (apr_requested_at row)) (\<lambda>requested_at_wire.
     bind_err (opt_ts_wire (apr_expires_at row)) (\<lambda>expires_at_wire.
     bind_err (opt_ts_wire (apr_decided_at row)) (\<lambda>decided_at_wire.
     domain_from_wire approval_from_wire (wire_dict
       [(''contract_version'', PyStr (apr_contract_version row)),
        (''approval_id'', approval_id_wire),
        (''operation_id'', operation_id_wire),
        (''operation_version'', PyInt (apr_operation_version row)),
        (''intent_digest'', PyStr (apr_intent_digest row)),
        (''policy_decision_id'', policy_decision_id_wire),
        (''state'', PyStr (apr_state row)),
        (''requested_at'', requested_at_wire),
        (''expires_at'', expires_at_wire),
        (''decided_at'', decided_at_wire),
        (''decided_by'', apr_decided_by row),
        (''reason'', optional_to_wire PyStr (apr_reason row))])))))))"

lemma approval_row_back: "approval_conforms x \<Longrightarrow> approval_from_row (approval_to_row x) = Inr x"
proof -
  assume x: "approval_conforms x"
  then have "approval_from_row (approval_to_row x) = domain_from_wire approval_from_wire (approval_to_wire x)"
    by (simp add: approval_from_row_def approval_to_row_def approval_to_wire_def approval_conforms_def row_back)
  then show ?thesis by (simp add: domain_from_wire_def approval_wire.parses_back [OF x])
qed

section \<open>VerificationRow\<close>

record VerificationRow =
  vfr_contract_version :: string
  vfr_verification_id :: uuid
  vfr_operation_id :: uuid
  vfr_operation_version :: int
  vfr_target :: string
  vfr_target_attempt_id :: "uuid option"
  vfr_effect_provider :: string
  vfr_effect_action :: string
  vfr_effect_version :: string
  vfr_external_operation_id :: "string option"
  vfr_external_resource_ids :: "pyobj list"
  vfr_idempotency_identity :: string
  vfr_provider_evidence_refs :: "pyobj list"
  vfr_requested_at :: py_datetime
  vfr_result_outcome :: "string option"
  vfr_result_evidence :: pyobj
  vfr_result_error :: pyobj
  vfr_result_completed_at :: "py_datetime option"

definition verification_to_row :: "verification_request \<Rightarrow> verification_result option \<Rightarrow> VerificationRow" where
  "verification_to_row x result =
     \<lparr>vfr_contract_version = vq_contract_version x,
      vfr_verification_id = opaque_to_uuid (vq_id x),
      vfr_operation_id = opaque_to_uuid (vq_operation_id x),
      vfr_operation_version = vq_operation_version x,
      vfr_target = verification_target_value (vq_target x),
      vfr_target_attempt_id = opt_uuid (vq_target_attempt_id x),
      vfr_effect_provider = ef_provider (vq_effect x),
      vfr_effect_action = ef_action (vq_effect x),
      vfr_effect_version = ef_version (vq_effect x),
      vfr_external_operation_id = vq_external_operation_id x,
      vfr_external_resource_ids = map PyStr (vq_external_resource_ids x),
      vfr_idempotency_identity = vq_idempotency_identity x,
      vfr_provider_evidence_refs = map opaque_id_to_wire (vq_provider_evidence_refs x),
      vfr_requested_at = timestamp_datetime (vq_requested_at x),
      vfr_result_outcome = map_option (\<lambda>r. effect_outcome_value (vs_outcome r)) result,
      vfr_result_evidence = optional_to_wire (\<lambda>r. provider_evidence_to_wire (vs_evidence r)) result,
      vfr_result_error = (case result of None \<Rightarrow> PyNone | Some r \<Rightarrow> optional_to_wire normalized_error_to_wire (vs_error r)),
      vfr_result_completed_at = map_option (\<lambda>r. timestamp_datetime (vs_completed_at r)) result\<rparr>"

definition verification_from_row ::
  "VerificationRow \<Rightarrow> (verification_request \<times> verification_result option) fallible" where
  "verification_from_row row =
     bind_err (
     bind_err (uuid_wire (vfr_verification_id row)) (\<lambda>verification_id_wire.
     bind_err (uuid_wire (vfr_operation_id row)) (\<lambda>operation_id_wire.
     bind_err (opt_opaque (vfr_target_attempt_id row)) (\<lambda>target_attempt_id_wire.
     bind_err (ts_wire_text (vfr_requested_at row)) (\<lambda>requested_at_wire.
     domain_from_wire verification_request_from_wire (wire_dict
       [(''contract_version'', PyStr (vfr_contract_version row)),
        (''verification_id'', verification_id_wire),
        (''operation_id'', operation_id_wire),
        (''operation_version'', PyInt (vfr_operation_version row)),
        (''target'', PyStr (vfr_target row)),
        (''target_attempt_id'', target_attempt_id_wire),
        (''effect'', wire_dict
          [(''provider'', PyStr (vfr_effect_provider row)),
           (''action'', PyStr (vfr_effect_action row)),
           (''version'', PyStr (vfr_effect_version row))]),
        (''external_operation_id'', optional_to_wire PyStr (vfr_external_operation_id row)),
        (''external_resource_ids'', PyList (vfr_external_resource_ids row)),
        (''idempotency_identity'', PyStr (vfr_idempotency_identity row)),
        (''provider_evidence_refs'', PyList (vfr_provider_evidence_refs row)),
        (''requested_at'', requested_at_wire)])))))) (\<lambda>request.
     case vfr_result_completed_at row of
       None \<Rightarrow> Inr (request, None)
     | Some completed_at \<Rightarrow>
         bind_err (uuid_wire (vfr_verification_id row)) (\<lambda>result_id_wire.
         bind_err (ts_wire_text completed_at) (\<lambda>result_completed_at_wire.
         bind_err (domain_from_wire verification_result_from_wire (wire_dict
         [(''contract_version'', PyStr (vfr_contract_version row)),
          (''verification_id'', result_id_wire),
          (''outcome'', optional_to_wire PyStr (vfr_result_outcome row)),
          (''evidence'', vfr_result_evidence row),
          (''error'', vfr_result_error row),
          (''completed_at'', result_completed_at_wire)])) (\<lambda>result.
         Inr (request, Some result)))))"

lemma verification_row_back:
  assumes x: "verification_request_conforms x"
    and r: "pred_option (\<lambda>r. verification_result_conforms r \<and> vs_id r = vq_id x) result"
  shows "verification_from_row (verification_to_row x result) = Inr (x, result)"
proof -
  have parsed: "domain_from_wire verification_request_from_wire (verification_request_to_wire x) = Inr x"
    by (simp add: domain_from_wire_def verification_request_wire.parses_back [OF x])
  have cv: "vq_contract_version x = CONTRACT_VERSION"
    using x by (simp add: verification_request_conforms_def validate_verification_request_def)
  show ?thesis
  proof (cases result)
    case None
    with parsed x show ?thesis
      by (simp add: verification_from_row_def verification_to_row_def verification_request_to_wire_def
          effect_ref_to_wire_def verification_request_conforms_def row_back)
  next
    case (Some s)
    then have s: "verification_result_conforms s" "vs_id s = vq_id x" using r by simp_all
    have "domain_from_wire verification_result_from_wire (verification_result_to_wire s) = Inr s"
      by (simp add: domain_from_wire_def verification_result_wire.parses_back [OF s(1)])
    moreover have "vs_contract_version s = CONTRACT_VERSION"
      using s(1) by (simp add: verification_result_conforms_def validate_verification_result_def)
    ultimately show ?thesis
      using parsed x s Some cv
      by (simp add: verification_from_row_def verification_to_row_def verification_request_to_wire_def
          verification_result_to_wire_def effect_ref_to_wire_def verification_request_conforms_def row_back
          optional_to_wire_def)
  qed
qed

section \<open>CompensationRow\<close>

record CompensationRow =
  cmr_contract_version :: string
  cmr_compensation_id :: uuid
  cmr_original_operation_id :: uuid
  cmr_kind :: string
  cmr_state :: string
  cmr_version :: int
  cmr_intent_digest :: string
  cmr_arguments_mode :: string
  cmr_arguments :: pyobj
  cmr_arguments_ref :: "string option"
  cmr_idempotency_identity :: string
  cmr_requested_by :: pyobj
  cmr_policy_decision_id :: "uuid option"
  cmr_created_at :: py_datetime
  cmr_updated_at :: py_datetime

definition compensation_to_row :: "compensation \<Rightarrow> CompensationRow" where
  "compensation_to_row x =
     \<lparr>cmr_contract_version = cm_contract_version x,
      cmr_compensation_id = opaque_to_uuid (cm_id x),
      cmr_original_operation_id = opaque_to_uuid (cm_original_operation_id x),
      cmr_kind = compensation_kind_value (cm_kind x),
      cmr_state = compensation_state_value (cm_state x),
      cmr_version = cm_version x,
      cmr_intent_digest = cm_intent_digest x,
      cmr_arguments_mode = arguments_mode_value (cm_arguments_mode x),
      cmr_arguments = optional_to_wire json_to_plain (cm_arguments x),
      cmr_arguments_ref = cm_arguments_ref x,
      cmr_idempotency_identity = cm_idempotency_identity x,
      cmr_requested_by = principal_ref_to_wire (cm_requested_by x),
      cmr_policy_decision_id = opt_uuid (cm_policy_decision_id x),
      cmr_created_at = timestamp_datetime (cm_created_at x),
      cmr_updated_at = timestamp_datetime (cm_updated_at x)\<rparr>"

definition compensation_from_row :: "CompensationRow \<Rightarrow> compensation fallible" where
  "compensation_from_row row =
     bind_err (uuid_wire (cmr_compensation_id row)) (\<lambda>compensation_id_wire.
     bind_err (uuid_wire (cmr_original_operation_id row)) (\<lambda>original_operation_id_wire.
     bind_err (opt_opaque (cmr_policy_decision_id row)) (\<lambda>policy_decision_id_wire.
     bind_err (ts_wire_text (cmr_created_at row)) (\<lambda>created_at_wire.
     bind_err (ts_wire_text (cmr_updated_at row)) (\<lambda>updated_at_wire.
     domain_from_wire compensation_from_wire (wire_dict
       [(''contract_version'', PyStr (cmr_contract_version row)),
        (''compensation_id'', compensation_id_wire),
        (''original_operation_id'', original_operation_id_wire),
        (''kind'', PyStr (cmr_kind row)),
        (''state'', PyStr (cmr_state row)),
        (''version'', PyInt (cmr_version row)),
        (''intent_digest'', PyStr (cmr_intent_digest row)),
        (''arguments_mode'', PyStr (cmr_arguments_mode row)),
        (''arguments'', cmr_arguments row),
        (''arguments_ref'', optional_to_wire PyStr (cmr_arguments_ref row)),
        (''idempotency_identity'', PyStr (cmr_idempotency_identity row)),
        (''requested_by'', cmr_requested_by row),
        (''policy_decision_id'', policy_decision_id_wire),
        (''created_at'', created_at_wire),
        (''updated_at'', updated_at_wire)]))))))"

lemma compensation_row_back: "compensation_conforms x \<Longrightarrow> compensation_from_row (compensation_to_row x) = Inr x"
proof -
  assume x: "compensation_conforms x"
  then have "compensation_from_row (compensation_to_row x) = domain_from_wire compensation_from_wire (compensation_to_wire x)"
    by (simp add: compensation_from_row_def compensation_to_row_def compensation_to_wire_def compensation_conforms_def row_back)
  then show ?thesis by (simp add: domain_from_wire_def compensation_wire.parses_back [OF x])
qed

section \<open>CompensationAttemptRow\<close>

record CompensationAttemptRow =
  car_contract_version :: string
  car_compensation_attempt_id :: uuid
  car_compensation_id :: uuid
  car_attempt_number :: int
  car_state :: string
  car_started_at :: py_datetime
  car_completed_at :: "py_datetime option"
  car_provider_idempotency_key :: "string option"
  car_external_operation_id :: "string option"
  car_outcome :: "string option"
  car_evidence :: pyobj
  car_error :: pyobj

definition compensation_attempt_to_row :: "compensation_attempt \<Rightarrow> CompensationAttemptRow" where
  "compensation_attempt_to_row x =
     \<lparr>car_contract_version = ca_contract_version x,
      car_compensation_attempt_id = opaque_to_uuid (ca_id x),
      car_compensation_id = opaque_to_uuid (ca_compensation_id x),
      car_attempt_number = ca_number x,
      car_state = attempt_state_value (ca_state x),
      car_started_at = timestamp_datetime (ca_started_at x),
      car_completed_at = map_option timestamp_datetime (ca_completed_at x),
      car_provider_idempotency_key = ca_provider_idempotency_key x,
      car_external_operation_id = ca_external_operation_id x,
      car_outcome = map_option effect_outcome_value (ca_outcome x),
      car_evidence = optional_to_wire provider_evidence_to_wire (ca_evidence x),
      car_error = optional_to_wire normalized_error_to_wire (ca_error x)\<rparr>"

definition compensation_attempt_from_row :: "CompensationAttemptRow \<Rightarrow> compensation_attempt fallible" where
  "compensation_attempt_from_row row =
     bind_err (uuid_wire (car_compensation_attempt_id row)) (\<lambda>compensation_attempt_id_wire.
     bind_err (uuid_wire (car_compensation_id row)) (\<lambda>compensation_id_wire.
     bind_err (ts_wire_text (car_started_at row)) (\<lambda>started_at_wire.
     bind_err (opt_ts_wire (car_completed_at row)) (\<lambda>completed_at_wire.
     domain_from_wire compensation_attempt_from_wire (wire_dict
       [(''contract_version'', PyStr (car_contract_version row)),
        (''compensation_attempt_id'', compensation_attempt_id_wire),
        (''compensation_id'', compensation_id_wire),
        (''attempt_number'', PyInt (car_attempt_number row)),
        (''state'', PyStr (car_state row)),
        (''started_at'', started_at_wire),
        (''completed_at'', completed_at_wire),
        (''provider_idempotency_key'', optional_to_wire PyStr (car_provider_idempotency_key row)),
        (''external_operation_id'', optional_to_wire PyStr (car_external_operation_id row)),
        (''outcome'', optional_to_wire PyStr (car_outcome row)),
        (''evidence'', car_evidence row),
        (''error'', car_error row)])))))"

lemma compensation_attempt_row_back: "compensation_attempt_conforms x \<Longrightarrow> compensation_attempt_from_row (compensation_attempt_to_row x) = Inr x"
proof -
  assume x: "compensation_attempt_conforms x"
  then have "compensation_attempt_from_row (compensation_attempt_to_row x) = domain_from_wire compensation_attempt_from_wire (compensation_attempt_to_wire x)"
    by (simp add: compensation_attempt_from_row_def compensation_attempt_to_row_def compensation_attempt_to_wire_def compensation_attempt_conforms_def row_back)
  then show ?thesis by (simp add: domain_from_wire_def compensation_attempt_wire.parses_back [OF x])
qed

section \<open>AuditEventRow\<close>

record AuditEventRow =
  aur_contract_version :: string
  aur_audit_event_id :: uuid
  aur_operation_id :: uuid
  aur_sequence :: int
  aur_event_type :: string
  aur_from_state :: "string option"
  aur_to_state :: "string option"
  aur_operation_version :: int
  aur_actor :: pyobj
  aur_reason_code :: string
  aur_data :: pyobj
  aur_correlation_id :: "string option"
  aur_created_at :: py_datetime

definition audit_to_row :: "audit_event \<Rightarrow> AuditEventRow" where
  "audit_to_row x =
     \<lparr>aur_contract_version = au_contract_version x,
      aur_audit_event_id = opaque_to_uuid (au_id x),
      aur_operation_id = opaque_to_uuid (au_operation_id x),
      aur_sequence = au_sequence x,
      aur_event_type = audit_event_type_value (au_event_type x),
      aur_from_state = map_option operation_state_value (au_from_state x),
      aur_to_state = map_option operation_state_value (au_to_state x),
      aur_operation_version = au_operation_version x,
      aur_actor = optional_to_wire principal_ref_to_wire (au_actor x),
      aur_reason_code = au_reason_code x,
      aur_data = json_to_plain (au_data x),
      aur_correlation_id = au_correlation_id x,
      aur_created_at = timestamp_datetime (au_created_at x)\<rparr>"

definition audit_from_row :: "AuditEventRow \<Rightarrow> audit_event fallible" where
  "audit_from_row row =
     bind_err (uuid_wire (aur_audit_event_id row)) (\<lambda>audit_event_id_wire.
     bind_err (uuid_wire (aur_operation_id row)) (\<lambda>operation_id_wire.
     bind_err (ts_wire_text (aur_created_at row)) (\<lambda>created_at_wire.
     domain_from_wire audit_event_from_wire (wire_dict
       [(''contract_version'', PyStr (aur_contract_version row)),
        (''audit_event_id'', audit_event_id_wire),
        (''operation_id'', operation_id_wire),
        (''sequence'', PyInt (aur_sequence row)),
        (''event_type'', PyStr (aur_event_type row)),
        (''from_state'', optional_to_wire PyStr (aur_from_state row)),
        (''to_state'', optional_to_wire PyStr (aur_to_state row)),
        (''operation_version'', PyInt (aur_operation_version row)),
        (''actor'', aur_actor row),
        (''reason_code'', PyStr (aur_reason_code row)),
        (''data'', aur_data row),
        (''correlation_id'', optional_to_wire PyStr (aur_correlation_id row)),
        (''created_at'', created_at_wire)]))))"

lemma audit_row_back: "audit_event_conforms x \<Longrightarrow> audit_from_row (audit_to_row x) = Inr x"
proof -
  assume x: "audit_event_conforms x"
  then have "audit_from_row (audit_to_row x) = domain_from_wire audit_event_from_wire (audit_event_to_wire x)"
    by (simp add: audit_from_row_def audit_to_row_def audit_event_to_wire_def audit_event_conforms_def row_back)
  then show ?thesis by (simp add: domain_from_wire_def audit_event_wire.parses_back [OF x])
qed

section \<open>OutboxEventRow\<close>

record OutboxEventRow =
  oxr_contract_version :: string
  oxr_event_id :: uuid
  oxr_state :: string
  oxr_aggregate_type :: string
  oxr_aggregate_id :: uuid
  oxr_operation_version :: int
  oxr_command :: string
  oxr_created_at :: py_datetime
  oxr_published_at :: "py_datetime option"
  oxr_correlation_id :: "string option"

definition outbox_to_row :: "outbox_event \<Rightarrow> OutboxEventRow" where
  "outbox_to_row x =
     \<lparr>oxr_contract_version = ox_contract_version x,
      oxr_event_id = opaque_to_uuid (ox_id x),
      oxr_state = outbox_state_value (ox_state x),
      oxr_aggregate_type = ox_aggregate_type x,
      oxr_aggregate_id = opaque_to_uuid (ox_aggregate_id x),
      oxr_operation_version = ox_operation_version x,
      oxr_command = work_command_value (ox_command x),
      oxr_created_at = timestamp_datetime (ox_created_at x),
      oxr_published_at = map_option timestamp_datetime (ox_published_at x),
      oxr_correlation_id = ox_correlation_id x\<rparr>"

definition outbox_from_row :: "OutboxEventRow \<Rightarrow> outbox_event fallible" where
  "outbox_from_row row =
     bind_err (uuid_wire (oxr_event_id row)) (\<lambda>event_id_wire.
     bind_err (uuid_wire (oxr_aggregate_id row)) (\<lambda>aggregate_id_wire.
     bind_err (ts_wire_text (oxr_created_at row)) (\<lambda>created_at_wire.
     bind_err (opt_ts_wire (oxr_published_at row)) (\<lambda>published_at_wire.
     domain_from_wire outbox_event_from_wire (wire_dict
       [(''contract_version'', PyStr (oxr_contract_version row)),
        (''event_id'', event_id_wire),
        (''state'', PyStr (oxr_state row)),
        (''aggregate_type'', PyStr (oxr_aggregate_type row)),
        (''aggregate_id'', aggregate_id_wire),
        (''operation_version'', PyInt (oxr_operation_version row)),
        (''command'', PyStr (oxr_command row)),
        (''created_at'', created_at_wire),
        (''published_at'', published_at_wire),
        (''correlation_id'', optional_to_wire PyStr (oxr_correlation_id row))])))))"

lemma outbox_row_back: "outbox_event_conforms x \<Longrightarrow> outbox_from_row (outbox_to_row x) = Inr x"
proof -
  assume x: "outbox_event_conforms x"
  then have "outbox_from_row (outbox_to_row x) = domain_from_wire outbox_event_from_wire (outbox_event_to_wire x)"
    by (simp add: outbox_from_row_def outbox_to_row_def outbox_event_to_wire_def outbox_event_conforms_def row_back)
  then show ?thesis by (simp add: domain_from_wire_def outbox_event_wire.parses_back [OF x])
qed

section \<open>ReconciliationDecisionRow\<close>

record ReconciliationDecisionRow =
  rdr_reconciliation_decision_id :: uuid
  rdr_operation_id :: uuid
  rdr_operation_version :: int
  rdr_verification_id :: "uuid option"
  rdr_action :: string
  rdr_reason_code :: string
  rdr_created_at :: py_datetime

definition reconciliation_to_row :: "stored_reconciliation_decision \<Rightarrow> ReconciliationDecisionRow" where
  "reconciliation_to_row x =
     \<lparr>rdr_reconciliation_decision_id = opaque_to_uuid (sr_id x),
      rdr_operation_id = opaque_to_uuid (sr_operation_id x),
      rdr_operation_version = sr_operation_version x,
      rdr_verification_id = opt_uuid (sr_verification_id x),
      rdr_action = reconciliation_action_value (rd_action (sr_decision x)),
      rdr_reason_code = rd_reason_code (sr_decision x),
      rdr_created_at = timestamp_datetime (sr_created_at x)\<rparr>"

text \<open>One \<open>try\<close> around the whole construction.\<close>

definition reconciliation_from_row ::
  "ReconciliationDecisionRow \<Rightarrow> stored_reconciliation_decision fallible" where
  "reconciliation_from_row row =
     domain_from_wire (\<lambda>raw.
       bind_err (reconciliation_decision_from_wire raw) (\<lambda>decision.
       bind_err (uuid_to_opaque (rdr_reconciliation_decision_id row)) (\<lambda>id.
       bind_err (uuid_to_opaque (rdr_operation_id row)) (\<lambda>operation_id.
       bind_err (case rdr_verification_id row of None \<Rightarrow> Inr None
                 | Some u \<Rightarrow> bind_err (uuid_to_opaque u) (\<lambda>v. Inr (Some v))) (\<lambda>verification_id.
       bind_err (utc_from_db (rdr_created_at row)) (\<lambda>created_at.
       Inr \<lparr>sr_id = id, sr_operation_id = operation_id,
         sr_operation_version = rdr_operation_version row, sr_verification_id = verification_id,
         sr_decision = decision, sr_created_at = created_at\<rparr>))))))
       (wire_dict [(''action'', PyStr (rdr_action row)), (''reason_code'', PyStr (rdr_reason_code row))])"

definition stored_reconciliation_conforms :: "stored_reconciliation_decision \<Rightarrow> bool" where
  "stored_reconciliation_conforms x \<longleftrightarrow>
     opaque_id_conforms (sr_id x) \<and> opaque_id_conforms (sr_operation_id x) \<and>
     pred_option opaque_id_conforms (sr_verification_id x) \<and> reconciliation_decision_conforms (sr_decision x)"

lemma reconciliation_row_back:
  assumes x: "stored_reconciliation_conforms x"
  shows "reconciliation_from_row (reconciliation_to_row x) = Inr x"
proof -
  let ?d = "sr_decision x"
  have d: "reconciliation_decision_conforms ?d" using x by (simp add: stored_reconciliation_conforms_def)
  have "wire_dict [(''action'', PyStr (reconciliation_action_value (rd_action ?d))),
      (''reason_code'', PyStr (rd_reason_code ?d))] = reconciliation_decision_to_wire ?d"
    by (simp add: reconciliation_decision_to_wire_def)
  then show ?thesis
    using x
    by (cases "sr_verification_id x")
      (simp_all add: reconciliation_from_row_def reconciliation_to_row_def domain_from_wire_def
        reconciliation_decision_wire.parses_back [OF d] uuid_back opt_uuid_def utc_from_db_def
        timestamp_datetime_def make_utc_timestamp_def stored_reconciliation_conforms_def)
qed

end
