(* ===== verification/Wire_Order.thy ===== *)
theory Wire_Order
  imports Wire_Records "HOL-Library.Multiset"
begin

text \<open>
  What a JSONB column gives back. PostgreSQL keeps the members of an object but not their order, so a
  payload that was written comes back as some payload with the same members in some order, at every
  depth (\<open>same_payload\<close>). Every parser of \<open>Wire_Records\<close> reads the two alike (\<open>unordered\<close>): a value it
  reads from one it reads from the other.
\<close>

inductive same_payload :: "pyobj \<Rightarrow> pyobj \<Rightarrow> bool" where
  same_refl: "same_payload v v"
| same_list: "list_all2 same_payload xs ys \<Longrightarrow> same_payload (PyList xs) (PyList ys)"
| same_dict: "distinct (map fst kvs) \<Longrightarrow> list_all2 (\<lambda>a b. fst a = fst b \<and> same_payload (snd a) (snd b)) kvs us \<Longrightarrow>
    mset us = mset kvs' \<Longrightarrow> same_payload (PyDict kvs) (PyDict kvs')"

inductive_cases same_listE: "same_payload (PyList xs) v"
inductive_cases same_dictE: "same_payload (PyDict kvs) v"
inductive_simps same_leaf [simp]:
  "same_payload PyNone v" "same_payload (PyBool b) v" "same_payload (PyInt i) v" "same_payload PyFloat v"
  "same_payload (PyStr s) v" "same_payload PyOther v"

text \<open>One computation reads what the other reads.\<close>

definition keeps :: "'a fallible \<Rightarrow> 'a fallible \<Rightarrow> bool" where
  "keeps m m' \<longleftrightarrow> (\<forall>x. m = Inr x \<longrightarrow> m' = Inr x)"

lemma keeps_refl: "keeps m m"
  by (simp add: keeps_def)

lemma keeps_bind: "keeps m m' \<Longrightarrow> (\<And>x. keeps (f x) (f' x)) \<Longrightarrow> keeps (bind_err m f) (bind_err m' f')"
  by (auto simp: keeps_def)

definition unordered :: "(pyobj \<Rightarrow> 'a fallible) \<Rightarrow> bool" where
  "unordered parse \<longleftrightarrow> (\<forall>v v' x. same_payload v v' \<longrightarrow> parse v = Inr x \<longrightarrow> parse v' = Inr x)"

lemma unorderedI: "(\<And>v v' x. same_payload v v' \<Longrightarrow> parse v = Inr x \<Longrightarrow> parse v' = Inr x) \<Longrightarrow> unordered parse"
  by (simp add: unordered_def)

lemma unorderedD: "unordered parse \<Longrightarrow> same_payload v v' \<Longrightarrow> parse v = Inr x \<Longrightarrow> parse v' = Inr x"
  by (simp add: unordered_def)

section \<open>Members of an object in another order\<close>

definition same_items :: "(string \<times> pyobj) list \<Rightarrow> (string \<times> pyobj) list \<Rightarrow> bool" where
  "same_items data data' \<longleftrightarrow>
     distinct (map fst data) \<and>
     (\<exists>us. list_all2 (\<lambda>a b. fst a = fst b \<and> same_payload (snd a) (snd b)) data us \<and> mset us = mset data')"

lemma same_items_keys:
  assumes "same_items data data'"
  shows "distinct (map fst data')" and "set (map fst data') = set (map fst data)"
proof -
  obtain us where us: "list_all2 (\<lambda>a b. fst a = fst b \<and> same_payload (snd a) (snd b)) data us" "mset us = mset data'"
    and d: "distinct (map fst data)" using assms by (auto simp: same_items_def)
  have "map fst us = map fst data" using us(1) by (induction rule: list_all2_induct) auto
  moreover have "mset (map fst us) = mset (map fst data')" using us(2) by simp
  ultimately show "distinct (map fst data')" "set (map fst data') = set (map fst data)"
    using d by (metis mset_eq_imp_distinct_iff, metis mset_eq_setD)
qed

lemma same_items_lookup:
  assumes "same_items data data'"
  shows "rel_option same_payload (map_of data k) (map_of data' k)"
proof -
  obtain us where us: "list_all2 (\<lambda>a b. fst a = fst b \<and> same_payload (snd a) (snd b)) data us" "mset us = mset data'"
    and d: "distinct (map fst data)" using assms by (auto simp: same_items_def)
  have keys: "map fst us = map fst data" using us(1) by (induction rule: list_all2_induct) auto
  have "rel_option same_payload (map_of data k) (map_of us k)"
    using us(1) by (induction rule: list_all2_induct) auto
  moreover have "map_of us = map_of data'"
    using d keys same_items_keys(1) [OF assms] us(2) by (metis map_of_eqI mset_eq_setD map_of_inject_set)
  ultimately show ?thesis by simp
qed

lemma same_items_fields:
  assumes "same_items data data'"
  shows "keeps (reject_unknown_keys data allowed) (reject_unknown_keys data' allowed)"
    and "unordered parse \<Longrightarrow> keeps (require_field data k parse) (require_field data' k parse)"
    and "unordered parse \<Longrightarrow> keeps (optional_field data k parse) (optional_field data' k parse)"
proof -
  have "fst ` set data' = fst ` set data" using same_items_keys(2) [OF assms] by simp
  then have "list_all (\<lambda>kv. fst kv \<in> A) data' \<longleftrightarrow> list_all (\<lambda>kv. fst kv \<in> A) data" for A
    by (simp add: list_all_iff) (metis (no_types, opaque_lifting) imageE imageI)
  then show "keeps (reject_unknown_keys data allowed) (reject_unknown_keys data' allowed)"
    by (simp add: reject_unknown_keys_def keeps_def)
  show "unordered parse \<Longrightarrow> keeps (require_field data k parse) (require_field data' k parse)"
    using same_items_lookup [OF assms, of k]
    by (auto simp: keeps_def require_field_def require_key_def option_rel_Some1 intro: unorderedD split: option.splits)
  show "unordered parse \<Longrightarrow> keeps (optional_field data k parse) (optional_field data' k parse)"
    using same_items_lookup [OF assms, of k]
    by (auto simp: keeps_def optional_field_def optional_key_def intro: unorderedD split: option.splits)
qed

text \<open>A parser of objects that looks at its members one by one.\<close>

definition str_member :: "string \<times> pyobj \<Rightarrow> pyobj \<times> pyobj" where
  "str_member d = (PyStr (fst d), snd d)"

definition member_str :: "pyobj \<times> pyobj \<Rightarrow> string \<times> pyobj" where
  "member_str kv = (case fst kv of PyStr k \<Rightarrow> (k, snd kv) | _ \<Rightarrow> ([], snd kv))"

lemma string_keys_iff: "map_err string_key kvs = Inr data \<longleftrightarrow> kvs = map str_member data"
proof
  assume "map_err string_key kvs = Inr data"
  then have "list_all2 (\<lambda>kv d. string_key kv = Inr d) kvs data" by (rule map_err_all2)
  then show "kvs = map str_member data"
    by (induction rule: list_all2_induct) (auto simp: string_key_def str_member_def prod_eq_iff split: pyobj.splits)
next
  assume "kvs = map str_member data"
  then show "map_err string_key kvs = Inr data"
    by (auto simp: string_key_def str_member_def intro!: map_err_roundtrip)
qed

lemma str_member_of: "fst kv = PyStr k \<Longrightarrow> str_member (member_str kv) = kv"
  by (cases kv) (simp add: str_member_def member_str_def)

lemma member_str_snd [simp]: "snd (member_str kv) = snd kv"
  by (simp add: member_str_def split: pyobj.split)

lemma member_str_fst: "PyStr k = fst kv \<Longrightarrow> fst (member_str kv) = k"
  by (cases kv) (auto simp: member_str_def)

lemma str_members_of:
  "(\<And>u. u \<in> set us \<Longrightarrow> \<exists>k. fst u = PyStr k) \<Longrightarrow> map str_member (map member_str us) = us"
  by (induction us) (force simp: str_member_of)+

lemma mapping_same:
  assumes same: "same_payload raw raw'" and data: "require_mapping raw = Inr data"
  obtains "raw' = raw" | data' where "require_mapping raw' = Inr data'" and "same_items data data'"
proof -
  obtain kvs where raw: "raw = PyDict kvs" and kvs: "kvs = map str_member data"
    using data by (auto simp: require_mapping_def string_keys_iff split: pyobj.splits)
  from same consider "raw' = raw"
    | us kvs' where "raw' = PyDict kvs'" "distinct (map fst kvs)" "mset us = mset kvs'"
      "list_all2 (\<lambda>a b. fst a = fst b \<and> same_payload (snd a) (snd b)) kvs us"
    unfolding raw by (auto elim: same_dictE)
  then show thesis
  proof cases
    case 2
    have key: "\<exists>k. fst u = PyStr k" if "u \<in> set us" for u
      using 2(4) that unfolding kvs
      by (auto simp: list_all2_conv_all_nth in_set_conv_nth str_member_def) metis
    have us: "map str_member (map member_str us) = us" by (rule str_members_of) (rule key)
    have kvs': "map str_member (map member_str kvs') = kvs'"
      by (rule str_members_of) (rule key, simp add: mset_eq_setD [OF 2(3)])
    have "list_all2 (\<lambda>a b. fst a = fst b \<and> same_payload (snd a) (snd b)) data (map member_str us)"
      using 2(4) unfolding kvs by (auto simp: list_all2_conv_all_nth str_member_def intro: member_str_fst [symmetric])
    moreover have "mset (map member_str us) = mset (map member_str kvs')" using 2(3) by simp
    moreover have "distinct (map fst data)"
      using 2(2) unfolding kvs by (auto simp: distinct_map str_member_def inj_on_def)
    ultimately have "same_items data (map member_str kvs')" by (auto simp: same_items_def)
    moreover have "require_mapping raw' = Inr (map member_str kvs')"
      using kvs' by (simp add: 2(1) require_mapping_def string_keys_iff)
    ultimately show ?thesis by (rule that(2) [rotated])
  qed (rule that(1))
qed

lemma unordered_mapping:
  assumes "\<And>data data'. same_items data data' \<Longrightarrow> keeps (F data) (F data')"
  shows "unordered (\<lambda>raw. bind_err (require_mapping raw) F)"
proof (rule unorderedI)
  fix v v' x
  assume same: "same_payload v v'" and x: "bind_err (require_mapping v) F = Inr x"
  then obtain data where data: "require_mapping v = Inr data" "F data = Inr x" by auto
  show "bind_err (require_mapping v') F = Inr x"
    using same data(1) by (rule mapping_same) (use data x assms in \<open>auto simp: keeps_def\<close>)
qed

section \<open>The leaves\<close>

named_theorems any_order \<open>parsers that do not see the order of members\<close>

lemma unordered_leaf: "(\<And>v v' x. parse v = Inr x \<Longrightarrow> same_payload v v' \<Longrightarrow> v' = v) \<Longrightarrow> unordered parse"
  by (rule unorderedI) blast

lemma same_payload_None: "same_payload v PyNone \<longleftrightarrow> v = PyNone"
  by (auto elim: same_payload.cases intro: same_refl)

lemma unordered_optional [any_order]: "unordered parse \<Longrightarrow> unordered (parse_optional parse)"
  by (rule unorderedI) (auto simp: parse_optional_def same_payload_None dest: unorderedD split: if_splits)

lemma map_err_iff: "map_err f xs = Inr ys \<longleftrightarrow> list_all2 (\<lambda>x y. f x = Inr y) xs ys"
proof
  assume "list_all2 (\<lambda>x y. f x = Inr y) xs ys"
  then show "map_err f xs = Inr ys" by (induction rule: list_all2_induct) simp_all
qed (rule map_err_all2)

lemma map_err_related:
  "list_all2 (\<lambda>x y. \<forall>z. f x = Inr z \<longrightarrow> f y = Inr z) xs ys \<Longrightarrow> map_err f xs = Inr zs \<Longrightarrow> map_err f ys = Inr zs"
  by (induction arbitrary: zs rule: list_all2_induct) auto

lemma unordered_items:
  assumes "unordered parse" and "list_all2 same_payload xs ys" and "map_err parse xs = Inr zs"
  shows "map_err parse ys = Inr zs"
  using assms(3) by (rule map_err_related [rotated])
    (rule list_all2_mono [OF assms(2)], use assms(1) in \<open>simp add: unordered_def\<close>)

lemma unordered_list:
  assumes "unordered parse"
  shows "unordered (\<lambda>raw. case raw of PyList items \<Rightarrow> map_err parse items
      | _ \<Rightarrow> Inl (ContractValidationError ''invalid_type''))"
  by (rule unorderedI) (auto split: pyobj.splits elim!: same_listE intro: unordered_items [OF assms])

lemma unordered_scalars [any_order]:
  "unordered parse_str" "unordered parse_bool" "unordered (parse_int m)" "unordered opaque_id_from_wire"
  "unordered timestamp_from_wire" "unordered parse_contract_version"
  "unordered (parse_enum members to_value)"
  by (rule unordered_leaf; auto simp: parse_str_iff parse_bool_iff parse_int_iff parse_contract_version_iff
      opaque_id_from_wire_def timestamp_from_wire_def parse_enum_def split: pyobj.splits)+

lemma unordered_options [any_order]:
  "unordered parse_optional_str" "unordered (parse_optional_int m)" "unordered parse_optional_opaque_id"
  "unordered (parse_optional_enum members to_value)"
  by (simp_all add: parse_optional_str_def parse_optional_int_def parse_optional_opaque_id_def
      parse_optional_enum_def any_order)

lemma unordered_lists [any_order]: "unordered parse_str_list" "unordered parse_opaque_id_list"
  unfolding parse_str_list_def [abs_def] parse_opaque_id_list_def [abs_def]
  by (rule unordered_list, rule unordered_scalars)+

section \<open>Sorted members\<close>

lemma sort_key_permuted:
  assumes "mset ps = mset qs" and "distinct (map fst ps)"
  shows "sort_key fst ps = sort_key fst qs"
proof (rule map_sorted_distinct_set_unique [where f = fst])
  have "distinct (map fst qs)" using assms by (metis mset_eq_imp_distinct_iff mset_map)
  then show "distinct (map fst (sort_key fst qs))" "distinct (map fst (sort_key fst ps))"
    using assms(2) by (metis distinct_map distinct_sort set_sort)+
  show "set (sort_key fst ps) = set (sort_key fst qs)" using mset_eq_setD [OF assms(1)] by simp
  then show "inj_on fst (set (sort_key fst ps) \<union> set (sort_key fst qs))"
    using assms(2) mset_eq_setD [OF assms(1)] by (simp add: distinct_map)
qed simp_all

lemma map_err_permuted:
  assumes "mset us = mset vs" and "map_err f us = Inr ps"
  obtains qs where "map_err f vs = Inr qs" and "mset qs = mset ps"
  using list_all2_reorder_left_invariance [OF assms(2) [unfolded map_err_iff] assms(1) [symmetric]] that
  by (auto simp: map_err_iff)

text \<open>Conversions that sort what the members convert to.\<close>

lemma sorted_members:
  assumes us: "list_all2 (\<lambda>a b. \<forall>y. conv a = Inr y \<longrightarrow> conv b = Inr y) kvs us" and perm: "mset us = mset kvs'"
    and pairs: "map_err conv kvs = Inr pairs" "distinct (map fst (sort_key fst pairs))"
  obtains pairs' where "map_err conv kvs' = Inr pairs'" and "sort_key fst pairs' = sort_key fst pairs"
proof -
  have "map_err conv us = Inr pairs"
    by (rule map_err_related [OF us pairs(1)])
  then obtain pairs' where p: "map_err conv kvs' = Inr pairs'" "mset pairs' = mset pairs"
    using perm by (metis map_err_permuted)
  have "distinct (map fst pairs)" using pairs(2) by (simp add: distinct_map distinct_sort)
  with p(2) have "sort_key fst pairs' = sort_key fst pairs" by (metis sort_key_permuted)
  with p(1) show thesis by (rule that)
qed


lemma json_from_plain_same:
  "same_payload v v' \<Longrightarrow> json_from_plain v = Inr j \<Longrightarrow> json_from_plain v' = Inr j"
proof (induction arbitrary: j rule: same_payload.induct)
  case (same_list xs ys)
  then obtain zs where zs: "map_err json_from_plain xs = Inr zs" and j: "j = JArray zs" by auto
  have "map_err json_from_plain ys = Inr zs"
    using zs by (rule map_err_related [rotated]) (rule list_all2_mono [OF same_list.IH], blast)
  then show ?case by (simp add: j)
next
  case (same_dict kvs us kvs')
  let ?conv = "\<lambda>kv. case fst kv of
      PyStr k \<Rightarrow> bind_err (json_from_plain (snd kv)) (\<lambda>j. Inr (k, j))
    | _ \<Rightarrow> Inl (ContractValidationError ''invalid_type'')"
  obtain pairs where pairs: "map_err ?conv kvs = Inr pairs" "make_json_object (sort_key fst pairs) = Inr j"
    using same_dict.prems by auto
  have "list_all2 (\<lambda>a b. \<forall>y. ?conv a = Inr y \<longrightarrow> ?conv b = Inr y) kvs us"
    by (rule list_all2_mono [OF same_dict.IH]) (auto split: pyobj.splits)
  then obtain pairs' where "map_err ?conv kvs' = Inr pairs'" "sort_key fst pairs' = sort_key fst pairs"
    using same_dict.hyps(2) pairs(1)
  proof (rule sorted_members)
    show "distinct (map fst (sort_key fst pairs))" using pairs(2) by (simp add: make_json_object_Inr)
  qed
  with pairs(2) show ?case by simp
qed simp

lemma unordered_json [any_order]: "unordered parse_json_value" "unordered parse_optional_json_value"
proof -
  show json: "unordered parse_json_value"
    by (rule unorderedI) (simp add: parse_json_value_def json_from_plain_same)
  have "parse_optional_json_value = parse_optional parse_json_value"
    by (simp add: fun_eq_iff parse_optional_json_value_def parse_optional_def)
  then show "unordered parse_optional_json_value" using unordered_optional [OF json] by simp
qed

lemma unordered_str_map [any_order]: "unordered parse_str_map"
proof (rule unorderedI)
  fix v v' items
  assume same: "same_payload v v'" and "parse_str_map v = Inr items"
  then obtain kvs pairs where v: "v = PyDict kvs" and pairs: "map_err str_map_item kvs = Inr pairs"
    "distinct (map fst (sort_key fst pairs))" and items: "items = sort_key fst pairs"
    by (auto simp: parse_str_map_def split: pyobj.splits)
  from same consider "v' = v"
    | us kvs' where "v' = PyDict kvs'" "mset us = mset kvs'"
      "list_all2 (\<lambda>a b. fst a = fst b \<and> same_payload (snd a) (snd b)) kvs us"
    unfolding v by (auto elim: same_dictE)
  then show "parse_str_map v' = Inr items"
  proof cases
    case 1
    then show ?thesis using pairs items by (simp add: v parse_str_map_def)
  next
    case 2
    have "list_all2 (\<lambda>a b. \<forall>y. str_map_item a = Inr y \<longrightarrow> str_map_item b = Inr y) kvs us"
      by (rule list_all2_mono [OF 2(3)]) (auto simp: str_map_item_def parse_str_iff split: pyobj.splits if_splits)
    then obtain pairs' where "map_err str_map_item kvs' = Inr pairs'" "sort_key fst pairs' = sort_key fst pairs"
      using 2(2) pairs by (rule sorted_members)
    then show ?thesis using pairs(2) by (simp add: 2(1) parse_str_map_def items)
  qed
qed

section \<open>The records\<close>

text \<open>A constructor's checks see the parsed values only.\<close>

lemma unordered_effect_ref [any_order]: "unordered effect_ref_from_wire"
  unfolding effect_ref_from_wire_def [abs_def]
  by (rule unordered_mapping) (intro keeps_bind same_items_fields any_order keeps_refl; assumption)

lemma unordered_principal_ref [any_order]: "unordered principal_ref_from_wire"
  unfolding principal_ref_from_wire_def [abs_def]
  by (rule unordered_mapping) (intro keeps_bind same_items_fields any_order keeps_refl; assumption)

lemma unordered_provider_evidence [any_order]: "unordered provider_evidence_from_wire"
  unfolding provider_evidence_from_wire_def [abs_def]
  by (rule unordered_mapping) (intro keeps_bind same_items_fields any_order keeps_refl; assumption)

lemma unordered_normalized_error [any_order]: "unordered normalized_error_from_wire"
  unfolding normalized_error_from_wire_def [abs_def]
  by (rule unordered_mapping) (intro keeps_bind same_items_fields any_order keeps_refl; assumption)

lemma unordered_intent_envelope [any_order]: "unordered (intent_envelope_from_wire sha256)"
  unfolding intent_envelope_from_wire_def [abs_def]
  by (rule unordered_mapping) (intro keeps_bind same_items_fields any_order keeps_refl; assumption)

lemma unordered_operation [any_order]: "unordered (operation_from_wire sha256)"
  unfolding operation_from_wire_def [abs_def]
  by (rule unordered_mapping) (intro keeps_bind same_items_fields any_order keeps_refl; assumption)

lemma unordered_execution_attempt [any_order]: "unordered execution_attempt_from_wire"
  unfolding execution_attempt_from_wire_def [abs_def]
  by (rule unordered_mapping) (intro keeps_bind same_items_fields any_order keeps_refl; assumption)

lemma unordered_policy_obligations [any_order]: "unordered policy_obligations_from_wire"
  unfolding policy_obligations_from_wire_def [abs_def]
  by (rule unordered_mapping) (intro keeps_bind same_items_fields any_order keeps_refl; assumption)

lemma unordered_policy_decision [any_order]: "unordered policy_decision_from_wire"
  unfolding policy_decision_from_wire_def [abs_def]
  by (rule unordered_mapping) (intro keeps_bind same_items_fields any_order keeps_refl; assumption)

lemma unordered_approval [any_order]: "unordered approval_from_wire"
  unfolding approval_from_wire_def [abs_def]
  by (rule unordered_mapping) (intro keeps_bind same_items_fields any_order keeps_refl; assumption)

lemma unordered_verification_request [any_order]: "unordered verification_request_from_wire"
  unfolding verification_request_from_wire_def [abs_def]
  by (rule unordered_mapping) (intro keeps_bind same_items_fields any_order keeps_refl; assumption)

lemma unordered_verification_result [any_order]: "unordered verification_result_from_wire"
  unfolding verification_result_from_wire_def [abs_def]
  by (rule unordered_mapping) (intro keeps_bind same_items_fields any_order keeps_refl; assumption)

lemma unordered_reconciliation_decision [any_order]: "unordered reconciliation_decision_from_wire"
  unfolding reconciliation_decision_from_wire_def [abs_def]
  by (rule unordered_mapping) (intro keeps_bind same_items_fields any_order keeps_refl; assumption)

lemma unordered_compensation [any_order]: "unordered compensation_from_wire"
  unfolding compensation_from_wire_def [abs_def]
  by (rule unordered_mapping) (intro keeps_bind same_items_fields any_order keeps_refl; assumption)

lemma unordered_compensation_attempt [any_order]: "unordered compensation_attempt_from_wire"
  unfolding compensation_attempt_from_wire_def [abs_def]
  by (rule unordered_mapping) (intro keeps_bind same_items_fields any_order keeps_refl; assumption)

lemma unordered_audit_event [any_order]: "unordered audit_event_from_wire"
  unfolding audit_event_from_wire_def [abs_def]
  by (rule unordered_mapping) (intro keeps_bind same_items_fields any_order keeps_refl; assumption)

lemma unordered_outbox_event [any_order]: "unordered outbox_event_from_wire"
  unfolding outbox_event_from_wire_def [abs_def]
  by (rule unordered_mapping) (intro keeps_bind same_items_fields any_order keeps_refl; assumption)

lemma unordered_work_message [any_order]: "unordered work_message_from_wire"
  unfolding work_message_from_wire_def [abs_def]
  by (rule unordered_mapping) (intro keeps_bind same_items_fields any_order keeps_refl; assumption)

end
