(* ===== verification/Row_Storage.thy ===== *)
theory Row_Storage
  imports Row_Mapping Wire_Order Journal
begin

text \<open>
  The rows in the database. Of a row the database returns every column as it was written, a JSONB column
  up to the order of object members (\<open>..._stored\<close>, documented behaviour of PostgreSQL). A conforming
  record is read back from what the database returns of its row, its row passes the CHECK constraints of
  its table (\<open>..._checks\<close>, the two-valued reading: a constraint SQL finds true), and so a journal whose
  records conform is the journal the readers give back.
\<close>

section \<open>Reading what was stored\<close>

lemma same_wire_dict:
  assumes "map fst kvs' = map fst kvs" and "distinct (map fst kvs)" and "list_all2 same_payload (map snd kvs) (map snd kvs')"
  shows "same_payload (wire_dict kvs) (wire_dict kvs')"
proof -
  have "length kvs = length kvs'" using assms(1) by (metis length_map)
  then have "list_all2 (\<lambda>a b. fst a = fst b \<and> same_payload (snd a) (snd b))
      (map (\<lambda>kv. (PyStr (fst kv), snd kv)) kvs) (map (\<lambda>kv. (PyStr (fst kv), snd kv)) kvs')"
    using assms(1,3) by (auto simp: list_all2_conv_all_nth) (metis nth_map)
  moreover have "distinct (map fst (map (\<lambda>kv. (PyStr (fst kv), snd kv)) kvs))"
    using assms(2) by (simp add: distinct_map inj_on_def)
  ultimately show ?thesis unfolding wire_dict_def by (intro same_dict [OF _ _ refl]) simp_all
qed

lemma domain_read:
  assumes "unordered parse" and "parse raw = Inr x" and "same_payload raw raw'"
  shows "domain_from_wire parse raw' = Inr x"
  using unorderedD [OF assms(1,3,2)] by (simp add: domain_from_wire_def)

lemma same_strings: "list_all2 same_payload (map PyStr xs) ys \<longleftrightarrow> ys = map PyStr xs"
proof
  assume "list_all2 same_payload (map PyStr xs) ys"
  then show "ys = map PyStr xs"
    by (induction xs arbitrary: ys) (auto simp: list_all2_Cons1)
qed (simp add: list_all2_conv_all_nth)

lemmas same_rules = same_refl same_list


definition operation_stored :: "OperationRow \<Rightarrow> OperationRow \<Rightarrow> bool" where
  "operation_stored row row' \<longleftrightarrow>
     (\<exists>v1. row' = row\<lparr>opr_intent := v1\<rparr> \<and>
       same_payload (opr_intent row) v1)"

lemma operation_read_back:
  assumes x: "operation_conforms sha256 x" and stored: "operation_stored (operation_to_row x) row"
  shows "operation_from_row sha256 row = Inr x"
proof -
  obtain v1 where row: "row = (operation_to_row x)\<lparr>opr_intent := v1\<rparr>"
    and same: "same_payload (opr_intent (operation_to_row x)) v1"
    using stored by (auto simp: operation_stored_def)
  note same' = same [unfolded operation_to_row_def OperationRow.simps]
  show ?thesis
    using x unfolding row operation_conforms_def
    by (simp add: operation_from_row_def operation_to_row_def row_back, intro domain_read [OF unordered_operation operation_wire.parses_back] x)
      (unfold operation_to_wire_def, rule same_wire_dict, simp_all add: same_rules same')
qed

definition attempt_stored :: "ExecutionAttemptRow \<Rightarrow> ExecutionAttemptRow \<Rightarrow> bool" where
  "attempt_stored row row' \<longleftrightarrow>
     (\<exists>v1 v2 v3. row' = row\<lparr>atr_external_resource_ids := v1, atr_evidence := v2, atr_error := v3\<rparr> \<and>
       list_all2 same_payload (atr_external_resource_ids row) v1 \<and>
       same_payload (atr_evidence row) v2 \<and>
       same_payload (atr_error row) v3)"

lemma attempt_read_back:
  assumes x: "execution_attempt_conforms x" and stored: "attempt_stored (attempt_to_row x) row"
  shows "attempt_from_row row = Inr x"
proof -
  obtain v1 v2 v3 where row: "row = (attempt_to_row x)\<lparr>atr_external_resource_ids := v1, atr_evidence := v2, atr_error := v3\<rparr>"
    and same: "list_all2 same_payload (atr_external_resource_ids (attempt_to_row x)) v1" "same_payload (atr_evidence (attempt_to_row x)) v2" "same_payload (atr_error (attempt_to_row x)) v3"
    using stored by (auto simp: attempt_stored_def)
  note same' = same [unfolded attempt_to_row_def ExecutionAttemptRow.simps]
  show ?thesis
    using x unfolding row execution_attempt_conforms_def
    by (simp add: attempt_from_row_def attempt_to_row_def row_back, intro domain_read [OF unordered_execution_attempt execution_attempt_wire.parses_back] x)
      (unfold execution_attempt_to_wire_def, rule same_wire_dict, simp_all add: same_rules same')
qed

definition policy_stored :: "PolicyDecisionRow \<Rightarrow> PolicyDecisionRow \<Rightarrow> bool" where
  "policy_stored row row' \<longleftrightarrow>
     (\<exists>v1. row' = row\<lparr>pdr_reason_codes := v1\<rparr> \<and>
       list_all2 same_payload (pdr_reason_codes row) v1)"

definition approval_stored :: "ApprovalRow \<Rightarrow> ApprovalRow \<Rightarrow> bool" where
  "approval_stored row row' \<longleftrightarrow>
     (\<exists>v1. row' = row\<lparr>apr_decided_by := v1\<rparr> \<and>
       same_payload (apr_decided_by row) v1)"

lemma approval_read_back:
  assumes x: "approval_conforms x" and stored: "approval_stored (approval_to_row x) row"
  shows "approval_from_row row = Inr x"
proof -
  obtain v1 where row: "row = (approval_to_row x)\<lparr>apr_decided_by := v1\<rparr>"
    and same: "same_payload (apr_decided_by (approval_to_row x)) v1"
    using stored by (auto simp: approval_stored_def)
  note same' = same [unfolded approval_to_row_def ApprovalRow.simps]
  show ?thesis
    using x unfolding row approval_conforms_def
    by (simp add: approval_from_row_def approval_to_row_def row_back, intro domain_read [OF unordered_approval approval_wire.parses_back] x)
      (unfold approval_to_wire_def, rule same_wire_dict, simp_all add: same_rules same')
qed

definition verification_stored :: "VerificationRow \<Rightarrow> VerificationRow \<Rightarrow> bool" where
  "verification_stored row row' \<longleftrightarrow>
     (\<exists>v1 v2 v3 v4. row' = row\<lparr>vfr_external_resource_ids := v1, vfr_provider_evidence_refs := v2, vfr_result_evidence := v3, vfr_result_error := v4\<rparr> \<and>
       list_all2 same_payload (vfr_external_resource_ids row) v1 \<and>
       list_all2 same_payload (vfr_provider_evidence_refs row) v2 \<and>
       same_payload (vfr_result_evidence row) v3 \<and>
       same_payload (vfr_result_error row) v4)"

definition compensation_stored :: "CompensationRow \<Rightarrow> CompensationRow \<Rightarrow> bool" where
  "compensation_stored row row' \<longleftrightarrow>
     (\<exists>v1 v2. row' = row\<lparr>cmr_arguments := v1, cmr_requested_by := v2\<rparr> \<and>
       same_payload (cmr_arguments row) v1 \<and>
       same_payload (cmr_requested_by row) v2)"

lemma compensation_read_back:
  assumes x: "compensation_conforms x" and stored: "compensation_stored (compensation_to_row x) row"
  shows "compensation_from_row row = Inr x"
proof -
  obtain v1 v2 where row: "row = (compensation_to_row x)\<lparr>cmr_arguments := v1, cmr_requested_by := v2\<rparr>"
    and same: "same_payload (cmr_arguments (compensation_to_row x)) v1" "same_payload (cmr_requested_by (compensation_to_row x)) v2"
    using stored by (auto simp: compensation_stored_def)
  note same' = same [unfolded compensation_to_row_def CompensationRow.simps]
  show ?thesis
    using x unfolding row compensation_conforms_def
    by (simp add: compensation_from_row_def compensation_to_row_def row_back, intro domain_read [OF unordered_compensation compensation_wire.parses_back] x)
      (unfold compensation_to_wire_def, rule same_wire_dict, simp_all add: same_rules same')
qed

definition compensation_attempt_stored :: "CompensationAttemptRow \<Rightarrow> CompensationAttemptRow \<Rightarrow> bool" where
  "compensation_attempt_stored row row' \<longleftrightarrow>
     (\<exists>v1 v2. row' = row\<lparr>car_evidence := v1, car_error := v2\<rparr> \<and>
       same_payload (car_evidence row) v1 \<and>
       same_payload (car_error row) v2)"

lemma compensation_attempt_read_back:
  assumes x: "compensation_attempt_conforms x" and stored: "compensation_attempt_stored (compensation_attempt_to_row x) row"
  shows "compensation_attempt_from_row row = Inr x"
proof -
  obtain v1 v2 where row: "row = (compensation_attempt_to_row x)\<lparr>car_evidence := v1, car_error := v2\<rparr>"
    and same: "same_payload (car_evidence (compensation_attempt_to_row x)) v1" "same_payload (car_error (compensation_attempt_to_row x)) v2"
    using stored by (auto simp: compensation_attempt_stored_def)
  note same' = same [unfolded compensation_attempt_to_row_def CompensationAttemptRow.simps]
  show ?thesis
    using x unfolding row compensation_attempt_conforms_def
    by (simp add: compensation_attempt_from_row_def compensation_attempt_to_row_def row_back, intro domain_read [OF unordered_compensation_attempt compensation_attempt_wire.parses_back] x)
      (unfold compensation_attempt_to_wire_def, rule same_wire_dict, simp_all add: same_rules same')
qed

definition audit_stored :: "AuditEventRow \<Rightarrow> AuditEventRow \<Rightarrow> bool" where
  "audit_stored row row' \<longleftrightarrow>
     (\<exists>v1 v2. row' = row\<lparr>aur_actor := v1, aur_data := v2\<rparr> \<and>
       same_payload (aur_actor row) v1 \<and>
       same_payload (aur_data row) v2)"

lemma audit_read_back:
  assumes x: "audit_event_conforms x" and stored: "audit_stored (audit_to_row x) row"
  shows "audit_from_row row = Inr x"
proof -
  obtain v1 v2 where row: "row = (audit_to_row x)\<lparr>aur_actor := v1, aur_data := v2\<rparr>"
    and same: "same_payload (aur_actor (audit_to_row x)) v1" "same_payload (aur_data (audit_to_row x)) v2"
    using stored by (auto simp: audit_stored_def)
  note same' = same [unfolded audit_to_row_def AuditEventRow.simps]
  show ?thesis
    using x unfolding row audit_event_conforms_def
    by (simp add: audit_from_row_def audit_to_row_def row_back, intro domain_read [OF unordered_audit_event audit_event_wire.parses_back] x)
      (unfold audit_event_to_wire_def, rule same_wire_dict, simp_all add: same_rules same')
qed

definition outbox_stored :: "OutboxEventRow \<Rightarrow> OutboxEventRow \<Rightarrow> bool" where
  "outbox_stored row row' \<longleftrightarrow> row' = row"

lemma outbox_read_back:
  "outbox_event_conforms x \<Longrightarrow> outbox_stored (outbox_to_row x) row \<Longrightarrow> outbox_from_row row = Inr x"
  by (simp add: outbox_stored_def outbox_row_back)

definition reconciliation_stored :: "ReconciliationDecisionRow \<Rightarrow> ReconciliationDecisionRow \<Rightarrow> bool" where
  "reconciliation_stored row row' \<longleftrightarrow> row' = row"

lemma reconciliation_read_back:
  "stored_reconciliation_conforms x \<Longrightarrow> reconciliation_stored (reconciliation_to_row x) row \<Longrightarrow> reconciliation_from_row row = Inr x"
  by (simp add: reconciliation_stored_def reconciliation_row_back)

lemma policy_read_back:
  assumes x: "policy_decision_conforms x" and stored: "policy_stored (policy_to_row x) row"
  shows "policy_from_row row = Inr x"
proof -
  have "row = policy_to_row x"
    using stored by (auto simp: policy_stored_def policy_to_row_def same_strings)
  then show ?thesis using x by (simp add: policy_row_back)
qed

text \<open>A verification row: the result's columns come with the result.\<close>

lemma same_ids: "list_all2 same_payload (map opaque_id_to_wire xs) ys \<longleftrightarrow> ys = map opaque_id_to_wire xs"
  using same_strings [of "map oid_value xs" ys] by (simp add: opaque_id_to_wire_def [abs_def] o_def)

lemma verification_read_back:
  assumes x: "verification_request_conforms x"
    and r: "pred_option (\<lambda>r. verification_result_conforms r \<and> vs_id r = vq_id x) result"
    and stored: "verification_stored (verification_to_row x result) row"
  shows "verification_from_row row = Inr (x, result)"
proof -
  obtain ev er where row: "row = (verification_to_row x result)\<lparr>vfr_result_evidence := ev, vfr_result_error := er\<rparr>"
    and same: "same_payload (vfr_result_evidence (verification_to_row x result)) ev"
      "same_payload (vfr_result_error (verification_to_row x result)) er"
    using stored by (auto simp: verification_stored_def verification_to_row_def same_strings same_ids)
  have request: "domain_from_wire verification_request_from_wire (verification_request_to_wire x) = Inr x"
    by (simp add: domain_from_wire_def verification_request_wire.parses_back [OF x])
  show ?thesis
  proof (cases result)
    case None
    then have "row = verification_to_row x result" using same row by (simp add: verification_to_row_def optional_to_wire_def)
    then show ?thesis using verification_row_back [OF x r] by simp
  next
    case (Some s)
    then have s: "verification_result_conforms s" "vs_id s = vq_id x" using r by simp_all
    have cv: "vq_contract_version x = CONTRACT_VERSION" "vs_contract_version s = CONTRACT_VERSION"
      using x s(1)
      by (simp_all add: verification_request_conforms_def validate_verification_request_def
          verification_result_conforms_def validate_verification_result_def)
    have evidence: "same_payload (provider_evidence_to_wire (vs_evidence s)) ev"
      and error: "same_payload (optional_to_wire normalized_error_to_wire (vs_error s)) er"
      using same by (simp_all add: Some verification_to_row_def optional_to_wire_def)
    have "same_payload (verification_result_to_wire s) (wire_dict
         [(''contract_version'', PyStr CONTRACT_VERSION), (''verification_id'', opaque_id_to_wire (vq_id x)),
          (''outcome'', PyStr (effect_outcome_value (vs_outcome s))), (''evidence'', ev), (''error'', er),
          (''completed_at'', timestamp_to_wire (vs_completed_at s))])"
      unfolding verification_result_to_wire_def
      by (rule same_wire_dict) (simp_all add: same_refl evidence error s(2) cv)
    from domain_read [OF unordered_verification_result verification_result_wire.parses_back [OF s(1)] this]
    show ?thesis
      using request x Some cv
      by (simp add: row verification_from_row_def verification_to_row_def verification_request_to_wire_def
          effect_ref_to_wire_def verification_request_conforms_def row_back optional_to_wire_def)
  qed
qed

section \<open>CHECK constraints\<close>

definition column_in :: "string \<Rightarrow> string list \<Rightarrow> bool" where
  "column_in v allowed \<longleftrightarrow> v \<in> set allowed"

definition column_null_or_in :: "string option \<Rightarrow> string list \<Rightarrow> bool" where
  "column_null_or_in v allowed \<longleftrightarrow> (case v of None \<Rightarrow> True | Some s \<Rightarrow> column_in s allowed)"

definition not_before :: "py_datetime \<Rightarrow> py_datetime \<Rightarrow> bool" where
  "not_before a b \<longleftrightarrow>
     dt_local b - (case dt_offset b of None \<Rightarrow> 0 | Some off \<Rightarrow> off) \<le>
     dt_local a - (case dt_offset a of None \<Rightarrow> 0 | Some off \<Rightarrow> off)"

text \<open>\<open>column ->> key\<close> of a JSONB object whose member is a string.\<close>

definition json_member_text :: "pyobj \<Rightarrow> string \<Rightarrow> string option" where
  "json_member_text v key =
     (case v of
        PyDict kvs \<Rightarrow> (case map_of kvs (PyStr key) of Some (PyStr s) \<Rightarrow> Some s | _ \<Rightarrow> None)
      | _ \<Rightarrow> None)"

definition attempt_lifecycle :: "string \<Rightarrow> py_datetime option \<Rightarrow> string option \<Rightarrow> bool" where
  "attempt_lifecycle state completed_at outcome \<longleftrightarrow>
     (state = ''STARTED'' \<and> completed_at = None \<and> outcome = None) \<or>
     (state = ''COMPLETED'' \<and> completed_at \<noteq> None \<and> outcome \<noteq> None)"

definition operation_checks :: "OperationRow \<Rightarrow> bool" where
  "operation_checks row \<longleftrightarrow>
     opr_contract_version row = ''v1'' \<and>
     column_in (opr_state row) (map operation_state_value operation_state_members) \<and>
     1 \<le> opr_version row \<and>
     json_member_text (opr_intent row) ''intent_digest'' = Some (opr_intent_digest row) \<and>
     column_in (opr_risk_level row) (map risk_level_value risk_level_members) \<and>
     not_before (opr_updated_at row) (opr_created_at row)"

definition attempt_checks :: "ExecutionAttemptRow \<Rightarrow> bool" where
  "attempt_checks row \<longleftrightarrow>
     atr_contract_version row = ''v1'' \<and> 1 \<le> atr_attempt_number row \<and>
     column_in (atr_state row) (map attempt_state_value attempt_state_members) \<and>
     attempt_lifecycle (atr_state row) (atr_completed_at row) (atr_outcome row) \<and>
     column_null_or_in (atr_outcome row) (map effect_outcome_value effect_outcome_members)"

definition policy_checks :: "PolicyDecisionRow \<Rightarrow> bool" where
  "policy_checks row \<longleftrightarrow>
     pdr_contract_version row = ''v1'' \<and> 1 \<le> pdr_operation_version row \<and>
     column_in (pdr_verdict row) (map policy_verdict_value policy_verdict_members)"

definition approval_checks :: "ApprovalRow \<Rightarrow> bool" where
  "approval_checks row \<longleftrightarrow>
     apr_contract_version row = ''v1'' \<and> 1 \<le> apr_operation_version row \<and>
     column_in (apr_state row) (map approval_state_value approval_state_members) \<and>
     ((apr_state row = ''PENDING'' \<and> apr_decided_at row = None \<and> apr_decided_by row = PyNone) \<or>
      (column_in (apr_state row) [''APPROVED'', ''REJECTED'', ''EXPIRED'', ''CANCELLED''] \<and> apr_decided_at row \<noteq> None))"

definition verification_checks :: "VerificationRow \<Rightarrow> bool" where
  "verification_checks row \<longleftrightarrow>
     vfr_contract_version row = ''v1'' \<and> 1 \<le> vfr_operation_version row \<and>
     column_in (vfr_target row) (map verification_target_value verification_target_members) \<and>
     ((vfr_result_outcome row = None \<and> vfr_result_evidence row = PyNone \<and> vfr_result_error row = PyNone \<and>
       vfr_result_completed_at row = None) \<or>
      (vfr_result_outcome row \<noteq> None \<and>
       column_null_or_in (vfr_result_outcome row) (map effect_outcome_value effect_outcome_members) \<and>
       vfr_result_evidence row \<noteq> PyNone \<and> vfr_result_completed_at row \<noteq> None))"

definition compensation_checks :: "CompensationRow \<Rightarrow> bool" where
  "compensation_checks row \<longleftrightarrow>
     cmr_contract_version row = ''v1'' \<and>
     cmr_kind row \<noteq> ''NONE'' \<and> column_in (cmr_kind row) [''EXACT'', ''APPROXIMATE'', ''MITIGATING''] \<and>
     column_in (cmr_state row) (map compensation_state_value compensation_state_members) \<and>
     1 \<le> cmr_version row \<and>
     column_in (cmr_arguments_mode row) (map arguments_mode_value arguments_mode_members) \<and>
     ((cmr_arguments_mode row = ''INLINE'' \<and> cmr_arguments row \<noteq> PyNone \<and> cmr_arguments_ref row = None) \<or>
      (cmr_arguments_mode row = ''REFERENCE'' \<and> cmr_arguments row = PyNone \<and> cmr_arguments_ref row \<noteq> None)) \<and>
     not_before (cmr_updated_at row) (cmr_created_at row)"

definition compensation_attempt_checks :: "CompensationAttemptRow \<Rightarrow> bool" where
  "compensation_attempt_checks row \<longleftrightarrow>
     car_contract_version row = ''v1'' \<and> 1 \<le> car_attempt_number row \<and>
     column_in (car_state row) (map attempt_state_value attempt_state_members) \<and>
     attempt_lifecycle (car_state row) (car_completed_at row) (car_outcome row) \<and>
     column_null_or_in (car_outcome row) (map effect_outcome_value effect_outcome_members)"

definition audit_checks :: "AuditEventRow \<Rightarrow> bool" where
  "audit_checks row \<longleftrightarrow>
     aur_contract_version row = ''v1'' \<and> 1 \<le> aur_sequence row \<and>
     column_in (aur_event_type row) (map audit_event_type_value audit_event_type_members) \<and>
     column_null_or_in (aur_from_state row) (map operation_state_value operation_state_members) \<and>
     column_null_or_in (aur_to_state row) (map operation_state_value operation_state_members) \<and>
     1 \<le> aur_operation_version row \<and>
     (aur_event_type row \<noteq> ''operation.transitioned.v1'' \<or> aur_from_state row \<noteq> None \<and> aur_to_state row \<noteq> None)"

definition outbox_checks :: "OutboxEventRow \<Rightarrow> bool" where
  "outbox_checks row \<longleftrightarrow>
     oxr_contract_version row = ''v1'' \<and>
     column_in (oxr_state row) (map outbox_state_value outbox_state_members) \<and>
     oxr_aggregate_type row = ''operation'' \<and> 1 \<le> oxr_operation_version row \<and>
     column_in (oxr_command row) (map work_command_value work_command_members) \<and>
     ((oxr_state row = ''PENDING'' \<and> oxr_published_at row = None) \<or>
      (oxr_state row = ''PUBLISHED'' \<and> oxr_published_at row \<noteq> None))"

definition reconciliation_checks :: "ReconciliationDecisionRow \<Rightarrow> bool" where
  "reconciliation_checks row \<longleftrightarrow>
     1 \<le> rdr_operation_version row \<and>
     column_in (rdr_action row) (map reconciliation_action_value reconciliation_action_members)"

subsection \<open>Rows of conforming records pass\<close>

lemmas enum_columns =
  os_enum.all_members rl_enum.all_members as_enum.all_members eo_enum.all_members pv_enum.all_members
  ap_enum.all_members vt_enum.all_members cs_enum.all_members am_enum.all_members ae_enum.all_members
  ob_enum.all_members wc_enum.all_members ra_enum.all_members

lemmas enum_lists =
  attempt_state_members_def approval_state_members_def outbox_state_members_def compensation_kind_members_def
  arguments_mode_members_def audit_event_type_members_def

lemma null_or_in_column [simp]:
  "column_null_or_in (map_option effect_outcome_value x) (map effect_outcome_value effect_outcome_members)"
  "column_null_or_in (map_option operation_state_value y) (map operation_state_value operation_state_members)"
  "column_null_or_in None ms" "column_null_or_in (Some s) ms \<longleftrightarrow> column_in s ms"
  by (cases x; cases y; simp add: column_null_or_in_def column_in_def enum_columns)+

lemma operation_checks_pass: "operation_conforms sha256 x \<Longrightarrow> operation_checks (operation_to_row x)"
  by (auto simp: operation_conforms_def validate_operation_def operation_checks_def operation_to_row_def
      column_in_def enum_columns CONTRACT_VERSION_def not_before_def timestamp_datetime_def
      json_member_text_def intent_envelope_to_wire_def wire_dict_def less_utc_timestamp_def)

lemma attempt_checks_pass: "execution_attempt_conforms x \<Longrightarrow> attempt_checks (attempt_to_row x)"
  by (cases "att_state x")
    (auto simp: execution_attempt_conforms_def validate_execution_attempt_def attempt_checks_def attempt_to_row_def
      column_in_def enum_columns CONTRACT_VERSION_def attempt_lifecycle_def enum_lists
      split: option.splits if_splits)

lemma policy_checks_pass: "policy_decision_conforms x \<Longrightarrow> policy_checks (policy_to_row x)"
  by (auto simp: policy_decision_conforms_def validate_policy_decision_def policy_checks_def policy_to_row_def
      column_in_def enum_columns CONTRACT_VERSION_def)

lemma approval_checks_pass: "approval_conforms x \<Longrightarrow> approval_checks (approval_to_row x)"
  by (cases "ap_state x")
    (auto simp: approval_conforms_def validate_approval_def approval_checks_def approval_to_row_def
      column_in_def enum_columns CONTRACT_VERSION_def optional_to_wire_def enum_lists)

lemma verification_checks_pass:
  "verification_request_conforms x \<Longrightarrow> verification_checks (verification_to_row x result)"
  by (cases result)
    (auto simp: verification_request_conforms_def validate_verification_request_def verification_checks_def
      verification_to_row_def column_in_def enum_columns CONTRACT_VERSION_def optional_to_wire_def
      provider_evidence_to_wire_def wire_dict_def)

lemma compensation_checks_pass: "compensation_conforms x \<Longrightarrow> compensation_checks (compensation_to_row x)"
  by (cases "cm_kind x"; cases "cm_arguments_mode x")
    (auto simp: compensation_conforms_def validate_compensation_def compensation_checks_def compensation_to_row_def
      column_in_def enum_columns CONTRACT_VERSION_def not_before_def timestamp_datetime_def less_utc_timestamp_def
      optional_to_wire_def json_to_plain_None enum_lists split: option.splits if_splits)

lemma compensation_attempt_checks_pass:
  "compensation_attempt_conforms x \<Longrightarrow> compensation_attempt_checks (compensation_attempt_to_row x)"
  by (cases "ca_state x")
    (auto simp: compensation_attempt_conforms_def validate_compensation_attempt_def compensation_attempt_checks_def
      compensation_attempt_to_row_def column_in_def enum_columns CONTRACT_VERSION_def attempt_lifecycle_def
      enum_lists)

lemma audit_checks_pass: "audit_event_conforms x \<Longrightarrow> audit_checks (audit_to_row x)"
  by (cases "au_event_type x")
    (auto simp: audit_event_conforms_def validate_audit_event_def audit_checks_def audit_to_row_def
      column_in_def enum_columns CONTRACT_VERSION_def enum_lists)

lemma outbox_checks_pass: "outbox_event_conforms x \<Longrightarrow> outbox_checks (outbox_to_row x)"
  by (cases "ox_state x")
    (auto simp: outbox_event_conforms_def validate_outbox_event_def outbox_checks_def outbox_to_row_def
      column_in_def enum_columns CONTRACT_VERSION_def AGGREGATE_TYPE_OPERATION_def enum_lists)

lemma reconciliation_checks_pass:
  "1 \<le> sr_operation_version x \<Longrightarrow> reconciliation_checks (reconciliation_to_row x)"
  by (simp add: reconciliation_checks_def reconciliation_to_row_def column_in_def enum_columns)

section \<open>The journal\<close>

record database =
  db_operations :: "OperationRow list"
  db_attempts :: "ExecutionAttemptRow list"
  db_policy_decisions :: "PolicyDecisionRow list"
  db_approvals :: "ApprovalRow list"
  db_verifications :: "VerificationRow list"
  db_compensations :: "CompensationRow list"
  db_compensation_attempts :: "CompensationAttemptRow list"
  db_audit_events :: "AuditEventRow list"
  db_outbox_events :: "OutboxEventRow list"
  db_reconciliations :: "ReconciliationDecisionRow list"

definition journal_rows :: "journal \<Rightarrow> database" where
  "journal_rows j =
     \<lparr>db_operations = map operation_to_row (j_operations j),
      db_attempts = map attempt_to_row (j_attempts j),
      db_policy_decisions = map policy_to_row (j_policy_decisions j),
      db_approvals = map approval_to_row (j_approvals j),
      db_verifications = map (\<lambda>(request, result). verification_to_row request result) (j_verifications j),
      db_compensations = map compensation_to_row (j_compensations j),
      db_compensation_attempts = map compensation_attempt_to_row (j_compensation_attempts j),
      db_audit_events = map audit_to_row (j_audit_events j),
      db_outbox_events = map outbox_to_row (j_outbox_events j),
      db_reconciliations = map reconciliation_to_row (j_reconciliations j)\<rparr>"

definition read_journal :: "(string \<Rightarrow> string) \<Rightarrow> database \<Rightarrow> journal fallible" where
  "read_journal sha256 d =
     bind_err (map_err (operation_from_row sha256) (db_operations d)) (\<lambda>operations.
     bind_err (map_err attempt_from_row (db_attempts d)) (\<lambda>attempts.
     bind_err (map_err policy_from_row (db_policy_decisions d)) (\<lambda>policy_decisions.
     bind_err (map_err approval_from_row (db_approvals d)) (\<lambda>approvals.
     bind_err (map_err verification_from_row (db_verifications d)) (\<lambda>verifications.
     bind_err (map_err compensation_from_row (db_compensations d)) (\<lambda>compensations.
     bind_err (map_err compensation_attempt_from_row (db_compensation_attempts d)) (\<lambda>compensation_attempts.
     bind_err (map_err audit_from_row (db_audit_events d)) (\<lambda>audit_events.
     bind_err (map_err outbox_from_row (db_outbox_events d)) (\<lambda>outbox_events.
     bind_err (map_err reconciliation_from_row (db_reconciliations d)) (\<lambda>reconciliations.
     Inr \<lparr>j_operations = operations, j_attempts = attempts, j_policy_decisions = policy_decisions,
       j_approvals = approvals, j_verifications = verifications, j_compensations = compensations,
       j_compensation_attempts = compensation_attempts, j_audit_events = audit_events,
       j_outbox_events = outbox_events, j_reconciliations = reconciliations\<rparr>))))))))))"

definition database_checks :: "database \<Rightarrow> bool" where
  "database_checks d \<longleftrightarrow>
     list_all operation_checks (db_operations d) \<and> list_all attempt_checks (db_attempts d) \<and>
     list_all policy_checks (db_policy_decisions d) \<and> list_all approval_checks (db_approvals d) \<and>
     list_all verification_checks (db_verifications d) \<and> list_all compensation_checks (db_compensations d) \<and>
     list_all compensation_attempt_checks (db_compensation_attempts d) \<and>
     list_all audit_checks (db_audit_events d) \<and> list_all outbox_checks (db_outbox_events d) \<and>
     list_all reconciliation_checks (db_reconciliations d)"

text \<open>What the database returns of the rows it was given.\<close>

definition database_stored :: "database \<Rightarrow> database \<Rightarrow> bool" where
  "database_stored d d' \<longleftrightarrow>
     list_all2 operation_stored (db_operations d) (db_operations d') \<and>
     list_all2 attempt_stored (db_attempts d) (db_attempts d') \<and>
     list_all2 policy_stored (db_policy_decisions d) (db_policy_decisions d') \<and>
     list_all2 approval_stored (db_approvals d) (db_approvals d') \<and>
     list_all2 verification_stored (db_verifications d) (db_verifications d') \<and>
     list_all2 compensation_stored (db_compensations d) (db_compensations d') \<and>
     list_all2 compensation_attempt_stored (db_compensation_attempts d) (db_compensation_attempts d') \<and>
     list_all2 audit_stored (db_audit_events d) (db_audit_events d') \<and>
     list_all2 outbox_stored (db_outbox_events d) (db_outbox_events d') \<and>
     list_all2 reconciliation_stored (db_reconciliations d) (db_reconciliations d')"

definition verification_conforms :: "verification_row \<Rightarrow> bool" where
  "verification_conforms row \<longleftrightarrow>
     verification_request_conforms (fst row) \<and>
     pred_option (\<lambda>r. verification_result_conforms r \<and> vs_id r = vf_id row) (snd row)"

definition journal_conforms :: "(string \<Rightarrow> string) \<Rightarrow> journal \<Rightarrow> bool" where
  "journal_conforms sha256 j \<longleftrightarrow>
     list_all (operation_conforms sha256) (j_operations j) \<and> list_all execution_attempt_conforms (j_attempts j) \<and>
     list_all policy_decision_conforms (j_policy_decisions j) \<and> list_all approval_conforms (j_approvals j) \<and>
     list_all verification_conforms (j_verifications j) \<and> list_all compensation_conforms (j_compensations j) \<and>
     list_all compensation_attempt_conforms (j_compensation_attempts j) \<and>
     list_all audit_event_conforms (j_audit_events j) \<and> list_all outbox_event_conforms (j_outbox_events j) \<and>
     list_all (\<lambda>x. stored_reconciliation_conforms x \<and> 1 \<le> sr_operation_version x) (j_reconciliations j)"

lemma verification_pair_read_back:
  "verification_conforms v \<Longrightarrow> verification_stored ((\<lambda>(request, result). verification_to_row request result) v) row \<Longrightarrow>
   verification_from_row row = Inr v"
  by (cases v) (auto simp: verification_conforms_def intro: verification_read_back)

lemma reconciliation_version_read_back:
  "stored_reconciliation_conforms x \<and> 1 \<le> sr_operation_version x \<Longrightarrow>
   reconciliation_stored (reconciliation_to_row x) row \<Longrightarrow> reconciliation_from_row row = Inr x"
  by (rule reconciliation_read_back) simp_all

lemma verification_pair_checks_pass:
  "verification_conforms v \<Longrightarrow> verification_checks ((\<lambda>(request, result). verification_to_row request result) v)"
  by (cases v) (auto simp: verification_conforms_def intro: verification_checks_pass)

lemma domain_from_wire_Inr: "domain_from_wire parse raw = Inr x \<longleftrightarrow> parse raw = Inr x"
  by (simp add: domain_from_wire_def split: sum.split sb_error.split)

lemma operation_row_sound: "operation_from_row sha256 row = Inr x \<Longrightarrow> operation_conforms sha256 x"
  by (auto simp: operation_from_row_def domain_from_wire_Inr intro: operation_wire.sound)

lemma attempt_row_sound: "attempt_from_row row = Inr x \<Longrightarrow> execution_attempt_conforms x"
  by (auto simp: attempt_from_row_def domain_from_wire_Inr intro: execution_attempt_wire.sound)

lemma policy_row_sound: "policy_from_row row = Inr x \<Longrightarrow> policy_decision_conforms x"
  by (auto simp: policy_from_row_def domain_from_wire_Inr intro: policy_decision_wire.sound)

lemma approval_row_sound: "approval_from_row row = Inr x \<Longrightarrow> approval_conforms x"
  by (auto simp: approval_from_row_def domain_from_wire_Inr intro: approval_wire.sound)

lemma compensation_row_sound: "compensation_from_row row = Inr x \<Longrightarrow> compensation_conforms x"
  by (auto simp: compensation_from_row_def domain_from_wire_Inr intro: compensation_wire.sound)

lemma compensation_attempt_row_sound: "compensation_attempt_from_row row = Inr x \<Longrightarrow> compensation_attempt_conforms x"
  by (auto simp: compensation_attempt_from_row_def domain_from_wire_Inr intro: compensation_attempt_wire.sound)

lemma audit_row_sound: "audit_from_row row = Inr x \<Longrightarrow> audit_event_conforms x"
  by (auto simp: audit_from_row_def domain_from_wire_Inr intro: audit_event_wire.sound)

lemma outbox_row_sound: "outbox_from_row row = Inr x \<Longrightarrow> outbox_event_conforms x"
  by (auto simp: outbox_from_row_def domain_from_wire_Inr intro: outbox_event_wire.sound)

lemma verification_request_id:
  "verification_request_from_wire (wire_dict kvs) = Inr x \<Longrightarrow>
   verification_request_conforms x \<and> require_field kvs ''verification_id'' opaque_id_from_wire = Inr (vq_id x)"
  by (frule verification_request_wire.sound)
    (auto simp: verification_request_from_wire_def make_verification_request_def)

lemma verification_result_id:
  "verification_result_from_wire (wire_dict kvs) = Inr x \<Longrightarrow>
   verification_result_conforms x \<and> require_field kvs ''verification_id'' opaque_id_from_wire = Inr (vs_id x)"
  by (frule verification_result_wire.sound)
    (auto simp: verification_result_from_wire_def make_verification_result_def)

lemma verification_row_sound: "verification_from_row row = Inr v \<Longrightarrow> verification_conforms v"
  by (auto simp: verification_from_row_def domain_from_wire_Inr verification_conforms_def
      dest!: verification_request_id verification_result_id split: option.splits)

lemma reconciliation_row_sound:
  "reconciliation_checks row \<Longrightarrow> reconciliation_from_row row = Inr x \<Longrightarrow>
   stored_reconciliation_conforms x \<and> 1 \<le> sr_operation_version x"
  by (auto simp: reconciliation_from_row_def domain_from_wire_Inr reconciliation_checks_def
      stored_reconciliation_conforms_def uuid_to_opaque_def make_opaque_id_def opaque_id_conforms_def
      intro: reconciliation_decision_wire.sound split: option.splits if_splits)

text \<open>A table: what its rows owe the records, and what follows for all its rows.\<close>

locale stored_table =
  fixes to_row :: "'a \<Rightarrow> 'r" and stored :: "'r \<Rightarrow> 'r \<Rightarrow> bool" and from_row :: "'r \<Rightarrow> 'a fallible"
    and conforms :: "'a \<Rightarrow> bool" and checks :: "'r \<Rightarrow> bool"
  assumes read_back: "conforms x \<Longrightarrow> stored (to_row x) row \<Longrightarrow> from_row row = Inr x"
    and checks_pass: "conforms x \<Longrightarrow> checks (to_row x)"
    and sound: "checks row \<Longrightarrow> from_row row = Inr x \<Longrightarrow> conforms x"
begin

lemma rows_read_back:
  assumes "list_all conforms xs" and "list_all2 stored (map to_row xs) rows"
  shows "map_err from_row rows = Inr xs"
  using assms unfolding map_err_iff by (auto simp: list_all2_conv_all_nth list_all_length intro!: read_back)

lemma rows_sound: "list_all checks rows \<Longrightarrow> map_err from_row rows = Inr xs \<Longrightarrow> list_all conforms xs"
  unfolding map_err_iff by (auto simp: list_all2_conv_all_nth list_all_length intro: sound)

lemma rows_pass: "list_all conforms xs \<Longrightarrow> list_all checks (map to_row xs)"
  by (auto simp: list_all_iff checks_pass)

end

interpretation operations_table: stored_table operation_to_row operation_stored "operation_from_row sha256"
    "operation_conforms sha256" operation_checks for sha256
  by unfold_locales (rule operation_read_back, assumption+, rule operation_checks_pass, assumption, erule operation_row_sound)

interpretation attempts_table: stored_table attempt_to_row attempt_stored attempt_from_row
    execution_attempt_conforms attempt_checks
  by unfold_locales (rule attempt_read_back, assumption+, rule attempt_checks_pass, assumption, erule attempt_row_sound)

interpretation policies_table: stored_table policy_to_row policy_stored policy_from_row
    policy_decision_conforms policy_checks
  by unfold_locales (rule policy_read_back, assumption+, rule policy_checks_pass, assumption, erule policy_row_sound)

interpretation approvals_table: stored_table approval_to_row approval_stored approval_from_row
    approval_conforms approval_checks
  by unfold_locales (rule approval_read_back, assumption+, rule approval_checks_pass, assumption, erule approval_row_sound)

interpretation verifications_table: stored_table "\<lambda>(request, result). verification_to_row request result" verification_stored verification_from_row
    verification_conforms verification_checks
  by unfold_locales (rule verification_pair_read_back, assumption+, rule verification_pair_checks_pass, assumption, erule verification_row_sound)

interpretation compensations_table: stored_table compensation_to_row compensation_stored compensation_from_row
    compensation_conforms compensation_checks
  by unfold_locales (rule compensation_read_back, assumption+, rule compensation_checks_pass, assumption, erule compensation_row_sound)

interpretation undos_table: stored_table compensation_attempt_to_row compensation_attempt_stored compensation_attempt_from_row
    compensation_attempt_conforms compensation_attempt_checks
  by unfold_locales (rule compensation_attempt_read_back, assumption+, rule compensation_attempt_checks_pass, assumption, erule compensation_attempt_row_sound)

interpretation audits_table: stored_table audit_to_row audit_stored audit_from_row
    audit_event_conforms audit_checks
  by unfold_locales (rule audit_read_back, assumption+, rule audit_checks_pass, assumption, erule audit_row_sound)

interpretation outboxes_table: stored_table outbox_to_row outbox_stored outbox_from_row
    outbox_event_conforms outbox_checks
  by unfold_locales (rule outbox_read_back, assumption+, rule outbox_checks_pass, assumption, erule outbox_row_sound)

interpretation reconciliations_table: stored_table reconciliation_to_row reconciliation_stored reconciliation_from_row
    "\<lambda>x. stored_reconciliation_conforms x \<and> 1 \<le> sr_operation_version x" reconciliation_checks
  by unfold_locales (rule reconciliation_version_read_back, assumption+, rule reconciliation_checks_pass, simp, rule reconciliation_row_sound, assumption+)

lemma journal_read_back:
  assumes "journal_conforms sha256 j" and "database_stored (journal_rows j) d"
  shows "read_journal sha256 d = Inr j"
proof -
  note c = assms(1) [unfolded journal_conforms_def]
    and s = assms(2) [unfolded database_stored_def journal_rows_def database.simps]
  note reads = operations_table.rows_read_back [where xs = "j_operations j"]
    attempts_table.rows_read_back [where xs = "j_attempts j"]
    policies_table.rows_read_back [where xs = "j_policy_decisions j"]
    approvals_table.rows_read_back [where xs = "j_approvals j"]
    verifications_table.rows_read_back [where xs = "j_verifications j"]
    compensations_table.rows_read_back [where xs = "j_compensations j"]
    undos_table.rows_read_back [where xs = "j_compensation_attempts j"]
    audits_table.rows_read_back [where xs = "j_audit_events j"]
    outboxes_table.rows_read_back [where xs = "j_outbox_events j"]
    reconciliations_table.rows_read_back [where xs = "j_reconciliations j"]
  show ?thesis
    unfolding read_journal_def using c s by (simp add: reads)
qed

lemma journal_checks:
  assumes "journal_conforms sha256 j"
  shows "database_checks (journal_rows j)"
  using assms unfolding journal_conforms_def database_checks_def journal_rows_def database.simps
  by (auto intro: operations_table.rows_pass attempts_table.rows_pass policies_table.rows_pass approvals_table.rows_pass verifications_table.rows_pass compensations_table.rows_pass undos_table.rows_pass audits_table.rows_pass outboxes_table.rows_pass reconciliations_table.rows_pass)

text \<open>A database that keeps the order of members is one of those the results hold for.\<close>

lemma same_payloads_refl: "list_all2 same_payload vs vs"
  by (simp add: list_all2_same same_refl)

lemma stored_refl:
  "operation_stored r1 r1" "attempt_stored r2 r2" "policy_stored r3 r3" "approval_stored r4 r4"
  "verification_stored r5 r5" "compensation_stored r6 r6" "compensation_attempt_stored r7 r7"
  "audit_stored r8 r8" "outbox_stored r9 r9" "reconciliation_stored r10 r10"
proof -
  show "operation_stored r1 r1" by (cases r1) (auto simp: operation_stored_def intro: same_refl)
  show "attempt_stored r2 r2" by (cases r2) (auto simp: attempt_stored_def intro: same_refl same_payloads_refl)
  show "policy_stored r3 r3" by (cases r3) (auto simp: policy_stored_def intro: same_payloads_refl)
  show "approval_stored r4 r4" by (cases r4) (auto simp: approval_stored_def intro: same_refl)
  show "verification_stored r5 r5" by (cases r5) (auto simp: verification_stored_def intro: same_refl same_payloads_refl)
  show "compensation_stored r6 r6" by (cases r6) (auto simp: compensation_stored_def intro: same_refl)
  show "compensation_attempt_stored r7 r7" by (cases r7) (auto simp: compensation_attempt_stored_def intro: same_refl)
  show "audit_stored r8 r8" by (cases r8) (auto simp: audit_stored_def intro: same_refl)
qed (simp_all add: outbox_stored_def reconciliation_stored_def)

lemma database_stored_refl: "database_stored d d"
  by (simp add: database_stored_def list_all2_same stored_refl)

end
