(* ===== verification/Storage_Properties.thy ===== *)
theory Storage_Properties
  imports Row_Storage
begin

text \<open>
  What the wire forms and the row mapping give the journal: it comes back from the database as it was
  written, whatever is read conforms, and a value the constructors admit but the parsers refuse is
  written and never read again.
\<close>

section \<open>There and back\<close>

text \<open>
  C14. A journal whose records conform is written as rows that pass every CHECK constraint, and from
  whatever the database returns of those rows (the same columns, JSONB objects in any member order) the
  row readers give back exactly that journal.
\<close>

theorem journal_survives_the_database:
  assumes "journal_conforms sha256 j" and "database_stored (journal_rows j) d"
  shows "database_checks (journal_rows j) \<and> read_journal sha256 d = Inr j"
  using journal_checks [OF assms(1)] journal_read_back [OF assms] by simp

text \<open>
  C17. Whatever the readers make of rows that pass the CHECK constraints is well typed: every record
  conforms (its constructor's checks hold, its ids and timestamps are in range, it has no empty string,
  its JSON is canonical), and written again it is the same journal.
\<close>

theorem read_journal_conforms:
  assumes "database_checks d" and "read_journal sha256 d = Inr j"
  shows "journal_conforms sha256 j \<and> read_journal sha256 (journal_rows j) = Inr j"
proof -
  have "journal_conforms sha256 j"
    using assms unfolding database_checks_def read_journal_def journal_conforms_def
    by (auto intro: operations_table.rows_sound attempts_table.rows_sound policies_table.rows_sound
        approvals_table.rows_sound verifications_table.rows_sound compensations_table.rows_sound
        undos_table.rows_sound audits_table.rows_sound outboxes_table.rows_sound
        reconciliations_table.rows_sound)
  then show ?thesis by (simp add: journal_read_back database_stored_refl)
qed

section \<open>Written and not read\<close>

lemma accepted_metadata_distinct:
  "intent_from_parts sha256 effect mode arguments ref requester at' metadata = Inr i \<Longrightarrow>
   distinct (map fst metadata) \<and> in_metadata i = metadata"
  by (auto simp: intent_from_parts_def compute_intent_digest_def make_json_object_Inr Let_def o_def
      distinct_map distinct_sort)

lemma empty_value_refused: "(k, []) \<in> set metadata \<Longrightarrow> distinct (map fst metadata) \<Longrightarrow>
    parse_str_map (str_map_to_wire metadata) \<noteq> Inr items"
proof
  assume kv: "(k, []) \<in> set metadata" "distinct (map fst metadata)"
    and "parse_str_map (str_map_to_wire metadata) = Inr items"
  then obtain pairs where "map_err str_map_item (map (\<lambda>kv. (PyStr (fst kv), PyStr (snd kv))) metadata) = Inr pairs"
    by (auto simp: parse_str_map_def str_map_to_wire_def wire_dict_def dict_of_distinct_pairs o_def)
  then obtain item where "str_map_item (PyStr k, PyStr []) = Inr item"
    using kv(1) by (force simp: map_err_iff list_all2_conv_all_nth in_set_conv_nth)
  then show False by (simp add: str_map_item_def parse_str_iff split: if_splits)
qed

text \<open>
  An operation whose intent was accepted with an empty metadata value is stored and can never be read
  back: every reader of its row raises.
\<close>

lemma empty_metadata_value_is_unreadable:
  assumes "intent_from_parts sha256 effect AM_INLINE arguments None requester requested_at metadata = Inr (op_intent x)"
    and "(k, []) \<in> set metadata"
  shows "\<exists>e. operation_from_row sha256 (operation_to_row x) = Inl e"
proof (cases "operation_from_row sha256 (operation_to_row x)")
  case (Inr y)
  have md: "distinct (map fst metadata)" "in_metadata (op_intent x) = metadata"
    using accepted_metadata_distinct [OF assms(1)] by simp_all
  from Inr obtain items where "parse_str_map (str_map_to_wire metadata) = Inr items"
    by (auto simp: operation_from_row_def operation_to_row_def domain_from_wire_Inr operation_from_wire_def
        intent_envelope_from_wire_def intent_envelope_to_wire_def md(2))
  then show ?thesis using empty_value_refused [OF assms(2) md(1), of items] by simp
qed simp

end
