(* ===== verification/Storage_At_Work.thy ===== *)
theory Storage_At_Work
  imports Storage_Properties Worked_Example
begin

text \<open>Concrete inputs of the properties of storage.\<close>

definition fx_digest :: "string \<Rightarrow> string" where
  "fx_digest text = replicate 64 CHR ''0''"

definition fx_intent_with :: "(string \<times> string) list \<Rightarrow> intent_envelope fallible" where
  "fx_intent_with metadata =
     intent_from_parts fx_digest \<lparr>ef_provider = ''github'', ef_action = ''create_issue'', ef_version = ''v1''\<rparr>
       AM_INLINE (Some (JObject [])) None fx_actor fx_now metadata"

definition fx_with_intent :: "(string \<times> string) list \<Rightarrow> operation \<Rightarrow> operation" where
  "fx_with_intent metadata x =
     (case fx_intent_with metadata of Inr i \<Rightarrow> x\<lparr>op_intent := i\<rparr> | Inl _ \<Rightarrow> x)"

text \<open>The journal of the worked example after execution and compensation, with a digested intent.\<close>

definition fx_stored :: journal where
  "fx_stored = fx_j7\<lparr>j_operations := map (fx_with_intent [(''team'', ''payments'')]) (j_operations fx_j7)\<rparr>"

lemma pred_option_computes [code]:
  "pred_option P None \<longleftrightarrow> True" "pred_option P (Some x) \<longleftrightarrow> P x"
  by simp_all

lemma fx_id_conforms:
  "list_all (\<lambda>c. opaque_id_conforms (fx_id c)) ''0123456789abcdef''"
  by code_simp

lemma fx_parts_conform: "timestamp_conforms fx_now" "principal_ref_conforms fx_actor"
  by code_simp+

lemma fx_stored_audits: "list_all audit_event_conforms (j_audit_events fx_stored)"
  using fx_id_conforms fx_parts_conform
  by (simp add: fx_stored_def fx_j7_def fx_j6_def fx_j5_def fx_j4_def fx_j3_def fx_j2_def fx_j1_def
      engine_eval audit_event_conforms_def)

lemma fx_stored_operations: "list_all (operation_conforms fx_digest) (j_operations fx_stored)"
  by code_simp

lemma fx_stored_attempts: "list_all execution_attempt_conforms (j_attempts fx_stored)"
  by code_simp

lemma fx_stored_policies: "list_all policy_decision_conforms (j_policy_decisions fx_stored)"
  by code_simp

lemma fx_stored_compensations: "list_all compensation_conforms (j_compensations fx_stored)"
  by code_simp

lemma fx_stored_undos: "list_all compensation_attempt_conforms (j_compensation_attempts fx_stored)"
  by code_simp

lemma fx_stored_outbox: "list_all outbox_event_conforms (j_outbox_events fx_stored)"
  by code_simp

lemma fx_stored_rest:
  "j_approvals fx_stored = [] \<and> j_verifications fx_stored = [] \<and> j_reconciliations fx_stored = []"
  by (simp add: fx_stored_def fx_j7_def fx_j6_def fx_j5_def fx_j4_def fx_j3_def fx_j2_def fx_j1_def empty_journal_def)

lemma fx_stored_conforms: "journal_conforms fx_digest fx_stored"
  by (simp add: journal_conforms_def fx_stored_rest fx_stored_audits fx_stored_operations fx_stored_attempts fx_stored_policies fx_stored_compensations fx_stored_undos fx_stored_outbox)

lemma journal_survives_the_database_witness:
  "database_checks (journal_rows fx_stored) \<and> read_journal fx_digest (journal_rows fx_stored) = Inr fx_stored"
  by (rule journal_survives_the_database [OF fx_stored_conforms database_stored_refl])

lemma read_journal_conforms_witness:
  "journal_conforms fx_digest fx_stored"
  using read_journal_conforms [OF journal_checks [OF fx_stored_conforms]
    journal_read_back [OF fx_stored_conforms database_stored_refl]] by simp

definition fx_labelled :: operation where
  "fx_labelled = fx_with_intent [(''team'', [])] fx_op"

lemma fx_labelled_accepted:
  "intent_from_parts fx_digest \<lparr>ef_provider = ''github'', ef_action = ''create_issue'', ef_version = ''v1''\<rparr>
     AM_INLINE (Some (JObject [])) None fx_actor fx_now [(''team'', [])] = Inr (op_intent fx_labelled)"
  by code_simp

lemma fx_labelled_unreadable:
  "operation_from_row fx_digest (operation_to_row fx_labelled) = Inl (MalformedRowError ''empty_string'')"
  by code_simp

end
