(* ===== verification/Wire_Capability.thy ===== *)
theory Wire_Capability
  imports Wire_Records Provider_Boundary Reconciliation
begin

text \<open>
  \<open>to_wire\<close> and \<open>from_wire\<close> of the values that cross the provider boundary (\<^verbatim>\<open>domain/capability.py\<close>) and
  of the input of reconciliation (\<^verbatim>\<open>domain/reconciliation.py\<close>), in the scheme of \<open>Wire_Records\<close>.
\<close>

lemma require_list_back [wire_back]: "require_list (PyList items) = Inr items"
  by (simp add: require_list_def)

lemmas items_wire_back [wire_back] = provider_evidence_wire.items_back execution_attempt_wire.items_back
lemmas items_wire_sound [wire_sound] = provider_evidence_wire.items_sound execution_attempt_wire.items_sound

section \<open>Effect descriptors\<close>

definition KEY_SEMANTICS_FIELDS :: "string list" where
  "KEY_SEMANTICS_FIELDS =
     [''scope'', ''replay_window'', ''same_key_same_request_required'',
      ''conflicting_request_behavior'', ''response_replay_behavior'']"

definition key_semantics_to_wire :: "provider_key_semantics \<Rightarrow> pyobj" where
  "key_semantics_to_wire x = wire_dict
     [(''scope'', PyStr (ks_scope x)),
      (''replay_window'', optional_to_wire PyStr (ks_replay_window x)),
      (''same_key_same_request_required'', PyBool (ks_same_key_same_request_required x)),
      (''conflicting_request_behavior'', PyStr (ks_conflicting_request_behavior x)),
      (''response_replay_behavior'', PyStr (ks_response_replay_behavior x))]"

definition key_semantics_from_wire :: "pyobj \<Rightarrow> provider_key_semantics fallible" where
  "key_semantics_from_wire raw =
     bind_err (require_mapping raw) (\<lambda>data.
     bind_err (reject_unknown_keys data KEY_SEMANTICS_FIELDS) (\<lambda>_.
     bind_err (require_field data ''scope'' parse_str) (\<lambda>scope.
     bind_err (optional_field data ''replay_window'' parse_optional_str) (\<lambda>replay_window.
     bind_err (require_field data ''same_key_same_request_required'' parse_bool) (\<lambda>same_key_same_request_required.
     bind_err (require_field data ''conflicting_request_behavior'' parse_str) (\<lambda>conflicting_request_behavior.
     bind_err (require_field data ''response_replay_behavior'' parse_str) (\<lambda>response_replay_behavior.
     Inr \<lparr>ks_scope = scope, ks_replay_window = replay_window,
        ks_same_key_same_request_required = same_key_same_request_required,
        ks_conflicting_request_behavior = conflicting_request_behavior,
        ks_response_replay_behavior = response_replay_behavior\<rparr>)))))))"

definition key_semantics_conforms :: "provider_key_semantics \<Rightarrow> bool" where
  "key_semantics_conforms x \<longleftrightarrow>
     ks_scope x \<noteq> [] \<and>
     ks_replay_window x \<noteq> Some [] \<and>
     ks_conflicting_request_behavior x \<noteq> [] \<and>
     ks_response_replay_behavior x \<noteq> []"

interpretation key_semantics_wire: wire_format key_semantics_to_wire key_semantics_from_wire key_semantics_conforms
proof unfold_locales
  fix x raw
  show "key_semantics_conforms x \<Longrightarrow> key_semantics_from_wire (key_semantics_to_wire x) = Inr x"
    by (cases x) (simp add: key_semantics_to_wire_def key_semantics_from_wire_def KEY_SEMANTICS_FIELDS_def key_semantics_conforms_def reject_known wire_back)
  show "key_semantics_from_wire raw = Inr x \<Longrightarrow> key_semantics_conforms x"
    by (auto simp: key_semantics_from_wire_def key_semantics_conforms_def dest!: wire_sound)
  show "key_semantics_to_wire x \<noteq> PyNone" by (simp add: key_semantics_to_wire_def wire_dict_def)
qed

lemmas key_semantics_wire_back [wire_back] = key_semantics_wire.parses_back key_semantics_wire.optional_back
lemmas key_semantics_wire_sound [wire_sound] = key_semantics_wire.accepts_conforming [THEN require_sound]
    key_semantics_wire.accepts_conforming [THEN optional_sound]

definition EFFECT_DESCRIPTOR_FIELDS :: "string list" where
  "EFFECT_DESCRIPTOR_FIELDS =
     [''contract_version'', ''effect'', ''mutability'', ''risk_level'', ''idempotency_mode'',
      ''verification_mode'', ''compensation_kind'', ''supports_external_operation_id'',
      ''immediate_response_can_prove_applied'', ''immediate_response_can_prove_not_applied'',
      ''provider_key_semantics'', ''documentation'']"

definition effect_descriptor_to_wire :: "effect_descriptor \<Rightarrow> pyobj" where
  "effect_descriptor_to_wire x = wire_dict
     [(''contract_version'', PyStr (ed_contract_version x)),
      (''effect'', effect_ref_to_wire (ed_effect x)),
      (''mutability'', PyStr (mutability_value (ed_mutability x))),
      (''risk_level'', PyStr (risk_level_value (ed_risk_level x))),
      (''idempotency_mode'', PyStr (idempotency_mode_value (ed_idempotency_mode x))),
      (''verification_mode'', PyStr (verification_mode_value (ed_verification_mode x))),
      (''compensation_kind'', PyStr (compensation_kind_value (ed_compensation_kind x))),
      (''supports_external_operation_id'', PyBool (ed_supports_external_operation_id x)),
      (''immediate_response_can_prove_applied'', PyBool (ed_immediate_response_can_prove_applied x)),
      (''immediate_response_can_prove_not_applied'', PyBool (ed_immediate_response_can_prove_not_applied x)),
      (''provider_key_semantics'', optional_to_wire key_semantics_to_wire (ed_provider_key_semantics x)),
      (''documentation'', PyStr (ed_documentation x))]"

definition make_effect_descriptor :: "effect_descriptor \<Rightarrow> effect_descriptor fallible" where
  "make_effect_descriptor x = bind_err (validate_effect_descriptor x) (\<lambda>_. Inr x)"

definition effect_descriptor_from_wire :: "pyobj \<Rightarrow> effect_descriptor fallible" where
  "effect_descriptor_from_wire raw =
     bind_err (require_mapping raw) (\<lambda>data.
     bind_err (reject_unknown_keys data EFFECT_DESCRIPTOR_FIELDS) (\<lambda>_.
     bind_err (require_field data ''contract_version'' parse_contract_version) (\<lambda>_.
     bind_err (require_field data ''effect'' effect_ref_from_wire) (\<lambda>effect.
     bind_err (require_field data ''mutability'' (parse_enum mutability_members mutability_value)) (\<lambda>mutability.
     bind_err (require_field data ''risk_level'' (parse_enum risk_level_members risk_level_value)) (\<lambda>risk_level.
     bind_err (require_field data ''idempotency_mode'' (parse_enum idempotency_mode_members idempotency_mode_value)) (\<lambda>idempotency_mode.
     bind_err (require_field data ''verification_mode'' (parse_enum verification_mode_members verification_mode_value)) (\<lambda>verification_mode.
     bind_err (require_field data ''compensation_kind'' (parse_enum compensation_kind_members compensation_kind_value)) (\<lambda>compensation_kind.
     bind_err (require_field data ''supports_external_operation_id'' parse_bool) (\<lambda>supports_external_operation_id.
     bind_err (require_field data ''immediate_response_can_prove_applied'' parse_bool) (\<lambda>immediate_response_can_prove_applied.
     bind_err (require_field data ''immediate_response_can_prove_not_applied'' parse_bool) (\<lambda>immediate_response_can_prove_not_applied.
     bind_err (optional_field data ''provider_key_semantics'' (parse_optional key_semantics_from_wire)) (\<lambda>provider_key_semantics.
     bind_err (require_field data ''documentation'' parse_str) (\<lambda>documentation.
     make_effect_descriptor
       \<lparr>ed_contract_version = CONTRACT_VERSION, ed_effect = effect, ed_mutability = mutability,
        ed_risk_level = risk_level, ed_idempotency_mode = idempotency_mode,
        ed_verification_mode = verification_mode,
        ed_compensation_kind = compensation_kind,
        ed_supports_external_operation_id = supports_external_operation_id,
        ed_immediate_response_can_prove_applied = immediate_response_can_prove_applied,
        ed_immediate_response_can_prove_not_applied = immediate_response_can_prove_not_applied,
        ed_provider_key_semantics = provider_key_semantics,
        ed_documentation = documentation\<rparr>))))))))))))))"

definition effect_descriptor_conforms :: "effect_descriptor \<Rightarrow> bool" where
  "effect_descriptor_conforms x \<longleftrightarrow>
     validate_effect_descriptor x = Inr () \<and>
     effect_ref_conforms (ed_effect x) \<and>
     pred_option key_semantics_conforms (ed_provider_key_semantics x) \<and>
     ed_documentation x \<noteq> []"

interpretation effect_descriptor_wire: wire_format effect_descriptor_to_wire effect_descriptor_from_wire effect_descriptor_conforms
proof unfold_locales
  fix x raw
  show "effect_descriptor_conforms x \<Longrightarrow> effect_descriptor_from_wire (effect_descriptor_to_wire x) = Inr x"
    by (cases x) (simp add: effect_descriptor_to_wire_def effect_descriptor_from_wire_def EFFECT_DESCRIPTOR_FIELDS_def effect_descriptor_conforms_def make_effect_descriptor_def validate_effect_descriptor_def reject_known wire_back split: if_splits)
  show "effect_descriptor_from_wire raw = Inr x \<Longrightarrow> effect_descriptor_conforms x"
    by (auto simp: effect_descriptor_from_wire_def effect_descriptor_conforms_def make_effect_descriptor_def dest!: wire_sound)
  show "effect_descriptor_to_wire x \<noteq> PyNone" by (simp add: effect_descriptor_to_wire_def wire_dict_def)
qed

lemmas effect_descriptor_wire_back [wire_back] = effect_descriptor_wire.parses_back effect_descriptor_wire.optional_back
lemmas effect_descriptor_wire_sound [wire_sound] = effect_descriptor_wire.accepts_conforming [THEN require_sound]
    effect_descriptor_wire.accepts_conforming [THEN optional_sound]

section \<open>Calls\<close>

definition EXECUTION_CONTEXT_FIELDS :: "string list" where
  "EXECUTION_CONTEXT_FIELDS =
     [''operation_id'', ''attempt_id'', ''idempotency_identity'', ''provider_idempotency_key'',
      ''correlation_id'', ''deadline'']"

definition execution_context_to_wire :: "provider_execution_context \<Rightarrow> pyobj" where
  "execution_context_to_wire x = wire_dict
     [(''operation_id'', opaque_id_to_wire (px_operation_id x)),
      (''attempt_id'', opaque_id_to_wire (px_attempt_id x)),
      (''idempotency_identity'', PyStr (px_idempotency_identity x)),
      (''provider_idempotency_key'', optional_to_wire PyStr (px_provider_idempotency_key x)),
      (''correlation_id'', optional_to_wire PyStr (px_correlation_id x)),
      (''deadline'', optional_to_wire timestamp_to_wire (px_deadline x))]"

definition execution_context_from_wire :: "pyobj \<Rightarrow> provider_execution_context fallible" where
  "execution_context_from_wire raw =
     bind_err (require_mapping raw) (\<lambda>data.
     bind_err (reject_unknown_keys data EXECUTION_CONTEXT_FIELDS) (\<lambda>_.
     bind_err (require_field data ''operation_id'' opaque_id_from_wire) (\<lambda>operation_id.
     bind_err (require_field data ''attempt_id'' opaque_id_from_wire) (\<lambda>attempt_id.
     bind_err (require_field data ''idempotency_identity'' parse_str) (\<lambda>idempotency_identity.
     bind_err (optional_field data ''provider_idempotency_key'' parse_optional_str) (\<lambda>provider_idempotency_key.
     bind_err (optional_field data ''correlation_id'' parse_optional_str) (\<lambda>correlation_id.
     bind_err (optional_field data ''deadline'' (parse_optional timestamp_from_wire)) (\<lambda>deadline.
     Inr \<lparr>px_operation_id = operation_id, px_attempt_id = attempt_id,
        px_idempotency_identity = idempotency_identity,
        px_provider_idempotency_key = provider_idempotency_key,
        px_correlation_id = correlation_id, px_deadline = deadline\<rparr>))))))))"

definition execution_context_conforms :: "provider_execution_context \<Rightarrow> bool" where
  "execution_context_conforms x \<longleftrightarrow>
     opaque_id_conforms (px_operation_id x) \<and>
     opaque_id_conforms (px_attempt_id x) \<and>
     px_idempotency_identity x \<noteq> [] \<and>
     px_provider_idempotency_key x \<noteq> Some [] \<and>
     px_correlation_id x \<noteq> Some [] \<and>
     pred_option timestamp_conforms (px_deadline x)"

interpretation execution_context_wire: wire_format execution_context_to_wire execution_context_from_wire execution_context_conforms
proof unfold_locales
  fix x raw
  show "execution_context_conforms x \<Longrightarrow> execution_context_from_wire (execution_context_to_wire x) = Inr x"
    by (cases x) (simp add: execution_context_to_wire_def execution_context_from_wire_def EXECUTION_CONTEXT_FIELDS_def execution_context_conforms_def reject_known wire_back)
  show "execution_context_from_wire raw = Inr x \<Longrightarrow> execution_context_conforms x"
    by (auto simp: execution_context_from_wire_def execution_context_conforms_def dest!: wire_sound)
  show "execution_context_to_wire x \<noteq> PyNone" by (simp add: execution_context_to_wire_def wire_dict_def)
qed

lemmas execution_context_wire_back [wire_back] = execution_context_wire.parses_back execution_context_wire.optional_back
lemmas execution_context_wire_sound [wire_sound] = execution_context_wire.accepts_conforming [THEN require_sound]
    execution_context_wire.accepts_conforming [THEN optional_sound]

definition EXECUTION_REQUEST_FIELDS :: "string list" where
  "EXECUTION_REQUEST_FIELDS =
     [''effect'', ''arguments'']"

definition execution_request_to_wire :: "provider_execution_request \<Rightarrow> pyobj" where
  "execution_request_to_wire x = wire_dict
     [(''effect'', effect_ref_to_wire (pq_effect x)),
      (''arguments'', json_to_plain (pq_arguments x))]"

definition execution_request_from_wire :: "pyobj \<Rightarrow> provider_execution_request fallible" where
  "execution_request_from_wire raw =
     bind_err (require_mapping raw) (\<lambda>data.
     bind_err (reject_unknown_keys data EXECUTION_REQUEST_FIELDS) (\<lambda>_.
     bind_err (require_field data ''effect'' effect_ref_from_wire) (\<lambda>effect.
     bind_err (require_field data ''arguments'' parse_json_value) (\<lambda>arguments.
     Inr \<lparr>pq_effect = effect, pq_arguments = arguments\<rparr>))))"

definition execution_request_conforms :: "provider_execution_request \<Rightarrow> bool" where
  "execution_request_conforms x \<longleftrightarrow>
     effect_ref_conforms (pq_effect x) \<and>
     json_wf (pq_arguments x)"

interpretation execution_request_wire: wire_format execution_request_to_wire execution_request_from_wire execution_request_conforms
proof unfold_locales
  fix x raw
  show "execution_request_conforms x \<Longrightarrow> execution_request_from_wire (execution_request_to_wire x) = Inr x"
    by (cases x) (simp add: execution_request_to_wire_def execution_request_from_wire_def EXECUTION_REQUEST_FIELDS_def execution_request_conforms_def reject_known wire_back)
  show "execution_request_from_wire raw = Inr x \<Longrightarrow> execution_request_conforms x"
    by (auto simp: execution_request_from_wire_def execution_request_conforms_def dest!: wire_sound)
  show "execution_request_to_wire x \<noteq> PyNone" by (simp add: execution_request_to_wire_def wire_dict_def)
qed

lemmas execution_request_wire_back [wire_back] = execution_request_wire.parses_back execution_request_wire.optional_back
lemmas execution_request_wire_sound [wire_sound] = execution_request_wire.accepts_conforming [THEN require_sound]
    execution_request_wire.accepts_conforming [THEN optional_sound]

definition EXECUTION_EVIDENCE_FIELDS :: "string list" where
  "EXECUTION_EVIDENCE_FIELDS =
     [''outcome'', ''evidence'', ''error'', ''external_operation_id'', ''external_resource_ids'']"

definition execution_evidence_to_wire :: "execution_evidence \<Rightarrow> pyobj" where
  "execution_evidence_to_wire x = wire_dict
     [(''outcome'', PyStr (effect_outcome_value (xe_outcome x))),
      (''evidence'', optional_to_wire provider_evidence_to_wire (xe_evidence x)),
      (''error'', optional_to_wire normalized_error_to_wire (xe_error x)),
      (''external_operation_id'', optional_to_wire PyStr (xe_external_operation_id x)),
      (''external_resource_ids'', PyList (map PyStr (xe_external_resource_ids x)))]"

definition execution_evidence_from_wire :: "pyobj \<Rightarrow> execution_evidence fallible" where
  "execution_evidence_from_wire raw =
     bind_err (require_mapping raw) (\<lambda>data.
     bind_err (reject_unknown_keys data EXECUTION_EVIDENCE_FIELDS) (\<lambda>_.
     bind_err (require_field data ''outcome'' (parse_enum effect_outcome_members effect_outcome_value)) (\<lambda>outcome.
     bind_err (optional_field data ''evidence'' (parse_optional provider_evidence_from_wire)) (\<lambda>evidence.
     bind_err (optional_field data ''error'' (parse_optional normalized_error_from_wire)) (\<lambda>err.
     bind_err (optional_field data ''external_operation_id'' parse_optional_str) (\<lambda>external_operation_id.
     bind_err (require_field data ''external_resource_ids'' parse_str_list) (\<lambda>external_resource_ids.
     Inr \<lparr>xe_outcome = outcome, xe_evidence = evidence, xe_error = err,
        xe_external_operation_id = external_operation_id,
        xe_external_resource_ids = external_resource_ids\<rparr>)))))))"

definition execution_evidence_conforms :: "execution_evidence \<Rightarrow> bool" where
  "execution_evidence_conforms x \<longleftrightarrow>
     pred_option provider_evidence_conforms (xe_evidence x) \<and>
     pred_option normalized_error_conforms (xe_error x) \<and>
     xe_external_operation_id x \<noteq> Some [] \<and>
     [] \<notin> set (xe_external_resource_ids x)"

interpretation execution_evidence_wire: wire_format execution_evidence_to_wire execution_evidence_from_wire execution_evidence_conforms
proof unfold_locales
  fix x raw
  show "execution_evidence_conforms x \<Longrightarrow> execution_evidence_from_wire (execution_evidence_to_wire x) = Inr x"
    by (cases x) (simp add: execution_evidence_to_wire_def execution_evidence_from_wire_def EXECUTION_EVIDENCE_FIELDS_def execution_evidence_conforms_def reject_known wire_back)
  show "execution_evidence_from_wire raw = Inr x \<Longrightarrow> execution_evidence_conforms x"
    by (auto simp: execution_evidence_from_wire_def execution_evidence_conforms_def dest!: wire_sound)
  show "execution_evidence_to_wire x \<noteq> PyNone" by (simp add: execution_evidence_to_wire_def wire_dict_def)
qed

lemmas execution_evidence_wire_back [wire_back] = execution_evidence_wire.parses_back execution_evidence_wire.optional_back
lemmas execution_evidence_wire_sound [wire_sound] = execution_evidence_wire.accepts_conforming [THEN require_sound]
    execution_evidence_wire.accepts_conforming [THEN optional_sound]

definition VERIFICATION_EVIDENCE_FIELDS :: "string list" where
  "VERIFICATION_EVIDENCE_FIELDS =
     [''outcome'', ''evidence'', ''error'']"

definition verification_evidence_to_wire :: "verification_evidence \<Rightarrow> pyobj" where
  "verification_evidence_to_wire x = wire_dict
     [(''outcome'', PyStr (effect_outcome_value (ve_outcome x))),
      (''evidence'', provider_evidence_to_wire (ve_evidence x)),
      (''error'', optional_to_wire normalized_error_to_wire (ve_error x))]"

definition verification_evidence_from_wire :: "pyobj \<Rightarrow> verification_evidence fallible" where
  "verification_evidence_from_wire raw =
     bind_err (require_mapping raw) (\<lambda>data.
     bind_err (reject_unknown_keys data VERIFICATION_EVIDENCE_FIELDS) (\<lambda>_.
     bind_err (require_field data ''outcome'' (parse_enum effect_outcome_members effect_outcome_value)) (\<lambda>outcome.
     bind_err (require_field data ''evidence'' provider_evidence_from_wire) (\<lambda>evidence.
     bind_err (optional_field data ''error'' (parse_optional normalized_error_from_wire)) (\<lambda>err.
     Inr \<lparr>ve_outcome = outcome, ve_evidence = evidence, ve_error = err\<rparr>)))))"

definition verification_evidence_conforms :: "verification_evidence \<Rightarrow> bool" where
  "verification_evidence_conforms x \<longleftrightarrow>
     provider_evidence_conforms (ve_evidence x) \<and>
     pred_option normalized_error_conforms (ve_error x)"

interpretation verification_evidence_wire: wire_format verification_evidence_to_wire verification_evidence_from_wire verification_evidence_conforms
proof unfold_locales
  fix x raw
  show "verification_evidence_conforms x \<Longrightarrow> verification_evidence_from_wire (verification_evidence_to_wire x) = Inr x"
    by (cases x) (simp add: verification_evidence_to_wire_def verification_evidence_from_wire_def VERIFICATION_EVIDENCE_FIELDS_def verification_evidence_conforms_def reject_known wire_back)
  show "verification_evidence_from_wire raw = Inr x \<Longrightarrow> verification_evidence_conforms x"
    by (auto simp: verification_evidence_from_wire_def verification_evidence_conforms_def dest!: wire_sound)
  show "verification_evidence_to_wire x \<noteq> PyNone" by (simp add: verification_evidence_to_wire_def wire_dict_def)
qed

lemmas verification_evidence_wire_back [wire_back] = verification_evidence_wire.parses_back verification_evidence_wire.optional_back
lemmas verification_evidence_wire_sound [wire_sound] = verification_evidence_wire.accepts_conforming [THEN require_sound]
    verification_evidence_wire.accepts_conforming [THEN optional_sound]

definition COMPENSATION_REQUEST_FIELDS :: "string list" where
  "COMPENSATION_REQUEST_FIELDS =
     [''original_operation_id'', ''compensation_id'', ''compensation_attempt_id'',
      ''original_evidence'', ''compensation_arguments'', ''idempotency_identity'',
      ''provider_idempotency_key'']"

definition compensation_request_to_wire :: "compensation_request \<Rightarrow> pyobj" where
  "compensation_request_to_wire x = wire_dict
     [(''original_operation_id'', opaque_id_to_wire (cq_original_operation_id x)),
      (''compensation_id'', opaque_id_to_wire (cq_compensation_id x)),
      (''compensation_attempt_id'', opaque_id_to_wire (cq_compensation_attempt_id x)),
      (''original_evidence'', PyList (map provider_evidence_to_wire (cq_original_evidence x))),
      (''compensation_arguments'', json_to_plain (cq_compensation_arguments x)),
      (''idempotency_identity'', PyStr (cq_idempotency_identity x)),
      (''provider_idempotency_key'', optional_to_wire PyStr (cq_provider_idempotency_key x))]"

definition compensation_request_from_wire :: "pyobj \<Rightarrow> compensation_request fallible" where
  "compensation_request_from_wire raw =
     bind_err (require_mapping raw) (\<lambda>data.
     bind_err (reject_unknown_keys data COMPENSATION_REQUEST_FIELDS) (\<lambda>_.
     bind_err (require_field data ''original_evidence'' require_list) (\<lambda>original_evidence_raw.
     bind_err (require_field data ''original_operation_id'' opaque_id_from_wire) (\<lambda>original_operation_id.
     bind_err (require_field data ''compensation_id'' opaque_id_from_wire) (\<lambda>compensation_id.
     bind_err (require_field data ''compensation_attempt_id'' opaque_id_from_wire) (\<lambda>compensation_attempt_id.
     bind_err (map_err provider_evidence_from_wire original_evidence_raw) (\<lambda>original_evidence.
     bind_err (require_field data ''compensation_arguments'' parse_json_value) (\<lambda>compensation_arguments.
     bind_err (require_field data ''idempotency_identity'' parse_str) (\<lambda>idempotency_identity.
     bind_err (optional_field data ''provider_idempotency_key'' parse_optional_str) (\<lambda>provider_idempotency_key.
     Inr \<lparr>cq_original_operation_id = original_operation_id, cq_compensation_id = compensation_id,
        cq_compensation_attempt_id = compensation_attempt_id,
        cq_original_evidence = original_evidence,
        cq_compensation_arguments = compensation_arguments,
        cq_idempotency_identity = idempotency_identity,
        cq_provider_idempotency_key = provider_idempotency_key\<rparr>))))))))))"

definition compensation_request_conforms :: "compensation_request \<Rightarrow> bool" where
  "compensation_request_conforms x \<longleftrightarrow>
     opaque_id_conforms (cq_original_operation_id x) \<and>
     opaque_id_conforms (cq_compensation_id x) \<and>
     opaque_id_conforms (cq_compensation_attempt_id x) \<and>
     list_all provider_evidence_conforms (cq_original_evidence x) \<and>
     json_wf (cq_compensation_arguments x) \<and>
     cq_idempotency_identity x \<noteq> [] \<and>
     cq_provider_idempotency_key x \<noteq> Some []"

interpretation compensation_request_wire: wire_format compensation_request_to_wire compensation_request_from_wire compensation_request_conforms
proof unfold_locales
  fix x raw
  show "compensation_request_conforms x \<Longrightarrow> compensation_request_from_wire (compensation_request_to_wire x) = Inr x"
    by (cases x) (simp add: compensation_request_to_wire_def compensation_request_from_wire_def COMPENSATION_REQUEST_FIELDS_def compensation_request_conforms_def reject_known wire_back)
  show "compensation_request_from_wire raw = Inr x \<Longrightarrow> compensation_request_conforms x"
    by (auto simp: compensation_request_from_wire_def compensation_request_conforms_def dest!: wire_sound)
  show "compensation_request_to_wire x \<noteq> PyNone" by (simp add: compensation_request_to_wire_def wire_dict_def)
qed

lemmas compensation_request_wire_back [wire_back] = compensation_request_wire.parses_back compensation_request_wire.optional_back
lemmas compensation_request_wire_sound [wire_sound] = compensation_request_wire.accepts_conforming [THEN require_sound]
    compensation_request_wire.accepts_conforming [THEN optional_sound]

definition COMPENSATION_EVIDENCE_FIELDS :: "string list" where
  "COMPENSATION_EVIDENCE_FIELDS =
     [''outcome'', ''evidence'', ''error'', ''external_operation_id'']"

definition compensation_evidence_to_wire :: "compensation_evidence \<Rightarrow> pyobj" where
  "compensation_evidence_to_wire x = wire_dict
     [(''outcome'', PyStr (effect_outcome_value (ce_outcome x))),
      (''evidence'', optional_to_wire provider_evidence_to_wire (ce_evidence x)),
      (''error'', optional_to_wire normalized_error_to_wire (ce_error x)),
      (''external_operation_id'', optional_to_wire PyStr (ce_external_operation_id x))]"

definition compensation_evidence_from_wire :: "pyobj \<Rightarrow> compensation_evidence fallible" where
  "compensation_evidence_from_wire raw =
     bind_err (require_mapping raw) (\<lambda>data.
     bind_err (reject_unknown_keys data COMPENSATION_EVIDENCE_FIELDS) (\<lambda>_.
     bind_err (require_field data ''outcome'' (parse_enum effect_outcome_members effect_outcome_value)) (\<lambda>outcome.
     bind_err (optional_field data ''evidence'' (parse_optional provider_evidence_from_wire)) (\<lambda>evidence.
     bind_err (optional_field data ''error'' (parse_optional normalized_error_from_wire)) (\<lambda>err.
     bind_err (optional_field data ''external_operation_id'' parse_optional_str) (\<lambda>external_operation_id.
     Inr \<lparr>ce_outcome = outcome, ce_evidence = evidence, ce_error = err,
        ce_external_operation_id = external_operation_id\<rparr>))))))"

definition compensation_evidence_conforms :: "compensation_evidence \<Rightarrow> bool" where
  "compensation_evidence_conforms x \<longleftrightarrow>
     pred_option provider_evidence_conforms (ce_evidence x) \<and>
     pred_option normalized_error_conforms (ce_error x) \<and>
     ce_external_operation_id x \<noteq> Some []"

interpretation compensation_evidence_wire: wire_format compensation_evidence_to_wire compensation_evidence_from_wire compensation_evidence_conforms
proof unfold_locales
  fix x raw
  show "compensation_evidence_conforms x \<Longrightarrow> compensation_evidence_from_wire (compensation_evidence_to_wire x) = Inr x"
    by (cases x) (simp add: compensation_evidence_to_wire_def compensation_evidence_from_wire_def COMPENSATION_EVIDENCE_FIELDS_def compensation_evidence_conforms_def reject_known wire_back)
  show "compensation_evidence_from_wire raw = Inr x \<Longrightarrow> compensation_evidence_conforms x"
    by (auto simp: compensation_evidence_from_wire_def compensation_evidence_conforms_def dest!: wire_sound)
  show "compensation_evidence_to_wire x \<noteq> PyNone" by (simp add: compensation_evidence_to_wire_def wire_dict_def)
qed

lemmas compensation_evidence_wire_back [wire_back] = compensation_evidence_wire.parses_back compensation_evidence_wire.optional_back
lemmas compensation_evidence_wire_sound [wire_sound] = compensation_evidence_wire.accepts_conforming [THEN require_sound]
    compensation_evidence_wire.accepts_conforming [THEN optional_sound]

definition VALIDATION_RESULT_FIELDS :: "string list" where
  "VALIDATION_RESULT_FIELDS =
     [''accepted'', ''error'']"

definition validation_result_to_wire :: "validation_result \<Rightarrow> pyobj" where
  "validation_result_to_wire x = wire_dict
     [(''accepted'', PyBool (vl_accepted x)),
      (''error'', optional_to_wire normalized_error_to_wire (vl_error x))]"

definition make_validation_result :: "validation_result \<Rightarrow> validation_result fallible" where
  "make_validation_result x = bind_err (validate_validation_result x) (\<lambda>_. Inr x)"

definition validation_result_from_wire :: "pyobj \<Rightarrow> validation_result fallible" where
  "validation_result_from_wire raw =
     bind_err (require_mapping raw) (\<lambda>data.
     bind_err (reject_unknown_keys data VALIDATION_RESULT_FIELDS) (\<lambda>_.
     bind_err (require_field data ''accepted'' parse_bool) (\<lambda>accepted.
     bind_err (optional_field data ''error'' (parse_optional normalized_error_from_wire)) (\<lambda>err.
     make_validation_result
       \<lparr>vl_accepted = accepted, vl_error = err\<rparr>))))"

definition validation_result_conforms :: "validation_result \<Rightarrow> bool" where
  "validation_result_conforms x \<longleftrightarrow>
     validate_validation_result x = Inr () \<and>
     pred_option normalized_error_conforms (vl_error x)"

interpretation validation_result_wire: wire_format validation_result_to_wire validation_result_from_wire validation_result_conforms
proof unfold_locales
  fix x raw
  show "validation_result_conforms x \<Longrightarrow> validation_result_from_wire (validation_result_to_wire x) = Inr x"
    by (cases x) (simp add: validation_result_to_wire_def validation_result_from_wire_def VALIDATION_RESULT_FIELDS_def validation_result_conforms_def make_validation_result_def reject_known wire_back)
  show "validation_result_from_wire raw = Inr x \<Longrightarrow> validation_result_conforms x"
    by (auto simp: validation_result_from_wire_def validation_result_conforms_def make_validation_result_def dest!: wire_sound)
  show "validation_result_to_wire x \<noteq> PyNone" by (simp add: validation_result_to_wire_def wire_dict_def)
qed

lemmas validation_result_wire_back [wire_back] = validation_result_wire.parses_back validation_result_wire.optional_back
lemmas validation_result_wire_sound [wire_sound] = validation_result_wire.accepts_conforming [THEN require_sound]
    validation_result_wire.accepts_conforming [THEN optional_sound]

section \<open>The input of reconciliation\<close>

definition RECONCILIATION_INPUT_FIELDS :: "string list" where
  "RECONCILIATION_INPUT_FIELDS =
     [''operation'', ''attempts'', ''verification_result'', ''provider_descriptor'',
      ''policy_obligations'']"

definition reconciliation_input_to_wire :: "reconciliation_input \<Rightarrow> pyobj" where
  "reconciliation_input_to_wire x = wire_dict
     [(''operation'', operation_to_wire (rn_operation x)),
      (''attempts'', PyList (map execution_attempt_to_wire (rn_attempts x))),
      (''verification_result'', verification_result_to_wire (rn_verification_result x)),
      (''provider_descriptor'', effect_descriptor_to_wire (rn_provider_descriptor x)),
      (''policy_obligations'', policy_obligations_to_wire (rn_policy_obligations x))]"

definition reconciliation_input_from_wire :: "(string \<Rightarrow> string) \<Rightarrow> pyobj \<Rightarrow> reconciliation_input fallible" where
  "reconciliation_input_from_wire sha256 raw =
     bind_err (require_mapping raw) (\<lambda>data.
     bind_err (reject_unknown_keys data RECONCILIATION_INPUT_FIELDS) (\<lambda>_.
     bind_err (require_field data ''attempts'' require_list) (\<lambda>attempts_raw.
     bind_err (require_field data ''operation'' (operation_from_wire sha256)) (\<lambda>operation.
     bind_err (map_err execution_attempt_from_wire attempts_raw) (\<lambda>attempts.
     bind_err (require_field data ''verification_result'' verification_result_from_wire) (\<lambda>verification_result.
     bind_err (require_field data ''provider_descriptor'' effect_descriptor_from_wire) (\<lambda>provider_descriptor.
     bind_err (require_field data ''policy_obligations'' policy_obligations_from_wire) (\<lambda>policy_obligations.
     Inr \<lparr>rn_operation = operation, rn_attempts = attempts,
        rn_verification_result = verification_result,
        rn_provider_descriptor = provider_descriptor,
        rn_policy_obligations = policy_obligations\<rparr>))))))))"

definition reconciliation_input_conforms :: "(string \<Rightarrow> string) \<Rightarrow> reconciliation_input \<Rightarrow> bool" where
  "reconciliation_input_conforms sha256 x \<longleftrightarrow>
     operation_conforms sha256 (rn_operation x) \<and>
     list_all execution_attempt_conforms (rn_attempts x) \<and>
     verification_result_conforms (rn_verification_result x) \<and>
     effect_descriptor_conforms (rn_provider_descriptor x) \<and>
     policy_obligations_conforms (rn_policy_obligations x)"

interpretation reconciliation_input_wire: wire_format reconciliation_input_to_wire "reconciliation_input_from_wire sha256" "reconciliation_input_conforms sha256" for sha256
proof unfold_locales
  fix x raw
  show "reconciliation_input_conforms sha256 x \<Longrightarrow> reconciliation_input_from_wire sha256 (reconciliation_input_to_wire x) = Inr x"
    by (cases x) (simp add: reconciliation_input_to_wire_def reconciliation_input_from_wire_def RECONCILIATION_INPUT_FIELDS_def reconciliation_input_conforms_def reject_known wire_back)
  show "reconciliation_input_from_wire sha256 raw = Inr x \<Longrightarrow> reconciliation_input_conforms sha256 x"
    by (auto simp: reconciliation_input_from_wire_def reconciliation_input_conforms_def dest!: wire_sound)
  show "reconciliation_input_to_wire x \<noteq> PyNone" by (simp add: reconciliation_input_to_wire_def wire_dict_def)
qed

lemmas reconciliation_input_wire_back [wire_back] = reconciliation_input_wire.parses_back reconciliation_input_wire.optional_back
lemmas reconciliation_input_wire_sound [wire_sound] = reconciliation_input_wire.accepts_conforming [THEN require_sound]
    reconciliation_input_wire.accepts_conforming [THEN optional_sound]

end
