(* ===== verification/Approval_Service.thy ===== *)
theory Approval_Service
  imports Runtime_Properties Wire_Records
begin

text \<open>
  The package \<^verbatim>\<open>approval/\<close>: a human decides an approval, or its time runs out. The service reads the
  operation and its approval, checks that they belong together and that the principal may decide, and
  leaves the change to one command of the transition engine. The authorizer is a parameter;
  \<open>configured_is_authorized\<close> is the one the package brings.
\<close>

section \<open>Authorization\<close>

type_synonym approver_authorizer = "principal_ref \<Rightarrow> operation \<Rightarrow> approval \<Rightarrow> bool fallible"

record configured_approver_authorizer =
  cfa_allowed_principals :: "(principal_type \<times> string) list"

definition make_configured_approver_authorizer ::
  "configured_approver_authorizer \<Rightarrow> configured_approver_authorizer fallible" where
  "make_configured_approver_authorizer a =
     (let invalid = [t \<leftarrow> map fst (cfa_allowed_principals a). t \<notin> {PT_HUMAN, PT_OPERATOR}]
      in bind_err (guard_err (invalid = []) (ContractValidationError ''invalid_approver_type'')) (\<lambda>_. Inr a))"

definition configured_is_authorized :: "configured_approver_authorizer \<Rightarrow> approver_authorizer" where
  "configured_is_authorized a actor operation approval =
     Inr ((pr_type actor, pr_id actor) \<in> set (cfa_allowed_principals a))"

section \<open>Commands and results\<close>

record approval_decision_ids =
  di_transition_audit_event_id :: opaque_id
  di_approval_audit_event_id :: opaque_id
  di_outbox_event_id :: opaque_id

record approval_decision_command =
  dd_operation_id :: opaque_id
  dd_approval_id :: opaque_id
  dd_expected_version :: int
  dd_decision :: approval_state
  dd_actor :: principal_ref
  dd_reason :: "string option"
  dd_correlation_id :: "string option"
  dd_ids :: approval_decision_ids

definition make_approval_decision_command ::
  "approval_decision_command \<Rightarrow> approval_decision_command fallible" where
  "make_approval_decision_command c =
     bind_err (guard_err (dd_decision c \<in> {AP_APPROVED, AP_REJECTED})
                 (PyValueError ''decision must be APPROVED or REJECTED'')) (\<lambda>_.
     bind_err (guard_err (1 \<le> dd_expected_version c) (PyValueError ''expected_version must be >= 1'')) (\<lambda>_.
     Inr c))"

record approval_expiry_command =
  dx_operation_id :: opaque_id
  dx_approval_id :: opaque_id
  dx_expected_version :: int
  dx_transition_audit_event_id :: opaque_id
  dx_correlation_id :: "string option"

definition make_approval_expiry_command :: "approval_expiry_command \<Rightarrow> approval_expiry_command fallible" where
  "make_approval_expiry_command c =
     bind_err (guard_err (1 \<le> dx_expected_version c) (PyValueError ''expected_version must be >= 1'')) (\<lambda>_.
     Inr c)"

datatype approval_disposition = AR_ACCEPTED | AR_REJECTED | AR_UNAUTHORIZED | AR_INFRASTRUCTURE_FAILURE

record approval_result =
  aq_disposition :: approval_disposition
  aq_reason_code :: string
  aq_operation :: "operation option"
  aq_approval :: "approval option"
  aq_transition :: "transition_result option"

definition approval_answer ::
  "approval_disposition \<Rightarrow> string \<Rightarrow> (operation \<times> approval) option \<Rightarrow> approval_result service" where
  "approval_answer disposition reason loaded =
     return_service \<lparr>aq_disposition = disposition, aq_reason_code = reason,
       aq_operation = map_option fst loaded, aq_approval = map_option snd loaded, aq_transition = None\<rparr>"

section \<open>Reading\<close>

definition load_ids :: "surroundings \<Rightarrow> opaque_id \<Rightarrow> opaque_id \<Rightarrow> (operation \<times> approval) option service" where
  "load_ids S operation_id approval_id =
     read_uow S (\<lambda>j. case (op_get operation_id j, ap_get approval_id j) of
         (Some operation, Some approval) \<Rightarrow> Some (operation, approval)
       | _ \<Rightarrow> None)"

definition binding_error :: "operation \<Rightarrow> approval \<Rightarrow> string option" where
  "binding_error operation approval =
     (if ap_operation_id approval \<noteq> op_id operation then Some ''approval_operation_mismatch''
      else if op_current_approval_id operation \<noteq> Some (ap_id approval) then Some ''approval_not_current''
      else if ap_intent_digest approval \<noteq> in_intent_digest (op_intent operation)
      then Some ''approval_intent_mismatch''
      else if op_current_policy_decision_id operation \<noteq> Some (ap_policy_decision_id approval)
      then Some ''approval_policy_mismatch''
      else if ap_state approval = AP_PENDING
      then (if ap_operation_version approval \<noteq> op_version operation
            then Some ''approval_version_mismatch'' else None)
      else if op_version operation \<le> ap_operation_version approval
      then Some ''approval_version_mismatch''
      else None)"

section \<open>Deciding\<close>

definition terminal_approval ::
  "surroundings \<Rightarrow> approval \<Rightarrow> approval_decision_command \<Rightarrow> approval service" where
  "terminal_approval S approval command =
     bind_service (clock_now S) (\<lambda>now. lift_service (make_approval
       (approval\<lparr>ap_state := dd_decision command, ap_decided_at := Some now,
                 ap_decided_by := Some (dd_actor command), ap_reason := dd_reason command\<rparr>)))"

definition transition_command_for ::
  "surroundings \<Rightarrow> approval_decision_command \<Rightarrow> approval \<Rightarrow> op_command service" where
  "transition_command_for S command approval =
     bind_service (clock_now S) (\<lambda>now.
     let ids = dd_ids command;
         (kind, reason_code, body) =
           (if dd_decision command = AP_APPROVED
            then (TK_APPROVAL_GRANT, ''approval_granted'',
                  ApprovalGrant approval (di_approval_audit_event_id ids) (di_outbox_event_id ids))
            else (TK_APPROVAL_REJECT, ''approval_rejected'',
                  ApprovalReject approval (di_approval_audit_event_id ids)))
     in return_service
          \<lparr>oc_kind = kind, oc_operation_id = dd_operation_id command,
           oc_expected_version = dd_expected_version command, oc_occurred_at = now,
           oc_actor = Some (dd_actor command), oc_correlation_id = dd_correlation_id command,
           oc_reason_code = reason_code,
           oc_transition_audit_event_id = di_transition_audit_event_id ids, oc_body = body\<rparr>)"

text \<open>What a transition result becomes, with the approval as it was read and as it was decided.\<close>

definition approval_from_transition ::
  "approval \<Rightarrow> approval \<Rightarrow> transition_result \<Rightarrow> approval_result service" where
  "approval_from_transition loaded decided result =
     return_service
       (if tr_outcome result = TO_REJECTED
        then \<lparr>aq_disposition = AR_REJECTED, aq_reason_code = tr_reason_code result,
              aq_operation = tr_operation result, aq_approval = Some loaded, aq_transition = Some result\<rparr>
        else \<lparr>aq_disposition = AR_ACCEPTED, aq_reason_code = ''accepted'',
              aq_operation = tr_operation result, aq_approval = Some decided, aq_transition = Some result\<rparr>)"

definition resolve_concurrent ::
  "surroundings \<Rightarrow> approval_decision_command \<Rightarrow> approval_result service" where
  "resolve_concurrent S command =
     bind_service (load_ids S (dd_operation_id command) (dd_approval_id command)) (\<lambda>loaded.
     case loaded of
       None \<Rightarrow> approval_answer AR_REJECTED ''not_found'' None
     | Some (operation, approval) \<Rightarrow>
         (case binding_error operation approval of
            Some reason \<Rightarrow> approval_answer AR_REJECTED reason loaded
          | None \<Rightarrow>
              if ap_state approval = dd_decision command
              then approval_answer AR_ACCEPTED ''already_applied'' loaded
              else approval_answer AR_REJECTED ''concurrency_conflict'' loaded))"

definition apply_decision ::
  "surroundings \<Rightarrow> approval_decision_command \<Rightarrow> approval \<Rightarrow> approval \<Rightarrow> approval_result service" where
  "apply_decision S command approval terminal =
     bind_service (transition_command_for S command terminal) (\<lambda>cmd.
     try_else (in_uow S (apply_command (OperationCommand cmd)))
       (\<lambda>e. if is_concurrency_conflict e then Some (resolve_concurrent S command) else None)
       (approval_from_transition approval terminal))"

definition decide_approval ::
  "surroundings \<Rightarrow> approver_authorizer \<Rightarrow> approval_decision_command \<Rightarrow> approval_result service" where
  "decide_approval S authorizer command =
     bind_service (lift_service (case dd_reason command of
         None \<Rightarrow> Inr () | Some reason \<Rightarrow> reject_secrets_in_str_map [(''reason'', reason)])) (\<lambda>_.
     bind_service (load_ids S (dd_operation_id command) (dd_approval_id command)) (\<lambda>loaded.
     case loaded of
       None \<Rightarrow> approval_answer AR_REJECTED ''not_found'' None
     | Some (operation, approval) \<Rightarrow>
         (case binding_error operation approval of
            Some reason \<Rightarrow> approval_answer AR_REJECTED reason loaded
          | None \<Rightarrow>
              bind_service (lift_service (authorizer (dd_actor command) operation approval)) (\<lambda>authorized.
              if \<not> authorized then approval_answer AR_UNAUTHORIZED ''approver_unauthorized'' loaded
              else
                bind_service (terminal_approval S approval command) (\<lambda>terminal.
                if ap_state approval = dd_decision command
                then approval_answer AR_ACCEPTED ''already_applied'' loaded
                else if ap_state approval \<noteq> AP_PENDING
                then approval_answer AR_REJECTED ''approval_state_conflict'' loaded
                else apply_decision S command approval terminal)))))"

section \<open>Expiring\<close>

definition expired_approval :: "approval \<Rightarrow> utc_timestamp \<Rightarrow> approval" where
  "expired_approval approval now =
     approval\<lparr>ap_state := AP_EXPIRED, ap_decided_at := Some now, ap_decided_by := None,
              ap_reason := Some ''approval_expired''\<rparr>"

definition expiry_command :: "approval_expiry_command \<Rightarrow> approval \<Rightarrow> utc_timestamp \<Rightarrow> op_command" where
  "expiry_command command expired now =
     \<lparr>oc_kind = TK_CANCEL_AWAITING_APPROVAL, oc_operation_id = dx_operation_id command,
      oc_expected_version = dx_expected_version command, oc_occurred_at = now, oc_actor = None,
      oc_correlation_id = dx_correlation_id command, oc_reason_code = ''approval_expired'',
      oc_transition_audit_event_id = dx_transition_audit_event_id command,
      oc_body = CancelAwaitingApproval expired\<rparr>"

text \<open>The \<open>except ConcurrencyConflictError\<close> clause: somebody else expired it, or something else happened.\<close>

definition resolve_expiry_conflict ::
  "surroundings \<Rightarrow> approval_expiry_command \<Rightarrow> operation \<times> approval \<Rightarrow> approval_result service" where
  "resolve_expiry_conflict S command loaded =
     bind_service (load_ids S (dx_operation_id command) (dx_approval_id command)) (\<lambda>refreshed.
     case refreshed of
       Some (operation, approval) \<Rightarrow>
         if binding_error operation approval = None \<and> ap_state approval = AP_EXPIRED
         then approval_answer AR_ACCEPTED ''already_applied'' refreshed
         else approval_answer AR_REJECTED ''concurrency_conflict'' (Some loaded)
     | None \<Rightarrow> approval_answer AR_REJECTED ''concurrency_conflict'' (Some loaded))"

definition expire_approval :: "surroundings \<Rightarrow> approval_expiry_command \<Rightarrow> approval_result service" where
  "expire_approval S command =
     bind_service (load_ids S (dx_operation_id command) (dx_approval_id command)) (\<lambda>loaded.
     case loaded of
       None \<Rightarrow> approval_answer AR_REJECTED ''not_found'' None
     | Some (operation, approval) \<Rightarrow>
         (case binding_error operation approval of
            Some reason \<Rightarrow> approval_answer AR_REJECTED reason loaded
          | None \<Rightarrow>
              if ap_state approval = AP_EXPIRED
              then approval_answer AR_ACCEPTED ''already_applied'' loaded
              else if ap_state approval \<noteq> AP_PENDING
              then approval_answer AR_REJECTED ''approval_state_conflict'' loaded
              else
                bind_service (clock_now S) (\<lambda>now.
                if (case ap_expires_at approval of None \<Rightarrow> True | Some expires_at \<Rightarrow> now < expires_at)
                then approval_answer AR_REJECTED ''approval_not_expired'' loaded
                else
                  bind_service (lift_service (make_approval (expired_approval approval now))) (\<lambda>expired.
                  try_else (in_uow S (apply_command (OperationCommand (expiry_command command expired now))))
                    (\<lambda>e. if is_concurrency_conflict e
                         then Some (resolve_expiry_conflict S command (operation, approval)) else None)
                    (approval_from_transition approval expired)))))"

end
