(* ===== verification/Approval_Properties.thy ===== *)
theory Approval_Properties
  imports Approval_Service
begin

text \<open>
  What the approval service promises: a decision is recorded only for a principal the authorizer
  admits, on the approval the operation waits for, and only an overdue approval expires.
\<close>

section \<open>A decision in the journal\<close>

lemma decision_recorded:
  assumes "apply_command (OperationCommand c) j = Inr (r, j')" and "tr_outcome r = TO_APPLIED"
    and p: "decided_approval_of (oc_body c) = Some p"
  shows "\<exists>a b stored. op_get (oc_operation_id c) j = Some a \<and> op_version a = oc_expected_version c \<and>
    op_state a = OS_AWAITING_APPROVAL \<and>
    op_get (oc_operation_id c) j' = Some b \<and> op_state b = snd (KIND_TO_EDGE (oc_kind c)) \<and>
    ap_get (ap_id p) j = Some stored \<and> ap_state stored = AP_PENDING \<and> ap_get (ap_id p) j' = Some p"
proof -
  obtain a b m j1 where taken: "lifecycle_taken c j r j' a b m j1"
    by (rule lifecycle_applied [OF assms(1,2)])
  note kind = lifecycle_takenD(3) [OF taken] and w = lifecycle_takenD(7) [OF taken]
    and tail = lifecycle_takenD(8) [OF taken]
  have "ap_update_cas_state p AP_PENDING j = Inr j1 \<and> op_state a = OS_AWAITING_APPROVAL"
    using p w lifecycle_takenD(4) [OF taken]
    by (cases "oc_body c") (auto simp: decided_approval_of_def write_reduce_simps kind)
  moreover from this have "\<exists>stored. ap_get (ap_id p) j = Some stored \<and> ap_state stored = AP_PENDING"
    and "ap_get (ap_id p) j1 = Some p" using ap_update_cas_state_get by blast+
  ultimately show ?thesis
    using lifecycle_takenD(1,2,4,9) [OF taken] kind by (auto simp: tail_gets [OF tail])
qed

section \<open>Runs of the service\<close>

lemma approval_steps_conform [service_rules]:
  "conforms S P n (approval_answer d reason loaded)" "conforms S P n (load_ids S i k)"
  "conforms S P n (terminal_approval S p c)" "conforms S P n (transition_command_for S c p)"
  "conforms S P n (approval_from_transition p q t)"
  unfolding approval_answer_def load_ids_def terminal_approval_def transition_command_for_def
    approval_from_transition_def Let_def
  by (intro service_rules)+

lemma approval_conflicts_conform [service_rules]:
  "conforms S P n (resolve_concurrent S c)" "conforms S P n (resolve_expiry_conflict S x l)"
  unfolding resolve_concurrent_def resolve_expiry_conflict_def by (intro service_rules)+

lemma apply_decision_conforms [service_rules]: "conforms S P n (apply_decision S c p q)"
  unfolding apply_decision_def by (intro service_rules)

lemma approval_conforms:
  "conforms S P n (decide_approval S authorizer c)" "conforms S P n (expire_approval S x)"
  unfolding decide_approval_def expire_approval_def by (intro service_rules)+

lemma no_transition: "approval_answer d reason loaded w = (Inr q, w') \<Longrightarrow> aq_transition q = None"
  by (auto simp: approval_answer_def run_simps)

lemma loaded_from_journal:
  assumes "load_ids S i k w = (Inr (Some (a, p)), v)"
  shows "op_get i (wd_journal v) = Some a" and "ap_get k (wd_journal v) = Some p"
  using assms unfolding load_ids_def read_uow_def
  by (auto dest!: in_uow_Inr split: option.split_asm)

lemma conflict_no_transition:
  "resolve_concurrent S c w = (Inr q, w') \<Longrightarrow> aq_transition q = None"
  "resolve_expiry_conflict S x l w = (Inr q, w') \<Longrightarrow> aq_transition q = None"
proof -
  assume "resolve_concurrent S c w = (Inr q, w')"
  then obtain loaded v where run: "(case loaded of None \<Rightarrow> approval_answer AR_REJECTED ''not_found'' None
      | Some (operation, approval) \<Rightarrow> (case binding_error operation approval of
            Some reason \<Rightarrow> approval_answer AR_REJECTED reason loaded
          | None \<Rightarrow> if ap_state approval = dd_decision c then approval_answer AR_ACCEPTED ''already_applied'' loaded
              else approval_answer AR_REJECTED ''concurrency_conflict'' loaded)) v = (Inr q, w')"
    unfolding resolve_concurrent_def bind_service_Inr by blast
  then show "aq_transition q = None"
    by (cases loaded) (auto dest!: no_transition split: option.split_asm if_split_asm)
next
  assume "resolve_expiry_conflict S x l w = (Inr q, w')"
  then obtain refreshed v where "(case refreshed of
       Some (operation, approval) \<Rightarrow>
         if binding_error operation approval = None \<and> ap_state approval = AP_EXPIRED
         then approval_answer AR_ACCEPTED ''already_applied'' refreshed
         else approval_answer AR_REJECTED ''concurrency_conflict'' (Some l)
     | None \<Rightarrow> approval_answer AR_REJECTED ''concurrency_conflict'' (Some l)) v = (Inr q, w')"
    unfolding resolve_expiry_conflict_def bind_service_Inr by blast
  then show "aq_transition q = None"
    by (cases refreshed) (auto dest!: no_transition split: if_split_asm)
qed

lemma terminal_approval_run:
  "terminal_approval S p c x = (Inr q, u) \<Longrightarrow> \<exists>now. q = p\<lparr>ap_state := dd_decision c, ap_decided_at := Some now,
       ap_decided_by := Some (dd_actor c), ap_reason := dd_reason c\<rparr> \<and> wd_journal u = wd_journal x"
  by (auto simp: terminal_approval_def bind_service_Inr run_simps make_approval_def)

text \<open>How a run that ends in a transition went: what it read, the command it gave the engine, and its answer.\<close>

lemma decide_transition:
  assumes "decide_approval S authorizer c w = (Inr q, w')"
    and t: "aq_transition q = Some t"
  shows "\<exists>a p x now cmd v. load_ids S (dd_operation_id c) (dd_approval_id c) w = (Inr (Some (a, p)), x) \<and>
    binding_error a p = None \<and> authorizer (dd_actor c) a p = Inr True \<and> ap_state p = AP_PENDING \<and>
    decided_approval_of (oc_body cmd) = Some (p\<lparr>ap_state := dd_decision c, ap_decided_at := Some now,
       ap_decided_by := Some (dd_actor c), ap_reason := dd_reason c\<rparr>) \<and>
    oc_operation_id cmd = dd_operation_id c \<and>
    oc_kind cmd = (if dd_decision c = AP_APPROVED then TK_APPROVAL_GRANT else TK_APPROVAL_REJECT) \<and>
    q = (if tr_outcome t = TO_REJECTED
         then \<lparr>aq_disposition = AR_REJECTED, aq_reason_code = tr_reason_code t,
               aq_operation = tr_operation t, aq_approval = Some p, aq_transition = Some t\<rparr>
         else \<lparr>aq_disposition = AR_ACCEPTED, aq_reason_code = ''accepted'', aq_operation = tr_operation t,
               aq_approval = decided_approval_of (oc_body cmd), aq_transition = Some t\<rparr>) \<and>
    wd_journal v = wd_journal x \<and> in_uow S (apply_command (OperationCommand cmd)) v = (Inr t, w')"
proof -
  from assms(1) obtain loaded x where load: "load_ids S (dd_operation_id c) (dd_approval_id c) w = (Inr loaded, x)"
    and rest: "(case loaded of
       None \<Rightarrow> approval_answer AR_REJECTED ''not_found'' None
     | Some (operation, approval) \<Rightarrow>
         (case binding_error operation approval of
            Some reason \<Rightarrow> approval_answer AR_REJECTED reason loaded
          | None \<Rightarrow>
              bind_service (lift_service (authorizer (dd_actor c) operation approval)) (\<lambda>authorized.
              if \<not> authorized then approval_answer AR_UNAUTHORIZED ''approver_unauthorized'' loaded
              else
                bind_service (terminal_approval S approval c) (\<lambda>terminal.
                if ap_state approval = dd_decision c
                then approval_answer AR_ACCEPTED ''already_applied'' loaded
                else if ap_state approval \<noteq> AP_PENDING
                then approval_answer AR_REJECTED ''approval_state_conflict'' loaded
                else apply_decision S c approval terminal)))) x = (Inr q, w')"
    unfolding decide_approval_def by (auto simp: bind_service_Inr run_simps)
  from rest t no_transition obtain a p where l: "loaded = Some (a, p)" by (cases loaded) fastforce+
  with rest t have b: "binding_error a p = None" and auth: "authorizer (dd_actor c) a p = Inr True"
    and st: "ap_state p = AP_PENDING"
    and run: "bind_service (terminal_approval S p c) (apply_decision S c p) x = (Inr q, w')"
    by (auto simp: bind_service_Inr run_simps dest!: no_transition split: option.split_asm if_split_asm)
  from run obtain now u terminal where dec: "terminal = p\<lparr>ap_state := dd_decision c, ap_decided_at := Some now,
       ap_decided_by := Some (dd_actor c), ap_reason := dd_reason c\<rparr>"
    and u: "wd_journal u = wd_journal x" and run: "apply_decision S c p terminal u = (Inr q, w')"
  proof -
    from run obtain terminal u where "terminal_approval S p c x = (Inr terminal, u)"
      and "apply_decision S c p terminal u = (Inr q, w')" unfolding bind_service_Inr by blast
    with terminal_approval_run show thesis by (metis that)
  qed
  from run t obtain cmd v where cmd: "transition_command_for S c terminal u = (Inr cmd, v)"
    and uow: "in_uow S (apply_command (OperationCommand cmd)) v = (Inr t, w')"
    and q: "approval_from_transition p terminal t w' = (Inr q, w')"
    unfolding apply_decision_def
    by (auto simp: bind_service_Inr try_else_Inr run_simps approval_from_transition_def
        dest!: conflict_no_transition split: if_split_asm)
  from cmd have "decided_approval_of (oc_body cmd) = Some terminal" "oc_operation_id cmd = dd_operation_id c"
    "oc_kind cmd = (if dd_decision c = AP_APPROVED then TK_APPROVAL_GRANT else TK_APPROVAL_REJECT)"
    "wd_journal v = wd_journal u"
    by (auto simp: transition_command_for_def bind_service_Inr run_simps Let_def decided_approval_of_def split: if_split_asm)
  moreover from q have "q = (if tr_outcome t = TO_REJECTED
         then \<lparr>aq_disposition = AR_REJECTED, aq_reason_code = tr_reason_code t,
               aq_operation = tr_operation t, aq_approval = Some p, aq_transition = Some t\<rparr>
         else \<lparr>aq_disposition = AR_ACCEPTED, aq_reason_code = ''accepted'', aq_operation = tr_operation t,
               aq_approval = Some terminal, aq_transition = Some t\<rparr>)"
    by (simp add: approval_from_transition_def run_simps split: if_split_asm)
  ultimately show ?thesis using load b auth st uow dec u l by metis
qed

lemma binding_error_None:
  "binding_error a p = None \<longleftrightarrow>
     ap_operation_id p = op_id a \<and> op_current_approval_id a = Some (ap_id p) \<and>
     ap_intent_digest p = in_intent_digest (op_intent a) \<and>
     op_current_policy_decision_id a = Some (ap_policy_decision_id p) \<and>
     (if ap_state p = AP_PENDING then ap_operation_version p = op_version a
      else ap_operation_version p < op_version a)"
  by (auto simp: binding_error_def)

definition decision_on_file ::
  "approver_authorizer \<Rightarrow> approval_decision_command \<Rightarrow> journal \<Rightarrow> journal \<Rightarrow> bool" where
  "decision_on_file authorizer c j j' \<longleftrightarrow>
     (\<exists>k a p now b. later j k \<and> later k j' \<and>
        op_get (dd_operation_id c) k = Some a \<and> ap_get (dd_approval_id c) k = Some p \<and>
        op_current_approval_id a = Some (ap_id p) \<and> ap_intent_digest p = in_intent_digest (op_intent a) \<and>
        op_current_policy_decision_id a = Some (ap_policy_decision_id p) \<and>
        ap_state p = AP_PENDING \<and> ap_operation_version p = op_version a \<and>
        authorizer (dd_actor c) a p = Inr True \<and>
        op_get (dd_operation_id c) j' = Some b \<and>
        op_state b = (if dd_decision c = AP_APPROVED then OS_READY else OS_DENIED) \<and>
        ap_get (dd_approval_id c) j' =
          Some (p\<lparr>ap_state := dd_decision c, ap_decided_at := Some now,
                  ap_decided_by := Some (dd_actor c), ap_reason := dd_reason c\<rparr>))"

text \<open>
  C18. Nobody but an admitted principal decides: whatever the others do, \<open>decide\<close> makes no provider call
  and changes the journal by system steps only; and when it answers with an applied transition, the
  authorizer admitted the actor for the operation and the pending approval it waits for (current, and
  bound to its intent, version and policy decision), the operation is READY for an approval and DENIED
  for a rejection, and the approval is stored as decided by that actor, in no other field changed.
\<close>

theorem approvals_need_authority:
  assumes "others_follow S" and "decide_approval S authorizer command w = (r, w')"
  shows "later (wd_journal w) (wd_journal w') \<and> wd_calls w' = wd_calls w \<and>
    (\<forall>q t. r = Inr q \<and> aq_transition q = Some t \<and> tr_outcome t = TO_APPLIED \<longrightarrow>
       decision_on_file authorizer command (wd_journal w) (wd_journal w'))"
proof -
  obtain cs where calm: "later (wd_journal w) (wd_journal w')" "wd_calls w' = wd_calls w @ cs" "length cs \<le> 0"
    by (rule conformsD [OF approval_conforms(1) [of S "\<lambda>_ _. True" 0 authorizer command] assms])
  have "decision_on_file authorizer command (wd_journal w) (wd_journal w')"
    if q: "r = Inr q" "aq_transition q = Some t" "tr_outcome t = TO_APPLIED" for q t
  proof -
    obtain a p x now cmd v where
      load: "load_ids S (dd_operation_id command) (dd_approval_id command) w = (Inr (Some (a, p)), x)"
      and b: "binding_error a p = None" "ap_state p = AP_PENDING"
      and auth: "authorizer (dd_actor command) a p = Inr True"
      and dec: "decided_approval_of (oc_body cmd) = Some (p\<lparr>ap_state := dd_decision command,
         ap_decided_at := Some now, ap_decided_by := Some (dd_actor command), ap_reason := dd_reason command\<rparr>)"
      and cmd: "oc_operation_id cmd = dd_operation_id command"
        "oc_kind cmd = (if dd_decision command = AP_APPROVED then TK_APPROVAL_GRANT else TK_APPROVAL_REJECT)"
      and v: "wd_journal v = wd_journal x" and uow: "in_uow S (apply_command (OperationCommand cmd)) v = (Inr t, w')"
      using decide_transition [OF assms(2) [unfolded q(1)] q(2)] by blast
    obtain xs where x: "later (wd_journal w) (wd_journal x)"
      by (rule conformsD [OF approval_steps_conform(2) [of S "\<lambda>_ _. True" 0] assms(1) load])
    obtain ys where v': "later (wd_journal v) (wd_journal w')"
      by (rule conformsD [OF conforms_uow [OF system_bodies(2), of S "\<lambda>_ _. True" 0] assms(1) uow])
    note at = loaded_from_journal [OF load] and rec = decision_recorded [OF in_uow_Inr [OF uow] q(3) dec]
    have id: "ap_id p = dd_approval_id command" using at(2) by (auto simp: ap_get_def dest: tbl_get_Some_key)
    obtain b where b': "op_get (dd_operation_id command) (wd_journal w') = Some b"
      "op_state b = (if dd_decision command = AP_APPROVED then OS_READY else OS_DENIED)"
      and filed: "ap_get (dd_approval_id command) (wd_journal w') = Some (p\<lparr>ap_state := dd_decision command,
         ap_decided_at := Some now, ap_decided_by := Some (dd_actor command), ap_reason := dd_reason command\<rparr>)"
      using rec cmd id by auto
    show ?thesis unfolding decision_on_file_def
      using x v' [unfolded v] at b' filed auth b(2) b(1) [unfolded binding_error_None] by (metis (full_types))
  qed
  with calm show ?thesis by auto
qed

section \<open>Expiry\<close>

lemma expire_applied:
  assumes "expire_approval S c w = (Inr q, w')"
    and t: "aq_transition q = Some t" "tr_outcome t = TO_APPLIED"
  shows "\<exists>a p x now e v. load_ids S (dx_operation_id c) (dx_approval_id c) w = (Inr (Some (a, p)), x) \<and>
    binding_error a p = None \<and> ap_state p = AP_PENDING \<and> ap_expires_at p = Some e \<and> e \<le> now \<and>
    wd_journal v = wd_journal x \<and>
    in_uow S (apply_command (OperationCommand (expiry_command c (expired_approval p now) now))) v = (Inr t, w')"
proof -
  from assms(1) obtain loaded x where load: "load_ids S (dx_operation_id c) (dx_approval_id c) w = (Inr loaded, x)"
    and rest: "(case loaded of
       None \<Rightarrow> approval_answer AR_REJECTED ''not_found'' None
     | Some (operation, approval) \<Rightarrow>
         (case binding_error operation approval of
            Some reason \<Rightarrow> approval_answer AR_REJECTED reason loaded
          | None \<Rightarrow>
              if ap_state approval = AP_EXPIRED then approval_answer AR_ACCEPTED ''already_applied'' loaded
              else if ap_state approval \<noteq> AP_PENDING then approval_answer AR_REJECTED ''approval_state_conflict'' loaded
              else
                bind_service (clock_now S) (\<lambda>now.
                if (case ap_expires_at approval of None \<Rightarrow> True | Some expires_at \<Rightarrow> now < expires_at)
                then approval_answer AR_REJECTED ''approval_not_expired'' loaded
                else
                  bind_service (lift_service (make_approval (expired_approval approval now))) (\<lambda>expired.
                  try_else (in_uow S (apply_command (OperationCommand (expiry_command c expired now))))
                    (\<lambda>e. if is_concurrency_conflict e
                         then Some (resolve_expiry_conflict S c (operation, approval)) else None)
                    (approval_from_transition approval expired))))) x = (Inr q, w')"
    unfolding expire_approval_def by (auto simp: bind_service_Inr)
  from rest t(1) no_transition obtain a p where l: "loaded = Some (a, p)" by (cases loaded) fastforce+
  with rest t(1) have b: "binding_error a p = None" "ap_state p = AP_PENDING"
    by (auto dest!: no_transition split: option.split_asm if_split_asm)
  define now where "now = su_clock S (wd_clock x)"
  from rest t(1) obtain e where e: "ap_expires_at p = Some e" "e \<le> now"
    and run: "try_else (in_uow S (apply_command (OperationCommand (expiry_command c (expired_approval p now) now))))
       (\<lambda>e. if is_concurrency_conflict e then Some (resolve_expiry_conflict S c (a, p)) else None)
       (approval_from_transition p (expired_approval p now)) (x\<lparr>wd_clock := Suc (wd_clock x)\<rparr>) = (Inr q, w')"
    unfolding l option.case prod.case b if_P [OF refl] now_def
    by (auto simp: bind_service_Inr run_simps make_approval_def not_less dest!: no_transition
        split: option.split_asm if_split_asm)
  from run t have "in_uow S (apply_command (OperationCommand (expiry_command c (expired_approval p now) now)))
      (x\<lparr>wd_clock := Suc (wd_clock x)\<rparr>) = (Inr t, w')"
    by (auto simp: try_else_Inr run_simps approval_from_transition_def dest!: conflict_no_transition split: if_split_asm)
  with load l b e show ?thesis
    by (intro exI [of _ a] exI [of _ p] exI [of _ x] exI [of _ now] exI [of _ e]
        exI [of _ "x\<lparr>wd_clock := Suc (wd_clock x)\<rparr>"]) simp
qed

text \<open>
  Only an overdue approval expires: whatever the others do, \<open>expire\<close> makes no provider call and changes
  the journal by system steps only; and when it answers with an applied transition, the pending approval it
  read had an expiry that had passed, the operation is CANCELLED, and the approval is stored EXPIRED,
  decided by nobody.
\<close>

lemma only_overdue_approvals_expire:
  assumes "others_follow S" and "expire_approval S command w = (r, w')"
  shows "later (wd_journal w) (wd_journal w') \<and> wd_calls w' = wd_calls w \<and>
    (\<forall>q t. r = Inr q \<and> aq_transition q = Some t \<and> tr_outcome t = TO_APPLIED \<longrightarrow>
       (\<exists>k p e now b. later (wd_journal w) k \<and> ap_get (dx_approval_id command) k = Some p \<and>
          ap_state p = AP_PENDING \<and> ap_expires_at p = Some e \<and> e \<le> now \<and>
          op_get (dx_operation_id command) (wd_journal w') = Some b \<and> op_state b = OS_CANCELLED \<and>
          ap_get (dx_approval_id command) (wd_journal w') = Some (expired_approval p now)))"
proof -
  obtain cs where calm: "later (wd_journal w) (wd_journal w')" "wd_calls w' = wd_calls w @ cs" "length cs \<le> 0"
    by (rule conformsD [OF approval_conforms(2) [of S "\<lambda>_ _. True" 0 command] assms])
  have "\<exists>k p e now b. later (wd_journal w) k \<and> ap_get (dx_approval_id command) k = Some p \<and>
      ap_state p = AP_PENDING \<and> ap_expires_at p = Some e \<and> e \<le> now \<and>
      op_get (dx_operation_id command) (wd_journal w') = Some b \<and> op_state b = OS_CANCELLED \<and>
      ap_get (dx_approval_id command) (wd_journal w') = Some (expired_approval p now)"
    if q: "r = Inr q" "aq_transition q = Some t" "tr_outcome t = TO_APPLIED" for q t
  proof -
    obtain a p x now e v where
      load: "load_ids S (dx_operation_id command) (dx_approval_id command) w = (Inr (Some (a, p)), x)"
      and p: "ap_state p = AP_PENDING" "ap_expires_at p = Some e" "e \<le> now"
      and uow: "in_uow S (apply_command (OperationCommand (expiry_command command (expired_approval p now) now))) v =
        (Inr t, w')"
      using expire_applied [OF assms(2) [unfolded q(1)] q(2,3)] by blast
    obtain xs where x: "later (wd_journal w) (wd_journal x)"
      by (rule conformsD [OF approval_steps_conform(2) [of S "\<lambda>_ _. True" 0] assms(1) load])
    have "decided_approval_of (oc_body (expiry_command command (expired_approval p now) now)) =
        Some (expired_approval p now)"
      by (simp add: expiry_command_def decided_approval_of_def)
    note rec = decision_recorded [OF in_uow_Inr [OF uow] q(3) this] and at = loaded_from_journal(2) [OF load]
    have "ap_id (expired_approval p now) = dx_approval_id command"
      using at by (auto simp: expired_approval_def ap_get_def dest: tbl_get_Some_key)
    with rec have "\<exists>b. op_get (dx_operation_id command) (wd_journal w') = Some b \<and> op_state b = OS_CANCELLED \<and>
        ap_get (dx_approval_id command) (wd_journal w') = Some (expired_approval p now)"
      by (auto simp: expiry_command_def)
    with x at p show ?thesis by blast
  qed
  with calm show ?thesis by auto
qed

section \<open>The answer that is not on file\<close>

text \<open>
  C19. A decision that lost its race to another principal's decision of the same kind is reported as made: when
  the engine answers ALREADY_APPLIED (the other approval, or the other rejection, was committed between the read and
  the command, so the operation is already in the target state one version later) and the approval on file was
  decided by somebody else, the service answers ACCEPTED with an approval decided by this actor, which is not the
  one on file. A lost race between an approval and a rejection is not of this kind: it is not accepted.
\<close>

theorem lost_race_is_reported_as_decided:
  assumes "decide_approval S authorizer command w = (Inr q, w')"
    and "aq_transition q = Some t" and "tr_outcome t = TO_ALREADY_APPLIED"
    and "ap_get (dd_approval_id command) (wd_journal w') = Some stored"
    and "ap_decided_by stored \<noteq> Some (dd_actor command)"
  shows "aq_disposition q = AR_ACCEPTED \<and> aq_reason_code q = ''accepted'' \<and>
    (\<exists>p. aq_approval q = Some p \<and> ap_decided_by p = Some (dd_actor command) \<and> p \<noteq> stored)"
proof -
  from decide_transition [OF assms(1,2)] show ?thesis
    by (elim exE conjE) (use assms(3,5) in auto)
qed

end
