(* ===== verification/Approval_At_Work.thy ===== *)
theory Approval_At_Work
  imports Approval_Properties Worked_Example
begin

text \<open>The approval service at the worked example: an operation that awaits approval.\<close>

definition fx_quiet :: surroundings where
  "fx_quiet = \<lparr>su_others = (\<lambda>_ j. j), su_clock = (\<lambda>_. fx_now)\<rparr>"

lemma fx_quiet_follows: "others_follow fx_quiet"
  by (simp add: others_follow_def fx_quiet_def later.refl)

definition fx_start :: "journal \<Rightarrow> world" where
  "fx_start j = \<lparr>wd_journal = j, wd_calls = [], wd_clock = 0, wd_turn = 0\<rparr>"

definition fx_bob :: principal_ref where
  "fx_bob = \<lparr>pr_type = PT_OPERATOR, pr_id = ''bob'', pr_display_name = None\<rparr>"

definition fx_approvers :: configured_approver_authorizer where
  "fx_approvers = \<lparr>cfa_allowed_principals = [(PT_HUMAN, ''alice''), (PT_OPERATOR, ''bob'')]\<rparr>"

definition fx_decide :: approval_decision_command where
  "fx_decide = \<lparr>dd_operation_id = fx_id CHR ''1'', dd_approval_id = fx_id CHR ''f'', dd_expected_version = 2,
     dd_decision = AP_APPROVED, dd_actor = fx_bob, dd_reason = None, dd_correlation_id = None,
     dd_ids = \<lparr>di_transition_audit_event_id = fx_id CHR ''6'', di_approval_audit_event_id = fx_id CHR ''7'',
       di_outbox_event_id = fx_id CHR ''8''\<rparr>\<rparr>"

abbreviation fx_decision_run :: "surroundings \<Rightarrow> approval_result fallible \<times> world" where
  "fx_decision_run S \<equiv> decide_approval S (configured_is_authorized fx_approvers) fx_decide (fx_start fx_j2a)"

lemma fx_decision_applied:
  "case fst (fx_decision_run fx_quiet) of
     Inl e \<Rightarrow> False
   | Inr q \<Rightarrow> map_option tr_outcome (aq_transition q) = Some TO_APPLIED"
  by code_simp

lemma approvals_need_authority_witness:
  "\<exists>j'. later fx_j2a j' \<and> decision_on_file (configured_is_authorized fx_approvers) fx_decide fx_j2a j'"
  using approvals_need_authority [OF fx_quiet_follows prod.collapse [symmetric, of "fx_decision_run fx_quiet"]]
    fx_decision_applied
  by (auto simp: fx_start_def split: sum.split_asm)

text \<open>The example's approver decides while this command is on its way.\<close>

definition fx_race :: surroundings where
  "fx_race = \<lparr>su_others = (\<lambda>n j. if n = 1 then fx_j3a else j), su_clock = (\<lambda>_. fx_now)\<rparr>"

lemma fx_race_lost:
  "case fst (fx_decision_run fx_race) of
     Inl e \<Rightarrow> False
   | Inr q \<Rightarrow> map_option tr_outcome (aq_transition q) = Some TO_ALREADY_APPLIED"
  "map_option ap_decided_by (ap_get (fx_id CHR ''f'') (wd_journal (snd (fx_decision_run fx_race)))) = Some (Some fx_actor)"
  by code_simp+

lemma lost_race_is_reported_as_decided_witness:
  "\<exists>q p. fst (fx_decision_run fx_race) = Inr q \<and> aq_disposition q = AR_ACCEPTED \<and> aq_approval q = Some p \<and>
     ap_decided_by p = Some fx_bob"
proof -
  obtain q w' where run: "fx_decision_run fx_race = (Inr q, w')"
    and t: "map_option tr_outcome (aq_transition q) = Some TO_ALREADY_APPLIED"
    using fx_race_lost(1) by (cases "fx_decision_run fx_race") (auto split: sum.split_asm)
  then obtain tr where tr: "aq_transition q = Some tr" "tr_outcome tr = TO_ALREADY_APPLIED" by auto
  from fx_race_lost(2) run obtain stored where "ap_get (dd_approval_id fx_decide) (wd_journal w') = Some stored"
    and "ap_decided_by stored = Some fx_actor" by (auto simp: fx_decide_def)
  with lost_race_is_reported_as_decided [OF run tr this(1)] run show ?thesis
    by (auto simp: fx_actor_def fx_bob_def fx_decide_def)
qed

section \<open>An overdue approval\<close>

definition fx_overdue :: journal where
  "fx_overdue = fx_j2a\<lparr>j_approvals := [fx_approval\<lparr>ap_expires_at := Some (UtcTimestamp 500)\<rparr>]\<rparr>"

definition fx_expire :: approval_expiry_command where
  "fx_expire = \<lparr>dx_operation_id = fx_id CHR ''1'', dx_approval_id = fx_id CHR ''f'', dx_expected_version = 2,
     dx_transition_audit_event_id = fx_id CHR ''6'', dx_correlation_id = None\<rparr>"

abbreviation fx_expiry_run :: "approval_result fallible \<times> world" where
  "fx_expiry_run \<equiv> expire_approval fx_quiet fx_expire (fx_start fx_overdue)"

lemma fx_expiry_applied:
  "case fst fx_expiry_run of
     Inl e \<Rightarrow> False
   | Inr q \<Rightarrow> map_option tr_outcome (aq_transition q) = Some TO_APPLIED"
  by code_simp

end
