(* ===== verification/Json_Text.thy ===== *)
theory Json_Text
  imports Intent_Digest Wire_Format
begin

text \<open>
  JSON text as Python's \<open>json\<close> reads it (the decoder of the standard library, whose recursion depth is a
  parameter), and as \<^verbatim>\<open>domain/serde.py\<close> and \<^verbatim>\<open>messaging/codec.py\<close> write it. A \<open>JSONDecodeError\<close> is a
  \<open>ValueError\<close> with that name; a number of more than 4300 digits raises a plain \<open>ValueError\<close>, and nesting
  past the recursion depth a \<open>RecursionError\<close>. Strings are sequences of code points below 256: what
  decodes to any other is \<open>unmodelled\<close>.
\<close>

definition json_decode_error :: sb_error where
  "json_decode_error = PyValueError ''JSONDecodeError''"

definition unmodelled :: sb_error where
  "unmodelled = OtherException ''code point outside the model''"

section \<open>Scanning strings and numbers\<close>

definition is_json_space :: "char \<Rightarrow> bool" where
  "is_json_space c \<longleftrightarrow> c = CHR '' '' \<or> c = CHR 0x09 \<or> c = CHR 0x0A \<or> c = CHR 0x0D"

definition skip_space :: "string \<Rightarrow> string" where
  "skip_space s = dropWhile is_json_space s"

definition hex_digit_of :: "char \<Rightarrow> nat option" where
  "hex_digit_of c =
     (let n = of_char c in
      if 48 \<le> n \<and> n \<le> 57 then Some (n - 48)
      else if 97 \<le> n \<and> n \<le> 102 then Some (n - 87)
      else if 65 \<le> n \<and> n \<le> 70 then Some (n - 55)
      else None)"

definition escaped_char :: "char \<Rightarrow> char option" where
  "escaped_char c =
     (if c = CHR 0x22 \<or> c = CHR 0x5C \<or> c = CHR ''/'' then Some c
      else if c = CHR ''b'' then Some (CHR 0x08) else if c = CHR ''f'' then Some (CHR 0x0C)
      else if c = CHR ''n'' then Some (CHR 0x0A) else if c = CHR ''r'' then Some (CHR 0x0D)
      else if c = CHR ''t'' then Some (CHR 0x09)
      else None)"

text \<open>The four digits after \<^verbatim>\<open>\u\<close>.\<close>

definition code_point :: "char \<Rightarrow> char \<Rightarrow> char \<Rightarrow> char \<Rightarrow> char fallible" where
  "code_point a b c d =
     (case (hex_digit_of a, hex_digit_of b, hex_digit_of c, hex_digit_of d) of
        (Some w, Some x, Some y, Some z) \<Rightarrow>
          (let n = ((16 * w + x) * 16 + y) * 16 + z in if n < 256 then Inr (char_of n) else Inl unmodelled)
      | _ \<Rightarrow> Inl json_decode_error)"

definition prepend :: "char \<Rightarrow> (string \<times> string) fallible \<Rightarrow> (string \<times> string) fallible" where
  "prepend c rest = bind_err rest (\<lambda>(s, r). Inr (c # s, r))"

text \<open>What stands for one character after a backslash.\<close>

definition scan_escape :: "string \<Rightarrow> (char \<times> string) fallible" where
  "scan_escape s =
     (case s of
        [] \<Rightarrow> Inl json_decode_error
      | e # t \<Rightarrow>
          if e = CHR ''u'' then
            (case t of
               w # x # y # z # u \<Rightarrow> bind_err (code_point w x y z) (\<lambda>d. Inr (d, u))
             | _ \<Rightarrow> Inl json_decode_error)
          else (case escaped_char e of None \<Rightarrow> Inl json_decode_error | Some d \<Rightarrow> Inr (d, t)))"

lemma scan_escape_length: "scan_escape s = Inr (d, r) \<Longrightarrow> length r < length s"
proof -
  assume run: "scan_escape s = Inr (d, r)"
  then obtain e t where s: "s = e # t" by (cases s) (simp_all add: scan_escape_def)
  show ?thesis
  proof (cases "e = CHR ''u''")
    case True
    with run s have "\<exists>w x y z. t = w # x # y # z # r" by (auto simp: scan_escape_def split: list.split_asm)
    with s show ?thesis by auto
  next
    case False
    with run s show ?thesis by (auto simp: scan_escape_def split: option.split_asm)
  qed
qed

function scan_string :: "string \<Rightarrow> (string \<times> string) fallible" where
  "scan_string s =
     (case s of
        [] \<Rightarrow> Inl json_decode_error
      | c # t \<Rightarrow>
          if c = CHR 0x22 then Inr ([], t)
          else if c = CHR 0x5C then bind_err (scan_escape t) (\<lambda>(d, r). prepend d (scan_string r))
          else if (of_char c :: nat) < 32 then Inl json_decode_error
          else prepend c (scan_string t))"
  by pat_completeness auto
termination
  by (relation "measure length") (auto dest!: scan_escape_length)

lemma scan_string_Cons:
  "scan_string [] = Inl json_decode_error"
  "scan_string (c # t) =
     (if c = CHR 0x22 then Inr ([], t)
      else if c = CHR 0x5C then bind_err (scan_escape t) (\<lambda>(d, r). prepend d (scan_string r))
      else if (of_char c :: nat) < 32 then Inl json_decode_error
      else prepend c (scan_string t))"
  by simp_all

declare scan_string.simps [simp del]

definition MAX_STR_DIGITS :: nat where "MAX_STR_DIGITS = 4300"

definition scan_integer :: "string \<Rightarrow> (string \<times> string) option" where
  "scan_integer s =
     (case s of
        [] \<Rightarrow> None
      | c # t \<Rightarrow>
          if c = CHR ''0'' then Some (''0'', t)
          else if is_digit_char c then Some (takeWhile is_digit_char s, dropWhile is_digit_char s)
          else None)"

definition skip_fraction :: "string \<Rightarrow> string" where
  "skip_fraction s =
     (case s of
        c # d # t \<Rightarrow> if c = CHR ''.'' \<and> is_digit_char d then dropWhile is_digit_char t else s
      | _ \<Rightarrow> s)"

definition skip_sign :: "string \<Rightarrow> string" where
  "skip_sign s = (if s \<noteq> [] \<and> (hd s = CHR ''+'' \<or> hd s = CHR ''-'') then tl s else s)"

definition skip_exponent :: "string \<Rightarrow> string" where
  "skip_exponent s =
     (if s \<noteq> [] \<and> (hd s = CHR ''e'' \<or> hd s = CHR ''E'') \<and>
         skip_sign (tl s) \<noteq> [] \<and> is_digit_char (hd (skip_sign (tl s)))
      then dropWhile is_digit_char (skip_sign (tl s)) else s)"

definition scan_number :: "string \<Rightarrow> (pyobj \<times> string) fallible" where
  "scan_number s =
     (let negative = (s \<noteq> [] \<and> hd s = CHR ''-'') in
      case scan_integer (if negative then tl s else s) of
        None \<Rightarrow> Inl json_decode_error
      | Some (digits, rest) \<Rightarrow>
          (let r = skip_exponent (skip_fraction rest) in
           if r \<noteq> rest then Inr (PyFloat, r)
           else if MAX_STR_DIGITS < length digits then Inl (PyValueError ''Exceeds the limit (4300 digits)'')
           else Inr (PyInt (if negative then - digits_value digits else digits_value digits), rest)))"

text \<open>The literals; \<open>NaN\<close> and the infinities are floats.\<close>

definition json_literals :: "(string \<times> pyobj) list" where
  "json_literals =
     [(''null'', PyNone), (''true'', PyBool True), (''false'', PyBool False),
      (''NaN'', PyFloat), (''Infinity'', PyFloat), (''-Infinity'', PyFloat)]"

definition starts_with :: "string \<Rightarrow> string \<Rightarrow> bool" where
  "starts_with s prefix \<longleftrightarrow> take (length prefix) s = prefix"

definition scan_literal :: "string \<Rightarrow> (pyobj \<times> string) option" where
  "scan_literal s =
     map_option (\<lambda>(word, v). (v, drop (length word) s)) (find (\<lambda>(word, v). starts_with s word) json_literals)"

section \<open>Scanning values\<close>

text \<open>
  \<open>depth\<close> is the recursion depth left; \<open>n\<close> bounds the number of steps, and twice the length of the text
  is enough.
\<close>

fun scan_value :: "nat \<Rightarrow> nat \<Rightarrow> string \<Rightarrow> (pyobj \<times> string) fallible"
and scan_items :: "nat \<Rightarrow> nat \<Rightarrow> string \<Rightarrow> (pyobj list \<times> string) fallible"
and scan_members :: "nat \<Rightarrow> nat \<Rightarrow> string \<Rightarrow> ((string \<times> pyobj) list \<times> string) fallible" where
  "scan_value 0 depth s = Inl LoopFuelSpent"
| "scan_value (Suc n) depth s =
     (case s of
        [] \<Rightarrow> Inl json_decode_error
      | c # t \<Rightarrow>
          if c = CHR 0x22 then bind_err (scan_string t) (\<lambda>(x, r). Inr (PyStr x, r))
          else if c = CHR ''{'' then
            (if depth = 0 then Inl PyRecursionError
             else if starts_with (skip_space t) ''}'' then Inr (PyDict [], tl (skip_space t))
             else bind_err (scan_members n (depth - 1) (skip_space t)) (\<lambda>(kvs, r).
                  Inr (wire_dict (dict_of_pairs kvs), r)))
          else if c = CHR ''['' then
            (if depth = 0 then Inl PyRecursionError
             else if starts_with (skip_space t) '']'' then Inr (PyList [], tl (skip_space t))
             else bind_err (scan_items n (depth - 1) (skip_space t)) (\<lambda>(xs, r). Inr (PyList xs, r)))
          else (case scan_literal s of Some (v, r) \<Rightarrow> Inr (v, r) | None \<Rightarrow> scan_number s))"
| "scan_items 0 depth s = Inl LoopFuelSpent"
| "scan_items (Suc n) depth s =
     bind_err (scan_value n depth s) (\<lambda>(x, r).
     case skip_space r of
       c # t \<Rightarrow>
         if c = CHR '']'' then Inr ([x], t)
         else if c = CHR '','' then bind_err (scan_items n depth (skip_space t)) (\<lambda>(xs, u). Inr (x # xs, u))
         else Inl json_decode_error
     | [] \<Rightarrow> Inl json_decode_error)"
| "scan_members 0 depth s = Inl LoopFuelSpent"
| "scan_members (Suc n) depth s =
     (if \<not> starts_with s [CHR 0x22] then Inl json_decode_error
      else bind_err (scan_string (tl s)) (\<lambda>(k, r).
        if \<not> starts_with (skip_space r) '':'' then Inl json_decode_error
        else bind_err (scan_value n depth (skip_space (tl (skip_space r)))) (\<lambda>(v, q).
          case skip_space q of
            c # t \<Rightarrow>
              if c = CHR ''}'' then Inr ([(k, v)], t)
              else if c = CHR '','' then
                bind_err (scan_members n depth (skip_space t)) (\<lambda>(kvs, u). Inr ((k, v) # kvs, u))
              else Inl json_decode_error
          | [] \<Rightarrow> Inl json_decode_error)))"

definition json_loads :: "nat \<Rightarrow> string \<Rightarrow> pyobj fallible" where
  "json_loads depth s =
     bind_err (scan_value (2 * length s + 2) depth (skip_space s)) (\<lambda>(v, r).
     if skip_space r = [] then Inr v else Inl json_decode_error)"

section \<open>The steps suffice\<close>

lemma skip_space_length: "length (skip_space s) \<le> length s"
  by (simp add: skip_space_def length_dropWhile_le)

lemma dropWhile_length_less: "s \<noteq> [] \<Longrightarrow> P (hd s) \<Longrightarrow> length (dropWhile P s) < length s"
  by (cases s) (simp_all add: length_dropWhile_le le_imp_less_Suc)

lemma prepend_Inr: "prepend c m = Inr (x, r) \<longleftrightarrow> (\<exists>y. m = Inr (y, r) \<and> x = c # y)"
  by (auto simp: prepend_def)

lemma scan_string_length: "scan_string s = Inr (x, r) \<Longrightarrow> length r < length s"
proof (induction s arbitrary: x r rule: scan_string.induct)
  case (1 s)
  from "1.prems" obtain c t where s: "s = c # t" by (cases s) (simp_all add: scan_string_Cons)
  show ?case
  proof (cases "c = CHR 0x22 \<or> c = CHR 0x5C")
    case True
    then show ?thesis
    proof
      assume "c = CHR 0x5C"
      with "1.prems" s obtain d u y where esc: "scan_escape t = Inr (d, u)" and y: "scan_string u = Inr (y, r)"
        by (auto simp: scan_string_Cons prepend_Inr)
      from "1.IH"(1) [OF s _ \<open>c = CHR 0x5C\<close> esc refl y] scan_escape_length [OF esc] s \<open>c = CHR 0x5C\<close>
      show ?thesis by simp
    qed (use "1.prems" s in \<open>simp add: scan_string_Cons\<close>)
  next
    case False
    with "1.prems" s obtain y where y: "scan_string t = Inr (y, r)" and c: "\<not> (of_char c :: nat) < 32"
      by (auto simp: scan_string_Cons prepend_Inr split: if_split_asm)
    from "1.IH"(2) [OF s _ _ c y] False s show ?thesis by simp
  qed
qed

lemma skip_length: "length (skip_fraction s) \<le> length s" "length (skip_exponent s) \<le> length s"
proof -
  have d: "length (dropWhile is_digit_char t) \<le> length t" for t by (rule length_dropWhile_le)
  show "length (skip_fraction s) \<le> length s"
    using d by (auto simp: skip_fraction_def le_SucI split: list.split)
  have "length (skip_sign (tl s)) \<le> length s" by (simp add: skip_sign_def)
  with d [of "skip_sign (tl s)"] show "length (skip_exponent s) \<le> length s"
    unfolding skip_exponent_def by (cases "s = []") (simp_all del: length_tl)
qed

lemma scan_integer_length: "scan_integer s = Some (x, r) \<Longrightarrow> length r < length s"
  by (auto simp: scan_integer_def le_imp_less_Suc length_dropWhile_le split: list.split_asm if_split_asm)

lemma scan_number_length: "scan_number s = Inr (v, r) \<Longrightarrow> length r < length s"
proof -
  assume run: "scan_number s = Inr (v, r)"
  let ?u = "if s \<noteq> [] \<and> hd s = CHR ''-'' then tl s else s"
  from run obtain digits rest where i: "scan_integer ?u = Some (digits, rest)"
    and r: "r = rest \<or> r = skip_exponent (skip_fraction rest)"
    unfolding scan_number_def Let_def by (cases "scan_integer ?u") (auto split: if_split_asm)
  have "length ?u \<le> length s" by simp
  with scan_integer_length [OF i] skip_length(1) [of rest] skip_length(2) [of "skip_fraction rest"] r
  show ?thesis by (metis le_less_trans less_le_trans)
qed

lemma starts_with_length: "starts_with s p \<Longrightarrow> length p \<le> length s"
  by (metis starts_with_def length_take min.absorb_iff2 min.commute)

lemma scan_literal_length:
  assumes "scan_literal s = Some (v, r)"
  shows "length r < length s"
proof -
  from assms obtain word where f: "find (\<lambda>(word, v). starts_with s word) json_literals = Some (word, v)"
    and r: "r = drop (length word) s" by (auto simp: scan_literal_def)
  then have "(word, v) \<in> set json_literals" "starts_with s word" by (auto simp: find_Some_iff dest: nth_mem)
  then have "word \<noteq> []" "length word \<le> length s" by (auto simp: json_literals_def intro: starts_with_length)
  then have "0 < length word" by simp
  with r \<open>length word \<le> length s\<close> show ?thesis unfolding r length_drop by linarith
qed

text \<open>A value, the items of an array and the members of an object all leave a shorter text.\<close>

lemma tl_skip_length: "starts_with (skip_space s) [c] \<Longrightarrow> length (tl (skip_space s)) < length s"
  using skip_space_length [of s] by (cases "skip_space s") (auto simp: starts_with_def)

lemma after_space: "skip_space r = c # t \<Longrightarrow> length (skip_space t) < length r"
  using skip_space_length [of r] skip_space_length [of t] by simp

lemma scan_length:
  "scan_value n depth s = Inr (v, r) \<Longrightarrow> length r < length s"
  "scan_items n depth s = Inr (xs, r) \<Longrightarrow> length r < length s"
  "scan_members n depth s = Inr (kvs, r) \<Longrightarrow> length r < length s"
proof (induction n depth s and n depth s and n depth s arbitrary: v r and xs r and kvs r
    rule: scan_value_scan_items_scan_members.induct)
  case (2 n depth s)
  from "2.prems" obtain c t where s: "s = c # t" by (cases s) simp_all
  have lit: "length r < length s" if "(case scan_literal s of Some (v, r) \<Rightarrow> Inr (v, r) | None \<Rightarrow> scan_number s) = Inr (v, r)"
    using that by (auto intro: scan_literal_length scan_number_length split: option.split_asm)
  note k = skip_space_length [of t]
  show ?case
  proof (cases "c = CHR 0x22 \<or> c = CHR ''{'' \<or> c = CHR ''[''")
    case True
    then show ?thesis
    proof (elim disjE)
      assume c: "c = CHR 0x22"
      with "2.prems" s show ?thesis by (auto dest: scan_string_length)
    next
      assume c: "c = CHR ''{''"
      show ?thesis
      proof (cases "starts_with (skip_space t) ''}''")
        case True
        with "2.prems" s c tl_skip_length [OF True] show ?thesis by (auto split: if_split_asm)
      next
        case False
        with "2.prems" s c obtain kvs where m: "depth \<noteq> 0" "scan_members n (depth - 1) (skip_space t) = Inr (kvs, r)"
          by (auto split: if_split_asm)
        from "2.IH"(1) [OF s _ c m(1) False m(2)] k s c show ?thesis by simp
      qed
    next
      assume c: "c = CHR ''[''"
      show ?thesis
      proof (cases "starts_with (skip_space t) '']''")
        case True
        with "2.prems" s c tl_skip_length [OF True] show ?thesis by (auto split: if_split_asm)
      next
        case False
        with "2.prems" s c obtain xs where m: "depth \<noteq> 0" "scan_items n (depth - 1) (skip_space t) = Inr (xs, r)"
          by (auto split: if_split_asm)
        from "2.IH"(2) [OF s _ _ c m(1) False m(2)] k s c show ?thesis by simp
      qed
    qed
  next
    case False
    with "2.prems" have "(case scan_literal s of Some (v, r) \<Rightarrow> Inr (v, r) | None \<Rightarrow> scan_number s) = Inr (v, r)"
      unfolding s by simp
    then show ?thesis by (rule lit)
  qed
next
  case (4 n depth s)
  from "4.prems" obtain x q where q: "scan_value n depth s = Inr (x, q)" by auto
  note len = "4.IH"(1) [OF q]
  from "4.prems" q obtain c t where t: "skip_space q = c # t" by (cases "skip_space q") auto
  note m = after_space [OF t] and k = skip_space_length [of q]
  from "4.prems" q t consider "t = r" | ys where "c \<noteq> CHR '']''" "c = CHR '',''" "scan_items n depth (skip_space t) = Inr (ys, r)"
    by (auto split: if_split_asm)
  then show ?case
  proof cases
    case 1
    with t k len show ?thesis by simp
  next
    case 2
    from "4.IH"(2) [OF q refl t 2] m len show ?thesis by simp
  qed
next
  case (6 n depth s)
  from "6.prems" obtain k q where k: "scan_string (tl s) = Inr (k, q)" and st: "starts_with s [CHR 0x22]"
    and col: "starts_with (skip_space q) '':''"
    by (auto split: if_split_asm)
  let ?v = "skip_space (tl (skip_space q))"
  from "6.prems" k st col obtain v u where v: "scan_value n depth ?v = Inr (v, u)" by auto
  have l: "length ?v < length s"
    using scan_string_length [OF k] tl_skip_length [OF col] skip_space_length [of "tl (skip_space q)"] by simp
  note len = "6.IH"(1) [OF _ k refl _ v]
  from "6.prems" k st col v obtain c t where t: "skip_space u = c # t" by (cases "skip_space u") auto
  note m = after_space [OF t] and n = skip_space_length [of u]
  from "6.prems" k st col v t consider "t = r"
    | ys where "c \<noteq> CHR ''}''" "c = CHR '',''" "scan_members n depth (skip_space t) = Inr (ys, r)"
    by (auto split: if_split_asm)
  then show ?case
  proof cases
    case 1
    with t n len l st col show ?thesis by simp
  next
    case 2
    from "6.IH"(2) [OF _ k refl _ v refl t 2] m len l st col show ?thesis by simp
  qed
qed simp_all

text \<open>Twice the length of the text is as many steps as a value can take.\<close>

lemma scan_string_no_fuel: "scan_string s \<noteq> Inl LoopFuelSpent"
proof (induction s rule: scan_string.induct)
  case (1 s)
  have point: "code_point w x y z \<noteq> Inl LoopFuelSpent" for w x y z
    by (auto simp: code_point_def json_decode_error_def unmodelled_def Let_def split: option.split)
  then have esc: "scan_escape t \<noteq> Inl LoopFuelSpent" for t
    by (auto simp: scan_escape_def json_decode_error_def bind_err_def split: list.split option.split sum.split)
  have pre: "prepend c m \<noteq> Inl LoopFuelSpent" if "m \<noteq> Inl LoopFuelSpent" for c m
    using that by (cases m) (auto simp: prepend_def)
  show ?case
  proof (cases s)
    case (Cons c t)
    show ?thesis
    proof (cases "scan_escape t")
      case (Inl e)
      with 1 esc [of t] pre Cons show ?thesis by (auto simp: scan_string_Cons json_decode_error_def)
    next
      case (Inr x)
      then obtain d r where x: "scan_escape t = Inr (d, r)" by (cases x) auto
      with 1 pre Cons show ?thesis by (auto simp: scan_string_Cons json_decode_error_def)
    qed
  qed (simp add: scan_string_Cons json_decode_error_def)
qed

lemma bind_no_fuel:
  "m \<noteq> Inl LoopFuelSpent \<Longrightarrow> (\<And>x. m = Inr x \<Longrightarrow> f x \<noteq> Inl LoopFuelSpent) \<Longrightarrow> bind_err m f \<noteq> Inl LoopFuelSpent"
  by (cases m) auto

lemma scan_number_no_fuel: "scan_number s \<noteq> Inl LoopFuelSpent"
  by (auto simp: scan_number_def json_decode_error_def Let_def split: option.split)

lemma scan_steps_suffice:
  "2 * length s < n \<Longrightarrow> scan_value n depth s \<noteq> Inl LoopFuelSpent"
  "2 * length s + 1 < n \<Longrightarrow> scan_items n depth s \<noteq> Inl LoopFuelSpent"
  "2 * length s + 1 < n \<Longrightarrow> scan_members n depth s \<noteq> Inl LoopFuelSpent"
proof (induction n depth s and n depth s and n depth s rule: scan_value_scan_items_scan_members.induct)
  case (2 n depth s)
  show ?case
  proof (cases s)
    case (Cons c t)
    from skip_space_length [of t] Cons "2.prems" have k: "2 * length (skip_space t) + 1 < n" by simp
    consider "c = CHR 0x22" | "c = CHR ''{''" | "c = CHR ''[''" | "c \<noteq> CHR 0x22 \<and> c \<noteq> CHR ''{'' \<and> c \<noteq> CHR ''[''" by blast
    then show ?thesis
    proof cases
      case 1
      have "bind_err (scan_string t) (\<lambda>(x, r). Inr (PyStr x, r)) \<noteq> Inl LoopFuelSpent"
        by (rule bind_no_fuel [OF scan_string_no_fuel]) auto
      with 1 Cons show ?thesis by simp
    next
      case c: 2
      have "bind_err (scan_members n (depth - 1) (skip_space t)) (\<lambda>(kvs, r). Inr (wire_dict (dict_of_pairs kvs), r)) \<noteq>
          Inl LoopFuelSpent" if "depth \<noteq> 0" "\<not> starts_with (skip_space t) ''}''"
        by (rule bind_no_fuel [OF "2.IH"(1) [OF Cons _ c that k]]) (use c in auto)
      with c Cons show ?thesis by simp
    next
      case c: 3
      have "bind_err (scan_items n (depth - 1) (skip_space t)) (\<lambda>(xs, r). Inr (PyList xs, r)) \<noteq> Inl LoopFuelSpent"
        if "depth \<noteq> 0" "\<not> starts_with (skip_space t) '']''"
        by (rule bind_no_fuel [OF "2.IH"(2) [OF Cons _ _ c that k]]) (use c in auto)
      with c Cons show ?thesis by simp
    next
      case 4
      then have "scan_value (Suc n) depth s =
          (case scan_literal s of Some (v, r) \<Rightarrow> Inr (v, r) | None \<Rightarrow> scan_number s)"
        unfolding Cons by simp
      then show ?thesis using scan_number_no_fuel [of s] by (auto split: option.split)
    qed
  qed (simp add: json_decode_error_def)
next
  case (4 n depth s)
  have "scan_items n depth (skip_space t) \<noteq> Inl LoopFuelSpent"
    if "scan_value n depth s = Inr (x, r)" "skip_space r = CHR '','' # t" for x r t
    using "4.IH"(2) [OF that(1) refl that(2)] after_space [OF that(2)] scan_length(1) [OF that(1)] "4.prems" by simp
  with 4 show ?case
    unfolding scan_items.simps
    by (intro bind_no_fuel) (auto simp: json_decode_error_def bind_err_def split: list.split_asm sum.split_asm if_split_asm)
next
  case (6 n depth s)
  have inner: "scan_value n depth (skip_space (tl (skip_space r))) \<noteq> Inl LoopFuelSpent"
    if "starts_with s [CHR 0x22]" "scan_string (tl s) = Inr (k, r)" "starts_with (skip_space r) '':''" for k r
    using "6.IH"(1) [of "(k, r)" k r] that scan_string_length [OF that(2)] tl_skip_length [OF that(3)]
      skip_space_length [of "tl (skip_space r)"] "6.prems" by simp
  have rest: "scan_members n depth (skip_space t) \<noteq> Inl LoopFuelSpent"
    if k: "starts_with s [CHR 0x22]" "scan_string (tl s) = Inr (k, r)" "starts_with (skip_space r) '':''"
      and v: "scan_value n depth (skip_space (tl (skip_space r))) = Inr (v, q)"
      and t: "skip_space q = CHR '','' # t" for k r v q t
  proof -
    have "length (skip_space t) < length s"
      using after_space [OF t] scan_length(1) [OF v] scan_string_length [OF k(2)] tl_skip_length [OF k(3)]
        skip_space_length [of "tl (skip_space r)"] by simp
    then show ?thesis using "6.IH"(2) [of "(k, r)" k r "(v, q)" v q "CHR '',''" t] k v t "6.prems" by simp
  qed
  show ?case
    unfolding scan_members.simps using scan_string_no_fuel [of "tl s"] inner rest
    by (auto simp: json_decode_error_def bind_err_def split: list.split_asm sum.split_asm if_split_asm) blast
qed simp_all

lemma json_loads_no_fuel: "json_loads depth s \<noteq> Inl LoopFuelSpent"
proof -
  have "2 * length (skip_space s) < 2 * length s + 2" using skip_space_length [of s] by simp
  show ?thesis unfolding json_loads_def
    by (rule bind_no_fuel [OF scan_steps_suffice(1) [OF \<open>2 * length (skip_space s) < 2 * length s + 2\<close>]])
      (simp add: json_decode_error_def del: scan_value.simps split: prod.split)
qed

section \<open>Reading back what was written\<close>

lemma hex_digit_of_digit: "n < 16 \<Longrightarrow> hex_digit_of (hex_digit n) = Some n"
  by (auto simp: hex_digit_of_def hex_digit_def Let_def)

lemma scan_string_escape: "scan_string (json_escape c @ t) = prepend c (scan_string t)"
proof -
  have escs: "scan_string (CHR 0x5C # e # t) = prepend d (scan_string t)" if "escaped_char e = Some d" "e \<noteq> CHR ''u''" for d e
    using that by (simp add: scan_string_Cons scan_escape_def)
  consider "c \<in> {CHR 0x22, CHR 0x5C, CHR 0x0A, CHR 0x0D, CHR 0x09, CHR 0x0C, CHR 0x08}"
    | "c \<notin> {CHR 0x22, CHR 0x5C, CHR 0x0A, CHR 0x0D, CHR 0x09, CHR 0x0C, CHR 0x08}" "(of_char c :: nat) < 32"
    | "c \<notin> {CHR 0x22, CHR 0x5C, CHR 0x0A, CHR 0x0D, CHR 0x09, CHR 0x0C, CHR 0x08}" "32 \<le> (of_char c :: nat)"
    by linarith
  then show ?thesis
  proof cases
    case 1
    then show ?thesis by (elim insertE emptyE) (simp_all add: json_escape_def escs escaped_char_def)
  next
    case 2
    then have e: "json_escape c = [CHR 0x5C, CHR ''u'', CHR ''0'', CHR ''0'', hex_digit (of_char c div 16),
        hex_digit (of_char c mod 16)]" by (simp add: json_escape_def)
    have n: "(of_char c :: nat) div 16 < 16" "(of_char c :: nat) mod 16 < 16" using 2(2) by linarith+
    have z: "hex_digit_of (CHR ''0'') = Some 0" by (simp add: hex_digit_of_def)
    have "(of_char c :: nat) div 16 * 16 + of_char c mod 16 = of_char c" by simp
    then have "code_point (CHR ''0'') (CHR ''0'') (hex_digit (of_char c div 16)) (hex_digit (of_char c mod 16)) = Inr c"
      using 2(2) by (simp add: code_point_def z hex_digit_of_digit n Let_def)
    then show ?thesis unfolding e by (simp add: scan_string_Cons scan_escape_def)
  next
    case 3
    then have "json_escape c = [c]" by (simp add: json_escape_def)
    with 3 show ?thesis by (simp add: scan_string_Cons)
  qed
qed

lemma scan_string_quoted: "scan_string (concat (map json_escape s) @ CHR 0x22 # r) = Inr (s, r)"
proof (induction s)
  case (Cons c s)
  have "scan_string (json_escape c @ concat (map json_escape s) @ CHR 0x22 # r) = Inr (c # s, r)"
    unfolding scan_string_escape Cons.IH by (simp add: prepend_def)
  then show ?case by simp
qed (simp add: scan_string_Cons)

lemma skip_space_hd: "s \<noteq> [] \<Longrightarrow> \<not> is_json_space (hd s) \<Longrightarrow> skip_space s = s"
  by (cases s) (simp_all add: skip_space_def)

lemma nat_text_leading: "nat_text n = ''0'' \<or> (nat_text n \<noteq> [] \<and> hd (nat_text n) \<noteq> CHR ''0'')"
proof (induction n rule: nat_text.induct)
  case (1 n)
  show ?case
  proof (cases "n < 10")
    case True
    then have "n = 0 \<or> (of_char (char_of (48 + n)) :: nat) \<noteq> of_char (CHR ''0'')" by (cases "n = 0") simp_all
    then show ?thesis using True by (auto simp: nat_text.simps [of n])
  next
    case False
    with 1 have "nat_text (n div 10) \<noteq> ''0'' \<longrightarrow> hd (nat_text (n div 10)) \<noteq> CHR ''0''" by blast
    moreover have "nat_text (n div 10) \<noteq> ''0''"
    proof
      assume "nat_text (n div 10) = ''0''"
      with nat_text_value [of "n div 10"] have "int (n div 10) = 0" by (simp add: digits_value_def)
      with False show False by simp
    qed
    ultimately show ?thesis using False nat_text_value [of "n div 10"] by (simp add: nat_text.simps [of n])
  qed
qed

lemma skip_at_end: "json_end r \<Longrightarrow> skip_exponent (skip_fraction r) = r"
  by (cases r) (auto simp: skip_fraction_def skip_exponent_def split: list.split)

lemma scan_integer_nat: "json_end r \<Longrightarrow> scan_integer (nat_text n @ r) = Some (nat_text n, r)"
proof -
  assume e: "json_end r"
  have d: "takeWhile is_digit_char r = []" "dropWhile is_digit_char r = r"
    using e by (cases r; auto simp: is_digit_char_def)+
  note v = nat_text_value [of n]
  then obtain c t where n: "nat_text n = c # t" by (cases "nat_text n") auto
  from nat_text_leading [of n] n consider "c = CHR ''0''" "t = []" | "c \<noteq> CHR ''0''" by auto
  then show ?thesis
  proof cases
    case 1
    with n show ?thesis by (simp add: scan_integer_def)
  next
    case 2
    with n v d show ?thesis by (simp add: scan_integer_def list_all_iff)
  qed
qed

text \<open>How deep a value nests, and the values whose integers \<open>int()\<close> reads back.\<close>

fun json_depth :: "json \<Rightarrow> nat" where
  "json_depth (JArray xs) = Suc (Max (insert 0 (set (map json_depth xs))))"
| "json_depth (JObject items) = Suc (Max (insert 0 (set (map (json_depth \<circ> snd) items))))"
| "json_depth _ = 0"

fun json_readable :: "json \<Rightarrow> bool" where
  "json_readable (JInt i) = (length (nat_text (nat \<bar>i\<bar>)) \<le> MAX_STR_DIGITS)"
| "json_readable (JArray xs) = list_all json_readable xs"
| "json_readable (JObject items) = list_all (\<lambda>kv. json_readable (snd kv)) items"
| "json_readable _ = True"

lemma scan_number_int: "json_end r \<Longrightarrow> json_readable (JInt i) \<Longrightarrow> scan_number (int_text i @ r) = Inr (PyInt i, r)"
proof -
  assume r: "json_end r" and i: "json_readable (JInt i)"
  have h: "hd (nat_text n @ r) \<noteq> CHR ''-''" "nat_text n \<noteq> []" for n
    using nat_text_value [of n] by (cases "nat_text n"; auto simp: is_digit_char_def)+
  show ?thesis
  proof (cases "i < 0")
    case True
    then show ?thesis
      using scan_integer_nat [OF r, of "nat (- i)"] nat_text_value [of "nat (- i)"] skip_at_end [OF r] i
      by (simp add: scan_number_def int_text_def Let_def)
  next
    case False
    then show ?thesis
      using h [of "nat i"] scan_integer_nat [OF r, of "nat i"] nat_text_value [of "nat i"] skip_at_end [OF r] i
      by (simp add: scan_number_def int_text_def Let_def)
  qed
qed

definition number_start :: "string \<Rightarrow> bool" where
  "number_start s \<longleftrightarrow> (case s of c # t \<Rightarrow> is_digit_char c \<or> (c = CHR ''-'' \<and> t \<noteq> [] \<and> is_digit_char (hd t)) | [] \<Rightarrow> False)"

lemma number_start_int: "number_start (int_text i @ r)"
proof -
  have "\<exists>d u. nat_text n = d # u \<and> is_digit_char d" for n
    using nat_text_value [of n] by (cases "nat_text n") auto
  from this [of "nat i"] this [of "nat (- i)"] show ?thesis by (auto simp: int_text_def number_start_def)
qed

lemma digit_not_letter:
  "is_digit_char c \<Longrightarrow> c \<notin> {CHR ''n'', CHR ''t'', CHR ''f'', CHR ''N'', CHR ''I'', CHR ''-'', CHR 0x22, CHR ''{'', CHR ''['',
     CHR '' '', CHR 0x09, CHR 0x0A, CHR 0x0D, CHR '']'', CHR ''}''}"
  by (auto simp: is_digit_char_def)

lemma scan_literal_number:
  assumes "number_start s"
  shows "scan_literal s = None" and "s \<noteq> []" and "hd s \<notin> {CHR 0x22, CHR ''{'', CHR ''['', CHR '']'', CHR ''}''}"
    and "\<not> is_json_space (hd s)"
proof -
  from assms obtain c t where s: "s = c # t" and c: "is_digit_char c \<or> c = CHR ''-'' \<and> t \<noteq> [] \<and> is_digit_char (hd t)"
    by (cases s) (auto simp: number_start_def)
  from c have "scan_literal s = None \<and> hd s \<notin> {CHR 0x22, CHR ''{'', CHR ''['', CHR '']'', CHR ''}''} \<and> \<not> is_json_space (hd s)"
  proof
    assume "is_digit_char c"
    from digit_not_letter [OF this] s show ?thesis
      by (simp add: scan_literal_def json_literals_def starts_with_def is_json_space_def)
  next
    assume d: "c = CHR ''-'' \<and> t \<noteq> [] \<and> is_digit_char (hd t)"
    then obtain d u where t: "t = d # u" and "is_digit_char d" by (cases t) auto
    from digit_not_letter [OF this(2)] d s t show ?thesis
      by (simp add: scan_literal_def json_literals_def starts_with_def is_json_space_def)
  qed
  with s show "scan_literal s = None" and "s \<noteq> []" and "hd s \<notin> {CHR 0x22, CHR ''{'', CHR ''['', CHR '']'', CHR ''}''}"
    and "\<not> is_json_space (hd s)" by simp_all
qed

lemma value_start:
  "\<exists>c t. canonical_json j @ r = c # t \<and> \<not> is_json_space c \<and> c \<noteq> CHR '']'' \<and> c \<noteq> CHR ''}''"
proof (cases j)
  case (JInt i)
  from scan_literal_number [OF number_start_int [of i r]] show ?thesis
    by (cases "int_text i @ r") (auto simp: JInt)
qed (auto simp: json_quote_def is_json_space_def)

lemma json_end_space: "json_end (c # r) \<Longrightarrow> skip_space (c # r) = c # r"
  by (auto simp: skip_space_def is_json_space_def)

lemma skip_value: "skip_space (canonical_json j @ r) = canonical_json j @ r"
  using value_start [of j r] by (auto simp: skip_space_def)

lemma skip_quote: "skip_space (json_quote s @ r) = json_quote s @ r"
  by (simp add: json_quote_def skip_space_def is_json_space_def)

text \<open>The items of an array, when each of them is read back.\<close>

lemma scan_items_back:
  assumes "\<And>x r n. x \<in> set xs \<Longrightarrow> json_end r \<Longrightarrow> 2 * length (canonical_json x @ r) < n \<Longrightarrow>
      scan_value n depth (canonical_json x @ r) = Inr (json_to_plain x, r)"
    and "xs \<noteq> []" and "2 * length (comma_join (map canonical_json xs) @ CHR '']'' # r) + 1 < n"
  shows "scan_items n depth (comma_join (map canonical_json xs) @ CHR '']'' # r) = Inr (map json_to_plain xs, r)"
  using assms
proof (induction xs arbitrary: n)
  case (Cons x xs)
  then obtain m where n: "n = Suc m" by (cases n) auto
  show ?case
  proof (cases xs)
    case Nil
    have "scan_value m depth (canonical_json x @ CHR '']'' # r) = Inr (json_to_plain x, CHR '']'' # r)"
      using Cons.prems(1) [of x "CHR '']'' # r" m] Cons.prems(3) n Nil by simp
    then show ?thesis by (simp add: n Nil json_end_space)
  next
    case more: (Cons y ys)
    let ?rest = "comma_join (map canonical_json xs) @ CHR '']'' # r"
    have eq: "comma_join (map canonical_json (x # xs)) @ CHR '']'' # r = canonical_json x @ CHR '','' # ?rest"
      by (simp add: more)
    from Cons.prems(3) have len: "2 * length (canonical_json x @ CHR '','' # ?rest) + 1 < Suc m" unfolding n eq .
    have "scan_value m depth (canonical_json x @ CHR '','' # ?rest) = Inr (json_to_plain x, CHR '','' # ?rest)"
      by (rule Cons.prems(1)) (use len in simp_all)
    moreover have "scan_items m depth ?rest = Inr (map json_to_plain xs, r)"
      by (rule Cons.IH) (use Cons.prems(1) len more in simp_all)
    moreover have "skip_space ?rest = ?rest"
      using skip_value [of y] by (simp add: more comma_join_Cons)
    ultimately show ?thesis unfolding eq n by (simp add: json_end_space)
  qed
qed simp

definition member_text :: "string \<times> json \<Rightarrow> string" where
  "member_text kv = json_quote (fst kv) @ CHR '':'' # canonical_json (snd kv)"

lemma scan_members_back:
  assumes "\<And>kv r n. kv \<in> set items \<Longrightarrow> json_end r \<Longrightarrow> 2 * length (canonical_json (snd kv) @ r) < n \<Longrightarrow>
      scan_value n depth (canonical_json (snd kv) @ r) = Inr (json_to_plain (snd kv), r)"
    and "items \<noteq> []" and "2 * length (comma_join (map member_text items) @ CHR ''}'' # r) + 1 < n"
  shows "scan_members n depth (comma_join (map member_text items) @ CHR ''}'' # r) =
    Inr (map (\<lambda>kv. (fst kv, json_to_plain (snd kv))) items, r)"
  using assms
proof (induction items arbitrary: n)
  case (Cons kv items)
  then obtain m where n: "n = Suc m" by (cases n) auto
  have key: "scan_string (tl (member_text kv @ q)) = Inr (fst kv, CHR '':'' # canonical_json (snd kv) @ q)"
    "starts_with (member_text kv @ q) [CHR 0x22]" for q
    using scan_string_quoted [of "fst kv" "CHR '':'' # canonical_json (snd kv) @ q"]
    by (simp_all add: member_text_def json_quote_def starts_with_def)
  have colon: "skip_space (CHR '':'' # q) = CHR '':'' # q" for q by (simp add: skip_space_def is_json_space_def)
  show ?case
  proof (cases items)
    case Nil
    have "scan_value m depth (canonical_json (snd kv) @ CHR ''}'' # r) = Inr (json_to_plain (snd kv), CHR ''}'' # r)"
      using Cons.prems(1) [of kv "CHR ''}'' # r" m] Cons.prems(3) n Nil by (simp add: member_text_def)
    then show ?thesis
      using key by (simp add: n Nil colon skip_value starts_with_def json_end_space)
  next
    case more: (Cons y ys)
    let ?rest = "comma_join (map member_text items) @ CHR ''}'' # r"
    have eq: "comma_join (map member_text (kv # items)) @ CHR ''}'' # r = member_text kv @ CHR '','' # ?rest"
      by (simp add: more)
    from Cons.prems(3) have len: "2 * length (member_text kv @ CHR '','' # ?rest) + 1 < Suc m" unfolding n eq .
    have "scan_value m depth (canonical_json (snd kv) @ CHR '','' # ?rest) = Inr (json_to_plain (snd kv), CHR '','' # ?rest)"
      by (rule Cons.prems(1)) (use len in \<open>simp_all add: member_text_def\<close>)
    moreover have "scan_members m depth ?rest = Inr (map (\<lambda>kv. (fst kv, json_to_plain (snd kv))) items, r)"
      by (rule Cons.IH) (use Cons.prems(1) len more in simp_all)
    moreover have "skip_space ?rest = ?rest"
      using skip_quote [of "fst y"] by (simp add: more comma_join_Cons member_text_def)
    ultimately show ?thesis
      unfolding eq n using key by (simp add: colon skip_value starts_with_def json_end_space)
  qed
qed simp

lemma json_depth_below: "x \<in> set xs \<Longrightarrow> Suc (Max (insert 0 (set (map f xs)))) \<le> depth \<Longrightarrow> f x \<le> depth - 1"
proof -
  assume x: "x \<in> set xs" and d: "Suc (Max (insert 0 (set (map f xs)))) \<le> depth"
  from x have "f x \<le> Max (insert 0 (set (map f xs)))" by (intro Max_ge) auto
  with d show ?thesis by simp
qed

lemma scan_value_back:
  "json_wf j \<Longrightarrow> json_readable j \<Longrightarrow> json_depth j \<le> depth \<Longrightarrow> json_end r \<Longrightarrow> 2 * length (canonical_json j @ r) < n \<Longrightarrow>
     scan_value n depth (canonical_json j @ r) = Inr (json_to_plain j, r)"
proof (induction j arbitrary: depth r n)
  case JNull
  then show ?case by (cases n) (simp_all add: scan_literal_def json_literals_def starts_with_def)
next
  case (JBool b)
  then show ?case by (cases n) (simp_all add: scan_literal_def json_literals_def starts_with_def)
next
  case (JInt i)
  then obtain m where n: "n = Suc m" by (cases n) auto
  note start = scan_literal_number [OF number_start_int [of i r]]
  then obtain c t where s: "int_text i @ r = c # t" by (cases "int_text i @ r") auto
  with start scan_number_int [OF JInt.prems(4,2)] show ?case by (simp add: n s)
next
  case (JStr t)
  then show ?case using scan_string_quoted [of t r] by (cases n) (simp_all add: json_quote_def)
next
  case (JArray xs)
  then obtain m where n: "n = Suc m" by (cases n) auto
  from JArray.prems(3) obtain d where d: "depth = Suc d" by (cases depth) auto
  show ?case
  proof (cases xs)
    case Nil
    then show ?thesis by (simp add: n d skip_space_def is_json_space_def starts_with_def)
  next
    case more: (Cons y ys)
    let ?body = "comma_join (map canonical_json xs) @ CHR '']'' # r"
    obtain c u where start: "?body = c # u" "c \<noteq> CHR '']''" and skip: "skip_space ?body = ?body"
      using value_start [of y "if ys = [] then CHR '']'' # r else CHR '','' # comma_join (map canonical_json ys) @ CHR '']'' # r"]
        skip_value [of y "if ys = [] then CHR '']'' # r else CHR '','' # comma_join (map canonical_json ys) @ CHR '']'' # r"]
      by (auto simp: more comma_join_Cons)
    have "scan_items m d ?body = Inr (map json_to_plain xs, r)"
    proof (rule scan_items_back)
      fix x and r :: string and n assume x: "x \<in> set xs" "json_end r" "2 * length (canonical_json x @ r) < n"
      have "json_depth x \<le> d" using json_depth_below [OF x(1), of json_depth depth] JArray.prems(3) d by simp
      with JArray.IH [OF x(1) _ _ _ x(2,3)] JArray.prems(1,2) x(1)
      show "scan_value n d (canonical_json x @ r) = Inr (json_to_plain x, r)" by (simp add: list_all_iff)
    qed (use JArray.prems(5) n more in auto)
    moreover have "\<not> starts_with ?body '']''" using start by (simp add: starts_with_def)
    ultimately show ?thesis using skip by (simp add: n d)
  qed
next
  case (JObject items)
  then obtain m where n: "n = Suc m" by (cases n) auto
  from JObject.prems(3) obtain d where d: "depth = Suc d" by (cases depth) auto
  have eq: "canonical_json (JObject items) @ r = CHR ''{'' # comma_join (map member_text items) @ CHR ''}'' # r"
    using JObject.prems(1) by (simp add: member_text_def [abs_def])
  show ?case
  proof (cases items)
    case Nil
    then show ?thesis by (simp add: n d skip_space_def is_json_space_def starts_with_def)
  next
    case more: (Cons y ys)
    let ?body = "comma_join (map member_text items) @ CHR ''}'' # r"
    obtain u where start: "?body = CHR 0x22 # u" by (simp add: more comma_join_Cons member_text_def json_quote_def)
    have "scan_members m d ?body = Inr (map (\<lambda>kv. (fst kv, json_to_plain (snd kv))) items, r)"
    proof (rule scan_members_back)
      fix kv and r :: string and n
      assume x: "kv \<in> set items" "json_end r" "2 * length (canonical_json (snd kv) @ r) < n"
      have "json_depth (snd kv) \<le> d"
        using json_depth_below [OF x(1), of "json_depth \<circ> snd" depth] JObject.prems(3) d by simp
      with JObject.IH [of kv "snd kv", OF x(1) _ _ _ _ x(2,3)] JObject.prems(1,2) x(1)
      show "scan_value n d (canonical_json (snd kv) @ r) = Inr (json_to_plain (snd kv), r)"
        by (auto simp: list_all_iff snds.simps)
    qed (use JObject.prems(5) [unfolded eq] n more in auto)
    moreover have "skip_space ?body = ?body" "\<not> starts_with ?body ''}''"
      unfolding start by (simp_all add: skip_space_def is_json_space_def starts_with_def)
    moreover have "distinct (map fst (map (\<lambda>kv. (fst kv, json_to_plain (snd kv))) items))"
      using JObject.prems(1) by (simp add: o_def)
    ultimately show ?thesis unfolding eq
      by (simp add: n d dict_of_distinct_pairs wire_dict_def)
  qed
qed

lemma json_loads_back:
  assumes "json_wf j" and "json_readable j" and "json_depth j \<le> depth"
  shows "json_loads depth (canonical_json j) = Inr (json_to_plain j)"
  using scan_value_back [OF assms, of "[]" "2 * length (canonical_json j) + 2"] skip_value [of j "[]"]
  by (simp add: json_loads_def skip_space_def del: scan_value.simps)

end
