(* ===== verification/Message_Codec.thy ===== *)
theory Message_Codec
  imports Json_Text Wire_Order Service_World "HOL-Library.Word"
begin

text \<open>
  Work messages and quarantine diagnostics as bytes (\<^verbatim>\<open>messaging/codec.py\<close>), and the JSON helpers of
  \<^verbatim>\<open>domain/serde.py\<close>. UTF-8 and Base64 are the standard library's; SHA-256 is a parameter from bytes to the
  hex digest, and \<open>depth\<close> is the recursion depth Python has left when the decoder is called.
\<close>

section \<open>JSON text of plain objects\<close>

text \<open>
  \<open>json.dumps\<close> with sorted keys and compact separators. The text of a float and a key that is no string
  are outside the model: no wire form has one.
\<close>

fun dumps_text :: "pyobj \<Rightarrow> string fallible" where
  "dumps_text PyNone = Inr ''null''"
| "dumps_text (PyBool b) = Inr (if b then ''true'' else ''false'')"
| "dumps_text (PyInt i) =
     (if json_readable (JInt i) then Inr (int_text i)
      else Inl (PyValueError ''Exceeds the limit (4300 digits)''))"
| "dumps_text (PyStr s) = Inr (json_quote s)"
| "dumps_text PyFloat = Inl unmodelled"
| "dumps_text (PyList xs) =
     bind_err (map_err dumps_text xs) (\<lambda>ts. Inr (CHR ''['' # comma_join ts @ '']''))"
| "dumps_text (PyDict kvs) =
     bind_err
       (map_err (\<lambda>kv. case fst kv of
            PyStr k \<Rightarrow> bind_err (dumps_text (snd kv)) (\<lambda>t. Inr (k, t))
          | _ \<Rightarrow> Inl unmodelled) kvs)
       (\<lambda>pairs. Inr (CHR ''{'' # comma_join (map (\<lambda>kt. json_quote (fst kt) @ CHR '':'' # snd kt)
          (sort_key fst pairs)) @ ''}''))"
| "dumps_text PyOther = Inl (OtherException ''TypeError'')"

definition dumps_wire :: "pyobj \<Rightarrow> string fallible" where
  "dumps_wire payload = dumps_text payload"

definition loads_wire :: "nat \<Rightarrow> string \<Rightarrow> (pyobj \<Rightarrow> 'a fallible) \<Rightarrow> 'a fallible" where
  "loads_wire depth txt from_wire =
     (case json_loads depth txt of
        Inl e \<Rightarrow> Inl (if e = json_decode_error then ContractValidationError ''malformed_json'' else e)
      | Inr raw \<Rightarrow> from_wire raw)"

lemma sort_key_map_snd:
  "sort_key fst (map (\<lambda>kv. (fst kv, g (snd kv))) ps) = map (\<lambda>kv. (fst kv, g (snd kv))) (sort_key fst ps)"
proof -
  have ins: "insort_key fst (fst x, g (snd x)) (map (\<lambda>kv. (fst kv, g (snd kv))) ys) =
      map (\<lambda>kv. (fst kv, g (snd kv))) (insort_key fst x ys)" for x ys
    by (induction ys) auto
  show ?thesis by (induction ps) (simp_all add: ins)
qed

lemma map_err_ball:
  "map_err f xs = Inr ys \<Longrightarrow> Ball (set ys) P \<Longrightarrow> (\<And>x y. x \<in> set xs \<Longrightarrow> f x = Inr y \<Longrightarrow> P y \<Longrightarrow> f' x = Inr (g y)) \<Longrightarrow>
     map_err f' xs = Inr (map g ys)"
proof (induction xs arbitrary: ys)
  case (Cons x xs)
  then obtain y zs where "f x = Inr y" "map_err f xs = Inr zs" "ys = y # zs" by auto
  with Cons.IH [of zs] Cons.prems(2,3) show ?case by simp
qed simp

lemma dumps_text_canonical:
  "json_from_plain p = Inr j \<Longrightarrow> json_readable j \<Longrightarrow> dumps_text p = Inr (canonical_json j)"
proof (induction p arbitrary: j rule: json_from_plain.induct)
  case (6 xs)
  then obtain ys where ys: "map_err json_from_plain xs = Inr ys" and j: "j = JArray ys" by auto
  have "map_err dumps_text xs = Inr (map canonical_json ys)"
    by (rule map_err_ball [OF ys, where P = json_readable]) (use "6.prems" "6.IH" j in \<open>auto simp: list_all_iff\<close>)
  then show ?case by (simp add: j)
next
  case (7 kvs)
  let ?conv = "\<lambda>kv. case fst kv of
      PyStr k \<Rightarrow> bind_err (json_from_plain (snd kv)) (\<lambda>j. Inr (k, j))
    | _ \<Rightarrow> Inl (ContractValidationError ''invalid_type'')"
  from "7.prems" obtain pairs where pairs: "map_err ?conv kvs = Inr pairs"
    and j: "j = JObject (sort_key fst pairs)" by (auto simp: make_json_object_Inr)
  have "map_err (\<lambda>kv. case fst kv of
            PyStr k \<Rightarrow> bind_err (dumps_text (snd kv)) (\<lambda>t. Inr (k, t))
          | _ \<Rightarrow> Inl unmodelled) kvs = Inr (map (\<lambda>kv. (fst kv, canonical_json (snd kv))) pairs)"
    by (rule map_err_ball [OF pairs, where P = "\<lambda>kv. json_readable (snd kv)"])
      (use "7.prems" j in \<open>auto simp: list_all_iff split: pyobj.splits dest: "7.IH"\<close>)
  then show ?case by (simp add: j sort_key_map_snd sort_key_idem o_def)
qed auto

text \<open>What a plain object is read back as: the same members, in the order of their keys.\<close>

lemma json_plain_same: "json_from_plain p = Inr j \<Longrightarrow> same_payload p (json_to_plain j)"
proof (induction p arbitrary: j rule: json_from_plain.induct)
  case (6 xs)
  then obtain ys where ys: "map_err json_from_plain xs = Inr ys" and j: "j = JArray ys" by auto
  have "list_all2 (\<lambda>x y. same_payload x (json_to_plain y)) xs ys"
    using ys [unfolded map_err_iff] by (rule list.rel_mono_strong) (rule "6.IH")
  then show ?case by (simp add: j list.rel_map same_list)
next
  case (7 kvs)
  let ?conv = "\<lambda>kv. case fst kv of
      PyStr k \<Rightarrow> bind_err (json_from_plain (snd kv)) (\<lambda>j. Inr (k, j))
    | _ \<Rightarrow> Inl (ContractValidationError ''invalid_type'')"
  let ?plain = "\<lambda>kj. (PyStr (fst kj), json_to_plain (snd kj))"
  from "7.prems" obtain pairs where pairs: "map_err ?conv kvs = Inr pairs"
    and j: "j = JObject (sort_key fst pairs)" and d: "distinct (map fst (sort_key fst pairs))"
    by (auto simp: make_json_object_Inr)
  have rel: "list_all2 (\<lambda>kv kj. fst kv = PyStr (fst kj) \<and> same_payload (snd kv) (json_to_plain (snd kj))) kvs pairs"
    using pairs [unfolded map_err_iff]
    by (rule list.rel_mono_strong) (auto split: pyobj.splits dest: "7.IH")
  then have "map fst kvs = map (PyStr \<circ> fst) pairs" by (induction rule: list_all2_induct) auto
  moreover have "distinct (map fst pairs)" using d by (simp add: distinct_map distinct_sort)
  then have "distinct (map PyStr (map fst pairs))" by (subst distinct_map) (simp add: inj_on_def)
  ultimately have "distinct (map fst kvs)" by simp
  moreover have "list_all2 (\<lambda>a b. fst a = fst b \<and> same_payload (snd a) (snd b)) kvs (map ?plain pairs)"
    using rel by (simp add: list.rel_map)
  moreover have "mset (map ?plain pairs) = mset (map ?plain (sort_key fst pairs))" by simp
  ultimately show ?case unfolding j json_to_plain.simps by (rule same_dict)
qed auto

text \<open>
  What a wire form writes is read back, provided the parser reads members in any order, integers have at
  most 4300 digits and the value nests no deeper than the recursion depth.
\<close>

lemma loads_dumps:
  assumes "json_from_plain p = Inr j" and "json_readable j" and "json_depth j \<le> depth"
    and "unordered parse" and "parse p = Inr x"
  shows "dumps_wire p = Inr (canonical_json j) \<and> loads_wire depth (canonical_json j) parse = Inr x"
  using json_loads_back [OF json_from_plain_wf [OF assms(1)] assms(2,3)] dumps_text_canonical [OF assms(1,2)]
    unorderedD [OF assms(4) json_plain_same [OF assms(1)] assms(5)]
  by (simp add: dumps_wire_def loads_wire_def)

text \<open>The objects of this module are flat: every member is null, a boolean, an integer or a string.\<close>

fun flat_value :: "pyobj \<Rightarrow> json option" where
  "flat_value PyNone = Some JNull"
| "flat_value (PyBool b) = Some (JBool b)"
| "flat_value (PyInt i) = Some (JInt i)"
| "flat_value (PyStr s) = Some (JStr s)"
| "flat_value _ = None"

definition flat_object :: "(string \<times> pyobj) list \<Rightarrow> bool" where
  "flat_object kvs \<longleftrightarrow> distinct (map fst kvs) \<and> [] \<notin> fst ` set kvs \<and> list_all (\<lambda>kv. flat_value (snd kv) \<noteq> None) kvs"

lemma flat_value_Some:
  "flat_value v = Some j \<Longrightarrow> json_from_plain v = Inr j \<and> json_depth j = 0 \<and>
     (json_readable j \<longleftrightarrow> (\<forall>i. v = PyInt i \<longrightarrow> json_readable (JInt i))) \<and> json_to_plain j = v"
  by (cases v) auto

lemma flat_object_json:
  assumes "flat_object kvs" and "\<And>k i. (k, PyInt i) \<in> set kvs \<Longrightarrow> json_readable (JInt i)"
  obtains j L where "json_from_plain (wire_dict kvs) = Inr j" and "json_readable j" and "json_depth j \<le> 1"
    and "json_to_plain j = wire_dict L" and "mset L = mset kvs"
proof -
  define js where "js = map (\<lambda>kv. (fst kv, the (flat_value (snd kv)))) kvs"
  have flat: "\<exists>j. flat_value v = Some j" if "(k, v) \<in> set kvs" for k v
    using assms(1) that by (fastforce simp: flat_object_def list_all_iff)
  have member: "json_from_plain v = Inr (the (flat_value v))" "json_depth (the (flat_value v)) = 0"
      "json_readable (the (flat_value v))" "json_to_plain (the (flat_value v)) = v" if "(k, v) \<in> set kvs" for k v
    using flat [OF that] flat_value_Some [of v] assms(2) that by auto
  have "map_err (\<lambda>kv. case fst kv of
      PyStr k \<Rightarrow> bind_err (json_from_plain (snd kv)) (\<lambda>j. Inr (k, j))
    | _ \<Rightarrow> Inl (ContractValidationError ''invalid_type'')) (map (\<lambda>kv. (PyStr (fst kv), snd kv)) kvs) = Inr js"
    unfolding map_err_iff js_def by (auto simp: list.rel_map member intro!: list.rel_refl_strong)
  moreover have "map fst js = map fst kvs" by (simp add: js_def)
  with assms(1) have "distinct (map fst js)" by (simp add: flat_object_def)
  then have "distinct (map fst (sort_key fst js))" by (simp add: distinct_map distinct_sort)
  moreover have key_set: "fst ` set js = fst ` set kvs" by (simp add: js_def image_image)
  ultimately have "json_from_plain (wire_dict kvs) = Inr (JObject (sort_key fst js))"
    using assms(1) key_set
    by (simp add: wire_dict_def make_json_object_Inr sort_key_idem flat_object_def)
  moreover have "json_readable (JObject (sort_key fst js))" by (auto simp: js_def list_all_iff member)
  moreover have "json_depth (snd kj) = 0" if "kj \<in> set js" for kj using that by (auto simp: js_def member)
  then have "json_depth (JObject (sort_key fst js)) \<le> 1" by (auto simp: image_constant_conv)
  moreover have "json_to_plain (JObject (sort_key fst js)) =
      wire_dict (map (\<lambda>kv. (fst kv, json_to_plain (snd kv))) (sort_key fst js))"
    by (simp add: wire_dict_def)
  moreover have "mset (map (\<lambda>kv. (fst kv, json_to_plain (snd kv))) (sort_key fst js)) =
      mset (map (\<lambda>kv. (fst kv, json_to_plain (snd kv))) js)"
    unfolding mset_map mset_sort ..
  moreover have "map (\<lambda>kv. (fst kv, json_to_plain (snd kv))) js = kvs"
    unfolding js_def map_map by (rule map_idI) (auto simp: member)
  ultimately show thesis using that by metis
qed

lemma dumps_flat_readable:
  assumes "dumps_text (wire_dict kvs) = Inr t" and "(k, PyInt i) \<in> set kvs"
  shows "json_readable (JInt i)"
proof (rule ccontr)
  assume "\<not> json_readable (JInt i)"
  moreover from assms(1) obtain pairs where
    "list_all2 (\<lambda>kv y. bind_err (dumps_text (snd kv)) (\<lambda>t. Inr (fst kv, t)) = Inr y) kvs pairs"
    by (auto simp: wire_dict_def map_err_iff list.rel_map)
  with assms(2) obtain y where "bind_err (dumps_text (PyInt i)) (\<lambda>t. Inr (k, t)) = Inr y"
    by (fastforce simp: list_all2_conv_all_nth in_set_conv_nth)
  ultimately show False by simp
qed

text \<open>So a flat object that could be written is read back by every parser that took it.\<close>

lemma flat_object_back:
  assumes "flat_object kvs" and "dumps_text (wire_dict kvs) = Inr t" and "1 \<le> depth"
    and "unordered parse" and "parse (wire_dict kvs) = Inr x"
  obtains raw where "json_loads depth t = Inr raw" and "parse raw = Inr x"
proof -
  obtain j where j: "json_from_plain (wire_dict kvs) = Inr j" "json_readable j" "json_depth j \<le> 1"
    by (rule flat_object_json [OF assms(1)]) (use dumps_flat_readable [OF assms(2)] in auto)
  from loads_dumps [OF j(1,2) _ assms(4,5), of depth] j(3) assms(3)
  have "dumps_text (wire_dict kvs) = Inr (canonical_json j)" "loads_wire depth (canonical_json j) parse = Inr x"
    by (simp_all add: dumps_wire_def)
  with assms(2) have "loads_wire depth t parse = Inr x" by simp
  then show thesis by (auto simp: loads_wire_def split: sum.splits if_splits intro: that)
qed

lemma flat_object_read:
  assumes "flat_object kvs" and "dumps_text (wire_dict kvs) = Inr t" and "1 \<le> depth"
  obtains L where "json_loads depth t = Inr (wire_dict L)" and "set L = set kvs" and "optional_key L = optional_key kvs"
proof -
  obtain j L where j: "json_from_plain (wire_dict kvs) = Inr j" "json_readable j" "json_depth j \<le> 1"
      "json_to_plain j = wire_dict L" "mset L = mset kvs"
    by (rule flat_object_json [OF assms(1)]) (use dumps_flat_readable [OF assms(2)] in auto)
  have "t = canonical_json j" using dumps_text_canonical [OF j(1,2)] assms(2) by simp
  moreover have "json_loads depth (canonical_json j) = Inr (json_to_plain j)"
    using json_loads_back [OF json_from_plain_wf [OF j(1)] j(2)] j(3) assms(3) by simp
  ultimately have "json_loads depth t = Inr (wire_dict L)" by (simp add: j(4))
  moreover have "set L = set kvs" using j(5) by (rule mset_eq_setD)
  moreover have "distinct (map fst kvs)" using assms(1) by (simp add: flat_object_def)
  then have "distinct (map fst L)" using j(5) by (metis mset_eq_imp_distinct_iff mset_map)
  then have "map_of L = map_of kvs" using map_of_inject_set [of L kvs] \<open>distinct (map fst kvs)\<close> \<open>set L = set kvs\<close> by simp
  then have "optional_key L = optional_key kvs" by (simp add: optional_key_def fun_eq_iff)
  ultimately show thesis by (rule that)
qed

section \<open>UTF-8\<close>

type_synonym bytes = "8 word list"

definition byte :: "nat \<Rightarrow> 8 word" where
  "byte n = word_of_nat n"

definition utf8_char :: "char \<Rightarrow> bytes" where
  "utf8_char c =
     (let n = of_char c in if n < 128 then [byte n] else [byte (192 + n div 64), byte (128 + n mod 64)])"

definition utf8_encode :: "string \<Rightarrow> bytes" where
  "utf8_encode s = concat (map utf8_char s)"

definition decode_error :: sb_error where
  "decode_error = PyValueError ''UnicodeDecodeError''"

text \<open>A continuation byte, and the ranges of the second byte after the lead bytes that restrict it.\<close>

definition is_continuation :: "8 word \<Rightarrow> bool" where
  "is_continuation b \<longleftrightarrow> 128 \<le> unat b \<and> unat b < 192"

definition second_byte_ok :: "8 word \<Rightarrow> 8 word \<Rightarrow> bool" where
  "second_byte_ok lead b \<longleftrightarrow>
     is_continuation b \<and>
     (unat lead = 0xE0 \<longrightarrow> 0xA0 \<le> unat b) \<and> (unat lead = 0xED \<longrightarrow> unat b < 0xA0) \<and>
     (unat lead = 0xF0 \<longrightarrow> 0x90 \<le> unat b) \<and> (unat lead = 0xF4 \<longrightarrow> unat b < 0x90)"

fun utf8_decode :: "bytes \<Rightarrow> string fallible" where
  "utf8_decode [] = Inr []"
| "utf8_decode (b # bs) =
     (if unat b < 0x80 then bind_err (utf8_decode bs) (\<lambda>s. Inr (char_of (unat b) # s))
      else if 0xC2 \<le> unat b \<and> unat b \<le> 0xDF then
        (case bs of
           c # cs \<Rightarrow>
             if \<not> is_continuation c then Inl decode_error
             else if 0xC3 < unat b then Inl unmodelled
             else bind_err (utf8_decode cs) (\<lambda>s. Inr (char_of ((unat b - 0xC0) * 64 + (unat c - 0x80)) # s))
         | [] \<Rightarrow> Inl decode_error)
      else if 0xE0 \<le> unat b \<and> unat b \<le> 0xEF then
        (case bs of
           c # d # _ \<Rightarrow> if second_byte_ok b c \<and> is_continuation d then Inl unmodelled else Inl decode_error
         | _ \<Rightarrow> Inl decode_error)
      else if 0xF0 \<le> unat b \<and> unat b \<le> 0xF4 then
        (case bs of
           c # d # e # _ \<Rightarrow>
             if second_byte_ok b c \<and> is_continuation d \<and> is_continuation e then Inl unmodelled else Inl decode_error
         | _ \<Rightarrow> Inl decode_error)
      else Inl decode_error)"

definition ascii_decode :: "bytes \<Rightarrow> string fallible" where
  "ascii_decode bs =
     (if list_all (\<lambda>b. unat b < 128) bs then Inr (map (\<lambda>b. char_of (unat b)) bs) else Inl decode_error)"

lemma unat_byte: "n < 256 \<Longrightarrow> unat (byte n) = n"
  by (simp add: byte_def unat_of_nat)

lemma utf8_back: "utf8_decode (utf8_encode s) = Inr s"
proof (induction s)
  case (Cons c s)
  let ?n = "of_char c :: nat"
  have n: "?n < 256" by (rule nat_of_char_less_256)
  have step: "utf8_decode (utf8_char c @ bs) = bind_err (utf8_decode bs) (\<lambda>s. Inr (c # s))" for bs
  proof (cases "?n < 128")
    case True
    then show ?thesis by (simp add: utf8_char_def Let_def unat_byte)
  next
    case False
    have q: "192 + ?n div 64 < 256" "128 + ?n mod 64 < 256" "0xC2 \<le> 192 + ?n div 64" "192 + ?n div 64 \<le> 0xC3"
      using n False by linarith+
    have "unat (byte (192 + ?n div 64)) = 192 + ?n div 64" "unat (byte (128 + ?n mod 64)) = 128 + ?n mod 64"
      using q by (simp_all add: unat_byte)
    moreover have "?n div 64 * 64 + ?n mod 64 = ?n" by simp
    ultimately show ?thesis using False q
      by (simp add: utf8_char_def Let_def is_continuation_def)
  qed
  then show ?case using Cons by (simp add: utf8_encode_def)
qed (simp add: utf8_encode_def)

section \<open>Base64\<close>

definition b64_char :: "nat \<Rightarrow> char" where
  "b64_char n =
     (if n < 26 then char_of (65 + n) else if n < 52 then char_of (71 + n)
      else if n < 62 then char_of (n - 4) else if n = 62 then CHR ''+'' else CHR ''/'')"

definition b64_value :: "char \<Rightarrow> nat option" where
  "b64_value c =
     (let n = of_char c in
      if 65 \<le> n \<and> n \<le> 90 then Some (n - 65) else if 97 \<le> n \<and> n \<le> 122 then Some (n - 71)
      else if 48 \<le> n \<and> n \<le> 57 then Some (n + 4) else if c = CHR ''+'' then Some 62
      else if c = CHR ''/'' then Some 63 else None)"

fun b64encode :: "bytes \<Rightarrow> string" where
  "b64encode [] = []"
| "b64encode [a] =
     [b64_char (unat a div 4), b64_char (unat a mod 4 * 16), CHR ''='', CHR ''='']"
| "b64encode [a, b] =
     [b64_char (unat a div 4), b64_char (unat a mod 4 * 16 + unat b div 16), b64_char (unat b mod 16 * 4), CHR ''='']"
| "b64encode (a # b # c # bs) =
     b64_char (unat a div 4) # b64_char (unat a mod 4 * 16 + unat b div 16) #
     b64_char (unat b mod 16 * 4 + unat c div 64) # b64_char (unat c mod 64) # b64encode bs"

text \<open>
  \<open>b64decode(..., validate=True)\<close>, four characters at a time. Padding is allowed only to fill the last
  four, and nothing may follow it. Padding right after a full group is refused by some patch releases of
  Python 3.12 and skipped by others: it is outside the model.
\<close>

definition base64_error :: sb_error where
  "base64_error = PyValueError ''binascii.Error''"

fun b64_groups :: "bool \<Rightarrow> string \<Rightarrow> bytes fallible" where
  "b64_groups first [] = Inr []"
| "b64_groups first (p # s) =
     (if p = CHR ''='' then Inl (if first then base64_error else unmodelled)
      else case s of
        q # r # t # rest \<Rightarrow>
          (case (b64_value p, b64_value q) of
             (Some a, Some b) \<Rightarrow>
               if r = CHR ''='' then
                 (if t = CHR ''='' \<and> rest = [] then Inr [byte (a * 4 + b div 16)] else Inl base64_error)
               else
                 (case b64_value r of
                    None \<Rightarrow> Inl base64_error
                  | Some c \<Rightarrow>
                      if t = CHR ''='' then
                        (if rest = [] then Inr [byte (a * 4 + b div 16), byte (b mod 16 * 16 + c div 4)]
                         else Inl base64_error)
                      else
                        (case b64_value t of
                           None \<Rightarrow> Inl base64_error
                         | Some d \<Rightarrow>
                             bind_err (b64_groups False rest) (\<lambda>bs.
                               Inr (byte (a * 4 + b div 16) # byte (b mod 16 * 16 + c div 4) #
                                 byte (c mod 4 * 64 + d) # bs))))
           | _ \<Rightarrow> Inl base64_error)
      | _ \<Rightarrow> Inl base64_error)"

definition b64decode :: "string \<Rightarrow> bytes fallible" where
  "b64decode s =
     (if list_all (\<lambda>c. of_char c < (128 :: nat)) s then b64_groups True s
      else Inl (PyValueError ''string argument should contain only ASCII characters''))"

lemma b64_value_char: "n < 64 \<Longrightarrow> b64_value (b64_char n) = Some n"
  by (auto simp: b64_value_def b64_char_def Let_def)

lemma b64_char_ascii:
  assumes "n < 64"
  shows "(of_char (b64_char n) :: nat) < 127" and "32 \<le> (of_char (b64_char n) :: nat)" and "b64_char n \<noteq> CHR ''=''"
proof -
  show "(of_char (b64_char n) :: nat) < 127" "32 \<le> (of_char (b64_char n) :: nat)"
    using assms by (auto simp: b64_char_def)
  show "b64_char n \<noteq> CHR ''=''"
  proof
    assume "b64_char n = CHR ''=''"
    moreover have "b64_value (CHR ''='') = None" by (simp add: b64_value_def)
    ultimately show False using b64_value_char [OF assms] by simp
  qed
qed

lemma unat_byte_less: "unat (a :: 8 word) < 256"
  by (rule order_less_le_trans [OF unsigned_less]) simp

lemma byte_unat: "byte (unat a) = a"
  by (simp add: byte_def)

lemma join_sextet:
  fixes h l :: nat
  shows "l < n \<Longrightarrow> (h * n + l) div n = h" "l < n \<Longrightarrow> (h * n + l) mod n = l"
  by simp_all

lemma high_bits: "n < 256 \<Longrightarrow> n div 4 < (64 :: nat)" "n < 256 \<Longrightarrow> n div 16 < (16 :: nat)" "n < 256 \<Longrightarrow> n div 64 < (4 :: nat)"
  by linarith+

lemma sextet_less:
  fixes h l :: nat
  shows "l < 16 \<Longrightarrow> h mod 4 * 16 + l < 64" "l < 4 \<Longrightarrow> h mod 16 * 4 + l < 64"
  by (rule less_le_trans [of _ "(h mod 4 + 1) * 16"]; simp add: Suc_le_eq)
    (rule less_le_trans [of _ "(h mod 16 + 1) * 4"]; simp add: Suc_le_eq)

lemma b64_group:
  assumes "p < 64" "q < 64" "r < 64" "t < 64"
  shows "b64_groups first (b64_char p # b64_char q # b64_char r # b64_char t # rest) =
      bind_err (b64_groups False rest) (\<lambda>bs.
        Inr (byte (p * 4 + q div 16) # byte (q mod 16 * 16 + r div 4) # byte (r mod 4 * 64 + t) # bs))"
    and "b64_groups first [b64_char p, b64_char q, b64_char r, CHR ''=''] =
      Inr [byte (p * 4 + q div 16), byte (q mod 16 * 16 + r div 4)]"
    and "b64_groups first [b64_char p, b64_char q, CHR ''='', CHR ''=''] = Inr [byte (p * 4 + q div 16)]"
  using assms by (simp_all add: b64_value_char b64_char_ascii(3))

lemma b64_groups_back: "b64_groups first (b64encode bs) = Inr bs"
proof (induction bs arbitrary: first rule: b64encode.induct)
  case (2 a)
  note a = high_bits [OF unat_byte_less [of a]]
  have "b64_groups first (b64encode [a]) = Inr [byte (unat a div 4 * 4 + (unat a mod 4 * 16 + 0) div 16)]"
    using b64_group(3) [of "unat a div 4" "unat a mod 4 * 16"] a sextet_less(1) [of 0 "unat a"] by simp
  also have "\<dots> = Inr [a]" by (subst join_sextet(1)) (simp_all add: byte_unat)
  finally show ?case .
next
  case (3 a b)
  note a = high_bits [OF unat_byte_less [of a]] and b = high_bits [OF unat_byte_less [of b]]
  let ?q = "unat a mod 4 * 16 + unat b div 16"
  have "b64_groups first (b64encode [a, b]) =
      Inr [byte (unat a div 4 * 4 + ?q div 16), byte (?q mod 16 * 16 + (unat b mod 16 * 4 + 0) div 4)]"
    using b64_group(2) [of "unat a div 4" ?q "unat b mod 16 * 4"] a b sextet_less(1) [of "unat b div 16" "unat a"]
      sextet_less(2) [of 0 "unat b"] by simp
  also have "\<dots> = Inr [byte (unat a div 4 * 4 + unat a mod 4), byte (unat b div 16 * 16 + unat b mod 16)]"
    using b by (simp only: join_sextet)
  finally show ?case by (simp add: byte_unat)
next
  case (4 a b c bs)
  note a = high_bits [OF unat_byte_less [of a]] and b = high_bits [OF unat_byte_less [of b]]
    and c = high_bits [OF unat_byte_less [of c]]
  let ?q = "unat a mod 4 * 16 + unat b div 16" and ?r = "unat b mod 16 * 4 + unat c div 64"
  have "b64_groups first (b64encode (a # b # c # bs)) =
      Inr (byte (unat a div 4 * 4 + ?q div 16) # byte (?q mod 16 * 16 + ?r div 4) #
        byte (?r mod 4 * 64 + unat c mod 64) # bs)"
    using b64_group(1) [of "unat a div 4" ?q ?r "unat c mod 64"] a b c sextet_less(1) [of "unat b div 16" "unat a"]
      sextet_less(2) [of "unat c div 64" "unat b"] by (simp add: 4)
  also have "\<dots> = Inr (byte (unat a div 4 * 4 + unat a mod 4) # byte (unat b div 16 * 16 + unat b mod 16) #
        byte (unat c div 64 * 64 + unat c mod 64) # bs)"
    using b c by (simp only: join_sextet)
  finally show ?case by (simp add: byte_unat)
qed simp

lemma b64_ascii: "list_all (\<lambda>c. of_char c < (127 :: nat) \<and> 32 \<le> (of_char c :: nat)) (b64encode bs)"
  by (induction bs rule: b64encode.induct)
    (use high_bits [OF unat_byte_less] in \<open>simp_all add: b64_char_ascii(1,2) sextet_less sextet_less [of 0, simplified]\<close>)

lemma b64_back: "b64decode (b64encode bs) = Inr bs"
proof -
  have "list_all (\<lambda>c. of_char c < (128 :: nat)) (b64encode bs)"
    by (rule list.pred_mono_strong [OF b64_ascii]) simp
  then show ?thesis by (simp add: b64decode_def b64_groups_back)
qed

section \<open>Work messages\<close>

definition MAX_WORK_MESSAGE_BYTES :: nat where "MAX_WORK_MESSAGE_BYTES = 16 * 1024"
definition MAX_QUARANTINE_DIAGNOSTIC_BYTES :: nat where "MAX_QUARANTINE_DIAGNOSTIC_BYTES = 64 * 1024"

definition encode_work_message :: "work_message \<Rightarrow> bytes fallible" where
  "encode_work_message m = bind_err (dumps_text (work_message_to_wire m)) (\<lambda>t. Inr (utf8_encode t))"

text \<open>\<open>except (UnicodeDecodeError, json.JSONDecodeError)\<close>: the plain \<open>ValueError\<close> of a long integer is neither.\<close>

definition malformed_text :: "string \<Rightarrow> 'a fallible \<Rightarrow> 'a fallible" where
  "malformed_text reason r =
     (case r of
        Inl e \<Rightarrow> Inl (if e = decode_error \<or> e = json_decode_error then ContractValidationError reason else e)
      | Inr x \<Rightarrow> Inr x)"

definition decode_work_message :: "nat \<Rightarrow> bytes \<Rightarrow> work_message fallible" where
  "decode_work_message depth payload =
     bind_err (guard_err (length payload \<le> MAX_WORK_MESSAGE_BYTES)
       (ContractValidationError ''oversize_work_message'')) (\<lambda>_.
     bind_err (malformed_text ''malformed_work_message'' (bind_err (utf8_decode payload) (json_loads depth)))
       work_message_from_wire)"

section \<open>Quarantine diagnostics\<close>

record quarantine_diagnostic =
  qd_diagnostic_type :: string
  qd_delivery_count :: int
  qd_payload_sha256 :: string
  qd_payload_size_bytes :: int
  qd_message :: "work_message option"
  qd_replay_payload :: "bytes option"

definition quarantine_to_wire :: "quarantine_diagnostic \<Rightarrow> pyobj" where
  "quarantine_to_wire d =
     (let of_message = (\<lambda>f. case qd_message d of None \<Rightarrow> PyNone | Some m \<Rightarrow> PyStr (f m)) in
      wire_dict
        [(''contract_version'', PyStr ''v1''),
         (''diagnostic_type'', PyStr (qd_diagnostic_type d)),
         (''delivery_count'', PyInt (qd_delivery_count d)),
         (''message_id'', of_message (oid_value \<circ> wm_message_id)),
         (''outbox_event_id'', of_message (oid_value \<circ> wm_outbox_event_id)),
         (''operation_id'', of_message (oid_value \<circ> wm_operation_id)),
         (''command'', of_message (work_command_value \<circ> wm_command)),
         (''payload_sha256'', PyStr (qd_payload_sha256 d)),
         (''payload_size_bytes'', PyInt (qd_payload_size_bytes d)),
         (''replay_available'', PyBool (qd_replay_payload d \<noteq> None))])"

text \<open>\<open>ensure_ascii=True\<close> escapes what is not between a space and a tilde, which occurs inside strings only.\<close>

definition ascii_escape :: "char \<Rightarrow> string" where
  "ascii_escape c =
     (if (of_char c :: nat) < 127 then [c]
      else [CHR 0x5C, CHR ''u'', CHR ''0'', CHR ''0'', hex_digit (of_char c div 16), hex_digit (of_char c mod 16)])"

definition dumps_ascii :: "pyobj \<Rightarrow> string fallible" where
  "dumps_ascii p = bind_err (dumps_text p) (\<lambda>t. Inr (concat (map ascii_escape t)))"

definition poison_diagnostic :: "string \<Rightarrow> nat \<Rightarrow> int \<Rightarrow> pyobj" where
  "poison_diagnostic digest n delivery_count = wire_dict
     [(''contract_version'', PyStr ''v1''),
      (''diagnostic_type'', PyStr ''POISON_MESSAGE''),
      (''delivery_count'', PyInt delivery_count),
      (''payload_sha256'', PyStr digest),
      (''payload_size_bytes'', PyInt (int n)),
      (''replay_payload_base64'', PyNone)]"

definition exhausted_diagnostic :: "(bytes \<Rightarrow> string) \<Rightarrow> work_message \<Rightarrow> bytes \<Rightarrow> int \<Rightarrow> pyobj" where
  "exhausted_diagnostic sha256 message canonical_payload delivery_count = wire_dict
     [(''contract_version'', PyStr ''v1''),
      (''diagnostic_type'', PyStr ''DELIVERY_EXHAUSTED''),
      (''delivery_count'', PyInt delivery_count),
      (''message_id'', PyStr (oid_value (wm_message_id message))),
      (''outbox_event_id'', PyStr (oid_value (wm_outbox_event_id message))),
      (''operation_id'', PyStr (oid_value (wm_operation_id message))),
      (''command'', PyStr (work_command_value (wm_command message))),
      (''payload_sha256'', PyStr (sha256 canonical_payload)),
      (''payload_size_bytes'', PyInt (int (length canonical_payload))),
      (''replay_payload_base64'', PyStr (b64encode canonical_payload))]"

definition encode_quarantine_diagnostic :: "nat \<Rightarrow> (bytes \<Rightarrow> string) \<Rightarrow> bytes \<Rightarrow> int \<Rightarrow> bytes fallible" where
  "encode_quarantine_diagnostic depth sha256 payload delivery_count =
     bind_err
       (case decode_work_message depth payload of
          Inl e \<Rightarrow>
            if is_contract_error e then Inr (poison_diagnostic (sha256 payload) (length payload) delivery_count)
            else Inl e
        | Inr message \<Rightarrow>
            bind_err (encode_work_message message) (\<lambda>canonical_payload.
              Inr (exhausted_diagnostic sha256 message canonical_payload delivery_count)))
       (\<lambda>diagnostic. bind_err (dumps_ascii diagnostic) (\<lambda>t. Inr (utf8_encode t)))"

definition POISON_KEYS :: "string list" where
  "POISON_KEYS =
     [''contract_version'', ''diagnostic_type'', ''delivery_count'', ''payload_sha256'',
      ''payload_size_bytes'', ''replay_payload_base64'']"

definition EXHAUSTED_KEYS :: "string list" where
  "EXHAUSTED_KEYS =
     [''contract_version'', ''diagnostic_type'', ''delivery_count'', ''message_id'', ''outbox_event_id'',
      ''operation_id'', ''command'', ''payload_sha256'', ''payload_size_bytes'', ''replay_payload_base64'']"

definition malformed_diagnostic :: sb_error where
  "malformed_diagnostic = ContractValidationError ''malformed_quarantine_diagnostic''"

text \<open>
  The checks of the scalar fields, in the code's order. A list or a dict as \<open>diagnostic_type\<close> is unhashable:
  the membership test raises \<open>TypeError\<close>.
\<close>

definition is_hex_digest :: "string \<Rightarrow> bool" where
  "is_hex_digest s \<longleftrightarrow> length s = 64 \<and> list_all (\<lambda>c. c \<in> set ''0123456789abcdef'') s"

definition diagnostic_fields :: "(string \<times> pyobj) list \<Rightarrow> (string \<times> int \<times> string \<times> int) fallible" where
  "diagnostic_fields raw =
     (let diagnostic_type = optional_key raw ''diagnostic_type'';
          expected_keys = (if diagnostic_type = PyStr ''POISON_MESSAGE'' then POISON_KEYS else EXHAUSTED_KEYS) in
      bind_err (guard_err (set (map fst raw) = set expected_keys \<and>
                  optional_key raw ''contract_version'' = PyStr ''v1'') malformed_diagnostic) (\<lambda>_.
      case diagnostic_type of
        PyList _ \<Rightarrow> Inl (OtherException ''TypeError'')
      | PyDict _ \<Rightarrow> Inl (OtherException ''TypeError'')
      | PyStr kind \<Rightarrow>
          if kind \<noteq> ''POISON_MESSAGE'' \<and> kind \<noteq> ''DELIVERY_EXHAUSTED'' then Inl malformed_diagnostic
          else (case (optional_key raw ''delivery_count'', optional_key raw ''payload_sha256'',
                      optional_key raw ''payload_size_bytes'') of
                  (PyInt delivery_count, PyStr payload_digest, PyInt payload_size) \<Rightarrow>
                    if delivery_count < 1 \<or> \<not> is_hex_digest payload_digest \<or> payload_size < 0
                    then Inl malformed_diagnostic
                    else Inr (kind, delivery_count, payload_digest, payload_size)
                | _ \<Rightarrow> Inl malformed_diagnostic)
      | _ \<Rightarrow> Inl malformed_diagnostic))"

definition is_value_error :: "sb_error \<Rightarrow> bool" where
  "is_value_error e = (case e of PyValueError _ \<Rightarrow> True | _ \<Rightarrow> False)"

definition decode_quarantine_diagnostic ::
  "nat \<Rightarrow> (bytes \<Rightarrow> string) \<Rightarrow> bytes \<Rightarrow> quarantine_diagnostic fallible" where
  "decode_quarantine_diagnostic depth sha256 payload =
     bind_err (guard_err (length payload \<le> MAX_QUARANTINE_DIAGNOSTIC_BYTES)
       (ContractValidationError ''oversize_quarantine_diagnostic'')) (\<lambda>_.
     bind_err (malformed_text ''malformed_quarantine_diagnostic''
       (bind_err (ascii_decode payload) (json_loads depth))) (\<lambda>parsed.
     bind_err (case parsed of PyDict kvs \<Rightarrow> map_err string_key kvs | _ \<Rightarrow> Inl malformed_diagnostic) (\<lambda>raw.
     bind_err (diagnostic_fields raw) (\<lambda>(kind, delivery_count, payload_digest, payload_size).
     let diagnostic = \<lparr>qd_diagnostic_type = kind, qd_delivery_count = delivery_count,
           qd_payload_sha256 = payload_digest, qd_payload_size_bytes = payload_size,
           qd_message = None, qd_replay_payload = None\<rparr>
     in case (kind = ''POISON_MESSAGE'', optional_key raw ''replay_payload_base64'') of
          (True, PyNone) \<Rightarrow> Inr diagnostic
        | (True, _) \<Rightarrow> Inl malformed_diagnostic
        | (False, PyStr replay_encoded) \<Rightarrow>
            bind_err (case b64decode replay_encoded of
                Inl e \<Rightarrow> Inl (if is_value_error e then malformed_diagnostic else e)
              | Inr replay_payload \<Rightarrow> Inr replay_payload) (\<lambda>replay_payload.
            bind_err (guard_err (int (length replay_payload) = payload_size \<and> sha256 replay_payload = payload_digest)
              malformed_diagnostic) (\<lambda>_.
            bind_err (decode_work_message depth replay_payload) (\<lambda>message.
            bind_err (guard_err
              (optional_key raw ''message_id'' = PyStr (oid_value (wm_message_id message)) \<and>
               optional_key raw ''outbox_event_id'' = PyStr (oid_value (wm_outbox_event_id message)) \<and>
               optional_key raw ''operation_id'' = PyStr (oid_value (wm_operation_id message)) \<and>
               optional_key raw ''command'' = PyStr (work_command_value (wm_command message)))
              malformed_diagnostic) (\<lambda>_.
            Inr (diagnostic\<lparr>qd_message := Some message, qd_replay_payload := Some replay_payload\<rparr>)))))
        | (False, _) \<Rightarrow> Inl malformed_diagnostic))))"

section \<open>What was encoded is decoded\<close>

lemma flat_leaves:
  "\<exists>j. flat_value (opaque_id_to_wire i) = Some j" "\<exists>j. flat_value (timestamp_to_wire t) = Some j"
  "\<exists>j. flat_value (optional_to_wire PyStr v) = Some j"
proof -
  show "\<exists>j. flat_value (timestamp_to_wire t) = Some j"
  proof (cases "ord2ymd (ts_value t div MICROS_PER_DAY + 1)")
    case (fields year month day)
    then show ?thesis by (simp only: timestamp_to_wire_def Let_def prod.case flat_value.simps option.simps simp_thms ex_simps)
  qed
qed (cases v; simp add: opaque_id_to_wire_def optional_to_wire_def)+

lemma work_message_flat:
  obtains kvs where "work_message_to_wire m = wire_dict kvs" and "flat_object kvs"
proof
  show "work_message_to_wire m = wire_dict
     [(''contract_version'', PyStr (wm_contract_version m)),
      (''message_id'', opaque_id_to_wire (wm_message_id m)),
      (''outbox_event_id'', opaque_id_to_wire (wm_outbox_event_id m)),
      (''operation_id'', opaque_id_to_wire (wm_operation_id m)),
      (''expected_operation_version'', PyInt (wm_expected_operation_version m)),
      (''command'', PyStr (work_command_value (wm_command m))),
      (''correlation_id'', optional_to_wire PyStr (wm_correlation_id m)),
      (''created_at'', timestamp_to_wire (wm_created_at m))]" (is "_ = wire_dict ?kvs")
    by (simp add: work_message_to_wire_def)
  show "flat_object ?kvs" by (simp add: flat_object_def flat_leaves)
qed

lemma encode_decode_text:
  assumes "work_message_conforms m" and "encode_work_message m = Inr payload" and "1 \<le> depth"
  obtains t raw where "payload = utf8_encode t" and "json_loads depth t = Inr raw" and "work_message_from_wire raw = Inr m"
proof -
  obtain kvs where kvs: "work_message_to_wire m = wire_dict kvs" "flat_object kvs" by (rule work_message_flat)
  from assms(2) obtain t where t: "dumps_text (wire_dict kvs) = Inr t" "payload = utf8_encode t"
    by (auto simp: encode_work_message_def kvs(1))
  have "work_message_from_wire (wire_dict kvs) = Inr m"
    using work_message_wire.parses_back [OF assms(1)] by (simp add: kvs(1))
  then obtain raw where "json_loads depth t = Inr raw" "work_message_from_wire raw = Inr m"
    by (rule flat_object_back [OF kvs(2) t(1) assms(3) unordered_work_message])
  then show thesis by (rule that [OF t(2)])
qed

lemma decode_encode_work_message:
  assumes "work_message_conforms m" and "encode_work_message m = Inr payload"
    and "length payload \<le> MAX_WORK_MESSAGE_BYTES" and "1 \<le> depth"
  shows "decode_work_message depth payload = Inr m"
proof -
  obtain t raw where "payload = utf8_encode t" "json_loads depth t = Inr raw" "work_message_from_wire raw = Inr m"
    by (rule encode_decode_text [OF assms(1,2,4)])
  with assms(3) show ?thesis by (simp add: decode_work_message_def utf8_back malformed_text_def)
qed

text \<open>Text of ASCII members is ASCII, and is its own escaped form and its own UTF-8 and ASCII encoding.\<close>

definition ascii :: "string \<Rightarrow> bool" where
  "ascii s \<longleftrightarrow> list_all (\<lambda>c. of_char c < (127 :: nat)) s"

lemma ascii_simps [simp]:
  "ascii []" "ascii (c # s) \<longleftrightarrow> (of_char c :: nat) < 127 \<and> ascii s" "ascii (s @ t) \<longleftrightarrow> ascii s \<and> ascii t"
  by (simp_all add: ascii_def)

lemma ascii_hex_digit: "n < 16 \<Longrightarrow> (of_char (hex_digit n) :: nat) < 127"
  by (simp add: hex_digit_def)

lemma ascii_quote: "ascii s \<Longrightarrow> ascii (json_quote s)"
proof -
  have "ascii (json_escape c)" if "(of_char c :: nat) < 127" for c
    using that by (simp add: json_escape_def ascii_hex_digit)
  then have "ascii s \<Longrightarrow> ascii (concat (map json_escape s))" for s by (induction s) simp_all
  then show "ascii s \<Longrightarrow> ascii (json_quote s)" by (simp add: json_quote_def)
qed

lemma ascii_int_text: "ascii (int_text i)"
proof -
  have "ascii (nat_text n)" for n
  proof (induction n rule: nat_text.induct)
    case (1 n)
    moreover have "n mod 10 < 79" by (rule less_trans [of _ 10]) simp_all
    ultimately show ?case by (subst nat_text.simps) simp
  qed
  then show ?thesis by (simp add: int_text_def)
qed

lemma ascii_comma_join: "list_all ascii ts \<Longrightarrow> ascii (comma_join ts)"
  by (induction ts rule: comma_join.induct) simp_all

lemma ascii_dumps:
  assumes "dumps_text (wire_dict kvs) = Inr t" and "flat_object kvs"
    and "\<And>k v. (k, v) \<in> set kvs \<Longrightarrow> ascii k \<and> (\<forall>s. v = PyStr s \<longrightarrow> ascii s)"
  shows "ascii t"
proof -
  obtain pairs where pairs: "list_all2 (\<lambda>kv y. bind_err (dumps_text (snd kv)) (\<lambda>t. Inr (fst kv, t)) = Inr y) kvs pairs"
    and t: "t = CHR ''{'' # comma_join (map (\<lambda>kt. json_quote (fst kt) @ CHR '':'' # snd kt) (sort_key fst pairs)) @ ''}''"
    using assms(1) by (auto simp: wire_dict_def map_err_iff list.rel_map)
  have "ascii k \<and> ascii u" if ku: "(k, u) \<in> set pairs" for k u
  proof -
    from ku obtain i where i: "i < length pairs" "pairs ! i = (k, u)" by (auto simp: in_set_conv_nth)
    obtain k' v where kv: "kvs ! i = (k', v)" by fastforce
    have "(k', v) \<in> set kvs" using i(1) list_all2_lengthD [OF pairs] kv by (metis nth_mem)
    with list_all2_nthD2 [OF pairs i(1)] i(2) kv have v: "(k, v) \<in> set kvs" "dumps_text v = Inr u" by auto
    from v(1) assms(2) obtain j where "flat_value v = Some j" by (fastforce simp: flat_object_def list_all_iff)
    then have "ascii u" using v assms(3) [OF v(1)]
      by (cases v) (auto simp: ascii_int_text ascii_quote split: if_splits)
    with assms(3) [OF v(1)] show ?thesis by simp
  qed
  then show ?thesis unfolding t by (auto simp: list_all_iff ascii_quote intro!: ascii_comma_join)
qed

lemma ascii_forms:
  assumes "ascii t"
  shows "concat (map ascii_escape t) = t" and "ascii_decode (utf8_encode t) = Inr t"
proof -
  show "concat (map ascii_escape t) = t" using assms by (induction t) (simp_all add: ascii_escape_def)
  have "utf8_encode t = map (\<lambda>c. byte (of_char c)) t"
    using assms by (induction t) (simp_all add: utf8_encode_def utf8_char_def Let_def)
  moreover have "map ((\<lambda>b. char_of (unat b)) \<circ> (\<lambda>c. byte (of_char c))) t = t"
    using assms by (induction t) (simp_all add: unat_byte)
  moreover have "list_all (\<lambda>b. unat b < 128) (map (\<lambda>c. byte (of_char c)) t)"
    using assms by (induction t) (simp_all add: unat_byte)
  ultimately show "ascii_decode (utf8_encode t) = Inr t" by (simp add: ascii_decode_def)
qed

text \<open>A diagnostic whose members are ASCII is read back with the members it was written with.\<close>

lemma diagnostic_read:
  assumes "dumps_ascii (wire_dict kvs) = Inr t" and "flat_object kvs"
    and "\<And>k v. (k, v) \<in> set kvs \<Longrightarrow> ascii k \<and> (\<forall>s. v = PyStr s \<longrightarrow> ascii s)" and "1 \<le> depth"
  obtains L where "bind_err (ascii_decode (utf8_encode t)) (json_loads depth) = Inr (wire_dict L)"
    and "set (map fst L) = set (map fst kvs)" and "optional_key L = optional_key kvs"
proof -
  from assms(1) obtain u where u: "dumps_text (wire_dict kvs) = Inr u" "t = concat (map ascii_escape u)"
    by (auto simp: dumps_ascii_def)
  note u_ascii = ascii_forms [OF ascii_dumps [OF u(1) assms(2,3)]]
  obtain L where "json_loads depth u = Inr (wire_dict L)" "set L = set kvs" "optional_key L = optional_key kvs"
    by (rule flat_object_read [OF assms(2) u(1) assms(4)])
  with u_ascii u(2) show thesis by (intro that [of L]) simp_all
qed

lemma ascii_opaque_id: "opaque_id_conforms i \<Longrightarrow> ascii (oid_value i)"
proof -
  assume "opaque_id_conforms i"
  then have re: "opaque_id_re (oid_value i)" by (simp add: opaque_id_conforms_def)
  have "(of_char c :: nat) < 127" if "c \<in> set (oid_value i)" for c
  proof -
    from re that obtain n where "(n, c) \<in> set (zip [0..<36] (oid_value i))"
      by (auto simp: opaque_id_re_def in_set_conv_nth set_zip)
    with re have "c = CHR ''-'' \<or> is_lower_hex c" by (fastforce simp: opaque_id_re_def list_all_iff split: if_splits)
    then show ?thesis by (auto simp: is_lower_hex_def Let_def)
  qed
  then show ?thesis by (simp add: ascii_def list_all_iff)
qed

lemma ascii_hex_digest: "is_hex_digest s \<Longrightarrow> ascii s"
proof -
  have "list_all (\<lambda>c. of_char c < (127 :: nat)) ''0123456789abcdef''" by simp
  then show "is_hex_digest s \<Longrightarrow> ascii s" unfolding is_hex_digest_def ascii_def list_all_iff by blast
qed

lemma ascii_command: "ascii (work_command_value c)"
  by (cases c) simp_all

lemma ascii_b64: "ascii (b64encode bs)"
  unfolding ascii_def by (rule list.pred_mono_strong [OF b64_ascii]) simp

text \<open>A diagnostic is never longer than what the decoder takes.\<close>

lemma quote_length: "length (json_quote s) \<le> 6 * length s + 2"
proof -
  have "length (json_escape c) \<le> 6" for c by (simp add: json_escape_def)
  then have "length (concat (map json_escape s)) \<le> 6 * length s" by (induction s) (simp_all add: add_mono)
  then show ?thesis by (simp add: json_quote_def)
qed

lemma quote_length_printable:
  assumes "list_all (\<lambda>c. 32 \<le> (of_char c :: nat)) s"
  shows "length (json_quote s) \<le> 2 * length s + 2"
proof -
  have short: "length (json_escape c) \<le> 2" if "32 \<le> (of_char c :: nat)" for c
    using that by (simp add: json_escape_def)
  from assms have "length (concat (map json_escape s)) \<le> 2 * length s"
  proof (induction s)
    case (Cons c s)
    with short [of c] show ?case by simp
  qed simp
  then show ?thesis by (simp add: json_quote_def)
qed

lemma comma_join_length: "length (comma_join ts) \<le> (\<Sum>t\<leftarrow>ts. length t + 1)"
  by (induction ts rule: comma_join.induct) simp_all

lemma dumps_length:
  assumes "dumps_text (wire_dict kvs) = Inr t"
    and "\<And>k v u. (k, v) \<in> set kvs \<Longrightarrow> dumps_text v = Inr u \<Longrightarrow> length u \<le> bound v"
  shows "length t \<le> 2 + (\<Sum>kv\<leftarrow>kvs. 6 * length (fst kv) + 4 + bound (snd kv))"
proof -
  obtain pairs where pairs: "list_all2 (\<lambda>kv y. bind_err (dumps_text (snd kv)) (\<lambda>t. Inr (fst kv, t)) = Inr y) kvs pairs"
    and t: "t = CHR ''{'' # comma_join (map (\<lambda>kt. json_quote (fst kt) @ CHR '':'' # snd kt) (sort_key fst pairs)) @ ''}''"
    using assms(1) by (auto simp: wire_dict_def map_err_iff list.rel_map)
  let ?member = "\<lambda>kt. length (json_quote (fst kt) @ CHR '':'' # snd kt) + 1"
  have "sum_list (map ?member (sort_key fst pairs)) = sum_list (map ?member pairs)"
    unfolding sum_mset_sum_list [symmetric] mset_map mset_sort ..
  moreover have "sum_list (map ?member pairs) \<le> (\<Sum>kv\<leftarrow>kvs. 6 * length (fst kv) + 4 + bound (snd kv))"
    using pairs assms(2)
  proof (induction rule: list_all2_induct)
    case (Cons kv kvs y ys)
    then obtain u where u: "dumps_text (snd kv) = Inr u" "y = (fst kv, u)" by auto
    then have "length u \<le> bound (snd kv)" using Cons.prems [of "fst kv" "snd kv" u] by simp
    then have "?member y \<le> 6 * length (fst kv) + 4 + bound (snd kv)" using quote_length [of "fst kv"] u by simp
    moreover have "sum_list (map ?member ys) \<le> (\<Sum>kv\<leftarrow>kvs. 6 * length (fst kv) + 4 + bound (snd kv))"
      by (rule Cons.IH) (auto intro: Cons.prems)
    ultimately show ?case by simp
  qed simp
  ultimately show ?thesis
    using comma_join_length [of "map (\<lambda>kt. json_quote (fst kt) @ CHR '':'' # snd kt) (sort_key fst pairs)"]
    by (simp add: t o_def)
qed

lemma b64_length: "3 * length (b64encode bs) \<le> 4 * (length bs + 2)"
  by (induction bs rule: b64encode.induct) simp_all

lemma int_text_length: "json_readable (JInt i) \<Longrightarrow> length (int_text i) \<le> Suc MAX_STR_DIGITS"
  by (auto simp: int_text_def)

fun text_bound :: "pyobj \<Rightarrow> nat" where
  "text_bound (PyInt i) = Suc MAX_STR_DIGITS"
| "text_bound (PyStr s) = (if list_all (\<lambda>c. 32 \<le> (of_char c :: nat)) s then 2 else 6) * length s + 2"
| "text_bound _ = 5"

lemma flat_text_bound:
  assumes "flat_value v \<noteq> None" and "dumps_text v = Inr u"
  shows "length u \<le> text_bound v"
proof (cases v)
  case (PyInt i)
  with assms(2) int_text_length [of i] show ?thesis by (simp split: if_split_asm)
qed (use assms quote_length quote_length_printable in auto)

lemma utf8_length: "ascii t \<Longrightarrow> length (utf8_encode t) = length t"
  by (induction t) (simp_all add: utf8_encode_def utf8_char_def Let_def)

lemma diagnostic_length:
  assumes "dumps_ascii (wire_dict kvs) = Inr t" and "flat_object kvs"
    and "\<And>k v. (k, v) \<in> set kvs \<Longrightarrow> ascii k \<and> (\<forall>s. v = PyStr s \<longrightarrow> ascii s)"
  shows "length (utf8_encode t) \<le> 2 + (\<Sum>kv\<leftarrow>kvs. 6 * length (fst kv) + 4 + text_bound (snd kv))"
proof -
  from assms(1) obtain u where u: "dumps_text (wire_dict kvs) = Inr u" "t = concat (map ascii_escape u)"
    by (auto simp: dumps_ascii_def)
  have a: "ascii u" by (rule ascii_dumps [OF u(1) assms(2,3)])
  have "length u \<le> 2 + (\<Sum>kv\<leftarrow>kvs. 6 * length (fst kv) + 4 + text_bound (snd kv))"
    using assms(2) by (intro dumps_length [OF u(1)] flat_text_bound) (auto simp: flat_object_def list_all_iff)
  then show ?thesis using u(2) ascii_forms(1) [OF a] utf8_length [OF a] by simp
qed

text \<open>
  C16. Quarantined work can be replayed: when the canonical bytes of a valid message are at most 16 KiB, the
  diagnostic made of it once its deliveries are used up is at most the 64 KiB the decoder takes, and decoding it
  gives back the message, its delivery count and the canonical bytes, with the digest and the length of exactly those
  bytes. (A message that is at most 16 KiB as received may be longer in canonical form; its diagnostic is refused.)
\<close>

theorem quarantined_work_can_be_replayed:
  assumes "decode_work_message depth payload = Inr m" and "encode_work_message m = Inr canonical"
    and "length canonical \<le> MAX_WORK_MESSAGE_BYTES" and "is_hex_digest (sha256 canonical)" and "1 \<le> n" and "1 \<le> depth"
    and "encode_quarantine_diagnostic depth sha256 payload n = Inr diagnostic"
  shows "length diagnostic \<le> MAX_QUARANTINE_DIAGNOSTIC_BYTES \<and>
    decode_quarantine_diagnostic depth sha256 diagnostic =
    Inr \<lparr>qd_diagnostic_type = ''DELIVERY_EXHAUSTED'', qd_delivery_count = n, qd_payload_sha256 = sha256 canonical,
         qd_payload_size_bytes = int (length canonical), qd_message = Some m, qd_replay_payload = Some canonical\<rparr>"
proof -
  have m: "work_message_conforms m"
    using assms(1) work_message_wire.accepts_conforming by (auto simp: decode_work_message_def accepts_only_def)
  let ?kvs = "[(''contract_version'', PyStr ''v1''),
      (''diagnostic_type'', PyStr ''DELIVERY_EXHAUSTED''),
      (''delivery_count'', PyInt n),
      (''message_id'', PyStr (oid_value (wm_message_id m))),
      (''outbox_event_id'', PyStr (oid_value (wm_outbox_event_id m))),
      (''operation_id'', PyStr (oid_value (wm_operation_id m))),
      (''command'', PyStr (work_command_value (wm_command m))),
      (''payload_sha256'', PyStr (sha256 canonical)),
      (''payload_size_bytes'', PyInt (int (length canonical))),
      (''replay_payload_base64'', PyStr (b64encode canonical))]"
  have d: "exhausted_diagnostic sha256 m canonical n = wire_dict ?kvs" by (simp add: exhausted_diagnostic_def)
  from assms(1,2,7) obtain t where t: "dumps_ascii (wire_dict ?kvs) = Inr t" "diagnostic = utf8_encode t"
    by (auto simp: encode_quarantine_diagnostic_def d)
  have members: "ascii k \<and> (\<forall>s. v = PyStr s \<longrightarrow> ascii s)" if "(k, v) \<in> set ?kvs" for k v
    using that m assms(4)
    by (auto simp: ascii_opaque_id ascii_hex_digest ascii_command ascii_b64 work_message_conforms_def)
  have flat: "flat_object ?kvs" by (simp add: flat_object_def)
  obtain L where L: "bind_err (ascii_decode (utf8_encode t)) (json_loads depth) = Inr (wire_dict L)"
    "set (map fst L) = set (map fst ?kvs)" "optional_key L = optional_key ?kvs"
    by (rule diagnostic_read [OF t(1) flat members assms(6)])
  have fields: "diagnostic_fields L = Inr (''DELIVERY_EXHAUSTED'', n, sha256 canonical, int (length canonical))"
    using assms(4,5) unfolding diagnostic_fields_def L
    by (simp add: Let_def guard_err_def optional_key_def EXHAUSTED_KEYS_def)
  have again: "decode_work_message depth canonical = Inr m"
    by (rule decode_encode_work_message [OF m assms(2,3,6)])
  have keys: "map_err string_key (map (\<lambda>kv. (PyStr (fst kv), snd kv)) L) = Inr L"
    by (simp add: map_err_roundtrip string_key_def)
  have replay: "optional_key L ''replay_payload_base64'' = PyStr (b64encode canonical)"
    "optional_key L ''message_id'' = PyStr (oid_value (wm_message_id m))"
    "optional_key L ''outbox_event_id'' = PyStr (oid_value (wm_outbox_event_id m))"
    "optional_key L ''operation_id'' = PyStr (oid_value (wm_operation_id m))"
    "optional_key L ''command'' = PyStr (work_command_value (wm_command m))"
    unfolding L(3) by (simp_all add: optional_key_def)
  have ids: "length (oid_value i) = 36" if "opaque_id_conforms i" for i
    using that by (simp add: opaque_id_conforms_def opaque_id_re_def)
  have "text_bound (PyStr (b64encode canonical)) = 2 * length (b64encode canonical) + 2"
    using list.pred_mono_strong [OF b64_ascii [of canonical], of "\<lambda>c. 32 \<le> (of_char c :: nat)"] by simp
  moreover have "length (b64encode canonical) \<le> 21848"
    using b64_length [of canonical] assms(3) by (simp add: MAX_WORK_MESSAGE_BYTES_def)
  moreover have "text_bound (PyStr s) \<le> 6 * length s + 2" for s by simp
  from this [of "''v1''"] this [of "''DELIVERY_EXHAUSTED''"] this [of "sha256 canonical"] this [of "oid_value (wm_message_id m)"] this [of "oid_value (wm_outbox_event_id m)"]
    this [of "oid_value (wm_operation_id m)"] this [of "work_command_value (wm_command m)"]
  have "text_bound (PyStr (sha256 canonical)) \<le> 386" "text_bound (PyStr (oid_value (wm_message_id m))) \<le> 218"
    "text_bound (PyStr (oid_value (wm_outbox_event_id m))) \<le> 218"
    "text_bound (PyStr (oid_value (wm_operation_id m))) \<le> 218"
    "text_bound (PyStr (work_command_value (wm_command m))) \<le> 62"
    "text_bound (PyStr ''v1'') \<le> 14" "text_bound (PyStr ''DELIVERY_EXHAUSTED'') \<le> 110"
    using m assms(4) ids by (cases "wm_command m"; simp add: work_message_conforms_def is_hex_digest_def)+
  ultimately have "length diagnostic \<le> MAX_QUARANTINE_DIAGNOSTIC_BYTES"
    using diagnostic_length [OF t(1) flat members]
    by (simp add: t(2) MAX_STR_DIGITS_def MAX_QUARANTINE_DIAGNOSTIC_BYTES_def del: text_bound.simps(2))
  then show ?thesis
    by (simp add: decode_quarantine_diagnostic_def t(2) L(1) malformed_text_def guard_err_def wire_dict_def keys fields
        replay b64_back again)
qed

text \<open>
  A payload that is no work message leaves its digest and its length in the diagnostic, nothing else, and the
  diagnostic of it carries no replay payload.
\<close>

lemma poison_is_never_copied:
  assumes "decode_work_message depth payload = Inl (ContractValidationError r)"
    and "decode_work_message depth payload' = Inl (ContractValidationError r')"
    and "sha256 payload = sha256 payload'" and "length payload = length payload'"
  shows "encode_quarantine_diagnostic depth sha256 payload n = encode_quarantine_diagnostic depth sha256 payload' n"
  using assms by (simp add: encode_quarantine_diagnostic_def is_contract_error_def)

end
