(* ===== verification/Work_Handler.thy ===== *)
theory Work_Handler
  imports Message_Codec Runtime_Properties Recovery_Properties Compensation_Properties
begin

text \<open>
  The worker (\<^verbatim>\<open>messaging/ids.py\<close>, \<^verbatim>\<open>messaging/worker.py\<close>, \<^verbatim>\<open>messaging/nats.py\<close>): the ids it derives from the
  outbox event of a message, what it runs for a command at the state the operation has, and how it
  settles the delivery. \<open>uuid5\<close> is the text of the name-based UUID under \<open>NAMESPACE_URL\<close>, a parameter; the
  broker's answers to a publication and to an acknowledgement are parameters too.
\<close>

section \<open>Deterministic ids\<close>

definition work_id :: "(string \<Rightarrow> string) \<Rightarrow> string \<Rightarrow> string \<Rightarrow> opaque_id" where
  "work_id uuid5 namespace role = OpaqueId (uuid5 (''stateback:'' @ namespace @ '':'' @ role))"

definition retry_ids_for_attempt ::
  "(string \<Rightarrow> string) \<Rightarrow> string \<Rightarrow> opaque_id \<Rightarrow> int \<Rightarrow> compensation_retry_ids fallible" where
  "retry_ids_for_attempt uuid5 namespace compensation_id attempt_number =
     (if attempt_number < 2 then Inl (PyValueError ''retry attempt_number must be >= 2'')
      else
        let prefix = ''retry:'' @ oid_value compensation_id @ '':'' @ int_text attempt_number;
            make = (\<lambda>role. work_id uuid5 namespace (prefix @ '':'' @ role))
        in Inr
          \<lparr>ty_parent_retry_transition_audit_event_id = make ''parent-transition'',
           ty_parent_retry_outbox_event_id = make ''parent-outbox'',
           ty_attempt_id = make ''attempt'',
           ty_attempt_audit_event_id = make ''attempt-audit'',
           ty_attempt_outbox_event_id = make ''attempt-outbox'',
           ty_resume_verification_id = make ''resume-verification'',
           ty_resume_verification_start_audit_event_id = make ''resume-verify-start'',
           ty_resume_verification_complete_audit_event_id = make ''resume-verify-complete'',
           ty_resume_verification_outbox_event_id = make ''resume-verify-outbox'',
           ty_resume_complete_transition_audit_event_id = make ''resume-transition'',
           ty_resume_complete_outbox_event_id = make ''resume-outbox'',
           ty_evidence_audit_event_id = make ''evidence'',
           ty_complete_transition_audit_event_id = make ''complete-transition'',
           ty_complete_outbox_event_id = make ''complete-outbox'',
           ty_verification_id = make ''verification'',
           ty_verification_start_audit_event_id = make ''verify-start'',
           ty_verification_complete_audit_event_id = make ''verify-complete'',
           ty_verification_outbox_event_id = make ''verify-outbox''\<rparr>)"

definition work_namespace :: "work_message \<Rightarrow> string" where
  "work_namespace message = oid_value (wm_outbox_event_id message)"

definition work_execute_ids :: "(string \<Rightarrow> string) \<Rightarrow> string \<Rightarrow> execute_ids" where
  "work_execute_ids uuid5 namespace =
     (let make = work_id uuid5 namespace in
        \<lparr>xi_attempt_id = make ''execute:attempt'',
         xi_claim_transition_audit_event_id = make ''execute:claim'',
         xi_attempt_audit_event_id = make ''execute:attempt-audit'',
         xi_evidence_audit_event_id = make ''execute:evidence'',
         xi_execution_transition_audit_event_id = make ''execute:transition'',
         xi_execution_outbox_event_id = make ''execute:outbox'',
         xi_verification_id = make ''execute:verification'',
         xi_verification_audit_event_id = make ''execute:verification-audit''\<rparr>)"

definition work_runtime_recover_ids :: "(string \<Rightarrow> string) \<Rightarrow> string \<Rightarrow> recover_ids" where
  "work_runtime_recover_ids uuid5 namespace =
     (let make = work_id uuid5 namespace in
        \<lparr>ri_evidence_audit_event_id = make ''runtime-recover:evidence'',
         ri_execution_transition_audit_event_id = make ''runtime-recover:transition'',
         ri_execution_outbox_event_id = make ''runtime-recover:outbox'',
         ri_verification_id = make ''runtime-recover:verification'',
         ri_verification_audit_event_id = make ''runtime-recover:verification-audit''\<rparr>)"

definition work_recovery_ids :: "(string \<Rightarrow> string) \<Rightarrow> string \<Rightarrow> recovery_ids" where
  "work_recovery_ids uuid5 namespace =
     (let make = work_id uuid5 namespace in
        \<lparr>vi_verification_id = make ''recovery:verification'',
         vi_verification_start_audit_event_id = make ''recovery:verify-start'',
         vi_verification_complete_audit_event_id = make ''recovery:verify-complete'',
         vi_start_transition_audit_event_id = make ''recovery:start-transition'',
         vi_start_outbox_event_id = make ''recovery:start-outbox'',
         vi_complete_transition_audit_event_id = make ''recovery:complete-transition'',
         vi_retry_outbox_event_id = make ''recovery:retry-outbox'',
         vi_manual_audit_event_id = make ''recovery:manual-audit'',
         vi_reconciliation_decision_id = make ''recovery:reconciliation'',
         vi_reconciliation_audit_event_id = make ''recovery:reconciliation-audit'',
         vi_execution_recover = work_runtime_recover_ids uuid5 namespace\<rparr>)"

definition work_compensation_ids :: "(string \<Rightarrow> string) \<Rightarrow> string \<Rightarrow> compensation_ids" where
  "work_compensation_ids uuid5 namespace =
     (let make = work_id uuid5 namespace in
        \<lparr>ti_compensation_id = make ''compensation:id'',
         ti_compensation_attempt_id = make ''compensation:attempt'',
         ti_start_transition_audit_event_id = make ''compensation:start-transition'',
         ti_compensation_requested_audit_event_id = make ''compensation:requested-audit'',
         ti_start_outbox_event_id = make ''compensation:start-outbox'',
         ti_claim_attempt_audit_event_id = make ''compensation:claim-audit'',
         ti_evidence_audit_event_id = make ''compensation:evidence'',
         ti_complete_transition_audit_event_id = make ''compensation:complete-transition'',
         ti_complete_outbox_event_id = make ''compensation:complete-outbox'',
         ti_verification_id = make ''compensation:verification'',
         ti_verification_start_audit_event_id = make ''compensation:verify-start'',
         ti_verification_complete_audit_event_id = make ''compensation:verify-complete'',
         ti_verification_outbox_event_id = make ''compensation:verify-outbox'',
         ti_manual_audit_event_id = make ''compensation:manual-audit'',
         ti_operator_audit_event_id = make ''compensation:operator-audit'',
         ti_retry_ids_for = retry_ids_for_attempt uuid5 namespace\<rparr>)"

section \<open>The handler\<close>

datatype ack_decision = AD_ACK | AD_NAK | AD_TERM

definition WORKER_ACTOR :: principal_ref where
  "WORKER_ACTOR =
     \<lparr>pr_type = PT_SERVICE, pr_id = ''stateback.worker'', pr_display_name = Some ''StatebackWorker''\<rparr>"

primrec runtime_disposition_value :: "runtime_disposition \<Rightarrow> string" where
  "runtime_disposition_value RT_ACCEPTED = ''ACCEPTED''"
| "runtime_disposition_value RT_REJECTED = ''REJECTED''"
| "runtime_disposition_value RT_IN_FLIGHT = ''IN_FLIGHT''"
| "runtime_disposition_value RT_INFRASTRUCTURE_FAILURE = ''INFRASTRUCTURE_FAILURE''"

primrec recovery_disposition_value :: "recovery_disposition \<Rightarrow> string" where
  "recovery_disposition_value RC_ACCEPTED = ''ACCEPTED''"
| "recovery_disposition_value RC_REJECTED = ''REJECTED''"
| "recovery_disposition_value RC_INFRASTRUCTURE_FAILURE = ''INFRASTRUCTURE_FAILURE''"

primrec compensation_disposition_value :: "compensation_disposition \<Rightarrow> string" where
  "compensation_disposition_value CD_ACCEPTED = ''ACCEPTED''"
| "compensation_disposition_value CD_REJECTED = ''REJECTED''"
| "compensation_disposition_value CD_IN_FLIGHT = ''IN_FLIGHT''"
| "compensation_disposition_value CD_INFRASTRUCTURE_FAILURE = ''INFRASTRUCTURE_FAILURE''"
| "compensation_disposition_value CD_NOT_ELIGIBLE = ''NOT_ELIGIBLE''"

text \<open>
  \<open>WorkHandler\<close>: the services it was built with and its bound. \<open>wh_rounds\<close> and \<open>wh_depth\<close> bound the rounds and
  the recursion of the services, as \<open>fuel\<close> and \<open>depth\<close> do there; \<open>wh_json_depth\<close> bounds the decoder's.
\<close>

record work_handler =
  wh_surroundings :: surroundings
  wh_registry :: capability_registry
  wh_runtime_crash :: "runtime_crash_point option"
  wh_recovery_crash :: "recovery_crash_point option"
  wh_compensation_crash :: "compensation_crash_point option"
  wh_rounds :: nat
  wh_depth :: nat
  wh_json_depth :: nat
  wh_uuid5 :: "string \<Rightarrow> string"
  wh_max_deliveries :: int

definition make_work_handler :: "work_handler \<Rightarrow> work_handler fallible" where
  "make_work_handler h =
     (if wh_max_deliveries h < 1 then Inl (PyValueError ''max_deliveries must be >= 1'') else Inr h)"

definition retry_or_term :: "work_handler \<Rightarrow> int \<Rightarrow> ack_decision" where
  "retry_or_term h delivery_count = (if wh_max_deliveries h \<le> delivery_count then AD_TERM else AD_NAK)"

definition work_compensation :: "work_handler \<Rightarrow> opaque_id \<Rightarrow> int \<Rightarrow> string option \<Rightarrow> string \<Rightarrow> string service" where
  "work_compensation h operation_id version correlation_id namespace =
     bind_service (execute_compensation (wh_surroundings h) (wh_registry h) (wh_compensation_crash h)
       (wh_rounds h) (wh_depth h)
       \<lparr>tc_operation_id = operation_id, tc_expected_version = version,
        tc_ids = work_compensation_ids (wh_uuid5 h) namespace,
        tc_actor = Some WORKER_ACTOR, tc_correlation_id = correlation_id\<rparr>)
     (\<lambda>result. return_service (compensation_disposition_value (cz_disposition result)))"

definition work_dispatch ::
  "work_handler \<Rightarrow> work_command \<Rightarrow> operation_state \<Rightarrow> int \<Rightarrow> opaque_id \<Rightarrow> string option \<Rightarrow> string \<Rightarrow> string service" where
  "work_dispatch h command state version operation_id correlation_id namespace =
     (if command = WC_EXECUTE then
        if state = OS_READY then
          bind_service (execute_operation (wh_surroundings h) (wh_registry h) (wh_runtime_crash h) (wh_depth h)
            \<lparr>xc_operation_id = operation_id, xc_expected_version = version,
             xc_ids = work_execute_ids (wh_uuid5 h) namespace, xc_actor = Some WORKER_ACTOR,
             xc_correlation_id = correlation_id\<rparr>)
          (\<lambda>result. return_service (runtime_disposition_value (rt_disposition result)))
        else if state = OS_EXECUTING then
          bind_service (recover_operation (wh_surroundings h) (wh_registry h)
            \<lparr>rc_operation_id = operation_id, rc_expected_version = version,
             rc_ids = work_runtime_recover_ids (wh_uuid5 h) namespace, rc_actor = Some WORKER_ACTOR,
             rc_correlation_id = correlation_id\<rparr>)
          (\<lambda>result. return_service (runtime_disposition_value (rt_disposition result)))
        else return_service (runtime_disposition_value RT_ACCEPTED)
      else if command = WC_VERIFY then
        if state \<in> {OS_EXECUTING, OS_UNKNOWN, OS_VERIFYING} then
          bind_service (recover_unknown_operation (wh_surroundings h) (wh_registry h) (wh_recovery_crash h)
            \<lparr>vc_operation_id = operation_id, vc_expected_version = version,
             vc_ids = work_recovery_ids (wh_uuid5 h) namespace, vc_actor = Some WORKER_ACTOR,
             vc_correlation_id = correlation_id\<rparr>)
          (\<lambda>result. return_service (recovery_disposition_value (ry_disposition result)))
        else if state \<in> {OS_COMPENSATING, OS_COMPENSATION_UNKNOWN} then
          work_compensation h operation_id version correlation_id namespace
        else return_service (recovery_disposition_value RC_ACCEPTED)
      else if state \<in> {OS_COMPENSATING, OS_COMPENSATION_UNKNOWN, OS_COMPENSATION_FAILED, OS_COMPENSATED} then
        work_compensation h operation_id version correlation_id namespace
      else return_service (compensation_disposition_value CD_ACCEPTED))"

text \<open>\<open>except (PersistenceError, DBAPIError)\<close>; \<open>NotFoundError\<close> is a \<open>PersistenceError\<close> and has the same clause.\<close>

definition is_storage_error :: "sb_error \<Rightarrow> bool" where
  "is_storage_error e \<longleftrightarrow> is_persistence_error e \<or> e = OtherException ''DBAPIError''"

definition storage_clause :: "work_handler \<Rightarrow> int \<Rightarrow> sb_error \<Rightarrow> ack_decision service option" where
  "storage_clause h delivery_count e =
     (if is_storage_error e then Some (return_service (retry_or_term h delivery_count)) else None)"

definition handle_message :: "work_handler \<Rightarrow> work_message \<Rightarrow> int \<Rightarrow> ack_decision service" where
  "handle_message h message delivery_count =
     try_else (load_operation (wh_surroundings h) (wm_operation_id message)) (storage_clause h delivery_count)
       (\<lambda>operation.
     try_else (work_dispatch h (wm_command message) (op_state operation) (op_version operation)
         (wm_operation_id message) (wm_correlation_id message) (work_namespace message))
       (storage_clause h delivery_count)
       (\<lambda>disposition.
     return_service (if disposition = ''INFRASTRUCTURE_FAILURE'' then retry_or_term h delivery_count else AD_ACK)))"

definition handle_work :: "work_handler \<Rightarrow> bytes \<Rightarrow> int \<Rightarrow> ack_decision service" where
  "handle_work h payload delivery_count =
     (if delivery_count < 1 then raise_service (PyValueError ''delivery_count must be >= 1'')
      else case decode_work_message (wh_json_depth h) payload of
        Inl e \<Rightarrow> if is_contract_error e then return_service AD_TERM else raise_service e
      | Inr message \<Rightarrow> handle_message h message delivery_count)"

section \<open>The consumer\<close>

text \<open>
  What the consumer tells the broker: a diagnostic the quarantine subject accepted, and the settlement
  of the delivery.
\<close>

datatype broker_event = Quarantined string bytes | Settled ack_decision

record broker =
  bk_publish :: "string \<Rightarrow> bytes \<Rightarrow> unit fallible"
  bk_settle :: "ack_decision \<Rightarrow> unit fallible"

definition QUARANTINE_SUBJECT_V1 :: string where
  "QUARANTINE_SUBJECT_V1 = ''stateback.quarantine.v1''"

definition settle :: "broker \<Rightarrow> ack_decision \<Rightarrow> broker_event list \<Rightarrow> ack_decision fallible \<times> broker_event list" where
  "settle bk decision events =
     (case bk_settle bk decision of
        Inl e \<Rightarrow> (Inl e, events) | Inr _ \<Rightarrow> (Inr decision, events @ [Settled decision]))"

definition quarantine ::
  "broker \<Rightarrow> string \<Rightarrow> bytes fallible \<Rightarrow> ack_decision fallible \<times> broker_event list" where
  "quarantine bk subject encoded =
     (case encoded of
        Inl e \<Rightarrow> (Inl e, [])
      | Inr diagnostic \<Rightarrow>
          (case bk_publish bk subject diagnostic of
             Inl e \<Rightarrow> if is_exception e then settle bk AD_NAK [] else (Inl e, [])
           | Inr _ \<Rightarrow> settle bk AD_TERM [Quarantined subject diagnostic]))"

text \<open>\<open>num_delivered\<close> is \<open>None\<close> where reading the metadata raises \<open>ValueError\<close>.\<close>

definition consume ::
  "work_handler \<Rightarrow> broker \<Rightarrow> (bytes \<Rightarrow> string) \<Rightarrow> string \<Rightarrow> bytes \<Rightarrow> int option \<Rightarrow> world \<Rightarrow>
   (ack_decision fallible \<times> broker_event list) \<times> world" where
  "consume h bk sha256 subject payload num_delivered w =
     (let delivery_count = (case num_delivered of None \<Rightarrow> 1 | Some n \<Rightarrow> n) in
      case handle_work h payload delivery_count w of
        (Inl e, w') \<Rightarrow> ((Inl e, []), w')
      | (Inr AD_TERM, w') \<Rightarrow>
          (quarantine bk subject
             (encode_quarantine_diagnostic (wh_json_depth h) sha256 payload delivery_count), w')
      | (Inr decision, w') \<Rightarrow> (settle bk decision [], w'))"

end
