(* ===== verification/Work_Properties.thy ===== *)
theory Work_Properties
  imports Work_Handler
begin

text \<open>
  What the worker promises: however often one message is delivered, to whichever handlers and whatever
  crashes, the provider's \<open>execute\<close> is called at most once for it; a delivery is terminated only when its
  quarantine diagnostic was accepted, and only poison or exhausted deliveries are.
\<close>

section \<open>Calls of one delivery\<close>

definition is_execute_call :: "provider_call \<Rightarrow> bool" where
  "is_execute_call c = (case c of ExecuteCall _ _ \<Rightarrow> True | _ \<Rightarrow> False)"

definition no_execute :: "provider_call \<Rightarrow> journal \<Rightarrow> bool" where
  "no_execute c j \<longleftrightarrow> \<not> is_execute_call c"

lemma verify_ahead_no_execute: "verify_ahead c j \<Longrightarrow> no_execute c j"
  by (simp add: verify_ahead_def no_execute_def is_execute_call_def split: provider_call.splits)

lemma undo_ahead_no_execute: "undo_ahead c j \<Longrightarrow> no_execute c j"
  by (simp add: undo_ahead_def no_execute_def is_execute_call_def split: provider_call.splits)

lemma storage_clause_catches [service_rules]: "catches S P n (storage_clause h k e)"
  unfolding storage_clause_def by (intro service_rules)

lemma recover_then_conforms:
  "conforms S no_execute (Suc n) (bind_service (recover_unknown_operation S reg crash c) (\<lambda>r. return_service (f r)))"
proof (rule conforms_call_first(1))
  show "conforms S no_execute (Suc n) (recover_unknown_operation S reg crash c)"
    by (rule conforms_mono [OF recover_unknown_conforms(2)]) (simp_all add: verify_ahead_no_execute)
qed (intro service_rules)

lemma work_compensation_conforms:
  "conforms (wh_surroundings h) no_execute (Suc (wh_rounds h)) (work_compensation h i v c ns)"
  unfolding work_compensation_def
proof (rule conforms_call_first(1))
  show "conforms (wh_surroundings h) no_execute (Suc (wh_rounds h))
      (execute_compensation (wh_surroundings h) reg crash (wh_rounds h) depth command)" for reg crash depth command
    by (rule conforms_mono [OF compensation_conforms(1)]) (simp_all add: undo_ahead_no_execute)
qed (intro service_rules)

lemma dispatch_no_execute:
  assumes "command \<noteq> WC_EXECUTE \<or> state \<noteq> OS_READY"
  shows "conforms (wh_surroundings h) no_execute (Suc (wh_rounds h)) (work_dispatch h command state v i c ns)"
  using assms unfolding work_dispatch_def
  by (auto intro!: recover_then_conforms work_compensation_conforms conforms_bind recover_conforms conforms_basic(1))

lemma dispatch_execute_call:
  "conforms_at (wh_surroundings h) (fresh_call (wd_journal w) (work_id (wh_uuid5 h) ns ''execute:attempt'')) 1
     (work_dispatch h WC_EXECUTE OS_READY v i c ns) w"
proof -
  let ?P = "fresh_call (wd_journal w) (work_id (wh_uuid5 h) ns ''execute:attempt'')"
  have "conforms_at (wh_surroundings h) ?P (1 + 0) (work_dispatch h WC_EXECUTE OS_READY v i c ns) w"
    unfolding work_dispatch_def if_True simp_thms
  proof (rule conforms_at_bind)
    show "conforms_at (wh_surroundings h) ?P 1 (execute_operation (wh_surroundings h) (wh_registry h)
      (wh_runtime_crash h) (wh_depth h)
      \<lparr>xc_operation_id = i, xc_expected_version = v, xc_ids = work_execute_ids (wh_uuid5 h) ns,
       xc_actor = Some WORKER_ACTOR, xc_correlation_id = c\<rparr>) w"
      using execute_conforms [of "wh_surroundings h" w "\<lparr>xc_operation_id = i, xc_expected_version = v,
          xc_ids = work_execute_ids (wh_uuid5 h) ns, xc_actor = Some WORKER_ACTOR, xc_correlation_id = c\<rparr>"]
      by (simp add: work_execute_ids_def Let_def)
  qed (intro conforms_at service_rules)
  then show ?thesis by simp
qed

text \<open>
  The calls of one delivery: none of them executes, or it is one, of an attempt that did not exist before
  and exists afterwards.
\<close>

definition delivery_calls :: "opaque_id \<Rightarrow> world \<Rightarrow> world \<Rightarrow> bool" where
  "delivery_calls i w w' \<longleftrightarrow> later (wd_journal w) (wd_journal w') \<and>
     (\<exists>cs. wd_calls w' = wd_calls w @ cs \<and>
        (filter (is_execute_call \<circ> fst) cs = [] \<or>
         length cs \<le> 1 \<and> at_get i (wd_journal w) = None \<and> at_get i (wd_journal w') \<noteq> None))"

lemma delivery_calls_quiet:
  assumes "conforms_at S no_execute n m w" and "others_follow S" and "m w = (r, w')"
  shows "delivery_calls i w w'"
proof -
  obtain cs where "later (wd_journal w) (wd_journal w')" "wd_calls w' = wd_calls w @ cs"
    "\<forall>(c, j) \<in> set cs. no_execute c j" by (rule conforms_atD [OF assms])
  then show ?thesis by (auto simp: delivery_calls_def no_execute_def filter_empty_conv)
qed

lemma delivery_calls_fresh:
  assumes "conforms_at S (fresh_call (wd_journal w) i) 1 m w" and "others_follow S" and "m w = (r, w')"
  shows "delivery_calls i w w'"
proof -
  obtain cs where cs: "wd_calls w' = wd_calls w @ cs" "length cs \<le> 1"
    "\<forall>(c, j) \<in> set cs. fresh_call (wd_journal w) i c j \<and> later j (wd_journal w')"
    by (rule conforms_at_calls_kept [OF assms])
  have "later (wd_journal w) (wd_journal w')" by (rule conforms_atD [OF assms])
  moreover have "cs = [] \<or> at_get i (wd_journal w) = None \<and> at_get i (wd_journal w') \<noteq> None"
  proof (cases cs)
    case (Cons cj rest)
    with cs(3) have "fresh_call (wd_journal w) i (fst cj) (snd cj)" "later (snd cj) (wd_journal w')" by auto
    then have "at_get i (wd_journal w) = None" "at_get i (snd cj) \<noteq> None"
      by (auto simp: fresh_call_def write_ahead_def split: provider_call.splits)
    with attempt_stays [OF \<open>later (snd cj) (wd_journal w')\<close>] show ?thesis by simp
  qed simp
  ultimately show ?thesis using cs(1,2) by (auto simp: delivery_calls_def)
qed

lemma storage_clause_quiet: "storage_clause h k e = Some x \<Longrightarrow> conforms_at S P n x w"
  using storage_clause_catches [of S P n h k e] by (simp add: catches_def conforms_at)

lemma dispatched_delivery:
  fixes h m k o'
  defines "answer_of \<equiv> \<lambda>disposition. return_service
    (if disposition = ''INFRASTRUCTURE_FAILURE'' then retry_or_term h k else AD_ACK)"
  assumes "others_follow (wh_surroundings h)"
    and "try_else (work_dispatch h (wm_command m) (op_state o') (op_version o') (wm_operation_id m)
      (wm_correlation_id m) (work_namespace m)) (storage_clause h k) answer_of v = (r, w')"
  shows "delivery_calls (work_id (wh_uuid5 h) (work_namespace m) ''execute:attempt'') v w'"
proof (cases "wm_command m = WC_EXECUTE \<and> op_state o' = OS_READY")
  case True
  have "conforms_at (wh_surroundings h)
      (fresh_call (wd_journal v) (work_id (wh_uuid5 h) (work_namespace m) ''execute:attempt'')) (1 + 0)
      (try_else (work_dispatch h (wm_command m) (op_state o') (op_version o') (wm_operation_id m)
        (wm_correlation_id m) (work_namespace m)) (storage_clause h k) answer_of) v"
  proof (rule conforms_at_try)
    show "conforms_at (wh_surroundings h)
      (fresh_call (wd_journal v) (work_id (wh_uuid5 h) (work_namespace m) ''execute:attempt'')) 1
      (work_dispatch h (wm_command m) (op_state o') (op_version o') (wm_operation_id m) (wm_correlation_id m)
        (work_namespace m)) v"
      using dispatch_execute_call True by simp
  qed (simp_all add: answer_of_def conforms_at conforms_basic storage_clause_quiet)
  then show ?thesis using delivery_calls_fresh assms(2,3) by simp
next
  case False
  have "conforms_at (wh_surroundings h) no_execute (Suc (wh_rounds h) + 0)
      (try_else (work_dispatch h (wm_command m) (op_state o') (op_version o') (wm_operation_id m)
        (wm_correlation_id m) (work_namespace m)) (storage_clause h k) answer_of) v"
    using False by (intro conforms_at_try conforms_at [OF dispatch_no_execute])
      (auto simp: answer_of_def intro: conforms_at [OF conforms_basic(1)] storage_clause_quiet)
  then show ?thesis using delivery_calls_quiet assms(2,3) by blast
qed

lemma delivery_calls_later:
  assumes "later (wd_journal w) (wd_journal v)" and "wd_calls v = wd_calls w" and "delivery_calls i v w'"
  shows "delivery_calls i w w'"
proof -
  from assms(3) obtain cs where cs: "later (wd_journal v) (wd_journal w')" "wd_calls w' = wd_calls w @ cs"
    "filter (is_execute_call \<circ> fst) cs = [] \<or>
      length cs \<le> 1 \<and> at_get i (wd_journal v) = None \<and> at_get i (wd_journal w') \<noteq> None"
    by (auto simp: delivery_calls_def assms(2))
  have "at_get i (wd_journal v) = None \<Longrightarrow> at_get i (wd_journal w) = None"
    using attempt_stays [OF assms(1), of i] by (cases "at_get i (wd_journal w)") simp_all
  with cs later_trans [OF cs(1) assms(1)] show ?thesis
    unfolding delivery_calls_def by (intro conjI exI [of _ cs]) auto
qed

lemma handle_message_delivery:
  assumes "others_follow (wh_surroundings h)" and "handle_message h m k w = (r, w')"
  shows "delivery_calls (work_id (wh_uuid5 h) (work_namespace m) ''execute:attempt'') w w'"
proof -
  obtain x v where v: "load_operation (wh_surroundings h) (wm_operation_id m) w = (x, v)" by fastforce
  have load: "later (wd_journal w) (wd_journal v) \<and> wd_calls v = wd_calls w"
    using conforms_atD [OF conforms_at [OF load_operation_conforms [of _ "\<lambda>_ _. True" 0]] assms(1) v] by fastforce
  show ?thesis
  proof (cases x)
    case (Inl e)
    have "w' = v" using assms(2) v
      by (auto simp: Inl handle_message_def try_else_def storage_clause_def run_simps split: if_splits)
    then show ?thesis using load by (simp add: delivery_calls_def)
  next
    case (Inr o')
    with assms(2) v dispatched_delivery [OF assms(1)] have
      "delivery_calls (work_id (wh_uuid5 h) (work_namespace m) ''execute:attempt'') v w'"
      by (simp add: handle_message_def try_else_def [of "load_operation _ _"])
    with load show ?thesis by (blast intro: delivery_calls_later)
  qed
qed

section \<open>Any number of deliveries\<close>

text \<open>One message, delivered again and again: the handler and the delivery count may differ each time.\<close>

fun redeliver :: "bytes \<Rightarrow> (work_handler \<times> int) list \<Rightarrow> world \<Rightarrow> world" where
  "redeliver payload [] w = w"
| "redeliver payload (d # ds) w = redeliver payload ds (snd (handle_work (fst d) payload (snd d) w))"

definition executions :: "world \<Rightarrow> nat" where
  "executions w = length (filter (is_execute_call \<circ> fst) (wd_calls w))"

lemma handle_work_delivery:
  assumes "others_follow (wh_surroundings h)"
  shows "snd (handle_work h payload k w) = w \<or>
    (\<exists>m. decode_work_message (wh_json_depth h) payload = Inr m \<and>
      delivery_calls (work_id (wh_uuid5 h) (work_namespace m) ''execute:attempt'') w (snd (handle_work h payload k w)))"
  using handle_message_delivery [OF assms, of _ k w]
  by (auto simp: handle_work_def run_simps split: sum.split)
    (metis prod.exhaust_sel)

lemma delivery_executions:
  assumes "delivery_calls i w w'"
  shows "executions w' \<le> executions w + (if at_get i (wd_journal w) = None then 1 else 0)"
    and "at_get i (wd_journal w) \<noteq> None \<Longrightarrow> at_get i (wd_journal w') \<noteq> None"
    and "executions w < executions w' \<Longrightarrow> at_get i (wd_journal w') \<noteq> None"
proof -
  from assms obtain cs where cs: "later (wd_journal w) (wd_journal w')" "wd_calls w' = wd_calls w @ cs"
    "filter (is_execute_call \<circ> fst) cs = [] \<or>
      length cs \<le> 1 \<and> at_get i (wd_journal w) = None \<and> at_get i (wd_journal w') \<noteq> None"
    by (auto simp: delivery_calls_def)
  have "length cs \<le> 1 \<Longrightarrow> length (filter (is_execute_call \<circ> fst) cs) \<le> Suc 0"
    using length_filter_le [of _ cs] by (metis One_nat_def le_trans)
  with cs(2,3) show "executions w' \<le> executions w + (if at_get i (wd_journal w) = None then 1 else 0)"
    by (auto simp: executions_def)
  show "at_get i (wd_journal w) \<noteq> None \<Longrightarrow> at_get i (wd_journal w') \<noteq> None" by (rule attempt_stays [OF cs(1)])
  show "executions w < executions w' \<Longrightarrow> at_get i (wd_journal w') \<noteq> None"
    using cs(2,3) by (auto simp: executions_def)
qed

text \<open>
  C10. At most one execution per message: a message is delivered any number of times, to any handlers that
  derive ids alike, each crashing where it likes and whatever other processes commit in between; over all
  these deliveries the provider's \<open>execute\<close> is called at most once.
\<close>

theorem one_message_executes_once:
  assumes "\<forall>(h, n) \<in> set ds. others_follow (wh_surroundings h) \<and> wh_uuid5 h = uuid5 \<and> wh_json_depth h = depth"
  shows "executions (redeliver payload ds w) \<le> Suc (executions w)"
proof (cases "decode_work_message depth payload")
  case (Inl e)
  have "snd (handle_work (fst d) payload (snd d) w) = w" if "d \<in> set ds" for d
    using handle_work_delivery [of "fst d" payload "snd d" w] assms Inl that by (auto simp: split_def)
  then have "redeliver payload ds w = w" by (induction ds) simp_all
  then show ?thesis by simp
next
  case (Inr m)
  let ?i = "work_id uuid5 (work_namespace m) ''execute:attempt''"
  have "executions (redeliver payload ds w) \<le>
      executions w + (if at_get ?i (wd_journal w) = None then 1 else 0)"
    using assms
  proof (induction ds arbitrary: w)
    case (Cons d ds)
    let ?w' = "snd (handle_work (fst d) payload (snd d) w)"
    have next_step: "?w' = w \<or> delivery_calls ?i w ?w'"
      using handle_work_delivery [of "fst d" payload "snd d" w] Cons.prems Inr by (auto simp: split_def)
    have rest: "executions (redeliver payload ds ?w') \<le>
        executions ?w' + (if at_get ?i (wd_journal ?w') = None then 1 else 0)"
      using Cons by simp
    show ?case using next_step
    proof
      assume "?w' = w"
      with rest show ?thesis by simp
    next
      assume "delivery_calls ?i w ?w'"
      note this = delivery_executions [OF this]
      with rest show ?thesis by (cases "executions w < executions ?w'") (auto split: if_splits)
    qed
  qed simp
  then show ?thesis by (auto split: if_splits)
qed

section \<open>Settling a delivery\<close>

lemma settle_events: "settle bk d es = (r, events) \<Longrightarrow> events = es \<or> bk_settle bk d = Inr () \<and> events = es @ [Settled d]"
  by (auto simp: settle_def split: sum.splits)

lemma retry_or_term_iff: "retry_or_term h k = AD_TERM \<longleftrightarrow> wh_max_deliveries h \<le> k" "retry_or_term h k \<noteq> AD_ACK"
  by (simp_all add: retry_or_term_def)

text \<open>The handler asks to terminate poison and exhausted deliveries only.\<close>

lemma terminated_reason:
  assumes "handle_work h payload k w = (Inr AD_TERM, w')"
  shows "(\<exists>reason. decode_work_message (wh_json_depth h) payload = Inl (ContractValidationError reason)) \<or>
    wh_max_deliveries h \<le> k"
proof (cases "decode_work_message (wh_json_depth h) payload")
  case (Inl e)
  with assms show ?thesis
    by (cases e) (auto simp: handle_work_def run_simps is_contract_error_def split: if_splits)
next
  case (Inr m)
  then have "handle_message h m k w = (Inr AD_TERM, w')"
    using assms by (auto simp: handle_work_def run_simps split: if_splits)
  then show ?thesis
    by (auto simp: handle_message_def try_else_Inr storage_clause_def run_simps retry_or_term_iff split: if_splits)
qed

text \<open>
  C21. A delivery is terminated only behind its quarantine diagnostic: the broker is told to drop a message only
  when it could not be decoded or its deliveries are used up, and only after the quarantine subject accepted
  the diagnostic of exactly this payload; if it is not accepted the message is handed back.
\<close>

theorem terminated_only_after_quarantine:
  assumes "consume h bk sha256 subject payload num_delivered w = ((r, events), w')" and "Settled AD_TERM \<in> set events"
    and "k = (case num_delivered of None \<Rightarrow> 1 | Some n \<Rightarrow> n)"
  shows "((\<exists>reason. decode_work_message (wh_json_depth h) payload = Inl (ContractValidationError reason)) \<or>
      wh_max_deliveries h \<le> k) \<and>
    (\<exists>diagnostic. encode_quarantine_diagnostic (wh_json_depth h) sha256 payload k = Inr diagnostic \<and>
      bk_publish bk subject diagnostic = Inr () \<and> r = Inr AD_TERM \<and>
      events = [Quarantined subject diagnostic, Settled AD_TERM])"
proof -
  obtain x v where v: "handle_work h payload k w = (x, v)" by fastforce
  have "x = Inr AD_TERM"
  proof (cases x)
    case (Inl e)
    then show ?thesis using assms v by (simp add: consume_def)
  next
    case (Inr d)
    then show ?thesis using assms v by (cases d) (auto simp: consume_def Let_def dest: settle_events)
  qed
  then have q: "quarantine bk subject (encode_quarantine_diagnostic (wh_json_depth h) sha256 payload k) = (r, events)"
    using assms(1,3) v by (simp add: consume_def Let_def)
  then have "\<exists>diagnostic. encode_quarantine_diagnostic (wh_json_depth h) sha256 payload k = Inr diagnostic \<and>
      bk_publish bk subject diagnostic = Inr () \<and> r = Inr AD_TERM \<and>
      events = [Quarantined subject diagnostic, Settled AD_TERM]"
    using assms(2) by (auto simp: quarantine_def settle_def split: sum.splits if_splits)
  with terminated_reason v \<open>x = Inr AD_TERM\<close> show ?thesis by blast
qed

section \<open>Messages on the wire\<close>

lemma message_for_conforms:
  assumes "message_for e i = Inr m" and "outbox_event_conforms e" and "opaque_id_conforms i"
  shows "work_message_conforms m"
  using assms by (auto simp: message_for_def Let_def work_message_conforms_def outbox_event_conforms_def
      validate_work_message_def guard_err_def split: if_splits)

text \<open>
  C15. The worker acts on what the relay wrote: the message the relay makes of a stored outbox event, written as
  canonical JSON in UTF-8 and no longer than 16 KiB, is decoded to exactly that message.
\<close>

theorem worker_reads_what_the_relay_wrote:
  assumes "message_for event message_id = Inr m" and "outbox_event_conforms event" and "opaque_id_conforms message_id"
    and "encode_work_message m = Inr payload" and "length payload \<le> MAX_WORK_MESSAGE_BYTES" and "1 \<le> depth"
  shows "decode_work_message depth payload = Inr m"
  using decode_encode_work_message [OF message_for_conforms [OF assms(1-3)] assms(4-6)] .

section \<open>A payload no handler settles\<close>

text \<open>Where a JSON integer stands: the digits, without a leading zero, and nothing that makes it a float.\<close>

definition integer_ahead :: "string \<Rightarrow> string \<Rightarrow> string \<Rightarrow> bool" where
  "integer_ahead sign digits rest \<longleftrightarrow> sign \<in> {'''', ''-''} \<and> digits \<noteq> [] \<and> hd digits \<noteq> CHR ''0'' \<and>
     list_all is_digit_char digits \<and>
     (rest = [] \<or> \<not> is_digit_char (hd rest) \<and> hd rest \<notin> {CHR ''.'', CHR ''e'', CHR ''E''})"

lemma scan_integer_digits:
  assumes "integer_ahead sign digits rest"
  shows "scan_integer (digits @ rest) = Some (digits, rest)"
proof -
  obtain c t where digits: "digits = c # t" using assms by (cases digits) (auto simp: integer_ahead_def)
  have all: "\<forall>x \<in> set digits. is_digit_char x" using assms by (simp add: integer_ahead_def list_all_iff)
  have "takeWhile is_digit_char rest = []" "dropWhile is_digit_char rest = rest"
    using assms by (cases rest; auto simp: integer_ahead_def)+
  then have "takeWhile is_digit_char (digits @ rest) = digits" "dropWhile is_digit_char (digits @ rest) = rest"
    using all by (simp_all add: takeWhile_append2 dropWhile_append2)
  with assms all show ?thesis by (simp add: scan_integer_def integer_ahead_def digits)
qed

lemma digit_not_mark:
  assumes "is_digit_char c"
  shows "c \<noteq> CHR 0x22" "c \<noteq> CHR ''{''" "c \<noteq> CHR ''[''" "c \<noteq> CHR ''-''" "\<not> is_json_space c"
    "\<forall>word \<in> set (map fst json_literals). \<not> starts_with (c # t) word \<and> \<not> starts_with (CHR ''-'' # c # t) word"
  using assms by (auto simp: is_digit_char_def is_json_space_def json_literals_def starts_with_def)

lemma long_integer_loads:
  assumes "integer_ahead sign digits rest" and "MAX_STR_DIGITS < length digits" and "list_all is_json_space blank"
  shows "json_loads depth (blank @ sign @ digits @ rest) = Inl (PyValueError ''Exceeds the limit (4300 digits)'')"
proof -
  obtain c t where digits: "digits = c # t" using assms(1) by (cases digits) (auto simp: integer_ahead_def)
  have c: "is_digit_char c" and sign: "sign = '''' \<or> sign = ''-''" using assms(1) by (auto simp: integer_ahead_def digits)
  have "skip_fraction rest = rest" "skip_exponent rest = rest"
    using assms(1) by (auto simp: skip_fraction_def skip_exponent_def integer_ahead_def split: list.split)
  then have number: "scan_number (sign @ digits @ rest) = Inl (PyValueError ''Exceeds the limit (4300 digits)'')"
    using sign assms(2) scan_integer_digits [OF assms(1)] digit_not_mark(4) [OF c]
    by (auto simp: scan_number_def Let_def digits)
  have "\<not> starts_with (sign @ digits @ rest) word" if "word \<in> set (map fst json_literals)" for word
    using sign digit_not_mark(6) [OF c, of "t @ rest"] that by (elim disjE) (simp_all only: digits append_Cons append_Nil not_False_eq_True)
  then have literal: "scan_literal (sign @ digits @ rest) = None"
    by (force simp: scan_literal_def find_None_iff)
  have "skip_space (sign @ digits @ rest) = sign @ digits @ rest"
    using sign digit_not_mark(5) [OF c]
    by (elim disjE) (simp_all add: skip_space_def digits is_json_space_def)
  then have "skip_space (blank @ sign @ digits @ rest) = sign @ digits @ rest"
    using assms(3) by (simp add: skip_space_def list_all_iff dropWhile_append2)
  moreover obtain d u where "sign @ digits @ rest = d # u" "d \<noteq> CHR 0x22" "d \<noteq> CHR ''{''" "d \<noteq> CHR ''[''"
    using sign digit_not_mark(1-3) [OF c] by (elim disjE) (simp_all add: digits)
  ultimately show ?thesis using number literal by (simp add: json_loads_def)
qed

text \<open>
  C24. A long integer stops the worker: a payload of at most 16 KiB that starts, after white space, with a JSON integer of
  more than 4300 digits, positive or negative and not continued to a float, raises the plain \<open>ValueError\<close> of \<open>int()\<close>,
  which is neither of the two errors the decoder turns into poison, so the consumer raises, with nothing settled and
  nothing quarantined, at every delivery. (A longer payload is poison before it is parsed.)
\<close>

theorem long_integer_is_never_settled:
  assumes "integer_ahead sign digits rest" and "MAX_STR_DIGITS < length digits" and "list_all is_json_space blank"
    and "payload = utf8_encode (blank @ sign @ digits @ rest)" and "length payload \<le> MAX_WORK_MESSAGE_BYTES" and "1 \<le> k"
  shows "consume h bk sha256 subject payload (Some k) w =
    ((Inl (PyValueError ''Exceeds the limit (4300 digits)''), []), w)"
  using assms(4-6) long_integer_loads [OF assms(1-3)]
  by (simp add: consume_def handle_work_def decode_work_message_def guard_err_def utf8_back
      malformed_text_def decode_error_def json_decode_error_def is_contract_error_def run_simps)

end
