(* ===== verification/Worker_At_Work.thy ===== *)
theory Worker_At_Work
  imports Work_Properties Worked_Adapter
begin

text \<open>
  The worker at the worked example: the message of its EXECUTE event, the bytes the relay writes for it, two
  deliveries to two handlers, and a consumer that gives up on an exhausted delivery.
\<close>

definition fx_digest :: "bytes \<Rightarrow> string" where
  "fx_digest _ = replicate 64 CHR ''0''"

definition fx_uuid5 :: "string \<Rightarrow> string" where
  "fx_uuid5 name = oid_value (fx_id (if name = ''stateback:'' @ oid_value (fx_id CHR ''5'') @ '':execute:attempt''
     then CHR ''b'' else CHR ''c''))"

definition fx_handler :: "runtime_crash_point option \<Rightarrow> work_handler" where
  "fx_handler crash = \<lparr>wh_surroundings = fx_surroundings, wh_registry = fx_registry, wh_runtime_crash = crash,
     wh_recovery_crash = None, wh_compensation_crash = None, wh_rounds = 3, wh_depth = 3, wh_json_depth = 5,
     wh_uuid5 = fx_uuid5, wh_max_deliveries = 5\<rparr>"

definition fx_work_event :: outbox_event where
  "fx_work_event = \<lparr>ox_contract_version = CONTRACT_VERSION, ox_id = fx_id CHR ''5'', ox_state = OB_PENDING,
     ox_aggregate_type = ''operation'', ox_aggregate_id = fx_id CHR ''1'', ox_operation_version = 2,
     ox_command = WC_EXECUTE, ox_created_at = fx_now, ox_published_at = None, ox_correlation_id = Some ''trace''\<rparr>"

definition fx_work_message :: work_message where
  "fx_work_message = \<lparr>wm_contract_version = CONTRACT_VERSION, wm_message_id = fx_id CHR ''2'',
     wm_outbox_event_id = fx_id CHR ''5'', wm_operation_id = fx_id CHR ''1'', wm_expected_operation_version = 2,
     wm_command = WC_EXECUTE, wm_correlation_id = Some ''trace'', wm_created_at = fx_now\<rparr>"

definition fx_payload :: bytes where
  "fx_payload = projr (encode_work_message fx_work_message)"

lemma fx_encoded: "encode_work_message fx_work_message = Inr fx_payload" "length fx_payload \<le> MAX_WORK_MESSAGE_BYTES"
    "length fx_payload < 1000"
proof -
  have "case encode_work_message fx_work_message of Inl _ \<Rightarrow> False | Inr payload \<Rightarrow> length payload \<le> 400"
    by code_simp
  then show "encode_work_message fx_work_message = Inr fx_payload" "length fx_payload \<le> MAX_WORK_MESSAGE_BYTES"
    "length fx_payload < 1000"
    by (auto simp: fx_payload_def MAX_WORK_MESSAGE_BYTES_def split: sum.splits)
qed

lemma fx_work_ids_conform: "c \<in> set ''0123456789'' \<Longrightarrow> opaque_id_conforms (fx_id c)"
  by (auto simp: opaque_id_conforms_def fx_id_def opaque_id_re_def is_lower_hex_def upt_rec numeral_eq_Suc)

lemma fx_relayed: "message_for fx_work_event (fx_id CHR ''2'') = Inr fx_work_message"
  by (simp add: message_for_def fx_work_event_def fx_work_message_def validate_work_message_def guard_err_def Let_def)

lemma fx_work_event_conforms: "outbox_event_conforms fx_work_event"
  by (simp add: outbox_event_conforms_def fx_work_event_def fx_work_ids_conform validate_outbox_event_def guard_err_def
      AGGREGATE_TYPE_OPERATION_def       timestamp_conforms_def fx_now_def MAXORDINAL_def MICROS_PER_DAY_def)

theorem worker_reads_what_the_relay_wrote_witness:
  "decode_work_message 5 fx_payload = Inr fx_work_message"
  by (rule worker_reads_what_the_relay_wrote [OF fx_relayed fx_work_event_conforms _ fx_encoded(1,2)])
    (simp_all add: fx_work_ids_conform)

theorem one_message_executes_once_witness:
  "executions (redeliver fx_payload [(fx_handler (Some AFTER_CLAIM_COMMIT), 1), (fx_handler None, 2)] (fx_world fx_j2)) \<le> 1"
  using one_message_executes_once [of "[(fx_handler (Some AFTER_CLAIM_COMMIT), 1), (fx_handler None, 2)]" fx_uuid5 5
      fx_payload "fx_world fx_j2"]
  by (simp add: fx_handler_def fx_others) (simp add: executions_def fx_world_def)

theorem long_integer_is_never_settled_witness:
  "consume (fx_handler None) \<lparr>bk_publish = \<lambda>_ _. Inr (), bk_settle = \<lambda>_. Inr ()\<rparr> fx_digest QUARANTINE_SUBJECT_V1
     (utf8_encode ('' '' @ ''-'' @ replicate 4301 CHR ''9'' @ '' x'')) (Some 3) (fx_world fx_j2) =
   ((Inl (PyValueError ''Exceeds the limit (4300 digits)''), []), fx_world fx_j2)"
proof (rule long_integer_is_never_settled [OF _ _ _ HOL.refl])
  have "length (utf8_encode (replicate n CHR ''9'' @ s)) = n + length (utf8_encode s)" for n s
    by (induction n) (simp_all add: utf8_encode_def utf8_char_def)
  then show "length (utf8_encode ('' '' @ ''-'' @ replicate 4301 CHR ''9'' @ '' x'')) \<le> MAX_WORK_MESSAGE_BYTES"
    by (simp add: utf8_encode_def utf8_char_def MAX_WORK_MESSAGE_BYTES_def)
qed (simp_all add: integer_ahead_def list_all_iff is_digit_char_def is_json_space_def MAX_STR_DIGITS_def)

section \<open>Giving up\<close>

lemma small_int_readable: "0 \<le> i \<Longrightarrow> i < 1000 \<Longrightarrow> json_readable (JInt i)"
proof -
  have "length (nat_text n) \<le> Suc n" for n
  proof (induction n rule: nat_text.induct)
    case (1 n)
    then show ?case by (subst nat_text.simps) auto
  qed
  from this [of "nat i"] show "0 \<le> i \<Longrightarrow> i < 1000 \<Longrightarrow> json_readable (JInt i)"
    by (simp add: MAX_STR_DIGITS_def)
qed

definition fx_broker :: broker where
  "fx_broker = \<lparr>bk_publish = (\<lambda>_ _. Inr ()), bk_settle = (\<lambda>_. Inr ())\<rparr>"

text \<open>An empty payload is no JSON text.\<close>

definition fx_poison_events :: "broker_event list" where
  "fx_poison_events = snd (fst (consume (fx_handler None) fx_broker fx_digest QUARANTINE_SUBJECT_V1 [] (Some 1) (fx_world fx_j2)))"

lemma fx_poison_settled: "Settled AD_TERM \<in> set fx_poison_events"
  by code_simp

theorem terminated_only_after_quarantine_witness:
  "\<exists>diagnostic. fx_poison_events = [Quarantined QUARANTINE_SUBJECT_V1 diagnostic, Settled AD_TERM]"
proof -
  let ?c = "consume (fx_handler None) fx_broker fx_digest QUARANTINE_SUBJECT_V1 [] (Some 1) (fx_world fx_j2)"
  have "?c = ((fst (fst ?c), fx_poison_events), snd ?c)" by (simp add: fx_poison_events_def)
  from terminated_only_after_quarantine [OF this fx_poison_settled, of 1] show ?thesis by auto
qed

text \<open>The diagnostic of the message when its deliveries are used up.\<close>

definition fx_diagnostic :: bytes where
  "fx_diagnostic = projr (encode_quarantine_diagnostic 5 fx_digest fx_payload 5)"

theorem quarantined_work_can_be_replayed_witness:
  "length fx_diagnostic \<le> MAX_QUARANTINE_DIAGNOSTIC_BYTES \<and>
   map_sum id qd_message (decode_quarantine_diagnostic 5 fx_digest fx_diagnostic) = Inr (Some fx_work_message)"
proof -
  have decoded: "decode_work_message 5 fx_payload = Inr fx_work_message"
    by (rule decode_encode_work_message [OF message_for_conforms [OF fx_relayed fx_work_event_conforms] fx_encoded(1,2)])
      (simp_all add: fx_work_ids_conform)
  have "\<not> isl (encode_quarantine_diagnostic 5 fx_digest fx_payload 5)"
    using small_int_readable [of 5] small_int_readable [of "int (length fx_payload)"] fx_encoded(3)
    by (simp add: encode_quarantine_diagnostic_def decoded fx_encoded(1) exhausted_diagnostic_def dumps_ascii_def
        wire_dict_def)
  then have d: "encode_quarantine_diagnostic 5 fx_digest fx_payload 5 = Inr fx_diagnostic"
    by (cases "encode_quarantine_diagnostic 5 fx_digest fx_payload 5") (simp_all add: fx_diagnostic_def)
  have "is_hex_digest (fx_digest fx_payload)" by (simp add: is_hex_digest_def fx_digest_def list_all_iff)
  from quarantined_work_can_be_replayed [OF decoded fx_encoded(1,2) this _ _ d] show ?thesis by simp
qed

end
