(* ===== verification/Reference_Store.thy ===== *)
theory Reference_Store
  imports Intent_Digest Wire_Records
begin

text \<open>
  The fake external world of the reference provider (\<^verbatim>\<open>providers/reference/store.py\<close>): resources under three
  indexes and in the order they were put, with the invariant that ties them together.
\<close>

record reference_resource =
  rr_resource_id :: string
  rr_action :: string
  rr_external_operation_id :: string
  rr_provider_idempotency_key :: "string option"
  rr_arguments_fingerprint :: string
  rr_applied :: bool
  rr_compensated :: bool
  rr_mitigated :: bool
  rr_created_at :: utc_timestamp

record reference_store =
  rs_by_resource_id :: "string \<rightharpoonup> reference_resource"
  rs_by_external_operation_id :: "string \<rightharpoonup> reference_resource"
  rs_by_provider_key :: "string \<rightharpoonup> reference_resource"
  rs_all :: "reference_resource list"

definition empty_store :: reference_store where
  "empty_store = \<lparr>rs_by_resource_id = (\<lambda>_. None), rs_by_external_operation_id = (\<lambda>_. None),
     rs_by_provider_key = (\<lambda>_. None), rs_all = []\<rparr>"

definition index_resource :: "reference_resource \<Rightarrow> reference_store \<Rightarrow> reference_store" where
  "index_resource r st = st
     \<lparr>rs_by_resource_id := (rs_by_resource_id st)(rr_resource_id r \<mapsto> r),
      rs_by_external_operation_id := (rs_by_external_operation_id st)(rr_external_operation_id r \<mapsto> r),
      rs_by_provider_key :=
        (case rr_provider_idempotency_key r of
           None \<Rightarrow> rs_by_provider_key st | Some k \<Rightarrow> (rs_by_provider_key st)(k \<mapsto> r))\<rparr>"

definition drop_indexes :: "reference_resource \<Rightarrow> reference_store \<Rightarrow> reference_store" where
  "drop_indexes r st = st
     \<lparr>rs_by_resource_id := (rs_by_resource_id st)(rr_resource_id r := None),
      rs_by_external_operation_id := (rs_by_external_operation_id st)(rr_external_operation_id r := None),
      rs_by_provider_key :=
        (case rr_provider_idempotency_key r of
           None \<Rightarrow> rs_by_provider_key st
         | Some k \<Rightarrow>
             (case rs_by_provider_key st k of
                None \<Rightarrow> rs_by_provider_key st
              | Some current \<Rightarrow>
                  if rr_resource_id current = rr_resource_id r then (rs_by_provider_key st)(k := None)
                  else rs_by_provider_key st))\<rparr>"

definition store_put :: "reference_resource \<Rightarrow> reference_store \<Rightarrow> reference_store fallible" where
  "store_put r st =
     bind_err (guard_err (rs_by_resource_id st (rr_resource_id r) = None) (ContractValidationError ''duplicate_key''))
       (\<lambda>_. Inr ((index_resource r st)\<lparr>rs_all := rs_all st @ [r]\<rparr>))"

definition store_replace :: "reference_resource \<Rightarrow> reference_store \<Rightarrow> reference_store fallible" where
  "store_replace r st =
     (case rs_by_resource_id st (rr_resource_id r) of
        None \<Rightarrow> Inl (ContractValidationError ''illegal_combination'')
      | Some existing \<Rightarrow>
          Inr ((index_resource r (drop_indexes existing st))
            \<lparr>rs_all := map (\<lambda>item. if rr_resource_id item = rr_resource_id r then r else item) (rs_all st)\<rparr>))"

section \<open>The indexes agree with the resources\<close>

definition indexed :: "('k \<rightharpoonup> reference_resource) \<Rightarrow> (reference_resource \<Rightarrow> 'k \<Rightarrow> bool) \<Rightarrow> reference_store \<Rightarrow> bool" where
  "indexed index key st \<longleftrightarrow> (\<forall>k r. index k = Some r \<longrightarrow> r \<in> set (rs_all st) \<and> key r k)"

definition store_ok :: "reference_store \<Rightarrow> bool" where
  "store_ok st \<longleftrightarrow>
     distinct (map rr_resource_id (rs_all st)) \<and>
     (\<forall>r \<in> set (rs_all st). rs_by_resource_id st (rr_resource_id r) = Some r) \<and>
     indexed (rs_by_resource_id st) (\<lambda>r k. rr_resource_id r = k) st \<and>
     indexed (rs_by_external_operation_id st) (\<lambda>r k. rr_external_operation_id r = k) st \<and>
     indexed (rs_by_provider_key st) (\<lambda>r k. rr_provider_idempotency_key r = Some k) st \<and>
     (\<forall>r \<in> set (rs_all st). rs_by_external_operation_id st (rr_external_operation_id r) \<noteq> None) \<and>
     (\<forall>r \<in> set (rs_all st). \<forall>k. rr_provider_idempotency_key r = Some k \<longrightarrow> rs_by_provider_key st k \<noteq> None)"

lemma empty_store_ok: "store_ok empty_store"
  by (simp add: store_ok_def indexed_def empty_store_def)

lemma store_okD:
  assumes "store_ok st"
  shows "r \<in> set (rs_all st) \<Longrightarrow> rs_by_resource_id st (rr_resource_id r) = Some r"
    and "rs_by_resource_id st k = Some r \<Longrightarrow> r \<in> set (rs_all st) \<and> rr_resource_id r = k"
    and "rs_by_external_operation_id st k = Some r \<Longrightarrow> r \<in> set (rs_all st) \<and> rr_external_operation_id r = k"
    and "rs_by_provider_key st k = Some r \<Longrightarrow> r \<in> set (rs_all st) \<and> rr_provider_idempotency_key r = Some k"
    and "r \<in> set (rs_all st) \<Longrightarrow> rr_provider_idempotency_key r = Some k \<Longrightarrow> \<exists>r'. rs_by_provider_key st k = Some r'"
    and "r \<in> set (rs_all st) \<Longrightarrow> \<exists>r'. rs_by_external_operation_id st (rr_external_operation_id r) = Some r'"
  using assms by (auto simp: store_ok_def indexed_def)

text \<open>
  Storing a resource, new or in place of one with the same external operation id and provider key, as the
  adapter's replacements are.
\<close>

lemma store_ok_update:
  assumes ok: "store_ok st"
    and same: "\<And>old. old \<in> set (rs_all st) \<Longrightarrow> rr_resource_id old = rr_resource_id r \<Longrightarrow>
      rr_external_operation_id old = rr_external_operation_id r \<and>
      rr_provider_idempotency_key old = rr_provider_idempotency_key r"
    and d: "distinct (map rr_resource_id (rs_all st'))"
    and mem: "set (rs_all st') = insert r {item \<in> set (rs_all st). rr_resource_id item \<noteq> rr_resource_id r}"
    and by_id: "rs_by_resource_id st' = (rs_by_resource_id st)(rr_resource_id r \<mapsto> r)"
    and by_ext: "rs_by_external_operation_id st' = (rs_by_external_operation_id st)(rr_external_operation_id r \<mapsto> r)"
    and by_key: "rs_by_provider_key st' = (case rr_provider_idempotency_key r of
      None \<Rightarrow> rs_by_provider_key st | Some k \<Rightarrow> (rs_by_provider_key st)(k \<mapsto> r))"
  shows "store_ok st'"
  unfolding store_ok_def
proof (intro conjI ballI allI impI d)
  fix item assume "item \<in> set (rs_all st')"
  with store_okD(1) [OF ok, of item] show "rs_by_resource_id st' (rr_resource_id item) = Some item"
    by (auto simp: mem by_id)
next
  show "indexed (rs_by_resource_id st') (\<lambda>r k. rr_resource_id r = k) st'"
    unfolding indexed_def
  proof (intro allI impI)
    fix k item assume "rs_by_resource_id st' k = Some item"
    then show "item \<in> set (rs_all st') \<and> rr_resource_id item = k"
      using store_okD(2) [OF ok, of k item] by (cases "k = rr_resource_id r") (auto simp: by_id mem)
  qed
  show "indexed (rs_by_external_operation_id st') (\<lambda>r k. rr_external_operation_id r = k) st'"
    unfolding indexed_def
  proof (intro allI impI)
    fix k item assume "rs_by_external_operation_id st' k = Some item"
    then show "item \<in> set (rs_all st') \<and> rr_external_operation_id item = k"
      using store_okD(3) [OF ok, of k item] same [of item]
      by (cases "k = rr_external_operation_id r") (auto simp: by_ext mem)
  qed
  show "indexed (rs_by_provider_key st') (\<lambda>r k. rr_provider_idempotency_key r = Some k) st'"
    unfolding indexed_def
  proof (intro allI impI)
    fix k item assume "rs_by_provider_key st' k = Some item"
    then show "item \<in> set (rs_all st') \<and> rr_provider_idempotency_key item = Some k"
      using store_okD(4) [OF ok, of k item] same [of item]
      by (cases "rr_provider_idempotency_key r = Some k") (auto simp: by_key mem split: option.splits if_splits)
  qed
next
  fix item assume "item \<in> set (rs_all st')"
  then show "rs_by_external_operation_id st' (rr_external_operation_id item) \<noteq> None"
    using store_okD(6) [OF ok, of item] by (auto simp: mem by_ext)
next
  fix item k assume "item \<in> set (rs_all st')" "rr_provider_idempotency_key item = Some k"
  then show "rs_by_provider_key st' k \<noteq> None"
    using store_okD(5) [OF ok, of item k] by (auto simp: mem by_key split: option.splits)
qed

lemma store_put_all: "store_put r st = Inr st' \<Longrightarrow> rs_all st' = rs_all st @ [r]"
  by (auto simp: store_put_def)

lemma store_put_ok:
  assumes "store_ok st" and "store_put r st = Inr st'"
  shows "store_ok st'"
proof -
  from assms(2) have new: "rs_by_resource_id st (rr_resource_id r) = None"
    and st': "st' = (index_resource r st)\<lparr>rs_all := rs_all st @ [r]\<rparr>" by (auto simp: store_put_def)
  note all = store_put_all [OF assms(2)]
  have fresh: "rr_resource_id item \<noteq> rr_resource_id r" if "item \<in> set (rs_all st)" for item
    using new store_okD(1) [OF assms(1) that] by auto
  then have absent: "rr_resource_id r \<notin> rr_resource_id ` set (rs_all st)" by force
  have old: "distinct (map rr_resource_id (rs_all st))" using assms(1) by (simp add: store_ok_def)
  show "store_ok st'"
  proof (rule store_ok_update [OF assms(1), of r])
    show "distinct (map rr_resource_id (rs_all st'))" using old absent by (simp add: all)
    show "set (rs_all st') = insert r {item \<in> set (rs_all st). rr_resource_id item \<noteq> rr_resource_id r}"
      using fresh by (auto simp: all)
  qed (use fresh in \<open>auto simp: st' index_resource_def\<close>)
qed

lemma store_replace_ok:
  assumes ok: "store_ok st" and "store_replace r st = Inr st'"
    and same: "\<And>old. old \<in> set (rs_all st) \<Longrightarrow> rr_resource_id old = rr_resource_id r \<Longrightarrow>
      rr_external_operation_id old = rr_external_operation_id r \<and>
      rr_provider_idempotency_key old = rr_provider_idempotency_key r"
  shows "store_ok st'"
    and "rs_all st' = map (\<lambda>item. if rr_resource_id item = rr_resource_id r then r else item) (rs_all st)"
proof -
  let ?swap = "\<lambda>item. if rr_resource_id item = rr_resource_id r then r else item"
  from assms(2) obtain old where old: "rs_by_resource_id st (rr_resource_id r) = Some old"
    and st': "st' = (index_resource r (drop_indexes old st))\<lparr>rs_all := map ?swap (rs_all st)\<rparr>"
    by (auto simp: store_replace_def split: option.splits)
  show all: "rs_all st' = map ?swap (rs_all st)" by (simp add: st')
  note o = store_okD(2) [OF ok old]
  have keys: "rr_external_operation_id old = rr_external_operation_id r"
    "rr_provider_idempotency_key old = rr_provider_idempotency_key r" using same [of old] o by auto
  show "store_ok st'"
  proof (rule store_ok_update [OF ok same])
    have "rr_resource_id \<circ> ?swap = rr_resource_id" by auto
    then show "distinct (map rr_resource_id (rs_all st'))" using ok by (simp add: all store_ok_def)
    show "set (rs_all st') = insert r {item \<in> set (rs_all st). rr_resource_id item \<noteq> rr_resource_id r}"
      using o by (auto simp: all)
    show "rs_by_resource_id st' = (rs_by_resource_id st)(rr_resource_id r \<mapsto> r)"
      using o by (simp add: st' index_resource_def drop_indexes_def fun_eq_iff)
    show "rs_by_external_operation_id st' = (rs_by_external_operation_id st)(rr_external_operation_id r \<mapsto> r)"
      by (simp add: st' index_resource_def drop_indexes_def keys fun_eq_iff)
    show "rs_by_provider_key st' = (case rr_provider_idempotency_key r of
        None \<Rightarrow> rs_by_provider_key st | Some k \<Rightarrow> (rs_by_provider_key st)(k \<mapsto> r))"
      by (auto simp: st' index_resource_def drop_indexes_def keys fun_eq_iff split: option.splits)
  qed
qed

end
