(* ===== verification/Reference_Effects.thy ===== *)
theory Reference_Effects
  imports Provider_Boundary
begin

text \<open>
  The effects the reference provider declares and what it declares of them
  (\<^verbatim>\<open>providers/reference/effects.py\<close>), and the scripts that steer its answers
  (\<^verbatim>\<open>providers/reference/scripts.py\<close>, the table of \<^verbatim>\<open>providers/reference/adapter.py\<close>).
\<close>

section \<open>The declared effects\<close>

definition REFERENCE_PROVIDER :: string where
  "REFERENCE_PROVIDER = ''stateback.reference''"

definition reference_effect :: "string \<Rightarrow> effect_ref" where
  "reference_effect action = \<lparr>ef_provider = REFERENCE_PROVIDER, ef_action = action, ef_version = ''v1''\<rparr>"

definition EFFECT_MUTATE_PROVIDER_KEY :: effect_ref where
  "EFFECT_MUTATE_PROVIDER_KEY = reference_effect ''mutate_provider_key''"

definition EFFECT_MUTATE_NATURAL :: effect_ref where
  "EFFECT_MUTATE_NATURAL = reference_effect ''mutate_natural''"

definition EFFECT_MUTATE_NONE :: effect_ref where
  "EFFECT_MUTATE_NONE = reference_effect ''mutate_none''"

definition EFFECT_MUTATE_EVENTUAL :: effect_ref where
  "EFFECT_MUTATE_EVENTUAL = reference_effect ''mutate_eventual''"

definition EFFECT_MUTATE_MITIGATING :: effect_ref where
  "EFFECT_MUTATE_MITIGATING = reference_effect ''mutate_mitigating''"

definition EFFECT_READ_RESOURCE :: effect_ref where
  "EFFECT_READ_RESOURCE = reference_effect ''read_resource''"

definition REFERENCE_EFFECTS :: "effect_ref list" where
  "REFERENCE_EFFECTS = [EFFECT_MUTATE_PROVIDER_KEY, EFFECT_MUTATE_NATURAL, EFFECT_MUTATE_NONE,
     EFFECT_MUTATE_EVENTUAL, EFFECT_MUTATE_MITIGATING, EFFECT_READ_RESOURCE]"

definition REFERENCE_KEY_SEMANTICS :: provider_key_semantics where
  "REFERENCE_KEY_SEMANTICS = \<lparr>ks_scope = ''account'', ks_replay_window = Some ''86400'',
     ks_same_key_same_request_required = True, ks_conflicting_request_behavior = ''reject'',
     ks_response_replay_behavior = ''replay_original_result''\<rparr>"

definition reference_declaration ::
  "effect_ref \<Rightarrow> mutability \<Rightarrow> risk_level \<Rightarrow> idempotency_mode \<Rightarrow> verification_mode \<Rightarrow> compensation_kind \<Rightarrow>
   bool \<Rightarrow> bool \<Rightarrow> bool \<Rightarrow> string \<Rightarrow> effect_descriptor" where
  "reference_declaration effect mutability risk idempotency verification compensation external_id
     prove_applied prove_not_applied documentation =
     \<lparr>ed_contract_version = CONTRACT_VERSION, ed_effect = effect, ed_mutability = mutability,
      ed_risk_level = risk, ed_idempotency_mode = idempotency, ed_verification_mode = verification,
      ed_compensation_kind = compensation, ed_supports_external_operation_id = external_id,
      ed_immediate_response_can_prove_applied = prove_applied,
      ed_immediate_response_can_prove_not_applied = prove_not_applied,
      ed_provider_key_semantics =
        (if idempotency = IM_PROVIDER_KEY then Some REFERENCE_KEY_SEMANTICS else None),
      ed_documentation = documentation\<rparr>"

definition REFERENCE_DESCRIPTORS :: "(effect_ref \<times> effect_descriptor) list" where
  "REFERENCE_DESCRIPTORS =
     [(EFFECT_MUTATE_PROVIDER_KEY,
       reference_declaration EFFECT_MUTATE_PROVIDER_KEY MU_MUTATING RL_HIGH IM_PROVIDER_KEY
         VM_OPERATION_LOOKUP CK_EXACT True True True
         ''Reference mutating effect with provider-native key, operation lookup, and exact compensation.''),
      (EFFECT_MUTATE_NATURAL,
       reference_declaration EFFECT_MUTATE_NATURAL MU_MUTATING RL_MODERATE IM_NATURAL
         VM_READ_BACK CK_APPROXIMATE False True True
         ''Reference mutating effect with natural idempotency, read-back, and approximate compensation.''),
      (EFFECT_MUTATE_NONE,
       reference_declaration EFFECT_MUTATE_NONE MU_MUTATING RL_HIGH IM_NONE
         VM_NONE CK_NONE False True True
         ''Reference mutating effect with no idempotency, verification, or compensation.''),
      (EFFECT_MUTATE_EVENTUAL,
       reference_declaration EFFECT_MUTATE_EVENTUAL MU_MUTATING RL_HIGH IM_PROVIDER_KEY
         VM_READ_BACK CK_EXACT True True False
         ''Reference mutating effect whose read-back is eventually consistent; not-found is not proof.''),
      (EFFECT_MUTATE_MITIGATING,
       reference_declaration EFFECT_MUTATE_MITIGATING MU_MUTATING RL_CRITICAL IM_PROVIDER_KEY
         VM_OPERATION_LOOKUP CK_MITIGATING True True True
         ''Reference mutating effect whose compensation mitigates harm without restoring prior state.''),
      (EFFECT_READ_RESOURCE,
       reference_declaration EFFECT_READ_RESOURCE MU_READ_ONLY RL_LOW IM_NATURAL
         VM_READ_BACK CK_NONE False False True
         ''Reference read-only lookup. Successful execute does not mutate.'')]"

definition reference_descriptor :: "effect_ref \<Rightarrow> effect_descriptor fallible" where
  "reference_descriptor effect =
     (case map_of REFERENCE_DESCRIPTORS effect of None \<Rightarrow> Inl UnsupportedEffectError | Some d \<Rightarrow> Inr d)"

text \<open>\<open>_descriptor_for_action\<close>: the first declaration, in the table's order, of that action.\<close>

definition descriptor_for_action :: "string \<Rightarrow> effect_descriptor option" where
  "descriptor_for_action action =
     map_option snd (find (\<lambda>(effect, desc). ef_action effect = action) REFERENCE_DESCRIPTORS)"

lemmas reference_effects = EFFECT_MUTATE_PROVIDER_KEY_def EFFECT_MUTATE_NATURAL_def EFFECT_MUTATE_NONE_def
  EFFECT_MUTATE_EVENTUAL_def EFFECT_MUTATE_MITIGATING_def EFFECT_READ_RESOURCE_def reference_effect_def

text \<open>Every declaration is one \<open>EffectDescriptor\<close> accepts, filed under its own effect.\<close>

lemma reference_descriptors_valid:
  "list_all (\<lambda>(effect, desc). ed_effect desc = effect \<and> validate_effect_descriptor desc = Inr ()) REFERENCE_DESCRIPTORS"
  by (simp add: REFERENCE_DESCRIPTORS_def reference_declaration_def validate_effect_descriptor_def)

lemma reference_descriptor_known:
  "map fst REFERENCE_DESCRIPTORS = REFERENCE_EFFECTS" "distinct REFERENCE_EFFECTS"
  by (simp_all add: REFERENCE_DESCRIPTORS_def REFERENCE_EFFECTS_def reference_effects)

lemma reference_descriptor_Inr:
  "effect \<in> set REFERENCE_EFFECTS \<Longrightarrow> \<exists>desc. reference_descriptor effect = Inr desc \<and> ed_effect desc = effect"
  by (auto simp: reference_descriptor_def REFERENCE_EFFECTS_def REFERENCE_DESCRIPTORS_def reference_effects
      reference_declaration_def)

section \<open>Scripts\<close>

datatype reference_execute_script =
    SX_APPLIED | SX_NOT_APPLIED_VALIDATION | SX_NOT_APPLIED_REJECTED | SX_NOT_APPLIED_UNAVAILABLE
  | SX_NOT_APPLIED_RATE_LIMIT | SX_NOT_APPLIED_AUTH | SX_UNKNOWN_TIMEOUT_AFTER_SEND | SX_UNKNOWN_MALFORMED
  | SX_UNKNOWN_RATE_LIMIT_AMBIGUOUS | SX_APPLIED_RESPONSE_LOST

datatype reference_verify_script =
    SV_STORE | SV_APPLIED | SV_NOT_APPLIED | SV_UNKNOWN_TRANSPORT | SV_UNKNOWN_INCONCLUSIVE
  | SV_UNKNOWN_MALFORMED | SV_UNKNOWN_INCONSISTENT

datatype reference_compensate_script =
    SC_APPLIED | SC_NOT_APPLIED_REJECTED | SC_UNKNOWN_TIMEOUT_AFTER_SEND | SC_UNKNOWN_MALFORMED

record execute_spec =
  xs_mutates :: bool
  xs_outcome :: effect_outcome
  xs_status :: string
  xs_kind :: "error_kind option"
  xs_code :: "string option"
  xs_retryable :: bool
  xs_http :: "int option"
  xs_return_ids :: bool
  xs_message :: "string option"

definition spec_of :: "bool \<Rightarrow> effect_outcome \<Rightarrow> string \<Rightarrow> execute_spec" where
  "spec_of mutates outcome status = \<lparr>xs_mutates = mutates, xs_outcome = outcome, xs_status = status,
     xs_kind = None, xs_code = None, xs_retryable = False, xs_http = None, xs_return_ids = False,
     xs_message = None\<rparr>"

fun EXECUTE_SPECS :: "reference_execute_script \<Rightarrow> execute_spec" where
  "EXECUTE_SPECS SX_APPLIED = (spec_of True EO_APPLIED ''applied'')\<lparr>xs_return_ids := True\<rparr>"
| "EXECUTE_SPECS SX_NOT_APPLIED_VALIDATION = (spec_of False EO_NOT_APPLIED ''rejected'')
     \<lparr>xs_kind := Some EK_VALIDATION, xs_code := Some ''ref.validation.missing_resource_id''\<rparr>"
| "EXECUTE_SPECS SX_NOT_APPLIED_REJECTED = (spec_of False EO_NOT_APPLIED ''rejected'')
     \<lparr>xs_kind := Some EK_PROVIDER_REJECTED, xs_code := Some ''ref.rejected.before_accept'', xs_http := Some 400,
      xs_message := Some ''provider rejected request before acceptance''\<rparr>"
| "EXECUTE_SPECS SX_NOT_APPLIED_UNAVAILABLE = (spec_of False EO_NOT_APPLIED ''unavailable'')
     \<lparr>xs_kind := Some EK_PROVIDER_UNAVAILABLE, xs_code := Some ''ref.unavailable.no_accept'',
      xs_retryable := True, xs_http := Some 503\<rparr>"
| "EXECUTE_SPECS SX_NOT_APPLIED_RATE_LIMIT = (spec_of False EO_NOT_APPLIED ''rate_limited'')
     \<lparr>xs_kind := Some EK_RATE_LIMITED, xs_code := Some ''ref.rate_limited.not_accepted'',
      xs_retryable := True, xs_http := Some 429\<rparr>"
| "EXECUTE_SPECS SX_NOT_APPLIED_AUTH = (spec_of False EO_NOT_APPLIED ''auth'')
     \<lparr>xs_kind := Some EK_AUTHENTICATION, xs_code := Some ''ref.auth.missing'', xs_http := Some 401,
      xs_message := Some ''provider authentication failed''\<rparr>"
| "EXECUTE_SPECS SX_UNKNOWN_TIMEOUT_AFTER_SEND = (spec_of True EO_UNKNOWN ''timeout'')
     \<lparr>xs_kind := Some EK_TRANSIENT_TRANSPORT, xs_code := Some ''ref.timeout.after_send'', xs_retryable := True\<rparr>"
| "EXECUTE_SPECS SX_UNKNOWN_MALFORMED = (spec_of True EO_UNKNOWN ''malformed'')
     \<lparr>xs_kind := Some EK_MALFORMED_PROVIDER_RESPONSE, xs_code := Some ''ref.malformed.after_accept'',
      xs_http := Some 200\<rparr>"
| "EXECUTE_SPECS SX_UNKNOWN_RATE_LIMIT_AMBIGUOUS = (spec_of True EO_UNKNOWN ''rate_limited'')
     \<lparr>xs_kind := Some EK_RATE_LIMITED, xs_code := Some ''ref.rate_limited.ambiguous'',
      xs_retryable := True, xs_http := Some 429\<rparr>"
| "EXECUTE_SPECS SX_APPLIED_RESPONSE_LOST = (spec_of True EO_UNKNOWN ''timeout'')
     \<lparr>xs_kind := Some EK_TRANSIENT_TRANSPORT, xs_code := Some ''ref.timeout.after_send'', xs_retryable := True\<rparr>"

text \<open>A script that mutates never answers NOT_APPLIED, and one that answers APPLIED mutates.\<close>

lemma execute_specs_honest:
  "xs_mutates (EXECUTE_SPECS script) \<longleftrightarrow> xs_outcome (EXECUTE_SPECS script) \<noteq> EO_NOT_APPLIED"
  by (cases script) (simp_all add: spec_of_def)

end
