(* ===== verification/Reference_Adapter.thy ===== *)
theory Reference_Adapter
  imports Reference_Store Reference_Effects Service_World
begin

text \<open>
  The in-process reference provider (\<^verbatim>\<open>providers/reference/adapter.py\<close>): scripted answers over the store of
  resources. A step of the adapter returns or raises, and what it has changed stays changed when it raises.
  The clock is a parameter, one instant per reading. The code compares effects both by value
  (\<open>==\<close>, \<open>in\<close>) and by identity (\<open>is\<close>); a call therefore also says whether the effect it names is the
  module's own object (\<open>own\<close>) or an equal one built elsewhere, as one read from the journal is.
\<close>

named_theorems adapter_rules \<open>a step of the adapter keeps a property of its state\<close>

section \<open>State and steps\<close>

record reference_adapter =
  ra_store :: reference_store
  ra_visibility_delay_seconds :: int
  ra_execute_scripts :: "reference_execute_script list"
  ra_verify_scripts :: "reference_verify_script list"
  ra_compensate_scripts :: "reference_compensate_script list"
  ra_compensation_keys :: "string \<rightharpoonup> string"
  ra_clock_reads :: nat

type_synonym 'a adapter_step = "reference_adapter \<Rightarrow> 'a fallible \<times> reference_adapter"

definition return_step :: "'a \<Rightarrow> 'a adapter_step" where
  "return_step x a = (Inr x, a)"

definition raise_step :: "sb_error \<Rightarrow> 'a adapter_step" where
  "raise_step e a = (Inl e, a)"

definition lift_step :: "'a fallible \<Rightarrow> 'a adapter_step" where
  "lift_step r a = (r, a)"

definition bind_step :: "'a adapter_step \<Rightarrow> ('a \<Rightarrow> 'b adapter_step) \<Rightarrow> 'b adapter_step" where
  "bind_step m f a = (case m a of (Inl e, a') \<Rightarrow> (Inl e, a') | (Inr x, a') \<Rightarrow> f x a')"

definition clock_step :: "(nat \<Rightarrow> utc_timestamp) \<Rightarrow> utc_timestamp adapter_step" where
  "clock_step clock a = (Inr (clock (ra_clock_reads a)), a\<lparr>ra_clock_reads := Suc (ra_clock_reads a)\<rparr>)"

definition new_reference_adapter :: "reference_store \<Rightarrow> int \<Rightarrow> reference_adapter fallible" where
  "new_reference_adapter store delay =
     bind_err (guard_err (0 \<le> delay) (ContractValidationError ''invalid_range'')) (\<lambda>_.
     Inr \<lparr>ra_store = store, ra_visibility_delay_seconds = delay, ra_execute_scripts = [],
          ra_verify_scripts = [], ra_compensate_scripts = [], ra_compensation_keys = (\<lambda>_. None),
          ra_clock_reads = 0\<rparr>)"

definition enqueue_execute :: "reference_execute_script \<Rightarrow> reference_adapter \<Rightarrow> reference_adapter" where
  "enqueue_execute script a = a\<lparr>ra_execute_scripts := ra_execute_scripts a @ [script]\<rparr>"

definition enqueue_verify :: "reference_verify_script \<Rightarrow> reference_adapter \<Rightarrow> reference_adapter" where
  "enqueue_verify script a = a\<lparr>ra_verify_scripts := ra_verify_scripts a @ [script]\<rparr>"

definition enqueue_compensate :: "reference_compensate_script \<Rightarrow> reference_adapter \<Rightarrow> reference_adapter" where
  "enqueue_compensate script a = a\<lparr>ra_compensate_scripts := ra_compensate_scripts a @ [script]\<rparr>"

text \<open>\<open>scripts.pop(0) if scripts else\<close> the default.\<close>

definition pop_execute :: "reference_execute_script adapter_step" where
  "pop_execute a = (case ra_execute_scripts a of
     [] \<Rightarrow> (Inr SX_APPLIED, a) | s # rest \<Rightarrow> (Inr s, a\<lparr>ra_execute_scripts := rest\<rparr>))"

definition pop_verify :: "reference_verify_script adapter_step" where
  "pop_verify a = (case ra_verify_scripts a of
     [] \<Rightarrow> (Inr SV_STORE, a) | s # rest \<Rightarrow> (Inr s, a\<lparr>ra_verify_scripts := rest\<rparr>))"

definition pop_compensate :: "reference_compensate_script adapter_step" where
  "pop_compensate a = (case ra_compensate_scripts a of
     [] \<Rightarrow> (Inr SC_APPLIED, a) | s # rest \<Rightarrow> (Inr s, a\<lparr>ra_compensate_scripts := rest\<rparr>))"

definition put_step :: "reference_resource \<Rightarrow> unit adapter_step" where
  "put_step r a = (case store_put r (ra_store a) of
     Inl e \<Rightarrow> (Inl e, a) | Inr st \<Rightarrow> (Inr (), a\<lparr>ra_store := st\<rparr>))"

definition replace_step :: "reference_resource \<Rightarrow> unit adapter_step" where
  "replace_step r a = (case store_replace r (ra_store a) of
     Inl e \<Rightarrow> (Inl e, a) | Inr st \<Rightarrow> (Inr (), a\<lparr>ra_store := st\<rparr>))"

section \<open>Reading requests, building answers\<close>

definition effect_is :: "bool \<Rightarrow> effect_ref \<Rightarrow> effect_ref \<Rightarrow> bool" where
  "effect_is own effect constant \<longleftrightarrow> own \<and> effect = constant"

definition resource_fingerprint :: "(string \<Rightarrow> string) \<Rightarrow> string \<Rightarrow> string" where
  "resource_fingerprint sha resource_id = sha256_hex sha (JObject [(''resource_id'', JStr resource_id)])"

definition resource_id_of :: "json \<Rightarrow> string option" where
  "resource_id_of arguments =
     (case arguments of
        JObject items \<Rightarrow> (case map_of items ''resource_id'' of Some (JStr value) \<Rightarrow> Some value | _ \<Rightarrow> None)
      | _ \<Rightarrow> None)"

definition norm_error ::
  "error_kind \<Rightarrow> string \<Rightarrow> bool \<Rightarrow> int option \<Rightarrow> string option \<Rightarrow> normalized_error" where
  "norm_error kind code retryable http message =
     \<lparr>er_contract_version = CONTRACT_VERSION, er_kind = kind, er_code = code,
      er_message = (case message of None \<Rightarrow> code | Some m \<Rightarrow> m), er_retryable_infrastructure = retryable,
      er_provider_http_status = http, er_provider_error_code = None, er_retry_after_seconds = None,
      er_details = JObject []\<rparr>"

text \<open>\<open>NormalizedError\<close> accepts every error built here: the statuses are HTTP statuses, the details empty.\<close>

lemma norm_error_valid:
  "case http of None \<Rightarrow> True | Some n \<Rightarrow> 100 \<le> n \<and> n \<le> 599 \<Longrightarrow>
     validate_normalized_error (norm_error kind code retryable http message) = Inr ()"
  by (simp add: norm_error_def validate_normalized_error_def reject_secrets_in_json_def)

definition verification_source :: "verification_mode \<Rightarrow> evidence_source" where
  "verification_source mode =
     (case mode of VM_OPERATION_LOOKUP \<Rightarrow> ES_OPERATION_LOOKUP | VM_READ_BACK \<Rightarrow> ES_READ_BACK | _ \<Rightarrow> ES_CUSTOM)"

text \<open>\<open>_exec_evidence\<close> and \<open>_verify_evidence\<close>: stamped with the clock, refused when a field looks like a secret.\<close>

definition reference_evidence ::
  "(nat \<Rightarrow> utc_timestamp) \<Rightarrow> evidence_source \<Rightarrow> string \<Rightarrow> string option \<Rightarrow> string option \<Rightarrow> string list \<Rightarrow> json \<Rightarrow>
   provider_evidence adapter_step" where
  "reference_evidence clock source status request_id external_operation_id ids items =
     bind_step (clock_step clock) (\<lambda>now.
     let e = \<lparr>ev_source = source, ev_provider = REFERENCE_PROVIDER, ev_observed_at = now,
           ev_provider_status = Some status, ev_provider_request_id = request_id,
           ev_external_operation_id = external_operation_id, ev_external_resource_ids = ids,
           ev_evidence_fields = items, ev_raw_reference = None\<rparr>
     in lift_step (bind_err (validate_provider_evidence e) (\<lambda>_. Inr e)))"

definition exec_evidence ::
  "(nat \<Rightarrow> utc_timestamp) \<Rightarrow> string \<Rightarrow> string option \<Rightarrow> string option \<Rightarrow> string list \<Rightarrow> json \<Rightarrow>
   provider_evidence adapter_step" where
  "exec_evidence clock status request_id external_operation_id ids items =
     reference_evidence clock ES_EXECUTION_RESPONSE status request_id external_operation_id ids items"

definition verify_evidence ::
  "(nat \<Rightarrow> utc_timestamp) \<Rightarrow> evidence_source \<Rightarrow> string \<Rightarrow> string option \<Rightarrow> string list \<Rightarrow> json \<Rightarrow>
   provider_evidence adapter_step" where
  "verify_evidence clock source status external_operation_id ids items =
     reference_evidence clock source status None external_operation_id ids items"

text \<open>
  The \<open>try ... except\<close> around each body: its own two exception classes pass, anything else becomes evidence of
  an unknown outcome.
\<close>

definition classified ::
  "(nat \<Rightarrow> utc_timestamp) \<Rightarrow> 'a adapter_step \<Rightarrow> (effect_outcome \<Rightarrow> normalized_error \<Rightarrow> provider_evidence \<Rightarrow> 'a) \<Rightarrow>
   'a adapter_step" where
  "classified clock body wrap a =
     (case body a of
        (Inr x, a') \<Rightarrow> (Inr x, a')
      | (Inl e, a') \<Rightarrow>
          if e = UnsupportedEffectError \<or> is_contract_error e \<or> \<not> is_exception e then (Inl e, a')
          else bind_step (clock_step clock) (\<lambda>now.
               bind_step (lift_step (evidence_for_unclassified_exception e now REFERENCE_PROVIDER))
                 (\<lambda>(outcome, error, evidence). return_step (wrap outcome error evidence))) a')"

section \<open>Validation\<close>

definition rejected :: "normalized_error \<Rightarrow> validation_result" where
  "rejected e = \<lparr>vl_accepted = False, vl_error = Some e\<rparr>"

definition validate_reference_execution :: "provider_execution_request \<Rightarrow> validation_result" where
  "validate_reference_execution request =
     (if pq_effect request \<notin> set REFERENCE_EFFECTS
      then rejected (norm_error EK_UNSUPPORTED_CAPABILITY ''ref.validation.unknown_effect'' False None None)
      else (case pq_arguments request of
        JObject items \<Rightarrow>
          (case map_of items ''resource_id'' of
             None \<Rightarrow> rejected (norm_error EK_VALIDATION ''ref.validation.missing_resource_id'' False None None)
           | Some (JStr resource_id) \<Rightarrow>
               if resource_id = [] then
                 rejected (norm_error EK_VALIDATION ''ref.validation.empty_resource_id'' False None None)
               else \<lparr>vl_accepted = True, vl_error = None\<rparr>
           | Some _ \<Rightarrow>
               rejected (norm_error EK_VALIDATION ''ref.validation.empty_resource_id'' False None None))
      | _ \<Rightarrow> rejected (norm_error EK_VALIDATION ''ref.validation.arguments_not_object'' False None None)))"

definition compensation_arguments_error :: "json \<Rightarrow> normalized_error option" where
  "compensation_arguments_error arguments =
     (case arguments of
        JObject items \<Rightarrow>
          (case map_of items ''resource_id'' of
             None \<Rightarrow> Some (norm_error EK_VALIDATION ''ref.validation.missing_resource_id'' False None None)
           | Some (JStr resource_id) \<Rightarrow>
               if resource_id = [] then
                 Some (norm_error EK_VALIDATION ''ref.validation.empty_resource_id'' False None None)
               else None
           | Some _ \<Rightarrow> Some (norm_error EK_VALIDATION ''ref.validation.empty_resource_id'' False None None))
      | _ \<Rightarrow> Some (norm_error EK_VALIDATION ''ref.validation.arguments_not_object'' False None None))"

lemma validation_result_valid:
  "validate_validation_result (validate_reference_execution request) = Inr ()"
  by (auto simp: validate_reference_execution_def validate_validation_result_def rejected_def norm_error_def
      VALIDATION_ERROR_KINDS_def split: json.splits option.splits)

lemma accepted_iff:
  "vl_accepted (validate_reference_execution request) \<longleftrightarrow>
     pq_effect request \<in> set REFERENCE_EFFECTS \<and>
     (\<exists>resource_id. resource_id_of (pq_arguments request) = Some resource_id \<and> resource_id \<noteq> [])"
  by (auto simp: validate_reference_execution_def rejected_def resource_id_of_def split: json.splits option.splits)

lemma compensation_arguments_accepted:
  "compensation_arguments_error arguments = None \<longleftrightarrow>
     (\<exists>resource_id. resource_id_of arguments = Some resource_id \<and> resource_id \<noteq> [])"
  by (auto simp: compensation_arguments_error_def resource_id_of_def split: json.splits option.splits)

section \<open>Execution\<close>

definition execution_from_error ::
  "(nat \<Rightarrow> utc_timestamp) \<Rightarrow> provider_execution_context \<Rightarrow> effect_outcome \<Rightarrow> normalized_error option \<Rightarrow>
   string \<Rightarrow> bool \<Rightarrow> execution_evidence adapter_step" where
  "execution_from_error clock context outcome error status sent =
     bind_step (exec_evidence clock status
         (if sent then Some (''refreq:'' @ oid_value (px_attempt_id context)) else None) None [] (JObject []))
       (\<lambda>evidence. return_step \<lparr>xe_outcome = outcome, xe_evidence = Some evidence, xe_error = error,
          xe_external_operation_id = None, xe_external_resource_ids = []\<rparr>)"

text \<open>\<open>external_operation_id.rsplit(":", 1)[-1]\<close>: what follows the last colon.\<close>

definition after_last_colon :: "string \<Rightarrow> string" where
  "after_last_colon s = rev (takeWhile (\<lambda>c. c \<noteq> CHR '':'') (rev s))"

definition created_fields :: "string \<Rightarrow> json" where
  "created_fields resource_id = JObject [(''mutation'', JStr ''create''), (''resource_id'', JStr resource_id)]"

definition applied_from_row ::
  "(nat \<Rightarrow> utc_timestamp) \<Rightarrow> reference_resource \<Rightarrow> execution_evidence adapter_step" where
  "applied_from_row clock row =
     bind_step (exec_evidence clock ''applied''
         (Some (''refreq:'' @ after_last_colon (rr_external_operation_id row)))
         (Some (rr_external_operation_id row)) [rr_resource_id row] (created_fields (rr_resource_id row)))
       (\<lambda>evidence. return_step \<lparr>xe_outcome = EO_APPLIED, xe_evidence = Some evidence, xe_error = None,
          xe_external_operation_id = Some (rr_external_operation_id row),
          xe_external_resource_ids = [rr_resource_id row]\<rparr>)"

definition read_success ::
  "(nat \<Rightarrow> utc_timestamp) \<Rightarrow> provider_execution_context \<Rightarrow> string \<Rightarrow> execution_evidence adapter_step" where
  "read_success clock context resource_id a =
     (let present = rs_by_resource_id (ra_store a) resource_id \<noteq> None in
      bind_step (exec_evidence clock ''read'' (Some (''refreq:'' @ oid_value (px_attempt_id context))) None []
          (JObject [(''present'', JStr (if present then ''true'' else ''false'')),
                    (''resource_id'', JStr resource_id)]))
        (\<lambda>evidence. return_step \<lparr>xe_outcome = EO_NOT_APPLIED, xe_evidence = Some evidence, xe_error = None,
           xe_external_operation_id = None, xe_external_resource_ids = []\<rparr>) a)"

definition execute_read ::
  "(nat \<Rightarrow> utc_timestamp) \<Rightarrow> provider_execution_context \<Rightarrow> string \<Rightarrow> execute_spec \<Rightarrow>
   execution_evidence adapter_step" where
  "execute_read clock context resource_id spec =
     (if xs_outcome spec = EO_UNKNOWN then
        execution_from_error clock context EO_UNKNOWN
          (Some (norm_error (case xs_kind spec of None \<Rightarrow> EK_INTERNAL | Some k \<Rightarrow> k)
             (case xs_code spec of None \<Rightarrow> ''ref.internal.unclassified''
              | Some c \<Rightarrow> if c = [] then ''ref.internal.unclassified'' else c)
             (xs_retryable spec) (xs_http spec) (xs_message spec)))
          (xs_status spec) True
      else (case xs_kind spec of
        Some kind \<Rightarrow>
          execution_from_error clock context EO_NOT_APPLIED
            (Some (norm_error kind
               (case xs_code spec of None \<Rightarrow> ''ref.validation.missing_resource_id''
                | Some c \<Rightarrow> if c = [] then ''ref.validation.missing_resource_id'' else c)
               (xs_retryable spec) (xs_http spec) (xs_message spec)))
            (xs_status spec) False
      | None \<Rightarrow> read_success clock context resource_id))"

text \<open>\<open>_put_mutation\<close>: an effect without idempotency stores a second resource under a name of its own.\<close>

definition put_mutation ::
  "(nat \<Rightarrow> utc_timestamp) \<Rightarrow> bool \<Rightarrow> provider_execution_context \<Rightarrow> effect_ref \<Rightarrow> string \<Rightarrow> string \<Rightarrow>
   reference_resource adapter_step" where
  "put_mutation clock own context effect resource_id fingerprint a =
     (let store_id = (if effect_is own effect EFFECT_MUTATE_NONE \<and> rs_by_resource_id (ra_store a) resource_id \<noteq> None
                      then resource_id @ ''#'' @ oid_value (px_attempt_id context) else resource_id) in
      bind_step (clock_step clock) (\<lambda>now.
        let row = \<lparr>rr_resource_id = store_id, rr_action = ef_action effect,
          rr_external_operation_id =
            ''refop:'' @ oid_value (px_operation_id context) @ '':'' @ oid_value (px_attempt_id context),
          rr_provider_idempotency_key = px_provider_idempotency_key context,
          rr_arguments_fingerprint = fingerprint, rr_applied = True, rr_compensated = False,
          rr_mitigated = False, rr_created_at = now\<rparr>
        in bind_step (put_step row) (\<lambda>_. return_step row)) a)"

definition execution_from_spec ::
  "(nat \<Rightarrow> utc_timestamp) \<Rightarrow> provider_execution_context \<Rightarrow> execute_spec \<Rightarrow> string \<Rightarrow>
   reference_resource option \<Rightarrow> execution_evidence adapter_step" where
  "execution_from_spec clock context spec resource_id stored =
     (let error = (case (xs_kind spec, xs_code spec) of
            (Some kind, Some code) \<Rightarrow> Some (norm_error kind code (xs_retryable spec) (xs_http spec) (xs_message spec))
          | _ \<Rightarrow> None);
          ids = (if xs_return_ids spec then [resource_id] else []);
          op_id = (if xs_return_ids spec then map_option rr_external_operation_id stored else None);
          request_id = (if xs_mutates spec then Some (''refreq:'' @ oid_value (px_attempt_id context)) else None);
          details = (if xs_outcome spec = EO_APPLIED then created_fields resource_id else JObject [])
      in bind_step (exec_evidence clock (xs_status spec) request_id op_id ids details)
           (\<lambda>evidence. return_step \<lparr>xe_outcome = xs_outcome spec, xe_evidence = Some evidence, xe_error = error,
              xe_external_operation_id = op_id, xe_external_resource_ids = ids\<rparr>))"

text \<open>The script decides the rest of an execution that was not answered earlier.\<close>

definition execute_scripted ::
  "(nat \<Rightarrow> utc_timestamp) \<Rightarrow> bool \<Rightarrow> provider_execution_context \<Rightarrow> effect_ref \<Rightarrow> string \<Rightarrow> string \<Rightarrow>
   execution_evidence adapter_step" where
  "execute_scripted clock own context effect resource_id fingerprint =
     bind_step pop_execute (\<lambda>script.
     let spec = EXECUTE_SPECS script in
     if effect_is own effect EFFECT_READ_RESOURCE then execute_read clock context resource_id spec
     else if xs_mutates spec then
       bind_step (put_mutation clock own context effect resource_id fingerprint) (\<lambda>row.
       execution_from_spec clock context spec resource_id (Some row))
     else execution_from_spec clock context spec resource_id None)"

text \<open>What the store already answers: a known provider key, or a resource a naturally idempotent effect made.\<close>

definition execute_replay ::
  "(nat \<Rightarrow> utc_timestamp) \<Rightarrow> bool \<Rightarrow> provider_execution_context \<Rightarrow> effect_ref \<Rightarrow> idempotency_mode \<Rightarrow> string \<Rightarrow>
   string \<Rightarrow> reference_store \<Rightarrow> execution_evidence adapter_step option" where
  "execute_replay clock own context effect mode resource_id fingerprint st =
     (case (if mode = IM_PROVIDER_KEY
            then Option.bind (px_provider_idempotency_key context) (rs_by_provider_key st) else None) of
        Some existing \<Rightarrow>
          Some (if rr_arguments_fingerprint existing = fingerprint then applied_from_row clock existing
            else execution_from_error clock context EO_NOT_APPLIED
              (Some (norm_error EK_PROVIDER_REJECTED ''ref.duplicate.conflict'' False (Some 409) None))
              ''rejected'' False)
      | None \<Rightarrow>
          (if effect \<in> {EFFECT_MUTATE_NATURAL, EFFECT_READ_RESOURCE} then
             (case rs_by_resource_id st resource_id of
                None \<Rightarrow> None
              | Some existing \<Rightarrow>
                  if \<not> rr_applied existing then None
                  else Some (if effect_is own effect EFFECT_READ_RESOURCE then read_success clock context resource_id
                    else applied_from_row clock existing))
           else None))"

definition deadline_passed ::
  "(nat \<Rightarrow> utc_timestamp) \<Rightarrow> provider_execution_context \<Rightarrow> bool adapter_step" where
  "deadline_passed clock context =
     (case px_deadline context of
        None \<Rightarrow> return_step False
      | Some deadline \<Rightarrow> bind_step (clock_step clock) (\<lambda>now. return_step (\<not> now < deadline)))"

definition execute_body ::
  "(string \<Rightarrow> string) \<Rightarrow> (nat \<Rightarrow> utc_timestamp) \<Rightarrow> bool \<Rightarrow> provider_execution_context \<Rightarrow>
   provider_execution_request \<Rightarrow> execution_evidence adapter_step" where
  "execute_body sha clock own context request =
     bind_step (lift_step (reference_descriptor (pq_effect request))) (\<lambda>desc.
     let validation = validate_reference_execution request in
     if \<not> vl_accepted validation then
       execution_from_error clock context EO_NOT_APPLIED (vl_error validation) ''rejected'' False
     else (case resource_id_of (pq_arguments request) of
       None \<Rightarrow> raise_step (ContractValidationError ''illegal_combination'')
     | Some resource_id \<Rightarrow>
         bind_step (deadline_passed clock context) (\<lambda>late.
         if late then
           execution_from_error clock context EO_NOT_APPLIED
             (Some (norm_error EK_TRANSIENT_TRANSPORT ''ref.deadline.not_sent'' True None None)) ''rejected'' False
         else if ed_idempotency_mode desc = IM_PROVIDER_KEY \<and> px_provider_idempotency_key context = None then
           execution_from_error clock context EO_NOT_APPLIED
             (Some (norm_error EK_VALIDATION ''ref.validation.provider_key_required'' False None None))
             ''rejected'' False
         else (\<lambda>a.
           let fingerprint = resource_fingerprint sha resource_id in
           case execute_replay clock own context (pq_effect request) (ed_idempotency_mode desc) resource_id
                  fingerprint (ra_store a) of
             Some answer \<Rightarrow> answer a
           | None \<Rightarrow> execute_scripted clock own context (pq_effect request) resource_id fingerprint a))))"

definition reference_execute ::
  "(string \<Rightarrow> string) \<Rightarrow> (nat \<Rightarrow> utc_timestamp) \<Rightarrow> bool \<Rightarrow> provider_execution_context \<Rightarrow>
   provider_execution_request \<Rightarrow> execution_evidence adapter_step" where
  "reference_execute sha clock own context request =
     (if pq_effect request \<notin> set REFERENCE_EFFECTS then raise_step UnsupportedEffectError
      else classified clock (execute_body sha clock own context request)
        (\<lambda>outcome error evidence. \<lparr>xe_outcome = outcome, xe_evidence = Some evidence, xe_error = Some error,
           xe_external_operation_id = None, xe_external_resource_ids = []\<rparr>))"

section \<open>Verification\<close>

definition verify_outcome ::
  "(nat \<Rightarrow> utc_timestamp) \<Rightarrow> effect_outcome \<Rightarrow> evidence_source \<Rightarrow> reference_resource option \<Rightarrow>
   verification_evidence adapter_step" where
  "verify_outcome clock outcome source row =
     (let named = (if outcome = EO_APPLIED then row else None) in
      bind_step (verify_evidence clock source (if outcome = EO_APPLIED then ''applied'' else ''not_found'')
          (map_option rr_external_operation_id named)
          (case named of None \<Rightarrow> [] | Some r \<Rightarrow> [rr_resource_id r]) (JObject []))
        (\<lambda>evidence. return_step \<lparr>ve_outcome = outcome, ve_evidence = evidence, ve_error = None\<rparr>))"

definition verify_unknown ::
  "(nat \<Rightarrow> utc_timestamp) \<Rightarrow> evidence_source \<Rightarrow> string \<Rightarrow> normalized_error \<Rightarrow> verification_evidence adapter_step" where
  "verify_unknown clock source status error =
     bind_step (verify_evidence clock source status None [] (JObject []))
       (\<lambda>evidence. return_step \<lparr>ve_outcome = EO_UNKNOWN, ve_evidence = evidence, ve_error = Some error\<rparr>)"

definition verify_visibility_unknown ::
  "(nat \<Rightarrow> utc_timestamp) \<Rightarrow> evidence_source \<Rightarrow> verification_evidence adapter_step" where
  "verify_visibility_unknown clock source =
     verify_unknown clock source ''timeout''
       (norm_error EK_TRANSIENT_TRANSPORT ''ref.verify.visibility_window'' True None None)"

definition unsupported_verification :: "(nat \<Rightarrow> utc_timestamp) \<Rightarrow> verification_evidence adapter_step" where
  "unsupported_verification clock =
     verify_unknown clock ES_CUSTOM ''unsupported''
       (norm_error EK_UNSUPPORTED_CAPABILITY ''ref.unsupported.verification'' False None
          (Some ''verification is not declared for this effect''))"

definition forced_verification ::
  "(nat \<Rightarrow> utc_timestamp) \<Rightarrow> reference_verify_script \<Rightarrow> evidence_source \<Rightarrow> verification_evidence adapter_step" where
  "forced_verification clock script source =
     (let unknown = (\<lambda>kind code. verify_unknown clock source ''timeout''
            (norm_error kind code (kind = EK_TRANSIENT_TRANSPORT) None None)) in
      case script of
        SV_APPLIED \<Rightarrow>
          bind_step (verify_evidence clock source ''applied'' None [] (JObject [(''forced'', JStr ''true'')]))
            (\<lambda>evidence. return_step \<lparr>ve_outcome = EO_APPLIED, ve_evidence = evidence, ve_error = None\<rparr>)
      | SV_NOT_APPLIED \<Rightarrow> verify_outcome clock EO_NOT_APPLIED source None
      | SV_UNKNOWN_TRANSPORT \<Rightarrow> unknown EK_TRANSIENT_TRANSPORT ''ref.verify.transport''
      | SV_UNKNOWN_INCONCLUSIVE \<Rightarrow> unknown EK_PROVIDER_INCONSISTENT ''ref.verify.inconclusive''
      | SV_UNKNOWN_MALFORMED \<Rightarrow> unknown EK_MALFORMED_PROVIDER_RESPONSE ''ref.verify.malformed''
      | SV_UNKNOWN_INCONSISTENT \<Rightarrow> unknown EK_PROVIDER_INCONSISTENT ''ref.verify.inconsistent''
      | SV_STORE \<Rightarrow> raise_step PyKeyError)"

text \<open>The first index that knows the effect: its external operation id, its first resource id, its provider key.\<close>

definition first_some :: "'a option list \<Rightarrow> 'a option" where
  "first_some xs = (case filter (\<lambda>x. x \<noteq> None) xs of [] \<Rightarrow> None | x # _ \<Rightarrow> x)"

definition lookup_verify_row ::
  "provider_execution_context \<Rightarrow> verification_request \<Rightarrow> reference_store \<Rightarrow> reference_resource option" where
  "lookup_verify_row context request st =
     first_some
       [Option.bind (vq_external_operation_id request) (rs_by_external_operation_id st),
        (case vq_external_resource_ids request of [] \<Rightarrow> None | i # _ \<Rightarrow> rs_by_resource_id st i),
        Option.bind (px_provider_idempotency_key context) (rs_by_provider_key st)]"

definition verify_compensation_target ::
  "(nat \<Rightarrow> utc_timestamp) \<Rightarrow> bool \<Rightarrow> effect_ref \<Rightarrow> reference_resource option \<Rightarrow> evidence_source \<Rightarrow>
   verification_evidence adapter_step" where
  "verify_compensation_target clock own effect row source =
     (case row of
        Some r \<Rightarrow>
          verify_outcome clock (if rr_compensated r \<or> rr_mitigated r then EO_APPLIED else EO_NOT_APPLIED) source row
      | None \<Rightarrow>
          if effect_is own effect EFFECT_MUTATE_EVENTUAL then verify_visibility_unknown clock source
          else verify_outcome clock EO_NOT_APPLIED source None)"

definition verify_original_target ::
  "(nat \<Rightarrow> utc_timestamp) \<Rightarrow> bool \<Rightarrow> effect_ref \<Rightarrow> reference_resource option \<Rightarrow> evidence_source \<Rightarrow>
   verification_evidence adapter_step" where
  "verify_original_target clock own effect row source a =
     (let hidden = effect_is own effect EFFECT_MUTATE_EVENTUAL;
          absent = (if hidden then verify_visibility_unknown clock source
                    else verify_outcome clock EO_NOT_APPLIED source None) in
      case row of
        None \<Rightarrow> absent a
      | Some r \<Rightarrow>
          if \<not> rr_applied r then absent a
          else if hidden then
            bind_step (clock_step clock) (\<lambda>now.
              if ts_value now - ts_value (rr_created_at r) < ra_visibility_delay_seconds a * 1000000
              then verify_visibility_unknown clock source
              else verify_outcome clock EO_APPLIED source row) a
          else verify_outcome clock EO_APPLIED source row a)"

definition verify_body ::
  "(nat \<Rightarrow> utc_timestamp) \<Rightarrow> bool \<Rightarrow> provider_execution_context \<Rightarrow> verification_request \<Rightarrow>
   verification_evidence adapter_step" where
  "verify_body clock own context request =
     bind_step (lift_step (reference_descriptor (vq_effect request))) (\<lambda>desc.
     if ed_verification_mode desc = VM_NONE then unsupported_verification clock
     else bind_step pop_verify (\<lambda>script.
       let source = verification_source (ed_verification_mode desc) in
       if script \<noteq> SV_STORE then forced_verification clock script source
       else (\<lambda>a.
         let row = lookup_verify_row context request (ra_store a) in
         (if vq_target request = VT_COMPENSATION
          then verify_compensation_target clock own (vq_effect request) row source
          else verify_original_target clock own (vq_effect request) row source) a)))"

definition reference_verify ::
  "(nat \<Rightarrow> utc_timestamp) \<Rightarrow> bool \<Rightarrow> provider_execution_context \<Rightarrow> verification_request \<Rightarrow>
   verification_evidence adapter_step" where
  "reference_verify clock own context request =
     (if vq_effect request \<notin> set REFERENCE_EFFECTS then raise_step UnsupportedEffectError
      else classified clock (verify_body clock own context request)
        (\<lambda>outcome error evidence. \<lparr>ve_outcome = outcome,
           ve_evidence = evidence\<lparr>ev_source := (case map_of REFERENCE_DESCRIPTORS (vq_effect request) of
               None \<Rightarrow> ES_CUSTOM | Some desc \<Rightarrow> verification_source (ed_verification_mode desc))\<rparr>,
           ve_error = Some error\<rparr>))"

section \<open>Compensation\<close>

definition unsupported_compensation :: compensation_evidence where
  "unsupported_compensation = \<lparr>ce_outcome = EO_NOT_APPLIED, ce_evidence = None,
     ce_error = Some (norm_error EK_UNSUPPORTED_CAPABILITY ''ref.unsupported.compensation'' False None
       (Some ''compensation is not declared for this effect'')), ce_external_operation_id = None\<rparr>"

definition compensation_not_applied ::
  "(nat \<Rightarrow> utc_timestamp) \<Rightarrow> normalized_error \<Rightarrow> compensation_evidence adapter_step" where
  "compensation_not_applied clock error =
     (if er_kind error = EK_UNSUPPORTED_CAPABILITY then return_step unsupported_compensation
      else bind_step (exec_evidence clock ''rejected'' None None [] (JObject []))
        (\<lambda>evidence. return_step \<lparr>ce_outcome = EO_NOT_APPLIED, ce_evidence = Some evidence,
           ce_error = Some error, ce_external_operation_id = None\<rparr>))"

definition not_accepted :: normalized_error where
  "not_accepted = norm_error EK_PROVIDER_REJECTED ''ref.rejected.before_accept'' False (Some 400)
     (Some ''provider rejected request before acceptance'')"

definition replayed_row :: "string \<Rightarrow> reference_adapter \<Rightarrow> reference_resource option" where
  "replayed_row key a =
     (case (case rs_by_provider_key (ra_store a) key of
              Some row \<Rightarrow> Some row
            | None \<Rightarrow> Option.bind (ra_compensation_keys a key) (rs_by_resource_id (ra_store a))) of
        None \<Rightarrow> None
      | Some row \<Rightarrow> if rr_compensated row \<or> rr_mitigated row then Some row else None)"

definition compensation_replay ::
  "(nat \<Rightarrow> utc_timestamp) \<Rightarrow> reference_resource \<Rightarrow> compensation_evidence adapter_step" where
  "compensation_replay clock row =
     bind_step (exec_evidence clock ''applied'' None (Some (rr_external_operation_id row)) [rr_resource_id row]
         (JObject []))
       (\<lambda>evidence. return_step \<lparr>ce_outcome = EO_APPLIED, ce_evidence = Some evidence, ce_error = None,
          ce_external_operation_id = Some (rr_external_operation_id row)\<rparr>)"

definition lookup_compensation_row ::
  "compensation_request \<Rightarrow> string \<Rightarrow> reference_store \<Rightarrow> reference_resource option" where
  "lookup_compensation_row request resource_id st =
     first_some
       (concat (map (\<lambda>evidence.
          [(case ev_external_resource_ids evidence of [] \<Rightarrow> None | i # _ \<Rightarrow> rs_by_resource_id st i),
           Option.bind (ev_external_operation_id evidence) (rs_by_external_operation_id st)])
          (cq_original_evidence request)) @
        [Option.bind (cq_provider_idempotency_key request) (rs_by_provider_key st),
         rs_by_resource_id st resource_id])"

definition mark_compensated ::
  "reference_resource \<Rightarrow> compensation_kind \<Rightarrow> reference_resource adapter_step" where
  "mark_compensated row kind =
     (let updated = (if kind = CK_MITIGATING then row\<lparr>rr_mitigated := True\<rparr> else row\<lparr>rr_compensated := True\<rparr>)
      in bind_step (replace_step updated) (\<lambda>_. return_step updated))"

definition remember_compensation :: "string option \<Rightarrow> string \<Rightarrow> unit adapter_step" where
  "remember_compensation key resource_id a =
     (case key of
        None \<Rightarrow> (Inr (), a)
      | Some k \<Rightarrow> (Inr (), a\<lparr>ra_compensation_keys := (ra_compensation_keys a)(k \<mapsto> resource_id)\<rparr>))"

definition compensation_answer ::
  "(nat \<Rightarrow> utc_timestamp) \<Rightarrow> compensation_request \<Rightarrow> reference_compensate_script \<Rightarrow> reference_resource \<Rightarrow>
   compensation_evidence adapter_step" where
  "compensation_answer clock request script marked =
     (let cop_id = ''refcop:'' @ oid_value (cq_compensation_id request) @ '':'' @
            oid_value (cq_compensation_attempt_id request);
          request_id = Some (''refreq:'' @ oid_value (cq_compensation_attempt_id request)) in
      if script = SC_APPLIED then
        bind_step (exec_evidence clock ''applied'' request_id (Some cop_id) [rr_resource_id marked] (JObject []))
          (\<lambda>evidence. return_step \<lparr>ce_outcome = EO_APPLIED, ce_evidence = Some evidence, ce_error = None,
             ce_external_operation_id = Some cop_id\<rparr>)
      else
        let timeout = (script = SC_UNKNOWN_TIMEOUT_AFTER_SEND) in
        bind_step (exec_evidence clock (if timeout then ''timeout'' else ''malformed'') request_id None []
            (JObject []))
          (\<lambda>evidence. return_step \<lparr>ce_outcome = EO_UNKNOWN, ce_evidence = Some evidence,
             ce_error = Some (if timeout
               then norm_error EK_TRANSIENT_TRANSPORT ''ref.timeout.after_send'' True None None
               else norm_error EK_MALFORMED_PROVIDER_RESPONSE ''ref.malformed.after_accept'' False (Some 200) None),
             ce_external_operation_id = None\<rparr>))"

text \<open>The row was found: its effect's declaration, then the script, decide.\<close>

definition compensate_row ::
  "(nat \<Rightarrow> utc_timestamp) \<Rightarrow> compensation_request \<Rightarrow> reference_resource \<Rightarrow> compensation_evidence adapter_step" where
  "compensate_row clock request row =
     (case descriptor_for_action (rr_action row) of
        None \<Rightarrow> raise_step UnsupportedEffectError
      | Some desc \<Rightarrow>
          if ed_compensation_kind desc = CK_NONE \<or> ed_effect desc \<in> {EFFECT_MUTATE_NONE, EFFECT_READ_RESOURCE}
          then return_step unsupported_compensation
          else bind_step pop_compensate (\<lambda>script.
            if script = SC_NOT_APPLIED_REJECTED then compensation_not_applied clock not_accepted
            else bind_step (mark_compensated row (ed_compensation_kind desc)) (\<lambda>marked.
              bind_step (remember_compensation (cq_provider_idempotency_key request) (rr_resource_id marked)) (\<lambda>_.
              compensation_answer clock request script marked))))"

definition compensate_body ::
  "(nat \<Rightarrow> utc_timestamp) \<Rightarrow> compensation_request \<Rightarrow> compensation_evidence adapter_step" where
  "compensate_body clock request a =
     (case compensation_arguments_error (cq_compensation_arguments request) of
        Some error \<Rightarrow> compensation_not_applied clock error a
      | None \<Rightarrow>
          (case resource_id_of (cq_compensation_arguments request) of
             None \<Rightarrow> raise_step (ContractValidationError ''illegal_combination'') a
           | Some resource_id \<Rightarrow>
               (case Option.bind (cq_provider_idempotency_key request) (\<lambda>key. replayed_row key a) of
                  Some row \<Rightarrow> compensation_replay clock row a
                | None \<Rightarrow>
                    (case lookup_compensation_row request resource_id (ra_store a) of
                       None \<Rightarrow> compensation_not_applied clock not_accepted a
                     | Some row \<Rightarrow> compensate_row clock request row a))))"

definition reference_compensate ::
  "(nat \<Rightarrow> utc_timestamp) \<Rightarrow> provider_execution_context \<Rightarrow> compensation_request \<Rightarrow>
   compensation_evidence adapter_step" where
  "reference_compensate clock context request =
     classified clock (compensate_body clock request)
       (\<lambda>outcome error evidence. \<lparr>ce_outcome = outcome, ce_evidence = Some evidence, ce_error = Some error,
          ce_external_operation_id = None\<rparr>)"

section \<open>The adapter as a provider\<close>

definition reference_call ::
  "(string \<Rightarrow> string) \<Rightarrow> (nat \<Rightarrow> utc_timestamp) \<Rightarrow> (provider_call \<Rightarrow> bool) \<Rightarrow> provider_call \<Rightarrow>
   reference_adapter \<Rightarrow> reference_adapter" where
  "reference_call sha clock own call a =
     (case call of
        ExecuteCall context request \<Rightarrow> snd (reference_execute sha clock (own call) context request a)
      | VerifyCall context request \<Rightarrow> snd (reference_verify clock (own call) context request a)
      | CompensateCall context request \<Rightarrow> snd (reference_compensate clock context request a))"

text \<open>
  What happens to an adapter: calls, and answers scripted in between; its state after events in the order they
  came.
\<close>

datatype reference_event =
    RE_call provider_call
  | RE_enqueue_execute reference_execute_script
  | RE_enqueue_verify reference_verify_script
  | RE_enqueue_compensate reference_compensate_script

definition reference_step ::
  "(string \<Rightarrow> string) \<Rightarrow> (nat \<Rightarrow> utc_timestamp) \<Rightarrow> (provider_call \<Rightarrow> bool) \<Rightarrow> reference_event \<Rightarrow>
   reference_adapter \<Rightarrow> reference_adapter" where
  "reference_step sha clock own event a =
     (case event of
        RE_call call \<Rightarrow> reference_call sha clock own call a
      | RE_enqueue_execute script \<Rightarrow> enqueue_execute script a
      | RE_enqueue_verify script \<Rightarrow> enqueue_verify script a
      | RE_enqueue_compensate script \<Rightarrow> enqueue_compensate script a)"

definition reference_run ::
  "(string \<Rightarrow> string) \<Rightarrow> (nat \<Rightarrow> utc_timestamp) \<Rightarrow> (provider_call \<Rightarrow> bool) \<Rightarrow> reference_event list \<Rightarrow>
   reference_adapter \<Rightarrow> reference_adapter" where
  "reference_run sha clock own events a = fold (reference_step sha clock own) events a"

definition after_calls ::
  "(string \<Rightarrow> string) \<Rightarrow> (nat \<Rightarrow> utc_timestamp) \<Rightarrow> (provider_call \<Rightarrow> bool) \<Rightarrow> provider_call list \<Rightarrow>
   reference_adapter \<Rightarrow> reference_adapter" where
  "after_calls sha clock own calls a = reference_run sha clock own (map RE_call calls) a"

definition reference_provider ::
  "(string \<Rightarrow> string) \<Rightarrow> (nat \<Rightarrow> utc_timestamp) \<Rightarrow> (provider_call \<Rightarrow> bool) \<Rightarrow> reference_adapter \<Rightarrow>
   provider_adapter" where
  "reference_provider sha clock own a =
     \<lparr>pa_supported_effects = REFERENCE_EFFECTS,
      pa_descriptor = reference_descriptor,
      pa_validate_execution = (\<lambda>request. Inr (validate_reference_execution request)),
      pa_verification_resource_ids = (\<lambda>_. Inr []),
      pa_execute = (\<lambda>calls context request. fst (reference_execute sha clock
        (own (ExecuteCall context request)) context request (after_calls sha clock own calls a))),
      pa_verify = (\<lambda>calls context request. fst (reference_verify clock
        (own (VerifyCall context request)) context request (after_calls sha clock own calls a))),
      pa_compensate = (\<lambda>calls context request. fst (reference_compensate clock context request
        (after_calls sha clock own calls a)))\<rparr>"

end
