(* ===== verification/Reference_Steps.thy ===== *)
theory Reference_Steps
  imports Reference_Adapter
begin

text \<open>
  What one call of the reference provider does to its store and to the compensations it remembers, and how its
  answer agrees with that.
\<close>

section \<open>Steps that leave a part of the state alone\<close>

text \<open>A view of the state is not affected by reading the clock or taking a script.\<close>

definition observes :: "(reference_adapter \<Rightarrow> 'v) \<Rightarrow> bool" where
  "observes f \<longleftrightarrow> (\<forall>a n xs vs cs. f (a\<lparr>ra_clock_reads := n\<rparr>) = f a \<and> f (a\<lparr>ra_execute_scripts := xs\<rparr>) = f a \<and>
     f (a\<lparr>ra_verify_scripts := vs\<rparr>) = f a \<and> f (a\<lparr>ra_compensate_scripts := cs\<rparr>) = f a)"

definition keeps :: "(reference_adapter \<Rightarrow> 'v) \<Rightarrow> 'a adapter_step \<Rightarrow> bool" where
  "keeps f m \<longleftrightarrow> (\<forall>a. f (snd (m a)) = f a)"

abbreviation still :: "'a adapter_step \<Rightarrow> bool" where
  "still \<equiv> keeps ra_store"

lemma observes_parts [adapter_rules]: "observes ra_store" "observes ra_compensation_keys"
  by (simp_all add: observes_def)

lemma keepsI: "(\<And>a. f (snd (m a)) = f a) \<Longrightarrow> keeps f m"
  by (simp add: keeps_def)

lemma keepsD: "keeps f m \<Longrightarrow> f (snd (m a)) = f a"
  by (simp add: keeps_def)

lemma keeps_basic [adapter_rules]:
  "keeps f (return_step x)" "keeps f (raise_step e)" "keeps f (lift_step r)"
  "observes f \<Longrightarrow> keeps f (clock_step clock)" "observes f \<Longrightarrow> keeps f pop_execute"
  "observes f \<Longrightarrow> keeps f pop_verify" "observes f \<Longrightarrow> keeps f pop_compensate"
  by (auto simp: keeps_def observes_def return_step_def raise_step_def lift_step_def clock_step_def pop_execute_def
      pop_verify_def pop_compensate_def split: list.split)

lemma keeps_parts [adapter_rules]:
  "still (remember_compensation k i)" "keeps ra_compensation_keys (put_step r)"
  "keeps ra_compensation_keys (replace_step r)"
  by (auto simp: keeps_def remember_compensation_def put_step_def replace_step_def split: option.split sum.split)

lemma step_keeps_bind [adapter_rules]:
  assumes "keeps f m" and "\<And>x. keeps f (g x)"
  shows "keeps f (bind_step m g)"
proof (rule keepsI)
  fix a
  show "f (snd (bind_step m g a)) = f a"
    using keepsD [OF assms(1), of a] keepsD [OF assms(2)]
    by (cases "m a"; cases "fst (m a)") (simp_all add: bind_step_def)
qed

lemma keeps_if [adapter_rules]: "keeps f m \<Longrightarrow> keeps f n \<Longrightarrow> keeps f (if b then m else n)"
  by simp

lemma keeps_evidence [adapter_rules]:
  assumes "observes f"
  shows "keeps f (reference_evidence clock src status q x ids items)"
    "keeps f (exec_evidence clock status q x ids items)" "keeps f (verify_evidence clock src status x ids items)"
  using assms by (auto simp: reference_evidence_def exec_evidence_def verify_evidence_def Let_def intro!: adapter_rules)

lemma keeps_read [adapter_rules]:
  assumes "observes f"
  shows "keeps f (read_success clock context i)"
proof (rule keepsI)
  fix a
  show "f (snd (read_success clock context i a)) = f a"
    unfolding read_success_def Let_def by (rule keepsD) (intro adapter_rules assms)
qed

lemma keeps_answers [adapter_rules]:
  assumes "observes f"
  shows "keeps f (execution_from_error clock context outcome error status sent)"
    "keeps f (applied_from_row clock row)" "keeps f (execution_from_spec clock context spec i stored)"
    "keeps f (deadline_passed clock context)" "keeps f (verify_outcome clock outcome source found)"
    "keeps f (verify_unknown clock source status err)" "keeps f (compensation_not_applied clock err)"
    "keeps f (compensation_replay clock row)" "keeps f (compensation_answer clock cq script row)"
  using assms
  by (auto simp: execution_from_error_def applied_from_row_def execution_from_spec_def
      deadline_passed_def verify_outcome_def verify_unknown_def compensation_not_applied_def
      compensation_replay_def compensation_answer_def Let_def split: option.split
      intro!: adapter_rules)

lemma keeps_execute_read [adapter_rules]:
  assumes "observes f"
  shows "keeps f (execute_read clock context i spec)"
  using assms by (auto simp: execute_read_def split: option.split intro!: adapter_rules)

lemma keeps_classified:
  assumes f: "observes f" and m: "keeps f m"
  shows "keeps f (classified clock m wrap)"
proof (rule keepsI)
  fix a
  let ?late = "\<lambda>e. bind_step (clock_step clock) (\<lambda>now.
    bind_step (lift_step (evidence_for_unclassified_exception e now REFERENCE_PROVIDER))
      (\<lambda>(outcome, error, evidence). return_step (wrap outcome error evidence)))"
  have late: "keeps f (?late e)" for e by (auto intro!: adapter_rules f)
  obtain r v where v: "m a = (r, v)" by (cases "m a") simp
  with keepsD [OF m, of a] keepsD [OF late, of _ v] show "f (snd (classified clock m wrap a)) = f a"
    by (cases r) (simp_all add: classified_def)
qed

text \<open>Verification reads and never writes.\<close>

lemma keeps_verify_body:
  assumes f: "observes f"
  shows "keeps f (verify_body clock own context q)"
proof -
  have forced: "keeps f (forced_verification clock script source)" for script source
    by (cases script) (auto simp: forced_verification_def Let_def intro!: adapter_rules f)
  have original: "keeps f (verify_original_target clock own effect found source)" for effect found source
  proof (rule keepsI)
    fix a
    have hidden: "keeps f (bind_step (clock_step clock) (\<lambda>now.
        if ts_value now - ts_value created < delay then verify_visibility_unknown clock source
        else verify_outcome clock EO_APPLIED source found))" for created delay
      by (auto simp: verify_visibility_unknown_def intro!: adapter_rules f)
    show "f (snd (verify_original_target clock own effect found source a)) = f a"
      using keepsD [OF hidden] keepsD [OF keeps_answers(6) [OF f]] keepsD [OF keeps_answers(5) [OF f]]
      by (cases found) (auto simp: verify_original_target_def verify_visibility_unknown_def Let_def)
  qed
  have target: "keeps f (verify_compensation_target clock own effect found source)" for effect found source
    by (auto simp: verify_compensation_target_def verify_visibility_unknown_def split: option.split
        intro!: adapter_rules f)
  have "keeps f (\<lambda>a. let found = lookup_verify_row context q (ra_store a) in
      (if vq_target q = VT_COMPENSATION then verify_compensation_target clock own (vq_effect q) found source
       else verify_original_target clock own (vq_effect q) found source) a)" for source
    by (rule keepsI) (simp add: Let_def keepsD [OF original] keepsD [OF target])
  then show ?thesis
    unfolding verify_body_def unsupported_verification_def Let_def
    by (intro adapter_rules forced f; simp add: Let_def)
qed

lemma keeps_verify: "observes f \<Longrightarrow> keeps f (reference_verify clock own context q)"
  unfolding reference_verify_def by (intro adapter_rules keeps_classified keeps_verify_body)

text \<open>Executions do not touch the remembered compensations.\<close>

lemma keys_execute: "keeps ra_compensation_keys (reference_execute sha clock own context q)"
proof -
  let ?K = ra_compensation_keys
  have put: "keeps ?K (put_mutation clock own context effect i fingerprint)" for effect i fingerprint
  proof (rule keepsI)
    fix a
    show "?K (snd (put_mutation clock own context effect i fingerprint a)) = ?K a"
      unfolding put_mutation_def Let_def by (rule keepsD) (intro adapter_rules)
  qed
  have scripted: "keeps ?K (execute_scripted clock own context effect i fingerprint)" for effect i fingerprint
    unfolding execute_scripted_def Let_def by (intro adapter_rules put)
  have last: "keeps ?K (\<lambda>a. case execute_replay clock own context effect mode i fingerprint (ra_store a) of
        Some answer \<Rightarrow> answer a | None \<Rightarrow> execute_scripted clock own context effect i fingerprint a)"
    for effect mode i fingerprint
  proof (rule keepsI)
    fix a
    have "keeps ?K answer" if "execute_replay clock own context effect mode i fingerprint st = Some answer"
      for answer st
      using that by (auto simp: execute_replay_def split: option.splits if_split_asm intro!: adapter_rules)
    then show "?K (snd (case execute_replay clock own context effect mode i fingerprint (ra_store a) of
        Some answer \<Rightarrow> answer a | None \<Rightarrow> execute_scripted clock own context effect i fingerprint a)) = ?K a"
      using keepsD [OF scripted] by (auto split: option.split intro: keepsD)
  qed
  have "keeps ?K (execute_body sha clock own context q)"
    unfolding execute_body_def Let_def
    by (auto split: option.split intro!: adapter_rules last)
  then show ?thesis
    unfolding reference_execute_def by (intro adapter_rules keeps_classified)
qed

section \<open>What an execution does and says\<close>

text \<open>\<open>gives P m\<close>: the store stays and every answer satisfies \<open>P\<close>. \<open>told Q m st\<close>: from store \<open>st\<close>, \<open>Q\<close> relates the result and the store left.\<close>

definition gives :: "('a \<Rightarrow> bool) \<Rightarrow> 'a adapter_step \<Rightarrow> bool" where
  "gives P m \<longleftrightarrow> still m \<and> (\<forall>a x. fst (m a) = Inr x \<longrightarrow> P x)"

definition told :: "('a fallible \<Rightarrow> reference_store \<Rightarrow> bool) \<Rightarrow> 'a adapter_step \<Rightarrow> reference_store \<Rightarrow> bool" where
  "told Q m st \<longleftrightarrow> (\<forall>a. ra_store a = st \<longrightarrow> Q (fst (m a)) (ra_store (snd (m a))))"

lemma gives_return: "P x \<Longrightarrow> gives P (return_step x)"
  by (simp add: gives_def adapter_rules) (simp add: return_step_def)

lemma gives_bind:
  assumes "still m" and f: "\<And>x. gives P (f x)"
  shows "gives P (bind_step m f)"
  unfolding gives_def
proof (intro conjI allI impI)
  show "still (bind_step m f)" using assms by (auto simp: gives_def intro!: adapter_rules)
  fix a x assume "fst (bind_step m f a) = Inr x"
  then show "P x" using f by (cases "m a"; cases "fst (m a)") (auto simp: bind_step_def gives_def)
qed

lemma gives_if: "(b \<Longrightarrow> gives P m) \<Longrightarrow> (\<not> b \<Longrightarrow> gives P n) \<Longrightarrow> gives P (if b then m else n)"
  by simp

lemmas gives_rules = gives_return gives_bind gives_if adapter_rules

lemma toldI_gives:
  assumes "gives P m" and "\<And>r. (\<And>x. r = Inr x \<Longrightarrow> P x) \<Longrightarrow> Q r st"
  shows "told Q m st"
  using assms by (auto simp: told_def gives_def keeps_def)

lemma told_bind:
  assumes "still m" and "\<And>x. told Q (f x) st" and "\<And>e. Q (Inl e) st"
  shows "told Q (bind_step m f) st"
  unfolding told_def
proof (intro allI impI)
  fix a :: reference_adapter assume a: "ra_store a = st"
  show "Q (fst (bind_step m f a)) (ra_store (snd (bind_step m f a)))"
    using assms(2,3) a keepsD [OF assms(1), of a]
    by (cases "m a"; cases "fst (m a)") (auto simp: bind_step_def told_def)
qed

definition key_is_new :: "provider_execution_context \<Rightarrow> effect_ref \<Rightarrow> reference_store \<Rightarrow> bool" where
  "key_is_new context effect st \<longleftrightarrow>
     (\<forall>desc. reference_descriptor effect = Inr desc \<longrightarrow> ed_idempotency_mode desc = IM_PROVIDER_KEY \<longrightarrow>
        (\<exists>k. px_provider_idempotency_key context = Some k \<and> rs_by_provider_key st k = None))"

definition resource_created :: "provider_execution_context \<Rightarrow> effect_ref \<Rightarrow> reference_store \<Rightarrow> reference_store \<Rightarrow> bool" where
  "resource_created context effect st st' \<longleftrightarrow> key_is_new context effect st \<and>
     (\<exists>r. store_put r st = Inr st' \<and> rr_applied r \<and> rr_action r = ef_action effect \<and>
        rr_provider_idempotency_key r = px_provider_idempotency_key context)"

definition honest ::
  "provider_execution_context \<Rightarrow> effect_ref \<Rightarrow> reference_store \<Rightarrow> execution_evidence fallible \<Rightarrow>
   reference_store \<Rightarrow> bool" where
  "honest context effect st r st' \<longleftrightarrow>
     (st' = st \<or> resource_created context effect st st') \<and>
     (\<forall>x. r = Inr x \<longrightarrow>
        (xe_outcome x = EO_NOT_APPLIED \<longrightarrow> st' = st) \<and>
        (xe_outcome x = EO_APPLIED \<longrightarrow> (\<exists>row \<in> set (rs_all st'). rr_applied row \<and>
           xe_external_operation_id x = Some (rr_external_operation_id row))))"

lemma gives_execution_from_error:
  "gives (\<lambda>x. xe_outcome x = outcome) (execution_from_error clock context outcome error status sent)"
  unfolding execution_from_error_def by (intro gives_rules) simp

lemma gives_applied_from_row:
  "gives (\<lambda>x. xe_outcome x = EO_APPLIED \<and> xe_external_operation_id x = Some (rr_external_operation_id row))
     (applied_from_row clock row)"
  unfolding applied_from_row_def by (intro gives_rules) simp

lemma gives_read_success: "gives (\<lambda>x. xe_outcome x = EO_NOT_APPLIED) (read_success clock context i)"
proof -
  have step: "gives (\<lambda>x. xe_outcome x = EO_NOT_APPLIED)
    (bind_step (exec_evidence clock ''read'' q None [] items)
        (\<lambda>evidence. return_step \<lparr>xe_outcome = EO_NOT_APPLIED, xe_evidence = Some evidence, xe_error = None,
           xe_external_operation_id = None, xe_external_resource_ids = []\<rparr>))" for q items
    by (intro gives_rules) simp
  show ?thesis
    unfolding gives_def using keeps_read [OF observes_parts(1)] step by (auto simp: gives_def read_success_def Let_def)
qed

lemma gives_execute_read: "gives (\<lambda>x. xe_outcome x \<noteq> EO_APPLIED) (execute_read clock context i spec)"
proof -
  have "gives P m \<Longrightarrow> (\<And>x. P x \<Longrightarrow> Q x) \<Longrightarrow> gives Q m" for P Q and m :: "execution_evidence adapter_step"
    by (auto simp: gives_def)
  note weak = this
  show ?thesis
    by (auto simp: execute_read_def split: option.split
        intro: weak [OF gives_execution_from_error] weak [OF gives_read_success])
qed

lemma gives_execution_from_spec:
  "gives (\<lambda>x. xe_outcome x = xs_outcome spec \<and>
      xe_external_operation_id x = (if xs_return_ids spec then map_option rr_external_operation_id stored else None))
     (execution_from_spec clock context spec i stored)"
  unfolding execution_from_spec_def Let_def by (intro gives_rules) simp

lemma told_scripted:
  assumes new: "key_is_new context effect st"
  shows "told (honest context effect st) (execute_scripted clock own context effect i fingerprint) st"
proof -
  have put: "told (honest context effect st)
      (bind_step (put_mutation clock own context effect i fingerprint) (\<lambda>row.
         execution_from_spec clock context (EXECUTE_SPECS script) i (Some row))) st"
    if script: "xs_mutates (EXECUTE_SPECS script)" for script
    unfolding told_def
  proof (intro allI impI)
    fix a :: reference_adapter assume a: "ra_store a = st"
    let ?spec = "EXECUTE_SPECS script"
    let ?m = "put_mutation clock own context effect i fingerprint"
    obtain r v where v: "?m a = (r, v)" by (cases "?m a") simp
    show "honest context effect st
       (fst (bind_step ?m (\<lambda>row. execution_from_spec clock context ?spec i (Some row)) a))
       (ra_store (snd (bind_step ?m (\<lambda>row. execution_from_spec clock context ?spec i (Some row)) a)))"
    proof (cases r)
      case (Inl e)
      then have "ra_store v = st" using v a
        by (auto simp: put_mutation_def bind_step_def clock_step_def put_step_def return_step_def Let_def
            split: sum.splits)
      with v Inl show ?thesis by (simp add: bind_step_def honest_def)
    next
      case (Inr row)
      have row: "store_put row st = Inr (ra_store v)" "rr_applied row" "rr_action row = ef_action effect"
          "rr_provider_idempotency_key row = px_provider_idempotency_key context"
        using v Inr a
        by (auto simp: put_mutation_def bind_step_def clock_step_def put_step_def return_step_def Let_def
            split: sum.splits)
      then have mem: "row \<in> set (rs_all (ra_store v))" by (simp add: store_put_all)
      let ?f = "execution_from_spec clock context ?spec i (Some row)"
      have kept: "ra_store (snd (?f v)) = ra_store v"
        by (rule keepsD) (intro adapter_rules)
      have ids: "xs_outcome ?spec = EO_APPLIED \<Longrightarrow> xs_return_ids ?spec"
        by (cases script) (simp_all add: spec_of_def)
      have says: "xe_outcome x = xs_outcome ?spec \<and> xe_external_operation_id x =
          (if xs_return_ids ?spec then Some (rr_external_operation_id row) else None)"
        if "fst (?f v) = Inr x" for x
        using gives_execution_from_spec [of ?spec "Some row" clock "context" i] that by (auto simp: gives_def)
      show ?thesis
        using v Inr row mem kept says new ids script execute_specs_honest [of script]
        by (auto simp: bind_step_def honest_def resource_created_def)
    qed
  qed
  show ?thesis
    unfolding execute_scripted_def Let_def
  proof (intro told_bind adapter_rules)
    fix script
    show "told (honest context effect st)
      (if effect_is own effect EFFECT_READ_RESOURCE then execute_read clock context i (EXECUTE_SPECS script)
       else if xs_mutates (EXECUTE_SPECS script) then
         bind_step (put_mutation clock own context effect i fingerprint) (\<lambda>row.
           execution_from_spec clock context (EXECUTE_SPECS script) i (Some row))
       else execution_from_spec clock context (EXECUTE_SPECS script) i None) st"
      using put [of script] execute_specs_honest [of script]
      by (auto intro!: toldI_gives [OF gives_execute_read] toldI_gives [OF gives_execution_from_spec]
          simp: honest_def)
  qed (simp add: honest_def)
qed


definition world_ok :: "reference_store \<Rightarrow> bool" where
  "world_ok st \<longleftrightarrow> store_ok st \<and> (\<forall>r \<in> set (rs_all st). rr_applied r)"

lemma toldD: "told Q m st \<Longrightarrow> m a = (r, a') \<Longrightarrow> ra_store a = st \<Longrightarrow> Q r (ra_store a')"
  unfolding told_def by (metis fst_conv snd_conv)

lemma told_applied:
  "world_ok st \<Longrightarrow> row \<in> set (rs_all st) \<Longrightarrow> told (honest context effect st) (applied_from_row clock row) st"
  by (rule toldI_gives [OF gives_applied_from_row]) (auto simp: honest_def world_ok_def)

lemma told_error:
  "outcome \<noteq> EO_APPLIED \<Longrightarrow>
     told (honest context effect st) (execution_from_error clock context' outcome error status sent) st"
  by (rule toldI_gives [OF gives_execution_from_error]) (auto simp: honest_def)

lemma told_read: "told (honest context effect st) (read_success clock context' i) st"
  by (rule toldI_gives [OF gives_read_success]) (auto simp: honest_def)

lemma told_replay:
  assumes "world_ok st" and "execute_replay clock own context effect mode i fingerprint st = Some answer"
  shows "told (honest context effect st) answer st"
proof -
  have mem: "rs_by_provider_key st k = Some r \<Longrightarrow> r \<in> set (rs_all st)"
    "rs_by_resource_id st k = Some r \<Longrightarrow> r \<in> set (rs_all st)"
    "Option.bind key (rs_by_provider_key st) = Some r \<Longrightarrow> r \<in> set (rs_all st)" for k r key
    using assms(1) by (auto simp: world_ok_def bind_eq_Some_conv dest: store_okD)
  show ?thesis
    using assms(2) by (auto simp: execute_replay_def split: option.splits if_split_asm
        intro!: told_applied [OF assms(1)] told_error told_read dest: mem)
qed

lemma told_body:
  assumes "world_ok st"
  shows "told (honest context (pq_effect q) st) (execute_body sha clock own context q) st"
proof -
  let ?effect = "pq_effect q"
  have last: "told (honest context ?effect st)
     (\<lambda>a. case execute_replay clock own context ?effect (ed_idempotency_mode desc) i fingerprint (ra_store a) of
        Some answer \<Rightarrow> answer a
      | None \<Rightarrow> execute_scripted clock own context ?effect i fingerprint a) st"
    if desc: "reference_descriptor ?effect = Inr desc"
      and key: "\<not> (ed_idempotency_mode desc = IM_PROVIDER_KEY \<and> px_provider_idempotency_key context = None)"
    for desc i fingerprint
  proof (cases "execute_replay clock own context ?effect (ed_idempotency_mode desc) i fingerprint st")
    case None
    then have "key_is_new context ?effect st"
      using desc key by (auto simp: key_is_new_def execute_replay_def split: option.splits)
    from told_scripted [OF this] show ?thesis using None by (simp add: told_def)
  next
    case (Some answer)
    with told_replay [OF assms Some] show ?thesis by (simp add: told_def)
  qed
  show ?thesis
  proof (cases "reference_descriptor ?effect")
    case (Inl e)
    then show ?thesis by (simp add: execute_body_def told_def bind_step_def lift_step_def honest_def)
  next
    case (Inr desc)
    have stop: "told (honest context ?effect st) (raise_step e) st" for e
      by (simp add: told_def raise_step_def honest_def)
    have open_up: "bind_step (lift_step (Inr desc)) f = f desc" for f :: "_ \<Rightarrow> execution_evidence adapter_step"
      by (simp add: fun_eq_iff bind_step_def lift_step_def)
    show ?thesis
      unfolding execute_body_def Inr open_up Let_def
      by (auto simp: honest_def split: option.split intro!: told_error told_bind adapter_rules stop last [OF Inr])
  qed
qed

theorem told_execute:
  assumes "world_ok st"
  shows "told (honest context (pq_effect q) st) (reference_execute sha clock own context q) st"
  unfolding told_def
proof (intro allI impI)
  fix a :: reference_adapter assume a: "ra_store a = st"
  let ?body = "execute_body sha clock own context q"
  obtain r v where v: "?body a = (r, v)" by (cases "?body a") simp
  from toldD [OF told_body [OF assms] v a] have h: "honest context (pq_effect q) st r (ra_store v)" .
  show "honest context (pq_effect q) st (fst (reference_execute sha clock own context q a))
      (ra_store (snd (reference_execute sha clock own context q a)))"
  proof (cases "pq_effect q \<in> set REFERENCE_EFFECTS")
    case False
    then show ?thesis using a by (simp add: reference_execute_def raise_step_def honest_def)
  next
    case True
    with v h show ?thesis
      by (cases r) (auto simp: reference_execute_def classified_def bind_step_def clock_step_def lift_step_def
          return_step_def honest_def split: sum.split prod.split dest!: unclassified_is_unknown)
  qed
qed

section \<open>What a compensation does\<close>

definition marked_as :: "reference_resource \<Rightarrow> reference_resource \<Rightarrow> bool" where
  "marked_as r row \<longleftrightarrow> r = row\<lparr>rr_mitigated := True\<rparr> \<or> r = row\<lparr>rr_compensated := True\<rparr>"

definition settled_row :: "reference_resource \<Rightarrow> bool" where
  "settled_row r \<longleftrightarrow> rr_compensated r \<or> rr_mitigated r"

definition marks :: "reference_store \<Rightarrow> reference_store \<Rightarrow> bool" where
  "marks st st' \<longleftrightarrow> (\<exists>row \<in> set (rs_all st). \<exists>r. store_replace r st = Inr st' \<and> marked_as r row)"

lemma marked_as_same:
  assumes "marked_as r row"
  shows "rr_resource_id r = rr_resource_id row" "rr_external_operation_id r = rr_external_operation_id row"
    "rr_provider_idempotency_key r = rr_provider_idempotency_key row" "rr_action r = rr_action row"
    "rr_applied r = rr_applied row" "settled_row r"
  using assms by (auto simp: marked_as_def settled_row_def)

text \<open>A mark changes nothing else of the resource, and is never taken back.\<close>

definition only_marked :: "reference_resource \<Rightarrow> reference_resource \<Rightarrow> bool" where
  "only_marked old new \<longleftrightarrow> new = old \<or> marked_as new old"

lemma only_marked_same:
  assumes "only_marked old new"
  shows "rr_resource_id new = rr_resource_id old" "rr_external_operation_id new = rr_external_operation_id old"
    "rr_provider_idempotency_key new = rr_provider_idempotency_key old" "rr_action new = rr_action old"
    "rr_applied new = rr_applied old" "settled_row old \<Longrightarrow> settled_row new"
  using assms marked_as_same by (auto simp: only_marked_def)

lemma store_unique:
  "store_ok st \<Longrightarrow> a \<in> set (rs_all st) \<Longrightarrow> b \<in> set (rs_all st) \<Longrightarrow> rr_resource_id a = rr_resource_id b \<Longrightarrow> a = b"
  by (metis option.inject store_okD(1))

lemma marks_keeps:
  assumes ok: "store_ok st" and "marks st st'"
  shows "store_ok st' \<and> list_all2 only_marked (rs_all st) (rs_all st')"
proof -
  from assms(2) obtain row r where mem: "row \<in> set (rs_all st)" and put: "store_replace r st = Inr st'"
    and m: "marked_as r row" by (auto simp: marks_def)
  have old: "old = row" if "old \<in> set (rs_all st)" "rr_resource_id old = rr_resource_id r" for old
    using store_unique [OF ok that(1) mem] that(2) marked_as_same(1) [OF m] by simp
  have kept: "rr_external_operation_id old = rr_external_operation_id r \<and>
      rr_provider_idempotency_key old = rr_provider_idempotency_key r"
    if "old \<in> set (rs_all st)" "rr_resource_id old = rr_resource_id r" for old
    using old [OF that] marked_as_same [OF m] by simp
  have "list_all2 only_marked (rs_all st)
      (map (\<lambda>item. if rr_resource_id item = rr_resource_id r then r else item) (rs_all st))"
    using old m by (auto simp: list_all2_conv_all_nth only_marked_def) (metis nth_mem)
  with store_replace_ok [OF ok put kept] show ?thesis by simp
qed

lemma first_some_Some: "first_some xs = Some x \<Longrightarrow> Some x \<in> set xs"
  by (induction xs) (auto simp: first_some_def split: if_split_asm)

lemma lookups_known:
  assumes "store_ok st"
  shows "(case ids of [] \<Rightarrow> None | i # _ \<Rightarrow> rs_by_resource_id st i) = Some r \<Longrightarrow> r \<in> set (rs_all st)"
    and "Option.bind key (rs_by_external_operation_id st) = Some r \<Longrightarrow> r \<in> set (rs_all st)"
    and "Option.bind key (rs_by_provider_key st) = Some r \<Longrightarrow> r \<in> set (rs_all st)"
    and "Option.bind key (rs_by_resource_id st) = Some r \<Longrightarrow> r \<in> set (rs_all st)"
    and "rs_by_resource_id st i = Some r \<Longrightarrow> r \<in> set (rs_all st)"
  by (auto simp: bind_eq_Some_conv dest: store_okD [OF assms] split: list.splits)

lemma compensation_row_known:
  assumes "store_ok st" and "lookup_compensation_row q i st = Some r"
  shows "r \<in> set (rs_all st)"
proof -
  have "Some r \<in> set (concat (map (\<lambda>evidence.
          [(case ev_external_resource_ids evidence of [] \<Rightarrow> None | i # _ \<Rightarrow> rs_by_resource_id st i),
           Option.bind (ev_external_operation_id evidence) (rs_by_external_operation_id st)])
          (cq_original_evidence q)) @
        [Option.bind (cq_provider_idempotency_key q) (rs_by_provider_key st), rs_by_resource_id st i])"
    using first_some_Some [OF assms(2) [unfolded lookup_compensation_row_def]] .
  then show ?thesis
    by (auto dest!: lookups_known [OF assms(1), OF sym] simp del: not_None_eq)
qed

definition marks_at_most :: "reference_store \<Rightarrow> 'a fallible \<Rightarrow> reference_store \<Rightarrow> bool" where
  "marks_at_most st r st' \<longleftrightarrow> st' = st \<or> marks st st'"

lemma told_marks_still: "still m \<Longrightarrow> told (marks_at_most st) m st"
  by (simp add: told_def marks_at_most_def keepsD)

lemma told_marks_bind:
  assumes "told (marks_at_most st) m st" and "\<And>x. still (f x)"
  shows "told (marks_at_most st) (bind_step m f) st"
  unfolding told_def
proof (intro allI impI)
  fix a :: reference_adapter assume a: "ra_store a = st"
  obtain r v where v: "m a = (r, v)" by (cases "m a") simp
  with toldD [OF assms(1) v a] keepsD [OF assms(2), of _ v]
  show "marks_at_most st (fst (bind_step m f a)) (ra_store (snd (bind_step m f a)))"
    by (cases r) (auto simp: bind_step_def marks_at_most_def)
qed

lemma told_compensate_row:
  assumes "row \<in> set (rs_all st)"
  shows "told (marks_at_most st) (compensate_row clock q row) st"
proof -
  have mark: "told (marks_at_most st) (mark_compensated row kind) st" for kind
    using assms
    by (auto simp: told_def mark_compensated_def replace_step_def bind_step_def return_step_def Let_def
        marks_at_most_def marks_def marked_as_def split: sum.split)
  have pop: "told (marks_at_most st) (bind_step pop_compensate (\<lambda>script.
      if script = SC_NOT_APPLIED_REJECTED then compensation_not_applied clock not_accepted
      else bind_step (mark_compensated row kind) (\<lambda>marked.
        bind_step (remember_compensation key (rr_resource_id marked)) (\<lambda>_.
        compensation_answer clock q script marked)))) st" (is "told _ (bind_step _ ?then) _") for kind key
  proof (rule told_bind [OF keeps_basic(7) [OF observes_parts(1)]])
    fix script
    show "told (marks_at_most st) (?then script) st"
      by (cases "script = SC_NOT_APPLIED_REJECTED")
        (simp_all add: told_marks_still told_marks_bind [OF mark] adapter_rules)
  qed (simp add: marks_at_most_def)
  show ?thesis
    unfolding compensate_row_def
    using pop by (simp add: told_marks_still adapter_rules split: option.split)
qed

lemma told_compensate:
  assumes ok: "store_ok (ra_store a)" and run: "reference_compensate clock c q a = (r, a')"
  shows "ra_store a' = ra_store a \<or> marks (ra_store a) (ra_store a')"
proof -
  let ?here = "\<lambda>m. marks_at_most (ra_store a) (fst (m a :: compensation_evidence fallible \<times> reference_adapter)) (ra_store (snd (m a)))"
  have stay: "still m \<Longrightarrow> ?here m" for m by (simp add: marks_at_most_def keepsD)
  have row: "?here (compensate_row clock q row)" if "row \<in> set (rs_all (ra_store a))" for row
    using told_compensate_row [OF that] by (simp add: told_def)
  have body: "?here (compensate_body clock q)"
  proof (cases "compensation_arguments_error (cq_compensation_arguments q)")
    case (Some e)
    with stay [OF keeps_answers(7) [OF observes_parts(1)], of clock e] show ?thesis by (simp add: compensate_body_def)
  next
    case None
    then obtain i where i: "resource_id_of (cq_compensation_arguments q) = Some i"
      using compensation_arguments_accepted by auto
    show ?thesis
    proof (cases "Option.bind (cq_provider_idempotency_key q) (\<lambda>key. replayed_row key a)")
      case (Some row)
      with None i stay [OF keeps_answers(8) [OF observes_parts(1)], of clock row] show ?thesis by (simp add: compensate_body_def)
    next
      case new: None
      show ?thesis
      proof (cases "lookup_compensation_row q i (ra_store a)")
        case absent: None
        with None i new stay [OF keeps_answers(7) [OF observes_parts(1)], of clock not_accepted] show ?thesis by (simp add: compensate_body_def)
      next
        case (Some r)
        with None i new row [OF compensation_row_known [OF ok Some]] show ?thesis by (simp add: compensate_body_def)
      qed
    qed
  qed
  obtain r1 v where v: "compensate_body clock q a = (r1, v)" by (cases "compensate_body clock q a") simp
  with body run show ?thesis
    by (cases r1) (auto simp: reference_compensate_def classified_def bind_step_def clock_step_def lift_step_def
        return_step_def marks_at_most_def split: sum.splits prod.splits if_split_asm)
qed

text \<open>A compensation that was not refused has marked a resource and remembers it under its key.\<close>

definition remembered :: "reference_adapter \<Rightarrow> (string \<rightharpoonup> string) \<Rightarrow> string option \<Rightarrow> bool" where
  "remembered a keys key \<longleftrightarrow>
     (\<exists>m. settled_row m \<and> rs_by_resource_id (ra_store a) (rr_resource_id m) = Some m \<and>
        ra_compensation_keys a = (case key of None \<Rightarrow> keys | Some k \<Rightarrow> keys(k \<mapsto> rr_resource_id m)))"

lemma mark_compensated_marks:
  assumes "mark_compensated row kind a = (Inr m, v)"
  shows "settled_row m" "rs_by_resource_id (ra_store v) (rr_resource_id m) = Some m"
    "ra_compensation_keys v = ra_compensation_keys a"
  using assms
  by (auto simp: mark_compensated_def bind_step_def replace_step_def return_step_def Let_def settled_row_def
      store_replace_def index_resource_def split: sum.splits option.splits if_split_asm)

lemma gives_not_applied: "gives (\<lambda>x. ce_outcome x = EO_NOT_APPLIED) (compensation_not_applied clock e)"
  unfolding compensation_not_applied_def by (auto simp: unsupported_compensation_def intro!: gives_rules)

lemma not_applied_answer:
  assumes "compensation_not_applied clock e a = (r, a')"
  shows "ra_compensation_keys a' = ra_compensation_keys a \<and> (\<forall>x. r = Inr x \<longrightarrow> ce_outcome x = EO_NOT_APPLIED)"
proof -
  have "\<forall>x. fst (compensation_not_applied clock e a) = Inr x \<longrightarrow> ce_outcome x = EO_NOT_APPLIED"
    using gives_not_applied [of clock e] by (simp add: gives_def)
  with keepsD [OF keeps_answers(7) [OF observes_parts(2)], of clock e a] assms show ?thesis by simp
qed

lemma compensate_row_remembers:
  assumes run: "compensate_row clock q row a = (r, a')"
  shows "(ra_compensation_keys a' = ra_compensation_keys a \<and> (\<forall>x. r = Inr x \<longrightarrow> ce_outcome x = EO_NOT_APPLIED)) \<or>
    remembered a' (ra_compensation_keys a) (cq_provider_idempotency_key q)" (is "?refused r a' \<or> ?done a'")
proof (cases "descriptor_for_action (rr_action row)")
  case None
  with run show ?thesis by (auto simp: compensate_row_def raise_step_def)
next
  case (Some desc)
  obtain script v where pop: "pop_compensate a = (Inr script, v)" and v: "ra_compensation_keys v = ra_compensation_keys a"
    by (cases "ra_compensate_scripts a") (auto simp: pop_compensate_def)
  let ?tail = "\<lambda>marked. bind_step (remember_compensation (cq_provider_idempotency_key q) (rr_resource_id marked)) (\<lambda>_.
    compensation_answer clock q script marked)"
  show ?thesis
  proof (cases "ed_compensation_kind desc = CK_NONE \<or> ed_effect desc \<in> {EFFECT_MUTATE_NONE, EFFECT_READ_RESOURCE}")
    case True
    with run Some show ?thesis
      by (auto simp: compensate_row_def return_step_def unsupported_compensation_def)
  next
    case allowed: False
    then have run: "(if script = SC_NOT_APPLIED_REJECTED then compensation_not_applied clock not_accepted
        else bind_step (mark_compensated row (ed_compensation_kind desc)) ?tail) v = (r, a')"
      using run Some pop by (simp add: compensate_row_def bind_step_def)
    show ?thesis
    proof (cases "script = SC_NOT_APPLIED_REJECTED")
      case True
      with run not_applied_answer [of clock not_accepted v r a'] v show ?thesis by simp
    next
      case marks: False
      obtain m w where m: "mark_compensated row (ed_compensation_kind desc) v = (m, w)" by fastforce
      show ?thesis
      proof (cases m)
        case (Inl e)
        with run marks m v show ?thesis
          by (auto simp: bind_step_def mark_compensated_def replace_step_def return_step_def Let_def
              split: sum.splits if_split_asm)
      next
        case (Inr marked)
        let ?w = "snd (remember_compensation (cq_provider_idempotency_key q) (rr_resource_id marked) w)"
        have tail: "compensation_answer clock q script marked ?w = (r, a')"
          using run marks m Inr by (auto simp: bind_step_def remember_compensation_def split: option.splits)
        note kept = keepsD [OF keeps_answers(9) [OF observes_parts(1)], of clock q script marked ?w]
          keepsD [OF keeps_answers(9) [OF observes_parts(2)], of clock q script marked ?w]
        have "ra_store a' = ra_store w" "ra_compensation_keys a' =
            (case cq_provider_idempotency_key q of None \<Rightarrow> ra_compensation_keys w
             | Some k \<Rightarrow> (ra_compensation_keys w)(k \<mapsto> rr_resource_id marked))"
          using kept tail by (auto simp: remember_compensation_def split: option.splits)
        with mark_compensated_marks [OF m [unfolded Inr]] v have "?done a'"
          by (auto simp: remembered_def split: option.splits)
        then show ?thesis ..
      qed
    qed
  qed
qed

text \<open>The steps of a compensation raise the two classes its handler lets pass, so its wrapper has nothing to classify.\<close>

definition orderly :: "'a adapter_step \<Rightarrow> bool" where
  "orderly m \<longleftrightarrow> (\<forall>a e. fst (m a) = Inl e \<longrightarrow> e = UnsupportedEffectError \<or> is_contract_error e)"

lemma classified_orderly: "orderly m \<Longrightarrow> classified clock m wrap = m"
proof
  fix a assume "orderly m"
  then show "classified clock m wrap a = m a"
    by (cases "m a"; cases "fst (m a)") (auto simp: classified_def orderly_def dest!: spec [of _ a])
qed

lemma orderly_bind [adapter_rules]:
  assumes "orderly m" and "\<And>x. orderly (g x)"
  shows "orderly (bind_step m g)"
  unfolding orderly_def
proof (intro allI impI)
  fix a e assume e: "fst (bind_step m g a) = Inl e"
  obtain r v where v: "m a = (r, v)" by (cases "m a") simp
  from assms(1) v have "r = Inl e' \<Longrightarrow> e' = UnsupportedEffectError \<or> is_contract_error e'" for e'
    unfolding orderly_def by (metis fst_conv)
  with e v assms(2) show "e = UnsupportedEffectError \<or> is_contract_error e"
    by (cases r) (auto simp: bind_step_def orderly_def)
qed

lemma orderly_basic [adapter_rules]:
  "orderly (return_step v)" "orderly (clock_step clock)" "orderly pop_compensate"
  "orderly (remember_compensation k i)" "orderly (replace_step row)" "orderly (raise_step UnsupportedEffectError)"
  "orderly (raise_step (ContractValidationError code))" "orderly (exec_evidence clock status q x ids items)"
  by (auto simp: orderly_def return_step_def clock_step_def pop_compensate_def remember_compensation_def
      replace_step_def raise_step_def exec_evidence_def reference_evidence_def bind_step_def lift_step_def Let_def
      store_replace_def is_contract_error_def validate_provider_evidence_def reject_secrets_in_json_def guard_err_def
      split: list.splits option.splits sum.splits if_split_asm)

lemma orderly_compensate: "orderly (compensate_body clock q)"
proof -
  have answers: "orderly (compensation_not_applied clock e)" "orderly (compensation_replay clock row)"
    "orderly (compensation_answer clock q script row)" for e script row
    by (auto simp: compensation_not_applied_def compensation_replay_def compensation_answer_def Let_def
        intro!: adapter_rules)
  have row: "orderly (compensate_row clock q row)" for row
    by (auto simp: compensate_row_def mark_compensated_def Let_def intro!: adapter_rules answers split: option.split)
  have raised: "orderly (raise_step (ContractValidationError code) :: compensation_evidence adapter_step)" for code
    by (rule adapter_rules)
  show ?thesis
    using answers row raised unfolding orderly_def compensate_body_def by (auto split: option.splits)
qed

lemma reference_compensate_body: "reference_compensate clock c q = compensate_body clock q"
  by (simp add: reference_compensate_def classified_orderly orderly_compensate)

lemma compensate_cases:
  assumes "reference_compensate clock c q a = (r, a')"
  shows "(ra_compensation_keys a' = ra_compensation_keys a \<and> (\<forall>x. r = Inr x \<longrightarrow> ce_outcome x = EO_NOT_APPLIED)) \<or>
    (ra_compensation_keys a' = ra_compensation_keys a \<and>
       (\<exists>k row. cq_provider_idempotency_key q = Some k \<and> replayed_row k a = Some row)) \<or>
    remembered a' (ra_compensation_keys a) (cq_provider_idempotency_key q)" (is "?goal r a'")
proof -
  have run: "compensate_body clock q a = (r, a')" using assms by (simp add: reference_compensate_body)
  have refused: "?goal r a'" if "compensation_not_applied clock e a = (r, a')" for e
    using not_applied_answer [OF that] by blast
  show ?thesis
  proof (cases "compensation_arguments_error (cq_compensation_arguments q)")
    case (Some e)
    with run refused show ?thesis by (simp add: compensate_body_def)
  next
    case None
    then obtain i where i: "resource_id_of (cq_compensation_arguments q) = Some i"
      using compensation_arguments_accepted by auto
    show ?thesis
    proof (cases "Option.bind (cq_provider_idempotency_key q) (\<lambda>key. replayed_row key a)")
      case (Some row)
      with None i run have "compensation_replay clock row a = (r, a')" by (simp add: compensate_body_def)
      with keepsD [OF keeps_answers(8) [OF observes_parts(2)], of clock row a] Some show ?thesis
        by (auto simp: bind_eq_Some_conv)
    next
      case new: None
      show ?thesis
      proof (cases "lookup_compensation_row q i (ra_store a)")
        case absent: None
        with None i new run refused show ?thesis by (simp add: compensate_body_def)
      next
        case (Some row)
        with None i new run have "compensate_row clock q row a = (r, a')" by (simp add: compensate_body_def)
        from compensate_row_remembers [OF this] show ?thesis by blast
      qed
    qed
  qed
qed

end
