(* ===== verification/Reference_Properties.thy ===== *)
theory Reference_Properties
  imports Reference_Steps
begin

text \<open>
  What the reference provider promises of the world behind it, over any sequence of calls and scripts: its
  indexes stay consistent, a provider key creates one resource however often and whatever it is called with, its
  answers agree with what it did, and a repeated compensation does nothing more.
\<close>

section \<open>Every run\<close>

definition keyed_action :: "string \<Rightarrow> bool" where
  "keyed_action action \<longleftrightarrow> (case descriptor_for_action action of
     None \<Rightarrow> False | Some desc \<Rightarrow> ed_idempotency_mode desc = IM_PROVIDER_KEY)"

definition mutations_under :: "string \<Rightarrow> reference_store \<Rightarrow> reference_resource list" where
  "mutations_under k st = filter (\<lambda>r. rr_provider_idempotency_key r = Some k \<and> keyed_action (rr_action r)) (rs_all st)"

definition adapter_ok :: "reference_adapter \<Rightarrow> bool" where
  "adapter_ok a \<longleftrightarrow> world_ok (ra_store a) \<and> (\<forall>k. length (mutations_under k (ra_store a)) \<le> 1) \<and>
     (\<forall>k i. ra_compensation_keys a k = Some i \<longrightarrow>
        (\<exists>row. rs_by_resource_id (ra_store a) i = Some row \<and> settled_row row))"

lemma known_effect:
  assumes "keyed_action (ef_action effect)" and "reference_descriptor effect = Inr desc"
  shows "ed_idempotency_mode desc = IM_PROVIDER_KEY"
  using assms
  by (auto simp: reference_descriptor_def keyed_action_def descriptor_for_action_def REFERENCE_DESCRIPTORS_def
      reference_effects reference_declaration_def split: option.splits if_split_asm)

text \<open>A new resource under a key is the first one under it.\<close>

lemma resource_created_ok:
  assumes "resource_created context effect st st'" and ok: "world_ok st" and desc: "reference_descriptor effect = Inr desc"
    and once: "length (mutations_under k st) \<le> 1"
  shows "world_ok st' \<and> length (mutations_under k st') \<le> 1"
proof -
  from assms(1) obtain r where new: "key_is_new context effect st" and put: "store_put r st = Inr st'"
    and r: "rr_applied r" "rr_action r = ef_action effect"
      "rr_provider_idempotency_key r = px_provider_idempotency_key context" by (auto simp: resource_created_def)
  have st: "store_ok st" and applied: "\<forall>x \<in> set (rs_all st). rr_applied x" using ok by (auto simp: world_ok_def)
  note all = store_put_all [OF put]
  have first: "mutations_under k st = []" if "rr_provider_idempotency_key r = Some k" "keyed_action (rr_action r)"
  proof -
    from new desc known_effect [OF _ desc] that r have "rs_by_provider_key st k = None"
      by (auto simp: key_is_new_def)
    with store_okD(5) [OF st] show ?thesis by (fastforce simp: mutations_under_def filter_empty_conv)
  qed
  have "world_ok st'" using store_put_ok [OF st put] applied r(1) by (simp add: world_ok_def all)
  moreover have "length (mutations_under k st') \<le> 1"
    using first once by (auto simp: mutations_under_def all)
  ultimately show ?thesis ..
qed

lemma marks_ok:
  assumes "marks st st'" and ok: "world_ok st"
  shows "world_ok st'" and "length (mutations_under k st') = length (mutations_under k st)"
proof -
  from ok have "store_ok st" and applied: "\<forall>x \<in> set (rs_all st). rr_applied x" by (auto simp: world_ok_def)
  from marks_keeps [OF this(1) assms(1)] have st': "store_ok st'" and rel: "list_all2 only_marked (rs_all st) (rs_all st')"
    by auto
  from rel applied have "\<forall>x \<in> set (rs_all st'). rr_applied x"
    by (induction rule: list_all2_induct) (auto dest: only_marked_same(5))
  with st' show "world_ok st'" by (simp add: world_ok_def)
  from rel show "length (mutations_under k st') = length (mutations_under k st)"
    unfolding mutations_under_def
    by (induction rule: list_all2_induct) (simp_all add: only_marked_same(3,4))
qed

text \<open>A settled resource stays one, under its id.\<close>

lemma settled_stays:
  assumes "st' = st \<or> resource_created context effect st st' \<or> marks st st'" and ok: "world_ok st"
    and "rs_by_resource_id st i = Some row" "settled_row row"
  shows "\<exists>row. rs_by_resource_id st' i = Some row \<and> settled_row row"
proof -
  have st: "store_ok st" using ok by (simp add: world_ok_def)
  from store_okD(2) [OF st assms(3)] have row: "row \<in> set (rs_all st)" "rr_resource_id row = i" by auto
  from assms(1) consider "st' = st" | "resource_created context effect st st'" | "marks st st'" by blast
  then show ?thesis
  proof cases
    case 2
    then obtain r where "store_put r st = Inr st'" by (auto simp: resource_created_def)
    with assms(3,4) show ?thesis by (auto simp: store_put_def index_resource_def)
  next
    case 3
    from marks_keeps [OF st this] have st': "store_ok st'" and rel: "list_all2 only_marked (rs_all st) (rs_all st')"
      by auto
    from rel row(1) obtain row' where row': "row' \<in> set (rs_all st')" "only_marked row row'"
      by (auto simp: list_all2_conv_all_nth in_set_conv_nth) metis
    with store_okD(1) [OF st' row'(1)] only_marked_same [OF row'(2)] row(2) assms(4) show ?thesis by auto
  qed (use assms in auto)
qed

definition no_execution_under :: "string \<Rightarrow> reference_event list \<Rightarrow> bool" where
  "no_execution_under k events \<longleftrightarrow>
     (\<forall>context q. RE_call (ExecuteCall context q) \<in> set events \<longrightarrow> px_provider_idempotency_key context \<noteq> Some k)"

text \<open>What one event does to the store and to the remembered compensations.\<close>

lemma step_effect:
  assumes "world_ok (ra_store a)"
  shows "(ra_store (reference_step sha clock own event a) = ra_store a \<or>
      (\<exists>context q desc. event = RE_call (ExecuteCall context q) \<and> reference_descriptor (pq_effect q) = Inr desc \<and>
         resource_created context (pq_effect q) (ra_store a) (ra_store (reference_step sha clock own event a))) \<or>
      marks (ra_store a) (ra_store (reference_step sha clock own event a))) \<and>
    (ra_compensation_keys (reference_step sha clock own event a) = ra_compensation_keys a \<or>
      (\<exists>key. remembered (reference_step sha clock own event a) (ra_compensation_keys a) key))"
    (is "(_ \<or> ?created \<or> _) \<and> _")
proof (cases event)
  case (RE_call call)
  show ?thesis
  proof (cases call)
    case (ExecuteCall c q)
    let ?run = "reference_execute sha clock (own call) c q a"
    have st': "reference_step sha clock own event a = snd ?run"
      by (simp add: reference_step_def reference_call_def RE_call ExecuteCall)
    have keys: "ra_compensation_keys (snd ?run) = ra_compensation_keys a" by (rule keepsD [OF keys_execute])
    show ?thesis
    proof (cases "pq_effect q \<in> set REFERENCE_EFFECTS")
      case True
      have "honest c (pq_effect q) (ra_store a) (fst ?run) (ra_store (snd ?run))"
        using told_execute [OF assms] by (simp add: told_def)
      then have "ra_store (snd ?run) = ra_store a \<or> resource_created c (pq_effect q) (ra_store a) (ra_store (snd ?run))"
        by (simp add: honest_def)
      with reference_descriptor_Inr [OF True] keys st' RE_call ExecuteCall show ?thesis by auto
    next
      case False
      with keys st' show ?thesis by (simp add: reference_execute_def raise_step_def)
    qed
  next
    case (VerifyCall c q)
    then show ?thesis
      using keepsD [OF keeps_verify [OF observes_parts(1)]] keepsD [OF keeps_verify [OF observes_parts(2)]]
      by (simp add: reference_step_def reference_call_def RE_call)
  next
    case (CompensateCall c q)
    obtain r a' where run: "reference_compensate clock c q a = (r, a')" by fastforce
    have "store_ok (ra_store a)" using assms by (simp add: world_ok_def)
    from told_compensate [OF this run] compensate_cases [OF run] show ?thesis
      by (auto simp: reference_step_def reference_call_def RE_call CompensateCall run)
  qed
qed (simp_all add: reference_step_def enqueue_execute_def enqueue_verify_def enqueue_compensate_def)

lemma step_ok:
  assumes "adapter_ok a"
  shows "adapter_ok (reference_step sha clock own event a)" (is "adapter_ok ?a'")
proof -
  have ok: "world_ok (ra_store a)" and once: "length (mutations_under k (ra_store a)) \<le> 1"
    and keys: "ra_compensation_keys a k = Some i \<Longrightarrow>
      \<exists>row. rs_by_resource_id (ra_store a) i = Some row \<and> settled_row row" for k i
    using assms by (auto simp: adapter_ok_def)
  note effect = step_effect [OF ok, of sha clock own event]
  from effect have world: "world_ok (ra_store ?a') \<and> length (mutations_under k (ra_store ?a')) \<le> 1" for k
    using ok once resource_created_ok [OF _ ok] marks_ok [OF _ ok] by auto
  have settled: "\<exists>row. rs_by_resource_id (ra_store ?a') i = Some row \<and> settled_row row"
    if "rs_by_resource_id (ra_store a) i = Some row" "settled_row row" for i row
    using settled_stays [OF _ ok that] effect by blast
  have "\<exists>row. rs_by_resource_id (ra_store ?a') i = Some row \<and> settled_row row"
    if k: "ra_compensation_keys ?a' k = Some i" for k i
  proof (cases "ra_compensation_keys a k = Some i")
    case True
    then show ?thesis using keys settled by blast
  next
    case False
    with effect k obtain key where "remembered ?a' (ra_compensation_keys a) key" by auto
    with False k show ?thesis by (auto simp: remembered_def split: option.splits if_split_asm)
  qed
  with world show ?thesis by (simp add: adapter_ok_def)
qed

lemma run_ok: "adapter_ok a \<Longrightarrow> adapter_ok (reference_run sha clock own events a)"
  unfolding reference_run_def by (induction events arbitrary: a) (auto intro: step_ok)

lemma new_ok: "new_reference_adapter empty_store delay = Inr a \<Longrightarrow> adapter_ok a"
  using empty_store_ok
  by (auto simp: new_reference_adapter_def adapter_ok_def world_ok_def mutations_under_def empty_store_def)

lemma after_calls_run: "after_calls sha clock own calls a = reference_run sha clock own (map RE_call calls) a"
  by (simp add: after_calls_def)

section \<open>Verification answers\<close>

lemma gives_verify: 
  "gives (\<lambda>x. ve_outcome x = outcome) (verify_outcome clock outcome source found)"
  "gives (\<lambda>x. ve_outcome x = EO_UNKNOWN) (verify_unknown clock source status err)"
  by (auto simp: verify_outcome_def verify_unknown_def Let_def intro!: gives_rules)

lemma givesD: "gives P m \<Longrightarrow> fst (m a) = Inr x \<Longrightarrow> P x"
  by (auto simp: gives_def)

text \<open>\<open>hidden\<close>: the code takes the effect for the eventually consistent one.\<close>

lemma original_target_says:
  assumes x: "fst (verify_original_target clock own effect found source a) = Inr x"
    and applied: "\<forall>r. found = Some r \<longrightarrow> rr_applied r"
  shows "case found of
      None \<Rightarrow> ve_outcome x = (if effect_is own effect EFFECT_MUTATE_EVENTUAL then EO_UNKNOWN else EO_NOT_APPLIED)
    | Some r \<Rightarrow> ve_outcome x = EO_APPLIED \<or> ve_outcome x = EO_UNKNOWN \<and> effect_is own effect EFFECT_MUTATE_EVENTUAL"
proof -
  note says = givesD [OF gives_verify(1)] givesD [OF gives_verify(2)]
  show ?thesis
    using x applied
    by (auto simp: verify_original_target_def verify_visibility_unknown_def Let_def bind_step_def clock_step_def
        dest!: says split: option.splits if_split_asm)
qed

lemma verify_says:
  assumes run: "reference_verify clock own c q a = (Inr x, a')" and "ra_verify_scripts a = []"
    and "vq_target q = VT_ORIGINAL_EFFECT" and known: "ve_outcome x \<noteq> EO_UNKNOWN"
  shows "\<exists>source. fst (verify_original_target clock own (vq_effect q) (lookup_verify_row c q (ra_store a)) source a) = Inr x"
proof -
  have effect: "vq_effect q \<in> set REFERENCE_EFFECTS"
    using run by (auto simp: reference_verify_def raise_step_def split: if_split_asm)
  then obtain desc where desc: "reference_descriptor (vq_effect q) = Inr desc" using reference_descriptor_Inr by blast
  have body: "fst (verify_body clock own c q a) = Inr x"
    using run effect known
    by (auto simp: reference_verify_def classified_def bind_step_def clock_step_def lift_step_def return_step_def
        split: prod.splits sum.splits if_split_asm dest!: unclassified_is_unknown)
  show ?thesis
  proof (cases "ed_verification_mode desc = VM_NONE")
    case True
    with body desc have "fst (verify_unknown clock ES_CUSTOM ''unsupported''
       (norm_error EK_UNSUPPORTED_CAPABILITY ''ref.unsupported.verification'' False None
          (Some ''verification is not declared for this effect'')) a) = Inr x"
      by (simp add: verify_body_def unsupported_verification_def bind_step_def lift_step_def)
    from givesD [OF gives_verify(2) this] known show ?thesis by simp
  next
    case False
    with body desc assms(2,3) show ?thesis
      by (auto simp: verify_body_def bind_step_def lift_step_def pop_verify_def Let_def)
  qed
qed

lemma first_some_None: "first_some xs = None \<Longrightarrow> x \<in> set xs \<Longrightarrow> x = None"
  by (induction xs) (auto simp: first_some_def split: if_split_asm list.splits)

lemma verify_row_known:
  assumes "store_ok st"
  shows "lookup_verify_row c q st = Some r \<Longrightarrow> r \<in> set (rs_all st)"
    and "r \<in> set (rs_all st) \<Longrightarrow> rr_provider_idempotency_key r = Some k \<Longrightarrow>
      px_provider_idempotency_key c = Some k \<Longrightarrow> lookup_verify_row c q st \<noteq> None"
proof -
  assume "lookup_verify_row c q st = Some r"
  from first_some_Some [OF this [unfolded lookup_verify_row_def]] show "r \<in> set (rs_all st)"
    by (auto dest!: lookups_known [OF assms, OF sym] simp del: not_None_eq)
next
  assume "r \<in> set (rs_all st)" "rr_provider_idempotency_key r = Some k" "px_provider_idempotency_key c = Some k"
  with store_okD(5) [OF assms] first_some_None [of _ "Option.bind (px_provider_idempotency_key c) (rs_by_provider_key st)"]
  show "lookup_verify_row c q st \<noteq> None" by (fastforce simp: lookup_verify_row_def)
qed

section \<open>Remembered compensations\<close>

definition unused_key :: "string \<Rightarrow> reference_adapter \<Rightarrow> bool" where
  "unused_key k a \<longleftrightarrow> (\<forall>r \<in> set (rs_all (ra_store a)). rr_provider_idempotency_key r \<noteq> Some k)"

lemma unused_step:
  assumes ok: "adapter_ok a" and unused: "unused_key k a" and event: "no_execution_under k [event]"
  shows "unused_key k (reference_step sha clock own event a)" (is "unused_key k ?a'")
proof -
  have world: "world_ok (ra_store a)" using ok by (simp add: adapter_ok_def)
  then have store: "store_ok (ra_store a)" by (simp add: world_ok_def)
  from step_effect [OF world] consider "ra_store ?a' = ra_store a"
    | c q where "event = RE_call (ExecuteCall c q)" "resource_created c (pq_effect q) (ra_store a) (ra_store ?a')"
    | "marks (ra_store a) (ra_store ?a')" by blast
  then show ?thesis
  proof cases
    case 2
    then obtain r where "store_put r (ra_store a) = Inr (ra_store ?a')"
      "rr_provider_idempotency_key r = px_provider_idempotency_key c" by (auto simp: resource_created_def)
    moreover have "px_provider_idempotency_key c \<noteq> Some k" using event 2 by (auto simp: no_execution_under_def)
    ultimately show ?thesis using unused by (auto simp: unused_key_def dest!: store_put_all)
  next
    case 3
    with marks_keeps [OF store] have "list_all2 only_marked (rs_all (ra_store a)) (rs_all (ra_store ?a'))" by blast
    then show ?thesis using unused unfolding unused_key_def
      by (induction rule: list_all2_induct) (auto dest: only_marked_same(3))
  qed (use unused in \<open>simp add: unused_key_def\<close>)
qed

lemma unused_run:
  "adapter_ok a \<Longrightarrow> unused_key k a \<Longrightarrow> no_execution_under k events \<Longrightarrow>
     unused_key k (reference_run sha clock own events a)"
proof (induction events arbitrary: a)
  case (Cons event events)
  then have "no_execution_under k [event]" "no_execution_under k events" by (auto simp: no_execution_under_def)
  with Cons unused_step step_ok show ?case by (simp add: reference_run_def)
qed (simp add: reference_run_def)

lemma remembered_run:
  "adapter_ok a \<Longrightarrow> ra_compensation_keys a k \<noteq> None \<Longrightarrow>
     ra_compensation_keys (reference_run sha clock own events a) k \<noteq> None"
proof (induction events arbitrary: a)
  case (Cons event events)
  have "world_ok (ra_store a)" using Cons.prems by (simp add: adapter_ok_def)
  from step_effect [OF this, of sha clock own event] Cons.prems(2)
  have "ra_compensation_keys (reference_step sha clock own event a) k \<noteq> None"
    by (auto simp: remembered_def split: option.splits if_split_asm)
  with Cons step_ok show ?case by (simp add: reference_run_def)
qed (simp add: reference_run_def)

lemma unused_index:
  assumes "adapter_ok a" and "unused_key k a"
  shows "rs_by_provider_key (ra_store a) k = None"
proof (cases "rs_by_provider_key (ra_store a) k")
  case (Some r)
  have "store_ok (ra_store a)" using assms(1) by (simp add: adapter_ok_def world_ok_def)
  from store_okD(4) [OF this Some] assms(2) show ?thesis by (auto simp: unused_key_def)
qed

lemma run_append: "reference_run sha clock own (xs @ ys) a = reference_run sha clock own ys (reference_run sha clock own xs a)"
  by (simp add: reference_run_def)

lemma replay_again:
  assumes ok: "adapter_ok a" and unused: "unused_key k a" and keys: "ra_compensation_keys a k \<noteq> None"
    and q: "cq_provider_idempotency_key q = Some k" "resource_id_of (cq_compensation_arguments q) = Some i" "i \<noteq> []"
    and run: "reference_compensate clock c q a = (r, a')"
  shows "(\<exists>y. r = Inr y \<and> ce_outcome y = EO_APPLIED) \<and> ra_store a' = ra_store a"
proof -
  from keys obtain j where j: "ra_compensation_keys a k = Some j" by blast
  with ok obtain row where "rs_by_resource_id (ra_store a) j = Some row" "settled_row row"
    unfolding adapter_ok_def by blast
  with j unused_index [OF ok unused] have "replayed_row k a = Some row" by (simp add: replayed_row_def settled_row_def)
  moreover have "compensation_arguments_error (cq_compensation_arguments q) = None"
    using q compensation_arguments_accepted by blast
  ultimately have "compensation_replay clock row a = (r, a')"
    using run q by (simp add: reference_compensate_body compensate_body_def)
  then show ?thesis
    by (auto simp: compensation_replay_def exec_evidence_def reference_evidence_def bind_step_def clock_step_def
        lift_step_def return_step_def Let_def validate_provider_evidence_def reject_secrets_in_json_def)
qed

section \<open>What the provider promises\<close>

text \<open>
  C31. Whatever calls and scripts reach a new reference provider, in any order, its three indexes and its list of
  resources agree, no two resources share an id, every resource is applied, and every compensation it remembers
  under a key names a resource that is compensated or mitigated.
\<close>

theorem reference_store_stays_consistent:
  assumes "new_reference_adapter empty_store delay = Inr start"
  shows "adapter_ok (reference_run sha clock own events start)"
  by (rule run_ok [OF new_ok [OF assms]])

text \<open>
  C27. A provider key creates at most one resource through the effects that are declared idempotent by provider
  key: however many executions name the key, for whatever resources, under whatever scripts (a lost response, a
  timeout after the request was sent), and whatever else is called in between.
\<close>

theorem provider_key_creates_once:
  assumes "new_reference_adapter empty_store delay = Inr start"
  shows "length (mutations_under k (ra_store (reference_run sha clock own events start))) \<le> 1"
  using run_ok [OF new_ok [OF assms]] by (simp add: adapter_ok_def)

text \<open>
  C28. An execution's evidence agrees with what was done: on NOT_APPLIED the store is as it was, on APPLIED it
  holds an applied resource with the external operation id the evidence names, and in every case, a raised
  exception included, at most one resource was added and none changed.
\<close>

theorem execution_evidence_is_honest:
  assumes "new_reference_adapter empty_store delay = Inr start"
    and "before = reference_run sha clock own events start"
    and "reference_execute sha clock fresh context q before = (r, after)"
  shows "(rs_all (ra_store after) = rs_all (ra_store before) \<or>
      (\<exists>new. rs_all (ra_store after) = rs_all (ra_store before) @ [new])) \<and>
    (case r of Inl _ \<Rightarrow> True | Inr x \<Rightarrow>
       (case xe_outcome x of
          EO_NOT_APPLIED \<Rightarrow> ra_store after = ra_store before
        | EO_APPLIED \<Rightarrow> (\<exists>made \<in> set (rs_all (ra_store after)). rr_applied made \<and>
            xe_external_operation_id x = Some (rr_external_operation_id made))
        | EO_UNKNOWN \<Rightarrow> True))"
proof -
  have "world_ok (ra_store before)" using run_ok [OF new_ok [OF assms(1)]] assms(2) by (simp add: adapter_ok_def)
  from toldD [OF told_execute [OF this] assms(3)]
  have "honest context (pq_effect q) (ra_store before) r (ra_store after)" by simp
  then show ?thesis
    by (auto simp: honest_def resource_created_def dest: store_put_all split: sum.split effect_outcome.split)
qed

text \<open>
  C29. With no answer scripted, verifying an original effect agrees with the store: it says APPLIED only when the
  store holds an applied resource, and never NOT_APPLIED when the store holds one under the provider key of the
  verification (it may be UNKNOWN while an eventually consistent effect is not visible yet).
\<close>

theorem verification_agrees_with_the_store:
  assumes "new_reference_adapter empty_store delay = Inr start"
    and "before = reference_run sha clock own events start" and "ra_verify_scripts before = []"
    and "reference_verify clock fresh context q before = (Inr x, after)" and "vq_target q = VT_ORIGINAL_EFFECT"
  shows "(ve_outcome x = EO_APPLIED \<longrightarrow>
      (\<exists>r \<in> set (rs_all (ra_store before)). rr_applied r \<and> lookup_verify_row context q (ra_store before) = Some r)) \<and>
    (ve_outcome x = EO_NOT_APPLIED \<longrightarrow> (\<forall>r \<in> set (rs_all (ra_store before)).
       rr_provider_idempotency_key r = None \<or>
       rr_provider_idempotency_key r \<noteq> px_provider_idempotency_key context))"
proof -
  have ok: "store_ok (ra_store before)" and applied: "\<forall>r \<in> set (rs_all (ra_store before)). rr_applied r"
    using run_ok [OF new_ok [OF assms(1)]] assms(2) by (simp_all add: adapter_ok_def world_ok_def)
  let ?found = "lookup_verify_row context q (ra_store before)"
  have known: "\<forall>r. ?found = Some r \<longrightarrow> r \<in> set (rs_all (ra_store before)) \<and> rr_applied r"
    using verify_row_known(1) [OF ok] applied by blast
  show ?thesis
  proof (cases "ve_outcome x = EO_UNKNOWN")
    case False
    from verify_says [OF assms(4,3,5) this] obtain source where
      "fst (verify_original_target clock fresh (vq_effect q) ?found source before) = Inr x" by blast
    from original_target_says [OF this] known False have
      "(case ?found of None \<Rightarrow> ve_outcome x = EO_NOT_APPLIED | Some r \<Rightarrow> ve_outcome x = EO_APPLIED)"
      by (auto split: option.splits if_split_asm)
    with known verify_row_known(2) [OF ok] show ?thesis by (fastforce split: option.splits)
  qed simp
qed

text \<open>
  C30. Once a compensation under a provider key was answered APPLIED or UNKNOWN (the request was sent), a later
  one under the same key answers APPLIED and changes nothing, whatever happened in between, provided that no
  execution uses the compensation's key (the keys of operations and of compensations differ in their prefix).
\<close>

theorem repeated_compensation_changes_nothing:
  assumes "new_reference_adapter empty_store delay = Inr start"
    and "reference_compensate clock c q (reference_run sha clock own events start) = (Inr x, first)"
    and "ce_outcome x \<noteq> EO_NOT_APPLIED" and "cq_provider_idempotency_key q = Some k"
    and "no_execution_under k (events @ events')"
    and "cq_provider_idempotency_key q' = Some k"
    and "resource_id_of (cq_compensation_arguments q') = Some i" and "i \<noteq> []"
    and "reference_compensate clock c' q' (reference_run sha clock own events' first) = (r, after)"
  shows "(\<exists>y. r = Inr y \<and> ce_outcome y = EO_APPLIED) \<and>
    ra_store after = ra_store (reference_run sha clock own events' first)"
proof -
  let ?before = "reference_run sha clock own events start"
  have before: "adapter_ok ?before" by (rule run_ok [OF new_ok [OF assms(1)]])
  have "unused_key k start" using assms(1) by (auto simp: new_reference_adapter_def unused_key_def empty_store_def)
  moreover have parts: "no_execution_under k events" "no_execution_under k events'"
    using assms(5) by (auto simp: no_execution_under_def)
  ultimately have unused: "unused_key k ?before" by (intro unused_run [OF new_ok [OF assms(1)]])
  have step: "first = reference_step sha clock own (RE_call (CompensateCall c q)) ?before"
    by (simp add: reference_step_def reference_call_def assms(2))
  have first: "adapter_ok first" "unused_key k first"
    using step_ok [OF before] unused_step [OF before unused] by (auto simp: step no_execution_under_def)
  have keys: "ra_compensation_keys first k \<noteq> None"
    using compensate_cases [OF assms(2)] assms(3,4) unused_index [OF before unused]
    by (auto simp: remembered_def replayed_row_def bind_eq_Some_conv split: option.splits)
  show ?thesis
    by (rule replay_again [OF run_ok [OF first(1)] unused_run [OF first] remembered_run [OF first(1) keys]
        assms(6-9)]) (rule parts)
qed

text \<open>
  The answers depend on the identity of the effect object, not on its value: verifying the compensation of
  the eventually consistent effect, when no resource is known, answers UNKNOWN for the module's own object and
  NOT_APPLIED for an equal one, such as the effect of an operation loaded from the journal; the declaration says
  that a missing resource is no proof.
\<close>

lemma eventual_verification_depends_on_identity:
  assumes "vq_effect q = EFFECT_MUTATE_EVENTUAL" and "vq_target q = VT_COMPENSATION"
    and "ra_verify_scripts a = []" and "lookup_verify_row c q (ra_store a) = None"
  shows "\<exists>x after. reference_verify clock own c q a = (Inr x, after) \<and>
    ve_outcome x = (if own then EO_UNKNOWN else EO_NOT_APPLIED)"
proof -
  have effect: "EFFECT_MUTATE_EVENTUAL \<in> set REFERENCE_EFFECTS" by (simp add: REFERENCE_EFFECTS_def)
  obtain desc where desc: "reference_descriptor EFFECT_MUTATE_EVENTUAL = Inr desc" "ed_verification_mode desc = VM_READ_BACK"
    by (auto simp: reference_descriptor_def REFERENCE_DESCRIPTORS_def reference_effects reference_declaration_def)
  show ?thesis
    using assms effect desc
    by (simp add: reference_verify_def classified_def verify_body_def bind_step_def lift_step_def pop_verify_def
        Let_def verify_compensation_target_def effect_is_def verify_visibility_unknown_def verify_unknown_def
        verify_outcome_def verify_evidence_def reference_evidence_def clock_step_def return_step_def
        validate_provider_evidence_def reject_secrets_in_json_def)
qed

end
