(* ===== verification/Provider_At_Work.thy ===== *)
theory Provider_At_Work
  imports Reference_Properties
begin

text \<open>
  The reference provider at work: an execution whose response is lost, its retry under the same key, a
  verification, a compensation that times out after it was sent and its retry.
\<close>

definition rx_clock :: "nat \<Rightarrow> utc_timestamp" where
  "rx_clock n = UtcTimestamp (1000000 * int n)"

definition rx_start :: reference_adapter where
  "rx_start = \<lparr>ra_store = empty_store, ra_visibility_delay_seconds = 0, ra_execute_scripts = [],
     ra_verify_scripts = [], ra_compensate_scripts = [], ra_compensation_keys = (\<lambda>_. None), ra_clock_reads = 0\<rparr>"

definition rx_context :: "string \<Rightarrow> string option \<Rightarrow> provider_execution_context" where
  "rx_context attempt key = \<lparr>px_operation_id = OpaqueId ''op'', px_attempt_id = OpaqueId attempt,
     px_idempotency_identity = ''sb:op'', px_provider_idempotency_key = key, px_correlation_id = None,
     px_deadline = None\<rparr>"

definition rx_arguments :: json where
  "rx_arguments = JObject [(''resource_id'', JStr ''r1'')]"

definition rx_execute :: "effect_ref \<Rightarrow> provider_execution_request" where
  "rx_execute effect = \<lparr>pq_effect = effect, pq_arguments = rx_arguments\<rparr>"

definition rx_verify :: "effect_ref \<Rightarrow> verification_target \<Rightarrow> verification_request" where
  "rx_verify effect target = \<lparr>vq_contract_version = CONTRACT_VERSION, vq_id = OpaqueId ''v'',
     vq_operation_id = OpaqueId ''op'', vq_operation_version = 3, vq_target = target,
     vq_target_attempt_id = None, vq_effect = effect, vq_external_operation_id = None,
     vq_external_resource_ids = [], vq_idempotency_identity = ''sb:op'', vq_provider_evidence_refs = [],
     vq_requested_at = UtcTimestamp 0\<rparr>"

definition rx_compensate :: "string \<Rightarrow> compensation_request" where
  "rx_compensate attempt = \<lparr>cq_original_operation_id = OpaqueId ''op'', cq_compensation_id = OpaqueId ''c'',
     cq_compensation_attempt_id = OpaqueId attempt, cq_original_evidence = [],
     cq_compensation_arguments = rx_arguments, cq_idempotency_identity = ''sb:comp'',
     cq_provider_idempotency_key = Some ''sb:comp''\<rparr>"

definition rx_run :: "reference_event list \<Rightarrow> reference_adapter" where
  "rx_run events = reference_run (\<lambda>s. s) rx_clock (\<lambda>_. False) events rx_start"

text \<open>An execution under key \<open>k\<close> whose response is lost, and its retry.\<close>

definition rx_lost_and_retried :: "reference_event list" where
  "rx_lost_and_retried =
     [RE_enqueue_execute SX_APPLIED_RESPONSE_LOST,
      RE_call (ExecuteCall (rx_context ''a1'' (Some ''k'')) (rx_execute EFFECT_MUTATE_PROVIDER_KEY)),
      RE_call (ExecuteCall (rx_context ''a2'' (Some ''k'')) (rx_execute EFFECT_MUTATE_PROVIDER_KEY))]"

lemma rx_started: "new_reference_adapter empty_store 0 = Inr rx_start"
  by (simp add: new_reference_adapter_def rx_start_def)

lemma rx_one_resource:
  "map (\<lambda>r. (rr_resource_id r, rr_external_operation_id r)) (rs_all (ra_store (rx_run rx_lost_and_retried))) =
     [(''r1'', ''refop:op:a1'')]"
  by code_simp

theorem reference_store_stays_consistent_witness:
  "adapter_ok (rx_run rx_lost_and_retried) \<and> length (rs_all (ra_store (rx_run rx_lost_and_retried))) = 1"
  using reference_store_stays_consistent [OF rx_started] arg_cong [OF rx_one_resource, of length]
  by (simp add: rx_run_def)

theorem provider_key_creates_once_witness:
  "length (mutations_under ''k'' (ra_store (rx_run rx_lost_and_retried))) \<le> 1 \<and>
     mutations_under ''k'' (ra_store (rx_run rx_lost_and_retried)) \<noteq> []"
proof
  show "length (mutations_under ''k'' (ra_store (rx_run rx_lost_and_retried))) \<le> 1"
    unfolding rx_run_def by (rule provider_key_creates_once [OF rx_started])
  show "mutations_under ''k'' (ra_store (rx_run rx_lost_and_retried)) \<noteq> []" by code_simp
qed

definition rx_applied :: execution_evidence where
  "rx_applied = projr (fst (reference_execute (\<lambda>s. s) rx_clock False (rx_context ''a1'' (Some ''k''))
     (rx_execute EFFECT_MUTATE_PROVIDER_KEY) rx_start))"

definition rx_after :: reference_adapter where
  "rx_after = snd (reference_execute (\<lambda>s. s) rx_clock False (rx_context ''a1'' (Some ''k''))
     (rx_execute EFFECT_MUTATE_PROVIDER_KEY) rx_start)"

lemma rx_applied_outcome:
  "case fst (reference_execute (\<lambda>s. s) rx_clock False (rx_context ''a1'' (Some ''k''))
     (rx_execute EFFECT_MUTATE_PROVIDER_KEY) rx_start) of Inl _ \<Rightarrow> False | Inr x \<Rightarrow> xe_outcome x = EO_APPLIED"
  by code_simp

theorem execution_evidence_is_honest_witness:
  "xe_outcome rx_applied = EO_APPLIED \<and>
     (\<exists>made \<in> set (rs_all (ra_store rx_after)). rr_applied made \<and>
        xe_external_operation_id rx_applied = Some (rr_external_operation_id made))"
proof -
  obtain x where x: "fst (reference_execute (\<lambda>s. s) rx_clock False (rx_context ''a1'' (Some ''k''))
     (rx_execute EFFECT_MUTATE_PROVIDER_KEY) rx_start) = Inr x" "xe_outcome x = EO_APPLIED"
    using rx_applied_outcome by (auto split: sum.splits)
  then have run: "reference_execute (\<lambda>s. s) rx_clock False (rx_context ''a1'' (Some ''k''))
     (rx_execute EFFECT_MUTATE_PROVIDER_KEY) rx_start = (Inr x, rx_after)"
    by (simp add: rx_after_def prod_eq_iff)
  have start: "rx_start = reference_run (\<lambda>s. s) rx_clock (\<lambda>_. False) [] rx_start" by (simp add: reference_run_def)
  from execution_evidence_is_honest [OF rx_started start run] x show ?thesis by (simp add: rx_applied_def)
qed

definition rx_verified :: "verification_evidence fallible \<times> reference_adapter" where
  "rx_verified = reference_verify rx_clock False (rx_context ''a2'' (Some ''k''))
     (rx_verify EFFECT_MUTATE_PROVIDER_KEY VT_ORIGINAL_EFFECT) (rx_run rx_lost_and_retried)"

lemma rx_verified_outcome:
  "case fst rx_verified of Inl _ \<Rightarrow> False | Inr x \<Rightarrow> ve_outcome x = EO_APPLIED"
  by code_simp

theorem verification_agrees_with_the_store_witness:
  "\<exists>x. fst rx_verified = Inr x \<and> ve_outcome x = EO_APPLIED \<and>
     (\<exists>r \<in> set (rs_all (ra_store (rx_run rx_lost_and_retried))). rr_applied r)"
proof -
  obtain x where x: "fst rx_verified = Inr x" "ve_outcome x = EO_APPLIED"
    using rx_verified_outcome by (auto split: sum.splits)
  have scripts: "ra_verify_scripts (rx_run rx_lost_and_retried) = []" by code_simp
  have run: "reference_verify rx_clock False (rx_context ''a2'' (Some ''k''))
     (rx_verify EFFECT_MUTATE_PROVIDER_KEY VT_ORIGINAL_EFFECT) (rx_run rx_lost_and_retried) = (Inr x, snd rx_verified)"
    using x(1) by (simp add: rx_verified_def prod_eq_iff)
  have target: "vq_target (rx_verify EFFECT_MUTATE_PROVIDER_KEY VT_ORIGINAL_EFFECT) = VT_ORIGINAL_EFFECT"
    by (simp add: rx_verify_def)
  from verification_agrees_with_the_store [OF rx_started rx_run_def scripts run target] x show ?thesis by blast
qed

text \<open>A compensation that is sent and times out, and its retry.\<close>

definition rx_to_compensate :: "reference_event list" where
  "rx_to_compensate = rx_lost_and_retried @ [RE_enqueue_compensate SC_UNKNOWN_TIMEOUT_AFTER_SEND]"

definition rx_compensated :: "compensation_evidence fallible \<times> reference_adapter" where
  "rx_compensated = reference_compensate rx_clock (rx_context ''b1'' (Some ''sb:comp'')) (rx_compensate ''b1'')
     (rx_run rx_to_compensate)"

lemma rx_compensated_outcome:
  "case fst rx_compensated of Inl _ \<Rightarrow> False | Inr x \<Rightarrow> ce_outcome x = EO_UNKNOWN"
  by code_simp

theorem repeated_compensation_changes_nothing_witness:
  "(\<exists>y. fst (reference_compensate rx_clock (rx_context ''b2'' (Some ''sb:comp'')) (rx_compensate ''b2'')
       (snd rx_compensated)) = Inr y \<and> ce_outcome y = EO_APPLIED) \<and>
   ra_store (snd (reference_compensate rx_clock (rx_context ''b2'' (Some ''sb:comp'')) (rx_compensate ''b2'')
       (snd rx_compensated))) = ra_store (snd rx_compensated)"
proof -
  obtain x where x: "fst rx_compensated = Inr x" "ce_outcome x = EO_UNKNOWN"
    using rx_compensated_outcome by (auto split: sum.splits)
  let ?again = "reference_compensate rx_clock (rx_context ''b2'' (Some ''sb:comp'')) (rx_compensate ''b2'') (snd rx_compensated)"
  have sent: "reference_compensate rx_clock (rx_context ''b1'' (Some ''sb:comp'')) (rx_compensate ''b1'')
     (reference_run (\<lambda>s. s) rx_clock (\<lambda>_. False) rx_to_compensate rx_start) = (Inr x, snd rx_compensated)"
    using x(1) by (simp add: rx_compensated_def rx_run_def prod_eq_iff)
  have key: "cq_provider_idempotency_key (rx_compensate i) = Some ''sb:comp''" for i by (simp add: rx_compensate_def)
  have rid: "resource_id_of (cq_compensation_arguments (rx_compensate i)) = Some ''r1''" for i
    by (simp add: rx_compensate_def rx_arguments_def resource_id_of_def)
  have executions: "no_execution_under ''sb:comp'' (rx_to_compensate @ [])"
    by (simp add: no_execution_under_def rx_to_compensate_def rx_lost_and_retried_def rx_context_def)
  have again: "reference_compensate rx_clock (rx_context ''b2'' (Some ''sb:comp'')) (rx_compensate ''b2'')
     (reference_run (\<lambda>s. s) rx_clock (\<lambda>_. False) [] (snd rx_compensated)) = (fst ?again, snd ?again)"
    by (simp add: reference_run_def)
  have sent_out: "ce_outcome x \<noteq> EO_NOT_APPLIED" by (simp add: x)
  from repeated_compensation_changes_nothing [OF rx_started sent sent_out key executions key rid _ again]
  show ?thesis by (simp add: reference_run_def)
qed

section \<open>The adapter in the registry\<close>

text \<open>The registry takes the adapter for all six effects, and dispatches each to its declaration.\<close>

lemma reference_provider_registers:
  "\<exists>registry. registry_register (reference_provider sha clock own a) empty_registry = Inr registry \<and>
     (\<forall>effect \<in> set REFERENCE_EFFECTS. descriptor_for registry effect = reference_descriptor effect)"
proof -
  let ?p = "reference_provider sha clock own a"
  have checked: "map_err (check_registration ?p empty_registry) es = Inr es" if "set es \<subseteq> set REFERENCE_EFFECTS" for es
    using that
    by (induction es) (auto simp: check_registration_def empty_registry_def reference_provider_def
        dest!: reference_descriptor_Inr)
  have supported: "pa_supported_effects ?p = REFERENCE_EFFECTS" by (simp add: reference_provider_def)
  have "registry_register ?p empty_registry = Inr (empty_registry\<lparr>
      cr_adapters := (\<lambda>e. if e \<in> set REFERENCE_EFFECTS then Some ?p else cr_adapters empty_registry e),
      cr_order := cr_order empty_registry @ REFERENCE_EFFECTS\<rparr>)"
    unfolding registry_register_def supported using checked [of REFERENCE_EFFECTS]
    by (simp add: REFERENCE_EFFECTS_def)
  then show ?thesis by (simp add: descriptor_for_def adapter_for_def reference_provider_def)
qed

text \<open>
  A second unkeyed mutation of a resource, by the effect of an operation loaded from the journal, raises after
  its script was taken: only the module's own effect object gets a name of its own.
\<close>

lemma second_unkeyed_mutation_raises:
  "fst (reference_execute (\<lambda>s. s) rx_clock False (rx_context ''a2'' None) (rx_execute EFFECT_MUTATE_NONE)
     (rx_run [RE_call (ExecuteCall (rx_context ''a1'' None) (rx_execute EFFECT_MUTATE_NONE))])) =
     Inl (ContractValidationError ''duplicate_key'')"
  by code_simp

lemma second_unkeyed_mutation_is_named:
  "map rr_resource_id (rs_all (ra_store (snd (reference_execute (\<lambda>s. s) rx_clock True (rx_context ''a2'' None)
     (rx_execute EFFECT_MUTATE_NONE)
     (rx_run [RE_call (ExecuteCall (rx_context ''a1'' None) (rx_execute EFFECT_MUTATE_NONE))]))))) = [''r1'', ''r1#a2'']"
  by code_simp

end
