(* ===== verification/Application_Boundary.thy ===== *)
theory Application_Boundary
  imports Approval_Service Runtime_Submit Recovery_Service Compensation_Service
begin

text \<open>
  The edge of the application service: identities and roles (\<^verbatim>\<open>application/auth.py\<close>), the ids derived from
  a request (\<^verbatim>\<open>application/ids.py\<close>), and the bounds on untrusted JSON (\<^verbatim>\<open>application/input_validation.py\<close>).
  \<open>uuid5\<close> is the text of the name-based UUID under the module's namespace, a parameter.
\<close>

section \<open>Identities\<close>

datatype role = CALLER | READER | OPERATOR | APPROVER

record authenticated_identity =
  ai_principal :: principal_ref
  ai_roles :: "role list"

datatype application_error =
    ApplicationServiceError string bool
  | AuthorizationError string
  | AuthenticationError string

type_synonym 'a app_result = "application_error + 'a"

definition identity_require :: "authenticated_identity \<Rightarrow> role list \<Rightarrow> unit app_result" where
  "identity_require identity allowed =
     (if set (ai_roles identity) \<inter> set allowed = {} then Inl (AuthorizationError ''insufficient_role'')
      else Inr ())"

text \<open>The configured tokens, a dict: each token once.\<close>

type_synonym token_authenticator = "(string \<times> authenticated_identity) list"

definition make_token_authenticator :: "token_authenticator \<Rightarrow> token_authenticator fallible" where
  "make_token_authenticator identities_by_token =
     bind_err (guard_err (identities_by_token \<noteq> []) (PyValueError ''at least one configured token is required'')) (\<lambda>_.
     bind_err (guard_err (list_all (\<lambda>ti. fst ti \<noteq> []) identities_by_token)
       (PyValueError ''configured tokens must be non-empty'')) (\<lambda>_.
     Inr identities_by_token))"

text \<open>\<open>hmac.compare_digest\<close> raises \<open>TypeError\<close> on a string that is not ASCII.\<close>

definition is_ascii :: "string \<Rightarrow> bool" where
  "is_ascii s \<longleftrightarrow> list_all (\<lambda>c. of_char c < (128 :: nat)) s"

definition compare_digest :: "string \<Rightarrow> string \<Rightarrow> bool fallible" where
  "compare_digest a b =
     (if is_ascii a \<and> is_ascii b then Inr (a = b) else Inl (OtherException ''TypeError''))"

primrec match_token ::
  "string \<Rightarrow> token_authenticator \<Rightarrow> authenticated_identity option \<Rightarrow> authenticated_identity option fallible" where
  "match_token credential [] found = Inr found"
| "match_token credential (ti # rest) found =
     bind_err (compare_digest credential (fst ti)) (\<lambda>same.
     match_token credential rest (if same then Some (snd ti) else found))"

definition authenticate ::
  "token_authenticator \<Rightarrow> string option \<Rightarrow> authenticated_identity app_result fallible" where
  "authenticate identities_by_token credential =
     (case credential of
        None \<Rightarrow> Inr (Inl (AuthenticationError ''missing_credentials''))
      | Some token \<Rightarrow>
          bind_err (match_token token identities_by_token None) (\<lambda>match.
          Inr (case match of
                 None \<Rightarrow> Inl (AuthenticationError ''invalid_credentials'')
               | Some identity \<Rightarrow> Inr identity)))"

section \<open>Ids of a request\<close>

definition request_id :: "(string \<Rightarrow> string) \<Rightarrow> string \<Rightarrow> string \<Rightarrow> opaque_id" where
  "request_id uuid5 identity purpose = OpaqueId (uuid5 (identity @ '':'' @ purpose))"

definition request_identity :: "principal_ref \<Rightarrow> string \<Rightarrow> string" where
  "request_identity requester idempotency_key =
     ''sb:v1:request:'' @ principal_type_value (pr_type requester) @ '':'' @ pr_id requester @ '':'' @ idempotency_key"

definition submit_ids_for :: "(string \<Rightarrow> string) \<Rightarrow> string \<Rightarrow> submit_ids" where
  "submit_ids_for uuid5 identity =
     \<lparr>si_operation_id = request_id uuid5 identity ''operation'',
      si_created_audit_event_id = request_id uuid5 identity ''operation-created-audit'',
      si_policy_decision_id = request_id uuid5 identity ''policy-decision'',
      si_policy_audit_event_id = request_id uuid5 identity ''policy-audit'',
      si_policy_transition_audit_event_id = request_id uuid5 identity ''policy-transition-audit'',
      si_allow_outbox_event_id = request_id uuid5 identity ''policy-allow-outbox'',
      si_approval_id = request_id uuid5 identity ''approval'',
      si_approval_audit_event_id = request_id uuid5 identity ''approval-audit''\<rparr>"

definition approval_ids_for :: "(string \<Rightarrow> string) \<Rightarrow> opaque_id \<Rightarrow> string \<Rightarrow> approval_decision_ids" where
  "approval_ids_for uuid5 operation_id action_key =
     (let identity = ''sb:v1:approval:'' @ oid_value operation_id @ '':'' @ action_key in
        \<lparr>di_transition_audit_event_id = request_id uuid5 identity ''transition-audit'',
         di_approval_audit_event_id = request_id uuid5 identity ''decision-audit'',
         di_outbox_event_id = request_id uuid5 identity ''outbox''\<rparr>)"

definition recovery_ids_for :: "(string \<Rightarrow> string) \<Rightarrow> opaque_id \<Rightarrow> string \<Rightarrow> recovery_ids" where
  "recovery_ids_for uuid5 operation_id action_key =
     (let make = request_id uuid5 (''sb:v1:recovery:'' @ oid_value operation_id @ '':'' @ action_key) in
        \<lparr>vi_verification_id = make ''verification'',
         vi_verification_start_audit_event_id = make ''verification-start-audit'',
         vi_verification_complete_audit_event_id = make ''verification-complete-audit'',
         vi_start_transition_audit_event_id = make ''start-transition-audit'',
         vi_start_outbox_event_id = make ''start-outbox'',
         vi_complete_transition_audit_event_id = make ''complete-transition-audit'',
         vi_retry_outbox_event_id = make ''retry-outbox'',
         vi_manual_audit_event_id = make ''manual-audit'',
         vi_reconciliation_decision_id = make ''reconciliation-decision'',
         vi_reconciliation_audit_event_id = make ''reconciliation-audit'',
         vi_execution_recover =
           \<lparr>ri_evidence_audit_event_id = make ''execution-evidence-audit'',
            ri_execution_transition_audit_event_id = make ''execution-transition-audit'',
            ri_execution_outbox_event_id = make ''execution-outbox'',
            ri_verification_id = make ''execution-verification'',
            ri_verification_audit_event_id = make ''execution-verification-audit''\<rparr>\<rparr>)"

definition request_retry_ids ::
  "(string \<Rightarrow> string) \<Rightarrow> string \<Rightarrow> opaque_id \<Rightarrow> int \<Rightarrow> compensation_retry_ids fallible" where
  "request_retry_ids uuid5 identity compensation_id attempt_number =
     (let make = request_id uuid5 (identity @ '':'' @ oid_value compensation_id @ '':'' @ int_text attempt_number) in
      Inr
        \<lparr>ty_parent_retry_transition_audit_event_id = make ''parent_retry_transition_audit_event_id'',
         ty_parent_retry_outbox_event_id = make ''parent_retry_outbox_event_id'',
         ty_attempt_id = make ''attempt_id'',
         ty_attempt_audit_event_id = make ''attempt_audit_event_id'',
         ty_attempt_outbox_event_id = make ''attempt_outbox_event_id'',
         ty_resume_verification_id = make ''resume_verification_id'',
         ty_resume_verification_start_audit_event_id = make ''resume_verification_start_audit_event_id'',
         ty_resume_verification_complete_audit_event_id = make ''resume_verification_complete_audit_event_id'',
         ty_resume_verification_outbox_event_id = make ''resume_verification_outbox_event_id'',
         ty_resume_complete_transition_audit_event_id = make ''resume_complete_transition_audit_event_id'',
         ty_resume_complete_outbox_event_id = make ''resume_complete_outbox_event_id'',
         ty_evidence_audit_event_id = make ''evidence_audit_event_id'',
         ty_complete_transition_audit_event_id = make ''complete_transition_audit_event_id'',
         ty_complete_outbox_event_id = make ''complete_outbox_event_id'',
         ty_verification_id = make ''verification_id'',
         ty_verification_start_audit_event_id = make ''verification_start_audit_event_id'',
         ty_verification_complete_audit_event_id = make ''verification_complete_audit_event_id'',
         ty_verification_outbox_event_id = make ''verification_outbox_event_id''\<rparr>)"

definition compensation_ids_for :: "(string \<Rightarrow> string) \<Rightarrow> opaque_id \<Rightarrow> string \<Rightarrow> compensation_ids" where
  "compensation_ids_for uuid5 operation_id action_key =
     (let identity = ''sb:v1:compensation:'' @ oid_value operation_id @ '':'' @ action_key;
          make = request_id uuid5 identity in
        \<lparr>ti_compensation_id = make ''compensation_id'',
         ti_compensation_attempt_id = make ''compensation_attempt_id'',
         ti_start_transition_audit_event_id = make ''start_transition_audit_event_id'',
         ti_compensation_requested_audit_event_id = make ''compensation_requested_audit_event_id'',
         ti_start_outbox_event_id = make ''start_outbox_event_id'',
         ti_claim_attempt_audit_event_id = make ''claim_attempt_audit_event_id'',
         ti_evidence_audit_event_id = make ''evidence_audit_event_id'',
         ti_complete_transition_audit_event_id = make ''complete_transition_audit_event_id'',
         ti_complete_outbox_event_id = make ''complete_outbox_event_id'',
         ti_verification_id = make ''verification_id'',
         ti_verification_start_audit_event_id = make ''verification_start_audit_event_id'',
         ti_verification_complete_audit_event_id = make ''verification_complete_audit_event_id'',
         ti_verification_outbox_event_id = make ''verification_outbox_event_id'',
         ti_manual_audit_event_id = make ''manual_audit_event_id'',
         ti_operator_audit_event_id = make ''operator_audit_event_id'',
         ti_retry_ids_for = request_retry_ids uuid5 identity\<rparr>)"

text \<open>
  The identity of a request joins principal and key with colons, which both may contain: another principal of
  the same type derives the same ids from another key.
\<close>

lemma request_identities_collide:
  "request_identity (p\<lparr>pr_id := a @ '':'' @ b\<rparr>) key = request_identity (p\<lparr>pr_id := a\<rparr>) (b @ '':'' @ key)"
  by (simp add: request_identity_def)

section \<open>Bounds on untrusted input\<close>

definition MAX_JSON_DEPTH :: nat where "MAX_JSON_DEPTH = 32"
definition MAX_JSON_NODES :: nat where "MAX_JSON_NODES = 10000"
definition MAX_COLLECTION_ITEMS :: nat where "MAX_COLLECTION_ITEMS = 1000"
definition MAX_STRING_CHARACTERS :: nat where "MAX_STRING_CHARACTERS = 65536"
definition MAX_METADATA_ENTRIES :: nat where "MAX_METADATA_ENTRIES = 100"
definition MAX_METADATA_KEY_CHARACTERS :: nat where "MAX_METADATA_KEY_CHARACTERS = 100"
definition MAX_METADATA_VALUE_CHARACTERS :: nat where "MAX_METADATA_VALUE_CHARACTERS = 1000"

definition input_too_large :: sb_error where
  "input_too_large = ContractValidationError ''input_too_large''"

text \<open>What one iteration refuses of the value it popped, and what it pushes. The head of the list is the top of the stack.\<close>

definition local_bounds :: "pyobj \<Rightarrow> bool" where
  "local_bounds v =
     (case v of
        PyStr s \<Rightarrow> length s \<le> MAX_STRING_CHARACTERS
      | PyList xs \<Rightarrow> length xs \<le> MAX_COLLECTION_ITEMS
      | PyDict kvs \<Rightarrow> length kvs \<le> MAX_COLLECTION_ITEMS \<and>
          list_all (\<lambda>kv. case fst kv of PyStr k \<Rightarrow> length k \<le> MAX_STRING_CHARACTERS | _ \<Rightarrow> True) kvs
      | _ \<Rightarrow> True)"

definition pushed :: "pyobj \<Rightarrow> pyobj list" where
  "pushed v = (case v of PyList xs \<Rightarrow> xs | PyDict kvs \<Rightarrow> map snd kvs | _ \<Rightarrow> [])"

function scan_bounds :: "(pyobj \<times> nat) list \<Rightarrow> nat \<Rightarrow> unit fallible" where
  "scan_bounds [] nodes = Inr ()"
| "scan_bounds ((current, depth) # stack) nodes =
     (if MAX_JSON_NODES < Suc nodes \<or> MAX_JSON_DEPTH < depth \<or> \<not> local_bounds current then Inl input_too_large
      else scan_bounds (rev (map (\<lambda>item. (item, Suc depth)) (pushed current)) @ stack) (Suc nodes))"
  by pat_completeness auto
termination by (relation "measure (\<lambda>(_, nodes). MAX_JSON_NODES - nodes)") auto

declare scan_bounds.simps [simp del]

definition bounded_json_from_plain :: "pyobj \<Rightarrow> json fallible" where
  "bounded_json_from_plain v = bind_err (scan_bounds [(v, 0)] 0) (\<lambda>_. json_from_plain v)"

definition validate_metadata :: "(string \<times> string) list \<Rightarrow> unit fallible" where
  "validate_metadata items =
     bind_err (guard_err (length items \<le> MAX_METADATA_ENTRIES) input_too_large) (\<lambda>_.
     guard_err (list_all (\<lambda>kv. length (fst kv) \<le> MAX_METADATA_KEY_CHARACTERS \<and>
         length (snd kv) \<le> MAX_METADATA_VALUE_CHARACTERS) items) input_too_large)"

text \<open>The bounds stated on the whole value: its nodes, how deep it nests, how large every part of it is.\<close>

fun plain_nodes :: "pyobj \<Rightarrow> nat" where
  "plain_nodes (PyList xs) = Suc (sum_list (map plain_nodes xs))"
| "plain_nodes (PyDict kvs) = Suc (sum_list (map (plain_nodes \<circ> snd) kvs))"
| "plain_nodes _ = 1"

fun nests_at_most :: "nat \<Rightarrow> pyobj \<Rightarrow> bool" where
  "nests_at_most n (PyList xs) \<longleftrightarrow> list_all (\<lambda>x. 0 < n \<and> nests_at_most (n - 1) x) xs"
| "nests_at_most n (PyDict kvs) \<longleftrightarrow> list_all (\<lambda>kv. 0 < n \<and> nests_at_most (n - 1) (snd kv)) kvs"
| "nests_at_most n _ \<longleftrightarrow> True"

fun small_parts :: "pyobj \<Rightarrow> bool" where
  "small_parts (PyStr s) \<longleftrightarrow> length s \<le> 65536"
| "small_parts (PyList xs) \<longleftrightarrow> length xs \<le> 1000 \<and> list_all small_parts xs"
| "small_parts (PyDict kvs) \<longleftrightarrow> length kvs \<le> 1000 \<and>
     list_all (\<lambda>kv. (\<forall>k. fst kv = PyStr k \<longrightarrow> length k \<le> 65536) \<and> small_parts (snd kv)) kvs"
| "small_parts _ \<longleftrightarrow> True"

definition shaped :: "nat \<Rightarrow> pyobj \<Rightarrow> bool" where
  "shaped depth v \<longleftrightarrow> depth \<le> 32 \<and> nests_at_most (32 - depth) v \<and> small_parts v"

lemma shaped_parts:
  "shaped depth v \<longleftrightarrow> depth \<le> MAX_JSON_DEPTH \<and> local_bounds v \<and> (\<forall>x \<in> set (pushed v). shaped (Suc depth) x)"
proof (cases v)
  case (PyList xs)
  then show ?thesis
    by (auto simp: shaped_def pushed_def local_bounds_def list_all_iff MAX_JSON_DEPTH_def MAX_COLLECTION_ITEMS_def)
next
  case (PyDict kvs)
  then show ?thesis
    by (auto simp: shaped_def pushed_def local_bounds_def list_all_iff MAX_JSON_DEPTH_def MAX_COLLECTION_ITEMS_def
        MAX_STRING_CHARACTERS_def split: pyobj.splits)
qed (simp_all add: shaped_def pushed_def local_bounds_def MAX_JSON_DEPTH_def MAX_STRING_CHARACTERS_def)

lemma nodes_parts: "plain_nodes v = Suc (sum_list (map plain_nodes (pushed v)))"
  by (cases v) (simp_all add: pushed_def o_def)

lemma scan_bounds_reference:
  "nodes \<le> MAX_JSON_NODES \<Longrightarrow> scan_bounds stack nodes =
     (if (\<forall>(v, depth) \<in> set stack. shaped depth v) \<and>
         nodes + sum_list (map (plain_nodes \<circ> fst) stack) \<le> MAX_JSON_NODES
      then Inr () else Inl input_too_large)"
proof (induction stack nodes rule: scan_bounds.induct)
  case (2 current depth stack nodes)
  let ?parts = "rev (map (\<lambda>item. (item, Suc depth)) (pushed current))"
  show ?case
  proof (cases "MAX_JSON_NODES < Suc nodes \<or> MAX_JSON_DEPTH < depth \<or> \<not> local_bounds current")
    case True
    then show ?thesis
      using shaped_parts [of depth current] nodes_parts [of current] by (auto simp: scan_bounds.simps)
  next
    case False
    define parts where "parts = ?parts"
    have parts: "sum_list (map (plain_nodes \<circ> fst) parts) = sum_list (map plain_nodes (pushed current))"
      "(\<forall>(v, d) \<in> set parts. shaped d v) \<longleftrightarrow> shaped depth current"
      using False by (auto simp: parts_def o_def rev_map [symmetric] shaped_parts [of depth current])
    have "scan_bounds ((current, depth) # stack) nodes = scan_bounds (parts @ stack) (Suc nodes)"
      using False by (simp add: scan_bounds.simps parts_def)
    also have "\<dots> = (if (\<forall>(v, depth) \<in> set (parts @ stack). shaped depth v) \<and>
        Suc nodes + sum_list (map (plain_nodes \<circ> fst) (parts @ stack)) \<le> MAX_JSON_NODES
        then Inr () else Inl input_too_large)"
      unfolding parts_def using False by (intro "2.IH") simp_all
    finally show ?thesis using parts by (simp add: nodes_parts [of current] ball_Un o_def)
  qed
qed (simp add: scan_bounds.simps)

text \<open>
  C40. The iterative scan is the recursive bound: a JSON value is refused as \<open>input_too_large\<close> exactly when it has more
  than 10000 nodes, nests deeper than 32, or somewhere has a collection of more than 1000 items or a string or key
  of more than 65536 characters; every other value is converted.
\<close>

theorem bounded_input_is_the_reference:
  "bounded_json_from_plain v =
     (if nests_at_most 32 v \<and> small_parts v \<and> plain_nodes v \<le> 10000 then json_from_plain v else Inl input_too_large)"
  by (simp add: bounded_json_from_plain_def scan_bounds_reference shaped_def MAX_JSON_NODES_def)

end
