(* ===== verification/Operation_Search.thy ===== *)
theory Operation_Search
  imports Service_World Relay_Properties
begin

text \<open>
  Reading the journal page by page: the operator's search over operations and the audit trail of one operation
  (\<^verbatim>\<open>OperationRepository.search\<close>, \<open>count_by_state\<close>, \<^verbatim>\<open>AuditEventRepository.page_for_operation\<close> of
  \<^verbatim>\<open>persistence/repositories.py\<close>), and the lists an operation is reconstructed from. Instants are the instants the
  columns and parameters denote, operation ids compare as their UUIDs do.
\<close>

section \<open>Searching operations\<close>

record operation_query =
  oq_states :: "operation_state list option"
  oq_provider :: "string option"
  oq_created_from :: "utc_timestamp option"
  oq_created_to :: "utc_timestamp option"
  oq_cursor_created_at :: "utc_timestamp option"
  oq_cursor_operation_id :: "opaque_id option"
  oq_limit :: nat

definition default_query :: operation_query where
  "default_query = \<lparr>oq_states = None, oq_provider = None, oq_created_from = None, oq_created_to = None,
     oq_cursor_created_at = None, oq_cursor_operation_id = None, oq_limit = 50\<rparr>"

record operation_query_result =
  or_operations :: "operation list"
  or_has_more :: bool
  or_cursor_found :: bool

definition query_filters :: "operation_query \<Rightarrow> operation \<Rightarrow> bool" where
  "query_filters q o' \<longleftrightarrow>
     (case oq_states q of None \<Rightarrow> True | Some states \<Rightarrow> op_state o' \<in> set states) \<and>
     (case oq_provider q of None \<Rightarrow> True | Some p \<Rightarrow> ef_provider (in_effect (op_intent o')) = p) \<and>
     (case oq_created_from q of None \<Rightarrow> True | Some t \<Rightarrow> t \<le> op_created_at o') \<and>
     (case oq_created_to q of None \<Rightarrow> True | Some t \<Rightarrow> op_created_at o' \<le> t)"

text \<open>\<open>ORDER BY created_at DESC, operation_id\<close>.\<close>

definition newest_first :: "operation \<Rightarrow> int \<times> opaque_id" where
  "newest_first o' = (- ts_value (op_created_at o'), op_id o')"

definition beyond_cursor :: "utc_timestamp \<Rightarrow> opaque_id \<Rightarrow> operation \<Rightarrow> bool" where
  "beyond_cursor t i o' \<longleftrightarrow> op_created_at o' < t \<or> op_created_at o' = t \<and> i < op_id o'"

definition op_search :: "operation_query \<Rightarrow> journal \<Rightarrow> operation_query_result fallible" where
  "op_search q j =
     (let page = (\<lambda>keep found.
            let rows = take (oq_limit q + 1) (sort_key newest_first
                  (filter (\<lambda>o'. query_filters q o' \<and> keep o') (j_operations j)))
            in Inr \<lparr>or_operations = take (oq_limit q) rows, or_has_more = oq_limit q < length rows,
                    or_cursor_found = found\<rparr>)
      in case (oq_cursor_created_at q, oq_cursor_operation_id q) of
           (None, None) \<Rightarrow> page (\<lambda>_. True) True
         | (Some t, Some i) \<Rightarrow>
             page (beyond_cursor t i)
               (list_ex (\<lambda>o'. query_filters q o' \<and> op_created_at o' = t \<and> op_id o' = i) (j_operations j))
         | _ \<Rightarrow> Inl (PyValueError ''cursor fields must be supplied together''))"

definition op_list_all :: "journal \<Rightarrow> operation list" where
  "op_list_all j = sort_key newest_first (j_operations j)"

text \<open>\<open>count_by_state\<close>: only the states that occur are keys.\<close>

definition op_count_by_state :: "journal \<Rightarrow> operation_state \<rightharpoonup> nat" where
  "op_count_by_state j s =
     (let n = length (filter (\<lambda>o'. op_state o' = s) (j_operations j)) in if n = 0 then None else Some n)"

section \<open>What an operation is reconstructed from\<close>

definition po_list_for_operation :: "opaque_id \<Rightarrow> journal \<Rightarrow> policy_decision list" where
  "po_list_for_operation i j =
     sort_key (\<lambda>d. (pd_evaluated_at d, pd_id d)) (filter (\<lambda>d. pd_operation_id d = i) (j_policy_decisions j))"

definition ap_list_for_operation :: "opaque_id \<Rightarrow> journal \<Rightarrow> approval list" where
  "ap_list_for_operation i j =
     sort_key (\<lambda>a. (ap_requested_at a, ap_id a)) (filter (\<lambda>a. ap_operation_id a = i) (j_approvals j))"

definition rc_list_for_operation :: "opaque_id \<Rightarrow> journal \<Rightarrow> stored_reconciliation_decision list" where
  "rc_list_for_operation i j =
     sort_key (\<lambda>d. (sr_created_at d, sr_id d)) (filter (\<lambda>d. sr_operation_id d = i) (j_reconciliations j))"

definition cp_get_by_original_operation :: "opaque_id \<Rightarrow> journal \<Rightarrow> compensation option" where
  "cp_get_by_original_operation i j = find (\<lambda>c. cm_original_operation_id c = i) (j_compensations j)"

section \<open>Keyset pagination\<close>

text \<open>
  A reader follows the pages: each next page starts beyond the key of the last row of the page before, as long as
  the answer says there is more.
\<close>

primrec follow :: "('k option \<Rightarrow> 'a list \<times> bool) \<Rightarrow> ('a \<Rightarrow> 'k) \<Rightarrow> nat \<Rightarrow> 'k option \<Rightarrow> 'a list list" where
  "follow fetch key 0 cursor = []"
| "follow fetch key (Suc n) cursor =
     (case fetch cursor of
        (page, has_more) \<Rightarrow> page # (if has_more then follow fetch key n (Some (key (last page))) else []))"

definition page_of :: "nat \<Rightarrow> 'a list \<Rightarrow> 'a list \<times> bool" where
  "page_of limit rest = (take limit rest, limit < length rest)"

text \<open>
  The contract of a paged query: in a good state its rows are in strictly ascending order of the key, the first
  page is their front, and a page after a key is the front of the rows beyond the key.
\<close>

locale keyset_pages =
  fixes key :: "'a \<Rightarrow> 'k :: linorder"
    and rows :: "'s \<Rightarrow> 'a list"
    and good :: "'s \<Rightarrow> bool"
    and limit :: "'s \<Rightarrow> nat"
    and fetch :: "'s \<Rightarrow> 'k option \<Rightarrow> 'a list \<times> bool"
  assumes ascending: "good s \<Longrightarrow> sorted_wrt (\<lambda>x y. key x < key y) (rows s)"
    and some: "good s \<Longrightarrow> 1 \<le> limit s"
    and first_page: "good s \<Longrightarrow> fetch s None = page_of (limit s) (rows s)"
    and next_page: "good s \<Longrightarrow> r \<in> set (rows s) \<Longrightarrow>
      fetch s (Some (key r)) = page_of (limit s) (filter (\<lambda>x. key r < key x) (rows s))"
begin

lemma beyond_prefix:
  assumes "good s" and "rows s = front @ rest" and "front \<noteq> []"
  shows "filter (\<lambda>r. key (last front) < key r) (rows s) = rest"
proof -
  from assms(3) obtain xs x where front: "front = xs @ [x]" by (metis rev_exhaust)
  with ascending [OF assms(1)] assms(2) have "\<forall>y \<in> set (xs @ [x]). \<not> key x < key y" "\<forall>y \<in> set rest. key x < key y"
    by (auto simp: sorted_wrt_append dest: order.asym)
  then have "filter (\<lambda>r. key x < key r) (xs @ [x]) = []" "filter (\<lambda>r. key x < key r) rest = rest"
    by (auto simp: filter_empty_conv filter_id_conv)
  then show ?thesis using assms(2) front by simp
qed

text \<open>Every row is on exactly one page, in order, and the pages end: one more than there are rows is enough.\<close>

lemma follow_rest:
  assumes good: "good s"
  shows "rows s = front @ rest \<Longrightarrow> length rest < n \<Longrightarrow>
    fetch s cursor = page_of (limit s) rest \<Longrightarrow> concat (follow (fetch s) key n cursor) = rest"
proof (induction n arbitrary: front rest cursor)
  case (Suc n)
  show ?case
  proof (cases "limit s < length rest")
    case True
    let ?page = "take (limit s) rest" and ?next = "drop (limit s) rest"
    have page: "?page \<noteq> []" using True some [OF good] by auto
    have split: "rows s = (front @ ?page) @ ?next" using Suc.prems(1) by simp
    have "last ?page \<in> set (rows s)" unfolding split using last_in_set [OF page] by (metis Un_iff set_append)
    from next_page [OF good this] beyond_prefix [OF good split] page
    have "fetch s (Some (key (last ?page))) = page_of (limit s) ?next" by simp
    with Suc.IH [OF split] Suc.prems True some [OF good]
    have "concat (follow (fetch s) key n (Some (key (last ?page)))) = ?next" by simp
    then show ?thesis using True Suc.prems(3) by (simp add: page_of_def)
  next
    case False
    with Suc.prems(3) show ?thesis by (simp add: page_of_def)
  qed
qed simp

lemma follow_enumerates:
  "good s \<Longrightarrow> length (rows s) < n \<Longrightarrow> concat (follow (fetch s) key n None) = rows s"
  using follow_rest [of s "[]" "rows s" n None] first_page by simp

end

subsection \<open>Operations\<close>

text \<open>A page as the reader sees it; a cursor that is not found is an error, and there is no page.\<close>

definition search_page :: "operation_query \<times> journal \<Rightarrow> (int \<times> opaque_id) option \<Rightarrow> operation list \<times> bool" where
  "search_page s cursor =
     (case op_search (case cursor of
          None \<Rightarrow> fst s
        | Some (t, i) \<Rightarrow> (fst s)\<lparr>oq_cursor_created_at := Some (UtcTimestamp (- t)), oq_cursor_operation_id := Some i\<rparr>)
          (snd s) of
        Inl _ \<Rightarrow> ([], False)
      | Inr r \<Rightarrow> if or_cursor_found r then (or_operations r, or_has_more r) else ([], False))"

definition matching_operations :: "operation_query \<times> journal \<Rightarrow> operation list" where
  "matching_operations s = sort_key newest_first (filter (query_filters (fst s)) (j_operations (snd s)))"

definition searchable :: "operation_query \<times> journal \<Rightarrow> bool" where
  "searchable s \<longleftrightarrow> distinct (tbl_keys op_id (j_operations (snd s))) \<and> 1 \<le> oq_limit (fst s) \<and>
     oq_cursor_created_at (fst s) = None \<and> oq_cursor_operation_id (fst s) = None"

lemma sort_key_ascending:
  "distinct (map f xs) \<Longrightarrow> sorted_wrt (\<lambda>x y. f x < f y) (sort_key f xs)"
proof -
  assume "distinct (map f xs)"
  then have "distinct (map f (sort_key f xs))" by (simp add: distinct_map inj_on_def)
  moreover have "sorted (map f (sort_key f xs))" by simp
  ultimately have "sorted_wrt (<) (map f (sort_key f xs))" by (simp add: strict_sorted_iff)
  then show ?thesis by (simp add: sorted_wrt_map)
qed

lemma newest_first_distinct:
  "distinct (tbl_keys op_id xs) \<Longrightarrow> distinct (map newest_first (filter P xs))"
  by (auto simp: tbl_keys_def distinct_map newest_first_def inj_on_def)

lemma beyond_cursor_key: "beyond_cursor (op_created_at r) (op_id r) o' \<longleftrightarrow> newest_first r < newest_first o'"
  by (auto simp: beyond_cursor_def newest_first_def less_utc_timestamp_def less_prod_def' intro: utc_timestamp.expand)

lemma filters_without_cursor [simp]:
  "query_filters (q\<lparr>oq_cursor_created_at := t, oq_cursor_operation_id := i\<rparr>) = query_filters q"
  by (simp add: query_filters_def fun_eq_iff)

interpretation operation_pages: keyset_pages newest_first matching_operations searchable "\<lambda>s. oq_limit (fst s)" search_page
proof unfold_locales
  fix s assume good: "searchable s"
  show "sorted_wrt (\<lambda>x y. newest_first x < newest_first y) (matching_operations s)"
    using good by (auto simp: matching_operations_def searchable_def intro!: sort_key_ascending newest_first_distinct)
  show "1 \<le> oq_limit (fst s)" using good by (simp add: searchable_def)
  show "search_page s None = page_of (oq_limit (fst s)) (matching_operations s)"
    using good by (auto simp: search_page_def op_search_def searchable_def matching_operations_def Let_def page_of_def)
  fix r assume "r \<in> set (matching_operations s)"
  then have found: "list_ex (\<lambda>o'. query_filters (fst s) o' \<and> op_created_at o' = op_created_at r \<and> op_id o' = op_id r)
      (j_operations (snd s))"
    by (auto simp: matching_operations_def list_ex_iff)
  have created: "UtcTimestamp (- fst (newest_first r)) = op_created_at r" "snd (newest_first r) = op_id r"
    by (simp_all add: newest_first_def)
  show "search_page s (Some (newest_first r)) =
      page_of (oq_limit (fst s)) (filter (\<lambda>x. newest_first r < newest_first x) (matching_operations s))"
    using found created
    by (cases "newest_first r") (auto simp: search_page_def op_search_def matching_operations_def Let_def
        filter_sort beyond_cursor_key conj_commute page_of_def)
qed

text \<open>
  C38. Following the pages of an operator's search over an unchanged journal reads every operation that matches the
  filters exactly once, newest first, whatever the page size, and ends after at most one page per operation and
  one more.
\<close>

theorem search_pages_enumerate:
  assumes "distinct (tbl_keys op_id (j_operations j))" and "1 \<le> oq_limit q"
    and "oq_cursor_created_at q = None" and "oq_cursor_operation_id q = None"
    and "length (j_operations j) < n"
  shows "concat (follow (search_page (q, j)) newest_first n None) =
    sort_key newest_first (filter (query_filters q) (j_operations j))"
proof -
  have "length (matching_operations (q, j)) \<le> length (j_operations j)" by (simp add: matching_operations_def)
  then have "length (matching_operations (q, j)) < n" using assms(5) by simp
  with assms operation_pages.follow_enumerates [of "(q, j)" n] show ?thesis
    by (simp add: searchable_def matching_operations_def)
qed

text \<open>Operation ids are the primary key: distinct in every reachable journal.\<close>

lemma wrote_ids:
  "wrote j j' \<Longrightarrow> distinct (tbl_keys op_id (j_operations j)) \<Longrightarrow> distinct (tbl_keys op_id (j_operations j'))"
  by (auto elim!: wrote.cases simp: journal_simps op_insert_def op_exists_def op_update_cas_def tbl_keys_set
      split: if_split_asm option.split_asm)

lemma reachable_ids:
  assumes "reachable j"
  shows "distinct (tbl_keys op_id (j_operations j))"
  using reachable_writes [OF assms]
proof (induction rule: rtranclp_induct)
  case base
  show ?case by (simp add: empty_journal_def)
qed (rule wrote_ids)

subsection \<open>Audit events\<close>

definition audit_pages_of :: "opaque_id \<times> nat \<times> journal \<Rightarrow> int option \<Rightarrow> audit_event list \<times> bool" where
  "audit_pages_of s cursor =
     (case s of (i, limit, j) \<Rightarrow> au_page_for_operation i (case cursor of None \<Rightarrow> 0 | Some n \<Rightarrow> n) limit j)"

definition audit_rows :: "opaque_id \<times> nat \<times> journal \<Rightarrow> audit_event list" where
  "audit_rows s = (case s of (i, limit, j) \<Rightarrow> filter (\<lambda>e. au_operation_id e = i) (j_audit_events j))"

definition auditable :: "opaque_id \<times> nat \<times> journal \<Rightarrow> bool" where
  "auditable s \<longleftrightarrow> (case s of (i, limit, j) \<Rightarrow> 1 \<le> limit \<and> reachable j)"

lemma audit_rows_numbered:
  assumes "reachable j"
  shows "\<exists>n. map au_sequence (filter (\<lambda>e. au_operation_id e = i) (j_audit_events j)) = map int [1..<Suc n]"
  using reachable_audit [OF assms] unfolding aulog.contiguous_def by blast

lemma numbered_rows:
  assumes "map au_sequence rows = map int [1..<Suc n]"
  shows "sorted_wrt (\<lambda>x y. au_sequence x < au_sequence y) rows" and "sort_key au_sequence rows = rows"
    and "filter (\<lambda>e. 0 < au_sequence e) rows = rows"
proof -
  have "sorted_wrt (<) (map au_sequence rows)" unfolding assms by (simp add: sorted_wrt_map sorted_wrt_upt del: upt_Suc)
  then show "sorted_wrt (\<lambda>x y. au_sequence x < au_sequence y) rows" by (simp add: sorted_wrt_map)
  from \<open>sorted_wrt (<) (map au_sequence rows)\<close> show "sort_key au_sequence rows = rows"
    by (intro sort_key_id) (simp add: strict_sorted_iff)
  have "0 < au_sequence e" if "e \<in> set rows" for e
  proof -
    from that have "au_sequence e \<in> set (map au_sequence rows)" by simp
    then show ?thesis unfolding assms by auto
  qed
  then show "filter (\<lambda>e. 0 < au_sequence e) rows = rows" by (simp add: filter_id_conv)
qed

interpretation audit_log_pages: keyset_pages au_sequence audit_rows auditable "\<lambda>s. fst (snd s)" audit_pages_of
proof unfold_locales
  fix s assume good: "auditable s"
  obtain i limit j where s: "s = (i, limit, j)" by (cases s)
  from good obtain n where
      n: "map au_sequence (filter (\<lambda>e. au_operation_id e = i) (j_audit_events j)) = map int [1..<Suc n]"
    using audit_rows_numbered by (auto simp: auditable_def s)
  note rows = numbered_rows [OF n]
  show "sorted_wrt (\<lambda>x y. au_sequence x < au_sequence y) (audit_rows s)" using rows by (simp add: audit_rows_def s)
  show "1 \<le> fst (snd s)" using good by (simp add: auditable_def s)
  show "audit_pages_of s None = page_of (fst (snd s)) (audit_rows s)"
    using rows by (simp add: audit_pages_of_def au_page_for_operation_def au_list_for_operation_def audit_rows_def
        page_of_def s Let_def)
  fix e assume "e \<in> set (audit_rows s)"
  show "audit_pages_of s (Some (au_sequence e)) =
      page_of (fst (snd s)) (filter (\<lambda>x. au_sequence e < au_sequence x) (audit_rows s))"
    using rows by (simp add: audit_pages_of_def au_page_for_operation_def au_list_for_operation_def audit_rows_def
        page_of_def s Let_def)
qed

text \<open>
  C39. Following the pages of an operation's audit trail, from sequence 0 and then from the last sequence of each
  page, reads in every reachable journal each of its events exactly once, in the order they were appended.
\<close>

theorem audit_pages_enumerate:
  assumes "reachable j" and "1 \<le> limit" and "length (j_audit_events j) < n"
  shows "concat (follow (audit_pages_of (i, limit, j)) au_sequence n None) =
    filter (\<lambda>e. au_operation_id e = i) (j_audit_events j)"
proof -
  have "length (audit_rows (i, limit, j)) \<le> length (j_audit_events j)" by (simp add: audit_rows_def)
  then have "length (audit_rows (i, limit, j)) < n" using assms(3) by simp
  with audit_log_pages.follow_enumerates [of "(i, limit, j)" n] assms show ?thesis
    by (simp add: auditable_def audit_rows_def)
qed

section \<open>Counting\<close>

definition count_in :: "(operation_state \<rightharpoonup> nat) \<Rightarrow> operation_state \<Rightarrow> nat" where
  "count_in counts s = (case counts s of None \<Rightarrow> 0 | Some n \<Rightarrow> n)"

lemma count_in_state: "count_in (op_count_by_state j) s = length (filter (\<lambda>o'. op_state o' = s) (j_operations j))"
  by (simp add: count_in_def op_count_by_state_def Let_def)

text \<open>The counts of all states add up to the operations: every state is counted once.\<close>

lemma counts_add_up:
  "(\<Sum>s \<leftarrow> operation_state_members. count_in (op_count_by_state j) s) = length (j_operations j)"
proof -
  have "(\<Sum>s \<leftarrow> operation_state_members. length (filter (\<lambda>o'. op_state o' = s) xs)) = length xs" for xs :: "operation list"
  proof (induction xs)
    case (Cons x xs)
    then show ?case by (cases "op_state x") (simp_all add: operation_state_members_def)
  qed (simp add: operation_state_members_def)
  then show ?thesis by (simp add: count_in_state)
qed

text \<open>
  A cursor is looked up among the operations that still match: once the operation it names has left the filter
  (a transition out of the searched state), the next page is refused as an invalid cursor.
\<close>

lemma cursor_is_lost_when_the_operation_moves:
  assumes "distinct (tbl_keys op_id (j_operations j))" and "op_get (op_id o') j = Some o'"
    and "\<not> query_filters q o'"
    and "op_search (q\<lparr>oq_cursor_created_at := Some (op_created_at o'), oq_cursor_operation_id := Some (op_id o')\<rparr>) j = Inr r"
  shows "\<not> or_cursor_found r"
proof -
  have same: "x = o'" if "x \<in> set (j_operations j)" "op_id x = op_id o'" for x
    using tbl_get_mem [OF assms(1) that(1)] assms(2) that(2) by (simp add: op_get_def)
  have "\<not> list_ex (\<lambda>x. query_filters q x \<and> op_created_at x = op_created_at o' \<and> op_id x = op_id o') (j_operations j)"
    using same assms(3) unfolding list_ex_iff by metis
  then show ?thesis using assms(4) by (simp add: op_search_def Let_def) (metis operation_query_result.select_convs(3))
qed

end
