(* ===== verification/Application_Service.thy ===== *)
theory Application_Service
  imports Application_Boundary Operation_Search
begin

text \<open>
  The application service (\<^verbatim>\<open>application/service.py\<close>): the one boundary behind the HTTP API, the SDK and the operator
  pages. An operation answers with a value or an application error; what it does not catch is raised through it
  (the outer \<open>fallible\<close>). The texts of instants and of the cursor are left to the caller: a search names the
  instants and the cursor's pair themselves.
\<close>

section \<open>Requests and answers\<close>

record submit_request =
  sq_effect :: effect_ref
  sq_arguments :: json
  sq_metadata :: "(string \<times> string) list"
  sq_deployment_environment :: string

record operation_search =
  os_state :: "string option"
  os_attention :: bool
  os_provider :: "string option"
  os_created_from :: "utc_timestamp option"
  os_created_to :: "utc_timestamp option"
  os_cursor :: "(utc_timestamp \<times> opaque_id) option"
  os_limit :: int

definition make_operation_search :: "operation_search \<Rightarrow> operation_search fallible" where
  "make_operation_search q =
     bind_err (guard_err (1 \<le> os_limit q \<and> os_limit q \<le> 100) (PyValueError ''limit must be between 1 and 100''))
       (\<lambda>_. Inr q)"

record audit_page =
  pg_events :: "audit_event list"
  pg_next_after_sequence :: "int option"

record operation_page =
  pg_operations :: "operation list"
  pg_next_cursor :: "(utc_timestamp \<times> opaque_id) option"

record provider_overview =
  pv_provider :: string
  pv_configured :: bool
  pv_supported_effects :: "effect_ref list"

record operator_overview =
  ow_total_operations :: nat
  ow_attention :: "(string \<times> nat) list"
  ow_active :: "(string \<times> nat) list"
  ow_recent_operations :: "operation list"
  ow_providers :: "provider_overview list"

record operation_reconstruction =
  rn_operation :: operation
  rn_policy_decisions :: "policy_decision list"
  rn_approvals :: "approval list"
  rn_attempts :: "execution_attempt list"
  rn_verifications :: "verification_row list"
  rn_reconciliations :: "stored_reconciliation_decision list"
  rn_compensation :: "compensation option"
  rn_compensation_attempts :: "compensation_attempt list"
  rn_audit :: "audit_event list"
  rn_available_actions :: "string list"

text \<open>
  The services it was built with; a registry stands for the recovery service of that registry, and a registry with
  a bound on rounds for the compensation service. Crash injection is off.
\<close>

record application_service =
  as_surroundings :: surroundings
  as_uuid5 :: "string \<Rightarrow> string"
  as_sha256 :: "string \<Rightarrow> string"
  as_runtime_registry :: capability_registry
  as_policy :: policy_engine
  as_approvals :: "approver_authorizer option"
  as_recovery :: "capability_registry option"
  as_compensation :: "(capability_registry \<times> nat) option"
  as_registry :: "capability_registry option"
  as_configured_providers :: "string list"

section \<open>Guards\<close>

type_synonym 'a application = "'a app_result service"

definition app_return :: "'a \<Rightarrow> 'a application" where
  "app_return x = return_service (Inr x)"

definition app_fail :: "application_error \<Rightarrow> 'a application" where
  "app_fail e = return_service (Inl e)"

definition app_then :: "'a app_result \<Rightarrow> ('a \<Rightarrow> 'b application) \<Rightarrow> 'b application" where
  "app_then r f = (case r of Inl e \<Rightarrow> app_fail e | Inr x \<Rightarrow> f x)"

definition app_bind :: "'a application \<Rightarrow> ('a \<Rightarrow> 'b application) \<Rightarrow> 'b application" where
  "app_bind m f = bind_service m (\<lambda>r. app_then r f)"

definition ATTENTION_STATES :: "operation_state list" where
  "ATTENTION_STATES =
     [OS_AWAITING_APPROVAL, OS_UNKNOWN, OS_MANUAL_INTERVENTION, OS_COMPENSATION_UNKNOWN, OS_COMPENSATION_FAILED]"

definition read_allowed :: "authenticated_identity \<Rightarrow> operation \<Rightarrow> bool" where
  "read_allowed identity o' \<longleftrightarrow>
     OPERATOR \<in> set (ai_roles identity) \<or>
     set (ai_roles identity) \<inter> {CALLER, READER} \<noteq> {} \<and>
     pr_type (in_requester (op_intent o')) = pr_type (ai_principal identity) \<and>
     pr_id (in_requester (op_intent o')) = pr_id (ai_principal identity)"

definition validate_action_key :: "string \<Rightarrow> unit app_result" where
  "validate_action_key key =
     (if key = [] \<or> 200 < length key \<or> \<not> is_ascii key
      then Inl (ApplicationServiceError ''invalid_idempotency_key'' False) else Inr ())"

definition validated_operator_text :: "string \<Rightarrow> string \<Rightarrow> nat \<Rightarrow> string app_result" where
  "validated_operator_text text code limit =
     (let normalized = str_strip text in
      if normalized = [] \<or> limit < length normalized \<or> \<not> is_ascii normalized \<or>
         key_is_forbidden normalized \<or> value_is_forbidden normalized
      then Inl (ApplicationServiceError code False) else Inr normalized)"

section \<open>Actions an operator is offered\<close>

definition compensation_offered ::
  "operation \<Rightarrow> effect_descriptor \<Rightarrow> policy_obligations \<Rightarrow> execution_attempt list \<Rightarrow> bool" where
  "compensation_offered operation descriptor obligations attempts =
     el_allowed (evaluate_start_eligibility operation descriptor obligations
       (if attempts = [] then None else Some (last attempts)) False True)"

text \<open>
  An operation that may start a compensation but whose policy decision is not among those listed ends the list
  early.
\<close>

definition compensation_actions ::
  "operation \<Rightarrow> effect_descriptor \<Rightarrow> policy_decision list \<Rightarrow> execution_attempt list \<Rightarrow> string list" where
  "compensation_actions operation descriptor policy_decisions attempts =
     (let later = (if op_state operation = OS_COMPENSATION_FAILED then [''retry_compensation''] else []) @
            (if op_state operation \<in> {OS_COMPENSATING, OS_COMPENSATION_UNKNOWN, OS_COMPENSATION_FAILED}
             then [''escalate_compensation''] else [])
      in if op_state operation \<in> {OS_SUCCEEDED, OS_FAILED, OS_MANUAL_INTERVENTION} \<and> policy_decisions \<noteq> [] then
           (case find (\<lambda>p. Some (pd_id p) = op_current_policy_decision_id operation) policy_decisions of
              None \<Rightarrow> []
            | Some policy \<Rightarrow>
                (if compensation_offered operation descriptor (pd_obligations policy) attempts
                 then [''compensate''] else []) @ later)
         else later)"

definition available_actions ::
  "application_service \<Rightarrow> authenticated_identity \<Rightarrow> operation \<Rightarrow> policy_decision list \<Rightarrow>
   execution_attempt list \<Rightarrow> string list fallible" where
  "available_actions A identity operation policy_decisions attempts =
     (let approvals = (if as_approvals A \<noteq> None \<and> APPROVER \<in> set (ai_roles identity) \<and>
            op_state operation = OS_AWAITING_APPROVAL \<and> op_current_approval_id operation \<noteq> None
          then [''approve'', ''reject''] else [])
      in case as_registry A of
           None \<Rightarrow> Inr approvals
         | Some registry \<Rightarrow>
             (case descriptor_for registry (in_effect (op_intent operation)) of
                Inl e \<Rightarrow> if e = UnsupportedEffectError then Inr approvals else Inl e
              | Inr descriptor \<Rightarrow>
                  Inr (approvals @
                    (if as_recovery A \<noteq> None \<and> op_state operation = OS_MANUAL_INTERVENTION \<and>
                        ed_verification_mode descriptor \<noteq> VM_NONE then [''verify''] else []) @
                    (if as_compensation A = None then []
                     else compensation_actions operation descriptor policy_decisions attempts))))"

section \<open>Reading\<close>

definition app_get_operation ::
  "application_service \<Rightarrow> authenticated_identity \<Rightarrow> opaque_id \<Rightarrow> operation application" where
  "app_get_operation A identity operation_id =
     app_then (identity_require identity [CALLER, READER, OPERATOR]) (\<lambda>_.
     bind_service (read_uow (as_surroundings A) (op_get operation_id)) (\<lambda>found.
     case found of
       None \<Rightarrow> app_fail (ApplicationServiceError ''not_found'' False)
     | Some operation \<Rightarrow>
         if read_allowed identity operation then app_return operation
         else app_fail (AuthorizationError ''operation_read_forbidden'')))"

definition app_audit_page ::
  "application_service \<Rightarrow> authenticated_identity \<Rightarrow> opaque_id \<Rightarrow> int \<Rightarrow> int \<Rightarrow> audit_page application" where
  "app_audit_page A identity operation_id after_sequence limit =
     (if after_sequence < 0 \<or> \<not> (1 \<le> limit \<and> limit \<le> 100)
      then app_fail (ApplicationServiceError ''invalid_pagination'' False)
      else app_bind (app_get_operation A identity operation_id) (\<lambda>_.
        bind_service (read_uow (as_surroundings A) (au_page_for_operation operation_id after_sequence (nat limit)))
          (\<lambda>(events, has_more).
        app_return \<lparr>pg_events = events,
          pg_next_after_sequence = (if has_more then Some (au_sequence (last events)) else None)\<rparr>)))"

definition search_states :: "operation_search \<Rightarrow> operation_state list option app_result" where
  "search_states q =
     (if os_attention q \<and> os_state q \<noteq> None
      then Inl (ApplicationServiceError ''invalid_filter_combination'' False)
      else case os_state q of
        None \<Rightarrow> Inr (if os_attention q then Some ATTENTION_STATES else None)
      | Some value \<Rightarrow>
          (case find (\<lambda>s. operation_state_value s = value) operation_state_members of
             None \<Rightarrow> Inl (ApplicationServiceError ''invalid_state'' False)
           | Some s \<Rightarrow> Inr (Some [s])))"

definition app_search_operations ::
  "application_service \<Rightarrow> authenticated_identity \<Rightarrow> operation_search \<Rightarrow> operation_page application" where
  "app_search_operations A identity q =
     app_then (identity_require identity [OPERATOR]) (\<lambda>_.
     app_then (search_states q) (\<lambda>states.
     bind_service (in_uow (as_surroundings A) (\<lambda>j. bind_err
         (op_search \<lparr>oq_states = states, oq_provider = os_provider q, oq_created_from = os_created_from q,
            oq_created_to = os_created_to q, oq_cursor_created_at = map_option fst (os_cursor q),
            oq_cursor_operation_id = map_option snd (os_cursor q), oq_limit = nat (os_limit q)\<rparr> j)
         (\<lambda>result. Inr (result, j)))) (\<lambda>result.
     if \<not> or_cursor_found result then app_fail (ApplicationServiceError ''invalid_cursor'' False)
     else app_return \<lparr>pg_operations = or_operations result,
       pg_next_cursor = (if or_has_more result
         then Some (op_created_at (last (or_operations result)), op_id (last (or_operations result))) else None)\<rparr>)))"

definition app_operator_overview ::
  "application_service \<Rightarrow> authenticated_identity \<Rightarrow> operator_overview application" where
  "app_operator_overview A identity =
     app_then (identity_require identity [OPERATOR]) (\<lambda>_.
     bind_service (in_uow (as_surroundings A) (\<lambda>j. bind_err (op_search (default_query\<lparr>oq_limit := 8\<rparr>) j)
         (\<lambda>recent. Inr ((op_count_by_state j, or_operations recent), j)))) (\<lambda>(persisted, recent).
     let counts = count_in persisted;
         effects = (case as_registry A of None \<Rightarrow> [] | Some registry \<Rightarrow> cr_order registry)
     in app_return
       \<lparr>ow_total_operations = sum_list (map counts operation_state_members),
        ow_attention =
          [(''awaiting_approval'', counts OS_AWAITING_APPROVAL), (''unknown'', counts OS_UNKNOWN),
           (''manual_intervention'', counts OS_MANUAL_INTERVENTION),
           (''compensation_issues'', counts OS_COMPENSATION_UNKNOWN + counts OS_COMPENSATION_FAILED)],
        ow_active =
          [(''executing'', counts OS_EXECUTING), (''verifying'', counts OS_VERIFYING),
           (''compensating'', counts OS_COMPENSATING)],
        ow_recent_operations = recent,
        ow_providers = map (\<lambda>p. \<lparr>pv_provider = p, pv_configured = p \<in> set (as_configured_providers A),
            pv_supported_effects = filter (\<lambda>e. ef_provider e = p) effects\<rparr>)
          (dict_fromkeys (map ef_provider effects))\<rparr>))"

text \<open>All reads happen in one unit of work, the offered actions included.\<close>

definition app_reconstruct ::
  "application_service \<Rightarrow> authenticated_identity \<Rightarrow> opaque_id \<Rightarrow> operation_reconstruction application" where
  "app_reconstruct A identity operation_id =
     app_then (identity_require identity [OPERATOR]) (\<lambda>_.
     in_uow (as_surroundings A) (\<lambda>j.
       case op_get operation_id j of
         None \<Rightarrow> Inr (Inl (ApplicationServiceError ''not_found'' False), j)
       | Some operation \<Rightarrow>
           let compensation = cp_get_by_original_operation operation_id j;
               policy_decisions = po_list_for_operation operation_id j;
               attempts = at_list_for_operation operation_id j
           in bind_err (available_actions A identity operation policy_decisions attempts) (\<lambda>actions.
              Inr (Inr \<lparr>rn_operation = operation, rn_policy_decisions = policy_decisions,
                rn_approvals = ap_list_for_operation operation_id j, rn_attempts = attempts,
                rn_verifications = vf_list_for_operation operation_id j,
                rn_reconciliations = rc_list_for_operation operation_id j, rn_compensation = compensation,
                rn_compensation_attempts = (case compensation of
                  None \<Rightarrow> [] | Some c \<Rightarrow> ca_list_for_compensation (cm_id c) j),
                rn_audit = au_list_for_operation operation_id j, rn_available_actions = actions\<rparr>, j))))"

section \<open>Submitting\<close>

definition submitted_operation :: "runtime_result \<Rightarrow> operation app_result" where
  "submitted_operation result =
     (case rt_operation result of
        Some operation \<Rightarrow>
          if rt_reason_code result = ''intent_conflict''
          then Inl (ApplicationServiceError ''idempotency_conflict'' False) else Inr operation
      | None \<Rightarrow>
          Inl (ApplicationServiceError (rt_reason_code result) (rt_disposition result = RT_INFRASTRUCTURE_FAILURE)))"

definition optional_correlation_id :: "string option \<Rightarrow> string option app_result" where
  "optional_correlation_id value =
     (case value of
        None \<Rightarrow> Inr None
      | Some v \<Rightarrow> map_sum id Some (validated_operator_text v ''invalid_correlation_id'' 200))"

definition app_submit ::
  "application_service \<Rightarrow> authenticated_identity \<Rightarrow> string \<Rightarrow> submit_request \<Rightarrow> string option \<Rightarrow>
   operation application" where
  "app_submit A identity idempotency_key request correlation_id =
     app_then (identity_require identity [CALLER]) (\<lambda>_.
     app_then (validate_action_key idempotency_key) (\<lambda>_.
     bind_service (lift_service (validate_metadata (sq_metadata request))) (\<lambda>_.
     app_then (optional_correlation_id correlation_id) (\<lambda>correlation.
     bind_service (submit_operation (as_sha256 A) (as_surroundings A) (as_runtime_registry A) (as_policy A) None
         \<lparr>sc_effect = sq_effect request, sc_arguments = sq_arguments request,
          sc_requester = ai_principal identity, sc_metadata = sq_metadata request,
          sc_ids = submit_ids_for (as_uuid5 A) (request_identity (ai_principal identity) idempotency_key),
          sc_correlation_id = correlation, sc_deployment_environment = sq_deployment_environment request\<rparr>)
       (\<lambda>result. return_service (submitted_operation result))))))"

section \<open>Deciding, verifying, compensating\<close>

text \<open>The checks every action starts with: the role, the key, the reason, the correlation id.\<close>

definition checked_action ::
  "authenticated_identity \<Rightarrow> role \<Rightarrow> string \<Rightarrow> string \<Rightarrow> nat \<Rightarrow> string \<Rightarrow> (string \<times> string) app_result" where
  "checked_action identity required action_key reason limit correlation_id =
     (case identity_require identity [required] of Inl e \<Rightarrow> Inl e | Inr _ \<Rightarrow>
     (case validate_action_key action_key of Inl e \<Rightarrow> Inl e | Inr _ \<Rightarrow>
     (case validated_operator_text reason ''invalid_reason'' limit of Inl e \<Rightarrow> Inl e | Inr reason' \<Rightarrow>
     (case validated_operator_text correlation_id ''invalid_correlation_id'' 200 of
        Inl e \<Rightarrow> Inl e | Inr correlation \<Rightarrow> Inr (reason', correlation)))))"

definition app_decide_approval ::
  "application_service \<Rightarrow> authenticated_identity \<Rightarrow> opaque_id \<Rightarrow> opaque_id \<Rightarrow> int \<Rightarrow> approval_state \<Rightarrow>
   string \<Rightarrow> string \<Rightarrow> string \<Rightarrow> operation application" where
  "app_decide_approval A identity operation_id approval_id expected_version decision reason action_key
     correlation_id =
     app_then (checked_action identity APPROVER action_key reason 500 correlation_id) (\<lambda>(reason', correlation).
     case as_approvals A of
       None \<Rightarrow> app_fail (ApplicationServiceError ''approval_service_unavailable'' True)
     | Some authorizer \<Rightarrow>
         bind_service (lift_service (make_approval_decision_command
           \<lparr>dd_operation_id = operation_id, dd_approval_id = approval_id,
            dd_expected_version = expected_version, dd_decision = decision, dd_actor = ai_principal identity,
            dd_reason = Some reason', dd_correlation_id = Some correlation,
            dd_ids = approval_ids_for (as_uuid5 A) operation_id action_key\<rparr>)) (\<lambda>command.
         bind_service (decide_approval (as_surroundings A) authorizer command) (\<lambda>result.
         if aq_disposition result = AR_UNAUTHORIZED then app_fail (AuthorizationError (aq_reason_code result))
         else case aq_operation result of
           Some operation \<Rightarrow>
             if aq_disposition result = AR_ACCEPTED then app_return operation
             else app_fail (ApplicationServiceError (aq_reason_code result) False)
         | None \<Rightarrow> app_fail (ApplicationServiceError (aq_reason_code result) False))))"

definition app_request_verification ::
  "application_service \<Rightarrow> authenticated_identity \<Rightarrow> opaque_id \<Rightarrow> int \<Rightarrow> string \<Rightarrow> string \<Rightarrow> string \<Rightarrow>
   operation application" where
  "app_request_verification A identity operation_id expected_version reason_code action_key correlation_id =
     app_then (checked_action identity OPERATOR action_key reason_code 200 correlation_id) (\<lambda>(reason', correlation).
     case as_recovery A of
       None \<Rightarrow> app_fail (ApplicationServiceError ''recovery_service_unavailable'' True)
     | Some registry \<Rightarrow>
         bind_service (start_operator_verification (as_surroundings A) registry None
           \<lparr>ov_operation_id = operation_id, ov_expected_version = expected_version,
            ov_ids = recovery_ids_for (as_uuid5 A) operation_id action_key, ov_actor = ai_principal identity,
            ov_reason_code = reason', ov_correlation_id = Some correlation\<rparr>) (\<lambda>result.
         case ry_operation result of
           Some operation \<Rightarrow>
             if ry_disposition result = RC_ACCEPTED then app_return operation
             else app_fail (ApplicationServiceError (ry_reason_code result) False)
         | None \<Rightarrow> app_fail (ApplicationServiceError (ry_reason_code result) False)))"

definition app_compensate ::
  "application_service \<Rightarrow> authenticated_identity \<Rightarrow> opaque_id \<Rightarrow> int \<Rightarrow> string \<Rightarrow> string \<Rightarrow> string \<Rightarrow>
   bool \<Rightarrow> bool \<Rightarrow> operation application" where
  "app_compensate A identity operation_id expected_version action_key reason_code correlation_id retry escalate =
     app_then (checked_action identity OPERATOR action_key reason_code 200 correlation_id) (\<lambda>(reason', correlation).
     case as_compensation A of
       None \<Rightarrow> app_fail (ApplicationServiceError ''compensation_service_unavailable'' True)
     | Some (registry, rounds) \<Rightarrow>
         let command = \<lparr>tc_operation_id = operation_id, tc_expected_version = expected_version,
               tc_ids = compensation_ids_for (as_uuid5 A) operation_id action_key,
               tc_actor = Some (ai_principal identity), tc_correlation_id = Some correlation,
               tc_reason_code = reason'\<rparr>
         in bind_service
              (if escalate then escalate_compensation (as_surroundings A) command
               else if retry then retry_failed_compensation (as_surroundings A) registry None rounds command
               else start_operator_compensation (as_sha256 A) (as_surroundings A) registry None command) (\<lambda>result.
            case cz_operation result of
              Some operation \<Rightarrow>
                if cz_disposition result \<in> {CD_ACCEPTED, CD_IN_FLIGHT} then app_return operation
                else app_fail (ApplicationServiceError (cz_reason_code result) False)
            | None \<Rightarrow> app_fail (ApplicationServiceError (cz_reason_code result) False)))"

end
