(* ===== verification/Application_Properties.thy ===== *)
theory Application_Properties
  imports Application_Service Submit_Properties Recovery_Properties Compensation_Properties Approval_Properties
begin

text \<open>
  What the application service guarantees to its callers: a role guards every operation before anything is read
  or written, a caller reads only what is its own, a submission answers with the caller's own intent, and no
  request can execute an effect.
\<close>

section \<open>Every request\<close>

datatype application_request =
    SubmitRequest string submit_request "string option"
  | GetRequest opaque_id
  | AuditRequest opaque_id int int
  | SearchRequest operation_search
  | OverviewRequest
  | ReconstructRequest opaque_id
  | DecideRequest opaque_id opaque_id int approval_state string string string
  | VerifyRequest opaque_id int string string string
  | CompensateRequest opaque_id int string string string bool bool

definition forget :: "'a application \<Rightarrow> unit application" where
  "forget m = bind_service m (\<lambda>r. return_service (map_sum id (\<lambda>_. ()) r))"

definition serve :: "application_service \<Rightarrow> authenticated_identity \<Rightarrow> application_request \<Rightarrow> unit application" where
  "serve A identity request =
     (case request of
        SubmitRequest key q c \<Rightarrow> forget (app_submit A identity key q c)
      | GetRequest i \<Rightarrow> forget (app_get_operation A identity i)
      | AuditRequest i n limit \<Rightarrow> forget (app_audit_page A identity i n limit)
      | SearchRequest q \<Rightarrow> forget (app_search_operations A identity q)
      | OverviewRequest \<Rightarrow> forget (app_operator_overview A identity)
      | ReconstructRequest i \<Rightarrow> forget (app_reconstruct A identity i)
      | DecideRequest i p v d why key c \<Rightarrow> forget (app_decide_approval A identity i p v d why key c)
      | VerifyRequest i v why key c \<Rightarrow> forget (app_request_verification A identity i v why key c)
      | CompensateRequest i v key why c retry escalate \<Rightarrow>
          forget (app_compensate A identity i v key why c retry escalate))"

definition roles_for :: "application_request \<Rightarrow> role set" where
  "roles_for request =
     (case request of
        SubmitRequest _ _ _ \<Rightarrow> {CALLER}
      | GetRequest _ \<Rightarrow> {CALLER, READER, OPERATOR}
      | AuditRequest _ _ _ \<Rightarrow> {CALLER, READER, OPERATOR}
      | DecideRequest _ _ _ _ _ _ _ \<Rightarrow> {APPROVER}
      | _ \<Rightarrow> {OPERATOR})"

text \<open>The calls a request may make: verifications and compensations written ahead; never an execution.\<close>

definition no_execution :: "provider_call \<Rightarrow> journal \<Rightarrow> bool" where
  "no_execution call j \<longleftrightarrow> verify_ahead call j \<or> undo_ahead call j"

lemma no_execution_calls: "no_execution call j \<Longrightarrow> \<not> (\<exists>x q. call = ExecuteCall x q)"
  by (auto simp: no_execution_def verify_ahead_def undo_ahead_def)

lemma conforms_weaken:
  assumes "conforms S P n m" and "\<And>c j. P c j \<Longrightarrow> Q c j" and "n \<le> k"
  shows "conforms S Q k m"
  unfolding conforms_def conforms_at_def
proof (intro allI impI)
  fix w assume S: "others_follow S"
  from assms(1) S obtain cs where cs: "later (wd_journal w) (wd_journal (snd (m w)))"
    "wd_calls (snd (m w)) = wd_calls w @ cs" "length cs \<le> n"
    "\<forall>(c, j) \<in> set cs. P c j \<and> later j (wd_journal (snd (m w)))"
    by (auto simp: conforms_def conforms_at_def)
  with assms(2,3) show "later (wd_journal w) (wd_journal (snd (m w))) \<and>
      (\<exists>cs. wd_calls (snd (m w)) = wd_calls w @ cs \<and> length cs \<le> k \<and>
         (\<forall>(c, j) \<in> set cs. Q c j \<and> later j (wd_journal (snd (m w)))))"
    by fastforce
qed

lemma conforms_then_quiet:
  assumes "conforms S P n m" and "\<And>x. conforms S P 0 (f x)"
  shows "conforms S P n (bind_service m f)"
  using conforms_at_bind [OF conforms_at [OF assms(1)] conforms_at [OF assms(2)]] by (simp add: conforms_def)

lemma app_conforms [service_rules]:
  "conforms S P n (app_return x)" "conforms S P n (app_fail e)"
  "(\<And>x. conforms S P n (f x)) \<Longrightarrow> conforms S P n (app_then r f)"
  unfolding app_return_def app_fail_def app_then_def by (intro service_rules | simp)+

lemma reading_body:
  assumes "\<And>j x j'. body j = Inr (x, j') \<Longrightarrow> j' = j"
  shows "system_body body"
  using assms later.refl by (intro system_bodyI) metis

lemma reads_conform:
  "conforms (as_surroundings A) P n (app_get_operation A identity i)"
  "conforms (as_surroundings A) P n (app_audit_page A identity i m limit)"
  "conforms (as_surroundings A) P n (app_search_operations A identity q)"
  "conforms (as_surroundings A) P n (app_operator_overview A identity)"
  "conforms (as_surroundings A) P n (app_reconstruct A identity i)"
proof -
  have search: "system_body (\<lambda>j. bind_err (op_search q j) (\<lambda>r. Inr (f r j, j)))" for q and f :: "_ \<Rightarrow> _ \<Rightarrow> 'z"
    by (rule reading_body) auto
  show get: "conforms (as_surroundings A) P n (app_get_operation A identity i)"
    unfolding app_get_operation_def by (intro service_rules)
  show "conforms (as_surroundings A) P n (app_audit_page A identity i m limit)"
    unfolding app_audit_page_def app_bind_def
    by (intro conforms_if app_conforms conforms_then_quiet [OF get] service_rules)
  show "conforms (as_surroundings A) P n (app_search_operations A identity q)"
    unfolding app_search_operations_def by (intro service_rules search)
  show "conforms (as_surroundings A) P n (app_operator_overview A identity)"
    unfolding app_operator_overview_def Let_def by (intro service_rules search)
  have "system_body (\<lambda>j. case op_get i j of
         None \<Rightarrow> Inr (Inl (ApplicationServiceError ''not_found'' False), j)
       | Some operation \<Rightarrow> bind_err (g operation j) (\<lambda>actions. Inr (Inr (h operation j actions), j)))"
    for g :: "operation \<Rightarrow> journal \<Rightarrow> string list fallible" and h :: "_ \<Rightarrow> _ \<Rightarrow> _ \<Rightarrow> operation_reconstruction"
    by (rule reading_body) (auto split: option.split_asm)
  then show "conforms (as_surroundings A) P n (app_reconstruct A identity i)"
    unfolding app_reconstruct_def Let_def by (intro service_rules)
qed

lemma actions_conform:
  "conforms (as_surroundings A) P n (app_submit A identity key q c)"
  "conforms (as_surroundings A) P n (app_decide_approval A identity i k v d why key c')"
  "conforms (as_surroundings A) verify_ahead 1 (app_request_verification A identity i v why key c')"
proof -
  show "conforms (as_surroundings A) P n (app_submit A identity key q c)"
    unfolding app_submit_def by (intro service_rules)
  show "conforms (as_surroundings A) P n (app_decide_approval A identity i k v d why key c')"
    unfolding app_decide_approval_def by (intro service_rules approval_conforms)
  show "conforms (as_surroundings A) verify_ahead 1 (app_request_verification A identity i v why key c')"
    unfolding app_request_verification_def
    by (intro app_conforms conforms_prod conforms_option conforms_then_quiet [OF recover_unknown_conforms(3)] service_rules)
qed

definition calls_allowed :: "application_service \<Rightarrow> nat" where
  "calls_allowed A = max 1 (case as_compensation A of None \<Rightarrow> 0 | Some (_, rounds) \<Rightarrow> rounds)"

lemma compensate_conforms:
  "conforms (as_surroundings A) undo_ahead (calls_allowed A)
     (app_compensate A identity i v key why c retry escalate)"
proof (cases "as_compensation A")
  case None
  then show ?thesis unfolding app_compensate_def by (auto intro!: service_rules)
next
  case (Some rr)
  obtain registry rounds where rr: "rr = (registry, rounds)" by (cases rr)
  have rounds: "rounds \<le> calls_allowed A" by (simp add: calls_allowed_def Some rr)
  have kinds: "conforms (as_surroundings A) undo_ahead rounds (retry_failed_compensation (as_surroundings A) registry None rounds command)"
    "conforms (as_surroundings A) undo_ahead rounds (start_operator_compensation (as_sha256 A) (as_surroundings A) registry None command)"
    "conforms (as_surroundings A) undo_ahead rounds (escalate_compensation (as_surroundings A) command)" for command
    by (rule retry_failed_conforms, (rule conforms_weaken [OF start_conforms(2)], assumption, simp),
        (rule conforms_weaken [OF start_conforms(3)], assumption, simp))
  have "conforms (as_surroundings A) undo_ahead rounds (app_compensate A identity i v key why c retry escalate)"
    unfolding app_compensate_def Some rr option.case prod.case Let_def
    by (intro app_conforms conforms_prod conforms_then_quiet service_rules kinds)
  then show ?thesis by (rule conforms_weaken) (use rounds in auto)
qed

lemma forget_conforms: "conforms S P n m \<Longrightarrow> conforms S P n (forget m)"
  unfolding forget_def by (intro conforms_then_quiet service_rules)

lemma serve_conforms: "conforms (as_surroundings A) no_execution (calls_allowed A) (serve A identity request)"
proof -
  have quiet: "conforms (as_surroundings A) no_execution (calls_allowed A) m"
    if "\<And>P n. conforms (as_surroundings A) P n m" for m :: "'z service"
    by (rule that)
  have verify: "conforms (as_surroundings A) no_execution (calls_allowed A) (app_request_verification A identity i v why key c)"
    for i v why key c
    by (rule conforms_weaken [OF actions_conform(3)]) (simp_all add: no_execution_def calls_allowed_def)
  have compensate: "conforms (as_surroundings A) no_execution (calls_allowed A)
      (app_compensate A identity i v key why c retry escalate)" for i v key why c retry escalate
    by (rule conforms_weaken [OF compensate_conforms]) (simp_all add: no_execution_def)
  show ?thesis
    unfolding serve_def
    by (cases request) (simp_all add: forget_conforms reads_conform actions_conform verify compensate)
qed

text \<open>
  C22. No request executes an effect, and a role comes first: whatever the others do, a request changes the journal
  by system steps only, the provider calls it makes are verifications of requests and compensations of attempts
  the journal already holds, never an execution, and a caller without one of the roles the request needs is
  refused before anything is read, written or called.
\<close>

theorem requests_never_execute:
  assumes "others_follow (as_surroundings A)" and "serve A identity request w = (r, w')"
  shows "later (wd_journal w) (wd_journal w') \<and>
    (\<exists>cs. wd_calls w' = wd_calls w @ cs \<and> length cs \<le> calls_allowed A \<and>
       (\<forall>(call, j) \<in> set cs. no_execution call j \<and> \<not> (\<exists>x q. call = ExecuteCall x q))) \<and>
    (set (ai_roles identity) \<inter> roles_for request = {} \<longrightarrow> w' = w \<and> (\<exists>e. r = Inr (Inl e)))"
proof -
  have refused: "w' = w \<and> (\<exists>e. r = Inr (Inl e))" if role: "set (ai_roles identity) \<inter> roles_for request = {}"
    using assms(2) role
    by (cases request) (auto simp: serve_def roles_for_def app_submit_def app_get_operation_def app_audit_page_def
        app_search_operations_def app_operator_overview_def app_reconstruct_def app_decide_approval_def
        app_request_verification_def app_compensate_def checked_action_def identity_require_def app_then_def
        app_fail_def app_bind_def forget_def run_simps bind_service_def split: if_split_asm)
  obtain cs where "later (wd_journal w) (wd_journal w')" "wd_calls w' = wd_calls w @ cs" "length cs \<le> calls_allowed A"
    "\<forall>(call, j) \<in> set cs. no_execution call j"
    by (rule conforms_atD [OF conforms_at [OF serve_conforms] assms])
  with refused no_execution_calls show ?thesis by fastforce
qed

section \<open>Reading one's own\<close>

lemma app_get_found:
  assumes "app_get_operation A identity i w = (Inr (Inr o'), w')"
  shows "op_get i (wd_journal w') = Some o'" and "read_allowed identity o'"
    and "set (ai_roles identity) \<inter> {CALLER, READER, OPERATOR} \<noteq> {}"
proof -
  from assms obtain v where role: "set (ai_roles identity) \<inter> {CALLER, READER, OPERATOR} \<noteq> {}"
    and read: "read_uow (as_surroundings A) (op_get i) w = (Inr (Some o'), v)" and v: "v = w'"
    and allowed: "read_allowed identity o'"
    by (auto simp: app_get_operation_def app_then_def identity_require_def app_fail_def app_return_def
        bind_service_Inr run_simps split: if_split_asm option.split_asm)
  from read v show "op_get i (wd_journal w') = Some o'" unfolding read_uow_def by (auto dest!: in_uow_Inr)
  from role allowed show "set (ai_roles identity) \<inter> {CALLER, READER, OPERATOR} \<noteq> {}" "read_allowed identity o'"
    by auto
qed

lemma audit_page_events:
  assumes "au_page_for_operation i n limit j = (events, has_more)"
  shows "length events \<le> limit \<and>
    (\<forall>e \<in> set events. au_operation_id e = i \<and> n < au_sequence e \<and> e \<in> set (j_audit_events j))"
proof -
  let ?rows = "filter (\<lambda>e. n < au_sequence e) (au_list_for_operation i j)"
  from assms have events: "events = take limit (take (limit + 1) ?rows)"
    by (simp add: au_page_for_operation_def Let_def)
  then have "set events \<subseteq> set ?rows" by (meson order_trans set_take_subset)
  moreover have "set ?rows \<subseteq> {e. au_operation_id e = i \<and> n < au_sequence e \<and> e \<in> set (j_audit_events j)}"
    by (auto simp: au_list_for_operation_def)
  ultimately have "set events \<subseteq> {e. au_operation_id e = i \<and> n < au_sequence e \<and> e \<in> set (j_audit_events j)}"
    by (rule order_trans)
  moreover have "length events \<le> limit" by (simp add: events)
  ultimately show ?thesis by blast
qed

text \<open>
  C23. A caller reads only what is its own: an operation is answered only to an operator, or to a caller or reader
  that is the requester the operation was stored with; a page of its audit trail is answered under the same
  condition and holds events of that operation only, beyond the sequence asked for and no more than the limit.
\<close>

theorem reads_are_private:
  assumes "app_audit_page A identity i n limit w = (Inr (Inr page), w')" and "others_follow (as_surroundings A)"
  shows "\<exists>o'. op_get i (wd_journal w') = Some o' \<and>
      (OPERATOR \<in> set (ai_roles identity) \<or>
       set (ai_roles identity) \<inter> {CALLER, READER} \<noteq> {} \<and>
       pr_type (in_requester (op_intent o')) = pr_type (ai_principal identity) \<and>
       pr_id (in_requester (op_intent o')) = pr_id (ai_principal identity)) \<and>
      length (pg_events page) \<le> nat limit \<and>
      (\<forall>e \<in> set (pg_events page). au_operation_id e = i \<and> n < au_sequence e \<and> e \<in> set (j_audit_events (wd_journal w')))"
proof -
  let ?read = "read_uow (as_surroundings A) (au_page_for_operation i n (nat limit))"
  let ?answer = "\<lambda>(events, has_more). app_return \<lparr>pg_events = events,
          pg_next_after_sequence = (if has_more then Some (au_sequence (last events)) else None)\<rparr>"
  from assms(1) have "app_bind (app_get_operation A identity i) (\<lambda>_. bind_service ?read ?answer) w = (Inr (Inr page), w')"
    by (auto simp: app_audit_page_def app_fail_def run_simps split: if_split_asm)
  then obtain found v where got: "app_get_operation A identity i w = (Inr found, v)"
    and rest: "app_then found (\<lambda>_. bind_service ?read ?answer) v = (Inr (Inr page), w')"
    unfolding app_bind_def bind_service_Inr by blast
  from rest obtain o' where o': "found = Inr o'" by (cases found) (auto simp: app_then_def app_fail_def run_simps)
  with got have get: "app_get_operation A identity i w = (Inr (Inr o'), v)" by simp
  from rest o' have page: "\<exists>has_more. ?read v = (Inr (pg_events page, has_more), w')"
    by (auto simp: app_then_def bind_service_Inr app_return_def run_simps)
  then obtain has_more where "?read v = (Inr (pg_events page, has_more), w')" by (rule exE)
  then have "in_uow (as_surroundings A) (\<lambda>j. Inr (au_page_for_operation i n (nat limit) j, j)) v =
      (Inr (pg_events page, has_more), w')" unfolding read_uow_def .
  from in_uow_Inr [OF this] have both: "(au_page_for_operation i n (nat limit)
      (su_others (as_surroundings A) (wd_turn v) (wd_journal v)), su_others (as_surroundings A) (wd_turn v) (wd_journal v)) =
      ((pg_events page, has_more), wd_journal w')" by (rule Inr_inject)
  note w' = arg_cong [OF both, of snd, unfolded snd_conv]
  have "au_page_for_operation i n (nat limit) (wd_journal w') = (pg_events page, has_more)"
    by (rule arg_cong [OF both, of fst, unfolded fst_conv w'])
  from audit_page_events [OF this] have events: "length (pg_events page) \<le> nat limit \<and>
      (\<forall>e \<in> set (pg_events page). au_operation_id e = i \<and> n < au_sequence e \<and> e \<in> set (j_audit_events (wd_journal w')))" .
  from app_get_found [OF get] have v: "op_get i (wd_journal v) = Some o'" and allowed: "read_allowed identity o'" by auto
  have "later (wd_journal v) (wd_journal w')" using assms(2) unfolding others_follow_def w' [symmetric] by blast
  from later_operation [OF this v] obtain b where b: "op_get i (wd_journal w') = Some b" "same_identity o' b" by blast
  then have "in_requester (op_intent b) = in_requester (op_intent o')" by (simp add: same_identity_def)
  with allowed have "OPERATOR \<in> set (ai_roles identity) \<or>
       set (ai_roles identity) \<inter> {CALLER, READER} \<noteq> {} \<and>
       pr_type (in_requester (op_intent b)) = pr_type (ai_principal identity) \<and>
       pr_id (in_requester (op_intent b)) = pr_id (ai_principal identity)"
    by (simp add: read_allowed_def)
  with events \<open>op_get i (wd_journal w') = Some b\<close> show ?thesis by blast
qed

section \<open>The overview\<close>

text \<open>
  The overview counts every operation once: its total is the number of stored operations, and each counter is
  the number of operations in its states.
\<close>

lemma overview_counts_every_operation:
  assumes "app_operator_overview A identity w = (Inr (Inr overview), w')"
  shows "ow_total_operations overview = length (j_operations (wd_journal w')) \<and>
    map_of (ow_attention overview) ''compensation_issues'' =
      Some (length (filter (\<lambda>o'. op_state o' \<in> {OS_COMPENSATION_UNKNOWN, OS_COMPENSATION_FAILED}) (j_operations (wd_journal w')))) \<and>
    sum_list (map snd (ow_attention overview)) =
      length (filter (\<lambda>o'. op_state o' \<in> set ATTENTION_STATES) (j_operations (wd_journal w'))) \<and>
    ow_recent_operations overview = take 8 (op_list_all (wd_journal w'))"
proof -
  have either: "length (filter (\<lambda>o'. op_state o' = a) xs) + length (filter (\<lambda>o'. op_state o' = b) xs) =
      length (filter (\<lambda>o'. op_state o' \<in> {a, b}) xs)" if "a \<noteq> b" for a b and xs :: "operation list"
    using that by (induction xs) auto
  have attention: "length (filter (\<lambda>o'. op_state o' = OS_AWAITING_APPROVAL) xs) +
      (length (filter (\<lambda>o'. op_state o' = OS_UNKNOWN) xs) +
      (length (filter (\<lambda>o'. op_state o' = OS_MANUAL_INTERVENTION) xs) +
      length (filter (\<lambda>o'. op_state o' \<in> {OS_COMPENSATION_UNKNOWN, OS_COMPENSATION_FAILED}) xs))) =
      length (filter (\<lambda>o'. op_state o' \<in> set ATTENTION_STATES) xs)" for xs :: "operation list"
    by (induction xs) (auto simp: ATTENTION_STATES_def)
  from assms obtain persisted where
    "in_uow (as_surroundings A) (\<lambda>j. bind_err (op_search (default_query\<lparr>oq_limit := 8\<rparr>) j)
       (\<lambda>recent. Inr ((op_count_by_state j, or_operations recent), j))) w =
       (Inr (persisted, ow_recent_operations overview), w')"
    and ow: "ow_total_operations overview = sum_list (map (count_in persisted) operation_state_members)"
      "ow_attention overview =
          [(''awaiting_approval'', count_in persisted OS_AWAITING_APPROVAL), (''unknown'', count_in persisted OS_UNKNOWN),
           (''manual_intervention'', count_in persisted OS_MANUAL_INTERVENTION),
           (''compensation_issues'', count_in persisted OS_COMPENSATION_UNKNOWN + count_in persisted OS_COMPENSATION_FAILED)]"
    by (auto simp: app_operator_overview_def app_then_def app_fail_def app_return_def bind_service_Inr run_simps Let_def
        split: sum.split_asm prod.split_asm)
  from in_uow_Inr [OF this(1)] obtain recent where
    j: "op_search (default_query\<lparr>oq_limit := 8\<rparr>) (wd_journal w') = Inr recent"
      "ow_recent_operations overview = or_operations recent" "persisted = op_count_by_state (wd_journal w')"
    by auto
  have recent: "ow_recent_operations overview = take 8 (op_list_all (wd_journal w'))"
    using j(1,2) by (auto simp: op_search_def default_query_def query_filters_def op_list_all_def Let_def)
  show ?thesis
    using recent ow counts_add_up [of "wd_journal w'"] either attention
    by (simp add: j(3) count_in_state)
qed

section \<open>The version an operator names\<close>

lemma same_but_version:
  fixes c :: recovery_command and d :: operator_verification_command
  shows "vc_operation_id (c\<lparr>vc_expected_version := v\<rparr>) = vc_operation_id c"
    "vc_ids (c\<lparr>vc_expected_version := v\<rparr>) = vc_ids c"
    "vc_correlation_id (c\<lparr>vc_expected_version := v\<rparr>) = vc_correlation_id c"
    "ov_operation_id (d\<lparr>ov_expected_version := v\<rparr>) = ov_operation_id d"
    "ov_ids (d\<lparr>ov_expected_version := v\<rparr>) = ov_ids d"
    "ov_actor (d\<lparr>ov_expected_version := v\<rparr>) = ov_actor d"
    "ov_reason_code (d\<lparr>ov_expected_version := v\<rparr>) = ov_reason_code d"
    "ov_correlation_id (d\<lparr>ov_expected_version := v\<rparr>) = ov_correlation_id d"
    "as_recovery_command (d\<lparr>ov_expected_version := v\<rparr>) = (as_recovery_command d)\<lparr>vc_expected_version := v\<rparr>"
  by (simp_all add: as_recovery_command_def)

lemma obtain_result_version:
  "obtain_result S registry crash (c\<lparr>vc_expected_version := v\<rparr>) operation request =
   obtain_result S registry crash c operation request"
  unfolding obtain_result_def same_but_version by (rule HOL.refl)

lemma apply_kind_version:
  "apply_verification_kind S registry (c\<lparr>vc_expected_version := v\<rparr>) actor operation result =
   apply_verification_kind S registry c actor operation result"
  unfolding apply_verification_kind_def same_but_version by (rule HOL.refl)

lemma verifying_cycle_version:
  "run_verifying_cycle S registry crash (c\<lparr>vc_expected_version := v\<rparr>) =
   run_verifying_cycle S registry crash c"
proof (rule ext, rule ext)
  show "run_verifying_cycle S registry crash (c\<lparr>vc_expected_version := v\<rparr>) actor operation =
    run_verifying_cycle S registry crash c actor operation" for actor operation
    unfolding run_verifying_cycle_def obtain_result_version apply_kind_version by (rule HOL.refl)
qed

lemma cycle_after_start_version:
  "cycle_after_start S registry crash (c\<lparr>vc_expected_version := v\<rparr>) actor replayed started =
   cycle_after_start S registry crash c actor replayed started"
  unfolding cycle_after_start_def same_but_version verifying_cycle_version by (rule HOL.refl)

lemma start_verification_version:
  "start_operator_verification S registry crash (d\<lparr>ov_expected_version := v\<rparr>) =
   start_operator_verification S registry crash d"
  unfolding start_operator_verification_def same_but_version cycle_after_start_version by (rule HOL.refl)

text \<open>
  The version an operator names is ignored: a verification requested for a stale version of an operation, or for
  a version it never had, does exactly what one for the current version does.
\<close>

lemma requested_version_is_ignored:
  "app_request_verification A identity i v why key c = app_request_verification A identity i v' why key c"
proof -
  have "start_operator_verification S registry None
      \<lparr>ov_operation_id = i, ov_expected_version = v, ov_ids = ids, ov_actor = who, ov_reason_code = reason,
       ov_correlation_id = correlation\<rparr> =
    start_operator_verification S registry None
      \<lparr>ov_operation_id = i, ov_expected_version = v', ov_ids = ids, ov_actor = who, ov_reason_code = reason,
       ov_correlation_id = correlation\<rparr>" for S registry ids who reason correlation
    using start_verification_version [where d = "\<lparr>ov_operation_id = i, ov_expected_version = v', ov_ids = ids,
      ov_actor = who, ov_reason_code = reason, ov_correlation_id = correlation\<rparr>" and v = v] by simp
  then show ?thesis by (simp only: app_request_verification_def)
qed

end
