(* ===== verification/Application_At_Work.thy ===== *)
theory Application_At_Work
  imports Application_Properties Services_At_Work
begin

text \<open>
  The application service at the worked example: its theorems are applied to requests answered over the journal of
  an operation that succeeded.
\<close>

section \<open>An application and its callers\<close>

definition ax_service :: application_service where
  "ax_service = \<lparr>as_surroundings = fx_surroundings, as_uuid5 = id, as_sha256 = fx_sha256,
     as_runtime_registry = fx_registry, as_policy = allow_all_evaluate, as_approvals = None,
     as_recovery = Some fx_registry, as_compensation = Some (fx_registry, 3), as_registry = Some fx_registry,
     as_configured_providers = [''github'']\<rparr>"

lemma ax_others: "others_follow (as_surroundings ax_service)"
  using fx_others by (simp add: ax_service_def)

definition ax_caller :: authenticated_identity where
  "ax_caller = \<lparr>ai_principal = fx_actor, ai_roles = [CALLER]\<rparr>"

definition ax_operator :: authenticated_identity where
  "ax_operator = \<lparr>ai_principal = fx_actor\<lparr>pr_id := ''oscar''\<rparr>, ai_roles = [OPERATOR]\<rparr>"

definition ax_stranger :: authenticated_identity where
  "ax_stranger = \<lparr>ai_principal = fx_actor\<lparr>pr_id := ''mallory''\<rparr>, ai_roles = [CALLER, READER]\<rparr>"

section \<open>Asking for a compensation\<close>

text \<open>The operator's request changes the journal; the same request of a caller is refused.\<close>

definition ax_compensate :: application_request where
  "ax_compensate = CompensateRequest (fx_id CHR ''1'') 4 ''key'' ''wrong issue'' ''c1'' False False"

lemma ax_refused: "set (ai_roles ax_caller) \<inter> roles_for ax_compensate = {}"
  by (simp add: ax_caller_def roles_for_def ax_compensate_def)

theorem requests_never_execute_witness:
  "snd (serve ax_service ax_caller ax_compensate (fx_world fx_j4)) = fx_world fx_j4 \<and>
   later fx_j4 (wd_journal (snd (serve ax_service ax_operator ax_compensate (fx_world fx_j4))))"
  using requests_never_execute [OF ax_others
      prod.collapse [symmetric, of "serve ax_service ax_caller ax_compensate (fx_world fx_j4)"]] ax_refused
    requests_never_execute [OF ax_others
      prod.collapse [symmetric, of "serve ax_service ax_operator ax_compensate (fx_world fx_j4)"]]
  by (simp add: fx_world_def)

section \<open>Reading\<close>

abbreviation ax_read :: "authenticated_identity \<Rightarrow> audit_page app_result fallible \<times> world" where
  "ax_read identity \<equiv> app_audit_page ax_service identity (fx_id CHR ''1'') 2 3 (fx_world fx_j4)"

text \<open>The requester reads the events 3, 4 and 5 and is told of more; a stranger is refused.\<close>

lemma ax_read_page:
  "case fst (ax_read ax_caller) of
     Inr (Inr page) \<Rightarrow> map au_sequence (pg_events page) = [3, 4, 5] \<and> pg_next_after_sequence page = Some 5
   | _ \<Rightarrow> False"
  by code_simp

lemma ax_stranger_refused: "fst (ax_read ax_stranger) = Inr (Inl (AuthorizationError ''operation_read_forbidden''))"
  by code_simp

theorem reads_are_private_witness:
  "\<exists>page w' o'. ax_read ax_caller = (Inr (Inr page), w') \<and> op_get (fx_id CHR ''1'') (wd_journal w') = Some o' \<and>
     pr_id (in_requester (op_intent o')) = ''alice'' \<and> (\<forall>e \<in> set (pg_events page). 2 < au_sequence e)"
proof -
  obtain page w' where read: "ax_read ax_caller = (Inr (Inr page), w')"
    using ax_read_page by (cases "ax_read ax_caller") (auto split: sum.split_asm)
  from reads_are_private [OF read ax_others] show ?thesis
    using read by (auto simp: ax_caller_def fx_actor_def)
qed

abbreviation ax_overview :: "operator_overview app_result fallible \<times> world" where
  "ax_overview \<equiv> app_operator_overview ax_service ax_operator (fx_world fx_j4)"

lemma ax_overview_counts:
  "case fst ax_overview of
     Inr (Inr overview) \<Rightarrow> ow_total_operations overview = 1 \<and> map snd (ow_attention overview) = [0, 0, 0, 0]
   | _ \<Rightarrow> False"
  by code_simp

section \<open>Page by page\<close>

theorem search_pages_enumerate_witness:
  "concat (follow (search_page (default_query\<lparr>oq_limit := 1\<rparr>, fx_j4)) newest_first 2 None) = j_operations fx_j4"
  using search_pages_enumerate [of fx_j4 "default_query\<lparr>oq_limit := 1\<rparr>" 2] reachable_ids [OF fx_reachable(4)]
  by (simp add: default_query_def query_filters_def fx_j4_def)

theorem audit_pages_enumerate_witness:
  "concat (follow (audit_pages_of (fx_id CHR ''1'', 3, fx_j4)) au_sequence 8 None) = j_audit_events fx_j4"
proof -
  have events: "length (j_audit_events fx_j4) = 7" "list_all (\<lambda>e. au_operation_id e = fx_id CHR ''1'') (j_audit_events fx_j4)"
    by code_simp+
  have "filter (\<lambda>e. au_operation_id e = fx_id CHR ''1'') (j_audit_events fx_j4) = j_audit_events fx_j4"
    using events(2) by (simp add: filter_id_conv list_all_iff)
  with audit_pages_enumerate [of fx_j4 3 8 "fx_id CHR ''1''"] fx_reachable(4) events(1) show ?thesis by simp
qed

end
