(* ===== verification/Spec2Isabelle.thy ===== *)
theory Spec2Isabelle
  imports Relay_At_Work Services_At_Work Storage_At_Work Wire_Capability Approval_At_Work Worker_At_Work
    Provider_At_Work Application_At_Work
begin

text \<open>
  Stateback (\<open>src/src/stateback\<close>) makes consequential calls to external providers recoverable. Every
  managed effect is an operation in a PostgreSQL journal; a worker claims it, calls the provider,
  records the evidence, verifies what is uncertain, compensates on request, and never retries
  without a reason to believe that the effect did not happen. This development models the program from the
  application service, which answers callers, through the services, the transition engine (the only writer
  of lifecycle state) and the journal with its rows and wire formats, to the relay, the messages and the
  worker that carry the work, and the reference provider the work is carried out on.

  Theories, in the order of the code they model:

  \<^item> \<open>Prelude\<close>: errors as values of a sum type, the monadic glue of fallible code, ordered checks
    (\<open>first_reason\<close>, \<open>or_else\<close>: the first failing check names the reason, as the early returns of
    the source do), keyed tables as lists in insertion order.
  \<^item> \<open>Enums\<close>, \<open>Json_Values\<close>, \<open>Domain_Records\<close>: \<open>domain/enums.py\<close>, \<open>domain/jsonutil.py\<close>,
    \<open>domain/secrets.py\<close> and the records of \<open>domain/\<close>. A frozen dataclass is a record; what its
    \<open>__post_init__\<close> checks is a \<open>validate_\<close> function returning an error or a unit. Python integers are \<open>int\<close>.
  \<^item> \<open>State_Tables\<close>, \<open>Safety_Decisions\<close>: \<open>domain/transitions.py\<close>, \<open>domain/retry_safety.py\<close>,
    \<open>domain/crash.py\<close>, \<open>domain/approval_binding.py\<close>, \<open>providers/retry.py\<close>. The locale
    \<open>listed_machine\<close> states what a transition table and its judge owe each other; the four tables interpret it.
  \<^item> \<open>Journal\<close>: \<open>persistence/repositories.py\<close> and \<open>persistence/uow.py\<close>. The database is a record of ten
    tables; a repository method is a function from the journal to an error or a new journal, with the
    uniqueness and foreign-key failures the schema raises. The locales \<open>versioned_store\<close>
    (compare-and-swap rows), \<open>fresh_table\<close> (insert-once tables) and \<open>sequenced_log\<close> (the audit log)
    state the laws the engine relies on and are interpreted on these functions.
  \<^item> \<open>Transition_Commands\<close>, \<open>Transition_Preconditions\<close>, \<open>Transition_Engine\<close>: the package
    \<open>transitions/\<close>. The 41 lifecycle commands share a header and differ in their body
    (\<open>op_body\<close>); \<open>apply_operation\<close> is \<open>_apply_operation\<close>, its parts are \<open>load_related\<close>, \<open>check_body\<close>,
    \<open>write_related\<close>, \<open>replace_for_kind\<close>, \<open>append_audits\<close> and \<open>insert_outbox\<close> in the source's order;
    the four compensation-progress handlers, \<open>apply_create\<close> and \<open>escalate_messaging_recovery\<close> follow.
  \<^item> \<open>Engine_Facts\<close>, \<open>Engine_Compensation\<close>: what each of these writes and what it leaves alone.
  \<^item> \<open>Outbox_Relay\<close>: \<open>messaging/relay.py\<close>, and the two evidence writers outside the engine
    (\<open>runtime/attempt.py\<close>, \<open>recovery/persist.py\<close>).
  \<^item> \<open>System_Steps\<close>: the journal as a transition system, one rule per function of the code base that
    writes it; \<open>reachable\<close> journals are those any interleaving of them produces.
  \<^item> \<open>System_Invariants\<close>, \<open>Engine_Properties\<close>, \<open>Evidence\<close>: the properties of the engine and of every
    reachable journal.
  \<^item> \<open>Write_Footprint\<close>, \<open>Durable_History\<close>: every step is a run of seventeen repository writes
    (\<open>wrote\<close>), so what a write never does no history does; the locale \<open>evolving_table\<close> states it for a table
    whose rows only evolve and is interpreted on six of them.
  \<^item> \<open>Operation_Backing\<close>: what stands behind an operation in each state (its attempt, its authorization, its
    queued work), by the locale \<open>backed_state\<close> and its three interpretations.
  \<^item> \<open>Relay_Properties\<close>: delivery, draining and bounded recovery, and what the recovery does not promise.
  \<^item> \<open>Provider_Boundary\<close>, \<open>Intent_Digest\<close>, \<open>Policy_Engine\<close>: the adapter interface, the registry and the
    normalisation of exceptions (\<open>domain/capability.py\<close>, \<open>providers/\<close>); canonical JSON and the intent
    digests (\<open>domain/canonical.py\<close>, \<open>domain/intent.py\<close>); the policy engines (\<open>policy/\<close>). An adapter is a
    record of functions which also see the calls made so far, so any provider state can stand behind them.
  \<^item> \<open>Service_World\<close>: a service interleaves units of work with provider calls and clock readings. It is a
    function on a world (the journal, the calls with the journal each was made at, the counts of clock
    readings and units of work); before each unit of work the surroundings commit any history of system
    steps. \<open>conforms S P n m\<close> says that \<open>m\<close> refines the transition system of \<open>System_Steps\<close> and makes at
    most \<open>n\<close> calls, each satisfying \<open>P\<close> of the journal it was made at; its rules are \<open>service_rules\<close>.
  \<^item> \<open>Runtime_Submit\<close>, \<open>Runtime_Execute\<close>: \<open>runtime/\<close>. \<open>Submit_Properties\<close>, \<open>Runtime_Properties\<close>: a
    submission is gated by policy and calls nobody; an execution calls at most once and only behind
    its committed attempt; and the stale version on which it never returns.
  \<^item> \<open>Reconciliation\<close>, \<open>Recovery_Service\<close>, \<open>Recovery_Properties\<close>: \<open>recovery/\<close>.
  \<^item> \<open>Compensation_Core\<close>, \<open>Compensation_Cycle\<close>, \<open>Compensation_Service\<close>, \<open>Compensation_Properties\<close>:
    \<open>compensation/\<close>. Its \<open>while True\<close> is \<open>cycle_rounds\<close>, one round per step.
  \<^item> \<open>Approval_Service\<close>, \<open>Approval_Properties\<close>: \<open>approval/\<close>, on the same world.
  \<^item> \<open>Wire_Format\<close>, \<open>Wire_Time\<close>, \<open>Wire_Records\<close>, \<open>Wire_Capability\<close>: \<open>domain/wire.py\<close> and every
    \<open>to_wire\<close>/\<open>from_wire\<close> pair of \<open>domain/\<close>, the calendar arithmetic of the timestamps included. The locale
    \<open>wire_format\<close> states what a pair owes its callers (what conforms is parsed back, what is parsed
    conforms, nothing is written as null); every pair interprets it, and a record's proof uses its fields' facts.
  \<^item> \<open>Row_Mapping\<close>, \<open>Row_Storage\<close>: \<open>persistence/mapping.py\<close> and the columns and CHECK constraints of
    \<open>persistence/models.py\<close>; the locale \<open>stored_table\<close>, one interpretation per table. \<open>Wire_Order\<close>: what JSONB
    keeps of a value (not the order of members). \<open>Storage_Properties\<close>: the journal survives the database.
  \<^item> \<open>Json_Text\<close>, \<open>Message_Codec\<close>: \<open>domain/serde.py\<close> and \<open>messaging/codec.py\<close> over a model of Python's
    \<open>json\<close>, \<open>base64\<close> and UTF-8 codecs: work messages and quarantine diagnostics as bytes.
  \<^item> \<open>Work_Handler\<close>, \<open>Work_Properties\<close>: \<open>messaging/worker.py\<close>, \<open>messaging/ids.py\<close> and the consumer of
    \<open>messaging/nats.py\<close>. A message dispatches to the services above with ids derived from it; its properties
    say what redelivery and crashes cannot break, and the payload that is never settled.
  \<^item> \<open>Reference_Store\<close>, \<open>Reference_Effects\<close>, \<open>Reference_Adapter\<close>: \<open>providers/reference/\<close>. A step of the
    adapter is a function on its state that returns or raises, and what it changed stays changed when it
    raises; \<open>reference_run\<close> is its state after any sequence of calls and scripted answers, and
    \<open>reference_provider\<close> the adapter the services can be run against. \<open>Reference_Steps\<close> holds what each step
    keeps (\<open>adapter_rules\<close>), \<open>Reference_Properties\<close> what the provider promises.
  \<^item> \<open>Operation_Search\<close>: the paged reads of \<open>persistence/repositories.py\<close>. The locale \<open>keyset_pages\<close> states the
    contract of a page after a key; the operator's search and the audit trail interpret it.
  \<^item> \<open>Application_Boundary\<close>, \<open>Application_Service\<close>, \<open>Application_Properties\<close>: \<open>application/\<close>, the boundary behind
    the HTTP API: tokens and roles, ids derived from idempotency keys, bounds on untrusted input, and the
    operations callers, approvers and operators may ask for, over the services above.
  \<^item> \<open>Worked_Example\<close>, \<open>Worked_Adapter\<close>, \<open>Theorems_At_Work\<close>, \<open>Relay_At_Work\<close>, \<open>Services_At_Work\<close>,
    \<open>Storage_At_Work\<close>, \<open>Approval_At_Work\<close>, \<open>Worker_At_Work\<close>, \<open>Provider_At_Work\<close>, \<open>Application_At_Work\<close>:
    one operation from creation to compensation, an adapter and a reference provider, computed by the model, at
    which the theorems with an assumption are applied.

  A unit of work is atomic and holds a row lock (\<open>SELECT FOR UPDATE\<close>), so concurrency is the
  interleaving of whole steps; a body that raises is rolled back and is no step. Parameters of the
  model, never defined here: the provider adapters the services call, the publisher and the broker, the clocks,
  message ids, the other processes, SHA-256, and the UUIDv5 function of the standard library's \<open>uuid\<close> module.

  Fuel: the functions of the runtime and of the compensation service that call each other take
  Python's recursion depth; running out of it is the \<open>RecursionError\<close> Python raises, a value of the
  error type. The compensate/verify loop takes a number of rounds; running out of it is the error
  \<open>LoopFuelSpent\<close>, which no code raises. The scanner of JSON text takes twice the text's length and two
  steps, and each of its steps consumes a character or ends a value, so that it never runs out; its nesting is
  Python's recursion depth again. A reader that follows pages takes a bound on their number, and the theorems on it ask only that the bound
  exceeds the number of rows. Every other loop runs over a list or by a measure.

  Approximations: a string is a list of the code points below 256; the age of a row is compared in whole
  microseconds, where the code compares a float of seconds, which is the same below centuries; a search and its
  cursor name instants themselves, not their texts.

  Not modelled: the GitHub adapter (\<open>providers/github/\<close>, HTTP around a service; any adapter stands for it), the HTTP
  API (\<open>api/\<close>), the SDK, the MCP server and the operator pages, semantic assistance, the command line and
  deployment, the engine settings and migrations (DDL; the constraints are modelled where
  \<open>persistence/models.py\<close> declares them) and the mapping of driver exceptions to the errors of the journal
  (\<open>map_db_error\<close>). Of the application service: \<open>semantic_summary\<close>, the texts of cursors and instants, and the
  \<open>to_wire\<close> methods of its answers.
\<close>

end
